(* ===== verification/OJ_Prelude.thy ===== *)
theory OJ_Prelude
  imports Main
begin

text \<open>
  Shared vocabulary of the development: the theorem collections that the component proofs
  feed to the simplifier, the result type of fallible operations, pagination of an ordered
  listing, and the reachability of a step relation together with the interface
  (\<open>invariant_system\<close>) through which every component with an interleaving semantics
  obtains its invariants.
\<close>

named_theorems db_intros \<open>introduction rules for transaction bodies\<close>
named_theorems db_elims \<open>elimination rules for the outcome of a database step\<close>
named_theorems db_quiet \<open>evaluation of statements when no fault is due\<close>
named_theorems db_keeps \<open>rules for invariants of the tables under successful steps\<close>
named_theorems table_simps \<open>unfolding rules of the statements on the tables\<close>
named_theorems text_simps \<open>rewrite rules of the character and string routines\<close>

section \<open>Results\<close>

text \<open>
  A routine of the source that returns \<open>bool\<close>, writes its result through a reference and its
  diagnostic through \<open>std::string &error\<close> becomes a function into \<open>'e + 'a\<close>.
\<close>

definition is_ok :: "'e + 'a \<Rightarrow> bool" where
  "is_ok r = (case r of Inl _ \<Rightarrow> False | Inr _ \<Rightarrow> True)"

lemma is_ok_simps [simp]: "\<not> is_ok (Inl e)" "is_ok (Inr a)"
  by (simp_all add: is_ok_def)

lemma is_okE: "is_ok r \<Longrightarrow> (\<And>a. r = Inr a \<Longrightarrow> P) \<Longrightarrow> P"
  by (cases r) auto

fun res_bind :: "'e + 'a \<Rightarrow> ('a \<Rightarrow> 'e + 'b) \<Rightarrow> 'e + 'b" where
  "res_bind (Inl e) f = Inl e"
| "res_bind (Inr a) f = f a"

lemma res_bind_Inr_iff: "res_bind r f = Inr b \<longleftrightarrow> (\<exists>a. r = Inr a \<and> f a = Inr b)"
  by (cases r) auto

lemma res_bind_Inl_iff:
  "res_bind r f = Inl e \<longleftrightarrow> r = Inl e \<or> (\<exists>a. r = Inr a \<and> f a = Inl e)"
  by (cases r) auto

section \<open>Lists\<close>

lemma takeWhile_dropWhile_rev:
  "rev (dropWhile P (rev xs)) = take (length (dropWhile P (rev xs))) xs"
proof -
  have "rev xs = takeWhile P (rev xs) @ dropWhile P (rev xs)"
    by simp
  then have "xs = rev (dropWhile P (rev xs)) @ rev (takeWhile P (rev xs))"
    by (metis rev_append rev_rev_ident)
  then show ?thesis
    by (metis append_eq_conv_conj length_rev)
qed

lemma dropWhile_idem_last:
  "xs = [] \<or> \<not> P (last xs) \<Longrightarrow> rev (dropWhile P (rev xs)) = xs"
  by (cases xs rule: rev_cases) auto

lemma find_some_set: "List.find P xs = Some x \<Longrightarrow> x \<in> set xs \<and> P x"
  by (auto simp: find_Some_iff)

lemma map_if_id:
  "(\<And>x. x \<in> set xs \<Longrightarrow> \<not> P x) \<Longrightarrow> map (\<lambda>x. if P x then f x else x) xs = xs"
  by (induction xs) auto

section \<open>Pagination\<close>

text \<open>
  Every listing of the service is \<open>ORDER BY ... LIMIT page_size OFFSET (page - 1) * page_size\<close>:
  the page is a window of the fully ordered listing.
\<close>

definition page_of :: "nat \<Rightarrow> nat \<Rightarrow> 'a list \<Rightarrow> 'a list" where
  "page_of page n xs = take n (drop ((page - 1) * n) xs)"

definition total_pages :: "nat \<Rightarrow> nat \<Rightarrow> nat" where
  "total_pages m n = (if m = 0 then 0 else (m + n - 1) div n)"

lemma length_page_of: "length (page_of p n xs) \<le> n"
  by (simp add: page_of_def)

lemma set_page_of: "set (page_of p n xs) \<subseteq> set xs"
  by (auto simp: page_of_def dest: in_set_takeD in_set_dropD)

lemma concat_pages_take:
  "concat (map (\<lambda>p. page_of p n xs) [1..<Suc k]) = take (k * n) xs"
proof (induction k)
  case 0
  show ?case by simp
next
  case (Suc k)
  have "concat (map (\<lambda>p. page_of p n xs) [1..<Suc (Suc k)])
      = take (k * n) xs @ take n (drop (k * n) xs)"
    using Suc.IH by (simp add: page_of_def)
  also have "\<dots> = take (k * n + n) xs"
    by (simp add: take_add)
  finally show ?case by (simp add: add.commute)
qed

lemma total_pages_enough:
  assumes "0 < n"
  shows "m \<le> total_pages m n * n"
proof (cases "m = 0")
  case True
  then show ?thesis by simp
next
  case False
  have "m + n - 1 < ((m + n - 1) div n + 1) * n"
    using assms by (metis dividend_less_div_times mult.commute mult_Suc_right Suc_eq_plus1 add.commute)
  with False assms show ?thesis
    by (simp add: total_pages_def)
qed

text \<open>The pages of a listing, read one after another, are the listing: none lost, none twice.\<close>

lemma concat_all_pages:
  assumes "0 < n"
  shows "concat (map (\<lambda>p. page_of p n xs) [1..<Suc (total_pages (length xs) n)]) = xs"
  unfolding concat_pages_take
  by (rule take_all) (rule total_pages_enough[OF assms])

lemma page_of_beyond:
  assumes "0 < n" and "total_pages (length xs) n < p"
  shows "page_of p n xs = []"
proof -
  have "length xs \<le> total_pages (length xs) n * n"
    by (rule total_pages_enough[OF assms(1)])
  also have "\<dots> \<le> (p - 1) * n"
    using assms(2) by (intro mult_le_mono1) simp
  finally show ?thesis by (simp add: page_of_def)
qed

section \<open>Reachability and invariants\<close>

inductive reachable :: "('s \<Rightarrow> bool) \<Rightarrow> ('s \<Rightarrow> 's \<Rightarrow> bool) \<Rightarrow> 's \<Rightarrow> bool"
  for init :: "'s \<Rightarrow> bool" and step :: "'s \<Rightarrow> 's \<Rightarrow> bool" where
  reachable_init: "init s \<Longrightarrow> reachable init step s"
| reachable_step: "reachable init step s \<Longrightarrow> step s t \<Longrightarrow> reachable init step t"

text \<open>The contract of a component with a step relation: an invariant and that steps keep it.\<close>

locale invariant_system =
  fixes init :: "'s \<Rightarrow> bool"
    and step :: "'s \<Rightarrow> 's \<Rightarrow> bool"
    and inv :: "'s \<Rightarrow> bool"
  assumes inv_init: "init s \<Longrightarrow> inv s"
    and inv_step: "step s t \<Longrightarrow> inv s \<Longrightarrow> inv t"
begin

lemma inv_reachable: "reachable init step s \<Longrightarrow> inv s"
  by (induction rule: reachable.induct) (auto intro: inv_init inv_step)

lemma inv_steps: "step\<^sup>*\<^sup>* s t \<Longrightarrow> inv s \<Longrightarrow> inv t"
  by (induction rule: rtranclp_induct) (auto intro: inv_step)

end

end
