(* ===== verification/OJ_Text.thy ===== *)
theory OJ_Text
  imports OJ_Prelude "HOL-Library.Sublist"
begin

text \<open>
  The parts of the C and C++ standard library that the sources use on \<open>std::string\<close>: character
  classes in the C locale, decimal conversion (\<open>std::to_string\<close>, \<open>std::stol\<close>,
  \<open>std::stoll\<close>), trimming, splitting at a separator, joining and \<open>find\<close>. A
  \<open>std::string\<close> is a list of bytes, hence the type \<open>string\<close>.
\<close>

section \<open>Character classes\<close>

definition isspace :: "char \<Rightarrow> bool" where
  "isspace c = (c = CHR '' '' \<or> c = CHR 0x09 \<or> c = CHR 0x0A \<or> c = CHR 0x0B \<or> c = CHR 0x0C \<or> c = CHR 0x0D)"

definition is_digit :: "char \<Rightarrow> bool" where
  "is_digit c = (48 \<le> (of_char c :: nat) \<and> (of_char c :: nat) \<le> 57)"

definition tolower :: "char \<Rightarrow> char" where
  "tolower c = (if 65 \<le> (of_char c :: nat) \<and> (of_char c :: nat) \<le> 90
     then char_of ((of_char c :: nat) + 32) else c)"

definition toupper :: "char \<Rightarrow> char" where
  "toupper c = (if 97 \<le> (of_char c :: nat) \<and> (of_char c :: nat) \<le> 122
     then char_of ((of_char c :: nat) - 32) else c)"

definition to_lower :: "string \<Rightarrow> string" where
  "to_lower s = map tolower s"

lemma of_char_tolower:
  "(of_char (tolower c) :: nat)
     = (if 65 \<le> (of_char c :: nat) \<and> (of_char c :: nat) \<le> 90 then of_char c + 32 else of_char c)"
  by (simp add: tolower_def)

lemma tolower_idem [simp]: "tolower (tolower c) = tolower c"
  using of_char_tolower[of c] by (auto simp: tolower_def[of "tolower c"])

lemma to_lower_idem [simp]: "to_lower (to_lower s) = to_lower s"
  by (simp add: to_lower_def)

lemma digit_not_space: "is_digit c \<Longrightarrow> \<not> isspace c"
  by (auto simp: is_digit_def isspace_def)

section \<open>Decimal numbers\<close>

definition digit_val :: "char \<Rightarrow> nat" where
  "digit_val c = of_char c - 48"

definition digit_char :: "nat \<Rightarrow> char" where
  "digit_char d = char_of (48 + d)"

definition dec_value :: "string \<Rightarrow> nat" where
  "dec_value s = foldl (\<lambda>v c. v * 10 + digit_val c) 0 s"

fun nat_to_string :: "nat \<Rightarrow> string" where
  "nat_to_string n =
     (if n < 10 then [digit_char n] else nat_to_string (n div 10) @ [digit_char (n mod 10)])"

declare nat_to_string.simps [simp del]

definition int_to_string :: "int \<Rightarrow> string" where
  "int_to_string i = (if i < 0 then CHR ''-'' # nat_to_string (nat (- i)) else nat_to_string (nat i))"

definition int64_max :: int where
  "int64_max = 9223372036854775807"

definition int32_max :: int where
  "int32_max = 2147483647"

text \<open>
  \<open>std::stol\<close> and \<open>std::stoll\<close> on a non-empty string of digits (the callers check that
  first): the value, or the exception \<open>std::out_of_range\<close> (here \<open>None\<close>) past \<open>LONG_MAX\<close>.
\<close>

definition stoll :: "string \<Rightarrow> int option" where
  "stoll s = (if int (dec_value s) \<le> int64_max then Some (int (dec_value s)) else None)"

lemma dec_value_Nil [simp]: "dec_value [] = 0"
  by (simp add: dec_value_def)

lemma dec_value_snoc [simp]: "dec_value (s @ [c]) = dec_value s * 10 + digit_val c"
  by (simp add: dec_value_def)

lemma digit_char_props:
  assumes "d < 10"
  shows "is_digit (digit_char d)" and "digit_val (digit_char d) = d"
  using assms by (simp_all add: is_digit_def digit_char_def digit_val_def)

lemma dec_value_nat_to_string [simp]: "dec_value (nat_to_string n) = n"
proof (induction n rule: nat_to_string.induct)
  case (1 n)
  show ?case
  proof (cases "n < 10")
    case True
    then show ?thesis
      using dec_value_snoc[of "[]" "digit_char n"]
      by (simp add: nat_to_string.simps[of n] digit_char_props)
  next
    case False
    with "1.IH" show ?thesis
      by (simp add: nat_to_string.simps[of n] digit_char_props)
  qed
qed

lemma nat_to_string_digits: "list_all is_digit (nat_to_string n)"
proof (induction n rule: nat_to_string.induct)
  case (1 n)
  then show ?case
    by (cases "n < 10") (simp_all add: nat_to_string.simps[of n] digit_char_props)
qed

lemma nat_to_string_nonempty [simp]: "nat_to_string n \<noteq> []"
  by (subst nat_to_string.simps) simp

lemma length_nat_to_string: "n < 10 ^ Suc k \<Longrightarrow> length (nat_to_string n) \<le> Suc k"
proof (induction k arbitrary: n)
  case 0
  then show ?case by (simp add: nat_to_string.simps[of n])
next
  case (Suc k)
  show ?case
  proof (cases "n < 10")
    case True
    then show ?thesis by (simp add: nat_to_string.simps[of n])
  next
    case False
    have "n div 10 < 10 ^ Suc k"
      using Suc.prems by (simp add: less_mult_imp_div_less mult.commute)
    with False show ?thesis
      using Suc.IH[of "n div 10"] by (simp add: nat_to_string.simps[of n])
  qed
qed

lemma digit_val_le: "is_digit c \<Longrightarrow> digit_val c \<le> 9"
  by (auto simp: is_digit_def digit_val_def)

lemma dec_value_bound: "list_all is_digit s \<Longrightarrow> dec_value s < 10 ^ length s"
proof (induction s rule: rev_induct)
  case Nil
  then show ?case by simp
next
  case (snoc c s)
  then show ?case
    using digit_val_le[of c] by (simp add: list_all_iff)
qed

lemma dec_value_leading_zero: "digit_val c = 0 \<Longrightarrow> dec_value (c # s) = dec_value s"
  by (simp add: dec_value_def)

lemma stoll_nat_to_string [simp]: "stoll (nat_to_string n) = (if int n \<le> int64_max then Some (int n) else None)"
  by (simp add: stoll_def)

section \<open>Trimming, splitting, joining\<close>

text \<open>
  The index loops \<open>while (begin < end && P(s[begin])) ++begin\<close> and
  \<open>while (end > begin && P(s[end - 1])) --end\<close> followed by \<open>substr(begin, end - begin)\<close>.
\<close>

definition rstrip_by :: "(char \<Rightarrow> bool) \<Rightarrow> string \<Rightarrow> string" where
  "rstrip_by P s = rev (dropWhile P (rev s))"

definition trim_by :: "(char \<Rightarrow> bool) \<Rightarrow> string \<Rightarrow> string" where
  "trim_by P s = rstrip_by P (dropWhile P s)"

lemma rstrip_by_Nil [simp]: "rstrip_by P [] = []"
  by (simp add: rstrip_by_def)

lemma rstrip_by_last: "rstrip_by P s \<noteq> [] \<Longrightarrow> \<not> P (last (rstrip_by P s))"
  by (simp add: rstrip_by_def last_rev hd_dropWhile)

lemma rstrip_by_id: "s = [] \<or> \<not> P (last s) \<Longrightarrow> rstrip_by P s = s"
  unfolding rstrip_by_def by (rule dropWhile_idem_last)

lemma rstrip_by_idem [simp]: "rstrip_by P (rstrip_by P s) = rstrip_by P s"
  by (rule rstrip_by_id) (use rstrip_by_last in blast)

lemma prefix_rstrip_by: "prefix (rstrip_by P s) s"
  unfolding rstrip_by_def
  by (metis dropWhile_eq_drop suffix_drop suffix_to_prefix rev_rev_ident)

lemma rstrip_by_append_all: "list_all P t \<Longrightarrow> rstrip_by P (s @ t) = rstrip_by P s"
  by (simp add: rstrip_by_def list_all_iff dropWhile_append)

lemma rstrip_by_snoc: "rstrip_by P (s @ [c]) = (if P c then rstrip_by P s else s @ [c])"
  by (simp add: rstrip_by_def)

lemma rstrip_by_eq_Nil: "rstrip_by P s = [] \<longleftrightarrow> list_all P s"
  by (auto simp: rstrip_by_def list_all_iff)

lemma set_rstrip_by: "set (rstrip_by P s) \<subseteq> set s"
  by (meson prefix_rstrip_by set_mono_prefix)

lemma hd_rstrip_by: "rstrip_by P s \<noteq> [] \<Longrightarrow> hd (rstrip_by P s) = hd s"
  using prefix_rstrip_by[of P s] unfolding prefix_def by (metis hd_append2)

lemma set_trim_by: "set (trim_by P s) \<subseteq> set s"
  unfolding trim_by_def by (meson set_dropWhileD set_rstrip_by subset_iff)

lemma trim_by_ends:
  assumes "trim_by P s \<noteq> []"
  shows "\<not> P (hd (trim_by P s))" and "\<not> P (last (trim_by P s))"
proof -
  have "dropWhile P s \<noteq> []"
    using assms by (metis trim_by_def rstrip_by_Nil)
  then have "\<not> P (hd (dropWhile P s))"
    by (rule hd_dropWhile)
  then show "\<not> P (hd (trim_by P s))"
    using assms by (simp add: trim_by_def hd_rstrip_by)
  show "\<not> P (last (trim_by P s))"
    using assms unfolding trim_by_def by (rule rstrip_by_last)
qed

lemma trim_by_id:
  assumes "s = [] \<or> \<not> P (hd s) \<and> \<not> P (last s)"
  shows "trim_by P s = s"
proof (cases s)
  case Nil
  then show ?thesis by (simp add: trim_by_def)
next
  case (Cons c t)
  with assms show ?thesis by (simp add: trim_by_def rstrip_by_id)
qed

lemma trim_by_idem [simp]: "trim_by P (trim_by P s) = trim_by P s"
  by (rule trim_by_id) (use trim_by_ends in blast)

lemma length_trim_by: "length (trim_by P s) \<le> length s"
  unfolding trim_by_def rstrip_by_def
  by (metis length_dropWhile_le length_rev order_trans)

text \<open>\<open>text.find(sep, pos)\<close> in a loop: the pieces between separators; always at least one.\<close>

fun split_on :: "char \<Rightarrow> string \<Rightarrow> string list" where
  "split_on sep [] = [[]]"
| "split_on sep (c # s) =
     (if c = sep then [] # split_on sep s
      else (case split_on sep s of [] \<Rightarrow> [[c]] | l # ls \<Rightarrow> (c # l) # ls))"

fun join_with :: "char \<Rightarrow> string list \<Rightarrow> string" where
  "join_with sep [] = []"
| "join_with sep [l] = l"
| "join_with sep (l # ls) = l @ sep # join_with sep ls"

lemma split_on_nonempty [simp]: "split_on sep s \<noteq> []"
  by (induction s) (auto split: list.splits)

lemma split_on_no_sep: "l \<in> set (split_on sep s) \<Longrightarrow> sep \<notin> set l"
proof (induction s arbitrary: l)
  case Nil
  then show ?case by simp
next
  case (Cons c s)
  obtain a as where e: "split_on sep s = a # as"
    by (cases "split_on sep s") auto
  have "sep \<notin> set a" and "\<forall>x \<in> set as. sep \<notin> set x"
    using Cons.IH e by auto
  with Cons.prems e show ?case by (auto split: if_splits)
qed

lemma join_with_Cons: "ls \<noteq> [] \<Longrightarrow> join_with sep (l # ls) = l @ sep # join_with sep ls"
  by (cases ls) auto

lemma join_split [simp]: "join_with sep (split_on sep s) = s"
proof (induction s)
  case Nil
  show ?case by simp
next
  case (Cons c s)
  obtain a as where e: "split_on sep s = a # as"
    by (cases "split_on sep s") auto
  then show ?case using Cons.IH by (cases as) (auto simp: join_with_Cons)
qed

lemma split_on_append:
  "sep \<notin> set l \<Longrightarrow> split_on sep (l @ sep # s) = l # split_on sep s"
  by (induction l) auto

lemma split_on_single: "sep \<notin> set l \<Longrightarrow> split_on sep l = [l]"
  by (induction l) auto

lemma split_join:
  "ls \<noteq> [] \<Longrightarrow> (\<And>l. l \<in> set ls \<Longrightarrow> sep \<notin> set l) \<Longrightarrow> split_on sep (join_with sep ls) = ls"
proof (induction ls rule: join_with.induct)
  case (3 sep l v va)
  then show ?case by (simp add: split_on_append)
qed (simp_all add: split_on_single)

section \<open>Substring search\<close>

text \<open>\<open>s.find(needle, pos)\<close>: the first index at or after \<open>pos\<close> where \<open>needle\<close> occurs.\<close>

fun find_sub :: "string \<Rightarrow> string \<Rightarrow> nat option" where
  "find_sub needle [] = (if needle = [] then Some 0 else None)"
| "find_sub needle (c # s) =
     (if prefix needle (c # s) then Some 0 else map_option Suc (find_sub needle s))"

definition find_from :: "string \<Rightarrow> string \<Rightarrow> nat \<Rightarrow> nat option" where
  "find_from needle s pos =
     (if pos \<le> length s then map_option ((+) pos) (find_sub needle (drop pos s)) else None)"

definition contains_sub :: "string \<Rightarrow> string \<Rightarrow> bool" where
  "contains_sub needle s = (find_sub needle s \<noteq> None)"

lemma find_sub_Some:
  "find_sub needle s = Some i \<Longrightarrow> i \<le> length s \<and> prefix needle (drop i s)"
proof (induction s arbitrary: i)
  case Nil
  then show ?case by (simp split: if_splits)
next
  case (Cons c s)
  then show ?case by (auto split: if_splits)
qed

lemma find_sub_before:
  "find_sub needle s = Some i \<Longrightarrow> j < i \<Longrightarrow> \<not> prefix needle (drop j s)"
proof (induction s arbitrary: i j)
  case Nil
  then show ?case by (simp split: if_splits)
next
  case (Cons c s)
  then show ?case by (cases j) (auto split: if_splits)
qed

lemma find_sub_None: "find_sub needle s = None \<longleftrightarrow> \<not> sublist needle s"
proof (induction s)
  case Nil
  show ?case by simp
next
  case (Cons c s)
  then show ?case by (auto simp: sublist_Cons_right)
qed

lemma contains_sub_iff: "contains_sub needle s \<longleftrightarrow> sublist needle s"
  by (simp add: contains_sub_def find_sub_None)

end
