(* ===== verification/OJ_Database.thy ===== *)
theory OJ_Database
  imports OJ_Text
begin

text \<open>
  The database layer (\<open>db/database.h\<close>, \<open>db/database.cpp\<close>, \<open>db/schema.cpp\<close>): the six tables
  with their constraints, one shared SQLite connection with its transaction state, statements that
  may fail, and the \<open>begin / body / rollback or commit\<close> pattern of the stores. The meaning of the
  SQL texts of the sources is written out as functions on the tables; when a statement fails is
  decided by an arbitrary schedule of faults (\<open>db_faults\<close>), one entry per executed statement.
\<close>

section \<open>Tables\<close>

record user_row =
  us_id :: int
  us_account :: string
  us_nickname :: string
  us_password_hash :: string
  us_role :: string
  us_reset_pwd_flag :: int
  us_created_at :: string

record problem_row =
  pb_id :: int
  pb_title :: string
  pb_description :: string
  pb_difficulty :: string
  pb_tags :: string
  pb_time_limit_ms :: int
  pb_memory_limit_kb :: int
  pb_visible :: int
  pb_seed_key :: "string option"
  pb_created_at :: string
  pb_updated_at :: string

record testcase_row =
  ts_id :: int
  ts_problem_id :: int
  ts_ord :: int
  ts_input :: string
  ts_output :: string
  ts_is_sample :: int

record submission_row =
  sb_id :: int
  sb_user_id :: int
  sb_problem_id :: int
  sb_language :: string
  sb_source_code :: string
  sb_status :: string
  sb_per_case :: string
  sb_compile_msg :: string
  sb_runtime_ms :: int
  sb_memory_kb :: int
  sb_created_at :: string

record status_row =
  up_id :: int
  up_user_id :: int
  up_problem_id :: int
  up_status :: string
  up_first_ac_at :: "string option"
  up_submit_count :: int

record in_flight_row =
  fl_id :: int
  fl_task_id :: string
  fl_user_id :: int
  fl_problem_id :: int
  fl_language :: string
  fl_source_code :: string
  fl_submitted_at :: string
  fl_state :: string
  fl_owner :: string
  fl_claimed_at :: "string option"
  fl_reason :: string

text \<open>The rows in the order of their row ids, and the AUTOINCREMENT counters.\<close>

record tables =
  tb_users :: "user_row list"
  tb_problems :: "problem_row list"
  tb_testcases :: "testcase_row list"
  tb_submissions :: "submission_row list"
  tb_statuses :: "status_row list"
  tb_in_flight :: "in_flight_row list"
  tb_users_seq :: int
  tb_problems_seq :: int
  tb_testcases_seq :: int
  tb_submissions_seq :: int
  tb_statuses_seq :: int
  tb_in_flight_seq :: int

definition empty_tables :: tables where
  "empty_tables = \<lparr>tb_users = [], tb_problems = [], tb_testcases = [], tb_submissions = [],
     tb_statuses = [], tb_in_flight = [], tb_users_seq = 0, tb_problems_seq = 0, tb_testcases_seq = 0,
     tb_submissions_seq = 0, tb_statuses_seq = 0, tb_in_flight_seq = 0\<rparr>"

section \<open>Constraints of the schema\<close>

definition user_ids :: "tables \<Rightarrow> int set" where
  "user_ids t = us_id ` set (tb_users t)"

definition problem_ids :: "tables \<Rightarrow> int set" where
  "problem_ids t = pb_id ` set (tb_problems t)"

definition keyed :: "('r \<Rightarrow> int) \<Rightarrow> int \<Rightarrow> 'r list \<Rightarrow> bool" where
  "keyed key n rows = (distinct (map key rows) \<and> (\<forall>r \<in> set rows. 0 < key r \<and> key r \<le> n) \<and> 0 \<le> n)"

definition users_ok :: "tables \<Rightarrow> bool" where
  "users_ok t = (keyed us_id (tb_users_seq t) (tb_users t)
     \<and> distinct (map us_account (tb_users t)) \<and> distinct (map us_nickname (tb_users t))
     \<and> (\<forall>u \<in> set (tb_users t). us_role u = ''admin'' \<or> us_role u = ''user''))"

definition difficulties :: "string list" where
  "difficulties = [''easy'', ''medium'', ''hard'']"

definition problems_ok :: "tables \<Rightarrow> bool" where
  "problems_ok t = (keyed pb_id (tb_problems_seq t) (tb_problems t)
     \<and> distinct (map pb_seed_key (filter (\<lambda>p. pb_seed_key p \<noteq> None) (tb_problems t)))
     \<and> (\<forall>p \<in> set (tb_problems t). pb_difficulty p \<in> set difficulties))"

definition testcases_ok :: "tables \<Rightarrow> bool" where
  "testcases_ok t = (keyed ts_id (tb_testcases_seq t) (tb_testcases t)
     \<and> (\<forall>c \<in> set (tb_testcases t). ts_problem_id c \<in> problem_ids t))"

definition status_names :: "string list" where
  "status_names = [''AC'', ''WA'', ''CE'', ''TLE'', ''RE'', ''MLE'', ''SYSERR'']"

definition submissions_ok :: "tables \<Rightarrow> bool" where
  "submissions_ok t = (keyed sb_id (tb_submissions_seq t) (tb_submissions t)
     \<and> (\<forall>s \<in> set (tb_submissions t). sb_user_id s \<in> user_ids t \<and> sb_problem_id s \<in> problem_ids t
          \<and> sb_status s \<in> set status_names))"

definition statuses_ok :: "tables \<Rightarrow> bool" where
  "statuses_ok t = (keyed up_id (tb_statuses_seq t) (tb_statuses t)
     \<and> distinct (map (\<lambda>r. (up_user_id r, up_problem_id r)) (tb_statuses t))
     \<and> (\<forall>r \<in> set (tb_statuses t). up_user_id r \<in> user_ids t \<and> up_problem_id r \<in> problem_ids t
          \<and> (up_status r = ''accepted'' \<or> up_status r = ''none'')))"

definition in_flight_states :: "string list" where
  "in_flight_states = [''pending'', ''claimed'', ''interrupted'']"

definition in_flight_ok :: "tables \<Rightarrow> bool" where
  "in_flight_ok t = (keyed fl_id (tb_in_flight_seq t) (tb_in_flight t)
     \<and> distinct (map fl_task_id (tb_in_flight t))
     \<and> (\<forall>r \<in> set (tb_in_flight t). fl_user_id r \<in> user_ids t \<and> fl_problem_id r \<in> problem_ids t
          \<and> fl_state r \<in> set in_flight_states))"

definition tables_ok :: "tables \<Rightarrow> bool" where
  "tables_ok t = (users_ok t \<and> problems_ok t \<and> testcases_ok t \<and> submissions_ok t \<and> statuses_ok t
     \<and> in_flight_ok t)"

lemma empty_tables_ok: "tables_ok empty_tables"
  by (simp add: tables_ok_def users_ok_def problems_ok_def testcases_ok_def submissions_ok_def
      statuses_ok_def in_flight_ok_def empty_tables_def keyed_def)

section \<open>Connection, statements, transactions\<close>

text \<open>
  The error of a statement: a violated constraint (with the message of SQLite) or any other
  failure. \<open>UniqueViolation\<close> is the extended code \<open>SQLITE_CONSTRAINT_UNIQUE\<close>.
\<close>

datatype db_error = UniqueViolation string | ConstraintViolation string | DbError string

fun errmsg :: "db_error \<Rightarrow> string" where
  "errmsg (UniqueViolation col) = ''UNIQUE constraint failed: '' @ col"
| "errmsg (ConstraintViolation m) = m"
| "errmsg (DbError m) = m"

text \<open>
  A fault of the environment: the statement fails without effect, or it fails and SQLite rolls the
  open transaction back on its own (full disk, input/output error, out of memory).
\<close>

datatype fault = NoFault | Fail string | FailRollback string

text \<open>
  The connection: the tables as this connection sees them, the state to return to while a
  transaction is open, the faults to come and the value of \<open>datetime('now')\<close>.
\<close>

record db =
  db_cur :: tables
  db_snap :: "tables option"
  db_faults :: "fault list"
  db_now :: string

definition durable :: "db \<Rightarrow> tables" where
  "durable d = (case db_snap d of None \<Rightarrow> db_cur d | Some t \<Rightarrow> t)"

type_synonym ('e, 'a) dbm = "db \<Rightarrow> ('e + 'a) \<times> db"

definition next_fault :: "db \<Rightarrow> fault \<times> db" where
  "next_fault d = (case db_faults d of [] \<Rightarrow> (NoFault, d) | f # fs \<Rightarrow> (f, d\<lparr>db_faults := fs\<rparr>))"

definition undo :: "db \<Rightarrow> db" where
  "undo d = (case db_snap d of None \<Rightarrow> d | Some t \<Rightarrow> d\<lparr>db_cur := t, db_snap := None\<rparr>)"

text \<open>One statement (\<open>prepare\<close>, \<open>bind\<close>, \<open>step\<close>): a function on the tables that may violate a constraint.\<close>

definition sql :: "(tables \<Rightarrow> db_error + ('a \<times> tables)) \<Rightarrow> (db_error, 'a) dbm" where
  "sql f d =
     (case next_fault d of
        (Fail e, d1) \<Rightarrow> (Inl (DbError e), d1)
      | (FailRollback e, d1) \<Rightarrow> (Inl (DbError e), undo d1)
      | (NoFault, d1) \<Rightarrow>
          (case f (db_cur d1) of
             Inl e \<Rightarrow> (Inl e, d1)
           | Inr (a, t) \<Rightarrow> (Inr a, d1\<lparr>db_cur := t\<rparr>)))"

definition db_begin :: "(db_error, unit) dbm" where
  "db_begin d =
     (case next_fault d of
        (NoFault, d1) \<Rightarrow>
          (if db_snap d1 = None then (Inr (), d1\<lparr>db_snap := Some (db_cur d1)\<rparr>)
           else (Inl (DbError ''cannot start a transaction within a transaction''), d1))
      | (Fail e, d1) \<Rightarrow> (Inl (DbError e), d1)
      | (FailRollback e, d1) \<Rightarrow> (Inl (DbError e), undo d1))"

definition db_commit :: "(db_error, unit) dbm" where
  "db_commit d =
     (case next_fault d of
        (NoFault, d1) \<Rightarrow>
          (if db_snap d1 = None then (Inl (DbError ''cannot commit - no transaction is active''), d1)
           else (Inr (), d1\<lparr>db_snap := None\<rparr>))
      | (Fail e, d1) \<Rightarrow> (Inl (DbError e), d1)
      | (FailRollback e, d1) \<Rightarrow> (Inl (DbError e), undo d1))"

definition db_rollback :: "(db_error, unit) dbm" where
  "db_rollback d =
     (if db_snap d = None then (Inl (DbError ''cannot rollback - no transaction is active''), d)
      else (Inr (), undo d))"

definition rollback_quiet :: "db \<Rightarrow> db" where
  "rollback_quiet d = snd (db_rollback d)"

definition db_ret :: "'a \<Rightarrow> ('e, 'a) dbm" where
  "db_ret a d = (Inr a, d)"

definition db_fail :: "'e \<Rightarrow> ('e, 'a) dbm" where
  "db_fail e d = (Inl e, d)"

definition db_bind :: "('e, 'a) dbm \<Rightarrow> ('a \<Rightarrow> ('e, 'b) dbm) \<Rightarrow> ('e, 'b) dbm" where
  "db_bind m f d = (case m d of (Inl e, d1) \<Rightarrow> (Inl e, d1) | (Inr a, d1) \<Rightarrow> f a d1)"

definition db_map_error :: "('e \<Rightarrow> 'f) \<Rightarrow> ('e, 'a) dbm \<Rightarrow> ('f, 'a) dbm" where
  "db_map_error g m d = (case m d of (Inl e, d1) \<Rightarrow> (Inl (g e), d1) | (Inr a, d1) \<Rightarrow> (Inr a, d1))"

text \<open>A failed \<open>INSERT ... RETURNING\<close> is examined by its caller: failure as a value.\<close>

definition db_try :: "('e, 'a) dbm \<Rightarrow> ('f, 'e + 'a) dbm" where
  "db_try m d = (case m d of (r, d1) \<Rightarrow> (Inr r, d1))"

text \<open>
  \<open>run_in_transaction\<close>, and the same pattern written out in every store: a failing body or
  commit is followed by a rollback whose own error is ignored.
\<close>

definition with_txn :: "(db_error \<Rightarrow> 'e) \<Rightarrow> ('e, 'a) dbm \<Rightarrow> ('e, 'a) dbm" where
  "with_txn err body d =
     (case db_begin d of
        (Inl e, d1) \<Rightarrow> (Inl (err e), d1)
      | (Inr _, d1) \<Rightarrow>
          (case body d1 of
             (Inl e, d2) \<Rightarrow> (Inl e, rollback_quiet d2)
           | (Inr a, d2) \<Rightarrow>
               (case db_commit d2 of
                  (Inl e, d3) \<Rightarrow> (Inl (err e), rollback_quiet d3)
                | (Inr _, d3) \<Rightarrow> (Inr a, d3))))"

text \<open>Statements that only read.\<close>

definition sql_read :: "(tables \<Rightarrow> 'a) \<Rightarrow> (db_error, 'a) dbm" where
  "sql_read g = sql (\<lambda>t. Inr (g t, t))"

definition sql_write :: "(tables \<Rightarrow> tables) \<Rightarrow> (db_error, unit) dbm" where
  "sql_write g = sql (\<lambda>t. Inr ((), g t))"

text \<open>\<open>Statement::column_text\<close> reads a C string: the bytes up to the first NUL.\<close>

definition column_text :: "string \<Rightarrow> string" where
  "column_text s = takeWhile (\<lambda>c. c \<noteq> CHR 0x00) s"

lemma column_text_id: "CHR 0x00 \<notin> set s \<Longrightarrow> column_text s = s"
  by (auto simp: column_text_def takeWhile_eq_all_conv)

section \<open>Rules\<close>

lemma next_faultE:
  obtains f d1 where "next_fault d = (f, d1)" "db_cur d1 = db_cur d" "db_snap d1 = db_snap d"
    "db_now d1 = db_now d"
  by (cases "db_faults d") (auto simp: next_fault_def)

lemma sql_Inr:
  assumes "sql f d = (Inr a, d')"
  shows "f (db_cur d) = Inr (a, db_cur d')" "db_snap d' = db_snap d" "db_now d' = db_now d"
proof -
  obtain x d1 where x: "next_fault d = (x, d1)" "db_cur d1 = db_cur d" "db_snap d1 = db_snap d"
      "db_now d1 = db_now d"
    by (rule next_faultE)
  with assms obtain t where "f (db_cur d) = Inr (a, t)" "d' = d1\<lparr>db_cur := t\<rparr>"
    by (cases x; cases "f (db_cur d)") (auto simp: sql_def)
  with x show "f (db_cur d) = Inr (a, db_cur d')" "db_snap d' = db_snap d" "db_now d' = db_now d"
    by simp_all
qed

lemma sql_InrE [db_elims]:
  assumes "sql f d = (Inr a, d')"
  obtains "f (db_cur d) = Inr (a, db_cur d')" "db_snap d' = db_snap d" "db_now d' = db_now d"
  using that[OF sql_Inr[OF assms]] .

lemma db_begin_Inr:
  assumes "db_begin d = (Inr u, d1)"
  shows "db_snap d = None" "db_cur d1 = db_cur d" "db_snap d1 = Some (db_cur d)" "db_now d1 = db_now d"
proof -
  obtain x d0 where x: "next_fault d = (x, d0)" "db_cur d0 = db_cur d" "db_snap d0 = db_snap d"
      "db_now d0 = db_now d"
    by (rule next_faultE)
  with assms have "x = NoFault" "db_snap d = None" "d1 = d0\<lparr>db_snap := Some (db_cur d)\<rparr>"
    by (cases x; auto simp: db_begin_def split: if_splits)+
  with x show "db_snap d = None" "db_cur d1 = db_cur d" "db_snap d1 = Some (db_cur d)" "db_now d1 = db_now d"
    by simp_all
qed

lemma db_begin_Inl:
  assumes "db_begin d = (Inl e, d1)" and "db_snap d = None"
  shows "db_cur d1 = db_cur d" "db_snap d1 = None"
proof -
  obtain x d0 where x: "next_fault d = (x, d0)" "db_cur d0 = db_cur d" "db_snap d0 = db_snap d"
      "db_now d0 = db_now d"
    by (rule next_faultE)
  with assms show "db_cur d1 = db_cur d" "db_snap d1 = None"
    by (cases x; auto simp: db_begin_def undo_def)+
qed

lemma db_commit_Inr:
  assumes "db_commit d = (Inr u, d1)"
  shows "db_cur d1 = db_cur d" "db_snap d1 = None"
proof -
  obtain x d0 where x: "next_fault d = (x, d0)" "db_cur d0 = db_cur d" "db_snap d0 = db_snap d"
      "db_now d0 = db_now d"
    by (rule next_faultE)
  with assms show "db_cur d1 = db_cur d" "db_snap d1 = None"
    by (cases x; auto simp: db_commit_def split: if_splits)+
qed

lemma db_commit_Inl:
  assumes "db_commit d = (Inl e, d1)"
  shows "durable d1 = durable d"
proof -
  obtain x d0 where x: "next_fault d = (x, d0)" "db_cur d0 = db_cur d" "db_snap d0 = db_snap d"
      "db_now d0 = db_now d"
    by (rule next_faultE)
  with assms show ?thesis
    by (cases x) (auto simp: db_commit_def undo_def durable_def split: if_splits option.splits)
qed

lemma sql_read_InrE [db_elims]:
  assumes "sql_read g d = (Inr a, d')"
  obtains "a = g (db_cur d)" "db_cur d' = db_cur d" "db_snap d' = db_snap d" "db_now d' = db_now d"
proof -
  note s = sql_Inr[OF assms[unfolded sql_read_def]]
  from s(1) have "(g (db_cur d), db_cur d) = (a, db_cur d')"
    by (rule Inr_inject)
  then have e: "g (db_cur d) = a \<and> db_cur d = db_cur d'"
    unfolding prod.inject .
  have "a = g (db_cur d)" "db_cur d' = db_cur d"
    using e by metis+
  from that[OF this s(2,3)] show thesis .
qed

lemma sql_write_InrE [db_elims]:
  assumes "sql_write g d = (Inr a, d')"
  obtains "db_cur d' = g (db_cur d)" "db_snap d' = db_snap d" "db_now d' = db_now d"
proof -
  note s = sql_Inr[OF assms[unfolded sql_write_def]]
  from s(1) have "((), g (db_cur d)) = (a, db_cur d')"
    by (rule Inr_inject)
  then have "db_cur d' = g (db_cur d)" by simp
  from that[OF this s(2,3)] show thesis .
qed

lemma db_bind_InrE [db_elims]:
  assumes "db_bind m f d = (Inr b, d')"
  obtains a d1 where "m d = (Inr a, d1)" "f a d1 = (Inr b, d')"
  using assms by (auto simp: db_bind_def split: prod.splits sum.splits)

lemma db_map_error_InrE [db_elims]:
  assumes "db_map_error g m d = (Inr a, d')"
  obtains "m d = (Inr a, d')"
  using assms by (auto simp: db_map_error_def split: prod.splits sum.splits)

lemma db_ret_InrE [db_elims]:
  assumes "db_ret a d = (Inr b, d')"
  obtains "b = a" "d' = d"
  using assms by (auto simp: db_ret_def)

lemma db_fail_InrE [db_elims]: "db_fail e d = (Inr b, d') \<Longrightarrow> P"
  by (simp add: db_fail_def)

lemma db_tryE [db_elims]:
  assumes "db_try m d = (Inr r, d')"
  obtains "m d = (r, d')"
  using assms by (auto simp: db_try_def split: prod.splits)

text \<open>
  The body of a transaction: it neither begins nor ends one; when SQLite rolls back on its own, the
  body stops with an error and the tables are those of the start.
\<close>

definition txn_body :: "('e, 'a) dbm \<Rightarrow> bool" where
  "txn_body m = (\<forall>d s r d'. db_snap d = Some s \<longrightarrow> m d = (r, d') \<longrightarrow>
     db_snap d' = Some s \<or> (db_snap d' = None \<and> db_cur d' = s \<and> \<not> is_ok r))"

lemma txn_bodyD:
  "txn_body m \<Longrightarrow> m d = (r, d') \<Longrightarrow> db_snap d = Some s \<Longrightarrow>
     db_snap d' = Some s \<or> (db_snap d' = None \<and> db_cur d' = s \<and> \<not> is_ok r)"
  unfolding txn_body_def by blast

lemma txn_body_sql [db_intros]: "txn_body (sql f)"
  unfolding txn_body_def
proof (intro allI impI)
  fix d s r d'
  assume d: "db_snap d = Some s" and r: "sql f d = (r, d')"
  obtain x d1 where x: "next_fault d = (x, d1)" "db_cur d1 = db_cur d" "db_snap d1 = db_snap d"
      "db_now d1 = db_now d"
    by (rule next_faultE)
  with d r show "db_snap d' = Some s \<or> (db_snap d' = None \<and> db_cur d' = s \<and> \<not> is_ok r)"
    by (cases x; cases "f (db_cur d)") (auto simp: sql_def undo_def)
qed

lemma txn_body_read [db_intros]: "txn_body (sql_read g)"
  unfolding sql_read_def by (rule txn_body_sql)

lemma txn_body_write [db_intros]: "txn_body (sql_write g)"
  unfolding sql_write_def by (rule txn_body_sql)

lemma txn_body_ret [db_intros]: "txn_body (db_ret a)"
  by (simp add: txn_body_def db_ret_def)

lemma txn_body_fail [db_intros]: "txn_body (db_fail e)"
  by (simp add: txn_body_def db_fail_def)

lemma txn_body_bind [db_intros]:
  assumes "txn_body m" and "\<And>a. txn_body (f a)"
  shows "txn_body (db_bind m f)"
  unfolding txn_body_def
proof (intro allI impI)
  fix d s r d'
  assume d: "db_snap d = Some s" and b: "db_bind m f d = (r, d')"
  obtain r1 d1 where m: "m d = (r1, d1)" by force
  show "db_snap d' = Some s \<or> (db_snap d' = None \<and> db_cur d' = s \<and> \<not> is_ok r)"
  proof (cases r1)
    case (Inl e)
    with b m txn_bodyD[OF assms(1) m d] show ?thesis by (auto simp: db_bind_def)
  next
    case (Inr a)
    then have "db_snap d1 = Some s" using txn_bodyD[OF assms(1) m d] by simp
    moreover have "f a d1 = (r, d')" using b m Inr by (simp add: db_bind_def)
    ultimately show ?thesis using txn_bodyD[OF assms(2)] by blast
  qed
qed

lemma txn_body_map_error [db_intros]: "txn_body m \<Longrightarrow> txn_body (db_map_error g m)"
  unfolding txn_body_def db_map_error_def
  by (fastforce split: prod.splits sum.splits)

lemma txn_body_if [db_intros]: "txn_body m \<Longrightarrow> txn_body k \<Longrightarrow> txn_body (if b then m else k)"
  by simp

lemma txn_body_case_option [db_intros]:
  "txn_body m \<Longrightarrow> (\<And>a. txn_body (f a)) \<Longrightarrow> txn_body (case x of None \<Rightarrow> m | Some a \<Rightarrow> f a)"
  by (cases x) auto

lemma rollback_quiet_closed [simp]: "db_snap (rollback_quiet d) = None"
  by (auto simp: rollback_quiet_def db_rollback_def undo_def split: option.splits)

lemma rollback_quiet_cur: "db_cur (rollback_quiet d) = durable d"
  by (auto simp: rollback_quiet_def db_rollback_def undo_def durable_def split: option.splits)

text \<open>
  The transaction as a whole: on success its effect is that of the body and nothing else; on
  failure the tables are unchanged; no transaction is left open.
\<close>

lemma with_txn_Inr:
  assumes "with_txn err body d = (Inr a, d')"
  obtains d1 d2 where "db_cur d1 = db_cur d" "db_snap d1 = Some (db_cur d)" "db_now d1 = db_now d"
    "body d1 = (Inr a, d2)" "db_cur d' = db_cur d2" "db_snap d' = None"
proof -
  from assms obtain u d1 d2 v where b: "db_begin d = (Inr u, d1)" and d2: "body d1 = (Inr a, d2)"
      and c: "db_commit d2 = (Inr v, d')"
    by (auto simp: with_txn_def split: prod.splits sum.splits)
  from that[OF db_begin_Inr(2-4)[OF b] d2 db_commit_Inr[OF c]] show thesis .
qed

lemma with_txn_Inl:
  assumes "txn_body body" and "db_snap d = None" and "with_txn err body d = (Inl e, d')"
  shows "db_cur d' = db_cur d"
proof -
  from assms(3) consider
      (no_begin) e' where "db_begin d = (Inl e', d')"
    | (no_body) u d1 d2 where "db_begin d = (Inr u, d1)" "body d1 = (Inl e, d2)" "d' = rollback_quiet d2"
    | (no_commit) u d1 a d2 e' d3 where "db_begin d = (Inr u, d1)" "body d1 = (Inr a, d2)"
        "db_commit d2 = (Inl e', d3)" "d' = rollback_quiet d3"
    by (auto simp: with_txn_def split: prod.splits sum.splits)
  then show ?thesis
  proof cases
    case no_begin
    then show ?thesis using db_begin_Inl assms(2) by blast
  next
    case no_body
    then show ?thesis
      using txn_bodyD[OF assms(1) no_body(2) db_begin_Inr(3)[OF no_body(1)]]
      by (auto simp: rollback_quiet_cur durable_def)
  next
    case no_commit
    then have "durable d3 = durable d2" using db_commit_Inl by blast
    moreover have "db_snap d2 = Some (db_cur d)"
      using txn_bodyD[OF assms(1) no_commit(2) db_begin_Inr(3)[OF no_commit(1)]] by simp
    ultimately show ?thesis using no_commit(4) by (simp add: rollback_quiet_cur durable_def)
  qed
qed

lemma with_txn_closed:
  assumes "db_snap d = None"
  shows "db_snap (snd (with_txn err body d)) = None"
proof -
  obtain x d1 where b: "db_begin d = (x, d1)" by force
  obtain r d2 where r: "body d1 = (r, d2)" by force
  obtain c d3 where c: "db_commit d2 = (c, d3)" by force
  have "x = Inl e \<Longrightarrow> db_snap d1 = None" for e using db_begin_Inl(2)[OF _ assms] b by blast
  moreover have "c = Inr v \<Longrightarrow> db_snap d3 = None" for v using db_commit_Inr(2) c by blast
  ultimately show ?thesis
    by (auto simp: with_txn_def b r c split: sum.splits)
qed

section \<open>Contracts of store operations\<close>

text \<open>
  What a caller relies on: an operation leaves no transaction open and, when it reports a failure,
  has changed nothing. Both hold under every schedule of faults.
\<close>

locale transactional =
  fixes run :: "('e, 'a) dbm"
  assumes closed: "db_snap d = None \<Longrightarrow> db_snap (snd (run d)) = None"
    and atomic: "db_snap d = None \<Longrightarrow> run d = (Inl e, d') \<Longrightarrow> db_cur d' = db_cur d"
begin

lemma failed_durable:
  assumes "db_snap d = None" and "\<not> is_ok (fst (run d))"
  shows "durable (snd (run d)) = durable d"
proof -
  obtain r d' where r: "run d = (r, d')" by force
  then obtain e where "r = Inl e" using assms(2) by (cases r) auto
  with r atomic[OF assms(1)] closed[OF assms(1)] assms(1) show ?thesis
    by (simp add: durable_def)
qed

end

text \<open>An operation that in addition keeps an invariant of the tables.\<close>

locale store_operation = transactional run
  for run :: "('e, 'a) dbm" +
  fixes inv :: "tables \<Rightarrow> bool"
  assumes keeps: "db_snap d = None \<Longrightarrow> run d = (Inr a, d') \<Longrightarrow> inv (db_cur d) \<Longrightarrow> inv (db_cur d')"
begin

lemma inv_durable:
  assumes "db_snap d = None" and "inv (durable d)"
  shows "inv (durable (snd (run d)))"
proof -
  obtain r d' where r: "run d = (r, d')" by force
  show ?thesis
  proof (cases r)
    case (Inl e)
    with r assms failed_durable[OF assms(1)] show ?thesis by simp
  next
    case (Inr a)
    with r assms keeps[OF assms(1)] closed[OF assms(1)] show ?thesis by (simp add: durable_def)
  qed
qed

end

lemma store_operationI:
  assumes "transactional run"
    and "\<And>d a d'. db_snap d = None \<Longrightarrow> run d = (Inr a, d') \<Longrightarrow> I (db_cur d) \<Longrightarrow> I (db_cur d')"
  shows "store_operation run I"
  using assms unfolding store_operation_def store_operation_axioms_def by blast

lemma store_operation_txnI:
  assumes "txn_body body"
    and "\<And>d a d'. body d = (Inr a, d') \<Longrightarrow> I (db_cur d) \<Longrightarrow> I (db_cur d')"
  shows "store_operation (with_txn err body) I"
proof (rule store_operationI)
  show "transactional (with_txn err body)"
    by unfold_locales (auto simp: with_txn_closed dest: with_txn_Inl[OF assms(1)])
  show "I (db_cur d')" if "with_txn err body d = (Inr a, d')" "I (db_cur d)" for d a d'
    using that(1) by (rule with_txn_Inr) (use assms(2) that(2) in metis)
qed

lemma transactional_with_txn [intro]: "txn_body body \<Longrightarrow> transactional (with_txn err body)"
  by unfold_locales (auto simp: with_txn_closed dest: with_txn_Inl)

lemma sql_closed: "db_snap d = None \<Longrightarrow> db_snap (snd (sql f d)) = None"
  and sql_atomic: "db_snap d = None \<Longrightarrow> sql f d = (Inl e, d') \<Longrightarrow> db_cur d' = db_cur d"
proof -
  obtain x d1 where x: "next_fault d = (x, d1)" "db_cur d1 = db_cur d" "db_snap d1 = db_snap d"
      "db_now d1 = db_now d"
    by (rule next_faultE)
  then show "db_snap d = None \<Longrightarrow> db_snap (snd (sql f d)) = None"
    by (cases x; cases "f (db_cur d)") (auto simp: sql_def undo_def)
  show "db_snap d = None \<Longrightarrow> sql f d = (Inl e, d') \<Longrightarrow> db_cur d' = db_cur d"
    using x by (cases x; cases "f (db_cur d)") (auto simp: sql_def undo_def)
qed

lemma transactional_sql [intro]: "transactional (sql f)"
  by unfold_locales (auto simp: sql_closed dest: sql_atomic)

text \<open>Statements that use \<open>datetime('now')\<close>.\<close>

definition sql_at :: "(string \<Rightarrow> tables \<Rightarrow> db_error + ('a \<times> tables)) \<Rightarrow> (db_error, 'a) dbm" where
  "sql_at f d = sql (f (db_now d)) d"

lemma sql_at_InrE [db_elims]:
  assumes "sql_at f d = (Inr a, d')"
  obtains "f (db_now d) (db_cur d) = Inr (a, db_cur d')" "db_snap d' = db_snap d" "db_now d' = db_now d"
  using assms unfolding sql_at_def by (rule sql_InrE)

lemma txn_body_sql_at [db_intros]: "txn_body (sql_at f)"
  using txn_body_sql unfolding txn_body_def sql_at_def by blast

lemma transactional_sql_at [intro]: "transactional (sql_at f)"
  by unfold_locales (auto simp: sql_at_def sql_closed dest: sql_atomic)

lemma transactional_map_error [intro]:
  assumes "transactional m"
  shows "transactional (db_map_error g m)"
proof
  fix d :: db
  assume d: "db_snap d = None"
  show "db_snap (snd (db_map_error g m d)) = None"
    using transactional.closed[OF assms d] by (auto simp: db_map_error_def split: prod.splits sum.splits)
  show "db_map_error g m d = (Inl e, d') \<Longrightarrow> db_cur d' = db_cur d" for e d'
    using transactional.atomic[OF assms d] by (auto simp: db_map_error_def split: prod.splits sum.splits)
qed

text \<open>The window \<open>LIMIT ? OFFSET ?\<close>; a negative limit is no limit, a negative offset is 0.\<close>

definition limit_offset :: "int \<Rightarrow> int \<Rightarrow> 'r list \<Rightarrow> 'r list" where
  "limit_offset limit offset rows =
     (if limit < 0 then drop (nat offset) rows else take (nat limit) (drop (nat offset) rows))"

lemma limit_offset_page:
  assumes "1 \<le> page" and "0 < n"
  shows "limit_offset n ((page - 1) * n) rows = page_of (nat page) (nat n) rows"
proof -
  have "nat ((page - 1) * n) = (nat page - 1) * nat n"
    using assms by (simp add: nat_mult_distrib nat_diff_distrib)
  then show ?thesis using assms by (simp add: limit_offset_def page_of_def)
qed

lemma keyed_append:
  "keyed key n rows \<Longrightarrow> key r = n + 1 \<Longrightarrow> keyed key (n + 1) (rows @ [r])"
  by (fastforce simp: keyed_def)

lemma keyed_filter: "keyed key n rows \<Longrightarrow> keyed key n (filter P rows)"
  by (auto simp: keyed_def distinct_map_filter)

lemma keyed_map:
  "keyed key n rows \<Longrightarrow> (\<And>r. key (f r) = key r) \<Longrightarrow> keyed key n (map f rows)"
  by (auto simp: keyed_def comp_def)

section \<open>Invariants of successful steps\<close>

text \<open>
  \<open>keeps I m\<close>: when \<open>m\<close> succeeds, the tables satisfy \<open>I\<close> afterwards if they did before. The rules
  follow the structure of an operation down to its statements.
\<close>

definition keeps :: "(tables \<Rightarrow> bool) \<Rightarrow> ('e, 'a) dbm \<Rightarrow> bool" where
  "keeps I m = (\<forall>d a d'. m d = (Inr a, d') \<longrightarrow> I (db_cur d) \<longrightarrow> I (db_cur d'))"

lemma keepsD: "keeps I m \<Longrightarrow> m d = (Inr a, d') \<Longrightarrow> I (db_cur d) \<Longrightarrow> I (db_cur d')"
  unfolding keeps_def by blast

lemma keeps_sql: "(\<And>t a t'. f t = Inr (a, t') \<Longrightarrow> I t \<Longrightarrow> I t') \<Longrightarrow> keeps I (sql f)"
  unfolding keeps_def by (blast elim: sql_InrE)

lemma keeps_sql_at: "(\<And>now t a t'. f now t = Inr (a, t') \<Longrightarrow> I t \<Longrightarrow> I t') \<Longrightarrow> keeps I (sql_at f)"
  unfolding keeps_def by (blast elim: sql_at_InrE)

lemma keeps_write: "(\<And>t. I t \<Longrightarrow> I (g t)) \<Longrightarrow> keeps I (sql_write g)"
  unfolding sql_write_def by (rule keeps_sql) auto

lemma keeps_read [db_keeps]: "keeps I (sql_read g)"
  unfolding sql_read_def by (rule keeps_sql) auto

lemma keeps_ret [db_keeps]: "keeps I (db_ret a)"
  by (simp add: keeps_def db_ret_def)

lemma keeps_fail [db_keeps]: "keeps I (db_fail e)"
  by (simp add: keeps_def db_fail_def)

lemma keeps_bind [db_keeps]: "keeps I m \<Longrightarrow> (\<And>a. keeps I (f a)) \<Longrightarrow> keeps I (db_bind m f)"
  unfolding keeps_def by (blast elim: db_bind_InrE)

lemma keeps_map_error [db_keeps]: "keeps I m \<Longrightarrow> keeps I (db_map_error g m)"
  unfolding keeps_def by (blast elim: db_map_error_InrE)

lemma keeps_if [db_keeps]: "keeps I m \<Longrightarrow> keeps I k \<Longrightarrow> keeps I (if b then m else k)"
  by simp

lemma keeps_case_option [db_keeps]:
  "keeps I m \<Longrightarrow> (\<And>a. keeps I (f a)) \<Longrightarrow> keeps I (case x of None \<Rightarrow> m | Some a \<Rightarrow> f a)"
  by (cases x) auto

lemma keeps_case_prod [db_keeps]: "(\<And>a b. keeps I (f a b)) \<Longrightarrow> keeps I (case p of (a, b) \<Rightarrow> f a b)"
  by (cases p) auto

lemma txn_body_case_prod [db_intros]: "(\<And>a b. txn_body (f a b)) \<Longrightarrow> txn_body (case p of (a, b) \<Rightarrow> f a b)"
  by (cases p) auto

lemma store_operation_keepsI:
  "txn_body body \<Longrightarrow> keeps I body \<Longrightarrow> store_operation (with_txn err body) I"
  by (rule store_operation_txnI) (auto dest: keepsD)

lemma keeps_with_txn [db_keeps]: "keeps I body \<Longrightarrow> keeps I (with_txn err body)"
  unfolding keeps_def by (metis with_txn_Inr)

section \<open>Evaluation without faults\<close>

lemma sql_quiet [db_quiet]:
  "db_faults d = [] \<Longrightarrow> sql f d = (case f (db_cur d) of Inl e \<Rightarrow> (Inl e, d) | Inr (a, t) \<Rightarrow> (Inr a, d\<lparr>db_cur := t\<rparr>))"
  by (simp add: sql_def next_fault_def)

lemma sql_at_quiet [db_quiet]:
  "db_faults d = [] \<Longrightarrow> sql_at f d =
     (case f (db_now d) (db_cur d) of Inl e \<Rightarrow> (Inl e, d) | Inr (a, t) \<Rightarrow> (Inr a, d\<lparr>db_cur := t\<rparr>))"
  by (simp add: sql_at_def sql_quiet)

lemma sql_read_quiet [db_quiet]: "db_faults d = [] \<Longrightarrow> sql_read g d = (Inr (g (db_cur d)), d)"
  by (simp add: sql_read_def sql_quiet)

lemma sql_write_quiet [db_quiet]: "db_faults d = [] \<Longrightarrow> sql_write g d = (Inr (), d\<lparr>db_cur := g (db_cur d)\<rparr>)"
  by (simp add: sql_write_def sql_quiet)

lemma db_bind_eq [db_quiet]: "db_bind m f d = (case m d of (Inl e, d1) \<Rightarrow> (Inl e, d1) | (Inr a, d1) \<Rightarrow> f a d1)"
  by (simp add: db_bind_def)

lemma db_map_error_eq [db_quiet]:
  "db_map_error g m d = (case m d of (Inl e, d1) \<Rightarrow> (Inl (g e), d1) | (Inr a, d1) \<Rightarrow> (Inr a, d1))"
  by (simp add: db_map_error_def)

lemmas db_values [db_quiet] = db_ret_def db_fail_def db_try_def

lemma with_txn_quiet:
  assumes "db_faults d = []" and "db_snap d = None" and "body (d\<lparr>db_snap := Some (db_cur d)\<rparr>) = (Inr a, d2)"
    and "db_faults d2 = []" and "db_snap d2 \<noteq> None"
  shows "with_txn err body d = (Inr a, d2\<lparr>db_snap := None\<rparr>)"
  using assms by (simp add: with_txn_def db_begin_def db_commit_def next_fault_def)

lemma with_txn_quiet_fail:
  assumes "db_faults d = []" and "db_snap d = None" and "body (d\<lparr>db_snap := Some (db_cur d)\<rparr>) = (Inl e, d2)"
  shows "with_txn err body d = (Inl e, rollback_quiet d2)"
  using assms by (simp add: with_txn_def db_begin_def next_fault_def)

lemma with_txn_quiet_result:
  assumes "db_faults d = []" and "db_snap d = None"
    and "db_faults (snd (body (d\<lparr>db_snap := Some (db_cur d)\<rparr>))) = []"
    and "db_snap (snd (body (d\<lparr>db_snap := Some (db_cur d)\<rparr>))) \<noteq> None"
  shows "fst (with_txn err body d) = fst (body (d\<lparr>db_snap := Some (db_cur d)\<rparr>))"
proof -
  obtain r d2 where b: "body (d\<lparr>db_snap := Some (db_cur d)\<rparr>) = (r, d2)" by force
  show ?thesis
  proof (cases r)
    case (Inl e)
    show ?thesis using with_txn_quiet_fail[of d body e d2 err] assms(1,2) b Inl by simp
  next
    case (Inr a)
    show ?thesis using with_txn_quiet[of d body a d2 err] assms b Inr by simp
  qed
qed

section \<open>Computations made of store operations\<close>

text \<open>
  A computation that, started outside a transaction, keeps an invariant of the tables whatever its outcome.
  It only reads when this holds of every invariant.
\<close>

definition stable :: "(tables \<Rightarrow> bool) \<Rightarrow> ('e, 'a) dbm \<Rightarrow> bool" where
  "stable I m = (\<forall>d. db_snap d = None \<longrightarrow> I (db_cur d) \<longrightarrow> db_snap (snd (m d)) = None \<and> I (db_cur (snd (m d))))"

named_theorems db_stable \<open>rules for computations that keep an invariant\<close>

lemma stableD: "stable I m \<Longrightarrow> m d = (r, d') \<Longrightarrow> db_snap d = None \<Longrightarrow> I (db_cur d) \<Longrightarrow> db_snap d' = None \<and> I (db_cur d')"
  unfolding stable_def by (metis snd_conv)

lemma stable_store_operation:
  assumes "store_operation m I"
  shows "stable I m"
  unfolding stable_def
proof (intro allI impI)
  fix d :: db
  assume d: "db_snap d = None" "I (db_cur d)"
  have s: "db_snap (snd (m d)) = None"
    using assms d(1) by (auto simp: store_operation_def dest: transactional.closed)
  moreover have "I (durable (snd (m d)))"
    by (rule store_operation.inv_durable[OF assms d(1)]) (use d in \<open>simp add: durable_def\<close>)
  ultimately show "db_snap (snd (m d)) = None \<and> I (db_cur (snd (m d)))" by (simp add: durable_def)
qed

lemma stable_read [db_stable]: "stable I (sql_read g)"
  by (rule stable_store_operation, rule store_operationI)
    (auto simp: sql_read_def dest: sql_Inr(1))

lemma stable_ret [db_stable]: "stable I (db_ret a)" and stable_fail [db_stable]: "stable I (db_fail e)"
  by (simp_all add: stable_def db_ret_def db_fail_def)

lemma stable_bind [db_stable]: "stable I m \<Longrightarrow> (\<And>a. stable I (f a)) \<Longrightarrow> stable I (db_bind m f)"
proof -
  assume m: "stable I m" and f: "\<And>a. stable I (f a)"
  show "stable I (db_bind m f)"
    unfolding stable_def
  proof (intro allI impI)
    fix d :: db
    assume d: "db_snap d = None" "I (db_cur d)"
    obtain r d1 where r: "m d = (r, d1)" by force
    have "db_snap d1 = None" "I (db_cur d1)" using stableD[OF m r d] by simp_all
    then show "db_snap (snd (db_bind m f d)) = None \<and> I (db_cur (snd (db_bind m f d)))"
      using f by (cases r) (auto simp: db_bind_def r stable_def)
  qed
qed

lemma stable_map_error [db_stable]: "stable I m \<Longrightarrow> stable I (db_map_error g m)"
proof -
  assume m: "stable I m"
  have "snd (db_map_error g m d) = snd (m d)" for d
    by (cases "m d"; cases "fst (m d)") (auto simp: db_map_error_def)
  with m show "stable I (db_map_error g m)" by (simp add: stable_def)
qed

lemma stable_if [db_stable]: "stable I m \<Longrightarrow> stable I k \<Longrightarrow> stable I (if b then m else k)"
  by simp

lemma stable_case_option [db_stable]:
  "stable I m \<Longrightarrow> (\<And>a. stable I (f a)) \<Longrightarrow> stable I (case x of None \<Rightarrow> m | Some a \<Rightarrow> f a)"
  by (cases x) auto

lemma stable_case_sum [db_stable]:
  "(\<And>a. stable I (f a)) \<Longrightarrow> (\<And>b. stable I (g b)) \<Longrightarrow> stable I (case x of Inl a \<Rightarrow> f a | Inr b \<Rightarrow> g b)"
  by (cases x) auto

lemma stable_case_prod [db_stable]: "(\<And>a b. stable I (f a b)) \<Longrightarrow> stable I (case p of (a, b) \<Rightarrow> f a b)"
  by (cases p) auto

lemma stable_conj: "stable I m \<Longrightarrow> stable J m \<Longrightarrow> stable (\<lambda>t. I t \<and> J t) m"
  by (simp add: stable_def)

text \<open>A computation that reads only leaves the tables as they are.\<close>

lemma stable_same:
  assumes "\<And>I. stable I m" and "m d = (r, d')" and "db_snap d = None"
  shows "db_cur d' = db_cur d" "db_snap d' = None"
  using stableD[OF assms(1)[of "\<lambda>t. t = db_cur d"] assms(2,3)] by simp_all

end
