(* ===== verification/OJ_Messages.thy ===== *)
theory OJ_Messages
  imports Main
begin

text \<open>
  The diagnostic texts of the service that its results carry or its tables store. They are
  string literals of the sources (Chinese, UTF-8); each is given here as its bytes, under a
  name that says what it reports, so that every message of the model is the byte string the
  program produces.
\<close>

definition txt_cancelled :: string where
  "txt_cancelled =
    [CHR 0xE6, CHR 0x9C, CHR 0x8D, CHR 0xE5, CHR 0x8A, CHR 0xA1, CHR 0xE5, CHR 0x81, CHR 0x9C,
     CHR 0xE6, CHR 0xAD, CHR 0xA2, CHR 0xEF, CHR 0xBC, CHR 0x8C, CHR 0xE5, CHR 0x88, CHR 0xA4,
     CHR 0xE9, CHR 0xA2, CHR 0x98, CHR 0xE5, CHR 0xB7, CHR 0xB2, CHR 0xE5, CHR 0x8F, CHR 0x96,
     CHR 0xE6, CHR 0xB6, CHR 0x88]"

definition txt_sandbox_unavailable :: string where
  "txt_sandbox_unavailable =
    [CHR 0xE8, CHR 0xBF, CHR 0x90, CHR 0xE8, CHR 0xA1, CHR 0x8C, CHR 0xE6, CHR 0xB2, CHR 0x99,
     CHR 0xE7, CHR 0xAE, CHR 0xB1, CHR 0xE4, CHR 0xB8, CHR 0x8D, CHR 0xE5, CHR 0x8F, CHR 0xAF,
     CHR 0xE7, CHR 0x94, CHR 0xA8]"

definition txt_cannot_launch :: string where
  "txt_cannot_launch =
    [CHR 0xE6, CHR 0x97, CHR 0xA0, CHR 0xE6, CHR 0xB3, CHR 0x95, CHR 0xE5, CHR 0x90, CHR 0xAF,
     CHR 0xE5, CHR 0x8A, CHR 0xA8, CHR 0xE8, CHR 0xBF, CHR 0x90, CHR 0xE8, CHR 0xA1, CHR 0x8C,
     CHR 0xE8, CHR 0xBF, CHR 0x9B, CHR 0xE7, CHR 0xA8, CHR 0x8B]"

definition txt_mle_1 :: string where
  "txt_mle_1 =
    [CHR 0xE8, CHR 0xB6, CHR 0x85, CHR 0xE5, CHR 0x87, CHR 0xBA, CHR 0xE5, CHR 0x86, CHR 0x85,
     CHR 0xE5, CHR 0xAD, CHR 0x98, CHR 0xE9, CHR 0x99, CHR 0x90, CHR 0xE5, CHR 0x88, CHR 0xB6,
     CHR 0xEF, CHR 0xBC, CHR 0x88, CHR ''R'', CHR ''S'', CHR ''S'', CHR '' '', CHR ''>'',
     CHR '' '']"

definition txt_mle_2 :: string where
  "txt_mle_2 =
    [CHR '' '', CHR ''k'', CHR ''B'', CHR 0xEF, CHR 0xBC, CHR 0x8C, CHR 0xE5, CHR 0xB3,
     CHR 0xB0, CHR 0xE5, CHR 0x80, CHR 0xBC, CHR '' '']"

definition txt_mle_3 :: string where
  "txt_mle_3 =
    [CHR '' '', CHR ''k'', CHR ''B'', CHR 0xEF, CHR 0xBC, CHR 0x89]"

definition txt_global_tle :: string where
  "txt_global_tle =
    [CHR 0xE8, CHR 0xA7, CHR 0xA6, CHR 0xE5, CHR 0x8F, CHR 0x91, CHR 0xE5, CHR 0x85, CHR 0xA8,
     CHR 0xE5, CHR 0xB1, CHR 0x80, CHR 0xE5, CHR 0x88, CHR 0xA4, CHR 0xE9, CHR 0xA2, CHR 0x98,
     CHR 0xE6, CHR 0x97, CHR 0xB6, CHR 0xE9, CHR 0x97, CHR 0xB4, CHR 0xE4, CHR 0xB8, CHR 0x8A,
     CHR 0xE9, CHR 0x99, CHR 0x90]"

definition txt_tle_1 :: string where
  "txt_tle_1 =
    [CHR 0xE8, CHR 0xB6, CHR 0x85, CHR 0xE5, CHR 0x87, CHR 0xBA, CHR 0xE6, CHR 0x97, CHR 0xB6,
     CHR 0xE9, CHR 0x97, CHR 0xB4, CHR 0xE9, CHR 0x99, CHR 0x90, CHR 0xE5, CHR 0x88, CHR 0xB6,
     CHR 0xEF, CHR 0xBC, CHR 0x88]"

definition txt_ms_close :: string where
  "txt_ms_close =
    [CHR '' '', CHR ''m'', CHR ''s'', CHR 0xEF, CHR 0xBC, CHR 0x89]"

definition txt_signal_1 :: string where
  "txt_signal_1 =
    [CHR 0xE8, CHR 0xBF, CHR 0x90, CHR 0xE8, CHR 0xA1, CHR 0x8C, CHR 0xE6, CHR 0x97, CHR 0xB6,
     CHR 0xE8, CHR 0xA2, CHR 0xAB, CHR 0xE4, CHR 0xBF, CHR 0xA1, CHR 0xE5, CHR 0x8F, CHR 0xB7,
     CHR '' '']"

definition txt_signal_2 :: string where
  "txt_signal_2 =
    [CHR '' '', CHR 0xE7, CHR 0xBB, CHR 0x88, CHR 0xE6, CHR 0xAD, CHR 0xA2]"

definition txt_sanitizer_note :: string where
  "txt_sanitizer_note =
    [CHR 0xEF, CHR 0xBC, CHR 0x88, CHR 0xE7, CHR 0x96, CHR 0x91, CHR 0xE4, CHR 0xBC, CHR 0xBC,
     CHR '' '', CHR ''S'', CHR ''a'', CHR ''n'', CHR ''i'', CHR ''t'', CHR ''i'', CHR ''z'',
     CHR ''e'', CHR ''r'', CHR '' '', CHR 0xE8, CHR 0xAF, CHR 0x8A, CHR 0xE6, CHR 0x96,
     CHR 0xAD, CHR 0xEF, CHR 0xBC, CHR 0x89]"

definition txt_nonzero_exit :: string where
  "txt_nonzero_exit =
    [CHR 0xE9, CHR 0x9D, CHR 0x9E, CHR 0xE9, CHR 0x9B, CHR 0xB6, CHR 0xE9, CHR 0x80, CHR 0x80,
     CHR 0xE5, CHR 0x87, CHR 0xBA, CHR 0xE7, CHR 0xA0, CHR 0x81, CHR '' '']"

definition txt_abnormal_end :: string where
  "txt_abnormal_end =
    [CHR 0xE8, CHR 0xBF, CHR 0x90, CHR 0xE8, CHR 0xA1, CHR 0x8C, CHR 0xE8, CHR 0xBF, CHR 0x9B,
     CHR 0xE7, CHR 0xA8, CHR 0x8B, CHR 0xE6, CHR 0x9C, CHR 0xAA, CHR 0xE6, CHR 0xAD, CHR 0xA3,
     CHR 0xE5, CHR 0xB8, CHR 0xB8, CHR 0xE7, CHR 0xBB, CHR 0x93, CHR 0xE6, CHR 0x9D, CHR 0x9F]"

definition txt_output_limit_1 :: string where
  "txt_output_limit_1 =
    [CHR 0xE6, CHR 0xA0, CHR 0x87, CHR 0xE5, CHR 0x87, CHR 0x86, CHR 0xE8, CHR 0xBE, CHR 0x93,
     CHR 0xE5, CHR 0x87, CHR 0xBA, CHR 0xE8, CHR 0xB6, CHR 0x85, CHR 0xE8, CHR 0xBF, CHR 0x87,
     CHR 0xE4, CHR 0xB8, CHR 0x8A, CHR 0xE9, CHR 0x99, CHR 0x90, CHR '' '']"

definition txt_output_limit_2 :: string where
  "txt_output_limit_2 =
    [CHR '' '', CHR 0xE5, CHR 0xAD, CHR 0x97, CHR 0xE8, CHR 0x8A, CHR 0x82]"

definition txt_output_mismatch :: string where
  "txt_output_mismatch =
    [CHR 0xE8, CHR 0xBE, CHR 0x93, CHR 0xE5, CHR 0x87, CHR 0xBA, CHR 0xE4, CHR 0xB8, CHR 0x8D,
     CHR 0xE5, CHR 0x8C, CHR 0xB9, CHR 0xE9, CHR 0x85, CHR 0x8D]"

definition txt_bad_language :: string where
  "txt_bad_language =
    [CHR 0xE4, CHR 0xB8, CHR 0x8D, CHR 0xE6, CHR 0x94, CHR 0xAF, CHR 0xE6, CHR 0x8C, CHR 0x81,
     CHR 0xE7, CHR 0x9A, CHR 0x84, CHR 0xE8, CHR 0xAF, CHR 0xAD, CHR 0xE8, CHR 0xA8, CHR 0x80,
     CHR '':'', CHR '' '']"

definition txt_no_testcases :: string where
  "txt_no_testcases =
    [CHR 0xE6, CHR 0xB2, CHR 0xA1, CHR 0xE6, CHR 0x9C, CHR 0x89, CHR 0xE5, CHR 0x8F, CHR 0xAF,
     CHR 0xE6, CHR 0x89, CHR 0xA7, CHR 0xE8, CHR 0xA1, CHR 0x8C, CHR 0xE7, CHR 0x9A, CHR 0x84,
     CHR 0xE6, CHR 0xB5, CHR 0x8B, CHR 0xE8, CHR 0xAF, CHR 0x95, CHR 0xE7, CHR 0x94, CHR 0xA8,
     CHR 0xE4, CHR 0xBE, CHR 0x8B]"

definition txt_bad_time_limit :: string where
  "txt_bad_time_limit =
    [CHR 0xE6, CHR 0x97, CHR 0xA0, CHR 0xE6, CHR 0x95, CHR 0x88, CHR 0xE7, CHR 0x9A, CHR 0x84,
     CHR 0xE6, CHR 0x97, CHR 0xB6, CHR 0xE9, CHR 0x97, CHR 0xB4, CHR 0xE9, CHR 0x99, CHR 0x90,
     CHR 0xE5, CHR 0x88, CHR 0xB6, CHR '':'', CHR '' '']"

definition txt_global_exhausted_1 :: string where
  "txt_global_exhausted_1 =
    [CHR 0xE5, CHR 0x85, CHR 0xA8, CHR 0xE5, CHR 0xB1, CHR 0x80, CHR 0xE5, CHR 0x88, CHR 0xA4,
     CHR 0xE9, CHR 0xA2, CHR 0x98, CHR 0xE6, CHR 0x97, CHR 0xB6, CHR 0xE9, CHR 0x97, CHR 0xB4,
     CHR 0xE4, CHR 0xB8, CHR 0x8A, CHR 0xE9, CHR 0x99, CHR 0x90, CHR 0xEF, CHR 0xBC, CHR 0x88]"

definition txt_global_exhausted_2 :: string where
  "txt_global_exhausted_2 =
    [CHR '' '', CHR ''m'', CHR ''s'', CHR 0xEF, CHR 0xBC, CHR 0x89, CHR 0xE8, CHR 0x80,
     CHR 0x97, CHR 0xE5, CHR 0xB0, CHR 0xBD, CHR 0xEF, CHR 0xBC, CHR 0x8C, CHR 0xE5, CHR 0x89,
     CHR 0xA9, CHR 0xE4, CHR 0xBD, CHR 0x99, CHR 0xE6, CHR 0xB5, CHR 0x8B, CHR 0xE8, CHR 0xAF,
     CHR 0x95, CHR 0xE7, CHR 0x82, CHR 0xB9, CHR 0xE6, CHR 0x9C, CHR 0xAA, CHR 0xE6, CHR 0x89,
     CHR 0xA7, CHR 0xE8, CHR 0xA1, CHR 0x8C]"

definition txt_workspace_failed :: string where
  "txt_workspace_failed =
    [CHR 0xE5, CHR 0x88, CHR 0x9B, CHR 0xE5, CHR 0xBB, CHR 0xBA, CHR 0xE5, CHR 0x88, CHR 0xA4,
     CHR 0xE9, CHR 0xA2, CHR 0x98, CHR 0xE5, CHR 0xB7, CHR 0xA5, CHR 0xE4, CHR 0xBD, CHR 0x9C,
     CHR 0xE7, CHR 0x9B, CHR 0xAE, CHR 0xE5, CHR 0xBD, CHR 0x95, CHR 0xE5, CHR 0xA4, CHR 0xB1,
     CHR 0xE8, CHR 0xB4, CHR 0xA5, CHR '':'', CHR '' '']"

definition txt_write_failed :: string where
  "txt_write_failed =
    [CHR 0xE5, CHR 0x86, CHR 0x99, CHR 0xE5, CHR 0x85, CHR 0xA5, CHR 0xE6, CHR 0xBA, CHR 0x90,
     CHR 0xE7, CHR 0xA0, CHR 0x81, CHR 0xE5, CHR 0xA4, CHR 0xB1, CHR 0xE8, CHR 0xB4, CHR 0xA5,
     CHR '':'', CHR '' '']"

definition txt_compile_sandbox :: string where
  "txt_compile_sandbox =
    [CHR 0xE7, CHR 0xBC, CHR 0x96, CHR 0xE8, CHR 0xAF, CHR 0x91, CHR 0xE6, CHR 0xB2, CHR 0x99,
     CHR 0xE7, CHR 0xAE, CHR 0xB1, CHR 0xE4, CHR 0xB8, CHR 0x8D, CHR 0xE5, CHR 0x8F, CHR 0xAF,
     CHR 0xE7, CHR 0x94, CHR 0xA8, CHR '':'', CHR '' '']"

definition txt_compile_env :: string where
  "txt_compile_env =
    [CHR 0xE7, CHR 0xBC, CHR 0x96, CHR 0xE8, CHR 0xAF, CHR 0x91, CHR 0xE7, CHR 0x8E, CHR 0xAF,
     CHR 0xE5, CHR 0xA2, CHR 0x83, CHR 0xE6, CHR 0x95, CHR 0x85, CHR 0xE9, CHR 0x9A, CHR 0x9C,
     CHR '':'', CHR '' '']"

definition txt_compile_timeout :: string where
  "txt_compile_timeout =
    [CHR 0xE7, CHR 0xBC, CHR 0x96, CHR 0xE8, CHR 0xAF, CHR 0x91, CHR 0xE8, CHR 0xB6, CHR 0x85,
     CHR 0xE6, CHR 0x97, CHR 0xB6, CHR 0xEF, CHR 0xBC, CHR 0x88]"

definition txt_compiler_abnormal :: string where
  "txt_compiler_abnormal =
    [CHR 0xE7, CHR 0xBC, CHR 0x96, CHR 0xE8, CHR 0xAF, CHR 0x91, CHR 0xE5, CHR 0x99, CHR 0xA8,
     CHR 0xE6, CHR 0x9C, CHR 0xAA, CHR 0xE6, CHR 0xAD, CHR 0xA3, CHR 0xE5, CHR 0xB8, CHR 0xB8,
     CHR 0xE7, CHR 0xBB, CHR 0x93, CHR 0xE6, CHR 0x9D, CHR 0x9F]"

definition txt_compiler_signal :: string where
  "txt_compiler_signal =
    [CHR 0xE7, CHR 0xBC, CHR 0x96, CHR 0xE8, CHR 0xAF, CHR 0x91, CHR 0xE5, CHR 0x99, CHR 0xA8,
     CHR 0xE8, CHR 0xA2, CHR 0xAB, CHR 0xE4, CHR 0xBF, CHR 0xA1, CHR 0xE5, CHR 0x8F, CHR 0xB7,
     CHR '' '']"

definition txt_compile_error :: string where
  "txt_compile_error =
    [CHR 0xE7, CHR 0xBC, CHR 0x96, CHR 0xE8, CHR 0xAF, CHR 0x91, CHR 0xE9, CHR 0x94, CHR 0x99,
     CHR 0xE8, CHR 0xAF, CHR 0xAF]"

definition txt_no_executable :: string where
  "txt_no_executable =
    [CHR 0xE7, CHR 0xBC, CHR 0x96, CHR 0xE8, CHR 0xAF, CHR 0x91, CHR 0xE6, CHR 0x88, CHR 0x90,
     CHR 0xE5, CHR 0x8A, CHR 0x9F, CHR 0xE4, CHR 0xBD, CHR 0x86, CHR 0xE6, CHR 0x9C, CHR 0xAA,
     CHR 0xE7, CHR 0x94, CHR 0x9F, CHR 0xE6, CHR 0x88, CHR 0x90, CHR 0xE5, CHR 0x8F, CHR 0xAF,
     CHR 0xE6, CHR 0x89, CHR 0xA7, CHR 0xE8, CHR 0xA1, CHR 0x8C, CHR 0xE6, CHR 0x96, CHR 0x87,
     CHR 0xE4, CHR 0xBB, CHR 0xB6]"

definition txt_run_sandbox :: string where
  "txt_run_sandbox =
    [CHR 0xE8, CHR 0xBF, CHR 0x90, CHR 0xE8, CHR 0xA1, CHR 0x8C, CHR 0xE6, CHR 0xB2, CHR 0x99,
     CHR 0xE7, CHR 0xAE, CHR 0xB1, CHR 0xE4, CHR 0xB8, CHR 0x8D, CHR 0xE5, CHR 0x8F, CHR 0xAF,
     CHR 0xE7, CHR 0x94, CHR 0xA8, CHR '':'', CHR '' '']"

definition txt_run_launch :: string where
  "txt_run_launch =
    [CHR 0xE6, CHR 0x97, CHR 0xA0, CHR 0xE6, CHR 0xB3, CHR 0x95, CHR 0xE5, CHR 0x90, CHR 0xAF,
     CHR 0xE5, CHR 0x8A, CHR 0xA8, CHR 0xE8, CHR 0xBF, CHR 0x90, CHR 0xE8, CHR 0xA1, CHR 0x8C,
     CHR 0xE8, CHR 0xBF, CHR 0x9B, CHR 0xE7, CHR 0xA8, CHR 0x8B, CHR '':'', CHR '' '']"

definition txt_open_paren :: string where
  "txt_open_paren =
    [CHR 0xEF, CHR 0xBC, CHR 0x88]"

definition txt_all_passed :: string where
  "txt_all_passed =
    [CHR 0xE5, CHR 0x85, CHR 0xA8, CHR 0xE9, CHR 0x83, CHR 0xA8, CHR 0xE6, CHR 0xB5, CHR 0x8B,
     CHR 0xE8, CHR 0xAF, CHR 0x95, CHR 0xE7, CHR 0x82, CHR 0xB9, CHR 0xE9, CHR 0x80, CHR 0x9A,
     CHR 0xE8, CHR 0xBF, CHR 0x87]"

definition txt_has_wa :: string where
  "txt_has_wa =
    [CHR 0xE5, CHR 0xAD, CHR 0x98, CHR 0xE5, CHR 0x9C, CHR 0xA8, CHR 0xE8, CHR 0xBE, CHR 0x93,
     CHR 0xE5, CHR 0x87, CHR 0xBA, CHR 0xE4, CHR 0xB8, CHR 0x8D, CHR 0xE5, CHR 0x8C, CHR 0xB9,
     CHR 0xE9, CHR 0x85, CHR 0x8D, CHR 0xE7, CHR 0x9A, CHR 0x84, CHR 0xE6, CHR 0xB5, CHR 0x8B,
     CHR 0xE8, CHR 0xAF, CHR 0x95, CHR 0xE7, CHR 0x82, CHR 0xB9]"

definition txt_manager_reclaimed :: string where
  "txt_manager_reclaimed =
    [CHR 0xE5, CHR 0x88, CHR 0xA4, CHR 0xE9, CHR 0xA2, CHR 0x98, CHR 0xE8, CHR 0xB0, CHR 0x83,
     CHR 0xE5, CHR 0xBA, CHR 0xA6, CHR 0xE5, CHR 0x99, CHR 0xA8, CHR 0xE5, CHR 0xB7, CHR 0xB2,
     CHR 0xE5, CHR 0x9B, CHR 0x9E, CHR 0xE6, CHR 0x94, CHR 0xB6, CHR 0xEF, CHR 0xBC, CHR 0x8C,
     CHR 0xE4, CHR 0xBB, CHR 0xBB, CHR 0xE5, CHR 0x8A, CHR 0xA1, CHR 0xE6, CHR 0x9C, CHR 0xAA,
     CHR 0xE6, CHR 0x89, CHR 0xA7, CHR 0xE8, CHR 0xA1, CHR 0x8C]"

definition txt_task_exception :: string where
  "txt_task_exception =
    [CHR 0xE5, CHR 0x88, CHR 0xA4, CHR 0xE9, CHR 0xA2, CHR 0x98, CHR 0xE4, CHR 0xBB, CHR 0xBB,
     CHR 0xE5, CHR 0x8A, CHR 0xA1, CHR 0xE5, CHR 0xBC, CHR 0x82, CHR 0xE5, CHR 0xB8, CHR 0xB8,
     CHR '':'', CHR '' '']"

definition txt_task_exception_unknown :: string where
  "txt_task_exception_unknown =
    [CHR 0xE5, CHR 0x88, CHR 0xA4, CHR 0xE9, CHR 0xA2, CHR 0x98, CHR 0xE4, CHR 0xBB, CHR 0xBB,
     CHR 0xE5, CHR 0x8A, CHR 0xA1, CHR 0xE5, CHR 0xBC, CHR 0x82, CHR 0xE5, CHR 0xB8, CHR 0xB8]"

definition txt_internal_error :: string where
  "txt_internal_error =
    [CHR 0xE5, CHR 0x86, CHR 0x85, CHR 0xE9, CHR 0x83, CHR 0xA8, CHR 0xE9, CHR 0x94, CHR 0x99,
     CHR 0xE8, CHR 0xAF, CHR 0xAF]"

definition txt_judge_internal :: string where
  "txt_judge_internal =
    [CHR 0xE5, CHR 0x88, CHR 0xA4, CHR 0xE9, CHR 0xA2, CHR 0x98, CHR 0xE5, CHR 0x86, CHR 0x85,
     CHR 0xE9, CHR 0x83, CHR 0xA8, CHR 0xE9, CHR 0x94, CHR 0x99, CHR 0xE8, CHR 0xAF, CHR 0xAF,
     CHR '':'', CHR '' '']"

definition txt_judge_internal_unknown :: string where
  "txt_judge_internal_unknown =
    [CHR 0xE5, CHR 0x88, CHR 0xA4, CHR 0xE9, CHR 0xA2, CHR 0x98, CHR 0xE5, CHR 0x86, CHR 0x85,
     CHR 0xE9, CHR 0x83, CHR 0xA8, CHR 0xE9, CHR 0x94, CHR 0x99, CHR 0xE8, CHR 0xAF, CHR 0xAF]"

definition txt_enqueue_failed :: string where
  "txt_enqueue_failed =
    [CHR 0xE5, CHR 0x85, CHR 0xA5, CHR 0xE9, CHR 0x98, CHR 0x9F, CHR 0xE5, CHR 0xA4, CHR 0xB1,
     CHR 0xE8, CHR 0xB4, CHR 0xA5, CHR 0xEF, CHR 0xBC, CHR 0x8C, CHR 0xE5, CHR 0xB7, CHR 0xB2,
     CHR 0xE6, CHR 0x94, CHR 0xBE, CHR 0xE5, CHR 0xBC, CHR 0x83, CHR 0xE6, CHR 0x89, CHR 0xA7,
     CHR 0xE8, CHR 0xA1, CHR 0x8C]"

definition txt_problem_gone :: string where
  "txt_problem_gone =
    [CHR 0xE9, CHR 0xA2, CHR 0x98, CHR 0xE7, CHR 0x9B, CHR 0xAE, CHR 0xE4, CHR 0xB8, CHR 0x8D,
     CHR 0xE5, CHR 0xAD, CHR 0x98, CHR 0xE5, CHR 0x9C, CHR 0xA8, CHR 0xEF, CHR 0xBC, CHR 0x8C,
     CHR 0xE6, CHR 0x97, CHR 0xA0, CHR 0xE6, CHR 0xB3, CHR 0x95, CHR 0xE5, CHR 0x88, CHR 0xA4,
     CHR 0xE9, CHR 0xA2, CHR 0x98]"

definition txt_already_settled :: string where
  "txt_already_settled =
    [CHR 0xE4, CHR 0xBB, CHR 0xBB, CHR 0xE5, CHR 0x8A, CHR 0xA1, CHR 0xE5, CHR 0xB7, CHR 0xB2,
     CHR 0xE7, CHR 0xBB, CHR 0x93, CHR 0xE7, CHR 0xAE, CHR 0x97]"

definition txt_source_too_long :: string where
  "txt_source_too_long =
    [CHR 0xE6, CHR 0xBA, CHR 0x90, CHR 0xE7, CHR 0xA0, CHR 0x81, CHR 0xE8, CHR 0xBF, CHR 0x87,
     CHR 0xE9, CHR 0x95, CHR 0xBF, CHR 0xEF, CHR 0xBC, CHR 0x9A, CHR 0xE6, CHR 0x9C, CHR 0x80,
     CHR 0xE5, CHR 0xA4, CHR 0xA7, CHR 0xE5, CHR 0x85, CHR 0x81, CHR 0xE8, CHR 0xAE, CHR 0xB8,
     CHR '' '']"

definition txt_source_bytes :: string where
  "txt_source_bytes =
    [CHR '' '', CHR 0xE5, CHR 0xAD, CHR 0x97, CHR 0xE8, CHR 0x8A, CHR 0x82]"

definition txt_source_empty :: string where
  "txt_source_empty =
    [CHR 0xE6, CHR 0xBA, CHR 0x90, CHR 0xE7, CHR 0xA0, CHR 0x81, CHR 0xE4, CHR 0xB8, CHR 0x8D,
     CHR 0xE8, CHR 0x83, CHR 0xBD, CHR 0xE4, CHR 0xB8, CHR 0xBA, CHR 0xE7, CHR 0xA9, CHR 0xBA]"

definition txt_submission_missing :: string where
  "txt_submission_missing =
    [CHR 0xE6, CHR 0x8F, CHR 0x90, CHR 0xE4, CHR 0xBA, CHR 0xA4, CHR 0xE8, CHR 0xAE, CHR 0xB0,
     CHR 0xE5, CHR 0xBD, CHR 0x95, CHR 0xE4, CHR 0xB8, CHR 0x8D, CHR 0xE5, CHR 0xAD, CHR 0x98,
     CHR 0xE5, CHR 0x9C, CHR 0xA8]"

definition txt_problem_missing :: string where
  "txt_problem_missing =
    [CHR 0xE9, CHR 0xA2, CHR 0x98, CHR 0xE7, CHR 0x9B, CHR 0xAE, CHR 0xE4, CHR 0xB8, CHR 0x8D,
     CHR 0xE5, CHR 0xAD, CHR 0x98, CHR 0xE5, CHR 0x9C, CHR 0xA8]"

definition txt_rejudge_incomplete :: string where
  "txt_rejudge_incomplete =
    [CHR 0xE9, CHR 0x87, CHR 0x8D, CHR 0xE5, CHR 0x88, CHR 0xA4, CHR 0xE6, CHR 0x9C, CHR 0xAA,
     CHR 0xE8, CHR 0x83, CHR 0xBD, CHR 0xE5, CHR 0xAE, CHR 0x8C, CHR 0xE6, CHR 0x88, CHR 0x90,
     CHR 0xEF, CHR 0xBC, CHR 0x9A]"

definition txt_nickname_empty :: string where
  "txt_nickname_empty =
    [CHR 0xE6, CHR 0x98, CHR 0xB5, CHR 0xE7, CHR 0xA7, CHR 0xB0, CHR 0xE4, CHR 0xB8, CHR 0x8D,
     CHR 0xE8, CHR 0x83, CHR 0xBD, CHR 0xE4, CHR 0xB8, CHR 0xBA, CHR 0xE7, CHR 0xA9, CHR 0xBA]"

definition txt_nickname_long :: string where
  "txt_nickname_long =
    [CHR 0xE6, CHR 0x98, CHR 0xB5, CHR 0xE7, CHR 0xA7, CHR 0xB0, CHR 0xE8, CHR 0xBF, CHR 0x87,
     CHR 0xE9, CHR 0x95, CHR 0xBF, CHR 0xEF, CHR 0xBC, CHR 0x88, CHR 0xE6, CHR 0x9C, CHR 0x80,
     CHR 0xE5, CHR 0xA4, CHR 0x9A, CHR '' '']"

definition txt_password_empty :: string where
  "txt_password_empty =
    [CHR 0xE5, CHR 0xAF, CHR 0x86, CHR 0xE7, CHR 0xA0, CHR 0x81, CHR 0xE4, CHR 0xB8, CHR 0x8D,
     CHR 0xE8, CHR 0x83, CHR 0xBD, CHR 0xE4, CHR 0xB8, CHR 0xBA, CHR 0xE7, CHR 0xA9, CHR 0xBA]"

definition txt_password_long :: string where
  "txt_password_long =
    [CHR 0xE5, CHR 0xAF, CHR 0x86, CHR 0xE7, CHR 0xA0, CHR 0x81, CHR 0xE8, CHR 0xBF, CHR 0x87,
     CHR 0xE9, CHR 0x95, CHR 0xBF, CHR 0xEF, CHR 0xBC, CHR 0x88, CHR 0xE6, CHR 0x9C, CHR 0x80,
     CHR 0xE5, CHR 0xA4, CHR 0x9A, CHR '' '']"

definition txt_chars_close :: string where
  "txt_chars_close =
    [CHR '' '', CHR 0xE4, CHR 0xB8, CHR 0xAA, CHR 0xE5, CHR 0xAD, CHR 0x97, CHR 0xE7, CHR 0xAC,
     CHR 0xA6, CHR 0xEF, CHR 0xBC, CHR 0x89]"

definition txt_password_same :: string where
  "txt_password_same =
    [CHR 0xE6, CHR 0x96, CHR 0xB0, CHR 0xE5, CHR 0xAF, CHR 0x86, CHR 0xE7, CHR 0xA0, CHR 0x81,
     CHR 0xE4, CHR 0xB8, CHR 0x8D, CHR 0xE8, CHR 0x83, CHR 0xBD, CHR 0xE4, CHR 0xB8, CHR 0x8E,
     CHR 0xE6, CHR 0x97, CHR 0xA7, CHR 0xE5, CHR 0xAF, CHR 0x86, CHR 0xE7, CHR 0xA0, CHR 0x81,
     CHR 0xE7, CHR 0x9B, CHR 0xB8, CHR 0xE5, CHR 0x90, CHR 0x8C]"

definition txt_nickname_taken :: string where
  "txt_nickname_taken =
    [CHR 0xE6, CHR 0x98, CHR 0xB5, CHR 0xE7, CHR 0xA7, CHR 0xB0, CHR 0xE5, CHR 0xB7, CHR 0xB2,
     CHR 0xE8, CHR 0xA2, CHR 0xAB, CHR 0xE4, CHR 0xBD, CHR 0xBF, CHR 0xE7, CHR 0x94, CHR 0xA8]"

definition txt_bad_credentials :: string where
  "txt_bad_credentials =
    [CHR 0xE8, CHR 0xB4, CHR 0xA6, CHR 0xE5, CHR 0x8F, CHR 0xB7, CHR 0xE6, CHR 0x88, CHR 0x96,
     CHR 0xE5, CHR 0xAF, CHR 0x86, CHR 0xE7, CHR 0xA0, CHR 0x81, CHR 0xE9, CHR 0x94, CHR 0x99,
     CHR 0xE8, CHR 0xAF, CHR 0xAF]"

definition txt_admin_password_missing :: string where
  "txt_admin_password_missing =
    [CHR 0xE6, CHR 0x95, CHR 0xB0, CHR 0xE6, CHR 0x8D, CHR 0xAE, CHR 0xE5, CHR 0xBA, CHR 0x93,
     CHR 0xE9, CHR 0xA6, CHR 0x96, CHR 0xE6, CHR 0xAC, CHR 0xA1, CHR 0xE5, CHR 0x88, CHR 0x9D,
     CHR 0xE5, CHR 0xA7, CHR 0x8B, CHR 0xE5, CHR 0x8C, CHR 0x96, CHR 0xE9, CHR 0x9C, CHR 0x80,
     CHR 0xE8, CHR 0xA6, CHR 0x81, CHR 0xE8, CHR 0xAE, CHR 0xBE, CHR 0xE7, CHR 0xBD, CHR 0xAE,
     CHR 0xE5, CHR 0x88, CHR 0x9D, CHR 0xE5, CHR 0xA7, CHR 0x8B, CHR 0xE7, CHR 0xAE, CHR 0xA1,
     CHR 0xE7, CHR 0x90, CHR 0x86, CHR 0xE5, CHR 0x91, CHR 0x98, CHR 0xE5, CHR 0xAF, CHR 0x86,
     CHR 0xE7, CHR 0xA0, CHR 0x81, CHR 0xEF, CHR 0xBC, CHR 0x9A, CHR 0xE8, CHR 0xAF, CHR 0xB7,
     CHR 0xE9, CHR 0x80, CHR 0x9A, CHR 0xE8, CHR 0xBF, CHR 0x87, CHR 0xE7, CHR 0x8E, CHR 0xAF,
     CHR 0xE5, CHR 0xA2, CHR 0x83, CHR 0xE5, CHR 0x8F, CHR 0x98, CHR 0xE9, CHR 0x87, CHR 0x8F,
     CHR '' '', CHR ''O'', CHR ''J'', CHR ''_'', CHR ''A'', CHR ''D'', CHR ''M'', CHR ''I'',
     CHR ''N'', CHR ''_'', CHR ''P'', CHR ''A'', CHR ''S'', CHR ''S'', CHR ''W'', CHR ''O'',
     CHR ''R'', CHR ''D'', CHR '' '', CHR 0xE6, CHR 0x8F, CHR 0x90, CHR 0xE4, CHR 0xBE,
     CHR 0x9B, CHR 0xEF, CHR 0xBC, CHR 0x88, CHR 0xE5, CHR 0xB7, CHR 0xB2, CHR 0xE6, CHR 0x9C,
     CHR 0x89, CHR '' '', CHR ''a'', CHR ''d'', CHR ''m'', CHR ''i'', CHR ''n'', CHR '' '',
     CHR 0xE6, CHR 0x97, CHR 0xB6, CHR 0xE6, CHR 0x97, CHR 0xA0, CHR 0xE9, CHR 0x9C, CHR 0x80,
     CHR 0xE8, CHR 0xAE, CHR 0xBE, CHR 0xE7, CHR 0xBD, CHR 0xAE, CHR 0xEF, CHR 0xBC, CHR 0x89]"

definition txt_bad_page :: string where
  "txt_bad_page =
    [CHR 0xE9, CHR 0x9D, CHR 0x9E, CHR 0xE6, CHR 0xB3, CHR 0x95, CHR 0xE7, CHR 0x9A, CHR 0x84,
     CHR 0xE5, CHR 0x88, CHR 0x86, CHR 0xE9, CHR 0xA1, CHR 0xB5, CHR 0xE5, CHR 0x8F, CHR 0x82,
     CHR 0xE6, CHR 0x95, CHR 0xB0]"

definition txt_ord_exhausted :: string where
  "txt_ord_exhausted =
    [CHR 0xE8, CHR 0x87, CHR 0xAA, CHR 0xE5, CHR 0x8A, CHR 0xA8, CHR 0xE5, CHR 0x88, CHR 0x86,
     CHR 0xE9, CHR 0x85, CHR 0x8D, CHR '' '', CHR ''o'', CHR ''r'', CHR ''d'', CHR '' '',
     CHR 0xE5, CHR 0xB7, CHR 0xB2, CHR 0xE8, CHR 0xBE, CHR 0xBE, CHR 0xE4, CHR 0xB8, CHR 0x8A,
     CHR 0xE9, CHR 0x99, CHR 0x90]"

definition txt_task_id_exhausted :: string where
  "txt_task_id_exhausted =
    [CHR 0xE7, CHR 0x94, CHR 0x9F, CHR 0xE6, CHR 0x88, CHR 0x90, CHR 0xE5, CHR 0x9C, CHR 0xA8,
     CHR 0xE9, CHR 0x80, CHR 0x94, CHR 0xE4, CHR 0xBB, CHR 0xBB, CHR 0xE5, CHR 0x8A, CHR 0xA1,
     CHR 0xE6, CHR 0xA0, CHR 0x87, CHR 0xE8, CHR 0xAF, CHR 0x86, CHR 0xE5, CHR 0xA4, CHR 0xB1,
     CHR 0xE8, CHR 0xB4, CHR 0xA5, CHR 0xEF, CHR 0xBC, CHR 0x88, CHR 0xE5, CHR 0x94, CHR 0xAF,
     CHR 0xE4, CHR 0xB8, CHR 0x80, CHR 0xE6, CHR 0x80, CHR 0xA7, CHR 0xE5, CHR 0x86, CHR 0xB2,
     CHR 0xE7, CHR 0xAA, CHR 0x81, CHR 0xE9, CHR 0x87, CHR 0x8D, CHR 0xE8, CHR 0xAF, CHR 0x95,
     CHR 0xE8, CHR 0x80, CHR 0x97, CHR 0xE5, CHR 0xB0, CHR 0xBD, CHR 0xEF, CHR 0xBC, CHR 0x89]"

definition txt_must_be_integer :: string where
  "txt_must_be_integer =
    [CHR '' '', CHR 0xE9, CHR 0xA1, CHR 0xBB, CHR 0xE4, CHR 0xB8, CHR 0xBA, CHR 0xE6, CHR 0x95,
     CHR 0xB4, CHR 0xE6, CHR 0x95, CHR 0xB0]"

definition txt_out_of_range :: string where
  "txt_out_of_range =
    [CHR '' '', CHR 0xE8, CHR 0xB6, CHR 0x85, CHR 0xE5, CHR 0x87, CHR 0xBA, CHR 0xE5, CHR 0x85,
     CHR 0x81, CHR 0xE8, CHR 0xAE, CHR 0xB8, CHR 0xE8, CHR 0x8C, CHR 0x83, CHR 0xE5, CHR 0x9B,
     CHR 0xB4, CHR '' '', CHR ''['']"

definition txt_tags_array :: string where
  "txt_tags_array =
    [CHR ''t'', CHR ''a'', CHR ''g'', CHR ''s'', CHR '' '', CHR 0xE9, CHR 0xA1, CHR 0xBB,
     CHR 0xE4, CHR 0xB8, CHR 0xBA, CHR 0xE5, CHR 0xAD, CHR 0x97, CHR 0xE7, CHR 0xAC, CHR 0xA6,
     CHR 0xE4, CHR 0xB8, CHR 0xB2, CHR 0xE6, CHR 0x95, CHR 0xB0, CHR 0xE7, CHR 0xBB, CHR 0x84]"

definition txt_tags_too_many :: string where
  "txt_tags_too_many =
    [CHR ''t'', CHR ''a'', CHR ''g'', CHR ''s'', CHR '' '', CHR 0xE6, CHR 0x95, CHR 0xB0,
     CHR 0xE9, CHR 0x87, CHR 0x8F, CHR 0xE8, CHR 0xBF, CHR 0x87, CHR 0xE5, CHR 0xA4, CHR 0x9A,
     CHR 0xEF, CHR 0xBC, CHR 0x88, CHR 0xE6, CHR 0x9C, CHR 0x80, CHR 0xE5, CHR 0xA4, CHR 0x9A,
     CHR '' '']"

definition txt_count_close :: string where
  "txt_count_close =
    [CHR '' '', CHR 0xE4, CHR 0xB8, CHR 0xAA, CHR 0xEF, CHR 0xBC, CHR 0x89]"

definition txt_tag_empty :: string where
  "txt_tag_empty =
    [CHR 0xE6, CHR 0xA0, CHR 0x87, CHR 0xE7, CHR 0xAD, CHR 0xBE, CHR 0xE4, CHR 0xB8, CHR 0x8D,
     CHR 0xE8, CHR 0x83, CHR 0xBD, CHR 0xE4, CHR 0xB8, CHR 0xBA, CHR 0xE7, CHR 0xA9, CHR 0xBA]"

definition txt_tag_long :: string where
  "txt_tag_long =
    [CHR 0xE6, CHR 0xA0, CHR 0x87, CHR 0xE7, CHR 0xAD, CHR 0xBE, CHR 0xE8, CHR 0xBF, CHR 0x87,
     CHR 0xE9, CHR 0x95, CHR 0xBF, CHR 0xEF, CHR 0xBC, CHR 0x88, CHR 0xE6, CHR 0x9C, CHR 0x80,
     CHR 0xE5, CHR 0xA4, CHR 0x9A, CHR '' '']"

definition txt_bytes_close :: string where
  "txt_bytes_close =
    [CHR '' '', CHR 0xE5, CHR 0xAD, CHR 0x97, CHR 0xE8, CHR 0x8A, CHR 0x82, CHR 0xEF, CHR 0xBC,
     CHR 0x89]"

definition txt_tag_comma :: string where
  "txt_tag_comma =
    [CHR 0xE6, CHR 0xA0, CHR 0x87, CHR 0xE7, CHR 0xAD, CHR 0xBE, CHR 0xE4, CHR 0xB8, CHR 0x8D,
     CHR 0xE8, CHR 0x83, CHR 0xBD, CHR 0xE5, CHR 0x8C, CHR 0x85, CHR 0xE5, CHR 0x90, CHR 0xAB,
     CHR 0xE9, CHR 0x80, CHR 0x97, CHR 0xE5, CHR 0x8F, CHR 0xB7]"

definition txt_tag_duplicate :: string where
  "txt_tag_duplicate =
    [CHR 0xE6, CHR 0xA0, CHR 0x87, CHR 0xE7, CHR 0xAD, CHR 0xBE, CHR 0xE9, CHR 0x87, CHR 0x8D,
     CHR 0xE5, CHR 0xA4, CHR 0x8D, CHR 0xEF, CHR 0xBC, CHR 0x9A]"

definition txt_samples_array :: string where
  "txt_samples_array =
    [CHR ''s'', CHR ''a'', CHR ''m'', CHR ''p'', CHR ''l'', CHR ''e'', CHR ''s'', CHR '' '',
     CHR 0xE9, CHR 0xA1, CHR 0xBB, CHR 0xE4, CHR 0xB8, CHR 0xBA, CHR 0xE5, CHR 0xAF, CHR 0xB9,
     CHR 0xE8, CHR 0xB1, CHR 0xA1, CHR 0xE6, CHR 0x95, CHR 0xB0, CHR 0xE7, CHR 0xBB, CHR 0x84]"

definition txt_samples_too_many :: string where
  "txt_samples_too_many =
    [CHR ''s'', CHR ''a'', CHR ''m'', CHR ''p'', CHR ''l'', CHR ''e'', CHR ''s'', CHR '' '',
     CHR 0xE6, CHR 0x95, CHR 0xB0, CHR 0xE9, CHR 0x87, CHR 0x8F, CHR 0xE8, CHR 0xBF, CHR 0x87,
     CHR 0xE5, CHR 0xA4, CHR 0x9A, CHR 0xEF, CHR 0xBC, CHR 0x88, CHR 0xE6, CHR 0x9C, CHR 0x80,
     CHR 0xE5, CHR 0xA4, CHR 0x9A, CHR '' '']"

definition txt_groups_close :: string where
  "txt_groups_close =
    [CHR '' '', CHR 0xE7, CHR 0xBB, CHR 0x84, CHR 0xEF, CHR 0xBC, CHR 0x89]"

definition txt_sample_shape :: string where
  "txt_sample_shape =
    [CHR 0xE6, CHR 0xA0, CHR 0xB7, CHR 0xE4, CHR 0xBE, CHR 0x8B, CHR 0xE9, CHR 0xA1, CHR 0xBB,
     CHR 0xE4, CHR 0xB8, CHR 0xBA, CHR 0xE5, CHR 0x90, CHR 0xAB, CHR 0xE5, CHR 0xAD, CHR 0x97,
     CHR 0xE7, CHR 0xAC, CHR 0xA6, CHR 0xE4, CHR 0xB8, CHR 0xB2, CHR 0xE5, CHR 0xAD, CHR 0x97,
     CHR 0xE6, CHR 0xAE, CHR 0xB5, CHR '' '', CHR ''i'', CHR ''n'', CHR ''p'', CHR ''u'',
     CHR ''t'', CHR '' '', CHR 0xE4, CHR 0xB8, CHR 0x8E, CHR '' '', CHR ''o'', CHR ''u'',
     CHR ''t'', CHR ''p'', CHR ''u'', CHR ''t'', CHR '' '', CHR 0xE7, CHR 0x9A, CHR 0x84,
     CHR 0xE5, CHR 0xAF, CHR 0xB9, CHR 0xE8, CHR 0xB1, CHR 0xA1]"

definition txt_sample_long :: string where
  "txt_sample_long =
    [CHR 0xE6, CHR 0xA0, CHR 0xB7, CHR 0xE4, CHR 0xBE, CHR 0x8B, CHR 0xE5, CHR 0xAD, CHR 0x97,
     CHR 0xE6, CHR 0xAE, CHR 0xB5, CHR 0xE8, CHR 0xBF, CHR 0x87, CHR 0xE9, CHR 0x95, CHR 0xBF,
     CHR 0xEF, CHR 0xBC, CHR 0x88, CHR 0xE6, CHR 0x9C, CHR 0x80, CHR 0xE5, CHR 0xA4, CHR 0x9A,
     CHR '' '']"

definition txt_title_string :: string where
  "txt_title_string =
    [CHR ''t'', CHR ''i'', CHR ''t'', CHR ''l'', CHR ''e'', CHR '' '', CHR 0xE9, CHR 0xA1,
     CHR 0xBB, CHR 0xE4, CHR 0xB8, CHR 0xBA, CHR 0xE5, CHR 0xAD, CHR 0x97, CHR 0xE7, CHR 0xAC,
     CHR 0xA6, CHR 0xE4, CHR 0xB8, CHR 0xB2]"

definition txt_title_empty :: string where
  "txt_title_empty =
    [CHR ''t'', CHR ''i'', CHR ''t'', CHR ''l'', CHR ''e'', CHR '' '', CHR 0xE4, CHR 0xB8,
     CHR 0x8D, CHR 0xE8, CHR 0x83, CHR 0xBD, CHR 0xE4, CHR 0xB8, CHR 0xBA, CHR 0xE7, CHR 0xA9,
     CHR 0xBA]"

definition txt_title_long :: string where
  "txt_title_long =
    [CHR ''t'', CHR ''i'', CHR ''t'', CHR ''l'', CHR ''e'', CHR '' '', CHR 0xE8, CHR 0xBF,
     CHR 0x87, CHR 0xE9, CHR 0x95, CHR 0xBF, CHR 0xEF, CHR 0xBC, CHR 0x88, CHR 0xE6, CHR 0x9C,
     CHR 0x80, CHR 0xE5, CHR 0xA4, CHR 0x9A, CHR '' '']"

definition txt_description_string :: string where
  "txt_description_string =
    [CHR ''d'', CHR ''e'', CHR ''s'', CHR ''c'', CHR ''r'', CHR ''i'', CHR ''p'', CHR ''t'',
     CHR ''i'', CHR ''o'', CHR ''n'', CHR '' '', CHR 0xE9, CHR 0xA1, CHR 0xBB, CHR 0xE4,
     CHR 0xB8, CHR 0xBA, CHR 0xE5, CHR 0xAD, CHR 0x97, CHR 0xE7, CHR 0xAC, CHR 0xA6, CHR 0xE4,
     CHR 0xB8, CHR 0xB2]"

definition txt_description_long :: string where
  "txt_description_long =
    [CHR ''d'', CHR ''e'', CHR ''s'', CHR ''c'', CHR ''r'', CHR ''i'', CHR ''p'', CHR ''t'',
     CHR ''i'', CHR ''o'', CHR ''n'', CHR '' '', CHR 0xE8, CHR 0xBF, CHR 0x87, CHR 0xE9,
     CHR 0x95, CHR 0xBF, CHR 0xEF, CHR 0xBC, CHR 0x88, CHR 0xE6, CHR 0x9C, CHR 0x80, CHR 0xE5,
     CHR 0xA4, CHR 0x9A, CHR '' '']"

definition txt_difficulty_string :: string where
  "txt_difficulty_string =
    [CHR ''d'', CHR ''i'', CHR ''f'', CHR ''f'', CHR ''i'', CHR ''c'', CHR ''u'', CHR ''l'',
     CHR ''t'', CHR ''y'', CHR '' '', CHR 0xE9, CHR 0xA1, CHR 0xBB, CHR 0xE4, CHR 0xB8,
     CHR 0xBA, CHR 0xE5, CHR 0xAD, CHR 0x97, CHR 0xE7, CHR 0xAC, CHR 0xA6, CHR 0xE4, CHR 0xB8,
     CHR 0xB2]"

definition txt_difficulty_bad :: string where
  "txt_difficulty_bad =
    [CHR 0xE9, CHR 0x9D, CHR 0x9E, CHR 0xE6, CHR 0xB3, CHR 0x95, CHR 0xE9, CHR 0x9A, CHR 0xBE,
     CHR 0xE5, CHR 0xBA, CHR 0xA6, CHR 0xEF, CHR 0xBC, CHR 0x9A, CHR 0xE4, CHR 0xBB, CHR 0x85,
     CHR 0xE6, CHR 0x94, CHR 0xAF, CHR 0xE6, CHR 0x8C, CHR 0x81, CHR '' '', CHR ''e'',
     CHR ''a'', CHR ''s'', CHR ''y'', CHR ''/'', CHR ''m'', CHR ''e'', CHR ''d'', CHR ''i'',
     CHR ''u'', CHR ''m'', CHR ''/'', CHR ''h'', CHR ''a'', CHR ''r'', CHR ''d'']"

definition txt_body_object :: string where
  "txt_body_object =
    [CHR 0xE8, CHR 0xAF, CHR 0xB7, CHR 0xE6, CHR 0xB1, CHR 0x82, CHR 0xE4, CHR 0xBD, CHR 0x93,
     CHR 0xE5, CHR 0xBF, CHR 0x85, CHR 0xE9, CHR 0xA1, CHR 0xBB, CHR 0xE6, CHR 0x98, CHR 0xAF,
     CHR '' '', CHR ''J'', CHR ''S'', CHR ''O'', CHR ''N'', CHR '' '', CHR 0xE5, CHR 0xAF,
     CHR 0xB9, CHR 0xE8, CHR 0xB1, CHR 0xA1]"

definition txt_missing_title :: string where
  "txt_missing_title =
    [CHR 0xE7, CHR 0xBC, CHR 0xBA, CHR 0xE5, CHR 0xB0, CHR 0x91, CHR 0xE5, CHR 0xBF, CHR 0x85,
     CHR 0xE5, CHR 0xA1, CHR 0xAB, CHR 0xE5, CHR 0xAD, CHR 0x97, CHR 0xE6, CHR 0xAE, CHR 0xB5,
     CHR 0xEF, CHR 0xBC, CHR 0x9A, CHR ''t'', CHR ''i'', CHR ''t'', CHR ''l'', CHR ''e'']"

definition txt_missing_difficulty :: string where
  "txt_missing_difficulty =
    [CHR 0xE7, CHR 0xBC, CHR 0xBA, CHR 0xE5, CHR 0xB0, CHR 0x91, CHR 0xE5, CHR 0xBF, CHR 0x85,
     CHR 0xE5, CHR 0xA1, CHR 0xAB, CHR 0xE5, CHR 0xAD, CHR 0x97, CHR 0xE6, CHR 0xAE, CHR 0xB5,
     CHR 0xEF, CHR 0xBC, CHR 0x9A, CHR ''d'', CHR ''i'', CHR ''f'', CHR ''f'', CHR ''i'',
     CHR ''c'', CHR ''u'', CHR ''l'', CHR ''t'', CHR ''y'']"

definition txt_visible_bool :: string where
  "txt_visible_bool =
    [CHR ''v'', CHR ''i'', CHR ''s'', CHR ''i'', CHR ''b'', CHR ''l'', CHR ''e'', CHR '' '',
     CHR 0xE9, CHR 0xA1, CHR 0xBB, CHR 0xE4, CHR 0xB8, CHR 0xBA, CHR 0xE5, CHR 0xB8, CHR 0x83,
     CHR 0xE5, CHR 0xB0, CHR 0x94, CHR 0xE5, CHR 0x80, CHR 0xBC]"

definition txt_nothing_to_update :: string where
  "txt_nothing_to_update =
    [CHR 0xE6, CHR 0xB2, CHR 0xA1, CHR 0xE6, CHR 0x9C, CHR 0x89, CHR 0xE5, CHR 0x8F, CHR 0xAF,
     CHR 0xE6, CHR 0x9B, CHR 0xB4, CHR 0xE6, CHR 0x96, CHR 0xB0, CHR 0xE7, CHR 0x9A, CHR 0x84,
     CHR 0xE5, CHR 0xAD, CHR 0x97, CHR 0xE6, CHR 0xAE, CHR 0xB5]"

definition txt_must_be_string :: string where
  "txt_must_be_string =
    [CHR '' '', CHR 0xE9, CHR 0xA1, CHR 0xBB, CHR 0xE4, CHR 0xB8, CHR 0xBA, CHR 0xE5, CHR 0xAD,
     CHR 0x97, CHR 0xE7, CHR 0xAC, CHR 0xA6, CHR 0xE4, CHR 0xB8, CHR 0xB2]"

definition txt_text_long :: string where
  "txt_text_long =
    [CHR '' '', CHR 0xE8, CHR 0xBF, CHR 0x87, CHR 0xE9, CHR 0x95, CHR 0xBF, CHR 0xEF, CHR 0xBC,
     CHR 0x88, CHR 0xE6, CHR 0x9C, CHR 0x80, CHR 0xE5, CHR 0xA4, CHR 0x9A, CHR '' '']"

definition txt_missing_input :: string where
  "txt_missing_input =
    [CHR 0xE7, CHR 0xBC, CHR 0xBA, CHR 0xE5, CHR 0xB0, CHR 0x91, CHR 0xE5, CHR 0xBF, CHR 0x85,
     CHR 0xE5, CHR 0xA1, CHR 0xAB, CHR 0xE5, CHR 0xAD, CHR 0x97, CHR 0xE6, CHR 0xAE, CHR 0xB5,
     CHR 0xEF, CHR 0xBC, CHR 0x9A, CHR ''i'', CHR ''n'', CHR ''p'', CHR ''u'', CHR ''t'']"

definition txt_missing_output :: string where
  "txt_missing_output =
    [CHR 0xE7, CHR 0xBC, CHR 0xBA, CHR 0xE5, CHR 0xB0, CHR 0x91, CHR 0xE5, CHR 0xBF, CHR 0x85,
     CHR 0xE5, CHR 0xA1, CHR 0xAB, CHR 0xE5, CHR 0xAD, CHR 0x97, CHR 0xE6, CHR 0xAE, CHR 0xB5,
     CHR 0xEF, CHR 0xBC, CHR 0x9A, CHR ''o'', CHR ''u'', CHR ''t'', CHR ''p'', CHR ''u'',
     CHR ''t'']"

definition txt_page_positive :: string where
  "txt_page_positive =
    [CHR ''p'', CHR ''a'', CHR ''g'', CHR ''e'', CHR '' '', CHR 0xE5, CHR 0xBF, CHR 0x85,
     CHR 0xE9, CHR 0xA1, CHR 0xBB, CHR 0xE4, CHR 0xB8, CHR 0xBA, CHR 0xE6, CHR 0xAD, CHR 0xA3,
     CHR 0xE6, CHR 0x95, CHR 0xB4, CHR 0xE6, CHR 0x95, CHR 0xB0]"

definition txt_page_range :: string where
  "txt_page_range =
    [CHR ''p'', CHR ''a'', CHR ''g'', CHR ''e'', CHR '' '', CHR 0xE8, CHR 0xB6, CHR 0x85,
     CHR 0xE5, CHR 0x87, CHR 0xBA, CHR 0xE5, CHR 0x85, CHR 0x81, CHR 0xE8, CHR 0xAE, CHR 0xB8,
     CHR 0xE8, CHR 0x8C, CHR 0x83, CHR 0xE5, CHR 0x9B, CHR 0xB4, CHR 0xEF, CHR 0xBC, CHR 0x88,
     CHR 0xE6, CHR 0x9C, CHR 0x80, CHR 0xE5, CHR 0xA4, CHR 0xA7, CHR '' '']"

definition txt_paren_close :: string where
  "txt_paren_close =
    [CHR 0xEF, CHR 0xBC, CHR 0x89]"

definition txt_visible_bad :: string where
  "txt_visible_bad =
    [CHR ''v'', CHR ''i'', CHR ''s'', CHR ''i'', CHR ''b'', CHR ''l'', CHR ''e'', CHR '' '',
     CHR 0xE5, CHR 0x8F, CHR 0x96, CHR 0xE5, CHR 0x80, CHR 0xBC, CHR 0xE9, CHR 0x9D, CHR 0x9E,
     CHR 0xE6, CHR 0xB3, CHR 0x95, CHR 0xEF, CHR 0xBC, CHR 0x9A, CHR 0xE4, CHR 0xBB, CHR 0x85,
     CHR 0xE6, CHR 0x94, CHR 0xAF, CHR 0xE6, CHR 0x8C, CHR 0x81, CHR '' '', CHR ''a'',
     CHR ''l'', CHR ''l'', CHR ''/'', CHR ''1'', CHR ''/'', CHR ''t'', CHR ''r'', CHR ''u'',
     CHR ''e'', CHR ''/'', CHR ''0'', CHR ''/'', CHR ''f'', CHR ''a'', CHR ''l'', CHR ''s'',
     CHR ''e'']"

definition txt_query_difficulty :: string where
  "txt_query_difficulty =
    [CHR ''d'', CHR ''i'', CHR ''f'', CHR ''f'', CHR ''i'', CHR ''c'', CHR ''u'', CHR ''l'',
     CHR ''t'', CHR ''y'', CHR '' '', CHR 0xE5, CHR 0x8F, CHR 0x96, CHR 0xE5, CHR 0x80,
     CHR 0xBC, CHR 0xE9, CHR 0x9D, CHR 0x9E, CHR 0xE6, CHR 0xB3, CHR 0x95, CHR 0xEF, CHR 0xBC,
     CHR 0x9A, CHR 0xE4, CHR 0xBB, CHR 0x85, CHR 0xE6, CHR 0x94, CHR 0xAF, CHR 0xE6, CHR 0x8C,
     CHR 0x81, CHR '' '', CHR ''e'', CHR ''a'', CHR ''s'', CHR ''y'', CHR ''/'', CHR ''m'',
     CHR ''e'', CHR ''d'', CHR ''i'', CHR ''u'', CHR ''m'', CHR ''/'', CHR ''h'', CHR ''a'',
     CHR ''r'', CHR ''d'']"

definition txt_leaderboard_page :: string where
  "txt_leaderboard_page =
    [CHR 0xE9, CHR 0x9D, CHR 0x9E, CHR 0xE6, CHR 0xB3, CHR 0x95, CHR 0xE7, CHR 0x9A, CHR 0x84,
     CHR 0xE5, CHR 0x88, CHR 0x86, CHR 0xE9, CHR 0xA1, CHR 0xB5, CHR 0xE5, CHR 0x8F, CHR 0x82,
     CHR 0xE6, CHR 0x95, CHR 0xB0]"

definition txt_user_missing :: string where
  "txt_user_missing =
    [CHR 0xE7, CHR 0x94, CHR 0xA8, CHR 0xE6, CHR 0x88, CHR 0xB7, CHR 0xE4, CHR 0xB8, CHR 0x8D,
     CHR 0xE5, CHR 0xAD, CHR 0x98, CHR 0xE5, CHR 0x9C, CHR 0xA8]"

definition txt_jwt_secret_missing :: string where
  "txt_jwt_secret_missing =
    [CHR 0xE7, CHR 0xBC, CHR 0xBA, CHR 0xE5, CHR 0xB0, CHR 0x91, CHR '' '', CHR ''J'',
     CHR ''W'', CHR ''T'', CHR '' '', CHR 0xE7, CHR 0xAD, CHR 0xBE, CHR 0xE5, CHR 0x90,
     CHR 0x8D, CHR 0xE5, CHR 0xAF, CHR 0x86, CHR 0xE9, CHR 0x92, CHR 0xA5, CHR 0xEF, CHR 0xBC,
     CHR 0x9A, CHR 0xE8, CHR 0xAF, CHR 0xB7, CHR 0xE9, CHR 0x80, CHR 0x9A, CHR 0xE8, CHR 0xBF,
     CHR 0x87, CHR 0xE7, CHR 0x8E, CHR 0xAF, CHR 0xE5, CHR 0xA2, CHR 0x83, CHR 0xE5, CHR 0x8F,
     CHR 0x98, CHR 0xE9, CHR 0x87, CHR 0x8F, CHR '' '', CHR ''O'', CHR ''J'', CHR ''_'',
     CHR ''J'', CHR ''W'', CHR ''T'', CHR ''_'', CHR ''S'', CHR ''E'', CHR ''C'', CHR ''R'',
     CHR ''E'', CHR ''T'', CHR '' '', CHR 0xE6, CHR 0x8F, CHR 0x90, CHR 0xE4, CHR 0xBE,
     CHR 0x9B, CHR 0xEF, CHR 0xBC, CHR 0x88, CHR 0xE4, CHR 0xB8, CHR 0x8D, CHR 0xE5, CHR 0xBE,
     CHR 0x97, CHR 0xE4, CHR 0xBD, CHR 0xBF, CHR 0xE7, CHR 0x94, CHR 0xA8, CHR 0xE5, CHR 0x85,
     CHR 0xAC, CHR 0xE5, CHR 0xBC, CHR 0x80, CHR 0xE9, CHR 0xBB, CHR 0x98, CHR 0xE8, CHR 0xAE,
     CHR 0xA4, CHR 0xE5, CHR 0x80, CHR 0xBC, CHR 0xEF, CHR 0xBC, CHR 0x8C, CHR 0xE9, CHR 0x95,
     CHR 0xBF, CHR 0xE5, CHR 0xBA, CHR 0xA6, CHR 0xE4, CHR 0xB8, CHR 0x8D, CHR 0xE5, CHR 0xB0,
     CHR 0x91, CHR 0xE4, CHR 0xBA, CHR 0x8E, CHR '' '']"

definition txt_jwt_secret_short :: string where
  "txt_jwt_secret_short =
    [CHR ''J'', CHR ''W'', CHR ''T'', CHR '' '', CHR 0xE7, CHR 0xAD, CHR 0xBE, CHR 0xE5,
     CHR 0x90, CHR 0x8D, CHR 0xE5, CHR 0xAF, CHR 0x86, CHR 0xE9, CHR 0x92, CHR 0xA5, CHR 0xE6,
     CHR 0x97, CHR 0xA0, CHR 0xE6, CHR 0x95, CHR 0x88, CHR 0xEF, CHR 0xBC, CHR 0x9A, CHR ''O'',
     CHR ''J'', CHR ''_'', CHR ''J'', CHR ''W'', CHR ''T'', CHR ''_'', CHR ''S'', CHR ''E'',
     CHR ''C'', CHR ''R'', CHR ''E'', CHR ''T'', CHR '' '', CHR 0xE9, CHR 0x95, CHR 0xBF,
     CHR 0xE5, CHR 0xBA, CHR 0xA6, CHR 0xE4, CHR 0xB8, CHR 0x8D, CHR 0xE8, CHR 0xB6, CHR 0xB3,
     CHR '' '']"

definition txt_jwt_bytes :: string where
  "txt_jwt_bytes =
    [CHR '' '', CHR 0xE5, CHR 0xAD, CHR 0x97, CHR 0xE8, CHR 0x8A, CHR 0x82]"

definition txt_jwt_bytes_close :: string where
  "txt_jwt_bytes_close =
    [CHR '' '', CHR 0xE5, CHR 0xAD, CHR 0x97, CHR 0xE8, CHR 0x8A, CHR 0x82, CHR 0xEF, CHR 0xBC,
     CHR 0x89]"

definition txt_jwt_expires_bad :: string where
  "txt_jwt_expires_bad =
    [CHR ''J'', CHR ''W'', CHR ''T'', CHR '' '', CHR 0xE6, CHR 0x9C, CHR 0x89, CHR 0xE6,
     CHR 0x95, CHR 0x88, CHR 0xE6, CHR 0x9C, CHR 0x9F, CHR 0xE6, CHR 0x97, CHR 0xA0, CHR 0xE6,
     CHR 0x95, CHR 0x88, CHR 0xEF, CHR 0xBC, CHR 0x9A, CHR ''O'', CHR ''J'', CHR ''_'',
     CHR ''J'', CHR ''W'', CHR ''T'', CHR ''_'', CHR ''E'', CHR ''X'', CHR ''P'', CHR ''I'',
     CHR ''R'', CHR ''E'', CHR ''S'', CHR ''_'', CHR ''S'', CHR ''E'', CHR ''C'', CHR ''O'',
     CHR ''N'', CHR ''D'', CHR ''S'', CHR '' '', CHR 0xE9, CHR 0xA1, CHR 0xBB, CHR 0xE4,
     CHR 0xB8, CHR 0xBA, CHR '' '', CHR ''1'', CHR ''.'', CHR ''.'', CHR ''3'', CHR ''1'',
     CHR ''5'', CHR ''3'', CHR ''6'', CHR ''0'', CHR ''0'', CHR ''0'', CHR '' '', CHR 0xE4,
     CHR 0xB9, CHR 0x8B, CHR 0xE9, CHR 0x97, CHR 0xB4, CHR 0xE7, CHR 0x9A, CHR 0x84, CHR 0xE6,
     CHR 0x95, CHR 0xB4, CHR 0xE6, CHR 0x95, CHR 0xB0]"

definition txt_jwt_bad_user :: string where
  "txt_jwt_bad_user =
    [CHR 0xE9, CHR 0x9D, CHR 0x9E, CHR 0xE6, CHR 0xB3, CHR 0x95, CHR 0xE7, CHR 0x94, CHR 0xA8,
     CHR 0xE6, CHR 0x88, CHR 0xB7, CHR '' '', CHR ''I'', CHR ''D'']"

definition txt_jwt_sign_failed :: string where
  "txt_jwt_sign_failed =
    [CHR ''J'', CHR ''W'', CHR ''T'', CHR '' '', CHR 0xE7, CHR 0xAD, CHR 0xBE, CHR 0xE5,
     CHR 0x8F, CHR 0x91, CHR 0xE5, CHR 0xA4, CHR 0xB1, CHR 0xE8, CHR 0xB4, CHR 0xA5, CHR '':'',
     CHR '' '']"

definition txt_jwt_verify_failed :: string where
  "txt_jwt_verify_failed =
    [CHR ''J'', CHR ''W'', CHR ''T'', CHR '' '', CHR 0xE6, CHR 0xA0, CHR 0xA1, CHR 0xE9,
     CHR 0xAA, CHR 0x8C, CHR 0xE5, CHR 0xA4, CHR 0xB1, CHR 0xE8, CHR 0xB4, CHR 0xA5, CHR '':'',
     CHR '' '']"

definition txt_jwt_no_exp :: string where
  "txt_jwt_no_exp =
    [CHR ''J'', CHR ''W'', CHR ''T'', CHR '' '', CHR 0xE7, CHR 0xBC, CHR 0xBA, CHR 0xE5,
     CHR 0xB0, CHR 0x91, CHR '' '', CHR ''e'', CHR ''x'', CHR ''p'', CHR '' '', CHR 0xE5,
     CHR 0xA3, CHR 0xB0, CHR 0xE6, CHR 0x98, CHR 0x8E]"

definition txt_jwt_no_iat :: string where
  "txt_jwt_no_iat =
    [CHR ''J'', CHR ''W'', CHR ''T'', CHR '' '', CHR 0xE7, CHR 0xBC, CHR 0xBA, CHR 0xE5,
     CHR 0xB0, CHR 0x91, CHR '' '', CHR ''i'', CHR ''a'', CHR ''t'', CHR '' '', CHR 0xE5,
     CHR 0xA3, CHR 0xB0, CHR 0xE6, CHR 0x98, CHR 0x8E]"

definition txt_jwt_no_sub :: string where
  "txt_jwt_no_sub =
    [CHR ''J'', CHR ''W'', CHR ''T'', CHR '' '', CHR 0xE7, CHR 0xBC, CHR 0xBA, CHR 0xE5,
     CHR 0xB0, CHR 0x91, CHR '' '', CHR ''s'', CHR ''u'', CHR ''b'', CHR '' '', CHR 0xE5,
     CHR 0xA3, CHR 0xB0, CHR 0xE6, CHR 0x98, CHR 0x8E]"

definition txt_jwt_bad_sub :: string where
  "txt_jwt_bad_sub =
    [CHR ''J'', CHR ''W'', CHR ''T'', CHR '' '', CHR ''s'', CHR ''u'', CHR ''b'', CHR '' '',
     CHR 0xE5, CHR 0xA3, CHR 0xB0, CHR 0xE6, CHR 0x98, CHR 0x8E, CHR 0xE6, CHR 0xA0, CHR 0xBC,
     CHR 0xE5, CHR 0xBC, CHR 0x8F, CHR 0xE9, CHR 0x9D, CHR 0x9E, CHR 0xE6, CHR 0xB3, CHR 0x95]"

definition txt_jwt_parse_failed :: string where
  "txt_jwt_parse_failed =
    [CHR ''J'', CHR ''W'', CHR ''T'', CHR '' '', CHR 0xE8, CHR 0xA7, CHR 0xA3, CHR 0xE6,
     CHR 0x9E, CHR 0x90, CHR 0xE5, CHR 0xA4, CHR 0xB1, CHR 0xE8, CHR 0xB4, CHR 0xA5, CHR '':'',
     CHR '' '']"

definition txt_salt_failed :: string where
  "txt_salt_failed =
    [CHR 0xE6, CHR 0x97, CHR 0xA0, CHR 0xE6, CHR 0xB3, CHR 0x95, CHR 0xE4, CHR 0xBB, CHR 0x8E,
     CHR '' '', CHR ''/'', CHR ''d'', CHR ''e'', CHR ''v'', CHR ''/'', CHR ''u'', CHR ''r'',
     CHR ''a'', CHR ''n'', CHR ''d'', CHR ''o'', CHR ''m'', CHR '' '', CHR 0xE8, CHR 0xAF,
     CHR 0xBB, CHR 0xE5, CHR 0x8F, CHR 0x96, CHR 0xE9, CHR 0x9A, CHR 0x8F, CHR 0xE6, CHR 0x9C,
     CHR 0xBA, CHR 0xE7, CHR 0x9B, CHR 0x90]"

definition txt_hash_failed :: string where
  "txt_hash_failed =
    [CHR ''a'', CHR ''r'', CHR ''g'', CHR ''o'', CHR ''n'', CHR ''2'', CHR ''i'', CHR ''d'',
     CHR '' '', CHR 0xE5, CHR 0x93, CHR 0x88, CHR 0xE5, CHR 0xB8, CHR 0x8C, CHR 0xE5, CHR 0xA4,
     CHR 0xB1, CHR 0xE8, CHR 0xB4, CHR 0xA5, CHR '':'', CHR '' '']"

definition txt_verify_failed :: string where
  "txt_verify_failed =
    [CHR ''a'', CHR ''r'', CHR ''g'', CHR ''o'', CHR ''n'', CHR ''2'', CHR ''i'', CHR ''d'',
     CHR '' '', CHR 0xE6, CHR 0xA0, CHR 0xA1, CHR 0xE9, CHR 0xAA, CHR 0x8C, CHR 0xE5, CHR 0xA4,
     CHR 0xB1, CHR 0xE8, CHR 0xB4, CHR 0xA5, CHR '':'', CHR '' '']"

definition txt_auth_internal :: string where
  "txt_auth_internal =
    [CHR 0xE5, CHR 0x86, CHR 0x85, CHR 0xE9, CHR 0x83, CHR 0xA8, CHR 0xE9, CHR 0x94, CHR 0x99,
     CHR 0xE8, CHR 0xAF, CHR 0xAF]"

definition txt_user_body_object :: string where
  "txt_user_body_object =
    [CHR 0xE8, CHR 0xAF, CHR 0xB7, CHR 0xE6, CHR 0xB1, CHR 0x82, CHR 0xE4, CHR 0xBD, CHR 0x93,
     CHR 0xE5, CHR 0xBF, CHR 0x85, CHR 0xE9, CHR 0xA1, CHR 0xBB, CHR 0xE6, CHR 0x98, CHR 0xAF,
     CHR '' '', CHR ''J'', CHR ''S'', CHR ''O'', CHR ''N'', CHR '' '', CHR 0xE5, CHR 0xAF,
     CHR 0xB9, CHR 0xE8, CHR 0xB1, CHR 0xA1]"

definition txt_action_string :: string where
  "txt_action_string =
    [CHR 0xE7, CHR 0xBC, CHR 0xBA, CHR 0xE5, CHR 0xB0, CHR 0x91, CHR 0xE5, CHR 0xAD, CHR 0x97,
     CHR 0xE6, CHR 0xAE, CHR 0xB5, CHR 0xE6, CHR 0x88, CHR 0x96, CHR 0xE7, CHR 0xB1, CHR 0xBB,
     CHR 0xE5, CHR 0x9E, CHR 0x8B, CHR 0xE9, CHR 0x94, CHR 0x99, CHR 0xE8, CHR 0xAF, CHR 0xAF,
     CHR 0xEF, CHR 0xBC, CHR 0x9A, CHR ''a'', CHR ''c'', CHR ''t'', CHR ''i'', CHR ''o'',
     CHR ''n'', CHR '' '', CHR 0xE9, CHR 0xA1, CHR 0xBB, CHR 0xE4, CHR 0xB8, CHR 0xBA, CHR 0xE5,
     CHR 0xAD, CHR 0x97, CHR 0xE7, CHR 0xAC, CHR 0xA6, CHR 0xE4, CHR 0xB8, CHR 0xB2]"

definition txt_action_unknown :: string where
  "txt_action_unknown =
    [CHR 0xE6, CHR 0x9C, CHR 0xAA, CHR 0xE7, CHR 0x9F, CHR 0xA5, CHR 0xE6, CHR 0x93, CHR 0x8D,
     CHR 0xE4, CHR 0xBD, CHR 0x9C, CHR 0xEF, CHR 0xBC, CHR 0x9A, CHR ''a'', CHR ''c'',
     CHR ''t'', CHR ''i'', CHR ''o'', CHR ''n'', CHR '' '', CHR 0xE4, CHR 0xBB, CHR 0x85,
     CHR 0xE6, CHR 0x94, CHR 0xAF, CHR 0xE6, CHR 0x8C, CHR 0x81, CHR '' '', CHR ''r'',
     CHR ''e'', CHR ''s'', CHR ''e'', CHR ''t'', CHR ''_'', CHR ''p'', CHR ''a'', CHR ''s'',
     CHR ''s'', CHR ''w'', CHR ''o'', CHR ''r'', CHR ''d'', CHR '' '', CHR ''/'', CHR '' '',
     CHR ''c'', CHR ''h'', CHR ''a'', CHR ''n'', CHR ''g'', CHR ''e'', CHR ''_'', CHR ''r'',
     CHR ''o'', CHR ''l'', CHR ''e'']"

definition txt_user_id_positive :: string where
  "txt_user_id_positive =
    [CHR 0xE7, CHR 0xBC, CHR 0xBA, CHR 0xE5, CHR 0xB0, CHR 0x91, CHR 0xE5, CHR 0xAD, CHR 0x97,
     CHR 0xE6, CHR 0xAE, CHR 0xB5, CHR 0xE6, CHR 0x88, CHR 0x96, CHR 0xE7, CHR 0xB1, CHR 0xBB,
     CHR 0xE5, CHR 0x9E, CHR 0x8B, CHR 0xE9, CHR 0x94, CHR 0x99, CHR 0xE8, CHR 0xAF, CHR 0xAF,
     CHR 0xEF, CHR 0xBC, CHR 0x9A, CHR ''u'', CHR ''s'', CHR ''e'', CHR ''r'', CHR ''_'',
     CHR ''i'', CHR ''d'', CHR '' '', CHR 0xE9, CHR 0xA1, CHR 0xBB, CHR 0xE4, CHR 0xB8,
     CHR 0xBA, CHR 0xE6, CHR 0xAD, CHR 0xA3, CHR 0xE6, CHR 0x95, CHR 0xB4, CHR 0xE6, CHR 0x95,
     CHR 0xB0]"

definition txt_new_password_string :: string where
  "txt_new_password_string =
    [CHR 0xE7, CHR 0xBC, CHR 0xBA, CHR 0xE5, CHR 0xB0, CHR 0x91, CHR 0xE5, CHR 0xAD, CHR 0x97,
     CHR 0xE6, CHR 0xAE, CHR 0xB5, CHR 0xE6, CHR 0x88, CHR 0x96, CHR 0xE7, CHR 0xB1, CHR 0xBB,
     CHR 0xE5, CHR 0x9E, CHR 0x8B, CHR 0xE9, CHR 0x94, CHR 0x99, CHR 0xE8, CHR 0xAF, CHR 0xAF,
     CHR 0xEF, CHR 0xBC, CHR 0x9A, CHR ''n'', CHR ''e'', CHR ''w'', CHR ''_'', CHR ''p'',
     CHR ''a'', CHR ''s'', CHR ''s'', CHR ''w'', CHR ''o'', CHR ''r'', CHR ''d'', CHR '' '',
     CHR 0xE9, CHR 0xA1, CHR 0xBB, CHR 0xE4, CHR 0xB8, CHR 0xBA, CHR 0xE5, CHR 0xAD, CHR 0x97,
     CHR 0xE7, CHR 0xAC, CHR 0xA6, CHR 0xE4, CHR 0xB8, CHR 0xB2]"

definition txt_new_password_bad :: string where
  "txt_new_password_bad =
    [CHR ''n'', CHR ''e'', CHR ''w'', CHR ''_'', CHR ''p'', CHR ''a'', CHR ''s'', CHR ''s'',
     CHR ''w'', CHR ''o'', CHR ''r'', CHR ''d'', CHR '' '', CHR 0xE9, CHR 0x9D, CHR 0x9E,
     CHR 0xE6, CHR 0xB3, CHR 0x95, CHR 0xEF, CHR 0xBC, CHR 0x9A]"

definition txt_role_string :: string where
  "txt_role_string =
    [CHR 0xE7, CHR 0xBC, CHR 0xBA, CHR 0xE5, CHR 0xB0, CHR 0x91, CHR 0xE5, CHR 0xAD, CHR 0x97,
     CHR 0xE6, CHR 0xAE, CHR 0xB5, CHR 0xE6, CHR 0x88, CHR 0x96, CHR 0xE7, CHR 0xB1, CHR 0xBB,
     CHR 0xE5, CHR 0x9E, CHR 0x8B, CHR 0xE9, CHR 0x94, CHR 0x99, CHR 0xE8, CHR 0xAF, CHR 0xAF,
     CHR 0xEF, CHR 0xBC, CHR 0x9A, CHR ''r'', CHR ''o'', CHR ''l'', CHR ''e'', CHR '' '',
     CHR 0xE9, CHR 0xA1, CHR 0xBB, CHR 0xE4, CHR 0xB8, CHR 0xBA, CHR 0xE5, CHR 0xAD, CHR 0x97,
     CHR 0xE7, CHR 0xAC, CHR 0xA6, CHR 0xE4, CHR 0xB8, CHR 0xB2]"

definition txt_role_bad :: string where
  "txt_role_bad =
    [CHR ''r'', CHR ''o'', CHR ''l'', CHR ''e'', CHR '' '', CHR 0xE5, CHR 0x8F, CHR 0x96,
     CHR 0xE5, CHR 0x80, CHR 0xBC, CHR 0xE9, CHR 0x9D, CHR 0x9E, CHR 0xE6, CHR 0xB3, CHR 0x95,
     CHR 0xEF, CHR 0xBC, CHR 0x9A, CHR 0xE4, CHR 0xBB, CHR 0x85, CHR 0xE6, CHR 0x94, CHR 0xAF,
     CHR 0xE6, CHR 0x8C, CHR 0x81, CHR '' '', CHR ''a'', CHR ''d'', CHR ''m'', CHR ''i'',
     CHR ''n'', CHR ''/'', CHR ''u'', CHR ''s'', CHR ''e'', CHR ''r'']"

definition txt_host_arg :: string where
  "txt_host_arg =
    [CHR 0xE9, CHR 0x94, CHR 0x99, CHR 0xE8, CHR 0xAF, CHR 0xAF, CHR '':'', CHR '' '',
     CHR ''-'', CHR ''-'', CHR ''h'', CHR ''o'', CHR ''s'', CHR ''t'', CHR '' '', CHR 0xE9,
     CHR 0x9C, CHR 0x80, CHR 0xE8, CHR 0xA6, CHR 0x81, CHR 0xE4, CHR 0xB8, CHR 0x80, CHR 0xE4,
     CHR 0xB8, CHR 0xAA, CHR 0xE5, CHR 0x8F, CHR 0x82, CHR 0xE6, CHR 0x95, CHR 0xB0]"

definition txt_db_arg :: string where
  "txt_db_arg =
    [CHR 0xE9, CHR 0x94, CHR 0x99, CHR 0xE8, CHR 0xAF, CHR 0xAF, CHR '':'', CHR '' '',
     CHR ''-'', CHR ''-'', CHR ''d'', CHR ''b'', CHR '' '', CHR 0xE9, CHR 0x9C, CHR 0x80,
     CHR 0xE8, CHR 0xA6, CHR 0x81, CHR 0xE4, CHR 0xB8, CHR 0x80, CHR 0xE4, CHR 0xB8, CHR 0xAA,
     CHR 0xE5, CHR 0x8F, CHR 0x82, CHR 0xE6, CHR 0x95, CHR 0xB0]"

definition txt_web_arg :: string where
  "txt_web_arg =
    [CHR 0xE9, CHR 0x94, CHR 0x99, CHR 0xE8, CHR 0xAF, CHR 0xAF, CHR '':'', CHR '' '',
     CHR ''-'', CHR ''-'', CHR ''w'', CHR ''e'', CHR ''b'', CHR '' '', CHR 0xE9, CHR 0x9C,
     CHR 0x80, CHR 0xE8, CHR 0xA6, CHR 0x81, CHR 0xE4, CHR 0xB8, CHR 0x80, CHR 0xE4, CHR 0xB8,
     CHR 0xAA, CHR 0xE5, CHR 0x8F, CHR 0x82, CHR 0xE6, CHR 0x95, CHR 0xB0]"

definition txt_port_arg :: string where
  "txt_port_arg =
    [CHR 0xE9, CHR 0x94, CHR 0x99, CHR 0xE8, CHR 0xAF, CHR 0xAF, CHR '':'', CHR '' '',
     CHR ''-'', CHR ''-'', CHR ''p'', CHR ''o'', CHR ''r'', CHR ''t'', CHR '' '', CHR 0xE9,
     CHR 0x9C, CHR 0x80, CHR 0xE8, CHR 0xA6, CHR 0x81, CHR 0xE4, CHR 0xB8, CHR 0x80, CHR 0xE4,
     CHR 0xB8, CHR 0xAA, CHR 0xE5, CHR 0x8F, CHR 0x82, CHR 0xE6, CHR 0x95, CHR 0xB0]"

definition txt_host_empty :: string where
  "txt_host_empty =
    [CHR 0xE9, CHR 0x94, CHR 0x99, CHR 0xE8, CHR 0xAF, CHR 0xAF, CHR '':'', CHR '' '',
     CHR ''-'', CHR ''-'', CHR ''h'', CHR ''o'', CHR ''s'', CHR ''t'', CHR '' '', CHR 0xE5,
     CHR 0x8F, CHR 0x82, CHR 0xE6, CHR 0x95, CHR 0xB0, CHR 0xE4, CHR 0xB8, CHR 0x8D, CHR 0xE8,
     CHR 0x83, CHR 0xBD, CHR 0xE4, CHR 0xB8, CHR 0xBA, CHR 0xE7, CHR 0xA9, CHR 0xBA]"

definition txt_db_empty :: string where
  "txt_db_empty =
    [CHR 0xE9, CHR 0x94, CHR 0x99, CHR 0xE8, CHR 0xAF, CHR 0xAF, CHR '':'', CHR '' '',
     CHR ''-'', CHR ''-'', CHR ''d'', CHR ''b'', CHR '' '', CHR 0xE5, CHR 0x8F, CHR 0x82,
     CHR 0xE6, CHR 0x95, CHR 0xB0, CHR 0xE4, CHR 0xB8, CHR 0x8D, CHR 0xE8, CHR 0x83, CHR 0xBD,
     CHR 0xE4, CHR 0xB8, CHR 0xBA, CHR 0xE7, CHR 0xA9, CHR 0xBA]"

definition txt_web_empty :: string where
  "txt_web_empty =
    [CHR 0xE9, CHR 0x94, CHR 0x99, CHR 0xE8, CHR 0xAF, CHR 0xAF, CHR '':'', CHR '' '',
     CHR ''-'', CHR ''-'', CHR ''w'', CHR ''e'', CHR ''b'', CHR '' '', CHR 0xE5, CHR 0x8F,
     CHR 0x82, CHR 0xE6, CHR 0x95, CHR 0xB0, CHR 0xE4, CHR 0xB8, CHR 0x8D, CHR 0xE8, CHR 0x83,
     CHR 0xBD, CHR 0xE4, CHR 0xB8, CHR 0xBA, CHR 0xE7, CHR 0xA9, CHR 0xBA]"

definition txt_port_bad_1 :: string where
  "txt_port_bad_1 =
    [CHR 0xE9, CHR 0x94, CHR 0x99, CHR 0xE8, CHR 0xAF, CHR 0xAF, CHR '':'', CHR '' '', CHR 0xE9,
     CHR 0x9D, CHR 0x9E, CHR 0xE6, CHR 0xB3, CHR 0x95, CHR 0xE7, CHR 0xAB, CHR 0xAF, CHR 0xE5,
     CHR 0x8F, CHR 0xA3, CHR '' '', CHR 0x22]"

definition txt_port_bad_2 :: string where
  "txt_port_bad_2 =
    [CHR 0x22, CHR 0xEF, CHR 0xBC, CHR 0x88, CHR 0xE7, CHR 0xAB, CHR 0xAF, CHR 0xE5, CHR 0x8F,
     CHR 0xA3, CHR 0xE9, CHR 0xA1, CHR 0xBB, CHR 0xE4, CHR 0xB8, CHR 0xBA, CHR '' '', CHR ''1'',
     CHR ''-'', CHR ''6'', CHR ''5'', CHR ''5'', CHR ''3'', CHR ''5'', CHR '' '', CHR 0xE4,
     CHR 0xB9, CHR 0x8B, CHR 0xE9, CHR 0x97, CHR 0xB4, CHR 0xE7, CHR 0x9A, CHR 0x84, CHR 0xE6,
     CHR 0x95, CHR 0xB4, CHR 0xE6, CHR 0x95, CHR 0xB0, CHR 0xEF, CHR 0xBC, CHR 0x89]"

definition txt_unknown_arg :: string where
  "txt_unknown_arg =
    [CHR 0xE9, CHR 0x94, CHR 0x99, CHR 0xE8, CHR 0xAF, CHR 0xAF, CHR '':'', CHR '' '', CHR 0xE6,
     CHR 0x9C, CHR 0xAA, CHR 0xE7, CHR 0x9F, CHR 0xA5, CHR 0xE5, CHR 0x8F, CHR 0x82, CHR 0xE6,
     CHR 0x95, CHR 0xB0, CHR '' '', CHR 0x22]"

definition txt_tmpfs_bad :: string where
  "txt_tmpfs_bad =
    [CHR ''O'', CHR ''J'', CHR ''_'', CHR ''J'', CHR ''U'', CHR ''D'', CHR ''G'', CHR ''E'',
     CHR ''_'', CHR ''A'', CHR ''L'', CHR ''L'', CHR ''O'', CHR ''W'', CHR ''_'', CHR ''N'',
     CHR ''O'', CHR ''N'', CHR ''_'', CHR ''T'', CHR ''M'', CHR ''P'', CHR ''F'', CHR ''S'',
     CHR '' '', CHR 0xE5, CHR 0x8F, CHR 0x96, CHR 0xE5, CHR 0x80, CHR 0xBC, CHR 0xE9, CHR 0x9D,
     CHR 0x9E, CHR 0xE6, CHR 0xB3, CHR 0x95, CHR 0xEF, CHR 0xBC, CHR 0x88, CHR 0xE5, CHR 0xBA,
     CHR 0x94, CHR 0xE4, CHR 0xB8, CHR 0xBA, CHR '' '', CHR ''1'', CHR ''/'', CHR ''0'',
     CHR 0xEF, CHR 0xBC, CHR 0x89, CHR '':'', CHR '' '', CHR 0x22]"

definition txt_env_empty :: string where
  "txt_env_empty =
    [CHR '' '', CHR 0xE4, CHR 0xB8, CHR 0x8D, CHR 0xE8, CHR 0x83, CHR 0xBD, CHR 0xE4, CHR 0xB8,
     CHR 0xBA, CHR 0xE7, CHR 0xA9, CHR 0xBA]"

definition txt_env_positive :: string where
  "txt_env_positive =
    [CHR '' '', CHR 0xE5, CHR 0xBF, CHR 0x85, CHR 0xE9, CHR 0xA1, CHR 0xBB, CHR 0xE6, CHR 0x98,
     CHR 0xAF, CHR 0xE6, CHR 0xAD, CHR 0xA3, CHR 0xE6, CHR 0x95, CHR 0xB4, CHR 0xE6, CHR 0x95,
     CHR 0xB0, CHR 0xEF, CHR 0xBC, CHR 0x8C, CHR 0xE6, CHR 0x94, CHR 0xB6, CHR 0xE5, CHR 0x88,
     CHR 0xB0, CHR '' '', CHR 0x22]"

definition txt_env_number :: string where
  "txt_env_number =
    [CHR '' '', CHR 0xE6, CHR 0x95, CHR 0xB0, CHR 0xE5, CHR 0x80, CHR 0xBC, CHR 0xE9, CHR 0x9D,
     CHR 0x9E, CHR 0xE6, CHR 0xB3, CHR 0x95, CHR '':'', CHR '' '', CHR 0x22]"

definition txt_env_range_1 :: string where
  "txt_env_range_1 =
    [CHR '' '', CHR 0xE9, CHR 0xA1, CHR 0xBB, CHR 0xE5, CHR 0x9C, CHR 0xA8, CHR '' '',
     CHR ''1'', CHR ''.'', CHR ''.'']"

definition txt_env_range_2 :: string where
  "txt_env_range_2 =
    [CHR '' '', CHR 0xE4, CHR 0xB9, CHR 0x8B, CHR 0xE9, CHR 0x97, CHR 0xB4, CHR 0xEF, CHR 0xBC,
     CHR 0x8C, CHR 0xE6, CHR 0x94, CHR 0xB6, CHR 0xE5, CHR 0x88, CHR 0xB0, CHR '' '', CHR 0x22]"

definition http_bad_json :: string where
  "http_bad_json =
    [CHR 0xE8, CHR 0xAF, CHR 0xB7, CHR 0xE6, CHR 0xB1, CHR 0x82, CHR 0xE4, CHR 0xBD, CHR 0x93,
     CHR 0xE4, CHR 0xB8, CHR 0x8D, CHR 0xE6, CHR 0x98, CHR 0xAF, CHR 0xE5, CHR 0x90, CHR 0x88,
     CHR 0xE6, CHR 0xB3, CHR 0x95, CHR 0xE7, CHR 0x9A, CHR 0x84, CHR '' '', CHR ''J'',
     CHR ''S'', CHR ''O'', CHR ''N'']"

definition http_body_object :: string where
  "http_body_object =
    [CHR 0xE8, CHR 0xAF, CHR 0xB7, CHR 0xE6, CHR 0xB1, CHR 0x82, CHR 0xE4, CHR 0xBD, CHR 0x93,
     CHR 0xE5, CHR 0xBF, CHR 0x85, CHR 0xE9, CHR 0xA1, CHR 0xBB, CHR 0xE6, CHR 0x98, CHR 0xAF,
     CHR '' '', CHR ''J'', CHR ''S'', CHR ''O'', CHR ''N'', CHR '' '', CHR 0xE5, CHR 0xAF,
     CHR 0xB9, CHR 0xE8, CHR 0xB1, CHR 0xA1]"

definition http_account_string :: string where
  "http_account_string =
    [CHR 0xE7, CHR 0xBC, CHR 0xBA, CHR 0xE5, CHR 0xB0, CHR 0x91, CHR 0xE5, CHR 0xAD, CHR 0x97,
     CHR 0xE6, CHR 0xAE, CHR 0xB5, CHR 0xE6, CHR 0x88, CHR 0x96, CHR 0xE7, CHR 0xB1, CHR 0xBB,
     CHR 0xE5, CHR 0x9E, CHR 0x8B, CHR 0xE9, CHR 0x94, CHR 0x99, CHR 0xE8, CHR 0xAF, CHR 0xAF,
     CHR 0xEF, CHR 0xBC, CHR 0x9A, CHR ''a'', CHR ''c'', CHR ''c'', CHR ''o'', CHR ''u'',
     CHR ''n'', CHR ''t'', CHR '' '', CHR 0xE9, CHR 0xA1, CHR 0xBB, CHR 0xE4, CHR 0xB8,
     CHR 0xBA, CHR 0xE5, CHR 0xAD, CHR 0x97, CHR 0xE7, CHR 0xAC, CHR 0xA6, CHR 0xE4, CHR 0xB8,
     CHR 0xB2]"

definition http_password_string :: string where
  "http_password_string =
    [CHR 0xE7, CHR 0xBC, CHR 0xBA, CHR 0xE5, CHR 0xB0, CHR 0x91, CHR 0xE5, CHR 0xAD, CHR 0x97,
     CHR 0xE6, CHR 0xAE, CHR 0xB5, CHR 0xE6, CHR 0x88, CHR 0x96, CHR 0xE7, CHR 0xB1, CHR 0xBB,
     CHR 0xE5, CHR 0x9E, CHR 0x8B, CHR 0xE9, CHR 0x94, CHR 0x99, CHR 0xE8, CHR 0xAF, CHR 0xAF,
     CHR 0xEF, CHR 0xBC, CHR 0x9A, CHR ''p'', CHR ''a'', CHR ''s'', CHR ''s'', CHR ''w'',
     CHR ''o'', CHR ''r'', CHR ''d'', CHR '' '', CHR 0xE9, CHR 0xA1, CHR 0xBB, CHR 0xE4,
     CHR 0xB8, CHR 0xBA, CHR 0xE5, CHR 0xAD, CHR 0x97, CHR 0xE7, CHR 0xAC, CHR 0xA6, CHR 0xE4,
     CHR 0xB8, CHR 0xB2]"

definition http_login_empty :: string where
  "http_login_empty =
    [CHR ''a'', CHR ''c'', CHR ''c'', CHR ''o'', CHR ''u'', CHR ''n'', CHR ''t'', CHR '' '',
     CHR 0xE4, CHR 0xB8, CHR 0x8E, CHR '' '', CHR ''p'', CHR ''a'', CHR ''s'', CHR ''s'',
     CHR ''w'', CHR ''o'', CHR ''r'', CHR ''d'', CHR '' '', CHR 0xE4, CHR 0xB8, CHR 0x8D,
     CHR 0xE8, CHR 0x83, CHR 0xBD, CHR 0xE4, CHR 0xB8, CHR 0xBA, CHR 0xE7, CHR 0xA9, CHR 0xBA]"

definition http_old_password_string :: string where
  "http_old_password_string =
    [CHR 0xE7, CHR 0xBC, CHR 0xBA, CHR 0xE5, CHR 0xB0, CHR 0x91, CHR 0xE5, CHR 0xAD, CHR 0x97,
     CHR 0xE6, CHR 0xAE, CHR 0xB5, CHR 0xE6, CHR 0x88, CHR 0x96, CHR 0xE7, CHR 0xB1, CHR 0xBB,
     CHR 0xE5, CHR 0x9E, CHR 0x8B, CHR 0xE9, CHR 0x94, CHR 0x99, CHR 0xE8, CHR 0xAF, CHR 0xAF,
     CHR 0xEF, CHR 0xBC, CHR 0x9A, CHR ''o'', CHR ''l'', CHR ''d'', CHR ''_'', CHR ''p'',
     CHR ''a'', CHR ''s'', CHR ''s'', CHR ''w'', CHR ''o'', CHR ''r'', CHR ''d'', CHR '' '',
     CHR 0xE9, CHR 0xA1, CHR 0xBB, CHR 0xE4, CHR 0xB8, CHR 0xBA, CHR 0xE5, CHR 0xAD, CHR 0x97,
     CHR 0xE7, CHR 0xAC, CHR 0xA6, CHR 0xE4, CHR 0xB8, CHR 0xB2]"

definition http_new_password_string :: string where
  "http_new_password_string =
    [CHR 0xE7, CHR 0xBC, CHR 0xBA, CHR 0xE5, CHR 0xB0, CHR 0x91, CHR 0xE5, CHR 0xAD, CHR 0x97,
     CHR 0xE6, CHR 0xAE, CHR 0xB5, CHR 0xE6, CHR 0x88, CHR 0x96, CHR 0xE7, CHR 0xB1, CHR 0xBB,
     CHR 0xE5, CHR 0x9E, CHR 0x8B, CHR 0xE9, CHR 0x94, CHR 0x99, CHR 0xE8, CHR 0xAF, CHR 0xAF,
     CHR 0xEF, CHR 0xBC, CHR 0x9A, CHR ''n'', CHR ''e'', CHR ''w'', CHR ''_'', CHR ''p'',
     CHR ''a'', CHR ''s'', CHR ''s'', CHR ''w'', CHR ''o'', CHR ''r'', CHR ''d'', CHR '' '',
     CHR 0xE9, CHR 0xA1, CHR 0xBB, CHR 0xE4, CHR 0xB8, CHR 0xBA, CHR 0xE5, CHR 0xAD, CHR 0x97,
     CHR 0xE7, CHR 0xAC, CHR 0xA6, CHR 0xE4, CHR 0xB8, CHR 0xB2]"

definition http_passwords_empty :: string where
  "http_passwords_empty =
    [CHR ''o'', CHR ''l'', CHR ''d'', CHR ''_'', CHR ''p'', CHR ''a'', CHR ''s'', CHR ''s'',
     CHR ''w'', CHR ''o'', CHR ''r'', CHR ''d'', CHR '' '', CHR 0xE4, CHR 0xB8, CHR 0x8E,
     CHR '' '', CHR ''n'', CHR ''e'', CHR ''w'', CHR ''_'', CHR ''p'', CHR ''a'', CHR ''s'',
     CHR ''s'', CHR ''w'', CHR ''o'', CHR ''r'', CHR ''d'', CHR '' '', CHR 0xE4, CHR 0xB8,
     CHR 0x8D, CHR 0xE8, CHR 0x83, CHR 0xBD, CHR 0xE4, CHR 0xB8, CHR 0xBA, CHR 0xE7, CHR 0xA9,
     CHR 0xBA]"

definition http_forbidden :: string where
  "http_forbidden =
    [CHR 0xE6, CHR 0x9D, CHR 0x83, CHR 0xE9, CHR 0x99, CHR 0x90, CHR 0xE4, CHR 0xB8, CHR 0x8D,
     CHR 0xE8, CHR 0xB6, CHR 0xB3]"

definition http_change_password_first :: string where
  "http_change_password_first =
    [CHR 0xE8, CHR 0xAF, CHR 0xB7, CHR 0xE5, CHR 0x85, CHR 0x88, CHR 0xE4, CHR 0xBF, CHR 0xAE,
     CHR 0xE6, CHR 0x94, CHR 0xB9, CHR 0xE5, CHR 0xAF, CHR 0x86, CHR 0xE7, CHR 0xA0, CHR 0x81]"

definition http_queue_full :: string where
  "http_queue_full =
    [CHR 0xE5, CHR 0x88, CHR 0xA4, CHR 0xE9, CHR 0xA2, CHR 0x98, CHR 0xE9, CHR 0x98, CHR 0x9F,
     CHR 0xE5, CHR 0x88, CHR 0x97, CHR 0xE5, CHR 0xB7, CHR 0xB2, CHR 0xE6, CHR 0xBB, CHR 0xA1,
     CHR 0xEF, CHR 0xBC, CHR 0x8C, CHR 0xE8, CHR 0xAF, CHR 0xB7, CHR 0xE7, CHR 0xA8, CHR 0x8D,
     CHR 0xE5, CHR 0x90, CHR 0x8E, CHR 0xE9, CHR 0x87, CHR 0x8D, CHR 0xE8, CHR 0xAF, CHR 0x95]"

definition http_judge_unavailable :: string where
  "http_judge_unavailable =
    [CHR 0xE5, CHR 0x88, CHR 0xA4, CHR 0xE9, CHR 0xA2, CHR 0x98, CHR 0xE6, CHR 0x9C, CHR 0x8D,
     CHR 0xE5, CHR 0x8A, CHR 0xA1, CHR 0xE6, CHR 0x9A, CHR 0x82, CHR 0xE6, CHR 0x97, CHR 0xB6,
     CHR 0xE4, CHR 0xB8, CHR 0x8D, CHR 0xE5, CHR 0x8F, CHR 0xAF, CHR 0xE7, CHR 0x94, CHR 0xA8]"

definition http_rejudging :: string where
  "http_rejudging =
    [CHR 0xE8, CHR 0xAF, CHR 0xA5, CHR 0xE6, CHR 0x8F, CHR 0x90, CHR 0xE4, CHR 0xBA, CHR 0xA4,
     CHR 0xE6, CHR 0xAD, CHR 0xA3, CHR 0xE5, CHR 0x9C, CHR 0xA8, CHR 0xE9, CHR 0x87, CHR 0x8D,
     CHR 0xE5, CHR 0x88, CHR 0xA4, CHR 0xE4, CHR 0xB8, CHR 0xAD]"

definition http_nickname_string :: string where
  "http_nickname_string =
    [CHR 0xE7, CHR 0xBC, CHR 0xBA, CHR 0xE5, CHR 0xB0, CHR 0x91, CHR 0xE5, CHR 0xAD, CHR 0x97,
     CHR 0xE6, CHR 0xAE, CHR 0xB5, CHR 0xE6, CHR 0x88, CHR 0x96, CHR 0xE7, CHR 0xB1, CHR 0xBB,
     CHR 0xE5, CHR 0x9E, CHR 0x8B, CHR 0xE9, CHR 0x94, CHR 0x99, CHR 0xE8, CHR 0xAF, CHR 0xAF,
     CHR 0xEF, CHR 0xBC, CHR 0x9A, CHR ''n'', CHR ''i'', CHR ''c'', CHR ''k'', CHR ''n'',
     CHR ''a'', CHR ''m'', CHR ''e'', CHR '' '', CHR 0xE9, CHR 0xA1, CHR 0xBB, CHR 0xE4,
     CHR 0xB8, CHR 0xBA, CHR 0xE5, CHR 0xAD, CHR 0x97, CHR 0xE7, CHR 0xAC, CHR 0xA6, CHR 0xE4,
     CHR 0xB8, CHR 0xB2]"

definition http_too_many :: string where
  "http_too_many =
    [CHR 0xE7, CHR 0x99, CHR 0xBB, CHR 0xE5, CHR 0xBD, CHR 0x95, CHR 0xE5, CHR 0xB0, CHR 0x9D,
     CHR 0xE8, CHR 0xAF, CHR 0x95, CHR 0xE8, CHR 0xBF, CHR 0x87, CHR 0xE4, CHR 0xBA, CHR 0x8E,
     CHR 0xE9, CHR 0xA2, CHR 0x91, CHR 0xE7, CHR 0xB9, CHR 0x81, CHR 0xEF, CHR 0xBC, CHR 0x8C,
     CHR 0xE8, CHR 0xAF, CHR 0xB7, CHR 0xE7, CHR 0xA8, CHR 0x8D, CHR 0xE5, CHR 0x90, CHR 0x8E,
     CHR 0xE5, CHR 0x86, CHR 0x8D, CHR 0xE8, CHR 0xAF, CHR 0x95]"

definition http_bad_credentials :: string where
  "http_bad_credentials =
    [CHR 0xE8, CHR 0xB4, CHR 0xA6, CHR 0xE5, CHR 0x8F, CHR 0xB7, CHR 0xE6, CHR 0x88, CHR 0x96,
     CHR 0xE5, CHR 0xAF, CHR 0x86, CHR 0xE7, CHR 0xA0, CHR 0x81, CHR 0xE9, CHR 0x94, CHR 0x99,
     CHR 0xE8, CHR 0xAF, CHR 0xAF]"

definition http_no_token :: string where
  "http_no_token =
    [CHR 0xE6, CHR 0x9C, CHR 0xAA, CHR 0xE6, CHR 0x8F, CHR 0x90, CHR 0xE4, CHR 0xBE, CHR 0x9B,
     CHR 0xE6, CHR 0x9C, CHR 0x89, CHR 0xE6, CHR 0x95, CHR 0x88, CHR 0xE7, CHR 0x9A, CHR 0x84,
     CHR 0xE8, CHR 0xAE, CHR 0xA4, CHR 0xE8, CHR 0xAF, CHR 0x81, CHR 0xE4, CHR 0xBF, CHR 0xA1,
     CHR 0xE6, CHR 0x81, CHR 0xAF]"

definition http_auth_failed :: string where
  "http_auth_failed =
    [CHR 0xE8, CHR 0xAE, CHR 0xA4, CHR 0xE8, CHR 0xAF, CHR 0x81, CHR 0xE5, CHR 0xA4, CHR 0xB1,
     CHR 0xE8, CHR 0xB4, CHR 0xA5]"

definition http_internal :: string where
  "http_internal =
    [CHR 0xE5, CHR 0x86, CHR 0x85, CHR 0xE9, CHR 0x83, CHR 0xA8, CHR 0xE9, CHR 0x94, CHR 0x99,
     CHR 0xE8, CHR 0xAF, CHR 0xAF]"

definition http_old_password_wrong :: string where
  "http_old_password_wrong =
    [CHR 0xE6, CHR 0x97, CHR 0xA7, CHR 0xE5, CHR 0xAF, CHR 0x86, CHR 0xE7, CHR 0xA0, CHR 0x81,
     CHR 0xE9, CHR 0x94, CHR 0x99, CHR 0xE8, CHR 0xAF, CHR 0xAF]"

definition http_bad_problem_id :: string where
  "http_bad_problem_id =
    [CHR 0xE9, CHR 0x9D, CHR 0x9E, CHR 0xE6, CHR 0xB3, CHR 0x95, CHR 0xE9, CHR 0xA2, CHR 0x98,
     CHR 0xE7, CHR 0x9B, CHR 0xAE, CHR '' '', CHR ''I'', CHR ''D'']"

definition http_problem_missing :: string where
  "http_problem_missing =
    [CHR 0xE9, CHR 0xA2, CHR 0x98, CHR 0xE7, CHR 0x9B, CHR 0xAE, CHR 0xE4, CHR 0xB8, CHR 0x8D,
     CHR 0xE5, CHR 0xAD, CHR 0x98, CHR 0xE5, CHR 0x9C, CHR 0xA8]"

definition http_language_string :: string where
  "http_language_string =
    [CHR 0xE7, CHR 0xBC, CHR 0xBA, CHR 0xE5, CHR 0xB0, CHR 0x91, CHR 0xE5, CHR 0xAD, CHR 0x97,
     CHR 0xE6, CHR 0xAE, CHR 0xB5, CHR 0xE6, CHR 0x88, CHR 0x96, CHR 0xE7, CHR 0xB1, CHR 0xBB,
     CHR 0xE5, CHR 0x9E, CHR 0x8B, CHR 0xE9, CHR 0x94, CHR 0x99, CHR 0xE8, CHR 0xAF, CHR 0xAF,
     CHR 0xEF, CHR 0xBC, CHR 0x9A, CHR ''l'', CHR ''a'', CHR ''n'', CHR ''g'', CHR ''u'',
     CHR ''a'', CHR ''g'', CHR ''e'', CHR '' '', CHR 0xE9, CHR 0xA1, CHR 0xBB, CHR 0xE4,
     CHR 0xB8, CHR 0xBA, CHR 0xE5, CHR 0xAD, CHR 0x97, CHR 0xE7, CHR 0xAC, CHR 0xA6, CHR 0xE4,
     CHR 0xB8, CHR 0xB2]"

definition http_code_string :: string where
  "http_code_string =
    [CHR 0xE7, CHR 0xBC, CHR 0xBA, CHR 0xE5, CHR 0xB0, CHR 0x91, CHR 0xE5, CHR 0xAD, CHR 0x97,
     CHR 0xE6, CHR 0xAE, CHR 0xB5, CHR 0xE6, CHR 0x88, CHR 0x96, CHR 0xE7, CHR 0xB1, CHR 0xBB,
     CHR 0xE5, CHR 0x9E, CHR 0x8B, CHR 0xE9, CHR 0x94, CHR 0x99, CHR 0xE8, CHR 0xAF, CHR 0xAF,
     CHR 0xEF, CHR 0xBC, CHR 0x9A, CHR ''c'', CHR ''o'', CHR ''d'', CHR ''e'', CHR '' '',
     CHR 0xE9, CHR 0xA1, CHR 0xBB, CHR 0xE4, CHR 0xB8, CHR 0xBA, CHR 0xE5, CHR 0xAD, CHR 0x97,
     CHR 0xE7, CHR 0xAC, CHR 0xA6, CHR 0xE4, CHR 0xB8, CHR 0xB2]"

definition http_bad_language :: string where
  "http_bad_language =
    [CHR 0xE4, CHR 0xB8, CHR 0x8D, CHR 0xE6, CHR 0x94, CHR 0xAF, CHR 0xE6, CHR 0x8C, CHR 0x81,
     CHR 0xE7, CHR 0x9A, CHR 0x84, CHR 0xE8, CHR 0xAF, CHR 0xAD, CHR 0xE8, CHR 0xA8, CHR 0x80,
     CHR 0xEF, CHR 0xBC, CHR 0x9A, CHR 0xE4, CHR 0xBB, CHR 0x85, CHR 0xE6, CHR 0x94, CHR 0xAF,
     CHR 0xE6, CHR 0x8C, CHR 0x81, CHR '' '', CHR ''c'', CHR ''p'', CHR ''p'', CHR ''1'',
     CHR ''7'', CHR 0xEF, CHR 0xBC, CHR 0x88, CHR ''C'', CHR ''+'', CHR ''+'', CHR ''1'',
     CHR ''7'', CHR 0xEF, CHR 0xBC, CHR 0x89, CHR 0xE4, CHR 0xB8, CHR 0x8E, CHR '' '',
     CHR ''c'', CHR ''1'', CHR ''1'', CHR 0xEF, CHR 0xBC, CHR 0x88, CHR ''C'', CHR ''1'',
     CHR ''1'', CHR 0xEF, CHR 0xBC, CHR 0x89]"

definition http_bad_mine :: string where
  "http_bad_mine =
    [CHR ''m'', CHR ''i'', CHR ''n'', CHR ''e'', CHR '' '', CHR 0xE5, CHR 0x8F, CHR 0x96,
     CHR 0xE5, CHR 0x80, CHR 0xBC, CHR 0xE9, CHR 0x9D, CHR 0x9E, CHR 0xE6, CHR 0xB3, CHR 0x95,
     CHR 0xEF, CHR 0xBC, CHR 0x9A, CHR 0xE4, CHR 0xBB, CHR 0x85, CHR 0xE6, CHR 0x94, CHR 0xAF,
     CHR 0xE6, CHR 0x8C, CHR 0x81, CHR 0xE6, CHR 0x9F, CHR 0xA5, CHR 0xE7, CHR 0x9C, CHR 0x8B,
     CHR 0xE6, CHR 0x9C, CHR 0xAC, CHR 0xE4, CHR 0xBA, CHR 0xBA, CHR 0xE6, CHR 0x8F, CHR 0x90,
     CHR 0xE4, CHR 0xBA, CHR 0xA4, CHR 0xE5, CHR 0x8E, CHR 0x86, CHR 0xE5, CHR 0x8F, CHR 0xB2]"

definition http_bad_submission_id :: string where
  "http_bad_submission_id =
    [CHR 0xE9, CHR 0x9D, CHR 0x9E, CHR 0xE6, CHR 0xB3, CHR 0x95, CHR 0xE6, CHR 0x8F, CHR 0x90,
     CHR 0xE4, CHR 0xBA, CHR 0xA4, CHR '' '', CHR ''I'', CHR ''D'']"

definition http_submission_missing :: string where
  "http_submission_missing =
    [CHR 0xE6, CHR 0x8F, CHR 0x90, CHR 0xE4, CHR 0xBA, CHR 0xA4, CHR 0xE8, CHR 0xAE, CHR 0xB0,
     CHR 0xE5, CHR 0xBD, CHR 0x95, CHR 0xE4, CHR 0xB8, CHR 0x8D, CHR 0xE5, CHR 0xAD, CHR 0x98,
     CHR 0xE5, CHR 0x9C, CHR 0xA8]"

definition http_problem_in_use :: string where
  "http_problem_in_use =
    [CHR 0xE9, CHR 0xA2, CHR 0x98, CHR 0xE7, CHR 0x9B, CHR 0xAE, CHR 0xE5, CHR 0xB7, CHR 0xB2,
     CHR 0xE6, CHR 0x9C, CHR 0x89, CHR 0xE6, CHR 0x8F, CHR 0x90, CHR 0xE4, CHR 0xBA, CHR 0xA4,
     CHR 0xE8, CHR 0xAE, CHR 0xB0, CHR 0xE5, CHR 0xBD, CHR 0x95, CHR 0xE6, CHR 0x88, CHR 0x96,
     CHR 0xE6, CHR 0xAD, CHR 0xA3, CHR 0xE5, CHR 0x9C, CHR 0xA8, CHR 0xE5, CHR 0x88, CHR 0xA4,
     CHR 0xE9, CHR 0xA2, CHR 0x98, CHR 0xE7, CHR 0x9A, CHR 0x84, CHR 0xE4, CHR 0xBB, CHR 0xBB,
     CHR 0xE5, CHR 0x8A, CHR 0xA1, CHR 0xEF, CHR 0xBC, CHR 0x8C, CHR 0xE6, CHR 0x97, CHR 0xA0,
     CHR 0xE6, CHR 0xB3, CHR 0x95, CHR 0xE5, CHR 0x88, CHR 0xA0, CHR 0xE9, CHR 0x99, CHR 0xA4]"

definition http_ord_exhausted :: string where
  "http_ord_exhausted =
    [CHR 0xE8, CHR 0x87, CHR 0xAA, CHR 0xE5, CHR 0x8A, CHR 0xA8, CHR 0xE5, CHR 0x88, CHR 0x86,
     CHR 0xE9, CHR 0x85, CHR 0x8D, CHR '' '', CHR ''o'', CHR ''r'', CHR ''d'', CHR '' '',
     CHR 0xE5, CHR 0xB7, CHR 0xB2, CHR 0xE8, CHR 0xBE, CHR 0xBE, CHR 0xE4, CHR 0xB8, CHR 0x8A,
     CHR 0xE9, CHR 0x99, CHR 0x90, CHR 0xEF, CHR 0xBC, CHR 0x8C, CHR 0xE8, CHR 0xAF, CHR 0xB7,
     CHR 0xE6, CHR 0x98, CHR 0xBE, CHR 0xE5, CHR 0xBC, CHR 0x8F, CHR 0xE6, CHR 0x8C, CHR 0x87,
     CHR 0xE5, CHR 0xAE, CHR 0x9A, CHR '' '', CHR ''o'', CHR ''r'', CHR ''d'']"

definition http_bad_testcase_id :: string where
  "http_bad_testcase_id =
    [CHR 0xE9, CHR 0x9D, CHR 0x9E, CHR 0xE6, CHR 0xB3, CHR 0x95, CHR 0xE7, CHR 0x94, CHR 0xA8,
     CHR 0xE4, CHR 0xBE, CHR 0x8B, CHR '' '', CHR ''I'', CHR ''D'']"

definition http_testcase_missing :: string where
  "http_testcase_missing =
    [CHR 0xE7, CHR 0x94, CHR 0xA8, CHR 0xE4, CHR 0xBE, CHR 0x8B, CHR 0xE4, CHR 0xB8, CHR 0x8D,
     CHR 0xE5, CHR 0xAD, CHR 0x98, CHR 0xE5, CHR 0x9C, CHR 0xA8]"

definition http_user_missing :: string where
  "http_user_missing =
    [CHR 0xE7, CHR 0x94, CHR 0xA8, CHR 0xE6, CHR 0x88, CHR 0xB7, CHR 0xE4, CHR 0xB8, CHR 0x8D,
     CHR 0xE5, CHR 0xAD, CHR 0x98, CHR 0xE5, CHR 0x9C, CHR 0xA8]"

definition http_last_admin :: string where
  "http_last_admin =
    [CHR 0xE4, CHR 0xB8, CHR 0x8D, CHR 0xE8, CHR 0x83, CHR 0xBD, CHR 0xE5, CHR 0x8F, CHR 0x96,
     CHR 0xE6, CHR 0xB6, CHR 0x88, CHR 0xE6, CHR 0x9C, CHR 0x80, CHR 0xE5, CHR 0x90, CHR 0x8E,
     CHR 0xE4, CHR 0xB8, CHR 0x80, CHR 0xE4, CHR 0xB8, CHR 0xAA, CHR 0xE7, CHR 0xAE, CHR 0xA1,
     CHR 0xE7, CHR 0x90, CHR 0x86, CHR 0xE5, CHR 0x91, CHR 0x98, CHR 0xE7, CHR 0x9A, CHR 0x84,
     CHR 0xE6, CHR 0x9D, CHR 0x83, CHR 0xE9, CHR 0x99, CHR 0x90]"

definition txt_seccomp_jump :: string where
  "txt_seccomp_jump =
    [CHR ''s'', CHR ''e'', CHR ''c'', CHR ''c'', CHR ''o'', CHR ''m'', CHR ''p'', CHR '' '',
     CHR 0xE8, CHR 0xBF, CHR 0x87, CHR 0xE6, CHR 0xBB, CHR 0xA4, CHR 0xE5, CHR 0x99, CHR 0xA8,
     CHR 0xE8, CHR 0xBF, CHR 0x87, CHR 0xE5, CHR 0xA4, CHR 0xA7, CHR 0xEF, CHR 0xBC, CHR 0x88,
     CHR 0xE8, CHR 0xB7, CHR 0xB3, CHR 0xE8, CHR 0xBD, CHR 0xAC, CHR 0xE8, CHR 0xB6, CHR 0x8A,
     CHR 0xE7, CHR 0x95, CHR 0x8C, CHR 0xEF, CHR 0xBC, CHR 0x89]"

definition txt_seccomp_size :: string where
  "txt_seccomp_size =
    [CHR ''s'', CHR ''e'', CHR ''c'', CHR ''c'', CHR ''o'', CHR ''m'', CHR ''p'', CHR '' '',
     CHR 0xE8, CHR 0xBF, CHR 0x87, CHR 0xE6, CHR 0xBB, CHR 0xA4, CHR 0xE5, CHR 0x99, CHR 0xA8,
     CHR 0xE6, CHR 0x8C, CHR 0x87, CHR 0xE4, CHR 0xBB, CHR 0xA4, CHR 0xE6, CHR 0x95, CHR 0xB0,
     CHR 0xE8, CHR 0xB6, CHR 0x85, CHR 0xE8, CHR 0xBF, CHR 0x87, CHR 0xE5, CHR 0x86, CHR 0x85,
     CHR 0xE6, CHR 0xA0, CHR 0xB8, CHR 0xE4, CHR 0xB8, CHR 0x8A, CHR 0xE9, CHR 0x99, CHR 0x90]"

definition txt_userns_disabled :: string where
  "txt_userns_disabled =
    [CHR 0xE5, CHR 0x86, CHR 0x85, CHR 0xE6, CHR 0xA0, CHR 0xB8, CHR 0xE7, CHR 0xA6, CHR 0x81,
     CHR 0xE7, CHR 0x94, CHR 0xA8, CHR 0xE4, CHR 0xBA, CHR 0x86, CHR 0xE9, CHR 0x9D, CHR 0x9E,
     CHR 0xE7, CHR 0x89, CHR 0xB9, CHR 0xE6, CHR 0x9D, CHR 0x83, CHR 0xE7, CHR 0x94, CHR 0xA8,
     CHR 0xE6, CHR 0x88, CHR 0xB7, CHR 0xE5, CHR 0x91, CHR 0xBD, CHR 0xE5, CHR 0x90, CHR 0x8D,
     CHR 0xE7, CHR 0xA9, CHR 0xBA, CHR 0xE9, CHR 0x97, CHR 0xB4, CHR 0xEF, CHR 0xBC, CHR 0x88,
     CHR ''/'', CHR ''p'', CHR ''r'', CHR ''o'', CHR ''c'', CHR ''/'', CHR ''s'', CHR ''y'',
     CHR ''s'', CHR ''/'', CHR ''k'', CHR ''e'', CHR ''r'', CHR ''n'', CHR ''e'', CHR ''l'',
     CHR ''/'', CHR ''u'', CHR ''n'', CHR ''p'', CHR ''r'', CHR ''i'', CHR ''v'', CHR ''i'',
     CHR ''l'', CHR ''e'', CHR ''g'', CHR ''e'', CHR ''d'', CHR ''_'', CHR ''u'', CHR ''s'',
     CHR ''e'', CHR ''r'', CHR ''n'', CHR ''s'', CHR ''_'', CHR ''c'', CHR ''l'', CHR ''o'',
     CHR ''n'', CHR ''e'', CHR ''='', CHR ''0'', CHR 0xEF, CHR 0xBC, CHR 0x89]"

definition txt_userns_apparmor :: string where
  "txt_userns_apparmor =
    [CHR ''A'', CHR ''p'', CHR ''p'', CHR ''A'', CHR ''r'', CHR ''m'', CHR ''o'', CHR ''r'',
     CHR '' '', CHR 0xE9, CHR 0x99, CHR 0x90, CHR 0xE5, CHR 0x88, CHR 0xB6, CHR 0xE4, CHR 0xBA,
     CHR 0x86, CHR 0xE9, CHR 0x9D, CHR 0x9E, CHR 0xE7, CHR 0x89, CHR 0xB9, CHR 0xE6, CHR 0x9D,
     CHR 0x83, CHR 0xE7, CHR 0x94, CHR 0xA8, CHR 0xE6, CHR 0x88, CHR 0xB7, CHR 0xE5, CHR 0x91,
     CHR 0xBD, CHR 0xE5, CHR 0x90, CHR 0x8D, CHR 0xE7, CHR 0xA9, CHR 0xBA, CHR 0xE9, CHR 0x97,
     CHR 0xB4, CHR 0xEF, CHR 0xBC, CHR 0x88, CHR ''k'', CHR ''e'', CHR ''r'', CHR ''n'',
     CHR ''e'', CHR ''l'', CHR ''.'', CHR ''a'', CHR ''p'', CHR ''p'', CHR ''a'', CHR ''r'',
     CHR ''m'', CHR ''o'', CHR ''r'', CHR ''_'', CHR ''r'', CHR ''e'', CHR ''s'', CHR ''t'',
     CHR ''r'', CHR ''i'', CHR ''c'', CHR ''t'', CHR ''_'', CHR ''u'', CHR ''n'', CHR ''p'',
     CHR ''r'', CHR ''i'', CHR ''v'', CHR ''i'', CHR ''l'', CHR ''e'', CHR ''g'', CHR ''e'',
     CHR ''d'', CHR ''_'', CHR ''u'', CHR ''s'', CHR ''e'', CHR ''r'', CHR ''n'', CHR ''s'',
     CHR ''='', CHR ''1'', CHR 0xEF, CHR 0xBC, CHR 0x89]"

definition txt_userns_none :: string where
  "txt_userns_none =
    [CHR 0xE7, CHR 0xB3, CHR 0xBB, CHR 0xE7, CHR 0xBB, CHR 0x9F, CHR 0xE6, CHR 0x9C, CHR 0xAA,
     CHR 0xE5, CHR 0x88, CHR 0x86, CHR 0xE9, CHR 0x85, CHR 0x8D, CHR 0xE7, CHR 0x94, CHR 0xA8,
     CHR 0xE6, CHR 0x88, CHR 0xB7, CHR 0xE5, CHR 0x91, CHR 0xBD, CHR 0xE5, CHR 0x90, CHR 0x8D,
     CHR 0xE7, CHR 0xA9, CHR 0xBA, CHR 0xE9, CHR 0x97, CHR 0xB4, CHR 0xEF, CHR 0xBC, CHR 0x88,
     CHR ''/'', CHR ''p'', CHR ''r'', CHR ''o'', CHR ''c'', CHR ''/'', CHR ''s'', CHR ''y'',
     CHR ''s'', CHR ''/'', CHR ''u'', CHR ''s'', CHR ''e'', CHR ''r'', CHR ''/'', CHR ''m'',
     CHR ''a'', CHR ''x'', CHR ''_'', CHR ''u'', CHR ''s'', CHR ''e'', CHR ''r'', CHR ''_'',
     CHR ''n'', CHR ''a'', CHR ''m'', CHR ''e'', CHR ''s'', CHR ''p'', CHR ''a'', CHR ''c'',
     CHR ''e'', CHR ''s'', CHR ''='', CHR ''0'', CHR 0xEF, CHR 0xBC, CHR 0x89]"

definition txt_userns_refused :: string where
  "txt_userns_refused =
    [CHR 0xE5, CHR 0x86, CHR 0x85, CHR 0xE6, CHR 0xA0, CHR 0xB8, CHR 0xE4, CHR 0xB8, CHR 0x8D,
     CHR 0xE5, CHR 0x85, CHR 0x81, CHR 0xE8, CHR 0xAE, CHR 0xB8, CHR 0xE9, CHR 0x9D, CHR 0x9E,
     CHR 0xE7, CHR 0x89, CHR 0xB9, CHR 0xE6, CHR 0x9D, CHR 0x83, CHR 0xE7, CHR 0x94, CHR 0xA8,
     CHR 0xE6, CHR 0x88, CHR 0xB7, CHR 0xE5, CHR 0x91, CHR 0xBD, CHR 0xE5, CHR 0x90, CHR 0x8D,
     CHR 0xE7, CHR 0xA9, CHR 0xBA, CHR 0xE9, CHR 0x97, CHR 0xB4, CHR 0xEF, CHR 0xBC, CHR 0x88,
     CHR ''u'', CHR ''n'', CHR ''s'', CHR ''h'', CHR ''a'', CHR ''r'', CHR ''e'', CHR ''('',
     CHR ''C'', CHR ''L'', CHR ''O'', CHR ''N'', CHR ''E'', CHR ''_'', CHR ''N'', CHR ''E'',
     CHR ''W'', CHR ''U'', CHR ''S'', CHR ''E'', CHR ''R'', CHR '')'', CHR '' '', CHR 0xE5,
     CHR 0xA4, CHR 0xB1, CHR 0xE8, CHR 0xB4, CHR 0xA5, CHR 0xEF, CHR 0xBC, CHR 0x89]"

definition txt_fork_probe :: string where
  "txt_fork_probe =
    [CHR ''f'', CHR ''o'', CHR ''r'', CHR ''k'', CHR '' '', CHR 0xE6, CHR 0x8E, CHR 0xA2,
     CHR 0xE6, CHR 0xB5, CHR 0x8B, CHR 0xE5, CHR 0xA4, CHR 0xB1, CHR 0xE8, CHR 0xB4, CHR 0xA5,
     CHR '':'', CHR '' '']"

definition txt_wait_probe :: string where
  "txt_wait_probe =
    [CHR ''w'', CHR ''a'', CHR ''i'', CHR ''t'', CHR ''p'', CHR ''i'', CHR ''d'', CHR '' '',
     CHR 0xE6, CHR 0x8E, CHR 0xA2, CHR 0xE6, CHR 0xB5, CHR 0x8B, CHR 0xE5, CHR 0xA4, CHR 0xB1,
     CHR 0xE8, CHR 0xB4, CHR 0xA5, CHR '':'', CHR '' '']"

definition txt_no_mount :: string where
  "txt_no_mount =
    [CHR 0xE6, CHR 0x97, CHR 0xA0, CHR 0xE6, CHR 0xB3, CHR 0x95, CHR 0xE7, CHR 0xA1, CHR 0xAE,
     CHR 0xE5, CHR 0xAE, CHR 0x9A, CHR 0xE8, CHR 0xB7, CHR 0xAF, CHR 0xE5, CHR 0xBE, CHR 0x84,
     CHR 0xE6, CHR 0x89, CHR 0x80, CHR 0xE5, CHR 0x9C, CHR 0xA8, CHR 0xE6, CHR 0x8C, CHR 0x82,
     CHR 0xE8, CHR 0xBD, CHR 0xBD, CHR 0xE7, CHR 0x82, CHR 0xB9, CHR '':'', CHR '' '']"

definition txt_not_tmpfs_1 :: string where
  "txt_not_tmpfs_1 =
    [CHR 0xE5, CHR 0x88, CHR 0xA4, CHR 0xE9, CHR 0xA2, CHR 0x98, CHR 0xE5, CHR 0xB7, CHR 0xA5,
     CHR 0xE4, CHR 0xBD, CHR 0x9C, CHR 0xE7, CHR 0x9B, CHR 0xAE, CHR 0xE5, CHR 0xBD, CHR 0x95,
     CHR '' '']"

definition txt_not_tmpfs_2 :: string where
  "txt_not_tmpfs_2 =
    [CHR '' '', CHR 0xE4, CHR 0xBD, CHR 0x8D, CHR 0xE4, CHR 0xBA, CHR 0x8E, CHR 0xE6, CHR 0x8C,
     CHR 0x82, CHR 0xE8, CHR 0xBD, CHR 0xBD, CHR 0xE7, CHR 0x82, CHR 0xB9, CHR '' '']"

definition txt_not_tmpfs_3 :: string where
  "txt_not_tmpfs_3 =
    [CHR 0xEF, CHR 0xBC, CHR 0x88, CHR 0xE6, CHR 0x96, CHR 0x87, CHR 0xE4, CHR 0xBB, CHR 0xB6,
     CHR 0xE7, CHR 0xB3, CHR 0xBB, CHR 0xE7, CHR 0xBB, CHR 0x9F, CHR '' '']"

definition txt_not_tmpfs_4 :: string where
  "txt_not_tmpfs_4 =
    [CHR 0xEF, CHR 0xBC, CHR 0x89, CHR 0xEF, CHR 0xBC, CHR 0x8C, CHR 0xE4, CHR 0xB8, CHR 0x8D,
     CHR 0xE6, CHR 0x98, CHR 0xAF, CHR '' '', CHR ''t'', CHR ''m'', CHR ''p'', CHR ''f'',
     CHR ''s'', CHR 0xE3, CHR 0x80, CHR 0x82, CHR 0xE8, CHR 0xAF, CHR 0xB7, CHR 0xE6, CHR 0x8C,
     CHR 0x89, CHR '' '', CHR ''d'', CHR ''e'', CHR ''p'', CHR ''e'', CHR ''n'', CHR ''d'',
     CHR ''e'', CHR ''n'', CHR ''c'', CHR ''e'', CHR ''.'', CHR ''m'', CHR ''d'', CHR '' '',
     CHR 0xE6, CHR 0x8C, CHR 0x82, CHR 0xE8, CHR 0xBD, CHR 0xBD, CHR '' '', CHR ''t'',
     CHR ''m'', CHR ''p'', CHR ''f'', CHR ''s'', CHR 0xEF, CHR 0xBC, CHR 0x88, CHR 0xE9,
     CHR 0xBB, CHR 0x98, CHR 0xE8, CHR 0xAE, CHR 0xA4, CHR '' '', CHR ''/'', CHR ''o'',
     CHR ''p'', CHR ''t'', CHR ''/'', CHR ''o'', CHR ''j'', CHR ''-'', CHR ''t'', CHR ''m'',
     CHR ''p'', CHR ''f'', CHR ''s'', CHR 0xEF, CHR 0xBC, CHR 0x89, CHR 0xEF, CHR 0xBC,
     CHR 0x8C, CHR 0xE6, CHR 0x88, CHR 0x96, CHR 0xE6, CHR 0x98, CHR 0xBE, CHR 0xE5, CHR 0xBC,
     CHR 0x8F, CHR 0xE8, CHR 0xAE, CHR 0xBE, CHR 0xE7, CHR 0xBD, CHR 0xAE, CHR '' '', CHR ''O'',
     CHR ''J'', CHR ''_'', CHR ''J'', CHR ''U'', CHR ''D'', CHR ''G'', CHR ''E'', CHR ''_'',
     CHR ''A'', CHR ''L'', CHR ''L'', CHR ''O'', CHR ''W'', CHR ''_'', CHR ''N'', CHR ''O'',
     CHR ''N'', CHR ''_'', CHR ''T'', CHR ''M'', CHR ''P'', CHR ''F'', CHR ''S'', CHR ''='',
     CHR ''1'', CHR '' '', CHR 0xE8, CHR 0xBF, CHR 0x9B, CHR 0xE8, CHR 0xA1, CHR 0x8C, CHR 0xE5,
     CHR 0xBC, CHR 0x80, CHR 0xE5, CHR 0x8F, CHR 0x91, CHR 0xE9, CHR 0xAA, CHR 0x8C, CHR 0xE8,
     CHR 0xAF, CHR 0x81, CHR 0xE3, CHR 0x80, CHR 0x82]"

definition txt_stage_unshare :: string where
  "txt_stage_unshare =
    [CHR 0xE6, CHR 0xB2, CHR 0x99, CHR 0xE7, CHR 0xAE, CHR 0xB1, CHR 0xE5, CHR 0x88, CHR 0x9D,
     CHR 0xE5, CHR 0xA7, CHR 0x8B, CHR 0xE5, CHR 0x8C, CHR 0x96, CHR 0xE5, CHR 0xA4, CHR 0xB1,
     CHR 0xE8, CHR 0xB4, CHR 0xA5, CHR 0xEF, CHR 0xBC, CHR 0x88, CHR 0xE5, CHR 0x91, CHR 0xBD,
     CHR 0xE5, CHR 0x90, CHR 0x8D, CHR 0xE7, CHR 0xA9, CHR 0xBA, CHR 0xE9, CHR 0x97, CHR 0xB4,
     CHR 0xEF, CHR 0xBC, CHR 0x89, CHR '':'', CHR '' '']"

definition txt_stage_root :: string where
  "txt_stage_root =
    [CHR 0xE6, CHR 0xB2, CHR 0x99, CHR 0xE7, CHR 0xAE, CHR 0xB1, CHR 0xE5, CHR 0x88, CHR 0x9D,
     CHR 0xE5, CHR 0xA7, CHR 0x8B, CHR 0xE5, CHR 0x8C, CHR 0x96, CHR 0xE5, CHR 0xA4, CHR 0xB1,
     CHR 0xE8, CHR 0xB4, CHR 0xA5, CHR 0xEF, CHR 0xBC, CHR 0x88, CHR 0xE6, CHR 0x9C, CHR 0x80,
     CHR 0xE5, CHR 0xB0, CHR 0x8F, CHR 0xE6, CHR 0xA0, CHR 0xB9, CHR 0xE7, CHR 0x9B, CHR 0xAE,
     CHR 0xE5, CHR 0xBD, CHR 0x95, CHR ''/'', CHR 0xE6, CHR 0x8C, CHR 0x82, CHR 0xE8, CHR 0xBD,
     CHR 0xBD, CHR 0xEF, CHR 0xBC, CHR 0x89, CHR '':'', CHR '' '']"

definition txt_stage_chroot :: string where
  "txt_stage_chroot =
    [CHR 0xE6, CHR 0xB2, CHR 0x99, CHR 0xE7, CHR 0xAE, CHR 0xB1, CHR 0xE5, CHR 0x88, CHR 0x9D,
     CHR 0xE5, CHR 0xA7, CHR 0x8B, CHR 0xE5, CHR 0x8C, CHR 0x96, CHR 0xE5, CHR 0xA4, CHR 0xB1,
     CHR 0xE8, CHR 0xB4, CHR 0xA5, CHR 0xEF, CHR 0xBC, CHR 0x88, CHR ''c'', CHR ''h'',
     CHR ''r'', CHR ''o'', CHR ''o'', CHR ''t'', CHR 0xEF, CHR 0xBC, CHR 0x89, CHR '':'',
     CHR '' '']"

definition txt_stage_limits :: string where
  "txt_stage_limits =
    [CHR 0xE6, CHR 0xB2, CHR 0x99, CHR 0xE7, CHR 0xAE, CHR 0xB1, CHR 0xE8, CHR 0xB5, CHR 0x84,
     CHR 0xE6, CHR 0xBA, CHR 0x90, CHR 0xE9, CHR 0x99, CHR 0x90, CHR 0xE5, CHR 0x88, CHR 0xB6,
     CHR 0xE8, CHR 0xAE, CHR 0xBE, CHR 0xE7, CHR 0xBD, CHR 0xAE, CHR 0xE5, CHR 0xA4, CHR 0xB1,
     CHR 0xE8, CHR 0xB4, CHR 0xA5, CHR 0xEF, CHR 0xBC, CHR 0x88, CHR ''s'', CHR ''e'',
     CHR ''t'', CHR ''r'', CHR ''l'', CHR ''i'', CHR ''m'', CHR ''i'', CHR ''t'', CHR 0xEF,
     CHR 0xBC, CHR 0x89, CHR '':'', CHR '' '']"

definition txt_stage_seccomp :: string where
  "txt_stage_seccomp =
    [CHR 0xE6, CHR 0xB2, CHR 0x99, CHR 0xE7, CHR 0xAE, CHR 0xB1, CHR 0xE7, CHR 0xB3, CHR 0xBB,
     CHR 0xE7, CHR 0xBB, CHR 0x9F, CHR 0xE8, CHR 0xB0, CHR 0x83, CHR 0xE7, CHR 0x94, CHR 0xA8,
     CHR 0xE8, CHR 0xBF, CHR 0x87, CHR 0xE6, CHR 0xBB, CHR 0xA4, CHR 0xE5, CHR 0xAE, CHR 0x89,
     CHR 0xE8, CHR 0xA3, CHR 0x85, CHR 0xE5, CHR 0xA4, CHR 0xB1, CHR 0xE8, CHR 0xB4, CHR 0xA5,
     CHR 0xEF, CHR 0xBC, CHR 0x88, CHR ''s'', CHR ''e'', CHR ''c'', CHR ''c'', CHR ''o'',
     CHR ''m'', CHR ''p'', CHR 0xEF, CHR 0xBC, CHR 0x89, CHR '':'', CHR '' '']"

definition txt_stage_chdir :: string where
  "txt_stage_chdir =
    [CHR 0xE5, CHR 0x88, CHR 0x87, CHR 0xE6, CHR 0x8D, CHR 0xA2, CHR 0xE5, CHR 0xB7, CHR 0xA5,
     CHR 0xE4, CHR 0xBD, CHR 0x9C, CHR 0xE7, CHR 0x9B, CHR 0xAE, CHR 0xE5, CHR 0xBD, CHR 0x95,
     CHR 0xE5, CHR 0xA4, CHR 0xB1, CHR 0xE8, CHR 0xB4, CHR 0xA5, CHR '':'', CHR '' '']"

definition txt_stage_exec :: string where
  "txt_stage_exec =
    [CHR 0xE5, CHR 0x90, CHR 0xAF, CHR 0xE5, CHR 0x8A, CHR 0xA8, CHR 0xE8, CHR 0xBF, CHR 0x9B,
     CHR 0xE7, CHR 0xA8, CHR 0x8B, CHR 0xE5, CHR 0xA4, CHR 0xB1, CHR 0xE8, CHR 0xB4, CHR 0xA5,
     CHR '':'', CHR '' '']"

definition txt_stage_other_1 :: string where
  "txt_stage_other_1 =
    [CHR 0xE8, CHR 0xBF, CHR 0x9B, CHR 0xE7, CHR 0xA8, CHR 0x8B, CHR 0xE5, CHR 0x90, CHR 0xAF,
     CHR 0xE5, CHR 0x8A, CHR 0xA8, CHR 0xE5, CHR 0xA4, CHR 0xB1, CHR 0xE8, CHR 0xB4, CHR 0xA5,
     CHR 0xEF, CHR 0xBC, CHR 0x88]"

definition txt_stage_other_2 :: string where
  "txt_stage_other_2 =
    [CHR 0xEF, CHR 0xBC, CHR 0x89, CHR '':'', CHR '' '']"

definition txt_empty_program :: string where
  "txt_empty_program =
    [CHR 0xE7, CHR 0xA9, CHR 0xBA, CHR 0xE7, CHR 0x9A, CHR 0x84, CHR 0xE5, CHR 0x8F, CHR 0xAF,
     CHR 0xE6, CHR 0x89, CHR 0xA7, CHR 0xE8, CHR 0xA1, CHR 0x8C, CHR 0xE6, CHR 0x96, CHR 0x87,
     CHR 0xE4, CHR 0xBB, CHR 0xB6, CHR 0xE8, CHR 0xB7, CHR 0xAF, CHR 0xE5, CHR 0xBE, CHR 0x84]"

definition txt_task_cancelled :: string where
  "txt_task_cancelled =
    [CHR 0xE4, CHR 0xBB, CHR 0xBB, CHR 0xE5, CHR 0x8A, CHR 0xA1, CHR 0xE5, CHR 0xB7, CHR 0xB2,
     CHR 0xE5, CHR 0x8F, CHR 0x96, CHR 0xE6, CHR 0xB6, CHR 0x88]"

definition txt_not_in_path :: string where
  "txt_not_in_path =
    [CHR 0xE5, CHR 0x90, CHR 0xAF, CHR 0xE5, CHR 0x8A, CHR 0xA8, CHR 0xE8, CHR 0xBF, CHR 0x9B,
     CHR 0xE7, CHR 0xA8, CHR 0x8B, CHR 0xE5, CHR 0xA4, CHR 0xB1, CHR 0xE8, CHR 0xB4, CHR 0xA5,
     CHR '':'', CHR '' '', CHR 0xE6, CHR 0x9C, CHR 0xAA, CHR 0xE5, CHR 0x9C, CHR 0xA8,
     CHR '' '', CHR ''P'', CHR ''A'', CHR ''T'', CHR ''H'', CHR '' '', CHR 0xE4, CHR 0xB8,
     CHR 0xAD, CHR 0xE6, CHR 0x89, CHR 0xBE, CHR 0xE5, CHR 0x88, CHR 0xB0, CHR 0xE5, CHR 0x8F,
     CHR 0xAF, CHR 0xE6, CHR 0x89, CHR 0xA7, CHR 0xE8, CHR 0xA1, CHR 0x8C, CHR 0xE6, CHR 0x96,
     CHR 0x87, CHR 0xE4, CHR 0xBB, CHR 0xB6, CHR '' '']"

definition txt_not_executable :: string where
  "txt_not_executable =
    [CHR 0xE5, CHR 0x90, CHR 0xAF, CHR 0xE5, CHR 0x8A, CHR 0xA8, CHR 0xE8, CHR 0xBF, CHR 0x9B,
     CHR 0xE7, CHR 0xA8, CHR 0x8B, CHR 0xE5, CHR 0xA4, CHR 0xB1, CHR 0xE8, CHR 0xB4, CHR 0xA5,
     CHR '':'', CHR '' '', CHR 0xE6, CHR 0x97, CHR 0xA0, CHR 0xE6, CHR 0xB3, CHR 0x95, CHR 0xE6,
     CHR 0x89, CHR 0xA7, CHR 0xE8, CHR 0xA1, CHR 0x8C, CHR '' '']"

definition txt_filter_failed :: string where
  "txt_filter_failed =
    [CHR 0xE6, CHR 0x9E, CHR 0x84, CHR 0xE5, CHR 0xBB, CHR 0xBA, CHR '' '', CHR ''s'',
     CHR ''e'', CHR ''c'', CHR ''c'', CHR ''o'', CHR ''m'', CHR ''p'', CHR '' '', CHR 0xE8,
     CHR 0xBF, CHR 0x87, CHR 0xE6, CHR 0xBB, CHR 0xA4, CHR 0xE5, CHR 0xA4, CHR 0xB1, CHR 0xE8,
     CHR 0xB4, CHR 0xA5, CHR '':'', CHR '' '']"

definition txt_pipe_failed :: string where
  "txt_pipe_failed =
    [CHR 0xE5, CHR 0x88, CHR 0x9B, CHR 0xE5, CHR 0xBB, CHR 0xBA, CHR 0xE7, CHR 0xAE, CHR 0xA1,
     CHR 0xE9, CHR 0x81, CHR 0x93, CHR 0xE5, CHR 0xA4, CHR 0xB1, CHR 0xE8, CHR 0xB4, CHR 0xA5,
     CHR '':'', CHR '' '']"

definition txt_fork_failed :: string where
  "txt_fork_failed =
    [CHR ''f'', CHR ''o'', CHR ''r'', CHR ''k'', CHR '' '', CHR 0xE5, CHR 0xA4, CHR 0xB1,
     CHR 0xE8, CHR 0xB4, CHR 0xA5, CHR '':'', CHR '' '']"

definition txt_selftest_workspace :: string where
  "txt_selftest_workspace =
    [CHR 0xE6, CHR 0x97, CHR 0xA0, CHR 0xE6, CHR 0xB3, CHR 0x95, CHR 0xE5, CHR 0x88, CHR 0x9B,
     CHR 0xE5, CHR 0xBB, CHR 0xBA, CHR 0xE6, CHR 0xB2, CHR 0x99, CHR 0xE7, CHR 0xAE, CHR 0xB1,
     CHR 0xE8, CHR 0x87, CHR 0xAA, CHR 0xE6, CHR 0xA3, CHR 0x80, CHR 0xE5, CHR 0xB7, CHR 0xA5,
     CHR 0xE4, CHR 0xBD, CHR 0x9C, CHR 0xE7, CHR 0x9B, CHR 0xAE, CHR 0xE5, CHR 0xBD, CHR 0x95,
     CHR '':'', CHR '' '']"

definition txt_selftest_launch :: string where
  "txt_selftest_launch =
    [CHR 0xE6, CHR 0xB2, CHR 0x99, CHR 0xE7, CHR 0xAE, CHR 0xB1, CHR 0xE8, CHR 0x87, CHR 0xAA,
     CHR 0xE6, CHR 0xA3, CHR 0x80, CHR 0xE5, CHR 0xA4, CHR 0xB1, CHR 0xE8, CHR 0xB4, CHR 0xA5,
     CHR '':'', CHR '' '']"

definition txt_selftest_timeout :: string where
  "txt_selftest_timeout =
    [CHR 0xE6, CHR 0xB2, CHR 0x99, CHR 0xE7, CHR 0xAE, CHR 0xB1, CHR 0xE8, CHR 0x87, CHR 0xAA,
     CHR 0xE6, CHR 0xA3, CHR 0x80, CHR 0xE8, CHR 0xB6, CHR 0x85, CHR 0xE6, CHR 0x97, CHR 0xB6]"

definition txt_selftest_exit_1 :: string where
  "txt_selftest_exit_1 =
    [CHR 0xE6, CHR 0xB2, CHR 0x99, CHR 0xE7, CHR 0xAE, CHR 0xB1, CHR 0xE8, CHR 0x87, CHR 0xAA,
     CHR 0xE6, CHR 0xA3, CHR 0x80, CHR 0xE8, CHR 0xBF, CHR 0x90, CHR 0xE8, CHR 0xA1, CHR 0x8C,
     CHR 0xE5, CHR 0xBC, CHR 0x82, CHR 0xE5, CHR 0xB8, CHR 0xB8, CHR 0xEF, CHR 0xBC, CHR 0x88,
     CHR ''e'', CHR ''x'', CHR ''i'', CHR ''t'', CHR ''='']"

definition txt_selftest_exit_2 :: string where
  "txt_selftest_exit_2 =
    [CHR 0xEF, CHR 0xBC, CHR 0x8C, CHR ''s'', CHR ''i'', CHR ''g'', CHR ''n'', CHR ''a'',
     CHR ''l'', CHR ''='']"

definition txt_selftest_exit_3 :: string where
  "txt_selftest_exit_3 =
    [CHR 0xEF, CHR 0xBC, CHR 0x89]"

definition txt_ws_base :: string where
  "txt_ws_base =
    [CHR 0xE6, CHR 0x97, CHR 0xA0, CHR 0xE6, CHR 0xB3, CHR 0x95, CHR 0xE5, CHR 0x88, CHR 0x9B,
     CHR 0xE5, CHR 0xBB, CHR 0xBA, CHR 0xE5, CHR 0x88, CHR 0xA4, CHR 0xE9, CHR 0xA2, CHR 0x98,
     CHR 0xE5, CHR 0x9F, CHR 0xBA, CHR 0xE7, CHR 0x9B, CHR 0xAE, CHR 0xE5, CHR 0xBD, CHR 0x95,
     CHR '' '']"

definition txt_ws_mkdtemp :: string where
  "txt_ws_mkdtemp =
    [CHR ''m'', CHR ''k'', CHR ''d'', CHR ''t'', CHR ''e'', CHR ''m'', CHR ''p'', CHR '' '',
     CHR 0xE5, CHR 0xA4, CHR 0xB1, CHR 0xE8, CHR 0xB4, CHR 0xA5, CHR '':'', CHR '' '']"

definition txt_ws_open :: string where
  "txt_ws_open =
    [CHR 0xE6, CHR 0x97, CHR 0xA0, CHR 0xE6, CHR 0xB3, CHR 0x95, CHR 0xE5, CHR 0x86, CHR 0x99,
     CHR 0xE5, CHR 0x85, CHR 0xA5, CHR 0xE6, CHR 0x96, CHR 0x87, CHR 0xE4, CHR 0xBB, CHR 0xB6,
     CHR '':'', CHR '' '']"

definition txt_ws_write :: string where
  "txt_ws_write =
    [CHR 0xE5, CHR 0x86, CHR 0x99, CHR 0xE5, CHR 0x85, CHR 0xA5, CHR 0xE6, CHR 0x96, CHR 0x87,
     CHR 0xE4, CHR 0xBB, CHR 0xB6, CHR 0xE5, CHR 0xA4, CHR 0xB1, CHR 0xE8, CHR 0xB4, CHR 0xA5,
     CHR '':'', CHR '' '']"

definition txt_lock_open :: string where
  "txt_lock_open =
    [CHR 0xE6, CHR 0x97, CHR 0xA0, CHR 0xE6, CHR 0xB3, CHR 0x95, CHR 0xE6, CHR 0x89, CHR 0x93,
     CHR 0xE5, CHR 0xBC, CHR 0x80, CHR 0xE5, CHR 0xAE, CHR 0x9E, CHR 0xE4, CHR 0xBE, CHR 0x8B,
     CHR 0xE9, CHR 0x94, CHR 0x81, CHR 0xE6, CHR 0x96, CHR 0x87, CHR 0xE4, CHR 0xBB, CHR 0xB6,
     CHR '' '', CHR 0x22]"

definition txt_lock_busy_1 :: string where
  "txt_lock_busy_1 =
    [CHR 0xE5, CHR 0xB7, CHR 0xB2, CHR 0xE6, CHR 0x9C, CHR 0x89, CHR 0xE6, CHR 0x9C, CHR 0x8D,
     CHR 0xE5, CHR 0x8A, CHR 0xA1, CHR 0xE5, CHR 0xAE, CHR 0x9E, CHR 0xE4, CHR 0xBE, CHR 0x8B,
     CHR 0xE5, CHR 0x9C, CHR 0xA8, CHR 0xE4, CHR 0xBD, CHR 0xBF, CHR 0xE7, CHR 0x94, CHR 0xA8,
     CHR 0xE6, CHR 0x95, CHR 0xB0, CHR 0xE6, CHR 0x8D, CHR 0xAE, CHR 0xE5, CHR 0xBA, CHR 0x93,
     CHR '' '', CHR 0x22]"

definition txt_lock_busy_2 :: string where
  "txt_lock_busy_2 =
    [CHR 0x22, CHR 0xEF, CHR 0xBC, CHR 0x88, CHR 0xE5, CHR 0xAE, CHR 0x9E, CHR 0xE4, CHR 0xBE,
     CHR 0x8B, CHR 0xE9, CHR 0x94, CHR 0x81, CHR 0xE8, CHR 0xA2, CHR 0xAB, CHR 0xE5, CHR 0x8D,
     CHR 0xA0, CHR 0xE7, CHR 0x94, CHR 0xA8, CHR 0xEF, CHR 0xBC, CHR 0x89, CHR 0xEF, CHR 0xBC,
     CHR 0x8C, CHR 0xE6, CHR 0x8B, CHR 0x92, CHR 0xE7, CHR 0xBB, CHR 0x9D, CHR 0xE5, CHR 0x90,
     CHR 0xAF, CHR 0xE5, CHR 0x8A, CHR 0xA8, CHR 0xE4, CHR 0xBB, CHR 0xA5, CHR 0xE9, CHR 0x81,
     CHR 0xBF, CHR 0xE5, CHR 0x85, CHR 0x8D, CHR 0xE5, CHR 0xB9, CHR 0xB6, CHR 0xE5, CHR 0x8F,
     CHR 0x91, CHR 0xE6, CHR 0x81, CHR 0xA2, CHR 0xE5, CHR 0xA4, CHR 0x8D, CHR 0xE5, CHR 0x90,
     CHR 0x8C, CHR 0xE4, CHR 0xB8, CHR 0x80, CHR 0xE6, CHR 0x89, CHR 0xB9, CHR 0xE5, CHR 0x9C,
     CHR 0xA8, CHR 0xE9, CHR 0x80, CHR 0x94, CHR 0xE4, CHR 0xBB, CHR 0xBB, CHR 0xE5, CHR 0x8A,
     CHR 0xA1]"

definition txt_lock_failed :: string where
  "txt_lock_failed =
    [CHR 0xE8, CHR 0x8E, CHR 0xB7, CHR 0xE5, CHR 0x8F, CHR 0x96, CHR 0xE5, CHR 0xAE, CHR 0x9E,
     CHR 0xE4, CHR 0xBE, CHR 0x8B, CHR 0xE9, CHR 0x94, CHR 0x81, CHR 0xE5, CHR 0xA4, CHR 0xB1,
     CHR 0xE8, CHR 0xB4, CHR 0xA5, CHR '' '', CHR 0x22]"

definition txt_main_db_failed :: string where
  "txt_main_db_failed =
    [CHR 0xE6, CHR 0x95, CHR 0xB0, CHR 0xE6, CHR 0x8D, CHR 0xAE, CHR 0xE5, CHR 0xBA, CHR 0x93,
     CHR 0xE5, CHR 0x88, CHR 0x9D, CHR 0xE5, CHR 0xA7, CHR 0x8B, CHR 0xE5, CHR 0x8C, CHR 0x96,
     CHR 0xE5, CHR 0xA4, CHR 0xB1, CHR 0xE8, CHR 0xB4, CHR 0xA5, CHR '':'', CHR '' '']"

definition txt_main_schema_failed :: string where
  "txt_main_schema_failed =
    [CHR 0xE6, CHR 0x95, CHR 0xB0, CHR 0xE6, CHR 0x8D, CHR 0xAE, CHR 0xE5, CHR 0xBA, CHR 0x93,
     CHR 0xE7, CHR 0xBB, CHR 0x93, CHR 0xE6, CHR 0x9E, CHR 0x84, CHR 0xE5, CHR 0x88, CHR 0x9D,
     CHR 0xE5, CHR 0xA7, CHR 0x8B, CHR 0xE5, CHR 0x8C, CHR 0x96, CHR 0xE5, CHR 0xA4, CHR 0xB1,
     CHR 0xE8, CHR 0xB4, CHR 0xA5, CHR '':'', CHR '' '']"

definition txt_main_seed_failed :: string where
  "txt_main_seed_failed =
    [CHR 0xE7, CHR 0xA7, CHR 0x8D, CHR 0xE5, CHR 0xAD, CHR 0x90, CHR 0xE6, CHR 0x95, CHR 0xB0,
     CHR 0xE6, CHR 0x8D, CHR 0xAE, CHR 0xE5, CHR 0xAF, CHR 0xBC, CHR 0xE5, CHR 0x85, CHR 0xA5,
     CHR 0xE5, CHR 0xA4, CHR 0xB1, CHR 0xE8, CHR 0xB4, CHR 0xA5, CHR '':'', CHR '' '']"

definition txt_main_seeded_1 :: string where
  "txt_main_seeded_1 =
    [CHR 0xE7, CHR 0xA7, CHR 0x8D, CHR 0xE5, CHR 0xAD, CHR 0x90, CHR 0xE6, CHR 0x95, CHR 0xB0,
     CHR 0xE6, CHR 0x8D, CHR 0xAE, CHR 0xE5, CHR 0xAF, CHR 0xBC, CHR 0xE5, CHR 0x85, CHR 0xA5,
     CHR 0xE5, CHR 0xAE, CHR 0x8C, CHR 0xE6, CHR 0x88, CHR 0x90, CHR 0xEF, CHR 0xBC, CHR 0x9A,
     CHR 0xE6, CHR 0x96, CHR 0xB0, CHR 0xE5, CHR 0xBB, CHR 0xBA, CHR 0xE9, CHR 0xA2, CHR 0x98,
     CHR 0xE7, CHR 0x9B, CHR 0xAE, CHR '' '']"

definition txt_main_seeded_2 :: string where
  "txt_main_seeded_2 =
    [CHR '' '', CHR 0xE9, CHR 0x81, CHR 0x93, CHR 0xEF, CHR 0xBC, CHR 0x88, CHR 0xE5, CHR 0xB7,
     CHR 0xB2, CHR 0xE5, CHR 0xAD, CHR 0x98, CHR 0xE5, CHR 0x9C, CHR 0xA8, CHR 0xE7, CHR 0x9A,
     CHR 0x84, CHR 0xE9, CHR 0xA2, CHR 0x98, CHR 0xE7, CHR 0x9B, CHR 0xAE, CHR 0xE5, CHR 0xB7,
     CHR 0xB2, CHR 0xE8, CHR 0xB7, CHR 0xB3, CHR 0xE8, CHR 0xBF, CHR 0x87, CHR 0xEF, CHR 0xBC,
     CHR 0x89, CHR 0x0A]"

definition txt_main_starting :: string where
  "txt_main_starting =
    [CHR ''o'', CHR ''j'', CHR ''_'', CHR ''s'', CHR ''e'', CHR ''r'', CHR ''v'', CHR ''e'',
     CHR ''r'', CHR '' '', CHR 0xE6, CHR 0xAD, CHR 0xA3, CHR 0xE5, CHR 0x9C, CHR 0xA8, CHR 0xE5,
     CHR 0x90, CHR 0xAF, CHR 0xE5, CHR 0x8A, CHR 0xA8, CHR ''.'', CHR ''.'', CHR ''.'']"

definition txt_main_db_opened :: string where
  "txt_main_db_opened =
    [CHR 0xE6, CHR 0x95, CHR 0xB0, CHR 0xE6, CHR 0x8D, CHR 0xAE, CHR 0xE5, CHR 0xBA, CHR 0x93,
     CHR 0xE5, CHR 0xB7, CHR 0xB2, CHR 0xE6, CHR 0x89, CHR 0x93, CHR 0xE5, CHR 0xBC, CHR 0x80,
     CHR '':'', CHR '' '']"

definition txt_main_schema_done :: string where
  "txt_main_schema_done =
    [CHR 0xE6, CHR 0x95, CHR 0xB0, CHR 0xE6, CHR 0x8D, CHR 0xAE, CHR 0xE5, CHR 0xBA, CHR 0x93,
     CHR 0xE7, CHR 0xBB, CHR 0x93, CHR 0xE6, CHR 0x9E, CHR 0x84, CHR 0xE5, CHR 0x88, CHR 0x9D,
     CHR 0xE5, CHR 0xA7, CHR 0x8B, CHR 0xE5, CHR 0x8C, CHR 0x96, CHR 0xE5, CHR 0xAE, CHR 0x8C,
     CHR 0xE6, CHR 0x88, CHR 0x90]"

definition txt_main_lock_failed :: string where
  "txt_main_lock_failed =
    [CHR 0xE5, CHR 0xAE, CHR 0x9E, CHR 0xE4, CHR 0xBE, CHR 0x8B, CHR 0xE4, CHR 0xBA, CHR 0x92,
     CHR 0xE6, CHR 0x96, CHR 0xA5, CHR 0xE6, CHR 0xA3, CHR 0x80, CHR 0xE6, CHR 0x9F, CHR 0xA5,
     CHR 0xE5, CHR 0xA4, CHR 0xB1, CHR 0xE8, CHR 0xB4, CHR 0xA5, CHR '':'', CHR '' '']"

definition txt_main_jwt_failed :: string where
  "txt_main_jwt_failed =
    [CHR ''J'', CHR ''W'', CHR ''T'', CHR '' '', CHR 0xE9, CHR 0x85, CHR 0x8D, CHR 0xE7,
     CHR 0xBD, CHR 0xAE, CHR 0xE9, CHR 0x94, CHR 0x99, CHR 0xE8, CHR 0xAF, CHR 0xAF, CHR '':'',
     CHR '' '']"

definition txt_main_jwt_1 :: string where
  "txt_main_jwt_1 =
    [CHR ''J'', CHR ''W'', CHR ''T'', CHR '' '', CHR 0xE9, CHR 0x85, CHR 0x8D, CHR 0xE7,
     CHR 0xBD, CHR 0xAE, CHR 0xE5, CHR 0xB7, CHR 0xB2, CHR 0xE5, CHR 0x8A, CHR 0xA0, CHR 0xE8,
     CHR 0xBD, CHR 0xBD, CHR 0xEF, CHR 0xBC, CHR 0x88, CHR 0xE6, CHR 0x9C, CHR 0x89, CHR 0xE6,
     CHR 0x95, CHR 0x88, CHR 0xE6, CHR 0x9C, CHR 0x9F, CHR '' '']"

definition txt_main_jwt_2 :: string where
  "txt_main_jwt_2 =
    [CHR '' '', CHR 0xE7, CHR 0xA7, CHR 0x92, CHR 0xEF, CHR 0xBC, CHR 0x89]"

definition txt_main_queue_failed :: string where
  "txt_main_queue_failed =
    [CHR 0xE5, CHR 0x88, CHR 0xA4, CHR 0xE9, CHR 0xA2, CHR 0x98, CHR 0xE9, CHR 0x98, CHR 0x9F,
     CHR 0xE5, CHR 0x88, CHR 0x97, CHR 0xE9, CHR 0x85, CHR 0x8D, CHR 0xE7, CHR 0xBD, CHR 0xAE,
     CHR 0xE9, CHR 0x94, CHR 0x99, CHR 0xE8, CHR 0xAF, CHR 0xAF, CHR '':'', CHR '' '']"

definition txt_main_ws_failed :: string where
  "txt_main_ws_failed =
    [CHR 0xE5, CHR 0x88, CHR 0xA4, CHR 0xE9, CHR 0xA2, CHR 0x98, CHR 0xE5, CHR 0xB7, CHR 0xA5,
     CHR 0xE4, CHR 0xBD, CHR 0x9C, CHR 0xE7, CHR 0x9B, CHR 0xAE, CHR 0xE5, CHR 0xBD, CHR 0x95,
     CHR 0xE9, CHR 0x85, CHR 0x8D, CHR 0xE7, CHR 0xBD, CHR 0xAE, CHR 0xE9, CHR 0x94, CHR 0x99,
     CHR 0xE8, CHR 0xAF, CHR 0xAF, CHR '':'', CHR '' '']"

definition txt_main_sandbox_failed :: string where
  "txt_main_sandbox_failed =
    [CHR 0xE5, CHR 0x88, CHR 0xA4, CHR 0xE9, CHR 0xA2, CHR 0x98, CHR 0xE6, CHR 0xB2, CHR 0x99,
     CHR 0xE7, CHR 0xAE, CHR 0xB1, CHR 0xE4, CHR 0xB8, CHR 0x8D, CHR 0xE5, CHR 0x8F, CHR 0xAF,
     CHR 0xE7, CHR 0x94, CHR 0xA8, CHR 0xEF, CHR 0xBC, CHR 0x8C, CHR 0xE6, CHR 0x8B, CHR 0x92,
     CHR 0xE7, CHR 0xBB, CHR 0x9D, CHR 0xE5, CHR 0x90, CHR 0xAF, CHR 0xE5, CHR 0x8A, CHR 0xA8,
     CHR 0xEF, CHR 0xBC, CHR 0x88, CHR 0xE4, CHR 0xB8, CHR 0x8D, CHR 0xE4, CHR 0xBC, CHR 0x9A,
     CHR 0xE9, CHR 0x99, CHR 0x8D, CHR 0xE7, CHR 0xBA, CHR 0xA7, CHR 0xE4, CHR 0xB8, CHR 0xBA,
     CHR 0xE6, CHR 0x97, CHR 0xA0, CHR 0xE4, CHR 0xBF, CHR 0x9D, CHR 0xE6, CHR 0x8A, CHR 0xA4,
     CHR 0xE6, CHR 0x89, CHR 0xA7, CHR 0xE8, CHR 0xA1, CHR 0x8C, CHR 0xEF, CHR 0xBC, CHR 0x89,
     CHR '':'', CHR '' '']"

definition txt_main_tmpfs_failed :: string where
  "txt_main_tmpfs_failed =
    [CHR 0xE5, CHR 0x88, CHR 0xA4, CHR 0xE9, CHR 0xA2, CHR 0x98, CHR 0xE5, CHR 0xB7, CHR 0xA5,
     CHR 0xE4, CHR 0xBD, CHR 0x9C, CHR 0xE7, CHR 0x9B, CHR 0xAE, CHR 0xE5, CHR 0xBD, CHR 0x95,
     CHR 0xE6, CHR 0xA3, CHR 0x80, CHR 0xE6, CHR 0x9F, CHR 0xA5, CHR 0xE5, CHR 0xA4, CHR 0xB1,
     CHR 0xE8, CHR 0xB4, CHR 0xA5, CHR '':'', CHR '' '']"

definition txt_main_nontmpfs_1 :: string where
  "txt_main_nontmpfs_1 =
    [CHR 0xE5, CHR 0xB7, CHR 0xB2, CHR 0xE5, CHR 0x85, CHR 0x81, CHR 0xE8, CHR 0xAE, CHR 0xB8,
     CHR 0xE9, CHR 0x9D, CHR 0x9E, CHR '' '', CHR ''t'', CHR ''m'', CHR ''p'', CHR ''f'',
     CHR ''s'', CHR '' '', CHR 0xE5, CHR 0xB7, CHR 0xA5, CHR 0xE4, CHR 0xBD, CHR 0x9C, CHR 0xE7,
     CHR 0x9B, CHR 0xAE, CHR 0xE5, CHR 0xBD, CHR 0x95, CHR 0xEF, CHR 0xBC, CHR 0x88, CHR ''O'',
     CHR ''J'', CHR ''_'', CHR ''J'', CHR ''U'', CHR ''D'', CHR ''G'', CHR ''E'', CHR ''_'',
     CHR ''A'', CHR ''L'', CHR ''L'', CHR ''O'', CHR ''W'', CHR ''_'', CHR ''N'', CHR ''O'',
     CHR ''N'', CHR ''_'', CHR ''T'', CHR ''M'', CHR ''P'', CHR ''F'', CHR ''S'', CHR ''='',
     CHR ''1'', CHR 0xEF, CHR 0xBC, CHR 0x89, CHR 0xEF, CHR 0xBC, CHR 0x8C]"

definition txt_main_nontmpfs_2 :: string where
  "txt_main_nontmpfs_2 =
    [CHR 0xE4, CHR 0xBB, CHR 0x85, CHR 0xE9, CHR 0x99, CHR 0x90, CHR 0xE5, CHR 0xBC, CHR 0x80,
     CHR 0xE5, CHR 0x8F, CHR 0x91, CHR ''/'', CHR 0xE6, CHR 0xB5, CHR 0x8B, CHR 0xE8, CHR 0xAF,
     CHR 0x95, CHR 0xEF, CHR 0xBC, CHR 0x8C, CHR 0xE6, CHR 0xAD, CHR 0xA3, CHR 0xE5, CHR 0xBC,
     CHR 0x8F, CHR 0xE9, CHR 0x83, CHR 0xA8, CHR 0xE7, CHR 0xBD, CHR 0xB2, CHR 0xE8, CHR 0xAF,
     CHR 0xB7, CHR 0xE6, CHR 0x8C, CHR 0x82, CHR 0xE8, CHR 0xBD, CHR 0xBD, CHR '' '', CHR ''t'',
     CHR ''m'', CHR ''p'', CHR ''f'', CHR ''s'']"

definition txt_main_selftest_failed :: string where
  "txt_main_selftest_failed =
    [CHR 0xE5, CHR 0x88, CHR 0xA4, CHR 0xE9, CHR 0xA2, CHR 0x98, CHR 0xE6, CHR 0xB2, CHR 0x99,
     CHR 0xE7, CHR 0xAE, CHR 0xB1, CHR 0xE8, CHR 0x87, CHR 0xAA, CHR 0xE6, CHR 0xA3, CHR 0x80,
     CHR 0xE5, CHR 0xA4, CHR 0xB1, CHR 0xE8, CHR 0xB4, CHR 0xA5, CHR 0xEF, CHR 0xBC, CHR 0x8C,
     CHR 0xE6, CHR 0x8B, CHR 0x92, CHR 0xE7, CHR 0xBB, CHR 0x9D, CHR 0xE5, CHR 0x90, CHR 0xAF,
     CHR 0xE5, CHR 0x8A, CHR 0xA8, CHR '':'', CHR '' '']"

definition txt_main_compile_failed :: string where
  "txt_main_compile_failed =
    [CHR 0xE7, CHR 0xBC, CHR 0x96, CHR 0xE8, CHR 0xAF, CHR 0x91, CHR 0xE5, CHR 0xB9, CHR 0xB6,
     CHR 0xE5, CHR 0x8F, CHR 0x91, CHR 0xE9, CHR 0x85, CHR 0x8D, CHR 0xE7, CHR 0xBD, CHR 0xAE,
     CHR 0xE9, CHR 0x94, CHR 0x99, CHR 0xE8, CHR 0xAF, CHR 0xAF, CHR '':'', CHR '' '']"

definition txt_main_open :: string where
  "txt_main_open =
    [CHR 0xEF, CHR 0xBC, CHR 0x88]"

definition txt_main_not_tmpfs :: string where
  "txt_main_not_tmpfs =
    [CHR 0xE9, CHR 0x9D, CHR 0x9E, CHR '' '', CHR ''t'', CHR ''m'', CHR ''p'', CHR ''f'',
     CHR ''s'']"

definition txt_main_capacity :: string where
  "txt_main_capacity =
    [CHR 0xEF, CHR 0xBC, CHR 0x8C, CHR 0xE5, CHR 0xAE, CHR 0xB9, CHR 0xE9, CHR 0x87, CHR 0x8F,
     CHR 0xE4, CHR 0xB8, CHR 0x8A, CHR 0xE9, CHR 0x99, CHR 0x90, CHR '' '']"

definition txt_main_close :: string where
  "txt_main_close =
    [CHR 0xEF, CHR 0xBC, CHR 0x89]"

definition txt_main_ws_ready :: string where
  "txt_main_ws_ready =
    [CHR 0xE5, CHR 0x88, CHR 0xA4, CHR 0xE9, CHR 0xA2, CHR 0x98, CHR 0xE5, CHR 0xB7, CHR 0xA5,
     CHR 0xE4, CHR 0xBD, CHR 0x9C, CHR 0xE7, CHR 0x9B, CHR 0xAE, CHR 0xE5, CHR 0xBD, CHR 0x95,
     CHR 0xE5, CHR 0xB7, CHR 0xB2, CHR 0xE5, CHR 0xB0, CHR 0xB1, CHR 0xE7, CHR 0xBB, CHR 0xAA,
     CHR '':'', CHR '' '']"

definition txt_main_recovered_1 :: string where
  "txt_main_recovered_1 =
    [CHR 0xE5, CHR 0x90, CHR 0xAF, CHR 0xE5, CHR 0x8A, CHR 0xA8, CHR 0xE6, CHR 0x81, CHR 0xA2,
     CHR 0xE5, CHR 0xA4, CHR 0x8D, CHR 0xEF, CHR 0xBC, CHR 0x9A, CHR 0xE5, CHR 0xB7, CHR 0xB2,
     CHR 0xE9, CHR 0x87, CHR 0x8D, CHR 0xE6, CHR 0x96, CHR 0xB0, CHR 0xE5, CHR 0x85, CHR 0xA5,
     CHR 0xE9, CHR 0x98, CHR 0x9F, CHR '' '']"

definition txt_main_recovered_2 :: string where
  "txt_main_recovered_2 =
    [CHR '' '', CHR 0xE4, CHR 0xB8, CHR 0xAA, CHR 0xE6, CHR 0x9C, CHR 0xAA, CHR 0xE7, CHR 0xBB,
     CHR 0x93, CHR 0xE7, CHR 0xAE, CHR 0x97, CHR 0xE5, CHR 0x9C, CHR 0xA8, CHR 0xE9, CHR 0x80,
     CHR 0x94, CHR 0xE4, CHR 0xBB, CHR 0xBB, CHR 0xE5, CHR 0x8A, CHR 0xA1]"

definition txt_main_start_failed :: string where
  "txt_main_start_failed =
    [CHR 0xE5, CHR 0x90, CHR 0xAF, CHR 0xE5, CHR 0x8A, CHR 0xA8, CHR 0xE5, CHR 0xA4, CHR 0xB1,
     CHR 0xE8, CHR 0xB4, CHR 0xA5, CHR '':'', CHR '' '']"

definition txt_main_ready_1 :: string where
  "txt_main_ready_1 =
    [CHR 0xE5, CHR 0x88, CHR 0xA4, CHR 0xE9, CHR 0xA2, CHR 0x98, CHR 0xE8, CHR 0xB0, CHR 0x83,
     CHR 0xE5, CHR 0xBA, CHR 0xA6, CHR 0xE5, CHR 0xB7, CHR 0xB2, CHR 0xE5, CHR 0xB0, CHR 0xB1,
     CHR 0xE7, CHR 0xBB, CHR 0xAA, CHR 0xEF, CHR 0xBC, CHR 0x88, CHR ''w'', CHR ''o'',
     CHR ''r'', CHR ''k'', CHR ''e'', CHR ''r'', CHR '' '']"

definition txt_main_ready_2 :: string where
  "txt_main_ready_2 =
    [CHR '' '', CHR 0xE4, CHR 0xB8, CHR 0xAA, CHR 0xEF, CHR 0xBC, CHR 0x8C, CHR 0xE7, CHR 0xAD,
     CHR 0x89, CHR 0xE5, CHR 0xBE, CHR 0x85, CHR 0xE9, CHR 0x98, CHR 0x9F, CHR 0xE5, CHR 0x88,
     CHR 0x97, CHR 0xE5, CHR 0xAE, CHR 0xB9, CHR 0xE9, CHR 0x87, CHR 0x8F, CHR '' '']"

definition txt_main_listening :: string where
  "txt_main_listening =
    [CHR ''H'', CHR ''T'', CHR ''T'', CHR ''P'', CHR '' '', CHR 0xE6, CHR 0x9C, CHR 0x8D,
     CHR 0xE5, CHR 0x8A, CHR 0xA1, CHR 0xE5, CHR 0xB7, CHR 0xB2, CHR 0xE5, CHR 0x90, CHR 0xAF,
     CHR 0xE5, CHR 0x8A, CHR 0xA8, CHR 0xEF, CHR 0xBC, CHR 0x8C, CHR 0xE7, CHR 0x9B, CHR 0x91,
     CHR 0xE5, CHR 0x90, CHR 0xAC, CHR '' '']"

definition txt_main_health :: string where
  "txt_main_health =
    [CHR 0xE5, CHR 0x81, CHR 0xA5, CHR 0xE5, CHR 0xBA, CHR 0xB7, CHR 0xE6, CHR 0xA3, CHR 0x80,
     CHR 0xE6, CHR 0x9F, CHR 0xA5, CHR 0xE6, CHR 0x8E, CHR 0xA5, CHR 0xE5, CHR 0x8F, CHR 0xA3,
     CHR '':'', CHR '' '', CHR ''h'', CHR ''t'', CHR ''t'', CHR ''p'', CHR '':'', CHR ''/'',
     CHR ''/'']"

definition txt_main_front :: string where
  "txt_main_front =
    [CHR 0xE5, CHR 0x89, CHR 0x8D, CHR 0xE7, CHR 0xAB, CHR 0xAF, CHR 0xE9, CHR 0xA1, CHR 0xB5,
     CHR 0xE9, CHR 0x9D, CHR 0xA2, CHR '':'', CHR '' '', CHR ''h'', CHR ''t'', CHR ''t'',
     CHR ''p'', CHR '':'', CHR ''/'', CHR ''/'']"

definition txt_main_front_dir :: string where
  "txt_main_front_dir =
    [CHR ''/'', CHR 0xEF, CHR 0xBC, CHR 0x88, CHR 0xE9, CHR 0x9D, CHR 0x99, CHR 0xE6, CHR 0x80,
     CHR 0x81, CHR 0xE8, CHR 0xB5, CHR 0x84, CHR 0xE6, CHR 0xBA, CHR 0x90, CHR 0xE7, CHR 0x9B,
     CHR 0xAE, CHR 0xE5, CHR 0xBD, CHR 0x95, CHR 0xEF, CHR 0xBC, CHR 0x9A]"

definition txt_main_signal_1 :: string where
  "txt_main_signal_1 =
    [CHR 0xE6, CHR 0x94, CHR 0xB6, CHR 0xE5, CHR 0x88, CHR 0xB0, CHR 0xE4, CHR 0xBF, CHR 0xA1,
     CHR 0xE5, CHR 0x8F, CHR 0xB7, CHR '' '']"

definition txt_main_signal_2 :: string where
  "txt_main_signal_2 =
    [CHR 0xEF, CHR 0xBC, CHR 0x8C, CHR 0xE6, CHR 0xAD, CHR 0xA3, CHR 0xE5, CHR 0x9C, CHR 0xA8,
     CHR 0xE4, CHR 0xBC, CHR 0x98, CHR 0xE9, CHR 0x9B, CHR 0x85, CHR 0xE5, CHR 0x81, CHR 0x9C,
     CHR 0xE6, CHR 0xAD, CHR 0xA2, CHR ''.'', CHR ''.'', CHR ''.'']"

definition txt_main_stopped :: string where
  "txt_main_stopped =
    [CHR ''H'', CHR ''T'', CHR ''T'', CHR ''P'', CHR '' '', CHR 0xE6, CHR 0x9C, CHR 0x8D,
     CHR 0xE5, CHR 0x8A, CHR 0xA1, CHR 0xE5, CHR 0xB7, CHR 0xB2, CHR 0xE5, CHR 0x81, CHR 0x9C,
     CHR 0xE6, CHR 0xAD, CHR 0xA2]"

definition txt_main_released :: string where
  "txt_main_released =
    [CHR 0xE6, CHR 0x95, CHR 0xB0, CHR 0xE6, CHR 0x8D, CHR 0xAE, CHR 0xE5, CHR 0xBA, CHR 0x93,
     CHR 0xE8, CHR 0xB5, CHR 0x84, CHR 0xE6, CHR 0xBA, CHR 0x90, CHR 0xE5, CHR 0xB7, CHR 0xB2,
     CHR 0xE9, CHR 0x87, CHR 0x8A, CHR 0xE6, CHR 0x94, CHR 0xBE]"

definition txt_bind_1 :: string where
  "txt_bind_1 =
    [CHR 0xE6, CHR 0x97, CHR 0xA0, CHR 0xE6, CHR 0xB3, CHR 0x95, CHR 0xE7, CHR 0xBB, CHR 0x91,
     CHR 0xE5, CHR 0xAE, CHR 0x9A, CHR '' '']"

definition txt_bind_2 :: string where
  "txt_bind_2 =
    [CHR 0xEF, CHR 0xBC, CHR 0x88, CHR 0xE5, CHR 0x9C, CHR 0xB0, CHR 0xE5, CHR 0x9D, CHR 0x80,
     CHR 0xE4, CHR 0xB8, CHR 0x8D, CHR 0xE5, CHR 0x8F, CHR 0xAF, CHR 0xE7, CHR 0x94, CHR 0xA8,
     CHR 0xE6, CHR 0x88, CHR 0x96, CHR 0xE7, CHR 0xAB, CHR 0xAF, CHR 0xE5, CHR 0x8F, CHR 0xA3,
     CHR 0xE5, CHR 0xB7, CHR 0xB2, CHR 0xE8, CHR 0xA2, CHR 0xAB, CHR 0xE5, CHR 0x8D, CHR 0xA0,
     CHR 0xE7, CHR 0x94, CHR 0xA8, CHR 0xEF, CHR 0xBC, CHR 0x89]"

definition txt_stopping :: string where
  "txt_stopping =
    [CHR ''H'', CHR ''T'', CHR ''T'', CHR ''P'', CHR '' '', CHR 0xE6, CHR 0x9C, CHR 0x8D,
     CHR 0xE5, CHR 0x8A, CHR 0xA1, CHR 0xE5, CHR 0xBC, CHR 0x80, CHR 0xE5, CHR 0xA7, CHR 0x8B,
     CHR 0xE5, CHR 0x81, CHR 0x9C, CHR 0xE6, CHR 0xAD, CHR 0xA2, CHR 0xEF, CHR 0xBC, CHR 0x9A,
     CHR 0xE5, CHR 0x85, CHR 0x88, CHR 0xE5, CHR 0x8F, CHR 0x96, CHR 0xE6, CHR 0xB6, CHR 0x88,
     CHR 0xE5, CHR 0x88, CHR 0xA4, CHR 0xE9, CHR 0xA2, CHR 0x98, CHR 0xE8, CHR 0xB0, CHR 0x83,
     CHR 0xE5, CHR 0xBA, CHR 0xA6, CHR 0xEF, CHR 0xBC, CHR 0x8C, CHR 0xE5, CHR 0x86, CHR 0x8D,
     CHR 0xE5, CHR 0x81, CHR 0x9C, CHR 0xE6, CHR 0xAD, CHR 0xA2, CHR 0xE7, CHR 0x9B, CHR 0x91,
     CHR 0xE5, CHR 0x90, CHR 0xAC]"

definition txt_stop_late_1 :: string where
  "txt_stop_late_1 =
    [CHR 0xE5, CHR 0x88, CHR 0xA4, CHR 0xE9, CHR 0xA2, CHR 0x98, CHR 0xE8, CHR 0xB0, CHR 0x83,
     CHR 0xE5, CHR 0xBA, CHR 0xA6, CHR 0xE5, CHR 0x99, CHR 0xA8, CHR 0xE5, CHR 0x81, CHR 0x9C,
     CHR 0xE6, CHR 0xAD, CHR 0xA2, CHR 0xE8, CHR 0x80, CHR 0x97, CHR 0xE6, CHR 0x97, CHR 0xB6,
     CHR '' '']"

definition txt_stop_late_2 :: string where
  "txt_stop_late_2 =
    [CHR '' '', CHR ''m'', CHR ''s'', CHR 0xEF, CHR 0xBC, CHR 0x8C, CHR 0xE8, CHR 0xB6,
     CHR 0x85, CHR 0xE5, CHR 0x87, CHR 0xBA, CHR 0xE9, CHR 0xA2, CHR 0x84, CHR 0xE7, CHR 0xAE,
     CHR 0x97, CHR '' '']"

definition txt_stop_late_3 :: string where
  "txt_stop_late_3 =
    [CHR '' '', CHR ''m'', CHR ''s'', CHR 0xEF, CHR 0xBC, CHR 0x88, CHR 0xE5, CHR 0xB7,
     CHR 0xB2, CHR 0xE6, CHR 0x8E, CHR 0xA5, CHR 0xE6, CHR 0x94, CHR 0xB6, CHR '' '']"

definition txt_stop_done_count :: string where
  "txt_stop_done_count =
    [CHR 0xEF, CHR 0xBC, CHR 0x8C, CHR 0xE5, CHR 0xB7, CHR 0xB2, CHR 0xE5, CHR 0xAE, CHR 0x8C,
     CHR 0xE6, CHR 0x88, CHR 0x90, CHR '' '']"

definition txt_stop_1 :: string where
  "txt_stop_1 =
    [CHR 0xE5, CHR 0x88, CHR 0xA4, CHR 0xE9, CHR 0xA2, CHR 0x98, CHR 0xE8, CHR 0xB0, CHR 0x83,
     CHR 0xE5, CHR 0xBA, CHR 0xA6, CHR 0xE5, CHR 0x99, CHR 0xA8, CHR 0xE5, CHR 0xB7, CHR 0xB2,
     CHR 0xE5, CHR 0x81, CHR 0x9C, CHR 0xE6, CHR 0xAD, CHR 0xA2, CHR 0xE5, CHR 0xB9, CHR 0xB6,
     CHR 0xE5, CHR 0x9B, CHR 0x9E, CHR 0xE6, CHR 0x94, CHR 0xB6, CHR '' '', CHR ''w'',
     CHR ''o'', CHR ''r'', CHR ''k'', CHR ''e'', CHR ''r'', CHR 0xEF, CHR 0xBC, CHR 0x88,
     CHR 0xE8, CHR 0x80, CHR 0x97, CHR 0xE6, CHR 0x97, CHR 0xB6, CHR '' '']"

definition txt_stop_2 :: string where
  "txt_stop_2 =
    [CHR '' '', CHR ''m'', CHR ''s'', CHR 0xEF, CHR 0xBC, CHR 0x8C, CHR 0xE5, CHR 0xB7,
     CHR 0xB2, CHR 0xE6, CHR 0x8E, CHR 0xA5, CHR 0xE6, CHR 0x94, CHR 0xB6, CHR '' '']"

definition txt_static_invalid :: string where
  "txt_static_invalid =
    [CHR 0xE9, CHR 0x9D, CHR 0x99, CHR 0xE6, CHR 0x80, CHR 0x81, CHR 0xE8, CHR 0xB5, CHR 0x84,
     CHR 0xE6, CHR 0xBA, CHR 0x90, CHR 0xE7, CHR 0x9B, CHR 0xAE, CHR 0xE5, CHR 0xBD, CHR 0x95,
     CHR 0xE6, CHR 0x97, CHR 0xA0, CHR 0xE6, CHR 0x95, CHR 0x88, CHR 0xEF, CHR 0xBC, CHR 0x8C,
     CHR 0xE5, CHR 0xB7, CHR 0xB2, CHR 0xE8, CHR 0xB7, CHR 0xB3, CHR 0xE8, CHR 0xBF, CHR 0x87,
     CHR 0xE9, CHR 0x9D, CHR 0x99, CHR 0xE6, CHR 0x80, CHR 0x81, CHR 0xE6, CHR 0x89, CHR 0x98,
     CHR 0xE7, CHR 0xAE, CHR 0xA1, CHR '':'', CHR '' '']"

definition txt_static_failed :: string where
  "txt_static_failed =
    [CHR 0xE9, CHR 0x9D, CHR 0x99, CHR 0xE6, CHR 0x80, CHR 0x81, CHR 0xE8, CHR 0xB5, CHR 0x84,
     CHR 0xE6, CHR 0xBA, CHR 0x90, CHR 0xE6, CHR 0x8C, CHR 0x82, CHR 0xE8, CHR 0xBD, CHR 0xBD,
     CHR 0xE5, CHR 0xA4, CHR 0xB1, CHR 0xE8, CHR 0xB4, CHR 0xA5, CHR '':'', CHR '' '']"

definition txt_static_mounted :: string where
  "txt_static_mounted =
    [CHR 0xE9, CHR 0x9D, CHR 0x99, CHR 0xE6, CHR 0x80, CHR 0x81, CHR 0xE8, CHR 0xB5, CHR 0x84,
     CHR 0xE6, CHR 0xBA, CHR 0x90, CHR 0xE5, CHR 0xB7, CHR 0xB2, CHR 0xE6, CHR 0x8C, CHR 0x82,
     CHR 0xE8, CHR 0xBD, CHR 0xBD, CHR '':'', CHR '' '']"

definition txt_db_mkdir :: string where
  "txt_db_mkdir =
    [CHR 0xE6, CHR 0x97, CHR 0xA0, CHR 0xE6, CHR 0xB3, CHR 0x95, CHR 0xE5, CHR 0x88, CHR 0x9B,
     CHR 0xE5, CHR 0xBB, CHR 0xBA, CHR 0xE6, CHR 0x95, CHR 0xB0, CHR 0xE6, CHR 0x8D, CHR 0xAE,
     CHR 0xE7, CHR 0x9B, CHR 0xAE, CHR 0xE5, CHR 0xBD, CHR 0x95, CHR '' '', CHR 0x22]"

definition txt_db_open :: string where
  "txt_db_open =
    [CHR 0xE6, CHR 0x97, CHR 0xA0, CHR 0xE6, CHR 0xB3, CHR 0x95, CHR 0xE6, CHR 0x89, CHR 0x93,
     CHR 0xE5, CHR 0xBC, CHR 0x80, CHR 0xE6, CHR 0x95, CHR 0xB0, CHR 0xE6, CHR 0x8D, CHR 0xAE,
     CHR 0xE5, CHR 0xBA, CHR 0x93, CHR '' '', CHR 0x22]"

definition txt_db_unknown :: string where
  "txt_db_unknown =
    [CHR 0xE6, CHR 0x9C, CHR 0xAA, CHR 0xE7, CHR 0x9F, CHR 0xA5, CHR 0xE9, CHR 0x94, CHR 0x99,
     CHR 0xE8, CHR 0xAF, CHR 0xAF]"

definition txt_usage_1 :: string where
  "txt_usage_1 =
    [CHR 0xE7, CHR 0x94, CHR 0xA8, CHR 0xE6, CHR 0xB3, CHR 0x95, CHR '':'', CHR '' '']"

definition txt_usage_2 :: string where
  "txt_usage_2 =
    [CHR '' '', CHR ''['', CHR ''-'', CHR ''-'', CHR ''h'', CHR ''o'', CHR ''s'', CHR ''t'',
     CHR '' '', CHR ''<'', CHR 0xE5, CHR 0x9C, CHR 0xB0, CHR 0xE5, CHR 0x9D, CHR 0x80,
     CHR ''>'', CHR '']'', CHR '' '', CHR ''['', CHR ''-'', CHR ''-'', CHR ''p'', CHR ''o'',
     CHR ''r'', CHR ''t'', CHR '' '', CHR ''<'', CHR 0xE7, CHR 0xAB, CHR 0xAF, CHR 0xE5,
     CHR 0x8F, CHR 0xA3, CHR ''>'', CHR '']'', CHR '' '', CHR ''['', CHR ''-'', CHR ''-'',
     CHR ''d'', CHR ''b'', CHR '' '', CHR ''<'', CHR 0xE8, CHR 0xB7, CHR 0xAF, CHR 0xE5,
     CHR 0xBE, CHR 0x84, CHR ''>'', CHR '']'', CHR '' '', CHR ''['', CHR ''-'', CHR ''-'',
     CHR ''w'', CHR ''e'', CHR ''b'', CHR '' '', CHR ''<'', CHR 0xE7, CHR 0x9B, CHR 0xAE,
     CHR 0xE5, CHR 0xBD, CHR 0x95, CHR ''>'', CHR '']'', CHR '' '', CHR ''['', CHR ''-'',
     CHR ''-'', CHR ''s'', CHR ''e'', CHR ''e'', CHR ''d'', CHR '']'', CHR '' '', CHR ''['',
     CHR ''-'', CHR ''-'', CHR ''h'', CHR ''e'', CHR ''l'', CHR ''p'', CHR '']'', CHR 0x0A]"

definition txt_usage_3 :: string where
  "txt_usage_3 =
    [CHR '' '', CHR '' '', CHR ''-'', CHR ''-'', CHR ''h'', CHR ''o'', CHR ''s'', CHR ''t'',
     CHR '' '', CHR '' '', CHR 0xE7, CHR 0x9B, CHR 0x91, CHR 0xE5, CHR 0x90, CHR 0xAC, CHR 0xE5,
     CHR 0x9C, CHR 0xB0, CHR 0xE5, CHR 0x9D, CHR 0x80, CHR 0xEF, CHR 0xBC, CHR 0x8C, CHR 0xE9,
     CHR 0xBB, CHR 0x98, CHR 0xE8, CHR 0xAE, CHR 0xA4, CHR '' '', CHR ''0'', CHR ''.'',
     CHR ''0'', CHR ''.'', CHR ''0'', CHR ''.'', CHR ''0'', CHR 0x0A]"

definition txt_usage_4 :: string where
  "txt_usage_4 =
    [CHR '' '', CHR '' '', CHR ''-'', CHR ''-'', CHR ''p'', CHR ''o'', CHR ''r'', CHR ''t'',
     CHR '' '', CHR '' '', CHR 0xE7, CHR 0x9B, CHR 0x91, CHR 0xE5, CHR 0x90, CHR 0xAC, CHR 0xE7,
     CHR 0xAB, CHR 0xAF, CHR 0xE5, CHR 0x8F, CHR 0xA3, CHR 0xEF, CHR 0xBC, CHR 0x8C, CHR 0xE9,
     CHR 0xBB, CHR 0x98, CHR 0xE8, CHR 0xAE, CHR 0xA4, CHR '' '', CHR ''8'', CHR ''0'',
     CHR ''8'', CHR ''0'', CHR 0xEF, CHR 0xBC, CHR 0x88, CHR 0xE8, CHR 0x8C, CHR 0x83, CHR 0xE5,
     CHR 0x9B, CHR 0xB4, CHR '' '', CHR ''1'', CHR ''-'', CHR ''6'', CHR ''5'', CHR ''5'',
     CHR ''3'', CHR ''5'', CHR 0xEF, CHR 0xBC, CHR 0x89, CHR 0x0A]"

definition txt_usage_5 :: string where
  "txt_usage_5 =
    [CHR '' '', CHR '' '', CHR ''-'', CHR ''-'', CHR ''d'', CHR ''b'', CHR '' '', CHR '' '',
     CHR '' '', CHR '' '', CHR ''S'', CHR ''Q'', CHR ''L'', CHR ''i'', CHR ''t'', CHR ''e'',
     CHR '' '', CHR 0xE6, CHR 0x95, CHR 0xB0, CHR 0xE6, CHR 0x8D, CHR 0xAE, CHR 0xE5, CHR 0xBA,
     CHR 0x93, CHR 0xE8, CHR 0xB7, CHR 0xAF, CHR 0xE5, CHR 0xBE, CHR 0x84, CHR 0xEF, CHR 0xBC,
     CHR 0x8C, CHR 0xE9, CHR 0xBB, CHR 0x98, CHR 0xE8, CHR 0xAE, CHR 0xA4, CHR '' '', CHR ''d'',
     CHR ''a'', CHR ''t'', CHR ''a'', CHR ''/'', CHR ''o'', CHR ''j'', CHR ''.'', CHR ''d'',
     CHR ''b'', CHR 0x0A]"

definition txt_usage_6 :: string where
  "txt_usage_6 =
    [CHR '' '', CHR '' '', CHR ''-'', CHR ''-'', CHR ''w'', CHR ''e'', CHR ''b'', CHR '' '',
     CHR '' '', CHR '' '', CHR 0xE5, CHR 0x89, CHR 0x8D, CHR 0xE7, CHR 0xAB, CHR 0xAF, CHR 0xE9,
     CHR 0x9D, CHR 0x99, CHR 0xE6, CHR 0x80, CHR 0x81, CHR 0xE8, CHR 0xB5, CHR 0x84, CHR 0xE6,
     CHR 0xBA, CHR 0x90, CHR 0xE7, CHR 0x9B, CHR 0xAE, CHR 0xE5, CHR 0xBD, CHR 0x95, CHR 0xEF,
     CHR 0xBC, CHR 0x8C, CHR 0xE9, CHR 0xBB, CHR 0x98, CHR 0xE8, CHR 0xAE, CHR 0xA4, CHR '' '',
     CHR ''w'', CHR ''e'', CHR ''b'', CHR 0xEF, CHR 0xBC, CHR 0x88, CHR 0xE4, CHR 0xBB,
     CHR 0x85, CHR 0xE8, CHR 0xAF, CHR 0xA5, CHR 0xE7, CHR 0x9B, CHR 0xAE, CHR 0xE5, CHR 0xBD,
     CHR 0x95, CHR 0xE5, CHR 0xAF, CHR 0xB9, CHR 0xE5, CHR 0xA4, CHR 0x96, CHR 0xE5, CHR 0x8F,
     CHR 0xAF, CHR 0xE8, CHR 0xAF, CHR 0xBB, CHR 0xEF, CHR 0xBC, CHR 0x89, CHR 0x0A]"

definition txt_usage_7 :: string where
  "txt_usage_7 =
    [CHR '' '', CHR '' '', CHR ''-'', CHR ''-'', CHR ''s'', CHR ''e'', CHR ''e'', CHR ''d'',
     CHR '' '', CHR '' '', CHR 0xE5, CHR 0xAF, CHR 0xBC, CHR 0xE5, CHR 0x85, CHR 0xA5, CHR 0xE5,
     CHR 0x86, CHR 0x85, CHR 0xE7, CHR 0xBD, CHR 0xAE, CHR 0xE7, CHR 0xA7, CHR 0x8D, CHR 0xE5,
     CHR 0xAD, CHR 0x90, CHR 0xE9, CHR 0xA2, CHR 0x98, CHR 0xE7, CHR 0x9B, CHR 0xAE, CHR 0xE5,
     CHR 0x90, CHR 0x8E, CHR 0xE9, CHR 0x80, CHR 0x80, CHR 0xE5, CHR 0x87, CHR 0xBA, CHR 0xEF,
     CHR 0xBC, CHR 0x88, CHR 0xE5, CHR 0xB9, CHR 0x82, CHR 0xE7, CHR 0xAD, CHR 0x89, CHR 0xEF,
     CHR 0xBC, CHR 0x8C, CHR 0xE4, CHR 0xB8, CHR 0x8D, CHR 0xE8, CHR 0xA6, CHR 0x86, CHR 0xE7,
     CHR 0x9B, CHR 0x96, CHR 0xE5, CHR 0xB7, CHR 0xB2, CHR 0xE6, CHR 0x9C, CHR 0x89, CHR 0xE9,
     CHR 0xA2, CHR 0x98, CHR 0xE7, CHR 0x9B, CHR 0xAE, CHR 0xEF, CHR 0xBC, CHR 0x8C, CHR 0xE4,
     CHR 0xB8, CHR 0x8D, CHR 0xE5, CHR 0x90, CHR 0xAF, CHR 0xE5, CHR 0x8A, CHR 0xA8, CHR 0xE6,
     CHR 0x9C, CHR 0x8D, CHR 0xE5, CHR 0x8A, CHR 0xA1, CHR 0xEF, CHR 0xBC, CHR 0x89, CHR 0x0A]"

definition txt_usage_8 :: string where
  "txt_usage_8 =
    [CHR '' '', CHR '' '', CHR ''-'', CHR ''-'', CHR ''h'', CHR ''e'', CHR ''l'', CHR ''p'',
     CHR '' '', CHR '' '', CHR 0xE6, CHR 0x98, CHR 0xBE, CHR 0xE7, CHR 0xA4, CHR 0xBA, CHR 0xE6,
     CHR 0x9C, CHR 0xAC, CHR 0xE5, CHR 0xB8, CHR 0xAE, CHR 0xE5, CHR 0x8A, CHR 0xA9, CHR 0x0A]"

definition txt_usage_9 :: string where
  "txt_usage_9 =
    [CHR 0xE7, CHR 0x8E, CHR 0xAF, CHR 0xE5, CHR 0xA2, CHR 0x83, CHR 0xE5, CHR 0x8F, CHR 0x98,
     CHR 0xE9, CHR 0x87, CHR 0x8F, CHR '':'', CHR 0x0A]"

definition txt_usage_10 :: string where
  "txt_usage_10 =
    [CHR '' '', CHR '' '', CHR ''O'', CHR ''J'', CHR ''_'', CHR ''A'', CHR ''D'', CHR ''M'',
     CHR ''I'', CHR ''N'', CHR ''_'', CHR ''P'', CHR ''A'', CHR ''S'', CHR ''S'', CHR ''W'',
     CHR ''O'', CHR ''R'', CHR ''D'', CHR '' '', CHR '' '', CHR 0xE9, CHR 0xA6, CHR 0x96,
     CHR 0xE6, CHR 0xAC, CHR 0xA1, CHR 0xE5, CHR 0x88, CHR 0x9D, CHR 0xE5, CHR 0xA7, CHR 0x8B,
     CHR 0xE5, CHR 0x8C, CHR 0x96, CHR 0xEF, CHR 0xBC, CHR 0x88, CHR 0xE5, CHR 0xB0, CHR 0x9A,
     CHR 0xE6, CHR 0x97, CHR 0xA0, CHR '' '', CHR ''a'', CHR ''d'', CHR ''m'', CHR ''i'',
     CHR ''n'', CHR 0xEF, CHR 0xBC, CHR 0x89, CHR 0xE6, CHR 0x97, CHR 0xB6, CHR 0xE9, CHR 0xA2,
     CHR 0x84, CHR 0xE7, CHR 0xBD, CHR 0xAE, CHR 0xE7, CHR 0x9A, CHR 0x84, CHR 0xE7, CHR 0xAE,
     CHR 0xA1, CHR 0xE7, CHR 0x90, CHR 0x86, CHR 0xE5, CHR 0x91, CHR 0x98, CHR 0xE5, CHR 0x88,
     CHR 0x9D, CHR 0xE5, CHR 0xA7, CHR 0x8B, CHR 0xE5, CHR 0xAF, CHR 0x86, CHR 0xE7, CHR 0xA0,
     CHR 0x81, CHR 0xEF, CHR 0xBC, CHR 0x9B, CHR 0x0A]"

definition txt_usage_11 :: string where
  "txt_usage_11 =
    [CHR '' '', CHR '' '', CHR '' '', CHR '' '', CHR '' '', CHR '' '', CHR '' '', CHR '' '',
     CHR '' '', CHR '' '', CHR '' '', CHR '' '', CHR '' '', CHR '' '', CHR '' '', CHR '' '',
     CHR '' '', CHR '' '', CHR '' '', CHR '' '', CHR '' '', CHR 0xE5, CHR 0xB7, CHR 0xB2,
     CHR 0xE6, CHR 0x9C, CHR 0x89, CHR '' '', CHR ''a'', CHR ''d'', CHR ''m'', CHR ''i'',
     CHR ''n'', CHR '' '', CHR 0xE6, CHR 0x97, CHR 0xB6, CHR 0xE6, CHR 0x97, CHR 0xA0, CHR 0xE9,
     CHR 0x9C, CHR 0x80, CHR 0xE8, CHR 0xAE, CHR 0xBE, CHR 0xE7, CHR 0xBD, CHR 0xAE, CHR 0xE3,
     CHR 0x80, CHR 0x82, CHR 0x0A]"

definition txt_usage_12 :: string where
  "txt_usage_12 =
    [CHR '' '', CHR '' '', CHR ''O'', CHR ''J'', CHR ''_'', CHR ''J'', CHR ''W'', CHR ''T'',
     CHR ''_'', CHR ''S'', CHR ''E'', CHR ''C'', CHR ''R'', CHR ''E'', CHR ''T'', CHR '' '',
     CHR '' '', CHR '' '', CHR '' '', CHR '' '', CHR '' '', CHR ''J'', CHR ''W'', CHR ''T'',
     CHR '' '', CHR 0xE7, CHR 0xAD, CHR 0xBE, CHR 0xE5, CHR 0x90, CHR 0x8D, CHR 0xE5, CHR 0xAF,
     CHR 0x86, CHR 0xE9, CHR 0x92, CHR 0xA5, CHR 0xEF, CHR 0xBC, CHR 0x88, CHR 0xE5, CHR 0xBF,
     CHR 0x85, CHR 0xE9, CHR 0x9C, CHR 0x80, CHR 0xEF, CHR 0xBC, CHR 0x8C, CHR 0xE9, CHR 0x95,
     CHR 0xBF, CHR 0xE5, CHR 0xBA, CHR 0xA6, CHR 0xE4, CHR 0xB8, CHR 0x8D, CHR 0xE5, CHR 0xB0,
     CHR 0x91, CHR 0xE4, CHR 0xBA, CHR 0x8E, CHR '' '']"

definition txt_usage_13 :: string where
  "txt_usage_13 =
    [CHR '' '', CHR 0xE5, CHR 0xAD, CHR 0x97, CHR 0xE8, CHR 0x8A, CHR 0x82, CHR 0xEF, CHR 0xBC,
     CHR 0x89, CHR 0xE3, CHR 0x80, CHR 0x82, CHR 0x0A]"

definition txt_usage_14 :: string where
  "txt_usage_14 =
    [CHR '' '', CHR '' '', CHR ''O'', CHR ''J'', CHR ''_'', CHR ''J'', CHR ''W'', CHR ''T'',
     CHR ''_'', CHR ''E'', CHR ''X'', CHR ''P'', CHR ''I'', CHR ''R'', CHR ''E'', CHR ''S'',
     CHR ''_'', CHR ''S'', CHR ''E'', CHR ''C'', CHR ''O'', CHR ''N'', CHR ''D'', CHR ''S'',
     CHR '' '', CHR '' '', CHR ''J'', CHR ''W'', CHR ''T'', CHR '' '', CHR 0xE6, CHR 0x9C,
     CHR 0x89, CHR 0xE6, CHR 0x95, CHR 0x88, CHR 0xE6, CHR 0x9C, CHR 0x9F, CHR 0xEF, CHR 0xBC,
     CHR 0x88, CHR 0xE7, CHR 0xA7, CHR 0x92, CHR 0xEF, CHR 0xBC, CHR 0x89, CHR 0xEF, CHR 0xBC,
     CHR 0x8C, CHR 0xE9, CHR 0xBB, CHR 0x98, CHR 0xE8, CHR 0xAE, CHR 0xA4, CHR '' '', CHR ''3'',
     CHR ''6'', CHR ''0'', CHR ''0'', CHR 0xE3, CHR 0x80, CHR 0x82, CHR 0x0A]"

definition txt_usage_15 :: string where
  "txt_usage_15 =
    [CHR '' '', CHR '' '', CHR ''O'', CHR ''J'', CHR ''_'', CHR ''J'', CHR ''U'', CHR ''D'',
     CHR ''G'', CHR ''E'', CHR ''_'', CHR ''Q'', CHR ''U'', CHR ''E'', CHR ''U'', CHR ''E'',
     CHR ''_'', CHR ''C'', CHR ''A'', CHR ''P'', CHR ''A'', CHR ''C'', CHR ''I'', CHR ''T'',
     CHR ''Y'', CHR '' '', CHR '' '', CHR 0xE5, CHR 0x88, CHR 0xA4, CHR 0xE9, CHR 0xA2,
     CHR 0x98, CHR 0xE7, CHR 0xAD, CHR 0x89, CHR 0xE5, CHR 0xBE, CHR 0x85, CHR 0xE9, CHR 0x98,
     CHR 0x9F, CHR 0xE5, CHR 0x88, CHR 0x97, CHR 0xE5, CHR 0xAE, CHR 0xB9, CHR 0xE9, CHR 0x87,
     CHR 0x8F, CHR 0xEF, CHR 0xBC, CHR 0x88, CHR 0xE7, CHR 0xAD, CHR 0x89, CHR 0xE5, CHR 0xBE,
     CHR 0x85, CHR 0xE6, CHR 0x89, CHR 0xA7, CHR 0xE8, CHR 0xA1, CHR 0x8C, CHR 0xE7, CHR 0x9A,
     CHR 0x84, CHR 0xE4, CHR 0xBB, CHR 0xBB, CHR 0xE5, CHR 0x8A, CHR 0xA1, CHR 0xE6, CHR 0x95,
     CHR 0xB0, CHR 0xEF, CHR 0xBC, CHR 0x89, CHR 0xEF, CHR 0xBC, CHR 0x8C, CHR 0x0A]"

definition txt_usage_16 :: string where
  "txt_usage_16 =
    [CHR '' '', CHR '' '', CHR '' '', CHR '' '', CHR '' '', CHR '' '', CHR '' '', CHR '' '',
     CHR '' '', CHR '' '', CHR '' '', CHR '' '', CHR '' '', CHR '' '', CHR '' '', CHR '' '',
     CHR '' '', CHR '' '', CHR '' '', CHR '' '', CHR '' '', CHR '' '', CHR '' '', CHR '' '',
     CHR '' '', CHR '' '', CHR '' '', CHR 0xE9, CHR 0xBB, CHR 0x98, CHR 0xE8, CHR 0xAE,
     CHR 0xA4, CHR '' '']"

definition txt_usage_17 :: string where
  "txt_usage_17 =
    [CHR 0xEF, CHR 0xBC, CHR 0x8C, CHR 0xE5, CHR 0x8F, CHR 0x96, CHR 0xE5, CHR 0x80, CHR 0xBC,
     CHR '' '', CHR ''1'', CHR ''.'', CHR ''.'']"

definition txt_usage_18 :: string where
  "txt_usage_18 =
    [CHR 0xE3, CHR 0x80, CHR 0x82, CHR 0x0A]"

definition txt_usage_19 :: string where
  "txt_usage_19 =
    [CHR '' '', CHR '' '', CHR ''O'', CHR ''J'', CHR ''_'', CHR ''J'', CHR ''U'', CHR ''D'',
     CHR ''G'', CHR ''E'', CHR ''_'', CHR ''W'', CHR ''O'', CHR ''R'', CHR ''K'', CHR ''S'',
     CHR ''P'', CHR ''A'', CHR ''C'', CHR ''E'', CHR '' '', CHR '' '', CHR '' '', CHR '' '',
     CHR '' '', CHR '' '', CHR '' '', CHR 0xE5, CHR 0x88, CHR 0xA4, CHR 0xE9, CHR 0xA2,
     CHR 0x98, CHR '' '', CHR ''t'', CHR ''m'', CHR ''p'', CHR ''f'', CHR ''s'', CHR '' '',
     CHR 0xE5, CHR 0xB7, CHR 0xA5, CHR 0xE4, CHR 0xBD, CHR 0x9C, CHR 0xE7, CHR 0x9B, CHR 0xAE,
     CHR 0xE5, CHR 0xBD, CHR 0x95, CHR 0xE6, CHR 0xA0, CHR 0xB9, CHR 0xEF, CHR 0xBC, CHR 0x8C,
     CHR 0xE9, CHR 0xBB, CHR 0x98, CHR 0xE8, CHR 0xAE, CHR 0xA4, CHR '' '']"

definition txt_usage_20 :: string where
  "txt_usage_20 =
    [CHR '' '', CHR '' '', CHR ''O'', CHR ''J'', CHR ''_'', CHR ''J'', CHR ''U'', CHR ''D'',
     CHR ''G'', CHR ''E'', CHR ''_'', CHR ''A'', CHR ''L'', CHR ''L'', CHR ''O'', CHR ''W'',
     CHR ''_'', CHR ''N'', CHR ''O'', CHR ''N'', CHR ''_'', CHR ''T'', CHR ''M'', CHR ''P'',
     CHR ''F'', CHR ''S'', CHR '' '', CHR 0xE5, CHR 0x8F, CHR 0x96, CHR '' '', CHR ''1'',
     CHR '' '', CHR 0xE6, CHR 0x97, CHR 0xB6, CHR 0xE5, CHR 0x85, CHR 0x81, CHR 0xE8, CHR 0xAE,
     CHR 0xB8, CHR 0xE5, CHR 0xB7, CHR 0xA5, CHR 0xE4, CHR 0xBD, CHR 0x9C, CHR 0xE7, CHR 0x9B,
     CHR 0xAE, CHR 0xE5, CHR 0xBD, CHR 0x95, CHR 0xE9, CHR 0x9D, CHR 0x9E, CHR '' '', CHR ''t'',
     CHR ''m'', CHR ''p'', CHR ''f'', CHR ''s'', CHR 0xEF, CHR 0xBC, CHR 0x88, CHR 0xE4,
     CHR 0xBB, CHR 0x85, CHR 0xE5, CHR 0xBC, CHR 0x80, CHR 0xE5, CHR 0x8F, CHR 0x91, CHR ''/'',
     CHR 0xE6, CHR 0xB5, CHR 0x8B, CHR 0xE8, CHR 0xAF, CHR 0x95, CHR 0xEF, CHR 0xBC, CHR 0x8C,
     CHR 0xE4, CHR 0xB8, CHR 0x8D, CHR 0xE6, CHR 0x8E, CHR 0xA8, CHR 0xE8, CHR 0x8D, CHR 0x90,
     CHR 0xEF, CHR 0xBC, CHR 0x89, CHR 0xE3, CHR 0x80, CHR 0x82, CHR 0x0A]"

definition txt_usage_21 :: string where
  "txt_usage_21 =
    [CHR '' '', CHR '' '', CHR ''O'', CHR ''J'', CHR ''_'', CHR ''J'', CHR ''U'', CHR ''D'',
     CHR ''G'', CHR ''E'', CHR ''_'', CHR ''C'', CHR ''O'', CHR ''M'', CHR ''P'', CHR ''I'',
     CHR ''L'', CHR ''E'', CHR ''_'', CHR ''C'', CHR ''O'', CHR ''N'', CHR ''C'', CHR ''U'',
     CHR ''R'', CHR ''R'', CHR ''E'', CHR ''N'', CHR ''C'', CHR ''Y'', CHR '' '', CHR '' '',
     CHR 0xE7, CHR 0xBC, CHR 0x96, CHR 0xE8, CHR 0xAF, CHR 0x91, CHR 0xE9, CHR 0x98, CHR 0xB6,
     CHR 0xE6, CHR 0xAE, CHR 0xB5, CHR 0xE5, CHR 0xB9, CHR 0xB6, CHR 0xE5, CHR 0x8F, CHR 0x91,
     CHR 0xE9, CHR 0x97, CHR 0xA8, CHR 0xE9, CHR 0x99, CHR 0x90, CHR 0xEF, CHR 0xBC, CHR 0x8C,
     CHR 0xE9, CHR 0xBB, CHR 0x98, CHR 0xE8, CHR 0xAE, CHR 0xA4, CHR '' '']"

end
