(* ===== verification/OJ_Users.thy ===== *)
theory OJ_Users
  imports OJ_Database OJ_Messages
begin

text \<open>
  The user stores (\<open>db/users.cpp\<close>, \<open>db/user_admin.cpp\<close>) and the initialisation of the schema
  with the first administrator (\<open>db/schema.cpp\<close>).
\<close>

section \<open>Statements\<close>

definition find_row :: "('r \<Rightarrow> bool) \<Rightarrow> 'r list \<Rightarrow> 'r option" where
  "find_row P rows = List.find P rows"

definition role_ok :: "string \<Rightarrow> bool" where
  "role_ok r = (r = ''admin'' \<or> r = ''user'')"

text \<open>
  \<open>INSERT INTO users\<close>; the unique columns are checked in the order of the table definition.
\<close>

definition insert_user ::
  "string \<Rightarrow> string \<Rightarrow> string \<Rightarrow> string \<Rightarrow> int \<Rightarrow> string \<Rightarrow> tables \<Rightarrow> db_error + (user_row \<times> tables)" where
  "insert_user account nickname hash role flag now t =
     (if \<exists>u \<in> set (tb_users t). us_account u = account then Inl (UniqueViolation ''users.account'')
      else if \<exists>u \<in> set (tb_users t). us_nickname u = nickname then Inl (UniqueViolation ''users.nickname'')
      else if \<not> role_ok role then Inl (ConstraintViolation ''CHECK constraint failed: users'')
      else let row = \<lparr>us_id = tb_users_seq t + 1, us_account = account, us_nickname = nickname,
                      us_password_hash = hash, us_role = role, us_reset_pwd_flag = flag,
                      us_created_at = now\<rparr>
           in Inr (row, t\<lparr>tb_users := tb_users t @ [row], tb_users_seq := tb_users_seq t + 1\<rparr>))"

definition update_users :: "int \<Rightarrow> (user_row \<Rightarrow> user_row) \<Rightarrow> tables \<Rightarrow> tables" where
  "update_users i f t = t\<lparr>tb_users := map (\<lambda>u. if us_id u = i then f u else u) (tb_users t)\<rparr>"

definition set_password :: "int \<Rightarrow> string \<Rightarrow> int \<Rightarrow> tables \<Rightarrow> tables" where
  "set_password i hash flag = update_users i (\<lambda>u. u\<lparr>us_password_hash := hash, us_reset_pwd_flag := flag\<rparr>)"

definition set_role :: "int \<Rightarrow> string \<Rightarrow> tables \<Rightarrow> db_error + (unit \<times> tables)" where
  "set_role i role t =
     (if (\<exists>u \<in> set (tb_users t). us_id u = i) \<and> \<not> role_ok role
      then Inl (ConstraintViolation ''CHECK constraint failed: users'')
      else Inr ((), update_users i (\<lambda>u. u\<lparr>us_role := role\<rparr>) t))"

section \<open>UserStore\<close>

definition load_user :: "user_row \<Rightarrow> user_row" where
  "load_user u = \<lparr>us_id = us_id u, us_account = column_text (us_account u),
     us_nickname = column_text (us_nickname u), us_password_hash = column_text (us_password_hash u),
     us_role = column_text (us_role u), us_reset_pwd_flag = us_reset_pwd_flag u,
     us_created_at = column_text (us_created_at u)\<rparr>"

definition find_user_by :: "(user_row \<Rightarrow> 'k) \<Rightarrow> 'k \<Rightarrow> (db_error, user_row option) dbm" where
  "find_user_by col value =
     sql_read (\<lambda>t. map_option load_user (find_row (\<lambda>u. col u = value) (tb_users t)))"

definition user_find_by_account :: "string \<Rightarrow> (db_error, user_row option) dbm" where
  "user_find_by_account account = find_user_by us_account account"

definition user_find_by_id :: "int \<Rightarrow> (db_error, user_row option) dbm" where
  "user_find_by_id i = find_user_by us_id i"

definition user_find_by_nickname :: "string \<Rightarrow> (db_error, user_row option) dbm" where
  "user_find_by_nickname nickname = find_user_by us_nickname nickname"

datatype user_create_error = NicknameTaken | AccountTaken | UserCreateError string

fun classify_create_error :: "db_error \<Rightarrow> user_create_error" where
  "classify_create_error (UniqueViolation col) =
     (let msg = errmsg (UniqueViolation col) in
      if contains_sub ''nickname'' msg then NicknameTaken
      else if contains_sub ''account'' msg then AccountTaken
      else UserCreateError msg)"
| "classify_create_error e = UserCreateError (errmsg e)"

definition user_create :: "string \<Rightarrow> string \<Rightarrow> string \<Rightarrow> (user_create_error, user_row) dbm" where
  "user_create account nickname hash =
     db_map_error classify_create_error
       (db_bind (sql_at (insert_user account nickname hash ''user'' 0)) (\<lambda>u. db_ret (load_user u)))"

datatype user_update_error = UserNotFound | UserUpdateError string

text \<open>\<open>UPDATE users ... WHERE id = ? RETURNING id\<close>: a row comes back if there is such a user.\<close>

definition update_returning :: "int \<Rightarrow> (tables \<Rightarrow> tables) \<Rightarrow> (user_update_error, unit) dbm" where
  "update_returning i f =
     (\<lambda>d. case sql (\<lambda>t. Inr (\<exists>u \<in> set (tb_users t). us_id u = i, f t)) d of
        (Inl e, d1) \<Rightarrow> (Inl (UserUpdateError (errmsg e)), d1)
      | (Inr found, d1) \<Rightarrow> (if found then (Inr (), d1) else (Inl UserNotFound, d1)))"

definition user_update_password :: "int \<Rightarrow> string \<Rightarrow> (user_update_error, unit) dbm" where
  "user_update_password i hash = update_returning i (set_password i hash 0)"

section \<open>UserAdminStore\<close>

definition admin_reset_password :: "int \<Rightarrow> string \<Rightarrow> (user_update_error, unit) dbm" where
  "admin_reset_password i hash = update_returning i (set_password i hash 1)"

record user_summary =
  uq_id :: int
  uq_account :: string
  uq_nickname :: string
  uq_role :: string
  uq_reset_pwd_flag :: int
  uq_created_at :: string

definition user_summary_of :: "user_row \<Rightarrow> user_summary" where
  "user_summary_of u = \<lparr>uq_id = us_id u, uq_account = column_text (us_account u),
     uq_nickname = column_text (us_nickname u), uq_role = column_text (us_role u),
     uq_reset_pwd_flag = us_reset_pwd_flag u, uq_created_at = column_text (us_created_at u)\<rparr>"

definition list_users :: "int \<Rightarrow> int \<Rightarrow> (db_error, user_summary list \<times> int) dbm" where
  "list_users page page_size =
     db_bind (sql_read (\<lambda>t. int (length (tb_users t)))) (\<lambda>n.
     db_bind (sql_read (\<lambda>t. map user_summary_of
       (limit_offset page_size ((page - 1) * page_size) (sort_key us_id (tb_users t))))) (\<lambda>us.
     db_ret (us, n)))"

datatype role_error = RoleNotFound | RoleLastAdmin | RoleError string

definition admin_count :: "tables \<Rightarrow> int" where
  "admin_count t = int (length (filter (\<lambda>u. us_role u = ''admin'') (tb_users t)))"

definition change_role_body :: "int \<Rightarrow> string \<Rightarrow> (role_error, unit) dbm" where
  "change_role_body i new_role =
     db_bind (db_map_error (\<lambda>e. RoleError (errmsg e)) (user_find_by_id i)) (\<lambda>found.
       case found of
         None \<Rightarrow> db_fail RoleNotFound
       | Some u \<Rightarrow>
           db_bind (if us_role u = ''admin'' \<and> new_role \<noteq> ''admin''
             then db_bind (db_map_error (\<lambda>e. RoleError (errmsg e)) (sql_read admin_count)) (\<lambda>n.
                    if n \<le> 1 then db_fail RoleLastAdmin else db_ret ())
             else db_ret ()) (\<lambda>_.
           db_map_error (\<lambda>e. RoleError (errmsg e)) (sql (set_role i new_role))))"

definition change_role :: "int \<Rightarrow> string \<Rightarrow> (role_error, unit) dbm" where
  "change_role i new_role = with_txn (\<lambda>e. RoleError (errmsg e)) (change_role_body i new_role)"

section \<open>Schema initialisation\<close>

text \<open>
  The statements \<open>CREATE TABLE IF NOT EXISTS\<close>, \<open>CREATE INDEX IF NOT EXISTS\<close> and the column
  checks leave the rows alone; the model has the final schema, so each is a statement without effect.
\<close>

definition schema_statements :: nat where
  "schema_statements = 6 + 2 + 9"

fun repeat_stmt :: "nat \<Rightarrow> (db_error, unit) dbm" where
  "repeat_stmt 0 = db_ret ()"
| "repeat_stmt (Suc n) = db_bind (sql_write (\<lambda>t. t)) (\<lambda>_. repeat_stmt n)"

definition apply_schema :: "(db_error, unit) dbm" where
  "apply_schema = repeat_stmt schema_statements"

definition ensure_schema :: "(db_error, unit) dbm" where
  "ensure_schema = with_txn id apply_schema"

definition admin_exists :: "(db_error, bool) dbm" where
  "admin_exists = sql_read (\<lambda>t. find_row (\<lambda>u. us_account u = ''admin'') (tb_users t) \<noteq> None)"

definition insert_admin_if_absent :: "string \<Rightarrow> (db_error, unit) dbm" where
  "insert_admin_if_absent hash = sql_at (\<lambda>now t.
     if \<exists>u \<in> set (tb_users t). us_account u = ''admin'' then Inr ((), t)
     else (case insert_user ''admin'' ''admin'' hash ''admin'' 1 now t of
             Inl e \<Rightarrow> Inl e | Inr (_, t') \<Rightarrow> Inr ((), t')))"

text \<open>\<open>hash_password\<close> (Argon2) is a parameter: it returns the encoded hash or an error.\<close>

definition initialize_schema ::
  "(string \<Rightarrow> string + string) \<Rightarrow> string option \<Rightarrow> (db_error, unit) dbm" where
  "initialize_schema hash_password admin_password =
     with_txn id
       (db_bind apply_schema (\<lambda>_.
        db_bind admin_exists (\<lambda>there.
        if there then db_ret ()
        else case admin_password of
               None \<Rightarrow> db_fail (DbError txt_admin_password_missing)
             | Some pw \<Rightarrow>
                 if pw = [] then db_fail (DbError txt_admin_password_missing)
                 else case hash_password pw of
                        Inl e \<Rightarrow> db_fail (DbError e)
                      | Inr hash \<Rightarrow> insert_admin_if_absent hash)))"

section \<open>The statements keep the constraints\<close>

lemma find_row_Some: "find_row P rows = Some r \<Longrightarrow> r \<in> set rows \<and> P r"
  by (simp add: find_row_def find_some_set)

lemma find_row_None: "find_row P rows = None \<longleftrightarrow> (\<forall>r \<in> set rows. \<not> P r)"
  by (auto simp: find_row_def find_None_iff)

lemmas tables_ok_defs = tables_ok_def users_ok_def problems_ok_def testcases_ok_def submissions_ok_def
  statuses_ok_def in_flight_ok_def user_ids_def problem_ids_def

lemma insert_user_Inr:
  assumes "insert_user account nickname hash role flag now t = Inr (row, t')"
  shows "tb_users t' = tb_users t @ [row]"
    and "row = \<lparr>us_id = tb_users_seq t + 1, us_account = account, us_nickname = nickname,
          us_password_hash = hash, us_role = role, us_reset_pwd_flag = flag, us_created_at = now\<rparr>"
    and "account \<notin> us_account ` set (tb_users t)" and "nickname \<notin> us_nickname ` set (tb_users t)"
  using assms by (auto simp: insert_user_def Let_def split: if_splits)

lemma insert_user_Inl:
  assumes "insert_user account nickname hash role flag now t = Inl e"
  shows "e = UniqueViolation ''users.account'' \<and> account \<in> us_account ` set (tb_users t)
    \<or> e = UniqueViolation ''users.nickname'' \<and> nickname \<in> us_nickname ` set (tb_users t)
    \<or> (\<exists>m. e = ConstraintViolation m)"
  using assms by (auto simp: insert_user_def Let_def split: if_splits)

lemma insert_user_ok:
  assumes "insert_user account nickname hash role flag now t = Inr (row, t')" and "tables_ok t"
  shows "tables_ok t'" and "row \<in> set (tb_users t')" and "set (tb_users t) \<subseteq> set (tb_users t')"
    and "us_account row = account" and "us_nickname row = nickname" and "us_role row = role"
proof -
  have t': "t' = t\<lparr>tb_users := tb_users t @ [row], tb_users_seq := tb_users_seq t + 1\<rparr>"
    and row: "us_id row = tb_users_seq t + 1" "us_account row = account" "us_nickname row = nickname"
      "us_role row = role" "role_ok role"
    and fresh: "\<forall>u \<in> set (tb_users t). us_account u \<noteq> account \<and> us_nickname u \<noteq> nickname"
    using assms(1) by (auto simp: insert_user_def Let_def split: if_splits)
  have k: "keyed us_id (tb_users_seq t + 1) (tb_users t @ [row])"
    by (rule keyed_append) (use assms(2) row in \<open>auto simp: tables_ok_defs\<close>)
  show "tables_ok t'"
    using assms(2) k row fresh unfolding t' by (auto simp: tables_ok_defs role_ok_def)
  show "row \<in> set (tb_users t')" "set (tb_users t) \<subseteq> set (tb_users t')" unfolding t' by auto
  show "us_account row = account" "us_nickname row = nickname" "us_role row = role" using row by auto
qed

lemma tables_ok_set_users:
  assumes "tables_ok t" and "keyed us_id (tb_users_seq t) us" and "map us_account us = map us_account (tb_users t)"
    and "map us_nickname us = map us_nickname (tb_users t)" and "map us_id us = map us_id (tb_users t)"
    and "\<forall>u \<in> set us. role_ok (us_role u)"
  shows "tables_ok (t\<lparr>tb_users := us\<rparr>)"
proof -
  have "us_id ` set us = us_id ` set (tb_users t)" using assms(5) by (metis set_map)
  with assms show ?thesis by (simp add: tables_ok_defs role_ok_def)
qed

lemma update_users_ok:
  assumes "tables_ok t" and "\<And>u. us_id (f u) = us_id u" "\<And>u. us_account (f u) = us_account u"
    "\<And>u. us_nickname (f u) = us_nickname u"
    and "\<And>u. u \<in> set (tb_users t) \<Longrightarrow> us_id u = i \<Longrightarrow> role_ok (us_role (f u))"
  shows "tables_ok (update_users i f t)"
  unfolding update_users_def
proof (rule tables_ok_set_users[OF assms(1)])
  show "keyed us_id (tb_users_seq t) (map (\<lambda>u. if us_id u = i then f u else u) (tb_users t))"
    by (rule keyed_map) (use assms(1,2) in \<open>auto simp: tables_ok_defs\<close>)
  show "\<forall>u \<in> set (map (\<lambda>u. if us_id u = i then f u else u) (tb_users t)). role_ok (us_role u)"
    using assms(1,5) by (auto simp: tables_ok_defs role_ok_def)
qed (use assms(2-4) in auto)

lemma set_password_ok: "tables_ok t \<Longrightarrow> tables_ok (set_password i hash flag t)"
  unfolding set_password_def
  by (rule update_users_ok) (auto simp: tables_ok_defs role_ok_def)

lemma set_role_ok:
  assumes "set_role i role t = Inr ((), t')" and "tables_ok t"
  shows "tables_ok t'"
proof -
  have t': "t' = update_users i (\<lambda>u. u\<lparr>us_role := role\<rparr>) t"
    and r: "(\<exists>u \<in> set (tb_users t). us_id u = i) \<longrightarrow> role_ok role"
    using assms(1) by (auto simp: set_role_def split: if_splits)
  show ?thesis
    unfolding t' by (rule update_users_ok[OF assms(2)]) (use r in auto)
qed

section \<open>The operations meet the store contract\<close>

lemma txn_body_find_user [db_intros]: "txn_body (user_find_by_id i)"
  unfolding user_find_by_id_def find_user_by_def by (rule db_intros)

lemma txn_body_change_role [db_intros]: "txn_body (change_role_body i new_role)"
  unfolding change_role_body_def by (intro db_intros)

lemma user_find_by_idE [db_elims]:
  assumes "user_find_by_id i d = (Inr r, d')"
  obtains "r = map_option load_user (find_row (\<lambda>u. us_id u = i) (tb_users (db_cur d)))"
    "db_cur d' = db_cur d" "db_snap d' = db_snap d" "db_now d' = db_now d"
  using assms unfolding user_find_by_id_def find_user_by_def by (rule sql_read_InrE)

lemma change_role_bodyE:
  assumes "change_role_body i new_role d = (Inr u, d')"
  obtains r where "find_row (\<lambda>u. us_id u = i) (tb_users (db_cur d)) = Some r"
    "us_role (load_user r) = ''admin'' \<and> new_role \<noteq> ''admin'' \<longrightarrow> 1 < admin_count (db_cur d)"
    "set_role i new_role (db_cur d) = Inr ((), db_cur d')"
proof -
  obtain found d1 where f: "user_find_by_id i d = (Inr found, d1)"
    and k: "(case found of None \<Rightarrow> db_fail RoleNotFound
       | Some u \<Rightarrow>
           db_bind (if us_role u = ''admin'' \<and> new_role \<noteq> ''admin''
             then db_bind (db_map_error (\<lambda>e. RoleError (errmsg e)) (sql_read admin_count)) (\<lambda>n.
                    if n \<le> 1 then db_fail RoleLastAdmin else db_ret ())
             else db_ret ()) (\<lambda>_.
           db_map_error (\<lambda>e. RoleError (errmsg e)) (sql (set_role i new_role)))) d1 = (Inr u, d')"
    using assms unfolding change_role_body_def by (auto elim!: db_bind_InrE db_map_error_InrE)
  from f have found: "found = map_option load_user (find_row (\<lambda>u. us_id u = i) (tb_users (db_cur d)))"
    and d1: "db_cur d1 = db_cur d" by (auto elim: user_find_by_idE)
  obtain r where r: "find_row (\<lambda>u. us_id u = i) (tb_users (db_cur d)) = Some r" "found = Some (load_user r)"
    using k found
    by (cases "find_row (\<lambda>u. us_id u = i) (tb_users (db_cur d))") (auto elim: db_fail_InrE)
  obtain x d2 where g: "(if us_role (load_user r) = ''admin'' \<and> new_role \<noteq> ''admin''
             then db_bind (db_map_error (\<lambda>e. RoleError (errmsg e)) (sql_read admin_count)) (\<lambda>n.
                    if n \<le> 1 then db_fail RoleLastAdmin else db_ret ())
             else db_ret ()) d1 = (Inr x, d2)"
    and s: "sql (set_role i new_role) d2 = (Inr u, d')"
    using k r by (auto elim!: db_bind_InrE db_map_error_InrE)
  have "db_cur d2 = db_cur d1 \<and> (us_role (load_user r) = ''admin'' \<and> new_role \<noteq> ''admin'' \<longrightarrow> 1 < admin_count (db_cur d1))"
    using g by (auto split: if_splits elim!: db_bind_InrE db_map_error_InrE sql_read_InrE db_ret_InrE db_fail_InrE)
  with that[of r] r d1 sql_Inr(1)[OF s] show thesis by simp
qed

interpretation change_role: store_operation "change_role i new_role" tables_ok
  unfolding change_role_def
proof (rule store_operation_txnI)
  show "txn_body (change_role_body i new_role)" by (rule db_intros)
  show "tables_ok (db_cur d')" if "change_role_body i new_role d = (Inr a, d')" "tables_ok (db_cur d)" for d a d'
    using that(1) by (rule change_role_bodyE) (use set_role_ok that(2) in blast)
qed

interpretation user_create: store_operation "user_create account nickname hash" tables_ok
proof (rule store_operationI)
  have "transactional (db_bind (sql_at f) (\<lambda>u. db_ret (load_user u)))" for f
  proof
    fix d :: db
    assume d: "db_snap d = None"
    show "db_snap (snd (db_bind (sql_at f) (\<lambda>u. db_ret (load_user u)) d)) = None"
      using transactional.closed[OF transactional_sql_at d, of f]
      by (auto simp: db_bind_def db_ret_def split: prod.splits sum.splits)
    show "db_bind (sql_at f) (\<lambda>u. db_ret (load_user u)) d = (Inl e, d') \<Longrightarrow> db_cur d' = db_cur d" for e d'
      using transactional.atomic[OF transactional_sql_at d, of f]
      by (auto simp: db_bind_def db_ret_def split: prod.splits sum.splits)
  qed
  then show "transactional (user_create account nickname hash)"
    unfolding user_create_def by (rule transactional_map_error)
  show "tables_ok (db_cur d')"
    if "user_create account nickname hash d = (Inr a, d')" "tables_ok (db_cur d)" for d a d'
    using that insert_user_ok(1)[OF _ that(2)] unfolding user_create_def
    by (auto elim!: db_map_error_InrE db_bind_InrE sql_at_InrE db_ret_InrE)
qed

lemma update_users_absent: "\<forall>u \<in> set (tb_users t). us_id u \<noteq> i \<Longrightarrow> update_users i f t = t"
  unfolding update_users_def by (subst map_if_id) auto

lemma set_password_absent: "\<forall>u \<in> set (tb_users t). us_id u \<noteq> i \<Longrightarrow> set_password i hash flag t = t"
  unfolding set_password_def by (rule update_users_absent)

lemma update_returning_op:
  assumes "\<And>t. tables_ok t \<Longrightarrow> tables_ok (g t)" and "\<And>t. \<forall>u \<in> set (tb_users t). us_id u \<noteq> i \<Longrightarrow> g t = t"
  shows "store_operation (update_returning i g) tables_ok"
proof (rule store_operationI)
  let ?f = "\<lambda>t. Inr (\<exists>u \<in> set (tb_users t). us_id u = i, g t) :: db_error + _"
  show "transactional (update_returning i g)"
  proof
    fix d :: db
    assume d: "db_snap d = None"
    obtain r d1 where s: "sql ?f d = (r, d1)" by force
    then have "db_snap d1 = None" using sql_closed[OF d, of ?f] by simp
    then show "db_snap (snd (update_returning i g d)) = None"
      by (auto simp: update_returning_def s split: sum.splits)
    show "db_cur d' = db_cur d" if "update_returning i g d = (Inl e, d')" for e d'
    proof (cases r)
      case (Inl x)
      with that s sql_atomic[OF d] show ?thesis by (simp add: update_returning_def)
    next
      case (Inr found)
      then have "\<not> found" "d' = d1" using that s by (auto simp: update_returning_def split: if_splits)
      moreover have "?f (db_cur d) = Inr (found, db_cur d1)" using sql_Inr(1)[OF s[unfolded Inr]] .
      ultimately show ?thesis using assms(2)[of "db_cur d"] by auto
    qed
  qed
  show "tables_ok (db_cur d')" if "update_returning i g d = (Inr a, d')" "tables_ok (db_cur d)" for d a d'
    using that assms(1) sql_Inr(1)[of ?f d]
    by (fastforce simp: update_returning_def split: prod.splits sum.splits if_splits)
qed

interpretation user_update_password: store_operation "user_update_password i hash" tables_ok
  unfolding user_update_password_def
  by (rule update_returning_op) (simp_all add: set_password_ok set_password_absent)

interpretation admin_reset_password: store_operation "admin_reset_password i hash" tables_ok
  unfolding admin_reset_password_def
  by (rule update_returning_op) (simp_all add: set_password_ok set_password_absent)

lemma txn_body_repeat [db_intros]: "txn_body (repeat_stmt n)"
  by (induction n) (auto intro: db_intros)

lemma repeat_stmt_cur: "repeat_stmt n d = (Inr u, d') \<Longrightarrow> db_cur d' = db_cur d"
proof (induction n arbitrary: d)
  case 0
  then show ?case by (auto elim: db_ret_InrE)
next
  case (Suc n)
  then show ?case by (auto elim!: db_bind_InrE sql_write_InrE)
qed

lemma txn_body_case_sum [db_intros]:
  "(\<And>a. txn_body (f a)) \<Longrightarrow> (\<And>b. txn_body (g b)) \<Longrightarrow> txn_body (case x of Inl a \<Rightarrow> f a | Inr b \<Rightarrow> g b)"
  by (cases x) auto

lemma initialize_txn_body:
  "txn_body (db_bind apply_schema (\<lambda>_. db_bind admin_exists (\<lambda>there.
        if there then db_ret ()
        else case admin_password of
               None \<Rightarrow> db_fail (DbError m)
             | Some pw \<Rightarrow>
                 if pw = [] then db_fail (DbError m)
                 else case hash_password pw of
                        Inl e \<Rightarrow> db_fail (DbError e)
                      | Inr hash \<Rightarrow> insert_admin_if_absent hash)))"
  unfolding apply_schema_def admin_exists_def insert_admin_if_absent_def by (intro db_intros)

lemma insert_admin_ok:
  assumes "insert_admin_if_absent hash d = (Inr u, d')" and "tables_ok (db_cur d)"
  shows "tables_ok (db_cur d') \<and> (\<exists>a \<in> set (tb_users (db_cur d')). us_account a = ''admin'')"
  using assms insert_user_ok[OF _ assms(2)] unfolding insert_admin_if_absent_def
  by (fastforce elim!: sql_at_InrE split: if_splits sum.splits prod.splits)

interpretation initialize_schema: store_operation "initialize_schema hash_password pw" tables_ok
  unfolding initialize_schema_def
proof (rule store_operation_txnI[OF initialize_txn_body])
  fix d a d'
  assume "db_bind apply_schema (\<lambda>_. db_bind admin_exists (\<lambda>there.
        if there then db_ret ()
        else case pw of
               None \<Rightarrow> db_fail (DbError txt_admin_password_missing)
             | Some pw \<Rightarrow>
                 if pw = [] then db_fail (DbError txt_admin_password_missing)
                 else case hash_password pw of
                        Inl e \<Rightarrow> db_fail (DbError e)
                      | Inr hash \<Rightarrow> insert_admin_if_absent hash)) d = (Inr a, d')"
    and ok: "tables_ok (db_cur d)"
  then show "tables_ok (db_cur d')"
    unfolding apply_schema_def admin_exists_def
    by (auto elim!: db_bind_InrE sql_read_InrE db_ret_InrE db_fail_InrE dest!: repeat_stmt_cur insert_admin_ok
        split: if_splits option.splits sum.splits)
qed

section \<open>Properties\<close>

lemma admin_count_pos: "0 < admin_count t \<longleftrightarrow> (\<exists>u \<in> set (tb_users t). us_role u = ''admin'')"
  by (auto simp: admin_count_def filter_empty_conv)

text \<open>Demoting one user leaves at least all other administrators.\<close>

lemma set_role_admins:
  assumes "set_role i role t = Inr ((), t')" and "distinct (map us_id (tb_users t))"
  shows "admin_count t - 1 \<le> admin_count t'"
proof -
  let ?g = "\<lambda>u. if us_id u = i then u\<lparr>us_role := role\<rparr> else u"
  have t': "tb_users t' = map ?g (tb_users t)"
    using assms(1) by (auto simp: set_role_def update_users_def split: if_splits)
  have "int (length (filter (\<lambda>u. us_role u = ''admin'') us)) - 1
      \<le> int (length (filter (\<lambda>u. us_role u = ''admin'') (map ?g us)))"
    if "distinct (map us_id us)" for us
    using that
  proof (induction us)
    case Nil
    show ?case by simp
  next
    case (Cons u us)
    show ?case
    proof (cases "us_id u = i")
      case True
      with Cons.prems have "map ?g us = us" by (intro map_if_id) (auto simp: image_iff)
      with True show ?thesis by simp
    next
      case False
      with Cons show ?thesis by auto
    qed
  qed
  with assms(2) show ?thesis by (simp add: admin_count_def t')
qed

lemma set_role_admins_kept:
  assumes "set_role i role t = Inr ((), t')" and "find_row (\<lambda>u. us_id u = i) (tb_users t) = Some r"
    and "distinct (map us_id (tb_users t))" and "us_role r \<noteq> ''admin'' \<or> role = ''admin''"
    and "0 < admin_count t"
  shows "0 < admin_count t'"
proof -
  obtain a where a: "a \<in> set (tb_users t)" "us_role a = ''admin''"
    using assms(5) by (auto simp: admin_count_pos)
  have r: "r \<in> set (tb_users t)" "us_id r = i" using find_row_Some[OF assms(2)] by auto
  have "a\<lparr>us_role := role\<rparr> \<in> set (tb_users t') \<or> a \<in> set (tb_users t')"
    using assms(1) a(1) by (auto simp: set_role_def update_users_def split: if_splits)
  moreover have "us_id a = i \<Longrightarrow> a = r"
    using a(1) r assms(3) by (auto simp: distinct_map inj_on_def)
  moreover have "us_id a \<noteq> i \<Longrightarrow> a \<in> set (tb_users t')"
    using assms(1) a(1) by (force simp: set_role_def update_users_def split: if_splits)
  ultimately show ?thesis
    using a(2) assms(4) unfolding admin_count_pos by force
qed

lemma load_user_role: "tables_ok t \<Longrightarrow> u \<in> set (tb_users t) \<Longrightarrow> us_role (load_user u) = us_role u"
  unfolding load_user_def tables_ok_def users_ok_def by (force simp: column_text_def)

definition demo_user :: "string \<Rightarrow> int \<Rightarrow> string \<Rightarrow> user_row" where
  "demo_user name i role = \<lparr>us_id = i, us_account = name, us_nickname = name, us_password_hash = ''h'',
     us_role = role, us_reset_pwd_flag = 0, us_created_at = ''2026-01-01 00:00:00''\<rparr>"

definition demo_tables :: tables where
  "demo_tables = empty_tables\<lparr>tb_users := [demo_user ''admin'' 1 ''admin'', demo_user ''bob'' 2 ''user''],
     tb_users_seq := 2\<rparr>"

definition demo_db :: db where
  "demo_db = \<lparr>db_cur = demo_tables, db_snap = None, db_faults = [], db_now = ''2026-01-02 00:00:00''\<rparr>"

lemma demo_db_simps [simp]:
  "db_snap demo_db = None" "db_cur demo_db = demo_tables" "durable demo_db = demo_tables"
  by (simp_all add: demo_db_def durable_def)

lemma demo_tables_ok [simp]: "tables_ok demo_tables"
  by (simp add: demo_tables_def empty_tables_def tables_ok_defs keyed_def demo_user_def)

text \<open>
  C39: the last administrator cannot be demoted. Whatever user and role a change is asked for, and
  whichever statements of the transaction fail, an administrator that exists before the
  operation implies that one exists after it.
\<close>

theorem change_role_keeps_admin:
  assumes "db_snap d = None" and "tables_ok (db_cur d)" and "0 < admin_count (durable d)"
  shows "0 < admin_count (durable (snd (change_role i new_role d)))"
proof (cases "is_ok (fst (change_role i new_role d))")
  case False
  then show ?thesis
    using change_role.failed_durable[OF assms(1)] assms(3) by simp
next
  case True
  then obtain u d' where res: "change_role i new_role d = (Inr u, d')"
    by (metis is_okE prod.collapse)
  obtain d1 d2 where d12: "db_cur d1 = db_cur d" "change_role_body i new_role d1 = (Inr u, d2)"
      "db_cur d' = db_cur d2" "db_snap d' = None"
    using res unfolding change_role_def by (rule with_txn_Inr)
  let ?t = "db_cur d"
  obtain r where r: "find_row (\<lambda>u. us_id u = i) (tb_users ?t) = Some r"
    "us_role (load_user r) = ''admin'' \<and> new_role \<noteq> ''admin'' \<longrightarrow> 1 < admin_count ?t"
    "set_role i new_role ?t = Inr ((), db_cur d2)"
    using d12(2) unfolding d12(1)[symmetric] by (rule change_role_bodyE)
  have dist: "distinct (map us_id (tb_users ?t))"
    using assms(2) by (simp add: tables_ok_defs keyed_def)
  have "us_role (load_user r) = us_role r"
    using load_user_role[OF assms(2)] find_row_Some[OF r(1)] by simp
  then have "0 < admin_count (db_cur d2)"
    using r set_role_admins[OF r(3) dist] set_role_admins_kept[OF r(3,1) dist] assms(1,3)
    by (auto simp: durable_def)
  with d12 res show ?thesis by (simp add: durable_def)
qed

theorem change_role_keeps_admin_witness:
  "0 < admin_count (durable (snd (change_role 1 ''user'' demo_db)))"
proof (rule change_role_keeps_admin)
  show "0 < admin_count (durable demo_db)"
    unfolding demo_db_simps by (simp add: demo_tables_def admin_count_def demo_user_def)
qed simp_all

text \<open>
  Creating a user. A reported success means that neither the account nor the nickname was in
  use, that the new row has a fresh id, the role user and no pending password change, and that all
  other rows are as before; a reported account or nickname collision means that this
  account or nickname is in use; in every failure the table is unchanged.
\<close>

theorem user_create_outcome:
  assumes "db_snap d = None" and "tables_ok (db_cur d)"
  shows "case user_create account nickname hash d of
     (Inr u, d') \<Rightarrow> (\<exists>row. tb_users (db_cur d') = tb_users (db_cur d) @ [row] \<and> u = load_user row
        \<and> us_account row = account \<and> us_nickname row = nickname \<and> us_password_hash row = hash
        \<and> us_role row = ''user'' \<and> us_reset_pwd_flag row = 0 \<and> us_id row \<notin> user_ids (db_cur d)
        \<and> account \<notin> us_account ` set (tb_users (db_cur d)) \<and> nickname \<notin> us_nickname ` set (tb_users (db_cur d)))
        \<and> tables_ok (db_cur d')
   | (Inl e, d') \<Rightarrow> db_cur d' = db_cur d
        \<and> (e = AccountTaken \<longrightarrow> account \<in> us_account ` set (tb_users (db_cur d)))
        \<and> (e = NicknameTaken \<longrightarrow> nickname \<in> us_nickname ` set (tb_users (db_cur d)))"
proof -
  obtain r d' where res: "user_create account nickname hash d = (r, d')" by force
  let ?ins = "insert_user account nickname hash ''user'' 0 (db_now d)"
  show ?thesis
  proof (cases r)
    case (Inr u)
    with res obtain row where ins: "?ins (db_cur d) = Inr (row, db_cur d')" "u = load_user row"
      unfolding user_create_def by (auto elim!: db_map_error_InrE db_bind_InrE sql_at_InrE db_ret_InrE)
    have "tb_users_seq (db_cur d) + 1 \<notin> user_ids (db_cur d)"
      using assms(2) by (force simp: tables_ok_defs keyed_def)
    with insert_user_Inr[OF ins(1)] insert_user_ok(1)[OF ins(1) assms(2)] Inr ins(2) show ?thesis
      unfolding res by simp
  next
    case (Inl e)
    have cur: "db_cur d' = db_cur d" using user_create.atomic[OF assms(1) res[unfolded Inl]] .
    obtain x d1 where s: "sql (?ins) d = (x, d1)" by force
    from res Inl have "x = Inl z \<Longrightarrow> e = classify_create_error z" for z
      unfolding user_create_def sql_at_def db_map_error_def db_bind_def s by auto
    moreover from res Inl have "\<exists>z. x = Inl z"
      unfolding user_create_def sql_at_def db_map_error_def db_bind_def s db_ret_def
      by (cases x) auto
    moreover have "x = Inl z \<Longrightarrow> (\<exists>m. z = DbError m) \<or> ?ins (db_cur d) = Inl z" for z
      using s by (cases rule: next_faultE[of d])
        (auto simp: sql_def split: fault.splits sum.splits prod.splits)
    ultimately obtain z where z: "e = classify_create_error z" "(\<exists>m. z = DbError m) \<or> ?ins (db_cur d) = Inl z"
      by blast
    have msgs: "contains_sub ''nickname'' (errmsg (UniqueViolation ''users.nickname''))"
      "\<not> contains_sub ''nickname'' (errmsg (UniqueViolation ''users.account''))"
      by (simp_all add: contains_sub_def)
    have "(e = AccountTaken \<longrightarrow> account \<in> us_account ` set (tb_users (db_cur d)))
        \<and> (e = NicknameTaken \<longrightarrow> nickname \<in> us_nickname ` set (tb_users (db_cur d)))"
      using z insert_user_Inl[of account nickname hash "''user''" 0 "db_now d" "db_cur d" z] msgs
      by (auto simp: Let_def simp del: errmsg.simps split: if_splits)
    then show ?thesis unfolding res Inl using cur by simp
  qed
qed

theorem user_create_outcome_witness:
  "case user_create ''carol'' ''carol'' ''x'' demo_db of (Inr u, d') \<Rightarrow> us_role u = ''user'' | (Inl e, d') \<Rightarrow> False"
proof -
  have "is_ok (fst (user_create ''carol'' ''carol'' ''x'' demo_db))"
    by code_simp
  then show ?thesis
    using user_create_outcome[of demo_db "''carol''" "''carol''" "''x''"]
    by (auto simp: load_user_def column_text_def split: prod.splits sum.splits)
qed

text \<open>
  Initialising the database creates the administrator exactly when it is missing: after a
  successful initialisation the account exists, with an existing administrator nothing is
  changed, and a failed one leaves no trace, whichever statement fails.
\<close>

theorem initialize_schema_admin:
  assumes "db_snap d = None" and "tables_ok (db_cur d)" and "initialize_schema hash_password pw d = (r, d')"
  shows "(is_ok r \<longrightarrow> (\<exists>u \<in> set (tb_users (db_cur d')). us_account u = ''admin''))
    \<and> ((\<exists>u \<in> set (tb_users (db_cur d)). us_account u = ''admin'') \<or> \<not> is_ok r \<longrightarrow> db_cur d' = db_cur d)
    \<and> tables_ok (db_cur d') \<and> db_snap d' = None"
proof (cases r)
  case (Inl e)
  then show ?thesis
    using initialize_schema.atomic[OF assms(1) assms(3)[unfolded Inl]] initialize_schema.closed[OF assms(1), of hash_password pw]
      assms(2,3) by simp
next
  case (Inr u)
  from assms(3)[unfolded Inr initialize_schema_def] obtain d1 d2 where d12: "db_cur d1 = db_cur d" "db_cur d' = db_cur d2"
    "db_snap d' = None" and b: "db_bind apply_schema (\<lambda>_. db_bind admin_exists (\<lambda>there.
        if there then db_ret ()
        else case pw of
               None \<Rightarrow> db_fail (DbError txt_admin_password_missing)
             | Some pw \<Rightarrow>
                 if pw = [] then db_fail (DbError txt_admin_password_missing)
                 else case hash_password pw of
                        Inl e \<Rightarrow> db_fail (DbError e)
                      | Inr hash \<Rightarrow> insert_admin_if_absent hash)) d1 = (Inr u, d2)"
    by (rule with_txn_Inr)
  have "(\<exists>u \<in> set (tb_users (db_cur d2)). us_account u = ''admin'')
      \<and> ((\<exists>u \<in> set (tb_users (db_cur d1)). us_account u = ''admin'') \<longrightarrow> db_cur d2 = db_cur d1)"
    using b assms(2)[folded d12(1)] insert_admin_ok unfolding apply_schema_def admin_exists_def
    by (auto elim!: db_bind_InrE sql_read_InrE db_ret_InrE db_fail_InrE dest!: repeat_stmt_cur
        simp: find_row_None split: if_splits option.splits sum.splits) (metis insert_admin_ok)+
  then show ?thesis
    using d12 Inr initialize_schema.keeps[OF assms(1) assms(3)[unfolded Inr] assms(2)] by simp
qed

theorem initialize_schema_admin_witness:
  "db_cur (snd (initialize_schema (\<lambda>p. Inr p) None demo_db)) = demo_tables"
proof -
  obtain r d' where r: "initialize_schema (\<lambda>p. Inr p) None demo_db = (r, d')" by force
  have "\<exists>u \<in> set (tb_users demo_tables). us_account u = ''admin''"
    by (simp add: demo_tables_def demo_user_def)
  then show ?thesis
    using initialize_schema_admin[OF _ _ r] r by simp
qed

end
