(* ===== verification/OJ_Json.thy ===== *)
theory OJ_Json
  imports OJ_Text OJ_Messages
begin

text \<open>
  Parsed JSON values as the sources use them through \<open>nlohmann::json\<close>, the checked integer
  reader that the validation files share, and the parser of page numbers, which occurs three times
  in the sources (\<open>problem/list_query.cpp\<close>, \<open>user/admin_user_validation.cpp\<close>, \<open>http/server.cpp\<close>).
\<close>

section \<open>Values\<close>

text \<open>Integers without a sign are unsigned in the library, negative ones signed.\<close>

datatype json =
  JNull
| JBool bool
| JInt int
| JUInt int
| JFloat
| JString string
| JArray "json list"
| JObject "(string \<times> json) list"

text \<open>What the library's parser produces: signed values are negative 64-bit, unsigned ones 64-bit.\<close>

fun json_number_ok :: "json \<Rightarrow> bool" where
  "json_number_ok (JInt i) = (- int64_max - 1 \<le> i \<and> i < 0)"
| "json_number_ok (JUInt i) = (0 \<le> i \<and> i \<le> 2 * int64_max + 1)"
| "json_number_ok _ = True"

definition contains_field :: "json \<Rightarrow> string \<Rightarrow> bool" where
  "contains_field j k = (case j of JObject fs \<Rightarrow> map_of fs k \<noteq> None | _ \<Rightarrow> False)"

definition field :: "json \<Rightarrow> string \<Rightarrow> json" where
  "field j k = (case j of JObject fs \<Rightarrow> (case map_of fs k of Some v \<Rightarrow> v | None \<Rightarrow> JNull) | _ \<Rightarrow> JNull)"

definition is_object :: "json \<Rightarrow> bool" where
  "is_object j = (case j of JObject _ \<Rightarrow> True | _ \<Rightarrow> False)"

definition out_of_range_msg :: "string \<Rightarrow> int \<Rightarrow> int \<Rightarrow> string" where
  "out_of_range_msg fld lo hi =
     fld @ txt_out_of_range @ int_to_string lo @ '', '' @ int_to_string hi @ '']''"

definition parse_int_in_range :: "json \<Rightarrow> int \<Rightarrow> int \<Rightarrow> string \<Rightarrow> string + int" where
  "parse_int_in_range value lo hi fld =
     (case value of
        JUInt raw \<Rightarrow>
          if hi < raw then Inl (out_of_range_msg fld lo hi)
          else if raw < lo \<or> hi < raw then Inl (out_of_range_msg fld lo hi) else Inr raw
      | JInt i \<Rightarrow> if i < lo \<or> hi < i then Inl (out_of_range_msg fld lo hi) else Inr i
      | _ \<Rightarrow> Inl (fld @ txt_must_be_integer))"

lemma parse_int_in_range_iff:
  "parse_int_in_range value lo hi fld = Inr i \<longleftrightarrow> (value = JUInt i \<or> value = JInt i) \<and> lo \<le> i \<and> i \<le> hi"
  by (auto simp: parse_int_in_range_def split: json.splits if_splits)

section \<open>Page numbers\<close>

text \<open>
  Skipping leading zeros keeps the last digit. Then at most seven digits are read, so that the
  accumulated value cannot overflow.
\<close>

fun skip_zeros :: "string \<Rightarrow> string" where
  "skip_zeros (c # d # s) = (if c = CHR ''0'' then skip_zeros (d # s) else c # d # s)"
| "skip_zeros s = s"

definition max_page :: int where
  "max_page = 1000000"

definition page_range_msg :: string where
  "page_range_msg = txt_page_range @ int_to_string max_page @ txt_paren_close"

definition parse_page :: "string \<Rightarrow> string + int" where
  "parse_page s =
     (let trimmed = trim_by isspace s in
      if trimmed = [] then Inr 1
      else if \<not> list_all is_digit trimmed then Inl txt_page_positive
      else let digits = skip_zeros trimmed in
      if 7 < length digits then Inl page_range_msg
      else let v = int (dec_value digits) in
      if v < 1 then Inl txt_page_positive
      else if max_page < v then Inl page_range_msg
      else Inr v)"

lemma dec_value_skip_zeros: "dec_value (skip_zeros s) = dec_value s"
proof (induction s rule: skip_zeros.induct)
  case (1 c d s)
  have "dec_value (CHR ''0'' # d # s) = dec_value (d # s)"
    by (rule dec_value_leading_zero) (simp add: digit_val_def)
  with 1 show ?case by auto
qed auto

lemma skip_zeros_digits: "list_all is_digit s \<Longrightarrow> list_all is_digit (skip_zeros s)"
  by (induction s rule: skip_zeros.induct) auto

lemma foldl_dec_le: "a \<le> foldl (\<lambda>v c. v * 10 + digit_val c) a s"
proof (induction s arbitrary: a)
  case Nil
  show ?case by simp
next
  case (Cons c s)
  have "a \<le> a * 10 + digit_val c" by simp
  also have "\<dots> \<le> foldl (\<lambda>v c. v * 10 + digit_val c) (a * 10 + digit_val c) s" by (rule Cons)
  finally show ?case by simp
qed

lemma dec_value_leading:
  "0 < digit_val c \<Longrightarrow> 10 ^ length s \<le> dec_value (c # s)"
proof (induction s rule: rev_induct)
  case Nil
  then show ?case by (simp add: dec_value_def)
next
  case (snoc d s)
  then have "10 * 10 ^ length s \<le> dec_value (c # s) * 10" by simp
  also have "\<dots> \<le> dec_value (c # s @ [d])" using dec_value_snoc[of "c # s" d] by simp
  finally show ?case by simp
qed

text \<open>More than seven digits after the leading zeros: the value is beyond the maximum.\<close>

lemma skip_zeros_long:
  assumes "list_all is_digit s" and "7 < length (skip_zeros s)"
  shows "max_page < int (dec_value s)"
proof -
  obtain c r where r: "skip_zeros s = c # r" "7 \<le> length r"
    using assms(2) by (cases "skip_zeros s") auto
  have "c \<noteq> CHR ''0''"
    using assms(2) r(1)
  proof (induction s rule: skip_zeros.induct)
    case (1 a b s)
    then show ?case by (auto split: if_splits)
  qed auto
  moreover have "is_digit c" using skip_zeros_digits[OF assms(1)] r(1) by simp
  moreover have "c = CHR ''0''" if "of_char c = (48 :: nat)"
  proof -
    have "of_char c = (of_char CHR ''0'' :: nat)" unfolding that by simp
    then show ?thesis by (simp only: of_char_eq_iff)
  qed
  ultimately have "0 < digit_val c"
    by (auto simp: is_digit_def digit_val_def le_less)
  then have "10 ^ length r \<le> dec_value s"
    using dec_value_leading[of c r] dec_value_skip_zeros[of s] r(1) by simp
  moreover have "(10::nat) ^ 7 \<le> 10 ^ length r"
    by (rule power_increasing[OF r(2)]) simp
  ultimately have "10000000 \<le> dec_value s" by simp
  then show ?thesis by (simp add: max_page_def)
qed

text \<open>The parser accepts exactly the digit strings with a value in range, and the blank string.\<close>

lemma parse_page_iff:
  "parse_page s = Inr p \<longleftrightarrow>
     (let d = trim_by isspace s in
      (d = [] \<and> p = 1) \<or> (d \<noteq> [] \<and> list_all is_digit d \<and> p = int (dec_value d) \<and> 1 \<le> p \<and> p \<le> max_page))"
  using skip_zeros_long[of "trim_by isspace s"]
  by (auto simp: parse_page_def Let_def dec_value_skip_zeros)

lemma parse_page_bounds: "parse_page s = Inr p \<Longrightarrow> 1 \<le> p \<and> p \<le> max_page"
  by (auto simp: parse_page_iff Let_def max_page_def)

lemma trim_digits: "list_all is_digit s \<Longrightarrow> trim_by isspace s = s"
  by (rule trim_by_id) (cases s; auto simp: list_all_iff dest: digit_not_space)

lemma parse_page_print: "1 \<le> n \<Longrightarrow> int n \<le> max_page \<Longrightarrow> parse_page (nat_to_string n) = Inr (int n)"
  using nat_to_string_digits[of n]
  by (simp add: parse_page_iff trim_digits Let_def)

end
