(* ===== verification/OJ_Problem_Input.thy ===== *)
theory OJ_Problem_Input
  imports OJ_Json
begin

text \<open>
  Validation of what clients send about problems: the list query (\<open>problem/list_query.cpp\<close>), the
  bodies for creating and changing a problem (\<open>problem/validation.cpp\<close>) and a test case
  (\<open>problem/testcase_validation.cpp\<close>), and the storage format of tags
  (\<open>join_tags\<close>, \<open>split_tags\<close> of \<open>db/problems.cpp\<close>).
\<close>

section \<open>List query\<close>

definition trim_ascii :: "string \<Rightarrow> string" where
  "trim_ascii s = trim_by isspace s"

definition is_valid_difficulty :: "string \<Rightarrow> bool" where
  "is_valid_difficulty s = (s = ''easy'' \<or> s = ''medium'' \<or> s = ''hard'')"

definition backslash :: char where
  "backslash = CHR 0x5C"

definition escape_like :: "string \<Rightarrow> string" where
  "escape_like s = concat (map (\<lambda>c. if c = backslash \<or> c = CHR ''%'' \<or> c = CHR ''_''
     then [backslash, c] else [c]) s)"

definition title_like_pattern :: "string \<Rightarrow> string" where
  "title_like_pattern keyword = ''%'' @ escape_like keyword @ ''%''"

definition tag_match_needle :: "string \<Rightarrow> string" where
  "tag_match_needle tag = '','' @ tag @ '',''"

datatype visible_filter = VAll | VOnlyVisible | VOnlyHidden

record list_filter =
  lf_keyword :: string
  lf_difficulty :: string
  lf_tag :: string
  lf_page :: int
  lf_page_size :: int
  lf_visible :: visible_filter

record raw_list_params =
  rl_q :: string
  rl_difficulty :: string
  rl_tag :: string
  rl_page :: string
  rl_visible :: string

definition problem_page_size :: int where
  "problem_page_size = 20"

definition parse_visible :: "string \<Rightarrow> string + visible_filter" where
  "parse_visible s =
     (let v = to_lower (trim_ascii s) in
      if v = [] \<or> v = ''all'' then Inr VAll
      else if v = ''1'' \<or> v = ''true'' then Inr VOnlyVisible
      else if v = ''0'' \<or> v = ''false'' then Inr VOnlyHidden
      else Inl txt_visible_bad)"

definition parse_list_query :: "raw_list_params \<Rightarrow> string + list_filter" where
  "parse_list_query raw =
     (let difficulty = trim_ascii (rl_difficulty raw) in
      if difficulty \<noteq> [] \<and> \<not> is_valid_difficulty difficulty then Inl txt_query_difficulty
      else res_bind (parse_page (rl_page raw)) (\<lambda>page.
           res_bind (parse_visible (rl_visible raw)) (\<lambda>visible.
           Inr \<lparr>lf_keyword = trim_ascii (rl_q raw), lf_difficulty = difficulty,
             lf_tag = trim_ascii (rl_tag raw), lf_page = page, lf_page_size = problem_page_size,
             lf_visible = visible\<rparr>)))"

text \<open>
  The SQL operator \<open>LIKE\<close> with an escape character, case-insensitive on ASCII letters: the meaning
  of the pattern that \<open>title_like_pattern\<close> builds.
\<close>

fun sql_like :: "string \<Rightarrow> string \<Rightarrow> bool" where
  "sql_like [] s = (s = [])"
| "sql_like (p # ps) s =
     (if p = backslash then
        (case ps of [] \<Rightarrow> False
         | q # qs \<Rightarrow> (case s of [] \<Rightarrow> False | c # cs \<Rightarrow> tolower c = tolower q \<and> sql_like qs cs))
      else if p = CHR ''%'' then list_ex (\<lambda>k. sql_like ps (drop k s)) [0..<Suc (length s)]
      else if p = CHR ''_'' then (case s of [] \<Rightarrow> False | c # cs \<Rightarrow> sql_like ps cs)
      else (case s of [] \<Rightarrow> False | c # cs \<Rightarrow> tolower c = tolower p \<and> sql_like ps cs))"

lemma sql_like_escape:
  "sql_like (escape_like k @ ps) s \<longleftrightarrow> (\<exists>u v. s = u @ v \<and> to_lower u = to_lower k \<and> sql_like ps v)"
proof (induction k arbitrary: s)
  case Nil
  show ?case by (simp add: escape_like_def to_lower_def)
next
  case (Cons c k)
  have step: "sql_like (escape_like (c # k) @ ps) s \<longleftrightarrow>
      (\<exists>d t. s = d # t \<and> tolower d = tolower c \<and> sql_like (escape_like k @ ps) t)"
    by (cases s) (auto simp: escape_like_def backslash_def)
  show ?case
    unfolding step Cons.IH by (auto simp: to_lower_def Cons_eq_append_conv) (metis append_Cons list.simps(9))+
qed

lemma sql_like_percent: "sql_like [CHR ''%''] s"
  by (auto simp: backslash_def list_ex_iff intro!: bexI[of _ "length s"])

lemma title_like_iff:
  "sql_like (title_like_pattern k) s \<longleftrightarrow> (\<exists>a b c. s = a @ b @ c \<and> to_lower b = to_lower k)"
proof -
  have "sql_like (title_like_pattern k) s \<longleftrightarrow>
      (\<exists>n \<le> length s. sql_like (escape_like k @ [CHR ''%'']) (drop n s))"
    by (simp add: title_like_pattern_def backslash_def list_ex_iff Bex_def less_Suc_eq_le conj_commute
        del: upt_Suc)
  also have "\<dots> \<longleftrightarrow> (\<exists>n \<le> length s. \<exists>u v. drop n s = u @ v \<and> to_lower u = to_lower k)"
    unfolding sql_like_escape using sql_like_percent by blast
  also have "\<dots> \<longleftrightarrow> (\<exists>a b c. s = a @ b @ c \<and> to_lower b = to_lower k)"
  proof
    assume "\<exists>n \<le> length s. \<exists>u v. drop n s = u @ v \<and> to_lower u = to_lower k"
    then show "\<exists>a b c. s = a @ b @ c \<and> to_lower b = to_lower k"
      by (metis append_take_drop_id)
  next
    assume "\<exists>a b c. s = a @ b @ c \<and> to_lower b = to_lower k"
    then show "\<exists>n \<le> length s. \<exists>u v. drop n s = u @ v \<and> to_lower u = to_lower k"
      by (metis append_eq_conv_conj le_add1 length_append)
  qed
  finally show ?thesis .
qed

section \<open>Tags\<close>

definition join_tags :: "string list \<Rightarrow> string" where
  "join_tags tags = join_with (CHR '','') tags"

definition split_tags :: "string \<Rightarrow> string list" where
  "split_tags s = filter (\<lambda>t. t \<noteq> []) (map (trim_by isspace) (split_on (CHR '','') s))"

text \<open>A tag as the validation leaves it: not empty, no comma, no blank at its ends.\<close>

definition tag_ok :: "string \<Rightarrow> bool" where
  "tag_ok t = (t \<noteq> [] \<and> CHR '','' \<notin> set t \<and> trim_by isspace t = t \<and> length t \<le> 30)"

lemma split_join_tags:
  assumes "\<And>t. t \<in> set tags \<Longrightarrow> tag_ok t"
  shows "split_tags (join_tags tags) = tags"
proof (cases "tags = []")
  case True
  then show ?thesis by (simp add: split_tags_def join_tags_def trim_by_def)
next
  case False
  have "split_on (CHR '','') (join_tags tags) = tags"
    unfolding join_tags_def by (rule split_join[OF False]) (use assms in \<open>auto simp: tag_ok_def\<close>)
  moreover have "map (trim_by isspace) tags = tags"
    by (rule map_idI) (use assms in \<open>auto simp: tag_ok_def\<close>)
  moreover have "filter (\<lambda>t. t \<noteq> []) tags = tags"
    by (rule filter_True) (use assms in \<open>auto simp: tag_ok_def\<close>)
  ultimately show ?thesis by (simp add: split_tags_def)
qed

lemma split_tags_ok: "t \<in> set (split_tags s) \<Longrightarrow> t \<noteq> [] \<and> CHR '','' \<notin> set t \<and> trim_by isspace t = t"
  unfolding split_tags_def using split_on_no_sep set_trim_by by fastforce

section \<open>Problem bodies\<close>

record sample_input =
  si_input :: string
  si_output :: string

record problem_data =
  pd_title :: string
  pd_description :: string
  pd_difficulty :: string
  pd_tags :: "string list"
  pd_time_limit_ms :: int
  pd_memory_limit_kb :: int
  pd_visible :: bool
  pd_samples :: "sample_input list"

definition default_problem_data :: problem_data where
  "default_problem_data = \<lparr>pd_title = [], pd_description = [], pd_difficulty = [], pd_tags = [],
     pd_time_limit_ms = 2000, pd_memory_limit_kb = 65536, pd_visible = True, pd_samples = []\<rparr>"

record problem_patch =
  pp_title :: "string option"
  pp_description :: "string option"
  pp_difficulty :: "string option"
  pp_tags :: "string list option"
  pp_time_limit_ms :: "int option"
  pp_memory_limit_kb :: "int option"
  pp_visible :: "bool option"
  pp_samples :: "sample_input list option"

definition problem_patch_empty :: "problem_patch \<Rightarrow> bool" where
  "problem_patch_empty p = (pp_title p = None \<and> pp_description p = None \<and> pp_difficulty p = None
     \<and> pp_tags p = None \<and> pp_time_limit_ms p = None \<and> pp_memory_limit_kb p = None
     \<and> pp_visible p = None \<and> pp_samples p = None)"

fun parse_tags_loop :: "json list \<Rightarrow> string list \<Rightarrow> string + string list" where
  "parse_tags_loop [] out = Inr out"
| "parse_tags_loop (item # items) out =
     (case item of
        JString s \<Rightarrow>
          let tag = trim_by isspace s in
          if tag = [] then Inl txt_tag_empty
          else if 30 < length tag then Inl (txt_tag_long @ int_to_string 30 @ txt_bytes_close)
          else if CHR '','' \<in> set tag then Inl txt_tag_comma
          else if tag \<in> set out then Inl (txt_tag_duplicate @ tag)
          else parse_tags_loop items (out @ [tag])
      | _ \<Rightarrow> Inl txt_tags_array)"

definition parse_tags :: "json \<Rightarrow> string + string list" where
  "parse_tags value =
     (case value of
        JArray items \<Rightarrow>
          if 20 < length items then Inl (txt_tags_too_many @ int_to_string 20 @ txt_count_close)
          else parse_tags_loop items []
      | _ \<Rightarrow> Inl txt_tags_array)"

definition parse_sample :: "json \<Rightarrow> string + sample_input" where
  "parse_sample item =
     (if \<not> is_object item then Inl txt_sample_shape
      else case (field item ''input'', field item ''output'') of
        (JString i, JString o') \<Rightarrow>
          if 65536 < length i \<or> 65536 < length o'
          then Inl (txt_sample_long @ int_to_string 65536 @ txt_bytes_close)
          else Inr \<lparr>si_input = i, si_output = o'\<rparr>
      | _ \<Rightarrow> Inl txt_sample_shape)"

fun parse_samples_loop :: "json list \<Rightarrow> sample_input list \<Rightarrow> string + sample_input list" where
  "parse_samples_loop [] out = Inr out"
| "parse_samples_loop (item # items) out =
     res_bind (parse_sample item) (\<lambda>s. parse_samples_loop items (out @ [s]))"

definition parse_samples :: "json \<Rightarrow> string + sample_input list" where
  "parse_samples value =
     (case value of
        JArray items \<Rightarrow>
          if 50 < length items then Inl (txt_samples_too_many @ int_to_string 50 @ txt_groups_close)
          else parse_samples_loop items []
      | _ \<Rightarrow> Inl txt_samples_array)"

definition parse_title :: "json \<Rightarrow> string + string" where
  "parse_title value =
     (case value of
        JString s \<Rightarrow>
          let title = trim_by isspace s in
          if title = [] then Inl txt_title_empty
          else if 200 < length title then Inl (txt_title_long @ int_to_string 200 @ txt_bytes_close)
          else Inr title
      | _ \<Rightarrow> Inl txt_title_string)"

definition parse_description :: "json \<Rightarrow> string + string" where
  "parse_description value =
     (case value of
        JString s \<Rightarrow>
          if 65536 < length s then Inl (txt_description_long @ int_to_string 65536 @ txt_bytes_close)
          else Inr s
      | _ \<Rightarrow> Inl txt_description_string)"

definition parse_difficulty :: "json \<Rightarrow> string + string" where
  "parse_difficulty value =
     (case value of
        JString s \<Rightarrow> if is_valid_difficulty s then Inr s else Inl txt_difficulty_bad
      | _ \<Rightarrow> Inl txt_difficulty_string)"

definition parse_bool :: "json \<Rightarrow> string + bool" where
  "parse_bool value = (case value of JBool b \<Rightarrow> Inr b | _ \<Rightarrow> Inl txt_visible_bool)"

text \<open>An optional field: absent leaves the default, present must parse.\<close>

definition opt_field :: "json \<Rightarrow> string \<Rightarrow> (json \<Rightarrow> string + 'a) \<Rightarrow> string + 'a option" where
  "opt_field body k parse =
     (if contains_field body k then res_bind (parse (field body k)) (\<lambda>v. Inr (Some v)) else Inr None)"

definition dflt :: "'a \<Rightarrow> 'a option \<Rightarrow> 'a" where
  "dflt a o' = (case o' of None \<Rightarrow> a | Some v \<Rightarrow> v)"

definition parse_create_problem :: "json \<Rightarrow> string + problem_data" where
  "parse_create_problem body =
     (if \<not> is_object body then Inl txt_body_object
      else if \<not> contains_field body ''title'' then Inl txt_missing_title
      else res_bind (parse_title (field body ''title'')) (\<lambda>title.
      if \<not> contains_field body ''difficulty'' then Inl txt_missing_difficulty
      else res_bind (parse_difficulty (field body ''difficulty'')) (\<lambda>difficulty.
      res_bind (opt_field body ''description'' parse_description) (\<lambda>description.
      res_bind (opt_field body ''tags'' parse_tags) (\<lambda>tags.
      res_bind (opt_field body ''time_limit_ms'' (\<lambda>v. parse_int_in_range v 1 60000 ''time_limit_ms'')) (\<lambda>time.
      res_bind (opt_field body ''memory_limit_kb'' (\<lambda>v. parse_int_in_range v 1 1048576 ''memory_limit_kb'')) (\<lambda>memory.
      res_bind (opt_field body ''visible'' parse_bool) (\<lambda>visible.
      res_bind (opt_field body ''samples'' parse_samples) (\<lambda>samples.
      Inr \<lparr>pd_title = title, pd_description = dflt [] description, pd_difficulty = difficulty,
        pd_tags = dflt [] tags, pd_time_limit_ms = dflt 2000 time, pd_memory_limit_kb = dflt 65536 memory,
        pd_visible = dflt True visible, pd_samples = dflt [] samples\<rparr>)))))))))"

definition parse_update_problem :: "json \<Rightarrow> string + problem_patch" where
  "parse_update_problem body =
     (if \<not> is_object body then Inl txt_body_object
      else
      res_bind (opt_field body ''title'' parse_title) (\<lambda>title.
      res_bind (opt_field body ''description'' parse_description) (\<lambda>description.
      res_bind (opt_field body ''difficulty'' parse_difficulty) (\<lambda>difficulty.
      res_bind (opt_field body ''tags'' parse_tags) (\<lambda>tags.
      res_bind (opt_field body ''time_limit_ms'' (\<lambda>v. parse_int_in_range v 1 60000 ''time_limit_ms'')) (\<lambda>time.
      res_bind (opt_field body ''memory_limit_kb'' (\<lambda>v. parse_int_in_range v 1 1048576 ''memory_limit_kb'')) (\<lambda>memory.
      res_bind (opt_field body ''visible'' parse_bool) (\<lambda>visible.
      res_bind (opt_field body ''samples'' parse_samples) (\<lambda>samples.
      let p = \<lparr>pp_title = title, pp_description = description, pp_difficulty = difficulty, pp_tags = tags,
        pp_time_limit_ms = time, pp_memory_limit_kb = memory, pp_visible = visible, pp_samples = samples\<rparr>
      in if problem_patch_empty p then Inl txt_nothing_to_update else Inr p)))))))))"

section \<open>Test case bodies\<close>

record testcase_data =
  td_input :: string
  td_output :: string
  td_ord :: "int option"

record testcase_patch =
  tp_input :: "string option"
  tp_output :: "string option"
  tp_ord :: "int option"

definition testcase_patch_empty :: "testcase_patch \<Rightarrow> bool" where
  "testcase_patch_empty p = (tp_input p = None \<and> tp_output p = None \<and> tp_ord p = None)"

definition max_testcase_ord :: int where
  "max_testcase_ord = 1000000"

definition parse_text :: "string \<Rightarrow> json \<Rightarrow> string + string" where
  "parse_text fld value =
     (case value of
        JString s \<Rightarrow>
          if 65536 < length s then Inl (fld @ txt_text_long @ int_to_string 65536 @ txt_bytes_close)
          else Inr s
      | _ \<Rightarrow> Inl (fld @ txt_must_be_string))"

definition parse_create_testcase :: "json \<Rightarrow> string + testcase_data" where
  "parse_create_testcase body =
     (if \<not> is_object body then Inl txt_body_object
      else if \<not> contains_field body ''input'' then Inl txt_missing_input
      else res_bind (parse_text ''input'' (field body ''input'')) (\<lambda>i.
      if \<not> contains_field body ''output'' then Inl txt_missing_output
      else res_bind (parse_text ''output'' (field body ''output'')) (\<lambda>o'.
      res_bind (opt_field body ''ord'' (\<lambda>v. parse_int_in_range v 0 max_testcase_ord ''ord'')) (\<lambda>ord.
      Inr \<lparr>td_input = i, td_output = o', td_ord = ord\<rparr>))))"

definition parse_update_testcase :: "json \<Rightarrow> string + testcase_patch" where
  "parse_update_testcase body =
     (if \<not> is_object body then Inl txt_body_object
      else
      res_bind (opt_field body ''input'' (parse_text ''input'')) (\<lambda>i.
      res_bind (opt_field body ''output'' (parse_text ''output'')) (\<lambda>o'.
      res_bind (opt_field body ''ord'' (\<lambda>v. parse_int_in_range v 0 max_testcase_ord ''ord'')) (\<lambda>ord.
      let p = \<lparr>tp_input = i, tp_output = o', tp_ord = ord\<rparr>
      in if testcase_patch_empty p then Inl txt_nothing_to_update else Inr p))))"

section \<open>What the validation guarantees\<close>

definition sample_ok :: "sample_input \<Rightarrow> bool" where
  "sample_ok s = (length (si_input s) \<le> 65536 \<and> length (si_output s) \<le> 65536)"

definition tags_ok :: "string list \<Rightarrow> bool" where
  "tags_ok ts = (list_all tag_ok ts \<and> distinct ts \<and> length ts \<le> 20)"

definition samples_ok :: "sample_input list \<Rightarrow> bool" where
  "samples_ok ss = (list_all sample_ok ss \<and> length ss \<le> 50)"

definition title_ok :: "string \<Rightarrow> bool" where
  "title_ok s = (s \<noteq> [] \<and> length s \<le> 200 \<and> trim_by isspace s = s)"

definition problem_data_ok :: "problem_data \<Rightarrow> bool" where
  "problem_data_ok d = (title_ok (pd_title d) \<and> length (pd_description d) \<le> 65536
     \<and> is_valid_difficulty (pd_difficulty d) \<and> tags_ok (pd_tags d)
     \<and> 1 \<le> pd_time_limit_ms d \<and> pd_time_limit_ms d \<le> 60000
     \<and> 1 \<le> pd_memory_limit_kb d \<and> pd_memory_limit_kb d \<le> 1048576 \<and> samples_ok (pd_samples d))"

definition opt_all :: "('a \<Rightarrow> bool) \<Rightarrow> 'a option \<Rightarrow> bool" where
  "opt_all P o' = (case o' of None \<Rightarrow> True | Some v \<Rightarrow> P v)"

definition problem_patch_ok :: "problem_patch \<Rightarrow> bool" where
  "problem_patch_ok p = (\<not> problem_patch_empty p \<and> opt_all title_ok (pp_title p)
     \<and> opt_all (\<lambda>s. length s \<le> 65536) (pp_description p) \<and> opt_all is_valid_difficulty (pp_difficulty p)
     \<and> opt_all tags_ok (pp_tags p) \<and> opt_all (\<lambda>t. 1 \<le> t \<and> t \<le> 60000) (pp_time_limit_ms p)
     \<and> opt_all (\<lambda>m. 1 \<le> m \<and> m \<le> 1048576) (pp_memory_limit_kb p) \<and> opt_all samples_ok (pp_samples p))"

lemma parse_tags_loop_ok:
  "parse_tags_loop items out = Inr ts \<Longrightarrow> list_all tag_ok out \<Longrightarrow> distinct out \<Longrightarrow>
     list_all tag_ok ts \<and> distinct ts \<and> length ts = length out + length items"
proof (induction items out rule: parse_tags_loop.induct)
  case (2 item items out)
  then show ?case
    by (auto simp: tag_ok_def Let_def split: json.splits if_splits)
qed auto

lemma parse_tags_ok: "parse_tags v = Inr ts \<Longrightarrow> tags_ok ts"
  by (auto simp: parse_tags_def tags_ok_def dest!: parse_tags_loop_ok split: json.splits if_splits)

lemma parse_sample_ok: "parse_sample v = Inr s \<Longrightarrow> sample_ok s"
  by (auto simp: parse_sample_def sample_ok_def split: if_splits json.splits)

lemma parse_samples_loop_ok:
  "parse_samples_loop items out = Inr ss \<Longrightarrow> list_all sample_ok out \<Longrightarrow>
     list_all sample_ok ss \<and> length ss = length out + length items"
proof (induction items out rule: parse_samples_loop.induct)
  case (2 item items out)
  then show ?case by (fastforce simp: res_bind_Inr_iff dest: parse_sample_ok)
qed auto

lemma parse_samples_ok: "parse_samples v = Inr ss \<Longrightarrow> samples_ok ss"
  by (auto simp: parse_samples_def samples_ok_def dest!: parse_samples_loop_ok split: json.splits if_splits)

lemma parse_title_ok: "parse_title v = Inr s \<Longrightarrow> title_ok s"
  by (auto simp: parse_title_def title_ok_def Let_def split: json.splits if_splits)

lemma parse_description_ok: "parse_description v = Inr s \<Longrightarrow> length s \<le> 65536"
  by (auto simp: parse_description_def split: json.splits if_splits)

lemma parse_difficulty_ok: "parse_difficulty v = Inr s \<Longrightarrow> is_valid_difficulty s"
  by (auto simp: parse_difficulty_def split: json.splits if_splits)

lemma opt_field_all:
  "opt_field body k parse = Inr o' \<Longrightarrow> (\<And>v x. parse v = Inr x \<Longrightarrow> P x) \<Longrightarrow> opt_all P o'"
  by (auto simp: opt_field_def opt_all_def res_bind_Inr_iff split: if_splits)

lemma opt_field_int:
  "opt_field body k (\<lambda>v. parse_int_in_range v lo hi fld) = Inr o' \<Longrightarrow> opt_all (\<lambda>i. lo \<le> i \<and> i \<le> hi) o'"
  by (erule opt_field_all) (simp add: parse_int_in_range_iff)

lemmas opt_field_oks =
  opt_field_all[where parse = parse_description, OF _ parse_description_ok]
  opt_field_all[where parse = parse_tags, OF _ parse_tags_ok]
  opt_field_all[where parse = parse_samples, OF _ parse_samples_ok]
  opt_field_all[where parse = parse_title, OF _ parse_title_ok]
  opt_field_all[where parse = parse_difficulty, OF _ parse_difficulty_ok]

section \<open>Properties\<close>

text \<open>
  C40: what a create request leaves after validation is within the limits of the service: a trimmed
  non-empty title of at most 200 bytes, one of the three difficulties, at most 20 different
  tags without commas or blank ends, positive time and memory limits up to their maxima, at most 50
  samples with bounded fields; a change request is not empty and each field it
  carries satisfies the same.
\<close>

theorem problem_input_validated:
  "(case parse_create_problem body of Inr d \<Rightarrow> problem_data_ok d | Inl e \<Rightarrow> True)
   \<and> (case parse_update_problem body of Inr p \<Rightarrow> problem_patch_ok p | Inl e \<Rightarrow> True)"
proof
  show "case parse_create_problem body of Inr d \<Rightarrow> problem_data_ok d | Inl e \<Rightarrow> True"
  proof (cases "parse_create_problem body")
    case (Inr d)
    then obtain title diff desc tags time mem vis samples where
      p: "parse_title (field body ''title'') = Inr title" "parse_difficulty (field body ''difficulty'') = Inr diff"
        "opt_field body ''description'' parse_description = Inr desc" "opt_field body ''tags'' parse_tags = Inr tags"
        "opt_field body ''time_limit_ms'' (\<lambda>v. parse_int_in_range v 1 60000 ''time_limit_ms'') = Inr time"
        "opt_field body ''memory_limit_kb'' (\<lambda>v. parse_int_in_range v 1 1048576 ''memory_limit_kb'') = Inr mem"
        "opt_field body ''samples'' parse_samples = Inr samples"
      and d: "d = \<lparr>pd_title = title, pd_description = dflt [] desc, pd_difficulty = diff,
        pd_tags = dflt [] tags, pd_time_limit_ms = dflt 2000 time, pd_memory_limit_kb = dflt 65536 mem,
        pd_visible = dflt True vis, pd_samples = dflt [] samples\<rparr>"
      unfolding parse_create_problem_def by (auto simp: res_bind_Inr_iff split: if_splits)
    have "length (dflt [] desc) \<le> 65536"
      using opt_field_oks(1)[OF p(3)] by (cases desc) (simp_all add: dflt_def opt_all_def)
    moreover have "tags_ok (dflt [] tags)"
      using opt_field_oks(2)[OF p(4)] by (cases tags) (simp_all add: dflt_def opt_all_def tags_ok_def)
    moreover have "1 \<le> dflt 2000 time \<and> dflt 2000 time \<le> 60000"
      using opt_field_int[OF p(5)] by (cases time) (simp_all add: dflt_def opt_all_def)
    moreover have "1 \<le> dflt 65536 mem \<and> dflt 65536 mem \<le> 1048576"
      using opt_field_int[OF p(6)] by (cases mem) (simp_all add: dflt_def opt_all_def)
    moreover have "samples_ok (dflt [] samples)"
      using opt_field_oks(3)[OF p(7)] by (cases samples) (simp_all add: dflt_def opt_all_def samples_ok_def)
    ultimately show ?thesis
      using parse_title_ok[OF p(1)] parse_difficulty_ok[OF p(2)] Inr d by (simp add: problem_data_ok_def)
  qed simp
  show "case parse_update_problem body of Inr p \<Rightarrow> problem_patch_ok p | Inl e \<Rightarrow> True"
  proof (cases "parse_update_problem body")
    case (Inr p)
    then show ?thesis
      unfolding parse_update_problem_def
      by (auto simp: res_bind_Inr_iff problem_patch_ok_def Let_def dest: opt_field_oks(1-5)
          intro: opt_field_int split: if_splits)
  qed simp
qed

text \<open>
  Tags survive storage: the text that is stored for validated tags is read back as exactly
  these tags in their order, and whatever text is stored, what is read back are non-empty tags without
  commas or blank ends.
\<close>

theorem tags_roundtrip:
  "(tags_ok ts \<longrightarrow> split_tags (join_tags ts) = ts)
   \<and> list_all (\<lambda>t. t \<noteq> [] \<and> CHR '','' \<notin> set t \<and> trim_by isspace t = t) (split_tags s)"
  using split_join_tags[of ts] split_tags_ok[of _ s] by (auto simp: tags_ok_def list_all_iff)

theorem tags_roundtrip_witness: "split_tags (join_tags [''dp'', ''graph'']) = [''dp'', ''graph'']"
proof -
  have "tags_ok [''dp'', ''graph'']"
    by (simp add: tags_ok_def tag_ok_def trim_by_def rstrip_by_def isspace_def)
  then show ?thesis using tags_roundtrip[of "[''dp'', ''graph'']"] by blast
qed

text \<open>
  Searching by title matches exactly the titles that contain the keyword as a substring up to
  the case of ASCII letters; percent, underscore and backslash in the keyword stand for themselves.
\<close>

theorem title_search_substring:
  "sql_like (title_like_pattern keyword) title
     \<longleftrightarrow> (\<exists>a b c. title = a @ b @ c \<and> to_lower b = to_lower keyword)"
  by (rule title_like_iff)

end
