(* ===== verification/OJ_Problems.thy ===== *)
theory OJ_Problems
  imports OJ_Users OJ_Problem_Input "HOL-Library.List_Lexorder" "HOL-Library.Char_ord"
begin

text \<open>
  The problem stores: reading (\<open>db/problems.cpp\<close>), administration of problems with their public
  samples (\<open>db/problem_admin.cpp\<close>) and of hidden test cases (\<open>db/testcase_admin.cpp\<close>).
\<close>

section \<open>Statements\<close>

definition insert_problem ::
  "problem_data \<Rightarrow> string \<Rightarrow> tables \<Rightarrow> db_error + (int \<times> tables)" where
  "insert_problem data now t =
     (if pd_difficulty data \<notin> set difficulties then Inl (ConstraintViolation ''CHECK constraint failed: problems'')
      else let i = tb_problems_seq t + 1;
               row = \<lparr>pb_id = i, pb_title = pd_title data, pb_description = pd_description data,
                 pb_difficulty = pd_difficulty data, pb_tags = join_tags (pd_tags data),
                 pb_time_limit_ms = pd_time_limit_ms data, pb_memory_limit_kb = pd_memory_limit_kb data,
                 pb_visible = (if pd_visible data then 1 else 0), pb_seed_key = None,
                 pb_created_at = now, pb_updated_at = now\<rparr>
           in Inr (i, t\<lparr>tb_problems := tb_problems t @ [row], tb_problems_seq := i\<rparr>))"

definition insert_testcase ::
  "int \<Rightarrow> int \<Rightarrow> string \<Rightarrow> string \<Rightarrow> int \<Rightarrow> tables \<Rightarrow> db_error + (int \<times> tables)" where
  "insert_testcase pid ord inp out is_sample t =
     (if pid \<notin> problem_ids t then Inl (ConstraintViolation ''FOREIGN KEY constraint failed'')
      else let i = tb_testcases_seq t + 1;
               row = \<lparr>ts_id = i, ts_problem_id = pid, ts_ord = ord, ts_input = inp, ts_output = out,
                 ts_is_sample = is_sample\<rparr>
           in Inr (i, t\<lparr>tb_testcases := tb_testcases t @ [row], tb_testcases_seq := i\<rparr>))"

definition update_problem_row ::
  "int \<Rightarrow> string \<Rightarrow> string \<Rightarrow> string \<Rightarrow> string \<Rightarrow> int \<Rightarrow> int \<Rightarrow> bool \<Rightarrow> string \<Rightarrow> tables
     \<Rightarrow> db_error + (unit \<times> tables)" where
  "update_problem_row i title description difficulty tags time memory visible now t =
     (if i \<in> problem_ids t \<and> difficulty \<notin> set difficulties
      then Inl (ConstraintViolation ''CHECK constraint failed: problems'')
      else Inr ((), t\<lparr>tb_problems := map (\<lambda>p. if pb_id p = i then
             p\<lparr>pb_title := title, pb_description := description, pb_difficulty := difficulty, pb_tags := tags,
               pb_time_limit_ms := time, pb_memory_limit_kb := memory,
               pb_visible := (if visible then 1 else 0), pb_updated_at := now\<rparr> else p) (tb_problems t)\<rparr>))"

definition delete_testcases :: "(testcase_row \<Rightarrow> bool) \<Rightarrow> tables \<Rightarrow> tables" where
  "delete_testcases P t = t\<lparr>tb_testcases := filter (\<lambda>c. \<not> P c) (tb_testcases t)\<rparr>"

definition delete_statuses :: "int \<Rightarrow> tables \<Rightarrow> tables" where
  "delete_statuses pid t = t\<lparr>tb_statuses := filter (\<lambda>r. up_problem_id r \<noteq> pid) (tb_statuses t)\<rparr>"

definition delete_in_flight :: "int \<Rightarrow> tables \<Rightarrow> tables" where
  "delete_in_flight pid t = t\<lparr>tb_in_flight := filter (\<lambda>r. fl_problem_id r \<noteq> pid) (tb_in_flight t)\<rparr>"

definition delete_problem :: "int \<Rightarrow> tables \<Rightarrow> db_error + (unit \<times> tables)" where
  "delete_problem pid t =
     (if pid \<in> problem_ids t \<and> (pid \<in> ts_problem_id ` set (tb_testcases t) \<or> pid \<in> sb_problem_id ` set (tb_submissions t)
         \<or> pid \<in> up_problem_id ` set (tb_statuses t) \<or> pid \<in> fl_problem_id ` set (tb_in_flight t))
      then Inl (ConstraintViolation ''FOREIGN KEY constraint failed'')
      else Inr ((), t\<lparr>tb_problems := filter (\<lambda>p. pb_id p \<noteq> pid) (tb_problems t)\<rparr>))"

section \<open>ProblemStore\<close>

record problem_summary =
  ps_id :: int
  ps_title :: string
  ps_difficulty :: string
  ps_tags :: "string list"
  ps_visible :: bool
  ps_pass_count :: int
  ps_solved :: bool

datatype problem_visibility = VisibleOnly | AllProblems | HiddenOnly

record problem_list_query =
  pq_visibility :: problem_visibility
  pq_keyword :: string
  pq_difficulty :: string
  pq_tag :: string
  pq_viewer_user_id :: int
  pq_page :: int
  pq_page_size :: int

record problem_record =
  pr_id :: int
  pr_title :: string
  pr_description :: string
  pr_difficulty :: string
  pr_tags :: "string list"
  pr_time_limit_ms :: int
  pr_memory_limit_kb :: int
  pr_visible :: bool
  pr_created_at :: string
  pr_updated_at :: string

record testcase_record =
  tz_id :: int
  tz_ord :: int
  tz_input :: string
  tz_output :: string
  tz_is_sample :: bool

definition load_summary :: "problem_row \<Rightarrow> problem_summary" where
  "load_summary p = \<lparr>ps_id = pb_id p, ps_title = column_text (pb_title p),
     ps_difficulty = column_text (pb_difficulty p), ps_tags = split_tags (column_text (pb_tags p)),
     ps_visible = (pb_visible p \<noteq> 0), ps_pass_count = 0, ps_solved = False\<rparr>"

definition load_summary_with_stats :: "int \<Rightarrow> string option \<Rightarrow> problem_row \<Rightarrow> problem_summary" where
  "load_summary_with_stats pass_count viewer_status p =
     (load_summary p)\<lparr>ps_pass_count := pass_count,
        ps_solved := (case viewer_status of None \<Rightarrow> False | Some s \<Rightarrow> column_text s = ''accepted'')\<rparr>"

definition load_record :: "problem_row \<Rightarrow> problem_record" where
  "load_record p = \<lparr>pr_id = pb_id p, pr_title = column_text (pb_title p),
     pr_description = column_text (pb_description p), pr_difficulty = column_text (pb_difficulty p),
     pr_tags = split_tags (column_text (pb_tags p)), pr_time_limit_ms = pb_time_limit_ms p,
     pr_memory_limit_kb = pb_memory_limit_kb p, pr_visible = (pb_visible p \<noteq> 0),
     pr_created_at = column_text (pb_created_at p), pr_updated_at = column_text (pb_updated_at p)\<rparr>"

definition problem_list :: "bool \<Rightarrow> (db_error, problem_summary list) dbm" where
  "problem_list include_hidden = sql_read (\<lambda>t. map load_summary (sort_key pb_id
     (filter (\<lambda>p. include_hidden \<or> pb_visible p = 1) (tb_problems t))))"

text \<open>The condition that \<open>build_where\<close> assembles; its parts are joined by AND.\<close>

definition build_where :: "problem_list_query \<Rightarrow> problem_row \<Rightarrow> bool" where
  "build_where q p =
     ((case pq_visibility q of VisibleOnly \<Rightarrow> pb_visible p = 1 | AllProblems \<Rightarrow> True | HiddenOnly \<Rightarrow> pb_visible p = 0)
      \<and> (pq_keyword q \<noteq> [] \<longrightarrow> sql_like (title_like_pattern (pq_keyword q)) (pb_title p))
      \<and> (pq_difficulty q \<noteq> [] \<longrightarrow> pb_difficulty p = pq_difficulty q)
      \<and> (pq_tag q \<noteq> [] \<longrightarrow> contains_sub (tag_match_needle (pq_tag q)) ('','' @ pb_tags p @ '','')))"

definition pass_count :: "tables \<Rightarrow> int \<Rightarrow> int" where
  "pass_count t pid = int (length (remdups (map up_user_id
     (filter (\<lambda>r. up_problem_id r = pid \<and> up_status r = ''accepted'') (tb_statuses t)))))"

definition viewer_status :: "tables \<Rightarrow> int \<Rightarrow> int \<Rightarrow> string option" where
  "viewer_status t uid pid =
     map_option up_status (find_row (\<lambda>r. up_problem_id r = pid \<and> up_user_id r = uid) (tb_statuses t))"

definition problem_query :: "problem_list_query \<Rightarrow> (db_error, problem_summary list \<times> int) dbm" where
  "problem_query q =
     (if pq_page q < 1 \<or> pq_page_size q < 1 then db_fail (DbError txt_bad_page)
      else db_bind (sql_read (\<lambda>t. int (length (filter (build_where q) (tb_problems t))))) (\<lambda>n.
           db_bind (sql_read (\<lambda>t.
             map (\<lambda>p. load_summary_with_stats (pass_count t (pb_id p))
                   (viewer_status t (pq_viewer_user_id q) (pb_id p)) p)
               (limit_offset (pq_page_size q) ((pq_page q - 1) * pq_page_size q)
                 (sort_key pb_id (filter (build_where q) (tb_problems t)))))) (\<lambda>items.
           db_ret (items, n))))"

definition list_tags :: "bool \<Rightarrow> (db_error, string list) dbm" where
  "list_tags include_hidden = sql_read (\<lambda>t. sort (remdups (concat (map (\<lambda>p. split_tags (column_text (pb_tags p)))
     (filter (\<lambda>p. include_hidden \<or> pb_visible p = 1) (tb_problems t))))))"

definition problem_find_by_id :: "int \<Rightarrow> (db_error, problem_record option) dbm" where
  "problem_find_by_id i =
     sql_read (\<lambda>t. map_option load_record (find_row (\<lambda>p. pb_id p = i) (tb_problems t)))"

definition viewer_solved :: "int \<Rightarrow> int \<Rightarrow> (db_error, bool) dbm" where
  "viewer_solved uid pid =
     (if uid \<le> 0 then db_ret False
      else sql_read (\<lambda>t. case find_row (\<lambda>r. up_user_id r = uid \<and> up_problem_id r = pid) (tb_statuses t) of
             None \<Rightarrow> False | Some r \<Rightarrow> column_text (up_status r) = ''accepted''))"

text \<open>\<open>ORDER BY ord ASC, id ASC\<close>.\<close>

definition order_testcases :: "testcase_row list \<Rightarrow> testcase_row list" where
  "order_testcases cs = sort_key ts_ord (sort_key ts_id cs)"

definition list_samples :: "int \<Rightarrow> (db_error, sample_input list) dbm" where
  "list_samples pid = sql_read (\<lambda>t. map (\<lambda>c. \<lparr>si_input = column_text (ts_input c), si_output = column_text (ts_output c)\<rparr>)
     (order_testcases (filter (\<lambda>c. ts_problem_id c = pid \<and> ts_is_sample c = 1) (tb_testcases t))))"

definition load_testcase :: "testcase_row \<Rightarrow> testcase_record" where
  "load_testcase c = \<lparr>tz_id = ts_id c, tz_ord = ts_ord c, tz_input = column_text (ts_input c),
     tz_output = column_text (ts_output c), tz_is_sample = (ts_is_sample c \<noteq> 0)\<rparr>"

definition list_testcases :: "int \<Rightarrow> (db_error, testcase_record list) dbm" where
  "list_testcases pid = sql_read (\<lambda>t. map load_testcase
     (order_testcases (filter (\<lambda>c. ts_problem_id c = pid) (tb_testcases t))))"

section \<open>ProblemAdminStore\<close>

fun insert_samples :: "int \<Rightarrow> nat \<Rightarrow> sample_input list \<Rightarrow> (db_error, unit) dbm" where
  "insert_samples pid i [] = db_ret ()"
| "insert_samples pid i (s # ss) =
     db_bind (sql (insert_testcase pid (int i) (si_input s) (si_output s) 1)) (\<lambda>_. insert_samples pid (Suc i) ss)"

definition problem_create :: "problem_data \<Rightarrow> (db_error, int) dbm" where
  "problem_create data = with_txn id
     (db_bind (sql_at (insert_problem data)) (\<lambda>pid.
      db_bind (insert_samples pid 0 (pd_samples data)) (\<lambda>_. db_ret pid)))"

datatype update_error = UpdNotFound | UpdError string

definition problem_update_body :: "int \<Rightarrow> problem_patch \<Rightarrow> (update_error, unit) dbm" where
  "problem_update_body i patch =
     db_bind (db_map_error (\<lambda>e. UpdError (errmsg e)) (problem_find_by_id i)) (\<lambda>found.
       case found of
         None \<Rightarrow> db_fail UpdNotFound
       | Some r \<Rightarrow>
           db_bind (db_map_error (\<lambda>e. UpdError (errmsg e)) (sql_at (\<lambda>now.
             update_problem_row i (dflt (pr_title r) (pp_title patch)) (dflt (pr_description r) (pp_description patch))
               (dflt (pr_difficulty r) (pp_difficulty patch)) (join_tags (dflt (pr_tags r) (pp_tags patch)))
               (dflt (pr_time_limit_ms r) (pp_time_limit_ms patch))
               (dflt (pr_memory_limit_kb r) (pp_memory_limit_kb patch))
               (dflt (pr_visible r) (pp_visible patch)) now))) (\<lambda>_.
           case pp_samples patch of
             None \<Rightarrow> db_ret ()
           | Some ss \<Rightarrow>
               db_map_error (\<lambda>e. UpdError (errmsg e))
                 (db_bind (sql_write (delete_testcases (\<lambda>c. ts_problem_id c = i \<and> ts_is_sample c = 1)))
                   (\<lambda>_. insert_samples i 0 ss))))"

definition problem_update :: "int \<Rightarrow> problem_patch \<Rightarrow> (update_error, unit) dbm" where
  "problem_update i patch = with_txn (\<lambda>e. UpdError (errmsg e)) (problem_update_body i patch)"

datatype delete_error = DelNotFound | DelHasSubmissions | DelError string

definition submission_count :: "int \<Rightarrow> tables \<Rightarrow> nat" where
  "submission_count pid t = length (filter (\<lambda>s. sb_problem_id s = pid) (tb_submissions t))"

definition unsettled_count :: "int \<Rightarrow> tables \<Rightarrow> nat" where
  "unsettled_count pid t =
     length (filter (\<lambda>r. fl_problem_id r = pid \<and> fl_state r \<noteq> ''interrupted'') (tb_in_flight t))"

definition problem_remove_body :: "int \<Rightarrow> (delete_error, unit) dbm" where
  "problem_remove_body i =
     db_bind (db_map_error (\<lambda>e. DelError (errmsg e)) (problem_find_by_id i)) (\<lambda>found.
     if found = None then db_fail DelNotFound
     else db_bind (db_map_error (\<lambda>e. DelError (errmsg e)) (sql_read (submission_count i))) (\<lambda>n.
     if 0 < n then db_fail DelHasSubmissions
     else db_bind (db_map_error (\<lambda>e. DelError (errmsg e)) (sql_read (unsettled_count i))) (\<lambda>k.
     if 0 < k then db_fail DelHasSubmissions
     else db_map_error (\<lambda>e. DelError (errmsg e))
       (db_bind (sql_write (delete_testcases (\<lambda>c. ts_problem_id c = i))) (\<lambda>_.
        db_bind (sql_write (delete_statuses i)) (\<lambda>_.
        db_bind (sql_write (delete_in_flight i)) (\<lambda>_.
        sql (delete_problem i))))))))"

definition problem_remove :: "int \<Rightarrow> (delete_error, unit) dbm" where
  "problem_remove i = with_txn (\<lambda>e. DelError (errmsg e)) (problem_remove_body i)"

section \<open>TestcaseAdminStore\<close>

definition is_hidden :: "int \<Rightarrow> int \<Rightarrow> testcase_row \<Rightarrow> bool" where
  "is_hidden pid i c = (ts_problem_id c = pid \<and> ts_id c = i \<and> ts_is_sample c = 0)"

definition find_hidden :: "int \<Rightarrow> int \<Rightarrow> (db_error, (int \<times> string \<times> string) option) dbm" where
  "find_hidden pid i = sql_read (\<lambda>t. map_option
     (\<lambda>c. (ts_ord c, column_text (ts_input c), column_text (ts_output c)))
     (find_row (is_hidden pid i) (tb_testcases t)))"

datatype testcase_create_error = TcProblemNotFound | TcOrdExhausted string | TcError string

definition max_ord :: "int \<Rightarrow> tables \<Rightarrow> int" where
  "max_ord pid t = (case map ts_ord (filter (\<lambda>c. ts_problem_id c = pid) (tb_testcases t)) of
     [] \<Rightarrow> - 1 | o1 # os \<Rightarrow> foldl max o1 os)"

definition choose_ord :: "int \<Rightarrow> testcase_data \<Rightarrow> (testcase_create_error, int) dbm" where
  "choose_ord pid data =
     (case td_ord data of
        Some ord \<Rightarrow> db_ret ord
      | None \<Rightarrow>
          db_bind (db_map_error (\<lambda>e. TcError (errmsg e)) (sql_read (max_ord pid))) (\<lambda>m.
          if max_testcase_ord < m + 1 then db_fail (TcOrdExhausted txt_ord_exhausted) else db_ret (m + 1)))"

definition testcase_create_body :: "int \<Rightarrow> testcase_data \<Rightarrow> (testcase_create_error, int \<times> int) dbm" where
  "testcase_create_body pid data =
     db_bind (db_map_error (\<lambda>e. TcError (errmsg e)) (problem_find_by_id pid)) (\<lambda>found.
     if found = None then db_fail TcProblemNotFound
     else db_bind (choose_ord pid data) (\<lambda>ord.
     db_bind (db_map_error (\<lambda>e. TcError (errmsg e))
       (sql (insert_testcase pid ord (td_input data) (td_output data) 0))) (\<lambda>i.
     db_ret (i, ord))))"

definition testcase_create :: "int \<Rightarrow> testcase_data \<Rightarrow> (testcase_create_error, int \<times> int) dbm" where
  "testcase_create pid data = with_txn (\<lambda>e. TcError (errmsg e)) (testcase_create_body pid data)"

definition testcase_update_body :: "int \<Rightarrow> int \<Rightarrow> testcase_patch \<Rightarrow> (update_error, int) dbm" where
  "testcase_update_body pid i patch =
     db_bind (db_map_error (\<lambda>e. UpdError (errmsg e)) (find_hidden pid i)) (\<lambda>found.
       case found of
         None \<Rightarrow> db_fail UpdNotFound
       | Some (ord, inp, out) \<Rightarrow>
           let new_ord = dflt ord (tp_ord patch) in
           db_bind (db_map_error (\<lambda>e. UpdError (errmsg e)) (sql_write (\<lambda>t. t\<lparr>tb_testcases :=
             map (\<lambda>c. if is_hidden pid i c
               then c\<lparr>ts_input := dflt inp (tp_input patch), ts_output := dflt out (tp_output patch), ts_ord := new_ord\<rparr>
               else c) (tb_testcases t)\<rparr>))) (\<lambda>_.
           db_ret new_ord))"

definition testcase_update :: "int \<Rightarrow> int \<Rightarrow> testcase_patch \<Rightarrow> (update_error, int) dbm" where
  "testcase_update pid i patch = with_txn (\<lambda>e. UpdError (errmsg e)) (testcase_update_body pid i patch)"

definition testcase_remove_body :: "int \<Rightarrow> int \<Rightarrow> (update_error, unit) dbm" where
  "testcase_remove_body pid i =
     db_bind (db_map_error (\<lambda>e. UpdError (errmsg e)) (find_hidden pid i)) (\<lambda>found.
     if found = None then db_fail UpdNotFound
     else db_map_error (\<lambda>e. UpdError (errmsg e)) (sql_write (delete_testcases (is_hidden pid i))))"

definition testcase_remove :: "int \<Rightarrow> int \<Rightarrow> (update_error, unit) dbm" where
  "testcase_remove pid i = with_txn (\<lambda>e. UpdError (errmsg e)) (testcase_remove_body pid i)"

section \<open>The statements keep the constraints\<close>

lemma problem_ids_testcases [simp]:
  "problem_ids (t\<lparr>tb_testcases := cs\<rparr>) = problem_ids t" "problem_ids (t\<lparr>tb_testcases_seq := n\<rparr>) = problem_ids t"
  by (simp_all add: problem_ids_def)

lemma insert_testcase_Inr:
  assumes "insert_testcase pid ord inp out smp t = Inr (i, t')"
  shows "t' = t\<lparr>tb_testcases := tb_testcases t @ [\<lparr>ts_id = i, ts_problem_id = pid, ts_ord = ord, ts_input = inp,
      ts_output = out, ts_is_sample = smp\<rparr>], tb_testcases_seq := i\<rparr>"
    and "i = tb_testcases_seq t + 1" and "pid \<in> problem_ids t"
  using assms by (auto simp: insert_testcase_def Let_def split: if_splits)

lemma insert_testcase_ok:
  assumes "insert_testcase pid ord inp out smp t = Inr (i, t')" and "tables_ok t"
  shows "tables_ok t'"
proof -
  note ins = insert_testcase_Inr[OF assms(1)]
  have "keyed ts_id (tb_testcases_seq t + 1) (tb_testcases t @ [\<lparr>ts_id = i, ts_problem_id = pid, ts_ord = ord,
      ts_input = inp, ts_output = out, ts_is_sample = smp\<rparr>])"
    by (rule keyed_append) (use assms(2) ins(2) in \<open>auto simp: tables_ok_defs\<close>)
  then show ?thesis
    using assms(2) ins(3) unfolding ins(1) ins(2) by (auto simp: tables_ok_defs)
qed

lemma set_testcases_ok:
  assumes "tables_ok t" and "keyed ts_id (tb_testcases_seq t) cs" and "\<forall>c \<in> set cs. ts_problem_id c \<in> problem_ids t"
  shows "tables_ok (t\<lparr>tb_testcases := cs\<rparr>)"
  using assms by (simp add: tables_ok_defs)

lemma delete_testcases_ok: "tables_ok t \<Longrightarrow> tables_ok (delete_testcases P t)"
  unfolding delete_testcases_def
  by (rule set_testcases_ok) (auto simp: tables_ok_def testcases_ok_def intro: keyed_filter)

lemma delete_statuses_ok: "tables_ok t \<Longrightarrow> tables_ok (delete_statuses pid t)"
  unfolding delete_statuses_def
  by (auto simp: tables_ok_defs intro: keyed_filter distinct_map_filter)

lemma delete_in_flight_ok: "tables_ok t \<Longrightarrow> tables_ok (delete_in_flight pid t)"
  unfolding delete_in_flight_def
  by (auto simp: tables_ok_defs intro: keyed_filter distinct_map_filter)

lemma insert_problem_Inr:
  assumes "insert_problem data now t = Inr (i, t')"
  shows "t' = t\<lparr>tb_problems := tb_problems t @ [\<lparr>pb_id = i, pb_title = pd_title data,
      pb_description = pd_description data, pb_difficulty = pd_difficulty data, pb_tags = join_tags (pd_tags data),
      pb_time_limit_ms = pd_time_limit_ms data, pb_memory_limit_kb = pd_memory_limit_kb data,
      pb_visible = (if pd_visible data then 1 else 0), pb_seed_key = None, pb_created_at = now,
      pb_updated_at = now\<rparr>], tb_problems_seq := i\<rparr>"
    and "i = tb_problems_seq t + 1" and "pd_difficulty data \<in> set difficulties"
  using assms unfolding insert_problem_def by (simp_all add: Let_def split: if_splits) (auto simp only:)

lemma append_problem_ok:
  assumes "tables_ok t" and "pb_id row = tb_problems_seq t + 1" and "pb_difficulty row \<in> set difficulties"
    and "pb_seed_key row = None"
  shows "tables_ok (t\<lparr>tb_problems := tb_problems t @ [row], tb_problems_seq := tb_problems_seq t + 1\<rparr>)"
proof -
  have "keyed pb_id (tb_problems_seq t + 1) (tb_problems t @ [row])"
    by (rule keyed_append) (use assms in \<open>auto simp: tables_ok_defs\<close>)
  with assms show ?thesis by (auto simp: tables_ok_defs)
qed

lemma insert_problem_ok:
  assumes "insert_problem data now t = Inr (i, t')" and "tables_ok t"
  shows "tables_ok t'"
  unfolding insert_problem_Inr(1,2)[OF assms(1)]
  by (rule append_problem_ok) (use assms(2) insert_problem_Inr(3)[OF assms(1)] in auto)

lemma set_problems_ok:
  assumes "tables_ok t" and "map pb_id ps = map pb_id (tb_problems t)" and "map pb_seed_key ps = map pb_seed_key (tb_problems t)"
    and "\<forall>p \<in> set ps. pb_difficulty p \<in> set difficulties"
  shows "tables_ok (t\<lparr>tb_problems := ps\<rparr>)"
proof -
  have "pb_id ` set ps = pb_id ` set (tb_problems t)" using assms(2) by (metis set_map)
  moreover have "keyed pb_id (tb_problems_seq t) ps"
  proof -
    have "keyed pb_id n xs = keyed id n (map pb_id xs)" for n and xs :: "problem_row list"
      by (simp add: keyed_def)
    then show ?thesis using assms(1,2) by (simp add: tables_ok_defs)
  qed
  moreover have "map pb_seed_key (filter (\<lambda>p. pb_seed_key p \<noteq> None) xs) = filter (\<lambda>k. k \<noteq> None) (map pb_seed_key xs)"
    for xs :: "problem_row list" by (simp add: filter_map comp_def)
  ultimately show ?thesis using assms by (simp add: tables_ok_defs)
qed

lemma update_problem_row_ok:
  assumes "update_problem_row i ti de di ta tm me vi now t = Inr (u, t')" and "tables_ok t"
  shows "tables_ok t'"
proof -
  let ?f = "\<lambda>p. if pb_id p = i then p\<lparr>pb_title := ti, pb_description := de, pb_difficulty := di, pb_tags := ta,
     pb_time_limit_ms := tm, pb_memory_limit_kb := me, pb_visible := (if vi then 1 else 0), pb_updated_at := now\<rparr> else p"
  have t': "t' = t\<lparr>tb_problems := map ?f (tb_problems t)\<rparr>" and d: "i \<in> problem_ids t \<longrightarrow> di \<in> set difficulties"
    using assms(1) by (auto simp: update_problem_row_def split: if_splits)
  show ?thesis
    unfolding t' by (rule set_problems_ok[OF assms(2)]) (use assms(2) d in \<open>auto simp: tables_ok_defs\<close>)
qed

lemma delete_problem_ok:
  assumes "delete_problem pid t = Inr (u, t')" and "tables_ok t"
  shows "tables_ok t'"
proof (cases "pid \<in> problem_ids t")
  case False
  then have "filter (\<lambda>p. pb_id p \<noteq> pid) (tb_problems t) = tb_problems t"
    by (auto simp: problem_ids_def filter_id_conv)
  then have "t' = t"
    using assms(1) False by (auto simp: delete_problem_def split: if_splits)
  with assms(2) show ?thesis by simp
next
  case True
  then have t': "t' = t\<lparr>tb_problems := filter (\<lambda>p. pb_id p \<noteq> pid) (tb_problems t)\<rparr>"
    and free: "pid \<notin> ts_problem_id ` set (tb_testcases t)" "pid \<notin> sb_problem_id ` set (tb_submissions t)"
      "pid \<notin> up_problem_id ` set (tb_statuses t)" "pid \<notin> fl_problem_id ` set (tb_in_flight t)"
    using assms(1) by (auto simp: delete_problem_def split: if_splits)
  have ids: "problem_ids t' = problem_ids t - {pid}"
    unfolding t' problem_ids_def by auto
  have swap: "filter (\<lambda>p. pb_seed_key p \<noteq> None) (filter (\<lambda>p. pb_id p \<noteq> pid) xs)
      = filter (\<lambda>p. pb_id p \<noteq> pid) (filter (\<lambda>p. pb_seed_key p \<noteq> None) xs)" for xs :: "problem_row list"
    by (simp add: conj_commute)
  have "distinct (map pb_seed_key (filter (\<lambda>p. pb_seed_key p \<noteq> None) (filter (\<lambda>p. pb_id p \<noteq> pid) (tb_problems t))))"
    unfolding swap by (rule distinct_map_filter) (use assms(2) in \<open>simp only: tables_ok_def problems_ok_def\<close>)
  then have "problems_ok t'"
    using assms(2) unfolding t' tables_ok_def problems_ok_def
    by (simp add: keyed_filter del: filter_filter)
  moreover have "testcases_ok t'"
    using assms(2) free(1) ids unfolding tables_ok_def testcases_ok_def by (auto simp: t')
  moreover have "submissions_ok t'"
    using assms(2) free(2) ids unfolding tables_ok_def submissions_ok_def by (auto simp: t' user_ids_def)
  moreover have "statuses_ok t'"
    using assms(2) free(3) ids unfolding tables_ok_def statuses_ok_def by (auto simp: t' user_ids_def)
  moreover have "in_flight_ok t'"
    using assms(2) free(4) ids unfolding tables_ok_def in_flight_ok_def by (auto simp: t' user_ids_def)
  moreover have "users_ok t'"
    using assms(2) unfolding tables_ok_def users_ok_def by (auto simp: t')
  ultimately show ?thesis by (simp add: tables_ok_def)
qed

section \<open>The operations meet the store contract\<close>

lemma txn_body_problem_find [db_intros]: "txn_body (problem_find_by_id i)"
  unfolding problem_find_by_id_def by (rule db_intros)

lemma keeps_problem_find [db_keeps]: "keeps I (problem_find_by_id i)"
  unfolding problem_find_by_id_def by (rule db_keeps)

lemma txn_body_find_hidden [db_intros]: "txn_body (find_hidden pid i)"
  unfolding find_hidden_def by (rule db_intros)

lemma keeps_find_hidden [db_keeps]: "keeps I (find_hidden pid i)"
  unfolding find_hidden_def by (rule db_keeps)

lemma txn_body_insert_samples [db_intros]: "txn_body (insert_samples pid n ss)"
  by (induction ss arbitrary: n) (auto intro!: db_intros)

lemma keeps_insert_samples:
  assumes "\<And>ord inp out i t t'. insert_testcase pid ord inp out 1 t = Inr (i, t') \<Longrightarrow> I t \<Longrightarrow> I t'"
  shows "keeps I (insert_samples pid n ss)"
proof (induction ss arbitrary: n)
  case Nil
  show ?case by (simp add: keeps_ret)
next
  case (Cons s ss)
  have "keeps I (sql (insert_testcase pid ord inp out 1))" for ord inp out
    by (rule keeps_sql) (rule assms)
  with Cons show ?case by (auto intro!: keeps_bind)
qed

lemma txn_body_problem_update [db_intros]: "txn_body (problem_update_body i patch)"
  unfolding problem_update_body_def by (intro db_intros)

lemma txn_body_problem_remove [db_intros]: "txn_body (problem_remove_body i)"
  unfolding problem_remove_body_def by (intro db_intros)

lemma txn_body_testcase_create [db_intros]: "txn_body (testcase_create_body pid data)"
  unfolding testcase_create_body_def choose_ord_def by (intro db_intros)

lemma txn_body_testcase_update [db_intros]: "txn_body (testcase_update_body pid i patch)"
  unfolding testcase_update_body_def Let_def by (intro db_intros)

lemma txn_body_testcase_remove [db_intros]: "txn_body (testcase_remove_body pid i)"
  unfolding testcase_remove_body_def by (intro db_intros)

text \<open>Which statements each body can execute: an invariant of those statements is one of the body.\<close>

lemma keeps_problem_update:
  assumes "\<And>ti de di ta tm me vi now t t' u. update_problem_row i ti de di ta tm me vi now t = Inr (u, t') \<Longrightarrow> I t \<Longrightarrow> I t'"
    and "\<And>t. I t \<Longrightarrow> I (delete_testcases (\<lambda>c. ts_problem_id c = i \<and> ts_is_sample c = 1) t)"
    and "\<And>ord inp out k t t'. insert_testcase i ord inp out 1 t = Inr (k, t') \<Longrightarrow> I t \<Longrightarrow> I t'"
  shows "keeps I (problem_update_body i patch)"
  unfolding problem_update_body_def
  by (intro db_keeps keeps_sql_at keeps_write keeps_insert_samples) (use assms in blast)+

lemma keeps_problem_remove:
  assumes "\<And>t. I t \<Longrightarrow> I (delete_testcases (\<lambda>c. ts_problem_id c = i) t)" and "\<And>t. I t \<Longrightarrow> I (delete_statuses i t)"
    and "\<And>t. I t \<Longrightarrow> I (delete_in_flight i t)" and "\<And>t t' u. delete_problem i t = Inr (u, t') \<Longrightarrow> I t \<Longrightarrow> I t'"
  shows "keeps I (problem_remove_body i)"
  unfolding problem_remove_body_def
  by (intro db_keeps keeps_sql keeps_write) (use assms in blast)+

lemma keeps_testcase_create:
  assumes "\<And>ord inp out k t t'. insert_testcase pid ord inp out 0 t = Inr (k, t') \<Longrightarrow> I t \<Longrightarrow> I t'"
  shows "keeps I (testcase_create_body pid data)"
  unfolding testcase_create_body_def choose_ord_def
  by (intro db_keeps keeps_sql) (use assms in blast)+

lemma keeps_testcase_update:
  assumes "\<And>inp out ord t. I t \<Longrightarrow> I (t\<lparr>tb_testcases := map (\<lambda>c. if is_hidden pid i c
      then c\<lparr>ts_input := inp, ts_output := out, ts_ord := ord\<rparr> else c) (tb_testcases t)\<rparr>)"
  shows "keeps I (testcase_update_body pid i patch)"
  unfolding testcase_update_body_def Let_def
  by (intro db_keeps keeps_write) (use assms in blast)+

lemma keeps_testcase_remove:
  assumes "\<And>t. I t \<Longrightarrow> I (delete_testcases (is_hidden pid i) t)"
  shows "keeps I (testcase_remove_body pid i)"
  unfolding testcase_remove_body_def
  by (intro db_keeps keeps_write) (use assms in blast)+

lemma update_hidden_ok:
  assumes "tables_ok t"
  shows "tables_ok (t\<lparr>tb_testcases := map (\<lambda>c. if is_hidden pid i c
      then c\<lparr>ts_input := inp, ts_output := out, ts_ord := ord\<rparr> else c) (tb_testcases t)\<rparr>)"
proof (rule set_testcases_ok[OF assms])
  show "keyed ts_id (tb_testcases_seq t) (map (\<lambda>c. if is_hidden pid i c
      then c\<lparr>ts_input := inp, ts_output := out, ts_ord := ord\<rparr> else c) (tb_testcases t))"
    by (rule keyed_map) (use assms in \<open>auto simp: tables_ok_def testcases_ok_def\<close>)
qed (use assms in \<open>auto simp: tables_ok_def testcases_ok_def\<close>)

interpretation problem_create: store_operation "problem_create data" tables_ok
  unfolding problem_create_def
proof (rule store_operation_keepsI)
  show "txn_body (db_bind (sql_at (insert_problem data)) (\<lambda>pid.
      db_bind (insert_samples pid 0 (pd_samples data)) (\<lambda>_. db_ret pid)))"
    by (intro db_intros)
  show "keeps tables_ok (db_bind (sql_at (insert_problem data)) (\<lambda>pid.
      db_bind (insert_samples pid 0 (pd_samples data)) (\<lambda>_. db_ret pid)))"
    by (intro db_keeps keeps_sql_at keeps_insert_samples) (rule insert_problem_ok insert_testcase_ok; assumption)+
qed

interpretation problem_update: store_operation "problem_update i patch" tables_ok
  unfolding problem_update_def
  by (rule store_operation_keepsI[OF txn_body_problem_update keeps_problem_update])
    (auto intro: update_problem_row_ok delete_testcases_ok insert_testcase_ok)

interpretation problem_remove: store_operation "problem_remove i" tables_ok
  unfolding problem_remove_def
  by (rule store_operation_keepsI[OF txn_body_problem_remove keeps_problem_remove])
    (auto intro: delete_testcases_ok delete_statuses_ok delete_in_flight_ok delete_problem_ok)

interpretation testcase_create: store_operation "testcase_create pid data" tables_ok
  unfolding testcase_create_def
  by (rule store_operation_keepsI[OF txn_body_testcase_create keeps_testcase_create]) (rule insert_testcase_ok)

interpretation testcase_update: store_operation "testcase_update pid i patch" tables_ok
  unfolding testcase_update_def
  by (rule store_operation_keepsI[OF txn_body_testcase_update keeps_testcase_update]) (rule update_hidden_ok)

interpretation testcase_remove: store_operation "testcase_remove pid i" tables_ok
  unfolding testcase_remove_def
  by (rule store_operation_keepsI[OF txn_body_testcase_remove keeps_testcase_remove]) (rule delete_testcases_ok)

section \<open>Properties of the administration\<close>

definition sample_rows :: "tables \<Rightarrow> testcase_row list" where
  "sample_rows t = filter (\<lambda>c. ts_is_sample c = 1) (tb_testcases t)"

definition hidden_rows :: "tables \<Rightarrow> testcase_row list" where
  "hidden_rows t = filter (\<lambda>c. ts_is_sample c = 0) (tb_testcases t)"

lemma filter_map_untouched:
  "(\<And>r. P (f r) = P r) \<Longrightarrow> (\<And>r. P r \<Longrightarrow> f r = r) \<Longrightarrow> filter P (map f rows) = filter P rows"
  by (induction rows) auto

lemma sample_rows_insert: "insert_testcase pid ord inp out 0 t = Inr (k, t') \<Longrightarrow> sample_rows t' = sample_rows t"
  by (drule insert_testcase_Inr(1)) (simp add: sample_rows_def)

lemma sample_rows_update:
  "sample_rows (t\<lparr>tb_testcases := map (\<lambda>c. if is_hidden pid i c
      then c\<lparr>ts_input := inp, ts_output := out, ts_ord := ord\<rparr> else c) (tb_testcases t)\<rparr>) = sample_rows t"
proof -
  have "filter (\<lambda>c. ts_is_sample c = 1) (map (\<lambda>c. if is_hidden pid i c
      then c\<lparr>ts_input := inp, ts_output := out, ts_ord := ord\<rparr> else c) cs) = filter (\<lambda>c. ts_is_sample c = 1) cs" for cs
    by (rule filter_map_untouched) (auto simp: is_hidden_def)
  then show ?thesis by (simp only: sample_rows_def) simp
qed

lemma sample_rows_delete: "sample_rows (delete_testcases (is_hidden pid i) t) = sample_rows t"
  by (simp add: sample_rows_def delete_testcases_def is_hidden_def) (rule filter_cong; auto)

lemma hidden_rows_insert: "insert_testcase pid ord inp out 1 t = Inr (k, t') \<Longrightarrow> hidden_rows t' = hidden_rows t"
  by (drule insert_testcase_Inr(1)) (simp add: hidden_rows_def)

lemma hidden_rows_delete:
  "hidden_rows (delete_testcases (\<lambda>c. ts_problem_id c = i \<and> ts_is_sample c = 1) t) = hidden_rows t"
  by (simp add: hidden_rows_def delete_testcases_def) (rule filter_cong; auto)

lemma hidden_rows_update_row:
  "update_problem_row i ti de di ta tm me vi now t = Inr (u, t') \<Longrightarrow> hidden_rows t' = hidden_rows t"
  by (auto simp: update_problem_row_def hidden_rows_def split: if_splits)

lemma samples_op:
  "store_operation (testcase_create pid data) (\<lambda>t. sample_rows t = s)"
  "store_operation (testcase_update pid i patch) (\<lambda>t. sample_rows t = s)"
  "store_operation (testcase_remove pid i) (\<lambda>t. sample_rows t = s)"
  unfolding testcase_create_def testcase_update_def testcase_remove_def
  by (rule store_operation_keepsI, rule db_intros,
      rule keeps_testcase_create keeps_testcase_update keeps_testcase_remove,
      simp add: sample_rows_insert sample_rows_update sample_rows_delete)+

lemma hidden_op: "store_operation (problem_update i patch) (\<lambda>t. hidden_rows t = s)"
  unfolding problem_update_def
  by (rule store_operation_keepsI[OF txn_body_problem_update keeps_problem_update])
    (simp_all add: hidden_rows_insert hidden_rows_delete hidden_rows_update_row)

text \<open>
  The two administrations do not touch each other's test cases. Creating, changing or deleting
  a hidden case leaves every public sample of every problem as it was, also when the id given
  is that of a sample, and editing a problem (replacing its samples included) leaves every
  hidden case, in content and order. This holds for success, for every error and under every fault.
\<close>

theorem testcase_kinds_separate:
  assumes "db_snap d = None"
  shows "sample_rows (durable (snd (testcase_create pid data d))) = sample_rows (durable d)
    \<and> sample_rows (durable (snd (testcase_update pid i patch d))) = sample_rows (durable d)
    \<and> sample_rows (durable (snd (testcase_remove pid i d))) = sample_rows (durable d)
    \<and> hidden_rows (durable (snd (problem_update pid ppatch d))) = hidden_rows (durable d)"
  using store_operation.inv_durable[OF samples_op(1) assms refl]
    store_operation.inv_durable[OF samples_op(2) assms refl]
    store_operation.inv_durable[OF samples_op(3) assms refl]
    store_operation.inv_durable[OF hidden_op assms refl]
  by blast

definition demo_problem :: problem_row where
  "demo_problem = \<lparr>pb_id = 1, pb_title = ''A+B'', pb_description = ''add'', pb_difficulty = ''easy'', pb_tags = ''math'',
     pb_time_limit_ms = 1000, pb_memory_limit_kb = 65536, pb_visible = 1, pb_seed_key = None,
     pb_created_at = ''2026-01-01 00:00:00'', pb_updated_at = ''2026-01-01 00:00:00''\<rparr>"

definition demo_case :: "int \<Rightarrow> int \<Rightarrow> testcase_row" where
  "demo_case i smp = \<lparr>ts_id = i, ts_problem_id = 1, ts_ord = i, ts_input = ''1 2'', ts_output = ''3'', ts_is_sample = smp\<rparr>"

definition problem_tables :: tables where
  "problem_tables = demo_tables\<lparr>tb_problems := [demo_problem], tb_problems_seq := 1,
     tb_testcases := [demo_case 1 1, demo_case 2 0], tb_testcases_seq := 2\<rparr>"

definition problem_db :: db where
  "problem_db = demo_db\<lparr>db_cur := problem_tables\<rparr>"

lemma problem_db_simps [simp]:
  "db_snap problem_db = None" "db_cur problem_db = problem_tables" "durable problem_db = problem_tables"
  "db_faults problem_db = []" "db_now problem_db = ''2026-01-02 00:00:00''"
  by (simp_all add: problem_db_def durable_def demo_db_def)

lemma problem_tables_ok [simp]: "tables_ok problem_tables"
  by (simp add: problem_tables_def demo_tables_def empty_tables_def tables_ok_defs keyed_def demo_user_def
      demo_problem_def demo_case_def difficulties_def)

theorem testcase_kinds_separate_witness:
  "map ts_id (sample_rows (durable (snd (testcase_remove 1 1 problem_db)))) = [1]"
  using testcase_kinds_separate[of problem_db 1 undefined 1 undefined undefined]
  by (simp add: sample_rows_def problem_tables_def demo_case_def)

text \<open>What the body of a successful deletion has established and done.\<close>

lemma problem_find_by_idE [db_elims]:
  assumes "problem_find_by_id i d = (Inr r, d')"
  obtains "r = None \<longleftrightarrow> i \<notin> problem_ids (db_cur d)" "db_cur d' = db_cur d"
  using assms unfolding problem_find_by_id_def
  by (elim sql_read_InrE) (auto simp: find_row_None problem_ids_def)

lemma problem_remove_bodyE:
  assumes "problem_remove_body i d = (Inr u, d')"
  obtains "i \<in> problem_ids (db_cur d)" "submission_count i (db_cur d) = 0" "unsettled_count i (db_cur d) = 0"
    "delete_problem i (delete_in_flight i (delete_statuses i
       (delete_testcases (\<lambda>c. ts_problem_id c = i) (db_cur d)))) = Inr ((), db_cur d')"
  using assms unfolding problem_remove_body_def
  by (auto elim!: db_bind_InrE db_map_error_InrE problem_find_by_idE sql_read_InrE sql_write_InrE sql_InrE
      db_fail_InrE split: if_splits)

definition removed_problem :: "int \<Rightarrow> tables \<Rightarrow> tables" where
  "removed_problem i t = t\<lparr>tb_problems := filter (\<lambda>p. pb_id p \<noteq> i) (tb_problems t),
     tb_testcases := filter (\<lambda>c. ts_problem_id c \<noteq> i) (tb_testcases t),
     tb_statuses := filter (\<lambda>r. up_problem_id r \<noteq> i) (tb_statuses t),
     tb_in_flight := filter (\<lambda>r. fl_problem_id r \<noteq> i) (tb_in_flight t)\<rparr>"

lemma delete_statements:
  "delete_problem i (delete_in_flight i (delete_statuses i (delete_testcases (\<lambda>c. ts_problem_id c = i) t))) =
     (if i \<in> problem_ids t \<and> 0 < submission_count i t then Inl (ConstraintViolation ''FOREIGN KEY constraint failed'')
      else Inr ((), removed_problem i t))"
  by (auto simp: delete_problem_def delete_in_flight_def delete_statuses_def delete_testcases_def removed_problem_def
      submission_count_def problem_ids_def filter_empty_conv image_iff)

text \<open>
  Deleting a problem. It succeeds only for an existing problem that has no submission and no
  judgement under way, and then removes exactly the problem with its test cases, its progress rows and its
  interrupted tasks. No submission and no user is ever removed, and a refused or failed
  deletion removes nothing. Without faults the outcome is decided by the tables alone.
\<close>

theorem problem_remove_outcome:
  assumes "db_snap d = None" and "problem_remove i d = (r, d')"
  shows "tb_submissions (durable d') = tb_submissions (durable d) \<and> tb_users (durable d') = tb_users (durable d)
    \<and> (is_ok r \<longrightarrow> i \<in> problem_ids (durable d) \<and> submission_count i (durable d) = 0
          \<and> unsettled_count i (durable d) = 0 \<and> durable d' = removed_problem i (durable d))
    \<and> (\<not> is_ok r \<longrightarrow> durable d' = durable d)
    \<and> (db_faults d = [] \<longrightarrow> r =
         (if i \<notin> problem_ids (durable d) then Inl DelNotFound
          else if 0 < submission_count i (durable d) \<or> 0 < unsettled_count i (durable d) then Inl DelHasSubmissions
          else Inr ()))"
proof -
  let ?t = "durable d"
  have t: "?t = db_cur d" using assms(1) by (simp add: durable_def)
  have fail: "\<not> is_ok r \<longrightarrow> durable d' = durable d"
    using problem_remove.failed_durable[OF assms(1), of i] by (simp add: assms(2))
  have ok: "i \<in> problem_ids ?t \<and> submission_count i ?t = 0 \<and> unsettled_count i ?t = 0 \<and> durable d' = removed_problem i ?t"
    if r: "r = Inr u" for u
  proof -
    obtain d1 d2 where "db_cur d1 = db_cur d" "problem_remove_body i d1 = (Inr u, d2)" "db_cur d' = db_cur d2" "db_snap d' = None"
      using assms(2) unfolding r problem_remove_def by (rule with_txn_Inr)
    then show ?thesis
      by (elim problem_remove_bodyE) (auto simp: delete_statements durable_def assms(1) split: if_splits)
  qed
  have quiet: "r = (if i \<notin> problem_ids ?t then Inl DelNotFound
          else if 0 < submission_count i ?t \<or> 0 < unsettled_count i ?t then Inl DelHasSubmissions else Inr ())"
    if "db_faults d = []"
  proof -
    let ?d = "d\<lparr>db_snap := Some (db_cur d)\<rparr>"
    have "fst (problem_remove_body i ?d) = (if i \<notin> problem_ids ?t then Inl DelNotFound
          else if 0 < submission_count i ?t \<or> 0 < unsettled_count i ?t then Inl DelHasSubmissions else Inr ())"
      using that by (auto simp: problem_remove_body_def problem_find_by_id_def db_quiet t find_row_None problem_ids_def
          delete_statements)
    moreover have "db_faults (snd (problem_remove_body i ?d)) = [] \<and> db_snap (snd (problem_remove_body i ?d)) \<noteq> None"
      using that by (auto simp: problem_remove_body_def problem_find_by_id_def db_quiet delete_statements)
    ultimately show ?thesis
      using with_txn_quiet_result[OF that assms(1), of "problem_remove_body i" "\<lambda>e. DelError (errmsg e)"] assms(2)
      unfolding problem_remove_def by auto
  qed
  show ?thesis
    using fail ok quiet by (cases r) (auto simp: removed_problem_def)
qed

theorem problem_remove_outcome_witness:
  "is_ok (fst (problem_remove 1 problem_db)) \<and> durable (snd (problem_remove 1 problem_db)) = demo_tables\<lparr>tb_problems_seq := 1, tb_testcases_seq := 2\<rparr>"
proof -
  obtain r d' where r: "problem_remove 1 problem_db = (r, d')" by force
  then show ?thesis
    using problem_remove_outcome[OF problem_db_simps(1) r]
    by (simp add: problem_tables_def demo_tables_def empty_tables_def problem_ids_def demo_problem_def demo_case_def
        submission_count_def unsettled_count_def removed_problem_def)
qed

lemma foldl_max_ge: "b \<le> foldl max b xs \<and> (\<forall>x \<in> set xs. x \<le> foldl max b xs)" for b :: int
proof (induction xs arbitrary: b)
  case (Cons x xs)
  from Cons[of "max b x"] show ?case by auto
qed simp

lemma max_ord_ge:
  assumes "c \<in> set (tb_testcases t)" and "ts_problem_id c = pid"
  shows "ts_ord c \<le> max_ord pid t"
proof -
  let ?os = "map ts_ord (filter (\<lambda>c. ts_problem_id c = pid) (tb_testcases t))"
  have c: "ts_ord c \<in> set ?os" using assms by auto
  show ?thesis
  proof (cases ?os)
    case (Cons o1 os)
    then have "max_ord pid t = foldl max o1 os" by (simp only: max_ord_def list.case)
    with c Cons foldl_max_ge[of o1 os] show ?thesis by auto
  qed (use c in simp)
qed

lemma choose_ordE:
  assumes "choose_ord pid data d = (Inr ord, d')"
  obtains "db_cur d' = db_cur d"
    "ord = (case td_ord data of Some n \<Rightarrow> n | None \<Rightarrow> max_ord pid (db_cur d) + 1)"
    "td_ord data = None \<longrightarrow> max_ord pid (db_cur d) + 1 \<le> max_testcase_ord"
  using assms unfolding choose_ord_def
  by (cases "td_ord data") (auto elim!: db_bind_InrE db_map_error_InrE sql_read_InrE db_ret_InrE db_fail_InrE split: if_splits)

lemma testcase_create_bodyE:
  assumes "testcase_create_body pid data d = (Inr (i, ord), d')"
  obtains "pid \<in> problem_ids (db_cur d)" "insert_testcase pid ord (td_input data) (td_output data) 0 (db_cur d) = Inr (i, db_cur d')"
    "ord = (case td_ord data of Some n \<Rightarrow> n | None \<Rightarrow> max_ord pid (db_cur d) + 1)"
    "td_ord data = None \<longrightarrow> max_ord pid (db_cur d) + 1 \<le> max_testcase_ord"
proof -
  obtain found d1 d2 d3 where f: "problem_find_by_id pid d = (Inr found, d1)" "found \<noteq> None"
    and o: "choose_ord pid data d1 = (Inr ord, d2)"
    and i: "sql (insert_testcase pid ord (td_input data) (td_output data) 0) d2 = (Inr i, d3)" "d' = d3"
    using assms unfolding testcase_create_body_def
    by (auto elim!: db_bind_InrE db_map_error_InrE db_ret_InrE db_fail_InrE split: if_splits)
  have "pid \<in> problem_ids (db_cur d)" and d1: "db_cur d1 = db_cur d"
    using f by (auto elim: problem_find_by_idE)
  with that sql_Inr(1)[OF i(1)] i(2) choose_ordE[OF o, unfolded d1] show thesis by metis
qed

lemma insort_key_snoc_max: "f x \<le> f y \<Longrightarrow> insort_key f x (zs @ [y]) = insort_key f x zs @ [y]"
  by (induction zs) auto

lemma sort_key_snoc_max: "\<forall>x \<in> set xs. f x \<le> f y \<Longrightarrow> sort_key f (xs @ [y]) = sort_key f xs @ [y]"
  by (induction xs) (auto simp: insort_key_snoc_max)

text \<open>
  A hidden case created without an explicit position goes last. Its position is above those of
  all cases of the problem (samples included) and within the limit, and in the order in which cases are
  listed and judged the new case follows all the old ones, whose order is unchanged.
\<close>

theorem testcase_create_appends:
  assumes "db_snap d = None" and "tables_ok (db_cur d)" and "td_ord data = None"
    and "testcase_create pid data d = (Inr (i, ord), d')"
  shows "(\<forall>c \<in> set (tb_testcases (db_cur d)). ts_problem_id c = pid \<longrightarrow> ts_ord c < ord) \<and> ord \<le> max_testcase_ord
    \<and> order_testcases (filter (\<lambda>c. ts_problem_id c = pid) (tb_testcases (db_cur d')))
        = order_testcases (filter (\<lambda>c. ts_problem_id c = pid) (tb_testcases (db_cur d)))
          @ [\<lparr>ts_id = i, ts_problem_id = pid, ts_ord = ord, ts_input = td_input data, ts_output = td_output data, ts_is_sample = 0\<rparr>]"
proof -
  let ?t = "db_cur d"
  let ?old = "filter (\<lambda>c. ts_problem_id c = pid) (tb_testcases ?t)"
  let ?row = "\<lparr>ts_id = i, ts_problem_id = pid, ts_ord = ord, ts_input = td_input data, ts_output = td_output data, ts_is_sample = 0\<rparr>"
  obtain d1 d2 where d12: "db_cur d1 = db_cur d" "testcase_create_body pid data d1 = (Inr (i, ord), d2)" "db_cur d' = db_cur d2"
    using assms(4) unfolding testcase_create_def by (rule with_txn_Inr)
  from d12(2) have ins: "insert_testcase pid ord (td_input data) (td_output data) 0 ?t = Inr (i, db_cur d')"
    and ord: "ord = max_ord pid ?t + 1" "ord \<le> max_testcase_ord"
    by (rule testcase_create_bodyE; use assms(3) d12 in simp)+
  have cases: "tb_testcases (db_cur d') = tb_testcases ?t @ [?row]"
    using insert_testcase_Inr(1)[OF ins] by simp
  have "\<forall>c \<in> set ?old. ts_id c \<le> ts_id ?row"
    using assms(2) insert_testcase_Inr(2)[OF ins] by (fastforce simp: tables_ok_def testcases_ok_def keyed_def)
  then have "sort_key ts_id (?old @ [?row]) = sort_key ts_id ?old @ [?row]" by (rule sort_key_snoc_max)
  moreover have "\<forall>c \<in> set (sort_key ts_id ?old). ts_ord c \<le> ts_ord ?row"
    using max_ord_ge[of _ ?t pid] ord(1) by fastforce
  then have "sort_key ts_ord (sort_key ts_id ?old @ [?row]) = sort_key ts_ord (sort_key ts_id ?old) @ [?row]"
    by (rule sort_key_snoc_max)
  ultimately show ?thesis
    using ord max_ord_ge[of _ ?t pid] cases by (force simp: order_testcases_def)
qed

theorem testcase_create_appends_witness:
  "map ts_ord (order_testcases (filter (\<lambda>c. ts_problem_id c = 1) (tb_testcases (db_cur
     (snd (testcase_create 1 \<lparr>td_input = ''x'', td_output = ''y'', td_ord = None\<rparr> problem_db)))))) = [1, 2, 3]"
proof -
  have "fst (testcase_create 1 \<lparr>td_input = ''x'', td_output = ''y'', td_ord = None\<rparr> problem_db) = Inr (3, 3)"
    by code_simp
  then obtain d' where r: "testcase_create 1 \<lparr>td_input = ''x'', td_output = ''y'', td_ord = None\<rparr> problem_db = (Inr (3, 3), d')"
    by (metis prod.collapse)
  show ?thesis
    using testcase_create_appends[OF problem_db_simps(1) _ _ r] problem_tables_ok
    unfolding r by (simp add: problem_tables_def demo_case_def order_testcases_def)
qed

text \<open>The listing that a query denotes: all matching problems by id, with their statistics.\<close>

definition matching :: "problem_list_query \<Rightarrow> tables \<Rightarrow> problem_summary list" where
  "matching q t = map (\<lambda>p. load_summary_with_stats (pass_count t (pb_id p))
      (viewer_status t (pq_viewer_user_id q) (pb_id p)) p) (sort_key pb_id (filter (build_where q) (tb_problems t)))"

lemma page_of_map: "page_of p n (map f xs) = map f (page_of p n xs)"
  by (simp add: page_of_def take_map drop_map)

lemma problem_query_Inr:
  assumes "problem_query q d = (Inr (items, n), d')"
  shows "items = page_of (nat (pq_page q)) (nat (pq_page_size q)) (matching q (db_cur d))"
    and "n = int (length (matching q (db_cur d)))" and "db_cur d' = db_cur d" and "1 \<le> pq_page q" "1 \<le> pq_page_size q"
proof -
  have pos: "1 \<le> pq_page q" "1 \<le> pq_page_size q"
    using assms by (auto simp: problem_query_def elim: db_fail_InrE split: if_splits)
  show "1 \<le> pq_page q" "1 \<le> pq_page_size q" by (fact pos)+
  show "items = page_of (nat (pq_page q)) (nat (pq_page_size q)) (matching q (db_cur d))"
    "n = int (length (matching q (db_cur d)))" "db_cur d' = db_cur d"
    using assms pos unfolding problem_query_def matching_def
    by (auto elim!: db_bind_InrE sql_read_InrE db_ret_InrE simp: limit_offset_page page_of_map)
qed

lemma problem_query_quiet:
  "db_faults d = [] \<Longrightarrow> 1 \<le> pq_page q \<Longrightarrow> 1 \<le> pq_page_size q \<Longrightarrow>
     problem_query q d = (Inr (page_of (nat (pq_page q)) (nat (pq_page_size q)) (matching q (db_cur d)),
       int (length (matching q (db_cur d)))), d)"
  by (simp add: problem_query_def db_quiet matching_def limit_offset_page page_of_map)

lemma matching_visible:
  "pq_visibility q = VisibleOnly \<Longrightarrow> s \<in> set (matching q t) \<Longrightarrow> ps_visible s"
  by (auto simp: matching_def build_where_def load_summary_with_stats_def load_summary_def)

text \<open>
  The problem list. A page holds at most the requested number of entries, in the order of the ids,
  all matching the query; a listing for visitors never shows a hidden problem; the reported total
  is the number of matches; reading the pages one after another gives every match
  exactly once; the query changes nothing.
\<close>

theorem problem_query_pages:
  assumes "db_faults d = []" and "1 \<le> psize"
  shows "concat (map (\<lambda>k. case problem_query (q\<lparr>pq_page := int k, pq_page_size := psize\<rparr>) d of
            (Inr (items, n), d') \<Rightarrow> items | (Inl e, d') \<Rightarrow> [])
          [1..<Suc (total_pages (length (matching q (db_cur d))) (nat psize))]) = matching q (db_cur d)
    \<and> (\<forall>page items n d'. problem_query (q\<lparr>pq_page := page, pq_page_size := psize\<rparr>) d = (Inr (items, n), d') \<longrightarrow>
          int (length items) \<le> psize \<and> n = int (length (matching q (db_cur d))) \<and> db_cur d' = db_cur d
          \<and> (pq_visibility q = VisibleOnly \<longrightarrow> (\<forall>s \<in> set items. ps_visible s)))"
proof -
  have m: "matching (q\<lparr>pq_page := page, pq_page_size := psize\<rparr>) = matching q" for page
    by (rule ext) (simp add: matching_def build_where_def cong: filter_cong)
  have "map (\<lambda>k. case problem_query (q\<lparr>pq_page := int k, pq_page_size := psize\<rparr>) d of
            (Inr (items, n), d') \<Rightarrow> items | (Inl e, d') \<Rightarrow> []) [1..<Suc k]
      = map (\<lambda>k. page_of k (nat psize) (matching q (db_cur d))) [1..<Suc k]" for k
    using assms by (intro map_cong) (auto simp: problem_query_quiet m)
  moreover have "int (length items) \<le> psize \<and> n = int (length (matching q (db_cur d))) \<and> db_cur d' = db_cur d
          \<and> (pq_visibility q = VisibleOnly \<longrightarrow> (\<forall>s \<in> set items. ps_visible s))"
    if "problem_query (q\<lparr>pq_page := page, pq_page_size := psize\<rparr>) d = (Inr (items, n), d')" for page items n d'
    using problem_query_Inr[OF that] length_page_of[of "nat page" "nat psize" "matching q (db_cur d)"]
      set_page_of[of "nat page" "nat psize" "matching q (db_cur d)"] matching_visible[of q] assms(2)
    by (auto simp: m)
  moreover have "0 < nat psize" using assms(2) by simp
  ultimately show ?thesis by (simp only: concat_all_pages) blast
qed

definition demo_query :: problem_list_query where
  "demo_query = \<lparr>pq_visibility = VisibleOnly, pq_keyword = ''b'', pq_difficulty = [], pq_tag = ''math'',
     pq_viewer_user_id = 2, pq_page = 1, pq_page_size = 20\<rparr>"

theorem problem_query_pages_witness:
  "concat (map (\<lambda>k. case problem_query (demo_query\<lparr>pq_page := int k, pq_page_size := 20\<rparr>) problem_db of
            (Inr (items, n), d') \<Rightarrow> map ps_id items | (Inl e, d') \<Rightarrow> []) [1..<2]) = [1]"
proof -
  have m: "map ps_id (matching demo_query problem_tables) = [1]" by code_simp
  then have "length (matching demo_query problem_tables) = 1"
    by (metis length_map list.size(3,4) One_nat_def plus_1_eq_Suc add.commute)
  then have "total_pages (length (matching demo_query problem_tables)) (nat 20) = 1" by (simp add: total_pages_def)
  with m show ?thesis
    using problem_query_pages[of problem_db 20 demo_query]
    by (auto split: prod.splits sum.splits simp: numeral_2_eq_2)
qed

end
