(* ===== verification/OJ_Submissions.thy ===== *)
theory OJ_Submissions
  imports OJ_Problems
begin

text \<open>
  Submissions and progress (\<open>db/submissions.cpp\<close>) and the tasks that are accepted but not
  yet settled (\<open>db/in_flight.cpp\<close>). The stores of this file open no transaction themselves.
\<close>

section \<open>SubmissionStore\<close>

text \<open>\<open>INSERT INTO submissions\<close>: the row's own id is ignored, the new one returned.\<close>

definition insert_submission :: "submission_row \<Rightarrow> tables \<Rightarrow> db_error + (int \<times> tables)" where
  "insert_submission r t =
     (if sb_status r \<notin> set status_names then Inl (ConstraintViolation ''CHECK constraint failed: submissions'')
      else if sb_user_id r \<notin> user_ids t \<or> sb_problem_id r \<notin> problem_ids t
      then Inl (ConstraintViolation ''FOREIGN KEY constraint failed'')
      else let i = tb_submissions_seq t + 1
           in Inr (i, t\<lparr>tb_submissions := tb_submissions t @ [r\<lparr>sb_id := i\<rparr>], tb_submissions_seq := i\<rparr>))"

definition update_submission :: "submission_row \<Rightarrow> tables \<Rightarrow> db_error + (unit \<times> tables)" where
  "update_submission r t =
     (if sb_id r \<in> sb_id ` set (tb_submissions t) \<and> sb_status r \<notin> set status_names
      then Inl (ConstraintViolation ''CHECK constraint failed: submissions'')
      else Inr ((), t\<lparr>tb_submissions := map (\<lambda>s. if sb_id s = sb_id r then
             s\<lparr>sb_status := sb_status r, sb_per_case := sb_per_case r, sb_compile_msg := sb_compile_msg r,
               sb_runtime_ms := sb_runtime_ms r, sb_memory_kb := sb_memory_kb r\<rparr> else s) (tb_submissions t)\<rparr>))"

definition load_submission :: "submission_row \<Rightarrow> submission_row" where
  "load_submission s = \<lparr>sb_id = sb_id s, sb_user_id = sb_user_id s, sb_problem_id = sb_problem_id s,
     sb_language = column_text (sb_language s), sb_source_code = column_text (sb_source_code s),
     sb_status = column_text (sb_status s), sb_per_case = column_text (sb_per_case s),
     sb_compile_msg = column_text (sb_compile_msg s), sb_runtime_ms = sb_runtime_ms s,
     sb_memory_kb = sb_memory_kb s, sb_created_at = column_text (sb_created_at s)\<rparr>"

definition submission_insert :: "submission_row \<Rightarrow> (db_error, int) dbm" where
  "submission_insert r = sql (insert_submission r)"

definition submission_find_by_id :: "int \<Rightarrow> (db_error, submission_row option) dbm" where
  "submission_find_by_id i =
     sql_read (\<lambda>t. map_option load_submission (find_row (\<lambda>s. sb_id s = i) (tb_submissions t)))"

definition submission_update :: "submission_row \<Rightarrow> (db_error, unit) dbm" where
  "submission_update r = sql (update_submission r)"

record submission_summary =
  sx_id :: int
  sx_problem_id :: int
  sx_problem_title :: string
  sx_language :: string
  sx_status :: string
  sx_runtime_ms :: int
  sx_memory_kb :: int
  sx_created_at :: string

text \<open>\<open>LEFT JOIN problems\<close> with \<open>COALESCE(p.title, '')\<close>.\<close>

definition title_of :: "tables \<Rightarrow> int \<Rightarrow> string" where
  "title_of t pid = (case find_row (\<lambda>p. pb_id p = pid) (tb_problems t) of None \<Rightarrow> [] | Some p \<Rightarrow> pb_title p)"

definition summarize_submission :: "tables \<Rightarrow> submission_row \<Rightarrow> submission_summary" where
  "summarize_submission t s = \<lparr>sx_id = sb_id s, sx_problem_id = sb_problem_id s,
     sx_problem_title = column_text (title_of t (sb_problem_id s)), sx_language = column_text (sb_language s),
     sx_status = column_text (sb_status s), sx_runtime_ms = sb_runtime_ms s, sx_memory_kb = sb_memory_kb s,
     sx_created_at = column_text (sb_created_at s)\<rparr>"

definition submission_filter :: "int \<Rightarrow> int \<Rightarrow> submission_row \<Rightarrow> bool" where
  "submission_filter uid pid s = (sb_user_id s = uid \<and> (0 < pid \<longrightarrow> sb_problem_id s = pid))"

text \<open>\<open>ORDER BY created_at DESC, id DESC\<close>.\<close>

definition newest_first :: "submission_row list \<Rightarrow> submission_row list" where
  "newest_first rows = rev (sort_key sb_created_at (sort_key sb_id rows))"

definition submission_list_by_user ::
  "int \<Rightarrow> int \<Rightarrow> int \<Rightarrow> int \<Rightarrow> (db_error, submission_summary list \<times> int) dbm" where
  "submission_list_by_user uid pid page0 size0 =
     (let page = (if page0 < 1 then 1 else page0); psize = (if size0 < 1 then 1 else size0) in
      db_bind (sql_read (\<lambda>t. int (length (filter (submission_filter uid pid) (tb_submissions t))))) (\<lambda>n.
      db_bind (sql_read (\<lambda>t. map (summarize_submission t)
        (limit_offset psize ((page - 1) * psize)
          (newest_first (filter (submission_filter uid pid) (tb_submissions t)))))) (\<lambda>items.
      db_ret (items, n))))"

section \<open>UserProblemStatusStore\<close>

record status_record =
  sr_accepted :: bool
  sr_has_first_ac_at :: bool
  sr_first_ac_at :: string
  sr_submit_count :: int

text \<open>\<open>Statement::column_int\<close> reads the low 32 bits of the stored integer.\<close>

definition column_int :: "int \<Rightarrow> int" where
  "column_int v = (v + 2147483648) mod 4294967296 - 2147483648"

lemma column_int_id: "- 2147483648 \<le> v \<Longrightarrow> v \<le> int32_max \<Longrightarrow> column_int v = v"
  by (simp add: column_int_def int32_max_def)

definition load_status :: "status_row \<Rightarrow> status_record" where
  "load_status r = \<lparr>sr_accepted = (column_text (up_status r) = ''accepted''),
     sr_has_first_ac_at = (up_first_ac_at r \<noteq> None),
     sr_first_ac_at = (case up_first_ac_at r of None \<Rightarrow> [] | Some s \<Rightarrow> column_text s),
     sr_submit_count = column_int (up_submit_count r)\<rparr>"

definition is_status :: "int \<Rightarrow> int \<Rightarrow> status_row \<Rightarrow> bool" where
  "is_status uid pid r = (up_user_id r = uid \<and> up_problem_id r = pid)"

definition status_find :: "int \<Rightarrow> int \<Rightarrow> (db_error, status_record option) dbm" where
  "status_find uid pid = sql_read (\<lambda>t. map_option load_status (find_row (is_status uid pid) (tb_statuses t)))"

text \<open>\<open>INSERT ... ON CONFLICT(user_id, problem_id) DO UPDATE\<close>.\<close>

definition upsert_status :: "int \<Rightarrow> int \<Rightarrow> bool \<Rightarrow> string option \<Rightarrow> int \<Rightarrow> tables \<Rightarrow> db_error + (unit \<times> tables)" where
  "upsert_status uid pid accepted first_ac_at submit_count t =
     (let st = (if accepted then ''accepted'' else ''none'') in
      if \<exists>r \<in> set (tb_statuses t). is_status uid pid r
      then Inr ((), t\<lparr>tb_statuses := map (\<lambda>r. if is_status uid pid r
             then r\<lparr>up_status := st, up_first_ac_at := first_ac_at, up_submit_count := submit_count\<rparr> else r) (tb_statuses t)\<rparr>)
      else if uid \<notin> user_ids t \<or> pid \<notin> problem_ids t then Inl (ConstraintViolation ''FOREIGN KEY constraint failed'')
      else let i = tb_statuses_seq t + 1;
               row = \<lparr>up_id = i, up_user_id = uid, up_problem_id = pid, up_status = st,
                 up_first_ac_at = first_ac_at, up_submit_count = submit_count\<rparr>
           in Inr ((), t\<lparr>tb_statuses := tb_statuses t @ [row], tb_statuses_seq := i\<rparr>))"

definition status_upsert ::
  "int \<Rightarrow> int \<Rightarrow> bool \<Rightarrow> bool \<Rightarrow> string \<Rightarrow> int \<Rightarrow> (db_error, unit) dbm" where
  "status_upsert uid pid accepted has_first_ac_at first_ac_at submit_count =
     sql (upsert_status uid pid accepted (if has_first_ac_at then Some first_ac_at else None) submit_count)"

definition submissions_of :: "int \<Rightarrow> int \<Rightarrow> tables \<Rightarrow> submission_row list" where
  "submissions_of uid pid t = filter (\<lambda>s. sb_user_id s = uid \<and> sb_problem_id s = pid) (tb_submissions t)"

text \<open>\<open>SELECT MIN(created_at)\<close> over the accepted submissions; NULL when there are none.\<close>

definition first_accepted :: "int \<Rightarrow> int \<Rightarrow> tables \<Rightarrow> string option" where
  "first_accepted uid pid t =
     (case map sb_created_at (filter (\<lambda>s. sb_status s = ''AC'') (submissions_of uid pid t)) of
        [] \<Rightarrow> None | c # cs \<Rightarrow> Some (fold min cs c))"

definition status_recompute :: "int \<Rightarrow> int \<Rightarrow> (db_error, unit) dbm" where
  "status_recompute uid pid =
     db_bind (sql_read (\<lambda>t. find_row (is_status uid pid) (tb_statuses t))) (\<lambda>found.
     db_bind (case found of
         Some r \<Rightarrow> db_ret (column_int (up_submit_count r))
       | None \<Rightarrow> sql_read (\<lambda>t. column_int (int (length (submissions_of uid pid t))))) (\<lambda>submit_count.
     db_bind (sql_read (first_accepted uid pid)) (\<lambda>first.
     let has_ac = (first \<noteq> None) in
     status_upsert uid pid has_ac has_ac (case first of None \<Rightarrow> [] | Some s \<Rightarrow> column_text s) submit_count)))"

record user_status_item =
  ui_problem_id :: int
  ui_accepted :: bool
  ui_has_first_ac_at :: bool
  ui_first_ac_at :: string
  ui_submit_count :: int

definition load_status_item :: "status_row \<Rightarrow> user_status_item" where
  "load_status_item r = \<lparr>ui_problem_id = up_problem_id r, ui_accepted = (column_text (up_status r) = ''accepted''),
     ui_has_first_ac_at = (up_first_ac_at r \<noteq> None),
     ui_first_ac_at = (case up_first_ac_at r of None \<Rightarrow> [] | Some s \<Rightarrow> column_text s),
     ui_submit_count = column_int (up_submit_count r)\<rparr>"

definition status_list_by_user :: "int \<Rightarrow> int \<Rightarrow> (db_error, user_status_item list) dbm" where
  "status_list_by_user uid pid = sql_read (\<lambda>t. map load_status_item (sort_key up_problem_id
     (filter (\<lambda>r. up_user_id r = uid \<and> (0 < pid \<longrightarrow> up_problem_id r = pid)) (tb_statuses t))))"

section \<open>InFlightStore\<close>

record in_flight_task =
  ft_id :: int
  ft_task_id :: string
  ft_user_id :: int
  ft_problem_id :: int
  ft_language :: string
  ft_source_code :: string
  ft_submitted_at :: string
  ft_state :: string
  ft_reason :: string

definition load_in_flight :: "in_flight_row \<Rightarrow> in_flight_task" where
  "load_in_flight r = \<lparr>ft_id = fl_id r, ft_task_id = column_text (fl_task_id r), ft_user_id = fl_user_id r,
     ft_problem_id = fl_problem_id r, ft_language = column_text (fl_language r),
     ft_source_code = column_text (fl_source_code r), ft_submitted_at = column_text (fl_submitted_at r),
     ft_state = column_text (fl_state r), ft_reason = column_text (fl_reason r)\<rparr>"

text \<open>The hexadecimal text of random bytes, and the task id made of the time and 12 of them.\<close>

definition hex_digit :: "nat \<Rightarrow> char" where
  "hex_digit n = ''0123456789abcdef'' ! n"

definition random_hex :: "nat list \<Rightarrow> string" where
  "random_hex raw = concat (map (\<lambda>b. [hex_digit (b div 16), hex_digit (b mod 16)]) raw)"

definition generate_task_id :: "string \<Rightarrow> nat list \<Rightarrow> string" where
  "generate_task_id stamp raw = stamp @ ''-'' @ random_hex raw"

definition insert_in_flight :: "in_flight_task \<Rightarrow> tables \<Rightarrow> db_error + (int \<times> tables)" where
  "insert_in_flight k t =
     (if \<exists>r \<in> set (tb_in_flight t). fl_task_id r = ft_task_id k then Inl (UniqueViolation ''in_flight_tasks.task_id'')
      else if ft_user_id k \<notin> user_ids t \<or> ft_problem_id k \<notin> problem_ids t
      then Inl (ConstraintViolation ''FOREIGN KEY constraint failed'')
      else let i = tb_in_flight_seq t + 1;
               row = \<lparr>fl_id = i, fl_task_id = ft_task_id k, fl_user_id = ft_user_id k, fl_problem_id = ft_problem_id k,
                 fl_language = ft_language k, fl_source_code = ft_source_code k, fl_submitted_at = ft_submitted_at k,
                 fl_state = ''pending'', fl_owner = [], fl_claimed_at = None, fl_reason = []\<rparr>
           in Inr (i, t\<lparr>tb_in_flight := tb_in_flight t @ [row], tb_in_flight_seq := i\<rparr>))"

text \<open>
  The attempts of \<open>insert\<close>: \<open>ids\<close> are the values that successive calls of \<open>generate_task_id\<close>
  return. Only a collision of task ids is tried again, with a new id.
\<close>

fun in_flight_insert_loop ::
  "nat \<Rightarrow> (nat \<Rightarrow> string) \<Rightarrow> nat \<Rightarrow> in_flight_task \<Rightarrow> (string, in_flight_task \<times> int) dbm" where
  "in_flight_insert_loop 0 ids n k = db_fail txt_task_id_exhausted"
| "in_flight_insert_loop (Suc attempts) ids n k =
     (let (k', n') = (if ft_task_id k = [] then (k\<lparr>ft_task_id := ids n\<rparr>, Suc n) else (k, n)) in
      db_bind (db_try (sql (insert_in_flight k'))) (\<lambda>r.
        case r of
          Inr i \<Rightarrow> db_ret (k', i)
        | Inl (UniqueViolation _) \<Rightarrow> in_flight_insert_loop attempts ids n' (k'\<lparr>ft_task_id := []\<rparr>)
        | Inl e \<Rightarrow> db_fail (errmsg e)))"

definition in_flight_insert :: "(nat \<Rightarrow> string) \<Rightarrow> in_flight_task \<Rightarrow> (string, in_flight_task \<times> int) dbm" where
  "in_flight_insert ids k = in_flight_insert_loop 5 ids 0 k"

definition in_flight_find_by_task_id :: "string \<Rightarrow> (db_error, in_flight_task option) dbm" where
  "in_flight_find_by_task_id task_id =
     sql_read (\<lambda>t. map_option load_in_flight (find_row (\<lambda>r. fl_task_id r = task_id) (tb_in_flight t)))"

definition remove_in_flight :: "string \<Rightarrow> tables \<Rightarrow> tables" where
  "remove_in_flight task_id t = t\<lparr>tb_in_flight := filter (\<lambda>r. fl_task_id r \<noteq> task_id) (tb_in_flight t)\<rparr>"

definition remove_by_task_id :: "string \<Rightarrow> (db_error, bool) dbm" where
  "remove_by_task_id task_id = sql (\<lambda>t.
     Inr (\<exists>r \<in> set (tb_in_flight t). fl_task_id r = task_id, remove_in_flight task_id t))"

definition interrupt_task :: "string \<Rightarrow> string \<Rightarrow> tables \<Rightarrow> tables" where
  "interrupt_task task_id reason t = t\<lparr>tb_in_flight := map (\<lambda>r.
     if fl_task_id r = task_id \<and> fl_state r \<noteq> ''interrupted''
     then r\<lparr>fl_state := ''interrupted'', fl_reason := reason\<rparr> else r) (tb_in_flight t)\<rparr>"

definition mark_interrupted :: "string \<Rightarrow> string \<Rightarrow> (db_error, unit) dbm" where
  "mark_interrupted task_id reason = sql_write (interrupt_task task_id reason)"

definition pending_rows :: "tables \<Rightarrow> in_flight_row list" where
  "pending_rows t = sort_key fl_id (filter (\<lambda>r. fl_state r = ''pending'') (tb_in_flight t))"

definition list_pending :: "int \<Rightarrow> (db_error, in_flight_task list) dbm" where
  "list_pending limit =
     (if limit \<le> 0 then db_ret [] else sql_read (\<lambda>t. map load_in_flight (take (nat limit) (pending_rows t))))"

definition claimable :: "int \<Rightarrow> in_flight_row \<Rightarrow> bool" where
  "claimable i r = (fl_id r = i \<and> fl_state r = ''pending'')"

definition claim :: "int \<Rightarrow> string \<Rightarrow> (db_error, bool) dbm" where
  "claim i owner = sql_at (\<lambda>now t. Inr (\<exists>r \<in> set (tb_in_flight t). claimable i r,
     t\<lparr>tb_in_flight := map (\<lambda>r. if claimable i r
       then r\<lparr>fl_state := ''claimed'', fl_owner := owner, fl_claimed_at := Some now\<rparr> else r) (tb_in_flight t)\<rparr>))"

definition reset_stale_claims :: "(db_error, unit) dbm" where
  "reset_stale_claims = sql_write (\<lambda>t. t\<lparr>tb_in_flight := map (\<lambda>r. if fl_state r = ''claimed''
     then r\<lparr>fl_state := ''pending'', fl_owner := [], fl_claimed_at := None\<rparr> else r) (tb_in_flight t)\<rparr>)"

definition count_for_problem :: "int \<Rightarrow> (db_error, int) dbm" where
  "count_for_problem pid = sql_read (\<lambda>t. int (unsettled_count pid t))"

section \<open>The statements keep the constraints\<close>

lemma insert_submission_Inr:
  assumes "insert_submission r t = Inr (i, t')"
  shows "t' = t\<lparr>tb_submissions := tb_submissions t @ [r\<lparr>sb_id := i\<rparr>], tb_submissions_seq := i\<rparr>"
    and "i = tb_submissions_seq t + 1" and "sb_status r \<in> set status_names"
    and "sb_user_id r \<in> user_ids t" and "sb_problem_id r \<in> problem_ids t"
  using assms by (auto simp: insert_submission_def Let_def split: if_splits)

lemma insert_submission_ok:
  assumes "insert_submission r t = Inr (i, t')" and "tables_ok t"
  shows "tables_ok t'"
proof -
  note ins = insert_submission_Inr[OF assms(1)]
  have "keyed sb_id (tb_submissions_seq t + 1) (tb_submissions t @ [r\<lparr>sb_id := i\<rparr>])"
    by (rule keyed_append) (use assms(2) ins(2) in \<open>auto simp: tables_ok_defs\<close>)
  then show ?thesis
    using assms(2) ins(3-5) unfolding ins(1) ins(2) by (auto simp: tables_ok_defs)
qed

lemma update_submission_Inr:
  assumes "update_submission r t = Inr (u, t')"
  shows "t' = t\<lparr>tb_submissions := map (\<lambda>s. if sb_id s = sb_id r then
             s\<lparr>sb_status := sb_status r, sb_per_case := sb_per_case r, sb_compile_msg := sb_compile_msg r,
               sb_runtime_ms := sb_runtime_ms r, sb_memory_kb := sb_memory_kb r\<rparr> else s) (tb_submissions t)\<rparr>"
    and "sb_id r \<in> sb_id ` set (tb_submissions t) \<Longrightarrow> sb_status r \<in> set status_names"
  using assms by (auto simp: update_submission_def split: if_splits)

lemma update_submission_ok:
  assumes "update_submission r t = Inr (u, t')" and "tables_ok t"
  shows "tables_ok t'"
proof -
  let ?f = "\<lambda>s. if sb_id s = sb_id r then s\<lparr>sb_status := sb_status r, sb_per_case := sb_per_case r, sb_compile_msg := sb_compile_msg r,
               sb_runtime_ms := sb_runtime_ms r, sb_memory_kb := sb_memory_kb r\<rparr> else s"
  note upd = update_submission_Inr[OF assms(1)]
  have "keyed sb_id (tb_submissions_seq t) (map ?f (tb_submissions t))"
    by (rule keyed_map) (use assms(2) in \<open>auto simp: tables_ok_defs\<close>)
  moreover have "sb_user_id s \<in> user_ids t \<and> sb_problem_id s \<in> problem_ids t \<and> sb_status s \<in> set status_names"
    if s: "s \<in> set (map ?f (tb_submissions t))" for s
  proof -
    obtain s0 where s0: "s0 \<in> set (tb_submissions t)" "s = ?f s0" using s by auto
    then have "sb_id s0 = sb_id r \<Longrightarrow> sb_status r \<in> set status_names"
      by (intro upd(2)) (auto intro: rev_image_eqI)
    with s0 show ?thesis using assms(2) by (auto simp: tables_ok_def submissions_ok_def)
  qed
  ultimately show ?thesis
    using assms(2) unfolding upd(1) tables_ok_def submissions_ok_def
    by (simp add: users_ok_def problems_ok_def testcases_ok_def statuses_ok_def in_flight_ok_def user_ids_def problem_ids_def)
qed

lemma set_statuses_ok:
  assumes "tables_ok t" and "keyed up_id n rs" and "distinct (map (\<lambda>r. (up_user_id r, up_problem_id r)) rs)"
    and "\<forall>r \<in> set rs. up_user_id r \<in> user_ids t \<and> up_problem_id r \<in> problem_ids t \<and> (up_status r = ''accepted'' \<or> up_status r = ''none'')"
  shows "tables_ok (t\<lparr>tb_statuses := rs, tb_statuses_seq := n\<rparr>)"
  using assms by (simp add: tables_ok_defs)

lemma upsert_status_ok:
  assumes "upsert_status uid pid acc first cnt t = Inr (u, t')" and "tables_ok t"
  shows "tables_ok t'"
proof (cases "\<exists>r \<in> set (tb_statuses t). is_status uid pid r")
  case True
  let ?f = "\<lambda>r. if is_status uid pid r then r\<lparr>up_status := (if acc then ''accepted'' else ''none''),
      up_first_ac_at := first, up_submit_count := cnt\<rparr> else r"
  have t': "t' = t\<lparr>tb_statuses := map ?f (tb_statuses t), tb_statuses_seq := tb_statuses_seq t\<rparr>"
    using assms(1) True by (auto simp: upsert_status_def Let_def)
  have "keyed up_id (tb_statuses_seq t) (map ?f (tb_statuses t))"
    by (rule keyed_map) (use assms(2) in \<open>auto simp: tables_ok_def statuses_ok_def\<close>)
  moreover have "map (\<lambda>r. (up_user_id r, up_problem_id r)) (map ?f rs) = map (\<lambda>r. (up_user_id r, up_problem_id r)) rs" for rs
    by simp
  then have "distinct (map (\<lambda>r. (up_user_id r, up_problem_id r)) (map ?f (tb_statuses t)))"
    using assms(2) by (simp only: tables_ok_def statuses_ok_def)
  ultimately show ?thesis
    unfolding t' by (intro set_statuses_ok[OF assms(2)]) (use assms(2) in \<open>auto simp: tables_ok_def statuses_ok_def\<close>)
next
  case False
  let ?row = "\<lparr>up_id = tb_statuses_seq t + 1, up_user_id = uid, up_problem_id = pid,
      up_status = (if acc then ''accepted'' else ''none''), up_first_ac_at = first, up_submit_count = cnt\<rparr>"
  have t': "t' = t\<lparr>tb_statuses := tb_statuses t @ [?row], tb_statuses_seq := tb_statuses_seq t + 1\<rparr>"
    and fk: "uid \<in> user_ids t" "pid \<in> problem_ids t"
    using assms(1) False by (auto simp: upsert_status_def Let_def split: if_splits)
  have "keyed up_id (tb_statuses_seq t + 1) (tb_statuses t @ [?row])"
    by (rule keyed_append) (use assms(2) in \<open>auto simp: tables_ok_def statuses_ok_def\<close>)
  then show ?thesis
    unfolding t' by (intro set_statuses_ok[OF assms(2)])
      (use assms(2) fk False in \<open>auto simp: tables_ok_def statuses_ok_def is_status_def\<close>)
qed

lemma set_in_flight_ok:
  assumes "tables_ok t" and "keyed fl_id n rs" and "distinct (map fl_task_id rs)"
    and "\<forall>r \<in> set rs. fl_user_id r \<in> user_ids t \<and> fl_problem_id r \<in> problem_ids t \<and> fl_state r \<in> set in_flight_states"
  shows "tables_ok (t\<lparr>tb_in_flight := rs, tb_in_flight_seq := n\<rparr>)"
  using assms by (simp add: tables_ok_defs)

lemma insert_in_flight_Inr:
  assumes "insert_in_flight k t = Inr (i, t')"
  shows "t' = t\<lparr>tb_in_flight := tb_in_flight t @ [\<lparr>fl_id = i, fl_task_id = ft_task_id k, fl_user_id = ft_user_id k,
      fl_problem_id = ft_problem_id k, fl_language = ft_language k, fl_source_code = ft_source_code k,
      fl_submitted_at = ft_submitted_at k, fl_state = ''pending'', fl_owner = [], fl_claimed_at = None, fl_reason = []\<rparr>],
      tb_in_flight_seq := i\<rparr>"
    and "i = tb_in_flight_seq t + 1" and "ft_task_id k \<notin> fl_task_id ` set (tb_in_flight t)"
    and "ft_user_id k \<in> user_ids t" and "ft_problem_id k \<in> problem_ids t"
  using assms by (auto simp: insert_in_flight_def Let_def split: if_splits)

lemma insert_in_flight_ok:
  assumes "insert_in_flight k t = Inr (i, t')" and "tables_ok t"
  shows "tables_ok t'"
proof -
  note ins = insert_in_flight_Inr[OF assms(1)]
  have "keyed fl_id (tb_in_flight_seq t + 1) (tb_in_flight t @ [\<lparr>fl_id = i, fl_task_id = ft_task_id k, fl_user_id = ft_user_id k,
      fl_problem_id = ft_problem_id k, fl_language = ft_language k, fl_source_code = ft_source_code k,
      fl_submitted_at = ft_submitted_at k, fl_state = ''pending'', fl_owner = [], fl_claimed_at = None, fl_reason = []\<rparr>])"
    by (rule keyed_append) (use assms(2) ins(2) in \<open>auto simp: tables_ok_def in_flight_ok_def\<close>)
  then show ?thesis
    unfolding ins(1) by (intro set_in_flight_ok[OF assms(2)])
      (use assms(2) ins(2-5) in \<open>auto simp: tables_ok_def in_flight_ok_def in_flight_states_def\<close>)
qed

lemma update_in_flight_ok:
  assumes "tables_ok t" and "\<And>r. fl_id (f r) = fl_id r \<and> fl_task_id (f r) = fl_task_id r \<and> fl_user_id (f r) = fl_user_id r
      \<and> fl_problem_id (f r) = fl_problem_id r \<and> (fl_state r \<in> set in_flight_states \<longrightarrow> fl_state (f r) \<in> set in_flight_states)"
  shows "tables_ok (t\<lparr>tb_in_flight := map f (tb_in_flight t)\<rparr>)"
proof -
  have "keyed fl_id (tb_in_flight_seq t) (map f (tb_in_flight t))"
    by (rule keyed_map) (use assms in \<open>auto simp: tables_ok_def in_flight_ok_def\<close>)
  moreover have "map fl_task_id (map f rs) = map fl_task_id rs" for rs using assms(2) by simp
  then have "distinct (map fl_task_id (map f (tb_in_flight t)))"
    using assms(1) by (simp only: tables_ok_def in_flight_ok_def)
  ultimately have "tables_ok (t\<lparr>tb_in_flight := map f (tb_in_flight t), tb_in_flight_seq := tb_in_flight_seq t\<rparr>)"
    by (intro set_in_flight_ok[OF assms(1)]) (use assms in \<open>auto simp: tables_ok_def in_flight_ok_def\<close>)
  then show ?thesis by simp
qed

lemma interrupt_task_ok: "tables_ok t \<Longrightarrow> tables_ok (interrupt_task k reason t)"
  unfolding interrupt_task_def by (rule update_in_flight_ok) (auto simp: in_flight_states_def)

lemma remove_in_flight_ok: "tables_ok t \<Longrightarrow> tables_ok (remove_in_flight k t)"
  unfolding remove_in_flight_def
  by (auto simp: tables_ok_defs intro: keyed_filter distinct_map_filter)

section \<open>Transactions over the stores\<close>

lemma sql_Unique:
  assumes "sql f d = (Inl (UniqueViolation c), d')"
  shows "db_snap d' = db_snap d" "db_cur d' = db_cur d" "f (db_cur d) = Inl (UniqueViolation c)"
proof -
  obtain x d1 where x: "next_fault d = (x, d1)" "db_cur d1 = db_cur d" "db_snap d1 = db_snap d" "db_now d1 = db_now d"
    by (rule next_faultE)
  with assms show "db_snap d' = db_snap d" "db_cur d' = db_cur d" "f (db_cur d) = Inl (UniqueViolation c)"
    by (cases x; cases "f (db_cur d)"; auto simp: sql_def)+
qed

lemma txn_body_insert_loop [db_intros]: "txn_body (in_flight_insert_loop attempts ids n k)"
proof (induction attempts arbitrary: n k)
  case 0
  show ?case by (simp add: txn_body_fail)
next
  case (Suc attempts)
  obtain k' n' where kn: "(if ft_task_id k = [] then (k\<lparr>ft_task_id := ids n\<rparr>, Suc n) else (k, n)) = (k', n')"
    by (metis surj_pair)
  show ?case
    unfolding txn_body_def
  proof (intro allI impI)
    fix d s r d'
    assume d: "db_snap d = Some s" and r: "in_flight_insert_loop (Suc attempts) ids n k d = (r, d')"
    obtain x d1 where x: "sql (insert_in_flight k') d = (x, d1)" by force
    note b = txn_bodyD[OF txn_body_sql x d]
    show "db_snap d' = Some s \<or> (db_snap d' = None \<and> db_cur d' = s \<and> \<not> is_ok r)"
    proof (cases x)
      case (Inr i)
      with r x b show ?thesis by (auto simp: kn db_bind_def db_try_def db_ret_def)
    next
      case (Inl e)
      show ?thesis
      proof (cases e)
        case (UniqueViolation c)
        then have "db_snap d1 = Some s" using sql_Unique(1) x d Inl by metis
        moreover have "in_flight_insert_loop attempts ids n' (k'\<lparr>ft_task_id := []\<rparr>) d1 = (r, d')"
          using r x Inl UniqueViolation by (simp add: kn db_bind_def db_try_def)
        ultimately show ?thesis using txn_bodyD[OF Suc] by blast
      qed (use r x b Inl in \<open>auto simp: kn db_bind_def db_try_def db_fail_def\<close>)
    qed
  qed
qed

text \<open>A successful insertion: one pending row with a task id no other row has, and nothing else.\<close>

lemma insert_loop_Inr:
  assumes "in_flight_insert_loop attempts ids n k d = (Inr (k', i), d')"
  shows "insert_in_flight k' (db_cur d) = Inr (i, db_cur d') \<and> (\<exists>tid. k' = k\<lparr>ft_task_id := tid\<rparr>)"
  using assms
proof (induction attempts arbitrary: n k d)
  case 0
  then show ?case by (simp add: db_fail_def)
next
  case (Suc attempts)
  obtain k1 n1 where kn: "(if ft_task_id k = [] then (k\<lparr>ft_task_id := ids n\<rparr>, Suc n) else (k, n)) = (k1, n1)"
    by (metis surj_pair)
  have k1: "\<exists>tid. k1 = k\<lparr>ft_task_id := tid\<rparr>"
    using kn by (auto split: if_splits intro: exI[of _ "ft_task_id k"])
  obtain x d1 where x: "sql (insert_in_flight k1) d = (x, d1)" by force
  show ?case
  proof (cases x)
    case (Inr j)
    with Suc.prems x have "k' = k1" "j = i" "d1 = d'" by (auto simp: kn db_bind_def db_try_def db_ret_def)
    with sql_Inr(1)[OF x[unfolded Inr]] k1 show ?thesis by simp
  next
    case (Inl e)
    with Suc.prems x obtain c where e: "e = UniqueViolation c"
      and rest: "in_flight_insert_loop attempts ids n1 (k1\<lparr>ft_task_id := []\<rparr>) d1 = (Inr (k', i), d')"
      by (cases e) (auto simp: kn db_bind_def db_try_def db_fail_def)
    have "db_cur d1 = db_cur d" using sql_Unique(2) x Inl e by metis
    with Suc.IH[OF rest] k1 show ?thesis by (auto simp: fun_upd_def)
  qed
qed

lemma keeps_in_flight_insert [db_keeps]:
  "(\<And>k i t t'. insert_in_flight k t = Inr (i, t') \<Longrightarrow> I t \<Longrightarrow> I t') \<Longrightarrow> keeps I (in_flight_insert ids k)"
  unfolding keeps_def in_flight_insert_def by (metis insert_loop_Inr surj_pair)

lemma txn_body_in_flight_insert [db_intros]: "txn_body (in_flight_insert ids k)"
  unfolding in_flight_insert_def by (rule db_intros)

text \<open>With distinct ids at hand five attempts suffice unless four of them are already taken.\<close>

lemma insert_loop_quiet:
  assumes "db_faults d = []" and "ft_user_id k \<in> user_ids (db_cur d)" and "ft_problem_id k \<in> problem_ids (db_cur d)"
    and "ft_task_id k = []" and "\<exists>j < attempts. ids (n + j) \<notin> fl_task_id ` set (tb_in_flight (db_cur d))"
  shows "\<exists>k' i d'. in_flight_insert_loop attempts ids n k d = (Inr (k', i), d')"
  using assms
proof (induction attempts arbitrary: n k)
  case 0
  then show ?case by simp
next
  case (Suc attempts)
  show ?case
  proof (cases "ids n \<in> fl_task_id ` set (tb_in_flight (db_cur d))")
    case False
    with Suc.prems show ?thesis
      by (auto simp: db_bind_def db_try_def db_ret_def sql_quiet insert_in_flight_def Let_def image_iff)
  next
    case True
    then have "insert_in_flight (k\<lparr>ft_task_id := ids n\<rparr>) (db_cur d) = Inl (UniqueViolation ''in_flight_tasks.task_id'')"
      by (auto simp: insert_in_flight_def image_iff)
    then have step: "in_flight_insert_loop (Suc attempts) ids n k d = in_flight_insert_loop attempts ids (Suc n) (k\<lparr>ft_task_id := []\<rparr>) d"
      using Suc.prems by (simp add: db_bind_def db_try_def sql_quiet)
    obtain j where j: "j < Suc attempts" "ids (n + j) \<notin> fl_task_id ` set (tb_in_flight (db_cur d))"
      using Suc.prems(5) by blast
    then have "j \<noteq> 0" using True by (metis add.right_neutral)
    then obtain j' where "j = Suc j'" by (cases j) auto
    with j have "\<exists>j < attempts. ids (Suc n + j) \<notin> fl_task_id ` set (tb_in_flight (db_cur d))" by auto
    then show ?thesis unfolding step by (intro Suc.IH) (use Suc.prems in simp_all)
  qed
qed

section \<open>Progress is a function of the submissions\<close>

text \<open>
  \<open>user_problem_status\<close> is redundant: a row exists for exactly the pairs with a submission, counts
  them, and records whether one is accepted and when the earliest accepted one was sent.
\<close>

definition clean_time :: "string \<Rightarrow> bool" where
  "clean_time s = (s \<noteq> [] \<and> CHR 0x00 \<notin> set s)"

definition row_agrees :: "tables \<Rightarrow> status_row \<Rightarrow> bool" where
  "row_agrees t r =
     (let uid = up_user_id r; pid = up_problem_id r in
      up_submit_count r = int (length (submissions_of uid pid t))
      \<and> up_first_ac_at r = first_accepted uid pid t
      \<and> up_status r = (if first_accepted uid pid t = None then ''none'' else ''accepted''))"

definition progress_ok :: "tables \<Rightarrow> bool" where
  "progress_ok t = ((\<forall>s \<in> set (tb_submissions t). clean_time (sb_created_at s)
        \<and> (\<exists>r \<in> set (tb_statuses t). is_status (sb_user_id s) (sb_problem_id s) r))
     \<and> (\<forall>r \<in> set (tb_statuses t). row_agrees t r))"

lemma submissions_of_cong: "tb_submissions t' = tb_submissions t \<Longrightarrow> submissions_of uid pid t' = submissions_of uid pid t"
  by (simp add: submissions_of_def)

lemma first_accepted_cong: "submissions_of uid pid t' = submissions_of uid pid t \<Longrightarrow> first_accepted uid pid t' = first_accepted uid pid t"
  by (simp add: first_accepted_def)

lemma row_agrees_cong:
  "submissions_of (up_user_id r) (up_problem_id r) t' = submissions_of (up_user_id r) (up_problem_id r) t \<Longrightarrow>
     row_agrees t' r = row_agrees t r"
  by (simp add: row_agrees_def first_accepted_def)

lemma progress_ok_cong:
  "tb_submissions t' = tb_submissions t \<Longrightarrow> tb_statuses t' = tb_statuses t \<Longrightarrow> progress_ok t' = progress_ok t"
  by (simp add: progress_ok_def row_agrees_def submissions_of_def first_accepted_def)

text \<open>The earliest accepted submission, as a minimum.\<close>

definition accepted_times :: "int \<Rightarrow> int \<Rightarrow> tables \<Rightarrow> string list" where
  "accepted_times uid pid t = map sb_created_at (filter (\<lambda>s. sb_status s = ''AC'') (submissions_of uid pid t))"

lemma first_accepted_alt:
  "first_accepted uid pid t = (case accepted_times uid pid t of [] \<Rightarrow> None | c # cs \<Rightarrow> Some (fold min cs c))"
  by (simp add: first_accepted_def accepted_times_def)

lemma fold_min_Min: "fold min cs c = Min (set (c # cs))" for c :: "'a :: linorder"
  by (metis Min.set_eq_fold)

lemma first_accepted_iff:
  "first_accepted uid pid t = Some m \<longleftrightarrow>
     (\<exists>s \<in> set (submissions_of uid pid t). sb_status s = ''AC'' \<and> sb_created_at s = m)
     \<and> (\<forall>s \<in> set (submissions_of uid pid t). sb_status s = ''AC'' \<longrightarrow> m \<le> sb_created_at s)"
proof -
  have mem: "x \<in> set (accepted_times uid pid t) \<longleftrightarrow>
      (\<exists>s \<in> set (submissions_of uid pid t). sb_status s = ''AC'' \<and> sb_created_at s = x)" for x
    by (auto simp: accepted_times_def)
  show ?thesis
  proof (cases "accepted_times uid pid t")
    case Nil
    with mem have "\<not> (\<exists>s \<in> set (submissions_of uid pid t). sb_status s = ''AC'' \<and> sb_created_at s = m)" by simp
    with Nil show ?thesis by (simp add: first_accepted_alt)
  next
    case (Cons c cs)
    then have "first_accepted uid pid t = Some m \<longleftrightarrow> Min (set (accepted_times uid pid t)) = m"
      by (simp only: first_accepted_alt fold_min_Min) auto
    also have "\<dots> \<longleftrightarrow> m \<in> set (accepted_times uid pid t) \<and> (\<forall>x \<in> set (accepted_times uid pid t). m \<le> x)"
      using Cons by (subst Min_eq_iff) auto
    finally show ?thesis by (simp only: mem Ball_def) metis
  qed
qed

lemma first_accepted_None:
  "first_accepted uid pid t = None \<longleftrightarrow> (\<forall>s \<in> set (submissions_of uid pid t). sb_status s \<noteq> ''AC'')"
proof -
  have "first_accepted uid pid t = None \<longleftrightarrow> accepted_times uid pid t = []"
    by (simp add: first_accepted_alt split: list.splits)
  then show ?thesis by (auto simp: accepted_times_def filter_empty_conv)
qed

lemma submissions_of_append:
  assumes "tb_submissions t' = tb_submissions t @ [s]"
  shows "submissions_of uid pid t' = submissions_of uid pid t @ (if sb_user_id s = uid \<and> sb_problem_id s = pid then [s] else [])"
  by (simp add: submissions_of_def assms)

lemma first_accepted_append:
  assumes "tb_submissions t' = tb_submissions t @ [s]" and "sb_user_id s = uid" and "sb_problem_id s = pid"
  shows "first_accepted uid pid t' =
     (if sb_status s \<noteq> ''AC'' then first_accepted uid pid t
      else Some (case first_accepted uid pid t of None \<Rightarrow> sb_created_at s | Some m \<Rightarrow> min (sb_created_at s) m))"
proof -
  have "accepted_times uid pid t' = accepted_times uid pid t @ (if sb_status s = ''AC'' then [sb_created_at s] else [])"
    using assms by (simp add: accepted_times_def submissions_of_append)
  then show ?thesis by (auto simp: first_accepted_alt split: list.splits)
qed

lemma upsert_status_InrE:
  assumes "upsert_status uid pid acc first cnt t = Inr (u, t')"
  obtains (update) "\<exists>r \<in> set (tb_statuses t). is_status uid pid r"
      "tb_statuses t' = map (\<lambda>r. if is_status uid pid r then r\<lparr>up_status := (if acc then ''accepted'' else ''none''),
         up_first_ac_at := first, up_submit_count := cnt\<rparr> else r) (tb_statuses t)"
    | (insert) i where "\<forall>r \<in> set (tb_statuses t). \<not> is_status uid pid r"
      "tb_statuses t' = tb_statuses t @ [\<lparr>up_id = i, up_user_id = uid, up_problem_id = pid,
         up_status = (if acc then ''accepted'' else ''none''), up_first_ac_at = first, up_submit_count = cnt\<rparr>]"
proof (cases "\<exists>r \<in> set (tb_statuses t). is_status uid pid r")
  case True
  with assms update show thesis by (auto simp: upsert_status_def Let_def)
next
  case False
  with assms insert show thesis by (fastforce simp: upsert_status_def Let_def split: if_splits)
qed

lemma upsert_status_frame:
  assumes "upsert_status uid pid acc first cnt t = Inr (u, t')"
  shows "tb_submissions t' = tb_submissions t" "tb_in_flight t' = tb_in_flight t" "tb_users t' = tb_users t"
    "tb_problems t' = tb_problems t" "tb_testcases t' = tb_testcases t"
  using assms by (auto simp: upsert_status_def Let_def split: if_splits)

lemma is_status_upd [simp]:
  "is_status v p (r\<lparr>up_status := a, up_first_ac_at := b, up_submit_count := c\<rparr>) = is_status v p r"
  by (simp add: is_status_def)

lemma upsert_status_row:
  assumes "upsert_status uid pid acc first cnt t = Inr (u, t')" and "r \<in> set (tb_statuses t')"
  shows "(r \<in> set (tb_statuses t) \<and> \<not> is_status uid pid r)
    \<or> (is_status uid pid r \<and> up_submit_count r = cnt \<and> up_first_ac_at r = first
        \<and> up_status r = (if acc then ''accepted'' else ''none''))"
  using assms(1) by (cases rule: upsert_status_InrE) (use assms(2) in \<open>auto simp: is_status_def\<close>)

lemma upsert_status_has:
  assumes "upsert_status uid pid acc first cnt t = Inr (u, t')"
  shows "\<exists>r \<in> set (tb_statuses t'). is_status uid pid r"
    and "r \<in> set (tb_statuses t) \<Longrightarrow> is_status v p r \<Longrightarrow> \<exists>r' \<in> set (tb_statuses t'). is_status v p r'"
proof -
  have keep: "\<exists>r' \<in> set (tb_statuses t'). is_status v p r'" if "r \<in> set (tb_statuses t)" "is_status v p r" for r v p
    using assms
  proof (cases rule: upsert_status_InrE)
    case update
    let ?f = "\<lambda>r. if is_status uid pid r then r\<lparr>up_status := (if acc then ''accepted'' else ''none''),
         up_first_ac_at := first, up_submit_count := cnt\<rparr> else r"
    have "?f r \<in> set (tb_statuses t')" unfolding update(2) set_map using that(1) by (rule imageI)
    moreover have "is_status v p (?f r)" using that(2) by simp
    ultimately show ?thesis by blast
  next
    case insert
    with that show ?thesis by auto
  qed
  then show "r \<in> set (tb_statuses t) \<Longrightarrow> is_status v p r \<Longrightarrow> \<exists>r' \<in> set (tb_statuses t'). is_status v p r'" .
  show "\<exists>r \<in> set (tb_statuses t'). is_status uid pid r"
    using assms by (cases rule: upsert_status_InrE) (use keep in \<open>auto simp: is_status_def\<close>)
qed

text \<open>Writing the row that the submissions of the pair demand restores the whole invariant.\<close>

lemma upsert_progress:
  assumes ups: "upsert_status uid pid acc first cnt t = Inr (u, t')"
    and rows: "\<forall>r \<in> set (tb_statuses t). \<not> is_status uid pid r \<longrightarrow> row_agrees t r"
    and covered: "\<forall>s \<in> set (tb_submissions t). clean_time (sb_created_at s)
        \<and> (is_status (sb_user_id s) (sb_problem_id s) \<noteq> is_status uid pid \<longrightarrow>
            (\<exists>r \<in> set (tb_statuses t). is_status (sb_user_id s) (sb_problem_id s) r))"
    and vals: "cnt = int (length (submissions_of uid pid t))" "first = first_accepted uid pid t" "acc \<longleftrightarrow> first \<noteq> None"
  shows "progress_ok t'"
proof -
  have subs: "tb_submissions t' = tb_submissions t"
    using ups by (auto simp: upsert_status_def Let_def split: if_splits)
  have agree: "row_agrees t' r = row_agrees t r" for r by (rule row_agrees_cong) (rule submissions_of_cong[OF subs])
  have rows': "\<forall>r \<in> set (tb_statuses t'). row_agrees t r"
  proof
    fix r
    assume "r \<in> set (tb_statuses t')"
    from upsert_status_row[OF ups this] show "row_agrees t r"
      using rows vals by (auto simp: row_agrees_def is_status_def Let_def)
  qed
  note here = upsert_status_has(1)[OF ups] and old = upsert_status_has(2)[OF ups]
  have "\<exists>r \<in> set (tb_statuses t'). is_status (sb_user_id s) (sb_problem_id s) r" if "s \<in> set (tb_submissions t)" for s
    using covered that here old by (cases "is_status (sb_user_id s) (sb_problem_id s) = is_status uid pid") auto
  with rows' covered show ?thesis by (simp add: progress_ok_def subs agree)
qed

lemma find_row_is_status:
  "find_row (is_status uid pid) rs = None \<longleftrightarrow> (\<forall>r \<in> set rs. \<not> is_status uid pid r)"
  by (rule find_row_None)

lemma is_status_eq: "is_status v p = is_status uid pid \<longleftrightarrow> v = uid \<and> p = pid"
proof
  assume eq: "is_status v p = is_status uid pid"
  have "is_status v p (undefined\<lparr>up_user_id := v, up_problem_id := p\<rparr>)" by (simp add: is_status_def)
  then show "v = uid \<and> p = pid" unfolding eq by (simp add: is_status_def)
qed simp

lemma status_recomputeE:
  assumes "status_recompute uid pid d = (Inr u, d')"
  obtains cnt where
    "cnt = (case find_row (is_status uid pid) (tb_statuses (db_cur d)) of
        Some r \<Rightarrow> column_int (up_submit_count r) | None \<Rightarrow> column_int (int (length (submissions_of uid pid (db_cur d)))))"
    "upsert_status uid pid (first_accepted uid pid (db_cur d) \<noteq> None) (map_option column_text (first_accepted uid pid (db_cur d)))
        cnt (db_cur d) = Inr (u, db_cur d')"
  using assms unfolding status_recompute_def Let_def status_upsert_def
  by (auto elim!: db_bind_InrE sql_read_InrE db_ret_InrE sql_InrE split: option.splits if_splits)

text \<open>
  Recomputing restores the invariant of progress when only the rows of the pair may be wrong, and
  the stored count is right.
\<close>

lemma first_accepted_clean:
  assumes "\<forall>s \<in> set (tb_submissions t). clean_time (sb_created_at s)" and "first_accepted uid pid t = Some m"
  shows "clean_time m" "column_text m = m"
proof -
  show "clean_time m"
    using assms by (auto simp: first_accepted_iff submissions_of_def)
  then show "column_text m = m" by (auto simp: clean_time_def column_text_id)
qed

lemma recompute_progress:
  assumes "status_recompute uid pid d = (Inr u, d')"
    and "\<forall>r \<in> set (tb_statuses (db_cur d)). \<not> is_status uid pid r \<longrightarrow> row_agrees (db_cur d) r"
    and "\<forall>r \<in> set (tb_statuses (db_cur d)). is_status uid pid r \<longrightarrow> up_submit_count r = int (length (submissions_of uid pid (db_cur d)))"
    and "\<forall>s \<in> set (tb_submissions (db_cur d)). clean_time (sb_created_at s)
        \<and> (is_status (sb_user_id s) (sb_problem_id s) \<noteq> is_status uid pid \<longrightarrow>
            (\<exists>r \<in> set (tb_statuses (db_cur d)). is_status (sb_user_id s) (sb_problem_id s) r))"
    and "int (length (tb_submissions (db_cur d))) \<le> int32_max"
  shows "progress_ok (db_cur d')"
proof -
  let ?t = "db_cur d"
  have "length (submissions_of uid pid ?t) \<le> length (tb_submissions ?t)"
    by (simp add: submissions_of_def)
  with assms(5) have len: "int (length (submissions_of uid pid ?t)) \<le> int32_max" by linarith
  then have wrap: "column_int (int (length (submissions_of uid pid ?t))) = int (length (submissions_of uid pid ?t))"
    by (intro column_int_id) auto
  have first: "map_option column_text (first_accepted uid pid ?t) = first_accepted uid pid ?t"
    using first_accepted_clean(2)[of ?t uid pid] assms(4) by (cases "first_accepted uid pid ?t") auto
  obtain cnt where cnt: "cnt = (case find_row (is_status uid pid) (tb_statuses ?t) of
        Some r \<Rightarrow> column_int (up_submit_count r) | None \<Rightarrow> column_int (int (length (submissions_of uid pid ?t))))"
    and ups: "upsert_status uid pid (first_accepted uid pid ?t \<noteq> None) (first_accepted uid pid ?t) cnt ?t = Inr (u, db_cur d')"
    using assms(1) by (rule status_recomputeE) (simp add: first)
  have "cnt = int (length (submissions_of uid pid ?t))"
    unfolding cnt using assms(3) wrap by (cases "find_row (is_status uid pid) (tb_statuses ?t)") (auto dest: find_row_Some)
  then show ?thesis
    by (intro upsert_progress[OF ups assms(2,4)]) auto
qed

lemma txn_body_recompute [db_intros]: "txn_body (status_recompute uid pid)"
  unfolding status_recompute_def Let_def status_upsert_def by (intro db_intros)

lemma keeps_recompute:
  "(\<And>acc first cnt t t' u. upsert_status uid pid acc first cnt t = Inr (u, t') \<Longrightarrow> I t \<Longrightarrow> I t') \<Longrightarrow> keeps I (status_recompute uid pid)"
  unfolding status_recompute_def Let_def status_upsert_def by (intro db_keeps keeps_sql) blast

section \<open>Properties of the stores\<close>

text \<open>
  A submission as the database holds it after \<open>insert\<close> and \<open>find_by_id\<close>, and the tasks in flight.
\<close>

definition demo_row :: submission_row where
  "demo_row = \<lparr>sb_id = 0, sb_user_id = 2, sb_problem_id = 1, sb_language = ''cpp17'', sb_source_code = ''int main(){}'',
     sb_status = ''AC'', sb_per_case = ''[]'', sb_compile_msg = [], sb_runtime_ms = 3, sb_memory_kb = 100,
     sb_created_at = ''2026-01-02 00:00:00''\<rparr>"

definition demo_flight :: "int \<Rightarrow> string \<Rightarrow> string \<Rightarrow> in_flight_row" where
  "demo_flight i tid st = \<lparr>fl_id = i, fl_task_id = tid, fl_user_id = 2, fl_problem_id = 1, fl_language = ''cpp17'',
     fl_source_code = ''int main(){}'', fl_submitted_at = ''2026-01-02 00:00:00'', fl_state = st, fl_owner = [],
     fl_claimed_at = None, fl_reason = []\<rparr>"

definition flight_db :: db where
  "flight_db = problem_db\<lparr>db_cur := problem_tables\<lparr>tb_in_flight := [demo_flight 1 ''a'' ''pending'', demo_flight 2 ''b'' ''pending''],
     tb_in_flight_seq := 2\<rparr>\<rparr>"

lemma flight_db_simps [simp]:
  "db_snap flight_db = None" "db_faults flight_db = []"
  by (simp_all add: flight_db_def problem_db_def demo_db_def)

text \<open>
  C16: a round trip of submissions. What \<open>insert\<close> stores, \<open>find_by_id\<close> returns under the new id:
  unchanged if no text holds a NUL byte, and otherwise with every text cut at its first NUL. The id is
  fresh, and the lookup of every other id gives what it gave before.
\<close>

theorem submission_roundtrip:
  assumes "db_faults d = []" and "tables_ok (db_cur d)" and "submission_insert r d = (Inr i, d')"
  shows "fst (submission_find_by_id i d') = Inr (Some (load_submission (r\<lparr>sb_id := i\<rparr>)))
    \<and> fst (submission_find_by_id i d) = Inr None
    \<and> (\<forall>j. j \<noteq> i \<longrightarrow> fst (submission_find_by_id j d') = fst (submission_find_by_id j d))
    \<and> ((\<forall>s \<in> {sb_language r, sb_source_code r, sb_status r, sb_per_case r, sb_compile_msg r, sb_created_at r}. CHR 0x00 \<notin> set s)
        \<longrightarrow> load_submission (r\<lparr>sb_id := i\<rparr>) = r\<lparr>sb_id := i\<rparr>)"
proof -
  have ins: "insert_submission r (db_cur d) = Inr (i, db_cur d')"
    using assms(3) unfolding submission_insert_def by (rule sql_InrE)
  have d': "db_faults d' = []"
    using assms(1,3) by (auto simp: submission_insert_def sql_quiet split: sum.splits prod.splits)
  have subs: "tb_submissions (db_cur d') = tb_submissions (db_cur d) @ [r\<lparr>sb_id := i\<rparr>]"
    using insert_submission_Inr(1)[OF ins] by simp
  have fresh: "\<forall>s \<in> set (tb_submissions (db_cur d)). sb_id s \<noteq> i"
    using assms(2) insert_submission_Inr(2)[OF ins] by (fastforce simp: tables_ok_def submissions_ok_def keyed_def)
  have app: "find_row P (xs @ ys) = (case find_row P xs of None \<Rightarrow> find_row P ys | Some x \<Rightarrow> Some x)"
    for P and xs ys :: "submission_row list" by (induction xs) (auto simp: find_row_def)
  have none: "find_row (\<lambda>s. sb_id s = i) (tb_submissions (db_cur d)) = None"
    using fresh by (simp add: find_row_None)
  have sng: "find_row (\<lambda>s. sb_id s = j) [r\<lparr>sb_id := i\<rparr>] = (if j = i then Some (r\<lparr>sb_id := i\<rparr>) else None)" for j
    by (auto simp: find_row_def)
  have "fst (submission_find_by_id j d') = fst (submission_find_by_id j d)" if "j \<noteq> i" for j
    using that by (auto simp: submission_find_by_id_def sql_read_quiet assms(1) d' subs app sng split: option.splits)
  moreover have "fst (submission_find_by_id i d') = Inr (Some (load_submission (r\<lparr>sb_id := i\<rparr>)))"
    by (simp add: submission_find_by_id_def sql_read_quiet d' subs app none sng)
  moreover have "fst (submission_find_by_id i d) = Inr None"
    by (simp add: submission_find_by_id_def sql_read_quiet assms(1) none)
  ultimately show ?thesis by (auto simp: load_submission_def column_text_id)
qed

theorem submission_roundtrip_witness:
  "fst (submission_find_by_id 1 (snd (submission_insert demo_row problem_db))) = Inr (Some (demo_row\<lparr>sb_id := 1\<rparr>))"
proof -
  have "fst (submission_insert demo_row problem_db) = Inr 1" by code_simp
  then obtain d' where r: "submission_insert demo_row problem_db = (Inr 1, d')" by (metis prod.collapse)
  have "load_submission (demo_row\<lparr>sb_id := 1\<rparr>) = demo_row\<lparr>sb_id := 1\<rparr>"
    by (simp add: load_submission_def demo_row_def column_text_def)
  then show ?thesis using submission_roundtrip[OF problem_db_simps(4) _ r] r by simp
qed

text \<open>
  C17: a task is claimed at most once. A claim succeeds exactly for a task that is pending, marks it
  with the owner, and changes no other task; every later claim of the same task, by whichever
  owner, fails as long as the claims are not reset.
\<close>

theorem claim_exclusive:
  assumes "tables_ok (db_cur d)" and "claim i owner d = (Inr won, d1)" and "claim i other d1 = (Inr again, d2)"
  shows "(won \<longleftrightarrow> (\<exists>r \<in> set (tb_in_flight (db_cur d)). fl_id r = i \<and> fl_state r = ''pending''))
    \<and> \<not> again \<and> db_cur d2 = db_cur d1
    \<and> (won \<longrightarrow> (\<exists>r \<in> set (tb_in_flight (db_cur d1)). fl_id r = i \<and> fl_state r = ''claimed'' \<and> fl_owner r = owner))
    \<and> filter (\<lambda>r. fl_id r \<noteq> i) (tb_in_flight (db_cur d1)) = filter (\<lambda>r. fl_id r \<noteq> i) (tb_in_flight (db_cur d))
    \<and> tables_ok (db_cur d1)"
proof -
  let ?f = "\<lambda>o' n r. if claimable i r then r\<lparr>fl_state := ''claimed'', fl_owner := o', fl_claimed_at := Some n\<rparr> else r"
  have w: "won = (\<exists>r \<in> set (tb_in_flight (db_cur d)). claimable i r)"
    and t1: "db_cur d1 = (db_cur d)\<lparr>tb_in_flight := map (?f owner (db_now d)) (tb_in_flight (db_cur d))\<rparr>"
    using assms(2) unfolding claim_def by (auto elim!: sql_at_InrE)
  have a: "again = (\<exists>r \<in> set (tb_in_flight (db_cur d1)). claimable i r)"
    and t2: "db_cur d2 = (db_cur d1)\<lparr>tb_in_flight := map (?f other (db_now d1)) (tb_in_flight (db_cur d1))\<rparr>"
    using assms(3) unfolding claim_def by (auto elim!: sql_at_InrE)
  have gone: "\<forall>r \<in> set (tb_in_flight (db_cur d1)). \<not> claimable i r"
  proof
    fix r
    assume "r \<in> set (tb_in_flight (db_cur d1))"
    then have "r \<in> ?f owner (db_now d) ` set (tb_in_flight (db_cur d))" unfolding t1 by simp
    then obtain r0 where "r = ?f owner (db_now d) r0" by (rule imageE)
    then show "\<not> claimable i r" by (cases "claimable i r0") (simp_all add: claimable_def)
  qed
  then have "map (?f other (db_now d1)) (tb_in_flight (db_cur d1)) = tb_in_flight (db_cur d1)"
    by (intro map_if_id) auto
  then have same: "db_cur d2 = db_cur d1" unfolding t2 by simp
  have mark: "\<exists>r \<in> set (tb_in_flight (db_cur d1)). fl_id r = i \<and> fl_state r = ''claimed'' \<and> fl_owner r = owner" if w1: won
  proof -
    obtain r where r: "r \<in> set (tb_in_flight (db_cur d))" "claimable i r" using w1 w by auto
    have "?f owner (db_now d) r \<in> set (tb_in_flight (db_cur d1))" unfolding t1 using r(1) by auto
    then show ?thesis by (rule bexI[rotated]) (use r(2) in \<open>simp add: claimable_def\<close>)
  qed
  have others: "filter (\<lambda>r. fl_id r \<noteq> i) (map (?f owner n) rs) = filter (\<lambda>r. fl_id r \<noteq> i) rs" for n rs
    by (rule filter_map_untouched) (auto simp: claimable_def)
  have "tables_ok (db_cur d1)"
    unfolding t1 by (rule update_in_flight_ok[OF assms(1)]) (auto simp: in_flight_states_def)
  moreover have "filter (\<lambda>r. fl_id r \<noteq> i) (tb_in_flight (db_cur d1)) = filter (\<lambda>r. fl_id r \<noteq> i) (tb_in_flight (db_cur d))"
    using others[of "db_now d" "tb_in_flight (db_cur d)"] by (simp only: t1 tables.select_convs tables.update_convs tables.surjective) simp
  moreover have "won \<longleftrightarrow> (\<exists>r \<in> set (tb_in_flight (db_cur d)). fl_id r = i \<and> fl_state r = ''pending'')"
    using w by (simp only: claimable_def)
  moreover have "\<not> again" using a gone by blast
  ultimately show ?thesis using same mark by (intro conjI impI)
qed

theorem claim_exclusive_witness:
  "\<exists>d1. claim 1 ''me'' flight_db = (Inr True, d1) \<and> fst (claim 1 ''you'' d1) = Inr False"
proof -
  have "fst (claim 1 ''me'' flight_db) = Inr True \<and> is_ok (fst (claim 1 ''you'' (snd (claim 1 ''me'' flight_db))))"
    by code_simp
  then obtain d1 again d2 where r: "claim 1 ''me'' flight_db = (Inr True, d1)" "claim 1 ''you'' d1 = (Inr again, d2)"
    by (metis is_okE prod.collapse snd_conv)
  have "tables_ok (db_cur flight_db)"
    using problem_tables_ok unfolding flight_db_def
    by (simp add: tables_ok_defs keyed_def demo_flight_def problem_tables_def in_flight_states_def demo_tables_def
        empty_tables_def demo_user_def demo_problem_def)
  with r claim_exclusive[OF _ r] show ?thesis by simp
qed

end
