(* ===== verification/OJ_Classification.thy ===== *)
theory OJ_Classification
  imports OJ_Text OJ_Messages "HOL-Library.Multiset"
begin

text \<open>
  The verdict of one test point: the status enumeration and its severity order
  (\<open>judge/status.h\<close>), the evidence and the decision table (\<open>judge/classification.h\<close>,
  \<open>classify_case\<close>), the summary over all points (\<open>summarize_cases\<close> of \<open>judge/judge.cpp\<close>
  works on statuses) and the scrubbing of compiler diagnostics.
\<close>

section \<open>Status and severity\<close>

datatype judge_status = AC | WA | CE | TLE | RE | MLE | SYSERR

fun judge_status_name :: "judge_status \<Rightarrow> string" where
  "judge_status_name AC = ''AC''"
| "judge_status_name WA = ''WA''"
| "judge_status_name CE = ''CE''"
| "judge_status_name TLE = ''TLE''"
| "judge_status_name RE = ''RE''"
| "judge_status_name MLE = ''MLE''"
| "judge_status_name SYSERR = ''SYSERR''"

fun judge_status_severity :: "judge_status \<Rightarrow> int" where
  "judge_status_severity AC = 0"
| "judge_status_severity WA = 1"
| "judge_status_severity RE = 2"
| "judge_status_severity MLE = 3"
| "judge_status_severity TLE = 4"
| "judge_status_severity SYSERR = 5"
| "judge_status_severity CE = 6"

lemma judge_status_name_inj: "judge_status_name a = judge_status_name b \<longleftrightarrow> a = b"
  by (cases a; cases b) auto

lemma judge_status_severity_inj:
  "judge_status_severity a = judge_status_severity b \<longleftrightarrow> a = b"
  by (cases a; cases b) auto

lemma judge_status_severity_ge_0: "0 \<le> judge_status_severity s"
  by (cases s) auto

lemma judge_status_severity_le_0: "judge_status_severity s \<le> 0 \<longleftrightarrow> s = AC"
  by (cases s) auto

text \<open>The loop of \<open>summarize_cases\<close>: a strictly more severe point replaces the worst so far.\<close>

fun summarize_loop :: "judge_status \<Rightarrow> int \<Rightarrow> judge_status list \<Rightarrow> judge_status" where
  "summarize_loop worst sev [] = worst"
| "summarize_loop worst sev (s # ss) =
     (if sev < judge_status_severity s then summarize_loop s (judge_status_severity s) ss
      else summarize_loop worst sev ss)"

definition summarize_statuses :: "judge_status list \<Rightarrow> judge_status" where
  "summarize_statuses ss =
     (if ss = [] then SYSERR else summarize_loop AC (judge_status_severity AC) ss)"

lemma summarize_loop_max:
  "summarize_loop w (judge_status_severity w) ss = r \<Longrightarrow>
     r \<in> insert w (set ss) \<and> (\<forall>s \<in> insert w (set ss). judge_status_severity s \<le> judge_status_severity r)"
proof (induction ss arbitrary: w)
  case Nil
  then show ?case by simp
next
  case (Cons s ss)
  show ?case
  proof (cases "judge_status_severity w < judge_status_severity s")
    case True
    with Cons.prems have "summarize_loop s (judge_status_severity s) ss = r"
      by simp
    from Cons.IH[OF this] True show ?thesis by force
  next
    case False
    with Cons.prems have "summarize_loop w (judge_status_severity w) ss = r"
      by simp
    from Cons.IH[OF this] False show ?thesis by force
  qed
qed

lemma summarize_statuses_member:
  "ss \<noteq> [] \<Longrightarrow> summarize_statuses ss \<in> insert AC (set ss)"
  using summarize_loop_max[of AC ss] by (auto simp: summarize_statuses_def)

lemma summarize_statuses_upper:
  "s \<in> set ss \<Longrightarrow> judge_status_severity s \<le> judge_status_severity (summarize_statuses ss)"
  using summarize_loop_max[of AC ss] by (auto simp: summarize_statuses_def)

lemma summarize_statuses_AC_iff:
  "summarize_statuses ss = AC \<longleftrightarrow> ss \<noteq> [] \<and> (\<forall>s \<in> set ss. s = AC)"
proof
  assume *: "summarize_statuses ss = AC"
  then have "ss \<noteq> []" by (auto simp: summarize_statuses_def)
  moreover have "s = AC" if "s \<in> set ss" for s
    using summarize_statuses_upper[OF that] * judge_status_severity_le_0[of s] by simp
  ultimately show "ss \<noteq> [] \<and> (\<forall>s \<in> set ss. s = AC)" by blast
next
  assume "ss \<noteq> [] \<and> (\<forall>s \<in> set ss. s = AC)"
  then show "summarize_statuses ss = AC"
    using summarize_statuses_member[of ss] by auto
qed

lemma summarize_statuses_in_set:
  assumes "ss \<noteq> []"
  shows "summarize_statuses ss \<in> set ss"
proof (cases "summarize_statuses ss = AC")
  case True
  with assms show ?thesis
    by (metis last_in_set summarize_statuses_AC_iff)
next
  case False
  with summarize_statuses_member[OF assms] show ?thesis by simp
qed

lemma summarize_statuses_perm:
  assumes "mset ss = mset ts"
  shows "summarize_statuses ss = summarize_statuses ts"
proof (cases "ss = []")
  case True
  with assms show ?thesis by simp
next
  case False
  have sets: "set ss = set ts"
    using assms by (metis set_mset_mset)
  with False have "ts \<noteq> []" by auto
  have "judge_status_severity (summarize_statuses ss) = judge_status_severity (summarize_statuses ts)"
    using summarize_statuses_in_set[OF False] summarize_statuses_in_set[OF \<open>ts \<noteq> []\<close>]
      summarize_statuses_upper sets
    by (metis order_antisym)
  then show ?thesis by (simp add: judge_status_severity_inj)
qed

section \<open>Evidence and decision table\<close>

record case_evidence =
  ev_launch_error :: bool
  ev_sandbox_error :: bool
  ev_cancelled :: bool
  ev_timed_out :: bool
  ev_global_capped :: bool
  ev_memory_exceeded :: bool
  ev_exited :: bool
  ev_exit_code :: int
  ev_term_signal :: int
  ev_output_truncated :: bool
  ev_sanitizer_error :: bool
  ev_output_matches :: bool
  ev_time_limit_ms :: int
  ev_memory_limit_kb :: int
  ev_peak_memory_kb :: int
  ev_stdout_limit_bytes :: int

record case_verdict =
  cv_status :: judge_status
  cv_message :: string
  cv_global_deadline_hit :: bool
  cv_abort_remaining :: bool

definition default_verdict :: case_verdict where
  "default_verdict = \<lparr>cv_status = SYSERR, cv_message = [], cv_global_deadline_hit = False,
     cv_abort_remaining = False\<rparr>"

definition runtime_error_message :: "case_evidence \<Rightarrow> string" where
  "runtime_error_message e =
     (if ev_term_signal e \<noteq> 0 then
        (let m = txt_signal_1 @ int_to_string (ev_term_signal e) @ txt_signal_2
         in if ev_sanitizer_error e then m @ txt_sanitizer_note else m)
      else if ev_exited e then txt_nonzero_exit @ int_to_string (ev_exit_code e)
      else txt_abnormal_end)"

definition classify_case :: "case_evidence \<Rightarrow> case_verdict" where
  "classify_case e =
    (if ev_cancelled e then
       default_verdict\<lparr>cv_status := SYSERR, cv_message := txt_cancelled, cv_abort_remaining := True\<rparr>
     else if ev_launch_error e then
       default_verdict\<lparr>cv_status := SYSERR,
         cv_message := (if ev_sandbox_error e then txt_sandbox_unavailable else txt_cannot_launch),
         cv_abort_remaining := True\<rparr>
     else if ev_memory_exceeded e then
       default_verdict\<lparr>cv_status := MLE,
         cv_message := txt_mle_1 @ int_to_string (ev_memory_limit_kb e) @ txt_mle_2
           @ int_to_string (ev_peak_memory_kb e) @ txt_mle_3\<rparr>
     else if ev_timed_out e \<and> ev_global_capped e then
       default_verdict\<lparr>cv_status := TLE, cv_global_deadline_hit := True,
         cv_abort_remaining := True, cv_message := txt_global_tle\<rparr>
     else if ev_timed_out e then
       default_verdict\<lparr>cv_status := TLE,
         cv_message := txt_tle_1 @ int_to_string (ev_time_limit_ms e) @ txt_ms_close\<rparr>
     else if ev_term_signal e \<noteq> 0 \<or> (ev_exited e \<and> ev_exit_code e \<noteq> 0) \<or> \<not> ev_exited e then
       default_verdict\<lparr>cv_status := RE, cv_message := runtime_error_message e\<rparr>
     else if ev_output_truncated e then
       default_verdict\<lparr>cv_status := RE,
         cv_message := txt_output_limit_1 @ int_to_string (ev_stdout_limit_bytes e) @ txt_output_limit_2\<rparr>
     else if ev_output_matches e then default_verdict\<lparr>cv_status := AC\<rparr>
     else default_verdict\<lparr>cv_status := WA, cv_message := txt_output_mismatch\<rparr>)"

definition clean_run :: "case_evidence \<Rightarrow> bool" where
  "clean_run e = (\<not> ev_cancelled e \<and> \<not> ev_launch_error e \<and> \<not> ev_memory_exceeded e \<and> \<not> ev_timed_out e
     \<and> ev_exited e \<and> ev_exit_code e = 0 \<and> ev_term_signal e = 0 \<and> \<not> ev_output_truncated e)"

lemma classify_never_CE: "cv_status (classify_case e) \<noteq> CE"
  by (simp add: classify_case_def default_verdict_def)

lemma classify_AC_iff:
  "cv_status (classify_case e) = AC \<longleftrightarrow> clean_run e \<and> ev_output_matches e"
  by (auto simp: classify_case_def default_verdict_def clean_run_def)

lemma classify_WA_iff:
  "cv_status (classify_case e) = WA \<longleftrightarrow> clean_run e \<and> \<not> ev_output_matches e"
  by (auto simp: classify_case_def default_verdict_def clean_run_def)

lemma classify_MLE_iff:
  "cv_status (classify_case e) = MLE \<longleftrightarrow> ev_memory_exceeded e \<and> \<not> ev_cancelled e \<and> \<not> ev_launch_error e"
  by (auto simp: classify_case_def default_verdict_def)

lemma classify_SYSERR_iff:
  "cv_status (classify_case e) = SYSERR \<longleftrightarrow> ev_cancelled e \<or> ev_launch_error e"
  by (auto simp: classify_case_def default_verdict_def)

lemma classify_deadline_iff:
  "cv_global_deadline_hit (classify_case e) \<longleftrightarrow>
     ev_timed_out e \<and> ev_global_capped e \<and> \<not> ev_cancelled e \<and> \<not> ev_launch_error e \<and> \<not> ev_memory_exceeded e"
  by (auto simp: classify_case_def default_verdict_def)

lemma classify_abort_iff:
  "cv_abort_remaining (classify_case e) \<longleftrightarrow>
     cv_status (classify_case e) = SYSERR \<or> cv_global_deadline_hit (classify_case e)"
  by (auto simp: classify_case_def default_verdict_def)

lemma classify_deadline_TLE:
  "cv_global_deadline_hit (classify_case e) \<Longrightarrow> cv_status (classify_case e) = TLE"
  by (auto simp: classify_case_def default_verdict_def split: if_splits)

section \<open>Scrubbing of compiler diagnostics\<close>

text \<open>
  The lambda \<open>erase_all\<close>: \<open>while ((pos = out.find(needle, pos)) != npos)
  out.erase(pos, needle.size())\<close>, which does nothing for an empty needle.
\<close>

function erase_loop :: "string \<Rightarrow> string \<Rightarrow> nat \<Rightarrow> string" where
  "erase_loop needle out pos =
     (if needle = [] then out
      else (case find_from needle out pos of
        None \<Rightarrow> out
      | Some i \<Rightarrow> erase_loop needle (take i out @ drop (i + length needle) out) i))"
  by pat_completeness auto
termination
proof (relation "measure (\<lambda>(needle, out, pos). length out)", goal_cases)
  case (2 needle out pos i)
  then have "prefix needle (drop i out)" and "i \<le> length out"
    using find_sub_Some[of needle "drop pos out"]
    by (auto simp: find_from_def add.commute split: if_splits)
  then have "i + length needle \<le> length out"
    by (metis add_le_cancel_left le_add_diff_inverse length_drop prefix_length_le)
  with 2(1) show ?case by (cases needle) auto
qed simp

declare erase_loop.simps [simp del]

definition erase_all :: "string \<Rightarrow> string \<Rightarrow> string" where
  "erase_all needle out = erase_loop needle out 0"

definition scrub_compile_diagnostics :: "string \<Rightarrow> string \<Rightarrow> string" where
  "scrub_compile_diagnostics text workspace_path =
     erase_all ''/box/'' (erase_all ''/.oj_sandbox'' (erase_all workspace_path text))"

text \<open>Reference: one pass from the left that drops each occurrence it meets.\<close>

function erase_ref :: "string \<Rightarrow> string \<Rightarrow> string" where
  "erase_ref needle s =
     (if needle = [] \<or> s = [] then s
      else if prefix needle s then erase_ref needle (drop (length needle) s)
      else hd s # erase_ref needle (tl s))"
  by pat_completeness auto
termination
  by (relation "measure (\<lambda>(needle, s). length s)") (auto simp: neq_Nil_conv)

declare erase_ref.simps [simp del]

lemma erase_ref_Nil [simp]: "erase_ref needle [] = []"
  by (simp add: erase_ref.simps)

lemma erase_ref_step:
  "s \<noteq> [] \<Longrightarrow> needle \<noteq> [] \<Longrightarrow> \<not> prefix needle s \<Longrightarrow> erase_ref needle s = hd s # erase_ref needle (tl s)"
  by (subst erase_ref.simps) simp

lemma erase_ref_skip:
  "needle \<noteq> [] \<Longrightarrow> i \<le> length s \<Longrightarrow> (\<And>j. j < i \<Longrightarrow> \<not> prefix needle (drop j s)) \<Longrightarrow>
     erase_ref needle s = take i s @ erase_ref needle (drop i s)"
proof (induction i arbitrary: s)
  case 0
  show ?case by simp
next
  case (Suc i)
  then obtain c t where s: "s = c # t" by (cases s) auto
  have "\<not> prefix needle s" using Suc.prems(3)[of 0] by simp
  moreover have "erase_ref needle t = take i t @ erase_ref needle (drop i t)"
  proof (rule Suc.IH[OF Suc.prems(1)])
    show "i \<le> length t" using Suc.prems(2) s by simp
    show "\<not> prefix needle (drop j t)" if "j < i" for j
      using Suc.prems(3)[of "Suc j"] that s by simp
  qed
  ultimately show ?case
    using Suc.prems(1) s by (simp add: erase_ref_step)
qed

lemma erase_ref_none:
  assumes "needle \<noteq> []" and "find_sub needle s = None"
  shows "erase_ref needle s = s"
proof -
  have "\<not> prefix needle (drop j s)" for j
    using assms(2) by (metis find_sub_None sublist_drop prefix_imp_sublist sublist_order.order_trans)
  then show ?thesis
    using erase_ref_skip[OF assms(1), of "length s" s] by simp
qed

lemma erase_ref_hit:
  assumes "needle \<noteq> []" and "find_sub needle s = Some i"
  shows "erase_ref needle s = take i s @ erase_ref needle (drop (i + length needle) s)"
proof -
  have i: "i \<le> length s" "prefix needle (drop i s)"
    using find_sub_Some[OF assms(2)] by auto
  have "erase_ref needle (drop i s) = erase_ref needle (drop (length needle) (drop i s))"
    using i assms(1) by (subst erase_ref.simps) (auto simp: prefix_def)
  then show ?thesis
    using erase_ref_skip[OF assms(1) i(1)] find_sub_before[OF assms(2)]
    by (simp add: add.commute)
qed

lemma erase_loop_ref:
  "pos \<le> length out \<Longrightarrow> erase_loop needle out pos = take pos out @ erase_ref needle (drop pos out)"
proof (induction needle out pos rule: erase_loop.induct)
  case (1 needle out pos)
  show ?case
  proof (cases "needle = []")
    case True
    then show ?thesis by (simp add: erase_loop.simps erase_ref.simps)
  next
    case False
    show ?thesis
    proof (cases "find_sub needle (drop pos out)")
      case None
      with False "1.prems" show ?thesis
        by (simp add: erase_loop.simps[of needle out] find_from_def erase_ref_none)
    next
      case (Some k)
      let ?i = "pos + k"
      have k: "k \<le> length out - pos" using find_sub_Some[OF Some] by simp
      then have i: "?i \<le> length out" using "1.prems" by simp
      have ff: "find_from needle out pos = Some ?i"
        using Some "1.prems" by (simp add: find_from_def)
      let ?out = "take ?i out @ drop (?i + length needle) out"
      have "erase_loop needle out pos = erase_loop needle ?out ?i"
        using False ff by (simp add: erase_loop.simps[of needle out])
      also have "\<dots> = take ?i ?out @ erase_ref needle (drop ?i ?out)"
        using "1.IH"[OF False ff] i by simp
      also have "\<dots> = take ?i out @ erase_ref needle (drop (?i + length needle) out)"
        using i by simp
      also have "take ?i out = take pos out @ take k (drop pos out)"
        by (rule take_add)
      also have "drop (?i + length needle) out = drop (k + length needle) (drop pos out)"
        by (simp add: ac_simps)
      finally show ?thesis
        using erase_ref_hit[OF False Some] by simp
    qed
  qed
qed

lemma erase_all_ref: "erase_all needle s = erase_ref needle s"
  using erase_loop_ref[of 0 s needle] by (simp add: erase_all_def)

lemma set_erase_ref: "set (erase_ref needle s) \<subseteq> set s"
proof (induction needle s rule: erase_ref.induct)
  case (1 needle s)
  show ?case
    using "1.IH" by (subst erase_ref.simps) (auto dest: in_set_dropD list.set_sel)
qed

lemma subseq_erase_ref: "subseq (erase_ref needle s) s"
proof (induction needle s rule: erase_ref.induct)
  case (1 needle s)
  show ?case
  proof (cases "needle = [] \<or> s = []")
    case True
    then show ?thesis by (subst erase_ref.simps) auto
  next
    case False
    show ?thesis
    proof (cases "prefix needle s")
      case True
      with False have "erase_ref needle s = erase_ref needle (drop (length needle) s)"
        by (subst erase_ref.simps) simp
      then show ?thesis
        using "1.IH"(1)[OF False True]
        by (metis sublist_drop sublist_imp_subseq subseq_order.order_trans)
    next
      case notp: False
      with False "1.IH"(2)[OF False notp] show ?thesis
        by (cases s) (auto simp: erase_ref_step)
    qed
  qed
qed

end
