(* ===== verification/OJ_Deadline.thy ===== *)
theory OJ_Deadline
  imports OJ_Text
begin

text \<open>
  Time budgets (\<open>judge/deadline.h\<close>, \<open>judge/deadline.cpp\<close>) and the compile gate
  (\<open>judge/compile_gate.h\<close>, \<open>judge/compile_gate.cpp\<close>). Points of the monotonic clock are
  integers in nanoseconds; every function that reads the clock takes the reading as an argument.
\<close>

section \<open>Deadlines\<close>

definition after_ms :: "int \<Rightarrow> int \<Rightarrow> int" where
  "after_ms now ms = now + ms * 1000000"

definition expired :: "int \<Rightarrow> int \<Rightarrow> bool" where
  "expired now deadline = (deadline \<le> now)"

text \<open>\<open>std::chrono::ceil\<close> to milliseconds of a positive duration, saturated at \<open>INT_MAX\<close>.\<close>

definition remaining_ms :: "int \<Rightarrow> int \<Rightarrow> int" where
  "remaining_ms now deadline =
     (if deadline \<le> now then 0
      else (let count = (deadline - now + 999999) div 1000000
            in if int32_max < count then int32_max else count))"

definition effective_time_limit_ms :: "int \<Rightarrow> int \<Rightarrow> int" where
  "effective_time_limit_ms problem_limit_ms remaining_global_ms =
     (if problem_limit_ms \<le> 0 \<or> remaining_global_ms \<le> 0 then 0
      else if problem_limit_ms < remaining_global_ms then problem_limit_ms
      else remaining_global_ms)"

lemma remaining_ms_range: "0 \<le> remaining_ms now dl \<and> remaining_ms now dl \<le> int32_max"
  by (auto simp: remaining_ms_def int32_max_def Let_def div_int_pos_iff)

lemma remaining_ms_pos_iff: "0 < remaining_ms now dl \<longleftrightarrow> now < dl"
proof (cases "dl \<le> now")
  case True
  then show ?thesis by (simp add: remaining_ms_def)
next
  case False
  then have "1 \<le> (dl - now + 999999) div 1000000" by simp
  with False show ?thesis by (auto simp: remaining_ms_def int32_max_def Let_def)
qed

lemma remaining_ms_fresh:
  "0 \<le> ms \<Longrightarrow> ms \<le> int32_max \<Longrightarrow> remaining_ms now (after_ms now ms) = ms"
  by (auto simp: remaining_ms_def after_ms_def int32_max_def Let_def)

lemma remaining_ms_antimono: "t \<le> u \<Longrightarrow> remaining_ms u dl \<le> remaining_ms t dl"
proof (cases "dl \<le> u")
  case True
  then have "remaining_ms u dl = 0" by (simp add: remaining_ms_def)
  then show ?thesis using remaining_ms_range[of t dl] by simp
next
  case False
  assume "t \<le> u"
  with False have "(dl - u + 999999) div 1000000 \<le> (dl - t + 999999) div 1000000"
    by (intro zdiv_mono1) auto
  with False \<open>t \<le> u\<close> show ?thesis by (auto simp: remaining_ms_def Let_def)
qed

lemma effective_time_limit_min:
  "0 < p \<Longrightarrow> 0 < r \<Longrightarrow> effective_time_limit_ms p r = min p r"
  by (simp add: effective_time_limit_ms_def)

lemma effective_time_limit_bounds:
  "effective_time_limit_ms p r \<le> max 0 p" "effective_time_limit_ms p r \<le> max 0 r"
  "0 \<le> effective_time_limit_ms p r"
  by (auto simp: effective_time_limit_ms_def)

section \<open>Compile gate\<close>

record compile_gate =
  cg_max_concurrent :: int
  cg_active :: int

definition compile_gate_new :: "int \<Rightarrow> compile_gate" where
  "compile_gate_new max_concurrent =
     \<lparr>cg_max_concurrent = (if max_concurrent < 1 then 1 else max_concurrent), cg_active = 0\<rparr>"

text \<open>
  One evaluation of the loop of \<open>CompileGate::acquire\<close> under the mutex: the permit is taken,
  or the caller gives up, or it waits \<open>min(remaining, 20)\<close> milliseconds on the condition.
\<close>

datatype gate_poll = GateAcquired | GateGaveUp | GateWait int

definition gate_acquire_poll :: "bool \<Rightarrow> int \<Rightarrow> compile_gate \<Rightarrow> gate_poll \<times> compile_gate" where
  "gate_acquire_poll cancelled remaining g =
     (if cg_active g \<ge> cg_max_concurrent g then
        (if cancelled then (GateGaveUp, g)
         else if remaining \<le> 0 then (GateGaveUp, g)
         else (GateWait (min remaining 20), g))
      else (GateAcquired, g\<lparr>cg_active := cg_active g + 1\<rparr>))"

text \<open>
  The whole loop over the successive situations in which the caller wakes up: the gate as the
  other threads left it, the cancellation flag and the remaining budget. \<open>None\<close>: still waiting
  after the last of them.
\<close>

fun gate_acquire :: "(compile_gate \<times> bool \<times> int) list \<Rightarrow> (bool \<times> compile_gate) option" where
  "gate_acquire [] = None"
| "gate_acquire ((g, cancelled, remaining) # polls) =
     (case gate_acquire_poll cancelled remaining g of
        (GateAcquired, g') \<Rightarrow> Some (True, g')
      | (GateGaveUp, g') \<Rightarrow> Some (False, g')
      | (GateWait _, _) \<Rightarrow> gate_acquire polls)"

definition gate_release :: "compile_gate \<Rightarrow> compile_gate" where
  "gate_release g = (if cg_active g > 0 then g\<lparr>cg_active := cg_active g - 1\<rparr> else g)"

text \<open>
  The RAII guard: \<open>None\<close> as gate means no limit. The flag \<open>acquired_\<close> decides what
  \<open>release_now\<close> and the destructor do.
\<close>

record gate_guard =
  gg_has_gate :: bool
  gg_acquired :: bool

definition guard_release_now :: "gate_guard \<times> compile_gate \<Rightarrow> gate_guard \<times> compile_gate" where
  "guard_release_now = (\<lambda>(gd, g).
     if gg_acquired gd \<and> gg_has_gate gd then (gd\<lparr>gg_acquired := False\<rparr>, gate_release g) else (gd, g))"

definition guard_destroy :: "gate_guard \<times> compile_gate \<Rightarrow> compile_gate" where
  "guard_destroy = (\<lambda>(gd, g). if gg_acquired gd \<and> gg_has_gate gd then gate_release g else g)"

lemma guard_release_once: "guard_destroy (guard_release_now (gd, g)) = guard_destroy (gd, g)"
  by (simp add: guard_release_now_def guard_destroy_def)

lemma gate_acquire_decides:
  assumes "(g, cancelled, remaining) \<in> set polls"
    and "cg_active g < cg_max_concurrent g \<or> cancelled \<or> remaining \<le> 0"
  shows "gate_acquire polls \<noteq> None"
  using assms
  by (induction polls) (auto simp: gate_acquire_poll_def split: prod.splits gate_poll.splits)

lemma gate_acquire_False:
  "gate_acquire polls = Some (False, g') \<Longrightarrow>
     \<exists>cancelled remaining. (g', cancelled, remaining) \<in> set polls \<and> (cancelled \<or> remaining \<le> 0)"
proof (induction polls rule: gate_acquire.induct)
  case (2 g cancelled remaining polls)
  then show ?case
    by (cases "cg_active g \<ge> cg_max_concurrent g"; cases cancelled; cases "remaining \<le> 0")
      (auto simp: gate_acquire_poll_def)
qed simp

text \<open>
  The gate shared by the judging threads: \<open>holders\<close> are the threads whose guard holds a permit.
\<close>

record gate_system =
  gs_gate :: compile_gate
  gs_holders :: "nat set"

inductive gate_step :: "gate_system \<Rightarrow> gate_system \<Rightarrow> bool" where
  gate_step_acquire:
    "i \<notin> gs_holders s \<Longrightarrow> gate_acquire_poll c r (gs_gate s) = (GateAcquired, g) \<Longrightarrow>
       gate_step s (s\<lparr>gs_gate := g, gs_holders := insert i (gs_holders s)\<rparr>)"
| gate_step_give_up:
    "i \<notin> gs_holders s \<Longrightarrow> gate_acquire_poll c r (gs_gate s) = (GateGaveUp, g) \<Longrightarrow>
       gate_step s (s\<lparr>gs_gate := g\<rparr>)"
| gate_step_wait:
    "i \<notin> gs_holders s \<Longrightarrow> gate_acquire_poll c r (gs_gate s) = (GateWait w, g) \<Longrightarrow>
       gate_step s (s\<lparr>gs_gate := g\<rparr>)"
| gate_step_release:
    "i \<in> gs_holders s \<Longrightarrow>
       gate_step s (s\<lparr>gs_gate := gate_release (gs_gate s), gs_holders := gs_holders s - {i}\<rparr>)"

definition gate_init :: "int \<Rightarrow> gate_system \<Rightarrow> bool" where
  "gate_init n s = (s = \<lparr>gs_gate = compile_gate_new n, gs_holders = {}\<rparr>)"

definition gate_inv :: "gate_system \<Rightarrow> bool" where
  "gate_inv s = (finite (gs_holders s) \<and> cg_active (gs_gate s) = int (card (gs_holders s))
     \<and> cg_active (gs_gate s) \<le> cg_max_concurrent (gs_gate s) \<and> 1 \<le> cg_max_concurrent (gs_gate s))"

lemma gate_step_inv: "gate_step s t \<Longrightarrow> gate_inv s \<Longrightarrow> gate_inv t"
proof (induction rule: gate_step.induct)
  case (gate_step_release i s)
  then have "0 < card (gs_holders s)"
    by (auto simp: gate_inv_def card_gt_0_iff)
  with gate_step_release show ?case
    by (auto simp: gate_inv_def gate_release_def)
qed (auto simp: gate_inv_def gate_acquire_poll_def split: if_splits)

lemma gate_init_inv: "gate_init n s \<Longrightarrow> gate_inv s"
  by (auto simp: gate_init_def gate_inv_def compile_gate_new_def)

interpretation gate: invariant_system "gate_init n" gate_step gate_inv
  by unfold_locales (fact gate_init_inv gate_step_inv)+

end
