(* ===== verification/OJ_Executor.thy ===== *)
theory OJ_Executor
  imports OJ_Classification OJ_Deadline
begin

text \<open>
  The vocabulary between the judging core and the process layer (\<open>judge/executor.h\<close>,
  \<open>judge/executor.cpp\<close>): languages, structured termination reasons, the result of one child
  process and the requests for compiling and running.
\<close>

datatype language = Cpp17 | C11

definition parse_language :: "string \<Rightarrow> language option" where
  "parse_language s =
     (let lowered = to_lower s in
      if lowered = ''c++17'' \<or> lowered = ''cpp17'' \<or> lowered = ''c++'' \<or> lowered = ''cpp'' then Some Cpp17
      else if lowered = ''c11'' \<or> lowered = ''c'' then Some C11
      else None)"

fun language_name :: "language \<Rightarrow> string" where
  "language_name Cpp17 = ''cpp17''"
| "language_name C11 = ''c11''"

lemma to_lower_language_name [simp]: "to_lower (language_name l) = language_name l"
  by (cases l) (simp_all add: to_lower_def tolower_def)

lemma parse_language_name [simp]: "parse_language (language_name l) = Some l"
  unfolding parse_language_def to_lower_language_name by (cases l) simp_all

lemma parse_language_case: "parse_language (to_lower s) = parse_language s"
  by (simp add: parse_language_def)

datatype termination_reason =
  LaunchFailure | Cancelled | MemoryExceeded | TimedOut | Signaled | NonZeroExit | Completed

fun termination_reason_name :: "termination_reason \<Rightarrow> string" where
  "termination_reason_name Completed = ''completed''"
| "termination_reason_name NonZeroExit = ''non_zero_exit''"
| "termination_reason_name Signaled = ''signaled''"
| "termination_reason_name TimedOut = ''timed_out''"
| "termination_reason_name MemoryExceeded = ''memory_exceeded''"
| "termination_reason_name Cancelled = ''cancelled''"
| "termination_reason_name LaunchFailure = ''launch_failure''"

record process_result =
  pr_launched :: bool
  pr_launch_error :: bool
  pr_launch_error_message :: string
  pr_sandbox_error :: bool
  pr_termination :: termination_reason
  pr_timed_out :: bool
  pr_cancelled :: bool
  pr_exited :: bool
  pr_exit_code :: int
  pr_term_signal :: int
  pr_memory_exceeded :: bool
  pr_memory_kb :: int
  pr_stdout_truncated :: bool
  pr_stderr_truncated :: bool
  pr_sanitizer_error :: bool
  pr_stdout_data :: string
  pr_stderr_data :: string
  pr_time_ms :: int

definition default_process_result :: process_result where
  "default_process_result =
     \<lparr>pr_launched = False, pr_launch_error = False, pr_launch_error_message = [],
      pr_sandbox_error = False, pr_termination = LaunchFailure, pr_timed_out = False,
      pr_cancelled = False, pr_exited = False, pr_exit_code = 0, pr_term_signal = 0,
      pr_memory_exceeded = False, pr_memory_kb = 0, pr_stdout_truncated = False,
      pr_stderr_truncated = False, pr_sanitizer_error = False, pr_stdout_data = [],
      pr_stderr_data = [], pr_time_ms = 0\<rparr>"

text \<open>The cancellation token of a request is not a field here: the environment answers for it.\<close>

record compile_request =
  cr_language :: language
  cr_compiler :: string
  cr_source_path :: string
  cr_output_path :: string
  cr_working_directory :: string
  cr_extra_flags :: "string list"
  cr_sanitizers :: bool
  cr_time_limit_ms :: int
  cr_output_limit_bytes :: int
  cr_sandbox :: bool
  cr_memory_limit_kb :: int

record run_request =
  rr_executable_path :: string
  rr_working_directory :: string
  rr_time_limit_ms :: int
  rr_stdout_limit_bytes :: int
  rr_stderr_limit_bytes :: int
  rr_sandbox :: bool
  rr_memory_limit_kb :: int

end
