(* ===== verification/OJ_Comparator.thy ===== *)
theory OJ_Comparator
  imports OJ_Text
begin

text \<open>
  The output comparison of \<open>judge/comparator.cpp\<close>: lines are split at the newline character,
  trailing blanks of each line and trailing empty lines are dropped, everything else counts.
\<close>

definition newline :: char where
  "newline = CHR 0x0A"

definition is_trailing_whitespace :: "char \<Rightarrow> bool" where
  "is_trailing_whitespace c =
     (c = CHR '' '' \<or> c = CHR 0x09 \<or> c = CHR 0x0D \<or> c = CHR 0x0B \<or> c = CHR 0x0C)"

definition pop_empty_lines :: "string list \<Rightarrow> string list" where
  "pop_empty_lines ls = rev (dropWhile (\<lambda>l. l = []) (rev ls))"

definition normalized_lines :: "string \<Rightarrow> string list" where
  "normalized_lines text =
     pop_empty_lines (map (rstrip_by is_trailing_whitespace) (split_on newline text))"

definition normalize_output :: "string \<Rightarrow> string" where
  "normalize_output text = join_with newline (normalized_lines text)"

definition outputs_match :: "string \<Rightarrow> string \<Rightarrow> bool" where
  "outputs_match expected actual = (normalize_output expected = normalize_output actual)"

lemma newline_not_trailing [simp]: "\<not> is_trailing_whitespace newline"
  by (simp add: is_trailing_whitespace_def newline_def)

lemma pop_empty_lines_id: "ls = [] \<or> last ls \<noteq> [] \<Longrightarrow> pop_empty_lines ls = ls"
  unfolding pop_empty_lines_def by (rule dropWhile_idem_last) simp

lemma pop_empty_lines_last: "pop_empty_lines ls = [] \<or> last (pop_empty_lines ls) \<noteq> []"
  using hd_dropWhile[of "\<lambda>l. l = []" "rev ls"] by (auto simp: pop_empty_lines_def last_rev)

lemma set_pop_empty_lines: "set (pop_empty_lines ls) \<subseteq> set ls"
  unfolding pop_empty_lines_def by (auto dest: set_dropWhileD)

lemma normalized_line:
  assumes "l \<in> set (normalized_lines text)"
  shows "newline \<notin> set l" and "rstrip_by is_trailing_whitespace l = l"
proof -
  obtain k where k: "k \<in> set (split_on newline text)" "l = rstrip_by is_trailing_whitespace k"
    using assms set_pop_empty_lines by (fastforce simp: normalized_lines_def)
  then show "newline \<notin> set l"
    using split_on_no_sep set_rstrip_by by blast
  show "rstrip_by is_trailing_whitespace l = l"
    using k by simp
qed

lemma normalized_lines_last: "normalized_lines text = [] \<or> last (normalized_lines text) \<noteq> []"
  by (simp add: normalized_lines_def pop_empty_lines_last)

lemma split_normalize:
  "normalized_lines text \<noteq> [] \<Longrightarrow> split_on newline (normalize_output text) = normalized_lines text"
  unfolding normalize_output_def by (rule split_join) (auto dest: normalized_line)

lemma normalized_lines_normalize [simp]:
  "normalized_lines (normalize_output text) = normalized_lines text"
proof (cases "normalized_lines text = []")
  case True
  then have "normalize_output text = []"
    by (simp add: normalize_output_def)
  moreover have "normalized_lines [] = []"
    by (simp add: normalized_lines_def pop_empty_lines_def)
  ultimately show ?thesis
    using True by simp
next
  case False
  have "map (rstrip_by is_trailing_whitespace) (normalized_lines text) = normalized_lines text"
    by (rule map_idI) (rule normalized_line(2))
  then show ?thesis
    using split_normalize[OF False] normalized_lines_last[of "text"]
    by (simp add: normalized_lines_def[of "normalize_output text"] pop_empty_lines_id)
qed

lemma normalize_output_inj_lines:
  "normalize_output a = normalize_output b \<longleftrightarrow> normalized_lines a = normalized_lines b"
  by (metis normalize_output_def normalized_lines_normalize)

lemma normalize_append_blank:
  assumes "list_all (\<lambda>c. is_trailing_whitespace c \<or> c = newline) blank"
  shows "normalized_lines (text @ blank) = normalized_lines text"
  using assms
proof (induction blank rule: rev_induct)
  case Nil
  show ?case by simp
next
  case (snoc c blank)
  have IH: "normalized_lines (text @ blank) = normalized_lines text"
    using snoc by (simp add: list_all_iff)
  have split_snoc: "split_on newline (s @ [c]) =
      (if c = newline then split_on newline s @ [[]]
       else butlast (split_on newline s) @ [last (split_on newline s) @ [c]])" for s
    by (induction s) (auto split: list.splits)
  have c: "is_trailing_whitespace c \<or> c = newline"
    using snoc.prems by simp
  let ?ls = "split_on newline (text @ blank)"
  have "?ls = butlast ?ls @ [last ?ls]" by simp
  then have "map (rstrip_by is_trailing_whitespace) ?ls
      = map (rstrip_by is_trailing_whitespace) (butlast ?ls) @ [rstrip_by is_trailing_whitespace (last ?ls)]"
    by (metis list.simps(8,9) map_append)
  then have "normalized_lines (text @ blank @ [c]) = normalized_lines (text @ blank)"
    using c split_snoc[of "text @ blank"]
    by (auto simp: normalized_lines_def pop_empty_lines_def rstrip_by_snoc)
  with IH show ?case by simp
qed

lemma normalized_lines_cr:
  assumes "ls \<noteq> []" and "\<And>l. l \<in> set ls \<Longrightarrow> newline \<notin> set l"
  shows "normalized_lines (join_with newline (map (\<lambda>l. l @ [CHR 0x0D]) ls))
     = normalized_lines (join_with newline ls)"
proof -
  have "split_on newline (join_with newline (map (\<lambda>l. l @ [CHR 0x0D]) ls)) = map (\<lambda>l. l @ [CHR 0x0D]) ls"
    using assms by (intro split_join) (auto simp: newline_def)
  moreover have "split_on newline (join_with newline ls) = ls"
    using assms by (intro split_join)
  ultimately show ?thesis
    by (simp add: normalized_lines_def comp_def rstrip_by_snoc is_trailing_whitespace_def)
qed

end
