(* ===== verification/OJ_Judge_Engine.thy ===== *)
theory OJ_Judge_Engine
  imports OJ_Executor OJ_Comparator
begin

text \<open>
  The judging core (\<open>judge/judge.h\<close>, \<open>judge/judge.cpp\<close>): validation of the task, the compile
  phase under the compile gate and the loop over the test points under the global deadline.
  Everything the engine only calls (clock, cancellation token, workspace, gate, executor, file
  system) is the environment, a record of operations on a world of type \<open>'w\<close>; the executor
  may throw, which is the \<open>Inl\<close> of its result.
\<close>

section \<open>Data\<close>

type_synonym exn = string

record testcase =
  tc_input :: string
  tc_output :: string

record judge_options =
  jo_workspace_root :: string
  jo_cpp_compiler :: string
  jo_c_compiler :: string
  jo_compile_time_limit_ms :: int
  jo_max_time_limit_ms :: int
  jo_global_time_limit_ms :: int
  jo_stdout_limit_bytes :: int
  jo_stderr_limit_bytes :: int
  jo_compile_output_limit_bytes :: int
  jo_sandbox_enabled :: bool
  jo_compile_memory_limit_kb :: int
  jo_default_memory_limit_kb :: int
  jo_compile_gate :: bool
  jo_extra_compile_flags :: "string list"
  jo_sanitizers_enabled :: bool

definition default_judge_options :: judge_options where
  "default_judge_options =
     \<lparr>jo_workspace_root = [], jo_cpp_compiler = ''g++'', jo_c_compiler = ''gcc'',
      jo_compile_time_limit_ms = 10000, jo_max_time_limit_ms = 60000,
      jo_global_time_limit_ms = 60000, jo_stdout_limit_bytes = 64 * 1024,
      jo_stderr_limit_bytes = 16 * 1024, jo_compile_output_limit_bytes = 64 * 1024,
      jo_sandbox_enabled = True, jo_compile_memory_limit_kb = 1024 * 1024,
      jo_default_memory_limit_kb = 65536, jo_compile_gate = False,
      jo_extra_compile_flags = [], jo_sanitizers_enabled = True\<rparr>"

record judge_task =
  jt_language :: string
  jt_source_code :: string
  jt_testcases :: "testcase list"
  jt_time_limit_ms :: int
  jt_memory_limit_kb :: int

record testcase_result =
  tr_index :: int
  tr_status :: judge_status
  tr_time_ms :: int
  tr_memory_kb :: int
  tr_memory_exceeded :: bool
  tr_timed_out :: bool
  tr_output_truncated :: bool
  tr_global_deadline_hit :: bool
  tr_termination :: termination_reason
  tr_sanitizer_error :: bool
  tr_exit_code :: int
  tr_term_signal :: int
  tr_actual_output :: string
  tr_stderr_output :: string
  tr_message :: string

record judge_result =
  jr_status :: judge_status
  jr_compile_ok :: bool
  jr_compile_output :: string
  jr_compile_output_truncated :: bool
  jr_compile_time_ms :: int
  jr_cases :: "testcase_result list"
  jr_total :: int
  jr_passed :: int
  jr_message :: string
  jr_global_deadline_hit :: bool
  jr_cancelled :: bool

definition default_judge_result :: judge_result where
  "default_judge_result =
     \<lparr>jr_status = SYSERR, jr_compile_ok = False, jr_compile_output = [],
      jr_compile_output_truncated = False, jr_compile_time_ms = 0, jr_cases = [], jr_total = 0,
      jr_passed = 0, jr_message = [], jr_global_deadline_hit = False, jr_cancelled = False\<rparr>"

text \<open>
  The environment. \<open>je_gate_acquire\<close> and \<open>je_gate_release\<close> are only called when a gate is
  configured; \<open>je_workspace_destroy\<close> is the destructor of the workspace.
\<close>

record 'w judge_env =
  je_now :: "'w \<Rightarrow> int \<times> 'w"
  je_cancelled :: "'w \<Rightarrow> bool \<times> 'w"
  je_workspace_create :: "string \<Rightarrow> 'w \<Rightarrow> (string + string) \<times> 'w"
  je_write_file :: "string \<Rightarrow> string \<Rightarrow> string \<Rightarrow> 'w \<Rightarrow> string option \<times> 'w"
  je_workspace_destroy :: "string \<Rightarrow> 'w \<Rightarrow> 'w"
  je_gate_acquire :: "int \<Rightarrow> 'w \<Rightarrow> bool \<times> 'w"
  je_gate_release :: "'w \<Rightarrow> 'w"
  je_compile :: "compile_request \<Rightarrow> 'w \<Rightarrow> (exn + process_result) \<times> 'w"
  je_exists :: "string \<Rightarrow> 'w \<Rightarrow> bool \<times> 'w"
  je_run :: "run_request \<Rightarrow> string \<Rightarrow> 'w \<Rightarrow> (exn + process_result) \<times> 'w"

section \<open>The engine\<close>

definition summarize_cases :: "testcase_result list \<Rightarrow> judge_status" where
  "summarize_cases cases = summarize_statuses (map tr_status cases)"

definition mark_global_exhausted :: "judge_options \<Rightarrow> judge_result \<Rightarrow> judge_result" where
  "mark_global_exhausted opts r = r\<lparr>jr_global_deadline_hit := True, jr_status := SYSERR,
     jr_message := txt_global_exhausted_1 @ int_to_string (jo_global_time_limit_ms opts)
       @ txt_global_exhausted_2\<rparr>"

definition mark_cancelled :: "judge_result \<Rightarrow> judge_result" where
  "mark_cancelled r = r\<lparr>jr_cancelled := True, jr_status := SYSERR, jr_message := txt_cancelled\<rparr>"

definition mark_failed :: "judge_status \<Rightarrow> string \<Rightarrow> judge_result \<Rightarrow> judge_result" where
  "mark_failed s m r = r\<lparr>jr_status := s, jr_message := m\<rparr>"

definition judge_validate :: "judge_task \<Rightarrow> string + language" where
  "judge_validate task =
     (case parse_language (jt_language task) of
        None \<Rightarrow> Inl (txt_bad_language @ jt_language task)
      | Some l \<Rightarrow>
          if jt_testcases task = [] then Inl txt_no_testcases
          else if jt_time_limit_ms task \<le> 0 then
            Inl (txt_bad_time_limit @ int_to_string (jt_time_limit_ms task) @ '' ms'')
          else Inr l)"

definition problem_limit_ms :: "judge_options \<Rightarrow> judge_task \<Rightarrow> int" where
  "problem_limit_ms opts task =
     (if jo_max_time_limit_ms opts < jt_time_limit_ms task then jo_max_time_limit_ms opts
      else jt_time_limit_ms task)"

definition effective_memory_limit_kb :: "judge_options \<Rightarrow> judge_task \<Rightarrow> int" where
  "effective_memory_limit_kb opts task =
     (if 0 < jt_memory_limit_kb task then jt_memory_limit_kb task else jo_default_memory_limit_kb opts)"

text \<open>\<open>std::filesystem::path(dir) / name\<close> for a relative \<open>name\<close>.\<close>

definition path_join :: "string \<Rightarrow> string \<Rightarrow> string" where
  "path_join dir name = (if dir = [] \<or> last dir = CHR ''/'' then dir @ name else dir @ ''/'' @ name)"

definition source_name :: "language \<Rightarrow> string" where
  "source_name l = (if l = Cpp17 then ''main.cpp'' else ''main.c'')"

definition compile_request_of ::
  "judge_options \<Rightarrow> language \<Rightarrow> string \<Rightarrow> int \<Rightarrow> compile_request" where
  "compile_request_of opts l dir limit =
     \<lparr>cr_language = l,
      cr_compiler = (if l = Cpp17 then jo_cpp_compiler opts else jo_c_compiler opts),
      cr_source_path = path_join dir (source_name l),
      cr_output_path = path_join dir ''program'',
      cr_working_directory = dir,
      cr_extra_flags = jo_extra_compile_flags opts,
      cr_sanitizers = jo_sanitizers_enabled opts,
      cr_time_limit_ms = limit,
      cr_output_limit_bytes = jo_compile_output_limit_bytes opts,
      cr_sandbox = jo_sandbox_enabled opts,
      cr_memory_limit_kb = jo_compile_memory_limit_kb opts\<rparr>"

definition merge_compile_output :: "process_result \<Rightarrow> string" where
  "merge_compile_output pr =
     (if pr_stderr_data pr = [] then pr_stdout_data pr
      else (if pr_stdout_data pr = [] then [] else pr_stdout_data pr @ [newline]) @ pr_stderr_data pr)"

definition record_compile :: "string \<Rightarrow> process_result \<Rightarrow> judge_result \<Rightarrow> judge_result" where
  "record_compile dir pr r = r\<lparr>jr_compile_time_ms := pr_time_ms pr,
     jr_compile_output_truncated := pr_stdout_truncated pr,
     jr_compile_output := scrub_compile_diagnostics (merge_compile_output pr) dir\<rparr>"

text \<open>
  The early returns after the compiler process (\<open>Some\<close>: the result that is returned at once).
\<close>

definition compile_outcome ::
  "judge_options \<Rightarrow> bool \<Rightarrow> process_result \<Rightarrow> judge_result \<Rightarrow> judge_result option" where
  "compile_outcome opts capped pr r =
    (if pr_cancelled pr then Some (mark_cancelled r)
     else if pr_launch_error pr then
       Some (mark_failed SYSERR ((if pr_sandbox_error pr then txt_compile_sandbox else txt_compile_env)
         @ pr_launch_error_message pr) r)
     else if pr_timed_out pr then
       (if capped then Some (mark_global_exhausted opts r)
        else Some (mark_failed CE (txt_compile_timeout
          @ int_to_string (jo_compile_time_limit_ms opts) @ txt_ms_close) r))
     else if \<not> pr_exited pr then Some (mark_failed SYSERR txt_compiler_abnormal r)
     else if pr_term_signal pr \<noteq> 0 then
       Some (mark_failed SYSERR (txt_compiler_signal @ int_to_string (pr_term_signal pr) @ txt_signal_2) r)
     else if pr_exit_code pr \<noteq> 0 then Some (mark_failed CE txt_compile_error r)
     else None)"

definition run_request_of :: "judge_options \<Rightarrow> judge_task \<Rightarrow> string \<Rightarrow> int \<Rightarrow> run_request" where
  "run_request_of opts task dir limit =
     \<lparr>rr_executable_path = path_join dir ''program'', rr_working_directory = dir,
      rr_time_limit_ms = limit, rr_stdout_limit_bytes = jo_stdout_limit_bytes opts,
      rr_stderr_limit_bytes = jo_stderr_limit_bytes opts, rr_sandbox = jo_sandbox_enabled opts,
      rr_memory_limit_kb = effective_memory_limit_kb opts task\<rparr>"

definition evidence_of ::
  "judge_options \<Rightarrow> judge_task \<Rightarrow> bool \<Rightarrow> testcase \<Rightarrow> process_result \<Rightarrow> case_evidence" where
  "evidence_of opts task capped tc pr =
     \<lparr>ev_launch_error = pr_launch_error pr, ev_sandbox_error = pr_sandbox_error pr,
      ev_cancelled = pr_cancelled pr, ev_timed_out = pr_timed_out pr, ev_global_capped = capped,
      ev_memory_exceeded = pr_memory_exceeded pr, ev_exited = pr_exited pr,
      ev_exit_code = pr_exit_code pr, ev_term_signal = pr_term_signal pr,
      ev_output_truncated = pr_stdout_truncated pr, ev_sanitizer_error = pr_sanitizer_error pr,
      ev_output_matches = outputs_match (tc_output tc) (pr_stdout_data pr),
      ev_time_limit_ms = problem_limit_ms opts task,
      ev_memory_limit_kb = effective_memory_limit_kb opts task,
      ev_peak_memory_kb = pr_memory_kb pr,
      ev_stdout_limit_bytes = jo_stdout_limit_bytes opts\<rparr>"

definition case_message :: "judge_options \<Rightarrow> case_verdict \<Rightarrow> process_result \<Rightarrow> string" where
  "case_message opts v pr =
     (let m = (if pr_launch_error pr
               then (if pr_sandbox_error pr then txt_run_sandbox else txt_run_launch)
                 @ pr_launch_error_message pr
               else cv_message v)
      in if cv_global_deadline_hit v
         then m @ txt_open_paren @ int_to_string (jo_global_time_limit_ms opts) @ txt_ms_close else m)"

definition case_result_of ::
  "judge_options \<Rightarrow> nat \<Rightarrow> case_verdict \<Rightarrow> process_result \<Rightarrow> testcase_result" where
  "case_result_of opts i v pr =
     \<lparr>tr_index = int i, tr_status = cv_status v, tr_time_ms = pr_time_ms pr,
      tr_memory_kb = pr_memory_kb pr, tr_memory_exceeded = pr_memory_exceeded pr,
      tr_timed_out = pr_timed_out pr, tr_output_truncated = pr_stdout_truncated pr,
      tr_global_deadline_hit = cv_global_deadline_hit v, tr_termination = pr_termination pr,
      tr_sanitizer_error = pr_sanitizer_error pr, tr_exit_code = pr_exit_code pr,
      tr_term_signal = pr_term_signal pr,
      tr_actual_output = (if cv_status v = AC then [] else pr_stdout_data pr),
      tr_stderr_output = pr_stderr_data pr, tr_message = case_message opts v pr\<rparr>"

definition add_case :: "testcase_result \<Rightarrow> judge_result \<Rightarrow> judge_result" where
  "add_case c r = r\<lparr>jr_cases := jr_cases r @ [c],
     jr_passed := (if tr_status c = AC then jr_passed r + 1 else jr_passed r)\<rparr>"

text \<open>What the loop does to the result before the \<open>break\<close> after an aborting verdict.\<close>

definition mark_stopped :: "judge_options \<Rightarrow> process_result \<Rightarrow> judge_result \<Rightarrow> judge_result" where
  "mark_stopped opts pr r =
     (if pr_cancelled pr then mark_cancelled r
      else if pr_launch_error pr then r
      else mark_global_exhausted opts r)"

text \<open>The loop over the test points; the index counts the points already executed.\<close>

fun judge_cases ::
  "'w judge_env \<Rightarrow> judge_options \<Rightarrow> judge_task \<Rightarrow> string \<Rightarrow> int \<Rightarrow> nat \<Rightarrow> testcase list \<Rightarrow> judge_result
     \<Rightarrow> 'w \<Rightarrow> (exn + judge_result) \<times> 'w" where
  "judge_cases env opts task dir deadline i [] r w = (Inr r, w)"
| "judge_cases env opts task dir deadline i (tc # tcs) r w =
     (let (c, w1) = je_cancelled env w in
      if c then (Inr (mark_cancelled r), w1)
      else let (now, w2) = je_now env w1;
               remaining = remaining_ms now deadline;
               limit = effective_time_limit_ms (problem_limit_ms opts task) remaining in
      if remaining \<le> 0 \<or> limit \<le> 0 then (Inr (mark_global_exhausted opts r), w2)
      else (case je_run env (run_request_of opts task dir limit) (tc_input tc) w2 of
        (Inl e, w3) \<Rightarrow> (Inl e, w3)
      | (Inr pr, w3) \<Rightarrow>
          let v = classify_case (evidence_of opts task (limit < problem_limit_ms opts task) tc pr);
              r' = add_case (case_result_of opts i v pr) r in
          if cv_abort_remaining v then
            (Inr (mark_stopped opts pr r'), w3)
          else judge_cases env opts task dir deadline (Suc i) tcs r' w3))"

declare judge_cases.simps(2) [simp del]

definition judge_summary :: "judge_result \<Rightarrow> judge_result" where
  "judge_summary r =
     (let r' = r\<lparr>jr_status := summarize_cases (jr_cases r)\<rparr> in
      if jr_global_deadline_hit r' then r'\<lparr>jr_status := SYSERR\<rparr>
      else if jr_cancelled r' then r'\<lparr>jr_status := SYSERR\<rparr>
      else if jr_status r' = AC then r'\<lparr>jr_message := txt_all_passed\<rparr>
      else if jr_status r' = WA then r'\<lparr>jr_message := txt_has_wa\<rparr>
      else r')"

text \<open>The destructor of the gate guard; the guard of a task without gate holds nothing.\<close>

definition gate_leave :: "'w judge_env \<Rightarrow> judge_options \<Rightarrow> 'w \<Rightarrow> 'w" where
  "gate_leave env opts w = (if jo_compile_gate opts then je_gate_release env w else w)"

text \<open>
  From the acquired permit to the end of the compile phase. \<open>Inr (Inl r)\<close>: the engine returns
  \<open>r\<close>; \<open>Inr (Inr r)\<close>: the executable is there and the test points follow. The permit is given
  back on every path, an exception of the executor included.
\<close>

definition judge_compile ::
  "'w judge_env \<Rightarrow> judge_options \<Rightarrow> language \<Rightarrow> string \<Rightarrow> int \<Rightarrow> judge_result \<Rightarrow> 'w
     \<Rightarrow> (exn + judge_result + judge_result) \<times> 'w" where
  "judge_compile env opts l dir deadline r w =
     (let (now, w1) = je_now env w; remaining = remaining_ms now deadline in
      if remaining \<le> 0 then (Inr (Inl (mark_global_exhausted opts r)), gate_leave env opts w1)
      else let capped = remaining < jo_compile_time_limit_ms opts;
               limit = (if capped then remaining else jo_compile_time_limit_ms opts) in
      (case je_compile env (compile_request_of opts l dir limit) w1 of
         (Inl e, w2) \<Rightarrow> (Inl e, gate_leave env opts w2)
       | (Inr pr, w2) \<Rightarrow>
           let w3 = gate_leave env opts w2;
               r' = record_compile dir pr r in
           (case compile_outcome opts capped pr r' of
              Some out \<Rightarrow> (Inr (Inl out), w3)
            | None \<Rightarrow>
                let (present, w4) = je_exists env (path_join dir ''program'') w3 in
                if \<not> present then (Inr (Inl (mark_failed SYSERR txt_no_executable r')), w4)
                else (Inr (Inr (r'\<lparr>jr_compile_ok := True\<rparr>)), w4))))"

definition judge_in_workspace ::
  "'w judge_env \<Rightarrow> judge_options \<Rightarrow> judge_task \<Rightarrow> language \<Rightarrow> string \<Rightarrow> int \<Rightarrow> judge_result \<Rightarrow> 'w
     \<Rightarrow> (exn + judge_result) \<times> 'w" where
  "judge_in_workspace env opts task l dir deadline r w =
     (case je_write_file env dir (source_name l) (jt_source_code task) w of
        (Some e, w1) \<Rightarrow> (Inr (mark_failed SYSERR (txt_write_failed @ e) r), w1)
      | (None, w1) \<Rightarrow>
          let (acquired, w2) = (if jo_compile_gate opts then je_gate_acquire env deadline w1 else (True, w1)) in
          if \<not> acquired then
            let (c, w3) = je_cancelled env w2 in
            (Inr (if c then mark_cancelled r else mark_global_exhausted opts r), w3)
          else (case judge_compile env opts l dir deadline r w2 of
              (Inl e, w3) \<Rightarrow> (Inl e, w3)
            | (Inr (Inl out), w3) \<Rightarrow> (Inr out, w3)
            | (Inr (Inr r'), w3) \<Rightarrow>
                (case judge_cases env opts task dir deadline 0 (jt_testcases task) r' w3 of
                   (Inl e, w4) \<Rightarrow> (Inl e, w4)
                 | (Inr r'', w4) \<Rightarrow> (Inr (judge_summary r''), w4))))"

definition judge ::
  "'w judge_env \<Rightarrow> judge_options \<Rightarrow> judge_task \<Rightarrow> 'w \<Rightarrow> (exn + judge_result) \<times> 'w" where
  "judge env opts task w =
     (let r = default_judge_result\<lparr>jr_total := int (length (jt_testcases task))\<rparr> in
      case judge_validate task of
        Inl m \<Rightarrow> (Inr (mark_failed SYSERR m r), w)
      | Inr l \<Rightarrow>
          let (start, w1) = je_now env w;
              deadline = after_ms start (jo_global_time_limit_ms opts);
              (c, w2) = je_cancelled env w1 in
          if c then (Inr (mark_cancelled r), w2)
          else (case je_workspace_create env (jo_workspace_root opts) w2 of
              (Inl e, w3) \<Rightarrow> (Inr (mark_failed SYSERR (txt_workspace_failed @ e) r), w3)
            | (Inr dir, w3) \<Rightarrow>
                let (out, w4) = judge_in_workspace env opts task l dir deadline r w3 in
                (out, je_workspace_destroy env dir w4)))"

section \<open>Invariant of the result\<close>

text \<open>
  The result under construction: the points executed so far, in order and numbered from 0, and
  the number of those accepted.
\<close>

definition result_inv :: "judge_result \<Rightarrow> bool" where
  "result_inv r = (map tr_index (jr_cases r) = map int [0..<length (jr_cases r)]
     \<and> jr_passed r = int (length (filter (\<lambda>c. tr_status c = AC) (jr_cases r)))
     \<and> \<not> (jr_cancelled r \<and> jr_global_deadline_hit r)
     \<and> (\<forall>c \<in> set (jr_cases r). tr_status c \<noteq> CE))"

definition running :: "judge_result \<Rightarrow> bool" where
  "running r = (result_inv r \<and> \<not> jr_cancelled r \<and> \<not> jr_global_deadline_hit r
     \<and> (\<forall>c \<in> set (jr_cases r). tr_status c \<noteq> SYSERR))"

definition interrupted :: "judge_result \<Rightarrow> bool" where
  "interrupted r = (jr_cancelled r \<or> jr_global_deadline_hit r \<or> (\<exists>c \<in> set (jr_cases r). tr_status c = SYSERR))"

lemmas mark_defs = mark_cancelled_def mark_global_exhausted_def mark_failed_def

lemma mark_cases [simp]:
  "jr_cases (mark_cancelled r) = jr_cases r" "jr_cases (mark_global_exhausted opts r) = jr_cases r"
  "jr_cases (mark_failed s m r) = jr_cases r" "jr_total (mark_cancelled r) = jr_total r"
  "jr_total (mark_global_exhausted opts r) = jr_total r" "jr_total (mark_failed s m r) = jr_total r"
  "jr_compile_ok (mark_cancelled r) = jr_compile_ok r"
  "jr_compile_ok (mark_global_exhausted opts r) = jr_compile_ok r"
  "jr_compile_ok (mark_failed s m r) = jr_compile_ok r"
  "jr_cases (mark_stopped opts pr r) = jr_cases r" "jr_total (mark_stopped opts pr r) = jr_total r"
  "jr_compile_ok (mark_stopped opts pr r) = jr_compile_ok r"
  by (simp_all add: mark_defs mark_stopped_def)

lemma add_case_simps [simp]:
  "jr_cases (add_case c r) = jr_cases r @ [c]" "jr_total (add_case c r) = jr_total r"
  "jr_compile_ok (add_case c r) = jr_compile_ok r" "jr_cancelled (add_case c r) = jr_cancelled r"
  "jr_global_deadline_hit (add_case c r) = jr_global_deadline_hit r"
  by (simp_all add: add_case_def)

lemma case_result_simps [simp]:
  "tr_status (case_result_of opts i v pr) = cv_status v" "tr_index (case_result_of opts i v pr) = int i"
  by (simp_all add: case_result_of_def)

lemma evidence_simps [simp]:
  "ev_cancelled (evidence_of opts task capped tc pr) = pr_cancelled pr"
  "ev_launch_error (evidence_of opts task capped tc pr) = pr_launch_error pr"
  "ev_output_matches (evidence_of opts task capped tc pr) = outputs_match (tc_output tc) (pr_stdout_data pr)"
  by (simp_all add: evidence_of_def)

text \<open>One iteration of the loop, by its exits.\<close>

lemma judge_cases_Cons:
  obtains
    (cancelled) w1 where "judge_cases env opts task dir dl i (tc # tcs) r w = (Inr (mark_cancelled r), w1)"
  | (exhausted) w1 where "judge_cases env opts task dir dl i (tc # tcs) r w = (Inr (mark_global_exhausted opts r), w1)"
  | (thrown) e w1 where "judge_cases env opts task dir dl i (tc # tcs) r w = (Inl e, w1)"
  | (stopped) v pr r' w1 capped where
      "v = classify_case (evidence_of opts task capped tc pr)" "cv_abort_remaining v"
      "r' = add_case (case_result_of opts i v pr) r"
      "judge_cases env opts task dir dl i (tc # tcs) r w =
         (Inr (mark_stopped opts pr r'), w1)"
  | (continued) v pr r' w1 capped where
      "v = classify_case (evidence_of opts task capped tc pr)" "\<not> cv_abort_remaining v"
      "r' = add_case (case_result_of opts i v pr) r"
      "judge_cases env opts task dir dl i (tc # tcs) r w = judge_cases env opts task dir dl (Suc i) tcs r' w1"
proof -
  note eq = judge_cases.simps(2)[of env opts task dir dl i tc tcs r w]
  obtain c w1 where c: "je_cancelled env w = (c, w1)" by force
  obtain now w2 where n: "je_now env w1 = (now, w2)" by force
  define limit where "limit = effective_time_limit_ms (problem_limit_ms opts task) (remaining_ms now dl)"
  obtain out w3 where run: "je_run env (run_request_of opts task dir limit) (tc_input tc) w2 = (out, w3)"
    by force
  show thesis
  proof (cases "c \<or> remaining_ms now dl \<le> 0 \<or> limit \<le> 0")
    case True
    then show thesis
      using cancelled exhausted by (cases c) (auto simp: eq c n limit_def Let_def)
  next
    case False
    note go = eq[unfolded c n Let_def prod.case limit_def[symmetric] run] 
    show thesis
    proof (cases out)
      case (Inl e)
      with False go show thesis by (intro thrown[of e w3]) simp
    next
      case (Inr pr)
      let ?v = "classify_case (evidence_of opts task (limit < problem_limit_ms opts task) tc pr)"
      show thesis
        by (cases "cv_abort_remaining ?v"; rule stopped[OF refl _ refl] continued[OF refl _ refl])
          (use False go Inr in \<open>simp_all add: Let_def\<close>)
    qed
  qed
qed

lemma running_add_case:
  assumes "running r" and "length (jr_cases r) = i"
    and "v = classify_case (evidence_of opts task capped tc pr)"
  shows "result_inv (add_case (case_result_of opts i v pr) r)"
    and "\<not> cv_abort_remaining v \<Longrightarrow> running (add_case (case_result_of opts i v pr) r)"
  using assms classify_never_CE[of "evidence_of opts task capped tc pr"]
  by (auto simp: running_def result_inv_def add_case_def classify_abort_iff)

lemma running_marks:
  assumes "result_inv r" and "\<not> jr_cancelled r" and "\<not> jr_global_deadline_hit r"
  shows "result_inv (mark_cancelled r)" and "result_inv (mark_global_exhausted opts r)"
    and "result_inv (mark_stopped opts pr r)"
  using assms by (auto simp: result_inv_def mark_defs mark_stopped_def)

text \<open>What the loop leaves: an ordered prefix of the points, all of them unless interrupted.\<close>

lemma judge_cases_inv:
  assumes "judge_cases env opts task dir dl i tcs r w = (Inr r', w')"
    and "running r" and "length (jr_cases r) = i"
  shows "result_inv r' \<and> length (jr_cases r') \<le> i + length tcs \<and> prefix (jr_cases r) (jr_cases r')
     \<and> jr_total r' = jr_total r \<and> jr_compile_ok r' = jr_compile_ok r
     \<and> (interrupted r' \<or> length (jr_cases r') = i + length tcs)"
  using assms
proof (induction tcs arbitrary: i r w)
  case Nil
  then show ?case by (simp add: running_def)
next
  case (Cons tc tcs)
  note run = \<open>running r\<close>
  then have r: "result_inv r" "\<not> jr_cancelled r" "\<not> jr_global_deadline_hit r"
    by (auto simp: running_def)
  from judge_cases_Cons[of env opts task dir dl i tc tcs r w] show ?case
  proof cases
    case cancelled
    with Cons.prems running_marks[OF r] show ?thesis by (auto simp: interrupted_def mark_cancelled_def)
  next
    case exhausted
    with Cons.prems running_marks[OF r] show ?thesis
      by (auto simp: interrupted_def mark_global_exhausted_def)
  next
    case thrown
    with Cons.prems show ?thesis by simp
  next
    case (stopped v pr r0 w1 capped)
    have r0: "result_inv r0" "\<not> jr_cancelled r0" "\<not> jr_global_deadline_hit r0"
      using running_add_case(1)[OF run Cons.prems(3) stopped(1)] r stopped(3) by auto
    have "interrupted (mark_stopped opts pr r0)"
      using stopped(1,3) by (auto simp: interrupted_def mark_stopped_def mark_defs classify_SYSERR_iff)
    with running_marks(3)[OF r0, of opts pr] Cons.prems stopped(3,4) show ?thesis by auto
  next
    case (continued v pr r0 w1 capped)
    have "running r0"
      using running_add_case(2)[OF run Cons.prems(3) continued(1,2)] continued(3) by simp
    from Cons.IH[OF _ this, of "Suc i" w1] Cons.prems continued show ?thesis
      by (auto dest: append_prefixD)
  qed
qed

text \<open>Results returned before any test point ran.\<close>

definition early_result :: "judge_task \<Rightarrow> judge_result \<Rightarrow> bool" where
  "early_result task r = (jr_cases r = [] \<and> jr_passed r = 0 \<and> \<not> jr_compile_ok r
     \<and> jr_total r = int (length (jt_testcases task)) \<and> jr_status r \<in> {SYSERR, CE}
     \<and> (jr_cancelled r \<or> jr_global_deadline_hit r \<longrightarrow> jr_status r = SYSERR)
     \<and> \<not> (jr_cancelled r \<and> jr_global_deadline_hit r))"

definition fresh_result :: "judge_task \<Rightarrow> judge_result \<Rightarrow> bool" where
  "fresh_result task r = (jr_cases r = [] \<and> jr_passed r = 0 \<and> \<not> jr_cancelled r
     \<and> \<not> jr_global_deadline_hit r \<and> jr_total r = int (length (jt_testcases task)))"

lemma fresh_early:
  assumes "fresh_result task r" and "\<not> jr_compile_ok r"
  shows "early_result task (mark_cancelled r)" and "early_result task (mark_global_exhausted opts r)"
    and "s \<in> {SYSERR, CE} \<Longrightarrow> early_result task (mark_failed s m r)"
  using assms by (auto simp: early_result_def fresh_result_def mark_defs)

lemma record_compile_simps [simp]:
  "fresh_result task (record_compile dir pr r) = fresh_result task r"
  "jr_compile_ok (record_compile dir pr r) = jr_compile_ok r"
  by (simp_all add: fresh_result_def record_compile_def)

lemma compile_outcome_early:
  assumes "compile_outcome opts capped pr r = Some out" and "fresh_result task r" and "\<not> jr_compile_ok r"
  shows "early_result task out"
  using assms(1) fresh_early[OF assms(2,3)] by (auto simp: compile_outcome_def split: if_splits)

lemma judge_compile_result:
  assumes "judge_compile env opts l dir dl r w = (Inr out, w')"
    and "fresh_result task r" and "\<not> jr_compile_ok r"
  shows "(\<exists>r'. out = Inl r' \<and> early_result task r')
     \<or> (\<exists>r'. out = Inr r' \<and> fresh_result task r' \<and> jr_compile_ok r')"
proof -
  note early = fresh_early[OF assms(2,3)]
  show ?thesis
    using assms early compile_outcome_early[where task = task]
    by (fastforce simp: judge_compile_def Let_def fresh_result_def record_compile_def
        intro: fresh_early(3) split: prod.splits sum.splits if_splits option.splits)
qed

lemma judge_in_workspace_result:
  assumes "judge_in_workspace env opts task l dir dl r w = (Inr r', w')"
    and "fresh_result task r" and "\<not> jr_compile_ok r"
  shows "early_result task r'
    \<or> (\<exists>wa wb. judge_compile env opts l dir dl r wa = (Inr (Inl r'), wb))
    \<or> (\<exists>wa r0 wb r1 wc. judge_compile env opts l dir dl r wa = (Inr (Inr r0), wb)
         \<and> judge_cases env opts task dir dl 0 (jt_testcases task) r0 wb = (Inr r1, wc)
         \<and> r' = judge_summary r1)"
  using assms(1) fresh_early[OF assms(2,3)]
  by (fastforce simp: judge_in_workspace_def Let_def
      split: prod.splits option.splits sum.splits if_splits)

lemma judge_result_cases:
  assumes "judge env opts task w = (Inr r, w')"
  obtains
    (early) "early_result task r"
  | (cases) dir dl r0 w1 r1 w2 where "fresh_result task r0" "jr_compile_ok r0" "jt_testcases task \<noteq> []"
      "judge_cases env opts task dir dl 0 (jt_testcases task) r0 w1 = (Inr r1, w2)"
      "r = judge_summary r1"
proof -
  let ?r = "default_judge_result\<lparr>jr_total := int (length (jt_testcases task))\<rparr>"
  have fresh: "fresh_result task ?r" "\<not> jr_compile_ok ?r"
    by (simp_all add: fresh_result_def default_judge_result_def)
  have "early_result task r
     \<or> (\<exists>l dir dl w1 w2. judge_in_workspace env opts task l dir dl ?r w1 = (Inr r, w2) \<and> jt_testcases task \<noteq> [])"
    using assms fresh_early[OF fresh]
    by (fastforce simp: judge_def judge_validate_def Let_def
        split: prod.splits option.splits sum.splits if_splits)
  then show thesis
    using early cases judge_in_workspace_result[OF _ fresh] judge_compile_result[OF _ fresh]
    by (metis Inl_Inr_False Inl_inject Inr_inject)
qed

text \<open>The contract of \<open>JudgeEngine::judge\<close>, as the header \<open>judge/judge.h\<close> states it.\<close>

definition judge_contract :: "judge_task \<Rightarrow> judge_result \<Rightarrow> bool" where
  "judge_contract task r = (let total_cases = length (jt_testcases task) in
     jr_total r = int total_cases
     \<and> result_inv r
     \<and> length (jr_cases r) \<le> total_cases
     \<and> (jr_cancelled r \<or> jr_global_deadline_hit r \<longrightarrow> jr_status r = SYSERR)
     \<and> (\<not> jr_compile_ok r \<longrightarrow> jr_cases r = [] \<and> jr_status r \<in> {SYSERR, CE})
     \<and> (jr_compile_ok r \<and> jr_status r \<noteq> SYSERR \<longrightarrow>
          length (jr_cases r) = total_cases \<and> jr_status r = summarize_cases (jr_cases r)))"

lemma judge_summary_simps [simp]:
  "jr_cases (judge_summary r) = jr_cases r" "jr_total (judge_summary r) = jr_total r"
  "jr_passed (judge_summary r) = jr_passed r" "jr_compile_ok (judge_summary r) = jr_compile_ok r"
  "jr_cancelled (judge_summary r) = jr_cancelled r"
  "jr_global_deadline_hit (judge_summary r) = jr_global_deadline_hit r"
  "result_inv (judge_summary r) = result_inv r"
  by (simp_all add: judge_summary_def Let_def result_inv_def)

lemma judge_summary_status:
  "jr_status (judge_summary r) =
     (if jr_global_deadline_hit r \<or> jr_cancelled r then SYSERR else summarize_cases (jr_cases r))"
  by (simp add: judge_summary_def Let_def)

lemma summarize_SYSERR:
  assumes "c \<in> set cases" and "tr_status c = SYSERR" and "\<forall>c \<in> set cases. tr_status c \<noteq> CE"
  shows "summarize_cases cases = SYSERR"
proof -
  let ?s = "summarize_cases cases"
  have "?s \<in> set (map tr_status cases)"
    unfolding summarize_cases_def by (rule summarize_statuses_in_set) (use assms(1) in auto)
  then have "?s \<noteq> CE" using assms(3) by auto
  moreover have "judge_status_severity SYSERR \<le> judge_status_severity ?s"
    using summarize_statuses_upper[of SYSERR "map tr_status cases"] assms(1,2)
    by (force simp: summarize_cases_def)
  ultimately show ?thesis by (cases ?s) auto
qed

lemma judge_meets_contract:
  assumes "judge env opts task w = (Inr r, w')"
  shows "judge_contract task r"
  using assms
proof (cases rule: judge_result_cases)
  case early
  then show ?thesis by (auto simp: judge_contract_def early_result_def result_inv_def Let_def)
next
  case (cases dir dl r0 w1 r1 w2)
  have "running r0" "length (jr_cases r0) = 0"
    using cases(1) by (simp_all add: running_def result_inv_def fresh_result_def)
  note inv = judge_cases_inv[OF cases(4) this]
  have "jr_status r \<noteq> SYSERR \<Longrightarrow> \<not> interrupted r1"
    using cases(5) inv summarize_SYSERR[of _ "jr_cases r1"]
    by (auto simp: judge_summary_status interrupted_def result_inv_def split: if_splits)
  with inv cases show ?thesis
    by (auto simp: judge_contract_def fresh_result_def judge_summary_status Let_def)
qed

lemma summarize_cases_AC_iff:
  "summarize_cases cs = AC \<longleftrightarrow> cs \<noteq> [] \<and> (\<forall>c \<in> set cs. tr_status c = AC)"
  by (simp add: summarize_cases_def summarize_statuses_AC_iff)

section \<open>The calls the engine makes\<close>

text \<open>
  A rule for predicates of the world: \<open>Q b\<close> with \<open>b\<close> telling whether a compile permit is held.
  The compiler runs only with a permit (where a gate is configured), programs only without.
\<close>

definition compile_request_ok :: "judge_options \<Rightarrow> compile_request \<Rightarrow> bool" where
  "compile_request_ok opts req = (cr_time_limit_ms req \<le> jo_compile_time_limit_ms opts
     \<and> cr_sandbox req = jo_sandbox_enabled opts \<and> cr_sanitizers req = jo_sanitizers_enabled opts
     \<and> cr_memory_limit_kb req = jo_compile_memory_limit_kb opts)"

definition run_request_ok :: "judge_options \<Rightarrow> judge_task \<Rightarrow> run_request \<Rightarrow> bool" where
  "run_request_ok opts task req = (0 < rr_time_limit_ms req \<and> rr_time_limit_ms req \<le> jt_time_limit_ms task
     \<and> rr_time_limit_ms req \<le> jo_max_time_limit_ms opts \<and> rr_sandbox req = jo_sandbox_enabled opts
     \<and> rr_memory_limit_kb req = effective_memory_limit_kb opts task)"

definition env_keeps :: "'w judge_env \<Rightarrow> judge_options \<Rightarrow> judge_task \<Rightarrow> (bool \<Rightarrow> 'w \<Rightarrow> bool) \<Rightarrow> bool" where
  "env_keeps env opts task Q =
    ((\<forall>b w. Q b w \<longrightarrow> Q b (snd (je_now env w)) \<and> Q b (snd (je_cancelled env w)))
     \<and> (\<forall>w root. Q False w \<longrightarrow> Q False (snd (je_workspace_create env root w)))
     \<and> (\<forall>w dir n c. Q False w \<longrightarrow> Q False (snd (je_write_file env dir n c w)))
     \<and> (\<forall>w dir. Q False w \<longrightarrow> Q False (je_workspace_destroy env dir w))
     \<and> (\<forall>w dl. Q False w \<longrightarrow> jo_compile_gate opts \<longrightarrow> Q (fst (je_gate_acquire env dl w)) (snd (je_gate_acquire env dl w)))
     \<and> (\<forall>w. Q True w \<longrightarrow> Q False (je_gate_release env w))
     \<and> (\<forall>w req. Q (jo_compile_gate opts) w \<longrightarrow> compile_request_ok opts req \<longrightarrow>
          Q (jo_compile_gate opts) (snd (je_compile env req w)))
     \<and> (\<forall>w f. Q False w \<longrightarrow> Q False (snd (je_exists env f w)))
     \<and> (\<forall>w req inp. Q False w \<longrightarrow> run_request_ok opts task req \<longrightarrow> Q False (snd (je_run env req inp w))))"

lemma env_keepsD:
  assumes "env_keeps env opts task Q"
  shows "Q b w \<Longrightarrow> je_now env w = (t, w') \<Longrightarrow> Q b w'"
    and "Q b w \<Longrightarrow> je_cancelled env w = (c, w') \<Longrightarrow> Q b w'"
    and "Q False w \<Longrightarrow> je_workspace_create env root w = (e, w') \<Longrightarrow> Q False w'"
    and "Q False w \<Longrightarrow> je_write_file env dir n src w = (x, w') \<Longrightarrow> Q False w'"
    and "Q False w \<Longrightarrow> Q False (je_workspace_destroy env dir w)"
    and "Q False w \<Longrightarrow> jo_compile_gate opts \<Longrightarrow> je_gate_acquire env dl w = (a, w') \<Longrightarrow> Q a w'"
    and "Q True w \<Longrightarrow> Q False (je_gate_release env w)"
    and "Q (jo_compile_gate opts) w \<Longrightarrow> compile_request_ok opts req \<Longrightarrow> je_compile env req w = (pr, w')
       \<Longrightarrow> Q (jo_compile_gate opts) w'"
    and "Q False w \<Longrightarrow> je_exists env f w = (p, w') \<Longrightarrow> Q False w'"
    and "Q False w \<Longrightarrow> run_request_ok opts task rq \<Longrightarrow> je_run env rq inp w = (pr, w') \<Longrightarrow> Q False w'"
  using assms by (auto simp: env_keeps_def dest: spec)
   (metis fst_conv snd_conv)+

lemma run_request_within:
  assumes "0 < effective_time_limit_ms (problem_limit_ms opts task) r"
  shows "run_request_ok opts task
    (run_request_of opts task dir (effective_time_limit_ms (problem_limit_ms opts task) r))"
  using assms
  by (auto simp: run_request_ok_def run_request_of_def effective_time_limit_ms_def problem_limit_ms_def
      split: if_splits)

lemma judge_cases_keeps:
  assumes "env_keeps env opts task Q" and "Q False w"
  shows "Q False (snd (judge_cases env opts task dir dl i tcs r w))"
  using assms(2)
proof (induction tcs arbitrary: i r w)
  case Nil
  then show ?case by simp
next
  case (Cons tc tcs)
  note keeps = env_keepsD[OF assms(1)]
  obtain c w1 where c: "je_cancelled env w = (c, w1)" by force
  obtain now w2 where n: "je_now env w1 = (now, w2)" by force
  define limit where "limit = effective_time_limit_ms (problem_limit_ms opts task) (remaining_ms now dl)"
  obtain out w3 where run: "je_run env (run_request_of opts task dir limit) (tc_input tc) w2 = (out, w3)"
    by force
  have Q2: "Q False w1" "Q False w2"
    using keeps(1,2) Cons.prems c n by blast+
  have Q3: "0 < limit \<Longrightarrow> Q False w3"
    using keeps(10)[OF Q2(2) _ run] run_request_within by (simp add: limit_def)
  show ?case
    using Q2 Q3 Cons.IH
    by (auto simp: judge_cases.simps(2) c n run limit_def[symmetric] Let_def split: sum.splits)
qed

lemma compile_request_within:
  "compile_request_ok opts (compile_request_of opts l dir
     (if r < jo_compile_time_limit_ms opts then r else jo_compile_time_limit_ms opts))"
  by (auto simp: compile_request_ok_def compile_request_of_def)

lemma judge_compile_keeps:
  assumes "env_keeps env opts task Q" and "Q (jo_compile_gate opts) w"
  shows "Q False (snd (judge_compile env opts l dir dl r w))"
proof -
  note keeps = env_keepsD[OF assms(1)]
  have leave: "Q (jo_compile_gate opts) u \<Longrightarrow> Q False (gate_leave env opts u)" for u
    using keeps(7)[of u] by (auto simp: gate_leave_def)
  obtain now w1 where n: "je_now env w = (now, w1)" by force
  let ?r = "remaining_ms now dl"
  obtain out w2 where comp: "je_compile env (compile_request_of opts l dir
      (if ?r < jo_compile_time_limit_ms opts then ?r else jo_compile_time_limit_ms opts)) w1 = (out, w2)"
    by force
  have Q1: "Q (jo_compile_gate opts) w1" using keeps(1) assms(2) n by blast
  have Q2: "Q (jo_compile_gate opts) w2"
    by (rule keeps(8)[OF Q1 compile_request_within comp])
  show ?thesis
    using leave[OF Q1] leave[OF Q2] keeps(9)[OF leave[OF Q2]]
    by (auto simp: judge_compile_def n comp Let_def split: sum.splits option.splits prod.splits)
qed

lemma judge_in_workspace_keeps:
  assumes "env_keeps env opts task Q" and "Q False w"
  shows "Q False (snd (judge_in_workspace env opts task l dir dl r w))"
proof -
  note keeps = env_keepsD[OF assms(1)]
  obtain e w1 where wr: "je_write_file env dir (source_name l) (jt_source_code task) w = (e, w1)" by force
  have Q1: "Q False w1" by (rule keeps(4)[OF assms(2) wr])
  obtain a w2 where acq: "(if jo_compile_gate opts then je_gate_acquire env dl w1 else (True, w1)) = (a, w2)"
    by force
  have Q2: "Q (a \<and> jo_compile_gate opts) w2"
    using acq keeps(6)[OF Q1] Q1 by (auto split: if_splits)
  obtain out w3 where jc: "judge_compile env opts l dir dl r w2 = (out, w3)" by force
  obtain c w4 where c: "je_cancelled env w2 = (c, w4)" by force
  have Q3: "a \<Longrightarrow> Q False w3"
    using judge_compile_keeps[OF assms(1), of w2 l dir dl r] Q2 jc by simp
  have Q4: "\<not> a \<Longrightarrow> Q False w4"
    using keeps(2)[OF _ c] Q2 by simp
  have Q5: "Q False w5" if "a" "judge_cases env opts task dir dl 0 (jt_testcases task) r' w3 = (x, w5)" for r' x w5
    using judge_cases_keeps[OF assms(1) Q3[OF that(1)], of dir dl 0 "jt_testcases task" r'] that(2) by simp
  show ?thesis
  proof (cases "e = None \<and> a")
    case True
    then show ?thesis
      using Q3 Q5 acq jc
      by (cases "jo_compile_gate opts")
        (auto simp: judge_in_workspace_def wr split: sum.splits prod.splits)
  next
    case False
    then show ?thesis
      using Q1 Q4 acq c
      by (cases "jo_compile_gate opts") (auto simp: judge_in_workspace_def wr split: option.splits)
  qed
qed

lemma judge_keeps:
  assumes "env_keeps env opts task Q" and "Q False w"
  shows "Q False (snd (judge env opts task w))"
proof -
  note keeps = env_keepsD[OF assms(1)]
  obtain start w1 where n: "je_now env w = (start, w1)" by force
  obtain c w2 where c: "je_cancelled env w1 = (c, w2)" by force
  obtain d w3 where d: "je_workspace_create env (jo_workspace_root opts) w2 = (d, w3)" by force
  have Q: "Q False w2" "Q False w3"
    using assms(2) n c d keeps(1,2,3) by blast+
  have ws: "Q False w4" if "judge_in_workspace env opts task l dir dl r w3 = (x, w4)" for l dir dl r x w4
    using judge_in_workspace_keeps[OF assms(1) Q(2), of l dir dl r] that by simp
  show ?thesis
    using assms(2) Q ws by (auto simp: judge_def n c d Let_def split: sum.splits prod.splits intro!: keeps(5))
qed

text \<open>
  The calls as a log. The checking automaton has the state ``a permit is held''; \<open>None\<close> is a
  violation: a compilation without the configured permit, a program run while a permit is held or
  outside the limits of the task, a second acquisition or release.
\<close>

datatype judge_event =
  EvAcquire bool
| EvRelease
| EvCompile compile_request
| EvRun run_request

definition log_env :: "'w judge_env \<Rightarrow> ('w \<times> judge_event list) judge_env" where
  "log_env env =
     \<lparr>je_now = (\<lambda>(w, l). let (t, w') = je_now env w in (t, (w', l))),
      je_cancelled = (\<lambda>(w, l). let (c, w') = je_cancelled env w in (c, (w', l))),
      je_workspace_create = (\<lambda>root (w, l). let (d, w') = je_workspace_create env root w in (d, (w', l))),
      je_write_file = (\<lambda>dir n src (w, l). let (e, w') = je_write_file env dir n src w in (e, (w', l))),
      je_workspace_destroy = (\<lambda>dir (w, l). (je_workspace_destroy env dir w, l)),
      je_gate_acquire = (\<lambda>dl (w, l). let (a, w') = je_gate_acquire env dl w in (a, (w', l @ [EvAcquire a]))),
      je_gate_release = (\<lambda>(w, l). (je_gate_release env w, l @ [EvRelease])),
      je_compile = (\<lambda>req (w, l). let (pr, w') = je_compile env req w in (pr, (w', l @ [EvCompile req]))),
      je_exists = (\<lambda>f (w, l). let (p, w') = je_exists env f w in (p, (w', l))),
      je_run = (\<lambda>req inp (w, l). let (pr, w') = je_run env req inp w in (pr, (w', l @ [EvRun req])))\<rparr>"

fun log_step :: "judge_options \<Rightarrow> judge_task \<Rightarrow> bool option \<Rightarrow> judge_event \<Rightarrow> bool option" where
  "log_step opts task (Some False) (EvAcquire a) = (if jo_compile_gate opts then Some a else None)"
| "log_step opts task (Some True) EvRelease = Some False"
| "log_step opts task (Some h) (EvCompile req) =
     (if h = jo_compile_gate opts \<and> compile_request_ok opts req then Some h else None)"
| "log_step opts task (Some False) (EvRun req) =
     (if run_request_ok opts task req then Some False else None)"
| "log_step opts task _ _ = None"

definition check_log :: "judge_options \<Rightarrow> judge_task \<Rightarrow> judge_event list \<Rightarrow> bool option" where
  "check_log opts task evs = foldl (log_step opts task) (Some False) evs"

lemma check_log_snoc [simp]:
  "check_log opts task (l @ [e]) = log_step opts task (check_log opts task l) e"
  by (simp add: check_log_def)

lemma log_env_keeps: "env_keeps (log_env env) opts task (\<lambda>b (w, l). check_log opts task l = Some b)"
  by (auto simp: env_keeps_def log_env_def Let_def split: prod.splits)

text \<open>Logging changes nothing else: outcome and world are those of the engine itself.\<close>

lemma log_env_simps:
  "je_now env w = (t, w') \<Longrightarrow> je_now (log_env env) (w, l) = (t, (w', l))"
  "je_cancelled env w = (c, w') \<Longrightarrow> je_cancelled (log_env env) (w, l) = (c, (w', l))"
  "je_workspace_create env root w = (d, w') \<Longrightarrow> je_workspace_create (log_env env) root (w, l) = (d, (w', l))"
  "je_write_file env dir n src w = (e, w') \<Longrightarrow> je_write_file (log_env env) dir n src (w, l) = (e, (w', l))"
  "je_workspace_destroy (log_env env) dir (w, l) = (je_workspace_destroy env dir w, l)"
  "je_gate_acquire env dl w = (a, w') \<Longrightarrow>
     je_gate_acquire (log_env env) dl (w, l) = (a, (w', l @ [EvAcquire a]))"
  "je_gate_release (log_env env) (w, l) = (je_gate_release env w, l @ [EvRelease])"
  "je_compile env req w = (pr, w') \<Longrightarrow> je_compile (log_env env) req (w, l) = (pr, (w', l @ [EvCompile req]))"
  "je_exists env f w = (p, w') \<Longrightarrow> je_exists (log_env env) f (w, l) = (p, (w', l))"
  "je_run env rq inp w = (pr, w') \<Longrightarrow> je_run (log_env env) rq inp (w, l) = (pr, (w', l @ [EvRun rq]))"
  by (simp_all add: log_env_def)

lemma judge_cases_log:
  "map_prod id fst (judge_cases (log_env env) opts task dir dl i tcs r (w, l))
     = judge_cases env opts task dir dl i tcs r w"
proof (induction tcs arbitrary: i r w l)
  case Nil
  show ?case by simp
next
  case (Cons tc tcs)
  then show ?case
    by (simp add: judge_cases.simps(2) log_env_def Let_def split: prod.splits sum.splits)
qed

lemma judge_compile_log:
  "map_prod id fst (judge_compile (log_env env) opts lang dir dl r (w, l)) = judge_compile env opts lang dir dl r w"
  by (simp add: judge_compile_def log_env_def gate_leave_def Let_def split: prod.splits sum.splits option.splits)

lemma map_prod_id_fst: "map_prod id fst p = (a, b) \<longleftrightarrow> (\<exists>c. p = (a, (b, c)))"
  by (cases p) (auto simp: prod_eq_iff)

lemma judge_in_workspace_log:
  "map_prod id fst (judge_in_workspace (log_env env) opts task lang dir dl r (w, l))
     = judge_in_workspace env opts task lang dir dl r w"
proof -
  obtain e w1 where wr: "je_write_file env dir (source_name lang) (jt_source_code task) w = (e, w1)" by force
  obtain a w2 where acq: "je_gate_acquire env dl w1 = (a, w2)" by force
  have body: "map_prod id fst (case judge_compile (log_env env) opts lang dir dl r (u, k) of
        (Inl e, w3) \<Rightarrow> (Inl e, w3)
      | (Inr (Inl out), w3) \<Rightarrow> (Inr out, w3)
      | (Inr (Inr r'), w3) \<Rightarrow>
          (case judge_cases (log_env env) opts task dir dl 0 (jt_testcases task) r' w3 of
             (Inl e, w4) \<Rightarrow> (Inl e, w4)
           | (Inr r'', w4) \<Rightarrow> (Inr (judge_summary r''), w4)))
    = (case judge_compile env opts lang dir dl r u of
        (Inl e, w3) \<Rightarrow> (Inl e, w3)
      | (Inr (Inl out), w3) \<Rightarrow> (Inr out, w3)
      | (Inr (Inr r'), w3) \<Rightarrow>
          (case judge_cases env opts task dir dl 0 (jt_testcases task) r' w3 of
             (Inl e, w4) \<Rightarrow> (Inl e, w4)
           | (Inr r'', w4) \<Rightarrow> (Inr (judge_summary r''), w4)))" for u k
  proof -
    obtain out w3 where jc: "judge_compile env opts lang dir dl r u = (out, w3)" by force
    then obtain k3 where jcl: "judge_compile (log_env env) opts lang dir dl r (u, k) = (out, (w3, k3))"
      using judge_compile_log[of env opts lang dir dl r u k] by (auto simp: map_prod_id_fst)
    have "\<exists>k4. judge_cases (log_env env) opts task dir dl 0 (jt_testcases task) r' (w3, k3)
        = (fst (judge_cases env opts task dir dl 0 (jt_testcases task) r' w3),
           (snd (judge_cases env opts task dir dl 0 (jt_testcases task) r' w3), k4))" for r'
      using judge_cases_log[of env opts task dir dl 0 "jt_testcases task" r' w3 k3]
      by (metis map_prod_id_fst prod.collapse)
    then show ?thesis
      unfolding jc jcl by (auto split: sum.splits prod.splits) (metis fst_conv snd_conv prod.inject Inl_Inr_False sum.inject)+
  qed
  show ?thesis
    using body
    by (cases e; cases a)
      (auto simp: judge_in_workspace_def log_env_simps(4)[OF wr] log_env_simps(6)[OF acq] wr acq Let_def
        log_env_simps(2) split: prod.splits)
qed

lemma judge_log_transparent:
  "map_prod id fst (judge (log_env env) opts task (w, l)) = judge env opts task w"
proof -
  obtain start w1 where n: "je_now env w = (start, w1)" by force
  obtain c w2 where c: "je_cancelled env w1 = (c, w2)" by force
  obtain d w3 where d: "je_workspace_create env (jo_workspace_root opts) w2 = (d, w3)" by force
  have ws: "\<exists>k'. judge_in_workspace (log_env env) opts task lang dir dl r (w3, k) =
      (fst (judge_in_workspace env opts task lang dir dl r w3),
       (snd (judge_in_workspace env opts task lang dir dl r w3), k'))" for lang dir dl r k
    using judge_in_workspace_log[of env opts task lang dir dl r w3 k]
    by (metis map_prod_id_fst prod.collapse)
  show ?thesis
  proof (cases "judge_validate task")
    case (Inl m)
    then show ?thesis by (simp add: judge_def)
  next
    case (Inr lang)
    show ?thesis
    proof (cases d)
      case (Inl e)
      then show ?thesis
        using Inr d n c by (simp add: judge_def log_env_simps Let_def)
    next
      case (Inr dir)
      let ?dl = "after_ms start (jo_global_time_limit_ms opts)"
      let ?r = "default_judge_result\<lparr>jr_total := int (length (jt_testcases task))\<rparr>"
      obtain k' where "judge_in_workspace (log_env env) opts task lang dir ?dl ?r (w3, l) =
        (fst (judge_in_workspace env opts task lang dir ?dl ?r w3),
         (snd (judge_in_workspace env opts task lang dir ?dl ?r w3), k'))"
        using ws by blast
      with \<open>judge_validate task = Inr lang\<close> Inr d n c show ?thesis
        by (simp add: judge_def log_env_simps Let_def split: prod.splits)
    qed
  qed
qed

section \<open>Properties\<close>

text \<open>
  A small environment for examples: a compiler that succeeds, programs that copy their input and
  a clock that stands still.
\<close>

definition demo_env :: "unit judge_env" where
  "demo_env =
     \<lparr>je_now = (\<lambda>w. (0, w)), je_cancelled = (\<lambda>w. (False, w)),
      je_workspace_create = (\<lambda>root w. (Inr ''/tmp/oj'', w)),
      je_write_file = (\<lambda>dir n src w. (None, w)), je_workspace_destroy = (\<lambda>dir w. w),
      je_gate_acquire = (\<lambda>dl w. (True, w)), je_gate_release = (\<lambda>w. w),
      je_compile = (\<lambda>req w. (Inr (default_process_result\<lparr>pr_exited := True\<rparr>), w)),
      je_exists = (\<lambda>f w. (True, w)),
      je_run = (\<lambda>req inp w. (Inr (default_process_result\<lparr>pr_exited := True, pr_stdout_data := inp\<rparr>), w))\<rparr>"

definition demo_task :: judge_task where
  "demo_task = \<lparr>jt_language = ''C++17'', jt_source_code = ''x'',
     jt_testcases = [\<lparr>tc_input = ''1'', tc_output = ''1 ''\<rparr>, \<lparr>tc_input = ''2'', tc_output = ''2''\<rparr>],
     jt_time_limit_ms = 1000, jt_memory_limit_kb = 0\<rparr>"

text \<open>
  C1: the contract of the judging engine, for every behaviour of the executor, the clock, the
  cancellation token and the file system. A returned result counts all points of the task in
  \<open>total\<close>, lists an in-order numbered prefix of them in \<open>cases\<close>, counts exactly the accepted
  ones in \<open>passed\<close>; a cancelled run or one past the global deadline (never both) is SYSERR; without
  a successful compilation there are no cases and the status is SYSERR or CE; otherwise a status
  other than SYSERR means that every point was executed and is the most severe status of them.
\<close>

theorem judge_returns_contract:
  "case fst (judge env opts task w) of Inl e \<Rightarrow> True | Inr r \<Rightarrow> judge_contract task r"
  by (cases "judge env opts task w") (auto split: sum.splits dest: judge_meets_contract)

text \<open>
  C2: Accepted means accepted: the engine returns AC only if the program was compiled, the task has
  test points, every one of them was executed in order and accepted, and neither cancellation nor
  the global deadline interfered.
\<close>

theorem judge_AC_sound:
  assumes "fst (judge env opts task w) = Inr r" and "jr_status r = AC"
  shows "jr_compile_ok r \<and> 0 < length (jt_testcases task)
    \<and> length (jr_cases r) = length (jt_testcases task)
    \<and> map tr_index (jr_cases r) = map int [0..<length (jt_testcases task)]
    \<and> list_all (\<lambda>c. tr_status c = AC) (jr_cases r)
    \<and> jr_passed r = jr_total r \<and> \<not> jr_cancelled r \<and> \<not> jr_global_deadline_hit r"
proof -
  have c: "judge_contract task r"
    using judge_meets_contract[of env opts task w r] assms(1) by (cases "judge env opts task w") auto
  then have ok: "jr_compile_ok r" "\<not> jr_cancelled r" "\<not> jr_global_deadline_hit r"
    using assms(2) by (auto simp: judge_contract_def Let_def)
  with c assms(2) have len: "length (jr_cases r) = length (jt_testcases task)"
    by (auto simp: judge_contract_def Let_def)
  have AC: "jr_cases r \<noteq> []" "\<forall>c \<in> set (jr_cases r). tr_status c = AC"
    using c ok(1) assms(2) summarize_cases_AC_iff[of "jr_cases r"] by (auto simp: judge_contract_def Let_def)
  have "filter (\<lambda>c. tr_status c = AC) (jr_cases r) = jr_cases r"
    using AC(2) by (simp add: filter_id_conv)
  then have "jr_passed r = jr_total r" "map tr_index (jr_cases r) = map int [0..<length (jt_testcases task)]"
    using c len by (auto simp: judge_contract_def result_inv_def Let_def)
  with ok len AC show ?thesis by (auto simp: list_all_iff)
qed

theorem judge_AC_sound_witness:
  "case fst (judge demo_env default_judge_options demo_task ()) of
     Inl e \<Rightarrow> False | Inr r \<Rightarrow> jr_status r = AC \<and> jr_passed r = jr_total r \<and> length (jr_cases r) = 2"
proof -
  have eval: "case fst (judge demo_env default_judge_options demo_task ()) of
      Inl e \<Rightarrow> False | Inr r \<Rightarrow> jr_status r = AC"
    by code_simp
  then obtain r where r: "fst (judge demo_env default_judge_options demo_task ()) = Inr r" "jr_status r = AC"
    by (auto split: sum.splits)
  then show ?thesis
    using judge_AC_sound[OF r] by (simp add: demo_task_def)
qed

text \<open>
  C3: the calls the engine makes, whatever the environment answers and on every path including
  exceptions of the executor: with a compile gate configured the compiler is started only while a
  permit is held, the permit is given back exactly once, no program runs while it is held, and
  every run request has a positive time limit within the limit of the problem and of the service,
  and carries the memory limit and sandbox setting of the task. Recording the calls changes
  neither the outcome nor the world.
\<close>

theorem judge_call_protocol:
  "map_prod id fst (judge (log_env env) opts task (w, [])) = judge env opts task w
   \<and> check_log opts task (snd (snd (judge (log_env env) opts task (w, [])))) = Some False"
  using judge_keeps[OF log_env_keeps, of opts task "(w, [])" env] judge_log_transparent
  by (simp add: check_log_def case_prod_beta)

end
