(* ===== verification/OJ_Judge_Manager.thy ===== *)
theory OJ_Judge_Manager
  imports OJ_Judge_Engine
begin

text \<open>
  The scheduler of judging tasks (\<open>judge/manager.h\<close>, \<open>judge/manager.cpp\<close>): a bounded queue with
  reservations, a fixed set of worker threads, one promise per task, cancellation and shutdown.
  Every critical section under \<open>mutex_\<close> and every atomic counter update is one function on the
  state; \<open>mgr_step\<close> interleaves them arbitrarily over the callers and the workers. Items live in
  a store (\<open>mg_items\<close>, the heap objects behind the \<open>shared_ptr\<close>) and are named by their index.
\<close>

section \<open>Data\<close>

datatype outcome_kind = KOk | KProblemNotFound | KAlreadySettled | KInternalError

text \<open>\<open>SubmitService::Outcome\<close>, over the type of submission rows; \<open>None\<close> is the default row.\<close>

record 's submit_outcome =
  so_kind :: outcome_kind
  so_submission :: "'s option"
  so_judge :: judge_result
  so_error :: string

definition make_internal_error :: "string \<Rightarrow> 's submit_outcome" where
  "make_internal_error message = \<lparr>so_kind = KInternalError, so_submission = None,
     so_judge = default_judge_result, so_error = message\<rparr>"

fun outcome_kind_name :: "outcome_kind \<Rightarrow> string" where
  "outcome_kind_name KOk = ''Ok''"
| "outcome_kind_name KProblemNotFound = ''ProblemNotFound''"
| "outcome_kind_name KAlreadySettled = ''AlreadySettled''"
| "outcome_kind_name KInternalError = ''InternalError''"

record submission_task =
  st_task_id :: int
  st_user_id :: int
  st_problem_id :: int
  st_language :: string
  st_source_code :: string
  st_viewer_is_admin :: bool
  st_submitted_at :: string
  st_rejudge_submission_id :: int
  st_in_flight_task_id :: string

datatype enqueue_status = Accepted | QueueFull | Stopped

record reservation =
  rs_ok :: bool
  rs_status :: enqueue_status

record 's item =
  it_task :: submission_task
  it_cancelled :: bool
  it_promise :: "'s submit_outcome option"

text \<open>Where a worker stands in \<open>worker_loop\<close>, with the item it holds.\<close>

datatype 's worker =
  WIdle
| WTaken nat
| WRunning nat
| WHandled nat "'s submit_outcome"
| WCompleted nat "'s submit_outcome"
| WErased nat "'s submit_outcome"
| WDelivered nat
| WExited

record 's manager =
  mg_queue_capacity :: nat
  mg_items :: "'s item list"
  mg_queue :: "nat list"
  mg_reserved :: nat
  mg_active_items :: "nat set"
  mg_stopped :: bool
  mg_workers_stop :: bool
  mg_active :: int
  mg_next_task_id :: int
  mg_accepted :: int
  mg_completed :: int
  mg_workers :: "'s worker list"
  mg_workers_joined :: bool

text \<open>
  \<open>detect_cpu_count\<close> asks the operating system: the number of online processors, else the
  hint of the thread library.
\<close>

definition detect_cpu_count :: "int \<Rightarrow> int \<Rightarrow> int" where
  "detect_cpu_count online hardware = (if 0 < online then online else if 0 < hardware then hardware else 0)"

definition compute_worker_count :: "int \<Rightarrow> int \<Rightarrow> int \<Rightarrow> int" where
  "compute_worker_count online hardware cpu_count_override =
     (let cpus = (if cpu_count_override < 0 then detect_cpu_count online hardware else cpu_count_override);
          cpus1 = (if cpus \<le> 0 then 1 else cpus)
      in if 8 < cpus1 then 8 else cpus1)"

definition manager_new :: "nat \<Rightarrow> int \<Rightarrow> 's manager" where
  "manager_new capacity workers =
     \<lparr>mg_queue_capacity = (if capacity = 0 then 1 else capacity), mg_items = [], mg_queue = [],
      mg_reserved = 0, mg_active_items = {}, mg_stopped = False, mg_workers_stop = False,
      mg_active = 0, mg_next_task_id = 1, mg_accepted = 0, mg_completed = 0,
      mg_workers = replicate (nat workers) WIdle, mg_workers_joined = False\<rparr>"

section \<open>Operations\<close>

definition assign_task_id :: "submission_task \<Rightarrow> 's manager \<Rightarrow> submission_task \<times> 's manager" where
  "assign_task_id task m =
     (if st_task_id task = 0
      then (task\<lparr>st_task_id := mg_next_task_id m\<rparr>, m\<lparr>mg_next_task_id := mg_next_task_id m + 1\<rparr>)
      else (task, m))"

definition new_item :: "submission_task \<Rightarrow> 's item" where
  "new_item task = \<lparr>it_task = task, it_cancelled = False, it_promise = None\<rparr>"

definition enqueue_item :: "'s item \<Rightarrow> 's manager \<Rightarrow> 's manager" where
  "enqueue_item it m = m\<lparr>mg_items := mg_items m @ [it], mg_queue := mg_queue m @ [length (mg_items m)]\<rparr>"

definition count_accepted :: "'s manager \<Rightarrow> 's manager" where
  "count_accepted m = m\<lparr>mg_accepted := mg_accepted m + 1\<rparr>"

text \<open>\<open>submit\<close> up to the end of its critical section; \<open>count_accepted\<close> follows when accepted.\<close>

definition submit_enter :: "submission_task \<Rightarrow> 's manager \<Rightarrow> (enqueue_status \<times> nat option) \<times> 's manager" where
  "submit_enter task0 m0 =
     (let (task, m) = assign_task_id task0 m0 in
      if mg_stopped m then ((Stopped, None), m)
      else if length (mg_queue m) + mg_reserved m \<ge> mg_queue_capacity m then ((QueueFull, None), m)
      else ((Accepted, Some (length (mg_items m))), enqueue_item (new_item task) m))"

definition submit :: "submission_task \<Rightarrow> 's manager \<Rightarrow> (enqueue_status \<times> nat option) \<times> 's manager" where
  "submit task m =
     (let (res, m') = submit_enter task m
      in (res, if fst res = Accepted then count_accepted m' else m'))"

definition reserve :: "'s manager \<Rightarrow> reservation \<times> 's manager" where
  "reserve m =
     (if mg_stopped m then (\<lparr>rs_ok = False, rs_status = Stopped\<rparr>, m)
      else if length (mg_queue m) + mg_reserved m \<ge> mg_queue_capacity m
      then (\<lparr>rs_ok = False, rs_status = QueueFull\<rparr>, m)
      else (\<lparr>rs_ok = True, rs_status = Accepted\<rparr>, m\<lparr>mg_reserved := mg_reserved m + 1\<rparr>))"

definition drop_reserved :: "'s manager \<Rightarrow> 's manager" where
  "drop_reserved m = (if 0 < mg_reserved m then m\<lparr>mg_reserved := mg_reserved m - 1\<rparr> else m)"

text \<open>
  \<open>commit\<close> up to the end of its critical section. The flag says whether \<open>accepted_\<close> is
  incremented afterwards: the early return after \<open>workers_stop_\<close> skips that.
\<close>

definition commit_enter ::
  "submission_task \<Rightarrow> reservation \<Rightarrow> 's manager \<Rightarrow> ((enqueue_status \<times> nat option) \<times> bool) \<times> 's manager" where
  "commit_enter task0 resv m0 =
     (if \<not> rs_ok resv then (((rs_status resv, None), False), m0)
      else let (task, m1) = assign_task_id task0 m0;
               m = drop_reserved m1;
               it = new_item task in
      if mg_workers_stop m then
        (((Accepted, Some (length (mg_items m))), False),
         m\<lparr>mg_items := mg_items m @ [it\<lparr>it_cancelled := True,
             it_promise := Some (make_internal_error txt_manager_reclaimed)\<rparr>]\<rparr>)
      else
        (((Accepted, Some (length (mg_items m))), True),
         enqueue_item (if mg_stopped m then it\<lparr>it_cancelled := True\<rparr> else it) m))"

definition commit ::
  "submission_task \<Rightarrow> reservation \<Rightarrow> 's manager \<Rightarrow> (enqueue_status \<times> nat option) \<times> 's manager" where
  "commit task resv m =
     (let ((res, counted), m') = commit_enter task resv m
      in (res, if counted then count_accepted m' else m'))"

definition release :: "reservation \<Rightarrow> 's manager \<Rightarrow> 's manager" where
  "release resv m = (if \<not> rs_ok resv then m else drop_reserved m)"

definition queued_count :: "'s manager \<Rightarrow> nat" where
  "queued_count m = length (mg_queue m)"

definition cancel_item :: "'s item \<Rightarrow> 's item" where
  "cancel_item it = (if \<not> it_cancelled it then it\<lparr>it_cancelled := True\<rparr> else it)"

definition cancel_all :: "'s manager \<Rightarrow> 's manager" where
  "cancel_all m = m\<lparr>mg_stopped := True,
     mg_items := map (\<lambda>i. if i \<in> set (mg_queue m) \<or> i \<in> mg_active_items m
        then cancel_item (mg_items m ! i) else mg_items m ! i) [0..<length (mg_items m)]\<rparr>"

text \<open>The second critical section of \<open>shutdown\<close>, after its call of \<open>cancel_all\<close>.\<close>

definition allow_worker_exit :: "'s manager \<Rightarrow> 's manager" where
  "allow_worker_exit m = m\<lparr>mg_workers_stop := True\<rparr>"

text \<open>
  The iterations of \<open>worker_loop\<close> by worker \<open>w\<close>: the critical section that waits for an item
  (\<open>None\<close>: the worker keeps waiting), and the actions on the item taken.
\<close>

definition set_worker :: "nat \<Rightarrow> 's worker \<Rightarrow> 's manager \<Rightarrow> 's manager" where
  "set_worker w s m = m\<lparr>mg_workers := (mg_workers m)[w := s]\<rparr>"

definition worker_take :: "nat \<Rightarrow> 's manager \<Rightarrow> 's manager option" where
  "worker_take w m =
     (if mg_queue m = [] \<and> \<not> mg_workers_stop m then None
      else case mg_queue m of
        [] \<Rightarrow> Some (set_worker w WExited m)
      | i # q \<Rightarrow> Some (set_worker w (WTaken i)
          (m\<lparr>mg_queue := q, mg_active_items := insert i (mg_active_items m)\<rparr>)))"

text \<open>The handler may return an outcome or throw: \<open>Inl (Some what)\<close> is a \<open>std::exception\<close>.\<close>

definition handler_outcome :: "string option + 's submit_outcome \<Rightarrow> 's submit_outcome" where
  "handler_outcome h =
     (case h of
        Inl (Some what) \<Rightarrow> make_internal_error (txt_task_exception @ what)
      | Inl None \<Rightarrow> make_internal_error txt_task_exception_unknown
      | Inr outcome \<Rightarrow> outcome)"

definition deliver :: "nat \<Rightarrow> 's submit_outcome \<Rightarrow> 's manager \<Rightarrow> 's manager" where
  "deliver i out m = m\<lparr>mg_items := (mg_items m)[i :=
     (case it_promise (mg_items m ! i) of
        None \<Rightarrow> (mg_items m ! i)\<lparr>it_promise := Some out\<rparr>
      | Some _ \<Rightarrow> mg_items m ! i)]\<rparr>"

text \<open>One action of worker \<open>w\<close>; \<open>h\<close> is what its handler call yields when it is running.\<close>

definition worker_action ::
  "nat \<Rightarrow> string option + 's submit_outcome \<Rightarrow> 's manager \<Rightarrow> 's manager option" where
  "worker_action w h m =
     (case mg_workers m ! w of
        WIdle \<Rightarrow> worker_take w m
      | WTaken i \<Rightarrow> Some (set_worker w (WRunning i) (m\<lparr>mg_active := mg_active m + 1\<rparr>))
      | WRunning i \<Rightarrow> Some (set_worker w (WHandled i (handler_outcome h)) m)
      | WHandled i out \<Rightarrow> Some (set_worker w (WCompleted i out) (m\<lparr>mg_completed := mg_completed m + 1\<rparr>))
      | WCompleted i out \<Rightarrow>
          Some (set_worker w (WErased i out) (m\<lparr>mg_active_items := mg_active_items m - {i}\<rparr>))
      | WErased i out \<Rightarrow> Some (set_worker w (WDelivered i) (deliver i out m))
      | WDelivered i \<Rightarrow> Some (set_worker w WIdle (m\<lparr>mg_active := mg_active m - 1\<rparr>))
      | WExited \<Rightarrow> None)"

text \<open>\<open>shutdown\<close> joins every worker, then marks them as recovered.\<close>

definition join_workers :: "'s manager \<Rightarrow> 's manager option" where
  "join_workers m = (if \<forall>w \<in> set (mg_workers m). w = WExited then Some (m\<lparr>mg_workers_joined := True\<rparr>) else None)"

section \<open>Interleaving\<close>

text \<open>
  The state of the whole: the manager, the reservations handed out and not yet used (each
  caller uses its own exactly once, as \<open>manager.h\<close> demands) and the callers that have left the
  critical section but not yet incremented \<open>accepted_\<close>.
\<close>

record 's sched =
  sc_manager :: "'s manager"
  sc_reservations :: nat
  sc_uncounted :: nat

inductive mgr_step :: "'s sched \<Rightarrow> 's sched \<Rightarrow> bool" where
  step_submit:
    "submit_enter task (sc_manager s) = ((st, x), m) \<Longrightarrow>
       mgr_step s (s\<lparr>sc_manager := m,
         sc_uncounted := (if st = Accepted then sc_uncounted s + 1 else sc_uncounted s)\<rparr>)"
| step_count:
    "0 < sc_uncounted s \<Longrightarrow>
       mgr_step s (s\<lparr>sc_manager := count_accepted (sc_manager s), sc_uncounted := sc_uncounted s - 1\<rparr>)"
| step_reserve:
    "reserve (sc_manager s) = (resv, m) \<Longrightarrow>
       mgr_step s (s\<lparr>sc_manager := m,
         sc_reservations := (if rs_ok resv then sc_reservations s + 1 else sc_reservations s)\<rparr>)"
| step_commit:
    "0 < sc_reservations s \<Longrightarrow> rs_ok resv \<Longrightarrow>
     commit_enter task resv (sc_manager s) = ((res, counted), m) \<Longrightarrow>
       mgr_step s (s\<lparr>sc_manager := m, sc_reservations := sc_reservations s - 1,
         sc_uncounted := (if counted then sc_uncounted s + 1 else sc_uncounted s)\<rparr>)"
| step_release:
    "0 < sc_reservations s \<Longrightarrow> rs_ok resv \<Longrightarrow>
       mgr_step s (s\<lparr>sc_manager := release resv (sc_manager s), sc_reservations := sc_reservations s - 1\<rparr>)"
| step_cancel_all:
    "mgr_step s (s\<lparr>sc_manager := cancel_all (sc_manager s)\<rparr>)"
| step_allow_exit:
    "mg_stopped (sc_manager s) \<Longrightarrow>
       mgr_step s (s\<lparr>sc_manager := allow_worker_exit (sc_manager s)\<rparr>)"
| step_worker:
    "w < length (mg_workers (sc_manager s)) \<Longrightarrow> worker_action w h (sc_manager s) = Some m \<Longrightarrow>
       mgr_step s (s\<lparr>sc_manager := m\<rparr>)"
| step_join:
    "mg_workers_stop (sc_manager s) \<Longrightarrow> join_workers (sc_manager s) = Some m \<Longrightarrow>
       mgr_step s (s\<lparr>sc_manager := m\<rparr>)"

definition mgr_init :: "nat \<Rightarrow> int \<Rightarrow> 's sched \<Rightarrow> bool" where
  "mgr_init capacity workers s =
     (s = \<lparr>sc_manager = manager_new capacity workers, sc_reservations = 0, sc_uncounted = 0\<rparr>)"

section \<open>Invariant\<close>

lemma sum_list_map_update:
  "w < length ws \<Longrightarrow> sum_list (map f (ws[w := x])) + f (ws ! w) = sum_list (map f ws) + (f x :: 'b :: comm_monoid_add)"
proof (induction ws arbitrary: w)
  case Nil
  then show ?case by simp
next
  case (Cons a ws)
  then show ?case by (cases w) (simp_all add: ac_simps)
qed

text \<open>The item a worker has yet to deliver, the items under execution, and what it counts for.\<close>

fun holds :: "'s worker \<Rightarrow> nat multiset" where
  "holds (WTaken i) = {#i#}"
| "holds (WRunning i) = {#i#}"
| "holds (WHandled i _) = {#i#}"
| "holds (WCompleted i _) = {#i#}"
| "holds (WErased i _) = {#i#}"
| "holds _ = {#}"

fun executing :: "'s worker \<Rightarrow> nat multiset" where
  "executing (WErased i _) = {#}"
| "executing w = holds w"

fun uncompleted :: "'s worker \<Rightarrow> int" where
  "uncompleted (WTaken _) = 1"
| "uncompleted (WRunning _) = 1"
| "uncompleted (WHandled _ _) = 1"
| "uncompleted _ = 0"

fun busy :: "'s worker \<Rightarrow> int" where
  "busy WIdle = 0"
| "busy (WTaken _) = 0"
| "busy WExited = 0"
| "busy _ = 1"

definition sum_workers :: "('s worker \<Rightarrow> 'b :: comm_monoid_add) \<Rightarrow> 's manager \<Rightarrow> 'b" where
  "sum_workers f m = sum_list (map f (mg_workers m))"

definition delivered :: "'s manager \<Rightarrow> nat \<Rightarrow> bool" where
  "delivered m i = (it_promise (mg_items m ! i) \<noteq> None)"

text \<open>Each item is waiting, in the hands of one worker, or has its result: exactly one of these.\<close>

definition inv_items :: "'s manager \<Rightarrow> bool" where
  "inv_items m = (mset (mg_queue m) + sum_workers holds m + mset (filter (delivered m) [0..<length (mg_items m)])
     = mset [0..<length (mg_items m)])"

definition inv_active :: "'s manager \<Rightarrow> bool" where
  "inv_active m = (mg_active_items m = set_mset (sum_workers executing m) \<and> mg_active m = sum_workers busy m)"

definition inv_stop :: "'s manager \<Rightarrow> bool" where
  "inv_stop m = ((mg_workers_stop m \<longrightarrow> mg_stopped m)
     \<and> (mg_stopped m \<longrightarrow> (\<forall>i \<in> set (mg_queue m) \<union> mg_active_items m. it_cancelled (mg_items m ! i)))
     \<and> (WExited \<in> set (mg_workers m) \<longrightarrow> mg_workers_stop m \<and> mg_queue m = [])
     \<and> (mg_workers_joined m \<longrightarrow> set (mg_workers m) \<subseteq> {WExited}))"

definition inv_count :: "'s sched \<Rightarrow> bool" where
  "inv_count s = (let m = sc_manager s in
     mg_accepted m + int (sc_uncounted s)
       = int (length (mg_queue m)) + sum_workers uncompleted m + mg_completed m
     \<and> mg_reserved m = sc_reservations s
     \<and> length (mg_queue m) + mg_reserved m \<le> mg_queue_capacity m \<and> 0 < mg_queue_capacity m)"

definition mgr_inv :: "'s sched \<Rightarrow> bool" where
  "mgr_inv s = (inv_items (sc_manager s) \<and> inv_active (sc_manager s) \<and> inv_stop (sc_manager s) \<and> inv_count s)"

lemma worker_actionE:
  assumes "worker_action w h m = Some m'"
  obtains
    (take) i q where "mg_workers m ! w = WIdle" "mg_queue m = i # q"
      "m' = set_worker w (WTaken i) (m\<lparr>mg_queue := q, mg_active_items := insert i (mg_active_items m)\<rparr>)"
  | (leave) "mg_workers m ! w = WIdle" "mg_queue m = []" "mg_workers_stop m" "m' = set_worker w WExited m"
  | (start) i where "mg_workers m ! w = WTaken i"
      "m' = set_worker w (WRunning i) (m\<lparr>mg_active := mg_active m + 1\<rparr>)"
  | (handled) i where "mg_workers m ! w = WRunning i" "m' = set_worker w (WHandled i (handler_outcome h)) m"
  | (completed) i out where "mg_workers m ! w = WHandled i out"
      "m' = set_worker w (WCompleted i out) (m\<lparr>mg_completed := mg_completed m + 1\<rparr>)"
  | (erase) i out where "mg_workers m ! w = WCompleted i out"
      "m' = set_worker w (WErased i out) (m\<lparr>mg_active_items := mg_active_items m - {i}\<rparr>)"
  | (delivery) i out where "mg_workers m ! w = WErased i out" "m' = set_worker w (WDelivered i) (deliver i out m)"
  | (idle) i where "mg_workers m ! w = WDelivered i"
      "m' = set_worker w WIdle (m\<lparr>mg_active := mg_active m - 1\<rparr>)"
  using assms
  by (auto simp: worker_action_def worker_take_def split: worker.splits if_splits list.splits)

lemma sum_workers_set:
  assumes "w < length (mg_workers m)"
  shows "sum_workers f (set_worker w x m) + f (mg_workers m ! w) = sum_workers f m + f x"
  using sum_list_map_update[OF assms, of f x] by (simp add: sum_workers_def set_worker_def)

lemma sum_workers_same:
  fixes f :: "'s worker \<Rightarrow> 'b :: cancel_comm_monoid_add"
  assumes "w < length (mg_workers m)" and "f x = f (mg_workers m ! w)"
  shows "sum_workers f (set_worker w x m) = sum_workers f m"
  using sum_workers_set[OF assms(1), of f x] assms(2) by simp

lemma sum_workers_int:
  fixes f :: "'s worker \<Rightarrow> int"
  assumes "w < length (mg_workers m)"
  shows "sum_workers f (set_worker w x m) = sum_workers f m + f x - f (mg_workers m ! w)"
  using sum_workers_set[OF assms, of f x] by simp

lemma sum_workers_cong [simp]:
  "sum_workers f (m\<lparr>mg_items := a\<rparr>) = sum_workers f m" "sum_workers f (m\<lparr>mg_queue := b\<rparr>) = sum_workers f m"
  "sum_workers f (m\<lparr>mg_reserved := c\<rparr>) = sum_workers f m" "sum_workers f (m\<lparr>mg_active_items := d\<rparr>) = sum_workers f m"
  "sum_workers f (m\<lparr>mg_stopped := e\<rparr>) = sum_workers f m" "sum_workers f (m\<lparr>mg_workers_stop := e\<rparr>) = sum_workers f m"
  "sum_workers f (m\<lparr>mg_active := g\<rparr>) = sum_workers f m" "sum_workers f (m\<lparr>mg_next_task_id := g\<rparr>) = sum_workers f m"
  "sum_workers f (m\<lparr>mg_accepted := g\<rparr>) = sum_workers f m" "sum_workers f (m\<lparr>mg_completed := g\<rparr>) = sum_workers f m"
  "sum_workers f (m\<lparr>mg_workers_joined := e\<rparr>) = sum_workers f m"
  by (simp_all add: sum_workers_def)

lemma set_worker_simps [simp]:
  "mg_items (set_worker w x m) = mg_items m" "mg_queue (set_worker w x m) = mg_queue m"
  "mg_reserved (set_worker w x m) = mg_reserved m" "mg_active_items (set_worker w x m) = mg_active_items m"
  "mg_stopped (set_worker w x m) = mg_stopped m" "mg_workers_stop (set_worker w x m) = mg_workers_stop m"
  "mg_active (set_worker w x m) = mg_active m" "mg_accepted (set_worker w x m) = mg_accepted m"
  "mg_completed (set_worker w x m) = mg_completed m" "mg_queue_capacity (set_worker w x m) = mg_queue_capacity m"
  "mg_workers_joined (set_worker w x m) = mg_workers_joined m"
  "mg_workers (set_worker w x m) = (mg_workers m)[w := x]"
  by (simp_all add: set_worker_def)

lemma count_upt: "count (mset [0..<n]) i = (if i < n then 1 else 0)"
  by (simp add: count_mset_set' flip: mset_set_upto_eq_mset_upto)

text \<open>An item in the hands of a worker exists, has no result yet and is held by nobody else.\<close>

lemma held_item:
  assumes "inv_items m" and "w < length (mg_workers m)" and "holds (mg_workers m ! w) = {#i#}"
  shows "i < length (mg_items m)" and "\<not> delivered m i" and "count (sum_workers holds m) i = 1"
    and "i \<notin> set (mg_queue m)"
proof -
  let ?n = "length (mg_items m)"
  have "sum_workers holds (set_worker w WIdle m) + {#i#} = sum_workers holds m"
    using sum_workers_set[OF assms(2), of holds WIdle] assms(3) by simp
  then have H: "1 \<le> count (sum_workers holds m) i"
    by (metis count_add_mset count_union add_mset_add_single le_add1 Suc_eq_plus1 add.commute)
  have eq: "count (mset (mg_queue m)) i + count (sum_workers holds m) i
      + count (mset (filter (delivered m) [0..<?n])) i = (if i < ?n then 1 else 0)"
    using assms(1) count_upt[of ?n i] unfolding inv_items_def by (metis count_union)
  show n: "i < ?n"
  proof (rule ccontr)
    assume "\<not> i < ?n"
    from eq[unfolded if_not_P[OF this]] H show False by linarith
  qed
  note eq1 = eq[unfolded if_P[OF n]]
  then show "count (sum_workers holds m) i = 1"
    using H by linarith
  have "count (mset (filter (delivered m) [0..<?n])) i = 0" "count (mset (mg_queue m)) i = 0"
    using eq1 H by linarith+
  then have "i \<notin># mset (filter (delivered m) [0..<?n])" "i \<notin># mset (mg_queue m)"
    by (simp_all only: not_in_iff)
  then show "\<not> delivered m i" "i \<notin> set (mg_queue m)"
    using n by auto
qed

lemma delivered_cong [simp]:
  "delivered (set_worker w x m) = delivered m" "delivered (m\<lparr>mg_queue := b\<rparr>) = delivered m"
  "delivered (m\<lparr>mg_active_items := d\<rparr>) = delivered m" "delivered (m\<lparr>mg_active := g\<rparr>) = delivered m"
  "delivered (m\<lparr>mg_completed := g\<rparr>) = delivered m" "delivered (m\<lparr>mg_accepted := g\<rparr>) = delivered m"
  "delivered (m\<lparr>mg_reserved := c\<rparr>) = delivered m" "delivered (m\<lparr>mg_next_task_id := g\<rparr>) = delivered m"
  "delivered (m\<lparr>mg_stopped := e\<rparr>) = delivered m" "delivered (m\<lparr>mg_workers_stop := e\<rparr>) = delivered m"
  "delivered (m\<lparr>mg_workers_joined := e\<rparr>) = delivered m"
  by (simp_all add: fun_eq_iff delivered_def)

lemma filter_or_upt:
  assumes "i < n" and "\<not> P i"
  shows "mset (filter (\<lambda>j. j = i \<or> P j) [0..<n]) = add_mset i (mset (filter P [0..<n]))"
proof -
  have "{x. x < n \<and> (x = i \<or> P x)} = insert i {x. x < n \<and> P x}"
    using assms by auto
  with assms show ?thesis by simp
qed

lemma deliver_delivered:
  assumes "i < length (mg_items m)"
  shows "filter (delivered (deliver i out m)) [0..<length (mg_items m)]
     = filter (\<lambda>j. j = i \<or> delivered m j) [0..<length (mg_items m)]"
  using assms by (intro filter_cong) (auto simp: delivered_def deliver_def nth_list_update split: option.splits)

lemma multiset_move:
  "a + b + c = (u :: 'a multiset) \<Longrightarrow> b' + {#i#} = b \<Longrightarrow> c' = add_mset i c \<Longrightarrow> a + b' + c' = u"
  by auto

lemma worker_inv_items:
  assumes "inv_items m" and "w < length (mg_workers m)" and "worker_action w h m = Some m'"
  shows "inv_items m'"
  using assms(3)
proof (cases rule: worker_actionE)
  case (delivery i out)
  have i: "i < length (mg_items m)" "\<not> delivered m i"
    using held_item[OF assms(1,2), of i] delivery by auto
  have "sum_workers holds m' + {#i#} = sum_workers holds m"
    using sum_workers_set[of w "deliver i out m" holds "WDelivered i"] assms(2) delivery
    by (simp add: deliver_def)
  moreover have "mset (filter (delivered m') [0..<length (mg_items m)])
      = add_mset i (mset (filter (delivered m) [0..<length (mg_items m)]))"
    unfolding delivery(2) delivered_cong deliver_delivered[OF i(1)]
    by (rule filter_or_upt[of i _ "delivered m", OF i])
  moreover have "mg_queue m' = mg_queue m" "length (mg_items m') = length (mg_items m)"
    by (simp_all add: delivery(2) deliver_def)
  ultimately show ?thesis
    using multiset_move[OF assms(1)[unfolded inv_items_def]] by (simp only: inv_items_def)
next
  case (take i q)
  let ?m = "m\<lparr>mg_queue := q, mg_active_items := insert i (mg_active_items m)\<rparr>"
  have "sum_workers holds m' = sum_workers holds m + {#i#}"
    using sum_workers_set[of w ?m holds "WTaken i"] assms(2) take by simp
  with assms(1) take show ?thesis by (simp add: inv_items_def)
qed (use assms(1,2) in \<open>simp_all add: inv_items_def sum_workers_same[of w _ holds]\<close>)

lemma executing_le_holds: "executing x \<subseteq># holds x"
  by (cases x) auto

lemma sum_executing_le: "sum_workers executing m \<subseteq># sum_workers holds m"
proof -
  have "sum_list (map executing ws) \<subseteq># sum_list (map holds ws)" for ws :: "'a worker list"
    by (induction ws) (auto intro: subset_mset.add_mono executing_le_holds)
  then show ?thesis by (simp add: sum_workers_def)
qed

lemma worker_inv_active:
  assumes "inv_items m" and "inv_active m" and "w < length (mg_workers m)" and "worker_action w h m = Some m'"
  shows "inv_active m'"
proof -
  note upd = sum_workers_set[OF assms(3)]
  show ?thesis
    using assms(4)
  proof (cases rule: worker_actionE)
    case (erase i out)
    have "count (sum_workers executing m) i \<le> 1"
      using held_item(3)[OF assms(1,3), of i] erase mset_subset_eq_count[OF sum_executing_le, of m i] by simp
    moreover have ex: "sum_workers executing m' + {#i#} = sum_workers executing m"
      using upd[of executing "WErased i out"] erase by (simp add: sum_workers_def)
    ultimately have "i \<notin># sum_workers executing m'"
      by (metis add_mset_add_single count_add_mset count_eq_zero_iff le_zero_eq not_less_eq_eq One_nat_def)
    then have "set_mset (sum_workers executing m') = set_mset (sum_workers executing m) - {i}"
      using ex by (metis Diff_insert_absorb add_mset_add_single set_mset_add_mset_insert)
    moreover have "sum_workers busy m' = sum_workers busy m"
      using upd[of busy "WErased i out"] erase by (simp add: sum_workers_def)
    ultimately show ?thesis
      using assms(2) erase by (simp add: inv_active_def)
  next
    case (take i q)
    then show ?thesis
      using assms(2) upd[of executing "WTaken i"] upd[of busy "WTaken i"]
      by (simp add: inv_active_def sum_workers_def)
  next
    case (delivery i out)
    then show ?thesis
      using assms(2) upd[of executing "WDelivered i"] upd[of busy "WDelivered i"]
      by (simp add: inv_active_def sum_workers_def deliver_def)
  qed (use assms(2,3) in \<open>auto simp: inv_active_def sum_workers_int sum_workers_same[of w _ executing]\<close>)
qed

lemma worker_inv_stop:
  assumes "inv_stop m" and "w < length (mg_workers m)" and "worker_action w h m = Some m'"
  shows "inv_stop m'"
proof -
  have other: "WExited \<in> set ((mg_workers m)[w := x]) \<Longrightarrow> x \<noteq> WExited \<Longrightarrow> WExited \<in> set (mg_workers m)" for x
    by (auto dest: set_update_subset_insert[THEN subsetD])
  have busy: "mg_workers m ! w \<noteq> WExited \<Longrightarrow> \<not> mg_workers_joined m"
    using assms(1,2) by (auto simp: inv_stop_def dest: nth_mem)
  show ?thesis
    using assms(3)
  proof (cases rule: worker_actionE)
    case (delivery i out)
    have "it_cancelled (((mg_items m)[i := (mg_items m ! i)\<lparr>it_promise := p\<rparr>]) ! j) = it_cancelled (mg_items m ! j)" for j p
      by (cases "i < length (mg_items m)") (auto simp: nth_list_update not_less list_update_beyond)
    then show ?thesis
      using assms(1) busy other[of "WDelivered i"] delivery
      by (auto simp: inv_stop_def deliver_def split: option.splits)
  next
    case leave
    then show ?thesis
      using assms(1) busy by (auto simp: inv_stop_def)
  qed (use assms(1) busy other in \<open>auto simp: inv_stop_def\<close>)
qed

lemma worker_inv_count:
  assumes "inv_count s" and "w < length (mg_workers (sc_manager s))"
    and "worker_action w h (sc_manager s) = Some m'"
  shows "inv_count (s\<lparr>sc_manager := m'\<rparr>)"
  using assms(3)
proof (cases rule: worker_actionE)
  case (delivery i out)
  with assms(1,2) show ?thesis
    by (auto simp: inv_count_def Let_def sum_workers_int deliver_def)
qed (use assms(1,2) in \<open>auto simp: inv_count_def Let_def sum_workers_int\<close>)

lemma delivered_append:
  "filter (delivered (m\<lparr>mg_items := mg_items m @ [it]\<rparr>)) [0..<length (mg_items m)]
     = filter (delivered m) [0..<length (mg_items m)]"
  by (intro filter_cong) (auto simp: delivered_def nth_append)

lemma inv_items_append:
  assumes "inv_items m"
  shows "it_promise it = None \<Longrightarrow> inv_items (enqueue_item it m)"
    and "it_promise it \<noteq> None \<Longrightarrow> inv_items (m\<lparr>mg_items := mg_items m @ [it]\<rparr>)"
  using assms delivered_append[of m it]
  by (auto simp: inv_items_def enqueue_item_def delivered_def[of "m\<lparr>mg_items := mg_items m @ [it]\<rparr>" "length (mg_items m)"]
      simp del: mset_filter mset_upt)

lemma cancel_all_items:
  "length (mg_items (cancel_all m)) = length (mg_items m)"
  "i < length (mg_items m) \<Longrightarrow> it_promise (mg_items (cancel_all m) ! i) = it_promise (mg_items m ! i)"
  "i < length (mg_items m) \<Longrightarrow> it_cancelled (mg_items (cancel_all m) ! i)
     = (it_cancelled (mg_items m ! i) \<or> i \<in> set (mg_queue m) \<or> i \<in> mg_active_items m)"
  by (auto simp: cancel_all_def cancel_item_def)

lemma inv_items_cancel_all: "inv_items m \<Longrightarrow> inv_items (cancel_all m)"
proof -
  assume "inv_items m"
  moreover have "filter (delivered (cancel_all m)) [0..<length (mg_items m)] = filter (delivered m) [0..<length (mg_items m)]"
    by (intro filter_cong) (auto simp: delivered_def cancel_all_items)
  moreover have "sum_workers holds (cancel_all m) = sum_workers holds m" "mg_queue (cancel_all m) = mg_queue m"
    by (simp_all add: cancel_all_def)
  ultimately show ?thesis by (simp add: inv_items_def cancel_all_items)
qed

lemma waiting_exist:
  assumes "inv_items m" and "inv_active m"
  shows "i \<in> set (mg_queue m) \<union> mg_active_items m \<Longrightarrow> i < length (mg_items m)"
proof -
  assume "i \<in> set (mg_queue m) \<union> mg_active_items m"
  then have "i \<in># mset (mg_queue m) + sum_workers holds m"
    using assms(2) mset_subset_eqD[OF sum_executing_le] by (auto simp: inv_active_def)
  then have "i \<in># mset [0..<length (mg_items m)]"
    using assms(1) unfolding inv_items_def by (metis union_iff)
  then show ?thesis by simp
qed

lemma inv_next_task_id [simp]:
  "inv_items (m\<lparr>mg_next_task_id := g\<rparr>) = inv_items m" "inv_active (m\<lparr>mg_next_task_id := g\<rparr>) = inv_active m"
  "inv_stop (m\<lparr>mg_next_task_id := g\<rparr>) = inv_stop m"
  "inv_items (m\<lparr>mg_reserved := c\<rparr>) = inv_items m" "inv_active (m\<lparr>mg_reserved := c\<rparr>) = inv_active m"
  "inv_stop (m\<lparr>mg_reserved := c\<rparr>) = inv_stop m"
  "inv_items (m\<lparr>mg_accepted := g\<rparr>) = inv_items m" "inv_active (m\<lparr>mg_accepted := g\<rparr>) = inv_active m"
  "inv_stop (m\<lparr>mg_accepted := g\<rparr>) = inv_stop m"
  by (simp_all add: inv_items_def inv_active_def inv_stop_def)

lemma assign_task_idE:
  obtains t g where "assign_task_id task m = (t, m\<lparr>mg_next_task_id := g\<rparr>)"
  by (cases "st_task_id task = 0") (auto simp: assign_task_id_def intro: that[of _ "mg_next_task_id m"])

text \<open>Adding an item to the queue keeps the invariants, if it is cancelled after a stop.\<close>

lemma inv_enqueue:
  assumes "inv_items m" "inv_active m" "inv_stop m" and "\<not> mg_workers_stop m"
    and "it_promise it = None" and "mg_stopped m \<Longrightarrow> it_cancelled it"
  shows "inv_items (enqueue_item it m)" "inv_active (enqueue_item it m)" "inv_stop (enqueue_item it m)"
proof -
  show "inv_items (enqueue_item it m)"
    using inv_items_append(1)[OF assms(1,5)] .
  show "inv_active (enqueue_item it m)"
    using assms(2) by (simp add: inv_active_def enqueue_item_def)
  have "it_cancelled ((mg_items m @ [it]) ! i)" if "mg_stopped m" "i \<in> set (mg_queue m) \<union> mg_active_items m" for i
    using waiting_exist[OF assms(1,2) that(2)] assms(3) that by (auto simp: inv_stop_def nth_append)
  then show "inv_stop (enqueue_item it m)"
    using assms(3,4,6) by (auto simp: inv_stop_def enqueue_item_def)
qed

lemma inv_append_settled:
  assumes "inv_items m" "inv_active m" "inv_stop m" and "it_promise it \<noteq> None"
  shows "inv_items (m\<lparr>mg_items := mg_items m @ [it]\<rparr>)" "inv_active (m\<lparr>mg_items := mg_items m @ [it]\<rparr>)"
    "inv_stop (m\<lparr>mg_items := mg_items m @ [it]\<rparr>)"
proof -
  show "inv_items (m\<lparr>mg_items := mg_items m @ [it]\<rparr>)"
    using inv_items_append(2)[OF assms(1,4)] .
  show "inv_active (m\<lparr>mg_items := mg_items m @ [it]\<rparr>)"
    using assms(2) by (simp add: inv_active_def)
  have "it_cancelled ((mg_items m @ [it]) ! i)" if "mg_stopped m" "i \<in> set (mg_queue m) \<union> mg_active_items m" for i
    using waiting_exist[OF assms(1,2) that(2)] assms(3) that by (auto simp: inv_stop_def nth_append)
  then show "inv_stop (m\<lparr>mg_items := mg_items m @ [it]\<rparr>)"
    using assms(3) by (auto simp: inv_stop_def)
qed

lemma submit_inv:
  assumes "mgr_inv s" and "submit_enter task (sc_manager s) = ((st, x), m)"
  shows "mgr_inv (s\<lparr>sc_manager := m,
     sc_uncounted := (if st = Accepted then sc_uncounted s + 1 else sc_uncounted s)\<rparr>)"
proof -
  obtain t g where a: "assign_task_id task (sc_manager s) = (t, (sc_manager s)\<lparr>mg_next_task_id := g\<rparr>)"
    by (rule assign_task_idE)
  let ?m = "(sc_manager s)\<lparr>mg_next_task_id := g\<rparr>"
  have "inv_items ?m" "inv_active ?m" "inv_stop ?m" and c: "inv_count s"
    using assms(1) by (simp_all add: mgr_inv_def)
  note enq = inv_enqueue[OF this(1-3), of "new_item t"]
  show ?thesis
  proof (cases "st = Accepted")
    case True
    then have m: "m = enqueue_item (new_item t) ?m" "\<not> mg_stopped ?m"
      and room: "length (mg_queue (sc_manager s)) + mg_reserved (sc_manager s) < mg_queue_capacity (sc_manager s)"
      using assms(2) by (auto simp: submit_enter_def a Let_def split: if_splits)
    then have "\<not> mg_workers_stop ?m"
      using assms(1) by (auto simp: mgr_inv_def inv_stop_def)
    with enq m room c True show ?thesis
      by (auto simp: mgr_inv_def inv_count_def Let_def new_item_def enqueue_item_def)
  next
    case False
    then have "m = ?m"
      using assms(2) by (auto simp: submit_enter_def a Let_def split: if_splits)
    with assms(1) False show ?thesis
      by (simp add: mgr_inv_def inv_count_def Let_def)
  qed
qed

lemma commit_inv:
  assumes "mgr_inv s" and "0 < sc_reservations s" and "rs_ok resv"
    and "commit_enter task resv (sc_manager s) = ((res, counted), m)"
  shows "mgr_inv (s\<lparr>sc_manager := m, sc_reservations := sc_reservations s - 1,
     sc_uncounted := (if counted then sc_uncounted s + 1 else sc_uncounted s)\<rparr>)"
proof -
  obtain t g where a: "assign_task_id task (sc_manager s) = (t, (sc_manager s)\<lparr>mg_next_task_id := g\<rparr>)"
    by (rule assign_task_idE)
  let ?m = "drop_reserved ((sc_manager s)\<lparr>mg_next_task_id := g\<rparr>)"
  have c: "inv_count s" using assms(1) by (simp add: mgr_inv_def)
  have m: "inv_items ?m" "inv_active ?m" "inv_stop ?m"
    using assms(1) by (simp_all add: mgr_inv_def drop_reserved_def)
  let ?it = "if mg_stopped ?m then (new_item t)\<lparr>it_cancelled := True\<rparr> else new_item t"
  let ?dead = "(new_item t)\<lparr>it_cancelled := True, it_promise := Some (make_internal_error txt_manager_reclaimed)\<rparr>"
  show ?thesis
  proof (cases "mg_workers_stop ?m")
    case True
    then have "m = ?m\<lparr>mg_items := mg_items ?m @ [?dead]\<rparr>" "\<not> counted"
      using assms(3,4) by (auto simp: commit_enter_def a Let_def)
    with inv_append_settled[OF m, of ?dead] c assms(2) show ?thesis
      by (auto simp: mgr_inv_def inv_count_def Let_def drop_reserved_def)
  next
    case False
    then have "m = enqueue_item ?it ?m" "counted"
      using assms(3,4) by (auto simp: commit_enter_def a Let_def)
    with inv_enqueue[OF m False, of ?it] c assms(2) show ?thesis
      by (auto simp: mgr_inv_def inv_count_def Let_def drop_reserved_def new_item_def enqueue_item_def)
  qed
qed

lemma cancel_all_inv: "mgr_inv s \<Longrightarrow> mgr_inv (s\<lparr>sc_manager := cancel_all (sc_manager s)\<rparr>)"
proof -
  assume inv: "mgr_inv s"
  let ?m = "sc_manager s"
  have m: "inv_items ?m" "inv_active ?m" using inv by (simp_all add: mgr_inv_def)
  have "inv_stop (cancel_all ?m)"
    using inv waiting_exist[OF m] cancel_all_items
    by (auto simp: mgr_inv_def inv_stop_def cancel_all_def cancel_item_def)
  with inv inv_items_cancel_all[OF m(1)] show ?thesis
    by (simp add: mgr_inv_def inv_active_def inv_count_def cancel_all_def Let_def)
qed

lemma mgr_step_inv: "mgr_step s t \<Longrightarrow> mgr_inv s \<Longrightarrow> mgr_inv t"
proof (induction rule: mgr_step.induct)
  case (step_worker w s h m)
  then show ?case
    using worker_inv_items[OF _ step_worker(1,2)] worker_inv_active[OF _ _ step_worker(1,2)]
      worker_inv_stop[OF _ step_worker(1,2)] worker_inv_count[OF _ step_worker(1,2)]
    by (simp add: mgr_inv_def)
next
  case (step_reserve s resv m)
  then show ?case
    by (auto simp: reserve_def mgr_inv_def inv_count_def Let_def split: if_splits)
next
  case (step_join s m)
  then show ?case
    by (auto simp: join_workers_def mgr_inv_def inv_items_def inv_active_def inv_stop_def inv_count_def Let_def
        split: if_splits)
next
  case (step_allow_exit s)
  then show ?case
    by (auto simp: allow_worker_exit_def mgr_inv_def inv_items_def inv_active_def inv_stop_def inv_count_def Let_def)
next
  case (step_release s resv)
  then show ?case
    by (auto simp: release_def drop_reserved_def mgr_inv_def inv_count_def Let_def)
next
  case (step_count s)
  then show ?case
    by (auto simp: count_accepted_def mgr_inv_def inv_count_def Let_def)
qed (rule submit_inv commit_inv cancel_all_inv; assumption)+

lemma sum_list_replicate_0: "sum_list (replicate n 0) = (0 :: 'b :: comm_monoid_add)"
  by (induction n) auto

lemma mgr_init_inv: "mgr_init capacity workers s \<Longrightarrow> mgr_inv s"
  by (auto simp: mgr_init_def mgr_inv_def manager_new_def inv_items_def inv_active_def inv_stop_def
      inv_count_def sum_workers_def sum_list_replicate_0)

interpretation sched: invariant_system "mgr_init capacity workers" mgr_step mgr_inv
  by unfold_locales (fact mgr_init_inv mgr_step_inv)+

lemma worker_action_workers:
  "worker_action w h m = Some m' \<Longrightarrow> length (mg_workers m') = length (mg_workers m)"
  by (erule worker_actionE) (simp_all add: deliver_def)

lemma commit_enter_workers: "mg_workers (snd (commit_enter task resv m)) = mg_workers m"
  by (auto simp: commit_enter_def assign_task_id_def drop_reserved_def enqueue_item_def Let_def)

lemma submit_enter_workers: "mg_workers (snd (submit_enter task m)) = mg_workers m"
  by (auto simp: submit_enter_def assign_task_id_def enqueue_item_def Let_def)

lemma mgr_step_workers:
  "mgr_step s t \<Longrightarrow> length (mg_workers (sc_manager t)) = length (mg_workers (sc_manager s))"
proof (induction rule: mgr_step.induct)
  case (step_submit task s st x m)
  then show ?case using submit_enter_workers[of task "sc_manager s"] by simp
next
  case (step_commit s resv task res counted m)
  then show ?case using commit_enter_workers[of task resv "sc_manager s"] by simp
qed (auto simp: count_accepted_def reserve_def release_def drop_reserved_def cancel_all_def
    allow_worker_exit_def join_workers_def dest: worker_action_workers split: if_splits)

lemma reachable_workers:
  "reachable (mgr_init c n) mgr_step s \<Longrightarrow> length (mg_workers (sc_manager s)) = nat n"
  by (induction rule: reachable.induct) (auto simp: mgr_init_def manager_new_def dest: mgr_step_workers)

lemma worker_action_promise:
  assumes "worker_action w h m = Some m'" and "it_promise (mg_items m ! i) = Some out"
  shows "it_promise (mg_items m' ! i) = Some out"
  using assms(1)
proof (cases rule: worker_actionE)
  case (delivery j o')
  with assms(2) show ?thesis
    by (cases "j < length (mg_items m)")
      (auto simp: deliver_def nth_list_update list_update_beyond not_less split: option.splits)
qed (use assms(2) in auto)

lemma mgr_step_promise:
  assumes "mgr_step s t" and "i < length (mg_items (sc_manager s))"
    and "it_promise (mg_items (sc_manager s) ! i) = Some out"
  shows "it_promise (mg_items (sc_manager t) ! i) = Some out"
  using assms
proof (induction rule: mgr_step.induct)
  case (step_submit task s st x m)
  then show ?case
    by (auto simp: submit_enter_def assign_task_id_def enqueue_item_def Let_def nth_append split: if_splits)
next
  case (step_commit s resv task res counted m)
  then show ?case
    by (auto simp: commit_enter_def assign_task_id_def drop_reserved_def enqueue_item_def Let_def nth_append
        split: if_splits)
next
  case (step_worker w s h m)
  then show ?case using worker_action_promise by fastforce
qed (auto simp: count_accepted_def reserve_def release_def drop_reserved_def allow_worker_exit_def
    join_workers_def cancel_all_items split: if_splits)

lemma all_exited_sums:
  assumes "set (mg_workers m) \<subseteq> {WExited}" and "f WExited = 0"
  shows "sum_workers f m = (0 :: 'b :: comm_monoid_add)"
proof -
  have "set ws \<subseteq> {WExited} \<Longrightarrow> sum_list (map f ws) = 0" for ws
    using assms(2) by (induction ws) auto
  then show ?thesis using assms(1) by (simp add: sum_workers_def)
qed

lemma all_exited_delivered:
  assumes "inv_items m" and "set (mg_workers m) \<subseteq> {WExited}" and "mg_queue m = []" and "i < length (mg_items m)"
  shows "delivered m i"
proof -
  have "sum_workers holds m = {#}"
    by (rule all_exited_sums[OF assms(2)]) simp
  then have "mset (filter (delivered m) [0..<length (mg_items m)]) = mset [0..<length (mg_items m)]"
    using assms(1,3) by (simp add: inv_items_def del: mset_filter mset_upt)
  then have "set (filter (delivered m) [0..<length (mg_items m)]) = set [0..<length (mg_items m)]"
    by (rule mset_eq_setD)
  moreover have "i \<in> set [0..<length (mg_items m)]"
    using assms(4) by simp
  ultimately have "i \<in> set (filter (delivered m) [0..<length (mg_items m)])"
    by blast
  then show ?thesis by (simp only: set_filter mem_Collect_eq)
qed

text \<open>What is left to do until every worker has exited, in worker actions.\<close>

fun worker_weight :: "'s worker \<Rightarrow> nat" where
  "worker_weight WIdle = 1"
| "worker_weight (WTaken _) = 7"
| "worker_weight (WRunning _) = 6"
| "worker_weight (WHandled _ _) = 5"
| "worker_weight (WCompleted _ _) = 4"
| "worker_weight (WErased _ _) = 3"
| "worker_weight (WDelivered _) = 2"
| "worker_weight WExited = 0"

definition drain_measure :: "'s manager \<Rightarrow> nat" where
  "drain_measure m = 8 * length (mg_queue m) + sum_workers worker_weight m"

lemma worker_action_drains:
  assumes "worker_action w h m = Some m'" and "w < length (mg_workers m)"
  shows "drain_measure m' < drain_measure m"
  using assms(1)
proof (cases rule: worker_actionE)
  case (take i q)
  then show ?thesis
    using sum_workers_set[of w "m\<lparr>mg_queue := q, mg_active_items := insert i (mg_active_items m)\<rparr>" worker_weight "WTaken i"]
      assms(2) by (simp add: drain_measure_def)
next
  case leave
  then show ?thesis
    using sum_workers_set[OF assms(2), of worker_weight WExited] by (simp add: drain_measure_def)
next
  case (start i)
  then show ?thesis
    using sum_workers_set[of w "m\<lparr>mg_active := mg_active m + 1\<rparr>" worker_weight "WRunning i"] assms(2)
    by (simp add: drain_measure_def)
next
  case (handled i)
  then show ?thesis
    using sum_workers_set[OF assms(2), of worker_weight "WHandled i (handler_outcome h)"]
    by (simp add: drain_measure_def)
next
  case (completed i out)
  then show ?thesis
    using sum_workers_set[of w "m\<lparr>mg_completed := mg_completed m + 1\<rparr>" worker_weight "WCompleted i out"] assms(2)
    by (simp add: drain_measure_def)
next
  case (erase i out)
  then show ?thesis
    using sum_workers_set[of w "m\<lparr>mg_active_items := mg_active_items m - {i}\<rparr>" worker_weight "WErased i out"] assms(2)
    by (simp add: drain_measure_def)
next
  case (delivery i out)
  then show ?thesis
    using sum_workers_set[of w "deliver i out m" worker_weight "WDelivered i"] assms(2)
    by (simp add: drain_measure_def deliver_def)
next
  case (idle i)
  then show ?thesis
    using sum_workers_set[of w "m\<lparr>mg_active := mg_active m - 1\<rparr>" worker_weight WIdle] assms(2)
    by (simp add: drain_measure_def)
qed

lemma worker_action_enabled:
  "mg_workers_stop m \<Longrightarrow> mg_workers m ! w \<noteq> WExited \<Longrightarrow> worker_action w h m \<noteq> None"
  by (auto simp: worker_action_def worker_take_def split: worker.splits list.splits)

lemma mgr_step_drain_mono:
  assumes "mgr_step s t" and "mgr_inv s" and "mg_workers_stop (sc_manager s)"
  shows "drain_measure (sc_manager t) \<le> drain_measure (sc_manager s) \<and> mg_workers_stop (sc_manager t)"
proof -
  have "mg_stopped (sc_manager s)" using assms(2,3) by (auto simp: mgr_inv_def inv_stop_def)
  with assms(1,3) show ?thesis
  proof (induction rule: mgr_step.induct)
    case (step_submit task s st x m)
    then show ?case
      by (auto simp: submit_enter_def assign_task_id_def drain_measure_def Let_def split: if_splits)
  next
    case (step_commit s resv task res counted m)
    then show ?case
      by (auto simp: commit_enter_def assign_task_id_def drop_reserved_def drain_measure_def Let_def split: if_splits)
  next
    case (step_worker w s h m)
    have "mg_workers_stop m" using step_worker(2,3)
      by (cases rule: worker_actionE) (simp_all add: deliver_def)
    with worker_action_drains[OF step_worker(2,1)] show ?case by simp
  qed (auto simp: count_accepted_def reserve_def release_def drop_reserved_def cancel_all_def
    allow_worker_exit_def join_workers_def drain_measure_def split: if_splits)
qed

section \<open>Properties\<close>

text \<open>
  Examples: a scheduler for two waiting tasks with one worker, and a run of it in which one task
  is accepted, the service stops, and the worker executes the task and exits.
\<close>

definition demo_submission :: submission_task where
  "demo_submission = \<lparr>st_task_id = 0, st_user_id = 1, st_problem_id = 1001, st_language = ''cpp17'',
     st_source_code = ''x'', st_viewer_is_admin = False, st_submitted_at = [], st_rejudge_submission_id = 0,
     st_in_flight_task_id = []\<rparr>"

definition demo_sched :: "unit sched" where
  "demo_sched = \<lparr>sc_manager = manager_new 2 1, sc_reservations = 0, sc_uncounted = 0\<rparr>"

definition demo_stopped :: "unit sched" where
  "demo_stopped = \<lparr>sc_manager = allow_worker_exit (cancel_all (snd (submit demo_submission (manager_new 2 1)))),
     sc_reservations = 0, sc_uncounted = 0\<rparr>"

definition demo_worker :: "unit manager \<Rightarrow> unit manager" where
  "demo_worker m = (case worker_action 0 (Inl None) m of Some m' \<Rightarrow> m' | None \<Rightarrow> m)"

definition demo_drained :: "unit sched" where
  "demo_drained = demo_stopped\<lparr>sc_manager := (demo_worker ^^ 8) (sc_manager demo_stopped)\<rparr>"

lemmas demo_eval = demo_drained_def demo_stopped_def demo_worker_def queued_count_def allow_worker_exit_def
  cancel_all_def submit_def submit_enter_def manager_new_def assign_task_id_def enqueue_item_def
  count_accepted_def demo_submission_def worker_action_def worker_take_def set_worker_def deliver_def

lemma demo_stopped_reachable: "reachable (mgr_init 2 1) mgr_step demo_stopped"
proof -
  let ?m = "manager_new 2 1 :: unit manager"
  let ?m1 = "snd (submit_enter demo_submission ?m)"
  have 0: "reachable (mgr_init 2 1) mgr_step demo_sched"
    by (rule reachable_init) (simp add: mgr_init_def demo_sched_def)
  have sub: "submit_enter demo_submission ?m = ((Accepted, Some 0), ?m1)"
    by (simp add: submit_enter_def assign_task_id_def manager_new_def demo_submission_def)
  have 1: "reachable (mgr_init 2 1) mgr_step (demo_sched\<lparr>sc_manager := ?m1, sc_uncounted := 1\<rparr>)"
    using reachable_step[OF 0 step_submit[of demo_submission demo_sched Accepted "Some 0" ?m1]] sub
    by (simp add: demo_sched_def)
  have 2: "reachable (mgr_init 2 1) mgr_step (demo_sched\<lparr>sc_manager := count_accepted ?m1\<rparr>)"
    using reachable_step[OF 1 step_count] by (simp add: demo_sched_def)
  have 3: "reachable (mgr_init 2 1) mgr_step (demo_sched\<lparr>sc_manager := cancel_all (count_accepted ?m1)\<rparr>)"
    using reachable_step[OF 2 step_cancel_all] by (simp add: demo_sched_def)
  have 4: "reachable (mgr_init 2 1) mgr_step
      (demo_sched\<lparr>sc_manager := allow_worker_exit (cancel_all (count_accepted ?m1))\<rparr>)"
    using reachable_step[OF 3 step_allow_exit] by (simp add: demo_sched_def cancel_all_def)
  have "submit demo_submission ?m = ((Accepted, Some 0), count_accepted ?m1)"
    unfolding submit_def by (subst sub) simp
  with 4 show ?thesis
    by (simp add: demo_stopped_def demo_sched_def)
qed

lemma demo_worker_reachable:
  assumes "reachable (mgr_init 2 1) mgr_step s"
  shows "reachable (mgr_init 2 1) mgr_step (s\<lparr>sc_manager := (demo_worker ^^ n) (sc_manager s)\<rparr>)"
proof (induction n)
  case 0
  show ?case using assms by simp
next
  case (Suc n)
  let ?t = "s\<lparr>sc_manager := (demo_worker ^^ n) (sc_manager s)\<rparr>"
  show ?case
  proof (cases "worker_action 0 (Inl None) (sc_manager ?t)")
    case None
    then have "demo_worker (sc_manager ?t) = sc_manager ?t"
      by (simp only: demo_worker_def option.case)
    with Suc show ?thesis by simp
  next
    case (Some m)
    moreover have "length (mg_workers (sc_manager ?t)) = 1"
      using reachable_workers[OF Suc] by simp
    ultimately have "mgr_step ?t (?t\<lparr>sc_manager := m\<rparr>)"
      by (intro step_worker[of 0 _ "Inl None"]) simp_all
    moreover have "demo_worker (sc_manager ?t) = m"
      using Some by (simp only: demo_worker_def option.case)
    ultimately show ?thesis
      using reachable_step[OF Suc] by simp
  qed
qed

lemma demo_drained_reachable: "reachable (mgr_init 2 1) mgr_step demo_drained"
  using demo_worker_reachable[OF demo_stopped_reachable, of 8] by (simp add: demo_drained_def)

text \<open>
  C7: the queue is bounded under every interleaving of callers and workers: waiting tasks plus
  reserved slots never exceed the capacity, the reserved counter is exactly the number of
  reservations not yet used, the active counter is the number of workers between starting a task
  and having delivered it, and every accepted task is waiting, being executed or completed.
\<close>

theorem manager_bounded:
  assumes "reachable (mgr_init capacity workers) mgr_step s"
  shows "queued_count (sc_manager s) + mg_reserved (sc_manager s) \<le> mg_queue_capacity (sc_manager s)
    \<and> mg_reserved (sc_manager s) = sc_reservations s
    \<and> mg_active (sc_manager s) = sum_workers busy (sc_manager s)
    \<and> mg_accepted (sc_manager s) + int (sc_uncounted s) = int (queued_count (sc_manager s))
        + sum_workers uncompleted (sc_manager s) + mg_completed (sc_manager s)"
  using sched.inv_reachable[OF assms]
  by (simp add: mgr_inv_def inv_count_def inv_active_def Let_def queued_count_def)

theorem manager_bounded_witness:
  "queued_count (sc_manager demo_stopped) + mg_reserved (sc_manager demo_stopped)
     \<le> mg_queue_capacity (sc_manager demo_stopped) \<and> queued_count (sc_manager demo_stopped) = 1"
  using manager_bounded[OF demo_stopped_reachable]
  by (simp add: demo_eval)

text \<open>
  A result channel is fulfilled at most once: in no step of any caller or worker does a result
  that was delivered for a task change or disappear.
\<close>

theorem promise_set_once:
  assumes "mgr_step s t" and "i < length (mg_items (sc_manager s))"
    and "it_promise (mg_items (sc_manager s) ! i) = Some out"
  shows "it_promise (mg_items (sc_manager t) ! i) = Some out"
  using assms by (rule mgr_step_promise)

theorem promise_set_once_witness:
  "it_promise (mg_items (cancel_all (sc_manager demo_drained)) ! 0)
     = Some (make_internal_error txt_task_exception_unknown)"
proof -
  have "mg_items (sc_manager demo_drained) \<noteq> []
      \<and> it_promise (mg_items (sc_manager demo_drained) ! 0) = Some (make_internal_error txt_task_exception_unknown)"
    by (simp add: eval_nat_numeral demo_eval new_item_def cancel_item_def handler_outcome_def)
  then show ?thesis
    using promise_set_once[OF step_cancel_all[of demo_drained], of 0] by simp
qed

text \<open>
  C8: no accepted task is lost by a shutdown. Once every worker has exited, in any reachable
  state of a scheduler with at least one worker, the queue is empty, nothing is active, every
  item ever created carries exactly one result, and (once the callers have counted their
  acceptances) as many tasks were completed as were accepted.
\<close>

theorem manager_drained:
  assumes "reachable (mgr_init capacity workers) mgr_step s" and "0 < workers"
    and "set (mg_workers (sc_manager s)) \<subseteq> {WExited}"
  shows "mg_queue (sc_manager s) = [] \<and> mg_active_items (sc_manager s) = {} \<and> mg_active (sc_manager s) = 0
    \<and> list_all (\<lambda>it. it_promise it \<noteq> None) (mg_items (sc_manager s))
    \<and> mg_accepted (sc_manager s) + int (sc_uncounted s) = mg_completed (sc_manager s)"
proof -
  let ?m = "sc_manager s"
  have inv: "inv_items ?m" "inv_active ?m" "inv_stop ?m" "inv_count s"
    using sched.inv_reachable[OF assms(1)] by (simp_all add: mgr_inv_def)
  have "mg_workers ?m \<noteq> []" using reachable_workers[OF assms(1)] assms(2) by auto
  then have "WExited \<in> set (mg_workers ?m)" using assms(3) by (cases "mg_workers ?m") auto
  then have q: "mg_queue ?m = []" using inv(3) by (simp add: inv_stop_def)
  note sums = all_exited_sums[OF assms(3)]
  have "mg_active_items ?m = {}" "mg_active ?m = 0"
    using inv(2) sums[of executing] sums[of busy] by (simp_all add: inv_active_def)
  moreover have "list_all (\<lambda>it. it_promise it \<noteq> None) (mg_items ?m)"
    using all_exited_delivered[OF inv(1) assms(3) q] by (simp add: list_all_length delivered_def)
  ultimately show ?thesis
    using q inv(4) sums[of uncompleted] by (simp add: inv_count_def Let_def)
qed

theorem manager_drained_witness:
  "set (mg_workers (sc_manager demo_drained)) \<subseteq> {WExited} \<and> mg_accepted (sc_manager demo_drained) = 1
     \<and> mg_completed (sc_manager demo_drained) = 1 \<and> mg_queue (sc_manager demo_drained) = []"
proof -
  have "mg_workers (sc_manager demo_drained) = [WExited] \<and> mg_accepted (sc_manager demo_drained) = 1"
    by (simp add: eval_nat_numeral demo_eval)
  then have ex: "set (mg_workers (sc_manager demo_drained)) \<subseteq> {WExited}" "mg_accepted (sc_manager demo_drained) = 1"
      "sc_uncounted demo_drained = 0"
    by (simp_all add: demo_drained_def demo_stopped_def)
  then show ?thesis
    using manager_drained[OF demo_drained_reachable _ ex(1)] by simp
qed

text \<open>
  C9: a shutdown ends. After the workers may exit, every worker that has not exited has an enabled
  action whatever its handler does, each such action decreases the remaining work, and no step of
  anybody increases it or takes the permission back, so that the joins of \<open>shutdown\<close> return.
\<close>

theorem shutdown_progress:
  assumes "reachable (mgr_init capacity workers) mgr_step s" and "mg_workers_stop (sc_manager s)"
  shows "(\<forall>w h. w < length (mg_workers (sc_manager s)) \<longrightarrow> mg_workers (sc_manager s) ! w \<noteq> WExited \<longrightarrow>
       (\<exists>m'. worker_action w h (sc_manager s) = Some m' \<and> drain_measure m' < drain_measure (sc_manager s)))
    \<and> (\<forall>t. mgr_step s t \<longrightarrow> drain_measure (sc_manager t) \<le> drain_measure (sc_manager s)
         \<and> mg_workers_stop (sc_manager t))"
proof -
  have "\<exists>m'. worker_action w h (sc_manager s) = Some m' \<and> drain_measure m' < drain_measure (sc_manager s)"
    if "w < length (mg_workers (sc_manager s))" "mg_workers (sc_manager s) ! w \<noteq> WExited" for w h
    using worker_action_enabled[OF assms(2) that(2)] worker_action_drains that(1) by blast
  then show ?thesis
    using mgr_step_drain_mono[OF _ sched.inv_reachable[OF assms(1)] assms(2)] by blast
qed

theorem shutdown_progress_witness:
  "\<exists>m'. worker_action 0 (Inl None) (sc_manager demo_stopped) = Some m'
     \<and> drain_measure m' < drain_measure (sc_manager demo_stopped)"
proof -
  have "mg_workers_stop (sc_manager demo_stopped) \<and> mg_workers (sc_manager demo_stopped) = [WIdle]"
    by (simp add: demo_eval)
  then show ?thesis
    using shutdown_progress[OF demo_stopped_reachable] by auto
qed

text \<open>
  After a stop every task that is waiting or being executed carries a set cancellation token,
  also one whose reservation was committed after the stop.
\<close>

theorem stopped_tasks_cancelled:
  assumes "reachable (mgr_init capacity workers) mgr_step s" and "mg_stopped (sc_manager s)"
    and "i \<in> set (mg_queue (sc_manager s)) \<union> mg_active_items (sc_manager s)"
  shows "it_cancelled (mg_items (sc_manager s) ! i)"
  using sched.inv_reachable[OF assms(1)] assms(2,3) by (auto simp: mgr_inv_def inv_stop_def)

theorem stopped_tasks_cancelled_witness: "it_cancelled (mg_items (sc_manager demo_stopped) ! 0)"
proof -
  have "mg_stopped (sc_manager demo_stopped) \<and> mg_queue (sc_manager demo_stopped) = [0]"
    by (simp add: demo_eval)
  then show ?thesis
    using stopped_tasks_cancelled[OF demo_stopped_reachable, of 0] by simp
qed

text \<open>
  The number of worker threads is between 1 and 8 whatever the operating system reports, and
  an explicit value in that range is used as it is.
\<close>

lemma worker_count_bounds:
  "1 \<le> compute_worker_count online hardware n \<and> compute_worker_count online hardware n \<le> 8
   \<and> (1 \<le> n \<and> n \<le> 8 \<longrightarrow> compute_worker_count online hardware n = n)"
  by (auto simp: compute_worker_count_def detect_cpu_count_def Let_def)


end
