(* ===== verification/OJ_Submit.thy ===== *)
theory OJ_Submit
  imports OJ_Submissions OJ_Judge_Manager
begin

text \<open>
  The submission service (\<open>submit/submit.cpp\<close>): accepting a task (\<open>persist_in_flight\<close>), judging a
  snapshot outside any transaction and settling the result with the progress of the user in one
  transaction. The library's \<open>json::dump\<close> is a parameter that may throw; the judging engine is that
  of \<open>OJ_Judge_Engine\<close>; what other threads do to the database while the engine runs is an
  arbitrary function on the connection.
\<close>

section \<open>Input of a submission\<close>

definition parse_submission_language :: "string \<Rightarrow> string option" where
  "parse_submission_language s =
     (let lowered = to_lower s in
      if lowered = ''cpp17'' then Some ''cpp17'' else if lowered = ''c11'' then Some ''c11'' else None)"

definition max_source_bytes :: nat where
  "max_source_bytes = 64 * 1024"

definition validate_source_code :: "string \<Rightarrow> string + unit" where
  "validate_source_code code =
     (if max_source_bytes < length code
      then Inl (txt_source_too_long @ nat_to_string max_source_bytes @ txt_source_bytes)
      else if list_all isspace code then Inl txt_source_empty
      else Inr ())"

section \<open>Results per test point\<close>

definition flag_field :: "bool \<Rightarrow> string \<Rightarrow> json \<Rightarrow> (string \<times> json) list" where
  "flag_field b key v = (if b then [(key, v)] else [])"

definition per_case_entry :: "judge_task \<Rightarrow> testcase_result \<Rightarrow> json" where
  "per_case_entry task item = JObject (
     [(''index'', JInt (tr_index item)),
      (''status'', JString (judge_status_name (tr_status item))),
      (''time_ms'', JInt (tr_time_ms item)),
      (''memory_kb'', if 0 < tr_memory_kb item then JInt (tr_memory_kb item) else JNull)]
     @ flag_field (tr_global_deadline_hit item) ''global_deadline_hit'' (JBool True)
     @ flag_field (tr_output_truncated item) ''output_truncated'' (JBool True)
     @ (if tr_status item \<noteq> AC then
          [(''reason'', JString (termination_reason_name (tr_termination item)))]
          @ flag_field (tr_sanitizer_error item) ''sanitizer_error'' (JBool True)
          @ [(''exit_code'', JInt (tr_exit_code item)), (''term_signal'', JInt (tr_term_signal item))]
          @ flag_field (tr_message item \<noteq> []) ''message'' (JString (tr_message item))
          @ [(''actual_output'', JString (tr_actual_output item))]
          @ flag_field (tr_stderr_output item \<noteq> []) ''stderr_output'' (JString (tr_stderr_output item))
          @ (if tr_status item = WA \<and> 0 \<le> tr_index item \<and> nat (tr_index item) < length (jt_testcases task)
             then [(''input'', JString (tc_input (jt_testcases task ! nat (tr_index item)))),
                   (''expected_output'', JString (tc_output (jt_testcases task ! nat (tr_index item))))]
             else [])
        else []))"

definition build_per_case_json :: "judge_task \<Rightarrow> judge_result \<Rightarrow> json" where
  "build_per_case_json task r = JArray (map (per_case_entry task) (jr_cases r))"

section \<open>Progress of the user\<close>

record status_state =
  ss_has_record :: bool
  ss_accepted :: bool
  ss_first_ac_at :: string
  ss_submit_count :: int

record status_update =
  su_accepted :: bool
  su_has_first_ac_at :: bool
  su_first_ac_at :: string
  su_submit_count :: int

definition compute_status_update :: "status_state \<Rightarrow> bool \<Rightarrow> string \<Rightarrow> status_update" where
  "compute_status_update cur accepted time =
     (let n = ss_submit_count cur + 1 in
      if ss_accepted cur then
        let best = (if accepted \<and> time \<noteq> [] \<and> (ss_first_ac_at cur = [] \<or> time < ss_first_ac_at cur)
                    then time else ss_first_ac_at cur) in
        if best \<noteq> [] then \<lparr>su_accepted = True, su_has_first_ac_at = True, su_first_ac_at = best, su_submit_count = n\<rparr>
        else \<lparr>su_accepted = True, su_has_first_ac_at = False, su_first_ac_at = [], su_submit_count = n\<rparr>
      else if accepted then
        \<lparr>su_accepted = True, su_has_first_ac_at = True, su_first_ac_at = time, su_submit_count = n\<rparr>
      else \<lparr>su_accepted = False, su_has_first_ac_at = False, su_first_ac_at = [], su_submit_count = n\<rparr>)"

section \<open>Accepting a task\<close>

datatype persist_error = PersistProblemNotFound | PersistInternalError

text \<open>The default-constructed task with the fields that \<open>persist_in_flight\<close> fills in.\<close>

definition new_in_flight :: "int \<Rightarrow> int \<Rightarrow> string \<Rightarrow> string \<Rightarrow> string \<Rightarrow> in_flight_task" where
  "new_in_flight uid pid language source submitted_at =
     \<lparr>ft_id = 0, ft_task_id = [], ft_user_id = uid, ft_problem_id = pid, ft_language = language,
      ft_source_code = source, ft_submitted_at = submitted_at, ft_state = [], ft_reason = []\<rparr>"

definition persist_body ::
  "(nat \<Rightarrow> string) \<Rightarrow> string \<Rightarrow> int \<Rightarrow> int \<Rightarrow> string \<Rightarrow> string \<Rightarrow> string \<Rightarrow> (persist_error, string) dbm" where
  "persist_body ids now uid pid language source submitted_at =
     db_bind (db_map_error (\<lambda>_. PersistInternalError) (problem_find_by_id pid)) (\<lambda>found.
     if found = None then db_fail PersistProblemNotFound
     else db_bind (db_map_error (\<lambda>_. PersistInternalError) (in_flight_insert ids
            (new_in_flight uid pid language source (if submitted_at = [] then now else submitted_at)))) (\<lambda>(k, i).
     db_ret (ft_task_id k)))"

definition persist_in_flight ::
  "(nat \<Rightarrow> string) \<Rightarrow> string \<Rightarrow> int \<Rightarrow> int \<Rightarrow> string \<Rightarrow> string \<Rightarrow> string \<Rightarrow> (persist_error, string) dbm" where
  "persist_in_flight ids now uid pid language source submitted_at =
     with_txn (\<lambda>_. PersistInternalError) (persist_body ids now uid pid language source submitted_at)"

definition settle_interrupted :: "string \<Rightarrow> string \<Rightarrow> db \<Rightarrow> db" where
  "settle_interrupted task_id reason d =
     (if task_id = [] then d else snd (with_txn id (mark_interrupted task_id reason) d))"

definition discard_in_flight :: "string \<Rightarrow> db \<Rightarrow> db" where
  "discard_in_flight task_id = settle_interrupted task_id txt_enqueue_failed"

section \<open>Judging and settling\<close>

type_synonym outcome = "submission_row submit_outcome"

definition outcome_of :: "outcome_kind \<Rightarrow> string \<Rightarrow> outcome" where
  "outcome_of kind error = \<lparr>so_kind = kind, so_submission = None, so_judge = default_judge_result, so_error = error\<rparr>"

text \<open>The snapshot that the engine judges.\<close>

definition judge_task_of :: "string \<Rightarrow> string \<Rightarrow> problem_record \<Rightarrow> testcase_record list \<Rightarrow> judge_task" where
  "judge_task_of language source p records =
     \<lparr>jt_language = language, jt_source_code = source,
      jt_testcases = map (\<lambda>c. \<lparr>tc_input = tz_input c, tc_output = tz_output c\<rparr>) records,
      jt_time_limit_ms = pr_time_limit_ms p, jt_memory_limit_kb = pr_memory_limit_kb p\<rparr>"

text \<open>The reading phase: an outcome that ends the call, or the task to judge.\<close>

definition submit_read :: "submission_task \<Rightarrow> db \<Rightarrow> (outcome + judge_task) \<times> db" where
  "submit_read k d =
     (case problem_find_by_id (st_problem_id k) d of
        (Inl e, d1) \<Rightarrow> (Inl (outcome_of KInternalError txt_internal_error), d1)
      | (Inr None, d1) \<Rightarrow>
          (Inl (outcome_of KProblemNotFound []), settle_interrupted (st_in_flight_task_id k) txt_problem_gone d1)
      | (Inr (Some p), d1) \<Rightarrow>
          if \<not> pr_visible p \<and> \<not> st_viewer_is_admin k \<and> st_in_flight_task_id k = []
          then (Inl (outcome_of KProblemNotFound []), d1)
          else (case list_testcases (st_problem_id k) d1 of
              (Inl e, d2) \<Rightarrow> (Inl (outcome_of KInternalError txt_internal_error), d2)
            | (Inr records, d2) \<Rightarrow> (Inr (judge_task_of (st_language k) (st_source_code k) p records), d2)))"

text \<open>An exception of the engine becomes a SYSERR result (\<open>try\<close> and \<open>catch\<close> around \<open>judge\<close>).\<close>

definition judged :: "judge_task \<Rightarrow> exn + judge_result \<Rightarrow> judge_result" where
  "judged task res =
     (case res of
        Inr r \<Rightarrow> r
      | Inl what \<Rightarrow> default_judge_result\<lparr>jr_status := SYSERR, jr_total := int (length (jt_testcases task)),
          jr_message := txt_judge_internal @ what\<rparr>)"

definition total_runtime_ms :: "judge_result \<Rightarrow> int" where
  "total_runtime_ms r = sum_list (map tr_time_ms (jr_cases r))"

definition peak_memory_kb :: "judge_result \<Rightarrow> int" where
  "peak_memory_kb r = foldl (\<lambda>m c. if m < tr_memory_kb c then tr_memory_kb c else m) 0 (jr_cases r)"

definition submission_record :: "submission_task \<Rightarrow> string \<Rightarrow> judge_result \<Rightarrow> string \<Rightarrow> submission_row" where
  "submission_record k now r per_case =
     \<lparr>sb_id = 0, sb_user_id = st_user_id k, sb_problem_id = st_problem_id k, sb_language = st_language k,
      sb_source_code = st_source_code k, sb_status = judge_status_name (jr_status r), sb_per_case = per_case,
      sb_compile_msg = jr_compile_output r, sb_runtime_ms = total_runtime_ms r, sb_memory_kb = peak_memory_kb r,
      sb_created_at = (if st_submitted_at k = [] then now else st_submitted_at k)\<rparr>"

datatype settle_error = SettleProblemNotFound | SettleAlreadySettled | SettleInternalError

definition state_of_record :: "status_record option \<Rightarrow> status_state" where
  "state_of_record found =
     (case found of
        None \<Rightarrow> \<lparr>ss_has_record = False, ss_accepted = False, ss_first_ac_at = [], ss_submit_count = 0\<rparr>
      | Some r \<Rightarrow> \<lparr>ss_has_record = True, ss_accepted = sr_accepted r, ss_first_ac_at = sr_first_ac_at r,
          ss_submit_count = sr_submit_count r\<rparr>)"

text \<open>Steps after the recheck: write the submission, then the progress of the user.\<close>

definition settle_write :: "submission_row \<Rightarrow> bool \<Rightarrow> (settle_error, int) dbm" where
  "settle_write rec accepted =
     db_map_error (\<lambda>_. SettleInternalError)
       (db_bind (submission_insert rec) (\<lambda>new_id.
        db_bind (status_find (sb_user_id rec) (sb_problem_id rec)) (\<lambda>found.
        let upd = compute_status_update (state_of_record found) accepted (sb_created_at rec) in
        db_bind (status_upsert (sb_user_id rec) (sb_problem_id rec) (su_accepted upd) (su_has_first_ac_at upd)
          (su_first_ac_at upd) (su_submit_count upd)) (\<lambda>_.
        db_ret new_id))))"

text \<open>
  The body of the settling transaction: \<open>None\<close> when the problem has vanished and the accepted task
  was marked as interrupted, else the id of the new submission.
\<close>

definition settle_body :: "string \<Rightarrow> submission_row \<Rightarrow> bool \<Rightarrow> (settle_error, int option) dbm" where
  "settle_body tid rec accepted =
     db_bind (db_map_error (\<lambda>_. SettleInternalError) (problem_find_by_id (sb_problem_id rec))) (\<lambda>found.
     if found = None then
       (if tid = [] then db_fail SettleProblemNotFound
        else db_bind (db_map_error (\<lambda>_. SettleInternalError) (mark_interrupted tid txt_problem_gone)) (\<lambda>_. db_ret None))
     else
       db_bind (if tid = [] then db_ret ()
         else db_bind (db_map_error (\<lambda>_. SettleInternalError) (remove_by_task_id tid)) (\<lambda>removed.
                if removed then db_ret () else db_fail SettleAlreadySettled)) (\<lambda>_.
       db_bind (settle_write rec accepted) (\<lambda>new_id. db_ret (Some new_id))))"

definition settle :: "string \<Rightarrow> submission_row \<Rightarrow> bool \<Rightarrow> (settle_error, int option) dbm" where
  "settle tid rec accepted = with_txn (\<lambda>_. SettleInternalError) (settle_body tid rec accepted)"

definition settle_outcome :: "submission_row \<Rightarrow> judge_result \<Rightarrow> settle_error + int option \<Rightarrow> outcome" where
  "settle_outcome rec r res =
     (case res of
        Inl SettleProblemNotFound \<Rightarrow> outcome_of KProblemNotFound []
      | Inl SettleAlreadySettled \<Rightarrow> outcome_of KAlreadySettled txt_already_settled
      | Inl SettleInternalError \<Rightarrow> outcome_of KInternalError txt_internal_error
      | Inr None \<Rightarrow> outcome_of KProblemNotFound []
      | Inr (Some i) \<Rightarrow> \<lparr>so_kind = KOk, so_submission = Some (rec\<lparr>sb_id := i\<rparr>), so_judge = r, so_error = []\<rparr>)"

text \<open>
  \<open>SubmitService::submit\<close>. The parameters are those of the task that the scheduler hands over;
  \<open>others\<close> is what happens to the database while the engine runs, \<open>now\<close> the clock.
  \<open>dump\<close> may throw, which leaves the function: nothing around it catches the exception.
\<close>

definition service_submit ::
  "'w judge_env \<Rightarrow> judge_options \<Rightarrow> (json \<Rightarrow> exn + string) \<Rightarrow> string \<Rightarrow> (db \<Rightarrow> db) \<Rightarrow> submission_task \<Rightarrow> db \<times> 'w
     \<Rightarrow> (string option + outcome) \<times> db \<times> 'w" where
  "service_submit env opts dump now others k dw =
     (case dw of (d, w) \<Rightarrow>
      case submit_read k d of
        (Inl out, d1) \<Rightarrow> (Inr out, d1, w)
      | (Inr task, d1) \<Rightarrow>
          (case judge env opts task w of (res, w1) \<Rightarrow>
             let r = judged task res; d2 = others d1 in
             case dump (build_per_case_json task r) of
               Inl what \<Rightarrow> (Inl (Some what), d2, w1)
             | Inr per_case \<Rightarrow>
                 let rec = submission_record k now r per_case in
                 (case settle (st_in_flight_task_id k) rec (jr_status r = AC) d2 of
                    (sr, d3) \<Rightarrow> (Inr (settle_outcome rec r sr), d3, w1))))"

section \<open>The progress computed from a sequence of submissions\<close>

definition no_progress :: status_state where
  "no_progress = \<lparr>ss_has_record = False, ss_accepted = False, ss_first_ac_at = [], ss_submit_count = 0\<rparr>"

definition state_of_update :: "status_update \<Rightarrow> status_state" where
  "state_of_update u = \<lparr>ss_has_record = True, ss_accepted = su_accepted u, ss_first_ac_at = su_first_ac_at u,
     ss_submit_count = su_submit_count u\<rparr>"

text \<open>The states after settling submissions (accepted or not, with their times) one after another.\<close>

definition settle_sequence :: "(bool \<times> string) list \<Rightarrow> status_state" where
  "settle_sequence subs = foldl (\<lambda>st (acc, time). state_of_update (compute_status_update st acc time)) no_progress subs"

definition ac_times :: "(bool \<times> string) list \<Rightarrow> string list" where
  "ac_times subs = map snd (filter fst subs)"

lemma ac_times_snoc: "ac_times (subs @ [(acc, time)]) = ac_times subs @ (if acc then [time] else [])"
  by (simp add: ac_times_def)

lemma settle_sequence_snoc:
  "settle_sequence (subs @ [(acc, time)]) = state_of_update (compute_status_update (settle_sequence subs) acc time)"
  by (simp add: settle_sequence_def)

lemma settle_sequence_state:
  assumes "\<forall>time \<in> set (ac_times subs). time \<noteq> []"
  shows "ss_submit_count (settle_sequence subs) = int (length subs)
    \<and> (ss_accepted (settle_sequence subs) \<longleftrightarrow> ac_times subs \<noteq> [])
    \<and> ss_first_ac_at (settle_sequence subs) = (if ac_times subs = [] then [] else Min (set (ac_times subs)))"
  using assms
proof (induction subs rule: rev_induct)
  case Nil
  show ?case by (simp add: settle_sequence_def no_progress_def ac_times_def)
next
  case (snoc x subs)
  obtain acc time where x: "x = (acc, time)" by force
  let ?s = "settle_sequence subs"
  have times: "ac_times (subs @ [x]) = ac_times subs @ (if acc then [time] else [])" by (simp add: ac_times_snoc x)
  have IH: "ss_submit_count ?s = int (length subs)" "ss_accepted ?s \<longleftrightarrow> ac_times subs \<noteq> []"
    "ss_first_ac_at ?s = (if ac_times subs = [] then [] else Min (set (ac_times subs)))"
    using snoc by (auto simp: times)
  have ne: "acc \<Longrightarrow> time \<noteq> []" using snoc.prems by (auto simp: times)
  have Min_ne: "ac_times subs \<noteq> [] \<Longrightarrow> Min (set (ac_times subs)) \<noteq> []"
    using snoc.prems Min_in[of "set (ac_times subs)"] by (auto simp: times)
  show ?case
  proof (cases "ac_times subs = []")
    case True
    with IH ne show ?thesis
      by (cases acc) (simp_all add: x settle_sequence_snoc compute_status_update_def state_of_update_def ac_times_snoc)
  next
    case False
    define m where "m = Min (set (ac_times subs))"
    have "Min (insert time (set (ac_times subs))) = min time m" using False by (simp add: m_def)
    with False IH(1,2) IH(3)[folded m_def] ne Min_ne[OF False, folded m_def] show ?thesis
      by (cases acc; cases "time < m")
        (simp_all add: x settle_sequence_snoc compute_status_update_def state_of_update_def ac_times_snoc Let_def min_def
          m_def[symmetric] less_imp_le)
  qed
qed

text \<open>
  C13: the progress of a user does not depend on the order in which concurrent submissions
  finish. After any sequence of settled submissions the count is their number, the problem is
  accepted exactly if one of them was, and the recorded first acceptance is the earliest time among the
  accepted ones; so every permutation gives the same progress.
\<close>

theorem progress_order_independent:
  assumes "\<forall>(acc, time) \<in> set subs. time \<noteq> []"
  shows "ss_submit_count (settle_sequence subs) = int (length subs)
    \<and> (ss_accepted (settle_sequence subs) \<longleftrightarrow> (\<exists>time. (True, time) \<in> set subs))
    \<and> (ss_accepted (settle_sequence subs) \<longrightarrow> (True, ss_first_ac_at (settle_sequence subs)) \<in> set subs
         \<and> (\<forall>time. (True, time) \<in> set subs \<longrightarrow> ss_first_ac_at (settle_sequence subs) \<le> time))
    \<and> (\<forall>subs'. mset subs' = mset subs \<longrightarrow> subs \<noteq> [] \<longrightarrow> settle_sequence subs' = settle_sequence subs)"
proof -
  have mem: "time \<in> set (ac_times xs) \<longleftrightarrow> (True, time) \<in> set xs" for time xs
    by (force simp: ac_times_def)
  have st: "ss_submit_count (settle_sequence xs) = int (length xs)
      \<and> (ss_accepted (settle_sequence xs) \<longleftrightarrow> ac_times xs \<noteq> [])
      \<and> ss_first_ac_at (settle_sequence xs) = (if ac_times xs = [] then [] else Min (set (ac_times xs)))"
    if "mset xs = mset subs" for xs
    using assms mset_eq_setD[OF that] by (intro settle_sequence_state) (auto simp: mem)
  have rec: "xs \<noteq> [] \<Longrightarrow> ss_has_record (settle_sequence xs)" for xs
    by (cases xs rule: rev_cases) (auto simp: settle_sequence_snoc state_of_update_def)
  have "settle_sequence subs' = settle_sequence subs" if m: "mset subs' = mset subs" "subs \<noteq> []" for subs'
  proof -
    have "set (ac_times subs') = set (ac_times subs)" using mset_eq_setD[OF m(1)] by (auto simp: mem)
    moreover have "length subs' = length subs" "subs' \<noteq> []" using m by (auto dest: mset_eq_length)
    moreover have "ac_times subs' = [] \<longleftrightarrow> ac_times subs = []" using calculation(1) by (metis set_empty)
    ultimately show ?thesis
      using st[OF m(1)] st[OF refl] rec m(2) by (intro status_state.equality) auto
  qed
  moreover have "ss_accepted (settle_sequence subs) \<longleftrightarrow> (\<exists>time. (True, time) \<in> set subs)"
    using st[OF refl] mem[of _ subs] by (metis set_empty all_not_in_conv)
  moreover have "(True, ss_first_ac_at (settle_sequence subs)) \<in> set subs
      \<and> (\<forall>time. (True, time) \<in> set subs \<longrightarrow> ss_first_ac_at (settle_sequence subs) \<le> time)"
    if "ss_accepted (settle_sequence subs)"
  proof -
    have "ac_times subs \<noteq> []" and f: "ss_first_ac_at (settle_sequence subs) = Min (set (ac_times subs))"
      using st[OF refl] that by auto
    then show ?thesis unfolding f mem[symmetric] by simp
  qed
  ultimately show ?thesis using st[OF refl] by blast
qed

theorem progress_order_independent_witness:
  "settle_sequence [(True, ''b''), (False, ''c''), (True, ''a'')] = settle_sequence [(True, ''a''), (True, ''b''), (False, ''c'')]
   \<and> ss_submit_count (settle_sequence [(True, ''a''), (True, ''b''), (False, ''c'')]) = 3"
proof -
  have "mset [x, y, z] = mset [z, x, y]" for x y z :: "bool \<times> string" by simp
  then have m: "mset [(True, ''b''), (False, ''c''), (True, ''a'')] = mset [(True, ''a''), (True, ''b''), (False, ''c'')]" .
  have hyp: "\<forall>(acc, time) \<in> set [(True, ''a''), (True, ''b''), (False, ''c'')]. time \<noteq> []" by simp
  note indep = progress_order_independent[OF hyp]
  have "settle_sequence [(True, ''b''), (False, ''c''), (True, ''a'')] = settle_sequence [(True, ''a''), (True, ''b''), (False, ''c'')]"
    by (rule conjunct2[OF conjunct2[OF conjunct2[OF indep]], rule_format, OF m]) simp
  moreover have "int (length [(True, ''a''), (True, ''b''), (False, ''c'')]) = 3" by simp
  ultimately show ?thesis using conjunct1[OF indep] by (simp only: simp_thms)
qed

lemma map_of_flag_field: "map_of (flag_field b k v) x = (if b \<and> x = k then Some v else None)"
  by (simp add: flag_field_def)

text \<open>
  The report of a test point discloses test data only where the point failed with a wrong
  answer: an accepted point has exactly its index, status, time, memory and flags, no diagnostic, no
  output and no test data; input and expected output appear only for WA, and then
  are those of that very point of the task.
\<close>

theorem per_case_disclosure:
  "(tr_status item = AC \<longrightarrow> (\<forall>key \<in> {''input'', ''expected_output'', ''actual_output'', ''stderr_output'', ''message'', ''reason''}.
       \<not> contains_field (per_case_entry task item) key))
   \<and> (contains_field (per_case_entry task item) ''input'' \<or> contains_field (per_case_entry task item) ''expected_output'' \<longrightarrow>
       tr_status item = WA \<and> nat (tr_index item) < length (jt_testcases task)
       \<and> field (per_case_entry task item) ''input'' = JString (tc_input (jt_testcases task ! nat (tr_index item)))
       \<and> field (per_case_entry task item) ''expected_output'' = JString (tc_output (jt_testcases task ! nat (tr_index item))))"
  by (cases "tr_status item = AC"; cases "tr_status item = WA")
    (simp_all add: per_case_entry_def contains_field_def field_def map_of_flag_field map_add_def)

definition demo_item :: "judge_status \<Rightarrow> testcase_result" where
  "demo_item s = case_result_of default_judge_options 0 (default_verdict\<lparr>cv_status := s\<rparr>) default_process_result"

theorem per_case_disclosure_witness:
  "field (per_case_entry demo_task (demo_item WA)) ''input'' = JString ''1''
   \<and> \<not> contains_field (per_case_entry demo_task (demo_item AC)) ''input''"
proof -
  let ?wa = "demo_item WA" and ?ac = "demo_item AC"
  have "contains_field (per_case_entry demo_task ?wa) ''input''" by code_simp
  moreover have "tc_input (jt_testcases demo_task ! nat (tr_index ?wa)) = ''1''" by code_simp
  moreover have "tr_status ?ac = AC" by code_simp
  ultimately show ?thesis
    using conjunct2[OF per_case_disclosure[of ?wa demo_task]] conjunct1[OF per_case_disclosure[of ?ac demo_task]]
    by (metis insertI1)
qed

section \<open>Settlement\<close>

lemma settle_writeE:
  assumes "settle_write rec acc d = (Inr i, d')"
  obtains t1 upd where "insert_submission rec (db_cur d) = Inr (i, t1)"
    "upd = compute_status_update (state_of_record (map_option load_status
        (find_row (is_status (sb_user_id rec) (sb_problem_id rec)) (tb_statuses (db_cur d))))) acc (sb_created_at rec)"
    "upsert_status (sb_user_id rec) (sb_problem_id rec) (su_accepted upd)
        (if su_has_first_ac_at upd then Some (su_first_ac_at upd) else None) (su_submit_count upd) t1 = Inr ((), db_cur d')"
proof -
  obtain d1 found d2 where i: "sql (insert_submission rec) d = (Inr i, d1)"
    and f: "status_find (sb_user_id rec) (sb_problem_id rec) d1 = (Inr found, d2)"
    and u: "sql (upsert_status (sb_user_id rec) (sb_problem_id rec)
        (su_accepted (compute_status_update (state_of_record found) acc (sb_created_at rec)))
        (if su_has_first_ac_at (compute_status_update (state_of_record found) acc (sb_created_at rec))
         then Some (su_first_ac_at (compute_status_update (state_of_record found) acc (sb_created_at rec))) else None)
        (su_submit_count (compute_status_update (state_of_record found) acc (sb_created_at rec)))) d2 = (Inr (), d')"
    using assms unfolding settle_write_def submission_insert_def status_upsert_def Let_def
    by (auto elim!: db_bind_InrE db_map_error_InrE db_ret_InrE)
  have found: "found = map_option load_status (find_row (is_status (sb_user_id rec) (sb_problem_id rec)) (tb_statuses (db_cur d1)))"
    and d2: "db_cur d2 = db_cur d1"
    using f unfolding status_find_def by (auto elim!: sql_read_InrE)
  have ins: "insert_submission rec (db_cur d) = Inr (i, db_cur d1)" using sql_Inr(1)[OF i] .
  have "tb_statuses (db_cur d1) = tb_statuses (db_cur d)" using insert_submission_Inr(1)[OF ins] by simp
  note upsert = sql_Inr(1)[OF u, unfolded found d2 this]
  show thesis by (rule that[OF ins refl upsert])
qed

lemma settle_bodyE:
  assumes "settle_body tid rec acc d = (Inr r, d')"
  obtains (gone) "r = None" "tid \<noteq> []" "sb_problem_id rec \<notin> problem_ids (db_cur d)"
      "db_cur d' = interrupt_task tid txt_problem_gone (db_cur d)"
    | (settled) i d1 where "r = Some i" "sb_problem_id rec \<in> problem_ids (db_cur d)"
      "db_cur d1 = (if tid = [] then db_cur d else remove_in_flight tid (db_cur d))"
      "tid \<noteq> [] \<longrightarrow> tid \<in> fl_task_id ` set (tb_in_flight (db_cur d))"
      "settle_write rec acc d1 = (Inr i, d')"
proof -
  let ?del = "if tid = [] then db_ret () else db_bind (db_map_error (\<lambda>_. SettleInternalError) (remove_by_task_id tid))
      (\<lambda>removed. if removed then db_ret () else db_fail SettleAlreadySettled)"
  obtain found d0 where f: "problem_find_by_id (sb_problem_id rec) d = (Inr found, d0)"
    and k: "(if found = None then (if tid = [] then db_fail SettleProblemNotFound
        else db_bind (db_map_error (\<lambda>_. SettleInternalError) (mark_interrupted tid txt_problem_gone)) (\<lambda>_. db_ret None))
      else db_bind ?del (\<lambda>_. db_bind (settle_write rec acc) (\<lambda>new_id. db_ret (Some new_id)))) d0 = (Inr r, d')"
    using assms unfolding settle_body_def by (elim db_bind_InrE db_map_error_InrE) blast
  from f have fd: "found = None \<longleftrightarrow> sb_problem_id rec \<notin> problem_ids (db_cur d)" "db_cur d0 = db_cur d"
    by (auto elim: problem_find_by_idE)
  show thesis
  proof (cases "found = None")
    case True
    with k have "tid \<noteq> []" and m: "db_bind (db_map_error (\<lambda>_. SettleInternalError) (mark_interrupted tid txt_problem_gone)) (\<lambda>_. db_ret None) d0
        = (Inr r, d')"
      by (auto elim: db_fail_InrE split: if_splits)
    from m have "r = None" "db_cur d' = interrupt_task tid txt_problem_gone (db_cur d0)"
      unfolding mark_interrupted_def by (auto elim!: db_bind_InrE db_map_error_InrE sql_write_InrE db_ret_InrE)
    with gone \<open>tid \<noteq> []\<close> True fd show thesis by simp
  next
    case False
    with k obtain x d1 i where x: "?del d0 = (Inr x, d1)" and w: "settle_write rec acc d1 = (Inr i, d')" and r: "r = Some i"
      by (auto elim!: db_bind_InrE db_ret_InrE)
    have "db_cur d1 = (if tid = [] then db_cur d0 else remove_in_flight tid (db_cur d0))
        \<and> (tid \<noteq> [] \<longrightarrow> tid \<in> fl_task_id ` set (tb_in_flight (db_cur d0)))"
    proof (cases "tid = []")
      case True
      with x show ?thesis by (auto elim: db_ret_InrE)
    next
      case False
      with x show ?thesis unfolding remove_by_task_id_def
        by (auto elim!: db_bind_InrE db_map_error_InrE db_ret_InrE db_fail_InrE sql_InrE split: if_splits)
    qed
    with settled[OF r _ _ _ w] False fd show thesis by simp
  qed
qed

lemma txn_body_settle [db_intros]: "txn_body (settle_body tid rec acc)"
  unfolding settle_body_def settle_write_def submission_insert_def status_find_def status_upsert_def Let_def
    remove_by_task_id_def mark_interrupted_def
  by (intro db_intros)

lemma txn_body_persist [db_intros]: "txn_body (persist_body ids now uid pid language source submitted_at)"
  unfolding persist_body_def by (intro db_intros)

lemma settle_body_ok:
  assumes "settle_body tid rec acc d = (Inr r, d')" and "tables_ok (db_cur d)"
  shows "tables_ok (db_cur d')"
  using assms(1)
proof (cases rule: settle_bodyE)
  case gone
  then show ?thesis using assms(2) by (simp add: interrupt_task_ok)
next
  case (settled i d1)
  then have "tables_ok (db_cur d1)" using assms(2) remove_in_flight_ok by simp
  with settled(5) show ?thesis
    by (elim settle_writeE) (blast intro: insert_submission_ok upsert_status_ok)
qed

interpretation settle: store_operation "settle tid rec acc" tables_ok
  unfolding settle_def by (rule store_operation_txnI[OF txn_body_settle]) (rule settle_body_ok)

interpretation persist_in_flight: store_operation "persist_in_flight ids now uid pid language source submitted_at" tables_ok
  unfolding persist_in_flight_def
proof (rule store_operation_keepsI[OF txn_body_persist])
  show "keeps tables_ok (persist_body ids now uid pid language source submitted_at)"
    unfolding persist_body_def by (intro db_keeps) (rule insert_in_flight_ok)
qed

text \<open>The update computed from the stored row is the one the submissions demand.\<close>

lemma status_update_agrees:
  assumes prog: "progress_ok t" and len: "int (length (tb_submissions t)) < int32_max"
    and t1: "tb_submissions t1 = tb_submissions t @ [s]" and pair: "sb_user_id s = uid" "sb_problem_id s = pid"
    and time: "clean_time (sb_created_at s)"
    and upd: "upd = compute_status_update (state_of_record (map_option load_status (find_row (is_status uid pid) (tb_statuses t))))
        (sb_status s = ''AC'') (sb_created_at s)"
  shows "su_submit_count upd = int (length (submissions_of uid pid t1))"
    and "(if su_has_first_ac_at upd then Some (su_first_ac_at upd) else None) = first_accepted uid pid t1"
    and "su_accepted upd \<longleftrightarrow> first_accepted uid pid t1 \<noteq> None"
proof -
  note first = first_accepted_append[OF t1 pair] and subs = submissions_of_append[OF t1, of uid pid]
  have ne: "sb_created_at s \<noteq> []" using time by (simp add: clean_time_def)
  have "su_submit_count upd = int (length (submissions_of uid pid t1))
    \<and> (if su_has_first_ac_at upd then Some (su_first_ac_at upd) else None) = first_accepted uid pid t1
    \<and> (su_accepted upd \<longleftrightarrow> first_accepted uid pid t1 \<noteq> None)"
  proof (cases "find_row (is_status uid pid) (tb_statuses t)")
    case None
    then have "submissions_of uid pid t = []"
      using prog by (auto simp: find_row_None progress_ok_def submissions_of_def filter_empty_conv)
    moreover from this have "first_accepted uid pid t = None" by (simp add: first_accepted_def)
    ultimately show ?thesis
      using None pair by (simp add: upd first subs state_of_record_def compute_status_update_def)
  next
    case (Some r)
    then have r: "r \<in> set (tb_statuses t)" "up_user_id r = uid" "up_problem_id r = pid"
      using find_row_Some[OF Some] by (auto simp: is_status_def)
    then have "row_agrees t r" using prog by (simp add: progress_ok_def)
    then have ag: "up_submit_count r = int (length (submissions_of uid pid t))" "up_first_ac_at r = first_accepted uid pid t"
        "up_status r = (if first_accepted uid pid t = None then ''none'' else ''accepted'')"
      using r by (simp_all add: row_agrees_def Let_def)
    have "length (submissions_of uid pid t) \<le> length (tb_submissions t)" by (simp add: submissions_of_def)
    then have cnt: "column_int (up_submit_count r) = int (length (submissions_of uid pid t))"
      unfolding ag(1) using len by (intro column_int_id) auto
    have clean: "first_accepted uid pid t = Some m \<Longrightarrow> m \<noteq> [] \<and> column_text m = m" for m
      using first_accepted_clean[of t uid pid m] prog by (auto simp: progress_ok_def clean_time_def)
    show ?thesis
    proof (cases "first_accepted uid pid t")
      case None
      then show ?thesis
        using Some pair ag cnt by (simp add: upd first subs state_of_record_def compute_status_update_def load_status_def column_text_def)
    next
      case (Some m)
      then show ?thesis
        using \<open>find_row (is_status uid pid) (tb_statuses t) = Some r\<close> pair ag cnt clean[OF Some] ne
        by (cases "sb_status s = ''AC''"; cases "sb_created_at s < m")
          (simp_all add: upd first subs state_of_record_def compute_status_update_def load_status_def
            column_text_id[of "''accepted''"] Let_def min_def less_imp_le not_less)
    qed
  qed
  then show "su_submit_count upd = int (length (submissions_of uid pid t1))"
    "(if su_has_first_ac_at upd then Some (su_first_ac_at upd) else None) = first_accepted uid pid t1"
    "su_accepted upd \<longleftrightarrow> first_accepted uid pid t1 \<noteq> None"
    by blast+
qed

lemma settle_write_progress:
  assumes w: "settle_write rec (sb_status rec = ''AC'') d = (Inr i, d')" and prog: "progress_ok (db_cur d)"
    and time: "clean_time (sb_created_at rec)" and len: "int (length (tb_submissions (db_cur d))) < int32_max"
  shows "progress_ok (db_cur d')" and "tb_submissions (db_cur d') = tb_submissions (db_cur d) @ [rec\<lparr>sb_id := i\<rparr>]"
    and "tb_in_flight (db_cur d') = tb_in_flight (db_cur d)"
proof -
  let ?t = "db_cur d" and ?uid = "sb_user_id rec" and ?pid = "sb_problem_id rec"
  obtain t1 upd where ins: "insert_submission rec ?t = Inr (i, t1)"
    and upd: "upd = compute_status_update (state_of_record (map_option load_status
        (find_row (is_status ?uid ?pid) (tb_statuses ?t)))) (sb_status rec = ''AC'') (sb_created_at rec)"
    and ups: "upsert_status ?uid ?pid (su_accepted upd)
        (if su_has_first_ac_at upd then Some (su_first_ac_at upd) else None) (su_submit_count upd) t1 = Inr ((), db_cur d')"
    using w by (rule settle_writeE)
  let ?s = "rec\<lparr>sb_id := i\<rparr>"
  have t1: "tb_submissions t1 = tb_submissions ?t @ [?s]" "tb_statuses t1 = tb_statuses ?t" "tb_in_flight t1 = tb_in_flight ?t"
    using insert_submission_Inr(1)[OF ins] by simp_all
  have "sb_user_id ?s = ?uid" "sb_problem_id ?s = ?pid" "clean_time (sb_created_at ?s)"
    and "upd = compute_status_update (state_of_record (map_option load_status
        (find_row (is_status ?uid ?pid) (tb_statuses ?t)))) (sb_status ?s = ''AC'') (sb_created_at ?s)"
    using time upd by simp_all
  note agrees = status_update_agrees[OF prog len t1(1) this]
  have "row_agrees t1 r" if "r \<in> set (tb_statuses t1)" "\<not> is_status ?uid ?pid r" for r
  proof -
    have "submissions_of (up_user_id r) (up_problem_id r) t1 = submissions_of (up_user_id r) (up_problem_id r) ?t"
      using that(2) by (auto simp: submissions_of_append[OF t1(1)] is_status_def)
    then show ?thesis using prog that(1) row_agrees_cong[of r t1 ?t] t1(2) by (simp add: progress_ok_def)
  qed
  moreover have "clean_time (sb_created_at s) \<and> (is_status (sb_user_id s) (sb_problem_id s) \<noteq> is_status ?uid ?pid \<longrightarrow>
      (\<exists>r \<in> set (tb_statuses t1). is_status (sb_user_id s) (sb_problem_id s) r))" if "s \<in> set (tb_submissions t1)" for s
    using prog that time by (auto simp: t1 progress_ok_def)
  ultimately show "progress_ok (db_cur d')"
    using agrees by (intro upsert_progress[OF ups]) (blast | simp only: agrees)+
  show "tb_submissions (db_cur d') = tb_submissions ?t @ [?s]" "tb_in_flight (db_cur d') = tb_in_flight ?t"
    using upsert_status_frame[OF ups] t1 by simp_all
qed

lemma settle_Inr:
  assumes "settle tid rec acc d = (Inr r, d')"
  obtains (gone) "r = None" "tid \<noteq> []" "sb_problem_id rec \<notin> problem_ids (db_cur d)"
      "db_cur d' = interrupt_task tid txt_problem_gone (db_cur d)" "db_snap d' = None"
    | (settled) i d1 d2 where "r = Some i" "sb_problem_id rec \<in> problem_ids (db_cur d)"
      "db_cur d1 = (if tid = [] then db_cur d else remove_in_flight tid (db_cur d))"
      "tid \<noteq> [] \<longrightarrow> tid \<in> fl_task_id ` set (tb_in_flight (db_cur d))"
      "settle_write rec acc d1 = (Inr i, d2)" "db_cur d' = db_cur d2" "db_snap d' = None"
proof -
  obtain d1 d2 where d: "db_cur d1 = db_cur d" "settle_body tid rec acc d1 = (Inr r, d2)" "db_cur d' = db_cur d2" "db_snap d' = None"
    using assms unfolding settle_def by (rule with_txn_Inr)
  from d(2) show thesis
  proof (cases rule: settle_bodyE)
    case gone
    with d that(1) show thesis by simp
  next
    case (settled i d3)
    with that(2)[of i d3 d2] d show thesis by simp
  qed
qed

lemma remove_in_flight_frame:
  "tb_submissions (remove_in_flight tid t) = tb_submissions t" "tb_statuses (remove_in_flight tid t) = tb_statuses t"
  by (simp_all add: remove_in_flight_def)

lemma settle_progress:
  assumes "settle tid rec (sb_status rec = ''AC'') d = (Inr r, d')" and "progress_ok (db_cur d)"
    and "clean_time (sb_created_at rec)" and "int (length (tb_submissions (db_cur d))) < int32_max"
  shows "progress_ok (db_cur d')"
  using assms(1)
proof (cases rule: settle_Inr)
  case gone
  then have "progress_ok (db_cur d') = progress_ok (db_cur d)" by (intro progress_ok_cong) (simp_all add: interrupt_task_def)
  with assms(2) show ?thesis by simp
next
  case (settled i d1 d2)
  have subs: "tb_submissions (db_cur d1) = tb_submissions (db_cur d)" "tb_statuses (db_cur d1) = tb_statuses (db_cur d)"
    using settled(3) by (simp_all add: remove_in_flight_frame)
  then have "progress_ok (db_cur d1)" using assms(2) progress_ok_cong[OF subs] by simp
  with settle_write_progress(1)[OF settled(5)] assms(3,4) subs settled(6) show ?thesis by simp
qed

text \<open>
  C10: settling is one atomic step. On success the submission is appended with a fresh id, the task
  in flight it belongs to (which must still exist) is gone, and the progress table is again
  exactly what the submissions demand; when the problem has vanished the accepted task is marked as
  interrupted and nothing else happens; every error, at whatever statement, leaves the database as it was.
  The constraints of the schema hold in all cases.
\<close>

theorem settle_outcomes:
  assumes "db_snap d = None" and "tables_ok (durable d)" and "progress_ok (durable d)"
    and "clean_time (sb_created_at rec)" and "int (length (tb_submissions (durable d))) < int32_max"
    and "settle tid rec (sb_status rec = ''AC'') d = (r, d')"
  shows "(case r of
       Inr (Some i) \<Rightarrow> tb_submissions (durable d') = tb_submissions (durable d) @ [rec\<lparr>sb_id := i\<rparr>]
         \<and> i \<notin> sb_id ` set (tb_submissions (durable d))
         \<and> (tid \<noteq> [] \<longrightarrow> tid \<in> fl_task_id ` set (tb_in_flight (durable d)))
         \<and> tb_in_flight (durable d') = filter (\<lambda>f. tid = [] \<or> fl_task_id f \<noteq> tid) (tb_in_flight (durable d))
     | Inr None \<Rightarrow> durable d' = interrupt_task tid txt_problem_gone (durable d) \<and> sb_problem_id rec \<notin> problem_ids (durable d)
     | Inl e \<Rightarrow> durable d' = durable d)
    \<and> tables_ok (durable d') \<and> progress_ok (durable d') \<and> db_snap d' = None"
proof -
  have dur: "durable d = db_cur d" using assms(1) by (simp add: durable_def)
  have closed: "db_snap d' = None" using settle.closed[OF assms(1)] assms(6) by (metis snd_conv)
  then have dur': "durable d' = db_cur d'" by (simp add: durable_def)
  have ok: "tables_ok (durable d')" using settle.inv_durable[OF assms(1,2)] assms(6) by (metis snd_conv)
  show ?thesis
  proof (cases r)
    case (Inl e)
    then have "db_cur d' = db_cur d" using settle.atomic[OF assms(1)] assms(6) by blast
    with Inl ok closed assms(2,3) show ?thesis by (simp add: dur dur')
  next
    case (Inr x)
    note res = assms(6)[unfolded Inr]
    have prog: "progress_ok (durable d')"
      using settle_progress[OF res] assms(3-5) by (simp add: dur dur')
    from res show ?thesis
    proof (cases rule: settle_Inr)
      case gone
      with Inr ok prog show ?thesis by (simp add: dur dur')
    next
      case (settled i d1 d2)
      then have subs: "tb_submissions (db_cur d1) = tb_submissions (db_cur d)" "tb_statuses (db_cur d1) = tb_statuses (db_cur d)"
          "tb_submissions_seq (db_cur d1) = tb_submissions_seq (db_cur d)"
        and flights: "tb_in_flight (db_cur d1) = filter (\<lambda>f. tid = [] \<or> fl_task_id f \<noteq> tid) (tb_in_flight (db_cur d))"
        by (simp_all add: remove_in_flight_def)
      have "progress_ok (db_cur d1)" using assms(3) progress_ok_cong[OF subs(1,2)] by (simp add: dur)
      note d1 = subs(1) this flights
      have len: "int (length (tb_submissions (db_cur d1))) < int32_max" using assms(5) d1(1) by (simp add: dur)
      note w = settle_write_progress(2,3)[OF settled(5) d1(2) assms(4) len]
      from settled(5) have "i = tb_submissions_seq (db_cur d) + 1"
        by (rule settle_writeE) (use insert_submission_Inr(2) subs(3) in metis)
      then have "i \<notin> sb_id ` set (tb_submissions (db_cur d))"
        using assms(2) by (fastforce simp: dur tables_ok_def submissions_ok_def keyed_def)
      with Inr ok prog settled d1 w show ?thesis by (simp add: dur dur')
    qed
  qed
qed

lemma flight_tables_ok [simp]: "tables_ok (db_cur flight_db)"
  unfolding flight_db_def
  by (simp add: tables_ok_defs keyed_def demo_flight_def problem_tables_def in_flight_states_def demo_tables_def
      empty_tables_def demo_user_def demo_problem_def demo_case_def difficulties_def)

lemma flight_progress [simp]: "progress_ok (db_cur flight_db)" "tb_submissions (db_cur flight_db) = []"
  by (simp_all add: progress_ok_def flight_db_def problem_tables_def demo_tables_def empty_tables_def)

lemma flight_durable [simp]: "durable flight_db = db_cur flight_db"
  by (simp add: durable_def)

theorem settle_outcomes_witness:
  "tb_submissions (durable (snd (settle ''a'' demo_row True flight_db))) = [demo_row\<lparr>sb_id := 1\<rparr>]
   \<and> progress_ok (durable (snd (settle ''a'' demo_row True flight_db)))"
proof -
  have "fst (settle ''a'' demo_row True flight_db) = Inr (Some 1)" by code_simp
  then obtain d' where r: "settle ''a'' demo_row True flight_db = (Inr (Some 1), d')" by (metis prod.collapse)
  have "(sb_status demo_row = ''AC'') = True" "clean_time (sb_created_at demo_row)"
    by (simp_all add: demo_row_def clean_time_def)
  then show ?thesis
    using settle_outcomes[of flight_db demo_row "''a''" "Inr (Some 1)" d'] r by (simp add: int32_max_def)
qed



section \<open>The service as a whole\<close>

lemma settle_interrupted_closed: "db_snap d = None \<Longrightarrow> db_snap (settle_interrupted tid reason d) = None"
  by (simp add: settle_interrupted_def with_txn_closed)

lemma submit_read_Inr:
  assumes "submit_read k d = (Inr task, d1)"
  obtains p where "find_row (\<lambda>p. pb_id p = st_problem_id k) (tb_problems (db_cur d)) = Some p"
    "pb_visible p \<noteq> 0 \<or> st_viewer_is_admin k \<or> st_in_flight_task_id k \<noteq> []"
    "task = judge_task_of (st_language k) (st_source_code k) (load_record p) (map load_testcase
        (order_testcases (filter (\<lambda>c. ts_problem_id c = st_problem_id k) (tb_testcases (db_cur d)))))"
    "db_cur d1 = db_cur d" "db_snap d1 = db_snap d"
proof -
  obtain q d0 where q: "problem_find_by_id (st_problem_id k) d = (Inr (Some q), d0)"
    and vis: "pr_visible q \<or> st_viewer_is_admin k \<or> st_in_flight_task_id k \<noteq> []"
    and l: "(case list_testcases (st_problem_id k) d0 of
              (Inl e, d2) \<Rightarrow> (Inl (outcome_of KInternalError txt_internal_error), d2)
            | (Inr records, d2) \<Rightarrow> (Inr (judge_task_of (st_language k) (st_source_code k) q records), d2)) = (Inr task, d1)"
    using assms unfolding submit_read_def
    by (auto split: prod.splits sum.splits option.splits if_splits)
  from q have m: "Some q = map_option load_record (find_row (\<lambda>p. pb_id p = st_problem_id k) (tb_problems (db_cur d)))"
    and d0: "db_cur d0 = db_cur d" "db_snap d0 = db_snap d"
    unfolding problem_find_by_id_def by (auto elim!: sql_read_InrE)
  from m obtain p where p: "find_row (\<lambda>p. pb_id p = st_problem_id k) (tb_problems (db_cur d)) = Some p" "q = load_record p"
    by (cases "find_row (\<lambda>p. pb_id p = st_problem_id k) (tb_problems (db_cur d))") auto
  from l obtain records where "list_testcases (st_problem_id k) d0 = (Inr records, d1)"
    and task: "task = judge_task_of (st_language k) (st_source_code k) q records"
    by (auto split: prod.splits sum.splits)
  then have "records = map load_testcase (order_testcases (filter (\<lambda>c. ts_problem_id c = st_problem_id k) (tb_testcases (db_cur d0))))"
    "db_cur d1 = db_cur d0" "db_snap d1 = db_snap d0"
    unfolding list_testcases_def by (auto elim!: sql_read_InrE)
  with that[OF p(1)] p(2) vis d0 task show thesis by (simp add: load_record_def)
qed

lemma service_submit_Ok:
  assumes "service_submit env opts dump now others k (d, w) = (Inr out, d', w')" and "so_kind out = KOk"
  obtains task d1 res per_case i where "submit_read k d = (Inr task, d1)" "judge env opts task w = (res, w')"
    "dump (build_per_case_json task (judged task res)) = Inr per_case"
    "settle (st_in_flight_task_id k) (submission_record k now (judged task res) per_case) (jr_status (judged task res) = AC) (others d1)
       = (Inr (Some i), d')"
    "out = \<lparr>so_kind = KOk, so_submission = Some ((submission_record k now (judged task res) per_case)\<lparr>sb_id := i\<rparr>),
       so_judge = judged task res, so_error = []\<rparr>"
proof -
  obtain x d1 where rd: "submit_read k d = (x, d1)" by force
  have early: "so_kind o1 \<noteq> KOk" if "x = Inl o1" for o1
    using rd that unfolding submit_read_def
    by (auto simp: outcome_of_def split: prod.splits sum.splits option.splits if_splits)
  show thesis
  proof (cases x)
    case (Inl o1)
    with assms rd early show thesis by (simp add: service_submit_def)
  next
    case (Inr task)
    obtain res w1 where j: "judge env opts task w = (res, w1)" by force
    let ?r = "judged task res"
    from assms(1) rd Inr j obtain per_case where dmp: "dump (build_per_case_json task ?r) = Inr per_case"
      by (auto simp: service_submit_def Let_def split: sum.splits prod.splits)
    let ?rec = "submission_record k now ?r per_case"
    obtain sr d3 where s: "settle (st_in_flight_task_id k) ?rec (jr_status ?r = AC) (others d1) = (sr, d3)" by force
    have o: "out = settle_outcome ?rec ?r sr" "d' = d3" "w' = w1"
      using assms(1) rd Inr j dmp s by (auto simp: service_submit_def Let_def)
    then obtain i where "sr = Inr (Some i)"
      using assms(2) by (auto simp: settle_outcome_def outcome_of_def split: sum.splits option.splits settle_error.splits)
    with that[of task d1 res per_case i] rd Inr j dmp s o show thesis by (simp add: settle_outcome_def)
  qed
qed

lemma judge_status_name_AC: "judge_status_name s = ''AC'' \<longleftrightarrow> s = AC"
  by (cases s) simp_all

lemma settle_stores:
  assumes "settle tid rec acc d = (Inr (Some i), d')"
  shows "rec\<lparr>sb_id := i\<rparr> \<in> set (tb_submissions (durable d'))"
  using assms
proof (cases rule: settle_Inr)
  case (settled j d1 d2)
  from settled(5) have "rec\<lparr>sb_id := i\<rparr> \<in> set (tb_submissions (db_cur d2))"
    by (rule settle_writeE) (use settled(1) upsert_status_frame(1) insert_submission_Inr(1) in fastforce)
  with settled show ?thesis by (simp add: durable_def)
qed simp


definition demo_submission_task :: submission_task where
  "demo_submission_task = \<lparr>st_task_id = 1, st_user_id = 2, st_problem_id = 1, st_language = ''cpp17'',
     st_source_code = ''int main(){}'', st_viewer_is_admin = False, st_submitted_at = ''2026-01-02 00:00:00'',
     st_rejudge_submission_id = 0, st_in_flight_task_id = ''a''\<rparr>"

text \<open>An executor whose programs print the right answer of the demonstration problem.\<close>

definition solving_env :: "unit judge_env" where
  "solving_env = demo_env\<lparr>je_run := (\<lambda>req inp w. (Inr (default_process_result\<lparr>pr_exited := True, pr_stdout_data := ''3''\<rparr>), w))\<rparr>"




text \<open>
  Accepting a task. On success there is exactly one new row in flight: pending, with the user,
  problem, language and source given, the original time of submission, and an id that no other
  task in flight has, which is the id reported. Otherwise nothing is stored, and a problem reported as missing is.
\<close>

theorem persist_in_flight_outcome:
  assumes "db_snap d = None" and "tables_ok (durable d)"
    and "persist_in_flight ids now uid pid language source submitted_at d = (r, d')"
  shows "(case r of
      Inr tid \<Rightarrow> pid \<in> problem_ids (durable d) \<and> tid \<notin> fl_task_id ` set (tb_in_flight (durable d))
        \<and> (\<exists>i. tb_in_flight (durable d') = tb_in_flight (durable d) @ [\<lparr>fl_id = i, fl_task_id = tid, fl_user_id = uid,
             fl_problem_id = pid, fl_language = language, fl_source_code = source,
             fl_submitted_at = (if submitted_at = [] then now else submitted_at), fl_state = ''pending'', fl_owner = [],
             fl_claimed_at = None, fl_reason = []\<rparr>])
        \<and> tb_submissions (durable d') = tb_submissions (durable d) \<and> tb_statuses (durable d') = tb_statuses (durable d)
    | Inl e \<Rightarrow> durable d' = durable d \<and> (e = PersistProblemNotFound \<longrightarrow> pid \<notin> problem_ids (durable d)))
    \<and> tables_ok (durable d')"
proof -
  let ?op = "persist_in_flight ids now uid pid language source submitted_at"
  have dur: "durable d = db_cur d" using assms(1) by (simp add: durable_def)
  have ok: "tables_ok (durable d')"
    using persist_in_flight.inv_durable[OF assms(1,2), of ids now uid pid language source submitted_at] assms(3) by simp
  show ?thesis
  proof (cases r)
    case (Inr tid)
    obtain d1 d2 where d: "db_cur d1 = db_cur d" "persist_body ids now uid pid language source submitted_at d1 = (Inr tid, d2)"
        "db_cur d' = db_cur d2" "db_snap d' = None"
      using assms(3) unfolding Inr persist_in_flight_def by (rule with_txn_Inr)
    define k0 where "k0 = new_in_flight uid pid language source (if submitted_at = [] then now else submitted_at)"
    obtain found d3 where f: "problem_find_by_id pid d1 = (Inr found, d3)" "found \<noteq> None"
      and rest: "db_bind (db_map_error (\<lambda>_. PersistInternalError) (in_flight_insert ids k0)) (\<lambda>(k, i). db_ret (ft_task_id k)) d3 = (Inr tid, d2)"
      using d(2) unfolding persist_body_def k0_def[symmetric]
      by (auto elim!: db_bind_InrE db_map_error_InrE db_fail_InrE split: if_splits)
    from f have pid: "pid \<in> problem_ids (db_cur d1)" and d3: "db_cur d3 = db_cur d1" by (auto elim: problem_find_by_idE)
    from rest obtain x d4 where "in_flight_insert ids k0 d3 = (Inr x, d4)" "(case x of (k, i) \<Rightarrow> db_ret (ft_task_id k)) d4 = (Inr tid :: persist_error + string, d2)"
      by (elim db_bind_InrE db_map_error_InrE) blast
    then obtain k i where ins: "in_flight_insert ids k0 d3 = (Inr (k, i), d2)" and tid: "tid = ft_task_id k"
      by (cases x) (auto elim: db_ret_InrE)
    note k = insert_loop_Inr[OF ins[unfolded in_flight_insert_def]]
    from k have row: "insert_in_flight k (db_cur d) = Inr (i, db_cur d2)" using d3 d(1) by simp
    from k obtain t where "k = k0\<lparr>ft_task_id := t\<rparr>"
      by blast
    then show ?thesis
      using insert_in_flight_Inr[OF row] pid d(1,3,4) ok tid Inr
      by (simp add: durable_def assms(1) new_in_flight_def k0_def)
  next
    case (Inl e)
    have "durable d' = durable d"
      using persist_in_flight.failed_durable[OF assms(1), of ids now uid pid language source submitted_at] assms(3) Inl by simp
    moreover have "pid \<notin> problem_ids (durable d)" if missing: "e = PersistProblemNotFound"
    proof -
      obtain u d1 d2 where "db_begin d = (Inr u, d1)" and b: "persist_body ids now uid pid language source submitted_at d1 = (Inl PersistProblemNotFound, d2)"
        using assms(3) unfolding Inl missing persist_in_flight_def with_txn_def by (auto split: prod.splits sum.splits)
      then have "db_cur d1 = db_cur d" using db_begin_Inr(2) by blast
      with b show ?thesis
        unfolding persist_body_def dur
        by (auto simp: db_bind_def db_map_error_def db_fail_def db_ret_def split: prod.splits sum.splits if_splits elim: problem_find_by_idE)
    qed
    ultimately show ?thesis using Inl ok by simp
  qed
qed

theorem persist_in_flight_outcome_witness:
  "is_ok (fst (persist_in_flight (\<lambda>n. if n = 0 then ''a'' else ''fresh'') ''now'' 2 1 ''cpp17'' ''x'' [] flight_db))
   \<and> map fl_task_id (tb_in_flight (durable (snd (persist_in_flight (\<lambda>n. if n = 0 then ''a'' else ''fresh'') ''now'' 2 1 ''cpp17'' ''x'' [] flight_db))))
       = [''a'', ''b'', ''fresh'']"
proof -
  let ?res = "persist_in_flight (\<lambda>n. if n = 0 then ''a'' else ''fresh'') ''now'' 2 1 ''cpp17'' ''x'' [] flight_db"
  have e: "fst ?res = Inr ''fresh''" by code_simp
  then obtain d' where r: "?res = (Inr ''fresh'', d')" by (metis prod.collapse)
  have ids: "map fl_task_id (tb_in_flight (db_cur flight_db)) = [''a'', ''b'']"
    by (simp add: flight_db_def demo_flight_def)
  from persist_in_flight_outcome[OF flight_db_simps(1) _ r] obtain i where
    "tb_in_flight (durable d') = tb_in_flight (durable flight_db) @ [\<lparr>fl_id = i, fl_task_id = ''fresh'', fl_user_id = 2,
       fl_problem_id = 1, fl_language = ''cpp17'', fl_source_code = ''x'', fl_submitted_at = ''now'', fl_state = ''pending'',
       fl_owner = [], fl_claimed_at = None, fl_reason = []\<rparr>]"
    by auto
  with r ids show ?thesis by simp
qed

end
