(* ===== verification/OJ_Rejudge.thy ===== *)
theory OJ_Rejudge
  imports OJ_Submit
begin

text \<open>
  The rejudge service (\<open>submit/rejudge.cpp\<close>): judge a stored submission again with the current test
  cases, then replace its result and recompute the progress of its author in one transaction.
\<close>

section \<open>Operations\<close>

text \<open>The reading phase: the original submission and the task to judge, or the final outcome.\<close>

definition rejudge_read :: "int \<Rightarrow> db \<Rightarrow> (outcome + submission_row \<times> judge_task) \<times> db" where
  "rejudge_read sid d =
     (case submission_find_by_id sid d of
        (Inl e, d1) \<Rightarrow> (Inl (outcome_of KInternalError txt_internal_error), d1)
      | (Inr None, d1) \<Rightarrow> (Inl (outcome_of KProblemNotFound txt_submission_missing), d1)
      | (Inr (Some original), d1) \<Rightarrow>
          (case problem_find_by_id (sb_problem_id original) d1 of
             (Inl e, d2) \<Rightarrow> (Inl (outcome_of KInternalError txt_internal_error), d2)
           | (Inr None, d2) \<Rightarrow> (Inl (outcome_of KProblemNotFound txt_problem_missing), d2)
           | (Inr (Some p), d2) \<Rightarrow>
               (case list_testcases (sb_problem_id original) d2 of
                  (Inl e, d3) \<Rightarrow> (Inl (outcome_of KInternalError txt_internal_error), d3)
                | (Inr records, d3) \<Rightarrow>
                    (Inr (original, judge_task_of (sb_language original) (sb_source_code original) p records), d3))))"

definition updated_record :: "submission_row \<Rightarrow> judge_result \<Rightarrow> string \<Rightarrow> submission_row" where
  "updated_record original r per_case =
     original\<lparr>sb_status := judge_status_name (jr_status r), sb_per_case := per_case,
       sb_compile_msg := jr_compile_output r, sb_runtime_ms := total_runtime_ms r, sb_memory_kb := peak_memory_kb r\<rparr>"

definition rejudge_body :: "submission_row \<Rightarrow> (settle_error, unit) dbm" where
  "rejudge_body updated =
     db_bind (db_map_error (\<lambda>_. SettleInternalError) (submission_find_by_id (sb_id updated))) (\<lambda>found.
     if found = None then db_fail SettleProblemNotFound
     else db_map_error (\<lambda>_. SettleInternalError)
       (db_bind (submission_update updated) (\<lambda>_.
        status_recompute (sb_user_id updated) (sb_problem_id updated))))"

definition rejudge_settle :: "submission_row \<Rightarrow> (settle_error, unit) dbm" where
  "rejudge_settle updated = with_txn (\<lambda>_. SettleInternalError) (rejudge_body updated)"

definition rejudge_outcome :: "submission_row \<Rightarrow> judge_result \<Rightarrow> settle_error + unit \<Rightarrow> outcome" where
  "rejudge_outcome updated r res =
     (case res of
        Inr _ \<Rightarrow> \<lparr>so_kind = KOk, so_submission = Some updated, so_judge = r, so_error = []\<rparr>
      | Inl SettleProblemNotFound \<Rightarrow> outcome_of KProblemNotFound txt_submission_missing
      | Inl _ \<Rightarrow> outcome_of KInternalError txt_internal_error)"

text \<open>
  \<open>RejudgeService::rejudge\<close>; \<open>others\<close> is what happens to the database while the engine runs. A
  SYSERR result is not written.
\<close>

definition rejudge ::
  "'w judge_env \<Rightarrow> judge_options \<Rightarrow> (json \<Rightarrow> exn + string) \<Rightarrow> (db \<Rightarrow> db) \<Rightarrow> int \<Rightarrow> db \<times> 'w
     \<Rightarrow> (string option + outcome) \<times> db \<times> 'w" where
  "rejudge env opts dump others sid dw =
     (case dw of (d, w) \<Rightarrow>
      case rejudge_read sid d of
        (Inl out, d1) \<Rightarrow> (Inr out, d1, w)
      | (Inr (original, task), d1) \<Rightarrow>
          (case judge env opts task w of (res, w1) \<Rightarrow>
             let r = judged task res; d2 = others d1 in
             if jr_status r = SYSERR
             then (Inr ((outcome_of KInternalError (txt_rejudge_incomplete @ jr_message r))\<lparr>so_judge := r\<rparr>), d2, w1)
             else case dump (build_per_case_json task r) of
                 Inl what \<Rightarrow> (Inl (Some what), d2, w1)
               | Inr per_case \<Rightarrow>
                   let updated = updated_record original r per_case in
                   (case rejudge_settle updated d2 of
                      (sr, d3) \<Rightarrow> (Inr (rejudge_outcome updated r sr), d3, w1))))"

section \<open>Settlement\<close>

lemma rejudge_bodyE:
  assumes "rejudge_body u d = (Inr x, d')"
  obtains d1 where "sb_id u \<in> sb_id ` set (tb_submissions (db_cur d))" "update_submission u (db_cur d) = Inr ((), db_cur d1)"
    "status_recompute (sb_user_id u) (sb_problem_id u) d1 = (Inr x, d')"
proof -
  obtain found d0 d1 where f: "submission_find_by_id (sb_id u) d = (Inr found, d0)" "found \<noteq> None"
    and s: "sql (update_submission u) d0 = (Inr (), d1)" and rc: "status_recompute (sb_user_id u) (sb_problem_id u) d1 = (Inr x, d')"
    using assms unfolding rejudge_body_def submission_update_def
    by (auto elim!: db_bind_InrE db_map_error_InrE db_fail_InrE split: if_splits)
  from f have "sb_id u \<in> sb_id ` set (tb_submissions (db_cur d))" and d0: "db_cur d0 = db_cur d"
    unfolding submission_find_by_id_def by (auto elim!: sql_read_InrE dest!: find_row_Some intro: rev_image_eqI)
  with that[OF _ _ rc] sql_Inr(1)[OF s] show thesis by simp
qed

lemma txn_body_rejudge [db_intros]: "txn_body (rejudge_body u)"
  unfolding rejudge_body_def submission_find_by_id_def submission_update_def by (intro db_intros)

lemma keeps_rejudge:
  assumes "\<And>t t' x. update_submission u t = Inr (x, t') \<Longrightarrow> I t \<Longrightarrow> I t'"
    and "\<And>acc first cnt t t' x. upsert_status (sb_user_id u) (sb_problem_id u) acc first cnt t = Inr (x, t') \<Longrightarrow> I t \<Longrightarrow> I t'"
  shows "keeps I (rejudge_body u)"
  unfolding rejudge_body_def submission_find_by_id_def submission_update_def
  by (intro db_keeps keeps_sql keeps_recompute) (use assms in blast)+

interpretation rejudge_settle: store_operation "rejudge_settle u" tables_ok
  unfolding rejudge_settle_def
  by (rule store_operation_keepsI[OF txn_body_rejudge keeps_rejudge]) (auto intro: update_submission_ok upsert_status_ok)

text \<open>Replacing the result of one submission disturbs the progress of its author on its problem only.\<close>

lemma update_submission_others:
  assumes upd: "update_submission u t = Inr (x, t')" and owner: "\<forall>s \<in> set (tb_submissions t). sb_id s = sb_id u \<longrightarrow>
      sb_user_id s = sb_user_id u \<and> sb_problem_id s = sb_problem_id u"
  shows "length (submissions_of v p t') = length (submissions_of v p t)"
    and "\<not> (v = sb_user_id u \<and> p = sb_problem_id u) \<Longrightarrow> submissions_of v p t' = submissions_of v p t"
    and "map sb_created_at (tb_submissions t') = map sb_created_at (tb_submissions t)"
    and "map sb_user_id (tb_submissions t') = map sb_user_id (tb_submissions t)"
    and "map sb_problem_id (tb_submissions t') = map sb_problem_id (tb_submissions t)"
proof -
  let ?f = "\<lambda>s. if sb_id s = sb_id u then s\<lparr>sb_status := sb_status u, sb_per_case := sb_per_case u, sb_compile_msg := sb_compile_msg u,
               sb_runtime_ms := sb_runtime_ms u, sb_memory_kb := sb_memory_kb u\<rparr> else s"
  have subs: "tb_submissions t' = map ?f (tb_submissions t)" using update_submission_Inr(1)[OF upd] by simp
  have "filter (\<lambda>s. sb_user_id s = v \<and> sb_problem_id s = p) (map ?f xs) = map ?f (filter (\<lambda>s. sb_user_id s = v \<and> sb_problem_id s = p) xs)" for xs
    by (induction xs) auto
  then have m: "submissions_of v p t' = map ?f (submissions_of v p t)" by (simp only: submissions_of_def subs)
  then show "length (submissions_of v p t') = length (submissions_of v p t)" by simp
  show "submissions_of v p t' = submissions_of v p t" if "\<not> (v = sb_user_id u \<and> p = sb_problem_id u)"
    unfolding m by (rule map_idI) (use owner that in \<open>auto simp: submissions_of_def\<close>)
  show "map sb_created_at (tb_submissions t') = map sb_created_at (tb_submissions t)"
    "map sb_user_id (tb_submissions t') = map sb_user_id (tb_submissions t)"
    "map sb_problem_id (tb_submissions t') = map sb_problem_id (tb_submissions t)"
    unfolding subs by simp_all
qed

lemma rejudge_progress:
  assumes "rejudge_body u d = (Inr x, d')" and "progress_ok (db_cur d)" and "int (length (tb_submissions (db_cur d))) \<le> int32_max"
    and owner: "\<forall>s \<in> set (tb_submissions (db_cur d)). sb_id s = sb_id u \<longrightarrow> sb_user_id s = sb_user_id u \<and> sb_problem_id s = sb_problem_id u"
  shows "progress_ok (db_cur d')"
proof -
  let ?t = "db_cur d"
  obtain d1 where upd: "update_submission u ?t = Inr ((), db_cur d1)"
    and rc: "status_recompute (sb_user_id u) (sb_problem_id u) d1 = (Inr x, d')"
    using assms(1) by (rule rejudge_bodyE)
  note oth = update_submission_others[OF upd owner]
  have sts: "tb_statuses (db_cur d1) = tb_statuses ?t" using update_submission_Inr(1)[OF upd] by simp
  have rows: "row_agrees (db_cur d1) r" if "r \<in> set (tb_statuses (db_cur d1))" "\<not> is_status (sb_user_id u) (sb_problem_id u) r" for r
    using that assms(2) oth(2) row_agrees_cong[of r "db_cur d1" ?t] by (auto simp: sts progress_ok_def is_status_def)
  have counts: "up_submit_count r = int (length (submissions_of (sb_user_id u) (sb_problem_id u) (db_cur d1)))"
    if "r \<in> set (tb_statuses (db_cur d1))" "is_status (sb_user_id u) (sb_problem_id u) r" for r
    using that assms(2) oth(1) by (auto simp: sts progress_ok_def is_status_def row_agrees_def Let_def)
  have len: "length (tb_submissions (db_cur d1)) = length (tb_submissions ?t)" using oth(3) by (metis length_map)
  have covered: "clean_time (sb_created_at s) \<and> (\<exists>r \<in> set (tb_statuses (db_cur d1)). is_status (sb_user_id s) (sb_problem_id s) r)"
    if s: "s \<in> set (tb_submissions (db_cur d1))" for s
  proof -
    obtain j where j: "j < length (tb_submissions (db_cur d1))" "s = tb_submissions (db_cur d1) ! j"
      using s by (metis in_set_conv_nth)
    let ?s = "tb_submissions ?t ! j"
    have "?s \<in> set (tb_submissions ?t)" using j len by simp
    moreover have "sb_created_at s = sb_created_at ?s" "sb_user_id s = sb_user_id ?s" "sb_problem_id s = sb_problem_id ?s"
      using j len oth(3,4,5) by (metis nth_map)+
    ultimately show ?thesis using assms(2) by (simp add: progress_ok_def sts)
  qed
  show ?thesis
    by (rule recompute_progress[OF rc]) (use rows counts covered len assms(3) in auto)
qed

section \<open>Properties\<close>

text \<open>What a rejudge must never change: who submitted what, when, to which problem, under which id.\<close>

definition submission_identity :: "submission_row \<Rightarrow> int \<times> int \<times> int \<times> string \<times> string \<times> string" where
  "submission_identity s = (sb_id s, sb_user_id s, sb_problem_id s, sb_language s, sb_source_code s, sb_created_at s)"

lemma identity_update:
  "update_submission u t = Inr (x, t') \<Longrightarrow> map submission_identity (tb_submissions t') = map submission_identity (tb_submissions t)"
  by (drule update_submission_Inr(1)) (simp add: submission_identity_def)

lemma identity_op: "store_operation (rejudge_settle u) (\<lambda>t. map submission_identity (tb_submissions t) = s)"
  unfolding rejudge_settle_def
  by (rule store_operation_keepsI[OF txn_body_rejudge keeps_rejudge]) (simp_all add: identity_update upsert_status_frame(1))

lemma rejudge_settle_Inr:
  assumes "rejudge_settle u d = (Inr x, d')"
  obtains d1 d2 where "db_cur d1 = db_cur d" "rejudge_body u d1 = (Inr x, d2)" "db_cur d' = db_cur d2" "db_snap d' = None"
  using assms unfolding rejudge_settle_def by (rule with_txn_Inr)

text \<open>
  C15: writing the result of a rejudge. It adds and removes no submission and changes of none its
  id, author, problem, language, source or time; on success exactly the named submission has the new result
  and the progress table is again what the submissions demand (so an acceptance can be
  withdrawn, and the count of submissions stays); on failure nothing changes.
\<close>

theorem rejudge_settle_outcome:
  assumes "db_snap d = None" and "tables_ok (durable d)" and "progress_ok (durable d)"
    and "int (length (tb_submissions (durable d))) \<le> int32_max"
    and "\<forall>s \<in> set (tb_submissions (durable d)). sb_id s = sb_id u \<longrightarrow> sb_user_id s = sb_user_id u \<and> sb_problem_id s = sb_problem_id u"
    and "rejudge_settle u d = (r, d')"
  shows "map submission_identity (tb_submissions (durable d')) = map submission_identity (tb_submissions (durable d))
    \<and> progress_ok (durable d') \<and> tables_ok (durable d')
    \<and> (is_ok r \<longrightarrow> (\<forall>s \<in> set (tb_submissions (durable d')). sb_id s = sb_id u \<longrightarrow> sb_status s = sb_status u \<and> sb_per_case s = sb_per_case u)
         \<and> filter (\<lambda>s. sb_id s \<noteq> sb_id u) (tb_submissions (durable d')) = filter (\<lambda>s. sb_id s \<noteq> sb_id u) (tb_submissions (durable d)))
    \<and> (\<not> is_ok r \<longrightarrow> durable d' = durable d)"
proof -
  have ids: "map submission_identity (tb_submissions (durable d')) = map submission_identity (tb_submissions (durable d))"
    using store_operation.inv_durable[OF identity_op assms(1) refl, of u] assms(6) by simp
  have ok: "tables_ok (durable d')" using rejudge_settle.inv_durable[OF assms(1,2), of u] assms(6) by simp
  have fail: "\<not> is_ok r \<Longrightarrow> durable d' = durable d" using rejudge_settle.failed_durable[OF assms(1), of u] assms(6) by simp
  show ?thesis
  proof (cases r)
    case (Inl e)
    then show ?thesis using ids ok fail assms(3) by simp
  next
    case (Inr x)
    obtain d1 d2 where d: "db_cur d1 = db_cur d" "rejudge_body u d1 = (Inr x, d2)" "db_cur d' = db_cur d2" "db_snap d' = None"
      using assms(6)[unfolded Inr] by (rule rejudge_settle_Inr)
    have dur: "durable d = db_cur d1" "durable d' = db_cur d2" using assms(1) d by (simp_all add: durable_def)
    have "progress_ok (durable d')"
      unfolding dur by (rule rejudge_progress[OF d(2)]) (use assms(3-5) dur in simp_all)
    moreover obtain d3 where upd: "update_submission u (db_cur d1) = Inr ((), db_cur d3)"
      and rc: "status_recompute (sb_user_id u) (sb_problem_id u) d3 = (Inr x, d2)"
      using d(2) by (rule rejudge_bodyE)
    have "keeps (\<lambda>t. tb_submissions t = tb_submissions (db_cur d3)) (status_recompute (sb_user_id u) (sb_problem_id u))"
      by (rule keeps_recompute) (simp add: upsert_status_frame(1))
    then have "tb_submissions (db_cur d2) = tb_submissions (db_cur d3)" using rc unfolding keeps_def by blast
    then have subs: "tb_submissions (durable d') = map (\<lambda>s. if sb_id s = sb_id u then
             s\<lparr>sb_status := sb_status u, sb_per_case := sb_per_case u, sb_compile_msg := sb_compile_msg u,
               sb_runtime_ms := sb_runtime_ms u, sb_memory_kb := sb_memory_kb u\<rparr> else s) (tb_submissions (durable d))"
      unfolding dur using update_submission_Inr(1)[OF upd] by simp
    have "filter (\<lambda>s. sb_id s \<noteq> sb_id u) (tb_submissions (durable d')) = filter (\<lambda>s. sb_id s \<noteq> sb_id u) (tb_submissions (durable d))"
      unfolding subs by (rule filter_map_untouched) auto
    moreover have "\<forall>s \<in> set (tb_submissions (durable d')). sb_id s = sb_id u \<longrightarrow> sb_status s = sb_status u \<and> sb_per_case s = sb_per_case u"
      unfolding subs by auto
    ultimately show ?thesis using ids ok Inr by simp
  qed
qed

definition judged_db :: db where
  "judged_db = snd (settle ''a'' demo_row True flight_db)"

theorem rejudge_settle_outcome_witness:
  "progress_ok (durable (snd (rejudge_settle (demo_row\<lparr>sb_id := 1, sb_status := ''WA''\<rparr>) judged_db)))
   \<and> map up_status (tb_statuses (durable (snd (rejudge_settle (demo_row\<lparr>sb_id := 1, sb_status := ''WA''\<rparr>) judged_db)))) = [''none'']"
proof -
  let ?u = "demo_row\<lparr>sb_id := 1, sb_status := ''WA''\<rparr>"
  have "db_snap judged_db = None" "tables_ok (durable judged_db)" "progress_ok (durable judged_db)"
    "int (length (tb_submissions (durable judged_db))) \<le> int32_max"
    "\<forall>s \<in> set (tb_submissions (durable judged_db)). sb_id s = sb_id ?u \<longrightarrow> sb_user_id s = sb_user_id ?u \<and> sb_problem_id s = sb_problem_id ?u"
    "map up_status (tb_statuses (durable (snd (rejudge_settle ?u judged_db)))) = [''none'']"
    by code_simp+
  then show ?thesis
    using rejudge_settle_outcome[of judged_db ?u "fst (rejudge_settle ?u judged_db)" "snd (rejudge_settle ?u judged_db)"] by simp
qed

text \<open>
  A rejudge that ends in SYSERR (cancelled, out of time, executor failure) or throws leaves the
  database alone: the stored result is kept rather than overwritten by an internal failure.
\<close>

theorem rejudge_SYSERR_keeps:
  assumes "rejudge_read sid d = (Inr (original, task), d1)" and "judge env opts task w = (res, w1)"
    and "jr_status (judged task res) = SYSERR"
  shows "fst (snd (rejudge env opts dump others sid (d, w))) = others d1 \<and> db_cur d1 = db_cur d
    \<and> (\<exists>out. fst (rejudge env opts dump others sid (d, w)) = Inr out \<and> so_kind out = KInternalError)"
proof -
  have "db_cur d1 = db_cur d"
    using assms(1) unfolding rejudge_read_def submission_find_by_id_def list_testcases_def
    by (auto elim!: sql_read_InrE problem_find_by_idE split: prod.splits sum.splits option.splits)
  with assms show ?thesis by (simp add: rejudge_def Let_def outcome_of_def)
qed

definition failing_env :: "unit judge_env" where
  "failing_env = demo_env\<lparr>je_compile := (\<lambda>req w. (Inl ''fork'', w))\<rparr>"

theorem rejudge_SYSERR_keeps_witness:
  "db_cur (fst (snd (rejudge failing_env default_judge_options (\<lambda>j. Inr ''[]'') id 1 (judged_db, ())))) = db_cur judged_db"
proof -
  have "is_ok (fst (rejudge_read 1 judged_db))" by code_simp
  then obtain original task d1 where rd: "rejudge_read 1 judged_db = (Inr (original, task), d1)"
    by (metis is_okE prod.collapse)
  have "case fst (rejudge_read 1 judged_db) of Inr (s, k) \<Rightarrow>
      jr_status (judged k (fst (judge failing_env default_judge_options k ()))) = SYSERR | Inl e \<Rightarrow> False"
    by code_simp
  then have err: "jr_status (judged task (fst (judge failing_env default_judge_options task ()))) = SYSERR" using rd by simp
  obtain res w1 where j: "judge failing_env default_judge_options task () = (res, w1)" by (rule prod.exhaust)
  show ?thesis
    using rejudge_SYSERR_keeps[OF rd j, of "\<lambda>j. Inr ''[]''" id] err by (simp add: j)
qed

end
