(* ===== verification/OJ_Leaderboard.thy ===== *)
theory OJ_Leaderboard
  imports OJ_Submissions "HOL-Library.Product_Lexorder" "HOL-Library.Multiset"
begin

text \<open>
  The public leaderboard (\<open>db/leaderboard.cpp\<close>): one aggregation of the progress rows on visible
  problems per user, ordered globally before the page is cut.
\<close>

section \<open>Aggregation\<close>

record user_stats =
  lb_user :: int
  lb_ac :: int
  lb_submits :: int
  lb_first :: "string option"

text \<open>\<open>JOIN problems p ON p.id = ups.problem_id AND p.visible = 1\<close>; the ids of problems are unique.\<close>

definition visible_problem :: "tables \<Rightarrow> int \<Rightarrow> bool" where
  "visible_problem t pid = (\<exists>p \<in> set (tb_problems t). pb_id p = pid \<and> pb_visible p = 1)"

definition visible_statuses :: "tables \<Rightarrow> status_row list" where
  "visible_statuses t = filter (\<lambda>r. visible_problem t (up_problem_id r)) (tb_statuses t)"

text \<open>\<open>MIN\<close> over the values that are not NULL; NULL if there is none.\<close>

definition min_option :: "string list \<Rightarrow> string option" where
  "min_option xs = (case xs of [] \<Rightarrow> None | c # cs \<Rightarrow> Some (fold min cs c))"

definition stats_of :: "int \<Rightarrow> status_row list \<Rightarrow> user_stats" where
  "stats_of uid rows =
     (let acc = filter (\<lambda>r. up_status r = ''accepted'') rows in
      \<lparr>lb_user = uid, lb_ac = int (length acc), lb_submits = sum_list (map up_submit_count rows),
       lb_first = min_option (List.map_filter up_first_ac_at acc)\<rparr>)"

text \<open>\<open>kUserStatsSelect\<close>: \<open>GROUP BY ups.user_id\<close>.\<close>

definition user_stats_select :: "tables \<Rightarrow> user_stats list" where
  "user_stats_select t =
     map (\<lambda>uid. stats_of uid (filter (\<lambda>r. up_user_id r = uid) (visible_statuses t)))
       (remdups (map up_user_id (visible_statuses t)))"

definition counted_stats :: "tables \<Rightarrow> user_stats list" where
  "counted_stats t = filter (\<lambda>s. 0 < lb_submits s) (user_stats_select t)"

section \<open>The query\<close>

record leaderboard_entry =
  le_user_id :: int
  le_nickname :: string
  le_ac_count :: int
  le_submit_count :: int
  le_has_first_ac_at :: bool
  le_first_ac_at :: string
  le_created_at :: string

text \<open>The columns of one result row before they are read: statistics joined with the user.\<close>

definition joined_rows :: "tables \<Rightarrow> (user_stats \<times> user_row) list" where
  "joined_rows t = concat (map (\<lambda>s. map (\<lambda>u. (s, u)) (filter (\<lambda>u. us_id u = lb_user s) (tb_users t))) (counted_stats t))"

text \<open>The columns of ORDER BY, as one key: descending acceptances, then all others ascending.\<close>

definition order_key :: "user_stats \<times> user_row \<Rightarrow> int \<times> int \<times> bool \<times> string \<times> string \<times> int" where
  "order_key = (\<lambda>(s, u). (- lb_ac s, lb_submits s, lb_first s = None,
     (case lb_first s of None \<Rightarrow> [] | Some f \<Rightarrow> f), us_created_at u, us_id u))"

definition load_entry :: "user_stats \<times> user_row \<Rightarrow> leaderboard_entry" where
  "load_entry = (\<lambda>(s, u). \<lparr>le_user_id = us_id u, le_nickname = column_text (us_nickname u), le_ac_count = lb_ac s,
     le_submit_count = lb_submits s, le_has_first_ac_at = (lb_first s \<noteq> None),
     le_first_ac_at = (case lb_first s of None \<Rightarrow> [] | Some f \<Rightarrow> column_text f),
     le_created_at = column_text (us_created_at u)\<rparr>)"

definition ranking :: "tables \<Rightarrow> (user_stats \<times> user_row) list" where
  "ranking t = sort_key order_key (joined_rows t)"

definition leaderboard_query :: "int \<Rightarrow> int \<Rightarrow> (db_error, leaderboard_entry list \<times> int) dbm" where
  "leaderboard_query page page_size =
     (if page < 1 \<or> page_size < 1 then db_fail (DbError txt_leaderboard_page)
      else with_txn id
        (db_bind (sql_read (\<lambda>t. int (length (counted_stats t)))) (\<lambda>n.
         db_bind (sql_read (\<lambda>t. map load_entry (limit_offset page_size ((page - 1) * page_size) (ranking t)))) (\<lambda>items.
         db_ret (items, n)))))"

section \<open>What the figures mean\<close>

lemma stats_of_user [simp]: "lb_user (stats_of uid rows) = uid"
  by (simp add: stats_of_def Let_def)

lemma users_of_select: "distinct (map lb_user (user_stats_select t))" "distinct (map lb_user (counted_stats t))"
proof -
  have "map lb_user (user_stats_select t) = remdups (map up_user_id (visible_statuses t))"
    by (simp add: user_stats_select_def comp_def)
  then show "distinct (map lb_user (user_stats_select t))" by simp
  then show "distinct (map lb_user (counted_stats t))" by (simp add: counted_stats_def distinct_map_filter)
qed

text \<open>Each statistics row is joined with exactly one user, when the constraints of the schema hold.\<close>

lemma filter_unique_id:
  assumes "distinct (map us_id us)" and "u \<in> set us"
  shows "filter (\<lambda>v. us_id v = us_id u) us = [u]"
  using assms
proof (induction us)
  case (Cons v us)
  then show ?case by (auto simp: filter_empty_conv image_iff)
qed simp

lemma joined_single:
  assumes "tables_ok t" and "s \<in> set (counted_stats t)"
  shows "\<exists>u. filter (\<lambda>u. us_id u = lb_user s) (tb_users t) = [u] \<and> us_id u = lb_user s"
proof -
  obtain r where r: "r \<in> set (tb_statuses t)" "lb_user s = up_user_id r"
    using assms(2) by (auto simp: counted_stats_def user_stats_select_def visible_statuses_def)
  have "up_user_id r \<in> user_ids t"
    using assms(1) r(1) by (simp add: tables_ok_def statuses_ok_def)
  then have "lb_user s \<in> us_id ` set (tb_users t)" by (simp add: user_ids_def r(2))
  then obtain u where u: "u \<in> set (tb_users t)" "us_id u = lb_user s" by auto
  have "distinct (map us_id (tb_users t))" using assms(1) by (simp add: tables_ok_def users_ok_def keyed_def)
  from filter_unique_id[OF this u(1)] u(2) show ?thesis by metis
qed

lemma map_fst_joined:
  assumes "tables_ok t"
  shows "map fst (joined_rows t) = counted_stats t"
proof -
  have "map fst (concat (map (\<lambda>s. map (\<lambda>u. (s, u)) (filter (\<lambda>u. us_id u = lb_user s) (tb_users t))) ss)) = ss"
    if "set ss \<subseteq> set (counted_stats t)" for ss
    using that
  proof (induction ss)
    case (Cons s ss)
    then obtain u where "filter (\<lambda>u. us_id u = lb_user s) (tb_users t) = [u]" using joined_single[OF assms, of s] by auto
    with Cons show ?case by simp
  qed simp
  then show ?thesis by (simp add: joined_rows_def)
qed

lemma joined_user: "(s, u) \<in> set (joined_rows t) \<Longrightarrow> u \<in> set (tb_users t) \<and> us_id u = lb_user s \<and> s \<in> set (counted_stats t)"
  by (auto simp: joined_rows_def)

text \<open>With a correct progress table the figures are those of the submissions themselves.\<close>

definition solved_visible :: "tables \<Rightarrow> int \<Rightarrow> int set" where
  "solved_visible t uid = {pid. visible_problem t pid \<and>
     (\<exists>s \<in> set (tb_submissions t). sb_user_id s = uid \<and> sb_problem_id s = pid \<and> sb_status s = ''AC'')}"

definition visible_submissions :: "tables \<Rightarrow> int \<Rightarrow> submission_row list" where
  "visible_submissions t uid = filter (\<lambda>s. sb_user_id s = uid \<and> visible_problem t (sb_problem_id s)) (tb_submissions t)"

lemma sum_list_lengths_partition:
  assumes "distinct ps" and "\<forall>s \<in> set xs. f s \<in> set ps"
  shows "sum_list (map (\<lambda>p. int (length (filter (\<lambda>s. f s = p) xs))) ps) = int (length xs)"
  using assms(2)
proof (induction xs)
  case Nil
  show ?case by simp
next
  case (Cons x xs)
  have "sum_list (map (\<lambda>p. int (length (filter (\<lambda>s. f s = p) (x # xs)))) ps)
      = sum_list (map (\<lambda>p. if f x = p then 1 else 0) ps) + sum_list (map (\<lambda>p. int (length (filter (\<lambda>s. f s = p) xs))) ps)"
    by (subst sum_list_addf[symmetric]) (rule arg_cong[of _ _ sum_list], auto)
  moreover have "sum_list (map (\<lambda>p. if f x = p then 1 else 0) qs) = (if f x \<in> set qs then 1 else (0 :: int))" if "distinct qs" for qs
    using that by (induction qs) auto
  ultimately show ?case using Cons assms(1) by simp
qed

definition user_rows :: "tables \<Rightarrow> int \<Rightarrow> status_row list" where
  "user_rows t uid = filter (\<lambda>r. up_user_id r = uid) (visible_statuses t)"

lemma user_rows_mem:
  "r \<in> set (user_rows t uid) \<longleftrightarrow> r \<in> set (tb_statuses t) \<and> up_user_id r = uid \<and> visible_problem t (up_problem_id r)"
  by (auto simp: user_rows_def visible_statuses_def)

lemma user_rows_distinct:
  assumes "tables_ok t"
  shows "distinct (map up_problem_id (user_rows t uid))"
proof -
  have "distinct (map (\<lambda>r. (up_user_id r, up_problem_id r)) (tb_statuses t))"
    using assms by (simp add: tables_ok_def statuses_ok_def)
  then have "distinct (map (\<lambda>r. (up_user_id r, up_problem_id r)) (user_rows t uid))"
    by (simp add: user_rows_def visible_statuses_def distinct_map_filter)
  moreover have "map (\<lambda>r. (up_user_id r, up_problem_id r)) (user_rows t uid) = map (Pair uid) (map up_problem_id (user_rows t uid))"
    by (auto simp: user_rows_def)
  ultimately show ?thesis by (simp add: distinct_map del: map_map)
qed

lemma row_agrees_in:
  assumes "progress_ok t" and "r \<in> set (user_rows t uid)"
  shows "up_submit_count r = int (length (submissions_of uid (up_problem_id r) t))"
    and "up_first_ac_at r = first_accepted uid (up_problem_id r) t"
    and "up_status r = ''accepted'' \<longleftrightarrow> first_accepted uid (up_problem_id r) t \<noteq> None"
proof -
  have r: "row_agrees t r" "up_user_id r = uid" using assms by (auto simp: progress_ok_def user_rows_mem)
  then show "up_submit_count r = int (length (submissions_of uid (up_problem_id r) t))"
    "up_first_ac_at r = first_accepted uid (up_problem_id r) t"
    "up_status r = ''accepted'' \<longleftrightarrow> first_accepted uid (up_problem_id r) t \<noteq> None"
    by (auto simp: row_agrees_def Let_def)
qed

lemma covered_row:
  assumes "progress_ok t" and "s \<in> set (tb_submissions t)" and "visible_problem t (sb_problem_id s)"
  obtains r where "r \<in> set (user_rows t (sb_user_id s))" "up_problem_id r = sb_problem_id s"
  using assms by (auto simp: progress_ok_def is_status_def user_rows_mem)

lemma accepted_iff:
  "first_accepted uid pid t \<noteq> None \<longleftrightarrow> (\<exists>s \<in> set (tb_submissions t). sb_user_id s = uid \<and> sb_problem_id s = pid \<and> sb_status s = ''AC'')"
  using first_accepted_None[of uid pid t] by (auto simp: submissions_of_def)

lemma stats_ac:
  assumes "tables_ok t" and "progress_ok t"
  shows "lb_ac (stats_of uid (user_rows t uid)) = int (card (solved_visible t uid))"
proof -
  let ?acc = "filter (\<lambda>r. up_status r = ''accepted'') (user_rows t uid)"
  have "up_problem_id ` set ?acc = solved_visible t uid"
  proof (intro equalityI subsetI)
    fix pid
    assume "pid \<in> up_problem_id ` set ?acc"
    then obtain r where "r \<in> set (user_rows t uid)" "up_status r = ''accepted''" "pid = up_problem_id r" by auto
    moreover from this have "first_accepted uid (up_problem_id r) t \<noteq> None" using row_agrees_in(3)[OF assms(2)] by blast
    ultimately show "pid \<in> solved_visible t uid"
      unfolding accepted_iff by (auto simp: solved_visible_def user_rows_mem)
  next
    fix pid
    assume p: "pid \<in> solved_visible t uid"
    then obtain s where s: "s \<in> set (tb_submissions t)" "sb_user_id s = uid" "sb_problem_id s = pid" "visible_problem t pid"
      by (auto simp: solved_visible_def)
    then obtain r where r: "r \<in> set (user_rows t uid)" "up_problem_id r = pid" by (metis covered_row[OF assms(2)])
    have "first_accepted uid (up_problem_id r) t \<noteq> None" unfolding accepted_iff r(2) using p by (simp add: solved_visible_def)
    with r row_agrees_in(3)[OF assms(2) r(1)] show "pid \<in> up_problem_id ` set ?acc" by auto
  qed
  moreover have "card (up_problem_id ` set ?acc) = length ?acc"
    using distinct_card[of "map up_problem_id ?acc"] user_rows_distinct[OF assms(1), of uid]
    by (simp add: distinct_map_filter del: set_filter)
  ultimately show ?thesis by (simp add: stats_of_def Let_def)
qed

lemma stats_submits:
  assumes "tables_ok t" and "progress_ok t"
  shows "lb_submits (stats_of uid (user_rows t uid)) = int (length (visible_submissions t uid))"
proof -
  let ?ps = "map up_problem_id (user_rows t uid)"
  have one: "submissions_of uid p t = filter (\<lambda>s. sb_problem_id s = p) (visible_submissions t uid)" if "visible_problem t p" for p
    using that by (auto simp: submissions_of_def visible_submissions_def intro: filter_cong)
  have "sum_list (map up_submit_count (user_rows t uid))
      = sum_list (map (\<lambda>p. int (length (filter (\<lambda>s. sb_problem_id s = p) (visible_submissions t uid)))) ?ps)"
    unfolding map_map by (intro arg_cong[of _ _ sum_list] map_cong) (auto simp: row_agrees_in(1)[OF assms(2)] one user_rows_mem)
  also have "\<dots> = int (length (visible_submissions t uid))"
  proof (rule sum_list_lengths_partition[OF user_rows_distinct[OF assms(1)]])
    show "\<forall>s \<in> set (visible_submissions t uid). sb_problem_id s \<in> set ?ps"
    proof
      fix s
      assume "s \<in> set (visible_submissions t uid)"
      then have "s \<in> set (tb_submissions t)" "visible_problem t (sb_problem_id s)" and uid: "sb_user_id s = uid"
        by (simp_all add: visible_submissions_def)
      from covered_row[OF assms(2) this(1,2)] obtain r where "r \<in> set (user_rows t uid)" "up_problem_id r = sb_problem_id s"
        unfolding uid .
      then show "sb_problem_id s \<in> set ?ps" by force
    qed
  qed
  finally show ?thesis by (simp add: stats_of_def Let_def)
qed

lemma counted_mem:
  "s \<in> set (counted_stats t) \<longleftrightarrow> s = stats_of (lb_user s) (user_rows t (lb_user s)) \<and> user_rows t (lb_user s) \<noteq> [] \<and> 0 < lb_submits s"
proof -
  have "set (user_stats_select t) = (\<lambda>uid. stats_of uid (user_rows t uid)) ` up_user_id ` set (visible_statuses t)"
    by (simp add: user_stats_select_def user_rows_def)
  moreover have "uid \<in> up_user_id ` set (visible_statuses t) \<longleftrightarrow> user_rows t uid \<noteq> []" for uid
    by (auto simp: user_rows_def filter_empty_conv)
  ultimately have "s \<in> set (user_stats_select t) \<longleftrightarrow> s = stats_of (lb_user s) (user_rows t (lb_user s)) \<and> user_rows t (lb_user s) \<noteq> []"
    by (metis (no_types, lifting) imageE imageI stats_of_user)
  then show ?thesis by (auto simp: counted_stats_def)
qed

lemma ranking_users: "tables_ok t \<Longrightarrow> distinct (map (\<lambda>x. us_id (snd x)) (ranking t)) \<and> length (ranking t) = length (counted_stats t)"
proof -
  assume ok: "tables_ok t"
  have "map (\<lambda>x. us_id (snd x)) (joined_rows t) = map lb_user (map fst (joined_rows t))"
    using joined_user by (auto simp: map_eq_conv)
  also have "\<dots> = map lb_user (counted_stats t)" by (simp only: map_fst_joined[OF ok])
  finally have "distinct (map (\<lambda>x. us_id (snd x)) (joined_rows t))" by (simp only: users_of_select(2))
  moreover have "mset (map (\<lambda>x. us_id (snd x)) (ranking t)) = mset (map (\<lambda>x. us_id (snd x)) (joined_rows t))"
    by (simp add: ranking_def)
  moreover have "length (joined_rows t) = length (counted_stats t)" using map_fst_joined[OF ok] by (metis length_map)
  ultimately show ?thesis by (metis mset_eq_imp_distinct_iff length_sort ranking_def)
qed

lemma leaderboard_query_Inr:
  assumes "leaderboard_query page n d = (Inr (items, m), d')"
  shows "items = map load_entry (page_of (nat page) (nat n) (ranking (db_cur d)))" "m = int (length (counted_stats (db_cur d)))"
    "db_cur d' = db_cur d"
proof -
  have pos: "1 \<le> page" "1 \<le> n" and r: "with_txn id (db_bind (sql_read (\<lambda>t. int (length (counted_stats t)))) (\<lambda>k.
         db_bind (sql_read (\<lambda>t. map load_entry (limit_offset n ((page - 1) * n) (ranking t)))) (\<lambda>items.
         db_ret (items, k)))) d = (Inr (items, m), d')"
    using assms by (auto simp: leaderboard_query_def elim: db_fail_InrE split: if_splits)
  from r show "items = map load_entry (page_of (nat page) (nat n) (ranking (db_cur d)))"
    "m = int (length (counted_stats (db_cur d)))" "db_cur d' = db_cur d"
    by (elim with_txn_Inr; use pos in \<open>auto elim!: db_bind_InrE sql_read_InrE db_ret_InrE simp: limit_offset_page\<close>)+
qed

text \<open>
  C38: the leaderboard. A page is a window of one global ranking in which every user with at least one
  settled submission on a visible problem occurs exactly once, ordered by acceptances (falling), number
  of submissions, first acceptance (users without one last), registration and id; the total is the length of the
  ranking. The figures are those of the submissions: the number of distinct visible
  problems with an accepted submission, and the number of all submissions on visible
  problems. Hidden problems contribute nothing. Reading changes nothing.
\<close>

theorem leaderboard_correct:
  assumes "tables_ok (db_cur d)" and "progress_ok (db_cur d)" and "leaderboard_query page n d = (Inr (items, m), d')"
  shows "items = map load_entry (page_of (nat page) (nat n) (ranking (db_cur d)))
    \<and> m = int (length (ranking (db_cur d))) \<and> db_cur d' = db_cur d
    \<and> sorted (map order_key (ranking (db_cur d))) \<and> distinct (map (\<lambda>x. us_id (snd x)) (ranking (db_cur d)))
    \<and> (\<forall>(s, u) \<in> set (ranking (db_cur d)). lb_ac s = int (card (solved_visible (db_cur d) (us_id u)))
         \<and> lb_submits s = int (length (visible_submissions (db_cur d) (us_id u))) \<and> 0 < lb_submits s)
    \<and> (\<forall>u \<in> set (tb_users (db_cur d)). visible_submissions (db_cur d) (us_id u) \<noteq> [] \<longrightarrow> u \<in> snd ` set (ranking (db_cur d)))"
proof -
  let ?t = "db_cur d"
  have mem: "lb_ac s = int (card (solved_visible ?t (us_id u))) \<and> lb_submits s = int (length (visible_submissions ?t (us_id u))) \<and> 0 < lb_submits s"
    if "(s, u) \<in> set (ranking ?t)" for s u
  proof -
    have "us_id u = lb_user s" "s \<in> set (counted_stats ?t)" using joined_user that by (auto simp: ranking_def)
    then have "s = stats_of (us_id u) (user_rows ?t (us_id u))" "0 < lb_submits s" using counted_mem[of s ?t] by auto
    then show ?thesis using stats_ac[OF assms(1,2), of "us_id u"] stats_submits[OF assms(1,2), of "us_id u"] by metis
  qed
  have all: "u \<in> snd ` set (ranking ?t)" if u: "u \<in> set (tb_users ?t)" "visible_submissions ?t (us_id u) \<noteq> []" for u
  proof -
    obtain x where x: "x \<in> set (visible_submissions ?t (us_id u))" using u(2) by (meson last_in_set)
    then have "x \<in> set (tb_submissions ?t)" "visible_problem ?t (sb_problem_id x)" and ux: "sb_user_id x = us_id u"
      by (simp_all add: visible_submissions_def)
    from covered_row[OF assms(2) this(1,2)] have "user_rows ?t (us_id u) \<noteq> []" unfolding ux by force
    moreover have "0 < lb_submits (stats_of (us_id u) (user_rows ?t (us_id u)))"
      using stats_submits[OF assms(1,2), of "us_id u"] u(2) by simp
    ultimately have "stats_of (us_id u) (user_rows ?t (us_id u)) \<in> set (counted_stats ?t)" by (simp add: counted_mem)
    with u(1) have "(stats_of (us_id u) (user_rows ?t (us_id u)), u) \<in> set (joined_rows ?t)"
      unfolding joined_rows_def set_concat set_map by (intro UN_I[of "map (\<lambda>v. (stats_of (us_id u) (user_rows ?t (us_id u)), v))
        (filter (\<lambda>v. us_id v = us_id u) (tb_users ?t))"]) (auto intro!: rev_image_eqI)
    then show ?thesis by (force simp: ranking_def)
  qed
  have sd: "sorted (map order_key (ranking ?t))" by (simp add: ranking_def)
  show ?thesis
    using leaderboard_query_Inr[OF assms(3)] ranking_users[OF assms(1)] sd mem all by auto
qed

definition ranked_db :: db where
  "ranked_db = problem_db\<lparr>db_cur := problem_tables\<lparr>tb_submissions := [demo_row\<lparr>sb_id := 1\<rparr>], tb_submissions_seq := 1,
     tb_statuses := [\<lparr>up_id = 1, up_user_id = 2, up_problem_id = 1, up_status = ''accepted'',
       up_first_ac_at = Some ''2026-01-02 00:00:00'', up_submit_count = 1\<rparr>], tb_statuses_seq := 1\<rparr>\<rparr>"

theorem leaderboard_correct_witness:
  "case fst (leaderboard_query 1 20 ranked_db) of
     Inl e \<Rightarrow> False
   | Inr (items, m) \<Rightarrow> m = 1 \<and> items = map load_entry (page_of 1 20 (ranking (db_cur ranked_db))) \<and> map le_user_id items = [2]"
proof -
  have ok: "tables_ok (db_cur ranked_db)" "progress_ok (db_cur ranked_db)" by code_simp+
  have "is_ok (fst (leaderboard_query 1 20 ranked_db))" by code_simp
  then obtain items m d' where r: "leaderboard_query 1 20 ranked_db = (Inr (items, m), d')"
    by (metis is_okE prod.collapse)
  have "length (ranking (db_cur ranked_db)) = 1 \<and> map le_user_id (map load_entry (page_of 1 20 (ranking (db_cur ranked_db)))) = [2]"
    by code_simp
  then show ?thesis using leaderboard_correct[OF ok r] r by simp
qed

end
