(* ===== verification/OJ_Recovery.thy ===== *)
theory OJ_Recovery
  imports OJ_Submit
begin

text \<open>
  The recovery of accepted tasks at the start of the server (\<open>submit/recovery.cpp\<close>): pending tasks
  are read in batches, each is claimed in the database and handed to the task manager
  under a reservation. The service runs beside the workers and the request threads: before
  every access to the manager or the database the parameter \<open>others\<close> is applied, any function of the
  process state; it also gives the value of the flag \<open>aborted_\<close> where the code reads it. The two loops that
  may not end (waiting for room in the queue, reading batches) take fuel; \<open>recovery_completes\<close>
  gives the amounts that are enough. Every run also returns the calls it made, in order.
\<close>

section \<open>State and options\<close>

record recovery_options =
  ro_batch_size :: int
  ro_retry_sleep_ms :: int
  ro_reset_stale_claims :: bool

definition default_recovery_options :: recovery_options where
  "default_recovery_options = \<lparr>ro_batch_size = 16, ro_retry_sleep_ms = 50, ro_reset_stale_claims = True\<rparr>"

text \<open>The process as the recovery sees it; \<open>rw_rest\<close> is whatever else the other threads have.\<close>

record ('x, 's) recovery_world =
  rw_db :: db
  rw_manager :: "'s manager"
  rw_rest :: 'x

datatype recovery_event =
  EvReserve reservation
| EvClaim in_flight_task "db_error + bool"
| EvCommit submission_task reservation
| EvRelease reservation

type_synonym ('x, 's) others = "('x, 's) recovery_world \<Rightarrow> bool \<times> ('x, 's) recovery_world"

section \<open>The service\<close>

definition recovery_task :: "in_flight_task \<Rightarrow> submission_task" where
  "recovery_task task = \<lparr>st_task_id = 0, st_user_id = ft_user_id task, st_problem_id = ft_problem_id task,
     st_language = ft_language task, st_source_code = ft_source_code task, st_viewer_is_admin = True,
     st_submitted_at = ft_submitted_at task, st_rejudge_submission_id = 0, st_in_flight_task_id = ft_task_id task\<rparr>"

text \<open>Waiting for room: a full queue is tried again unless the recovery is aborted.\<close>

fun reserve_loop :: "('x, 's) others \<Rightarrow> nat \<Rightarrow> ('x, 's) recovery_world
    \<Rightarrow> (reservation \<times> recovery_event list \<times> ('x, 's) recovery_world) option" where
  "reserve_loop others 0 w = None"
| "reserve_loop others (Suc k) w =
     (let w1 = snd (others w);
          (resv, m) = reserve (rw_manager w1);
          w2 = w1\<lparr>rw_manager := m\<rparr> in
      if rs_ok resv \<or> rs_status resv = Stopped then Some (resv, [EvReserve resv], w2)
      else let (aborted, w3) = others w2 in
           if aborted then Some (resv, [EvReserve resv], w3)
           else map_option (\<lambda>(r, evs, w'). (r, EvReserve resv # evs, w')) (reserve_loop others k w3))"

definition rv_claim :: "('x, 's) others \<Rightarrow> in_flight_task \<Rightarrow> string \<Rightarrow> ('x, 's) recovery_world
    \<Rightarrow> (db_error + bool) \<times> ('x, 's) recovery_world" where
  "rv_claim others task owner w =
     (let w1 = snd (others w); (c, d) = claim (ft_id task) owner (rw_db w1) in (c, w1\<lparr>rw_db := d\<rparr>))"

definition rv_release :: "('x, 's) others \<Rightarrow> reservation \<Rightarrow> ('x, 's) recovery_world \<Rightarrow> ('x, 's) recovery_world" where
  "rv_release others resv w = (let w1 = snd (others w) in w1\<lparr>rw_manager := release resv (rw_manager w1)\<rparr>)"

definition rv_commit :: "('x, 's) others \<Rightarrow> submission_task \<Rightarrow> reservation \<Rightarrow> ('x, 's) recovery_world
    \<Rightarrow> ('x, 's) recovery_world" where
  "rv_commit others task resv w = (let w1 = snd (others w) in w1\<lparr>rw_manager := snd (commit task resv (rw_manager w1))\<rparr>)"

text \<open>How one task ends: the next task (enqueued or not), leave the batch, or leave the recovery.\<close>

datatype task_flow = FlowNext bool | FlowBreak | FlowReturn

definition recover_task :: "('x, 's) others \<Rightarrow> nat \<Rightarrow> string \<Rightarrow> in_flight_task \<Rightarrow> ('x, 's) recovery_world
    \<Rightarrow> (task_flow \<times> recovery_event list \<times> ('x, 's) recovery_world) option" where
  "recover_task others k owner task w =
     (let (aborted, w0) = others w in
      if aborted then Some (FlowBreak, [], w0)
      else case reserve_loop others k w0 of
        None \<Rightarrow> None
      | Some (resv, evs, w1) \<Rightarrow>
          if \<not> rs_ok resv then Some (if rs_status resv = Stopped then FlowReturn else FlowBreak, evs, w1)
          else let (c, w2) = rv_claim others task owner w1 in
            (case c of
               Inl e \<Rightarrow> Some (FlowReturn, evs @ [EvClaim task c, EvRelease resv], rv_release others resv w2)
             | Inr False \<Rightarrow> Some (FlowNext False, evs @ [EvClaim task c, EvRelease resv], rv_release others resv w2)
             | Inr True \<Rightarrow> Some (FlowNext True, evs @ [EvClaim task c, EvCommit (recovery_task task) resv],
                 rv_commit others (recovery_task task) resv w2)))"

text \<open>One batch: whether the outer loop goes on, and the number of tasks enqueued.\<close>

fun recover_batch :: "('x, 's) others \<Rightarrow> nat \<Rightarrow> string \<Rightarrow> in_flight_task list \<Rightarrow> ('x, 's) recovery_world
    \<Rightarrow> (bool \<times> nat \<times> recovery_event list \<times> ('x, 's) recovery_world) option" where
  "recover_batch others k owner [] w = Some (True, 0, [], w)"
| "recover_batch others k owner (task # tasks) w =
     (case recover_task others k owner task w of
        None \<Rightarrow> None
      | Some (FlowReturn, evs, w1) \<Rightarrow> Some (False, 0, evs, w1)
      | Some (FlowBreak, evs, w1) \<Rightarrow> Some (True, 0, evs, w1)
      | Some (FlowNext b, evs, w1) \<Rightarrow>
          map_option (\<lambda>(go, n, evs', w'). (go, (if b then 1 else 0) + n, evs @ evs', w'))
            (recover_batch others k owner tasks w1))"

fun recover_loop :: "('x, 's) others \<Rightarrow> nat \<Rightarrow> string \<Rightarrow> int \<Rightarrow> nat \<Rightarrow> ('x, 's) recovery_world
    \<Rightarrow> (nat \<times> recovery_event list \<times> ('x, 's) recovery_world) option" where
  "recover_loop others k owner batch_size 0 w = None"
| "recover_loop others k owner batch_size (Suc fuel) w =
     (let (aborted, w0) = others w in
      if aborted then Some (0, [], w0)
      else let w1 = snd (others w0); (r, d) = list_pending batch_size (rw_db w1); w2 = w1\<lparr>rw_db := d\<rparr> in
      (case r of
         Inl e \<Rightarrow> Some (0, [], w2)
       | Inr batch \<Rightarrow>
           if batch = [] then Some (0, [], w2)
           else case recover_batch others k owner batch w2 of
             None \<Rightarrow> None
           | Some (go, n, evs, w3) \<Rightarrow>
               if \<not> go then Some (n, evs, w3)
               else map_option (\<lambda>(n', evs', w'). (n + n', evs @ evs', w')) (recover_loop others k owner batch_size fuel w3)))"

definition recovery_run :: "('x, 's) others \<Rightarrow> nat \<Rightarrow> nat \<Rightarrow> string \<Rightarrow> recovery_options \<Rightarrow> ('x, 's) recovery_world
    \<Rightarrow> (nat \<times> recovery_event list \<times> ('x, 's) recovery_world) option" where
  "recovery_run others k fuel owner opts w =
     (let w1 = snd (others w);
          (r, d) = (if ro_reset_stale_claims opts then reset_stale_claims (rw_db w1) else (Inr (), rw_db w1));
          w2 = w1\<lparr>rw_db := d\<rparr>;
          batch_size = (if 0 < ro_batch_size opts then ro_batch_size opts else 1) in
      case r of
        Inl e \<Rightarrow> Some (0, [], w2)
      | Inr _ \<Rightarrow> recover_loop others k owner batch_size fuel w2)"

section \<open>The protocol of the calls\<close>

text \<open>
  The order of calls as an automaton: a reservation that was granted is followed by one claim,
  and this by the commit of exactly the claimed task or by the release.
\<close>

datatype recovery_phase = RvIdle | RvHeld | RvClaimed in_flight_task | RvUnclaimed

fun recovery_next :: "recovery_phase option \<Rightarrow> recovery_event \<Rightarrow> recovery_phase option" where
  "recovery_next (Some RvIdle) (EvReserve r) = Some (if rs_ok r then RvHeld else RvIdle)"
| "recovery_next (Some RvHeld) (EvClaim task c) = Some (if c = Inr True then RvClaimed task else RvUnclaimed)"
| "recovery_next (Some (RvClaimed task)) (EvCommit t r) = (if rs_ok r \<and> t = recovery_task task then Some RvIdle else None)"
| "recovery_next (Some RvUnclaimed) (EvRelease r) = (if rs_ok r then Some RvIdle else None)"
| "recovery_next _ _ = None"

definition committed_tasks :: "recovery_event list \<Rightarrow> submission_task list" where
  "committed_tasks evs = List.map_filter (\<lambda>e. case e of EvCommit t r \<Rightarrow> Some t | _ \<Rightarrow> None) evs"

lemma committed_tasks_simps [simp]:
  "committed_tasks [] = []"
  "committed_tasks (a @ b) = committed_tasks a @ committed_tasks b"
  "committed_tasks (EvReserve r # evs) = committed_tasks evs"
  "committed_tasks (EvClaim ft c # evs) = committed_tasks evs"
  "committed_tasks (EvCommit t r # evs) = t # committed_tasks evs"
  "committed_tasks (EvRelease r # evs) = committed_tasks evs"
  by (simp_all add: committed_tasks_def List.map_filter_def)

lemma reserve_loop_trace:
  assumes "reserve_loop others k w = Some (resv, evs, w')"
  shows "foldl recovery_next (Some RvIdle) evs = Some (if rs_ok resv then RvHeld else RvIdle) \<and> committed_tasks evs = []"
  using assms
  by (induction others k w arbitrary: resv evs w' rule: reserve_loop.induct)
    (auto simp: Let_def split: prod.splits if_splits)

lemma recover_task_trace:
  assumes "recover_task others k owner task w = Some (flow, evs, w')"
  shows "foldl recovery_next (Some RvIdle) evs = Some RvIdle
    \<and> committed_tasks evs = (if flow = FlowNext True then [recovery_task task] else [])"
  using assms unfolding recover_task_def
  by (auto simp: Let_def dest!: reserve_loop_trace split: prod.splits if_splits option.splits sum.splits bool.splits)

lemma recover_batch_trace:
  assumes "recover_batch others k owner tasks w = Some (go, n, evs, w')"
  shows "foldl recovery_next (Some RvIdle) evs = Some RvIdle \<and> length (committed_tasks evs) = n"
  using assms
proof (induction tasks arbitrary: w go n evs w')
  case Nil
  then show ?case by simp
next
  case (Cons task tasks)
  show ?case
    using Cons.prems Cons.IH
    by (fastforce dest!: recover_task_trace split: option.splits prod.splits task_flow.splits if_splits)
qed

lemma recover_loop_trace:
  assumes "recover_loop others k owner b fuel w = Some (n, evs, w')"
  shows "foldl recovery_next (Some RvIdle) evs = Some RvIdle \<and> length (committed_tasks evs) = n"
  using assms
proof (induction fuel arbitrary: w n evs w')
  case 0
  then show ?case by simp
next
  case (Suc fuel)
  show ?case
    using Suc.prems Suc.IH
    by (fastforce simp: Let_def dest!: recover_batch_trace split: option.splits prod.splits sum.splits if_splits)
qed

text \<open>
  The recovery never leaks a reservation and never runs an unclaimed task. Whatever the other
  threads do in between, whichever statements fail and wherever it is aborted: when it returns, every
  granted reservation has been used for exactly one commit or release, a task is committed only
  directly after this instance won its claim, with user, problem, language, source and original time of
  the stored row, and the number returned is the number of tasks committed.
\<close>

theorem recovery_protocol:
  "case recovery_run others k fuel owner opts w of None \<Rightarrow> True | Some (n, evs, w') \<Rightarrow>
     foldl recovery_next (Some RvIdle) evs = Some RvIdle \<and> length (committed_tasks evs) = n"
  unfolding recovery_run_def
  by (auto simp: Let_def dest!: recover_loop_trace split: option.splits prod.splits sum.splits if_splits)

section \<open>Completeness\<close>

definition pendings :: "('x, 's) recovery_world \<Rightarrow> in_flight_row list" where
  "pendings w = pending_rows (db_cur (rw_db w))"

definition has_room :: "'s manager \<Rightarrow> bool" where
  "has_room m = (length (mg_queue m) + mg_reserved m < mg_queue_capacity m)"

definition live :: "('x, 's) recovery_world \<Rightarrow> bool" where
  "live w = (\<not> mg_stopped (rw_manager w) \<and> 0 < mg_queue_capacity (rw_manager w) \<and> db_faults (rw_db w) = [])"

text \<open>
  The other threads while the recovery is left to finish: nobody aborts it, stops the manager or touches
  pending rows, no statement fails, and the workers make room in the queue at the latest at the
  \<open>k\<close>-th attempt.
\<close>

definition calm :: "('x, 's) others \<Rightarrow> nat \<Rightarrow> bool" where
  "calm others k = (\<forall>w. live w \<longrightarrow> \<not> fst (others w) \<and> live (snd (others w)) \<and> pendings (snd (others w)) = pendings w
     \<and> (\<exists>j<k. has_room (rw_manager (((snd \<circ> others) ^^ (2 * j + 1)) w))))"

lemma calmD:
  assumes "calm others k" and "live w"
  shows "\<not> fst (others w)" "live (snd (others w))" "pendings (snd (others w)) = pendings w"
    "\<exists>j<k. has_room (rw_manager (((snd \<circ> others) ^^ (2 * j + 1)) w))"
  using assms unfolding calm_def by blast+

lemma reserve_room:
  assumes "\<not> mg_stopped m"
  shows "rs_ok (fst (reserve m)) = has_room m" "\<not> has_room m \<Longrightarrow> reserve m = (\<lparr>rs_ok = False, rs_status = QueueFull\<rparr>, m)"
    "mg_stopped (snd (reserve m)) = mg_stopped m" "mg_queue_capacity (snd (reserve m)) = mg_queue_capacity m"
  using assms by (auto simp: reserve_def has_room_def)

lemma commit_frame:
  "mg_stopped (snd (commit task resv m)) = mg_stopped m" "mg_queue_capacity (snd (commit task resv m)) = mg_queue_capacity m"
  by (auto simp: commit_def commit_enter_def assign_task_id_def drop_reserved_def enqueue_item_def count_accepted_def Let_def
      split: prod.splits)

lemma reserve_loop_calm:
  assumes "calm others k0" and "live w" and "\<exists>j<k. has_room (rw_manager (((snd \<circ> others) ^^ (2 * j + 1)) w))"
  shows "\<exists>resv evs w'. reserve_loop others k w = Some (resv, evs, w') \<and> rs_ok resv \<and> live w' \<and> pendings w' = pendings w"
  using assms(2,3)
proof (induction k arbitrary: w)
  case 0
  then show ?case by simp
next
  case (Suc k)
  let ?w1 = "snd (others w)"
  note c1 = calmD[OF assms(1) Suc.prems(1)]
  have ns: "\<not> mg_stopped (rw_manager ?w1)" using c1(2) by (simp add: live_def)
  show ?case
  proof (cases "has_room (rw_manager ?w1)")
    case True
    then have "rs_ok (fst (reserve (rw_manager ?w1)))" using reserve_room(1)[OF ns] by simp
    moreover have "live (?w1\<lparr>rw_manager := snd (reserve (rw_manager ?w1))\<rparr>)"
      using c1(2) reserve_room(3,4)[OF ns] by (simp add: live_def)
    moreover have "pendings (?w1\<lparr>rw_manager := snd (reserve (rw_manager ?w1))\<rparr>) = pendings w"
      using c1(3) by (simp add: pendings_def)
    ultimately show ?thesis by (auto simp: Let_def split: prod.splits)
  next
    case False
    note full = reserve_room(2)[OF ns False]
    let ?w3 = "snd (others ?w1)"
    note c2 = calmD[OF assms(1) c1(2)]
    obtain j where j: "j < Suc k" "has_room (rw_manager (((snd \<circ> others) ^^ (2 * j + 1)) w))" using Suc.prems(2) by blast
    with False obtain i where i: "j = Suc i" by (cases j) auto
    have "((snd \<circ> others) ^^ (2 * Suc i + 1)) w = ((snd \<circ> others) ^^ (2 * i + 1)) ?w3"
      using funpow_swap1[of "snd \<circ> others" "2 * i + 1" "snd (others w)"] funpow_swap1[of "snd \<circ> others" "2 * i + 2" w] by simp
    with j i have "\<exists>j<k. has_room (rw_manager (((snd \<circ> others) ^^ (2 * j + 1)) ?w3))" by auto
    from Suc.IH[OF c2(2) this] obtain resv evs w' where
      "reserve_loop others k ?w3 = Some (resv, evs, w')" "rs_ok resv" "live w'" "pendings w' = pendings w"
      using c1(3) c2(3) by auto
    with full c2(1) show ?thesis by (auto simp: Let_def case_prod_beta)
  qed
qed

lemma pending_claim:
  "pending_rows (t\<lparr>tb_in_flight := map (\<lambda>r. if claimable i r then r\<lparr>fl_state := ''claimed'', fl_owner := owner, fl_claimed_at := Some now\<rparr>
      else r) (tb_in_flight t)\<rparr>) = filter (\<lambda>r. fl_id r \<noteq> i) (pending_rows t)"
proof -
  have "filter (\<lambda>r. fl_state r = ''pending'') (map (\<lambda>r. if claimable i r
      then r\<lparr>fl_state := ''claimed'', fl_owner := owner, fl_claimed_at := Some now\<rparr> else r) rows)
    = filter (\<lambda>r. fl_id r \<noteq> i) (filter (\<lambda>r. fl_state r = ''pending'') rows)" for rows
    by (induction rows) (auto simp: claimable_def)
  then show ?thesis by (simp add: pending_rows_def filter_sort)
qed

lemma rv_claim_calm:
  assumes "calm others k" and "live w" and "r \<in> set (pendings w)"
  shows "\<exists>w'. rv_claim others (load_in_flight r) owner w = (Inr True, w') \<and> live w'
    \<and> pendings w' = filter (\<lambda>x. fl_id x \<noteq> fl_id r) (pendings w)"
proof -
  let ?w1 = "snd (others w)"
  note c = calmD[OF assms(1,2)]
  have f: "db_faults (rw_db ?w1) = []" using c(2) by (simp add: live_def)
  have "r \<in> set (pendings ?w1)" using assms(3) c(3) by simp
  then have "\<exists>x \<in> set (tb_in_flight (db_cur (rw_db ?w1))). claimable (fl_id r) x"
    by (auto simp: pendings_def pending_rows_def claimable_def)
  with f show ?thesis
    using c(2,3) by (auto simp: rv_claim_def claim_def sql_at_quiet load_in_flight_def live_def pendings_def pending_claim Let_def)
qed

lemma recover_task_calm:
  assumes "calm others k" and "live w" and "r \<in> set (pendings w)"
  shows "\<exists>evs w'. recover_task others k owner (load_in_flight r) w = Some (FlowNext True, evs, w') \<and> live w'
    \<and> pendings w' = filter (\<lambda>x. fl_id x \<noteq> fl_id r) (pendings w)"
proof -
  let ?w0 = "snd (others w)"
  note c0 = calmD[OF assms(1,2)]
  obtain resv evs w1 where rl: "reserve_loop others k ?w0 = Some (resv, evs, w1)" "rs_ok resv" "live w1" "pendings w1 = pendings ?w0"
    using reserve_loop_calm[OF assms(1) c0(2) calmD(4)[OF assms(1) c0(2)]] by blast
  have "r \<in> set (pendings w1)" using rl(4) c0(3) assms(3) by simp
  from rv_claim_calm[OF assms(1) rl(3) this] obtain w2 where
    cl: "rv_claim others (load_in_flight r) owner w1 = (Inr True, w2)" "live w2" "pendings w2 = filter (\<lambda>x. fl_id x \<noteq> fl_id r) (pendings w1)"
    by blast
  note c2 = calmD[OF assms(1) cl(2)]
  let ?w3 = "rv_commit others (recovery_task (load_in_flight r)) resv w2"
  have "live ?w3" "pendings ?w3 = pendings w2"
    using c2(2,3) by (auto simp: rv_commit_def Let_def live_def pendings_def commit_frame)
  with rl cl c0 show ?thesis by (simp add: recover_task_def case_prod_beta)
qed

lemma recover_batch_calm:
  assumes "calm others k" and "live w" and "pendings w = rows @ rest" and "distinct (map fl_id (rows @ rest))"
  shows "\<exists>evs w'. recover_batch others k owner (map load_in_flight rows) w = Some (True, length rows, evs, w') \<and> live w'
    \<and> pendings w' = rest \<and> committed_tasks evs = map (recovery_task \<circ> load_in_flight) rows"
  using assms(2-)
proof (induction rows arbitrary: w)
  case Nil
  then show ?case by simp
next
  case (Cons r rows)
  have "r \<in> set (pendings w)" using Cons.prems(2) by simp
  from recover_task_calm[OF assms(1) Cons.prems(1) this] obtain evs w1 where
    tk: "recover_task others k owner (load_in_flight r) w = Some (FlowNext True, evs, w1)" "live w1"
      "pendings w1 = filter (\<lambda>x. fl_id x \<noteq> fl_id r) (pendings w)" by blast
  have "filter (\<lambda>x. fl_id x \<noteq> fl_id r) (rows @ rest) = rows @ rest"
    using Cons.prems(3) by (intro filter_True) (auto simp: image_iff)
  then have "pendings w1 = rows @ rest" using tk(3) Cons.prems(2) by simp
  from Cons.IH[OF tk(2) this] Cons.prems(3) obtain evs' w' where
    "recover_batch others k owner (map load_in_flight rows) w1 = Some (True, length rows, evs', w')" "live w'"
    "pendings w' = rest" "committed_tasks evs' = map (recovery_task \<circ> load_in_flight) rows" by auto
  with tk recover_task_trace[OF tk(1)] show ?case by auto
qed

lemma recover_loop_calm:
  assumes "calm others k" and "live w" and "distinct (map fl_id (pendings w))" and "0 < b" and "length (pendings w) < fuel"
  shows "\<exists>evs w'. recover_loop others k owner b fuel w = Some (length (pendings w), evs, w') \<and> pendings w' = []
    \<and> committed_tasks evs = map (recovery_task \<circ> load_in_flight) (pendings w)"
  using assms(2,3,5)
proof (induction fuel arbitrary: w)
  case 0
  then show ?case by simp
next
  case (Suc fuel)
  let ?w1 = "snd (others (snd (others w)))"
  note c0 = calmD[OF assms(1) Suc.prems(1)]
  note c1 = calmD[OF assms(1) c0(2)]
  let ?rows = "take (nat b) (pendings w)" and ?rest = "drop (nat b) (pendings w)"
  have f: "db_faults (rw_db ?w1) = []" using c1(2) by (simp add: live_def)
  have lp: "list_pending b (rw_db ?w1) = (Inr (map load_in_flight ?rows), rw_db ?w1)"
    using f assms(4) c0(3) c1(3) by (simp add: list_pending_def sql_read_quiet pendings_def)
  show ?case
  proof (cases "pendings w = []")
    case True
    with lp c0 c1 show ?thesis by (simp add: case_prod_beta)
  next
    case False
    then have ne: "?rows \<noteq> []" and shorter: "length ?rest < length (pendings w)" using assms(4) by auto
    have split: "pendings ?w1 = ?rows @ ?rest" using c0(3) c1(3) by simp
    have "distinct (map fl_id (?rows @ ?rest))" using Suc.prems(2) by simp
    from recover_batch_calm[OF assms(1) c1(2) split this] obtain evs w3 where
      bt: "recover_batch others k owner (map load_in_flight ?rows) ?w1 = Some (True, length ?rows, evs, w3)" "live w3"
        "pendings w3 = ?rest" "committed_tasks evs = map (recovery_task \<circ> load_in_flight) ?rows" by blast
    have "distinct (map fl_id (pendings w3))" using Suc.prems(2) bt(3) by (simp add: drop_map[symmetric])
    with Suc.IH[OF bt(2)] Suc.prems(3) shorter bt(3) obtain evs' w' where
      "recover_loop others k owner b fuel w3 = Some (length ?rest, evs', w')" "pendings w' = []"
      "committed_tasks evs' = map (recovery_task \<circ> load_in_flight) ?rest" by (metis (no_types, lifting) Suc_less_SucD order_less_le_trans less_Suc_eq_le)
    moreover have "length ?rows + length ?rest = length (pendings w)" by (metis append_take_drop_id length_append)
    moreover have "map (recovery_task \<circ> load_in_flight) ?rows @ map (recovery_task \<circ> load_in_flight) ?rest
        = map (recovery_task \<circ> load_in_flight) (pendings w)" by (metis append_take_drop_id map_append)
    ultimately show ?thesis using bt lp c0 c1 ne by (simp add: case_prod_beta del: length_take length_drop)
  qed
qed

text \<open>The rows a recovery has to bring back, in the order of their ids.\<close>

definition unsettled_rows :: "bool \<Rightarrow> tables \<Rightarrow> in_flight_row list" where
  "unsettled_rows reset t = sort_key fl_id (filter (\<lambda>r. fl_state r = ''pending'' \<or> reset \<and> fl_state r = ''claimed'') (tb_in_flight t))"

lemma sort_key_map_same:
  assumes "\<And>x. f (g x) = f x"
  shows "sort_key f (map g xs) = map g (sort_key f xs)"
proof -
  have "insort_key f (g x) (map g ys) = map g (insort_key f x ys)" for x ys
    by (induction ys) (auto simp: assms)
  then show ?thesis by (induction xs) auto
qed

lemma pending_after_reset:
  assumes "db_faults d = []"
  shows "\<exists>d'. reset_stale_claims d = (Inr (), d') \<and> db_faults d' = []
    \<and> map (recovery_task \<circ> load_in_flight) (pending_rows (db_cur d')) = map (recovery_task \<circ> load_in_flight) (unsettled_rows True (db_cur d))
    \<and> map fl_id (pending_rows (db_cur d')) = map fl_id (unsettled_rows True (db_cur d))"
proof -
  let ?g = "\<lambda>r :: in_flight_row. if fl_state r = ''claimed'' then r\<lparr>fl_state := ''pending'', fl_owner := [], fl_claimed_at := None\<rparr> else r"
  have flt: "filter (\<lambda>r. fl_state r = ''pending'') (map ?g rows)
      = map ?g (filter (\<lambda>r. fl_state r = ''pending'' \<or> True \<and> fl_state r = ''claimed'') rows)" for rows
    by (induction rows) auto
  have "sort_key fl_id (map ?g rows) = map ?g (sort_key fl_id rows)" for rows
    by (rule sort_key_map_same) simp
  then have "pending_rows ((db_cur d)\<lparr>tb_in_flight := map ?g (tb_in_flight (db_cur d))\<rparr>) = map ?g (unsettled_rows True (db_cur d))"
    by (simp add: pending_rows_def unsettled_rows_def flt)
  moreover have "(recovery_task \<circ> load_in_flight) (?g r) = (recovery_task \<circ> load_in_flight) r" "fl_id (?g r) = fl_id r" for r
    by (simp_all add: recovery_task_def load_in_flight_def)
  ultimately show ?thesis
    using assms by (simp add: reset_stale_claims_def sql_write_quiet o_def cong: map_cong)
qed

lemma unsettled_ids_distinct:
  assumes "tables_ok t"
  shows "distinct (map fl_id (unsettled_rows reset t))"
proof -
  have "distinct (map fl_id (tb_in_flight t))" using assms by (simp add: tables_ok_defs keyed_def)
  then show ?thesis by (auto simp: unsettled_rows_def distinct_map intro: inj_on_subset)
qed

text \<open>
  C18: no accepted task is lost by a restart. If the recovery is left to finish (nobody aborts it or stops the
  manager, no statement fails, the workers keep making room, however long the queue is full), it
  returns, and has handed every unsettled task to the manager exactly once, in the order of acceptance:
  the tasks still pending and, with the reset of stale claims, those an earlier run had claimed; no
  pending task is left. The outer loop needs one round more than there are tasks.
\<close>

theorem recovery_completes:
  assumes "calm others k" and "live w" and "tables_ok (db_cur (rw_db (snd (others w))))"
    and "rows = unsettled_rows (ro_reset_stale_claims opts) (db_cur (rw_db (snd (others w))))" and "length rows < fuel"
  shows "\<exists>evs w'. recovery_run others k fuel owner opts w = Some (length rows, evs, w')
    \<and> committed_tasks evs = map (recovery_task \<circ> load_in_flight) rows \<and> pendings w' = []"
proof -
  let ?w1 = "snd (others w)" and ?b = "if 0 < ro_batch_size opts then ro_batch_size opts else 1"
  have lv: "live ?w1" using calmD(2)[OF assms(1,2)] .
  have dist: "distinct (map fl_id rows)" using unsettled_ids_distinct[OF assms(3)] assms(4) by simp
  obtain d where d: "(if ro_reset_stale_claims opts then reset_stale_claims (rw_db ?w1) else (Inr (), rw_db ?w1)) = (Inr (), d)"
    "db_faults d = []" "map (recovery_task \<circ> load_in_flight) (pending_rows (db_cur d)) = map (recovery_task \<circ> load_in_flight) rows"
    "map fl_id (pending_rows (db_cur d)) = map fl_id rows"
  proof (cases "ro_reset_stale_claims opts")
    case True
    then show thesis using that pending_after_reset[of "rw_db ?w1"] lv assms(4) by (auto simp: live_def)
  next
    case False
    then show thesis using that[of "rw_db ?w1"] lv assms(4) by (simp add: live_def unsettled_rows_def pending_rows_def)
  qed
  let ?w2 = "?w1\<lparr>rw_db := d\<rparr>"
  have "live ?w2" "pendings ?w2 = pending_rows (db_cur d)" using lv d(2) by (simp_all add: live_def pendings_def)
  moreover have "length (pending_rows (db_cur d)) = length rows" using d(4) by (metis length_map)
  moreover have "0 < ?b" by simp
  ultimately obtain evs w' where "recover_loop others k owner ?b fuel ?w2 = Some (length rows, evs, w')" "pendings w' = []"
    "committed_tasks evs = map (recovery_task \<circ> load_in_flight) rows"
    using recover_loop_calm[OF assms(1), of ?w2 ?b fuel owner] dist assms(5) d by auto
  with d(1) show ?thesis by (simp add: recovery_run_def Let_def)
qed

text \<open>A process whose worker empties the queue whenever it runs; the queue has one place.\<close>

definition draining :: "(unit, string) others" where
  "draining w = (False, w\<lparr>rw_manager := (rw_manager w)\<lparr>mg_queue := [], mg_reserved := 0\<rparr>\<rparr>)"

definition restart_world :: "(unit, string) recovery_world" where
  "restart_world = \<lparr>rw_db = flight_db, rw_manager = (manager_new 1 1)\<lparr>mg_queue := [0]\<rparr>, rw_rest = ()\<rparr>"

theorem recovery_completes_witness:
  "\<exists>n evs w'. recovery_run draining 1 10 ''me'' default_recovery_options restart_world = Some (n, evs, w')
     \<and> n = length (unsettled_rows True (db_cur flight_db)) \<and> 0 < n \<and> pendings w' = []"
proof -
  have "calm draining 1"
    by (auto simp: calm_def draining_def live_def pendings_def has_room_def)
  moreover have "live restart_world"
    by (simp add: restart_world_def live_def manager_new_def)
  moreover have same: "rw_db (snd (draining restart_world)) = flight_db" by (simp add: draining_def restart_world_def)
  moreover have "tables_ok (db_cur flight_db)" by simp
  moreover have "0 < length (unsettled_rows True (db_cur flight_db))" "length (unsettled_rows True (db_cur flight_db)) < 10"
    by code_simp+
  moreover have "ro_reset_stale_claims default_recovery_options" by (simp add: default_recovery_options_def)
  ultimately show ?thesis
    using recovery_completes[of draining 1 restart_world "unsettled_rows True (db_cur flight_db)" default_recovery_options 10 "''me''"]
    by auto
qed

end
