(* ===== verification/OJ_Auth.thy ===== *)
theory OJ_Auth
  imports OJ_Users OJ_Json "HOL-Library.Word"
begin

text \<open>
  Accounts and sessions (\<open>auth/\<close> except the rate limiter): the rules for nicknames and passwords, the
  generator of account numbers, tokens, the bearer header, the check of a request's identity, registration,
  login and the change of a password. The two libraries behind it are parameters: \<open>argon2_lib\<close>
  (password hashing) and \<open>jwt_lib\<close> (jwt-cpp); what the theorems use of them is stated in the
  predicates \<open>argon2_laws\<close> and \<open>jwt_laws\<close>, which are their documented behaviour.
\<close>

unbundle bit_operations_syntax

section \<open>Validation\<close>

definition nickname_max_len :: nat where
  "nickname_max_len = 30"

definition password_max_len :: nat where
  "password_max_len = 128"

definition validate_nickname :: "string \<Rightarrow> string + string" where
  "validate_nickname input =
     (let normalized = trim_by isspace input in
      if normalized = [] then Inl txt_nickname_empty
      else if nickname_max_len < length normalized then
        Inl (txt_nickname_long @ nat_to_string nickname_max_len @ txt_chars_close)
      else Inr normalized)"

definition validate_password :: "string \<Rightarrow> string + unit" where
  "validate_password password =
     (if password = [] then Inl txt_password_empty
      else if password_max_len < length password then
        Inl (txt_password_long @ nat_to_string password_max_len @ txt_chars_close)
      else Inr ())"

definition validate_password_change :: "string \<Rightarrow> string \<Rightarrow> string + unit" where
  "validate_password_change old_password new_password =
     res_bind (validate_password new_password) (\<lambda>_.
       if new_password = old_password then Inl txt_password_same else Inr ())"

section \<open>Account numbers\<close>

definition account_space :: "64 word" where
  "account_space = 10000000000"

text \<open>Eight random bytes, or two draws of the fallback device if they cannot be read.\<close>

definition random_value :: "64 word option \<Rightarrow> 32 word \<Rightarrow> 32 word \<Rightarrow> 64 word" where
  "random_value urandom lo hi =
     (case urandom of Some v \<Rightarrow> v | None \<Rightarrow> push_bit 32 (ucast hi) XOR ucast lo)"

definition zero_pad :: "nat \<Rightarrow> string \<Rightarrow> string" where
  "zero_pad n s = replicate (n - length s) (CHR ''0'') @ s"

definition generate_account :: "64 word option \<Rightarrow> 32 word \<Rightarrow> 32 word \<Rightarrow> string" where
  "generate_account urandom lo hi =
     (let v = random_value urandom lo hi mod account_space in zero_pad 10 (nat_to_string (unat v)))"

section \<open>Passwords\<close>

text \<open>The calls of the Argon2 library: return code with the encoded text, return code of a check, text of a code.\<close>

record argon2_lib =
  ag_hash :: "string \<Rightarrow> string \<Rightarrow> int \<times> string"
  ag_verify :: "string \<Rightarrow> string \<Rightarrow> int"
  ag_message :: "int \<Rightarrow> string"

definition c_str :: "string \<Rightarrow> string" where
  "c_str s = takeWhile (\<lambda>c. c \<noteq> CHR 0x00) s"

definition ARGON2_OK :: int where
  "ARGON2_OK = 0"

definition ARGON2_VERIFY_MISMATCH :: int where
  "ARGON2_VERIFY_MISMATCH = - 35"

text \<open>\<open>salt\<close> is what \<open>/dev/urandom\<close> gives, if it can be read.\<close>

definition hash_password :: "argon2_lib \<Rightarrow> string option \<Rightarrow> string \<Rightarrow> string + string" where
  "hash_password lib salt password =
     (case salt of
        None \<Rightarrow> Inl txt_salt_failed
      | Some s \<Rightarrow>
          let (rc, buffer) = ag_hash lib password s in
          if rc \<noteq> ARGON2_OK then Inl (txt_hash_failed @ ag_message lib rc) else Inr (c_str buffer))"

definition verify_password :: "argon2_lib \<Rightarrow> string \<Rightarrow> string \<Rightarrow> string + bool" where
  "verify_password lib encoded password =
     (let rc = ag_verify lib (c_str encoded) password in
      if rc = ARGON2_OK then Inr True
      else if rc = ARGON2_VERIFY_MISMATCH then Inr False
      else Inl (txt_verify_failed @ ag_message lib rc))"

section \<open>Tokens\<close>

record jwt_config =
  jc_secret :: string
  jc_expires_seconds :: int

definition min_jwt_secret_len :: nat where
  "min_jwt_secret_len = 16"

definition default_jwt_expires_seconds :: int where
  "default_jwt_expires_seconds = 3600"

definition parse_positive_int :: "string \<Rightarrow> int option" where
  "parse_positive_int s =
     (if s = [] \<or> \<not> list_all is_digit s then None
      else case stoll s of
        None \<Rightarrow> None
      | Some v \<Rightarrow> if v < 1 \<or> 31536000 < v then None else Some v)"

definition parse_user_id :: "string \<Rightarrow> int option" where
  "parse_user_id s =
     (if s = [] \<or> 19 < length s \<or> \<not> list_all is_digit s then None
      else case stoll s of
        None \<Rightarrow> None
      | Some v \<Rightarrow> if 0 < v then Some v else None)"

text \<open>\<open>secret\<close> and \<open>expires\<close> are the two environment variables, if set.\<close>

definition load_jwt_config :: "string option \<Rightarrow> string option \<Rightarrow> string + jwt_config" where
  "load_jwt_config secret expires =
     (case secret of
        None \<Rightarrow> Inl (txt_jwt_secret_missing @ nat_to_string min_jwt_secret_len @ txt_jwt_bytes_close)
      | Some s \<Rightarrow>
          if s = [] then Inl (txt_jwt_secret_missing @ nat_to_string min_jwt_secret_len @ txt_jwt_bytes_close)
          else if length s < min_jwt_secret_len then
            Inl (txt_jwt_secret_short @ nat_to_string min_jwt_secret_len @ txt_jwt_bytes)
          else (case expires of
             None \<Rightarrow> Inr \<lparr>jc_secret = s, jc_expires_seconds = default_jwt_expires_seconds\<rparr>
           | Some e \<Rightarrow>
               (case parse_positive_int e of
                  None \<Rightarrow> Inl txt_jwt_expires_bad
                | Some n \<Rightarrow> Inr \<lparr>jc_secret = s, jc_expires_seconds = n\<rparr>)))"

text \<open>
  The claims of a token: present or not, times in seconds; reading a subject that is not a string throws
  (\<open>Inl\<close>). \<open>jl_verify\<close> gives the message of the error code, if any.
\<close>

record jwt_claims =
  cl_issuer :: "string option"
  cl_audience :: "string option"
  cl_issued_at :: "int option"
  cl_expires_at :: "int option"
  cl_subject :: "(string + string) option"

record 'tok jwt_lib =
  jl_sign :: "string \<Rightarrow> jwt_claims \<Rightarrow> string + string"
  jl_decode :: "string \<Rightarrow> string + 'tok"
  jl_verify :: "string \<Rightarrow> string \<Rightarrow> string \<Rightarrow> int \<Rightarrow> 'tok \<Rightarrow> string option"
  jl_claims :: "'tok \<Rightarrow> jwt_claims"

definition jwt_claims_for :: "int \<Rightarrow> int \<Rightarrow> int \<Rightarrow> jwt_claims" where
  "jwt_claims_for now expires user_id =
     \<lparr>cl_issuer = Some ''oj'', cl_audience = Some ''oj-api'', cl_issued_at = Some now,
      cl_expires_at = Some (now + expires), cl_subject = Some (Inr (int_to_string user_id))\<rparr>"

definition jwt_sign :: "'tok jwt_lib \<Rightarrow> jwt_config \<Rightarrow> int \<Rightarrow> int \<Rightarrow> string + string" where
  "jwt_sign lib cfg now user_id =
     (if user_id \<le> 0 then Inl txt_jwt_bad_user
      else case jl_sign lib (jc_secret cfg) (jwt_claims_for now (jc_expires_seconds cfg) user_id) of
        Inl e \<Rightarrow> Inl (txt_jwt_sign_failed @ e)
      | Inr token \<Rightarrow> Inr token)"

definition jwt_verify :: "'tok jwt_lib \<Rightarrow> jwt_config \<Rightarrow> int \<Rightarrow> string \<Rightarrow> string + int" where
  "jwt_verify lib cfg now token =
     (case jl_decode lib token of
        Inl e \<Rightarrow> Inl (txt_jwt_parse_failed @ e)
      | Inr decoded \<Rightarrow>
          (case jl_verify lib (jc_secret cfg) ''oj'' ''oj-api'' now decoded of
             Some m \<Rightarrow> Inl (txt_jwt_verify_failed @ m)
           | None \<Rightarrow>
               let c = jl_claims lib decoded in
               if cl_expires_at c = None then Inl txt_jwt_no_exp
               else if cl_issued_at c = None then Inl txt_jwt_no_iat
               else case cl_subject c of
                 None \<Rightarrow> Inl txt_jwt_no_sub
               | Some (Inl e) \<Rightarrow> Inl (txt_jwt_parse_failed @ e)
               | Some (Inr s) \<Rightarrow>
                   (case parse_user_id s of None \<Rightarrow> Inl txt_jwt_bad_sub | Some i \<Rightarrow> Inr i)))"

section \<open>The identity of a request\<close>

definition extract_bearer_token :: "string \<Rightarrow> string option" where
  "extract_bearer_token authorization =
     (let s = dropWhile isspace authorization in
      if length s < 6 then None
      else if map toupper (take 6 s) \<noteq> map toupper ''Bearer'' then None
      else let rest = drop 6 s in
      if rest = [] \<or> \<not> isspace (hd rest) then None
      else let t = dropWhile isspace rest in
      if t = [] then None
      else if \<not> list_all isspace (dropWhile (\<lambda>c. \<not> isspace c) t) then None
      else let token = takeWhile (\<lambda>c. \<not> isspace c) t in
      if token = [] then None else Some token)"

record auth_user =
  au_id :: int
  au_account :: string
  au_nickname :: string
  au_role :: string
  au_reset_pwd_flag :: int

definition auth_user_of :: "user_row \<Rightarrow> auth_user" where
  "auth_user_of u = \<lparr>au_id = us_id u, au_account = us_account u, au_nickname = us_nickname u,
     au_role = us_role u, au_reset_pwd_flag = us_reset_pwd_flag u\<rparr>"

datatype auth_error = Unauthorized string | AuthInternalError string

definition authenticate_request :: "'tok jwt_lib \<Rightarrow> jwt_config \<Rightarrow> int \<Rightarrow> string \<Rightarrow> (auth_error, auth_user) dbm" where
  "authenticate_request lib cfg now token =
     (case jwt_verify lib cfg now token of
        Inl e \<Rightarrow> db_fail (Unauthorized e)
      | Inr user_id \<Rightarrow>
          db_bind (db_map_error (\<lambda>e. AuthInternalError (errmsg e)) (user_find_by_id user_id)) (\<lambda>found.
          case found of
            None \<Rightarrow> db_fail (Unauthorized txt_user_missing)
          | Some record \<Rightarrow> db_ret (auth_user_of record)))"

definition requires_password_change :: "auth_user \<Rightarrow> bool" where
  "requires_password_change user = (au_reset_pwd_flag user \<noteq> 0)"

datatype admin_check = AdminOk | NotAdmin | PasswordChangeRequired

definition check_admin :: "auth_user \<Rightarrow> admin_check" where
  "check_admin user =
     (if au_role user \<noteq> ''admin'' then NotAdmin
      else if requires_password_change user then PasswordChangeRequired
      else AdminOk)"

section \<open>Registration\<close>

datatype register_error =
  RegInvalidNickname string | RegInvalidPassword string | RegNicknameTaken string | RegInternalError string

text \<open>
  \<open>accounts k\<close> is the number drawn at attempt \<open>k\<close>, \<open>others\<close> what other threads do to the database before it.
\<close>

fun register_loop :: "(nat \<Rightarrow> string) \<Rightarrow> (db \<Rightarrow> db) \<Rightarrow> nat \<Rightarrow> nat \<Rightarrow> string \<Rightarrow> string \<Rightarrow> (register_error, user_row) dbm" where
  "register_loop accounts others attempt 0 nickname hash d = (Inl (RegInternalError txt_auth_internal), d)"
| "register_loop accounts others attempt (Suc n) nickname hash d =
     (case user_create (accounts attempt) nickname hash (others d) of
        (Inr u, d1) \<Rightarrow> (Inr u, d1)
      | (Inl NicknameTaken, d1) \<Rightarrow> (Inl (RegNicknameTaken txt_nickname_taken), d1)
      | (Inl AccountTaken, d1) \<Rightarrow> register_loop accounts others (Suc attempt) n nickname hash d1
      | (Inl (UserCreateError e), d1) \<Rightarrow> (Inl (RegInternalError txt_auth_internal), d1))"

definition register_user :: "argon2_lib \<Rightarrow> string option \<Rightarrow> (nat \<Rightarrow> string) \<Rightarrow> (db \<Rightarrow> db) \<Rightarrow> nat \<Rightarrow> string \<Rightarrow> string
    \<Rightarrow> (register_error, user_row) dbm" where
  "register_user lib salt accounts others max_account_attempts nickname password d =
     (case validate_nickname nickname of
        Inl e \<Rightarrow> (Inl (RegInvalidNickname e), d)
      | Inr normalized \<Rightarrow>
     (case validate_password password of
        Inl e \<Rightarrow> (Inl (RegInvalidPassword e), d)
      | Inr _ \<Rightarrow>
     (case user_find_by_nickname normalized d of
        (Inl e, d1) \<Rightarrow> (Inl (RegInternalError txt_auth_internal), d1)
      | (Inr (Some u), d1) \<Rightarrow> (Inl (RegNicknameTaken txt_nickname_taken), d1)
      | (Inr None, d1) \<Rightarrow>
     (case hash_password lib salt password of
        Inl e \<Rightarrow> (Inl (RegInternalError txt_auth_internal), d1)
      | Inr hash \<Rightarrow> register_loop accounts others 0 max_account_attempts normalized hash d1))))"

section \<open>Login\<close>

datatype login_error = InvalidCredentials string | LoginInternalError string

record login_success =
  ls_token :: string
  ls_expires_in_seconds :: int
  ls_user :: user_row

definition login :: "argon2_lib \<Rightarrow> 'tok jwt_lib \<Rightarrow> jwt_config \<Rightarrow> int \<Rightarrow> string \<Rightarrow> string
    \<Rightarrow> (login_error, login_success) dbm" where
  "login alib jlib cfg now account password =
     db_bind (db_map_error (\<lambda>_. LoginInternalError txt_auth_internal) (user_find_by_account account)) (\<lambda>found.
     case found of
       None \<Rightarrow> db_fail (InvalidCredentials txt_bad_credentials)
     | Some user \<Rightarrow>
         (case verify_password alib (us_password_hash user) password of
            Inl e \<Rightarrow> db_fail (LoginInternalError txt_auth_internal)
          | Inr False \<Rightarrow> db_fail (InvalidCredentials txt_bad_credentials)
          | Inr True \<Rightarrow>
              (case jwt_sign jlib cfg now (us_id user) of
                 Inl e \<Rightarrow> db_fail (LoginInternalError txt_auth_internal)
               | Inr token \<Rightarrow> db_ret \<lparr>ls_token = token, ls_expires_in_seconds = jc_expires_seconds cfg, ls_user = user\<rparr>)))"

section \<open>Changing a password\<close>

datatype change_password_error = InvalidOldPassword | ChangeUserNotFound | ChangeInternalError string

definition change_password_body :: "argon2_lib \<Rightarrow> int \<Rightarrow> string \<Rightarrow> string \<Rightarrow> (change_password_error, unit) dbm" where
  "change_password_body lib user_id old_password new_hash =
     db_bind (db_map_error (\<lambda>_. ChangeInternalError txt_auth_internal) (user_find_by_id user_id)) (\<lambda>found.
     case found of
       None \<Rightarrow> db_fail ChangeUserNotFound
     | Some record \<Rightarrow>
         (case verify_password lib (us_password_hash record) old_password of
            Inl e \<Rightarrow> db_fail (ChangeInternalError txt_auth_internal)
          | Inr False \<Rightarrow> db_fail InvalidOldPassword
          | Inr True \<Rightarrow>
              db_map_error (\<lambda>e. case e of UserNotFound \<Rightarrow> ChangeUserNotFound
                                       | UserUpdateError _ \<Rightarrow> ChangeInternalError txt_auth_internal)
                (user_update_password user_id new_hash)))"

definition change_password :: "argon2_lib \<Rightarrow> string option \<Rightarrow> int \<Rightarrow> string \<Rightarrow> string
    \<Rightarrow> (change_password_error, unit) dbm" where
  "change_password lib salt user_id old_password new_password =
     (case hash_password lib salt new_password of
        Inl e \<Rightarrow> db_fail (ChangeInternalError txt_auth_internal)
      | Inr new_hash \<Rightarrow> with_txn (\<lambda>_. ChangeInternalError txt_auth_internal)
          (change_password_body lib user_id old_password new_hash))"

section \<open>The libraries\<close>

text \<open>Argon2: what was hashed verifies, another password does not, and encoded hashes are C strings.\<close>

definition argon2_laws :: "argon2_lib \<Rightarrow> bool" where
  "argon2_laws lib = (\<forall>pw salt enc. ag_hash lib pw salt = (ARGON2_OK, enc) \<longrightarrow>
     (\<forall>pw'. ag_verify lib (c_str enc) pw' = (if pw' = pw then ARGON2_OK else ARGON2_VERIFY_MISMATCH)))"

text \<open>
  jwt-cpp: a signed token decodes to its claims, and verifies under the same secret while it is valid and
  issuer and audience are those asked for.
\<close>

definition jwt_laws :: "'tok jwt_lib \<Rightarrow> bool" where
  "jwt_laws lib = (\<forall>secret c token. jl_sign lib secret c = Inr token \<longrightarrow>
     (\<exists>d. jl_decode lib token = Inr d \<and> jl_claims lib d = c
        \<and> (\<forall>iss aud now. cl_issuer c = Some iss \<and> cl_audience c = Some aud
             \<and> (\<exists>i e. cl_issued_at c = Some i \<and> cl_expires_at c = Some e \<and> i \<le> now \<and> now < e)
             \<longrightarrow> jl_verify lib secret iss aud now d = None)))"

section \<open>Lemmas\<close>

lemma c_str_idem [simp]: "c_str (c_str s) = c_str s"
  by (simp add: c_str_def takeWhile_idem)

lemma column_text_c_str: "column_text s = c_str s"
  by (simp add: column_text_def c_str_def)

lemma verify_hashed:
  assumes "argon2_laws lib" and "hash_password lib salt pw = Inr enc"
  shows "verify_password lib enc pw' = Inr (pw' = pw)" "column_text enc = enc"
proof -
  obtain s b where s: "salt = Some s" "ag_hash lib pw s = (ARGON2_OK, b)" "enc = c_str b"
    using assms(2) by (auto simp: hash_password_def split: option.splits prod.splits if_splits)
  with assms(1) show "verify_password lib enc pw' = Inr (pw' = pw)"
    by (auto simp: argon2_laws_def verify_password_def ARGON2_OK_def ARGON2_VERIFY_MISMATCH_def)
  show "column_text enc = enc" using s(3) by (simp add: column_text_c_str)
qed

lemma parse_user_id_print:
  assumes "0 < i" and "i \<le> int64_max"
  shows "parse_user_id (int_to_string i) = Some i"
proof -
  have "nat i < 10 ^ Suc 18" using assms(2) by (simp add: int64_max_def)
  then have "length (nat_to_string (nat i)) \<le> 19" using length_nat_to_string[of "nat i" 18] by simp
  with assms show ?thesis by (simp add: parse_user_id_def int_to_string_def nat_to_string_digits)
qed

lemma parse_user_id_iff:
  "parse_user_id s = Some i \<longleftrightarrow> s \<noteq> [] \<and> length s \<le> 19 \<and> list_all is_digit s \<and> i = int (dec_value s) \<and> 0 < i \<and> i \<le> int64_max"
  by (auto simp: parse_user_id_def stoll_def)

lemma jwt_verify_signed:
  assumes "jwt_laws lib" and "jwt_sign lib cfg t0 i = Inr token" and "i \<le> int64_max" and "t0 \<le> now" and "now < t0 + jc_expires_seconds cfg"
  shows "jwt_verify lib cfg now token = Inr i"
proof -
  let ?c = "jwt_claims_for t0 (jc_expires_seconds cfg) i"
  have i: "0 < i" and s: "jl_sign lib (jc_secret cfg) ?c = Inr token"
    using assms(2) by (auto simp: jwt_sign_def split: if_splits sum.splits)
  obtain d where d: "jl_decode lib token = Inr d" "jl_claims lib d = ?c"
    and v: "\<And>iss aud now. cl_issuer ?c = Some iss \<and> cl_audience ?c = Some aud
       \<and> (\<exists>i e. cl_issued_at ?c = Some i \<and> cl_expires_at ?c = Some e \<and> i \<le> now \<and> now < e)
       \<Longrightarrow> jl_verify lib (jc_secret cfg) iss aud now d = None"
    using assms(1) s unfolding jwt_laws_def by meson
  have "jl_verify lib (jc_secret cfg) ''oj'' ''oj-api'' now d = None"
    by (rule v) (use assms(4,5) in \<open>simp add: jwt_claims_for_def\<close>)
  with d show ?thesis
    by (simp add: jwt_verify_def jwt_claims_for_def parse_user_id_print[OF i assms(3)] Let_def)
qed

lemma jwt_verify_Inr:
  assumes "jwt_verify lib cfg now token = Inr i"
  obtains d s where "jl_decode lib token = Inr d" "jl_verify lib (jc_secret cfg) ''oj'' ''oj-api'' now d = None"
    "cl_expires_at (jl_claims lib d) \<noteq> None" "cl_issued_at (jl_claims lib d) \<noteq> None"
    "cl_subject (jl_claims lib d) = Some (Inr s)" "parse_user_id s = Some i"
  using assms unfolding jwt_verify_def
  by (auto simp: Let_def split: sum.splits option.splits if_splits)

lemma authenticate_Inr:
  assumes "authenticate_request lib cfg now token d = (Inr u, d')"
  obtains i row where "jwt_verify lib cfg now token = Inr i" "find_row (\<lambda>u. us_id u = i) (tb_users (db_cur d)) = Some row"
    "u = auth_user_of (load_user row)" "db_cur d' = db_cur d"
  using assms unfolding authenticate_request_def user_find_by_id_def find_user_by_def
  by (auto split: sum.splits option.splits elim!: db_fail_InrE db_bind_InrE db_map_error_InrE sql_read_InrE db_ret_InrE)

section \<open>Account numbers\<close>

lemma length_zero_pad: "length s \<le> n \<Longrightarrow> length (zero_pad n s) = n"
  by (simp add: zero_pad_def)

lemma dec_value_replicate_zero: "dec_value (replicate k (CHR ''0'') @ s) = dec_value s"
  by (induction k) (auto simp: dec_value_leading_zero digit_val_def)

lemma generate_account_value:
  "dec_value (generate_account u lo hi) = unat (random_value u lo hi) mod 10000000000"
  by (simp add: generate_account_def Let_def zero_pad_def dec_value_replicate_zero unat_mod account_space_def)

text \<open>
  An account number has exactly ten decimal digits, whatever the random source gives, so it is
  never the reserved account of the administrator; two draws give the same number only if they
  agree modulo ten to the power of ten.
\<close>

theorem account_numbers:
  "length (generate_account u lo hi) = 10 \<and> list_all is_digit (generate_account u lo hi)
   \<and> generate_account u lo hi \<noteq> ''admin''
   \<and> (generate_account u lo hi = generate_account u' lo' hi' \<longleftrightarrow>
        unat (random_value u lo hi) mod 10000000000 = unat (random_value u' lo' hi') mod 10000000000)"
proof -
  let ?v = "unat (random_value u lo hi mod account_space)"
  have v: "unat (random_value w x y mod account_space) = unat (random_value w x y) mod 10000000000" for w x y
    by (simp add: unat_mod account_space_def)
  then have "?v < 10 ^ Suc 9" by simp
  then have "length (nat_to_string ?v) \<le> 10" using length_nat_to_string[of ?v 9] by simp
  then have len: "length (generate_account u lo hi) = 10"
    by (simp add: generate_account_def Let_def length_zero_pad)
  moreover have "list_all is_digit (replicate k (CHR ''0''))" for k by (induction k) (auto simp: is_digit_def)
  then have "list_all is_digit (generate_account u lo hi)"
    by (simp add: generate_account_def Let_def zero_pad_def nat_to_string_digits)
  moreover have "generate_account u lo hi \<noteq> ''admin''" using len by auto
  moreover have "generate_account u lo hi = generate_account u' lo' hi' \<longleftrightarrow>
      unat (random_value u lo hi) mod 10000000000 = unat (random_value u' lo' hi') mod 10000000000"
    using generate_account_value[of u lo hi] generate_account_value[of u' lo' hi'] v
    by (metis generate_account_def)
  ultimately show ?thesis by blast
qed

section \<open>The bearer header\<close>

lemma None_guard: "(if c then None else x) = Some t \<longleftrightarrow> \<not> c \<and> x = Some t"
  by simp

lemma takeWhile_dropWhile_split:
  "list_all P a \<Longrightarrow> b = [] \<or> \<not> P (hd b) \<Longrightarrow> takeWhile P (a @ b) = a \<and> dropWhile P (a @ b) = b"
  by (cases b) (auto simp: list_all_iff takeWhile_append2 dropWhile_append2)

text \<open>
  The grammar of the authorization header. A token is found exactly in a header of the form: blanks, the
  scheme \<open>Bearer\<close> in any case, at least one blank, the token, blanks; and a token is never
  empty and contains no blank.
\<close>

theorem bearer_token_grammar:
  "extract_bearer_token header = Some token \<longleftrightarrow>
     (\<exists>pre scheme sep post. header = pre @ scheme @ sep @ token @ post \<and> list_all isspace pre
        \<and> map toupper scheme = map toupper ''Bearer'' \<and> sep \<noteq> [] \<and> list_all isspace sep
        \<and> token \<noteq> [] \<and> list_all (\<lambda>c. \<not> isspace c) token \<and> list_all isspace post)"
  (is "?lhs \<longleftrightarrow> ?rhs")
proof
  assume l: ?lhs
  let ?s = "dropWhile isspace header"
  let ?rest = "drop 6 ?s" let ?t = "dropWhile isspace ?rest"
  from l have f: "map toupper (take 6 ?s) = map toupper ''Bearer''" "?rest \<noteq> []" "isspace (hd ?rest)" "?t \<noteq> []"
    "list_all isspace (dropWhile (\<lambda>c. \<not> isspace c) ?t)" "token = takeWhile (\<lambda>c. \<not> isspace c) ?t" "token \<noteq> []"
    unfolding extract_bearer_token_def Let_def None_guard option.inject by blast+
  have "header = takeWhile isspace header @ take 6 ?s @ takeWhile isspace ?rest @ token @ dropWhile (\<lambda>c. \<not> isspace c) ?t"
    unfolding f(6) by simp
  moreover have "list_all isspace (takeWhile isspace header)" "list_all isspace (takeWhile isspace ?rest)"
    "list_all (\<lambda>c. \<not> isspace c) token"
    unfolding f(6) list_all_iff by (auto dest: set_takeWhileD)
  moreover have "takeWhile isspace ?rest \<noteq> []" using f(2,3) by (cases ?rest) auto
  ultimately show ?rhs using f by blast
next
  assume ?rhs
  then obtain pre scheme sep post where h: "header = pre @ scheme @ sep @ token @ post" "list_all isspace pre"
    "map toupper scheme = map toupper ''Bearer''" "sep \<noteq> []" "list_all isspace sep" "token \<noteq> []"
    "list_all (\<lambda>c. \<not> isspace c) token" "list_all isspace post" by blast
  have len: "length scheme = 6" using arg_cong[OF h(3), of length] by simp
  have "hd (map toupper scheme) = toupper (CHR ''B'')" unfolding h(3) by simp
  then have "toupper (hd scheme) = CHR ''B''" using len by (cases scheme) (simp_all add: toupper_def)
  moreover have "toupper c \<noteq> CHR ''B''" if "isspace c" for c
    using that unfolding isspace_def by (elim disjE) (simp_all add: toupper_def)
  ultimately have "\<not> isspace (hd scheme)" by blast
  then have "dropWhile isspace header = scheme @ sep @ token @ post"
    unfolding h(1) using takeWhile_dropWhile_split[OF h(2), of "scheme @ sep @ token @ post"] len by (cases scheme) auto
  moreover have "\<not> isspace (hd token)" "isspace (hd sep)" using h(4-7) by (cases token; cases sep; simp)+
  moreover have "dropWhile isspace (sep @ token @ post) = token @ post"
    using takeWhile_dropWhile_split[OF h(5), of "token @ post"] h(6) \<open>\<not> isspace (hd token)\<close> by simp
  moreover have "post = [] \<or> \<not> \<not> isspace (hd post)" using h(8) by (cases post) auto
  from takeWhile_dropWhile_split[OF h(7) this] have "takeWhile (\<lambda>c. \<not> isspace c) (token @ post) = token"
    "dropWhile (\<lambda>c. \<not> isspace c) (token @ post) = post" by auto
  ultimately show ?lhs
    using h len by (simp add: extract_bearer_token_def Let_def hd_append)
qed

section \<open>Registration\<close>

lemma user_create_InrE:
  assumes "user_create account nickname hash d = (Inr u, d')"
  obtains row where "insert_user account nickname hash ''user'' 0 (db_now d) (db_cur d) = Inr (row, db_cur d')" "u = load_user row"
  using assms unfolding user_create_def by (auto elim!: db_map_error_InrE db_bind_InrE sql_at_InrE db_ret_InrE)

lemma user_create_faults: "db_faults d = [] \<Longrightarrow> db_faults (snd (user_create account nickname hash d)) = []"
  by (auto simp: user_create_def db_quiet split: sum.splits prod.splits)

definition keeps_store :: "(db \<Rightarrow> db) \<Rightarrow> bool" where
  "keeps_store others = (\<forall>d. db_snap d = None \<and> tables_ok (db_cur d) \<longrightarrow> db_snap (others d) = None \<and> tables_ok (db_cur (others d)))"

lemma keeps_store_id [simp]: "keeps_store id" "keeps_store (\<lambda>d. d)"
  by (simp_all add: keeps_store_def)

lemma register_loop_cases:
  assumes "keeps_store others" and "db_snap d = None" and "tables_ok (db_cur d)"
    and "register_loop accounts others k n nickname hash d = (r, d')"
  shows "db_snap d' = None \<and> tables_ok (db_cur d')
    \<and> (case r of Inr u \<Rightarrow> \<exists>j d1. k \<le> j \<and> j < k + n \<and> db_snap d1 = None \<and> tables_ok (db_cur d1)
            \<and> user_create (accounts j) nickname hash d1 = (Inr u, d')
            \<and> (others = id \<longrightarrow> db_cur d1 = db_cur d \<and> (db_faults d = [] \<longrightarrow> db_faults d1 = []))
        | Inl e \<Rightarrow> others = id \<longrightarrow> db_cur d' = db_cur d)"
  using assms(2-)
proof (induction n arbitrary: k d)
  case 0
  then show ?case by auto
next
  case (Suc n)
  let ?d = "others d"
  obtain x d1 where c: "user_create (accounts k) nickname hash ?d = (x, d1)" by force
  have d: "db_snap ?d = None" "tables_ok (db_cur ?d)" using assms(1) Suc.prems(1,2) by (auto simp: keeps_store_def)
  have s1: "db_snap d1 = None" using user_create.closed[OF d(1)] c by (metis snd_conv)
  show ?case
  proof (cases x)
    case (Inr u)
    have t1: "tables_ok (db_cur d1)" using user_create.keeps[OF d(1) c[unfolded Inr] d(2)] .
    from Suc.prems(3) c Inr have "r = Inr u" "d' = d1" by simp_all
    moreover have "others = id \<longrightarrow> db_cur ?d = db_cur d \<and> (db_faults d = [] \<longrightarrow> db_faults ?d = [])" by simp
    ultimately show ?thesis using s1 t1 c[unfolded Inr] d by (auto simp del: id_apply intro!: exI[of _ k] exI[of _ ?d])
  next
    case (Inl e)
    have same: "db_cur d1 = db_cur ?d" using user_create.atomic[OF d(1) c[unfolded Inl]] .
    have f1: "db_faults ?d = [] \<longrightarrow> db_faults d1 = []" using user_create_faults[of ?d] c by (metis snd_conv)
    show ?thesis
    proof (cases "e = AccountTaken")
      case True
      then have "register_loop accounts others (Suc k) n nickname hash d1 = (r, d')" using Suc.prems(3) c Inl by simp
      note ih = Suc.IH[OF s1 _ this, unfolded same, OF d(2)]
      show ?thesis
      proof (cases r)
        case (Inl z)
        with ih show ?thesis by simp
      next
        case (Inr u)
        with ih obtain j d2 where j: "Suc k \<le> j" "j < Suc k + n" "db_snap d2 = None" "tables_ok (db_cur d2)"
          "user_create (accounts j) nickname hash d2 = (Inr u, d')"
          "others = id \<longrightarrow> db_cur d2 = db_cur ?d \<and> (db_faults d1 = [] \<longrightarrow> db_faults d2 = [])" by auto
        then have "k \<le> j" "j < k + Suc n" "others = id \<longrightarrow> db_cur d2 = db_cur d \<and> (db_faults d = [] \<longrightarrow> db_faults d2 = [])"
          using f1 by auto
        with j(3-5) ih Inr show ?thesis by auto
      qed
    next
      case False
      then have "\<exists>z. r = Inl z" "d' = d1" using Suc.prems(3) c Inl by (auto split: user_create_error.splits)
      then show ?thesis using s1 same d(2) by auto
    qed
  qed
qed

lemma user_find_by_nicknameE:
  assumes "user_find_by_nickname nickname d = (r, d')" and "db_snap d = None"
  shows "db_cur d' = db_cur d" "db_snap d' = None" "db_faults d = [] \<longrightarrow> db_faults d' = []"
proof -
  have "transactional (user_find_by_nickname nickname)"
    unfolding user_find_by_nickname_def find_user_by_def sql_read_def by (rule transactional_sql)
  note tr = this
  show "db_snap d' = None" using transactional.closed[OF tr assms(2)] assms(1) by simp
  show "db_cur d' = db_cur d"
  proof (cases r)
    case (Inl e)
    then show ?thesis using transactional.atomic[OF tr assms(2)] assms(1) by simp
  next
    case (Inr a)
    then show ?thesis using assms(1) unfolding user_find_by_nickname_def find_user_by_def by (auto elim: sql_read_InrE)
  qed
  show "db_faults d = [] \<longrightarrow> db_faults d' = []"
    using assms(1) by (auto simp: user_find_by_nickname_def find_user_by_def sql_read_quiet)
qed

text \<open>
  Registration, under every activity of other threads that keeps the tables consistent. A reported success
  means that nickname and password satisfied the rules, and that one of the accounts drawn was inserted with the
  trimmed nickname, the hash of exactly that password and the role user, when neither account nor
  nickname was in use at that moment; a concurrent registration of the same nickname fails instead. Every
  failure leaves the tables as they were, and after at most the configured number of draws it returns.
\<close>

theorem register_outcome:
  assumes "keeps_store others" and "db_snap d = None" and "tables_ok (db_cur d)"
    and "register_user lib salt accounts others n nickname password d = (r, d')"
  shows "db_snap d' = None \<and> tables_ok (db_cur d') \<and>
    (case r of
       Inr u \<Rightarrow> validate_password password = Inr () \<and>
         (\<exists>t row j. j < n \<and> u = load_user row \<and> tb_users (db_cur d') = tb_users t @ [row]
            \<and> validate_nickname nickname = Inr (us_nickname row) \<and> hash_password lib salt password = Inr (us_password_hash row)
            \<and> us_account row = accounts j \<and> us_role row = ''user'' \<and> us_reset_pwd_flag row = 0
            \<and> us_account row \<notin> us_account ` set (tb_users t) \<and> us_nickname row \<notin> us_nickname ` set (tb_users t)
            \<and> (others = id \<longrightarrow> t = db_cur d))
     | Inl e \<Rightarrow> others = id \<longrightarrow> db_cur d' = db_cur d)"
proof -
  obtain found d1 where f: "user_find_by_nickname (snd (trim_by isspace nickname, trim_by isspace nickname)) d = (found, d1)" by force
  note f1 = user_find_by_nicknameE[OF f[simplified] assms(2)]
  have norm: "validate_nickname nickname = Inr x \<Longrightarrow> x = trim_by isspace nickname" for x
    by (auto simp: validate_nickname_def Let_def split: if_splits)
  show ?thesis
  proof (cases "\<exists>hash. validate_nickname nickname = Inr (trim_by isspace nickname) \<and> validate_password password = Inr ()
      \<and> found = Inr None \<and> hash_password lib salt password = Inr hash")
    case True
    then obtain hash where h: "validate_nickname nickname = Inr (trim_by isspace nickname)" "validate_password password = Inr ()"
      "found = Inr None" "hash_password lib salt password = Inr hash" by blast
    then have loop: "register_loop accounts others 0 n (trim_by isspace nickname) hash d1 = (r, d')"
      using assms(4) f by (simp add: register_user_def)
    have ok1: "tables_ok (db_cur d1)" using f1(1) assms(3) by simp
    note lc = register_loop_cases[OF assms(1) f1(2) ok1 loop]
    show ?thesis
    proof (cases r)
      case (Inl e)
      with lc f1(1) show ?thesis by simp
    next
      case (Inr u)
      with lc obtain j d2 where j: "j < n" "user_create (accounts j) (trim_by isspace nickname) hash d2 = (Inr u, d')"
        "others = id \<longrightarrow> db_cur d2 = db_cur d1" by auto
      from j(2) obtain row where ins: "insert_user (accounts j) (trim_by isspace nickname) hash ''user'' 0 (db_now d2) (db_cur d2)
          = Inr (row, db_cur d')" "u = load_user row" by (rule user_create_InrE)
      note i = insert_user_Inr[OF ins(1)]
      have "j < n \<and> u = load_user row \<and> tb_users (db_cur d') = tb_users (db_cur d2) @ [row]
            \<and> validate_nickname nickname = Inr (us_nickname row) \<and> hash_password lib salt password = Inr (us_password_hash row)
            \<and> us_account row = accounts j \<and> us_role row = ''user'' \<and> us_reset_pwd_flag row = 0
            \<and> us_account row \<notin> us_account ` set (tb_users (db_cur d2)) \<and> us_nickname row \<notin> us_nickname ` set (tb_users (db_cur d2))
            \<and> (others = id \<longrightarrow> db_cur d2 = db_cur d)"
        using i(1,3,4) j h ins(2) f1(1) unfolding i(2) by simp
      then have "\<exists>t row j. j < n \<and> u = load_user row \<and> tb_users (db_cur d') = tb_users t @ [row]
            \<and> validate_nickname nickname = Inr (us_nickname row) \<and> hash_password lib salt password = Inr (us_password_hash row)
            \<and> us_account row = accounts j \<and> us_role row = ''user'' \<and> us_reset_pwd_flag row = 0
            \<and> us_account row \<notin> us_account ` set (tb_users t) \<and> us_nickname row \<notin> us_nickname ` set (tb_users t)
            \<and> (others = id \<longrightarrow> t = db_cur d)" by blast
      with lc Inr h(2) show ?thesis by (simp only: sum.case simp_thms)
    qed
  next
    case False
    then have "(\<exists>e. r = Inl e) \<and> (d' = d \<or> d' = d1)"
      using assms(4) norm f unfolding register_user_def
      by (auto split: sum.splits prod.splits option.splits)
    then show ?thesis using f1(1,2) assms(2,3) by auto
  qed
qed

definition demo_argon2 :: argon2_lib where
  "demo_argon2 = \<lparr>ag_hash = (\<lambda>pw salt. if CHR 0x00 \<in> set pw then (- 1, []) else (ARGON2_OK, pw)),
     ag_verify = (\<lambda>enc pw. if enc = pw then ARGON2_OK else ARGON2_VERIFY_MISMATCH), ag_message = (\<lambda>rc. ''error'')\<rparr>"

lemma demo_argon2_laws: "argon2_laws demo_argon2"
  by (auto simp: argon2_laws_def demo_argon2_def c_str_def ARGON2_OK_def takeWhile_eq_all_conv[THEN iffD2] split: if_splits)

theorem register_outcome_witness:
  "case register_user demo_argon2 (Some ''salt'') (\<lambda>k. ''0000000007'') id 5 '' carol '' ''pw'' demo_db of
     (Inr u, d') \<Rightarrow> tables_ok (db_cur d') \<and> length (tb_users (db_cur d')) = Suc (length (tb_users (db_cur demo_db))) | (Inl e, d') \<Rightarrow> False"
proof -
  let ?run = "register_user demo_argon2 (Some ''salt'') (\<lambda>k. ''0000000007'') id 5 '' carol '' ''pw'' demo_db"
  have "is_ok (fst ?run)" by code_simp
  then obtain u d' where run: "?run = (Inr u, d')" by (metis is_okE prod.collapse)
  show ?thesis using register_outcome[OF keeps_store_id(1) _ _ run] by (auto simp: run)
qed

section \<open>Changing a password\<close>

lemma txn_body_update_returning [db_intros]: "txn_body (update_returning i g)"
proof -
  let ?f = "\<lambda>t. Inr (\<exists>u \<in> set (tb_users t). us_id u = i, g t) :: db_error + _"
  have "db_snap d' = Some s \<or> (db_snap d' = None \<and> db_cur d' = s \<and> \<not> is_ok r)"
    if s: "db_snap d = Some s" and u: "update_returning i g d = (r, d')" for d s r d'
  proof -
    obtain x d1 where x: "sql ?f d = (x, d1)" by force
    from txn_bodyD[OF txn_body_sql x s] u show ?thesis
      by (cases x) (auto simp: update_returning_def x split: if_splits)
  qed
  then show ?thesis unfolding txn_body_def by blast
qed

lemma txn_body_case_bool [db_intros]: "txn_body m \<Longrightarrow> txn_body k \<Longrightarrow> txn_body (case b of True \<Rightarrow> m | False \<Rightarrow> k)"
  by (cases b) auto

lemma txn_body_change_password [db_intros]: "txn_body (change_password_body lib i old h)"
  unfolding change_password_body_def user_update_password_def by (intro db_intros)

lemma change_password_bodyE:
  assumes "change_password_body lib i old h d = (Inr u, d')"
  obtains row where "find_row (\<lambda>u. us_id u = i) (tb_users (db_cur d)) = Some row"
    "verify_password lib (column_text (us_password_hash row)) old = Inr True" "db_cur d' = set_password i h 0 (db_cur d)"
proof -
  obtain found d1 where f: "user_find_by_id i d = (Inr found, d1)"
    and k: "(case found of None \<Rightarrow> db_fail ChangeUserNotFound
     | Some record \<Rightarrow>
         (case verify_password lib (us_password_hash record) old of
            Inl e \<Rightarrow> db_fail (ChangeInternalError txt_auth_internal)
          | Inr False \<Rightarrow> db_fail InvalidOldPassword
          | Inr True \<Rightarrow>
              db_map_error (\<lambda>e. case e of UserNotFound \<Rightarrow> ChangeUserNotFound
                                       | UserUpdateError _ \<Rightarrow> ChangeInternalError txt_auth_internal)
                (user_update_password i h))) d1 = (Inr u, d')"
    using assms unfolding change_password_body_def by (auto elim!: db_bind_InrE db_map_error_InrE)
  have found: "found = map_option load_user (find_row (\<lambda>u. us_id u = i) (tb_users (db_cur d)))" "db_cur d1 = db_cur d"
    using f by (auto elim: user_find_by_idE)
  then obtain row where row: "find_row (\<lambda>u. us_id u = i) (tb_users (db_cur d)) = Some row" "found = Some (load_user row)"
    using k by (cases "find_row (\<lambda>u. us_id u = i) (tb_users (db_cur d))") (auto elim: db_fail_InrE)
  with k have v: "verify_password lib (column_text (us_password_hash row)) old = Inr True"
    and up: "user_update_password i h d1 = (Inr u, d')"
    by (auto simp: load_user_def split: sum.splits bool.splits elim!: db_fail_InrE db_map_error_InrE)
  from up have "db_cur d' = set_password i h 0 (db_cur d)"
    unfolding user_update_password_def update_returning_def found(2)[symmetric]
    by (auto split: prod.splits sum.splits if_splits dest: sql_Inr(1))
  with row(1) v show thesis by (rule that)
qed

interpretation change_password: store_operation "change_password lib salt i old new" tables_ok
proof (cases "hash_password lib salt new")
  case (Inl e)
  then show "store_operation (change_password lib salt i old new) tables_ok"
    by (intro store_operationI) (unfold_locales, auto simp: change_password_def db_fail_def)
next
  case (Inr h)
  have "store_operation (with_txn (\<lambda>_. ChangeInternalError txt_auth_internal) (change_password_body lib i old h)) tables_ok"
  proof (rule store_operation_txnI)
    show "txn_body (change_password_body lib i old h)" by (rule db_intros)
    show "tables_ok (db_cur d')" if "change_password_body lib i old h d = (Inr a, d')" "tables_ok (db_cur d)" for d a d'
      using that(1) by (rule change_password_bodyE) (simp add: set_password_ok that(2))
  qed
  then show "store_operation (change_password lib salt i old new) tables_ok" by (simp add: change_password_def Inr)
qed

lemma change_password_InrE:
  assumes "change_password lib salt i old new d = (Inr u, d')"
  obtains row h where "hash_password lib salt new = Inr h" "find_row (\<lambda>u. us_id u = i) (tb_users (db_cur d)) = Some row"
    "verify_password lib (column_text (us_password_hash row)) old = Inr True" "db_cur d' = set_password i h 0 (db_cur d)" "db_snap d' = None"
proof -
  obtain h where h: "hash_password lib salt new = Inr h"
    and t: "with_txn (\<lambda>_. ChangeInternalError txt_auth_internal) (change_password_body lib i old h) d = (Inr u, d')"
    using assms by (auto simp: change_password_def split: sum.splits elim!: db_fail_InrE)
  obtain d1 d2 where d: "db_cur d1 = db_cur d" "change_password_body lib i old h d1 = (Inr u, d2)" "db_cur d' = db_cur d2" "db_snap d' = None"
    using t by (rule with_txn_Inr)
  from d(2) obtain row where "find_row (\<lambda>u. us_id u = i) (tb_users (db_cur d1)) = Some row"
    "verify_password lib (column_text (us_password_hash row)) old = Inr True" "db_cur d2 = set_password i h 0 (db_cur d1)"
    by (rule change_password_bodyE)
  with h d show thesis using that by simp
qed

lemma set_password_row:
  assumes "find_row (\<lambda>u. us_id u = i) (tb_users (set_password i h flag t)) = Some row"
  shows "us_password_hash row = h"
proof -
  have "row \<in> set (tb_users (set_password i h flag t))" "us_id row = i" using find_row_Some[OF assms] by simp_all
  moreover have "tb_users (set_password i h flag t) =
      map (\<lambda>v. if us_id v = i then v\<lparr>us_password_hash := h, us_reset_pwd_flag := flag\<rparr> else v) (tb_users t)"
    by (simp add: set_password_def update_users_def)
  ultimately have "row \<in> (\<lambda>v. if us_id v = i then v\<lparr>us_password_hash := h, us_reset_pwd_flag := flag\<rparr> else v) ` set (tb_users t)"
    by (simp only: set_map)
  then obtain v where "row = (if us_id v = i then v\<lparr>us_password_hash := h, us_reset_pwd_flag := flag\<rparr> else v)" by (rule imageE)
  with \<open>us_id row = i\<close> show ?thesis by (cases "us_id v = i") simp_all
qed

text \<open>
  Changing a password, under every schedule of faults. A failure leaves the tables as they were. A success
  means that the old password matched the hash stored at that moment; exactly that user's hash and
  flag change, to the hash of the new password and to no change required. From then on a request that still
  presents the old password is refused as long as the users are as this one left them, so of two concurrent changes
  with the same old password only one takes effect.
\<close>

theorem change_password_outcome:
  assumes "argon2_laws lib" and "db_snap d = None" and "change_password lib salt i old new d = (r, d')"
  shows "case r of
      Inl e \<Rightarrow> durable d' = durable d
    | Inr _ \<Rightarrow> (\<exists>row h. row \<in> set (tb_users (durable d)) \<and> us_id row = i
          \<and> verify_password lib (column_text (us_password_hash row)) old = Inr True
          \<and> hash_password lib salt new = Inr h \<and> durable d' = set_password i h 0 (durable d))
        \<and> (\<forall>d2 salt2 new2. old \<noteq> new \<longrightarrow> tb_users (db_cur d2) = tb_users (durable d') \<longrightarrow>
             \<not> is_ok (fst (change_password lib salt2 i old new2 d2)))"
proof (cases r)
  case (Inl e)
  then show ?thesis using change_password.failed_durable[OF assms(2), of lib salt i old new] assms(3) by simp
next
  case (Inr u)
  obtain row h where h: "hash_password lib salt new = Inr h" "find_row (\<lambda>u. us_id u = i) (tb_users (db_cur d)) = Some row"
    "verify_password lib (column_text (us_password_hash row)) old = Inr True" "db_cur d' = set_password i h 0 (db_cur d)" "db_snap d' = None"
    using assms(3)[unfolded Inr] by (rule change_password_InrE)
  have dur: "durable d = db_cur d" "durable d' = db_cur d'" using assms(2) h(5) by (simp_all add: durable_def)
  have "\<not> is_ok (fst (change_password lib salt2 i old new2 d2))"
    if ne: "old \<noteq> new" and us: "tb_users (db_cur d2) = tb_users (durable d')" for d2 salt2 new2
  proof
    assume "is_ok (fst (change_password lib salt2 i old new2 d2))"
    then obtain v d3 where "change_password lib salt2 i old new2 d2 = (Inr v, d3)" by (metis is_okE prod.collapse)
    then obtain row2 where r2: "find_row (\<lambda>u. us_id u = i) (tb_users (db_cur d2)) = Some row2"
      "verify_password lib (column_text (us_password_hash row2)) old = Inr True" by (rule change_password_InrE)
    have "us_password_hash row2 = h" using r2(1) set_password_row unfolding us dur h(4) by blast
    with r2(2) verify_hashed(1)[OF assms(1) h(1), of old] verify_hashed(2)[OF assms(1) h(1)] ne show False by simp
  qed
  moreover have "row \<in> set (tb_users (db_cur d)) \<and> us_id row = i" by (rule find_row_Some[OF h(2)])
  ultimately show ?thesis using h Inr unfolding dur by auto
qed

definition hashed_db :: db where
  "hashed_db = demo_db\<lparr>db_cur := demo_tables\<lparr>tb_users := [(demo_user ''admin'' 1 ''admin'')\<lparr>us_password_hash := ''pw'', us_reset_pwd_flag := 1\<rparr>]\<rparr>\<rparr>"

theorem change_password_outcome_witness:
  "is_ok (fst (change_password demo_argon2 (Some ''s'') 1 ''pw'' ''new'' hashed_db))
   \<and> \<not> is_ok (fst (change_password demo_argon2 (Some ''s'') 1 ''pw'' ''other''
        (snd (change_password demo_argon2 (Some ''s'') 1 ''pw'' ''new'' hashed_db))))"
proof -
  let ?run = "change_password demo_argon2 (Some ''s'') 1 ''pw'' ''new'' hashed_db"
  have ok: "is_ok (fst ?run)" by code_simp
  then obtain u d' where run: "?run = (Inr u, d')" by (metis is_okE prod.collapse)
  have closed: "db_snap hashed_db = None" by (simp add: hashed_db_def demo_db_def)
  have "db_snap d' = None" using change_password.closed[OF closed] run by (metis snd_conv)
  then have "tb_users (db_cur d') = tb_users (durable d')" by (simp add: durable_def)
  moreover have "''pw'' \<noteq> ''new''" by simp
  ultimately have "\<not> is_ok (fst (change_password demo_argon2 (Some ''s'') 1 ''pw'' ''other'' d'))"
    using change_password_outcome[OF demo_argon2_laws closed run] unfolding sum.case by blast
  with ok run show ?thesis by simp
qed

section \<open>A session\<close>

lemma find_row_append: "find_row P (xs @ ys) = (case find_row P xs of None \<Rightarrow> find_row P ys | Some x \<Rightarrow> Some x)"
  by (induction xs) (auto simp: find_row_def)

lemma login_quiet:
  assumes "db_faults d = []"
  shows "fst (login alib jlib cfg now account pw d) =
    (case find_row (\<lambda>u. us_account u = account) (tb_users (db_cur d)) of
       None \<Rightarrow> Inl (InvalidCredentials txt_bad_credentials)
     | Some row \<Rightarrow>
         (case verify_password alib (us_password_hash (load_user row)) pw of
            Inl e \<Rightarrow> Inl (LoginInternalError txt_auth_internal)
          | Inr False \<Rightarrow> Inl (InvalidCredentials txt_bad_credentials)
          | Inr True \<Rightarrow>
              (case jwt_sign jlib cfg now (us_id (load_user row)) of
                 Inl e \<Rightarrow> Inl (LoginInternalError txt_auth_internal)
               | Inr token \<Rightarrow> Inr \<lparr>ls_token = token, ls_expires_in_seconds = jc_expires_seconds cfg, ls_user = load_user row\<rparr>)))"
  using assms
  by (auto simp: login_def user_find_by_account_def find_user_by_def db_quiet split: option.splits sum.splits bool.splits)

lemma authenticate_quiet:
  assumes "db_faults d = []" and "jwt_verify lib cfg now token = Inr i" and "find_row (\<lambda>u. us_id u = i) (tb_users (db_cur d)) = Some row"
  shows "fst (authenticate_request lib cfg now token d) = Inr (auth_user_of (load_user row))"
  using assms by (simp add: authenticate_request_def user_find_by_id_def find_user_by_def db_quiet)

text \<open>
  C26: who registered is who is recognised. After a registration, the account it reports and the password
  log in (unless the token library refuses to sign); the token authenticates, until it
  expires, as exactly the registered user, with the role the database holds; any other password and any unknown
  account are refused with one and the same answer.
\<close>

theorem session_roundtrip:
  assumes "argon2_laws alib" and "jwt_laws jlib" and "db_snap d = None" and "tables_ok (db_cur d)" and "db_faults d = []"
    and "\<forall>k. CHR 0x00 \<notin> set (accounts k)"
    and "register_user alib salt accounts id n nickname pw d = (Inr u, d')" and "us_id u \<le> int64_max"
  shows "(case fst (login alib jlib cfg t0 (us_account u) pw d') of
       Inr s \<Rightarrow> ls_user s = u \<and> (\<forall>now. t0 \<le> now \<and> now < t0 + jc_expires_seconds cfg \<longrightarrow>
          fst (authenticate_request jlib cfg now (ls_token s) d') = Inr (auth_user_of u))
     | Inl e \<Rightarrow> \<not> is_ok (jwt_sign jlib cfg t0 (us_id u)))
    \<and> (\<forall>pw' account. pw' \<noteq> pw \<and> account \<notin> us_account ` set (tb_users (db_cur d')) \<longrightarrow>
         fst (login alib jlib cfg t0 (us_account u) pw' d') = Inl (InvalidCredentials txt_bad_credentials)
         \<and> fst (login alib jlib cfg t0 account pw d') = Inl (InvalidCredentials txt_bad_credentials))"
proof -
  obtain hash d1 where hash: "hash_password alib salt pw = Inr hash" and d1: "user_find_by_nickname (trim_by isspace nickname) d = (Inr None, d1)"
    and loop: "register_loop accounts id 0 n (trim_by isspace nickname) hash d1 = (Inr u, d')"
    using assms(7) by (auto simp: register_user_def validate_nickname_def Let_def split: sum.splits prod.splits option.splits if_splits)
  note f1 = user_find_by_nicknameE[OF d1 assms(3)]
  have "tables_ok (db_cur d1)" using f1(1) assms(4) by simp
  from register_loop_cases[OF keeps_store_id(1) f1(2) this loop] f1 assms(5) obtain j d2 where
    c: "user_create (accounts j) (trim_by isspace nickname) hash d2 = (Inr u, d')" "db_cur d2 = db_cur d" "db_faults d2 = []"
    by auto
  from c(1) obtain row where ins: "insert_user (accounts j) (trim_by isspace nickname) hash ''user'' 0 (db_now d2) (db_cur d2) = Inr (row, db_cur d')"
    and u: "u = load_user row" by (rule user_create_InrE)
  note i = insert_user_Inr[OF ins]
  have q: "db_faults d' = []" using user_create_faults[OF c(3)] c(1) by (metis snd_conv)
  have users: "tb_users (db_cur d') = tb_users (db_cur d) @ [row]" using i(1) c(2) by simp
  have acc: "us_account u = us_account row" "us_account row = accounts j" "us_id u = us_id row" "us_password_hash row = hash"
    using assms(6) u i(2) by (simp_all add: load_user_def column_text_id)
  have "find_row (\<lambda>x. us_account x = accounts j) (tb_users (db_cur d)) = None"
    using i(3) c(2) unfolding find_row_None by (metis image_eqI)
  then have fa: "find_row (\<lambda>x. us_account x = us_account u) (tb_users (db_cur d')) = Some row"
    by (simp add: users find_row_append acc(1,2)) (simp add: find_row_def acc(2))
  have "us_id row \<notin> us_id ` set (tb_users (db_cur d))"
    using assms(4) i(2) c(2) by (fastforce simp: tables_ok_defs keyed_def)
  then have "find_row (\<lambda>x. us_id x = us_id row) (tb_users (db_cur d)) = None" unfolding find_row_None by (metis image_eqI)
  then have fi: "find_row (\<lambda>x. us_id x = us_id u) (tb_users (db_cur d')) = Some row"
    by (simp add: users find_row_append acc(3)) (simp add: find_row_def)
  have ver: "verify_password alib (us_password_hash u) p = Inr (p = pw)" for p
    using verify_hashed[OF assms(1) hash] acc(4) u by (simp add: load_user_def)
  have "fst (login alib jlib cfg t0 account pw d') = Inl (InvalidCredentials txt_bad_credentials)"
    if "account \<notin> us_account ` set (tb_users (db_cur d'))" for account
  proof -
    have "find_row (\<lambda>x. us_account x = account) (tb_users (db_cur d')) = None"
      using that unfolding find_row_None by (metis image_eqI)
    then show ?thesis by (simp add: login_quiet[OF q])
  qed
  moreover have "fst (login alib jlib cfg t0 (us_account u) p d') = Inl (InvalidCredentials txt_bad_credentials)" if "p \<noteq> pw" for p
    using that by (simp add: login_quiet[OF q] fa u[symmetric] ver)
  moreover have "case fst (login alib jlib cfg t0 (us_account u) pw d') of
       Inr s \<Rightarrow> ls_user s = u \<and> (\<forall>now. t0 \<le> now \<and> now < t0 + jc_expires_seconds cfg \<longrightarrow>
          fst (authenticate_request jlib cfg now (ls_token s) d') = Inr (auth_user_of u))
     | Inl e \<Rightarrow> \<not> is_ok (jwt_sign jlib cfg t0 (us_id u))"
  proof (cases "jwt_sign jlib cfg t0 (us_id u)")
    case (Inl e)
    then show ?thesis by (simp add: login_quiet[OF q] fa u[symmetric] ver)
  next
    case (Inr token)
    have "fst (authenticate_request jlib cfg now token d') = Inr (auth_user_of u)" if "t0 \<le> now" "now < t0 + jc_expires_seconds cfg" for now
      using authenticate_quiet[OF q jwt_verify_signed[OF assms(2) Inr assms(8) that] fi] u by simp
    with Inr show ?thesis by (simp add: login_quiet[OF q] fa u[symmetric] ver)
  qed
  ultimately show ?thesis by blast
qed

text \<open>A token library that signs one claim set only, enough for an example.\<close>

definition demo_claims :: jwt_claims where
  "demo_claims = jwt_claims_for 0 3600 3"

definition demo_jwt :: "jwt_claims jwt_lib" where
  "demo_jwt = \<lparr>jl_sign = (\<lambda>secret c. if c = demo_claims then Inr ''t'' else Inl ''unsupported''),
     jl_decode = (\<lambda>token. if token = ''t'' then Inr demo_claims else Inl ''invalid''),
     jl_verify = (\<lambda>secret iss aud now c. None), jl_claims = id\<rparr>"

lemma demo_jwt_laws: "jwt_laws demo_jwt"
  by (auto simp: jwt_laws_def demo_jwt_def split: if_splits)

definition demo_jwt_config :: jwt_config where
  "demo_jwt_config = \<lparr>jc_secret = ''0123456789abcdef'', jc_expires_seconds = 3600\<rparr>"

theorem session_roundtrip_witness:
  "case register_user demo_argon2 (Some ''salt'') (\<lambda>k. ''0000000007'') id 5 ''carol'' ''pw'' demo_db of
     (Inr u, d') \<Rightarrow> (case fst (login demo_argon2 demo_jwt demo_jwt_config 0 (us_account u) ''pw'' d') of
         Inr s \<Rightarrow> fst (authenticate_request demo_jwt demo_jwt_config 10 (ls_token s) d') = Inr (auth_user_of u) | Inl e \<Rightarrow> False)
   | (Inl e, d') \<Rightarrow> False"
proof -
  let ?run = "register_user demo_argon2 (Some ''salt'') (\<lambda>k. ''0000000007'') id 5 ''carol'' ''pw'' demo_db"
  have ok: "is_ok (fst ?run)" by code_simp
  have uid: "case fst ?run of Inr u \<Rightarrow> us_id u = 3 | Inl e \<Rightarrow> False" by code_simp
  from ok obtain u d' where run: "?run = (Inr u, d')" by (metis is_okE prod.collapse)
  from uid run have three: "us_id u = 3" by simp
  have sign: "is_ok (jwt_sign demo_jwt demo_jwt_config 0 3)" by code_simp
  have faults: "db_faults demo_db = []" by (simp add: demo_db_def)
  have acc: "\<forall>k. CHR 0x00 \<notin> set ((\<lambda>k :: nat. ''0000000007'') k)" by simp
  have "us_id u \<le> int64_max" using three by (simp add: int64_max_def)
  note rt = conjunct1[OF session_roundtrip[OF demo_argon2_laws demo_jwt_laws _ _ faults acc run this, of demo_jwt_config 0]]
  have "case fst (login demo_argon2 demo_jwt demo_jwt_config 0 (us_account u) ''pw'' d') of
       Inr s \<Rightarrow> ls_user s = u \<and> (\<forall>now. 0 \<le> now \<and> now < 0 + jc_expires_seconds demo_jwt_config \<longrightarrow>
          fst (authenticate_request demo_jwt demo_jwt_config now (ls_token s) d') = Inr (auth_user_of u))
     | Inl e \<Rightarrow> \<not> is_ok (jwt_sign demo_jwt demo_jwt_config 0 (us_id u))"
    by (rule rt) simp_all
  then show ?thesis
    using sign three by (auto simp: run demo_jwt_config_def split: sum.splits)
qed

section \<open>Requests of the user administration\<close>

datatype user_action = ResetPassword string | ChangeRole string

definition is_valid_role :: "string \<Rightarrow> bool" where
  "is_valid_role role = (role = ''admin'' \<or> role = ''user'')"

fun parse_json_user_id :: "json \<Rightarrow> int option" where
  "parse_json_user_id (JUInt raw) = (if raw = 0 \<or> int64_max < raw then None else Some raw)"
| "parse_json_user_id (JInt raw) = (if raw \<le> 0 then None else Some raw)"
| "parse_json_user_id _ = None"

definition parse_user_request :: "json \<Rightarrow> string + int \<times> user_action" where
  "parse_user_request body =
     (if \<not> is_object body then Inl txt_user_body_object
      else case field body ''action'' of
        JString action \<Rightarrow>
          if action \<noteq> ''reset_password'' \<and> action \<noteq> ''change_role'' then Inl txt_action_unknown
          else if \<not> contains_field body ''user_id'' then Inl txt_user_id_positive
          else (case parse_json_user_id (field body ''user_id'') of
             None \<Rightarrow> Inl txt_user_id_positive
           | Some i \<Rightarrow>
               if action = ''reset_password'' then
                 (case field body ''new_password'' of
                    JString pw \<Rightarrow>
                      (case validate_password pw of
                         Inl e \<Rightarrow> Inl (txt_new_password_bad @ e)
                       | Inr _ \<Rightarrow> Inr (i, ResetPassword pw))
                  | _ \<Rightarrow> Inl txt_new_password_string)
               else
                 (case field body ''role'' of
                    JString role \<Rightarrow> if is_valid_role role then Inr (i, ChangeRole role) else Inl txt_role_bad
                  | _ \<Rightarrow> Inl txt_role_string))
      | _ \<Rightarrow> Inl txt_action_string)"

definition user_page_size :: int where
  "user_page_size = 20"

definition parse_user_page :: "string \<Rightarrow> string + int" where
  "parse_user_page = parse_page"

lemma parse_json_user_id_bounds:
  "json_number_ok j \<Longrightarrow> parse_json_user_id j = Some i \<Longrightarrow> 0 < i \<and> i \<le> int64_max"
  by (cases j rule: parse_json_user_id.cases) (auto split: if_splits)

lemma parse_user_request_Inr:
  assumes "parse_user_request body = Inr (i, a)"
  shows "parse_json_user_id (field body ''user_id'') = Some i
    \<and> (case a of
         ResetPassword pw \<Rightarrow> field body ''action'' = JString ''reset_password'' \<and> field body ''new_password'' = JString pw
           \<and> pw \<noteq> [] \<and> length pw \<le> password_max_len
       | ChangeRole role \<Rightarrow> field body ''action'' = JString ''change_role'' \<and> field body ''role'' = JString role \<and> role_ok role)"
proof -
  obtain action where act: "field body ''action'' = JString action" "action = ''reset_password'' \<or> action = ''change_role''"
    using assms by (auto simp: parse_user_request_def split: json.splits if_splits)
  have uid: "parse_json_user_id (field body ''user_id'') = Some i"
    using assms act by (auto simp: parse_user_request_def split: json.splits if_splits option.splits sum.splits)
  show ?thesis
  proof (cases "action = ''reset_password''")
    case True
    then show ?thesis
      using assms act(1) uid
      by (auto simp: parse_user_request_def validate_password_def split: json.splits if_splits sum.splits)
  next
    case False
    with act have "action = ''change_role''" by simp
    then show ?thesis
      using assms act(1) uid
      by (auto simp: parse_user_request_def is_valid_role_def role_ok_def split: json.splits if_splits)
  qed
qed

end
