(* ===== verification/OJ_Rate_Limit.thy ===== *)
theory OJ_Rate_Limit
  imports OJ_Text "HOL-Library.AList"
begin

text \<open>
  The login rate limiter (\<open>auth/rate_limit.cpp\<close>): a sliding window of attempts per client, pruned
  lazily and swept every 1024 requests. Times are steady-clock ticks (nanoseconds), the hash map is an
  association list with distinct keys. One call runs under the mutex, so a schedule of
  calls is a list of operations. The reference keeps the whole history of admitted attempts and counts
  those within the window; the limiter makes the same decisions.
\<close>

section \<open>The limiter\<close>

record rate_config =
  rc_max_failures :: int
  rc_window_seconds :: int

definition default_rate_config :: rate_config where
  "default_rate_config = \<lparr>rc_max_failures = 5, rc_window_seconds = 300\<rparr>"

datatype rate_result = Allowed | Blocked int

record rate_limiter =
  rl_failures :: "(string \<times> int list) list"
  rl_sweep_counter :: nat

definition rate_limiter_new :: rate_limiter where
  "rate_limiter_new = \<lparr>rl_failures = [], rl_sweep_counter = 0\<rparr>"

definition second_ticks :: int where
  "second_ticks = 1000000000"

definition window_ticks :: "rate_config \<Rightarrow> int" where
  "window_ticks cfg = rc_window_seconds cfg * second_ticks"

definition sweep_interval :: nat where
  "sweep_interval = 1024"

definition drop_expired :: "int \<Rightarrow> int \<Rightarrow> int list \<Rightarrow> int list" where
  "drop_expired window now dq = dropWhile (\<lambda>t. window < now - t) dq"

definition sweep :: "int \<Rightarrow> int \<Rightarrow> (string \<times> int list) list \<Rightarrow> (string \<times> int list) list" where
  "sweep window now fs = filter (\<lambda>(k, dq). dq \<noteq> []) (map (\<lambda>(k, dq). (k, drop_expired window now dq)) fs)"

definition retry_after_seconds :: "int \<Rightarrow> int" where
  "retry_after_seconds remaining =
     (let r = (remaining + second_ticks - 1) div second_ticks in if r < 1 then 1 else r)"

definition allow_entry :: "rate_config \<Rightarrow> int \<Rightarrow> string \<Rightarrow> (string \<times> int list) list
    \<Rightarrow> rate_result \<times> (string \<times> int list) list" where
  "allow_entry cfg now key fs =
     (case map_of fs key of
        None \<Rightarrow> (Allowed, AList.update key [now] fs)
      | Some dq0 \<Rightarrow>
          let dq = drop_expired (window_ticks cfg) now dq0 in
          if dq = [] then (Allowed, AList.update key [now] (AList.delete key fs))
          else if rc_max_failures cfg \<le> int (length dq) then
            (Blocked (retry_after_seconds (window_ticks cfg - (now - hd dq))), AList.update key dq fs)
          else (Allowed, AList.update key (dq @ [now]) fs))"

definition allow :: "rate_config \<Rightarrow> int \<Rightarrow> string \<Rightarrow> rate_limiter \<Rightarrow> rate_result \<times> rate_limiter" where
  "allow cfg now key s =
     (let counter = rl_sweep_counter s + 1;
          s1 = (if sweep_interval \<le> counter
                then \<lparr>rl_failures = sweep (window_ticks cfg) now (rl_failures s), rl_sweep_counter = 0\<rparr>
                else s\<lparr>rl_sweep_counter := counter\<rparr>);
          (r, fs) = allow_entry cfg now key (rl_failures s1) in
      (r, s1\<lparr>rl_failures := fs\<rparr>))"

definition clear :: "string \<Rightarrow> rate_limiter \<Rightarrow> rate_limiter" where
  "clear key s = s\<lparr>rl_failures := AList.delete key (rl_failures s)\<rparr>"

definition tracked_keys :: "rate_limiter \<Rightarrow> nat" where
  "tracked_keys s = length (rl_failures s)"

section \<open>Schedules and the reference\<close>

text \<open>The steady clock advances by \<open>dt\<close> before each attempt.\<close>

datatype rate_op = Attempt nat string | ClearKey string

record rate_state =
  rt_clock :: int
  rt_limiter :: rate_limiter
  rt_admitted :: "string \<Rightarrow> int list"

definition rate_init :: "int \<Rightarrow> rate_state" where
  "rate_init start = \<lparr>rt_clock = start, rt_limiter = rate_limiter_new, rt_admitted = (\<lambda>k. [])\<rparr>"

fun rate_step :: "rate_config \<Rightarrow> rate_state \<Rightarrow> rate_op \<Rightarrow> rate_state" where
  "rate_step cfg s (Attempt dt key) =
     (let now = rt_clock s + int dt; (r, l) = allow cfg now key (rt_limiter s) in
      \<lparr>rt_clock = now, rt_limiter = l,
       rt_admitted = (if r = Allowed then (rt_admitted s)(key := rt_admitted s key @ [now]) else rt_admitted s)\<rparr>)"
| "rate_step cfg s (ClearKey key) =
     s\<lparr>rt_limiter := clear key (rt_limiter s), rt_admitted := (rt_admitted s)(key := [])\<rparr>"

definition rate_run :: "rate_config \<Rightarrow> int \<Rightarrow> rate_op list \<Rightarrow> rate_state" where
  "rate_run cfg start ops = foldl (rate_step cfg) (rate_init start) ops"

text \<open>The reference decision: count the admitted attempts of the key that are within the window.\<close>

definition in_window :: "int \<Rightarrow> int \<Rightarrow> int list \<Rightarrow> int list" where
  "in_window window now ts = filter (\<lambda>t. now - t \<le> window) ts"

definition reference_allow :: "rate_config \<Rightarrow> int \<Rightarrow> int list \<Rightarrow> rate_result" where
  "reference_allow cfg now ts =
     (let ws = in_window (window_ticks cfg) now ts in
      if ws \<noteq> [] \<and> rc_max_failures cfg \<le> int (length ws)
      then Blocked (retry_after_seconds (window_ticks cfg - (now - hd ws))) else Allowed)"

section \<open>The limiter implements the reference\<close>

lemma map_of_filter_map:
  assumes "distinct (map fst xs)"
  shows "map_of (filter (\<lambda>(k, v). P v) (map (\<lambda>(k, v). (k, f v)) xs)) k
    = (case map_of xs k of None \<Rightarrow> None | Some v \<Rightarrow> if P (f v) then Some (f v) else None)"
  using assms
proof (induction xs)
  case (Cons x xs)
  obtain j v where x: "x = (j, v)" by (cases x)
  then have "map_of xs j = None" using Cons.prems by (simp add: map_of_eq_None_iff)
  with Cons show ?case by (auto simp: x)
qed simp

lemma drop_expired_in_window:
  "sorted dq \<Longrightarrow> drop_expired window now dq = in_window window now dq"
proof (induction dq)
  case (Cons t dq)
  have "in_window window now dq = dq" if "\<not> window < now - t"
    using Cons.prems that by (auto simp: in_window_def intro!: filter_True)
  with Cons show ?case by (auto simp: drop_expired_def in_window_def)
qed (simp add: drop_expired_def in_window_def)

text \<open>What the stored deque of a key is with respect to the admitted attempts.\<close>

definition tracks :: "int \<Rightarrow> int \<Rightarrow> int list \<Rightarrow> int list option \<Rightarrow> bool" where
  "tracks window clock ts dq = (sorted ts \<and> (\<forall>t \<in> set ts. t \<le> clock)
     \<and> (\<exists>n. (case dq of None \<Rightarrow> [] | Some d \<Rightarrow> d) = drop n ts \<and> (\<forall>t \<in> set (take n ts). window < clock - t)))"

definition rate_inv :: "rate_config \<Rightarrow> rate_state \<Rightarrow> bool" where
  "rate_inv cfg s = (distinct (map fst (rl_failures (rt_limiter s)))
     \<and> (\<forall>k. tracks (window_ticks cfg) (rt_clock s) (rt_admitted s k) (map_of (rl_failures (rt_limiter s)) k)))"

lemma tracks_expire:
  assumes "tracks window clock ts dq" and "clock \<le> now"
  shows "drop_expired window now (case dq of None \<Rightarrow> [] | Some d \<Rightarrow> d) = in_window window now ts"
    and "tracks window now ts (Some (in_window window now ts))"
proof -
  obtain n where n: "(case dq of None \<Rightarrow> [] | Some d \<Rightarrow> d) = drop n ts" "\<forall>t \<in> set (take n ts). window < clock - t"
    and s: "sorted ts" "\<forall>t \<in> set ts. t \<le> clock" using assms(1) by (auto simp: tracks_def)
  have "in_window window now (take n ts) = []" using n(2) assms(2) by (fastforce simp: in_window_def filter_empty_conv)
  then have "in_window window now ts = in_window window now (drop n ts)"
    using filter_append[of "\<lambda>t. now - t \<le> window" "take n ts" "drop n ts"] by (simp add: in_window_def)
  then show "drop_expired window now (case dq of None \<Rightarrow> [] | Some d \<Rightarrow> d) = in_window window now ts"
    using n(1) drop_expired_in_window[OF sorted_wrt_drop[OF s(1)]] by simp
  have d: "in_window window now ts = dropWhile (\<lambda>t. window < now - t) ts"
    using drop_expired_in_window[OF s(1)] by (simp add: drop_expired_def)
  let ?m = "length (takeWhile (\<lambda>t. window < now - t) ts)"
  have "dropWhile (\<lambda>t. window < now - t) ts = drop ?m ts" by (rule dropWhile_eq_drop)
  moreover have "\<forall>t \<in> set (take ?m ts). window < now - t"
    unfolding takeWhile_eq_take[symmetric] by (auto dest: set_takeWhileD)
  ultimately have "\<exists>n. in_window window now ts = drop n ts \<and> (\<forall>t \<in> set (take n ts). window < now - t)"
    unfolding d by blast
  then show "tracks window now ts (Some (in_window window now ts))"
    using s assms(2) unfolding tracks_def option.case by (blast intro: order_trans)
qed

lemma tracks_later: "tracks window clock ts dq \<Longrightarrow> clock \<le> now \<Longrightarrow> tracks window now ts dq"
  unfolding tracks_def by (meson order_trans diff_right_mono less_le_trans)

lemma tracks_empty: "tracks window clock ts (Some []) = tracks window clock ts None"
  by (simp add: tracks_def)

lemma tracks_push:
  assumes "tracks window now ts (Some dq)"
  shows "tracks window now (ts @ [now]) (Some (dq @ [now]))"
proof -
  obtain n where n: "dq = drop n ts" "\<forall>t \<in> set (take n ts). window < now - t" using assms by (auto simp: tracks_def)
  have "dq @ [now] = drop (min n (length ts)) (ts @ [now]) \<and> (\<forall>t \<in> set (take (min n (length ts)) (ts @ [now])). window < now - t)"
    using n by (cases "n \<le> length ts") (auto simp: min_def)
  then have "\<exists>m. dq @ [now] = drop m (ts @ [now]) \<and> (\<forall>t \<in> set (take m (ts @ [now])). window < now - t)" by blast
  moreover have "sorted (ts @ [now])" "\<forall>t \<in> set (ts @ [now]). t \<le> now" using assms by (auto simp: tracks_def sorted_append)
  ultimately show ?thesis unfolding tracks_def option.case by blast
qed

lemma tracks_sweep:
  assumes "distinct (map fst fs)" and "tracks window clock ts (map_of fs k)" and "clock \<le> now"
  shows "tracks window now ts (map_of (sweep window now fs) k)"
proof -
  have "map_of (sweep window now fs) k = (case map_of fs k of None \<Rightarrow> None
      | Some v \<Rightarrow> if drop_expired window now v \<noteq> [] then Some (drop_expired window now v) else None)"
    using map_of_filter_map[OF assms(1), of "\<lambda>dq. dq \<noteq> []" "drop_expired window now" k] by (simp add: sweep_def)
  then show ?thesis
    using tracks_expire[OF assms(2,3)] tracks_later[OF assms(2,3)] tracks_empty[of window now ts]
    by (auto split: option.splits)
qed

lemma distinct_sweep: "distinct (map fst fs) \<Longrightarrow> distinct (map fst (sweep window now fs))"
proof -
  have "map fst (map (\<lambda>(k, dq). (k, drop_expired window now dq)) fs) = map fst fs" by (induction fs) auto
  moreover assume "distinct (map fst fs)"
  ultimately show ?thesis unfolding sweep_def by (metis distinct_map_filter)
qed

lemma allow_cases:
  assumes "distinct (map fst (rl_failures s))" and "\<And>k. tracks (window_ticks cfg) clock (ts k) (map_of (rl_failures s) k)"
    and "clock \<le> now" and "allow cfg now key s = (r, s')"
  obtains fs dq where "r = reference_allow cfg now (ts key)" "distinct (map fst fs)" "distinct (map fst (rl_failures s'))"
    "\<And>k. tracks (window_ticks cfg) now (ts k) (map_of fs k)" "dq = in_window (window_ticks cfg) now (ts key)"
    "map_of (rl_failures s') = (map_of fs)(key \<mapsto> (if r = Allowed then dq @ [now] else dq))"
proof -
  let ?w = "window_ticks cfg"
  define fs where "fs = (if sweep_interval \<le> rl_sweep_counter s + 1 then sweep ?w now (rl_failures s) else rl_failures s)"
  obtain fs' where fs': "rl_failures s' = fs'" by blast
  have entry: "allow_entry cfg now key fs = (r, fs')"
    unfolding fs'[symmetric] using assms(4) by (auto simp: allow_def Let_def fs_def split: prod.splits if_splits)
  have dist: "distinct (map fst fs)" using assms(1) distinct_sweep by (simp add: fs_def)
  have tr: "tracks ?w now (ts k) (map_of fs k)" for k
    using tracks_sweep[OF assms(1,2,3)] tracks_later[OF assms(2,3)] by (simp add: fs_def)
  let ?dq = "in_window ?w now (ts key)"
  have dq: "drop_expired ?w now (case map_of fs key of None \<Rightarrow> [] | Some d \<Rightarrow> d) = ?dq"
    by (rule tracks_expire(1)[OF tr]) simp
  have "distinct (map fst fs') \<and> r = reference_allow cfg now (ts key)
      \<and> map_of fs' = (map_of fs)(key \<mapsto> (if r = Allowed then ?dq @ [now] else ?dq))"
  proof (cases "map_of fs key")
    case None
    with dq have "?dq = []" by (simp add: drop_expired_def)
    with entry None dist show ?thesis
      by (auto simp: allow_entry_def update_conv' distinct_update reference_allow_def)
  next
    case (Some d)
    with entry dq dist show ?thesis
      by (auto simp: allow_entry_def Let_def update_conv' distinct_update distinct_delete delete_conv' reference_allow_def
          split: if_splits)
  qed
  then show thesis using that[OF _ dist _ tr refl] by (simp add: fs')
qed

lemma rate_step_inv: "rate_inv cfg s \<Longrightarrow> rate_inv cfg (rate_step cfg s op)"
proof (cases op)
  case (Attempt dt key)
  assume inv: "rate_inv cfg s"
  let ?now = "rt_clock s + int dt"
  obtain r l where al: "allow cfg ?now key (rt_limiter s) = (r, l)" by force
  obtain fs dq where c: "distinct (map fst (rl_failures l))" "\<And>k. tracks (window_ticks cfg) ?now (rt_admitted s k) (map_of fs k)"
    "dq = in_window (window_ticks cfg) ?now (rt_admitted s key)"
    "map_of (rl_failures l) = (map_of fs)(key \<mapsto> (if r = Allowed then dq @ [?now] else dq))"
    by (rule allow_cases[OF _ _ _ al, of "rt_clock s" "rt_admitted s"]) (use inv in \<open>auto simp: rate_inv_def\<close>)
  have "tracks (window_ticks cfg) ?now (rt_admitted s key) (Some dq)"
    unfolding c(3) by (rule tracks_expire(2)[OF c(2)]) simp
  with tracks_push[OF this] c show ?thesis by (simp add: Attempt rate_inv_def al Let_def)
next
  case (ClearKey key)
  assume "rate_inv cfg s"
  then show ?thesis
    by (auto simp: ClearKey rate_inv_def clear_def delete_conv' distinct_delete) (simp add: tracks_def)
qed

lemma rate_run_inv: "rate_inv cfg (rate_run cfg start ops)"
proof -
  have "rate_inv cfg s \<Longrightarrow> rate_inv cfg (foldl (rate_step cfg) s ops)" for s
    by (induction ops arbitrary: s) (auto intro: rate_step_inv)
  moreover have "rate_inv cfg (rate_init start)" by (simp add: rate_inv_def rate_init_def rate_limiter_new_def tracks_def)
  ultimately show ?thesis by (simp add: rate_run_def)
qed

lemma rate_run_snoc: "rate_run cfg start (ops @ [op]) = rate_step cfg (rate_run cfg start ops) op"
  by (simp add: rate_run_def)

lemma run_decision:
  "rt_clock (rate_run cfg start ops) \<le> now \<Longrightarrow>
     fst (allow cfg now key (rt_limiter (rate_run cfg start ops))) = reference_allow cfg now (rt_admitted (rate_run cfg start ops) key)"
  using rate_run_inv[of cfg start ops] allow_cases[of "rt_limiter (rate_run cfg start ops)" cfg "rt_clock (rate_run cfg start ops)"
      "rt_admitted (rate_run cfg start ops)" now key]
  by (metis (no_types, lifting) rate_inv_def prod.collapse)

lemma reference_allow_short:
  "1 \<le> rc_max_failures cfg \<Longrightarrow> reference_allow cfg now ts = Allowed \<Longrightarrow>
     int (length (in_window (window_ticks cfg) now ts)) < rc_max_failures cfg"
  by (auto simp: reference_allow_def Let_def split: if_splits)

text \<open>A push keeps every window of the admitted attempts within the limit.\<close>

lemma window_push:
  assumes "\<And>t. int (length (filter (\<lambda>x. t - w \<le> x \<and> x \<le> t) ts)) \<le> m" and "int (length (in_window w now ts)) < m"
  shows "int (length (filter (\<lambda>x. t - w \<le> x \<and> x \<le> t) (ts @ [now]))) \<le> m"
proof (cases "now \<le> t \<and> t - w \<le> now")
  case True
  then have "length (filter (\<lambda>x. t - w \<le> x \<and> x \<le> t) ts) \<le> length (in_window w now ts)"
    unfolding in_window_def by (induction ts) auto
  with assms(2) True show ?thesis by simp
next
  case False
  with assms(1)[of t] show ?thesis by auto
qed

lemma run_window:
  assumes "1 \<le> rc_max_failures cfg"
  shows "w = window_ticks cfg \<Longrightarrow> int (length (filter (\<lambda>x. t - w \<le> x \<and> x \<le> t) (rt_admitted (rate_run cfg start ops) key)))
      \<le> rc_max_failures cfg"
proof (induction ops arbitrary: t key rule: rev_induct)
  case Nil
  then show ?case using assms by (simp add: rate_run_def rate_init_def)
next
  case (snoc op ops)
  let ?s = "rate_run cfg start ops"
  show ?case
  proof (cases op)
    case (Attempt dt k)
    let ?now = "rt_clock ?s + int dt"
    have dec: "fst (allow cfg ?now k (rt_limiter ?s)) = reference_allow cfg ?now (rt_admitted ?s k)"
      by (rule run_decision) simp
    then show ?thesis
      using snoc window_push[of w "rt_admitted ?s k" "rc_max_failures cfg" ?now t]
        reference_allow_short[OF assms, of ?now "rt_admitted ?s k"]
      by (auto simp: rate_run_snoc Attempt Let_def case_prod_beta simp del: filter_append)
  next
    case (ClearKey k)
    then show ?thesis using snoc assms by (auto simp: rate_run_snoc)
  qed
qed

section \<open>Properties\<close>



lemma retry_after_bounds:
  assumes "0 \<le> remaining" and "r = retry_after_seconds remaining"
  shows "1 \<le> r" "remaining \<le> r * second_ticks" "(r - 1) * second_ticks \<le> remaining"
proof -
  have S: "0 < second_ticks" by (simp add: second_ticks_def)
  let ?q = "(remaining + second_ticks - 1) div second_ticks"
  have q: "?q * second_ticks \<le> remaining + second_ticks - 1" "remaining + second_ticks - 1 < (?q + 1) * second_ticks"
    using div_mult_mod_eq[of "remaining + second_ticks - 1" second_ticks] pos_mod_sign[OF S, of "remaining + second_ticks - 1"]
      pos_mod_bound[OF S, of "remaining + second_ticks - 1"] unfolding distrib_right by linarith+
  have r: "r = (if ?q < 1 then 1 else ?q)" using assms(2) by (simp add: retry_after_seconds_def Let_def)
  show "1 \<le> r" unfolding r by simp
  have low: "?q < 1 \<Longrightarrow> remaining = 0"
  proof -
    assume "?q < 1"
    then have "(?q + 1) * second_ticks \<le> 1 * second_ticks" using S by (intro mult_right_mono) auto
    with q(2) assms(1) show "remaining = 0" by simp
  qed
  show "remaining \<le> r * second_ticks"
    using q(2) low S unfolding r by (auto simp: algebra_simps)
  show "(r - 1) * second_ticks \<le> remaining"
    using q(1) low S assms(1) unfolding r by (auto simp: algebra_simps)
qed

lemma in_window_twice:
  "now \<le> now' \<Longrightarrow> in_window w now' ts = in_window w now' (in_window w now ts)"
  unfolding in_window_def filter_filter by (rule filter_cong) auto

lemma length_in_window_less: "x \<in> set ts \<Longrightarrow> w < now - x \<Longrightarrow> length (in_window w now ts) < length ts"
  unfolding in_window_def by (rule length_filter_less) auto

text \<open>
  The waiting time of a refused login is right to the second: it is at least one, the client stays
  refused until one second before it ends, and once it is over (and the client has not tried in
  between) the next attempt is admitted.
\<close>

theorem retry_after_exact:
  assumes "1 \<le> rc_max_failures cfg" and "s = rate_run cfg start ops" and "rt_clock s \<le> now"
    and "allow cfg now key (rt_limiter s) = (Blocked r, l)"
  shows "1 \<le> r
    \<and> (\<forall>now'. now \<le> now' \<and> now' \<le> now + (r - 1) * second_ticks \<longrightarrow> fst (allow cfg now' key l) \<noteq> Allowed)
    \<and> (\<forall>now'. now + r * second_ticks < now' \<longrightarrow> fst (allow cfg now' key l) = Allowed)"
proof -
  let ?w = "window_ticks cfg" and ?ts = "rt_admitted s key" and ?m = "rc_max_failures cfg"
  let ?ws = "in_window ?w now ?ts"
  let ?dt = "nat (now - rt_clock s)"
  have next_state: "rt_limiter (rate_run cfg start (ops @ [Attempt ?dt key])) = l"
    "rt_admitted (rate_run cfg start (ops @ [Attempt ?dt key])) key = ?ts"
    "rt_clock (rate_run cfg start (ops @ [Attempt ?dt key])) = now"
    using assms(2-4) by (simp_all add: rate_run_snoc Let_def)
  have later: "fst (allow cfg now' key l) = reference_allow cfg now' ?ts" if "now \<le> now'" for now'
    using run_decision[of cfg start "ops @ [Attempt ?dt key]" now' key] that next_state by simp
  have "reference_allow cfg now ?ts = Blocked r"
    using run_decision[of cfg start ops now key] assms(2-4) by simp
  then have ne: "?ws \<noteq> []" and full: "?m \<le> int (length ?ws)" and r: "r = retry_after_seconds (?w - (now - hd ?ws))"
    by (auto simp: reference_allow_def Let_def split: if_splits)
  have inv: "sorted ?ts" "\<forall>t \<in> set ?ts. t \<le> rt_clock s"
    using rate_run_inv[of cfg start ops] assms(2) by (auto simp: rate_inv_def tracks_def)
  have "?ws = filter (\<lambda>x. now - ?w \<le> x \<and> x \<le> now) ?ts"
    unfolding in_window_def using inv(2) assms(3) by (intro filter_cong) fastforce+
  moreover have "int (length (filter (\<lambda>x. now - ?w \<le> x \<and> x \<le> now) ?ts)) \<le> ?m"
    using run_window[OF assms(1) refl] assms(2) by simp
  ultimately have len: "int (length ?ws) = ?m" using full by simp
  have hd: "hd ?ws \<in> set ?ws" and oldest: "\<forall>t \<in> set ?ws. hd ?ws \<le> t"
    using ne inv(1) sorted_filter[of "\<lambda>x. x" ?ts "\<lambda>t. now - t \<le> ?w"] by (cases ?ws; force simp: in_window_def)+
  then have "0 \<le> ?w - (now - hd ?ws)" by (simp add: in_window_def)
  note b = retry_after_bounds[OF this r]
  have "fst (allow cfg now' key l) \<noteq> Allowed" if t: "now \<le> now'" "now' \<le> now + (r - 1) * second_ticks" for now'
  proof -
    have "in_window ?w now' ?ws = ?ws"
      unfolding in_window_def[of ?w now'] by (rule filter_True) (use t(2) b(3) oldest in fastforce)
    then have "in_window ?w now' ?ts = ?ws" using in_window_twice[OF t(1)] by metis
    then show ?thesis using later[OF t(1)] ne full by (simp add: reference_allow_def Let_def)
  qed
  moreover have "fst (allow cfg now' key l) = Allowed" if t: "now + r * second_ticks < now'" for now'
  proof -
    have "0 \<le> r * second_ticks" using b(1) by (simp add: second_ticks_def)
    then have n: "now \<le> now'" using t by simp
    have "length (in_window ?w now' ?ws) < length ?ws"
      by (rule length_in_window_less[OF hd]) (use t b(2) in simp)
    then have "int (length (in_window ?w now' ?ts)) < ?m" using in_window_twice[OF n] len by (metis of_nat_less_iff)
    then show ?thesis using later[OF n] by (simp add: reference_allow_def Let_def)
  qed
  ultimately show ?thesis using b(1) by blast
qed

theorem retry_after_exact_witness:
  "fst (allow \<lparr>rc_max_failures = 1, rc_window_seconds = 1\<rparr> 2000000001 ''ip''
     (snd (allow \<lparr>rc_max_failures = 1, rc_window_seconds = 1\<rparr> 20 ''ip''
        (rt_limiter (rate_run \<lparr>rc_max_failures = 1, rc_window_seconds = 1\<rparr> 0 [Attempt 10 ''ip'']))))) = Allowed"
proof -
  let ?cfg = "\<lparr>rc_max_failures = 1, rc_window_seconds = 1\<rparr>"
  let ?s = "rate_run ?cfg 0 [Attempt 10 ''ip'']"
  have one: "1 \<le> rc_max_failures ?cfg" by simp
  have clock: "rt_clock ?s \<le> 20" by code_simp
  have "fst (allow ?cfg 20 ''ip'' (rt_limiter ?s)) = Blocked 1" by code_simp
  then have "allow ?cfg 20 ''ip'' (rt_limiter ?s) = (Blocked 1, snd (allow ?cfg 20 ''ip'' (rt_limiter ?s)))"
    by (metis prod.collapse)
  from retry_after_exact[OF one refl clock this] show ?thesis by (simp add: second_ticks_def)
qed

end
