(* ===== verification/OJ_Config.thy ===== *)
theory OJ_Config
  imports OJ_Text OJ_Messages
begin

text \<open>
  The configuration of the server (\<open>config.cpp\<close>): command line and environment variables. An environment
  variable is an argument of type \<open>string option\<close> (unset or its value).
\<close>

section \<open>Command line\<close>

record config =
  cf_host :: string
  cf_port :: int
  cf_db_path :: string
  cf_web_root :: string
  cf_seed :: bool

definition default_config :: config where
  "default_config = \<lparr>cf_host = ''0.0.0.0'', cf_port = 8080, cf_db_path = ''data/oj.db'', cf_web_root = ''web'', cf_seed = False\<rparr>"

definition quote_char :: string where
  "quote_char = [CHR 0x22]"

definition parse_port :: "string \<Rightarrow> int option" where
  "parse_port s =
     (if s = [] \<or> \<not> list_all is_digit s then None
      else case stoll s of
        None \<Rightarrow> None
      | Some v \<Rightarrow> if v < 1 \<or> 65535 < v then None else Some v)"

text \<open>The arguments after the program name; the flag of the result asks for the help text.\<close>

fun parse_args :: "string list \<Rightarrow> config \<Rightarrow> string + (bool \<times> config)" where
  "parse_args [] cfg = Inr (False, cfg)"
| "parse_args (arg # args) cfg =
     (if arg = ''--help'' \<or> arg = ''-h'' then Inr (True, cfg)
      else if arg = ''--host'' then
        (case args of
           [] \<Rightarrow> Inl txt_host_arg
         | v # rest \<Rightarrow> if v = [] then Inl txt_host_empty else parse_args rest (cfg\<lparr>cf_host := v\<rparr>))
      else if arg = ''--port'' then
        (case args of
           [] \<Rightarrow> Inl txt_port_arg
         | v # rest \<Rightarrow>
             (case parse_port v of
                None \<Rightarrow> Inl (txt_port_bad_1 @ v @ txt_port_bad_2)
              | Some p \<Rightarrow> parse_args rest (cfg\<lparr>cf_port := p\<rparr>)))
      else if arg = ''--db'' then
        (case args of
           [] \<Rightarrow> Inl txt_db_arg
         | v # rest \<Rightarrow> if v = [] then Inl txt_db_empty else parse_args rest (cfg\<lparr>cf_db_path := v\<rparr>))
      else if arg = ''--web'' then
        (case args of
           [] \<Rightarrow> Inl txt_web_arg
         | v # rest \<Rightarrow> if v = [] then Inl txt_web_empty else parse_args rest (cfg\<lparr>cf_web_root := v\<rparr>))
      else if arg = ''--seed'' then parse_args args (cfg\<lparr>cf_seed := True\<rparr>)
      else Inl (txt_unknown_arg @ arg @ quote_char))"

section \<open>Environment\<close>

definition default_judge_workspace :: string where
  "default_judge_workspace = ''/opt/oj-tmpfs''"

definition read_judge_workspace :: "string option \<Rightarrow> string option \<Rightarrow> string + (string \<times> bool)" where
  "read_judge_workspace workspace allow =
     (let out = (case workspace of None \<Rightarrow> default_judge_workspace
                 | Some w \<Rightarrow> if w = [] then default_judge_workspace else w) in
      case allow of
        None \<Rightarrow> Inr (out, False)
      | Some v \<Rightarrow>
          if v = [] then Inr (out, False)
          else if v = ''1'' \<or> v = ''true'' \<or> v = ''yes'' then Inr (out, True)
          else if v = ''0'' \<or> v = ''false'' \<or> v = ''no'' then Inr (out, False)
          else Inl (txt_tmpfs_bad @ v @ quote_char))"

text \<open>The two bounded counts are read by the same code with different names and bounds.\<close>

definition read_bounded :: "string \<Rightarrow> int \<Rightarrow> int \<Rightarrow> string option \<Rightarrow> string + int" where
  "read_bounded name dflt hi env =
     (case env of
        None \<Rightarrow> Inr dflt
      | Some s \<Rightarrow>
          if s = [] then Inl (name @ txt_env_empty)
          else if \<not> list_all is_digit s then Inl (name @ txt_env_positive @ s @ quote_char)
          else case stoll s of
            None \<Rightarrow> Inl (name @ txt_env_number @ s @ quote_char)
          | Some v \<Rightarrow>
              if v < 1 \<or> hi < v then Inl (name @ txt_env_range_1 @ int_to_string hi @ txt_env_range_2 @ s @ quote_char)
              else Inr v)"

definition read_judge_queue_capacity :: "string option \<Rightarrow> string + int" where
  "read_judge_queue_capacity = read_bounded ''OJ_JUDGE_QUEUE_CAPACITY'' 32 256"

definition read_judge_compile_concurrency :: "string option \<Rightarrow> string + int" where
  "read_judge_compile_concurrency = read_bounded ''OJ_JUDGE_COMPILE_CONCURRENCY'' 2 64"

definition read_admin_password :: "string option \<Rightarrow> string option" where
  "read_admin_password env = env"

section \<open>Bounds and round trip\<close>

lemma parse_port_iff:
  "parse_port s = Some p \<longleftrightarrow> s \<noteq> [] \<and> list_all is_digit s \<and> p = int (dec_value s) \<and> 1 \<le> p \<and> p \<le> 65535"
  by (auto simp: parse_port_def stoll_def int64_max_def)

lemma parse_port_range: "parse_port s = Some p \<Longrightarrow> 1 \<le> p \<and> p \<le> 65535"
  by (simp add: parse_port_iff)

lemma parse_port_print: "1 \<le> p \<Longrightarrow> p \<le> 65535 \<Longrightarrow> parse_port (int_to_string p) = Some p"
  by (simp add: parse_port_iff int_to_string_def nat_to_string_digits)

definition config_ok :: "config \<Rightarrow> bool" where
  "config_ok cfg = (cf_host cfg \<noteq> [] \<and> cf_db_path cfg \<noteq> [] \<and> cf_web_root cfg \<noteq> [] \<and> 1 \<le> cf_port cfg \<and> cf_port cfg \<le> 65535)"

lemma config_ok_updates [intro]:
  "config_ok cfg \<Longrightarrow> x \<noteq> [] \<Longrightarrow> config_ok (cfg\<lparr>cf_host := x\<rparr>)"
  "config_ok cfg \<Longrightarrow> x \<noteq> [] \<Longrightarrow> config_ok (cfg\<lparr>cf_db_path := x\<rparr>)"
  "config_ok cfg \<Longrightarrow> x \<noteq> [] \<Longrightarrow> config_ok (cfg\<lparr>cf_web_root := x\<rparr>)"
  "config_ok cfg \<Longrightarrow> 1 \<le> p \<Longrightarrow> p \<le> 65535 \<Longrightarrow> config_ok (cfg\<lparr>cf_port := p\<rparr>)"
  "config_ok cfg \<Longrightarrow> config_ok (cfg\<lparr>cf_seed := b\<rparr>)"
  by (simp_all add: config_ok_def)

lemma parse_args_ok:
  "parse_args args cfg = Inr (h, cfg') \<Longrightarrow> config_ok cfg \<Longrightarrow> config_ok cfg'"
proof (induction "length args" arbitrary: args cfg rule: less_induct)
  case less
  show ?case
  proof (cases args)
    case Nil
    with less.prems show ?thesis by simp
  next
    case (Cons arg rest)
    have step: "parse_args l c = Inr (h, cfg') \<Longrightarrow> length l \<le> length rest \<Longrightarrow> config_ok c \<Longrightarrow> config_ok cfg'" for l c
      using less.hyps[of l c] Cons by simp
    have c: "config_ok cfg" by (rule less.prems(2))
    note args = less.prems(1)[unfolded Cons]
    consider "arg = ''--help'' \<or> arg = ''-h''" | "arg = ''--host''" | "arg = ''--port''" | "arg = ''--db''" | "arg = ''--web''"
      | "arg = ''--seed''" | "arg \<notin> {''--help'', ''-h'', ''--host'', ''--port'', ''--db'', ''--web'', ''--seed''}" unfolding insert_iff empty_iff by argo
    then show ?thesis
    proof cases
      case 1
      with args c show ?thesis by auto
    next
      case 2
      with args c show ?thesis by (cases rest) (auto intro: step simp: parse_port_iff split: if_splits)
    next
      case 3
      with args c show ?thesis by (cases rest) (auto intro: step dest!: parse_port_range split: option.splits)
    next
      case 4
      with args c show ?thesis by (cases rest) (auto intro: step simp: parse_port_iff split: if_splits)
    next
      case 5
      with args c show ?thesis by (cases rest) (auto intro: step simp: parse_port_iff split: if_splits)
    next
      case 6
      with args c show ?thesis by (auto intro: step)
    next
      case 7
      with args show ?thesis by simp
    qed
  qed
qed

lemma read_bounded_Inr:
  assumes "read_bounded name dflt hi env = Inr v" and "1 \<le> dflt" and "dflt \<le> hi"
  shows "1 \<le> v \<and> v \<le> hi"
  using assms by (auto simp: read_bounded_def split: option.splits if_splits)

definition print_args :: "config \<Rightarrow> string list" where
  "print_args cfg = [''--host'', cf_host cfg, ''--port'', int_to_string (cf_port cfg), ''--db'', cf_db_path cfg,
     ''--web'', cf_web_root cfg] @ (if cf_seed cfg then [''--seed''] else [])"

text \<open>
  C37: every accepted configuration is usable: host, database and web directory are not empty and the port
  is between 1 and 65535; every such configuration can be given on the command line and is read back
  unchanged; the queue capacity is between 1 and 256 and the number of concurrent compilations between 1
  and 64, whatever the environment holds.
\<close>

theorem config_bounds:
  "(case parse_args args default_config of Inl e \<Rightarrow> True | Inr (h, cfg) \<Rightarrow> config_ok cfg)
   \<and> (config_ok cfg \<longrightarrow> parse_args (print_args cfg) default_config = Inr (False, cfg))
   \<and> (case read_judge_queue_capacity env of Inl e \<Rightarrow> True | Inr n \<Rightarrow> 1 \<le> n \<and> n \<le> 256)
   \<and> (case read_judge_compile_concurrency env of Inl e \<Rightarrow> True | Inr n \<Rightarrow> 1 \<le> n \<and> n \<le> 64)"
proof -
  have d: "config_ok default_config" by (simp add: config_ok_def default_config_def)
  have "case parse_args args default_config of Inl e \<Rightarrow> True | Inr (h, cfg) \<Rightarrow> config_ok cfg"
    using parse_args_ok[OF _ d] by (auto split: sum.splits)
  moreover have "parse_args (print_args cfg) default_config = Inr (False, cfg)" if "config_ok cfg"
    using that by (cases "cf_seed cfg") (simp_all add: print_args_def config_ok_def parse_port_print default_config_def)
  moreover have "case read_judge_queue_capacity env of Inl e \<Rightarrow> True | Inr n \<Rightarrow> 1 \<le> n \<and> n \<le> 256"
    using read_bounded_Inr[of "''OJ_JUDGE_QUEUE_CAPACITY''" 32 256 env] by (auto simp: read_judge_queue_capacity_def split: sum.splits)
  moreover have "case read_judge_compile_concurrency env of Inl e \<Rightarrow> True | Inr n \<Rightarrow> 1 \<le> n \<and> n \<le> 64"
    using read_bounded_Inr[of "''OJ_JUDGE_COMPILE_CONCURRENCY''" 2 64 env] by (auto simp: read_judge_compile_concurrency_def split: sum.splits)
  ultimately show ?thesis by blast
qed

theorem config_bounds_witness:
  "parse_args (print_args (default_config\<lparr>cf_port := 80\<rparr>)) default_config = Inr (False, default_config\<lparr>cf_port := 80\<rparr>)"
proof -
  have "config_ok (default_config\<lparr>cf_port := 80\<rparr>)" by (simp add: config_ok_def default_config_def)
  then show ?thesis using config_bounds[where cfg = "default_config\<lparr>cf_port := 80\<rparr>"] by blast
qed

end
