(* ===== verification/OJ_Http.thy ===== *)
theory OJ_Http
  imports OJ_Auth OJ_Rate_Limit OJ_Recovery OJ_Rejudge OJ_Leaderboard
begin

text \<open>
  The request handlers of the server (\<open>http/server.cpp\<close>). A request is what the handlers read of it: the
  authorization header, the body, the query parameters, the captured path segments and the peer address. A
  response is its status, its retry header and its JSON body before serialisation. A handler
  is a database computation that may leave early with a response (\<open>Inl\<close>); \<open>respond\<close> forgets
  the difference. The parser of JSON texts is the parameter \<open>he_parse\<close> (\<open>None\<close> is its exception).
\<close>

section \<open>Requests and responses\<close>

record request =
  rq_authorization :: string
  rq_body :: string
  rq_params :: "(string \<times> string) list"
  rq_captures :: "string list"
  rq_remote_addr :: string

record response =
  rp_status :: int
  rp_retry_after :: "string option"
  rp_body :: json

record 'tok http_env =
  he_jwt :: "'tok jwt_lib"
  he_jwt_config :: jwt_config
  he_argon2 :: argon2_lib
  he_salt :: "string option"
  he_parse :: "string \<Rightarrow> json option"
  he_time :: int
  he_accounts :: "nat \<Rightarrow> string"
  he_others :: "db \<Rightarrow> db"

type_synonym handler = "(response, response) dbm"

definition respond :: "handler \<Rightarrow> db \<Rightarrow> response \<times> db" where
  "respond h d = (case h d of (Inl r, d') \<Rightarrow> (r, d') | (Inr r, d') \<Rightarrow> (r, d'))"

definition send_json :: "int \<Rightarrow> json \<Rightarrow> response" where
  "send_json status body = \<lparr>rp_status = status, rp_retry_after = None, rp_body = body\<rparr>"

definition send_error :: "int \<Rightarrow> string \<Rightarrow> response" where
  "send_error status message = send_json status (JObject [(''error'', JString message)])"

definition send_password_change_required :: response where
  "send_password_change_required = send_json 403 (JObject [(''error'', JString http_change_password_first),
     (''code'', JString ''PASSWORD_CHANGE_REQUIRED'')])"

definition send_judge_queue_full :: response where
  "send_judge_queue_full = (send_json 503 (JObject [(''error'', JString http_queue_full),
     (''code'', JString ''JUDGE_QUEUE_FULL''), (''retryable'', JBool True)]))\<lparr>rp_retry_after := Some ''1''\<rparr>"

definition send_judge_unavailable :: response where
  "send_judge_unavailable = send_json 503 (JObject [(''error'', JString http_judge_unavailable),
     (''code'', JString ''JUDGE_UNAVAILABLE''), (''retryable'', JBool True)])"

definition send_rejudge_in_progress :: response where
  "send_rejudge_in_progress = send_json 409 (JObject [(''error'', JString http_rejudging),
     (''code'', JString ''REJUDGE_IN_PROGRESS'')])"

definition internal_error :: response where
  "internal_error = send_error 500 http_internal"

definition handle_health :: response where
  "handle_health = send_json 200 (JObject [(''status'', JString ''ok'')])"

definition lift :: "'e + 'a \<Rightarrow> ('e, 'a) dbm" where
  "lift r = (case r of Inl e \<Rightarrow> db_fail e | Inr a \<Rightarrow> db_ret a)"

text \<open>A store operation whose failure becomes a response.\<close>

definition catching :: "('e \<Rightarrow> response) \<Rightarrow> ('e, 'a) dbm \<Rightarrow> (response, 'a) dbm" where
  "catching f m = db_map_error f m"

definition get_param_value :: "request \<Rightarrow> string \<Rightarrow> string" where
  "get_param_value req k = (case map_of (rq_params req) k of Some v \<Rightarrow> v | None \<Rightarrow> [])"

definition has_param :: "request \<Rightarrow> string \<Rightarrow> bool" where
  "has_param req k = (map_of (rq_params req) k \<noteq> None)"

definition parse_problem_id :: "string \<Rightarrow> int option" where
  "parse_problem_id s =
     (if s = [] \<or> 19 < length s \<or> \<not> list_all is_digit s then None
      else case stoll s of
        None \<Rightarrow> None
      | Some v \<Rightarrow> if v \<le> 0 then None else Some v)"

text \<open>The first capture as an id; the routes with two captures require both to be there.\<close>

definition path_id :: "nat \<Rightarrow> string \<Rightarrow> request \<Rightarrow> response + int" where
  "path_id n message req =
     (case rq_captures req of
        [] \<Rightarrow> Inl (send_error 400 message)
      | s # rest \<Rightarrow>
          if length (rq_captures req) < n then Inl (send_error 400 message)
          else case parse_problem_id s of None \<Rightarrow> Inl (send_error 400 message) | Some i \<Rightarrow> Inr i)"

definition path_id2 :: "string \<Rightarrow> request \<Rightarrow> response + int" where
  "path_id2 message req =
     (case rq_captures req of
        s # t # rest \<Rightarrow> (case parse_problem_id t of None \<Rightarrow> Inl (send_error 400 message) | Some i \<Rightarrow> Inr i)
      | _ \<Rightarrow> Inl (send_error 400 message))"

definition parse_body :: "'tok http_env \<Rightarrow> request \<Rightarrow> response + json" where
  "parse_body env req =
     (case he_parse env (rq_body req) of None \<Rightarrow> Inl (send_error 400 http_bad_json) | Some j \<Rightarrow> Inr j)"

definition parse_object :: "'tok http_env \<Rightarrow> request \<Rightarrow> response + json" where
  "parse_object env req = res_bind (parse_body env req) (\<lambda>j.
     if is_object j then Inr j else Inl (send_error 400 http_body_object))"

definition string_field :: "json \<Rightarrow> string \<Rightarrow> string \<Rightarrow> response + string" where
  "string_field body key message =
     (case field body key of JString s \<Rightarrow> Inr s | _ \<Rightarrow> Inl (send_error 400 message))"

section \<open>Identity\<close>

definition auth_failure :: "auth_error \<Rightarrow> response" where
  "auth_failure e = (case e of Unauthorized _ \<Rightarrow> send_error 401 http_auth_failed | AuthInternalError _ \<Rightarrow> internal_error)"

definition authenticate :: "'tok http_env \<Rightarrow> string \<Rightarrow> (response, auth_user) dbm" where
  "authenticate env token = catching auth_failure (authenticate_request (he_jwt env) (he_jwt_config env) (he_time env) token)"

definition require_login :: "'tok http_env \<Rightarrow> request \<Rightarrow> (response, auth_user) dbm" where
  "require_login env req =
     (case extract_bearer_token (rq_authorization req) of
        None \<Rightarrow> db_fail (send_error 401 http_no_token)
      | Some token \<Rightarrow> authenticate env token)"

definition enforce_admin :: "auth_user \<Rightarrow> response + unit" where
  "enforce_admin user =
     (case check_admin user of
        AdminOk \<Rightarrow> Inr ()
      | NotAdmin \<Rightarrow> Inl (send_error 403 http_forbidden)
      | PasswordChangeRequired \<Rightarrow> Inl send_password_change_required)"

definition require_admin :: "'tok http_env \<Rightarrow> request \<Rightarrow> (response, auth_user) dbm" where
  "require_admin env req = db_bind (require_login env req) (\<lambda>user.
     db_bind (lift (enforce_admin user)) (\<lambda>_. db_ret user))"

record problem_viewer =
  vw_authenticated :: bool
  vw_is_admin :: bool
  vw_user_id :: int

definition resolve_viewer :: "'tok http_env \<Rightarrow> request \<Rightarrow> (response, problem_viewer) dbm" where
  "resolve_viewer env req =
     (if rq_authorization req = [] then db_ret \<lparr>vw_authenticated = False, vw_is_admin = False, vw_user_id = 0\<rparr>
      else db_bind (require_login env req) (\<lambda>user.
        db_ret \<lparr>vw_authenticated = True, vw_is_admin = (check_admin user = AdminOk), vw_user_id = au_id user\<rparr>))"

section \<open>JSON of the records\<close>

definition public_user_json :: "auth_user \<Rightarrow> json" where
  "public_user_json u = JObject [(''id'', JInt (au_id u)), (''account'', JString (au_account u)),
     (''nickname'', JString (au_nickname u)), (''role'', JString (au_role u)), (''reset_pwd_flag'', JInt (au_reset_pwd_flag u))]"

definition problem_summary_json :: "bool \<Rightarrow> problem_summary \<Rightarrow> json" where
  "problem_summary_json authenticated p = JObject ([(''id'', JInt (ps_id p)), (''title'', JString (ps_title p)),
     (''difficulty'', JString (ps_difficulty p)), (''tags'', JArray (map JString (ps_tags p))),
     (''visible'', JBool (ps_visible p)), (''pass_count'', JInt (ps_pass_count p))]
     @ (if authenticated then [(''solved'', JBool (ps_solved p))] else []))"

definition problem_detail_json :: "problem_record \<Rightarrow> sample_input list \<Rightarrow> bool \<Rightarrow> bool \<Rightarrow> json" where
  "problem_detail_json p samples authenticated solved = JObject ([(''id'', JInt (pr_id p)), (''title'', JString (pr_title p)),
     (''description'', JString (pr_description p)), (''difficulty'', JString (pr_difficulty p)),
     (''tags'', JArray (map JString (pr_tags p))), (''time_limit_ms'', JInt (pr_time_limit_ms p)),
     (''memory_limit_kb'', JInt (pr_memory_limit_kb p)), (''visible'', JBool (pr_visible p))]
     @ (if authenticated then [(''solved'', JBool solved)] else [])
     @ [(''samples'', JArray (map (\<lambda>s. JObject [(''input'', JString (si_input s)), (''output'', JString (si_output s))]) samples))])"

definition admin_testcase_json :: "int \<Rightarrow> testcase_record \<Rightarrow> json" where
  "admin_testcase_json pid c = JObject [(''id'', JInt (tz_id c)), (''problem_id'', JInt pid), (''ord'', JInt (tz_ord c)),
     (''input'', JString (tz_input c)), (''output'', JString (tz_output c)), (''is_sample'', JBool (tz_is_sample c))]"

definition admin_user_summary_json :: "user_summary \<Rightarrow> json" where
  "admin_user_summary_json u = JObject [(''id'', JInt (uq_id u)), (''account'', JString (uq_account u)),
     (''nickname'', JString (uq_nickname u)), (''role'', JString (uq_role u)), (''reset_pwd_flag'', JInt (uq_reset_pwd_flag u)),
     (''created_at'', JString (uq_created_at u))]"

definition memory_json :: "int \<Rightarrow> json" where
  "memory_json kb = (if 0 < kb then JInt kb else JNull)"

definition submission_summary_json :: "submission_summary \<Rightarrow> json" where
  "submission_summary_json s = JObject [(''id'', JInt (sx_id s)), (''problem_id'', JInt (sx_problem_id s)),
     (''problem_title'', JString (sx_problem_title s)), (''language'', JString (sx_language s)), (''status'', JString (sx_status s)),
     (''runtime_ms'', JInt (sx_runtime_ms s)), (''memory_kb'', memory_json (sx_memory_kb s)), (''created_at'', JString (sx_created_at s))]"

text \<open>A stored report that is not an array is marked as unreadable instead of shown as empty.\<close>

definition submission_detail_json :: "(string \<Rightarrow> json option) \<Rightarrow> submission_row \<Rightarrow> string \<Rightarrow> json" where
  "submission_detail_json parse r title =
     (let (results, parse_error) =
        (if sb_per_case r = [] then (JArray [], False)
         else case parse (sb_per_case r) of Some (JArray xs) \<Rightarrow> (JArray xs, False) | _ \<Rightarrow> (JArray [], True)) in
      JObject [(''id'', JInt (sb_id r)), (''problem_id'', JInt (sb_problem_id r)), (''problem_title'', JString title),
       (''language'', JString (sb_language r)), (''status'', JString (sb_status r)), (''source_code'', JString (sb_source_code r)),
       (''runtime_ms'', JInt (sb_runtime_ms r)), (''memory_kb'', memory_json (sb_memory_kb r)),
       (''compile_output'', JString (sb_compile_msg r)), (''created_at'', JString (sb_created_at r)),
       (''results'', results), (''per_case_parse_error'', JBool parse_error)])"

definition submission_result_json :: "(string \<Rightarrow> json option) \<Rightarrow> submission_row \<Rightarrow> judge_result \<Rightarrow> json option" where
  "submission_result_json parse r j =
     map_option (\<lambda>results. JObject [(''id'', JInt (sb_id r)), (''problem_id'', JInt (sb_problem_id r)), (''language'', JString (sb_language r)),
       (''status'', JString (sb_status r)), (''passed'', JInt (jr_passed j)), (''total'', JInt (jr_total j)),
       (''runtime_ms'', JInt (sb_runtime_ms r)), (''memory_kb'', memory_json (sb_memory_kb r)),
       (''compile_time_ms'', JInt (jr_compile_time_ms j)), (''compile_ok'', JBool (jr_compile_ok j)),
       (''compile_output'', JString (sb_compile_msg r)), (''compile_output_truncated'', JBool (jr_compile_output_truncated j)),
       (''global_deadline_hit'', JBool (jr_global_deadline_hit j)), (''cancelled'', JBool (jr_cancelled j)),
       (''message'', JString (jr_message j)), (''created_at'', JString (sb_created_at r)), (''results'', results)])
     (parse (sb_per_case r))"

definition json_total_pages :: "int \<Rightarrow> int \<Rightarrow> int" where
  "json_total_pages n page_size = (if n = 0 then 0 else (n + page_size - 1) div page_size)"

section \<open>Accounts\<close>

definition registered_json :: "user_row \<Rightarrow> json" where
  "registered_json u = JObject [(''account'', JString (us_account u)), (''nickname'', JString (us_nickname u)),
     (''role'', JString (us_role u)), (''id'', JInt (us_id u))]"

definition register_failure :: "register_error \<Rightarrow> response" where
  "register_failure e = (case e of
      RegInvalidNickname m \<Rightarrow> send_error 400 m
    | RegInvalidPassword m \<Rightarrow> send_error 400 m
    | RegNicknameTaken m \<Rightarrow> send_error 409 m
    | RegInternalError m \<Rightarrow> internal_error)"

definition handle_register :: "'tok http_env \<Rightarrow> request \<Rightarrow> handler" where
  "handle_register env req =
     db_bind (lift (parse_object env req)) (\<lambda>body.
     db_bind (lift (string_field body ''nickname'' http_nickname_string)) (\<lambda>nickname.
     db_bind (lift (string_field body ''password'' http_password_string)) (\<lambda>password.
     db_bind (catching register_failure
       (register_user (he_argon2 env) (he_salt env) (he_accounts env) (he_others env) 5 nickname password)) (\<lambda>u.
     db_ret (send_json 201 (registered_json u))))))"

definition parse_login_body :: "'tok http_env \<Rightarrow> request \<Rightarrow> response + string \<times> string" where
  "parse_login_body env req =
     res_bind (parse_object env req) (\<lambda>body.
     res_bind (string_field body ''account'' http_account_string) (\<lambda>account.
     res_bind (string_field body ''password'' http_password_string) (\<lambda>password.
     if account = [] \<or> password = [] then Inl (send_error 400 http_login_empty) else Inr (account, password))))"

definition login_json :: "login_success \<Rightarrow> json" where
  "login_json s = JObject [(''token'', JString (ls_token s)), (''token_type'', JString ''Bearer''),
     (''expires_in'', JInt (ls_expires_in_seconds s)), (''user'', public_user_json (auth_user_of (ls_user s)))]"

text \<open>The login handler also has the rate limiter and the steady clock; the client is the peer address.\<close>

definition handle_login :: "'tok http_env \<Rightarrow> rate_config \<Rightarrow> int \<Rightarrow> request \<Rightarrow> rate_limiter \<times> db \<Rightarrow> response \<times> rate_limiter \<times> db" where
  "handle_login env cfg ticks req s =
     (let (l, d) = s in
      case parse_login_body env req of
        Inl r \<Rightarrow> (r, l, d)
      | Inr (account, password) \<Rightarrow>
          (case allow cfg ticks (rq_remote_addr req) l of
             (Blocked n, l1) \<Rightarrow> ((send_error 429 http_too_many)\<lparr>rp_retry_after := Some (int_to_string n)\<rparr>, l1, d)
           | (Allowed, l1) \<Rightarrow>
               (case login (he_argon2 env) (he_jwt env) (he_jwt_config env) (he_time env) account password d of
                  (Inr ok, d1) \<Rightarrow> (send_json 200 (login_json ok), clear (rq_remote_addr req) l1, d1)
                | (Inl (InvalidCredentials m), d1) \<Rightarrow> (send_error 401 http_bad_credentials, l1, d1)
                | (Inl (LoginInternalError m), d1) \<Rightarrow> (internal_error, clear (rq_remote_addr req) l1, d1))))"

definition handle_me :: "'tok http_env \<Rightarrow> request \<Rightarrow> handler" where
  "handle_me env req = db_bind (require_login env req) (\<lambda>user. db_ret (send_json 200 (public_user_json user)))"

definition parse_password_change_body :: "'tok http_env \<Rightarrow> request \<Rightarrow> response + string \<times> string" where
  "parse_password_change_body env req =
     res_bind (parse_object env req) (\<lambda>body.
     res_bind (string_field body ''old_password'' http_old_password_string) (\<lambda>old_password.
     res_bind (string_field body ''new_password'' http_new_password_string) (\<lambda>new_password.
     if old_password = [] \<or> new_password = [] then Inl (send_error 400 http_passwords_empty)
     else Inr (old_password, new_password))))"

definition change_password_failure :: "change_password_error \<Rightarrow> response" where
  "change_password_failure e = (case e of
      InvalidOldPassword \<Rightarrow> send_error 401 http_old_password_wrong
    | ChangeUserNotFound \<Rightarrow> send_error 401 http_auth_failed
    | ChangeInternalError m \<Rightarrow> internal_error)"

definition status_ok_json :: json where
  "status_ok_json = JObject [(''status'', JString ''ok'')]"

definition handle_change_password :: "'tok http_env \<Rightarrow> request \<Rightarrow> handler" where
  "handle_change_password env req =
     db_bind (require_login env req) (\<lambda>user.
     db_bind (lift (parse_password_change_body env req)) (\<lambda>(old_password, new_password).
     case validate_password_change old_password new_password of
       Inl m \<Rightarrow> db_fail (send_error 400 m)
     | Inr _ \<Rightarrow>
         db_bind (catching change_password_failure
           (change_password (he_argon2 env) (he_salt env) (au_id user) old_password new_password)) (\<lambda>_.
         db_ret (send_json 200 status_ok_json))))"

section \<open>Problems\<close>

definition visibility_for :: "bool \<Rightarrow> visible_filter \<Rightarrow> problem_visibility" where
  "visibility_for is_admin f =
     (if \<not> is_admin then VisibleOnly
      else case f of VOnlyVisible \<Rightarrow> VisibleOnly | VOnlyHidden \<Rightarrow> HiddenOnly | VAll \<Rightarrow> AllProblems)"

definition list_query_for :: "problem_viewer \<Rightarrow> list_filter \<Rightarrow> problem_list_query" where
  "list_query_for viewer f = \<lparr>pq_visibility = visibility_for (vw_is_admin viewer) (lf_visible f), pq_keyword = lf_keyword f,
     pq_difficulty = lf_difficulty f, pq_tag = lf_tag f,
     pq_viewer_user_id = (if vw_authenticated viewer then vw_user_id viewer else 0),
     pq_page = lf_page f, pq_page_size = lf_page_size f\<rparr>"

definition page_json :: "string \<Rightarrow> json list \<Rightarrow> int \<Rightarrow> int \<Rightarrow> int \<Rightarrow> (string \<times> json) list" where
  "page_json key items page page_size n = [(key, JArray items), (''page'', JInt page), (''page_size'', JInt page_size),
     (''total'', JInt n), (''total_pages'', JInt (json_total_pages n page_size))]"

definition handle_problem_list :: "'tok http_env \<Rightarrow> request \<Rightarrow> handler" where
  "handle_problem_list env req =
     db_bind (resolve_viewer env req) (\<lambda>viewer.
     case parse_list_query \<lparr>rl_q = get_param_value req ''q'', rl_difficulty = get_param_value req ''difficulty'',
         rl_tag = get_param_value req ''tag'', rl_page = get_param_value req ''page'', rl_visible = get_param_value req ''visible''\<rparr> of
       Inl m \<Rightarrow> db_fail (send_error 400 m)
     | Inr f \<Rightarrow>
         db_bind (catching (\<lambda>_. internal_error) (problem_query (list_query_for viewer f))) (\<lambda>(items, n).
         db_ret (send_json 200 (JObject (page_json ''problems'' (map (problem_summary_json (vw_authenticated viewer)) items)
           (lf_page f) (lf_page_size f) n)))))"

definition handle_problem_tags :: "'tok http_env \<Rightarrow> request \<Rightarrow> handler" where
  "handle_problem_tags env req =
     db_bind (resolve_viewer env req) (\<lambda>viewer.
     db_bind (catching (\<lambda>_. internal_error) (list_tags (vw_is_admin viewer))) (\<lambda>tags.
     db_ret (send_json 200 (JObject [(''tags'', JArray (map JString tags))]))))"

definition handle_problem_detail :: "'tok http_env \<Rightarrow> request \<Rightarrow> handler" where
  "handle_problem_detail env req =
     db_bind (lift (path_id 1 http_bad_problem_id req)) (\<lambda>i.
     db_bind (resolve_viewer env req) (\<lambda>viewer.
     db_bind (catching (\<lambda>_. internal_error) (problem_find_by_id i)) (\<lambda>found.
     case found of
       None \<Rightarrow> db_fail (send_error 404 http_problem_missing)
     | Some p \<Rightarrow>
         if \<not> pr_visible p \<and> \<not> vw_is_admin viewer then db_fail (send_error 404 http_problem_missing)
         else
           db_bind (catching (\<lambda>_. internal_error) (list_samples i)) (\<lambda>samples.
           db_bind (if vw_authenticated viewer then catching (\<lambda>_. internal_error) (viewer_solved (vw_user_id viewer) i)
                    else db_ret False) (\<lambda>solved.
           db_ret (send_json 200 (problem_detail_json p samples (vw_authenticated viewer) solved)))))))"

section \<open>Submissions and standings\<close>

definition is_truthy_mine :: "string \<Rightarrow> bool" where
  "is_truthy_mine s =
     (let v = to_lower (trim_ascii s) in v = [] \<or> v = ''1'' \<or> v = ''true'' \<or> v = ''mine'' \<or> v = ''yes'')"

definition submission_page_size :: int where
  "submission_page_size = 20"

definition parse_page_param :: "string \<Rightarrow> string + int" where
  "parse_page_param = parse_page"

definition problem_filter :: "request \<Rightarrow> response + int" where
  "problem_filter req =
     (if \<not> has_param req ''problem_id'' then Inr 0
      else case parse_problem_id (get_param_value req ''problem_id'') of
        None \<Rightarrow> Inl (send_error 400 http_bad_problem_id)
      | Some i \<Rightarrow> Inr i)"

definition handle_submission_list :: "'tok http_env \<Rightarrow> request \<Rightarrow> handler" where
  "handle_submission_list env req =
     db_bind (require_login env req) (\<lambda>user.
     if has_param req ''mine'' \<and> \<not> is_truthy_mine (get_param_value req ''mine'') then db_fail (send_error 400 http_bad_mine)
     else case parse_page_param (get_param_value req ''page'') of
       Inl m \<Rightarrow> db_fail (send_error 400 m)
     | Inr page \<Rightarrow>
         db_bind (lift (problem_filter req)) (\<lambda>pid.
         db_bind (catching (\<lambda>_. internal_error) (submission_list_by_user (au_id user) pid page submission_page_size)) (\<lambda>(items, n).
         db_ret (send_json 200 (JObject (page_json ''submissions'' (map submission_summary_json items) page submission_page_size n
           @ [(''mine'', JBool True)]))))))"

definition handle_submission_detail :: "'tok http_env \<Rightarrow> request \<Rightarrow> handler" where
  "handle_submission_detail env req =
     db_bind (lift (path_id 1 http_bad_submission_id req)) (\<lambda>i.
     db_bind (require_login env req) (\<lambda>user.
     db_bind (catching (\<lambda>_. internal_error) (submission_find_by_id i)) (\<lambda>found.
     case found of
       None \<Rightarrow> db_fail (send_error 404 http_submission_missing)
     | Some r \<Rightarrow>
         if sb_user_id r \<noteq> au_id user \<and> check_admin user \<noteq> AdminOk then db_fail (send_error 404 http_submission_missing)
         else
           db_bind (catching (\<lambda>_. internal_error) (problem_find_by_id (sb_problem_id r))) (\<lambda>p.
           db_ret (send_json 200 (submission_detail_json (he_parse env) r (case p of None \<Rightarrow> [] | Some x \<Rightarrow> pr_title x)))))))"

definition status_item_json :: "user_status_item \<Rightarrow> json" where
  "status_item_json s = JObject [(''problem_id'', JInt (ui_problem_id s)),
     (''status'', JString (if ui_accepted s then ''accepted'' else ''none'')),
     (''first_ac_at'', if ui_has_first_ac_at s then JString (ui_first_ac_at s) else JNull),
     (''submit_count'', JInt (ui_submit_count s))]"

definition handle_user_status :: "'tok http_env \<Rightarrow> request \<Rightarrow> handler" where
  "handle_user_status env req =
     db_bind (require_login env req) (\<lambda>user.
     db_bind (lift (problem_filter req)) (\<lambda>pid.
     db_bind (catching (\<lambda>_. internal_error) (status_list_by_user (au_id user) pid)) (\<lambda>items.
     db_ret (send_json 200 (JObject [(''statuses'', JArray (map status_item_json items))])))))"

text \<open>The rank is the global position: it continues over the pages.\<close>

definition leaderboard_item_json :: "int \<Rightarrow> leaderboard_entry \<Rightarrow> json" where
  "leaderboard_item_json rank e = JObject [(''rank'', JInt rank), (''user_id'', JInt (le_user_id e)),
     (''nickname'', JString (le_nickname e)), (''ac_count'', JInt (le_ac_count e)), (''submit_count'', JInt (le_submit_count e)),
     (''first_ac_at'', if le_has_first_ac_at e then JString (le_first_ac_at e) else JNull), (''created_at'', JString (le_created_at e))]"

definition ranked_items :: "int \<Rightarrow> leaderboard_entry list \<Rightarrow> json list" where
  "ranked_items start es = map (\<lambda>(k, e). leaderboard_item_json (start + int k + 1) e) (enumerate 0 es)"

definition handle_leaderboard :: "request \<Rightarrow> handler" where
  "handle_leaderboard req =
     (case parse_user_page (get_param_value req ''page'') of
        Inl m \<Rightarrow> db_fail (send_error 400 m)
      | Inr page \<Rightarrow>
          db_bind (catching (\<lambda>_. internal_error) (leaderboard_query page user_page_size)) (\<lambda>(items, n).
          db_ret (send_json 200 (JObject (page_json ''leaderboard'' (ranked_items ((page - 1) * user_page_size) items)
            page user_page_size n)))))"

section \<open>Administration\<close>

definition handle_admin_create_problem :: "'tok http_env \<Rightarrow> request \<Rightarrow> handler" where
  "handle_admin_create_problem env req =
     db_bind (require_admin env req) (\<lambda>admin.
     db_bind (lift (parse_body env req)) (\<lambda>body.
     case parse_create_problem body of
       Inl m \<Rightarrow> db_fail (send_error 400 m)
     | Inr data \<Rightarrow>
         db_bind (catching (\<lambda>_. internal_error) (problem_create data)) (\<lambda>i.
         db_ret (send_json 201 (JObject [(''id'', JInt i)])))))"

definition problem_update_failure :: "update_error \<Rightarrow> response" where
  "problem_update_failure e = (case e of UpdNotFound \<Rightarrow> send_error 404 http_problem_missing | UpdError m \<Rightarrow> internal_error)"

definition handle_admin_update_problem :: "'tok http_env \<Rightarrow> request \<Rightarrow> handler" where
  "handle_admin_update_problem env req =
     db_bind (require_admin env req) (\<lambda>admin.
     db_bind (lift (path_id 1 http_bad_problem_id req)) (\<lambda>i.
     db_bind (lift (parse_body env req)) (\<lambda>body.
     case parse_update_problem body of
       Inl m \<Rightarrow> db_fail (send_error 400 m)
     | Inr patch \<Rightarrow>
         db_bind (catching problem_update_failure (problem_update i patch)) (\<lambda>_.
         db_ret (send_json 200 (JObject [(''id'', JInt i), (''status'', JString ''ok'')]))))))"

definition problem_delete_failure :: "delete_error \<Rightarrow> response" where
  "problem_delete_failure e = (case e of
      DelNotFound \<Rightarrow> send_error 404 http_problem_missing
    | DelHasSubmissions \<Rightarrow> send_error 409 http_problem_in_use
    | DelError m \<Rightarrow> internal_error)"

definition handle_admin_delete_problem :: "'tok http_env \<Rightarrow> request \<Rightarrow> handler" where
  "handle_admin_delete_problem env req =
     db_bind (require_admin env req) (\<lambda>admin.
     db_bind (lift (path_id 1 http_bad_problem_id req)) (\<lambda>i.
     db_bind (catching problem_delete_failure (problem_remove i)) (\<lambda>_.
     db_ret (send_json 200 status_ok_json))))"

definition handle_admin_list_testcases :: "'tok http_env \<Rightarrow> request \<Rightarrow> handler" where
  "handle_admin_list_testcases env req =
     db_bind (require_admin env req) (\<lambda>admin.
     db_bind (lift (path_id 1 http_bad_problem_id req)) (\<lambda>i.
     db_bind (catching (\<lambda>_. internal_error) (problem_find_by_id i)) (\<lambda>found.
     if found = None then db_fail (send_error 404 http_problem_missing)
     else
       db_bind (catching (\<lambda>_. internal_error) (list_testcases i)) (\<lambda>records.
       db_ret (send_json 200 (JObject [(''problem_id'', JInt i), (''testcases'', JArray (map (admin_testcase_json i) records)),
         (''total'', JInt (int (length records)))]))))))"

definition testcase_create_failure :: "testcase_create_error \<Rightarrow> response" where
  "testcase_create_failure e = (case e of
      TcProblemNotFound \<Rightarrow> send_error 404 http_problem_missing
    | TcOrdExhausted m \<Rightarrow> send_error 409 http_ord_exhausted
    | TcError m \<Rightarrow> internal_error)"

definition handle_admin_create_testcase :: "'tok http_env \<Rightarrow> request \<Rightarrow> handler" where
  "handle_admin_create_testcase env req =
     db_bind (require_admin env req) (\<lambda>admin.
     db_bind (lift (path_id 1 http_bad_problem_id req)) (\<lambda>i.
     db_bind (lift (parse_body env req)) (\<lambda>body.
     case parse_create_testcase body of
       Inl m \<Rightarrow> db_fail (send_error 400 m)
     | Inr data \<Rightarrow>
         db_bind (catching testcase_create_failure (testcase_create i data)) (\<lambda>(new_id, ord).
         db_ret (send_json 201 (JObject [(''id'', JInt new_id), (''problem_id'', JInt i), (''ord'', JInt ord)]))))))"

definition testcase_failure :: "update_error \<Rightarrow> response" where
  "testcase_failure e = (case e of UpdNotFound \<Rightarrow> send_error 404 http_testcase_missing | UpdError m \<Rightarrow> internal_error)"

definition handle_admin_update_testcase :: "'tok http_env \<Rightarrow> request \<Rightarrow> handler" where
  "handle_admin_update_testcase env req =
     db_bind (require_admin env req) (\<lambda>admin.
     db_bind (lift (path_id 2 http_bad_problem_id req)) (\<lambda>pid.
     db_bind (lift (path_id2 http_bad_testcase_id req)) (\<lambda>i.
     db_bind (lift (parse_body env req)) (\<lambda>body.
     case parse_update_testcase body of
       Inl m \<Rightarrow> db_fail (send_error 400 m)
     | Inr patch \<Rightarrow>
         db_bind (catching testcase_failure (testcase_update pid i patch)) (\<lambda>ord.
         db_ret (send_json 200 (JObject [(''id'', JInt i), (''problem_id'', JInt pid), (''ord'', JInt ord), (''status'', JString ''ok'')])))))))"

definition handle_admin_delete_testcase :: "'tok http_env \<Rightarrow> request \<Rightarrow> handler" where
  "handle_admin_delete_testcase env req =
     db_bind (require_admin env req) (\<lambda>admin.
     db_bind (lift (path_id 2 http_bad_problem_id req)) (\<lambda>pid.
     db_bind (lift (path_id2 http_bad_testcase_id req)) (\<lambda>i.
     db_bind (catching testcase_failure (testcase_remove pid i)) (\<lambda>_.
     db_ret (send_json 200 status_ok_json)))))"

definition handle_admin_list_users :: "'tok http_env \<Rightarrow> request \<Rightarrow> handler" where
  "handle_admin_list_users env req =
     db_bind (require_admin env req) (\<lambda>admin.
     case parse_user_page (get_param_value req ''page'') of
       Inl m \<Rightarrow> db_fail (send_error 400 m)
     | Inr page \<Rightarrow>
         db_bind (catching (\<lambda>_. internal_error) (list_users page user_page_size)) (\<lambda>(users, n).
         db_ret (send_json 200 (JObject (page_json ''users'' (map admin_user_summary_json users) page user_page_size n)))))"

definition reset_failure :: "user_update_error \<Rightarrow> response" where
  "reset_failure e = (case e of UserNotFound \<Rightarrow> send_error 404 http_user_missing | UserUpdateError m \<Rightarrow> internal_error)"

definition role_failure :: "role_error \<Rightarrow> response" where
  "role_failure e = (case e of
      RoleNotFound \<Rightarrow> send_error 404 http_user_missing
    | RoleLastAdmin \<Rightarrow> send_error 409 http_last_admin
    | RoleError m \<Rightarrow> internal_error)"

definition perform_user_action :: "'tok http_env \<Rightarrow> int \<Rightarrow> user_action \<Rightarrow> handler" where
  "perform_user_action env i action =
     (case action of
        ResetPassword pw \<Rightarrow>
          (case hash_password (he_argon2 env) (he_salt env) pw of
             Inl e \<Rightarrow> db_fail internal_error
           | Inr hash \<Rightarrow>
               db_bind (catching reset_failure (admin_reset_password i hash)) (\<lambda>_.
               db_ret (send_json 200 (JObject [(''user_id'', JInt i), (''status'', JString ''ok'')]))))
      | ChangeRole role \<Rightarrow>
          db_bind (catching role_failure (change_role i role)) (\<lambda>_.
          db_ret (send_json 200 (JObject [(''user_id'', JInt i), (''role'', JString role), (''status'', JString ''ok'')]))))"

definition handle_admin_update_user :: "'tok http_env \<Rightarrow> request \<Rightarrow> handler" where
  "handle_admin_update_user env req =
     db_bind (require_admin env req) (\<lambda>admin.
     db_bind (lift (parse_body env req)) (\<lambda>body.
     case parse_user_request body of
       Inl m \<Rightarrow> db_fail (send_error 400 m)
     | Inr (i, action) \<Rightarrow> perform_user_action env i action))"

definition handle_test_admin_only :: "'tok http_env \<Rightarrow> request \<Rightarrow> handler" where
  "handle_test_admin_only env req = db_bind (require_admin env req) (\<lambda>user. db_ret (send_json 200 status_ok_json))"

section \<open>Submitting\<close>

text \<open>Steps 1 to 5 of the submit handler: who submits what to which problem.\<close>

record submission_order =
  sr_user_id :: int
  sr_problem_id :: int
  sr_language :: string
  sr_code :: string
  sr_is_admin :: bool

definition submit_checks :: "'tok http_env \<Rightarrow> request \<Rightarrow> (response, submission_order) dbm" where
  "submit_checks env req =
     db_bind (lift (path_id 1 http_bad_problem_id req)) (\<lambda>pid.
     db_bind (require_login env req) (\<lambda>user.
     if requires_password_change user then db_fail send_password_change_required
     else
       db_bind (lift (parse_object env req)) (\<lambda>body.
       db_bind (lift (string_field body ''language'' http_language_string)) (\<lambda>language.
       db_bind (lift (string_field body ''code'' http_code_string)) (\<lambda>code.
       case parse_submission_language language of
         None \<Rightarrow> db_fail (send_error 400 http_bad_language)
       | Some canonical \<Rightarrow>
           (case validate_source_code code of
              Inl m \<Rightarrow> db_fail (send_error 400 m)
            | Inr _ \<Rightarrow>
                db_bind (catching (\<lambda>_. internal_error) (problem_find_by_id pid)) (\<lambda>found.
                case found of
                  None \<Rightarrow> db_fail (send_error 404 http_problem_missing)
                | Some p \<Rightarrow>
                    if \<not> pr_visible p \<and> check_admin user \<noteq> AdminOk then db_fail (send_error 404 http_problem_missing)
                    else db_ret \<lparr>sr_user_id = au_id user, sr_problem_id = pid, sr_language = canonical, sr_code = code,
                      sr_is_admin = (check_admin user = AdminOk)\<rparr>)))))))"

text \<open>
  Steps 6 and 7: reserve a place, store the task, hand it to the manager. \<open>others\<close> is what the other threads
  do to database and manager between the calls. The calls made are returned in order.
\<close>

datatype accept_event =
  AcReserve reservation
| AcPersist "persist_error + string"
| AcCommit submission_task reservation
| AcRelease reservation

definition order_task :: "submission_order \<Rightarrow> string \<Rightarrow> string \<Rightarrow> submission_task" where
  "order_task ord submitted_at task_id = \<lparr>st_task_id = 0, st_user_id = sr_user_id ord, st_problem_id = sr_problem_id ord,
     st_language = sr_language ord, st_source_code = sr_code ord, st_viewer_is_admin = sr_is_admin ord,
     st_submitted_at = submitted_at, st_rejudge_submission_id = 0, st_in_flight_task_id = task_id\<rparr>"

definition submit_accept :: "(nat \<Rightarrow> string) \<Rightarrow> string \<Rightarrow> string \<Rightarrow> (db \<times> 's manager \<Rightarrow> db \<times> 's manager) \<Rightarrow> submission_order
    \<Rightarrow> db \<times> 's manager \<Rightarrow> (response + string \<times> nat option) \<times> accept_event list \<times> db \<times> 's manager" where
  "submit_accept ids now submitted_at others ord w =
     (let (d1, m1) = others w; (resv, m2) = reserve m1 in
      if rs_status resv = QueueFull then (Inl send_judge_queue_full, [AcReserve resv], d1, m2)
      else if rs_status resv = Stopped then (Inl send_judge_unavailable, [AcReserve resv], d1, m2)
      else let (d3, m3) = others (d1, m2);
               (p, d4) = persist_in_flight ids now (sr_user_id ord) (sr_problem_id ord) (sr_language ord) (sr_code ord) submitted_at d3;
               (d5, m5) = others (d4, m3) in
      case p of
        Inl e \<Rightarrow> (Inl (if e = PersistProblemNotFound then send_error 404 http_problem_missing else internal_error),
            [AcReserve resv, AcPersist p, AcRelease resv], d5, release resv m5)
      | Inr task_id \<Rightarrow>
          let task = order_task ord submitted_at task_id; ((status, slot), m6) = commit task resv m5 in
          if status \<noteq> Accepted then
            (Inl send_judge_unavailable, [AcReserve resv, AcPersist p, AcCommit task resv], discard_in_flight task_id d5, m6)
          else (Inr (task_id, slot), [AcReserve resv, AcPersist p, AcCommit task resv], d5, m6))"

text \<open>Step 8: the response of the awaited outcome; \<open>None\<close> is the branch that sets no response.\<close>

definition submit_reply :: "(string \<Rightarrow> json option) \<Rightarrow> submission_row submit_outcome \<Rightarrow> response option" where
  "submit_reply parse out =
     (case so_kind out of
        KProblemNotFound \<Rightarrow> Some (send_error 404 http_problem_missing)
      | KAlreadySettled \<Rightarrow> Some internal_error
      | KInternalError \<Rightarrow> Some internal_error
      | KOk \<Rightarrow>
          (case so_submission out of
             None \<Rightarrow> None
           | Some saved \<Rightarrow> map_option (send_json 200) (submission_result_json parse saved (so_judge out))))"

definition handle_submit :: "'tok http_env \<Rightarrow> (nat \<Rightarrow> string) \<Rightarrow> string \<Rightarrow> string
    \<Rightarrow> (db \<times> 's manager \<Rightarrow> db \<times> 's manager)
    \<Rightarrow> (nat option \<Rightarrow> db \<times> 's manager \<Rightarrow> submission_row submit_outcome \<times> db \<times> 's manager) \<Rightarrow> request
    \<Rightarrow> db \<times> 's manager \<Rightarrow> response option \<times> accept_event list \<times> db \<times> 's manager" where
  "handle_submit env ids now submitted_at others await req w =
     (case submit_checks env req (fst w) of
        (Inl r, d1) \<Rightarrow> (Some r, [], d1, snd w)
      | (Inr ord, d1) \<Rightarrow>
          (case submit_accept ids now submitted_at others ord (d1, snd w) of
             (Inl r, evs, w1) \<Rightarrow> (Some r, evs, w1)
           | (Inr (task_id, slot), evs, w1) \<Rightarrow>
               let (out, w2) = await slot w1 in (submit_reply (he_parse env) out, evs, w2)))"

section \<open>Rejudging\<close>

definition rejudge_order :: "string \<Rightarrow> submission_row \<Rightarrow> submission_task" where
  "rejudge_order now r = \<lparr>st_task_id = 0, st_user_id = sb_user_id r, st_problem_id = sb_problem_id r,
     st_language = sb_language r, st_source_code = sb_source_code r, st_viewer_is_admin = True,
     st_submitted_at = now, st_rejudge_submission_id = sb_id r, st_in_flight_task_id = []\<rparr>"

text \<open>The switch of this handler has no case for \<open>AlreadySettled\<close>: it goes on as for success.\<close>

definition rejudge_reply :: "(string \<Rightarrow> json option) \<Rightarrow> submission_row submit_outcome option \<Rightarrow> response" where
  "rejudge_reply parse result =
     (case result of
        None \<Rightarrow> internal_error
      | Some out \<Rightarrow>
          if so_kind out = KProblemNotFound then
            send_error 404 (if so_error out = [] then http_submission_missing else so_error out)
          else if so_kind out = KInternalError then send_error 500 (if so_error out = [] then http_internal else so_error out)
          else (case so_submission out of
             None \<Rightarrow> internal_error
           | Some saved \<Rightarrow>
               (case submission_result_json parse saved (so_judge out) of
                  None \<Rightarrow> internal_error
                | Some body \<Rightarrow> send_json 200 body)))"

record 's rejudge_state =
  rj_in_flight :: "int set"
  rj_db :: db
  rj_manager :: "'s manager"

definition rejudge_lookup :: "'tok http_env \<Rightarrow> request \<Rightarrow> (response, submission_row) dbm" where
  "rejudge_lookup env req =
     db_bind (require_admin env req) (\<lambda>admin.
     db_bind (lift (path_id 1 http_bad_submission_id req)) (\<lambda>i.
     db_bind (catching (\<lambda>_. internal_error) (submission_find_by_id i)) (\<lambda>found.
     case found of None \<Rightarrow> db_fail (send_error 404 http_submission_missing) | Some r \<Rightarrow> db_ret r)))"

text \<open>\<open>await\<close> is the wait for the result, during which other threads act; the guard removes the mark at the end.\<close>

definition handle_admin_rejudge :: "'tok http_env \<Rightarrow> string
    \<Rightarrow> (nat option \<Rightarrow> 's rejudge_state \<Rightarrow> submission_row submit_outcome option \<times> 's rejudge_state) \<Rightarrow> request
    \<Rightarrow> 's rejudge_state \<Rightarrow> response \<times> 's rejudge_state" where
  "handle_admin_rejudge env now await req s =
     (case rejudge_lookup env req (rj_db s) of
        (Inl r, d1) \<Rightarrow> (r, s\<lparr>rj_db := d1\<rparr>)
      | (Inr record, d1) \<Rightarrow>
          let i = sb_id record; s1 = s\<lparr>rj_db := d1\<rparr> in
          if i \<in> rj_in_flight s1 then (send_rejudge_in_progress, s1)
          else let s2 = s1\<lparr>rj_in_flight := insert i (rj_in_flight s1)\<rparr>;
                   ((status, slot), m) = submit (rejudge_order now record) (rj_manager s2);
                   s3 = s2\<lparr>rj_manager := m\<rparr> in
          if status = QueueFull then (send_judge_queue_full, s3\<lparr>rj_in_flight := rj_in_flight s3 - {i}\<rparr>)
          else if status = Stopped then (send_judge_unavailable, s3\<lparr>rj_in_flight := rj_in_flight s3 - {i}\<rparr>)
          else let (result, s4) = await slot s3 in
            (rejudge_reply (he_parse env) result, s4\<lparr>rj_in_flight := rj_in_flight s4 - {i}\<rparr>))"

end
