(* ===== verification/OJ_Server.thy ===== *)
theory OJ_Server
  imports OJ_Http
begin

text \<open>
  The server as a whole (\<open>http/server.h\<close>, \<open>http/server.cpp\<close>): the state that the handlers share, the routing
  table of \<open>setup_routes\<close>, and what every route guarantees: administration needs an administrator, hidden problems
  do not influence what others see, submissions are private, and every request keeps the tables consistent.
\<close>

section \<open>Routes\<close>

datatype http_method = GET | POST | PUT | DELETE

datatype endpoint =
  Health | Register | Login | Me | MyPassword
| ProblemList | ProblemTags | ProblemDetail | SubmitRoute
| SubmissionList | SubmissionDetail | UserStatus | Leaderboard
| AdminCreateProblem | AdminUpdateProblem | AdminDeleteProblem
| AdminListTestcases | AdminCreateTestcase | AdminUpdateTestcase | AdminDeleteTestcase
| AdminListUsers | AdminUpdateUser | AdminRejudge | TestAdminOnly

text \<open>
  A path pattern by its segments: a literal or the capture \<open>([^/]+)\<close>, which stands for one non-empty segment.
  A pattern has to match the whole path.
\<close>

type_synonym route = "http_method \<times> string option list \<times> endpoint"

definition setup_routes :: "bool \<Rightarrow> route list" where
  "setup_routes enable_test_routes =
    [(GET, [Some ''api'', Some ''health''], Health),
     (POST, [Some ''api'', Some ''register''], Register),
     (POST, [Some ''api'', Some ''login''], Login),
     (GET, [Some ''api'', Some ''me''], Me),
     (POST, [Some ''api'', Some ''me'', Some ''password''], MyPassword),
     (GET, [Some ''api'', Some ''problems''], ProblemList),
     (GET, [Some ''api'', Some ''problem-tags''], ProblemTags),
     (GET, [Some ''api'', Some ''problems'', None], ProblemDetail),
     (POST, [Some ''api'', Some ''problems'', None, Some ''submit''], SubmitRoute),
     (GET, [Some ''api'', Some ''submissions''], SubmissionList),
     (GET, [Some ''api'', Some ''submissions'', None], SubmissionDetail),
     (GET, [Some ''api'', Some ''status''], UserStatus),
     (GET, [Some ''api'', Some ''leaderboard''], Leaderboard),
     (POST, [Some ''api'', Some ''admin'', Some ''problems''], AdminCreateProblem),
     (PUT, [Some ''api'', Some ''admin'', Some ''problems'', None], AdminUpdateProblem),
     (DELETE, [Some ''api'', Some ''admin'', Some ''problems'', None], AdminDeleteProblem),
     (GET, [Some ''api'', Some ''admin'', Some ''problems'', None, Some ''testcases''], AdminListTestcases),
     (POST, [Some ''api'', Some ''admin'', Some ''problems'', None, Some ''testcases''], AdminCreateTestcase),
     (PUT, [Some ''api'', Some ''admin'', Some ''problems'', None, Some ''testcases'', None], AdminUpdateTestcase),
     (DELETE, [Some ''api'', Some ''admin'', Some ''problems'', None, Some ''testcases'', None], AdminDeleteTestcase),
     (GET, [Some ''api'', Some ''admin'', Some ''users''], AdminListUsers),
     (PUT, [Some ''api'', Some ''admin'', Some ''users''], AdminUpdateUser),
     (POST, [Some ''api'', Some ''admin'', Some ''submissions'', None, Some ''rejudge''], AdminRejudge)]
    @ (if enable_test_routes then [(GET, [Some ''api'', Some ''test'', Some ''admin-only''], TestAdminOnly)] else [])"

fun match_segments :: "string option list \<Rightarrow> string list \<Rightarrow> string list option" where
  "match_segments [] [] = Some []"
| "match_segments (Some l # ps) (s # ss) = (if s = l then match_segments ps ss else None)"
| "match_segments (None # ps) (s # ss) = (if s = [] then None else map_option (Cons s) (match_segments ps ss))"
| "match_segments _ _ = None"

definition matching_routes :: "bool \<Rightarrow> http_method \<Rightarrow> string list \<Rightarrow> route list" where
  "matching_routes enable meth segs =
     filter (\<lambda>(m, p, e). m = meth \<and> match_segments p segs \<noteq> None) (setup_routes enable)"

section \<open>Shared state and dispatch\<close>

record 's server =
  sv_db :: db
  sv_limiter :: rate_limiter
  sv_manager :: "'s manager"
  sv_rejudging :: "int set"

text \<open>
  What the handlers take from their surroundings: libraries, clocks and generators, and what the other threads do
  while a handler waits (\<open>ho_others\<close> between two calls, \<open>ho_await\<close> and \<open>ho_await_rejudge\<close> until the result of the
  judged task is there).
\<close>

record ('tok, 's) host =
  ho_env :: "'tok http_env"
  ho_rate :: rate_config
  ho_ticks :: int
  ho_ids :: "nat \<Rightarrow> string"
  ho_now :: string
  ho_submitted_at :: string
  ho_others :: "db \<times> 's manager \<Rightarrow> db \<times> 's manager"
  ho_await :: "nat option \<Rightarrow> db \<times> 's manager \<Rightarrow> submission_row submit_outcome \<times> db \<times> 's manager"
  ho_await_rejudge :: "nat option \<Rightarrow> 's rejudge_state \<Rightarrow> submission_row submit_outcome option \<times> 's rejudge_state"

text \<open>The handlers that use nothing but the database.\<close>

fun db_handler :: "endpoint \<Rightarrow> 'tok http_env \<Rightarrow> request \<Rightarrow> handler" where
  "db_handler Register env req = handle_register env req"
| "db_handler Me env req = handle_me env req"
| "db_handler MyPassword env req = handle_change_password env req"
| "db_handler ProblemList env req = handle_problem_list env req"
| "db_handler ProblemTags env req = handle_problem_tags env req"
| "db_handler ProblemDetail env req = handle_problem_detail env req"
| "db_handler SubmissionList env req = handle_submission_list env req"
| "db_handler SubmissionDetail env req = handle_submission_detail env req"
| "db_handler UserStatus env req = handle_user_status env req"
| "db_handler Leaderboard env req = handle_leaderboard req"
| "db_handler AdminCreateProblem env req = handle_admin_create_problem env req"
| "db_handler AdminUpdateProblem env req = handle_admin_update_problem env req"
| "db_handler AdminDeleteProblem env req = handle_admin_delete_problem env req"
| "db_handler AdminListTestcases env req = handle_admin_list_testcases env req"
| "db_handler AdminCreateTestcase env req = handle_admin_create_testcase env req"
| "db_handler AdminUpdateTestcase env req = handle_admin_update_testcase env req"
| "db_handler AdminDeleteTestcase env req = handle_admin_delete_testcase env req"
| "db_handler AdminListUsers env req = handle_admin_list_users env req"
| "db_handler AdminUpdateUser env req = handle_admin_update_user env req"
| "db_handler TestAdminOnly env req = handle_test_admin_only env req"
| "db_handler _ env req = db_ret handle_health"

fun run_endpoint :: "('tok, 's) host \<Rightarrow> endpoint \<Rightarrow> request \<Rightarrow> 's server \<Rightarrow> response option \<times> 's server" where
  "run_endpoint h Login req s =
     (let (r, l, d) = handle_login (ho_env h) (ho_rate h) (ho_ticks h) req (sv_limiter s, sv_db s)
      in (Some r, s\<lparr>sv_limiter := l, sv_db := d\<rparr>))"
| "run_endpoint h SubmitRoute req s =
     (let (r, evs, d, m) = handle_submit (ho_env h) (ho_ids h) (ho_now h) (ho_submitted_at h) (ho_others h) (ho_await h) req (sv_db s, sv_manager s)
      in (r, s\<lparr>sv_db := d, sv_manager := m\<rparr>))"
| "run_endpoint h AdminRejudge req s =
     (let (r, rs) = handle_admin_rejudge (ho_env h) (ho_now h) (ho_await_rejudge h) req
            \<lparr>rj_in_flight = sv_rejudging s, rj_db = sv_db s, rj_manager = sv_manager s\<rparr>
      in (Some r, s\<lparr>sv_db := rj_db rs, sv_manager := rj_manager rs, sv_rejudging := rj_in_flight rs\<rparr>))"
| "run_endpoint h e req s =
     (let (r, d) = respond (db_handler e (ho_env h) req) (sv_db s) in (Some r, s\<lparr>sv_db := d\<rparr>))"

text \<open>One request: the first route that matches gets the captured segments; without a route no handler of the server runs.\<close>

definition serve :: "('tok, 's) host \<Rightarrow> bool \<Rightarrow> http_method \<Rightarrow> string list \<Rightarrow> request \<Rightarrow> 's server \<Rightarrow> response option \<times> 's server" where
  "serve h enable meth segs req s =
     (case matching_routes enable meth segs of
        [] \<Rightarrow> (None, s)
      | (m, p, e) # rest \<Rightarrow>
          (case match_segments p segs of
             None \<Rightarrow> (None, s)
           | Some captures \<Rightarrow> run_endpoint h e (req\<lparr>rq_captures := captures\<rparr>) s))"

section \<open>Identity\<close>

text \<open>The user that the database holds for a request: a token in the header that verifies and names a row.\<close>

definition session_user :: "'tok http_env \<Rightarrow> request \<Rightarrow> tables \<Rightarrow> user_row option" where
  "session_user env req t =
     (case extract_bearer_token (rq_authorization req) of
        None \<Rightarrow> None
      | Some token \<Rightarrow>
          (case jwt_verify (he_jwt env) (he_jwt_config env) (he_time env) token of
             Inl e \<Rightarrow> None
           | Inr i \<Rightarrow> map_option load_user (find_row (\<lambda>u. us_id u = i) (tb_users t))))"

definition admin_session :: "'tok http_env \<Rightarrow> request \<Rightarrow> tables \<Rightarrow> bool" where
  "admin_session env req t =
     (case session_user env req t of None \<Rightarrow> False | Some u \<Rightarrow> us_role u = ''admin'' \<and> us_reset_pwd_flag u = 0)"

lemma stable_lift [db_stable]: "stable I (lift r)"
  unfolding lift_def by (intro db_stable)

lemma stable_catching [db_stable]: "stable I m \<Longrightarrow> stable I (catching f m)"
  unfolding catching_def by (rule db_stable)

lemma stable_user_find [db_stable]: "stable I (user_find_by_id i)"
  unfolding user_find_by_id_def find_user_by_def by (intro db_stable)

lemma stable_require_login [db_stable]: "stable I (require_login env req)"
  unfolding require_login_def authenticate_def authenticate_request_def by (intro db_stable)

lemma stable_require_admin [db_stable]: "stable I (require_admin env req)"
  unfolding require_admin_def by (intro db_stable)

lemma stable_resolve_viewer [db_stable]: "stable I (resolve_viewer env req)"
  unfolding resolve_viewer_def by (intro db_stable)

lemma catching_InrE [db_elims]: "catching f m d = (Inr a, d') \<Longrightarrow> (m d = (Inr a, d') \<Longrightarrow> P) \<Longrightarrow> P"
  unfolding catching_def by (erule db_map_error_InrE)

lemma lift_InrE [db_elims]: "lift r d = (Inr a, d') \<Longrightarrow> (r = Inr a \<Longrightarrow> d' = d \<Longrightarrow> P) \<Longrightarrow> P"
  by (cases r) (auto simp: lift_def db_ret_def db_fail_def)

lemma require_login_Inr:
  assumes "require_login env req d = (Inr u, d')"
  obtains row where "session_user env req (db_cur d) = Some row" "u = auth_user_of row" "db_cur d' = db_cur d"
proof -
  obtain token where t: "extract_bearer_token (rq_authorization req) = Some token"
    and a: "authenticate_request (he_jwt env) (he_jwt_config env) (he_time env) token d = (Inr u, d')"
    using assms unfolding require_login_def authenticate_def
    by (cases "extract_bearer_token (rq_authorization req)") (auto elim: db_fail_InrE catching_InrE)
  from a show thesis
    by (rule authenticate_Inr) (rule that, auto simp: session_user_def t)
qed

text \<open>How a login fails: without a session the answer is 401, and a broken statement is 500.\<close>

lemma require_login_Inl:
  assumes "require_login env req d = (Inl r, d')" and "db_snap d = None"
  shows "r \<in> {send_error 401 http_no_token, send_error 401 http_auth_failed, internal_error}"
    and "db_faults d = [] \<Longrightarrow> session_user env req (db_cur d) = None \<and> rp_status r = 401"
proof -
  show "r \<in> {send_error 401 http_no_token, send_error 401 http_auth_failed, internal_error}"
    using assms(1) unfolding require_login_def authenticate_def catching_def db_map_error_def auth_failure_def db_fail_def
    by (auto split: option.splits prod.splits sum.splits auth_error.splits)
  show "session_user env req (db_cur d) = None \<and> rp_status r = 401" if "db_faults d = []"
    using assms(1) that unfolding require_login_def authenticate_def catching_def authenticate_request_def
      user_find_by_id_def find_user_by_def
    by (auto simp: db_quiet session_user_def send_error_def send_json_def auth_failure_def split: option.splits sum.splits)
qed

lemma require_admin_Inr:
  assumes "require_admin env req d = (Inr u, d')"
  obtains row where "session_user env req (db_cur d) = Some row" "u = auth_user_of row" "admin_session env req (db_cur d)"
    "db_cur d' = db_cur d"
proof -
  obtain d1 where l: "require_login env req d = (Inr u, d1)" and e: "enforce_admin u = Inr ()" "d' = d1"
    using assms unfolding require_admin_def by (auto elim!: db_bind_InrE lift_InrE db_ret_InrE)
  from l obtain row where row: "session_user env req (db_cur d) = Some row" "u = auth_user_of row" "db_cur d1 = db_cur d"
    by (rule require_login_Inr)
  have "us_role row = ''admin'' \<and> us_reset_pwd_flag row = 0"
    using e(1) row(2) by (auto simp: enforce_admin_def check_admin_def requires_password_change_def auth_user_of_def split: if_splits)
  with row e(2) that show thesis by (simp add: admin_session_def)
qed

lemma require_admin_Inl:
  assumes "require_admin env req d = (Inl r, d')" and "db_snap d = None"
  shows "rp_status r \<in> {401, 403, 500}"
    and "db_faults d = [] \<Longrightarrow> rp_status r = (if session_user env req (db_cur d) = None then 401 else 403)"
proof -
  obtain x d1 where l: "require_login env req d = (x, d1)" by force
  have "rp_status r \<in> {401, 403, 500}
      \<and> (db_faults d = [] \<longrightarrow> rp_status r = (if session_user env req (db_cur d) = None then 401 else 403))"
  proof (cases x)
    case (Inl r')
    then have "r = r'" using assms(1) l by (simp add: require_admin_def db_bind_def)
    with require_login_Inl[OF l[unfolded Inl] assms(2)] show ?thesis
      by (auto simp: send_error_def send_json_def internal_error_def)
  next
    case (Inr u)
    have "enforce_admin u = Inl r"
      using assms(1) l Inr by (cases "enforce_admin u") (auto simp: require_admin_def db_bind_def lift_def db_ret_def db_fail_def)
    then have "rp_status r = 403"
      by (auto simp: enforce_admin_def send_error_def send_json_def send_password_change_required_def split: admin_check.splits)
    moreover have "session_user env req (db_cur d) \<noteq> None" using l[unfolded Inr] by (rule require_login_Inr) simp
    ultimately show ?thesis by auto
  qed
  then show "rp_status r \<in> {401, 403, 500}"
    and "db_faults d = [] \<Longrightarrow> rp_status r = (if session_user env req (db_cur d) = None then 401 else 403)" by auto
qed

section \<open>Administration needs an administrator\<close>

text \<open>
  The contract of the administration handlers: they do nothing before \<open>require_admin\<close> let the request pass.
\<close>

locale admin_handler =
  fixes run :: "'tok http_env \<Rightarrow> request \<Rightarrow> (response, 'a) dbm"
  assumes gated: "\<exists>k. run env req = db_bind (require_admin env req) k"
begin

lemma refused:
  assumes "\<not> admin_session env req (db_cur d)" and "db_snap d = None" and "run env req d = (x, d')"
  obtains r where "x = Inl r" "db_cur d' = db_cur d" "db_snap d' = None" "rp_status r \<in> {401, 403, 500}"
    "db_faults d = [] \<longrightarrow> rp_status r = (if session_user env req (db_cur d) = None then 401 else 403)"
proof -
  obtain k where k: "run env req = db_bind (require_admin env req) k" using gated by blast
  obtain y d1 where y: "require_admin env req d = (y, d1)" by force
  then obtain r where r: "y = Inl r"
    using assms(1) by (cases y) (auto elim: require_admin_Inr)
  then have x: "x = Inl r" "d' = d1" using assms(3) k y by (simp_all add: db_bind_def)
  show thesis
    by (rule that[OF x(1)])
      (use stable_same[OF stable_require_admin y assms(2)] require_admin_Inl[OF y[unfolded r] assms(2)] x(2) in auto)
qed

text \<open>Whoever gets something other than a refusal, or changes anything, is an administrator of the database.\<close>

lemma authorised:
  assumes "db_snap d = None" and "run env req d = (x, d')" and "db_cur d' \<noteq> db_cur d \<or> is_ok x"
  shows "admin_session env req (db_cur d)"
  by (rule ccontr, erule refused[OF _ assms(1,2)]) (use assms(3) in auto)

end

interpretation create_problem: admin_handler handle_admin_create_problem
  by unfold_locales (unfold handle_admin_create_problem_def, blast)

interpretation update_problem: admin_handler handle_admin_update_problem
  by unfold_locales (unfold handle_admin_update_problem_def, blast)

interpretation delete_problem: admin_handler handle_admin_delete_problem
  by unfold_locales (unfold handle_admin_delete_problem_def, blast)

interpretation list_testcases: admin_handler handle_admin_list_testcases
  by unfold_locales (unfold handle_admin_list_testcases_def, blast)

interpretation create_testcase: admin_handler handle_admin_create_testcase
  by unfold_locales (unfold handle_admin_create_testcase_def, blast)

interpretation update_testcase: admin_handler handle_admin_update_testcase
  by unfold_locales (unfold handle_admin_update_testcase_def, blast)

interpretation delete_testcase: admin_handler handle_admin_delete_testcase
  by unfold_locales (unfold handle_admin_delete_testcase_def, blast)

interpretation list_users: admin_handler handle_admin_list_users
  by unfold_locales (unfold handle_admin_list_users_def, blast)

interpretation update_user: admin_handler handle_admin_update_user
  by unfold_locales (unfold handle_admin_update_user_def, blast)

interpretation test_admin_only: admin_handler handle_test_admin_only
  by unfold_locales (unfold handle_test_admin_only_def, blast)

interpretation rejudge_lookup: admin_handler rejudge_lookup
  by unfold_locales (unfold rejudge_lookup_def, blast)

text \<open>The endpoints under \<open>/api/admin\<close> and the one of the tests.\<close>

definition admin_endpoint :: "endpoint \<Rightarrow> bool" where
  "admin_endpoint e = (e \<in> set [AdminCreateProblem, AdminUpdateProblem, AdminDeleteProblem, AdminListTestcases,
     AdminCreateTestcase, AdminUpdateTestcase, AdminDeleteTestcase, AdminListUsers, AdminUpdateUser, AdminRejudge, TestAdminOnly])"

lemma admin_db_handler:
  assumes "admin_endpoint e" and "e \<noteq> AdminRejudge"
  shows "admin_handler (db_handler e :: 'tok http_env \<Rightarrow> request \<Rightarrow> handler)"
proof -
  have "e \<in> {AdminCreateProblem, AdminUpdateProblem, AdminDeleteProblem, AdminListTestcases,
     AdminCreateTestcase, AdminUpdateTestcase, AdminDeleteTestcase, AdminListUsers, AdminUpdateUser, TestAdminOnly}"
    using assms by (simp add: admin_endpoint_def)
  then have "(db_handler e :: 'tok http_env \<Rightarrow> request \<Rightarrow> handler) \<in> {handle_admin_create_problem, handle_admin_update_problem, handle_admin_delete_problem,
      handle_admin_list_testcases, handle_admin_create_testcase, handle_admin_update_testcase, handle_admin_delete_testcase,
      handle_admin_list_users, handle_admin_update_user, handle_test_admin_only}"
    by (elim insertE emptyE) (simp_all add: fun_eq_iff)
  then show ?thesis
    by (elim insertE emptyE)
      (simp only:, rule create_problem.admin_handler_axioms update_problem.admin_handler_axioms delete_problem.admin_handler_axioms
        list_testcases.admin_handler_axioms create_testcase.admin_handler_axioms update_testcase.admin_handler_axioms
        delete_testcase.admin_handler_axioms list_users.admin_handler_axioms update_user.admin_handler_axioms
        test_admin_only.admin_handler_axioms)+
qed

lemma session_captures [simp]:
  "session_user env (req\<lparr>rq_captures := c\<rparr>) t = session_user env req t"
  "admin_session env (req\<lparr>rq_captures := c\<rparr>) t = admin_session env req t"
  by (simp_all add: session_user_def admin_session_def)

lemma run_db_endpoint:
  assumes "e \<notin> {Login, SubmitRoute, AdminRejudge}"
  shows "run_endpoint h e req s = (let (r, d) = respond (db_handler e (ho_env h) req) (sv_db s) in (Some r, s\<lparr>sv_db := d\<rparr>))"
  using assms by (cases e) simp_all

lemma matching_routesD:
  assumes "matching_routes enable meth segs = (m, p, e) # rest"
  shows "m = meth" "(m, p, e) \<in> set (setup_routes enable)" "match_segments p segs \<noteq> None"
proof -
  have "(m, p, e) \<in> set (matching_routes enable meth segs)" using assms by simp
  then show "m = meth" "(m, p, e) \<in> set (setup_routes enable)" "match_segments p segs \<noteq> None"
    unfolding matching_routes_def by auto
qed

lemma admin_path_endpoint:
  assumes "(m, p, e) \<in> set (setup_routes enable)" and "match_segments p (''api'' # ''admin'' # segs) \<noteq> None"
  shows "admin_endpoint e"
  using assms by (auto simp: setup_routes_def admin_endpoint_def split: if_splits)

lemma refused_db_endpoint:
  assumes "admin_endpoint e" and "e \<noteq> AdminRejudge" and "\<not> admin_session (ho_env h) req (db_cur (sv_db s))" and "db_snap (sv_db s) = None"
  obtains r d where "run_endpoint h e req s = (Some r, s\<lparr>sv_db := d\<rparr>)" "db_cur d = db_cur (sv_db s)" "db_snap d = None"
    "rp_status r \<in> {401, 403, 500}"
    "db_faults (sv_db s) = [] \<longrightarrow> rp_status r = (if session_user (ho_env h) req (db_cur (sv_db s)) = None then 401 else 403)"
proof -
  obtain x d where x: "db_handler e (ho_env h) req (sv_db s) = (x, d)" by force
  obtain r where r: "x = Inl r" "db_cur d = db_cur (sv_db s)" "db_snap d = None" "rp_status r \<in> {401, 403, 500}"
    "db_faults (sv_db s) = [] \<longrightarrow> rp_status r = (if session_user (ho_env h) req (db_cur (sv_db s)) = None then 401 else 403)"
    by (rule admin_handler.refused[OF admin_db_handler[OF assms(1,2)] assms(3,4) x])
  have "e \<notin> {Login, SubmitRoute, AdminRejudge}" using assms(1,2) by (auto simp: admin_endpoint_def)
  from that[OF _ r(2-5)] show thesis
    by (simp add: run_db_endpoint[OF \<open>e \<notin> _\<close>] respond_def x r(1))
qed

lemma refused_rejudge:
  assumes "\<not> admin_session (ho_env h) req (db_cur (sv_db s))" and "db_snap (sv_db s) = None"
  obtains r d where "run_endpoint h AdminRejudge req s = (Some r, s\<lparr>sv_db := d\<rparr>)" "db_cur d = db_cur (sv_db s)" "db_snap d = None"
    "rp_status r \<in> {401, 403, 500}"
    "db_faults (sv_db s) = [] \<longrightarrow> rp_status r = (if session_user (ho_env h) req (db_cur (sv_db s)) = None then 401 else 403)"
proof -
  obtain x d where x: "rejudge_lookup (ho_env h) req (sv_db s) = (x, d)" by force
  obtain r where r: "x = Inl r" "db_cur d = db_cur (sv_db s)" "db_snap d = None" "rp_status r \<in> {401, 403, 500}"
    "db_faults (sv_db s) = [] \<longrightarrow> rp_status r = (if session_user (ho_env h) req (db_cur (sv_db s)) = None then 401 else 403)"
    by (rule rejudge_lookup.refused[OF assms x])
  from that[OF _ r(2-5)] show thesis
    by (simp add: handle_admin_rejudge_def x r(1))
qed

text \<open>
  C21: administration needs an administrator. A request to any path under \<open>/api/admin\<close> whose token does not belong,
  in the current tables, to a user with the role \<open>admin\<close> who has chosen a password of their own changes nothing: not the
  tables, not the manager, not the rate limiter, not the set of running rejudges. Its answer is a refusal; without a database
  fault it is 401 exactly when the token identifies no user and 403 otherwise.
\<close>

theorem admin_routes_gated:
  assumes "db_snap (sv_db s) = None" and "\<not> admin_session (ho_env h) req (db_cur (sv_db s))"
    and "serve h enable meth (''api'' # ''admin'' # segs) req s = (r, s')"
  shows "db_cur (sv_db s') = db_cur (sv_db s) \<and> db_snap (sv_db s') = None \<and> sv_manager s' = sv_manager s
    \<and> sv_limiter s' = sv_limiter s \<and> sv_rejudging s' = sv_rejudging s
    \<and> (case r of
         None \<Rightarrow> matching_routes enable meth (''api'' # ''admin'' # segs) = []
       | Some rp \<Rightarrow> rp_status rp \<in> {401, 403, 500}
           \<and> (db_faults (sv_db s) = [] \<longrightarrow> rp_status rp = (if session_user (ho_env h) req (db_cur (sv_db s)) = None then 401 else 403)))"
proof (cases "matching_routes enable meth (''api'' # ''admin'' # segs)")
  case Nil
  with assms(1,3) show ?thesis by (simp add: serve_def)
next
  case (Cons route rest)
  obtain m p e where route: "route = (m, p, e)" by (cases route)
  note match = matching_routesD[OF Cons[unfolded route]]
  obtain captures where c: "match_segments p (''api'' # ''admin'' # segs) = Some captures" using match(3) by auto
  have e: "admin_endpoint e" by (rule admin_path_endpoint[OF match(2,3)])
  let ?req = "req\<lparr>rq_captures := captures\<rparr>"
  have run: "run_endpoint h e ?req s = (r, s')" using assms(3) by (simp add: serve_def Cons route c)
  have no: "\<not> admin_session (ho_env h) ?req (db_cur (sv_db s))" using assms(2) by simp
  show ?thesis
  proof (cases "e = AdminRejudge")
    case True
    show ?thesis by (rule refused_rejudge[OF no assms(1)]) (use run True in auto)
  next
    case False
    show ?thesis by (rule refused_db_endpoint[OF e False no assms(1)]) (use run in auto)
  qed
qed

definition guest_tables :: tables where
  "guest_tables = problem_tables\<lparr>tb_users := [demo_user ''admin'' 1 ''admin'', demo_user ''carol'' 3 ''user''], tb_users_seq := 3,
     tb_problems := [demo_problem, demo_problem\<lparr>pb_id := 2, pb_title := ''secret'', pb_tags := ''exam'', pb_visible := 0\<rparr>],
     tb_problems_seq := 2\<rparr>"

definition guest_db :: db where
  "guest_db = demo_db\<lparr>db_cur := guest_tables\<rparr>"

definition demo_http :: "jwt_claims http_env" where
  "demo_http = \<lparr>he_jwt = demo_jwt, he_jwt_config = demo_jwt_config, he_argon2 = demo_argon2, he_salt = Some ''salt'',
     he_parse = (\<lambda>s. Some (JObject [(''language'', JString ''cpp17''), (''code'', JString s)])), he_time = 10,
     he_accounts = (\<lambda>k. ''0000000007''), he_others = id\<rparr>"

definition demo_host :: "(jwt_claims, unit) host" where
  "demo_host = \<lparr>ho_env = demo_http, ho_rate = default_rate_config, ho_ticks = 0, ho_ids = (\<lambda>n. ''id''),
     ho_now = ''2026-01-02 00:00:00'', ho_submitted_at = ''2026-01-02 00:00:00'', ho_others = id,
     ho_await = (\<lambda>slot w. (make_internal_error [], w)), ho_await_rejudge = (\<lambda>slot w. (None, w))\<rparr>"

text \<open>A request of the user 3, who holds the token \<open>t\<close>.\<close>

definition demo_request :: "string list \<Rightarrow> request" where
  "demo_request captures = \<lparr>rq_authorization = ''Bearer t'', rq_body = ''int main() {}'', rq_params = [], rq_captures = captures,
     rq_remote_addr = ''127.0.0.1''\<rparr>"

definition demo_server :: "unit server" where
  "demo_server = \<lparr>sv_db = guest_db, sv_limiter = \<lparr>rl_failures = [], rl_sweep_counter = 0\<rparr>, sv_manager = manager_new 2 1, sv_rejudging = {}\<rparr>"

lemma guest_db_simps [simp]:
  "db_snap guest_db = None" "db_cur guest_db = guest_tables" "db_faults guest_db = []" "durable guest_db = guest_tables"
  by (simp_all add: guest_db_def demo_db_def durable_def)

lemma demo_server_simps [simp]: "ho_env demo_host = demo_http" "sv_db demo_server = guest_db" "sv_rejudging demo_server = {}"
  by (simp_all add: demo_host_def demo_server_def)

theorem admin_routes_gated_witness:
  "case serve demo_host False DELETE [''api'', ''admin'', ''problems'', ''1''] (demo_request []) demo_server of
     (r, s') \<Rightarrow> db_cur (sv_db s') = guest_tables \<and> map_option rp_status r = Some 403"
proof -
  obtain r s' where run: "serve demo_host False DELETE [''api'', ''admin'', ''problems'', ''1''] (demo_request []) demo_server = (r, s')"
    by force
  have "\<not> admin_session demo_http (demo_request []) guest_tables" and u: "session_user demo_http (demo_request []) guest_tables \<noteq> None"
    and m: "matching_routes False DELETE [''api'', ''admin'', ''problems'', ''1''] \<noteq> []" by code_simp+
  with admin_routes_gated[OF _ _ run] show ?thesis
    unfolding run by (cases r) auto
qed

section \<open>Hidden problems and hidden test cases\<close>

text \<open>
  Two databases that differ by an erasure of the tables. A computation respects the erasure if it gives the same
  result on both and leaves them different by the erasure again, under every schedule of faults.
\<close>

definition erase_db :: "(tables \<Rightarrow> tables) \<Rightarrow> db \<Rightarrow> db" where
  "erase_db er d = d\<lparr>db_cur := er (db_cur d), db_snap := map_option er (db_snap d)\<rparr>"

definition oblivious :: "(tables \<Rightarrow> tables) \<Rightarrow> ('e, 'a) dbm \<Rightarrow> bool" where
  "oblivious er m = (\<forall>d. m (erase_db er d) = map_prod id (erase_db er) (m d))"

definition agrees :: "(tables \<Rightarrow> tables) \<Rightarrow> ('e, 'a) dbm \<Rightarrow> db \<Rightarrow> bool" where
  "agrees er m d = (m (erase_db er d) = map_prod id (erase_db er) (m d))"

lemma oblivious_iff: "oblivious er m \<longleftrightarrow> (\<forall>d. agrees er m d)"
  by (simp add: oblivious_def agrees_def)

lemma oblivious_agrees: "oblivious er m \<Longrightarrow> agrees er m d"
  by (simp add: oblivious_iff)

named_theorems db_oblivious \<open>rules for computations that do not depend on erased rows\<close>

lemma obliviousD: "oblivious er m \<Longrightarrow> m d = (r, d') \<Longrightarrow> m (erase_db er d) = (r, erase_db er d')"
  by (simp add: oblivious_def)

lemma erase_db_simps [simp]:
  "db_cur (erase_db er d) = er (db_cur d)" "db_snap (erase_db er d) = map_option er (db_snap d)"
  "db_faults (erase_db er d) = db_faults d" "db_now (erase_db er d) = db_now d"
  by (simp_all add: erase_db_def)

lemma erase_same [simp]: "(erase_db er d)\<lparr>db_cur := er (db_cur d)\<rparr> = erase_db er d"
  by (simp add: erase_db_def)

lemma erase_snap [simp]:
  "(erase_db er d)\<lparr>db_snap := None\<rparr> = erase_db er (d\<lparr>db_snap := None\<rparr>)"
  "(erase_db er d)\<lparr>db_snap := Some (er t)\<rparr> = erase_db er (d\<lparr>db_snap := Some t\<rparr>)"
  by (simp_all add: erase_db_def)

lemma erase_next_fault: "next_fault (erase_db er d) = map_prod id (erase_db er) (next_fault d)"
  by (cases "db_faults d") (auto simp: next_fault_def erase_db_def)

lemma erase_undo: "undo (erase_db er d) = erase_db er (undo d)"
  by (cases "db_snap d") (auto simp: undo_def erase_db_def)

lemma oblivious_sql_read [db_oblivious]:
  assumes "\<And>t. g (er t) = g t"
  shows "oblivious er (sql_read g)"
  unfolding oblivious_def
proof
  fix d :: db
  obtain f d1 where f: "next_fault d = (f, d1)" by force
  show "sql_read g (erase_db er d) = map_prod id (erase_db er) (sql_read g d)"
    by (cases f) (simp_all add: sql_read_def sql_def erase_next_fault f assms erase_undo)
qed

lemma oblivious_ret [db_oblivious]: "oblivious er (db_ret a)" and oblivious_fail [db_oblivious]: "oblivious er (db_fail e)"
  by (simp_all add: oblivious_def db_ret_def db_fail_def)

lemma oblivious_map_error [db_oblivious]:
  assumes "oblivious er m"
  shows "oblivious er (db_map_error g m)"
  unfolding oblivious_def
proof
  fix d :: db
  obtain r d' where m: "m d = (r, d')" by force
  show "db_map_error g m (erase_db er d) = map_prod id (erase_db er) (db_map_error g m d)"
    by (cases r) (simp_all add: db_map_error_def m obliviousD[OF assms m])
qed

text \<open>The bind needs its continuation to agree on the values and states that can occur only.\<close>

lemma agrees_bind:
  assumes "oblivious er m" and "\<And>a d'. m d = (Inr a, d') \<Longrightarrow> agrees er (f a) d'"
  shows "agrees er (db_bind m f) d"
proof -
  obtain r d' where m: "m d = (r, d')" by force
  show ?thesis
    by (cases r) (use assms(2)[unfolded m] in \<open>auto simp: db_bind_def m obliviousD[OF assms(1) m] agrees_def\<close>)
qed

lemma oblivious_bind [db_oblivious]: "oblivious er m \<Longrightarrow> (\<And>a. oblivious er (f a)) \<Longrightarrow> oblivious er (db_bind m f)"
  unfolding oblivious_iff[of er "db_bind m f"] by (blast intro: agrees_bind oblivious_agrees)

text \<open>A read whose value the erasure may change is harmless if the continuation does not tell the values apart.\<close>

lemma agrees_read_bind:
  assumes "f (g (er (db_cur d))) = f (g (db_cur d))" and "oblivious er (f (g (db_cur d)))"
  shows "agrees er (db_bind (catching h (sql_read g)) f) d"
proof -
  obtain x d1 where x: "next_fault d = (x, d1)" by force
  have d1: "db_cur d1 = db_cur d" using x by (auto simp: next_fault_def split: list.splits)
  show ?thesis
  proof (cases x)
    case NoFault
    have "sql_read g d = (Inr (g (db_cur d)), d1)" "sql_read g (erase_db er d) = (Inr (g (er (db_cur d))), erase_db er d1)"
      by (simp_all add: sql_read_def sql_def erase_next_fault x NoFault d1[symmetric])
    then show ?thesis
      using oblivious_agrees[OF assms(2), of d1]
      by (simp add: agrees_def db_bind_def catching_def db_map_error_def assms(1))
  qed (simp_all add: agrees_def db_bind_def catching_def db_map_error_def sql_read_def sql_def erase_next_fault x erase_undo)
qed

lemma oblivious_if [db_oblivious]: "oblivious er m \<Longrightarrow> oblivious er k \<Longrightarrow> oblivious er (if b then m else k)"
  by simp

lemma oblivious_case_option [db_oblivious]:
  "oblivious er m \<Longrightarrow> (\<And>a. oblivious er (f a)) \<Longrightarrow> oblivious er (case x of None \<Rightarrow> m | Some a \<Rightarrow> f a)"
  by (cases x) auto

lemma oblivious_case_sum [db_oblivious]:
  "(\<And>a. oblivious er (f a)) \<Longrightarrow> (\<And>b. oblivious er (g b)) \<Longrightarrow> oblivious er (case x of Inl a \<Rightarrow> f a | Inr b \<Rightarrow> g b)"
  by (cases x) auto

lemma oblivious_case_prod [db_oblivious]: "(\<And>a b. oblivious er (f a b)) \<Longrightarrow> oblivious er (case p of (a, b) \<Rightarrow> f a b)"
  by (cases p) auto

lemma oblivious_lift [db_oblivious]: "oblivious er (lift r)"
  unfolding lift_def by (intro db_oblivious)

lemma oblivious_catching [db_oblivious]: "oblivious er m \<Longrightarrow> oblivious er (catching f m)"
  unfolding catching_def by (rule db_oblivious)

lemma oblivious_with_txn [db_oblivious]:
  assumes "oblivious er body"
  shows "oblivious er (with_txn err body)"
  unfolding oblivious_def
proof
  fix d :: db
  have b: "db_begin (erase_db er d) = map_prod id (erase_db er) (db_begin d)" for d
  proof -
    obtain f d1 where f: "next_fault d = (f, d1)" by force
    then show ?thesis by (cases f) (auto simp: db_begin_def erase_next_fault erase_undo)
  qed
  have c: "db_commit (erase_db er d) = map_prod id (erase_db er) (db_commit d)" for d
  proof -
    obtain f d1 where f: "next_fault d = (f, d1)" by force
    then show ?thesis by (cases f) (auto simp: db_commit_def erase_next_fault erase_undo)
  qed
  have r: "rollback_quiet (erase_db er d) = erase_db er (rollback_quiet d)" for d
    by (auto simp: rollback_quiet_def db_rollback_def erase_undo)
  show "with_txn err body (erase_db er d) = map_prod id (erase_db er) (with_txn err body d)"
    unfolding with_txn_def b
    by (auto simp: c r obliviousD[OF assms] split: prod.splits sum.splits)
qed

text \<open>What outsiders may not learn of: problems that are not visible, and test cases that are not samples.\<close>

definition public_tables :: "tables \<Rightarrow> tables" where
  "public_tables t = t\<lparr>tb_problems := filter (\<lambda>p. pb_visible p \<noteq> 0) (tb_problems t),
     tb_testcases := filter (\<lambda>c. ts_is_sample c = 1) (tb_testcases t)\<rparr>"

lemma public_tables_simps [simp]:
  "tb_users (public_tables t) = tb_users t" "tb_statuses (public_tables t) = tb_statuses t"
  "tb_submissions (public_tables t) = tb_submissions t" "tb_in_flight (public_tables t) = tb_in_flight t"
  "tb_problems (public_tables t) = filter (\<lambda>p. pb_visible p \<noteq> 0) (tb_problems t)"
  "tb_testcases (public_tables t) = filter (\<lambda>c. ts_is_sample c = 1) (tb_testcases t)"
  by (simp_all add: public_tables_def)

lemma public_visible_filter: "filter (\<lambda>p. pb_visible p \<noteq> 0 \<and> pb_visible p = 1) ps = filter (\<lambda>p. pb_visible p = 1) ps"
  by (rule filter_cong) auto

lemma public_build_where:
  "pq_visibility q = VisibleOnly \<Longrightarrow> filter (\<lambda>p. pb_visible p \<noteq> 0 \<and> build_where q p) ps = filter (build_where q) ps"
  by (rule filter_cong) (auto simp: build_where_def)

lemma public_require_login [db_oblivious]: "oblivious public_tables (require_login env req)"
  unfolding require_login_def authenticate_def authenticate_request_def user_find_by_id_def find_user_by_def
  by (intro db_oblivious) simp

lemma public_resolve_viewer [db_oblivious]: "oblivious public_tables (resolve_viewer env req)"
  unfolding resolve_viewer_def by (intro db_oblivious)

lemma public_problem_query [db_oblivious]:
  "pq_visibility q = VisibleOnly \<Longrightarrow> oblivious public_tables (problem_query q)"
  unfolding problem_query_def
  by (intro db_oblivious) (simp_all add: public_build_where pass_count_def viewer_status_def)

lemma public_list_tags [db_oblivious]: "oblivious public_tables (list_tags False)"
  unfolding list_tags_def by (intro db_oblivious) (simp add: public_visible_filter)

lemma public_list_samples [db_oblivious]: "oblivious public_tables (list_samples i)"
  unfolding list_samples_def by (intro db_oblivious) (simp add: conj_commute conj_left_commute)

lemma public_viewer_solved [db_oblivious]: "oblivious public_tables (viewer_solved uid pid)"
  unfolding viewer_solved_def by (intro db_oblivious) simp

lemma public_visible_problem [simp]: "visible_problem (public_tables t) pid = visible_problem t pid"
  by (auto simp: visible_problem_def)

lemma public_leaderboard [db_oblivious]: "oblivious public_tables (leaderboard_query page n)"
proof -
  have "visible_statuses (public_tables t) = visible_statuses t" for t by (simp add: visible_statuses_def)
  then have "counted_stats (public_tables t) = counted_stats t" for t by (simp add: counted_stats_def user_stats_select_def)
  then show ?thesis
    unfolding leaderboard_query_def by (intro db_oblivious) (simp_all add: ranking_def joined_rows_def)
qed

text \<open>Looking a row up by its key after an erasure of rows.\<close>

lemma find_row_filter:
  assumes "distinct (map key rows)"
  shows "find_row (\<lambda>r. key r = i) (filter P rows) =
    (case find_row (\<lambda>r. key r = i) rows of None \<Rightarrow> None | Some r \<Rightarrow> if P r then Some r else None)"
  using assms
proof (induction rows)
  case Nil
  show ?case by (simp add: find_row_def)
next
  case (Cons r rows)
  have "find_row (\<lambda>q. key q = key r) (filter P rows) = None"
    using Cons.prems unfolding find_row_None by simp (metis image_eqI)
  with Cons show ?case by (auto simp: find_row_def)
qed

text \<open>A hidden problem and a missing one: the lookup differs, what a continuation makes of them must not.\<close>

lemma public_find_problem:
  assumes "distinct (map pb_id (tb_problems t))"
  shows "find_row (\<lambda>p. pb_id p = i) (filter (\<lambda>p. pb_visible p \<noteq> 0) (tb_problems t)) =
    (case find_row (\<lambda>p. pb_id p = i) (tb_problems t) of None \<Rightarrow> None | Some p \<Rightarrow> if pb_visible p \<noteq> 0 then Some p else None)"
  by (rule find_row_filter[OF assms])

lemma resolve_viewer_Inr:
  assumes "resolve_viewer env req d = (Inr v, d')"
  shows "db_cur d' = db_cur d" and "vw_is_admin v \<Longrightarrow> admin_session env req (db_cur d)"
proof -
  consider (guest) "v = \<lparr>vw_authenticated = False, vw_is_admin = False, vw_user_id = 0\<rparr>" "d' = d"
    | (user) u where "require_login env req d = (Inr u, d')"
        "v = \<lparr>vw_authenticated = True, vw_is_admin = (check_admin u = AdminOk), vw_user_id = au_id u\<rparr>"
    using assms unfolding resolve_viewer_def by (auto split: if_splits elim!: db_ret_InrE db_bind_InrE)
  then have "db_cur d' = db_cur d \<and> (vw_is_admin v \<longrightarrow> admin_session env req (db_cur d))"
  proof cases
    case user
    from user(1) show ?thesis
      by (rule require_login_Inr)
        (auto simp: user(2) admin_session_def check_admin_def auth_user_of_def requires_password_change_def split: if_splits)
  qed simp
  then show "db_cur d' = db_cur d" and "vw_is_admin v \<Longrightarrow> admin_session env req (db_cur d)" by auto
qed

lemma agrees_problem_list:
  "\<not> admin_session env req (db_cur d) \<Longrightarrow> agrees public_tables (handle_problem_list env req) d"
  unfolding handle_problem_list_def
  by (rule agrees_bind[OF public_resolve_viewer], rule oblivious_agrees, intro db_oblivious)
    (auto simp: list_query_for_def visibility_for_def dest: resolve_viewer_Inr(2))

lemma agrees_problem_tags:
  assumes "\<not> admin_session env req (db_cur d)"
  shows "agrees public_tables (handle_problem_tags env req) d"
  unfolding handle_problem_tags_def
proof (rule agrees_bind[OF public_resolve_viewer])
  fix v d'
  assume "resolve_viewer env req d = (Inr v, d')"
  then have "\<not> vw_is_admin v" using assms resolve_viewer_Inr(2) by blast
  then show "agrees public_tables (db_bind (catching (\<lambda>_. internal_error) (list_tags (vw_is_admin v)))
      (\<lambda>tags. db_ret (send_json 200 (JObject [(''tags'', JArray (map JString tags))])))) d'"
    by (simp, intro oblivious_agrees db_oblivious)
qed

lemma agrees_find_problem:
  assumes "distinct (map pb_id (tb_problems (db_cur d)))"
    and "\<And>p. \<not> pr_visible p \<Longrightarrow> f (Some p) = f None" and "\<And>x. oblivious public_tables (f x)"
  shows "agrees public_tables (db_bind (catching h (problem_find_by_id i)) f) d"
  unfolding problem_find_by_id_def
  by (rule agrees_read_bind)
    (use assms in \<open>auto simp: public_find_problem[OF assms(1)] load_record_def split: option.splits\<close>)

lemma agrees_problem_detail:
  assumes "\<not> admin_session env req (db_cur d)" and "distinct (map pb_id (tb_problems (db_cur d)))"
  shows "agrees public_tables (handle_problem_detail env req) d"
  unfolding handle_problem_detail_def
proof (rule agrees_bind[OF oblivious_lift], rule agrees_bind[OF public_resolve_viewer])
  fix i d1 v d2
  assume i: "lift (path_id 1 http_bad_problem_id req) d = (Inr i, d1)" and v: "resolve_viewer env req d1 = (Inr v, d2)"
  from i have "d1 = d" by (auto elim: lift_InrE)
  then have "\<not> vw_is_admin v" "db_cur d2 = db_cur d" using resolve_viewer_Inr[OF v] assms(1) by auto
  then show "agrees public_tables (db_bind (catching (\<lambda>_. internal_error) (problem_find_by_id i)) (\<lambda>found.
     case found of
       None \<Rightarrow> db_fail (send_error 404 http_problem_missing)
     | Some p \<Rightarrow>
         if \<not> pr_visible p \<and> \<not> vw_is_admin v then db_fail (send_error 404 http_problem_missing)
         else
           db_bind (catching (\<lambda>_. internal_error) (list_samples i)) (\<lambda>samples.
           db_bind (if vw_authenticated v then catching (\<lambda>_. internal_error) (viewer_solved (vw_user_id v) i)
                    else db_ret False) (\<lambda>solved.
           db_ret (send_json 200 (problem_detail_json p samples (vw_authenticated v) solved)))))) d2"
    by (intro agrees_find_problem db_oblivious) (simp_all add: assms(2))
qed

lemma login_not_admin:
  assumes "require_login env req d = (Inr u, d')" and "\<not> admin_session env req (db_cur d)"
  shows "check_admin u \<noteq> AdminOk" "db_cur d' = db_cur d"
proof -
  from assms(1) obtain row where row: "session_user env req (db_cur d) = Some row" "u = auth_user_of row" "db_cur d' = db_cur d"
    by (rule require_login_Inr)
  with assms(2) show "check_admin u \<noteq> AdminOk" "db_cur d' = db_cur d"
    by (auto simp: admin_session_def check_admin_def auth_user_of_def requires_password_change_def)
qed

lemma agrees_if: "(b \<Longrightarrow> agrees er m d) \<Longrightarrow> (\<not> b \<Longrightarrow> agrees er k d) \<Longrightarrow> agrees er (if b then m else k) d"
  by simp

lemma agrees_case_option:
  "agrees er m d \<Longrightarrow> (\<And>a. x = Some a \<Longrightarrow> agrees er (f a) d) \<Longrightarrow> agrees er (case x of None \<Rightarrow> m | Some a \<Rightarrow> f a) d"
  by (cases x) auto

lemma agrees_case_sum:
  "(\<And>a. agrees er (f a) d) \<Longrightarrow> (\<And>b. agrees er (g b) d) \<Longrightarrow> agrees er (case x of Inl a \<Rightarrow> f a | Inr b \<Rightarrow> g b) d"
  by (cases x) auto

lemma agrees_lift_bind: "(\<And>a. r = Inr a \<Longrightarrow> agrees er (f a) d) \<Longrightarrow> agrees er (db_bind (lift r) f) d"
  by (rule agrees_bind[OF oblivious_lift]) (auto elim: lift_InrE)

lemma agrees_submit_checks:
  assumes "\<not> admin_session env req (db_cur d)" and "distinct (map pb_id (tb_problems (db_cur d)))"
  shows "agrees public_tables (submit_checks env req) d"
  unfolding submit_checks_def
proof (rule agrees_lift_bind, rule agrees_bind[OF public_require_login])
  fix pid u d1
  assume u: "require_login env req d = (Inr u, d1)"
  note user = login_not_admin[OF u assms(1)]
  show "agrees public_tables (if requires_password_change u then db_fail send_password_change_required
     else
       db_bind (lift (parse_object env req)) (\<lambda>body.
       db_bind (lift (string_field body ''language'' http_language_string)) (\<lambda>language.
       db_bind (lift (string_field body ''code'' http_code_string)) (\<lambda>code.
       case parse_submission_language language of
         None \<Rightarrow> db_fail (send_error 400 http_bad_language)
       | Some canonical \<Rightarrow>
           (case validate_source_code code of
              Inl m \<Rightarrow> db_fail (send_error 400 m)
            | Inr _ \<Rightarrow>
                db_bind (catching (\<lambda>_. internal_error) (problem_find_by_id pid)) (\<lambda>found.
                case found of
                  None \<Rightarrow> db_fail (send_error 404 http_problem_missing)
                | Some p \<Rightarrow>
                    if \<not> pr_visible p \<and> check_admin u \<noteq> AdminOk then db_fail (send_error 404 http_problem_missing)
                    else db_ret \<lparr>sr_user_id = au_id u, sr_problem_id = pid, sr_language = canonical, sr_code = code,
                      sr_is_admin = (check_admin u = AdminOk)\<rparr>)))))) d1"
    by (intro agrees_if agrees_lift_bind agrees_case_option agrees_case_sum agrees_find_problem
        oblivious_agrees[OF oblivious_fail] oblivious_case_option oblivious_if oblivious_fail oblivious_ret)
      (simp_all add: user assms(2))
qed

lemma oblivious_public_handlers:
  "oblivious public_tables (handle_leaderboard req)" "oblivious public_tables (handle_me env req)"
  "oblivious public_tables (handle_user_status env req)"
  unfolding handle_leaderboard_def handle_me_def handle_user_status_def status_list_by_user_def
  by (intro db_oblivious; simp)+

lemma agrees_respond: "agrees er m d \<Longrightarrow> fst (respond m (erase_db er d)) = fst (respond m d)"
  by (cases "m d"; cases "fst (m d)") (auto simp: agrees_def respond_def)

text \<open>
  C22: hidden problems and hidden test cases do not influence outsiders. For a request without the session of an
  administrator, the answers of the problem list, the tags, a problem's detail, the leaderboard, the own status and the own identity, and
  the decision of the submit handler whether to accept an order, are the same on the database from which every hidden
  problem and every test case that is not a public sample has been erased, under every schedule of database
  faults. In particular a hidden problem cannot be told from one that does not exist.
\<close>

theorem public_noninterference:
  assumes "tables_ok (db_cur d)" and "\<not> admin_session env req (db_cur d)"
    and "e \<in> {ProblemList, ProblemTags, ProblemDetail, Leaderboard, UserStatus, Me}"
  shows "fst (respond (db_handler e env req) (erase_db public_tables d)) = fst (respond (db_handler e env req) d)
    \<and> fst (submit_checks env req (erase_db public_tables d)) = fst (submit_checks env req d)"
proof
  have ids: "distinct (map pb_id (tb_problems (db_cur d)))"
    using assms(1) by (simp add: tables_ok_def problems_ok_def keyed_def)
  have "agrees public_tables (db_handler e env req) d"
    using assms(3) agrees_problem_list[OF assms(2)] agrees_problem_tags[OF assms(2)] agrees_problem_detail[OF assms(2) ids]
      oblivious_public_handlers[THEN oblivious_agrees]
    by (elim insertE emptyE) simp_all
  then show "fst (respond (db_handler e env req) (erase_db public_tables d)) = fst (respond (db_handler e env req) d)"
    by (rule agrees_respond)
  show "fst (submit_checks env req (erase_db public_tables d)) = fst (submit_checks env req d)"
    using agrees_submit_checks[OF assms(2) ids] by (simp add: agrees_def)
qed

lemma guest_tables_ok [simp]: "tables_ok guest_tables"
  by (simp add: guest_tables_def problem_tables_def demo_tables_def empty_tables_def tables_ok_defs keyed_def demo_user_def
      demo_problem_def demo_case_def difficulties_def)

lemma guest_not_admin: "\<not> admin_session demo_http (demo_request c) guest_tables"
  by code_simp

theorem public_noninterference_witness:
  "fst (respond (db_handler ProblemDetail demo_http (demo_request [''2''])) guest_db) =
   fst (respond (db_handler ProblemDetail demo_http (demo_request [''2''])) (erase_db public_tables guest_db))
   \<and> map pb_id (tb_problems (db_cur (erase_db public_tables guest_db))) = [1]"
proof
  show "fst (respond (db_handler ProblemDetail demo_http (demo_request [''2''])) guest_db) =
      fst (respond (db_handler ProblemDetail demo_http (demo_request [''2''])) (erase_db public_tables guest_db))"
    using public_noninterference[of guest_db demo_http "demo_request [''2'']" ProblemDetail] guest_not_admin[of "[''2'']"] by simp
  show "map pb_id (tb_problems (db_cur (erase_db public_tables guest_db))) = [1]" by code_simp
qed

section \<open>Private submissions\<close>

text \<open>What a user may see of the submissions and of the progress rows: their own.\<close>

definition own_rows :: "int \<Rightarrow> tables \<Rightarrow> tables" where
  "own_rows uid t = t\<lparr>tb_submissions := filter (\<lambda>s. sb_user_id s = uid) (tb_submissions t),
     tb_statuses := filter (\<lambda>r. up_user_id r = uid) (tb_statuses t)\<rparr>"

lemma own_rows_simps [simp]:
  "tb_users (own_rows uid t) = tb_users t" "tb_problems (own_rows uid t) = tb_problems t"
  "tb_submissions (own_rows uid t) = filter (\<lambda>s. sb_user_id s = uid) (tb_submissions t)"
  "tb_statuses (own_rows uid t) = filter (\<lambda>r. up_user_id r = uid) (tb_statuses t)"
  by (simp_all add: own_rows_def)

lemma own_require_login [db_oblivious]: "oblivious (own_rows uid) (require_login env req)"
  unfolding require_login_def authenticate_def authenticate_request_def user_find_by_id_def find_user_by_def
  by (intro db_oblivious) simp

lemma own_problem_find [db_oblivious]: "oblivious (own_rows uid) (problem_find_by_id i)"
  unfolding problem_find_by_id_def by (intro db_oblivious) simp

lemma own_submission_list [db_oblivious]: "oblivious (own_rows uid) (submission_list_by_user uid pid page n)"
proof -
  have "filter (\<lambda>s. sb_user_id s = uid \<and> submission_filter uid pid s) ss = filter (submission_filter uid pid) ss" for ss
    by (rule filter_cong) (auto simp: submission_filter_def)
  moreover have "summarize_submission (own_rows uid t) = summarize_submission t" for t
    by (simp add: fun_eq_iff summarize_submission_def title_of_def)
  ultimately show ?thesis
    unfolding submission_list_by_user_def Let_def by (intro db_oblivious) simp_all
qed

lemma own_status_list [db_oblivious]: "oblivious (own_rows uid) (status_list_by_user uid pid)"
  unfolding status_list_by_user_def by (intro db_oblivious) simp

lemma own_find_submission:
  assumes "distinct (map sb_id ss)"
  shows "find_row (\<lambda>s. sb_id s = i) (filter (\<lambda>s. sb_user_id s = uid) ss) =
    (case find_row (\<lambda>s. sb_id s = i) ss of None \<Rightarrow> None | Some s \<Rightarrow> if sb_user_id s = uid then Some s else None)"
  by (rule find_row_filter[OF assms])

lemma session_user_id:
  assumes "require_login env req d = (Inr u, d')" and "session_user env req (db_cur d) = Some row"
  shows "au_id u = us_id row" "db_cur d' = db_cur d"
  using assms by (auto elim!: require_login_Inr simp: auth_user_of_def)

lemma agrees_submission_list:
  assumes "session_user env req (db_cur d) = Some row"
  shows "agrees (own_rows (us_id row)) (handle_submission_list env req) d"
  unfolding handle_submission_list_def
  by (rule agrees_bind[OF own_require_login], rule oblivious_agrees, drule session_user_id(1)[OF _ assms])
    (simp only:, intro db_oblivious)

lemma agrees_user_status:
  assumes "session_user env req (db_cur d) = Some row"
  shows "agrees (own_rows (us_id row)) (handle_user_status env req) d"
  unfolding handle_user_status_def
  by (rule agrees_bind[OF own_require_login], rule oblivious_agrees, drule session_user_id(1)[OF _ assms])
    (simp only:, intro db_oblivious)

lemma agrees_submission_detail:
  assumes "session_user env req (db_cur d) = Some row" and "\<not> admin_session env req (db_cur d)"
    and "distinct (map sb_id (tb_submissions (db_cur d)))"
  shows "agrees (own_rows (us_id row)) (handle_submission_detail env req) d"
  unfolding handle_submission_detail_def
proof (rule agrees_lift_bind, rule agrees_bind[OF own_require_login])
  fix i u d1
  assume u: "require_login env req d = (Inr u, d1)"
  note user = login_not_admin[OF u assms(2)] session_user_id[OF u assms(1)]
  show "agrees (own_rows (us_id row)) (db_bind (catching (\<lambda>_. internal_error) (submission_find_by_id i)) (\<lambda>found.
     case found of
       None \<Rightarrow> db_fail (send_error 404 http_submission_missing)
     | Some r \<Rightarrow>
         if sb_user_id r \<noteq> au_id u \<and> check_admin u \<noteq> AdminOk then db_fail (send_error 404 http_submission_missing)
         else
           db_bind (catching (\<lambda>_. internal_error) (problem_find_by_id (sb_problem_id r))) (\<lambda>p.
           db_ret (send_json 200 (submission_detail_json (he_parse env) r (case p of None \<Rightarrow> [] | Some x \<Rightarrow> pr_title x)))))) d1"
    unfolding submission_find_by_id_def
  proof (rule agrees_read_bind, goal_cases)
    case 1
    show ?case
      using user by (auto simp: own_find_submission[OF assms(3)] load_submission_def split: option.splits)
  next
    case 2
    show ?case by (intro db_oblivious)
  qed
qed

text \<open>
  C23: submissions are private. For a request that identifies a user who is not an administrator, the submission list,
  the detail of any submission and the status overview answer the same on the database from which the submissions and progress
  rows of all other users have been erased, under every schedule of faults: nobody learns from them anything about the
  submissions of others, not even that an id exists.
\<close>

theorem submission_privacy:
  assumes "tables_ok (db_cur d)" and "session_user env req (db_cur d) = Some u" and "\<not> admin_session env req (db_cur d)"
    and "e \<in> {SubmissionList, SubmissionDetail, UserStatus}"
  shows "fst (respond (db_handler e env req) (erase_db (own_rows (us_id u)) d)) = fst (respond (db_handler e env req) d)"
proof -
  have ids: "distinct (map sb_id (tb_submissions (db_cur d)))"
    using assms(1) by (simp add: tables_ok_def submissions_ok_def keyed_def)
  have "agrees (own_rows (us_id u)) (db_handler e env req) d"
    using assms(4) agrees_submission_list[OF assms(2)] agrees_user_status[OF assms(2)] agrees_submission_detail[OF assms(2,3) ids]
    by (elim insertE emptyE) simp_all
  then show ?thesis by (rule agrees_respond)
qed

definition foreign_db :: db where
  "foreign_db = guest_db\<lparr>db_cur := guest_tables\<lparr>tb_submissions := [demo_row\<lparr>sb_id := 7, sb_user_id := 1, sb_problem_id := 1\<rparr>],
     tb_submissions_seq := 7\<rparr>\<rparr>"

theorem submission_privacy_witness:
  "fst (respond (db_handler SubmissionDetail demo_http (demo_request [''7''])) foreign_db) =
   fst (respond (db_handler SubmissionDetail demo_http (demo_request [''7''])) (erase_db (own_rows 3) foreign_db))
   \<and> rp_status (fst (respond (db_handler SubmissionDetail demo_http (demo_request [''7''])) foreign_db)) = 404"
proof
  let ?t = "db_cur foreign_db" and ?q = "demo_request [''7'']"
  have ok: "tables_ok ?t"
    using guest_tables_ok by (auto simp: foreign_db_def tables_ok_defs demo_row_def keyed_def guest_tables_def status_names_def
      problem_tables_def demo_tables_def empty_tables_def demo_problem_def demo_user_def)
  have "map_option us_id (session_user demo_http ?q ?t) = Some 3" by code_simp
  then obtain u where u: "session_user demo_http ?q ?t = Some u" "us_id u = 3" by auto
  have "\<not> admin_session demo_http ?q ?t" by code_simp
  from submission_privacy[OF ok u(1) this, of SubmissionDetail] u(2)
  show "fst (respond (db_handler SubmissionDetail demo_http ?q) foreign_db) =
      fst (respond (db_handler SubmissionDetail demo_http ?q) (erase_db (own_rows 3) foreign_db))" by simp
  show "rp_status (fst (respond (db_handler SubmissionDetail demo_http ?q) foreign_db)) = 404" by code_simp
qed

section \<open>The routing table\<close>

text \<open>Two patterns that some path can match both.\<close>

fun overlap :: "string option list \<Rightarrow> string option list \<Rightarrow> bool" where
  "overlap [] [] = True"
| "overlap (Some k # ps) (Some l # qs) = (k = l \<and> overlap ps qs)"
| "overlap (None # ps) (Some l # qs) = (l \<noteq> [] \<and> overlap ps qs)"
| "overlap (Some k # ps) (None # qs) = (k \<noteq> [] \<and> overlap ps qs)"
| "overlap (None # ps) (None # qs) = overlap ps qs"
| "overlap _ _ = False"

lemma match_segments_length: "match_segments p segs = Some cs \<Longrightarrow> length p = length segs"
  by (induction p segs arbitrary: cs rule: match_segments.induct) (auto split: if_splits)

lemma match_overlap: "match_segments p segs = Some cs \<Longrightarrow> match_segments q segs = Some cs' \<Longrightarrow> overlap p q"
proof (induction p arbitrary: q segs cs cs')
  case Nil
  then have "q = []" using match_segments_length[of "[]" segs] match_segments_length[of q segs] by simp
  then show ?case by simp
next
  case (Cons a p)
  obtain s segs' where segs: "segs = s # segs'"
    using match_segments_length[OF Cons.prems(1)] by (cases segs) auto
  obtain b q' where q: "q = b # q'"
    using match_segments_length[OF Cons.prems(2)] segs by (cases q) auto
  show ?case
    using Cons.prems Cons.IH[of segs' _ q'] by (cases a; cases b) (auto simp: segs q split: if_splits)
qed

fun clear_table :: "route list \<Rightarrow> bool" where
  "clear_table [] = True"
| "clear_table ((m, p, e) # rs) = ((\<forall>(m', q, e') \<in> set rs. m = m' \<longrightarrow> \<not> overlap p q) \<and> clear_table rs)"

lemma clear_table_unique:
  "clear_table rs \<Longrightarrow> length (filter (\<lambda>(m, p, e). m = meth \<and> match_segments p segs \<noteq> None) rs) \<le> 1"
proof (induction rs)
  case (Cons r rs)
  obtain m p e where r: "r = (m, p, e)" by (cases r)
  have "filter (\<lambda>(m, p, e). m = meth \<and> match_segments p segs \<noteq> None) rs = []"
    if "m = meth" "match_segments p segs \<noteq> None"
    using Cons.prems that match_overlap[of p segs] by (fastforce simp: r filter_empty_conv)
  with Cons r show ?case by auto
qed simp

text \<open>
  The routes cannot be confused. For every method and every path at most one route of the table matches, with and
  without the route of the tests, so which handler runs does not depend on the order of registration; and the
  segments it captures are non-empty and as many as its pattern has captures.
\<close>

theorem routes_unambiguous:
  "length (matching_routes enable meth segs) \<le> 1
   \<and> (\<forall>(m, p, e) \<in> set (matching_routes enable meth segs).
        \<exists>cs. match_segments p segs = Some cs \<and> [] \<notin> set cs \<and> length cs = length (filter (\<lambda>x. x = None) p))"
proof
  have "clear_table (setup_routes True)" "clear_table (setup_routes False)" by code_simp+
  then have "clear_table (setup_routes enable)" by (cases enable; simp only:)
  then show "length (matching_routes enable meth segs) \<le> 1" unfolding matching_routes_def by (rule clear_table_unique)
  have "[] \<notin> set cs \<and> length cs = length (filter (\<lambda>x. x = None) p)" if "match_segments p segs = Some cs" for p cs
    using that by (induction p segs arbitrary: cs rule: match_segments.induct) (auto split: if_splits)
  then show "\<forall>(m, p, e) \<in> set (matching_routes enable meth segs).
        \<exists>cs. match_segments p segs = Some cs \<and> [] \<notin> set cs \<and> length cs = length (filter (\<lambda>x. x = None) p)"
    unfolding matching_routes_def by auto
qed

theorem routes_unambiguous_witness:
  "map (\<lambda>(m, p, e). e) (matching_routes False GET [''api'', ''problems'', ''12'']) = [ProblemDetail]
   \<and> length (matching_routes False GET [''api'', ''problems'', ''12'']) \<le> 1"
  using routes_unambiguous[of False GET "[''api'', ''problems'', ''12'']"] by (auto simp: matching_routes_def setup_routes_def)

end
