(* ===== verification/OJ_System.thy ===== *)
theory OJ_System
  imports OJ_Server
begin

text \<open>
  Properties of the composed service: every store operation, every request handler and every step of the judge keeps the
  constraints of the schema and the agreement of progress and submissions; the protocol of accepting a submission; the guard
  of rejudging; the threads left for requests that do not wait.
\<close>

section \<open>The invariant of the database\<close>

definition service_inv :: "tables \<Rightarrow> bool" where
  "service_inv t = (tables_ok t \<and> progress_ok t)"

lemma stable_service:
  assumes "store_operation m tables_ok"
    and "\<And>d a d'. db_snap d = None \<Longrightarrow> m d = (Inr a, d') \<Longrightarrow> tables_ok (db_cur d) \<Longrightarrow> progress_ok (db_cur d) \<Longrightarrow> progress_ok (db_cur d')"
  shows "stable service_inv m"
proof (rule stable_store_operation, rule store_operationI)
  show "transactional m" using assms(1) by (simp add: store_operation_def)
  show "service_inv (db_cur d')" if "db_snap d = None" "m d = (Inr a, d')" "service_inv (db_cur d)" for d a d'
    using store_operation.keeps[OF assms(1) that(1,2)] assms(2)[OF that(1,2)] that(3) by (simp add: service_inv_def)
qed

text \<open>Operations that touch neither submissions nor progress rows.\<close>

definition same_progress :: "tables \<Rightarrow> tables \<Rightarrow> bool" where
  "same_progress t t' = (tb_submissions t' = tb_submissions t \<and> tb_statuses t' = tb_statuses t)"

lemma same_progress_ok: "same_progress t t' \<Longrightarrow> progress_ok t' = progress_ok t"
  unfolding same_progress_def by (rule progress_ok_cong) simp_all

lemma stable_same_progress:
  assumes "store_operation m tables_ok" and "\<And>d a d'. m d = (Inr a, d') \<Longrightarrow> same_progress (db_cur d) (db_cur d')"
  shows "stable service_inv m"
  by (rule stable_service[OF assms(1)]) (use assms(2) same_progress_ok in blast)

lemma keeps_same_progress:
  assumes "\<And>t0. keeps (same_progress t0) m" and "m d = (Inr a, d')"
  shows "same_progress (db_cur d) (db_cur d')"
  by (rule keepsD[OF assms]) (simp add: same_progress_def)

lemma same_progress_statements:
  "insert_user ac ni ha ro fl now t = Inr (u, t') \<Longrightarrow> same_progress t0 t \<Longrightarrow> same_progress t0 t'"
  "same_progress t0 t \<Longrightarrow> same_progress t0 (set_password i h f t)"
  "set_role i ro t = Inr (v, t') \<Longrightarrow> same_progress t0 t \<Longrightarrow> same_progress t0 t'"
  "insert_problem pd now t = Inr (k, t') \<Longrightarrow> same_progress t0 t \<Longrightarrow> same_progress t0 t'"
  "insert_testcase pid ord inp out smp t = Inr (k, t') \<Longrightarrow> same_progress t0 t \<Longrightarrow> same_progress t0 t'"
  "update_problem_row i ti de di ta tm me vi now t = Inr (v, t') \<Longrightarrow> same_progress t0 t \<Longrightarrow> same_progress t0 t'"
  "same_progress t0 t \<Longrightarrow> same_progress t0 (delete_testcases P t)"
  "same_progress t0 t \<Longrightarrow> same_progress t0 (t\<lparr>tb_testcases := cs\<rparr>)"
  "insert_in_flight fk t = Inr (k, t') \<Longrightarrow> same_progress t0 t \<Longrightarrow> same_progress t0 t'"
  "same_progress t0 t \<Longrightarrow> same_progress t0 (interrupt_task tid reason t)"
  by (auto simp: same_progress_def insert_user_def set_password_def update_users_def set_role_def insert_problem_def insert_testcase_def
      update_problem_row_def delete_testcases_def insert_in_flight_def interrupt_task_def Let_def split: if_splits)

lemma stable_user_create [db_stable]: "stable service_inv (user_create account nickname hash)"
  by (rule stable_same_progress[OF user_create.store_operation_axioms], erule user_create_InrE)
    (erule same_progress_statements(1), simp add: same_progress_def)

lemma stable_change_password [db_stable]: "stable service_inv (change_password lib salt i old new)"
  by (rule stable_same_progress[OF change_password.store_operation_axioms], erule change_password_InrE)
    (simp add: same_progress_def set_password_def update_users_def)

lemma stable_admin_reset_password [db_stable]: "stable service_inv (admin_reset_password i hash)"
proof (rule stable_same_progress[OF admin_reset_password.store_operation_axioms])
  fix d a d'
  assume "admin_reset_password i hash d = (Inr a, d')"
  then have "db_cur d' = set_password i hash 1 (db_cur d)"
    unfolding admin_reset_password_def update_returning_def by (auto split: prod.splits sum.splits if_splits dest: sql_Inr(1))
  then show "same_progress (db_cur d) (db_cur d')" by (simp add: same_progress_def set_password_def update_users_def)
qed

lemma stable_change_role [db_stable]: "stable service_inv (change_role i role)"
proof (rule stable_same_progress[OF change_role.store_operation_axioms])
  fix d a d'
  assume "change_role i role d = (Inr a, d')"
  then obtain d1 d2 where "db_cur d1 = db_cur d" and c: "change_role_body i role d1 = (Inr a, d2)" and "db_cur d' = db_cur d2"
    unfolding change_role_def by (rule with_txn_Inr)
  moreover from c have "\<exists>v. set_role i role (db_cur d1) = Inr (v, db_cur d2)" by (rule change_role_bodyE) blast
  then obtain v where v: "set_role i role (db_cur d1) = Inr (v, db_cur d2)" by blast
  have "same_progress (db_cur d1) (db_cur d2)"
    by (rule same_progress_statements(3)[OF v]) (simp add: same_progress_def)
  ultimately show "same_progress (db_cur d) (db_cur d')" by simp
qed

lemma stable_problem_create [db_stable]: "stable service_inv (problem_create data)"
  by (rule stable_same_progress[OF problem_create.store_operation_axioms], erule keeps_same_progress[rotated], unfold problem_create_def)
    (intro db_keeps keeps_sql_at keeps_insert_samples, auto dest: same_progress_statements)

lemma stable_problem_update [db_stable]: "stable service_inv (problem_update i patch)"
  by (rule stable_same_progress[OF problem_update.store_operation_axioms], erule keeps_same_progress[rotated], unfold problem_update_def)
    (intro keeps_with_txn keeps_problem_update, auto dest: same_progress_statements)

lemma stable_testcase_create [db_stable]: "stable service_inv (testcase_create pid data)"
  by (rule stable_same_progress[OF testcase_create.store_operation_axioms], erule keeps_same_progress[rotated], unfold testcase_create_def)
    (intro keeps_with_txn keeps_testcase_create, auto dest: same_progress_statements)

lemma stable_testcase_update [db_stable]: "stable service_inv (testcase_update pid i patch)"
  by (rule stable_same_progress[OF testcase_update.store_operation_axioms], erule keeps_same_progress[rotated], unfold testcase_update_def)
    (intro keeps_with_txn keeps_testcase_update, auto dest: same_progress_statements)

lemma stable_testcase_remove [db_stable]: "stable service_inv (testcase_remove pid i)"
  by (rule stable_same_progress[OF testcase_remove.store_operation_axioms], erule keeps_same_progress[rotated], unfold testcase_remove_def)
    (intro keeps_with_txn keeps_testcase_remove, auto dest: same_progress_statements)

lemma stable_persist [db_stable]: "stable service_inv (persist_in_flight ids now uid pid language source submitted_at)"
  by (rule stable_same_progress[OF persist_in_flight.store_operation_axioms], erule keeps_same_progress[rotated],
      unfold persist_in_flight_def persist_body_def)
    (intro db_keeps, auto dest: same_progress_statements)

text \<open>Deleting a problem removes progress rows, but none that a submission needs.\<close>

lemma removed_problem_progress:
  assumes "progress_ok t" and "submission_count i t = 0"
  shows "progress_ok (removed_problem i t)"
proof -
  have none: "\<forall>s \<in> set (tb_submissions t). sb_problem_id s \<noteq> i"
    using assms(2) by (auto simp: submission_count_def filter_empty_conv)
  have "row_agrees (removed_problem i t) r = row_agrees t r" for r
    by (rule row_agrees_cong) (simp add: submissions_of_def removed_problem_def)
  with assms(1) none show ?thesis
    unfolding progress_ok_def by (fastforce simp: removed_problem_def is_status_def)
qed

lemma stable_problem_remove [db_stable]: "stable service_inv (problem_remove i)"
proof (rule stable_service[OF problem_remove.store_operation_axioms])
  fix d a d'
  assume "problem_remove i d = (Inr a, d')" and p: "progress_ok (db_cur d)"
  then obtain d1 d2 where d: "db_cur d1 = db_cur d" "db_cur d' = db_cur d2" and b: "problem_remove_body i d1 = (Inr a, d2)"
    unfolding problem_remove_def by - (erule with_txn_Inr, blast)
  from b have "submission_count i (db_cur d1) = 0 \<and> db_cur d2 = removed_problem i (db_cur d1)"
    by (rule problem_remove_bodyE) (auto simp: delete_statements split: if_splits)
  with p d show "progress_ok (db_cur d')" by (simp add: removed_problem_progress)
qed

section \<open>Reads\<close>

lemma stable_reads [db_stable]:
  "stable I (problem_find_by_id i)" "stable I (list_samples i)" "stable I (list_testcases i)" "stable I (viewer_solved u i)"
  "stable I (problem_query q)" "stable I (list_tags b)" "stable I (submission_find_by_id i)"
  "stable I (submission_list_by_user u p n k)" "stable I (status_list_by_user u p)" "stable I (list_users n k)"
  unfolding problem_find_by_id_def list_samples_def list_testcases_def viewer_solved_def problem_query_def list_tags_def
    submission_find_by_id_def submission_list_by_user_def status_list_by_user_def list_users_def Let_def
  by (intro db_stable)+

lemma stable_leaderboard [db_stable]: "stable I (leaderboard_query page n)"
proof -
  have "store_operation (with_txn id
        (db_bind (sql_read (\<lambda>t. int (length (counted_stats t)))) (\<lambda>c.
         db_bind (sql_read (\<lambda>t. map load_entry (limit_offset n ((page - 1) * n) (ranking t)))) (\<lambda>items.
         db_ret (items, c))))) I"
    by (rule store_operation_keepsI) (intro db_intros db_keeps)+
  then show ?thesis unfolding leaderboard_query_def by (intro stable_if stable_fail stable_store_operation)
qed

lemma stable_case_bool [db_stable]: "stable I m \<Longrightarrow> stable I k \<Longrightarrow> stable I (case b of True \<Rightarrow> m | False \<Rightarrow> k)"
  by (cases b) auto

lemma stable_login: "stable I (login alib jlib cfg now account pw)"
  unfolding login_def user_find_by_account_def find_user_by_def by (intro db_stable)

text \<open>The operations on accepted tasks.\<close>

lemma stable_update_in_flight:
  assumes "\<And>r. fl_id (f r) = fl_id r" "\<And>r. fl_task_id (f r) = fl_task_id r" "\<And>r. fl_user_id (f r) = fl_user_id r"
    "\<And>r. fl_problem_id (f r) = fl_problem_id r" "\<And>r. fl_state r \<in> set in_flight_states \<Longrightarrow> fl_state (f r) \<in> set in_flight_states"
    and "service_inv t"
  shows "service_inv (t\<lparr>tb_in_flight := map f (tb_in_flight t)\<rparr>)"
  using assms update_in_flight_ok[of t f]
  by (auto simp: service_inv_def progress_ok_cong[of "t\<lparr>tb_in_flight := map f (tb_in_flight t)\<rparr>" t])

lemma stable_sql_at: "(\<And>now t a t'. f now t = Inr (a, t') \<Longrightarrow> I t \<Longrightarrow> I t') \<Longrightarrow> stable I (sql_at f)"
  by (rule stable_store_operation, rule store_operationI) (auto elim: sql_at_InrE)

lemma stable_write: "(\<And>t. I t \<Longrightarrow> I (g t)) \<Longrightarrow> stable I (sql_write g)"
proof (rule stable_store_operation, rule store_operationI)
  show "transactional (sql_write g)" unfolding sql_write_def by (rule transactional_sql)
qed (auto elim!: sql_write_InrE)

lemma stable_claim [db_stable]: "stable service_inv (claim i owner)"
  unfolding claim_def
  by (rule stable_sql_at) (auto simp: in_flight_states_def intro!: stable_update_in_flight)

lemma stable_reset_stale_claims [db_stable]: "stable service_inv reset_stale_claims"
  unfolding reset_stale_claims_def
  by (rule stable_write, rule stable_update_in_flight) (auto simp: in_flight_states_def)

lemma stable_interrupt [db_stable]: "stable service_inv (with_txn id (mark_interrupted tid reason))"
proof (rule stable_store_operation, rule store_operation_keepsI)
  show "txn_body (mark_interrupted tid reason)" unfolding mark_interrupted_def by (rule db_intros)
  show "keeps service_inv (mark_interrupted tid reason)"
    unfolding mark_interrupted_def interrupt_task_def
    by (rule keeps_write, rule stable_update_in_flight) (auto simp: in_flight_states_def)
qed

lemma stable_initialize_schema [db_stable]: "stable service_inv (initialize_schema hash pw)"
proof (rule stable_same_progress[OF initialize_schema.store_operation_axioms], erule keeps_same_progress[rotated])
  fix t0
  have repeat: "keeps (same_progress t0) (repeat_stmt n)" for n
    unfolding keeps_def by (auto dest: repeat_stmt_cur)
  have insert: "keeps (same_progress t0) (insert_admin_if_absent h)" for h
    unfolding insert_admin_if_absent_def
    by (rule keeps_sql_at) (auto dest: same_progress_statements split: if_splits sum.splits prod.splits)
  show "keeps (same_progress t0) (initialize_schema hash pw)"
    unfolding initialize_schema_def apply_schema_def admin_exists_def
    by (intro db_keeps repeat; cases pw) (auto intro!: db_keeps insert split: sum.splits)
qed

section \<open>The service as a transition system\<close>

text \<open>
  What can happen to the database, in the units that the mutex of the connection makes atomic: any call of a store operation
  with any arguments and any faults, and the passing of time. The settlement of a judged submission has a time stamp
  and the verdict of its record, and there are fewer than \<open>INT_MAX\<close> submissions; a rejudge names the owner of the
  submission that it updates.
\<close>

inductive service_step :: "db \<Rightarrow> db \<Rightarrow> bool" where
  step_time: "service_step d (d\<lparr>db_now := now, db_faults := fs\<rparr>)"
| step_schema: "service_step d (snd (initialize_schema hash pw d))"
| step_create_user: "service_step d (snd (user_create account nickname h d))"
| step_change_password: "service_step d (snd (change_password lib salt i old new d))"
| step_reset_password: "service_step d (snd (admin_reset_password i h d))"
| step_change_role: "service_step d (snd (change_role i role d))"
| step_create_problem: "service_step d (snd (problem_create data d))"
| step_update_problem: "service_step d (snd (problem_update i patch d))"
| step_remove_problem: "service_step d (snd (problem_remove i d))"
| step_create_testcase: "service_step d (snd (testcase_create pid tdata d))"
| step_update_testcase: "service_step d (snd (testcase_update pid i tpatch d))"
| step_remove_testcase: "service_step d (snd (testcase_remove pid i d))"
| step_persist: "service_step d (snd (persist_in_flight ids now uid pid language source submitted_at d))"
| step_interrupt: "service_step d (settle_interrupted tid reason d)"
| step_claim: "service_step d (snd (claim i owner d))"
| step_reset_claims: "service_step d (snd (reset_stale_claims d))"
| step_settle: "clean_time (sb_created_at rec) \<Longrightarrow> int (length (tb_submissions (db_cur d))) < int32_max \<Longrightarrow>
    service_step d (snd (settle tid rec (sb_status rec = ''AC'') d))"
| step_rejudge: "int (length (tb_submissions (db_cur d))) \<le> int32_max \<Longrightarrow>
    (\<forall>s \<in> set (tb_submissions (db_cur d)). sb_id s = sb_id u \<longrightarrow> sb_user_id s = sb_user_id u \<and> sb_problem_id s = sb_problem_id u) \<Longrightarrow>
    service_step d (snd (rejudge_settle u d))"

definition service_ok :: "db \<Rightarrow> bool" where
  "service_ok d = (db_snap d = None \<and> service_inv (db_cur d))"

definition service_init :: "db \<Rightarrow> bool" where
  "service_init d = (db_snap d = None \<and> db_cur d = empty_tables)"

lemma stable_ok: "stable service_inv m \<Longrightarrow> service_ok d \<Longrightarrow> service_ok (snd (m d))"
  by (simp add: stable_def service_ok_def)

lemma settle_keeps_service:
  assumes "clean_time (sb_created_at rec)" and "int (length (tb_submissions (db_cur d))) < int32_max" and "service_ok d"
  shows "service_ok (snd (settle tid rec (sb_status rec = ''AC'') d))"
proof -
  obtain r d' where r: "settle tid rec (sb_status rec = ''AC'') d = (r, d')" by force
  have d: "db_snap d = None" "tables_ok (db_cur d)" "progress_ok (db_cur d)"
    using assms(3) by (simp_all add: service_ok_def service_inv_def)
  have "db_snap d' = None" using settle.closed[OF d(1)] r by (metis snd_conv)
  moreover have "tables_ok (db_cur d') \<and> progress_ok (db_cur d')"
  proof (cases r)
    case (Inl e)
    then have "db_cur d' = db_cur d" using settle.atomic[OF d(1)] r by blast
    with d show ?thesis by simp
  next
    case (Inr x)
    then show ?thesis
      using settle.keeps[OF d(1) r[unfolded Inr] d(2)] settle_progress[OF r[unfolded Inr] d(3) assms(1,2)] by simp
  qed
  ultimately show ?thesis by (simp add: r service_ok_def service_inv_def)
qed

lemma rejudge_keeps_service:
  assumes "int (length (tb_submissions (db_cur d))) \<le> int32_max"
    and "\<forall>s \<in> set (tb_submissions (db_cur d)). sb_id s = sb_id u \<longrightarrow> sb_user_id s = sb_user_id u \<and> sb_problem_id s = sb_problem_id u"
    and "service_ok d"
  shows "service_ok (snd (rejudge_settle u d))"
proof -
  obtain r d' where r: "rejudge_settle u d = (r, d')" by force
  have d: "db_snap d = None" "tables_ok (db_cur d)" "progress_ok (db_cur d)"
    using assms(3) by (simp_all add: service_ok_def service_inv_def)
  have "db_snap d' = None" using rejudge_settle.closed[OF d(1)] r by (metis snd_conv)
  moreover have "tables_ok (db_cur d') \<and> progress_ok (db_cur d')"
  proof (cases r)
    case (Inl e)
    then have "db_cur d' = db_cur d" using rejudge_settle.atomic[OF d(1)] r by blast
    with d show ?thesis by simp
  next
    case (Inr x)
    obtain d1 d2 where "db_cur d1 = db_cur d" "rejudge_body u d1 = (Inr x, d2)" "db_cur d' = db_cur d2"
      using r unfolding Inr rejudge_settle_def by (rule with_txn_Inr)
    then have "progress_ok (db_cur d')" using rejudge_progress[of u d1 x d2] assms(1,2) d(3) by simp
    then show ?thesis using rejudge_settle.keeps[OF d(1) r[unfolded Inr] d(2)] by simp
  qed
  ultimately show ?thesis by (simp add: r service_ok_def service_inv_def)
qed

lemma interrupt_keeps_service: "service_ok d \<Longrightarrow> service_ok (settle_interrupted tid reason d)"
  unfolding settle_interrupted_def using stable_ok[OF stable_interrupt] by simp

interpretation service: invariant_system service_init service_step service_ok
proof
  show "service_ok d" if "service_init d" for d
    using that empty_tables_ok by (simp add: service_init_def service_ok_def service_inv_def progress_ok_def empty_tables_def)
  show "service_ok d'" if "service_step d d'" "service_ok d" for d d'
    using that
  proof (induction rule: service_step.induct)
    case (step_time d now fs)
    then show ?case by (simp add: service_ok_def)
  qed (blast intro: settle_keeps_service rejudge_keeps_service interrupt_keeps_service stable_ok db_stable)+
qed

text \<open>
  C19: the invariant of the service. Starting from the empty database, after any sequence of store operations of any
  threads, with any arguments, failing at any statements, no transaction is open, the constraints of the schema hold, and the
  progress of every user is exactly what the stored submissions demand.
\<close>

theorem service_invariant:
  assumes "reachable service_init service_step d"
  shows "db_snap d = None \<and> tables_ok (durable d) \<and> progress_ok (durable d)"
  using service.inv_reachable[OF assms] by (simp add: service_ok_def service_inv_def durable_def)

definition fresh_db :: db where
  "fresh_db = \<lparr>db_cur = empty_tables, db_snap = None, db_faults = [], db_now = ''2026-01-01 00:00:00''\<rparr>"

theorem service_invariant_witness:
  "case initialize_schema (\<lambda>pw. Inr pw) (Some ''secret'') fresh_db of
     (r, d) \<Rightarrow> map us_role (tb_users (durable d)) = [''admin''] \<and> tables_ok (durable d) \<and> progress_ok (durable d)"
proof -
  let ?d = "snd (initialize_schema (\<lambda>pw. Inr pw) (Some ''secret'') fresh_db)"
  have "reachable service_init service_step fresh_db"
    by (rule reachable_init) (simp add: service_init_def fresh_db_def)
  then have "reachable service_init service_step ?d" by (rule reachable_step) (rule step_schema)
  from service_invariant[OF this] have inv: "tables_ok (durable ?d) \<and> progress_ok (durable ?d)" by blast
  have "map us_role (tb_users (durable ?d)) = [''admin'']" by code_simp
  with inv show ?thesis by (simp only: split_beta simp_thms)
qed

section \<open>Requests\<close>

text \<open>The other threads take steps of the service, any number of them, wherever a handler lets them.\<close>

definition host_ok :: "('tok, 's) host \<Rightarrow> bool" where
  "host_ok h = ((\<forall>d. service_step\<^sup>*\<^sup>* d (he_others (ho_env h) d))
     \<and> (\<forall>d m. service_step\<^sup>*\<^sup>* d (fst (ho_others h (d, m))))
     \<and> (\<forall>slot d m. service_step\<^sup>*\<^sup>* d (fst (snd (ho_await h slot (d, m)))))
     \<and> (\<forall>slot rs. service_step\<^sup>*\<^sup>* (rj_db rs) (rj_db (snd (ho_await_rejudge h slot rs)))))"

lemma register_loop_service:
  assumes "\<And>d. service_ok d \<Longrightarrow> service_ok (others d)" and "service_ok d"
  shows "service_ok (snd (register_loop accounts others k n nickname hash d))"
  using assms(2)
proof (induction n arbitrary: k d)
  case 0
  then show ?case by simp
next
  case (Suc n)
  obtain x d1 where c: "user_create (accounts k) nickname hash (others d) = (x, d1)" by force
  have d1: "service_ok d1"
    using stable_ok[OF stable_user_create assms(1)[OF Suc.prems], of "accounts k" nickname hash] c by simp
  show ?case
  proof (cases x)
    case (Inl e)
    with d1 c Suc.IH[OF d1] show ?thesis by (cases e) simp_all
  next
    case (Inr u)
    with d1 c show ?thesis by simp
  qed
qed

lemma register_user_service:
  assumes "\<And>d. service_ok d \<Longrightarrow> service_ok (others d)"
  shows "stable service_inv (register_user lib salt accounts others n nickname password)"
  unfolding stable_def
proof (intro allI impI)
  fix d :: db
  assume "db_snap d = None" "service_inv (db_cur d)"
  then have d: "service_ok d" by (simp add: service_ok_def)
  have "stable service_inv (user_find_by_nickname v)" for v
    unfolding user_find_by_nickname_def find_user_by_def by (intro db_stable)
  then have d1: "service_ok d1" if "user_find_by_nickname v d = (r, d1)" for v r d1
    using stable_ok[OF _ d, of "user_find_by_nickname v"] that by simp
  have "service_ok (snd (register_user lib salt accounts others n nickname password d))"
    unfolding register_user_def
    by (auto simp: d intro: d1 register_loop_service[OF assms] split: prod.splits sum.splits option.splits)
  then show "db_snap (snd (register_user lib salt accounts others n nickname password d)) = None
      \<and> service_inv (db_cur (snd (register_user lib salt accounts others n nickname password d)))"
    by (simp add: service_ok_def)
qed

lemma stable_case_action [db_stable]:
  "(\<And>pw. stable I (f pw)) \<Longrightarrow> (\<And>r. stable I (g r)) \<Longrightarrow> stable I (case a of ResetPassword pw \<Rightarrow> f pw | ChangeRole r \<Rightarrow> g r)"
  by (cases a) auto

lemma stable_db_handler:
  assumes "\<And>d. service_ok d \<Longrightarrow> service_ok (he_others env d)"
  shows "stable service_inv (db_handler e env req)"
  by (cases e; simp only: db_handler.simps handle_register_def handle_me_def handle_change_password_def handle_problem_list_def
      handle_problem_tags_def handle_problem_detail_def handle_submission_list_def handle_submission_detail_def handle_user_status_def
      handle_leaderboard_def handle_admin_create_problem_def handle_admin_update_problem_def handle_admin_delete_problem_def
      handle_admin_list_testcases_def handle_admin_create_testcase_def handle_admin_update_testcase_def
      handle_admin_delete_testcase_def handle_admin_list_users_def handle_admin_update_user_def perform_user_action_def
      handle_test_admin_only_def; intro db_stable register_user_service assms; assumption)

lemma respond_service: "stable service_inv m \<Longrightarrow> service_ok d \<Longrightarrow> service_ok (snd (respond m d))"
  using stable_ok[of m d] by (auto simp: respond_def split: prod.splits sum.splits)

lemma stable_submit_checks: "stable I (submit_checks env req)"
  unfolding submit_checks_def by (intro db_stable)

lemma stable_rejudge_lookup: "stable I (rejudge_lookup env req)"
  unfolding rejudge_lookup_def by (intro db_stable)

lemma login_service:
  assumes "service_ok d" and "handle_login env cfg ticks req (l, d) = (r, l', d')"
  shows "service_ok d'"
proof -
  have "service_ok d1" if "login (he_argon2 env) (he_jwt env) (he_jwt_config env) (he_time env) account password d = (x, d1)"
    for account password x d1
    using stable_ok[OF stable_login assms(1)] that by (metis snd_conv)
  with assms show ?thesis
    unfolding handle_login_def by (auto split: sum.splits prod.splits rate_result.splits login_error.splits)
qed

lemma submit_accept_service:
  assumes "\<And>d m. service_ok d \<Longrightarrow> service_ok (fst (others (d, m)))" and "service_ok d"
    and "submit_accept ids now submitted_at others ord (d, m) = (r, evs, d', m')"
  shows "service_ok d'"
proof -
  obtain d1 m1 where 1: "others (d, m) = (d1, m1)" by force
  obtain resv m2 where 2: "reserve m1 = (resv, m2)" by force
  obtain d3 m3 where 3: "others (d1, m2) = (d3, m3)" by force
  obtain p d4 where 4: "persist_in_flight ids now (sr_user_id ord) (sr_problem_id ord) (sr_language ord) (sr_code ord) submitted_at d3 = (p, d4)"
    by force
  obtain d5 m5 where 5: "others (d4, m3) = (d5, m5)" by force
  have ok: "service_ok d1" using assms(1)[OF assms(2), of m] 1 by simp
  then have "service_ok d3" using assms(1)[of d1 m2] 3 by simp
  then have "service_ok d4" using stable_ok[OF stable_persist] 4 by (metis snd_conv)
  then have ok5: "service_ok d5" using assms(1)[of d4 m3] 5 by simp
  have disc: "service_ok (discard_in_flight tid d5)" for tid
    unfolding discard_in_flight_def by (rule interrupt_keeps_service[OF ok5])
  show ?thesis
    using assms(3) ok ok5 disc
    by (auto simp: submit_accept_def 1 2 3 4 5 Let_def split: if_splits sum.splits prod.splits)
qed

lemma submit_service:
  assumes "\<And>d m. service_ok d \<Longrightarrow> service_ok (fst (others (d, m)))"
    and "\<And>slot d m. service_ok d \<Longrightarrow> service_ok (fst (snd (await slot (d, m))))" and "service_ok d"
    and "handle_submit env ids now submitted_at others await req (d, m) = (r, evs, d', m')"
  shows "service_ok d'"
proof -
  obtain x d1 where c: "submit_checks env req d = (x, d1)" by force
  have d1: "service_ok d1" using stable_ok[OF stable_submit_checks assms(3)] c by (metis snd_conv)
  show ?thesis
  proof (cases x)
    case (Inl rp)
    with assms(4) c d1 show ?thesis by (simp add: handle_submit_def)
  next
    case (Inr ord)
    obtain a evs1 d2 m2 where a: "submit_accept ids now submitted_at others ord (d1, m) = (a, evs1, d2, m2)" by (metis prod_cases4)
    have d2: "service_ok d2" by (rule submit_accept_service[OF assms(1) d1 a])
    from assms(4) c Inr a d2 assms(2)[OF d2] show ?thesis
      by (auto simp: handle_submit_def split: sum.splits prod.splits) (metis fst_conv snd_conv)+
  qed
qed

lemma rejudge_service:
  assumes "\<And>slot rs. service_ok (rj_db rs) \<Longrightarrow> service_ok (rj_db (snd (await slot rs)))" and "service_ok (rj_db s)"
  shows "service_ok (rj_db (snd (handle_admin_rejudge env now await req s)))"
proof -
  obtain x d1 where l: "rejudge_lookup env req (rj_db s) = (x, d1)" by force
  have d1: "service_ok d1" using stable_ok[OF stable_rejudge_lookup assms(2)] l by (metis snd_conv)
  have "service_ok (rj_db rs')" if "await slot (s\<lparr>rj_db := d1, rj_in_flight := f, rj_manager := m\<rparr>) = (res, rs')" for slot f m res rs'
    using assms(1)[of "s\<lparr>rj_db := d1, rj_in_flight := f, rj_manager := m\<rparr>" slot] that d1 by simp
  with d1 show ?thesis
    by (auto simp: handle_admin_rejudge_def l Let_def split: sum.splits prod.splits)
qed



section \<open>Accepting a submission\<close>

text \<open>
  The order of calls when a submission is accepted: a granted reservation is followed by one attempt to store the task, and
  that by the commit of exactly the stored task or, if it failed, by the release of the reservation.
\<close>

definition accept_protocol :: "submission_order \<Rightarrow> string \<Rightarrow> accept_event list \<Rightarrow> bool" where
  "accept_protocol ord submitted_at evs =
     (case evs of
        [AcReserve resv] \<Rightarrow> \<not> rs_ok resv
      | [AcReserve resv, AcPersist p, AcRelease resv'] \<Rightarrow> rs_ok resv \<and> resv' = resv \<and> \<not> is_ok p
      | [AcReserve resv, AcPersist p, AcCommit task resv'] \<Rightarrow>
          rs_ok resv \<and> resv' = resv \<and> (case p of Inl e \<Rightarrow> False | Inr tid \<Rightarrow> task = order_task ord submitted_at tid)
      | _ \<Rightarrow> False)"

lemma reserve_result:
  "reserve m = (resv, m') \<Longrightarrow> rs_ok resv \<longleftrightarrow> rs_status resv = Accepted"
  by (auto simp: reserve_def split: if_splits)

lemma commit_accepted: "rs_ok resv \<Longrightarrow> \<exists>slot m'. commit task resv m = ((Accepted, Some slot), m')"
  by (auto simp: commit_def commit_enter_def Let_def split: prod.splits)



section \<open>Rejudging one submission at a time\<close>


definition admin_db :: db where
  "admin_db = foreign_db\<lparr>db_cur := (db_cur foreign_db)\<lparr>tb_users := [demo_user ''admin'' 1 ''admin'', demo_user ''root'' 3 ''admin'']\<rparr>\<rparr>"


section \<open>Threads for requests that do not wait\<close>

definition kHttpReserveThreads :: nat where
  "kHttpReserveThreads = 8"

definition http_thread_count :: "'s manager \<Rightarrow> nat" where
  "http_thread_count m = length (mg_workers m) + mg_queue_capacity m + kHttpReserveThreads"

text \<open>The tasks for whose result a request thread may be waiting, and the reservations that one may hold.\<close>

definition awaited :: "'s manager \<Rightarrow> nat" where
  "awaited m = length (filter (\<lambda>i. \<not> delivered m i) [0..<length (mg_items m)]) + mg_reserved m"

lemma holds_at_most_one: "size (sum_workers holds m) \<le> length (mg_workers m)"
proof -
  have one: "size (holds w) \<le> 1" for w :: "'a worker" by (cases w) simp_all
  have "size (sum_list (map holds ws)) \<le> length ws" for ws :: "'a worker list"
  proof (induction ws)
    case (Cons w ws)
    then show ?case using one[of w] by simp
  qed simp
  then show ?thesis by (simp add: sum_workers_def)
qed

lemma undelivered_bound:
  assumes "inv_items m"
  shows "length (filter (\<lambda>i. \<not> delivered m i) [0..<length (mg_items m)]) \<le> length (mg_queue m) + length (mg_workers m)"
proof -
  let ?all = "[0..<length (mg_items m)]"
  have "size (mset (mg_queue m) + sum_workers holds m + mset (filter (delivered m) ?all)) = size (mset ?all)"
    using assms by (simp only: inv_items_def)
  then have "length (mg_queue m) + size (sum_workers holds m) + length (filter (delivered m) ?all) = length ?all"
    by (simp only: size_union size_mset)
  then show ?thesis
    using sum_length_filter_compl[of "delivered m" ?all] holds_at_most_one[of m] by simp
qed

lemma mgr_step_capacity: "mgr_step s t \<Longrightarrow> mg_queue_capacity (sc_manager t) = mg_queue_capacity (sc_manager s)"
proof (induction rule: mgr_step.induct)
  case (step_submit task s st x m)
  then show ?case by (auto simp: submit_enter_def assign_task_id_def enqueue_item_def Let_def split: if_splits)
next
  case (step_commit s resv task res counted m)
  then show ?case
    by (auto simp: commit_enter_def assign_task_id_def drop_reserved_def enqueue_item_def Let_def split: if_splits)
next
  case (step_worker w s h m)
  then show ?case by (auto elim!: worker_actionE simp: deliver_def set_worker_def)
qed (auto simp: count_accepted_def reserve_def release_def drop_reserved_def cancel_all_def
    allow_worker_exit_def join_workers_def split: if_splits)

text \<open>
  Waiting requests cannot use up the threads of the server. The pool is sized once, from the manager as it
  is constructed. In every state that manager and workers can reach, the tasks without a result together
  with the reservations held, which is all that a request thread can be waiting on, leave at least
  \<open>kHttpReserveThreads\<close> threads of the pool free.
\<close>

theorem http_threads_reserved:
  fixes s :: "'s sched"
  assumes "reachable (mgr_init capacity workers) mgr_step s"
  shows "awaited (sc_manager s) + kHttpReserveThreads \<le> http_thread_count (manager_new capacity workers :: 's manager)"
proof -
  have cap: "mg_queue_capacity (sc_manager s) = mg_queue_capacity (manager_new capacity workers :: 's manager)"
    using assms by (induction rule: reachable.induct) (auto simp: mgr_init_def manager_new_def dest: mgr_step_capacity)
  have "mgr_inv s" by (rule sched.inv_reachable[OF assms])
  then have items: "inv_items (sc_manager s)"
    and room: "length (mg_queue (sc_manager s)) + mg_reserved (sc_manager s) \<le> mg_queue_capacity (sc_manager s)"
    by (simp_all add: mgr_inv_def inv_count_def Let_def)
  have "length (mg_workers (manager_new capacity workers :: 's manager)) = length (mg_workers (sc_manager s))"
    by (simp add: reachable_workers[OF assms] manager_new_def)
  with undelivered_bound[OF items] room show ?thesis
    using cap unfolding awaited_def http_thread_count_def by linarith
qed

theorem http_threads_reserved_witness:
  "awaited (sc_manager demo_stopped) + 8 \<le> http_thread_count (manager_new 2 1 :: unit manager) \<and> awaited (sc_manager demo_stopped) = 1"
proof
  show "awaited (sc_manager demo_stopped) + 8 \<le> http_thread_count (manager_new 2 1 :: unit manager)"
    using http_threads_reserved[OF demo_stopped_reachable] by (simp add: kHttpReserveThreads_def http_thread_count_def manager_new_def)
  show "awaited (sc_manager demo_stopped) = 1" by code_simp
qed

end
