(* ===== verification/OJ_Sandbox.thy ===== *)
theory OJ_Sandbox
  imports OJ_Executor OJ_Messages "HOL-Library.Word"
begin

unbundle bit_operations_syntax

text \<open>
  The sandbox of judged processes (\<open>judge/sandbox.h\<close>, \<open>judge/sandbox.cpp\<close>): resource limits, the seccomp filter as a program
  of the kernel's classic BPF machine together with the meaning of the instructions it uses, the search for the mount that
  covers a path, and the sequence of system calls that builds the root directory and gives up privileges. The numbers of
  the system calls come from the kernel headers and are a parameter; every system call may fail.
\<close>

section \<open>Phases, stages and limits\<close>

datatype sandbox_phase = PhaseCompile | PhaseRun

datatype sandbox_stage = StNone | StUnshare | StRoot | StChroot | StLimits | StSeccomp | StChdir | StExec

fun sandbox_stage_name :: "sandbox_stage \<Rightarrow> string" where
  "sandbox_stage_name StNone = ''none''"
| "sandbox_stage_name StUnshare = ''namespace''"
| "sandbox_stage_name StRoot = ''mount''"
| "sandbox_stage_name StChroot = ''chroot''"
| "sandbox_stage_name StLimits = ''setrlimit''"
| "sandbox_stage_name StSeccomp = ''seccomp''"
| "sandbox_stage_name StChdir = ''chdir''"
| "sandbox_stage_name StExec = ''exec''"

record sandbox_limits =
  sl_memory_limit_kb :: int
  sl_cpu_limit_sec :: int
  sl_fsize_limit_bytes :: int
  sl_stack_limit_bytes :: int
  sl_nofile_limit :: int
  sl_core_limit_bytes :: int
  sl_set_address_space :: bool
  sl_address_space_kb :: int

definition default_limits :: sandbox_limits where
  "default_limits = \<lparr>sl_memory_limit_kb = 65536, sl_cpu_limit_sec = 3, sl_fsize_limit_bytes = 64 * 2 ^ 20,
     sl_stack_limit_bytes = 64 * 2 ^ 20, sl_nofile_limit = 64, sl_core_limit_bytes = 0, sl_set_address_space = False,
     sl_address_space_kb = 0\<rparr>"

definition compute_limits :: "sandbox_phase \<Rightarrow> int \<Rightarrow> int \<Rightarrow> sandbox_limits" where
  "compute_limits phase memory_limit_kb time_limit_ms =
     (let l = (if 0 < memory_limit_kb then default_limits\<lparr>sl_memory_limit_kb := memory_limit_kb\<rparr> else default_limits);
          s = (if 0 < time_limit_ms then (time_limit_ms + 999) div 1000 else 1);
          seconds = (if s < 1 then 1 else s) in
      (case phase of
         PhaseRun \<Rightarrow> l\<lparr>sl_cpu_limit_sec := seconds + 1, sl_fsize_limit_bytes := 64 * 2 ^ 20,
           sl_stack_limit_bytes := 64 * 2 ^ 20, sl_nofile_limit := 64\<rparr>
       | PhaseCompile \<Rightarrow> l\<lparr>sl_cpu_limit_sec := seconds + 5, sl_fsize_limit_bytes := 512 * 2 ^ 20,
           sl_stack_limit_bytes := 256 * 2 ^ 20, sl_nofile_limit := 256\<rparr>)\<lparr>sl_core_limit_bytes := 0\<rparr>)"

section \<open>The BPF machine\<close>

text \<open>The instructions that the filter uses, encoded by \<open>BPF_STMT\<close> and \<open>BPF_JUMP\<close>; offsets of jumps have eight bits.\<close>

datatype bpf_op = BPF_LD_W_ABS | BPF_JEQ_K | BPF_JSET_K | BPF_RET_K

record sock_filter =
  sf_op :: bpf_op
  sf_jt :: "8 word"
  sf_jf :: "8 word"
  sf_k :: "32 word"

definition BPF_STMT :: "bpf_op \<Rightarrow> 32 word \<Rightarrow> sock_filter" where
  "BPF_STMT op k = \<lparr>sf_op = op, sf_jt = 0, sf_jf = 0, sf_k = k\<rparr>"

definition BPF_JUMP :: "bpf_op \<Rightarrow> 32 word \<Rightarrow> 8 word \<Rightarrow> 8 word \<Rightarrow> sock_filter" where
  "BPF_JUMP op k jt jf = \<lparr>sf_op = op, sf_jt = jt, sf_jf = jf, sf_k = k\<rparr>"

text \<open>\<open>struct seccomp_data\<close>: the number at offset 0, the architecture at offset 4, then address and arguments.\<close>

record seccomp_data =
  sd_nr :: "32 word"
  sd_arch :: "32 word"
  sd_rest :: "32 word \<Rightarrow> 32 word"

definition load_word :: "seccomp_data \<Rightarrow> 32 word \<Rightarrow> 32 word" where
  "load_word sd off = (if off = 0 then sd_nr sd else if off = 4 then sd_arch sd else sd_rest sd off)"

text \<open>
  Running a filter: an accumulator and jumps forward only, so that the rest of the program is the state. Running off
  the end is no result.
\<close>

function bpf_exec :: "sock_filter list \<Rightarrow> 32 word \<Rightarrow> seccomp_data \<Rightarrow> 32 word option" where
  "bpf_exec [] a sd = None"
| "bpf_exec (i # is) a sd =
     (case sf_op i of
        BPF_LD_W_ABS \<Rightarrow> bpf_exec is (load_word sd (sf_k i)) sd
      | BPF_JEQ_K \<Rightarrow> bpf_exec (drop (unat (if a = sf_k i then sf_jt i else sf_jf i)) is) a sd
      | BPF_JSET_K \<Rightarrow> bpf_exec (drop (unat (if a AND sf_k i \<noteq> 0 then sf_jt i else sf_jf i)) is) a sd
      | BPF_RET_K \<Rightarrow> Some (sf_k i))"
  by pat_completeness auto
termination
  by (relation "measure (\<lambda>(is, a, sd). length is)") auto

section \<open>The filter\<close>

definition SECCOMP_RET_KILL_PROCESS :: "32 word" where
  "SECCOMP_RET_KILL_PROCESS = 0x80000000"

definition SECCOMP_RET_ERRNO :: "32 word" where
  "SECCOMP_RET_ERRNO = 0x00050000"

definition SECCOMP_RET_ALLOW :: "32 word" where
  "SECCOMP_RET_ALLOW = 0x7fff0000"

definition EPERM :: "32 word" where
  "EPERM = 1"

definition AUDIT_ARCH_X86_64 :: "32 word" where
  "AUDIT_ARCH_X86_64 = 0xC000003E"

text \<open>What the kernel headers say: which numbers are defined, and the numbers.\<close>

record kernel_headers =
  kh_defined :: "string \<Rightarrow> bool"
  kh_nr :: "string \<Rightarrow> 32 word"

record seccomp_rule =
  sq_nr :: "32 word"
  sq_action :: "32 word"

definition add_rule :: "seccomp_rule list \<Rightarrow> 32 word \<Rightarrow> 32 word \<Rightarrow> seccomp_rule list" where
  "add_rule rules nr action = rules @ [\<lparr>sq_nr = nr, sq_action = action\<rparr>]"

text \<open>The groups of the source in order, each with the name whose definition guards it, if any.\<close>

type_synonym rule_group = "string option \<times> string list"

definition network_groups :: "rule_group list" where
  "network_groups =
    [(None, [''socket'', ''socketpair'', ''bind'', ''connect'', ''listen'', ''accept'', ''accept4'', ''sendto'', ''recvfrom'',
             ''sendmsg'', ''recvmsg'']),
     (Some ''sendmmsg'', [''sendmmsg'']),
     (Some ''recvmmsg'', [''recvmmsg'']),
     (None, [''getsockname'', ''getpeername'', ''setsockopt'', ''getsockopt'', ''shutdown'']),
     (Some ''io_uring_setup'', [''io_uring_setup'', ''io_uring_enter'', ''io_uring_register''])]"

definition isolation_groups :: "rule_group list" where
  "isolation_groups =
    [(None, [''mount'', ''umount2'']),
     (Some ''pivot_root'', [''pivot_root'']),
     (None, [''chroot'', ''unshare'']),
     (Some ''setns'', [''setns'']),
     (Some ''open_tree'', [''open_tree'', ''move_mount'', ''fsopen'', ''fsconfig'', ''fsmount'', ''fspick'', ''mount_setattr'']),
     (None, [''open_by_handle_at'', ''name_to_handle_at''])]"

definition tracing_groups :: "rule_group list" where
  "tracing_groups =
    [(None, [''ptrace'', ''process_vm_readv'', ''process_vm_writev'']),
     (Some ''kcmp'', [''kcmp'']),
     (Some ''bpf'', [''bpf'']),
     (None, [''perf_event_open'']),
     (Some ''userfaultfd'', [''userfaultfd'']),
     (None, [''keyctl'', ''add_key'', ''request_key'', ''init_module'', ''delete_module'']),
     (Some ''finit_module'', [''finit_module'']),
     (Some ''kexec_load'', [''kexec_load'']),
     (Some ''kexec_file_load'', [''kexec_file_load''])]"

definition system_groups :: "rule_group list" where
  "system_groups =
    [(None, [''reboot'', ''swapon'', ''swapoff'', ''acct'', ''settimeofday'', ''clock_settime'', ''adjtimex'']),
     (Some ''clock_adjtime'', [''clock_adjtime'']),
     (None, [''sethostname'', ''setdomainname'']),
     (Some ''iopl'', [''iopl'', ''ioperm'']),
     (Some ''modify_ldt'', [''modify_ldt'']),
     (None, [''lookup_dcookie'']),
     (Some ''quotactl'', [''quotactl'']),
     (Some ''sysfs'', [''sysfs'']),
     (None, [''uselib''])]"

definition handle_groups :: "rule_group list" where
  "handle_groups =
    [(Some ''pidfd_open'', [''pidfd_open'']),
     (Some ''pidfd_getfd'', [''pidfd_getfd'']),
     (Some ''pidfd_send_signal'', [''pidfd_send_signal'']),
     (Some ''fanotify_init'', [''fanotify_init'', ''fanotify_mark'']),
     (Some ''memfd_secret'', [''memfd_secret'']),
     (None, [''seccomp''])]"

definition process_groups :: "rule_group list" where
  "process_groups = [(None, [''fork'', ''vfork'', ''clone'']), (Some ''clone3'', [''clone3''])]"

definition rule_groups :: "sandbox_phase \<Rightarrow> rule_group list" where
  "rule_groups phase = network_groups @ isolation_groups @ tracing_groups @ system_groups @ handle_groups
     @ (if phase = PhaseRun then process_groups else [])"

definition rule_names :: "kernel_headers \<Rightarrow> sandbox_phase \<Rightarrow> string list" where
  "rule_names h phase = concat (map (\<lambda>(guard, names).
     case guard of None \<Rightarrow> names | Some g \<Rightarrow> if kh_defined h g then names else []) (rule_groups phase))"

definition deny :: "32 word" where
  "deny = SECCOMP_RET_ERRNO OR EPERM"

definition seccomp_rules :: "kernel_headers \<Rightarrow> sandbox_phase \<Rightarrow> seccomp_rule list" where
  "seccomp_rules h phase = foldl (\<lambda>rules name. add_rule rules (kh_nr h name) deny) [] (rule_names h phase)"

text \<open>
  The layout: load and check the architecture, load the number, refuse the numbers of the x32 interface, one comparison per
  rule, allow, deny. The conversions to eight bits are those of the source; only the offsets of the rules are checked.
\<close>

definition assemble :: "seccomp_rule list \<Rightarrow> string + sock_filter list" where
  "assemble rules =
     (let n = length rules; deny_index = 6 + n in
      if \<exists>k \<in> set [0..<n]. 255 < deny_index - (5 + k) - 1 then Inl txt_seccomp_jump
      else let insns =
        [BPF_STMT BPF_LD_W_ABS 4,
         BPF_JUMP BPF_JEQ_K AUDIT_ARCH_X86_64 1 0,
         BPF_STMT BPF_RET_K SECCOMP_RET_KILL_PROCESS,
         BPF_STMT BPF_LD_W_ABS 0,
         BPF_JUMP BPF_JSET_K 0x40000000 (of_nat (deny_index - 4 - 1)) 0]
        @ map (\<lambda>(k, r). BPF_JUMP BPF_JEQ_K (sq_nr r) (of_nat (deny_index - (5 + k) - 1)) 0) (enumerate 0 rules)
        @ [BPF_STMT BPF_RET_K SECCOMP_RET_ALLOW, BPF_STMT BPF_RET_K deny] in
      if 4096 < length insns then Inl txt_seccomp_size else Inr insns)"

definition build_seccomp_program :: "kernel_headers \<Rightarrow> sandbox_phase \<Rightarrow> string + sock_filter list" where
  "build_seccomp_program h phase = assemble (seccomp_rules h phase)"

section \<open>What the filter decides\<close>

lemma seccomp_rules_alt: "seccomp_rules h phase = map (\<lambda>name. \<lparr>sq_nr = kh_nr h name, sq_action = deny\<rparr>) (rule_names h phase)"
proof -
  have "foldl (\<lambda>rules name. add_rule rules (kh_nr h name) deny) acc names
      = acc @ map (\<lambda>name. \<lparr>sq_nr = kh_nr h name, sq_action = deny\<rparr>) names" for acc names
    by (induction names arbitrary: acc) (simp_all add: add_rule_def)
  from this[of "[]"] show ?thesis by (simp add: seccomp_rules_def)
qed

text \<open>The number of rules is bounded whatever the headers define; this is what the offsets of eight bits need.\<close>

definition group_count :: "rule_group list \<Rightarrow> nat" where
  "group_count gs = sum_list (map (\<lambda>(guard, names). length names) gs)"

lemma group_count_append [simp]: "group_count (gs @ gs') = group_count gs + group_count gs'"
  by (simp add: group_count_def)

lemma group_counts:
  "group_count network_groups = 21" "group_count isolation_groups = 15" "group_count tracing_groups = 15"
  "group_count system_groups = 17" "group_count handle_groups = 7" "group_count process_groups = 4"
  unfolding group_count_def network_groups_def isolation_groups_def tracing_groups_def system_groups_def handle_groups_def
    process_groups_def
  by (simp_all only: list.map prod.case list.size sum_list.Cons sum_list.Nil)

lemma length_rule_names: "length (rule_names h phase) \<le> 79"
proof -
  have le: "length (concat (map (\<lambda>(guard, names). case guard of None \<Rightarrow> names | Some g \<Rightarrow> if kh_defined h g then names else []) gs))
      \<le> group_count gs" for gs
    by (induction gs) (auto simp: group_count_def split: option.splits)
  have "group_count (rule_groups phase) \<le> 79" by (simp add: rule_groups_def group_counts group_count_def[of "[]"])
  from order_trans[OF le this] show ?thesis by (simp only: rule_names_def)
qed

lemma unat_small: "n \<le> 255 \<Longrightarrow> unat (of_nat n :: 8 word) = n"
  by (simp add: unsigned_of_nat take_bit_nat_eq_self)

lemma bpf_exec_simps [simp]:
  "bpf_exec (BPF_STMT BPF_LD_W_ABS k # is) a sd = bpf_exec is (load_word sd k) sd"
  "bpf_exec (BPF_STMT BPF_RET_K k # is) a sd = Some k"
  "bpf_exec (BPF_JUMP BPF_JEQ_K k jt jf # is) a sd = bpf_exec (drop (unat (if a = k then jt else jf)) is) a sd"
  "bpf_exec (BPF_JUMP BPF_JSET_K k jt jf # is) a sd = bpf_exec (drop (unat (if a AND k \<noteq> 0 then jt else jf)) is) a sd"
  by (simp_all add: BPF_STMT_def BPF_JUMP_def)

declare bpf_exec.simps(2) [simp del]

text \<open>The comparisons: from the rule at position \<open>k\<close> on, with the two returns behind them.\<close>

lemma rules_exec:
  assumes "k + length rules = n" and "length rules \<le> 255"
  shows "bpf_exec (map (\<lambda>(k, r). BPF_JUMP BPF_JEQ_K (sq_nr r) (of_nat (6 + n - (5 + k) - 1)) 0) (enumerate k rules)
      @ [BPF_STMT BPF_RET_K SECCOMP_RET_ALLOW, BPF_STMT BPF_RET_K deny]) a sd
    = Some (if a \<in> sq_nr ` set rules then deny else SECCOMP_RET_ALLOW)"
  using assms
proof (induction rules arbitrary: k)
  case Nil
  then show ?case by simp
next
  case (Cons r rules)
  have off: "6 + n - (5 + k) - 1 = Suc (length rules)" using Cons.prems(1) by simp
  then have off': "n - k = Suc (length rules)" by simp
  have small: "unat (of_nat (Suc (length rules)) :: 8 word) = Suc (length rules)"
    by (rule unat_small) (use Cons.prems(2) in simp)
  have ih: "bpf_exec (map (\<lambda>(k, r). BPF_JUMP BPF_JEQ_K (sq_nr r) (of_nat (6 + n - (5 + k) - 1)) 0) (enumerate (Suc k) rules)
      @ [BPF_STMT BPF_RET_K SECCOMP_RET_ALLOW, BPF_STMT BPF_RET_K deny]) a sd
    = Some (if a \<in> sq_nr ` set rules then deny else SECCOMP_RET_ALLOW)"
    by (rule Cons.IH) (use Cons.prems in auto)
  show ?case
  proof (cases "a = sq_nr r")
    case True
    have deny: "drop (Suc (length rules)) (map f (enumerate (Suc k) rules)
        @ [BPF_STMT BPF_RET_K SECCOMP_RET_ALLOW, BPF_STMT BPF_RET_K deny]) = [BPF_STMT BPF_RET_K deny]" for f
      by simp
    from True show ?thesis
      by (simp add: enumerate_simps off' small deny del: drop_append of_nat_Suc)
  next
    case False
    then show ?thesis
      by (simp only: enumerate_simps list.map append_Cons prod.case off bpf_exec_simps if_False unat_0 drop_0 ih) simp
  qed
qed

lemma assemble_size: "assemble rules = Inr prog \<Longrightarrow> length prog \<le> 4096"
  by (auto simp: assemble_def Let_def not_less split: if_splits)

lemma assemble_exec:
  assumes "length rules \<le> 254"
  obtains prog where "assemble rules = Inr prog" "length prog = length rules + 7"
    "\<And>sd. bpf_exec prog 0 sd = Some (
       if sd_arch sd \<noteq> AUDIT_ARCH_X86_64 then SECCOMP_RET_KILL_PROCESS
       else if sd_nr sd AND 0x40000000 \<noteq> 0 then deny
       else if sd_nr sd \<in> sq_nr ` set rules then deny else SECCOMP_RET_ALLOW)"
proof -
  let ?n = "length rules"
  let ?rules = "map (\<lambda>(k, r). BPF_JUMP BPF_JEQ_K (sq_nr r) (of_nat (6 + ?n - (5 + k) - 1)) 0) (enumerate 0 rules)"
  let ?tail = "?rules @ [BPF_STMT BPF_RET_K SECCOMP_RET_ALLOW, BPF_STMT BPF_RET_K deny]"
  let ?prog = "[BPF_STMT BPF_LD_W_ABS 4, BPF_JUMP BPF_JEQ_K AUDIT_ARCH_X86_64 1 0, BPF_STMT BPF_RET_K SECCOMP_RET_KILL_PROCESS,
         BPF_STMT BPF_LD_W_ABS 0, BPF_JUMP BPF_JSET_K 0x40000000 (of_nat (6 + ?n - 4 - 1)) 0] @ ?tail"
  have off: "6 + ?n - 4 - 1 = Suc ?n" by simp
  have small: "unat (of_nat (Suc ?n) :: 8 word) = Suc ?n" by (rule unat_small) (use assms in simp)
  have tail: "bpf_exec ?tail a sd = Some (if a \<in> sq_nr ` set rules then deny else SECCOMP_RET_ALLOW)" for a sd
    by (rule rules_exec) (use assms in auto)
  have deny: "drop (Suc ?n) ?tail = [BPF_STMT BPF_RET_K deny]" by simp
  have "assemble rules = Inr ?prog" using assms by (auto simp: assemble_def Let_def)
  moreover have "bpf_exec ?prog 0 sd = Some (
       if sd_arch sd \<noteq> AUDIT_ARCH_X86_64 then SECCOMP_RET_KILL_PROCESS
       else if sd_nr sd AND 0x40000000 \<noteq> 0 then deny
       else if sd_nr sd \<in> sq_nr ` set rules then deny else SECCOMP_RET_ALLOW)" for sd
  proof -
    have nr: "load_word sd 0 = sd_nr sd" and arch: "load_word sd 4 = sd_arch sd" by (simp_all add: load_word_def)
    have one: "unat (1 :: 8 word) = Suc 0" by simp
    show ?thesis
      by (simp only: append_Cons append_Nil bpf_exec_simps off nr arch one unat_0 drop_Suc_Cons drop_0 small deny tail
            if_distrib[of unat] split: if_split) simp
  qed
  moreover have "length ?prog = ?n + 7" by simp
  ultimately show thesis using that by blast
qed

text \<open>
  C28: the system call filter decides as specified. For every phase and whatever numbers the kernel headers define, the filter is
  built, is accepted by the size limit of the kernel, and gives every system call a verdict: a foreign architecture is
  killed, a number of the x32 interface is refused, a number of the rules is refused with EPERM, everything else is
  allowed. The rules of the run phase contain those of the compile phase and in addition every way to create a process.
\<close>

theorem seccomp_filter_correct:
  "\<exists>prog. build_seccomp_program h phase = Inr prog \<and> length prog \<le> 4096
     \<and> (\<forall>sd. bpf_exec prog 0 sd = Some (
          if sd_arch sd \<noteq> AUDIT_ARCH_X86_64 then SECCOMP_RET_KILL_PROCESS
          else if sd_nr sd AND 0x40000000 \<noteq> 0 \<or> sd_nr sd \<in> kh_nr h ` set (rule_names h phase) then SECCOMP_RET_ERRNO OR EPERM
          else SECCOMP_RET_ALLOW))
     \<and> set (rule_names h PhaseRun) =
          set (rule_names h PhaseCompile) \<union> {''fork'', ''vfork'', ''clone''} \<union> (if kh_defined h ''clone3'' then {''clone3''} else {})"
proof -
  have n: "length (seccomp_rules h phase) \<le> 79" using length_rule_names[of h phase] by (simp add: seccomp_rules_alt)
  then have "length (seccomp_rules h phase) \<le> 254" by simp
  then obtain prog where prog: "assemble (seccomp_rules h phase) = Inr prog" "length prog = length (seccomp_rules h phase) + 7"
    "\<And>sd. bpf_exec prog 0 sd = Some (
       if sd_arch sd \<noteq> AUDIT_ARCH_X86_64 then SECCOMP_RET_KILL_PROCESS
       else if sd_nr sd AND 0x40000000 \<noteq> 0 then deny
       else if sd_nr sd \<in> sq_nr ` set (seccomp_rules h phase) then deny else SECCOMP_RET_ALLOW)"
    using assemble_exec by blast
  have nrs: "sq_nr ` set (seccomp_rules h phase) = kh_nr h ` set (rule_names h phase)"
    by (simp add: seccomp_rules_alt image_image)
  have "rule_groups PhaseRun = rule_groups PhaseCompile @ [(None, [''fork'', ''vfork'', ''clone'']), (Some ''clone3'', [''clone3''])]"
    by (simp add: rule_groups_def process_groups_def)
  then have run: "set (rule_names h PhaseRun) =
          set (rule_names h PhaseCompile) \<union> {''fork'', ''vfork'', ''clone''} \<union> (if kh_defined h ''clone3'' then {''clone3''} else {})"
    unfolding rule_names_def by auto
  show ?thesis
    by (rule exI[of _ prog]) (use prog n nrs run in \<open>auto simp: build_seccomp_program_def deny_def\<close>)
qed

theorem seccomp_filter_correct_witness:
  "\<exists>prog. build_seccomp_program \<lparr>kh_defined = (\<lambda>name. False), kh_nr = (\<lambda>name. 57)\<rparr> PhaseRun = Inr prog
     \<and> bpf_exec prog 0 \<lparr>sd_nr = 57, sd_arch = AUDIT_ARCH_X86_64, sd_rest = (\<lambda>off. 0)\<rparr> = Some (SECCOMP_RET_ERRNO OR EPERM)
     \<and> bpf_exec prog 0 \<lparr>sd_nr = 0x40000001, sd_arch = AUDIT_ARCH_X86_64, sd_rest = (\<lambda>off. 0)\<rparr> = Some (SECCOMP_RET_ERRNO OR EPERM)
     \<and> bpf_exec prog 0 \<lparr>sd_nr = 1, sd_arch = AUDIT_ARCH_X86_64, sd_rest = (\<lambda>off. 0)\<rparr> = Some SECCOMP_RET_ALLOW
     \<and> bpf_exec prog 0 \<lparr>sd_nr = 1, sd_arch = 3, sd_rest = (\<lambda>off. 0)\<rparr> = Some SECCOMP_RET_KILL_PROCESS"
proof -
  let ?h = "\<lparr>kh_defined = (\<lambda>name. False), kh_nr = (\<lambda>name. 57)\<rparr>"
  obtain prog where prog: "build_seccomp_program ?h PhaseRun = Inr prog"
    "\<And>sd. bpf_exec prog 0 sd = Some (
          if sd_arch sd \<noteq> AUDIT_ARCH_X86_64 then SECCOMP_RET_KILL_PROCESS
          else if sd_nr sd AND 0x40000000 \<noteq> 0 \<or> sd_nr sd \<in> kh_nr ?h ` set (rule_names ?h PhaseRun) then SECCOMP_RET_ERRNO OR EPERM
          else SECCOMP_RET_ALLOW)"
    using seccomp_filter_correct[of ?h PhaseRun] by blast
  have "rule_names ?h PhaseRun \<noteq> []" by (simp add: rule_names_def rule_groups_def process_groups_def)
  then have "kh_nr ?h ` set (rule_names ?h PhaseRun) = {57}" by (simp add: image_constant_conv)
  with prog show ?thesis by (intro exI[of _ prog]) (simp add: AUDIT_ARCH_X86_64_def)
qed

text \<open>
  The limit is tight on one side only: the check of the source covers the offsets of the rules and not that of the x32 test, which is
  one larger. With 255 rules the assembly would succeed and the x32 test would jump by zero.
\<close>

lemma x32_offset_unchecked:
  assumes "length rules = 255" and "sd_arch sd = AUDIT_ARCH_X86_64" and "sd_nr sd \<notin> sq_nr ` set rules"
  shows "\<exists>prog. assemble rules = Inr prog \<and> bpf_exec prog 0 sd = Some SECCOMP_RET_ALLOW"
proof -
  let ?tail = "map (\<lambda>(k, r). BPF_JUMP BPF_JEQ_K (sq_nr r) (of_nat (6 + 255 - (5 + k) - 1)) 0) (enumerate 0 rules)
      @ [BPF_STMT BPF_RET_K SECCOMP_RET_ALLOW, BPF_STMT BPF_RET_K deny]"
  let ?prog = "[BPF_STMT BPF_LD_W_ABS 4, BPF_JUMP BPF_JEQ_K AUDIT_ARCH_X86_64 1 0, BPF_STMT BPF_RET_K SECCOMP_RET_KILL_PROCESS,
         BPF_STMT BPF_LD_W_ABS 0, BPF_JUMP BPF_JSET_K 0x40000000 (of_nat (6 + 255 - 4 - 1)) 0] @ ?tail"
  have tail: "bpf_exec ?tail a sd = Some (if a \<in> sq_nr ` set rules then deny else SECCOMP_RET_ALLOW)" for a
    by (rule rules_exec) (use assms in auto)
  have zero: "(of_nat (6 + 255 - 4 - 1) :: 8 word) = 0" by simp
  have one: "unat (1 :: 8 word) = Suc 0" by simp
  have nr: "load_word sd 0 = sd_nr sd" and arch: "load_word sd 4 = sd_arch sd" by (simp_all add: load_word_def)
  have "assemble rules = Inr ?prog" using assms(1) by (auto simp: assemble_def Let_def)
  moreover have "bpf_exec ?prog 0 sd = Some SECCOMP_RET_ALLOW"
    by (simp only: append_Cons append_Nil bpf_exec_simps nr arch assms(2) simp_thms if_True one zero unat_0 if_cancel drop_Suc_Cons
          drop_0 tail assms(3) if_False)
  ultimately show ?thesis by blast
qed

section \<open>Mount points\<close>

text \<open>What the probes below read from the host: sysctl files, canonical paths, the mount table, file system sizes, error texts.\<close>

record sandbox_host =
  sh_sysctl :: "string \<Rightarrow> string option"
  sh_canonical :: "string \<Rightarrow> string option"
  sh_exists :: "string \<Rightarrow> bool"
  sh_mounts :: "string option"
  sh_statvfs :: "string \<Rightarrow> (int \<times> int) option"
  sh_strerror :: "int \<Rightarrow> string"

text \<open>\<open>strtol\<close> with base ten: white space, a sign, digits, saturating; no digits is no number.\<close>

definition strtol :: "string \<Rightarrow> int option" where
  "strtol s =
     (let t = dropWhile isspace s;
          negative = (t \<noteq> [] \<and> hd t = CHR ''-'');
          u = (if t \<noteq> [] \<and> (hd t = CHR ''-'' \<or> hd t = CHR ''+'') then tl t else t);
          ds = takeWhile is_digit u;
          v = int (dec_value ds) in
      if ds = [] then None
      else Some (if negative then max (- int64_max - 1) (- v) else min int64_max v))"

definition read_sysctl_long :: "sandbox_host \<Rightarrow> string \<Rightarrow> int option" where
  "read_sysctl_long h path =
     (case sh_sysctl h path of
        None \<Rightarrow> None
      | Some content \<Rightarrow> let buffer = take 63 content in if buffer = [] then None else strtol buffer)"

definition octal_value :: "char \<Rightarrow> char \<Rightarrow> char \<Rightarrow> char" where
  "octal_value a b c =
     char_of (nat ((((int (of_char a) - 48) * 8 + (int (of_char b) - 48)) * 8 + (int (of_char c) - 48)) mod 256))"

fun decode_mount_field :: "string \<Rightarrow> string" where
  "decode_mount_field [] = []"
| "decode_mount_field (x # xs) =
     (case xs of
        a # b # c # rest \<Rightarrow>
          if x = CHR 0x5C \<and> (48 :: nat) \<le> of_char a \<and> of_char a \<le> (55 :: nat) then octal_value a b c # decode_mount_field rest
          else x # decode_mount_field xs
      | _ \<Rightarrow> x # decode_mount_field xs)"

definition getlines :: "string \<Rightarrow> string list" where
  "getlines s = (let ls = split_on (CHR 0x0A) s in if last ls = [] then butlast ls else ls)"

definition stream_word :: "string \<Rightarrow> (string \<times> string) option" where
  "stream_word s =
     (let t = dropWhile isspace s in
      if t = [] then None else Some (takeWhile (\<lambda>c. \<not> isspace c) t, dropWhile (\<lambda>c. \<not> isspace c) t))"

definition mount_fields :: "string \<Rightarrow> (string \<times> string) option" where
  "mount_fields line =
     (case stream_word line of None \<Rightarrow> None
      | Some (dev, s) \<Rightarrow> (case stream_word s of None \<Rightarrow> None
        | Some (mnt, s) \<Rightarrow> (case stream_word s of None \<Rightarrow> None | Some (type, s) \<Rightarrow> Some (mnt, type))))"

definition mount_covers :: "string \<Rightarrow> string \<Rightarrow> bool" where
  "mount_covers path decoded \<longleftrightarrow>
     decoded = ''/''
     \<or> take (length decoded) path = decoded \<and> (length path = length decoded \<or> path ! length decoded = CHR ''/'')"

definition mount_step :: "string \<Rightarrow> (string \<times> string) option \<times> nat \<Rightarrow> string \<Rightarrow> (string \<times> string) option \<times> nat" where
  "mount_step path st line =
     (case mount_fields line of
        None \<Rightarrow> st
      | Some (mnt, type) \<Rightarrow>
          let decoded = decode_mount_field mnt in
          if mount_covers path decoded \<and> snd st \<le> length decoded then (Some (type, decoded), length decoded) else st)"

definition find_mount_for :: "sandbox_host \<Rightarrow> string \<Rightarrow> (string \<times> string) option" where
  "find_mount_for h path =
     (case sh_mounts h of
        None \<Rightarrow> None
      | Some mounts \<Rightarrow> fst (foldl (mount_step path) (None, 0) (getlines mounts)))"

text \<open>\<open>fs::path::parent_path\<close> on POSIX paths: a path of slashes only is its own parent.\<close>

definition parent_path :: "string \<Rightarrow> string" where
  "parent_path p =
     (if dropWhile (\<lambda>c. c = CHR ''/'') p = [] then p
      else let q = rev (dropWhile (\<lambda>c. c = CHR ''/'') (dropWhile (\<lambda>c. c \<noteq> CHR ''/'') (rev p))) in
        if q = [] \<and> hd p = CHR ''/'' then ''/'' else q)"

lemma parent_path_shorter: "parent_path p \<noteq> p \<Longrightarrow> length (parent_path p) < length p"
proof -
  assume ne: "parent_path p \<noteq> p"
  define P where "P = (\<lambda>c. c = CHR ''/'')"
  let ?q = "dropWhile P (dropWhile (\<lambda>c. c \<noteq> CHR ''/'') (rev p))"
  from ne have rel: "dropWhile P p \<noteq> []" unfolding parent_path_def P_def by (auto split: if_splits)
  then have p: "p \<noteq> []" by auto
  have q: "length ?q < length p"
  proof (cases "CHR ''/'' \<in> set p")
    case False
    then have none: "dropWhile (\<lambda>c. c \<noteq> CHR ''/'') (rev p) = []" by (auto simp: dropWhile_eq_Nil_conv)
    show ?thesis unfolding none using p by simp
  next
    case True
    then obtain c cs where cs: "dropWhile (\<lambda>c. c \<noteq> CHR ''/'') (rev p) = c # cs"
      by (cases "dropWhile (\<lambda>c. c \<noteq> CHR ''/'') (rev p)") (auto simp: dropWhile_eq_Nil_conv)
    then have "P c" using hd_dropWhile[of "\<lambda>c. c \<noteq> CHR ''/''" "rev p"] by (simp add: P_def)
    then have "length ?q \<le> length cs" unfolding cs by (simp add: length_dropWhile_le)
    also have "\<dots> < length p" using cs length_dropWhile_le[of "\<lambda>c. c \<noteq> CHR ''/''" "rev p"] by simp
    finally show ?thesis .
  qed
  have "length (''/'') < length p" if "hd p = CHR ''/''"
  proof -
    have "p \<noteq> ''/''" using rel by (auto simp: P_def)
    then show ?thesis using p that by (cases p; cases "tl p") auto
  qed
  with q rel show ?thesis unfolding parent_path_def P_def by (simp add: Let_def)
qed

function climb_to_existing :: "(string \<Rightarrow> bool) \<Rightarrow> string \<Rightarrow> string" where
  "climb_to_existing ex current =
     (if current = [] \<or> ex current then current
      else let parent = parent_path current in if parent = current then current else climb_to_existing ex parent)"
  by pat_completeness auto
termination
  by (relation "measure (\<lambda>(ex, p). length p)") (auto simp: parent_path_shorter)

declare climb_to_existing.simps [simp del]

definition nearest_existing_path :: "sandbox_host \<Rightarrow> string \<Rightarrow> string" where
  "nearest_existing_path h path =
     (case sh_canonical h path of
        Some p \<Rightarrow> p
      | None \<Rightarrow>
          let current = climb_to_existing (sh_exists h) path in
          (case sh_canonical h current of Some c \<Rightarrow> c | None \<Rightarrow> current))"

definition path_is_tmpfs :: "sandbox_host \<Rightarrow> string \<Rightarrow> string + unit" where
  "path_is_tmpfs h path =
     (let target = nearest_existing_path h path in
      case find_mount_for h target of
        None \<Rightarrow> Inl (txt_no_mount @ target)
      | Some (fstype, mountpoint) \<Rightarrow>
          if fstype \<noteq> ''tmpfs''
          then Inl (txt_not_tmpfs_1 @ target @ txt_not_tmpfs_2 @ mountpoint @ txt_not_tmpfs_3 @ fstype @ txt_not_tmpfs_4)
          else Inr ())"

definition mount_capacity_bytes :: "sandbox_host \<Rightarrow> string \<Rightarrow> int" where
  "mount_capacity_bytes h path =
     (case sh_statvfs h (nearest_existing_path h path) of None \<Rightarrow> 0 | Some (f_blocks, f_frsize) \<Rightarrow> f_blocks * f_frsize)"

section \<open>Probing the kernel\<close>

datatype wait_status = WExited int | WSignaled int

record userns_probe =
  up_fork :: "int option"
  up_wait :: "int + wait_status"

definition sandbox_supported :: "sandbox_host \<Rightarrow> userns_probe \<Rightarrow> string + unit" where
  "sandbox_supported h probe =
     (if read_sysctl_long h ''/proc/sys/kernel/unprivileged_userns_clone'' = Some 0 then Inl txt_userns_disabled
      else if (case read_sysctl_long h ''/proc/sys/kernel/apparmor_restrict_unprivileged_userns'' of
                 None \<Rightarrow> False | Some v \<Rightarrow> v \<noteq> 0) then Inl txt_userns_apparmor
      else if read_sysctl_long h ''/proc/sys/user/max_user_namespaces'' = Some 0 then Inl txt_userns_none
      else case up_fork probe of
        Some e \<Rightarrow> Inl (txt_fork_probe @ sh_strerror h e)
      | None \<Rightarrow> (case up_wait probe of
          Inl e \<Rightarrow> Inl (txt_wait_probe @ sh_strerror h e)
        | Inr status \<Rightarrow> if status \<noteq> WExited 0 then Inl txt_userns_refused else Inr ()))"

section \<open>Reading the mount table\<close>

text \<open>
  The escapes of the mount table: the kernel writes a backslash and some other characters as a backslash and three octal digits.
  Which other characters are escaped does not matter.
\<close>

definition octal_digit :: "nat \<Rightarrow> char" where
  "octal_digit n = char_of (48 + n mod 8)"

definition encode_mount_field :: "(char \<Rightarrow> bool) \<Rightarrow> string \<Rightarrow> string" where
  "encode_mount_field esc s = concat (map (\<lambda>c.
     if esc c then [CHR 0x5C, octal_digit (of_char c div 64), octal_digit (of_char c div 8), octal_digit (of_char c)] else [c]) s)"

lemma of_char_octal_digit: "(of_char (octal_digit n) :: nat) = 48 + n mod 8"
  by (simp add: octal_digit_def of_char_of)

lemma octal_digit_range: "(48 :: nat) \<le> of_char (octal_digit n)" "of_char (octal_digit n) \<le> (55 :: nat)"
  unfolding of_char_octal_digit by presburger+

lemma octal_value_digits: "octal_value (octal_digit (of_char c div 64)) (octal_digit (of_char c div 8)) (octal_digit (of_char c)) = c"
proof -
  let ?n = "of_char c :: nat"
  have "?n < 256" by (rule nat_of_char_less_256)
  then have "?n < 8 * 64" by linarith
  then have "?n div 64 < 8" by (rule less_mult_imp_div_less)
  then have "?n div 64 mod 8 = ?n div 8 div 8" by (simp add: div_mult2_eq[symmetric])
  then have "(?n div 64 mod 8 * 8 + ?n div 8 mod 8) * 8 + ?n mod 8 = ?n" by (simp only: div_mult_mod_eq)
  then have "int ((?n div 64 mod 8 * 8 + ?n div 8 mod 8) * 8 + ?n mod 8) = int ?n" by (simp only:)
  then have "((int (?n div 64 mod 8)) * 8 + int (?n div 8 mod 8)) * 8 + int (?n mod 8) = int ?n"
    by (simp only: of_nat_add of_nat_mult of_nat_numeral)
  moreover have "int ?n mod 256 = int ?n" using \<open>?n < 256\<close> by simp
  ultimately show ?thesis
    unfolding octal_value_def of_char_octal_digit of_nat_add of_nat_numeral add_diff_cancel_left'
    by (simp only: nat_int char_of_char)
qed

lemma decode_mount_field_plain: "x \<noteq> CHR 0x5C \<Longrightarrow> decode_mount_field (x # xs) = x # decode_mount_field xs"
  by (auto split: list.splits)

lemma decode_mount_field_escape:
  "decode_mount_field (CHR 0x5C # octal_digit (of_char c div 64) # octal_digit (of_char c div 8) # octal_digit (of_char c) # rest)
     = c # decode_mount_field rest"
  by (subst decode_mount_field.simps) (simp only: list.case octal_digit_range simp_thms if_True octal_value_digits)

text \<open>
  Decoding a field of the mount table inverts the escaping of the kernel, whatever set of characters is escaped, as long as
  the backslash is among them.
\<close>

theorem mount_field_roundtrip:
  assumes "esc (CHR 0x5C)"
  shows "decode_mount_field (encode_mount_field esc s) = s"
proof (induction s)
  case Nil
  then show ?case by (simp add: encode_mount_field_def)
next
  case (Cons c s)
  have enc: "encode_mount_field esc (c # s) = (if esc c
      then [CHR 0x5C, octal_digit (of_char c div 64), octal_digit (of_char c div 8), octal_digit (of_char c)] else [c])
      @ encode_mount_field esc s" by (simp add: encode_mount_field_def)
  show ?case
  proof (cases "esc c")
    case True
    then show ?thesis unfolding enc by (simp only: if_True append_Cons append_Nil decode_mount_field_escape Cons.IH)
  next
    case False
    with assms have "c \<noteq> CHR 0x5C" by auto
    with False show ?thesis
      unfolding enc by (simp only: if_False append_Cons append_Nil decode_mount_field_plain Cons.IH not_False_eq_True)
  qed
qed

theorem mount_field_roundtrip_witness:
  "decode_mount_field (encode_mount_field (\<lambda>c. c = CHR 0x5C \<or> c = CHR '' '') (''/mnt/a b'' @ [CHR 0x5C])) = ''/mnt/a b'' @ [CHR 0x5C]"
  by (rule mount_field_roundtrip) simp

text \<open>The mounts that cover a path, in the order of the table, and the choice among them.\<close>

definition mount_entries :: "string \<Rightarrow> (string \<times> string) list" where
  "mount_entries mounts = List.map_filter (\<lambda>line.
     map_option (\<lambda>(mnt, type). (type, decode_mount_field mnt)) (mount_fields line)) (getlines mounts)"

definition covering_entries :: "string \<Rightarrow> string \<Rightarrow> (string \<times> string) list" where
  "covering_entries mounts path = filter (\<lambda>(type, d). mount_covers path d) (mount_entries mounts)"

definition pick_longest :: "(string \<times> string) option \<times> nat \<Rightarrow> string \<times> string \<Rightarrow> (string \<times> string) option \<times> nat" where
  "pick_longest st e = (if snd st \<le> length (snd e) then (Some e, length (snd e)) else st)"

lemma mount_steps_pick:
  "foldl (mount_step path) st lines = foldl pick_longest st (filter (\<lambda>(type, d). mount_covers path d)
     (List.map_filter (\<lambda>line. map_option (\<lambda>(mnt, type). (type, decode_mount_field mnt)) (mount_fields line)) lines))"
proof (induction lines arbitrary: st)
  case Nil
  then show ?case by (simp add: map_filter_simps)
next
  case (Cons line lines)
  then show ?case
    by (auto simp: map_filter_simps mount_step_def pick_longest_def Let_def split: option.splits)
qed

definition last_longest :: "(string \<times> string) list \<Rightarrow> string \<times> string \<Rightarrow> bool" where
  "last_longest es e \<longleftrightarrow> (\<exists>before after. es = before @ e # after
     \<and> (\<forall>e' \<in> set before. length (snd e') \<le> length (snd e)) \<and> (\<forall>e' \<in> set after. length (snd e') < length (snd e)))"

lemma last_longest_snoc_new:
  "\<forall>e' \<in> set es. length (snd e') \<le> length (snd e) \<Longrightarrow> last_longest (es @ [e]) e"
  unfolding last_longest_def by (rule exI[of _ es], rule exI[of _ "[]"]) simp

lemma last_longest_snoc_old:
  assumes "last_longest es e" and "length (snd x) < length (snd e)"
  shows "last_longest (es @ [x]) e"
proof -
  from assms(1) obtain b a where "es = b @ e # a" "\<forall>e' \<in> set b. length (snd e') \<le> length (snd e)"
    "\<forall>e' \<in> set a. length (snd e') < length (snd e)" unfolding last_longest_def by auto
  then show ?thesis unfolding last_longest_def using assms(2) by (intro exI[of _ b] exI[of _ "a @ [x]"]) auto
qed

lemma last_longest_bound: "last_longest es e \<Longrightarrow> e' \<in> set es \<Longrightarrow> length (snd e') \<le> length (snd e)"
  unfolding last_longest_def by (fastforce dest: less_imp_le)

lemma last_longest_unique: "last_longest es e \<Longrightarrow> last_longest es e' \<Longrightarrow> e = e'"
proof -
  assume e: "last_longest es e" and e': "last_longest es e'"
  have mem: "x \<in> set es" if "last_longest es x" for x using that unfolding last_longest_def by auto
  have "e \<in> set es" "e' \<in> set es" using mem e e' by blast+
  then have len: "length (snd e) = length (snd e')"
    using last_longest_bound[OF e, of e'] last_longest_bound[OF e', of e] by simp
  from e obtain b a where 1: "es = b @ e # a" "\<forall>x \<in> set a. length (snd x) < length (snd e)" unfolding last_longest_def by auto
  from e' obtain b' a' where 2: "es = b' @ e' # a'" "\<forall>x \<in> set a'. length (snd x) < length (snd e')"
    unfolding last_longest_def by auto
  let ?Q = "\<lambda>x. length (snd x) = length (snd e)"
  have "filter ?Q es = filter ?Q b @ [e]" using 1 by (auto simp: filter_empty_conv)
  moreover have "filter ?Q es = filter ?Q b' @ [e']" using 2 len by (auto simp: filter_empty_conv)
  ultimately show "e = e'" by simp
qed

lemma foldl_pick_longest:
  "(es = [] \<and> foldl pick_longest (None, 0) es = (None, 0))
   \<or> (\<exists>e. foldl pick_longest (None, 0) es = (Some e, length (snd e)) \<and> last_longest es e)"
proof (induction es rule: rev_induct)
  case Nil
  then show ?case by simp
next
  case (snoc x es)
  from snoc show ?case
  proof (elim disjE exE conjE)
    assume "es = []" "foldl pick_longest (None, 0) es = (None, 0)"
    then show ?thesis by (simp add: pick_longest_def last_longest_snoc_new[of "[]", simplified])
  next
    fix e assume e: "foldl pick_longest (None, 0) es = (Some e, length (snd e))" "last_longest es e"
    show ?thesis
    proof (cases "length (snd e) \<le> length (snd x)")
      case True
      then have "last_longest (es @ [x]) x"
        by (intro last_longest_snoc_new ballI) (rule order_trans[OF last_longest_bound[OF e(2)]])
      moreover have "foldl pick_longest (None, 0) (es @ [x]) = (Some x, length (snd x))"
        using True e(1) by (simp add: pick_longest_def[of "(Some e, length (snd e))"])
      ultimately show ?thesis by blast
    next
      case False
      then have "last_longest (es @ [x]) e" using e(2) by (intro last_longest_snoc_old) auto
      moreover have "foldl pick_longest (None, 0) (es @ [x]) = (Some e, length (snd e))"
        using False e(1) by (simp add: pick_longest_def[of "(Some e, length (snd e))"])
      ultimately show ?thesis by blast
    qed
  qed
qed

text \<open>
  The mount found for a path is the last one of the longest mount points that cover the path, and there is none only if no
  entry of the table covers it.
\<close>

theorem find_mount_correct:
  "find_mount_for h path = Some e \<longleftrightarrow> (\<exists>mounts. sh_mounts h = Some mounts \<and> last_longest (covering_entries mounts path) e)"
proof (cases "sh_mounts h")
  case None
  then show ?thesis by (simp add: find_mount_for_def)
next
  case (Some mounts)
  have f: "find_mount_for h path = fst (foldl pick_longest (None, 0) (covering_entries mounts path))"
    using Some by (simp add: find_mount_for_def mount_steps_pick covering_entries_def mount_entries_def)
  from foldl_pick_longest[of "covering_entries mounts path"] show ?thesis
  proof (elim disjE exE conjE)
    assume "covering_entries mounts path = []" "foldl pick_longest (None, 0) (covering_entries mounts path) = (None, 0)"
    then show ?thesis using Some f by (simp add: last_longest_def)
  next
    fix e' assume "foldl pick_longest (None, 0) (covering_entries mounts path) = (Some e', length (snd e'))"
      "last_longest (covering_entries mounts path) e'"
    then show ?thesis using Some f last_longest_unique[of "covering_entries mounts path" e' e] by auto
  qed
qed

text \<open>Climbing to an ancestor that exists: it ends at one, or at a path without a parent.\<close>

lemma climb_to_existing_result:
  "let p = climb_to_existing ex path in p = [] \<or> ex p \<or> parent_path p = p"
proof (induction ex path rule: climb_to_existing.induct)
  case (1 ex current)
  show ?case
  proof (cases "current = [] \<or> ex current \<or> parent_path current = current")
    case True
    then have "climb_to_existing ex current = current" by (subst climb_to_existing.simps) (auto simp: Let_def)
    then show ?thesis using True by (simp add: Let_def)
  next
    case False
    then have "climb_to_existing ex current = climb_to_existing ex (parent_path current)"
      by (subst climb_to_existing.simps) (auto simp: Let_def)
    then show ?thesis using "1.IH"[OF _ refl] False by (simp add: Let_def)
  qed
qed

end
