(* ===== verification/OJ_Sandbox_Root.thy ===== *)
theory OJ_Sandbox_Root
  imports OJ_Sandbox
begin

text \<open>
  What the child process does before it runs judged code (the second half of \<open>judge/sandbox.cpp\<close>): it builds a root directory, enters
  it, lowers its resource limits and installs the system call filter. The child is a sequence of system calls. The kernel
  is a parameter that answers each call, possibly with an error, depending on all calls before; an operation of the child
  returns the calls it made together with its result, so that statements about order are statements about lists.
\<close>

section \<open>System calls and their results\<close>

datatype mount_flag = MS_BIND | MS_REC | MS_PRIVATE | MS_REMOUNT | MS_RDONLY

datatype rlimit_resource = RLIMIT_CPU | RLIMIT_FSIZE | RLIMIT_STACK | RLIMIT_NOFILE | RLIMIT_CORE | RLIMIT_AS

datatype syscall =
    SysMount "string option" string "string option" "mount_flag list" "string option"
  | SysMkdir string
  | SysSymlink string string
  | SysOpenRead string
  | SysOpenWrite string
  | SysRead int
  | SysWrite int string
  | SysClose int
  | SysChmod string
  | SysChroot string
  | SysChdir string
  | SysSetrlimit rlimit_resource int int
  | SysNoNewPrivs
  | SysSeccomp "sock_filter list"
  | SysUnshare
  | SysDup2 int int
  | SysCloseRange int "int option"
  | SysGetrlimit
  | SysExecve string "string list" "string list"

text \<open>A call fails with an error number, or returns a value and, for a read, the bytes.\<close>

datatype sys_result = SErr int | SOk int string

type_synonym trace = "(syscall \<times> sys_result) list"
type_synonym kernel = "trace \<Rightarrow> syscall \<Rightarrow> sys_result"

text \<open>An operation of the child: from the calls made before to its result and the calls it made itself. No value is no return.\<close>

type_synonym 'a child = "trace \<Rightarrow> (((sandbox_stage \<times> int) + 'a) \<times> trace) option"

definition child_return :: "'a \<Rightarrow> 'a child" where
  "child_return x = (\<lambda>tr. Some (Inr x, []))"

definition child_fail :: "sandbox_stage \<Rightarrow> int \<Rightarrow> 'a child" where
  "child_fail stage e = (\<lambda>tr. Some (Inl (stage, e), []))"

definition child_bind :: "'a child \<Rightarrow> ('a \<Rightarrow> 'b child) \<Rightarrow> 'b child" where
  "child_bind m f = (\<lambda>tr.
     case m tr of
       None \<Rightarrow> None
     | Some (Inl e, n) \<Rightarrow> Some (Inl e, n)
     | Some (Inr x, n) \<Rightarrow> (case f x (tr @ n) of None \<Rightarrow> None | Some (r, n') \<Rightarrow> Some (r, n @ n')))"

primrec child_seq :: "unit child list \<Rightarrow> unit child" where
  "child_seq [] = child_return ()"
| "child_seq (m # ms) = child_bind m (\<lambda>_. child_seq ms)"

definition issue :: "kernel \<Rightarrow> syscall \<Rightarrow> sys_result child" where
  "issue k c = (\<lambda>tr. Some (Inr (k tr c), [(c, k tr c)]))"

definition must :: "kernel \<Rightarrow> sandbox_stage \<Rightarrow> syscall \<Rightarrow> unit child" where
  "must k stage c = child_bind (issue k c) (\<lambda>r. case r of SErr e \<Rightarrow> child_fail stage e | SOk v d \<Rightarrow> child_return ())"

definition attempt :: "kernel \<Rightarrow> syscall \<Rightarrow> unit child" where
  "attempt k c = child_bind (issue k c) (\<lambda>r. child_return ())"

text \<open>\<open>errno\<close> keeps the error of the last call that failed.\<close>

definition errno :: "trace \<Rightarrow> int" where
  "errno tr = foldl (\<lambda>e (c, r). case r of SErr e' \<Rightarrow> e' | SOk v d \<Rightarrow> e) 0 tr"

definition fail_errno :: "sandbox_stage \<Rightarrow> 'a child" where
  "fail_errno stage = (\<lambda>tr. Some (Inl (stage, errno tr), []))"

definition EINTR :: int where "EINTR = 4"
definition EIO :: int where "EIO = 5"
definition EEXIST :: int where "EEXIST = 17"
definition EINVAL :: int where "EINVAL = 22"
definition ENAMETOOLONG :: int where "ENAMETOOLONG = 36"

section \<open>Helpers with fixed buffers\<close>

text \<open>\<open>snprintf\<close> into a buffer of 1024 bytes: a longer text is cut, and the length that was needed is what gets checked.\<close>

definition join_path :: "string \<Rightarrow> string \<Rightarrow> string option" where
  "join_path base sfx = (let s = base @ sfx in if s \<noteq> [] \<and> length s < 1024 then Some s else None)"

definition mount_bind_readonly :: "kernel \<Rightarrow> string \<Rightarrow> string \<Rightarrow> unit child" where
  "mount_bind_readonly k src dst = child_seq
     [must k StRoot (SysMount (Some src) dst None [MS_BIND, MS_REC] None),
      attempt k (SysMount None dst None [MS_BIND, MS_REMOUNT, MS_RDONLY, MS_REC] None)]"

definition base_name_ptr :: "string \<Rightarrow> string" where
  "base_name_ptr path = rev (takeWhile (\<lambda>c. c \<noteq> CHR ''/'') (rev path))"

text \<open>
  Copying: read a block, write it until nothing is left of it, repeat; interrupted calls are repeated. \<open>pending\<close> is the part of the
  block that is not written yet.
\<close>

partial_function (option) copy_loop :: "kernel \<Rightarrow> int \<Rightarrow> int \<Rightarrow> string \<Rightarrow> trace \<Rightarrow> (int \<times> trace) option" where
  "copy_loop k fd_in fd_out pending tr =
     (if pending = [] then
        (let c = SysRead fd_in; r = k tr c in
         case r of
           SErr e \<Rightarrow> if e = EINTR then Option.bind (copy_loop k fd_in fd_out [] (tr @ [(c, r)])) (\<lambda>(v, n). Some (v, (c, r) # n))
                     else Some (- 1, [(c, r)])
         | SOk v d \<Rightarrow> if d = [] then Some (0, [(c, r)])
                     else Option.bind (copy_loop k fd_in fd_out d (tr @ [(c, r)])) (\<lambda>(v, n). Some (v, (c, r) # n)))
      else
        (let c = SysWrite fd_out pending; r = k tr c in
         case r of
           SErr e \<Rightarrow> if e = EINTR then Option.bind (copy_loop k fd_in fd_out pending (tr @ [(c, r)])) (\<lambda>(v, n). Some (v, (c, r) # n))
                     else Some (- 1, [(c, r)])
         | SOk w d \<Rightarrow> Option.bind (copy_loop k fd_in fd_out (drop (nat w) pending) (tr @ [(c, r)])) (\<lambda>(v, n). Some (v, (c, r) # n))))"

definition copy_file_executable :: "kernel \<Rightarrow> string \<Rightarrow> string \<Rightarrow> int child" where
  "copy_file_executable k src dst_dir =
     (let dst = dst_dir @ ''/'' @ base_name_ptr src in
      if 1024 \<le> length dst then child_return (- 1)
      else child_bind (issue k (SysOpenRead src)) (\<lambda>r. case r of
        SErr e \<Rightarrow> child_return (- 1)
      | SOk fd_in d \<Rightarrow> child_bind (issue k (SysOpenWrite dst)) (\<lambda>r. case r of
          SErr e \<Rightarrow> child_bind (attempt k (SysClose fd_in)) (\<lambda>_. child_return (- 1))
        | SOk fd_out d \<Rightarrow> child_bind (\<lambda>tr. map_option (\<lambda>(v, n). (Inr v, n)) (copy_loop k fd_in fd_out [] tr)) (\<lambda>result.
            child_bind (child_seq ([attempt k (SysClose fd_in), attempt k (SysClose fd_out)]
              @ (if result = 0 then [attempt k (SysChmod dst)] else []))) (\<lambda>_. child_return result)))))"

section \<open>Entering the root directory\<close>

definition tmpfs_options :: "nat \<Rightarrow> string" where
  "tmpfs_options mb = ''size='' @ nat_to_string mb @ ''M,mode=755''"

definition run_box_tmpfs_mb :: nat where "run_box_tmpfs_mb = 64"

definition kSandboxBoxPath :: string where "kSandboxBoxPath = ''/box''"
definition kSandboxToolsPath :: string where "kSandboxToolsPath = ''/oj-tools''"

text \<open>Each step below is a piece of \<open>sandbox_enter_root\<close> with its own early returns.\<close>

definition make_root_dir :: "kernel \<Rightarrow> string \<Rightarrow> unit child" where
  "make_root_dir k root_dir = child_bind (issue k (SysMkdir root_dir)) (\<lambda>r. case r of
     SErr e \<Rightarrow> if e \<noteq> EEXIST then child_fail StRoot e else child_return ()
   | SOk v d \<Rightarrow> child_return ())"

definition make_dir :: "kernel \<Rightarrow> string \<Rightarrow> string \<Rightarrow> unit child" where
  "make_dir k root_dir name =
     (case join_path root_dir [] of
        None \<Rightarrow> child_fail StRoot ENAMETOOLONG
      | Some _ \<Rightarrow> attempt k (SysMkdir (take 1023 (root_dir @ ''/'' @ name))))"

definition bind_usr :: "kernel \<Rightarrow> string \<Rightarrow> unit child" where
  "bind_usr k root_dir =
     (case join_path root_dir ''/usr'' of
        None \<Rightarrow> fail_errno StRoot
      | Some path \<Rightarrow> mount_bind_readonly k ''/usr'' path)"

definition make_symlink :: "kernel \<Rightarrow> string \<Rightarrow> string \<times> string \<Rightarrow> unit child" where
  "make_symlink k root_dir entry =
     (case join_path root_dir (snd entry) of
        None \<Rightarrow> child_fail StRoot ENAMETOOLONG
      | Some path \<Rightarrow> attempt k (SysSymlink (fst entry) path))"

definition mount_proc :: "kernel \<Rightarrow> string \<Rightarrow> unit child" where
  "mount_proc k root_dir =
     (case join_path root_dir ''/proc'' of
        None \<Rightarrow> child_fail StRoot ENAMETOOLONG
      | Some path \<Rightarrow> must k StRoot (SysMount (Some ''proc'') path (Some ''proc'') [] None))"

definition make_device :: "kernel \<Rightarrow> string \<Rightarrow> string \<Rightarrow> unit child" where
  "make_device k root_dir name =
     (let host_dev = ''/dev/'' @ name; local_dev = root_dir @ ''/dev/'' @ name in
      if 1024 \<le> length local_dev then child_fail StRoot ENAMETOOLONG
      else child_bind (issue k (SysOpenWrite local_dev)) (\<lambda>r. child_seq
        ((case r of SErr e \<Rightarrow> [] | SOk fd d \<Rightarrow> [attempt k (SysClose fd)])
         @ [attempt k (SysMount (Some host_dev) local_dev None [MS_BIND] None)])))"

definition copy_program :: "kernel \<Rightarrow> string option \<Rightarrow> string \<Rightarrow> unit child" where
  "copy_program k run_program_src path =
     (case run_program_src of
        None \<Rightarrow> child_return ()
      | Some src \<Rightarrow>
          if src = [] then child_return ()
          else child_bind (copy_file_executable k src path) (\<lambda>result.
            if result = 0 then child_return ()
            else (\<lambda>tr. Some (Inl (StRoot, if errno tr \<noteq> 0 then errno tr else EIO), []))))"

definition box_readonly :: "kernel \<Rightarrow> string \<Rightarrow> unit child" where
  "box_readonly k path = child_bind (issue k (SysMount None path None [MS_BIND, MS_REMOUNT, MS_RDONLY] None)) (\<lambda>r. case r of
     SOk v d \<Rightarrow> child_return ()
   | SErr e \<Rightarrow> must k StRoot (SysMount (Some ''tmpfs'') path (Some ''tmpfs'') [MS_REMOUNT, MS_RDONLY] (Some (tmpfs_options run_box_tmpfs_mb))))"

definition build_box :: "kernel \<Rightarrow> string \<Rightarrow> string \<Rightarrow> bool \<Rightarrow> string option \<Rightarrow> unit child" where
  "build_box k workspace root_dir compile_phase run_program_src =
     (case join_path root_dir kSandboxBoxPath of
        None \<Rightarrow> child_fail StRoot ENAMETOOLONG
      | Some path \<Rightarrow>
          if compile_phase then must k StRoot (SysMount (Some workspace) path None [MS_BIND] None)
          else child_seq
            [must k StRoot (SysMount (Some ''tmpfs'') path (Some ''tmpfs'') [] (Some (tmpfs_options run_box_tmpfs_mb))),
             copy_program k run_program_src path,
             box_readonly k path])"

definition extra_bind :: "kernel \<Rightarrow> string \<Rightarrow> string option \<Rightarrow> string option \<Rightarrow> unit child" where
  "extra_bind k root_dir extra_bind_src extra_bind_dst =
     (case (extra_bind_src, extra_bind_dst) of
        (Some src, Some dst_path) \<Rightarrow>
          if src = [] \<or> dst_path = [] then child_return ()
          else let dst = root_dir @ dst_path in
            if 1024 \<le> length dst then child_fail StRoot ENAMETOOLONG
            else child_seq [attempt k (SysMkdir dst), mount_bind_readonly k src dst]
      | _ \<Rightarrow> child_return ())"

definition root_directories :: "string list" where
  "root_directories = [''usr'', ''etc'', ''proc'', ''dev'', ''tmp'', ''box'']"

definition root_symlinks :: "(string \<times> string) list" where
  "root_symlinks = [(''usr/lib'', ''/lib''), (''usr/lib64'', ''/lib64''), (''usr/bin'', ''/bin''), (''usr/sbin'', ''/sbin'')]"

definition root_devices :: "string list" where
  "root_devices = [''null'', ''zero'', ''urandom'', ''random'', ''full'']"

definition sandbox_enter_root ::
  "kernel \<Rightarrow> string \<Rightarrow> string \<Rightarrow> string option \<Rightarrow> string option \<Rightarrow> bool \<Rightarrow> string option \<Rightarrow> nat \<Rightarrow> unit child" where
  "sandbox_enter_root k workspace root_dir extra_bind_src extra_bind_dst compile_phase run_program_src tmpfs_mb = child_seq
     ([must k StRoot (SysMount (Some []) ''/'' None [MS_REC, MS_PRIVATE] None),
       make_root_dir k root_dir,
       must k StRoot (SysMount (Some ''tmpfs'') root_dir (Some ''tmpfs'') [] (Some (tmpfs_options tmpfs_mb)))]
      @ map (make_dir k root_dir) root_directories
      @ [bind_usr k root_dir]
      @ map (make_symlink k root_dir) root_symlinks
      @ [mount_proc k root_dir]
      @ map (make_device k root_dir) root_devices
      @ [build_box k workspace root_dir compile_phase run_program_src,
         extra_bind k root_dir extra_bind_src extra_bind_dst,
         must k StChroot (SysChroot root_dir),
         must k StChdir (SysChdir kSandboxBoxPath)])"

section \<open>Limits and filter\<close>

definition set_limit :: "kernel \<Rightarrow> rlimit_resource \<times> int \<Rightarrow> unit child" where
  "set_limit k spec = must k StLimits (SysSetrlimit (fst spec) (snd spec)
     (if fst spec = RLIMIT_CPU then snd spec + 1 else snd spec))"

definition sandbox_apply_limits :: "kernel \<Rightarrow> sandbox_limits \<Rightarrow> unit child" where
  "sandbox_apply_limits k limits = child_seq
     (map (set_limit k)
        [(RLIMIT_CPU, sl_cpu_limit_sec limits), (RLIMIT_FSIZE, sl_fsize_limit_bytes limits),
         (RLIMIT_STACK, sl_stack_limit_bytes limits), (RLIMIT_NOFILE, sl_nofile_limit limits),
         (RLIMIT_CORE, sl_core_limit_bytes limits)]
      @ (if sl_set_address_space limits
         then [must k StLimits (SysSetrlimit RLIMIT_AS (sl_address_space_kb limits * 1024) (sl_address_space_kb limits * 1024))]
         else []))"

definition sandbox_apply_seccomp :: "kernel \<Rightarrow> sock_filter list \<Rightarrow> unit child" where
  "sandbox_apply_seccomp k program =
     (if program = [] then child_fail StSeccomp EINVAL
      else child_seq [must k StSeccomp SysNoNewPrivs, must k StSeccomp (SysSeccomp (take (length program mod 65536) program))])"

section \<open>Reasoning about the child\<close>

text \<open>
  Two judgements: which calls an operation may make at all, also when it fails (\<open>only\<close>), and what a successful run looks like (\<open>yields\<close>).
\<close>

definition only :: "(syscall \<Rightarrow> bool) \<Rightarrow> 'a child \<Rightarrow> bool" where
  "only P m \<longleftrightarrow> (\<forall>tr r n. m tr = Some (r, n) \<longrightarrow> list_all P (map fst n))"

definition yields :: "'a child \<Rightarrow> trace \<Rightarrow> 'a \<Rightarrow> trace \<Rightarrow> bool" where
  "yields m tr x n \<longleftrightarrow> m tr = Some (Inr x, n)"

named_theorems child_only

lemma only_return [child_only]: "only P (child_return x)"
  by (simp add: only_def child_return_def)

lemma only_fail [child_only]: "only P (child_fail stage e)" "only P (fail_errno stage)" "only P (\<lambda>tr. Some (Inl (f tr), []))"
  by (simp_all add: only_def child_fail_def fail_errno_def)

lemma only_bind [child_only]:
  assumes "only P m" and "\<And>x. only P (f x)"
  shows "only P (child_bind m f)"
  unfolding only_def
proof (intro allI impI)
  fix tr r n assume run: "child_bind m f tr = Some (r, n)"
  from run obtain r' n1 where m: "m tr = Some (r', n1)" unfolding child_bind_def by (auto split: option.splits)
  with assms(1) have P1: "list_all P (map fst n1)" unfolding only_def by blast
  show "list_all P (map fst n)"
  proof (cases r')
    case (Inl e)
    with run m P1 show ?thesis by (simp add: child_bind_def)
  next
    case (Inr x)
    with run m obtain n2 where n: "f x (tr @ n1) = Some (r, n2)" "n = n1 @ n2"
      unfolding child_bind_def by (auto split: option.splits)
    with assms(2)[of x] have "list_all P (map fst n2)" unfolding only_def by blast
    with P1 n(2) show ?thesis by auto
  qed
qed

lemma only_issue [child_only]: "P c \<Longrightarrow> only P (issue k c)"
  by (simp add: only_def issue_def)

lemma only_must [child_only]: "P c \<Longrightarrow> only P (must k stage c)"
  unfolding must_def by (intro child_only) (auto intro: child_only split: sys_result.splits)

lemma only_attempt [child_only]: "P c \<Longrightarrow> only P (attempt k c)"
  unfolding attempt_def by (intro child_only)

lemma only_seq [child_only]: "(\<And>m. m \<in> set ms \<Longrightarrow> only P m) \<Longrightarrow> only P (child_seq ms)"
  by (induction ms) (auto intro!: child_only)

lemma onlyD: "only P m \<Longrightarrow> m tr = Some (r, n) \<Longrightarrow> (c, r') \<in> set n \<Longrightarrow> P c"
  unfolding only_def by (force simp: list_all_iff)

lemma only_yields: "only P m \<Longrightarrow> yields m tr x n \<Longrightarrow> (c, r) \<in> set n \<Longrightarrow> P c"
  unfolding yields_def by (rule onlyD)

lemma yields_return [simp]: "yields (child_return x) tr y n \<longleftrightarrow> y = x \<and> n = []"
  by (auto simp: yields_def child_return_def)

lemma yields_fail [simp]: "\<not> yields (child_fail stage e) tr y n" "\<not> yields (fail_errno stage) tr y n"
    "\<not> yields (\<lambda>tr. Some (Inl (f tr), [])) tr y n"
  by (simp_all add: yields_def child_fail_def fail_errno_def)

lemma yields_bind: "yields (child_bind m f) tr y n
    \<longleftrightarrow> (\<exists>x n1 n2. yields m tr x n1 \<and> yields (f x) (tr @ n1) y n2 \<and> n = n1 @ n2)"
  unfolding yields_def child_bind_def by (auto split: option.splits sum.splits)

lemma yields_issue [simp]: "yields (issue k c) tr r n \<longleftrightarrow> r = k tr c \<and> n = [(c, k tr c)]"
  by (auto simp: yields_def issue_def)

lemma yields_must [simp]: "yields (must k stage c) tr u n \<longleftrightarrow> (\<exists>v d. k tr c = SOk v d \<and> n = [(c, SOk v d)])"
  unfolding must_def by (auto simp: yields_bind split: sys_result.splits)

lemma yields_attempt [simp]: "yields (attempt k c) tr u n \<longleftrightarrow> n = [(c, k tr c)]"
  unfolding attempt_def by (auto simp: yields_bind)

lemma yields_seq_Nil [simp]: "yields (child_seq []) tr u n \<longleftrightarrow> n = []"
  by simp

lemma yields_seq_Cons: "yields (child_seq (m # ms)) tr () n
    \<longleftrightarrow> (\<exists>n1 n2. yields m tr () n1 \<and> yields (child_seq ms) (tr @ n1) () n2 \<and> n = n1 @ n2)"
  by (simp add: yields_bind)

declare child_seq.simps(2) [simp del]

lemma yields_seq_append: "yields (child_seq (ms @ ms')) tr () n
    \<longleftrightarrow> (\<exists>n1 n2. yields (child_seq ms) tr () n1 \<and> yields (child_seq ms') (tr @ n1) () n2 \<and> n = n1 @ n2)"
proof (induction ms arbitrary: tr n)
  case Nil
  then show ?case by simp
next
  case (Cons m ms)
  let ?three = "\<exists>n1 a b. yields m tr () n1 \<and> yields (child_seq ms) (tr @ n1) () a \<and> yields (child_seq ms') (tr @ n1 @ a) () b
      \<and> n = n1 @ a @ b"
  have "yields (child_seq ((m # ms) @ ms')) tr () n \<longleftrightarrow> ?three"
    unfolding append_Cons yields_seq_Cons Cons.IH append_assoc by blast
  moreover have "?three" if "yields (child_seq (m # ms)) tr () n1" "yields (child_seq ms') (tr @ n1) () n2" "n = n1 @ n2" for n1 n2
  proof -
    from that(1) obtain a b where "yields m tr () a" "yields (child_seq ms) (tr @ a) () b" "n1 = a @ b"
      unfolding yields_seq_Cons by blast
    with that(2,3) show ?three by (intro exI[of _ a] exI[of _ b] exI[of _ n2]) simp
  qed
  moreover have "\<exists>n1 n2. yields (child_seq (m # ms)) tr () n1 \<and> yields (child_seq ms') (tr @ n1) () n2 \<and> n = n1 @ n2" if ?three
  proof -
    from that obtain a b c where "yields m tr () a" "yields (child_seq ms) (tr @ a) () b" "yields (child_seq ms') (tr @ a @ b) () c"
      "n = a @ b @ c" by blast
    then have "yields (child_seq (m # ms)) tr () (a @ b) \<and> yields (child_seq ms') (tr @ (a @ b)) () c \<and> n = (a @ b) @ c"
      by (auto simp: yields_seq_Cons)
    then show ?thesis by blast
  qed
  ultimately show ?case by blast
qed

section \<open>The copy\<close>

definition data_written :: "trace \<Rightarrow> string" where
  "data_written n = concat (map (\<lambda>(c, r). case c of
     SysWrite fd b \<Rightarrow> (case r of SOk w d \<Rightarrow> take (nat w) b | SErr e \<Rightarrow> []) | _ \<Rightarrow> []) n)"

definition data_read :: "trace \<Rightarrow> string" where
  "data_read n = concat (map (\<lambda>(c, r). case c of SysRead fd \<Rightarrow> (case r of SOk v d \<Rightarrow> d | SErr e \<Rightarrow> []) | _ \<Rightarrow> []) n)"

lemma data_written_simps [simp]:
  "data_written [] = []"
  "data_written ((SysRead fd, r) # n) = data_written n"
  "data_written ((SysWrite fd b, SErr e) # n) = data_written n"
  "data_written ((SysWrite fd b, SOk w d) # n) = take (nat w) b @ data_written n"
  by (simp_all add: data_written_def)

lemma data_read_simps [simp]:
  "data_read [] = []"
  "data_read ((SysRead fd, SErr e) # n) = data_read n"
  "data_read ((SysRead fd, SOk v d) # n) = d @ data_read n"
  "data_read ((SysWrite fd b, r) # n) = data_read n"
  by (simp_all add: data_read_def)

definition copy_call :: "int \<Rightarrow> int \<Rightarrow> syscall \<Rightarrow> bool" where
  "copy_call fd_in fd_out c \<longleftrightarrow> c = SysRead fd_in \<or> (\<exists>b. c = SysWrite fd_out b)"

lemma copy_call_simps [simp]: "copy_call fd_in fd_out (SysRead fd_in)" "copy_call fd_in fd_out (SysWrite fd_out b)"
  by (simp_all add: copy_call_def)

lemma copy_loop_spec:
  assumes "copy_loop k fd_in fd_out pending tr = Some y"
  shows "list_all (copy_call fd_in fd_out) (map fst (snd y))
    \<and> (fst y = 0 \<longrightarrow> data_written (snd y) = pending @ data_read (snd y))"
proof (rule copy_loop.raw_induct[where P = "\<lambda>k fd_in fd_out pending tr y. list_all (copy_call fd_in fd_out) (map fst (snd y))
    \<and> (fst y = 0 \<longrightarrow> data_written (snd y) = pending @ data_read (snd y))", OF _ assms], goal_cases)
  case (1 loop k fd_in fd_out pending tr y)
  note IH = 1(1) and run = 1(2)
  show ?case
  proof (cases "pending = []")
    case True
    let ?c = "SysRead fd_in"
    from True run have "(\<exists>e. y = (- 1, [(?c, SErr e)])) \<or> (\<exists>v. y = (0, [(?c, SOk v [])]))
        \<or> (\<exists>v n r. y = (v, (?c, SErr EINTR) # n) \<and> loop k fd_in fd_out [] (tr @ [(?c, SErr EINTR)]) = Some (v, n))
        \<or> (\<exists>v n w d. y = (v, (?c, SOk w d) # n) \<and> loop k fd_in fd_out d (tr @ [(?c, SOk w d)]) = Some (v, n))"
      by (auto simp: Let_def bind_eq_Some_conv split: sys_result.splits if_splits)
    then show ?thesis using True by (elim disjE exE conjE) (auto dest!: IH)
  next
    case False
    with run obtain v n where "k tr (SysWrite fd_out pending) = SErr EINTR \<and> y = (v, (SysWrite fd_out pending, SErr EINTR) # n)
          \<and> loop k fd_in fd_out pending (tr @ [(SysWrite fd_out pending, SErr EINTR)]) = Some (v, n)
        \<or> (\<exists>e. y = (- 1, [(SysWrite fd_out pending, SErr e)]))
        \<or> (\<exists>w d. y = (v, (SysWrite fd_out pending, SOk w d) # n)
             \<and> loop k fd_in fd_out (drop (nat w) pending) (tr @ [(SysWrite fd_out pending, SOk w d)]) = Some (v, n))"
      by (auto simp: Let_def bind_eq_Some_conv split: sys_result.splits if_splits)
    then show ?thesis
    proof (elim disjE exE conjE)
      fix w d assume y: "y = (v, (SysWrite fd_out pending, SOk w d) # n)"
        and l: "loop k fd_in fd_out (drop (nat w) pending) (tr @ [(SysWrite fd_out pending, SOk w d)]) = Some (v, n)"
      from IH[OF l] y show ?thesis by auto
    next
      assume y: "y = (v, (SysWrite fd_out pending, SErr EINTR) # n)"
        and l: "loop k fd_in fd_out pending (tr @ [(SysWrite fd_out pending, SErr EINTR)]) = Some (v, n)"
      from IH[OF l] y show ?thesis by auto
    next
      fix e assume "y = (- 1, [(SysWrite fd_out pending, SErr e)])"
      then show ?thesis by simp
    qed
  qed
qed

text \<open>The copy ends when the file has an end and every write makes progress.\<close>

definition reads_done :: "int \<Rightarrow> trace \<Rightarrow> nat" where
  "reads_done fd tr = length (filter (\<lambda>(c, r). c = SysRead fd) tr)"

lemma reads_done_snoc [simp]: "reads_done fd (tr @ [(c, r)]) = reads_done fd tr + (if c = SysRead fd then 1 else 0)"
  by (simp add: reads_done_def)

lemma copy_loop_ends:
  assumes "\<And>tr. k tr (SysRead fd_in) = SOk 0 (if reads_done fd_in tr < length blocks then blocks ! reads_done fd_in tr else [])"
    and "\<And>tr b. b \<noteq> [] \<Longrightarrow> \<exists>w d. k tr (SysWrite fd_out b) = SOk w d \<and> 0 < w"
  shows "\<exists>n. copy_loop k fd_in fd_out pending tr = Some (0, n)"
proof (induction "(length blocks - reads_done fd_in tr, length pending)" arbitrary: pending tr
    rule: wf_induct_rule[OF wf_lex_prod[OF wf_less_than wf_less_than]])
  case 1
  show ?case
  proof (cases "pending = []")
    case True
    show ?thesis
    proof (cases "reads_done fd_in tr < length blocks \<and> blocks ! reads_done fd_in tr \<noteq> []")
      case False
      then have "k tr (SysRead fd_in) = SOk 0 []" using assms(1)[of tr] by auto
      with True show ?thesis by (subst copy_loop.simps) (simp add: Let_def)
    next
      case block: True
      let ?d = "blocks ! reads_done fd_in tr" and ?tr = "tr @ [(SysRead fd_in, SOk 0 (blocks ! reads_done fd_in tr))]"
      have k: "k tr (SysRead fd_in) = SOk 0 ?d" using assms(1)[of tr] block by simp
      have "\<exists>n. copy_loop k fd_in fd_out ?d ?tr = Some (0, n)" by (rule 1) (use block in auto)
      with True k block show ?thesis by (subst copy_loop.simps) (auto simp: Let_def)
    qed
  next
    case False
    then obtain w d where k: "k tr (SysWrite fd_out pending) = SOk w d" "0 < w" using assms(2) by blast
    have "\<exists>n. copy_loop k fd_in fd_out (drop (nat w) pending) (tr @ [(SysWrite fd_out pending, SOk w d)]) = Some (0, n)"
      by (rule 1) (use False k(2) in auto)
    with False k show ?thesis by (subst copy_loop.simps) (auto simp: Let_def)
  qed
qed

section \<open>What entering the root directory does\<close>

definition under :: "string \<Rightarrow> string \<Rightarrow> bool" where
  "under root p \<longleftrightarrow> take (length root) p = root"

lemma under_iff: "under root p \<longleftrightarrow> (\<exists>q. p = root @ q)"
  unfolding under_def by (metis append_eq_conv_conj append_take_drop_id)

lemma under_append [simp]: "under root (root @ p)"
  by (simp add: under_def)

lemma under_self [simp]: "under root root"
  by (simp add: under_def)

text \<open>
  The calls a child may make while it builds its root: except for making the mount tree private everything it creates, mounts or
  opens for writing lies in the new root, and only the listed directories of the host are bound there.
\<close>

fun confined_call :: "string \<Rightarrow> string set \<Rightarrow> string option \<Rightarrow> syscall \<Rightarrow> bool" where
  "confined_call root binds program (SysMount src target type flags opts) \<longleftrightarrow>
     src = Some [] \<and> target = ''/'' \<and> flags = [MS_REC, MS_PRIVATE]
     \<or> under root target \<and> (MS_BIND \<in> set flags \<longrightarrow> set_option src \<subseteq> binds)"
| "confined_call root binds program (SysMkdir p) \<longleftrightarrow> under root p"
| "confined_call root binds program (SysSymlink target p) \<longleftrightarrow> under root p"
| "confined_call root binds program (SysOpenWrite p) \<longleftrightarrow> under root p"
| "confined_call root binds program (SysChmod p) \<longleftrightarrow> under root p"
| "confined_call root binds program (SysOpenRead p) \<longleftrightarrow> program = Some p"
| "confined_call root binds program (SysRead fd) \<longleftrightarrow> True"
| "confined_call root binds program (SysWrite fd b) \<longleftrightarrow> True"
| "confined_call root binds program (SysClose fd) \<longleftrightarrow> True"
| "confined_call root binds program (SysChroot p) \<longleftrightarrow> p = root"
| "confined_call root binds program (SysChdir p) \<longleftrightarrow> p = kSandboxBoxPath"
| "confined_call root binds program c \<longleftrightarrow> False"

definition bind_sources :: "string \<Rightarrow> bool \<Rightarrow> string option \<Rightarrow> string set" where
  "bind_sources workspace compile_phase extra =
     insert ''/usr'' ((\<lambda>d. ''/dev/'' @ d) ` set root_devices \<union> set_option extra \<union> (if compile_phase then {workspace} else {}))"

lemma join_path_Some: "join_path base s = Some p \<longleftrightarrow> p = base @ s \<and> p \<noteq> [] \<and> length p < 1024"
  by (auto simp: join_path_def Let_def)

lemma only_mount_bind_readonly:
  "under root dst \<Longrightarrow> src \<in> binds \<Longrightarrow> only (confined_call root binds program) (mount_bind_readonly k src dst)"
  unfolding mount_bind_readonly_def by (rule only_seq) (auto intro!: child_only)

lemma only_copy_loop: "only (confined_call root binds program)
    (\<lambda>tr. map_option (\<lambda>(v, n). (Inr v, n)) (copy_loop k fd_in fd_out pending tr))"
proof -
  have "list_all (confined_call root binds program) cs" if "list_all (copy_call fd_in fd_out) cs" for cs
    using that by (rule list.pred_mono_strong) (auto simp: copy_call_def)
  then show ?thesis unfolding only_def by (auto dest!: copy_loop_spec)
qed

lemma only_copy_file:
  assumes "under root dst" and "program = Some src"
  shows "only (confined_call root binds program) (copy_file_executable k src dst)"
proof -
  have dst: "under root (dst @ ''/'' @ base_name_ptr src)" using assms(1) by (auto simp: under_iff)
  show ?thesis
    unfolding copy_file_executable_def Let_def
    by (auto intro!: child_only only_copy_loop split: sys_result.splits simp: dst assms(2) simp del: append.simps)
qed

lemma only_enter_steps:
  "only (confined_call root binds program) (make_root_dir k root)"
  "''/usr'' \<in> binds \<Longrightarrow> only (confined_call root binds program) (bind_usr k root)"
  "only (confined_call root binds program) (make_symlink k root entry)"
  "only (confined_call root binds program) (mount_proc k root)"
  "''/dev/'' @ d \<in> binds \<Longrightarrow> only (confined_call root binds program) (make_device k root d)"
  "only (confined_call root binds program) (box_readonly k (root @ p))"
  unfolding make_root_dir_def bind_usr_def make_symlink_def mount_proc_def make_device_def Let_def box_readonly_def
  by (auto intro!: child_only only_mount_bind_readonly split: sys_result.splits option.splits simp: join_path_Some)

lemma only_make_dir: "only (confined_call root binds program) (make_dir k root d)"
proof (cases "join_path root []")
  case (Some p)
  then have "length root \<le> 1023" by (auto simp: join_path_Some)
  then have "under root (take 1023 (root @ ''/'' @ d))" by (simp add: under_def min_absorb1)
  with Some show ?thesis unfolding make_dir_def by (auto intro!: child_only)
qed (auto simp: make_dir_def intro!: child_only)

lemma only_copy_program:
  "under root path \<Longrightarrow> only (confined_call root binds program) (copy_program k program path)"
  unfolding copy_program_def by (auto intro!: child_only only_copy_file split: option.splits)

lemma only_build_box:
  assumes "compile_phase \<Longrightarrow> workspace \<in> binds"
  shows "only (confined_call root binds program) (build_box k workspace root compile_phase program)"
proof (cases "join_path root kSandboxBoxPath")
  case None
  then show ?thesis unfolding build_box_def by (auto intro!: child_only)
next
  case (Some path)
  then have path: "path = root @ kSandboxBoxPath" by (simp add: join_path_Some)
  show ?thesis
  proof (cases compile_phase)
    case True
    with Some assms show ?thesis unfolding build_box_def by (auto intro!: child_only simp: path)
  next
    case False
    have "only (confined_call root binds program) m"
      if "m \<in> set [must k StRoot (SysMount (Some ''tmpfs'') path (Some ''tmpfs'') [] (Some (tmpfs_options run_box_tmpfs_mb))),
             copy_program k program path, box_readonly k path]" for m
      using that only_copy_program[of root path binds program k] only_enter_steps(6)[of root binds program k kSandboxBoxPath]
      by (auto intro!: child_only simp: path)
    with Some False show ?thesis unfolding build_box_def by (simp only: option.case if_False) (rule only_seq)
  qed
qed

lemma only_extra_bind:
  "set_option src \<subseteq> binds \<Longrightarrow> only (confined_call root binds program) (extra_bind k root src dst)"
  unfolding extra_bind_def Let_def
  by (auto intro!: child_only only_mount_bind_readonly split: option.splits)

lemma only_enter_root:
  "only (confined_call root (bind_sources workspace compile_phase extra) program)
     (sandbox_enter_root k workspace root extra dst compile_phase program mb)"
proof -
  let ?binds = "bind_sources workspace compile_phase extra"
  have usr: "''/usr'' \<in> ?binds" and dev: "\<And>d. d \<in> set root_devices \<Longrightarrow> ''/dev/'' @ d \<in> ?binds"
    and ext: "set_option extra \<subseteq> ?binds" and ws: "compile_phase \<Longrightarrow> workspace \<in> ?binds"
    unfolding bind_sources_def by auto
  note steps = only_enter_steps(1,3,4) only_enter_steps(2)[OF usr] only_enter_steps(5)[OF dev] only_make_dir
    only_build_box[OF ws] only_extra_bind[OF ext]
  show ?thesis
    unfolding sandbox_enter_root_def
    by (rule only_seq) (auto simp del: append.simps intro!: child_only steps)
qed

text \<open>The directory of a run is sealed: a read-only remount succeeded and nothing is opened for writing or written after it.\<close>

fun remount_readonly :: "string \<Rightarrow> syscall \<Rightarrow> bool" where
  "remount_readonly path (SysMount src target type flags opts) \<longleftrightarrow> target = path \<and> MS_REMOUNT \<in> set flags \<and> MS_RDONLY \<in> set flags"
| "remount_readonly path c \<longleftrightarrow> False"

fun writes_files :: "syscall \<Rightarrow> bool" where
  "writes_files (SysOpenWrite p) \<longleftrightarrow> True"
| "writes_files (SysWrite fd b) \<longleftrightarrow> True"
| "writes_files c \<longleftrightarrow> False"

definition box_sealed :: "string \<Rightarrow> trace \<Rightarrow> bool" where
  "box_sealed path n \<longleftrightarrow> (\<exists>n1 c v d n2. n = n1 @ (c, SOk v d) # n2 \<and> remount_readonly path c
     \<and> list_all (\<lambda>c. \<not> writes_files c) (map fst n2))"

lemma box_sealed_append:
  assumes "box_sealed path n" and "list_all (\<lambda>c. \<not> writes_files c) (map fst n')"
  shows "box_sealed path (n @ n')"
proof -
  from assms(1) obtain n1 c v d n2 where "n = n1 @ (c, SOk v d) # n2" "remount_readonly path c"
    "list_all (\<lambda>c. \<not> writes_files c) (map fst n2)" unfolding box_sealed_def by blast
  with assms(2) have "n @ n' = n1 @ (c, SOk v d) # (n2 @ n') \<and> remount_readonly path c
      \<and> list_all (\<lambda>c. \<not> writes_files c) (map fst (n2 @ n'))" by simp
  then show ?thesis unfolding box_sealed_def by blast
qed

lemma box_sealed_prepend: "box_sealed path n \<Longrightarrow> box_sealed path (n' @ n)"
  unfolding box_sealed_def by (metis append_assoc)

lemma box_readonly_seals: "yields (box_readonly k path) tr () n \<Longrightarrow> box_sealed path n"
  unfolding box_readonly_def yields_bind
proof (elim exE conjE)
  fix r n1 n2
  let ?c = "SysMount None path None [MS_BIND, MS_REMOUNT, MS_RDONLY] None"
  let ?c' = "SysMount (Some ''tmpfs'') path (Some ''tmpfs'') [MS_REMOUNT, MS_RDONLY] (Some (tmpfs_options run_box_tmpfs_mb))"
  assume 1: "yields (issue k ?c) tr r n1"
    and 2: "yields (case r of SOk v d \<Rightarrow> child_return () | SErr e \<Rightarrow> must k StRoot ?c') (tr @ n1) () n2"
    and n: "n = n1 @ n2"
  show "box_sealed path n"
  proof (cases r)
    case (SOk v d)
    with 1 have "n1 = [(?c, SOk v d)]" by simp
    moreover from SOk 2 have "n2 = []" by (simp only: sys_result.case yields_return)
    moreover note n
    ultimately have "n = [] @ (?c, SOk v d) # []" by simp
    then show ?thesis unfolding box_sealed_def
      by (intro exI[of _ "[]"] exI[of _ ?c] exI[of _ v] exI[of _ d] exI[of _ "[]"]) simp
  next
    case (SErr e)
    with 2 n obtain v d where "n = n1 @ (?c', SOk v d) # []" by auto
    then show ?thesis unfolding box_sealed_def
      by (intro exI[of _ n1] exI[of _ ?c'] exI[of _ v] exI[of _ d] exI[of _ "[]"]) simp
  qed
qed

lemma build_box_seals: "yields (build_box k workspace root False program) tr () n \<Longrightarrow> box_sealed (root @ kSandboxBoxPath) n"
  unfolding build_box_def
  by (auto simp: yields_seq_Cons join_path_Some split: option.splits intro!: box_sealed_prepend dest!: box_readonly_seals)

lemma extra_bind_no_write: "only (\<lambda>c. \<not> writes_files c) (extra_bind k root src dst)"
  unfolding extra_bind_def mount_bind_readonly_def Let_def by (auto intro!: child_only split: option.splits)


text \<open>A kernel that grants every call and serves empty files.\<close>

definition granting_kernel :: kernel where
  "granting_kernel = (\<lambda>tr c. SOk 3 [])"

lemma copy_loop_granting: "copy_loop granting_kernel fd_in fd_out [] tr = Some (0, [(SysRead fd_in, SOk 3 [])])"
  by (subst copy_loop.simps) (simp add: granting_kernel_def)

lemma granting_must [simp]: "must granting_kernel stage c tr = Some (Inr (), [(c, SOk 3 [])])"
  by (simp add: must_def child_bind_def issue_def granting_kernel_def child_return_def)

lemma granting_attempt [simp]: "attempt granting_kernel c tr = Some (Inr (), [(c, SOk 3 [])])"
  by (simp add: attempt_def child_bind_def issue_def granting_kernel_def child_return_def)

lemma granting_issue [simp]: "issue granting_kernel c tr = Some (Inr (SOk 3 []), [(c, SOk 3 [])])"
  by (simp add: issue_def granting_kernel_def)


section \<open>Setting up always ends\<close>

text \<open>The copy is the only loop; whenever it ends, so does the whole set up, and without a copy nothing can keep it.\<close>

definition returns :: "'a child \<Rightarrow> bool" where
  "returns m \<longleftrightarrow> (\<forall>tr. m tr \<noteq> None)"

named_theorems child_returns

lemma returns_basic [child_returns]:
  "returns (child_return x)" "returns (child_fail stage e)" "returns (fail_errno stage)" "returns (issue k c)"
  "returns (\<lambda>tr. Some (Inl (f tr), []))"
  by (simp_all add: returns_def child_return_def child_fail_def fail_errno_def issue_def)

lemma returns_bind [child_returns]: "returns m \<Longrightarrow> (\<And>x. returns (f x)) \<Longrightarrow> returns (child_bind m f)"
  unfolding returns_def child_bind_def by (auto split: option.splits sum.splits) (metis option.distinct(1))

lemma returns_calls [child_returns]: "returns (must k stage c)" "returns (attempt k c)"
  unfolding must_def attempt_def by (auto intro!: child_returns split: sys_result.splits)

lemma returns_seq [child_returns]: "(\<And>m. m \<in> set ms \<Longrightarrow> returns m) \<Longrightarrow> returns (child_seq ms)"
  by (induction ms) (auto intro!: child_returns simp: child_seq.simps)

lemma returns_steps [child_returns]:
  "returns (mount_bind_readonly k src d)" "returns (make_root_dir k root)" "returns (make_dir k root name)" "returns (bind_usr k root)"
  "returns (make_symlink k root entry)" "returns (mount_proc k root)" "returns (make_device k root name)" "returns (box_readonly k path)"
  unfolding mount_bind_readonly_def make_root_dir_def make_dir_def bind_usr_def make_symlink_def mount_proc_def make_device_def
    box_readonly_def Let_def
  by (auto intro!: child_returns split: sys_result.splits option.splits)

lemma returns_extra_bind [child_returns]: "returns (extra_bind k root src d)"
  unfolding extra_bind_def Let_def by (auto intro!: child_returns split: option.splits)

lemma returns_copy_file:
  assumes "\<And>fd_in fd_out tr. copy_loop k fd_in fd_out [] tr \<noteq> None"
  shows "returns (copy_file_executable k src d)"
proof -
  have "returns (\<lambda>tr. map_option (\<lambda>(v, n). (Inr v, n)) (copy_loop k fd_in fd_out [] tr))" for fd_in fd_out
    using assms by (simp add: returns_def)
  then show ?thesis
    unfolding copy_file_executable_def Let_def by (auto intro!: child_returns split: sys_result.splits)
qed

lemma returns_build_box:
  assumes "compile_phase \<or> program = None \<or> (\<forall>fd_in fd_out tr. copy_loop k fd_in fd_out [] tr \<noteq> None)"
  shows "returns (build_box k workspace root compile_phase program)"
proof (cases compile_phase)
  case True
  then show ?thesis unfolding build_box_def by (auto intro!: child_returns split: option.splits)
next
  case False
  with assms have "program = None \<or> (\<forall>src d. returns (copy_file_executable k src d))"
    using returns_copy_file[of k] by blast
  then have "returns (copy_program k program path)" for path
    unfolding copy_program_def by (auto intro!: child_returns split: option.splits)
  then show ?thesis unfolding build_box_def by (auto intro!: child_returns split: option.splits)
qed

theorem enter_root_returns:
  assumes "compile_phase \<or> program = None \<or> (\<forall>fd_in fd_out tr. copy_loop k fd_in fd_out [] tr \<noteq> None)"
  shows "\<exists>r n. sandbox_enter_root k workspace root extra d compile_phase program mb tr = Some (r, n)"
proof -
  have "returns (sandbox_enter_root k workspace root extra d compile_phase program mb)"
    unfolding sandbox_enter_root_def
    by (rule returns_seq) (auto simp del: append.simps intro!: child_returns returns_build_box[OF assms])
  then show ?thesis unfolding returns_def by (metis not_None_eq surj_pair)
qed

section \<open>Limits and filter: what success means\<close>

lemma apply_limits_calls:
  "yields (sandbox_apply_limits k limits) tr () n \<Longrightarrow> map fst n =
     [SysSetrlimit RLIMIT_CPU (sl_cpu_limit_sec limits) (sl_cpu_limit_sec limits + 1),
      SysSetrlimit RLIMIT_FSIZE (sl_fsize_limit_bytes limits) (sl_fsize_limit_bytes limits),
      SysSetrlimit RLIMIT_STACK (sl_stack_limit_bytes limits) (sl_stack_limit_bytes limits),
      SysSetrlimit RLIMIT_NOFILE (sl_nofile_limit limits) (sl_nofile_limit limits),
      SysSetrlimit RLIMIT_CORE (sl_core_limit_bytes limits) (sl_core_limit_bytes limits)]
     @ (if sl_set_address_space limits
        then [SysSetrlimit RLIMIT_AS (sl_address_space_kb limits * 1024) (sl_address_space_kb limits * 1024)] else [])
     \<and> (\<forall>e \<in> set n. \<exists>v d. snd e = SOk v d)"
  unfolding sandbox_apply_limits_def set_limit_def by (auto simp: yields_seq_Cons split: if_splits)

lemma apply_seccomp_calls:
  "yields (sandbox_apply_seccomp k program) tr () n \<longleftrightarrow>
     program \<noteq> [] \<and> (\<exists>v d v' d'. k tr SysNoNewPrivs = SOk v d
       \<and> k (tr @ [(SysNoNewPrivs, SOk v d)]) (SysSeccomp (take (length program mod 65536) program)) = SOk v' d'
       \<and> n = [(SysNoNewPrivs, SOk v d), (SysSeccomp (take (length program mod 65536) program), SOk v' d')])"
  unfolding sandbox_apply_seccomp_def by (auto simp: yields_seq_Cons)

text \<open>
  The limit on processor time is a backstop of the wall clock limit: it never undercuts the limit of the problem and exceeds it by less
  than two seconds in a run.
\<close>

lemma compute_limits_cpu:
  assumes "0 < time_limit_ms"
  shows "time_limit_ms + 1000 \<le> 1000 * sl_cpu_limit_sec (compute_limits PhaseRun mem time_limit_ms)"
    and "1000 * sl_cpu_limit_sec (compute_limits PhaseRun mem time_limit_ms) < time_limit_ms + 2000"
    and "time_limit_ms + 5000 \<le> 1000 * sl_cpu_limit_sec (compute_limits PhaseCompile mem time_limit_ms)"
  using assms by (simp_all add: compute_limits_def Let_def) linarith+

lemma compute_limits_no_core:
  "sl_core_limit_bytes (compute_limits phase mem t) = 0" "\<not> sl_set_address_space (compute_limits phase mem t)"
  by (cases phase; simp add: compute_limits_def Let_def default_limits_def)+

end
