(* ===== verification/OJ_Local_Executor.thy ===== *)
theory OJ_Local_Executor
  imports OJ_Sandbox_Root
begin

text \<open>
  Launching a judged process (\<open>judge/local_executor.cpp\<close>): the command lines of compiler and program, the translation of paths into the
  sandbox, the environment, and what the processes between the service and the judged code do before it starts. The
  supervision of a started process is in \<open>OJ_Supervision\<close>.
\<close>

section \<open>Helpers\<close>

definition append_bounded :: "nat \<Rightarrow> string \<Rightarrow> string \<times> bool \<Rightarrow> string \<times> bool" where
  "append_bounded limit data st =
     (case st of (buffer, truncated) \<Rightarrow>
        if limit \<le> length buffer then (buffer, True)
        else let room = limit - length buffer; n = min room (length data) in
          (buffer @ take n data, truncated \<or> n < length data))"

definition default_search_path :: string where
  "default_search_path = ''/usr/local/sbin:/usr/local/bin:/usr/sbin:/usr/bin:/sbin:/bin''"

definition resolve_in_path :: "string option \<Rightarrow> (string \<Rightarrow> bool) \<Rightarrow> string \<Rightarrow> string option" where
  "resolve_in_path env executable name =
     (if name = [] then None
      else let path = (case env of None \<Rightarrow> default_search_path | Some p \<Rightarrow> if p = [] then default_search_path else p) in
        List.find executable (map (\<lambda>dir. (if dir = [] then ''.'' else dir) @ ''/'' @ name) (split_on (CHR '':'') path)))"

definition starts_with :: "string \<Rightarrow> string \<Rightarrow> bool" where
  "starts_with value pre \<longleftrightarrow> length pre \<le> length value \<and> take (length pre) value = pre"

definition sanitizer_markers :: "string list" where
  "sanitizer_markers =
    [''AddressSanitizer'', ''UndefinedBehaviorSanitizer'', ''LeakSanitizer'', ''runtime error:'', ''heap-buffer-overflow'',
     ''stack-buffer-overflow'', ''SUMMARY: AddressSanitizer'', ''SUMMARY: UndefinedBehaviorSanitizer'']"

definition looks_like_sanitizer_report :: "string \<Rightarrow> bool" where
  "looks_like_sanitizer_report stderr_data \<longleftrightarrow> list_ex (\<lambda>marker. contains_sub marker stderr_data) sanitizer_markers"

definition dir_name :: "string \<Rightarrow> string" where
  "dir_name path =
     (if CHR ''/'' \<notin> set path then ''.''
      else let dir = rev (tl (dropWhile (\<lambda>c. c \<noteq> CHR ''/'') (rev path))) in if dir = [] then ''/'' else dir)"

definition base_name :: "string \<Rightarrow> string" where
  "base_name path = (if CHR ''/'' \<notin> set path then path else rev (takeWhile (\<lambda>c. c \<noteq> CHR ''/'') (rev path)))"

definition system_prefixes :: "string list" where
  "system_prefixes =
    [''/usr/'', ''/bin/'', ''/sbin/'', ''/lib/'', ''/lib64/'', ''/usr'', ''/bin'', ''/sbin'', ''/lib'', ''/lib64'']"

definition is_system_prefix :: "string \<Rightarrow> bool" where
  "is_system_prefix path \<longleftrightarrow> list_ex (\<lambda>pre. path = pre \<or> starts_with path (pre @ ''/'')) system_prefixes"

definition describe_failure :: "(int \<Rightarrow> string) \<Rightarrow> sandbox_stage \<times> int \<Rightarrow> string" where
  "describe_failure strerror failure =
     (let reason = strerror (snd failure) in
      case fst failure of
        StUnshare \<Rightarrow> txt_stage_unshare @ reason
      | StRoot \<Rightarrow> txt_stage_root @ reason
      | StChroot \<Rightarrow> txt_stage_chroot @ reason
      | StLimits \<Rightarrow> txt_stage_limits @ reason
      | StSeccomp \<Rightarrow> txt_stage_seccomp @ reason
      | StChdir \<Rightarrow> txt_stage_chdir @ reason
      | StExec \<Rightarrow> txt_stage_exec @ reason
      | StNone \<Rightarrow> txt_stage_other_1 @ sandbox_stage_name StNone @ txt_stage_other_2 @ reason)"

text \<open>The user mapping: root inside is the user of the service outside. \<open>put\<close> tells which files could be written.\<close>

definition write_user_maps :: "(string \<Rightarrow> string \<Rightarrow> bool) \<Rightarrow> int \<Rightarrow> int \<Rightarrow> int \<Rightarrow> bool \<times> (string \<times> string) list" where
  "write_user_maps put pid uid gid =
     (let base = ''/proc/'' @ int_to_string pid;
          groups = (base @ ''/setgroups'', ''deny'');
          uid_map = (base @ ''/uid_map'', ''0 '' @ int_to_string uid @ '' 1'');
          gid_map = (base @ ''/gid_map'', ''0 '' @ int_to_string gid @ '' 1'') in
      if \<not> put (fst uid_map) (snd uid_map) then (False, [groups, uid_map])
      else (put (fst gid_map) (snd gid_map), [groups, uid_map, gid_map]))"

section \<open>Memory of a process\<close>

text \<open>The texts are those of \<open>/proc\<close>, cut by the buffers and ending at a zero byte; no value is a failed read.\<close>

definition c_string :: "string \<Rightarrow> string" where
  "c_string s = takeWhile (\<lambda>c. c \<noteq> CHR 0x00) s"

definition read_pid_rss_kb :: "string option \<Rightarrow> int" where
  "read_pid_rss_kb status =
     (case status of
        None \<Rightarrow> - 1
      | Some content \<Rightarrow>
          let buffer = take 4095 content in
          if buffer = [] then - 1
          else case find_sub ''VmRSS:'' (c_string buffer) of
            None \<Rightarrow> - 1
          | Some i \<Rightarrow>
              let key = dropWhile (\<lambda>c. c = CHR '' '' \<or> c = CHR 0x09) (drop (i + 6) (c_string buffer)) in
              (case strtol key of None \<Rightarrow> - 1 | Some kb \<Rightarrow> kb))"

definition strtoll_value :: "string \<Rightarrow> int" where
  "strtoll_value s = (case strtol s of None \<Rightarrow> 0 | Some v \<Rightarrow> v)"

text \<open>The fields after the name of the process; the name itself may contain anything, hence the search for the last parenthesis.\<close>

definition stat_fields :: "string \<Rightarrow> string list option" where
  "stat_fields content =
     (let buffer = c_string (take 4095 content) in
      if CHR '')'' \<notin> set buffer then None
      else let rest = rev (takeWhile (\<lambda>c. c \<noteq> CHR '')'') (rev buffer)) in
        if rest = [] \<or> hd rest \<noteq> CHR '' '' then None
        else Some (filter (\<lambda>t. t \<noteq> []) (split_on (CHR '' '') (tl rest))))"

definition stat_rss_kb :: "int \<Rightarrow> int \<Rightarrow> string \<Rightarrow> int" where
  "stat_rss_kb page pgid content =
     (case stat_fields content of
        None \<Rightarrow> 0
      | Some ts \<Rightarrow>
          let group = (if 3 \<le> length ts then strtoll_value (ts ! 2) else 0);
              rss_pages = (if 22 \<le> length ts then strtoll_value (ts ! 21) else 0) in
          if group = pgid \<and> 0 < rss_pages then rss_pages * (page div 1024) else 0)"

definition read_group_rss_kb :: "(string \<times> string option) list option \<Rightarrow> int \<Rightarrow> int \<Rightarrow> int" where
  "read_group_rss_kb proc page pgid =
     (case proc of
        None \<Rightarrow> - 1
      | Some entries \<Rightarrow> sum_list (map (\<lambda>(name, content).
          if name \<noteq> [] \<and> is_digit (hd name)
          then (case content of None \<Rightarrow> 0 | Some c \<Rightarrow> if c = [] then 0 else stat_rss_kb page pgid c) else 0) entries))"

definition sandbox_root_tmpfs_mb :: "bool \<Rightarrow> nat" where
  "sandbox_root_tmpfs_mb compile_phase = (if compile_phase then 256 else 64)"

section \<open>Command lines\<close>

definition compile_argv :: "compile_request \<Rightarrow> string list" where
  "compile_argv request =
     [cr_compiler request]
     @ (if cr_language request = Cpp17 then [''-O2'', ''-std=c++17''] else [''-O2'', ''-std=c11''])
     @ [cr_source_path request, ''-o'', cr_output_path request, ''-lm'']
     @ (if cr_sanitizers request
        then [''-fsanitize=address,undefined'', ''-fno-omit-frame-pointer'', ''-fno-sanitize-recover=all''] else [])
     @ cr_extra_flags request"

definition run_argv :: "run_request \<Rightarrow> string list" where
  "run_argv request = [rr_executable_path request]"

section \<open>Preparation in the service\<close>

text \<open>The host: the search path, which files may be executed (or the error), error texts, the kernel headers.\<close>

record executor_host =
  eh_path :: "string option"
  eh_access :: "string \<Rightarrow> int option"
  eh_strerror :: "int \<Rightarrow> string"
  eh_headers :: kernel_headers

record spawn_request =
  sr_argv :: "string list"
  sr_working_directory :: string
  sr_input :: string
  sr_time_limit_ms :: int
  sr_stdout_limit :: nat
  sr_stderr_limit :: nat
  sr_merge_stderr :: bool
  sr_sandbox :: bool
  sr_phase :: sandbox_phase
  sr_memory_limit_kb :: int

definition compile_spawn :: "compile_request \<Rightarrow> spawn_request" where
  "compile_spawn request =
     \<lparr>sr_argv = compile_argv request, sr_working_directory = cr_working_directory request, sr_input = [],
      sr_time_limit_ms = cr_time_limit_ms request, sr_stdout_limit = nat (cr_output_limit_bytes request),
      sr_stderr_limit = nat (cr_output_limit_bytes request), sr_merge_stderr = True, sr_sandbox = cr_sandbox request,
      sr_phase = PhaseCompile, sr_memory_limit_kb = cr_memory_limit_kb request\<rparr>"

definition run_spawn :: "run_request \<Rightarrow> string \<Rightarrow> spawn_request" where
  "run_spawn request input =
     \<lparr>sr_argv = run_argv request, sr_working_directory = rr_working_directory request, sr_input = input,
      sr_time_limit_ms = rr_time_limit_ms request, sr_stdout_limit = nat (rr_stdout_limit_bytes request),
      sr_stderr_limit = nat (rr_stderr_limit_bytes request), sr_merge_stderr = False, sr_sandbox = rr_sandbox request,
      sr_phase = PhaseRun, sr_memory_limit_kb = rr_memory_limit_kb request\<rparr>"

record launch_plan =
  lp_program :: string
  lp_inside_program :: string
  lp_root_dir :: string
  lp_extra_bind_src :: string
  lp_extra_bind_dst :: string
  lp_run_copy_src :: "string option"
  lp_exec_argv :: "string list"
  lp_env :: "string list"
  lp_filter :: "sock_filter list"
  lp_limits :: sandbox_limits

definition launch_error :: "string \<Rightarrow> process_result" where
  "launch_error message = default_process_result\<lparr>pr_launch_error := True, pr_launch_error_message := message\<rparr>"

definition find_program :: "executor_host \<Rightarrow> string \<Rightarrow> string + string" where
  "find_program host name =
     (let resolved = (if CHR ''/'' \<in> set name then Some name
                      else resolve_in_path (eh_path host) (\<lambda>p. eh_access host p = None) name) in
      case resolved of
        None \<Rightarrow> Inl (txt_not_in_path @ name)
      | Some program \<Rightarrow> (case eh_access host program of
          None \<Rightarrow> Inr program
        | Some e \<Rightarrow> Inl (txt_not_executable @ program @ '' ('' @ eh_strerror host e @ '')'')))"

text \<open>Where the program is inside the sandbox, and the directory to bind for it.\<close>

definition box_path :: "string \<Rightarrow> string \<Rightarrow> string" where
  "box_path working_directory arg = kSandboxBoxPath @ ''/'' @ drop (length working_directory + 1) arg"

definition place_program :: "bool \<Rightarrow> string \<Rightarrow> string \<Rightarrow> string \<times> string \<times> string" where
  "place_program sandbox working_directory program =
     (if \<not> sandbox then (program, [], [])
      else if starts_with program (working_directory @ ''/'') then (box_path working_directory program, [], [])
      else if is_system_prefix program then (program, [], [])
      else (kSandboxToolsPath @ ''/'' @ base_name program, dir_name program, kSandboxToolsPath))"

definition map_argument :: "bool \<Rightarrow> string \<Rightarrow> string \<Rightarrow> string" where
  "map_argument sandbox working_directory arg =
     (if sandbox \<and> starts_with arg (working_directory @ ''/'') then box_path working_directory arg else arg)"

definition env_strings :: "sandbox_phase \<Rightarrow> string list" where
  "env_strings phase =
     [''PATH=/usr/bin:/bin'', ''HOME=/nonexistent'', ''TMPDIR=/tmp'', ''LANG=C'', ''LC_ALL=C'']
     @ (if phase = PhaseRun
        then [''ASAN_OPTIONS=detect_leaks=0'', ''UBSAN_OPTIONS=print_stacktrace=1:halt_on_error=1''] else [])"

definition make_plan :: "spawn_request \<Rightarrow> string \<Rightarrow> sock_filter list \<Rightarrow> launch_plan" where
  "make_plan request program flt =
     (let wd = sr_working_directory request; sandbox = sr_sandbox request; phase = sr_phase request in
      case place_program sandbox wd program of (inside_program, extra_bind_src, extra_bind_dst) \<Rightarrow>
        \<lparr>lp_program = program, lp_inside_program = inside_program, lp_root_dir = wd @ ''/.oj_sandbox'',
         lp_extra_bind_src = extra_bind_src, lp_extra_bind_dst = extra_bind_dst,
         lp_run_copy_src = (if sandbox \<and> phase \<noteq> PhaseCompile \<and> starts_with inside_program (kSandboxBoxPath @ ''/'')
                            then Some program else None),
         lp_exec_argv = inside_program # map (map_argument sandbox wd) (tl (sr_argv request)),
         lp_env = env_strings phase, lp_filter = flt,
         lp_limits = (if sandbox then compute_limits phase (sr_memory_limit_kb request) (sr_time_limit_ms request)
                      else default_limits)\<rparr>)"

definition spawn_prepare :: "executor_host \<Rightarrow> bool \<Rightarrow> spawn_request \<Rightarrow> process_result + launch_plan" where
  "spawn_prepare host cancelled request =
     (if sr_argv request = [] \<or> hd (sr_argv request) = [] then Inl (launch_error txt_empty_program)
      else if cancelled
      then Inl (default_process_result\<lparr>pr_cancelled := True, pr_termination := Cancelled, pr_launch_error_message := txt_task_cancelled\<rparr>)
      else case find_program host (hd (sr_argv request)) of
        Inl message \<Rightarrow> Inl (launch_error message)
      | Inr program \<Rightarrow>
          if sr_sandbox request
          then (case build_seccomp_program (eh_headers host) (sr_phase request) of
            Inl message \<Rightarrow> Inl ((launch_error (txt_filter_failed @ message))\<lparr>pr_sandbox_error := True\<rparr>)
          | Inr flt \<Rightarrow> Inr (make_plan request program flt))
          else Inr (make_plan request program []))"

section \<open>The processes before the judged code\<close>

text \<open>Descriptors are closed by ranges where the kernel has the call, and one by one otherwise; failures are ignored.\<close>

definition granted :: "sys_result \<Rightarrow> bool" where
  "granted r = (case r of SErr e \<Rightarrow> False | SOk v d \<Rightarrow> True)"

definition close_range :: "kernel \<Rightarrow> int \<Rightarrow> int option \<Rightarrow> bool child" where
  "close_range k lo hi = child_bind (issue k (SysCloseRange lo hi)) (\<lambda>r. child_return (granted r))"

definition close_ranges :: "kernel \<Rightarrow> int \<Rightarrow> int \<Rightarrow> bool child" where
  "close_ranges k ka kb =
     child_bind (if 3 < ka then close_range k 3 (Some (ka - 1)) else child_return True) (\<lambda>ok.
       if ok \<and> 0 \<le> kb
       then child_bind (if ka + 1 < kb then close_range k (ka + 1) (Some (kb - 1)) else child_return True) (\<lambda>ok.
         if ok then close_range k (kb + 1) None else child_return False)
       else if ok then close_range k (ka + 1) None
       else child_return False)"

definition descriptor_limit :: "sys_result \<Rightarrow> int" where
  "descriptor_limit r = (let m = (case r of SErr e \<Rightarrow> 1024 | SOk v d \<Rightarrow> if v < 0 then 1024 else v) in if 65536 < m then 65536 else m)"

definition close_each :: "kernel \<Rightarrow> int \<Rightarrow> int \<Rightarrow> unit child" where
  "close_each k keep_fd keep_fd2 = child_bind (issue k SysGetrlimit) (\<lambda>r.
     child_seq (map (\<lambda>fd. attempt k (SysClose fd)) (filter (\<lambda>fd. fd \<noteq> keep_fd \<and> fd \<noteq> keep_fd2) [3..descriptor_limit r - 1])))"

definition close_extra_fds :: "kernel \<Rightarrow> bool \<Rightarrow> int \<Rightarrow> int \<Rightarrow> unit child" where
  "close_extra_fds k has_close_range keep_fd keep_fd2 =
     child_bind (if has_close_range \<and> 3 \<le> keep_fd
                 then (if 0 \<le> keep_fd2 \<and> keep_fd2 < keep_fd then close_ranges k keep_fd2 keep_fd else close_ranges k keep_fd keep_fd2)
                 else child_return False) (\<lambda>ok.
       if ok then child_return () else close_each k keep_fd keep_fd2)"

text \<open>The descriptors of the process that becomes the judged program.\<close>

record payload_fds =
  pf_in :: int
  pf_out :: int
  pf_err :: int
  pf_exec :: int
  pf_sync1 :: int
  pf_sync2 :: int

definition optional :: "string \<Rightarrow> string option" where
  "optional s = (if s = [] then None else Some s)"

definition payload_steps :: "kernel \<Rightarrow> bool \<Rightarrow> spawn_request \<Rightarrow> launch_plan \<Rightarrow> payload_fds \<Rightarrow> unit child list" where
  "payload_steps k has_close_range request plan fds =
     [must k StExec (SysDup2 (pf_in fds) 0), must k StExec (SysDup2 (pf_out fds) 1),
      must k StExec (SysDup2 (if sr_merge_stderr request then pf_out fds else pf_err fds) 2)]
     @ map (\<lambda>fd. attempt k (SysClose fd)) [pf_sync1 fds, pf_sync2 fds, pf_in fds, pf_out fds, pf_err fds]
     @ (if sr_sandbox request
        then [sandbox_enter_root k (sr_working_directory request) (lp_root_dir plan) (optional (lp_extra_bind_src plan))
                (optional (lp_extra_bind_dst plan)) (sr_phase request = PhaseCompile) (lp_run_copy_src plan)
                (sandbox_root_tmpfs_mb (sr_phase request = PhaseCompile)),
              close_extra_fds k has_close_range (pf_exec fds) (- 1),
              sandbox_apply_limits k (lp_limits plan),
              sandbox_apply_seccomp k (lp_filter plan),
              must k StExec (SysExecve (lp_inside_program plan) (lp_exec_argv plan) (lp_env plan))]
        else [close_extra_fds k has_close_range (pf_exec fds) (- 1)]
             @ (if sr_working_directory request \<noteq> [] then [must k StChdir (SysChdir (sr_working_directory request))] else [])
             @ [must k StExec (SysExecve (lp_program plan) (lp_exec_argv plan) (lp_env plan))])"

text \<open>Success is that the program image was replaced; a failure is reported to the service and the process exits.\<close>

definition payload_main :: "kernel \<Rightarrow> bool \<Rightarrow> spawn_request \<Rightarrow> launch_plan \<Rightarrow> payload_fds \<Rightarrow> unit child" where
  "payload_main k has_close_range request plan fds = child_seq (payload_steps k has_close_range request plan fds)"

text \<open>The process in between: it enters the namespaces, waits for the user mapping and starts the reaper and the payload.\<close>

record middle_calls =
  mc_unshare :: "int option"
  mc_sync_write :: bool
  mc_sync_read :: bool
  mc_init_fork :: "int option"
  mc_payload_fork :: "int option"

datatype middle_outcome = MidReport sandbox_stage int | MidSilentExit | MidForked

definition middle_process :: "bool \<Rightarrow> middle_calls \<Rightarrow> middle_outcome" where
  "middle_process sandbox calls =
     (case (if sandbox then mc_unshare calls else None) of
        Some e \<Rightarrow> MidReport StUnshare e
      | None \<Rightarrow>
          if sandbox \<and> \<not> mc_sync_write calls then MidSilentExit
          else if sandbox \<and> \<not> mc_sync_read calls then MidReport StUnshare EIO
          else case (if sandbox then mc_init_fork calls else None) of
            Some e \<Rightarrow> MidReport StRoot e
          | None \<Rightarrow> (case mc_payload_fork calls of Some e \<Rightarrow> MidReport StRoot e | None \<Rightarrow> MidForked))"

text \<open>How it passes on the end of the payload: by the same signal, by the same exit code, or with 127.\<close>

definition middle_exit :: "wait_status option \<Rightarrow> wait_status" where
  "middle_exit payload =
     (case payload of
        Some (WSignaled s) \<Rightarrow> WSignaled s
      | Some (WExited c) \<Rightarrow> WExited c
      | None \<Rightarrow> WExited 127)"

text \<open>What the service makes of a failure that was reported to it.\<close>

definition report_failure :: "(int \<Rightarrow> string) \<Rightarrow> sandbox_stage \<times> int \<Rightarrow> process_result" where
  "report_failure strerror failure =
     (launch_error (describe_failure strerror failure))
       \<lparr>pr_sandbox_error := fst failure \<noteq> StExec \<and> fst failure \<noteq> StChdir\<rparr>"

section \<open>Output is bounded\<close>

text \<open>
  Collecting chunks keeps the first bytes up to the limit, and the mark says whether something was cut off. Chunks are what
  a read returned, so none is empty.
\<close>

lemma append_bounded_fold:
  assumes "[] \<notin> set chunks"
  shows "fold (append_bounded limit) chunks ([], False) = (take limit (concat chunks), limit < length (concat chunks))"
  using assms
proof (induction chunks rule: rev_induct)
  case Nil
  then show ?case by simp
next
  case (snoc c chunks)
  let ?all = "concat chunks"
  have IH: "fold (append_bounded limit) chunks ([], False) = (take limit ?all, limit < length ?all)" using snoc by simp
  have c: "c \<noteq> []" using snoc.prems by auto
  show ?case
  proof (cases "limit \<le> length ?all")
    case True
    with c have "limit < length ?all + length c" by (cases c) auto
    with True have "append_bounded limit c (take limit ?all, limit < length ?all)
        = (take limit (?all @ c), limit < length (?all @ c))" by (simp add: append_bounded_def)
    with IH show ?thesis by simp
  next
    case False
    then have "append_bounded limit c (take limit ?all, limit < length ?all)
        = (take limit (?all @ c), limit < length (?all @ c))" by (auto simp: append_bounded_def Let_def min_def)
    with IH show ?thesis by simp
  qed
qed

section \<open>Which descriptors are closed\<close>

definition closed_by :: "syscall \<times> sys_result \<Rightarrow> int set" where
  "closed_by e = (case fst e of
     SysClose fd \<Rightarrow> {fd}
   | SysCloseRange lo hi \<Rightarrow> if granted (snd e) then (case hi of None \<Rightarrow> {lo..} | Some h \<Rightarrow> {lo..h}) else {}
   | _ \<Rightarrow> {})"

definition closed_fds :: "trace \<Rightarrow> int set" where
  "closed_fds n = \<Union> (closed_by ` set n)"

lemma closed_fds_simps [simp]:
  "closed_fds [] = {}" "closed_fds (e # n) = closed_by e \<union> closed_fds n" "closed_fds (n @ n') = closed_fds n \<union> closed_fds n'"
  by (auto simp: closed_fds_def)

lemma closed_by_simps [simp]:
  "closed_by (SysClose fd, r) = {fd}" "closed_by (SysGetrlimit, r) = {}"
  "closed_by (SysCloseRange lo (Some h), r) = (if granted r then {lo..h} else {})"
  "closed_by (SysCloseRange lo None, r) = (if granted r then {lo..} else {})"
  by (simp_all add: closed_by_def)

lemma yields_close_range [simp]:
  "yields (close_range k lo hi) tr ok n \<longleftrightarrow> ok = granted (k tr (SysCloseRange lo hi)) \<and> n = [(SysCloseRange lo hi, k tr (SysCloseRange lo hi))]"
  by (auto simp: close_range_def yields_bind)

lemma yields_attempt_close:
  "yields (child_seq (map (\<lambda>fd. attempt k (SysClose fd)) fds)) tr () n \<Longrightarrow> closed_fds n = set fds"
  by (induction fds arbitrary: tr n) (auto simp: yields_seq_Cons)

lemma close_ranges_closed:
  assumes "3 \<le> ka" and "yields (close_ranges k ka (- 1)) tr ok n"
  shows "closed_fds n \<subseteq> {3..} - {ka}" and "ok \<Longrightarrow> closed_fds n = {3..} - {ka}"
  using assms unfolding close_ranges_def by (auto simp: yields_bind split: if_splits)

lemma close_each_closed:
  assumes "yields (close_each k keep (- 1)) tr () n"
  obtains r where "(SysGetrlimit, r) \<in> set n" "closed_fds n = {3..<descriptor_limit r} - {keep}"
proof -
  let ?r = "k tr SysGetrlimit"
  from assms obtain n' where n: "n = [(SysGetrlimit, ?r)] @ n'"
    and c: "yields (child_seq (map (\<lambda>fd. attempt k (SysClose fd))
       (filter (\<lambda>fd. fd \<noteq> keep \<and> fd \<noteq> - 1) [3..descriptor_limit ?r - 1]))) (tr @ [(SysGetrlimit, ?r)]) () n'"
    unfolding close_each_def yields_bind yields_issue by blast
  have "set (filter (\<lambda>fd. fd \<noteq> keep \<and> fd \<noteq> - 1) [3..m - 1]) = {3..<m} - {keep}" for m :: int by auto
  with yields_attempt_close[OF c] have "closed_fds n' = {3..<descriptor_limit ?r} - {keep}" by (simp only:)
  with n have "(SysGetrlimit, ?r) \<in> set n" "closed_fds n = {3..<descriptor_limit ?r} - {keep}" by (simp_all only:) simp_all
  then show thesis by (rule that)
qed

text \<open>
  C32: before judged code starts, every descriptor it could inherit is closed except the one that reports a failed start. Where the
  kernel closes ranges these are exactly all descriptors from three on but that one; where it does not, all those below
  the limit of open files. The kept descriptor is never closed.
\<close>

theorem inherited_descriptors_closed:
  assumes "3 \<le> keep" and "yields (close_extra_fds k has_close_range keep (- 1)) tr () n"
  shows "closed_fds n \<subseteq> {3..} - {keep}
    \<and> (closed_fds n = {3..} - {keep} \<or> (\<exists>r. (SysGetrlimit, r) \<in> set n \<and> {3..<descriptor_limit r} - {keep} \<subseteq> closed_fds n))"
proof -
  have "close_extra_fds k has_close_range keep (- 1) = child_bind
      (if has_close_range \<and> 3 \<le> keep then close_ranges k keep (- 1) else child_return False)
      (\<lambda>ok. if ok then child_return () else close_each k keep (- 1))" by (simp add: close_extra_fds_def)
  with assms(2) obtain ok n1 n2 where
      1: "yields (if has_close_range \<and> 3 \<le> keep then close_ranges k keep (- 1) else child_return False) tr ok n1"
    and 2: "yields (if ok then child_return () else close_each k keep (- 1)) (tr @ n1) () n2" and n: "n = n1 @ n2"
    by (simp only: yields_bind) blast
  have sub1: "closed_fds n1 \<subseteq> {3..} - {keep}" and all: "ok \<Longrightarrow> closed_fds n1 = {3..} - {keep}"
    using 1 close_ranges_closed[OF assms(1), of k tr ok n1] assms(1) by (auto split: if_splits)
  show ?thesis
  proof (cases ok)
    case True
    with 2 n all show ?thesis by simp
  next
    case False
    with 2 have "yields (close_each k keep (- 1)) (tr @ n1) () n2" by simp
    then obtain r where "(SysGetrlimit, r) \<in> set n2" "closed_fds n2 = {3..<descriptor_limit r} - {keep}"
      by (rule close_each_closed)
    with n sub1 show ?thesis by auto
  qed
qed

theorem inherited_descriptors_closed_witness:
  "closed_fds [(SysCloseRange 3 (Some 6), SOk 0 []), (SysCloseRange 8 None, SOk 0 [])] = {3..} - {7}"
proof -
  let ?k = "\<lambda>tr c. SOk 0 [] :: sys_result"
  let ?n = "[(SysCloseRange 3 (Some 6), SOk 0 []), (SysCloseRange 8 None, SOk 0 [])]"
  have y: "yields (close_extra_fds ?k True 7 (- 1)) [] () ?n"
    by (simp add: close_extra_fds_def close_ranges_def yields_bind granted_def) blast
  from inherited_descriptors_closed[OF _ y] show ?thesis by simp
qed

section \<open>Judged code starts only inside the sandbox\<close>

fun is_exec :: "syscall \<Rightarrow> bool" where
  "is_exec (SysExecve p a e) \<longleftrightarrow> True"
| "is_exec c \<longleftrightarrow> False"

lemma only_mono: "only P m \<Longrightarrow> (\<And>c. P c \<Longrightarrow> Q c) \<Longrightarrow> only Q m"
  unfolding only_def by (metis list.pred_mono_strong)

lemma child_bind_assoc: "child_bind (child_bind m f) g = child_bind m (\<lambda>x. child_bind (f x) g)"
  unfolding child_bind_def by (rule ext) (simp split: option.split sum.split prod.split)

lemma child_bind_return: "child_bind (child_return x) f = f x"
  unfolding child_bind_def child_return_def by (rule ext) (simp split: option.split)

lemma child_seq_append: "child_seq (ms @ ms') = child_bind (child_seq ms) (\<lambda>_. child_seq ms')"
proof (induction ms)
  case Nil
  then show ?case by (simp add: child_bind_return)
next
  case (Cons m ms)
  then show ?case by (simp only: append_Cons child_seq.simps child_bind_assoc)
qed

text \<open>If the last step of a sequence was reached, all steps before it succeeded.\<close>

lemma last_step_reached:
  assumes run: "child_seq (ms @ [must k stage c]) tr = Some (r, n)"
    and before: "\<And>m. m \<in> set ms \<Longrightarrow> only (\<lambda>c. \<not> Q c) m"
    and call: "(c', x) \<in> set n" "Q c'"
  obtains n' where "yields (child_seq ms) tr () n'" "n = n' @ [(c, x)]" "c' = c"
proof -
  have only_ms: "only (\<lambda>c. \<not> Q c) (child_seq ms)" by (rule only_seq) (rule before)
  from run have "child_bind (child_seq ms) (\<lambda>_. child_seq [must k stage c]) tr = Some (r, n)" by (simp only: child_seq_append)
  then obtain r' n1 where 1: "child_seq ms tr = Some (r', n1)" by (auto simp: child_bind_def split: option.splits)
  have no: "(c', x) \<notin> set n1" using onlyD[OF only_ms 1, of c' x] call(2) by blast
  show thesis
  proof (cases r')
    case (Inl e)
    with run 1 have "n = n1" by (simp add: child_seq_append child_bind_def)
    with no call(1) show ?thesis by simp
  next
    case (Inr u)
    obtain n2 where n2: "n = n1 @ n2" "child_seq [must k stage c] (tr @ n1) = Some (r, n2)"
      using run 1 Inr by (auto simp: child_seq_append child_bind_def split: option.splits)
    have "n2 = [(c, k (tr @ n1) c)]"
      using n2(2) by (auto simp: child_seq.simps must_def child_bind_def issue_def child_fail_def child_return_def
          split: sys_result.splits)
    with n2 no call(1) have "n = n1 @ [(c, x)]" "c' = c" by auto
    moreover have "yields (child_seq ms) tr () n1" using 1 Inr by (simp add: yields_def)
    ultimately show ?thesis using that by blast
  qed
qed

lemma enter_root_no_exec: "only (\<lambda>c. \<not> is_exec c) (sandbox_enter_root k workspace root extra dst compile_phase program mb)"
proof (rule only_mono[OF only_enter_root])
  fix c assume "confined_call root (bind_sources workspace compile_phase extra) program c"
  then show "\<not> is_exec c" by (cases c) auto
qed

lemma close_extra_fds_no_exec: "only (\<lambda>c. \<not> is_exec c) (close_extra_fds k has_close_range keep keep2)"
  unfolding close_extra_fds_def close_ranges_def close_range_def close_each_def by (auto intro!: child_only)

lemma apply_no_exec:
  "only (\<lambda>c. \<not> is_exec c) (sandbox_apply_limits k limits)" "only (\<lambda>c. \<not> is_exec c) (sandbox_apply_seccomp k program)"
  unfolding sandbox_apply_limits_def set_limit_def sandbox_apply_seccomp_def by (auto intro!: child_only)

lemma enter_root_ends_inside:
  assumes "yields (sandbox_enter_root k workspace root extra dst compile_phase program mb) tr () n"
  obtains n' v d v' d' where "n = n' @ [(SysChroot root, SOk v d), (SysChdir kSandboxBoxPath, SOk v' d')]"
proof -
  obtain ms where "sandbox_enter_root k workspace root extra dst compile_phase program mb
      = child_seq (ms @ [must k StChroot (SysChroot root), must k StChdir (SysChdir kSandboxBoxPath)])"
    unfolding sandbox_enter_root_def by (metis append_Cons append_Nil append_assoc)
  with assms show thesis using that by (auto simp: yields_seq_append yields_seq_Cons)
qed

definition limit_calls :: "sandbox_limits \<Rightarrow> syscall list" where
  "limit_calls limits =
     [SysSetrlimit RLIMIT_CPU (sl_cpu_limit_sec limits) (sl_cpu_limit_sec limits + 1),
      SysSetrlimit RLIMIT_FSIZE (sl_fsize_limit_bytes limits) (sl_fsize_limit_bytes limits),
      SysSetrlimit RLIMIT_STACK (sl_stack_limit_bytes limits) (sl_stack_limit_bytes limits),
      SysSetrlimit RLIMIT_NOFILE (sl_nofile_limit limits) (sl_nofile_limit limits),
      SysSetrlimit RLIMIT_CORE 0 0]"

lemma spawn_prepare_sandbox:
  assumes "spawn_prepare host cancelled request = Inr plan" and "sr_sandbox request"
  shows "build_seccomp_program (eh_headers host) (sr_phase request) = Inr (lp_filter plan)"
    "lp_limits plan = compute_limits (sr_phase request) (sr_memory_limit_kb request) (sr_time_limit_ms request)"
    "lp_root_dir plan = sr_working_directory request @ ''/.oj_sandbox''" "lp_env plan = env_strings (sr_phase request)"
    "length (lp_filter plan) \<le> 4096"
proof -
  show f: "build_seccomp_program (eh_headers host) (sr_phase request) = Inr (lp_filter plan)"
    "lp_limits plan = compute_limits (sr_phase request) (sr_memory_limit_kb request) (sr_time_limit_ms request)"
    "lp_root_dir plan = sr_working_directory request @ ''/.oj_sandbox''" "lp_env plan = env_strings (sr_phase request)"
    using assms by (auto simp: spawn_prepare_def make_plan_def Let_def split: if_splits sum.splits prod.splits)
  from f(1) show "length (lp_filter plan) \<le> 4096"
    unfolding build_seccomp_program_def by (rule assemble_size)
qed

text \<open>
  C4: judged code never runs outside the sandbox. Whatever the kernel answers, if the process of a sandboxed request calls
  \<open>execve\<close> at all, then this is its last call and before it, each successfully and in this order, it entered the root in
  the working directory and its box, lowered the five limits computed for the request, gave up gaining privileges and
  installed exactly the filter of the phase; the program sees only the fixed environment.
\<close>

theorem exec_only_in_sandbox:
  assumes "spawn_prepare host cancelled request = Inr plan" and "sr_sandbox request"
    and "payload_main k has_close_range request plan fds tr = Some (r, n)"
    and "(SysExecve p a e, x) \<in> set n"
  shows "build_seccomp_program (eh_headers host) (sr_phase request) = Inr (lp_filter plan)
    \<and> (\<exists>n0 n1 n2 v1 d1 v2 d2 v3 d3 v4 d4.
         n = n0 @ [(SysChroot (sr_working_directory request @ ''/.oj_sandbox''), SOk v1 d1), (SysChdir kSandboxBoxPath, SOk v2 d2)]
           @ n1 @ n2 @ [(SysNoNewPrivs, SOk v3 d3), (SysSeccomp (lp_filter plan), SOk v4 d4),
             (SysExecve (lp_inside_program plan) (lp_exec_argv plan) (env_strings (sr_phase request)), x)]
         \<and> map fst n2 = limit_calls (compute_limits (sr_phase request) (sr_memory_limit_kb request) (sr_time_limit_ms request))
         \<and> (\<forall>c \<in> set n2. granted (snd c)))"
proof -
  note plan = spawn_prepare_sandbox[OF assms(1,2)]
  let ?phase = "sr_phase request = PhaseCompile"
  define front where "front =
     [must k StExec (SysDup2 (pf_in fds) 0), must k StExec (SysDup2 (pf_out fds) 1),
      must k StExec (SysDup2 (if sr_merge_stderr request then pf_out fds else pf_err fds) 2)]
     @ map (\<lambda>fd. attempt k (SysClose fd)) [pf_sync1 fds, pf_sync2 fds, pf_in fds, pf_out fds, pf_err fds]"
  define enter where "enter = sandbox_enter_root k (sr_working_directory request) (lp_root_dir plan)
     (optional (lp_extra_bind_src plan)) (optional (lp_extra_bind_dst plan)) ?phase (lp_run_copy_src plan) (sandbox_root_tmpfs_mb ?phase)"
  let ?ms = "front @ [enter, close_extra_fds k has_close_range (pf_exec fds) (- 1), sandbox_apply_limits k (lp_limits plan),
      sandbox_apply_seccomp k (lp_filter plan)]"
  let ?exec = "SysExecve (lp_inside_program plan) (lp_exec_argv plan) (lp_env plan)"
  have steps: "payload_steps k has_close_range request plan fds = ?ms @ [must k StExec ?exec]"
    using assms(2) by (simp add: payload_steps_def front_def enter_def)
  have no_exec: "only (\<lambda>c. \<not> is_exec c) m" if "m \<in> set ?ms" for m
    using that close_extra_fds_no_exec apply_no_exec enter_root_no_exec
    unfolding front_def enter_def by (auto intro!: child_only)
  from assms(3) have "child_seq (?ms @ [must k StExec ?exec]) tr = Some (r, n)" by (simp only: payload_main_def steps)
  from last_step_reached[OF this no_exec assms(4)] obtain n' where
      n': "yields (child_seq ?ms) tr () n'" and n: "n = n' @ [(?exec, x)]"
    by (metis is_exec.simps(1))
  from n' obtain tr1 n1 n2 n3 n4 n5 where n'_eq: "n' = n1 @ n2 @ n3 @ n4 @ n5" and enter: "yields enter tr1 () n2"
    and limits: "yields (sandbox_apply_limits k (lp_limits plan)) (tr1 @ n2 @ n3) () n4"
    and seccomp: "yields (sandbox_apply_seccomp k (lp_filter plan)) (tr1 @ n2 @ n3 @ n4) () n5"
    by (auto simp: yields_seq_append yields_seq_Cons)
  from enter obtain m v1 d1 v2 d2 where m: "n2 = m @ [(SysChroot (lp_root_dir plan), SOk v1 d1), (SysChdir kSandboxBoxPath, SOk v2 d2)]"
    unfolding enter_def by (rule enter_root_ends_inside)
  have filter: "take (length (lp_filter plan) mod 65536) (lp_filter plan) = lp_filter plan" using plan(5) by simp
  from seccomp obtain v3 d3 v4 d4 where n5: "n5 = [(SysNoNewPrivs, SOk v3 d3), (SysSeccomp (lp_filter plan), SOk v4 d4)]"
    unfolding apply_seccomp_calls filter by blast
  have n4: "map fst n4 = limit_calls (lp_limits plan) \<and> (\<forall>c \<in> set n4. granted (snd c))"
    using apply_limits_calls[OF limits] compute_limits_no_core[of "sr_phase request"] unfolding plan(2)
    by (auto simp: limit_calls_def granted_def)
  have "n = (n1 @ m) @ [(SysChroot (sr_working_directory request @ ''/.oj_sandbox''), SOk v1 d1), (SysChdir kSandboxBoxPath, SOk v2 d2)]
      @ n3 @ n4 @ [(SysNoNewPrivs, SOk v3 d3), (SysSeccomp (lp_filter plan), SOk v4 d4),
        (SysExecve (lp_inside_program plan) (lp_exec_argv plan) (env_strings (sr_phase request)), x)]"
    using n n'_eq m n5 plan(3,4) by simp
  with n4 plan(1,2) show ?thesis by metis
qed

text \<open>A request that satisfies the hypotheses: a system program in the run phase on a kernel that grants every call.\<close>

definition grants :: "unit child \<Rightarrow> bool" where
  "grants m \<longleftrightarrow> (\<forall>tr. \<exists>n. m tr = Some (Inr (), n))"

lemma grants_seq: "(\<And>m. m \<in> set ms \<Longrightarrow> grants m) \<Longrightarrow> grants (child_seq ms)"
proof (induction ms)
  case Nil
  then show ?case by (simp add: grants_def child_return_def)
next
  case (Cons m ms)
  have m: "grants m" and ms: "grants (child_seq ms)" using Cons by simp_all
  show ?case
    unfolding grants_def
  proof
    fix tr
    from m obtain n where "m tr = Some (Inr (), n)" unfolding grants_def by blast
    moreover from ms obtain n' where "child_seq ms (tr @ n) = Some (Inr (), n')" unfolding grants_def by blast
    ultimately show "\<exists>n. child_seq (m # ms) tr = Some (Inr (), n)" by (simp add: child_seq.simps child_bind_def)
  qed
qed

lemma granting_close_range [simp]: "close_range granting_kernel lo hi tr = Some (Inr True, [(SysCloseRange lo hi, SOk 3 [])])"
  by (simp add: close_range_def child_bind_def child_return_def granted_def)

lemma grants_steps:
  "grants (must granting_kernel stage c)" "grants (attempt granting_kernel c)"
  "grants (close_extra_fds granting_kernel True 9 (- 1))" "grants (sandbox_apply_limits granting_kernel limits)"
  "program \<noteq> [] \<Longrightarrow> grants (sandbox_apply_seccomp granting_kernel program)"
proof -
  show 1: "grants (must granting_kernel stage c)" "grants (attempt granting_kernel c)" for stage c by (simp_all add: grants_def)
  show "grants (close_extra_fds granting_kernel True 9 (- 1))"
    by (simp add: grants_def close_extra_fds_def close_ranges_def child_bind_def child_return_def)
  show "grants (sandbox_apply_limits granting_kernel limits)"
    unfolding sandbox_apply_limits_def set_limit_def by (rule grants_seq) (auto simp: 1)
  show "program \<noteq> [] \<Longrightarrow> grants (sandbox_apply_seccomp granting_kernel program)"
    unfolding sandbox_apply_seccomp_def by (auto intro!: grants_seq simp: 1)
qed

lemma grants_enter_root: "grants (sandbox_enter_root granting_kernel ''/w'' ''/w/.oj_sandbox'' None None False None 64)"
  by (simp add: grants_def sandbox_enter_root_def child_seq.simps child_bind_def make_root_dir_def make_dir_def bind_usr_def
      make_symlink_def mount_proc_def make_device_def build_box_def copy_program_def box_readonly_def extra_bind_def join_path_def
      mount_bind_readonly_def child_return_def root_directories_def root_symlinks_def root_devices_def Let_def kSandboxBoxPath_def)

definition demo_headers :: kernel_headers where
  "demo_headers = \<lparr>kh_defined = (\<lambda>name. False), kh_nr = (\<lambda>name. 0)\<rparr>"

definition demo_executor_host :: executor_host where
  "demo_executor_host = \<lparr>eh_path = None, eh_access = (\<lambda>p. None), eh_strerror = (\<lambda>e. []), eh_headers = demo_headers\<rparr>"

definition demo_spawn :: spawn_request where
  "demo_spawn = \<lparr>sr_argv = [''/bin/true''], sr_working_directory = ''/w'', sr_input = [], sr_time_limit_ms = 1000,
     sr_stdout_limit = 16, sr_stderr_limit = 16, sr_merge_stderr = False, sr_sandbox = True, sr_phase = PhaseRun,
     sr_memory_limit_kb = 65536\<rparr>"

definition demo_fds :: payload_fds where
  "demo_fds = \<lparr>pf_in = 4, pf_out = 5, pf_err = 6, pf_exec = 9, pf_sync1 = 7, pf_sync2 = 8\<rparr>"

lemma build_seccomp_program_exists: "\<exists>prog. build_seccomp_program h phase = Inr prog \<and> prog \<noteq> []"
proof -
  have "length (seccomp_rules h phase) \<le> 254" using length_rule_names[of h phase] by (simp add: seccomp_rules_alt)
  then obtain prog where "assemble (seccomp_rules h phase) = Inr prog" "length prog = length (seccomp_rules h phase) + 7"
    using assemble_exec by blast
  then show ?thesis unfolding build_seccomp_program_def by (intro exI[of _ prog]) auto
qed

lemma demo_place: "place_program True ''/w'' ''/bin/true'' = (''/bin/true'', [], [])"
  by (simp add: place_program_def starts_with_def is_system_prefix_def system_prefixes_def)

theorem exec_only_in_sandbox_witness:
  "\<exists>plan n. spawn_prepare demo_executor_host False demo_spawn = Inr plan
     \<and> payload_main granting_kernel True demo_spawn plan demo_fds [] = Some (Inr (), n)
     \<and> (\<exists>n0 v d rest. n = n0 @ (SysChroot (''/w'' @ ''/.oj_sandbox''), SOk v d) # rest)"
proof -
  obtain prog where prog: "build_seccomp_program demo_headers PhaseRun = Inr prog" "prog \<noteq> []"
    using build_seccomp_program_exists by blast
  define plan where "plan = make_plan demo_spawn ''/bin/true'' prog"
  have prep: "spawn_prepare demo_executor_host False demo_spawn = Inr plan"
    using prog by (simp add: spawn_prepare_def demo_executor_host_def demo_spawn_def find_program_def plan_def Let_def)
  let ?exec = "SysExecve ''/bin/true'' (lp_exec_argv plan) (lp_env plan)"
  have plan: "lp_inside_program plan = ''/bin/true''" "lp_extra_bind_src plan = []" "lp_extra_bind_dst plan = []"
    "lp_run_copy_src plan = None" "lp_root_dir plan = ''/w/.oj_sandbox''" "lp_filter plan = prog"
    by (simp_all add: plan_def make_plan_def demo_spawn_def demo_place Let_def starts_with_def kSandboxBoxPath_def)
  obtain ms where steps: "payload_steps granting_kernel True demo_spawn plan demo_fds = ms @ [must granting_kernel StExec ?exec]"
    and ms: "\<And>m. m \<in> set ms \<Longrightarrow> grants m"
  proof
    let ?ms = "butlast (payload_steps granting_kernel True demo_spawn plan demo_fds)"
    show "payload_steps granting_kernel True demo_spawn plan demo_fds = ?ms @ [must granting_kernel StExec ?exec]"
      by (simp add: payload_steps_def demo_spawn_def plan)
    show "grants m" if "m \<in> set ?ms" for m
      using that grants_enter_root grants_steps prog(2)
      by (auto simp: payload_steps_def demo_spawn_def demo_fds_def plan optional_def sandbox_root_tmpfs_mb_def)
  qed
  have "grants (child_seq (ms @ [must granting_kernel StExec ?exec]))" by (rule grants_seq) (use ms grants_steps(1) in auto)
  then obtain n where n: "payload_main granting_kernel True demo_spawn plan demo_fds [] = Some (Inr (), n)"
    unfolding payload_main_def steps grants_def by blast
  then have "yields (child_seq (ms @ [must granting_kernel StExec ?exec])) [] () n"
    by (simp add: yields_def payload_main_def steps)
  then obtain n1 v d where "n = n1 @ [(?exec, SOk v d)]" by (auto simp: yields_seq_append yields_seq_Cons)
  then have "(?exec, SOk v d) \<in> set n" by simp
  from exec_only_in_sandbox[OF prep _ n this] have "\<exists>n0 v d rest. n = n0 @ (SysChroot (''/w'' @ ''/.oj_sandbox''), SOk v d) # rest"
    by (auto simp: demo_spawn_def)
  with prep n show ?thesis by blast
qed

text \<open>
  A failure to change into the box is one of the steps that set up the sandbox, yet the result the service builds from its report does
  not carry the mark of a sandbox failure: the stage is the one that an unsandboxed start uses for its working directory.
\<close>

definition no_box_kernel :: kernel where
  "no_box_kernel = (\<lambda>tr c. if c = SysChdir kSandboxBoxPath then SErr 2 else SOk 3 [])"

lemma no_box_calls:
  "c \<noteq> SysChdir kSandboxBoxPath \<Longrightarrow> must no_box_kernel stage c tr = Some (Inr (), [(c, SOk 3 [])])"
  "c \<noteq> SysChdir kSandboxBoxPath \<Longrightarrow> attempt no_box_kernel c tr = Some (Inr (), [(c, SOk 3 [])])"
  "c \<noteq> SysChdir kSandboxBoxPath \<Longrightarrow> issue no_box_kernel c tr = Some (Inr (SOk 3 []), [(c, SOk 3 [])])"
  "must no_box_kernel stage (SysChdir kSandboxBoxPath) tr = Some (Inl (stage, 2), [(SysChdir kSandboxBoxPath, SErr 2)])"
  by (simp_all add: must_def attempt_def child_bind_def issue_def child_fail_def child_return_def no_box_kernel_def)

theorem box_chdir_failure_unmarked:
  "\<exists>n. sandbox_enter_root no_box_kernel ''/w'' ''/w/.oj_sandbox'' None None False None 64 [] = Some (Inl (StChdir, 2), n)
     \<and> pr_launch_error (report_failure strerror (StChdir, 2)) \<and> \<not> pr_sandbox_error (report_failure strerror (StChdir, 2))"
proof -
  have "\<exists>n. sandbox_enter_root no_box_kernel ''/w'' ''/w/.oj_sandbox'' None None False None 64 [] = Some (Inl (StChdir, 2), n)"
    by (simp add: no_box_calls[unfolded kSandboxBoxPath_def] sandbox_enter_root_def child_seq.simps child_bind_def make_root_dir_def make_dir_def bind_usr_def
        make_symlink_def mount_proc_def make_device_def build_box_def copy_program_def box_readonly_def extra_bind_def
        join_path_def mount_bind_readonly_def child_return_def root_directories_def root_symlinks_def root_devices_def Let_def
        kSandboxBoxPath_def)
  then show ?thesis by (simp add: report_failure_def launch_error_def default_process_result_def)
qed

end
