(* ===== verification/OJ_Supervision.thy ===== *)
theory OJ_Supervision
  imports OJ_Local_Executor OJ_Judge_Engine
begin

text \<open>
  Supervising a started process (the second half of \<open>LocalExecutor::spawn\<close> in \<open>judge/local_executor.cpp\<close>). One iteration of the loop is a
  function of the state and of what the service observes in it: the answer of \<open>waitpid\<close>, the clock, the cancellation token,
  the memory sample, and what polling, reading and writing the pipes returned. Observations are arbitrary, so the results
  hold for every behaviour of the judged program and every schedule. Times are nanoseconds of the steady clock.
\<close>

section \<open>Observations\<close>

datatype wait_answer = WaitNotYet | WaitReaped wait_status | WaitNoChild

text \<open>How draining a pipe ended after the blocks it delivered; what a write to the input pipe returned.\<close>

datatype read_end = ReadEof | ReadAgain | ReadError

datatype write_answer = WriteHup | Wrote nat | WriteRetry | WriteFailed

type_synonym drained = "string list \<times> read_end"

datatype poll_answer =
    PollInterrupted
  | PollFailed
  | PollTimeout
  | PollReady "drained option" "drained option" "write_answer option"

record observation =
  ob_wait :: wait_answer
  ob_reap_time :: int
  ob_now :: int
  ob_cancelled :: bool
  ob_rss :: int
  ob_poll :: poll_answer

section \<open>State and one iteration\<close>

record supervise_config =
  sv_start :: int
  sv_deadline :: int
  sv_input :: string
  sv_stdout_limit :: nat
  sv_stderr_limit :: nat
  sv_memory_limit_kb :: int

record supervision =
  sp_cancelled :: bool
  sp_timed_out :: bool
  sp_memory_exceeded :: bool
  sp_stdout :: "string \<times> bool"
  sp_stderr :: "string \<times> bool"
  sp_in_open :: bool
  sp_out_open :: bool
  sp_err_open :: bool
  sp_in_offset :: nat
  sp_reaped_at :: "int option"
  sp_status :: "wait_status option"
  sp_killed :: bool
  sp_kills :: nat
  sp_read_failed :: bool
  sp_last_memory_check :: int
  sp_peak_memory_kb :: int

definition ms :: "int \<Rightarrow> int" where
  "ms n = n * 1000000"

definition supervise_config_of :: "spawn_request \<Rightarrow> int \<Rightarrow> supervise_config" where
  "supervise_config_of request start =
     \<lparr>sv_start = start, sv_deadline = start + ms (sr_time_limit_ms request), sv_input = sr_input request,
      sv_stdout_limit = sr_stdout_limit request, sv_stderr_limit = sr_stderr_limit request,
      sv_memory_limit_kb = sr_memory_limit_kb request\<rparr>"

definition note_peak :: "int \<Rightarrow> int \<Rightarrow> int" where
  "note_peak rss peak = (if peak < rss then rss else peak)"

definition supervise_start :: "supervise_config \<Rightarrow> int \<Rightarrow> supervision" where
  "supervise_start cfg initial_rss =
     \<lparr>sp_cancelled = False, sp_timed_out = False, sp_memory_exceeded = False, sp_stdout = ([], False), sp_stderr = ([], False),
      sp_in_open = (sv_input cfg \<noteq> []), sp_out_open = True, sp_err_open = True, sp_in_offset = 0, sp_reaped_at = None,
      sp_status = None, sp_killed = False, sp_kills = 0, sp_read_failed = False, sp_last_memory_check = sv_start cfg,
      sp_peak_memory_kb = (if 0 < sv_memory_limit_kb cfg then note_peak initial_rss 0 else 0)\<rparr>"

definition kill_group :: "supervision \<Rightarrow> supervision" where
  "kill_group st = st\<lparr>sp_killed := True, sp_kills := sp_kills st + 1\<rparr>"

definition reap_step :: "observation \<Rightarrow> supervision \<Rightarrow> supervision" where
  "reap_step ob st =
     (if sp_reaped_at st \<noteq> None then st
      else case ob_wait ob of
        WaitReaped s \<Rightarrow> st\<lparr>sp_reaped_at := Some (ob_reap_time ob), sp_status := Some s\<rparr>
      | WaitNoChild \<Rightarrow> st\<lparr>sp_reaped_at := Some (ob_reap_time ob)\<rparr>
      | WaitNotYet \<Rightarrow> st)"

definition cancel_step :: "observation \<Rightarrow> supervision \<Rightarrow> supervision" where
  "cancel_step ob st =
     (if \<not> sp_killed st \<and> ob_cancelled ob then kill_group (st\<lparr>sp_cancelled := True\<rparr>) else st)"

definition deadline_step :: "supervise_config \<Rightarrow> observation \<Rightarrow> supervision \<Rightarrow> supervision" where
  "deadline_step cfg ob st =
     (if \<not> sp_killed st \<and> sp_reaped_at st = None \<and> sv_deadline cfg \<le> ob_now ob
      then kill_group (st\<lparr>sp_timed_out := True\<rparr>) else st)"

definition memory_step :: "supervise_config \<Rightarrow> observation \<Rightarrow> supervision \<Rightarrow> supervision" where
  "memory_step cfg ob st =
     (if \<not> sp_killed st \<and> 0 < sv_memory_limit_kb cfg \<and> sp_reaped_at st = None \<and> ms 20 \<le> ob_now ob - sp_last_memory_check st
      then let st' = st\<lparr>sp_last_memory_check := ob_now ob, sp_peak_memory_kb := note_peak (ob_rss ob) (sp_peak_memory_kb st)\<rparr> in
        if sv_memory_limit_kb cfg < ob_rss ob then kill_group (st'\<lparr>sp_memory_exceeded := True\<rparr>) else st'
      else st)"

text \<open>Pipes kept open by descendants are given up 200 ms after the child is gone.\<close>

definition grace_over :: "observation \<Rightarrow> supervision \<Rightarrow> bool" where
  "grace_over ob st =
     (case sp_reaped_at st of
        None \<Rightarrow> False
      | Some t \<Rightarrow> (sp_out_open st \<or> sp_err_open st) \<and> ms 200 < ob_now ob - t)"

definition grace_close :: "supervision \<Rightarrow> supervision" where
  "grace_close st = (if sp_killed st then st else kill_group st)\<lparr>sp_out_open := False, sp_err_open := False\<rparr>"

definition poll_timeout :: "supervise_config \<Rightarrow> observation \<Rightarrow> supervision \<Rightarrow> int" where
  "poll_timeout cfg ob st =
     (if sp_killed st then 20
      else let remaining = (sv_deadline cfg - ob_now ob) div 1000000 in min (if remaining < 0 then 0 else remaining) 20)"

definition drain_out :: "supervise_config \<Rightarrow> drained option \<Rightarrow> supervision \<Rightarrow> supervision" where
  "drain_out cfg d st =
     (case d of
        Some (blocks, e) \<Rightarrow>
          if sp_out_open st
          then st\<lparr>sp_stdout := fold (append_bounded (sv_stdout_limit cfg)) blocks (sp_stdout st), sp_out_open := (e = ReadAgain)\<rparr>
          else st
      | None \<Rightarrow> st)"

definition drain_err :: "supervise_config \<Rightarrow> drained option \<Rightarrow> supervision \<Rightarrow> supervision" where
  "drain_err cfg d st =
     (case d of
        Some (blocks, e) \<Rightarrow>
          if sp_err_open st
          then st\<lparr>sp_stderr := fold (append_bounded (sv_stderr_limit cfg)) blocks (sp_stderr st), sp_err_open := (e = ReadAgain)\<rparr>
          else st
      | None \<Rightarrow> st)"

definition feed_in :: "supervise_config \<Rightarrow> write_answer option \<Rightarrow> supervision \<Rightarrow> supervision" where
  "feed_in cfg a st =
     (if sp_in_open st \<and> \<not> sp_killed st \<and> sp_in_offset st < length (sv_input cfg)
      then (case a of
          None \<Rightarrow> st
        | Some WriteHup \<Rightarrow> st\<lparr>sp_in_open := False\<rparr>
        | Some (Wrote n) \<Rightarrow>
            let off = sp_in_offset st + n in
            st\<lparr>sp_in_offset := off, sp_in_open := (sp_in_open st \<and> \<not> (0 < n \<and> length (sv_input cfg) \<le> off))\<rparr>
        | Some WriteRetry \<Rightarrow> st
        | Some WriteFailed \<Rightarrow> st\<lparr>sp_in_open := False\<rparr>)
      else st)"

datatype loop_step = SupContinue supervision | SupDone supervision

text \<open>The checks at the head of an iteration, then polling.\<close>

definition check_steps :: "supervise_config \<Rightarrow> observation \<Rightarrow> supervision \<Rightarrow> supervision" where
  "check_steps cfg ob st = memory_step cfg ob (deadline_step cfg ob (cancel_step ob st))"

definition supervise_iter :: "supervise_config \<Rightarrow> observation \<Rightarrow> supervision \<Rightarrow> loop_step" where
  "supervise_iter cfg ob st0 =
     (let st = reap_step ob st0 in
      if sp_reaped_at st \<noteq> None \<and> \<not> sp_out_open st \<and> \<not> sp_err_open st then SupDone st
      else let st = check_steps cfg ob st in
        if grace_over ob st then SupDone (grace_close st)
        else case ob_poll ob of
          PollInterrupted \<Rightarrow> SupContinue st
        | PollFailed \<Rightarrow> SupDone (st\<lparr>sp_read_failed := True\<rparr>)
        | PollTimeout \<Rightarrow> SupContinue st
        | PollReady out err inp \<Rightarrow> SupContinue (feed_in cfg inp (drain_err cfg err (drain_out cfg out st))))"

text \<open>The loop over a sequence of observations; no value means that it is still running at the end of the sequence.\<close>

fun supervise :: "supervise_config \<Rightarrow> observation list \<Rightarrow> supervision \<Rightarrow> supervision option" where
  "supervise cfg [] st = None"
| "supervise cfg (ob # obs) st =
     (case supervise_iter cfg ob st of SupDone st' \<Rightarrow> Some st' | SupContinue st' \<Rightarrow> supervise cfg obs st')"

section \<open>The result\<close>

text \<open>After the loop: what the final blocking wait, the clock and the last memory sample return.\<close>

record final_observation =
  fo_wait :: "wait_status option"
  fo_end :: int
  fo_rss :: int

definition final_status :: "final_observation \<Rightarrow> supervision \<Rightarrow> wait_status option" where
  "final_status fo st = (if sp_reaped_at st = None then fo_wait fo else sp_status st)"

definition termination_of :: "supervision \<Rightarrow> wait_status option \<Rightarrow> termination_reason" where
  "termination_of st status =
     (if sp_cancelled st then Cancelled
      else if sp_timed_out st then TimedOut
      else if sp_memory_exceeded st then MemoryExceeded
      else case status of
        Some (WExited c) \<Rightarrow> if c = 0 then Completed else NonZeroExit
      | Some (WSignaled s) \<Rightarrow> if s \<noteq> 0 then Signaled else LaunchFailure
      | None \<Rightarrow> LaunchFailure)"

definition finish_supervision :: "supervise_config \<Rightarrow> final_observation \<Rightarrow> supervision \<Rightarrow> process_result" where
  "finish_supervision cfg fo st =
     (let status = final_status fo st;
          reason = termination_of st status;
          peak = (if 0 < sv_memory_limit_kb cfg then note_peak (fo_rss fo) (sp_peak_memory_kb st) else sp_peak_memory_kb st) in
      \<lparr>pr_launched = True, pr_launch_error = False, pr_launch_error_message = [], pr_sandbox_error = False,
       pr_termination = reason, pr_timed_out = sp_timed_out st, pr_cancelled = sp_cancelled st,
       pr_exited = (case status of Some (WExited c) \<Rightarrow> True | _ \<Rightarrow> False),
       pr_exit_code = (case status of Some (WExited c) \<Rightarrow> c | _ \<Rightarrow> 0),
       pr_term_signal = (case status of Some (WSignaled s) \<Rightarrow> s | _ \<Rightarrow> 0),
       pr_memory_exceeded = sp_memory_exceeded st, pr_memory_kb = (if 0 < peak then peak else 0),
       pr_stdout_truncated = snd (sp_stdout st), pr_stderr_truncated = snd (sp_stderr st),
       pr_sanitizer_error = (reason \<noteq> Completed \<and> looks_like_sanitizer_report (fst (sp_stderr st))),
       pr_stdout_data = fst (sp_stdout st), pr_stderr_data = fst (sp_stderr st),
       pr_time_ms = (fo_end fo - sv_start cfg) div 1000000\<rparr>)"

text \<open>The kills of one supervision, including the one after a failed poll.\<close>

definition final_kills :: "supervision \<Rightarrow> nat" where
  "final_kills st = sp_kills st + (if sp_read_failed st \<and> sp_reaped_at st = None then 1 else 0)"

text \<open>
  Starting and supervising: pipes, the fork, the report of the child about its start (none when the program image was replaced),
  the start of the clock and the first memory sample are observations too.
\<close>

record launch_observation =
  lo_pipe :: "int option"
  lo_fork :: "int option"
  lo_report :: "(sandbox_stage \<times> int) option"
  lo_start :: int
  lo_initial_rss :: int

definition spawn ::
  "executor_host \<Rightarrow> bool \<Rightarrow> spawn_request \<Rightarrow> launch_observation \<Rightarrow> observation list \<Rightarrow> final_observation \<Rightarrow> process_result option" where
  "spawn host cancelled request lo obs fo =
     (case spawn_prepare host cancelled request of
        Inl result \<Rightarrow> Some result
      | Inr plan \<Rightarrow> (case lo_pipe lo of
          Some e \<Rightarrow> Some (launch_error (txt_pipe_failed @ eh_strerror host e))
        | None \<Rightarrow> (case lo_fork lo of
            Some e \<Rightarrow> Some (launch_error (txt_fork_failed @ eh_strerror host e))
          | None \<Rightarrow> (case lo_report lo of
              Some failure \<Rightarrow> Some (report_failure (eh_strerror host) failure)
            | None \<Rightarrow>
                let cfg = supervise_config_of request (lo_start lo) in
                map_option (finish_supervision cfg fo) (supervise cfg obs (supervise_start cfg (lo_initial_rss lo)))))))"

text \<open>\<open>LocalExecutor::run\<close>, and the self test at the start of the service, which runs a system program in the sandbox.\<close>

definition local_run ::
  "executor_host \<Rightarrow> bool \<Rightarrow> run_request \<Rightarrow> string \<Rightarrow> launch_observation \<Rightarrow> observation list \<Rightarrow> final_observation \<Rightarrow> process_result option" where
  "local_run host cancelled request input lo obs fo = spawn host cancelled (run_spawn request input) lo obs fo"

definition local_compile ::
  "executor_host \<Rightarrow> bool \<Rightarrow> compile_request \<Rightarrow> launch_observation \<Rightarrow> observation list \<Rightarrow> final_observation \<Rightarrow> process_result option" where
  "local_compile host cancelled request lo obs fo = spawn host cancelled (compile_spawn request) lo obs fo"

definition self_test_request :: "string \<Rightarrow> run_request" where
  "self_test_request dir = \<lparr>rr_executable_path = ''/bin/true'', rr_working_directory = dir, rr_time_limit_ms = 10000,
     rr_stdout_limit_bytes = 65536, rr_stderr_limit_bytes = 16384, rr_sandbox = True, rr_memory_limit_kb = 262144\<rparr>"

definition sandbox_self_test :: "string + string \<Rightarrow> (run_request \<Rightarrow> process_result) \<Rightarrow> string + unit" where
  "sandbox_self_test workspace run =
     (case workspace of
        Inl e \<Rightarrow> Inl (txt_selftest_workspace @ e)
      | Inr dir \<Rightarrow>
          let result = run (self_test_request dir) in
          if pr_launch_error result then Inl (txt_selftest_launch @ pr_launch_error_message result)
          else if pr_timed_out result then Inl txt_selftest_timeout
          else if \<not> pr_exited result \<or> pr_exit_code result \<noteq> 0
          then Inl (txt_selftest_exit_1 @ int_to_string (pr_exit_code result) @ txt_selftest_exit_2
            @ int_to_string (pr_term_signal result) @ txt_selftest_exit_3)
          else Inr ())"

section \<open>The invariant of the loop\<close>

lemmas supervise_steps = reap_step_def cancel_step_def deadline_step_def memory_step_def check_steps_def grace_over_def
  grace_close_def drain_out_def drain_err_def feed_in_def kill_group_def

fun loop_state :: "loop_step \<Rightarrow> supervision" where
  "loop_state (SupContinue st) = st"
| "loop_state (SupDone st) = st"

text \<open>The three reasons for which the service ends a program by itself.\<close>

definition stopped_by_service :: "supervision \<Rightarrow> bool" where
  "stopped_by_service st \<longleftrightarrow> sp_cancelled st \<or> sp_timed_out st \<or> sp_memory_exceeded st"

text \<open>
  At most one reason is recorded, the group is killed at most once, a running child is killed only for a recorded reason, and a status
  is known only for a child that is gone.
\<close>

definition sup_inv :: "supervision \<Rightarrow> bool" where
  "sup_inv st \<longleftrightarrow>
     \<not> (sp_cancelled st \<and> sp_timed_out st) \<and> \<not> (sp_cancelled st \<and> sp_memory_exceeded st) \<and> \<not> (sp_timed_out st \<and> sp_memory_exceeded st)
     \<and> (stopped_by_service st \<longrightarrow> sp_killed st)
     \<and> (sp_killed st \<and> sp_reaped_at st = None \<longrightarrow> stopped_by_service st)
     \<and> sp_kills st = (if sp_killed st then 1 else 0)
     \<and> (sp_status st \<noteq> None \<longrightarrow> sp_reaped_at st \<noteq> None)"

lemma sup_inv_start: "sup_inv (supervise_start cfg rss)"
  by (simp add: sup_inv_def stopped_by_service_def supervise_start_def)

lemma sup_inv_steps:
  "sup_inv st \<Longrightarrow> sup_inv (reap_step ob st)"
  "sup_inv st \<Longrightarrow> sup_inv (cancel_step ob st)"
  "sup_inv st \<Longrightarrow> sup_inv (deadline_step cfg ob st)"
  "sup_inv st \<Longrightarrow> sup_inv (memory_step cfg ob st)"
  "sup_inv st \<Longrightarrow> grace_over ob st \<Longrightarrow> sup_inv (grace_close st)"
  "sup_inv st \<Longrightarrow> sup_inv (drain_out cfg d st)"
  "sup_inv st \<Longrightarrow> sup_inv (drain_err cfg d st)"
  "sup_inv st \<Longrightarrow> sup_inv (feed_in cfg a st)"
  unfolding sup_inv_def stopped_by_service_def supervise_steps Let_def
  by (auto split: wait_answer.splits option.splits write_answer.splits prod.splits)

lemma sup_inv_iter: "sup_inv st \<Longrightarrow> sup_inv (loop_state (supervise_iter cfg ob st))"
proof -
  assume "sup_inv st"
  then have r: "sup_inv (reap_step ob st)" and c: "sup_inv (check_steps cfg ob (reap_step ob st))"
    unfolding check_steps_def by (auto intro!: sup_inv_steps)
  have failed: "sup_inv (st'\<lparr>sp_read_failed := True\<rparr>) = sup_inv st'" for st'
    by (simp add: sup_inv_def stopped_by_service_def)
  show ?thesis
    using r c unfolding supervise_iter_def Let_def
    by (auto simp: failed intro!: sup_inv_steps split: poll_answer.splits)
qed

inductive sup_step :: "supervise_config \<Rightarrow> supervision \<Rightarrow> supervision \<Rightarrow> bool" for cfg where
  iter: "sup_step cfg st (loop_state (supervise_iter cfg ob st))"

definition sup_init :: "supervise_config \<Rightarrow> supervision \<Rightarrow> bool" where
  "sup_init cfg st \<longleftrightarrow> (\<exists>rss. st = supervise_start cfg rss)"

interpretation supervision: invariant_system "sup_init cfg" "sup_step cfg" sup_inv
  by unfold_locales (auto simp: sup_init_def sup_inv_start elim!: sup_step.cases intro: sup_inv_iter)

text \<open>The states of a run are reached by steps of the loop.\<close>

lemma supervise_reaches: "supervise cfg obs st = Some st' \<Longrightarrow> (sup_step cfg)\<^sup>*\<^sup>* st st'"
proof (induction cfg obs st rule: supervise.induct)
  case (1 cfg st)
  then show ?case by simp
next
  case (2 cfg ob obs st)
  have step: "sup_step cfg st (loop_state (supervise_iter cfg ob st))" by (rule sup_step.iter)
  show ?case
  proof (cases "supervise_iter cfg ob st")
    case (SupContinue s)
    with 2 step show ?thesis by (auto intro: converse_rtranclp_into_rtranclp)
  next
    case (SupDone s)
    with 2 step show ?thesis by auto
  qed
qed

lemma supervise_inv: "supervise cfg obs (supervise_start cfg rss) = Some st \<Longrightarrow> sup_inv st"
  by (rule supervision.inv_steps[OF supervise_reaches sup_inv_start])

section \<open>What was read\<close>

definition iter_out :: "supervise_config \<Rightarrow> observation \<Rightarrow> supervision \<Rightarrow> string list" where
  "iter_out cfg ob st = (case supervise_iter cfg ob st of SupDone st' \<Rightarrow> []
     | SupContinue st' \<Rightarrow> (case ob_poll ob of PollReady (Some (blocks, e)) err inp \<Rightarrow> if sp_out_open st then blocks else [] | _ \<Rightarrow> []))"

definition iter_err :: "supervise_config \<Rightarrow> observation \<Rightarrow> supervision \<Rightarrow> string list" where
  "iter_err cfg ob st = (case supervise_iter cfg ob st of SupDone st' \<Rightarrow> []
     | SupContinue st' \<Rightarrow> (case ob_poll ob of PollReady out (Some (blocks, e)) inp \<Rightarrow> if sp_err_open st then blocks else [] | _ \<Rightarrow> []))"

text \<open>All blocks that a run took from the pipe of the standard output, and from that of the standard error.\<close>

fun consumed :: "(supervise_config \<Rightarrow> observation \<Rightarrow> supervision \<Rightarrow> string list) \<Rightarrow> supervise_config \<Rightarrow> observation list \<Rightarrow> supervision \<Rightarrow> string list" where
  "consumed f cfg [] st = []"
| "consumed f cfg (ob # obs) st =
     f cfg ob st @ (case supervise_iter cfg ob st of SupDone st' \<Rightarrow> [] | SupContinue st' \<Rightarrow> consumed f cfg obs st')"

lemma step_fields [simp]:
  "sp_stdout (reap_step ob st) = sp_stdout st" "sp_stdout (check_steps cfg ob st) = sp_stdout st" "sp_stdout (grace_close st) = sp_stdout st"
  "sp_stderr (reap_step ob st) = sp_stderr st" "sp_stderr (check_steps cfg ob st) = sp_stderr st" "sp_stderr (grace_close st) = sp_stderr st"
  "sp_out_open (reap_step ob st) = sp_out_open st" "sp_out_open (check_steps cfg ob st) = sp_out_open st"
  "sp_err_open (reap_step ob st) = sp_err_open st" "sp_err_open (check_steps cfg ob st) = sp_err_open st"
  "sp_stdout (feed_in cfg a st) = sp_stdout st" "sp_stderr (feed_in cfg a st) = sp_stderr st"
  "sp_stdout (drain_err cfg d st) = sp_stdout st" "sp_stderr (drain_out cfg d st) = sp_stderr st"
  "sp_err_open (drain_out cfg d st) = sp_err_open st"
  by (auto simp: supervise_steps Let_def split: wait_answer.splits option.splits write_answer.splits prod.splits)

lemma sp_stdout_drain [simp]: "sp_stdout (drain_out cfg d st) = (case d of
     Some (blocks, e) \<Rightarrow> if sp_out_open st then fold (append_bounded (sv_stdout_limit cfg)) blocks (sp_stdout st) else sp_stdout st
   | None \<Rightarrow> sp_stdout st)"
  by (auto simp: drain_out_def split: option.splits prod.splits)

lemma sp_stderr_drain [simp]: "sp_stderr (drain_err cfg d st) = (case d of
     Some (blocks, e) \<Rightarrow> if sp_err_open st then fold (append_bounded (sv_stderr_limit cfg)) blocks (sp_stderr st) else sp_stderr st
   | None \<Rightarrow> sp_stderr st)"
  by (auto simp: drain_err_def split: option.splits prod.splits)

lemma iter_outputs:
  "sp_stdout (loop_state (supervise_iter cfg ob st)) = fold (append_bounded (sv_stdout_limit cfg)) (iter_out cfg ob st) (sp_stdout st)"
  "sp_stderr (loop_state (supervise_iter cfg ob st)) = fold (append_bounded (sv_stderr_limit cfg)) (iter_err cfg ob st) (sp_stderr st)"
  by (auto simp: supervise_iter_def iter_out_def iter_err_def Let_def split: poll_answer.splits option.splits prod.splits)

lemma supervise_outputs:
  "supervise cfg obs st = Some st' \<Longrightarrow>
     sp_stdout st' = fold (append_bounded (sv_stdout_limit cfg)) (consumed iter_out cfg obs st) (sp_stdout st)
   \<and> sp_stderr st' = fold (append_bounded (sv_stderr_limit cfg)) (consumed iter_err cfg obs st) (sp_stderr st)"
proof (induction cfg obs st rule: supervise.induct)
  case (1 cfg st)
  then show ?case by simp
next
  case (2 cfg ob obs st)
  show ?case
  proof (cases "supervise_iter cfg ob st")
    case (SupContinue s)
    with 2 iter_outputs[of cfg ob st] show ?thesis by simp
  next
    case (SupDone s)
    with 2 iter_outputs[of cfg ob st] show ?thesis by simp
  qed
qed

text \<open>A read that returned data returned at least one byte.\<close>

definition blocks_ok :: "observation \<Rightarrow> bool" where
  "blocks_ok ob = (case ob_poll ob of
     PollReady out err inp \<Rightarrow> (case out of None \<Rightarrow> True | Some d \<Rightarrow> [] \<notin> set (fst d)) \<and> (case err of None \<Rightarrow> True | Some d \<Rightarrow> [] \<notin> set (fst d))
   | _ \<Rightarrow> True)"

lemma consumed_ok:
  "\<forall>ob \<in> set obs. blocks_ok ob \<Longrightarrow> [] \<notin> set (consumed iter_out cfg obs st) \<and> [] \<notin> set (consumed iter_err cfg obs st)"
proof (induction obs arbitrary: st)
  case (Cons ob obs)
  have "[] \<notin> set (iter_out cfg ob st)" "[] \<notin> set (iter_err cfg ob st)"
    using Cons.prems by (auto simp: iter_out_def iter_err_def blocks_ok_def split: loop_step.splits poll_answer.splits option.splits if_splits)
  with Cons show ?case by (auto split: loop_step.splits)
qed simp

section \<open>Why a program was stopped\<close>

text \<open>A reason that is new after an iteration was observed in it; reasons are never withdrawn.\<close>

lemma timed_out_fields [simp]:
  "sp_timed_out (reap_step ob st) = sp_timed_out st" "sp_timed_out (cancel_step ob st) = sp_timed_out st"
  "sp_timed_out (memory_step cfg ob st) = sp_timed_out st" "sp_timed_out (grace_close st) = sp_timed_out st"
  "sp_timed_out (drain_out cfg d st) = sp_timed_out st" "sp_timed_out (drain_err cfg d st) = sp_timed_out st"
  "sp_timed_out (feed_in cfg a st) = sp_timed_out st"
  "sp_timed_out (deadline_step cfg ob st)
     \<longleftrightarrow> sp_timed_out st \<or> \<not> sp_killed st \<and> sp_reaped_at st = None \<and> sv_deadline cfg \<le> ob_now ob"
  by (auto simp: supervise_steps Let_def split: wait_answer.splits option.splits write_answer.splits prod.splits)

lemma cancelled_fields [simp]:
  "sp_cancelled (reap_step ob st) = sp_cancelled st" "sp_cancelled (deadline_step cfg ob st) = sp_cancelled st"
  "sp_cancelled (memory_step cfg ob st) = sp_cancelled st" "sp_cancelled (grace_close st) = sp_cancelled st"
  "sp_cancelled (drain_out cfg d st) = sp_cancelled st" "sp_cancelled (drain_err cfg d st) = sp_cancelled st"
  "sp_cancelled (feed_in cfg a st) = sp_cancelled st"
  "sp_cancelled (cancel_step ob st) \<longleftrightarrow> sp_cancelled st \<or> \<not> sp_killed st \<and> ob_cancelled ob"
  by (auto simp: supervise_steps Let_def split: wait_answer.splits option.splits write_answer.splits prod.splits)

lemma memory_fields [simp]:
  "sp_memory_exceeded (reap_step ob st) = sp_memory_exceeded st" "sp_memory_exceeded (cancel_step ob st) = sp_memory_exceeded st"
  "sp_memory_exceeded (deadline_step cfg ob st) = sp_memory_exceeded st" "sp_memory_exceeded (grace_close st) = sp_memory_exceeded st"
  "sp_memory_exceeded (drain_out cfg d st) = sp_memory_exceeded st" "sp_memory_exceeded (drain_err cfg d st) = sp_memory_exceeded st"
  "sp_memory_exceeded (feed_in cfg a st) = sp_memory_exceeded st"
  "sp_memory_exceeded (memory_step cfg ob st) \<longleftrightarrow> sp_memory_exceeded st \<or> \<not> sp_killed st \<and> 0 < sv_memory_limit_kb cfg
     \<and> sp_reaped_at st = None \<and> ms 20 \<le> ob_now ob - sp_last_memory_check st \<and> sv_memory_limit_kb cfg < ob_rss ob"
  by (auto simp: supervise_steps Let_def split: wait_answer.splits option.splits write_answer.splits prod.splits)

lemma reaped_fields [simp]:
  "sp_reaped_at (check_steps cfg ob st) = sp_reaped_at st" "sp_reaped_at (grace_close st) = sp_reaped_at st"
  "sp_reaped_at (drain_out cfg d st) = sp_reaped_at st" "sp_reaped_at (drain_err cfg d st) = sp_reaped_at st"
  "sp_reaped_at (feed_in cfg a st) = sp_reaped_at st"
  by (auto simp: supervise_steps Let_def split: option.splits write_answer.splits prod.splits)

lemma killed_fields [simp]:
  "sp_killed (drain_out cfg d st) = sp_killed st" "sp_killed (drain_err cfg d st) = sp_killed st"
  "sp_killed (feed_in cfg a st) = sp_killed st"
  by (auto simp: supervise_steps Let_def split: option.splits write_answer.splits prod.splits)

lemma iter_reasons:
  "sp_timed_out st \<Longrightarrow> sp_timed_out (loop_state (supervise_iter cfg ob st))"
  "sp_timed_out (loop_state (supervise_iter cfg ob st)) \<Longrightarrow> sp_timed_out st \<or> sv_deadline cfg \<le> ob_now ob"
  "sp_memory_exceeded st \<Longrightarrow> sp_memory_exceeded (loop_state (supervise_iter cfg ob st))"
  "sp_memory_exceeded (loop_state (supervise_iter cfg ob st)) \<Longrightarrow> sp_memory_exceeded st
     \<or> 0 < sv_memory_limit_kb cfg \<and> sv_memory_limit_kb cfg < ob_rss ob"
  "sp_cancelled st \<Longrightarrow> sp_cancelled (loop_state (supervise_iter cfg ob st))"
  "sp_cancelled (loop_state (supervise_iter cfg ob st)) \<Longrightarrow> sp_cancelled st \<or> ob_cancelled ob"
  by (auto simp: supervise_iter_def check_steps_def Let_def split: poll_answer.splits if_splits)

lemma supervise_reasons:
  assumes "supervise cfg obs st = Some st'"
  shows "sp_timed_out st' \<longrightarrow> sp_timed_out st \<or> (\<exists>ob \<in> set obs. sv_deadline cfg \<le> ob_now ob)"
    and "sp_memory_exceeded st' \<longrightarrow> sp_memory_exceeded st \<or> 0 < sv_memory_limit_kb cfg \<and> (\<exists>ob \<in> set obs. sv_memory_limit_kb cfg < ob_rss ob)"
    and "sp_cancelled st' \<longrightarrow> sp_cancelled st \<or> (\<exists>ob \<in> set obs. ob_cancelled ob)"
    and "stopped_by_service st \<longrightarrow> stopped_by_service st'"
  using assms
proof (induction cfg obs st rule: supervise.induct)
  case (2 cfg ob obs st)
  note r = iter_reasons[where cfg = cfg and ob = ob and st = st]
  {
    case 1
    with "2.IH"(1) r(2) show ?case by (cases "supervise_iter cfg ob st") auto
  next
    case 2
    with "2.IH"(2) r(4) show ?case by (cases "supervise_iter cfg ob st") auto
  next
    case 3
    with "2.IH"(3) r(6) show ?case by (cases "supervise_iter cfg ob st") auto
  next
    case 4
    have "stopped_by_service st \<longrightarrow> stopped_by_service (loop_state (supervise_iter cfg ob st))"
      using r(1,3,5) by (auto simp: stopped_by_service_def)
    with 4 "2.IH"(4) show ?case by (cases "supervise_iter cfg ob st") auto
  }
qed simp_all

section \<open>Runs in parts\<close>

definition run_states :: "supervise_config \<Rightarrow> observation list \<Rightarrow> supervision \<Rightarrow> supervision" where
  "run_states cfg obs st = fold (\<lambda>ob s. loop_state (supervise_iter cfg ob s)) obs st"

lemma run_states_simps [simp]:
  "run_states cfg [] st = st" "run_states cfg (ob # obs) st = run_states cfg obs (loop_state (supervise_iter cfg ob st))"
  by (simp_all add: run_states_def)

lemma supervise_append:
  "supervise cfg (xs @ ys) st = (case supervise cfg xs st of Some s \<Rightarrow> Some s | None \<Rightarrow> supervise cfg ys (run_states cfg xs st))"
  by (induction xs arbitrary: st) (auto split: loop_step.split option.split)

lemma run_states_inv: "sup_inv st \<Longrightarrow> sup_inv (run_states cfg obs st)"
  by (induction obs arbitrary: st) (simp_all add: sup_inv_iter)

lemma iter_reaped: "sp_reaped_at (loop_state (supervise_iter cfg ob st)) = sp_reaped_at (reap_step ob st)"
  by (simp add: supervise_iter_def Let_def split: poll_answer.split)

lemma run_states_unreaped:
  "\<forall>ob \<in> set obs. ob_wait ob = WaitNotYet \<Longrightarrow> sp_reaped_at st = None \<Longrightarrow> sp_reaped_at (run_states cfg obs st) = None"
proof (induction obs arbitrary: st)
  case (Cons ob obs)
  then have "sp_reaped_at (loop_state (supervise_iter cfg ob st)) = None" by (simp add: iter_reaped reap_step_def)
  with Cons show ?case by simp
qed simp

lemma deadline_enforced:
  assumes "sup_inv st" "sp_reaped_at st = None" "ob_wait ob = WaitNotYet" "sv_deadline cfg \<le> ob_now ob"
  shows "stopped_by_service (loop_state (supervise_iter cfg ob st))"
proof -
  let ?st = "loop_state (supervise_iter cfg ob st)"
  have r: "reap_step ob st = st" using assms by (simp add: reap_step_def)
  have k: "sp_killed (check_steps cfg ob st)"
    using assms(2,4) by (auto simp: check_steps_def memory_step_def deadline_step_def cancel_step_def kill_group_def Let_def)
  have "sp_killed ?st" using assms(2) k by (simp add: supervise_iter_def r Let_def grace_over_def split: poll_answer.split)
  moreover have "sp_reaped_at ?st = None" using assms(2) by (simp add: iter_reaped r)
  ultimately show ?thesis using sup_inv_iter[OF assms(1), of cfg ob] by (simp add: sup_inv_def)
qed

lemma iter_ends_after_grace:
  assumes "sp_reaped_at (reap_step ob s) = Some t" and "ms 200 < ob_now ob - t"
  shows "\<exists>st. supervise_iter cfg ob s = SupDone st"
proof (cases "sp_out_open s \<or> sp_err_open s")
  case True
  with assms have "grace_over ob (check_steps cfg ob (reap_step ob s))" by (simp add: grace_over_def)
  with True show ?thesis by (auto simp: supervise_iter_def Let_def)
next
  case False
  with assms show ?thesis by (simp add: supervise_iter_def Let_def)
qed

lemma overrun_is_stopped:
  assumes "supervise cfg (pre @ ob # post) (supervise_start cfg rss) = Some st'"
    and "supervise cfg pre (supervise_start cfg rss) = None"
    and "\<forall>x \<in> set (pre @ [ob]). ob_wait x = WaitNotYet" and "sv_deadline cfg \<le> ob_now ob"
  shows "stopped_by_service st'"
proof -
  let ?s = "run_states cfg pre (supervise_start cfg rss)"
  have "sp_reaped_at ?s = None" by (rule run_states_unreaped) (use assms(3) in \<open>auto simp: supervise_start_def\<close>)
  then have stop: "stopped_by_service (loop_state (supervise_iter cfg ob ?s))"
    using assms(3,4) by (intro deadline_enforced run_states_inv sup_inv_start) auto
  have "supervise cfg (ob # post) ?s = Some st'" using assms(1,2) by (simp add: supervise_append)
  then show ?thesis
    using stop supervise_reasons(4)[of cfg post _ st'] by (cases "supervise_iter cfg ob ?s") auto
qed

section \<open>Properties of a supervised run\<close>

text \<open>
  C31: the collected output is exactly the beginning of what the program wrote, up to the limit of the request, and the mark of
  truncation says whether something is missing; the same holds for the diagnostics. This holds however the output
  arrives and whatever ends the program.
\<close>

theorem supervised_output_exact:
  assumes "supervise cfg obs (supervise_start cfg rss) = Some st" and "\<forall>ob \<in> set obs. blocks_ok ob"
  shows "let r = finish_supervision cfg fo st;
             out = concat (consumed iter_out cfg obs (supervise_start cfg rss));
             err = concat (consumed iter_err cfg obs (supervise_start cfg rss)) in
         pr_stdout_data r = take (sv_stdout_limit cfg) out \<and> (pr_stdout_truncated r \<longleftrightarrow> sv_stdout_limit cfg < length out)
       \<and> pr_stderr_data r = take (sv_stderr_limit cfg) err \<and> (pr_stderr_truncated r \<longleftrightarrow> sv_stderr_limit cfg < length err)"
proof -
  have start: "sp_stdout (supervise_start cfg rss) = ([], False)" "sp_stderr (supervise_start cfg rss) = ([], False)"
    by (simp_all add: supervise_start_def)
  note ok = consumed_ok[OF assms(2), of cfg "supervise_start cfg rss"]
  show ?thesis
    using supervise_outputs[OF assms(1)] ok
    by (simp add: start append_bounded_fold finish_supervision_def Let_def)
qed

text \<open>
  C29: a termination reason is earned. Completed is reported exactly for an exit with code zero that the service did not force;
  a timeout only if the clock had passed the deadline, a memory failure only if a sample exceeded the limit, a
  cancellation only if the token was set; the group is killed at most once. Conversely a program that is still running at
  the deadline is never reported as anything but stopped by the service.
\<close>

theorem supervision_verdict:
  assumes "supervise cfg obs (supervise_start cfg rss) = Some st"
  shows "let r = finish_supervision cfg fo st in
      (pr_termination r = Completed \<longleftrightarrow> final_status fo st = Some (WExited 0) \<and> \<not> stopped_by_service st)
    \<and> (pr_termination r = TimedOut \<longrightarrow> (\<exists>ob \<in> set obs. sv_deadline cfg \<le> ob_now ob))
    \<and> (pr_termination r = MemoryExceeded \<longrightarrow> 0 < sv_memory_limit_kb cfg \<and> (\<exists>ob \<in> set obs. sv_memory_limit_kb cfg < ob_rss ob))
    \<and> (pr_termination r = Cancelled \<longrightarrow> (\<exists>ob \<in> set obs. ob_cancelled ob))
    \<and> sp_kills st \<le> 1
    \<and> (\<forall>pre ob post. obs = pre @ ob # post \<and> supervise cfg pre (supervise_start cfg rss) = None
         \<and> (\<forall>x \<in> set (pre @ [ob]). ob_wait x = WaitNotYet) \<and> sv_deadline cfg \<le> ob_now ob
         \<longrightarrow> pr_termination r \<in> {Cancelled, TimedOut, MemoryExceeded})"
proof -
  let ?r = "finish_supervision cfg fo st"
  have start: "\<not> sp_timed_out (supervise_start cfg rss)" "\<not> sp_cancelled (supervise_start cfg rss)"
    "\<not> sp_memory_exceeded (supervise_start cfg rss)" by (simp_all add: supervise_start_def)
  have reason: "pr_termination ?r = termination_of st (final_status fo st)" by (simp add: finish_supervision_def Let_def)
  have flags: "pr_termination ?r = TimedOut \<longrightarrow> sp_timed_out st" "pr_termination ?r = MemoryExceeded \<longrightarrow> sp_memory_exceeded st"
    "pr_termination ?r = Cancelled \<longrightarrow> sp_cancelled st"
    unfolding reason by (auto simp: termination_of_def split: option.splits wait_status.splits)
  have stopped: "pr_termination ?r \<in> {Cancelled, TimedOut, MemoryExceeded}" if "stopped_by_service st"
    unfolding reason using that by (auto simp: termination_of_def stopped_by_service_def)
  have overrun: "stopped_by_service st" if "obs = pre @ ob # post" "supervise cfg pre (supervise_start cfg rss) = None"
      "\<forall>x \<in> set (pre @ [ob]). ob_wait x = WaitNotYet" "sv_deadline cfg \<le> ob_now ob" for pre ob post
    by (rule overrun_is_stopped[OF _ that(2,3,4)]) (use assms that(1) in simp)
  have completed: "pr_termination ?r = Completed \<longleftrightarrow> final_status fo st = Some (WExited 0) \<and> \<not> stopped_by_service st"
    unfolding reason by (auto simp: termination_of_def stopped_by_service_def split: option.splits wait_status.splits if_splits)
  have kills: "sp_kills st \<le> 1" using supervise_inv[OF assms] by (simp add: sup_inv_def)
  show ?thesis
    unfolding Let_def
    using completed kills flags stopped overrun supervise_reasons[OF assms] start by (intro conjI allI impI) blast+
qed

text \<open>A run: the program writes four bytes in two blocks, then exits.\<close>

definition demo_config :: supervise_config where
  "demo_config = \<lparr>sv_start = 0, sv_deadline = ms 1000, sv_input = ''7'', sv_stdout_limit = 3, sv_stderr_limit = 16,
     sv_memory_limit_kb = 65536\<rparr>"

definition demo_observations :: "observation list" where
  "demo_observations =
    [\<lparr>ob_wait = WaitNotYet, ob_reap_time = 0, ob_now = ms 1, ob_cancelled = False, ob_rss = - 1,
      ob_poll = PollReady (Some ([''42''], ReadAgain)) None (Some (Wrote 1))\<rparr>,
     \<lparr>ob_wait = WaitReaped (WExited 0), ob_reap_time = ms 2, ob_now = ms 2, ob_cancelled = False, ob_rss = - 1,
      ob_poll = PollReady (Some ([''43''], ReadEof)) (Some ([], ReadEof)) None\<rparr>,
     \<lparr>ob_wait = WaitNotYet, ob_reap_time = 0, ob_now = ms 3, ob_cancelled = False, ob_rss = - 1, ob_poll = PollTimeout\<rparr>]"

definition demo_final :: final_observation where
  "demo_final = \<lparr>fo_wait = None, fo_end = ms 4, fo_rss = - 1\<rparr>"

lemma demo_run: "\<exists>st. supervise demo_config demo_observations (supervise_start demo_config 0) = Some st
    \<and> final_status demo_final st = Some (WExited 0) \<and> \<not> stopped_by_service st"
  by (simp add: demo_config_def demo_observations_def demo_final_def supervise_iter_def supervise_steps supervise_start_def ms_def
      Let_def append_bounded_def final_status_def stopped_by_service_def note_peak_def)

lemma demo_consumed: "concat (consumed iter_out demo_config demo_observations (supervise_start demo_config 0)) = ''4243''"
  by (simp add: demo_config_def demo_observations_def iter_out_def supervise_iter_def supervise_steps supervise_start_def ms_def
      Let_def append_bounded_def note_peak_def)

lemma demo_blocks_ok: "\<forall>ob \<in> set demo_observations. blocks_ok ob"
  by (simp add: demo_observations_def blocks_ok_def)

theorem supervised_output_exact_witness:
  "\<exists>st. supervise demo_config demo_observations (supervise_start demo_config 0) = Some st
     \<and> pr_stdout_data (finish_supervision demo_config demo_final st) = ''424''
     \<and> pr_stdout_truncated (finish_supervision demo_config demo_final st)"
proof -
  from demo_run obtain st where st: "supervise demo_config demo_observations (supervise_start demo_config 0) = Some st" by blast
  have limit: "sv_stdout_limit demo_config = 3" by (simp add: demo_config_def)
  from supervised_output_exact[OF st demo_blocks_ok, of demo_final] st show ?thesis
    unfolding Let_def demo_consumed limit by (intro exI[of _ st]) simp
qed

theorem supervision_verdict_witness:
  "\<exists>st. supervise demo_config demo_observations (supervise_start demo_config 0) = Some st
     \<and> pr_termination (finish_supervision demo_config demo_final st) = Completed"
proof -
  from demo_run obtain st where st: "supervise demo_config demo_observations (supervise_start demo_config 0) = Some st"
    "final_status demo_final st = Some (WExited 0)" "\<not> stopped_by_service st" by blast
  from supervision_verdict[OF st(1), of demo_final] st show ?thesis unfolding Let_def by blast
qed

text \<open>
  C30: supervision ends. Once \<open>waitpid\<close> has reported the child, in some iteration up to the \<open>i\<close>-th, and the clock of a later iteration is
  200 ms past that time, the loop has returned, whether or not descendants of the child keep its pipes open and whatever
  polling returns in between. (That the child is gone eventually is the effect of the kill at the deadline.)
\<close>

theorem supervision_ends:
  assumes "ob_wait (obs i) \<noteq> WaitNotYet" and "i \<le> j" and "\<And>l. l \<le> i \<Longrightarrow> ob_reap_time (obs l) + ms 200 < ob_now (obs j)"
  shows "\<exists>st. supervise cfg (map obs [0..<Suc j]) (supervise_start cfg rss) = Some st"
proof (rule ccontr)
  let ?fresh = "supervise_start cfg rss"
  let ?s = "\<lambda>m. run_states cfg (map obs [0..<m]) ?fresh"
  assume "\<nexists>st. supervise cfg (map obs [0..<Suc j]) ?fresh = Some st"
  then have none: "supervise cfg (map obs [0..<Suc j]) ?fresh = None" by auto
  have step: "sp_reaped_at (?s (Suc m)) = sp_reaped_at (reap_step (obs m) (?s m))" for m
    by (simp add: run_states_def iter_reaped)
  have from_obs: "sp_reaped_at (?s m) = None \<or> (\<exists>l < m. sp_reaped_at (?s m) = Some (ob_reap_time (obs l)))" for m
  proof (induction m)
    case 0
    then show ?case by (simp add: supervise_start_def)
  next
    case (Suc m)
    then show ?case unfolding step by (auto simp: reap_step_def less_Suc_eq split: wait_answer.splits)
  qed
  have keep: "sp_reaped_at (?s m) = Some t \<Longrightarrow> sp_reaped_at (?s (m + k)) = Some t" for m k t
  proof (induction k)
    case (Suc k)
    then show ?case using step[of "m + k"] by (simp add: reap_step_def)
  qed simp
  have "sp_reaped_at (?s (Suc i)) \<noteq> None"
    unfolding step using assms(1) by (auto simp: reap_step_def split: wait_answer.splits)
  then obtain l where l: "l \<le> i" "sp_reaped_at (?s (Suc i)) = Some (ob_reap_time (obs l))"
    using from_obs[of "Suc i"] by (auto simp: less_Suc_eq_le)
  have reaped: "sp_reaped_at (reap_step (obs j) (?s j)) = Some (ob_reap_time (obs l))"
  proof (cases "i = j")
    case True
    then show ?thesis using l(2) step[of j] by simp
  next
    case False
    then have "sp_reaped_at (?s (Suc i + (j - Suc i))) = Some (ob_reap_time (obs l))" by (intro keep l(2))
    with False assms(2) show ?thesis by (simp add: reap_step_def)
  qed
  have "ms 200 < ob_now (obs j) - ob_reap_time (obs l)" using assms(3)[OF l(1)] by simp
  with reaped obtain st where ended: "supervise_iter cfg (obs j) (?s j) = SupDone st"
    using iter_ends_after_grace by blast
  have "supervise cfg (map obs [0..<j] @ [obs j]) ?fresh = None" using none by simp
  then have "supervise cfg [obs j] (?s j) = None" unfolding supervise_append by (auto split: option.splits)
  with ended show False by simp
qed

definition hanging_observation :: "nat \<Rightarrow> observation" where
  "hanging_observation n = \<lparr>ob_wait = (if n = 2 then WaitReaped (WSignaled 9) else WaitNotYet), ob_reap_time = ms 1, ob_now = ms (150 * int n),
     ob_cancelled = False, ob_rss = - 1, ob_poll = PollTimeout\<rparr>"

theorem supervision_ends_witness:
  "\<exists>st. supervise demo_config (map hanging_observation [0..<Suc 2]) (supervise_start demo_config 0) = Some st"
  by (rule supervision_ends[where i = 2 and j = 2]) (simp_all add: hanging_observation_def ms_def)

text \<open>
  C5: an accepted test point, end to end. If the classification of the result that the local executor returns for the run of a test
  point is Accepted, then the program was started (in the sandbox, when it is enabled), it exited by itself with code
  zero, the service did not stop it, nothing of its output was cut off, and all it wrote matches the expected
  output.
\<close>

theorem accepted_run_sound:
  assumes "local_run host cancelled (run_request_of opts task dir limit) (tc_input tc) lo obs fo = Some pr"
    and "\<forall>ob \<in> set obs. blocks_ok ob"
    and "cv_status (classify_case (evidence_of opts task capped tc pr)) = AC"
  shows "\<exists>plan st. let request = run_spawn (run_request_of opts task dir limit) (tc_input tc);
                       cfg = supervise_config_of request (lo_start lo);
                       start = supervise_start cfg (lo_initial_rss lo) in
      spawn_prepare host cancelled request = Inr plan \<and> lo_report lo = None
    \<and> supervise cfg obs start = Some st \<and> final_status fo st = Some (WExited 0) \<and> \<not> stopped_by_service st
    \<and> outputs_match (tc_output tc) (concat (consumed iter_out cfg obs start))"
proof -
  let ?request = "run_spawn (run_request_of opts task dir limit) (tc_input tc)"
  let ?cfg = "supervise_config_of ?request (lo_start lo)"
  let ?start = "supervise_start ?cfg (lo_initial_rss lo)"
  let ?out = "concat (consumed iter_out ?cfg obs ?start)"
  have clean: "\<not> pr_cancelled pr" "\<not> pr_launch_error pr" "\<not> pr_memory_exceeded pr" "\<not> pr_timed_out pr" "pr_exited pr"
    "pr_exit_code pr = 0" "\<not> pr_stdout_truncated pr" "outputs_match (tc_output tc) (pr_stdout_data pr)"
    using assms(3) by (auto simp: classify_case_def evidence_of_def default_verdict_def split: if_splits)
  have "spawn_prepare host cancelled ?request \<noteq> Inl result" if "\<not> pr_cancelled result" "\<not> pr_launch_error result" for result
    using that by (auto simp: spawn_prepare_def launch_error_def default_process_result_def split: if_splits sum.splits)
  then obtain plan where plan: "spawn_prepare host cancelled ?request = Inr plan"
    using assms(1) clean(1,2) by (cases "spawn_prepare host cancelled ?request") (auto simp: local_run_def spawn_def)
  with assms(1) clean(2) obtain st where st: "supervise ?cfg obs ?start = Some st" "pr = finish_supervision ?cfg fo st" "lo_report lo = None"
    by (auto simp: local_run_def spawn_def launch_error_def report_failure_def Let_def default_process_result_def split: option.splits)
  have flags: "\<not> stopped_by_service st" "final_status fo st = Some (WExited 0)"
    using clean(1,3-6) unfolding st(2)
    by (auto simp: stopped_by_service_def finish_supervision_def Let_def split: option.splits wait_status.splits)
  have "sp_stdout ?start = ([], False)" by (simp add: supervise_start_def)
  with supervise_outputs[OF st(1)] consumed_ok[OF assms(2), of ?cfg ?start]
  have "sp_stdout st = (take (sv_stdout_limit ?cfg) ?out, sv_stdout_limit ?cfg < length ?out)"
    by (simp add: append_bounded_fold)
  then have "pr_stdout_data pr = ?out"
    using clean(7) unfolding st(2) by (simp add: finish_supervision_def Let_def)
  with clean(8) have "outputs_match (tc_output tc) ?out" by simp
  with plan st(1,3) flags show ?thesis unfolding Let_def by blast
qed

definition demo_launch :: launch_observation where
  "demo_launch = \<lparr>lo_pipe = None, lo_fork = None, lo_report = None, lo_start = 0, lo_initial_rss = 0\<rparr>"

definition demo_testcase :: testcase where
  "demo_testcase = \<lparr>tc_input = ''7'', tc_output = ''4243''\<rparr>"

abbreviation demo_request :: spawn_request where
  "demo_request \<equiv> run_spawn (run_request_of default_judge_options demo_task ''/w'' 1000) (tc_input demo_testcase)"

lemma demo_prepared: "\<exists>plan. spawn_prepare demo_executor_host False demo_request = Inr plan"
proof -
  obtain prog where "build_seccomp_program demo_headers PhaseRun = Inr prog" using build_seccomp_program_exists by blast
  then show ?thesis
    by (simp add: spawn_prepare_def run_spawn_def run_argv_def run_request_of_def path_join_def find_program_def demo_executor_host_def Let_def)
qed

lemma demo_request_config: "supervise_config_of demo_request 0
    = demo_config\<lparr>sv_stdout_limit := sr_stdout_limit demo_request, sv_stderr_limit := sr_stderr_limit demo_request,
        sv_memory_limit_kb := sr_memory_limit_kb demo_request\<rparr>"
  by (simp add: supervise_config_of_def demo_config_def run_spawn_def run_request_of_def ms_def demo_testcase_def)

theorem accepted_run_sound_witness:
  "\<exists>pr st. local_run demo_executor_host False (run_request_of default_judge_options demo_task ''/w'' 1000) (tc_input demo_testcase)
       demo_launch demo_observations demo_final = Some pr
     \<and> cv_status (classify_case (evidence_of default_judge_options demo_task False demo_testcase pr)) = AC
     \<and> final_status demo_final st = Some (WExited 0)"
proof -
  let ?cfg = "supervise_config_of demo_request 0"
  have lim: "4 \<le> sv_stdout_limit ?cfg"
    by (simp add: supervise_config_of_def run_spawn_def run_request_of_def default_judge_options_def)
  have "\<exists>st. supervise ?cfg demo_observations (supervise_start ?cfg 0) = Some st \<and> sp_stdout st = (''4243'', False)
      \<and> final_status demo_final st = Some (WExited 0) \<and> \<not> stopped_by_service st"
    using lim unfolding demo_request_config
    by (simp add: demo_config_def demo_observations_def demo_final_def supervise_iter_def supervise_steps supervise_start_def ms_def
        Let_def append_bounded_def final_status_def stopped_by_service_def note_peak_def)
  then obtain st where st: "supervise ?cfg demo_observations (supervise_start ?cfg 0) = Some st" "sp_stdout st = (''4243'', False)"
    "final_status demo_final st = Some (WExited 0)" "\<not> stopped_by_service st" by blast
  obtain plan where plan: "spawn_prepare demo_executor_host False demo_request = Inr plan" using demo_prepared by blast
  let ?pr = "finish_supervision ?cfg demo_final st"
  have run: "local_run demo_executor_host False (run_request_of default_judge_options demo_task ''/w'' 1000) (tc_input demo_testcase)
       demo_launch demo_observations demo_final = Some ?pr"
    using plan st(1) by (simp add: local_run_def spawn_def demo_launch_def Let_def)
  have match: "outputs_match ''4243'' ''4243''" by (simp add: outputs_match_def)
  have ac: "cv_status (classify_case (evidence_of default_judge_options demo_task False demo_testcase ?pr)) = AC"
    using st(2-4) match by (simp add: classify_case_def evidence_of_def finish_supervision_def Let_def default_verdict_def
        stopped_by_service_def demo_testcase_def)
  from accepted_run_sound[OF run demo_blocks_ok ac] run ac show ?thesis unfolding Let_def by blast
qed

end
