(* ===== verification/OJ_Seed_Data.thy ===== *)
theory OJ_Seed_Data
  imports OJ_Problem_Input
begin

text \<open>
  The built-in problems (\<open>db/seed_data.h\<close>, \<open>db/seed_data.cpp\<close>): one constant per problem in the order of the source, and the list of all.
  Texts are byte strings, in UTF-8 like the source.
\<close>

record seed_testcase =
  sc_input :: string
  sc_output :: string
  sc_is_sample :: bool

record seed_problem =
  sd_seed_key :: string
  sd_title :: string
  sd_description :: string
  sd_difficulty :: string
  sd_tags :: string
  sd_time_limit_ms :: int
  sd_memory_limit_kb :: int
  sd_visible :: int
  sd_cases :: "seed_testcase list"

definition seed_a_plus_b :: seed_problem where
  "seed_a_plus_b = \<lparr>sd_seed_key = ''a-plus-b'',
    sd_title =
     ''A+B Problem'',
    sd_description =
     [CHR 0xE7, CHR 0xBB, CHR 0x99, CHR 0xE5, CHR 0xAE, CHR 0x9A, CHR 0xE4, CHR 0xB8, CHR 0xA4, CHR 0xE4, CHR 0xB8,
      CHR 0xAA, CHR 0xE6, CHR 0x95, CHR 0xB4, CHR 0xE6, CHR 0x95, CHR 0xB0, CHR '' '', CHR ''a'', CHR '' '', CHR 0xE5,
      CHR 0x92, CHR 0x8C, CHR '' '', CHR ''b'', CHR 0xEF, CHR 0xBC, CHR 0x8C, CHR 0xE8, CHR 0xBE, CHR 0x93, CHR 0xE5,
      CHR 0x87, CHR 0xBA, CHR 0xE5, CHR 0xAE, CHR 0x83, CHR 0xE4, CHR 0xBB, CHR 0xAC, CHR 0xE7, CHR 0x9A, CHR 0x84,
      CHR 0xE5, CHR 0x92, CHR 0x8C, CHR 0xE3, CHR 0x80, CHR 0x82, CHR 0x0A, CHR 0x0A, CHR 0xE8, CHR 0xBE, CHR 0x93,
      CHR 0xE5, CHR 0x85, CHR 0xA5, CHR 0xE6, CHR 0xA0, CHR 0xBC, CHR 0xE5, CHR 0xBC, CHR 0x8F, CHR 0xEF, CHR 0xBC,
      CHR 0x9A, CHR 0x0A, CHR 0xE4, CHR 0xB8, CHR 0x80, CHR 0xE8, CHR 0xA1, CHR 0x8C, CHR 0xE4, CHR 0xB8, CHR 0xA4,
      CHR 0xE4, CHR 0xB8, CHR 0xAA, CHR 0xE6, CHR 0x95, CHR 0xB4, CHR 0xE6, CHR 0x95, CHR 0xB0, CHR '' '', CHR ''a'',
      CHR '' '', CHR 0xE4, CHR 0xB8, CHR 0x8E, CHR '' '', CHR ''b'', CHR 0xEF, CHR 0xBC, CHR 0x8C, CHR 0xE4, CHR 0xBB,
      CHR 0xA5, CHR 0xE7, CHR 0xA9, CHR 0xBA, CHR 0xE6, CHR 0xA0, CHR 0xBC, CHR 0xE5, CHR 0x88, CHR 0x86, CHR 0xE9,
      CHR 0x9A, CHR 0x94, CHR 0xE3, CHR 0x80, CHR 0x82, CHR 0x0A, CHR 0x0A, CHR 0xE8, CHR 0xBE, CHR 0x93, CHR 0xE5,
      CHR 0x87, CHR 0xBA, CHR 0xE6, CHR 0xA0, CHR 0xBC, CHR 0xE5, CHR 0xBC, CHR 0x8F, CHR 0xEF, CHR 0xBC, CHR 0x9A,
      CHR 0x0A, CHR 0xE8, CHR 0xBE, CHR 0x93, CHR 0xE5, CHR 0x87, CHR 0xBA, CHR 0xE4, CHR 0xB8, CHR 0x80, CHR 0xE4,
      CHR 0xB8, CHR 0xAA, CHR 0xE6, CHR 0x95, CHR 0xB4, CHR 0xE6, CHR 0x95, CHR 0xB0, CHR 0xEF, CHR 0xBC, CHR 0x8C,
      CHR 0xE8, CHR 0xA1, CHR 0xA8, CHR 0xE7, CHR 0xA4, CHR 0xBA, CHR '' '', CHR ''a'', CHR '' '', CHR ''+'', CHR '' '',
      CHR ''b'', CHR '' '', CHR 0xE7, CHR 0x9A, CHR 0x84, CHR 0xE5, CHR 0x80, CHR 0xBC, CHR 0xE3, CHR 0x80, CHR 0x82,
      CHR 0x0A],
    sd_difficulty = ''easy'',
    sd_tags =
     [CHR 0xE5, CHR 0x85, CHR 0xA5, CHR 0xE9, CHR 0x97, CHR 0xA8, CHR '','', CHR 0xE6, CHR 0x95, CHR 0xB0, CHR 0xE5,
      CHR 0xAD, CHR 0xA6],
    sd_time_limit_ms = 2000, sd_memory_limit_kb = 65536, sd_visible = 1,
    sd_cases =
     [\<lparr>sc_input = [CHR 0x31, CHR '' '', CHR 0x32, CHR 0x0A],
      sc_output = [CHR 0x33, CHR 0x0A], sc_is_sample = True\<rparr>,
      \<lparr>sc_input = [CHR 0x31, CHR 0x30, CHR 0x30, CHR '' '', CHR ''-'', CHR 0x35, CHR 0x30, CHR 0x0A],
      sc_output = [CHR 0x35, CHR 0x30, CHR 0x0A], sc_is_sample = True\<rparr>,
      \<lparr>sc_input = [CHR 0x31, CHR 0x31, CHR 0x31, CHR 0x31, CHR 0x31, CHR 0x31, CHR 0x31, CHR 0x31, CHR 0x31, CHR '' '', CHR 0x32,
      CHR 0x32, CHR 0x32, CHR 0x32, CHR 0x32, CHR 0x32, CHR 0x32, CHR 0x32, CHR 0x32, CHR 0x0A],
      sc_output = [CHR 0x33, CHR 0x33, CHR 0x33, CHR 0x33, CHR 0x33, CHR 0x33, CHR 0x33, CHR 0x33, CHR 0x33, CHR 0x0A], sc_is_sample = False\<rparr>,
      \<lparr>sc_input = [CHR ''-'', CHR 0x34, CHR 0x34, CHR 0x34, CHR 0x34, CHR 0x34, CHR 0x34, CHR 0x34, CHR 0x34, CHR 0x34, CHR '' '',
      CHR ''-'', CHR 0x35, CHR 0x35, CHR 0x35, CHR 0x35, CHR 0x35, CHR 0x35, CHR 0x35, CHR 0x35, CHR 0x35, CHR 0x0A],
      sc_output = [CHR ''-'', CHR 0x39, CHR 0x39, CHR 0x39, CHR 0x39, CHR 0x39, CHR 0x39, CHR 0x39, CHR 0x39, CHR 0x39, CHR 0x0A], sc_is_sample = False\<rparr>,
      \<lparr>sc_input = [CHR 0x31, CHR 0x32, CHR 0x33, CHR 0x34, CHR 0x35, CHR 0x36, CHR 0x37, CHR 0x38, CHR 0x39, CHR '' '', CHR 0x39,
      CHR 0x38, CHR 0x37, CHR 0x36, CHR 0x35, CHR 0x34, CHR 0x33, CHR 0x32, CHR 0x31, CHR 0x0A],
      sc_output = [CHR 0x31, CHR 0x31, CHR 0x31, CHR 0x31, CHR 0x31, CHR 0x31, CHR 0x31, CHR 0x31, CHR 0x31, CHR 0x30, CHR 0x0A], sc_is_sample = False\<rparr>]\<rparr>"

definition seed_sum_of_integers :: seed_problem where
  "seed_sum_of_integers = \<lparr>sd_seed_key = ''sum-of-integers'',
    sd_title =
     [CHR 0xE6, CHR 0x95, CHR 0xB4, CHR 0xE6, CHR 0x95, CHR 0xB0, CHR 0xE6, CHR 0xB1, CHR 0x82, CHR 0xE5, CHR 0x92, CHR 0x8C],
    sd_description =
     [CHR 0xE7, CHR 0xBB, CHR 0x99, CHR 0xE5, CHR 0xAE, CHR 0x9A, CHR '' '', CHR ''n'', CHR '' '', CHR 0xE4, CHR 0xB8,
      CHR 0xAA, CHR 0xE6, CHR 0x95, CHR 0xB4, CHR 0xE6, CHR 0x95, CHR 0xB0, CHR 0xEF, CHR 0xBC, CHR 0x8C, CHR 0xE6,
      CHR 0xB1, CHR 0x82, CHR 0xE5, CHR 0xAE, CHR 0x83, CHR 0xE4, CHR 0xBB, CHR 0xAC, CHR 0xE7, CHR 0x9A, CHR 0x84,
      CHR 0xE5, CHR 0x92, CHR 0x8C, CHR 0xE3, CHR 0x80, CHR 0x82, CHR 0x0A, CHR 0x0A, CHR 0xE8, CHR 0xBE, CHR 0x93,
      CHR 0xE5, CHR 0x85, CHR 0xA5, CHR 0xE6, CHR 0xA0, CHR 0xBC, CHR 0xE5, CHR 0xBC, CHR 0x8F, CHR 0xEF, CHR 0xBC,
      CHR 0x9A, CHR 0x0A, CHR 0xE7, CHR 0xAC, CHR 0xAC, CHR 0xE4, CHR 0xB8, CHR 0x80, CHR 0xE8, CHR 0xA1, CHR 0x8C,
      CHR 0xE4, CHR 0xB8, CHR 0x80, CHR 0xE4, CHR 0xB8, CHR 0xAA, CHR 0xE6, CHR 0x95, CHR 0xB4, CHR 0xE6, CHR 0x95,
      CHR 0xB0, CHR '' '', CHR ''n'', CHR 0xEF, CHR 0xBC, CHR 0x88, CHR 0x31, CHR '' '', CHR ''<'', CHR ''='', CHR '' '',
      CHR ''n'', CHR '' '', CHR ''<'', CHR ''='', CHR '' '', CHR 0x31, CHR 0x30, CHR 0x30, CHR 0x30, CHR 0xEF, CHR 0xBC,
      CHR 0x89, CHR 0xE3, CHR 0x80, CHR 0x82, CHR 0x0A, CHR 0xE7, CHR 0xAC, CHR 0xAC, CHR 0xE4, CHR 0xBA, CHR 0x8C,
      CHR 0xE8, CHR 0xA1, CHR 0x8C, CHR '' '', CHR ''n'', CHR '' '', CHR 0xE4, CHR 0xB8, CHR 0xAA, CHR 0xE6, CHR 0x95,
      CHR 0xB4, CHR 0xE6, CHR 0x95, CHR 0xB0, CHR 0xEF, CHR 0xBC, CHR 0x8C, CHR 0xE4, CHR 0xBB, CHR 0xA5, CHR 0xE7,
      CHR 0xA9, CHR 0xBA, CHR 0xE6, CHR 0xA0, CHR 0xBC, CHR 0xE5, CHR 0x88, CHR 0x86, CHR 0xE9, CHR 0x9A, CHR 0x94,
      CHR 0xE3, CHR 0x80, CHR 0x82, CHR 0x0A, CHR 0x0A, CHR 0xE8, CHR 0xBE, CHR 0x93, CHR 0xE5, CHR 0x87, CHR 0xBA,
      CHR 0xE6, CHR 0xA0, CHR 0xBC, CHR 0xE5, CHR 0xBC, CHR 0x8F, CHR 0xEF, CHR 0xBC, CHR 0x9A, CHR 0x0A, CHR 0xE8,
      CHR 0xBE, CHR 0x93, CHR 0xE5, CHR 0x87, CHR 0xBA, CHR 0xE4, CHR 0xB8, CHR 0x80, CHR 0xE4, CHR 0xB8, CHR 0xAA,
      CHR 0xE6, CHR 0x95, CHR 0xB4, CHR 0xE6, CHR 0x95, CHR 0xB0, CHR 0xEF, CHR 0xBC, CHR 0x8C, CHR 0xE8, CHR 0xA1,
      CHR 0xA8, CHR 0xE7, CHR 0xA4, CHR 0xBA, CHR 0xE8, CHR 0xBF, CHR 0x99, CHR '' '', CHR ''n'', CHR '' '', CHR 0xE4,
      CHR 0xB8, CHR 0xAA, CHR 0xE6, CHR 0x95, CHR 0xB4, CHR 0xE6, CHR 0x95, CHR 0xB0, CHR 0xE7, CHR 0x9A, CHR 0x84,
      CHR 0xE5, CHR 0x92, CHR 0x8C, CHR 0xE3, CHR 0x80, CHR 0x82, CHR 0x0A],
    sd_difficulty = ''easy'',
    sd_tags =
     [CHR 0xE6, CHR 0x95, CHR 0xB0, CHR 0xE7, CHR 0xBB, CHR 0x84, CHR '','', CHR 0xE5, CHR 0x85, CHR 0xA5, CHR 0xE9,
      CHR 0x97, CHR 0xA8],
    sd_time_limit_ms = 2000, sd_memory_limit_kb = 65536, sd_visible = 1,
    sd_cases =
     [\<lparr>sc_input = [CHR 0x35, CHR 0x0A, CHR 0x31, CHR '' '', CHR 0x32, CHR '' '', CHR 0x33, CHR '' '', CHR 0x34, CHR '' '', CHR 0x35,
      CHR 0x0A],
      sc_output = [CHR 0x31, CHR 0x35, CHR 0x0A], sc_is_sample = True\<rparr>,
      \<lparr>sc_input = [CHR 0x33, CHR 0x0A, CHR ''-'', CHR 0x31, CHR '' '', CHR ''-'', CHR 0x32, CHR '' '', CHR ''-'', CHR 0x33, CHR 0x0A],
      sc_output = [CHR ''-'', CHR 0x36, CHR 0x0A], sc_is_sample = True\<rparr>,
      \<lparr>sc_input = [CHR 0x31, CHR 0x0A, CHR 0x39, CHR 0x38, CHR 0x37, CHR 0x36, CHR 0x35, CHR 0x34, CHR 0x33, CHR 0x32, CHR 0x31, CHR 0x0A],
      sc_output = [CHR 0x39, CHR 0x38, CHR 0x37, CHR 0x36, CHR 0x35, CHR 0x34, CHR 0x33, CHR 0x32, CHR 0x31, CHR 0x0A], sc_is_sample = False\<rparr>,
      \<lparr>sc_input = [CHR 0x34, CHR 0x0A, CHR 0x31, CHR 0x31, CHR 0x31, CHR 0x31, CHR 0x31, CHR 0x31, CHR 0x31, CHR 0x31, CHR 0x31,
      CHR '' '', CHR 0x32, CHR 0x32, CHR 0x32, CHR 0x32, CHR 0x32, CHR 0x32, CHR 0x32, CHR 0x32, CHR 0x32, CHR '' '',
      CHR 0x33, CHR 0x33, CHR 0x33, CHR 0x33, CHR 0x33, CHR 0x33, CHR 0x33, CHR 0x33, CHR 0x33, CHR '' '', CHR 0x34,
      CHR 0x34, CHR 0x34, CHR 0x34, CHR 0x34, CHR 0x34, CHR 0x34, CHR 0x34, CHR 0x34, CHR 0x0A],
      sc_output = [CHR 0x31, CHR 0x31, CHR 0x31, CHR 0x31, CHR 0x31, CHR 0x31, CHR 0x31, CHR 0x31, CHR 0x31, CHR 0x30, CHR 0x0A], sc_is_sample = False\<rparr>,
      \<lparr>sc_input = [CHR 0x36, CHR 0x0A, CHR ''-'', CHR 0x31, CHR 0x31, CHR 0x31, CHR 0x31, CHR 0x31, CHR 0x31, CHR 0x31, CHR 0x31,
      CHR 0x31, CHR '' '', CHR ''-'', CHR 0x32, CHR 0x32, CHR 0x32, CHR 0x32, CHR 0x32, CHR 0x32, CHR 0x32, CHR 0x32,
      CHR 0x32, CHR '' '', CHR 0x33, CHR 0x33, CHR 0x33, CHR 0x33, CHR 0x33, CHR 0x33, CHR 0x33, CHR 0x33, CHR 0x33,
      CHR '' '', CHR 0x34, CHR 0x34, CHR 0x34, CHR 0x34, CHR 0x34, CHR 0x34, CHR 0x34, CHR 0x34, CHR 0x34, CHR '' '',
      CHR ''-'', CHR 0x35, CHR 0x35, CHR 0x35, CHR 0x35, CHR 0x35, CHR 0x35, CHR 0x35, CHR 0x35, CHR 0x35, CHR '' '',
      CHR 0x36, CHR 0x36, CHR 0x36, CHR 0x36, CHR 0x36, CHR 0x36, CHR 0x36, CHR 0x36, CHR 0x36, CHR 0x0A],
      sc_output = [CHR 0x35, CHR 0x35, CHR 0x35, CHR 0x35, CHR 0x35, CHR 0x35, CHR 0x35, CHR 0x35, CHR 0x35, CHR 0x0A], sc_is_sample = False\<rparr>]\<rparr>"

definition seed_max_value :: seed_problem where
  "seed_max_value = \<lparr>sd_seed_key = ''max-value'',
    sd_title =
     [CHR 0xE6, CHR 0xB1, CHR 0x82, CHR 0xE6, CHR 0x9C, CHR 0x80, CHR 0xE5, CHR 0xA4, CHR 0xA7, CHR 0xE5, CHR 0x80, CHR 0xBC],
    sd_description =
     [CHR 0xE7, CHR 0xBB, CHR 0x99, CHR 0xE5, CHR 0xAE, CHR 0x9A, CHR '' '', CHR ''n'', CHR '' '', CHR 0xE4, CHR 0xB8,
      CHR 0xAA, CHR 0xE6, CHR 0x95, CHR 0xB4, CHR 0xE6, CHR 0x95, CHR 0xB0, CHR 0xEF, CHR 0xBC, CHR 0x8C, CHR 0xE8,
      CHR 0xBE, CHR 0x93, CHR 0xE5, CHR 0x87, CHR 0xBA, CHR 0xE5, CHR 0x85, CHR 0xB6, CHR 0xE4, CHR 0xB8, CHR 0xAD,
      CHR 0xE7, CHR 0x9A, CHR 0x84, CHR 0xE6, CHR 0x9C, CHR 0x80, CHR 0xE5, CHR 0xA4, CHR 0xA7, CHR 0xE5, CHR 0x80,
      CHR 0xBC, CHR 0xE3, CHR 0x80, CHR 0x82, CHR 0x0A, CHR 0x0A, CHR 0xE8, CHR 0xBE, CHR 0x93, CHR 0xE5, CHR 0x85,
      CHR 0xA5, CHR 0xE6, CHR 0xA0, CHR 0xBC, CHR 0xE5, CHR 0xBC, CHR 0x8F, CHR 0xEF, CHR 0xBC, CHR 0x9A, CHR 0x0A,
      CHR 0xE7, CHR 0xAC, CHR 0xAC, CHR 0xE4, CHR 0xB8, CHR 0x80, CHR 0xE8, CHR 0xA1, CHR 0x8C, CHR 0xE4, CHR 0xB8,
      CHR 0x80, CHR 0xE4, CHR 0xB8, CHR 0xAA, CHR 0xE6, CHR 0x95, CHR 0xB4, CHR 0xE6, CHR 0x95, CHR 0xB0, CHR '' '',
      CHR ''n'', CHR 0xEF, CHR 0xBC, CHR 0x88, CHR 0x31, CHR '' '', CHR ''<'', CHR ''='', CHR '' '', CHR ''n'', CHR '' '',
      CHR ''<'', CHR ''='', CHR '' '', CHR 0x31, CHR 0x30, CHR 0x30, CHR 0x30, CHR 0xEF, CHR 0xBC, CHR 0x89, CHR 0xE3,
      CHR 0x80, CHR 0x82, CHR 0x0A, CHR 0xE7, CHR 0xAC, CHR 0xAC, CHR 0xE4, CHR 0xBA, CHR 0x8C, CHR 0xE8, CHR 0xA1,
      CHR 0x8C, CHR '' '', CHR ''n'', CHR '' '', CHR 0xE4, CHR 0xB8, CHR 0xAA, CHR 0xE6, CHR 0x95, CHR 0xB4, CHR 0xE6,
      CHR 0x95, CHR 0xB0, CHR 0xEF, CHR 0xBC, CHR 0x8C, CHR 0xE4, CHR 0xBB, CHR 0xA5, CHR 0xE7, CHR 0xA9, CHR 0xBA,
      CHR 0xE6, CHR 0xA0, CHR 0xBC, CHR 0xE5, CHR 0x88, CHR 0x86, CHR 0xE9, CHR 0x9A, CHR 0x94, CHR 0xE3, CHR 0x80,
      CHR 0x82, CHR 0x0A, CHR 0x0A, CHR 0xE8, CHR 0xBE, CHR 0x93, CHR 0xE5, CHR 0x87, CHR 0xBA, CHR 0xE6, CHR 0xA0,
      CHR 0xBC, CHR 0xE5, CHR 0xBC, CHR 0x8F, CHR 0xEF, CHR 0xBC, CHR 0x9A, CHR 0x0A, CHR 0xE8, CHR 0xBE, CHR 0x93,
      CHR 0xE5, CHR 0x87, CHR 0xBA, CHR 0xE4, CHR 0xB8, CHR 0x80, CHR 0xE4, CHR 0xB8, CHR 0xAA, CHR 0xE6, CHR 0x95,
      CHR 0xB4, CHR 0xE6, CHR 0x95, CHR 0xB0, CHR 0xEF, CHR 0xBC, CHR 0x8C, CHR 0xE8, CHR 0xA1, CHR 0xA8, CHR 0xE7,
      CHR 0xA4, CHR 0xBA, CHR 0xE8, CHR 0xBF, CHR 0x99, CHR '' '', CHR ''n'', CHR '' '', CHR 0xE4, CHR 0xB8, CHR 0xAA,
      CHR 0xE6, CHR 0x95, CHR 0xB4, CHR 0xE6, CHR 0x95, CHR 0xB0, CHR 0xE7, CHR 0x9A, CHR 0x84, CHR 0xE6, CHR 0x9C,
      CHR 0x80, CHR 0xE5, CHR 0xA4, CHR 0xA7, CHR 0xE5, CHR 0x80, CHR 0xBC, CHR 0xE3, CHR 0x80, CHR 0x82, CHR 0x0A],
    sd_difficulty = ''easy'',
    sd_tags =
     [CHR 0xE6, CHR 0x95, CHR 0xB0, CHR 0xE7, CHR 0xBB, CHR 0x84, CHR '','', CHR 0xE5, CHR 0x85, CHR 0xA5, CHR 0xE9,
      CHR 0x97, CHR 0xA8],
    sd_time_limit_ms = 2000, sd_memory_limit_kb = 65536, sd_visible = 1,
    sd_cases =
     [\<lparr>sc_input = [CHR 0x35, CHR 0x0A, CHR 0x33, CHR '' '', CHR 0x31, CHR '' '', CHR 0x34, CHR '' '', CHR 0x31, CHR '' '', CHR 0x35,
      CHR 0x0A],
      sc_output = [CHR 0x35, CHR 0x0A], sc_is_sample = True\<rparr>,
      \<lparr>sc_input = [CHR 0x33, CHR 0x0A, CHR ''-'', CHR 0x37, CHR '' '', CHR ''-'', CHR 0x32, CHR '' '', CHR ''-'', CHR 0x39, CHR 0x0A],
      sc_output = [CHR ''-'', CHR 0x32, CHR 0x0A], sc_is_sample = True\<rparr>,
      \<lparr>sc_input = [CHR 0x31, CHR 0x0A, CHR 0x38, CHR 0x37, CHR 0x36, CHR 0x35, CHR 0x34, CHR 0x33, CHR 0x32, CHR 0x31, CHR 0x30, CHR 0x0A],
      sc_output = [CHR 0x38, CHR 0x37, CHR 0x36, CHR 0x35, CHR 0x34, CHR 0x33, CHR 0x32, CHR 0x31, CHR 0x30, CHR 0x0A], sc_is_sample = False\<rparr>,
      \<lparr>sc_input = [CHR 0x35, CHR 0x0A, CHR ''-'', CHR 0x39, CHR 0x38, CHR 0x37, CHR 0x36, CHR 0x35, CHR 0x34, CHR 0x33, CHR 0x32,
      CHR 0x31, CHR '' '', CHR ''-'', CHR 0x31, CHR 0x32, CHR 0x33, CHR 0x34, CHR 0x35, CHR 0x36, CHR 0x37, CHR 0x38,
      CHR 0x39, CHR '' '', CHR ''-'', CHR 0x34, CHR 0x35, CHR 0x36, CHR 0x37, CHR 0x38, CHR 0x39, CHR 0x31, CHR 0x32,
      CHR 0x33, CHR '' '', CHR ''-'', CHR 0x33, CHR 0x32, CHR 0x31, CHR 0x36, CHR 0x35, CHR 0x34, CHR 0x39, CHR 0x38,
      CHR 0x37, CHR '' '', CHR ''-'', CHR 0x31, CHR 0x34, CHR 0x37, CHR 0x32, CHR 0x35, CHR 0x38, CHR 0x33, CHR 0x36,
      CHR 0x39, CHR 0x0A],
      sc_output = [CHR ''-'', CHR 0x31, CHR 0x32, CHR 0x33, CHR 0x34, CHR 0x35, CHR 0x36, CHR 0x37, CHR 0x38, CHR 0x39, CHR 0x0A], sc_is_sample = False\<rparr>,
      \<lparr>sc_input = [CHR 0x34, CHR 0x0A, CHR 0x37, CHR 0x36, CHR 0x35, CHR 0x34, CHR 0x33, CHR 0x32, CHR 0x31, CHR '' '', CHR 0x37,
      CHR 0x36, CHR 0x35, CHR 0x34, CHR 0x33, CHR 0x32, CHR 0x31, CHR '' '', CHR 0x37, CHR 0x36, CHR 0x35, CHR 0x34,
      CHR 0x33, CHR 0x32, CHR 0x31, CHR '' '', CHR 0x37, CHR 0x36, CHR 0x35, CHR 0x34, CHR 0x33, CHR 0x32, CHR 0x31,
      CHR 0x0A],
      sc_output = [CHR 0x37, CHR 0x36, CHR 0x35, CHR 0x34, CHR 0x33, CHR 0x32, CHR 0x31, CHR 0x0A], sc_is_sample = False\<rparr>]\<rparr>"

definition seed_two_sum :: seed_problem where
  "seed_two_sum = \<lparr>sd_seed_key = ''two-sum'',
    sd_title =
     [CHR 0xE4, CHR 0xB8, CHR 0xA4, CHR 0xE6, CHR 0x95, CHR 0xB0, CHR 0xE4, CHR 0xB9, CHR 0x8B, CHR 0xE5, CHR 0x92,
      CHR 0x8C, CHR '' '', CHR ''('', CHR ''L'', CHR ''e'', CHR ''e'', CHR ''t'', CHR ''C'', CHR ''o'', CHR ''d'',
      CHR ''e'', CHR '' '', CHR 0x31, CHR '')''],
    sd_description =
     [CHR 0xE7, CHR 0xBB, CHR 0x99, CHR 0xE5, CHR 0xAE, CHR 0x9A, CHR 0xE4, CHR 0xB8, CHR 0x80, CHR 0xE4, CHR 0xB8,
      CHR 0xAA, CHR 0xE6, CHR 0x95, CHR 0xB4, CHR 0xE6, CHR 0x95, CHR 0xB0, CHR 0xE6, CHR 0x95, CHR 0xB0, CHR 0xE7,
      CHR 0xBB, CHR 0x84, CHR 0xE5, CHR 0x92, CHR 0x8C, CHR 0xE4, CHR 0xB8, CHR 0x80, CHR 0xE4, CHR 0xB8, CHR 0xAA,
      CHR 0xE7, CHR 0x9B, CHR 0xAE, CHR 0xE6, CHR 0xA0, CHR 0x87, CHR 0xE5, CHR 0x80, CHR 0xBC, CHR '' '', CHR ''t'',
      CHR ''a'', CHR ''r'', CHR ''g'', CHR ''e'', CHR ''t'', CHR 0xEF, CHR 0xBC, CHR 0x8C, CHR 0xE8, CHR 0xAF, CHR 0xB7,
      CHR 0xE6, CHR 0x89, CHR 0xBE, CHR 0xE5, CHR 0x87, CHR 0xBA, CHR 0xE6, CHR 0x95, CHR 0xB0, CHR 0xE7, CHR 0xBB,
      CHR 0x84, CHR 0xE4, CHR 0xB8, CHR 0xAD, CHR 0xE5, CHR 0x92, CHR 0x8C, CHR 0xE4, CHR 0xB8, CHR 0xBA, CHR '' '',
      CHR ''t'', CHR ''a'', CHR ''r'', CHR ''g'', CHR ''e'', CHR ''t'', CHR '' '', CHR 0xE7, CHR 0x9A, CHR 0x84, CHR 0xE4,
      CHR 0xB8, CHR 0xA4, CHR 0xE4, CHR 0xB8, CHR 0xAA, CHR 0xE6, CHR 0x95, CHR 0xB0, CHR 0xEF, CHR 0xBC, CHR 0x8C,
      CHR 0xE5, CHR 0xB9, CHR 0xB6, CHR 0xE8, CHR 0xBE, CHR 0x93, CHR 0xE5, CHR 0x87, CHR 0xBA, CHR 0xE5, CHR 0xAE,
      CHR 0x83, CHR 0xE4, CHR 0xBB, CHR 0xAC, CHR 0xE7, CHR 0x9A, CHR 0x84, CHR 0xE4, CHR 0xB8, CHR 0x8B, CHR 0xE6,
      CHR 0xA0, CHR 0x87, CHR 0xEF, CHR 0xBC, CHR 0x88, CHR 0xE4, CHR 0xBB, CHR 0x8E, CHR '' '', CHR 0x30, CHR '' '',
      CHR 0xE5, CHR 0xBC, CHR 0x80, CHR 0xE5, CHR 0xA7, CHR 0x8B, CHR 0xEF, CHR 0xBC, CHR 0x8C, CHR 0xE4, CHR 0xB8,
      CHR 0x94, CHR 0xE7, CHR 0xAC, CHR 0xAC, CHR 0xE4, CHR 0xB8, CHR 0x80, CHR 0xE4, CHR 0xB8, CHR 0xAA, CHR 0xE4,
      CHR 0xB8, CHR 0x8B, CHR 0xE6, CHR 0xA0, CHR 0x87, CHR 0xE5, CHR 0xB0, CHR 0x8F, CHR 0xE4, CHR 0xBA, CHR 0x8E,
      CHR 0xE7, CHR 0xAC, CHR 0xAC, CHR 0xE4, CHR 0xBA, CHR 0x8C, CHR 0xE4, CHR 0xB8, CHR 0xAA, CHR 0xEF, CHR 0xBC,
      CHR 0x89, CHR 0xE3, CHR 0x80, CHR 0x82, CHR 0xE4, CHR 0xBF, CHR 0x9D, CHR 0xE8, CHR 0xAF, CHR 0x81, CHR 0xE6,
      CHR 0x81, CHR 0xB0, CHR 0xE5, CHR 0xA5, CHR 0xBD, CHR 0xE5, CHR 0xAD, CHR 0x98, CHR 0xE5, CHR 0x9C, CHR 0xA8,
      CHR 0xE4, CHR 0xB8, CHR 0x80, CHR 0xE7, CHR 0xBB, CHR 0x84, CHR 0xE8, CHR 0xA7, CHR 0xA3, CHR 0xE3, CHR 0x80,
      CHR 0x82, CHR 0x0A, CHR 0x0A, CHR 0xE8, CHR 0xBE, CHR 0x93, CHR 0xE5, CHR 0x85, CHR 0xA5, CHR 0xE6, CHR 0xA0,
      CHR 0xBC, CHR 0xE5, CHR 0xBC, CHR 0x8F, CHR 0xEF, CHR 0xBC, CHR 0x9A, CHR 0x0A, CHR 0xE7, CHR 0xAC, CHR 0xAC,
      CHR 0xE4, CHR 0xB8, CHR 0x80, CHR 0xE8, CHR 0xA1, CHR 0x8C, CHR 0xE4, CHR 0xB8, CHR 0xA4, CHR 0xE4, CHR 0xB8,
      CHR 0xAA, CHR 0xE6, CHR 0x95, CHR 0xB4, CHR 0xE6, CHR 0x95, CHR 0xB0, CHR '' '', CHR ''n'', CHR '' '', CHR 0xE5,
      CHR 0x92, CHR 0x8C, CHR '' '', CHR ''t'', CHR ''a'', CHR ''r'', CHR ''g'', CHR ''e'', CHR ''t'', CHR 0xEF, CHR 0xBC,
      CHR 0x88, CHR 0x32, CHR '' '', CHR ''<'', CHR ''='', CHR '' '', CHR ''n'', CHR '' '', CHR ''<'', CHR ''='',
      CHR '' '', CHR 0x31, CHR 0x30, CHR 0x30, CHR 0x30, CHR 0x30, CHR 0xEF, CHR 0xBC, CHR 0x89, CHR 0xE3, CHR 0x80,
      CHR 0x82, CHR 0x0A, CHR 0xE7, CHR 0xAC, CHR 0xAC, CHR 0xE4, CHR 0xBA, CHR 0x8C, CHR 0xE8, CHR 0xA1, CHR 0x8C,
      CHR '' '', CHR ''n'', CHR '' '', CHR 0xE4, CHR 0xB8, CHR 0xAA, CHR 0xE6, CHR 0x95, CHR 0xB4, CHR 0xE6, CHR 0x95,
      CHR 0xB0, CHR 0xE3, CHR 0x80, CHR 0x82, CHR 0x0A, CHR 0x0A, CHR 0xE8, CHR 0xBE, CHR 0x93, CHR 0xE5, CHR 0x87,
      CHR 0xBA, CHR 0xE6, CHR 0xA0, CHR 0xBC, CHR 0xE5, CHR 0xBC, CHR 0x8F, CHR 0xEF, CHR 0xBC, CHR 0x9A, CHR 0x0A,
      CHR 0xE4, CHR 0xB8, CHR 0x80, CHR 0xE8, CHR 0xA1, CHR 0x8C, CHR 0xE4, CHR 0xB8, CHR 0xA4, CHR 0xE4, CHR 0xB8,
      CHR 0xAA, CHR 0xE6, CHR 0x95, CHR 0xB4, CHR 0xE6, CHR 0x95, CHR 0xB0, CHR '' '', CHR ''i'', CHR '' '', CHR 0xE5,
      CHR 0x92, CHR 0x8C, CHR '' '', CHR ''j'', CHR 0xEF, CHR 0xBC, CHR 0x88, CHR ''i'', CHR '' '', CHR ''<'', CHR '' '',
      CHR ''j'', CHR 0xEF, CHR 0xBC, CHR 0x89, CHR 0xEF, CHR 0xBC, CHR 0x8C, CHR 0xE8, CHR 0xA1, CHR 0xA8, CHR 0xE7,
      CHR 0xA4, CHR 0xBA, CHR 0xE6, CHR 0x95, CHR 0xB0, CHR 0xE7, CHR 0xBB, CHR 0x84, CHR 0xE4, CHR 0xB8, CHR 0x8B,
      CHR 0xE6, CHR 0xA0, CHR 0x87, CHR 0xE3, CHR 0x80, CHR 0x82, CHR 0x0A],
    sd_difficulty = ''easy'',
    sd_tags =
     [CHR 0xE6, CHR 0x95, CHR 0xB0, CHR 0xE7, CHR 0xBB, CHR 0x84, CHR '','', CHR 0xE5, CHR 0x93, CHR 0x88, CHR 0xE5,
      CHR 0xB8, CHR 0x8C, CHR 0xE8, CHR 0xA1, CHR 0xA8],
    sd_time_limit_ms = 2000, sd_memory_limit_kb = 65536, sd_visible = 1,
    sd_cases =
     [\<lparr>sc_input = [CHR 0x34, CHR '' '', CHR 0x39, CHR 0x0A, CHR 0x32, CHR '' '', CHR 0x37, CHR '' '', CHR 0x31, CHR 0x31, CHR '' '',
      CHR 0x31, CHR 0x35, CHR 0x0A],
      sc_output = [CHR 0x30, CHR '' '', CHR 0x31, CHR 0x0A], sc_is_sample = True\<rparr>,
      \<lparr>sc_input = [CHR 0x33, CHR '' '', CHR 0x36, CHR 0x0A, CHR 0x33, CHR '' '', CHR 0x32, CHR '' '', CHR 0x34, CHR 0x0A],
      sc_output = [CHR 0x31, CHR '' '', CHR 0x32, CHR 0x0A], sc_is_sample = True\<rparr>,
      \<lparr>sc_input = [CHR 0x32, CHR '' '', CHR 0x36, CHR 0x0A, CHR 0x33, CHR '' '', CHR 0x33, CHR 0x0A],
      sc_output = [CHR 0x30, CHR '' '', CHR 0x31, CHR 0x0A], sc_is_sample = False\<rparr>,
      \<lparr>sc_input = [CHR 0x36, CHR '' '', CHR 0x30, CHR 0x0A, CHR ''-'', CHR 0x33, CHR '' '', CHR 0x34, CHR '' '', CHR 0x33, CHR '' '',
      CHR 0x39, CHR 0x30, CHR '' '', CHR ''-'', CHR 0x31, CHR '' '', CHR 0x30, CHR 0x0A],
      sc_output = [CHR 0x30, CHR '' '', CHR 0x32, CHR 0x0A], sc_is_sample = False\<rparr>]\<rparr>"

definition seed_palindrome_number :: seed_problem where
  "seed_palindrome_number = \<lparr>sd_seed_key = ''palindrome-number'',
    sd_title =
     [CHR 0xE5, CHR 0x9B, CHR 0x9E, CHR 0xE6, CHR 0x96, CHR 0x87, CHR 0xE6, CHR 0x95, CHR 0xB0, CHR '' '', CHR ''('',
      CHR ''L'', CHR ''e'', CHR ''e'', CHR ''t'', CHR ''C'', CHR ''o'', CHR ''d'', CHR ''e'', CHR '' '', CHR 0x39, CHR '')''],
    sd_description =
     [CHR 0xE7, CHR 0xBB, CHR 0x99, CHR 0xE5, CHR 0xAE, CHR 0x9A, CHR 0xE4, CHR 0xB8, CHR 0x80, CHR 0xE4, CHR 0xB8,
      CHR 0xAA, CHR 0xE6, CHR 0x95, CHR 0xB4, CHR 0xE6, CHR 0x95, CHR 0xB0, CHR '' '', CHR ''x'', CHR 0xEF, CHR 0xBC,
      CHR 0x8C, CHR 0xE5, CHR 0x88, CHR 0xA4, CHR 0xE6, CHR 0x96, CHR 0xAD, CHR 0xE5, CHR 0xAE, CHR 0x83, CHR 0xE6,
      CHR 0x98, CHR 0xAF, CHR 0xE5, CHR 0x90, CHR 0xA6, CHR 0xE4, CHR 0xB8, CHR 0xBA, CHR 0xE5, CHR 0x9B, CHR 0x9E,
      CHR 0xE6, CHR 0x96, CHR 0x87, CHR 0xE6, CHR 0x95, CHR 0xB0, CHR 0xE3, CHR 0x80, CHR 0x82, CHR 0xE5, CHR 0x9B,
      CHR 0x9E, CHR 0xE6, CHR 0x96, CHR 0x87, CHR 0xE6, CHR 0x95, CHR 0xB0, CHR 0xE6, CHR 0x98, CHR 0xAF, CHR 0xE6,
      CHR 0x8C, CHR 0x87, CHR 0xE6, CHR 0xAD, CHR 0xA3, CHR 0xE5, CHR 0xBA, CHR 0x8F, CHR 0xE8, CHR 0xAF, CHR 0xBB,
      CHR 0xE5, CHR 0x92, CHR 0x8C, CHR 0xE5, CHR 0x80, CHR 0x92, CHR 0xE5, CHR 0xBA, CHR 0x8F, CHR 0xE8, CHR 0xAF,
      CHR 0xBB, CHR 0xE9, CHR 0x83, CHR 0xBD, CHR 0xE7, CHR 0x9B, CHR 0xB8, CHR 0xE5, CHR 0x90, CHR 0x8C, CHR 0xE7,
      CHR 0x9A, CHR 0x84, CHR 0xE6, CHR 0x95, CHR 0xB4, CHR 0xE6, CHR 0x95, CHR 0xB0, CHR 0xE3, CHR 0x80, CHR 0x82,
      CHR 0xE8, CHR 0xB4, CHR 0x9F, CHR 0xE6, CHR 0x95, CHR 0xB0, CHR 0xE4, CHR 0xB8, CHR 0x8D, CHR 0xE6, CHR 0x98,
      CHR 0xAF, CHR 0xE5, CHR 0x9B, CHR 0x9E, CHR 0xE6, CHR 0x96, CHR 0x87, CHR 0xE6, CHR 0x95, CHR 0xB0, CHR 0xE3,
      CHR 0x80, CHR 0x82, CHR 0x0A, CHR 0x0A, CHR 0xE8, CHR 0xBE, CHR 0x93, CHR 0xE5, CHR 0x85, CHR 0xA5, CHR 0xE6,
      CHR 0xA0, CHR 0xBC, CHR 0xE5, CHR 0xBC, CHR 0x8F, CHR 0xEF, CHR 0xBC, CHR 0x9A, CHR 0x0A, CHR 0xE4, CHR 0xB8,
      CHR 0x80, CHR 0xE4, CHR 0xB8, CHR 0xAA, CHR 0xE6, CHR 0x95, CHR 0xB4, CHR 0xE6, CHR 0x95, CHR 0xB0, CHR '' '',
      CHR ''x'', CHR 0xEF, CHR 0xBC, CHR 0x88, CHR ''-'', CHR 0x32, CHR ''^'', CHR 0x33, CHR 0x31, CHR '' '', CHR ''<'',
      CHR ''='', CHR '' '', CHR ''x'', CHR '' '', CHR ''<'', CHR ''='', CHR '' '', CHR 0x32, CHR ''^'', CHR 0x33, CHR 0x31,
      CHR '' '', CHR ''-'', CHR '' '', CHR 0x31, CHR 0xEF, CHR 0xBC, CHR 0x89, CHR 0xE3, CHR 0x80, CHR 0x82, CHR 0x0A,
      CHR 0x0A, CHR 0xE8, CHR 0xBE, CHR 0x93, CHR 0xE5, CHR 0x87, CHR 0xBA, CHR 0xE6, CHR 0xA0, CHR 0xBC, CHR 0xE5,
      CHR 0xBC, CHR 0x8F, CHR 0xEF, CHR 0xBC, CHR 0x9A, CHR 0x0A, CHR 0xE6, CHR 0x98, CHR 0xAF, CHR 0xE5, CHR 0x9B,
      CHR 0x9E, CHR 0xE6, CHR 0x96, CHR 0x87, CHR 0xE6, CHR 0x95, CHR 0xB0, CHR 0xE8, CHR 0xBE, CHR 0x93, CHR 0xE5,
      CHR 0x87, CHR 0xBA, CHR '' '', CHR ''t'', CHR ''r'', CHR ''u'', CHR ''e'', CHR 0xEF, CHR 0xBC, CHR 0x8C, CHR 0xE5,
      CHR 0x90, CHR 0xA6, CHR 0xE5, CHR 0x88, CHR 0x99, CHR 0xE8, CHR 0xBE, CHR 0x93, CHR 0xE5, CHR 0x87, CHR 0xBA,
      CHR '' '', CHR ''f'', CHR ''a'', CHR ''l'', CHR ''s'', CHR ''e'', CHR 0xE3, CHR 0x80, CHR 0x82, CHR 0x0A],
    sd_difficulty = ''easy'',
    sd_tags =
     [CHR 0xE6, CHR 0x95, CHR 0xB0, CHR 0xE5, CHR 0xAD, CHR 0xA6],
    sd_time_limit_ms = 2000, sd_memory_limit_kb = 65536, sd_visible = 1,
    sd_cases =
     [\<lparr>sc_input = [CHR 0x31, CHR 0x32, CHR 0x31, CHR 0x0A],
      sc_output = [CHR ''t'', CHR ''r'', CHR ''u'', CHR ''e'', CHR 0x0A], sc_is_sample = True\<rparr>,
      \<lparr>sc_input = [CHR ''-'', CHR 0x31, CHR 0x32, CHR 0x31, CHR 0x0A],
      sc_output = [CHR ''f'', CHR ''a'', CHR ''l'', CHR ''s'', CHR ''e'', CHR 0x0A], sc_is_sample = True\<rparr>,
      \<lparr>sc_input = [CHR 0x31, CHR 0x30, CHR 0x0A],
      sc_output = [CHR ''f'', CHR ''a'', CHR ''l'', CHR ''s'', CHR ''e'', CHR 0x0A], sc_is_sample = False\<rparr>,
      \<lparr>sc_input = [CHR 0x31, CHR 0x32, CHR 0x33, CHR 0x32, CHR 0x31, CHR 0x0A],
      sc_output = [CHR ''t'', CHR ''r'', CHR ''u'', CHR ''e'', CHR 0x0A], sc_is_sample = False\<rparr>,
      \<lparr>sc_input = [CHR 0x30, CHR 0x0A],
      sc_output = [CHR ''t'', CHR ''r'', CHR ''u'', CHR ''e'', CHR 0x0A], sc_is_sample = False\<rparr>]\<rparr>"

definition seed_roman_to_integer :: seed_problem where
  "seed_roman_to_integer = \<lparr>sd_seed_key = ''roman-to-integer'',
    sd_title =
     [CHR 0xE7, CHR 0xBD, CHR 0x97, CHR 0xE9, CHR 0xA9, CHR 0xAC, CHR 0xE6, CHR 0x95, CHR 0xB0, CHR 0xE5, CHR 0xAD,
      CHR 0x97, CHR 0xE8, CHR 0xBD, CHR 0xAC, CHR 0xE6, CHR 0x95, CHR 0xB4, CHR 0xE6, CHR 0x95, CHR 0xB0, CHR '' '',
      CHR ''('', CHR ''L'', CHR ''e'', CHR ''e'', CHR ''t'', CHR ''C'', CHR ''o'', CHR ''d'', CHR ''e'', CHR '' '',
      CHR 0x31, CHR 0x33, CHR '')''],
    sd_description =
     [CHR 0xE7, CHR 0xBB, CHR 0x99, CHR 0xE5, CHR 0xAE, CHR 0x9A, CHR 0xE4, CHR 0xB8, CHR 0x80, CHR 0xE4, CHR 0xB8,
      CHR 0xAA, CHR 0xE7, CHR 0xBD, CHR 0x97, CHR 0xE9, CHR 0xA9, CHR 0xAC, CHR 0xE6, CHR 0x95, CHR 0xB0, CHR 0xE5,
      CHR 0xAD, CHR 0x97, CHR 0xE5, CHR 0xAD, CHR 0x97, CHR 0xE7, CHR 0xAC, CHR 0xA6, CHR 0xE4, CHR 0xB8, CHR 0xB2,
      CHR 0xEF, CHR 0xBC, CHR 0x8C, CHR 0xE5, CHR 0xB0, CHR 0x86, CHR 0xE5, CHR 0x85, CHR 0xB6, CHR 0xE8, CHR 0xBD,
      CHR 0xAC, CHR 0xE6, CHR 0x8D, CHR 0xA2, CHR 0xE4, CHR 0xB8, CHR 0xBA, CHR 0xE6, CHR 0x95, CHR 0xB4, CHR 0xE6,
      CHR 0x95, CHR 0xB0, CHR 0xE3, CHR 0x80, CHR 0x82, CHR 0x0A, CHR 0x0A, CHR 0xE8, CHR 0xBE, CHR 0x93, CHR 0xE5,
      CHR 0x85, CHR 0xA5, CHR 0xE6, CHR 0xA0, CHR 0xBC, CHR 0xE5, CHR 0xBC, CHR 0x8F, CHR 0xEF, CHR 0xBC, CHR 0x9A,
      CHR 0x0A, CHR 0xE4, CHR 0xB8, CHR 0x80, CHR 0xE8, CHR 0xA1, CHR 0x8C, CHR 0xE4, CHR 0xB8, CHR 0x80, CHR 0xE4,
      CHR 0xB8, CHR 0xAA, CHR 0xE7, CHR 0xBD, CHR 0x97, CHR 0xE9, CHR 0xA9, CHR 0xAC, CHR 0xE6, CHR 0x95, CHR 0xB0,
      CHR 0xE5, CHR 0xAD, CHR 0x97, CHR 0xE5, CHR 0xAD, CHR 0x97, CHR 0xE7, CHR 0xAC, CHR 0xA6, CHR 0xE4, CHR 0xB8,
      CHR 0xB2, CHR '' '', CHR ''s'', CHR 0xEF, CHR 0xBC, CHR 0x88, CHR 0xE4, CHR 0xBB, CHR 0x85, CHR 0xE5, CHR 0x90,
      CHR 0xAB, CHR '' '', CHR ''I'', CHR 0xE3, CHR 0x80, CHR 0x81, CHR ''V'', CHR 0xE3, CHR 0x80, CHR 0x81, CHR ''X'',
      CHR 0xE3, CHR 0x80, CHR 0x81, CHR ''L'', CHR 0xE3, CHR 0x80, CHR 0x81, CHR ''C'', CHR 0xE3, CHR 0x80, CHR 0x81,
      CHR ''D'', CHR 0xE3, CHR 0x80, CHR 0x81, CHR ''M'', CHR 0xEF, CHR 0xBC, CHR 0x8C, CHR 0xE9, CHR 0x95, CHR 0xBF,
      CHR 0xE5, CHR 0xBA, CHR 0xA6, CHR 0xE4, CHR 0xB8, CHR 0x8D, CHR 0xE8, CHR 0xB6, CHR 0x85, CHR 0xE8, CHR 0xBF,
      CHR 0x87, CHR '' '', CHR 0x31, CHR 0x35, CHR 0xEF, CHR 0xBC, CHR 0x8C, CHR 0xE8, CHR 0xA1, CHR 0xA8, CHR 0xE7,
      CHR 0xA4, CHR 0xBA, CHR 0xE8, CHR 0x8C, CHR 0x83, CHR 0xE5, CHR 0x9B, CHR 0xB4, CHR '' '', CHR 0x31, CHR '' '',
      CHR 0xE5, CHR 0x88, CHR 0xB0, CHR '' '', CHR 0x33, CHR 0x39, CHR 0x39, CHR 0x39, CHR 0xEF, CHR 0xBC, CHR 0x89,
      CHR 0xE3, CHR 0x80, CHR 0x82, CHR 0x0A, CHR 0x0A, CHR 0xE8, CHR 0xBE, CHR 0x93, CHR 0xE5, CHR 0x87, CHR 0xBA,
      CHR 0xE6, CHR 0xA0, CHR 0xBC, CHR 0xE5, CHR 0xBC, CHR 0x8F, CHR 0xEF, CHR 0xBC, CHR 0x9A, CHR 0x0A, CHR 0xE8,
      CHR 0xBE, CHR 0x93, CHR 0xE5, CHR 0x87, CHR 0xBA, CHR 0xE5, CHR 0xAF, CHR 0xB9, CHR 0xE5, CHR 0xBA, CHR 0x94,
      CHR 0xE7, CHR 0x9A, CHR 0x84, CHR 0xE6, CHR 0x95, CHR 0xB4, CHR 0xE6, CHR 0x95, CHR 0xB0, CHR 0xE3, CHR 0x80,
      CHR 0x82, CHR 0x0A],
    sd_difficulty = ''easy'',
    sd_tags =
     [CHR 0xE6, CHR 0x95, CHR 0xB0, CHR 0xE5, CHR 0xAD, CHR 0xA6, CHR '','', CHR 0xE5, CHR 0xAD, CHR 0x97, CHR 0xE7,
      CHR 0xAC, CHR 0xA6, CHR 0xE4, CHR 0xB8, CHR 0xB2],
    sd_time_limit_ms = 2000, sd_memory_limit_kb = 65536, sd_visible = 1,
    sd_cases =
     [\<lparr>sc_input = [CHR ''I'', CHR ''I'', CHR ''I'', CHR 0x0A],
      sc_output = [CHR 0x33, CHR 0x0A], sc_is_sample = True\<rparr>,
      \<lparr>sc_input = [CHR ''L'', CHR ''V'', CHR ''I'', CHR ''I'', CHR ''I'', CHR 0x0A],
      sc_output = [CHR 0x35, CHR 0x38, CHR 0x0A], sc_is_sample = True\<rparr>,
      \<lparr>sc_input = [CHR ''M'', CHR ''C'', CHR ''M'', CHR ''X'', CHR ''C'', CHR ''I'', CHR ''V'', CHR 0x0A],
      sc_output = [CHR 0x31, CHR 0x39, CHR 0x39, CHR 0x34, CHR 0x0A], sc_is_sample = False\<rparr>,
      \<lparr>sc_input = [CHR ''I'', CHR ''X'', CHR 0x0A],
      sc_output = [CHR 0x39, CHR 0x0A], sc_is_sample = False\<rparr>,
      \<lparr>sc_input = [CHR ''M'', CHR ''M'', CHR ''M'', CHR ''C'', CHR ''M'', CHR ''X'', CHR ''C'', CHR ''I'', CHR ''X'', CHR 0x0A],
      sc_output = [CHR 0x33, CHR 0x39, CHR 0x39, CHR 0x39, CHR 0x0A], sc_is_sample = False\<rparr>]\<rparr>"

definition seed_longest_common_prefix :: seed_problem where
  "seed_longest_common_prefix = \<lparr>sd_seed_key = ''longest-common-prefix'',
    sd_title =
     [CHR 0xE6, CHR 0x9C, CHR 0x80, CHR 0xE9, CHR 0x95, CHR 0xBF, CHR 0xE5, CHR 0x85, CHR 0xAC, CHR 0xE5, CHR 0x85,
      CHR 0xB1, CHR 0xE5, CHR 0x89, CHR 0x8D, CHR 0xE7, CHR 0xBC, CHR 0x80, CHR '' '', CHR ''('', CHR ''L'', CHR ''e'',
      CHR ''e'', CHR ''t'', CHR ''C'', CHR ''o'', CHR ''d'', CHR ''e'', CHR '' '', CHR 0x31, CHR 0x34, CHR '')''],
    sd_description =
     [CHR 0xE7, CHR 0xBB, CHR 0x99, CHR 0xE5, CHR 0xAE, CHR 0x9A, CHR '' '', CHR ''n'', CHR '' '', CHR 0xE4, CHR 0xB8,
      CHR 0xAA, CHR 0xE5, CHR 0xAD, CHR 0x97, CHR 0xE7, CHR 0xAC, CHR 0xA6, CHR 0xE4, CHR 0xB8, CHR 0xB2, CHR 0xEF,
      CHR 0xBC, CHR 0x8C, CHR 0xE8, CHR 0xBE, CHR 0x93, CHR 0xE5, CHR 0x87, CHR 0xBA, CHR 0xE5, CHR 0xAE, CHR 0x83,
      CHR 0xE4, CHR 0xBB, CHR 0xAC, CHR 0xE7, CHR 0x9A, CHR 0x84, CHR 0xE6, CHR 0x9C, CHR 0x80, CHR 0xE9, CHR 0x95,
      CHR 0xBF, CHR 0xE5, CHR 0x85, CHR 0xAC, CHR 0xE5, CHR 0x85, CHR 0xB1, CHR 0xE5, CHR 0x89, CHR 0x8D, CHR 0xE7,
      CHR 0xBC, CHR 0x80, CHR 0xE3, CHR 0x80, CHR 0x82, CHR 0xE8, CHR 0x8B, CHR 0xA5, CHR 0xE4, CHR 0xB8, CHR 0x8D,
      CHR 0xE5, CHR 0xAD, CHR 0x98, CHR 0xE5, CHR 0x9C, CHR 0xA8, CHR 0xE5, CHR 0x85, CHR 0xAC, CHR 0xE5, CHR 0x85,
      CHR 0xB1, CHR 0xE5, CHR 0x89, CHR 0x8D, CHR 0xE7, CHR 0xBC, CHR 0x80, CHR 0xEF, CHR 0xBC, CHR 0x8C, CHR 0xE8,
      CHR 0xBE, CHR 0x93, CHR 0xE5, CHR 0x87, CHR 0xBA, CHR 0xE7, CHR 0xA9, CHR 0xBA, CHR 0xE8, CHR 0xA1, CHR 0x8C,
      CHR 0xE3, CHR 0x80, CHR 0x82, CHR 0x0A, CHR 0x0A, CHR 0xE8, CHR 0xBE, CHR 0x93, CHR 0xE5, CHR 0x85, CHR 0xA5,
      CHR 0xE6, CHR 0xA0, CHR 0xBC, CHR 0xE5, CHR 0xBC, CHR 0x8F, CHR 0xEF, CHR 0xBC, CHR 0x9A, CHR 0x0A, CHR 0xE7,
      CHR 0xAC, CHR 0xAC, CHR 0xE4, CHR 0xB8, CHR 0x80, CHR 0xE8, CHR 0xA1, CHR 0x8C, CHR 0xE4, CHR 0xB8, CHR 0x80,
      CHR 0xE4, CHR 0xB8, CHR 0xAA, CHR 0xE6, CHR 0x95, CHR 0xB4, CHR 0xE6, CHR 0x95, CHR 0xB0, CHR '' '', CHR ''n'',
      CHR 0xEF, CHR 0xBC, CHR 0x88, CHR 0x31, CHR '' '', CHR ''<'', CHR ''='', CHR '' '', CHR ''n'', CHR '' '', CHR ''<'',
      CHR ''='', CHR '' '', CHR 0x32, CHR 0x30, CHR 0x30, CHR 0xEF, CHR 0xBC, CHR 0x89, CHR 0xE3, CHR 0x80, CHR 0x82,
      CHR 0x0A, CHR 0xE6, CHR 0x8E, CHR 0xA5, CHR 0xE4, CHR 0xB8, CHR 0x8B, CHR 0xE6, CHR 0x9D, CHR 0xA5, CHR '' '',
      CHR ''n'', CHR '' '', CHR 0xE8, CHR 0xA1, CHR 0x8C, CHR 0xEF, CHR 0xBC, CHR 0x8C, CHR 0xE6, CHR 0xAF, CHR 0x8F,
      CHR 0xE8, CHR 0xA1, CHR 0x8C, CHR 0xE4, CHR 0xB8, CHR 0x80, CHR 0xE4, CHR 0xB8, CHR 0xAA, CHR 0xE4, CHR 0xBB,
      CHR 0x85, CHR 0xE5, CHR 0x90, CHR 0xAB, CHR 0xE5, CHR 0xB0, CHR 0x8F, CHR 0xE5, CHR 0x86, CHR 0x99, CHR 0xE5,
      CHR 0xAD, CHR 0x97, CHR 0xE6, CHR 0xAF, CHR 0x8D, CHR 0xE7, CHR 0x9A, CHR 0x84, CHR 0xE5, CHR 0xAD, CHR 0x97,
      CHR 0xE7, CHR 0xAC, CHR 0xA6, CHR 0xE4, CHR 0xB8, CHR 0xB2, CHR 0xE3, CHR 0x80, CHR 0x82, CHR 0x0A, CHR 0x0A,
      CHR 0xE8, CHR 0xBE, CHR 0x93, CHR 0xE5, CHR 0x87, CHR 0xBA, CHR 0xE6, CHR 0xA0, CHR 0xBC, CHR 0xE5, CHR 0xBC,
      CHR 0x8F, CHR 0xEF, CHR 0xBC, CHR 0x9A, CHR 0x0A, CHR 0xE4, CHR 0xB8, CHR 0x80, CHR 0xE8, CHR 0xA1, CHR 0x8C,
      CHR 0xEF, CHR 0xBC, CHR 0x8C, CHR 0xE6, CHR 0x9C, CHR 0x80, CHR 0xE9, CHR 0x95, CHR 0xBF, CHR 0xE5, CHR 0x85,
      CHR 0xAC, CHR 0xE5, CHR 0x85, CHR 0xB1, CHR 0xE5, CHR 0x89, CHR 0x8D, CHR 0xE7, CHR 0xBC, CHR 0x80, CHR 0xEF,
      CHR 0xBC, CHR 0x88, CHR 0xE5, CHR 0x8F, CHR 0xAF, CHR 0xE8, CHR 0x83, CHR 0xBD, CHR 0xE4, CHR 0xB8, CHR 0xBA,
      CHR 0xE7, CHR 0xA9, CHR 0xBA, CHR 0xE8, CHR 0xA1, CHR 0x8C, CHR 0xEF, CHR 0xBC, CHR 0x89, CHR 0xE3, CHR 0x80,
      CHR 0x82, CHR 0x0A],
    sd_difficulty = ''easy'',
    sd_tags =
     [CHR 0xE5, CHR 0xAD, CHR 0x97, CHR 0xE7, CHR 0xAC, CHR 0xA6, CHR 0xE4, CHR 0xB8, CHR 0xB2],
    sd_time_limit_ms = 2000, sd_memory_limit_kb = 65536, sd_visible = 1,
    sd_cases =
     [\<lparr>sc_input = [CHR 0x33, CHR 0x0A, CHR ''f'', CHR ''l'', CHR ''o'', CHR ''w'', CHR ''e'', CHR ''r'', CHR 0x0A, CHR ''f'', CHR ''l'',
      CHR ''o'', CHR ''w'', CHR 0x0A, CHR ''f'', CHR ''l'', CHR ''i'', CHR ''g'', CHR ''h'', CHR ''t'', CHR 0x0A],
      sc_output = [CHR ''f'', CHR ''l'', CHR 0x0A], sc_is_sample = True\<rparr>,
      \<lparr>sc_input = [CHR 0x33, CHR 0x0A, CHR ''d'', CHR ''o'', CHR ''g'', CHR 0x0A, CHR ''r'', CHR ''a'', CHR ''c'', CHR ''e'', CHR ''c'',
      CHR ''a'', CHR ''r'', CHR 0x0A, CHR ''c'', CHR ''a'', CHR ''r'', CHR 0x0A],
      sc_output = [CHR 0x0A], sc_is_sample = True\<rparr>,
      \<lparr>sc_input = [CHR 0x31, CHR 0x0A, CHR ''s'', CHR ''i'', CHR ''n'', CHR ''g'', CHR ''l'', CHR ''e'', CHR 0x0A],
      sc_output = [CHR ''s'', CHR ''i'', CHR ''n'', CHR ''g'', CHR ''l'', CHR ''e'', CHR 0x0A], sc_is_sample = False\<rparr>,
      \<lparr>sc_input = [CHR 0x34, CHR 0x0A, CHR ''a'', CHR 0x0A, CHR ''a'', CHR 0x0A, CHR ''a'', CHR 0x0A, CHR ''a'', CHR 0x0A],
      sc_output = [CHR ''a'', CHR 0x0A], sc_is_sample = False\<rparr>]\<rparr>"

definition seed_valid_parentheses :: seed_problem where
  "seed_valid_parentheses = \<lparr>sd_seed_key = ''valid-parentheses'',
    sd_title =
     [CHR 0xE6, CHR 0x9C, CHR 0x89, CHR 0xE6, CHR 0x95, CHR 0x88, CHR 0xE7, CHR 0x9A, CHR 0x84, CHR 0xE6, CHR 0x8B,
      CHR 0xAC, CHR 0xE5, CHR 0x8F, CHR 0xB7, CHR '' '', CHR ''('', CHR ''L'', CHR ''e'', CHR ''e'', CHR ''t'', CHR ''C'',
      CHR ''o'', CHR ''d'', CHR ''e'', CHR '' '', CHR 0x32, CHR 0x30, CHR '')''],
    sd_description =
     [CHR 0xE7, CHR 0xBB, CHR 0x99, CHR 0xE5, CHR 0xAE, CHR 0x9A, CHR 0xE4, CHR 0xB8, CHR 0x80, CHR 0xE4, CHR 0xB8,
      CHR 0xAA, CHR 0xE5, CHR 0x8F, CHR 0xAA, CHR 0xE5, CHR 0x8C, CHR 0x85, CHR 0xE5, CHR 0x90, CHR 0xAB, CHR '' '',
      CHR ''('', CHR 0xE3, CHR 0x80, CHR 0x81, CHR '')'', CHR 0xE3, CHR 0x80, CHR 0x81, CHR ''['', CHR 0xE3, CHR 0x80,
      CHR 0x81, CHR '']'', CHR 0xE3, CHR 0x80, CHR 0x81, CHR ''{'', CHR 0xE3, CHR 0x80, CHR 0x81, CHR ''}'', CHR '' '',
      CHR 0xE7, CHR 0x9A, CHR 0x84, CHR 0xE5, CHR 0xAD, CHR 0x97, CHR 0xE7, CHR 0xAC, CHR 0xA6, CHR 0xE4, CHR 0xB8,
      CHR 0xB2, CHR 0xEF, CHR 0xBC, CHR 0x8C, CHR 0xE5, CHR 0x88, CHR 0xA4, CHR 0xE6, CHR 0x96, CHR 0xAD, CHR 0xE6,
      CHR 0x8B, CHR 0xAC, CHR 0xE5, CHR 0x8F, CHR 0xB7, CHR 0xE6, CHR 0x98, CHR 0xAF, CHR 0xE5, CHR 0x90, CHR 0xA6,
      CHR 0xE6, CHR 0x9C, CHR 0x89, CHR 0xE6, CHR 0x95, CHR 0x88, CHR 0xE3, CHR 0x80, CHR 0x82, CHR 0xE6, CHR 0x9C,
      CHR 0x89, CHR 0xE6, CHR 0x95, CHR 0x88, CHR 0xE6, CHR 0x8B, CHR 0xAC, CHR 0xE5, CHR 0x8F, CHR 0xB7, CHR 0xE8,
      CHR 0xA6, CHR 0x81, CHR 0xE6, CHR 0xB1, CHR 0x82, CHR 0xE5, CHR 0xB7, CHR 0xA6, CHR 0xE6, CHR 0x8B, CHR 0xAC,
      CHR 0xE5, CHR 0x8F, CHR 0xB7, CHR 0xE5, CHR 0xBF, CHR 0x85, CHR 0xE9, CHR 0xA1, CHR 0xBB, CHR 0xE4, CHR 0xBB,
      CHR 0xA5, CHR 0xE6, CHR 0xAD, CHR 0xA3, CHR 0xE7, CHR 0xA1, CHR 0xAE, CHR 0xE7, CHR 0x9A, CHR 0x84, CHR 0xE9,
      CHR 0xA1, CHR 0xBA, CHR 0xE5, CHR 0xBA, CHR 0x8F, CHR 0xE9, CHR 0x97, CHR 0xAD, CHR 0xE5, CHR 0x90, CHR 0x88,
      CHR 0xE3, CHR 0x80, CHR 0x82, CHR 0x0A, CHR 0x0A, CHR 0xE8, CHR 0xBE, CHR 0x93, CHR 0xE5, CHR 0x85, CHR 0xA5,
      CHR 0xE6, CHR 0xA0, CHR 0xBC, CHR 0xE5, CHR 0xBC, CHR 0x8F, CHR 0xEF, CHR 0xBC, CHR 0x9A, CHR 0x0A, CHR 0xE4,
      CHR 0xB8, CHR 0x80, CHR 0xE8, CHR 0xA1, CHR 0x8C, CHR 0xE4, CHR 0xB8, CHR 0x80, CHR 0xE4, CHR 0xB8, CHR 0xAA,
      CHR 0xE6, CHR 0x8B, CHR 0xAC, CHR 0xE5, CHR 0x8F, CHR 0xB7, CHR 0xE5, CHR 0xAD, CHR 0x97, CHR 0xE7, CHR 0xAC,
      CHR 0xA6, CHR 0xE4, CHR 0xB8, CHR 0xB2, CHR '' '', CHR ''s'', CHR 0xEF, CHR 0xBC, CHR 0x88, CHR 0xE9, CHR 0x95,
      CHR 0xBF, CHR 0xE5, CHR 0xBA, CHR 0xA6, CHR 0xE4, CHR 0xB8, CHR 0x8D, CHR 0xE8, CHR 0xB6, CHR 0x85, CHR 0xE8,
      CHR 0xBF, CHR 0x87, CHR '' '', CHR 0x31, CHR 0x30, CHR 0x30, CHR 0x30, CHR 0x30, CHR 0xEF, CHR 0xBC, CHR 0x89,
      CHR 0xE3, CHR 0x80, CHR 0x82, CHR 0x0A, CHR 0x0A, CHR 0xE8, CHR 0xBE, CHR 0x93, CHR 0xE5, CHR 0x87, CHR 0xBA,
      CHR 0xE6, CHR 0xA0, CHR 0xBC, CHR 0xE5, CHR 0xBC, CHR 0x8F, CHR 0xEF, CHR 0xBC, CHR 0x9A, CHR 0x0A, CHR 0xE6,
      CHR 0x9C, CHR 0x89, CHR 0xE6, CHR 0x95, CHR 0x88, CHR 0xE8, CHR 0xBE, CHR 0x93, CHR 0xE5, CHR 0x87, CHR 0xBA,
      CHR '' '', CHR ''t'', CHR ''r'', CHR ''u'', CHR ''e'', CHR 0xEF, CHR 0xBC, CHR 0x8C, CHR 0xE5, CHR 0x90, CHR 0xA6,
      CHR 0xE5, CHR 0x88, CHR 0x99, CHR 0xE8, CHR 0xBE, CHR 0x93, CHR 0xE5, CHR 0x87, CHR 0xBA, CHR '' '', CHR ''f'',
      CHR ''a'', CHR ''l'', CHR ''s'', CHR ''e'', CHR 0xE3, CHR 0x80, CHR 0x82, CHR 0x0A],
    sd_difficulty = ''easy'',
    sd_tags =
     [CHR 0xE5, CHR 0xAD, CHR 0x97, CHR 0xE7, CHR 0xAC, CHR 0xA6, CHR 0xE4, CHR 0xB8, CHR 0xB2, CHR '','', CHR 0xE6,
      CHR 0xA0, CHR 0x88],
    sd_time_limit_ms = 2000, sd_memory_limit_kb = 65536, sd_visible = 1,
    sd_cases =
     [\<lparr>sc_input = [CHR ''('', CHR '')'', CHR 0x0A],
      sc_output = [CHR ''t'', CHR ''r'', CHR ''u'', CHR ''e'', CHR 0x0A], sc_is_sample = True\<rparr>,
      \<lparr>sc_input = [CHR ''('', CHR '')'', CHR ''['', CHR '']'', CHR ''{'', CHR ''}'', CHR 0x0A],
      sc_output = [CHR ''t'', CHR ''r'', CHR ''u'', CHR ''e'', CHR 0x0A], sc_is_sample = True\<rparr>,
      \<lparr>sc_input = [CHR ''('', CHR '']'', CHR 0x0A],
      sc_output = [CHR ''f'', CHR ''a'', CHR ''l'', CHR ''s'', CHR ''e'', CHR 0x0A], sc_is_sample = False\<rparr>,
      \<lparr>sc_input = [CHR ''('', CHR ''['', CHR ''{'', CHR ''}'', CHR '']'', CHR '')'', CHR 0x0A],
      sc_output = [CHR ''t'', CHR ''r'', CHR ''u'', CHR ''e'', CHR 0x0A], sc_is_sample = False\<rparr>,
      \<lparr>sc_input = [CHR ''('', CHR ''('', CHR ''('', CHR 0x0A],
      sc_output = [CHR ''f'', CHR ''a'', CHR ''l'', CHR ''s'', CHR ''e'', CHR 0x0A], sc_is_sample = False\<rparr>]\<rparr>"

definition seed_remove_duplicates_sorted_array :: seed_problem where
  "seed_remove_duplicates_sorted_array = \<lparr>sd_seed_key = ''remove-duplicates-sorted-array'',
    sd_title =
     [CHR 0xE5, CHR 0x88, CHR 0xA0, CHR 0xE9, CHR 0x99, CHR 0xA4, CHR 0xE6, CHR 0x9C, CHR 0x89, CHR 0xE5, CHR 0xBA,
      CHR 0x8F, CHR 0xE6, CHR 0x95, CHR 0xB0, CHR 0xE7, CHR 0xBB, CHR 0x84, CHR 0xE4, CHR 0xB8, CHR 0xAD, CHR 0xE7,
      CHR 0x9A, CHR 0x84, CHR 0xE9, CHR 0x87, CHR 0x8D, CHR 0xE5, CHR 0xA4, CHR 0x8D, CHR 0xE9, CHR 0xA1, CHR 0xB9,
      CHR '' '', CHR ''('', CHR ''L'', CHR ''e'', CHR ''e'', CHR ''t'', CHR ''C'', CHR ''o'', CHR ''d'', CHR ''e'',
      CHR '' '', CHR 0x32, CHR 0x36, CHR '')''],
    sd_description =
     [CHR 0xE7, CHR 0xBB, CHR 0x99, CHR 0xE5, CHR 0xAE, CHR 0x9A, CHR 0xE4, CHR 0xB8, CHR 0x80, CHR 0xE4, CHR 0xB8,
      CHR 0xAA, CHR 0xE6, CHR 0x8C, CHR 0x89, CHR 0xE9, CHR 0x9D, CHR 0x9E, CHR 0xE9, CHR 0x80, CHR 0x92, CHR 0xE5,
      CHR 0x87, CHR 0x8F, CHR 0xE9, CHR 0xA1, CHR 0xBA, CHR 0xE5, CHR 0xBA, CHR 0x8F, CHR 0xE6, CHR 0x8E, CHR 0x92,
      CHR 0xE5, CHR 0x88, CHR 0x97, CHR 0xE7, CHR 0x9A, CHR 0x84, CHR 0xE6, CHR 0x95, CHR 0xB4, CHR 0xE6, CHR 0x95,
      CHR 0xB0, CHR 0xE6, CHR 0x95, CHR 0xB0, CHR 0xE7, CHR 0xBB, CHR 0x84, CHR 0xEF, CHR 0xBC, CHR 0x8C, CHR 0xE5,
      CHR 0x88, CHR 0xA0, CHR 0xE9, CHR 0x99, CHR 0xA4, CHR 0xE9, CHR 0x87, CHR 0x8D, CHR 0xE5, CHR 0xA4, CHR 0x8D,
      CHR 0xE5, CHR 0x87, CHR 0xBA, CHR 0xE7, CHR 0x8E, CHR 0xB0, CHR 0xE7, CHR 0x9A, CHR 0x84, CHR 0xE5, CHR 0x85,
      CHR 0x83, CHR 0xE7, CHR 0xB4, CHR 0xA0, CHR 0xEF, CHR 0xBC, CHR 0x8C, CHR 0xE4, CHR 0xBD, CHR 0xBF, CHR 0xE5,
      CHR 0xBE, CHR 0x97, CHR 0xE6, CHR 0xAF, CHR 0x8F, CHR 0xE4, CHR 0xB8, CHR 0xAA, CHR 0xE5, CHR 0x85, CHR 0x83,
      CHR 0xE7, CHR 0xB4, CHR 0xA0, CHR 0xE5, CHR 0x8F, CHR 0xAA, CHR 0xE5, CHR 0x87, CHR 0xBA, CHR 0xE7, CHR 0x8E,
      CHR 0xB0, CHR 0xE4, CHR 0xB8, CHR 0x80, CHR 0xE6, CHR 0xAC, CHR 0xA1, CHR 0xE3, CHR 0x80, CHR 0x82, CHR 0xE8,
      CHR 0xBE, CHR 0x93, CHR 0xE5, CHR 0x87, CHR 0xBA, CHR 0xE5, CHR 0x8E, CHR 0xBB, CHR 0xE9, CHR 0x87, CHR 0x8D,
      CHR 0xE5, CHR 0x90, CHR 0x8E, CHR 0xE7, CHR 0x9A, CHR 0x84, CHR 0xE5, CHR 0x85, CHR 0x83, CHR 0xE7, CHR 0xB4,
      CHR 0xA0, CHR 0xE4, CHR 0xB8, CHR 0xAA, CHR 0xE6, CHR 0x95, CHR 0xB0, CHR '' '', CHR ''k'', CHR 0xEF, CHR 0xBC,
      CHR 0x8C, CHR 0xE4, CHR 0xBB, CHR 0xA5, CHR 0xE5, CHR 0x8F, CHR 0x8A, CHR 0xE5, CHR 0x8E, CHR 0xBB, CHR 0xE9,
      CHR 0x87, CHR 0x8D, CHR 0xE5, CHR 0x90, CHR 0x8E, CHR 0xE6, CHR 0x95, CHR 0xB0, CHR 0xE7, CHR 0xBB, CHR 0x84,
      CHR 0xE7, CHR 0x9A, CHR 0x84, CHR 0xE5, CHR 0x89, CHR 0x8D, CHR '' '', CHR ''k'', CHR '' '', CHR 0xE4, CHR 0xB8,
      CHR 0xAA, CHR 0xE5, CHR 0x85, CHR 0x83, CHR 0xE7, CHR 0xB4, CHR 0xA0, CHR 0xEF, CHR 0xBC, CHR 0x88, CHR 0xE4,
      CHR 0xBF, CHR 0x9D, CHR 0xE6, CHR 0x8C, CHR 0x81, CHR 0xE5, CHR 0x8E, CHR 0x9F, CHR 0xE9, CHR 0xA1, CHR 0xBA,
      CHR 0xE5, CHR 0xBA, CHR 0x8F, CHR 0xEF, CHR 0xBC, CHR 0x89, CHR 0xE3, CHR 0x80, CHR 0x82, CHR 0x0A, CHR 0x0A,
      CHR 0xE8, CHR 0xBE, CHR 0x93, CHR 0xE5, CHR 0x85, CHR 0xA5, CHR 0xE6, CHR 0xA0, CHR 0xBC, CHR 0xE5, CHR 0xBC,
      CHR 0x8F, CHR 0xEF, CHR 0xBC, CHR 0x9A, CHR 0x0A, CHR 0xE7, CHR 0xAC, CHR 0xAC, CHR 0xE4, CHR 0xB8, CHR 0x80,
      CHR 0xE8, CHR 0xA1, CHR 0x8C, CHR 0xE4, CHR 0xB8, CHR 0x80, CHR 0xE4, CHR 0xB8, CHR 0xAA, CHR 0xE6, CHR 0x95,
      CHR 0xB4, CHR 0xE6, CHR 0x95, CHR 0xB0, CHR '' '', CHR ''n'', CHR 0xEF, CHR 0xBC, CHR 0x88, CHR 0x31, CHR '' '',
      CHR ''<'', CHR ''='', CHR '' '', CHR ''n'', CHR '' '', CHR ''<'', CHR ''='', CHR '' '', CHR 0x31, CHR 0x30, CHR 0x30,
      CHR 0x30, CHR 0x30, CHR 0xEF, CHR 0xBC, CHR 0x89, CHR 0xE3, CHR 0x80, CHR 0x82, CHR 0x0A, CHR 0xE7, CHR 0xAC,
      CHR 0xAC, CHR 0xE4, CHR 0xBA, CHR 0x8C, CHR 0xE8, CHR 0xA1, CHR 0x8C, CHR '' '', CHR ''n'', CHR '' '', CHR 0xE4,
      CHR 0xB8, CHR 0xAA, CHR 0xE9, CHR 0x9D, CHR 0x9E, CHR 0xE9, CHR 0x80, CHR 0x92, CHR 0xE5, CHR 0x87, CHR 0x8F,
      CHR 0xE6, CHR 0x8E, CHR 0x92, CHR 0xE5, CHR 0x88, CHR 0x97, CHR 0xE7, CHR 0x9A, CHR 0x84, CHR 0xE6, CHR 0x95,
      CHR 0xB4, CHR 0xE6, CHR 0x95, CHR 0xB0, CHR 0xE3, CHR 0x80, CHR 0x82, CHR 0x0A, CHR 0x0A, CHR 0xE8, CHR 0xBE,
      CHR 0x93, CHR 0xE5, CHR 0x87, CHR 0xBA, CHR 0xE6, CHR 0xA0, CHR 0xBC, CHR 0xE5, CHR 0xBC, CHR 0x8F, CHR 0xEF,
      CHR 0xBC, CHR 0x9A, CHR 0x0A, CHR 0xE7, CHR 0xAC, CHR 0xAC, CHR 0xE4, CHR 0xB8, CHR 0x80, CHR 0xE8, CHR 0xA1,
      CHR 0x8C, CHR 0xE8, CHR 0xBE, CHR 0x93, CHR 0xE5, CHR 0x87, CHR 0xBA, CHR '' '', CHR ''k'', CHR 0xE3, CHR 0x80,
      CHR 0x82, CHR 0x0A, CHR 0xE7, CHR 0xAC, CHR 0xAC, CHR 0xE4, CHR 0xBA, CHR 0x8C, CHR 0xE8, CHR 0xA1, CHR 0x8C,
      CHR 0xE8, CHR 0xBE, CHR 0x93, CHR 0xE5, CHR 0x87, CHR 0xBA, CHR 0xE5, CHR 0x8E, CHR 0xBB, CHR 0xE9, CHR 0x87,
      CHR 0x8D, CHR 0xE5, CHR 0x90, CHR 0x8E, CHR 0xE7, CHR 0x9A, CHR 0x84, CHR '' '', CHR ''k'', CHR '' '', CHR 0xE4,
      CHR 0xB8, CHR 0xAA, CHR 0xE5, CHR 0x85, CHR 0x83, CHR 0xE7, CHR 0xB4, CHR 0xA0, CHR 0xEF, CHR 0xBC, CHR 0x8C,
      CHR 0xE4, CHR 0xBB, CHR 0xA5, CHR 0xE7, CHR 0xA9, CHR 0xBA, CHR 0xE6, CHR 0xA0, CHR 0xBC, CHR 0xE5, CHR 0x88,
      CHR 0x86, CHR 0xE9, CHR 0x9A, CHR 0x94, CHR 0xE3, CHR 0x80, CHR 0x82, CHR 0x0A],
    sd_difficulty = ''easy'',
    sd_tags =
     [CHR 0xE6, CHR 0x95, CHR 0xB0, CHR 0xE7, CHR 0xBB, CHR 0x84, CHR '','', CHR 0xE5, CHR 0x8F, CHR 0x8C, CHR 0xE6,
      CHR 0x8C, CHR 0x87, CHR 0xE9, CHR 0x92, CHR 0x88],
    sd_time_limit_ms = 2000, sd_memory_limit_kb = 65536, sd_visible = 1,
    sd_cases =
     [\<lparr>sc_input = [CHR 0x33, CHR 0x0A, CHR 0x31, CHR '' '', CHR 0x31, CHR '' '', CHR 0x32, CHR 0x0A],
      sc_output = [CHR 0x32, CHR 0x0A, CHR 0x31, CHR '' '', CHR 0x32, CHR 0x0A], sc_is_sample = True\<rparr>,
      \<lparr>sc_input = [CHR 0x35, CHR 0x0A, CHR 0x30, CHR '' '', CHR 0x30, CHR '' '', CHR 0x31, CHR '' '', CHR 0x31, CHR '' '', CHR 0x32,
      CHR 0x0A],
      sc_output = [CHR 0x33, CHR 0x0A, CHR 0x30, CHR '' '', CHR 0x31, CHR '' '', CHR 0x32, CHR 0x0A], sc_is_sample = True\<rparr>,
      \<lparr>sc_input = [CHR 0x31, CHR 0x0A, CHR 0x35, CHR 0x0A],
      sc_output = [CHR 0x31, CHR 0x0A, CHR 0x35, CHR 0x0A], sc_is_sample = False\<rparr>,
      \<lparr>sc_input = [CHR 0x36, CHR 0x0A, CHR 0x31, CHR '' '', CHR 0x32, CHR '' '', CHR 0x33, CHR '' '', CHR 0x34, CHR '' '', CHR 0x35,
      CHR '' '', CHR 0x36, CHR 0x0A],
      sc_output = [CHR 0x36, CHR 0x0A, CHR 0x31, CHR '' '', CHR 0x32, CHR '' '', CHR 0x33, CHR '' '', CHR 0x34, CHR '' '', CHR 0x35,
      CHR '' '', CHR 0x36, CHR 0x0A], sc_is_sample = False\<rparr>]\<rparr>"

definition seed_remove_element :: seed_problem where
  "seed_remove_element = \<lparr>sd_seed_key = ''remove-element'',
    sd_title =
     [CHR 0xE7, CHR 0xA7, CHR 0xBB, CHR 0xE9, CHR 0x99, CHR 0xA4, CHR 0xE5, CHR 0x85, CHR 0x83, CHR 0xE7, CHR 0xB4,
      CHR 0xA0, CHR '' '', CHR ''('', CHR ''L'', CHR ''e'', CHR ''e'', CHR ''t'', CHR ''C'', CHR ''o'', CHR ''d'',
      CHR ''e'', CHR '' '', CHR 0x32, CHR 0x37, CHR '')''],
    sd_description =
     [CHR 0xE7, CHR 0xBB, CHR 0x99, CHR 0xE5, CHR 0xAE, CHR 0x9A, CHR 0xE4, CHR 0xB8, CHR 0x80, CHR 0xE4, CHR 0xB8,
      CHR 0xAA, CHR 0xE6, CHR 0x95, CHR 0xB0, CHR 0xE7, CHR 0xBB, CHR 0x84, CHR 0xE5, CHR 0x92, CHR 0x8C, CHR 0xE7,
      CHR 0x9B, CHR 0xAE, CHR 0xE6, CHR 0xA0, CHR 0x87, CHR 0xE5, CHR 0x80, CHR 0xBC, CHR '' '', CHR ''v'', CHR ''a'',
      CHR ''l'', CHR 0xEF, CHR 0xBC, CHR 0x8C, CHR 0xE5, CHR 0x8E, CHR 0x9F, CHR 0xE5, CHR 0x9C, CHR 0xB0, CHR 0xE7,
      CHR 0xA7, CHR 0xBB, CHR 0xE9, CHR 0x99, CHR 0xA4, CHR 0xE6, CHR 0x89, CHR 0x80, CHR 0xE6, CHR 0x9C, CHR 0x89,
      CHR 0xE7, CHR 0xAD, CHR 0x89, CHR 0xE4, CHR 0xBA, CHR 0x8E, CHR '' '', CHR ''v'', CHR ''a'', CHR ''l'', CHR '' '',
      CHR 0xE7, CHR 0x9A, CHR 0x84, CHR 0xE5, CHR 0x85, CHR 0x83, CHR 0xE7, CHR 0xB4, CHR 0xA0, CHR 0xE3, CHR 0x80,
      CHR 0x82, CHR 0xE8, CHR 0xBE, CHR 0x93, CHR 0xE5, CHR 0x87, CHR 0xBA, CHR 0xE5, CHR 0x89, CHR 0xA9, CHR 0xE4,
      CHR 0xBD, CHR 0x99, CHR 0xE5, CHR 0x85, CHR 0x83, CHR 0xE7, CHR 0xB4, CHR 0xA0, CHR 0xE4, CHR 0xB8, CHR 0xAA,
      CHR 0xE6, CHR 0x95, CHR 0xB0, CHR '' '', CHR ''k'', CHR 0xEF, CHR 0xBC, CHR 0x8C, CHR 0xE4, CHR 0xBB, CHR 0xA5,
      CHR 0xE5, CHR 0x8F, CHR 0x8A, CHR 0xE5, CHR 0x89, CHR 0xA9, CHR 0xE4, CHR 0xBD, CHR 0x99, CHR 0xE5, CHR 0x85,
      CHR 0x83, CHR 0xE7, CHR 0xB4, CHR 0xA0, CHR 0xEF, CHR 0xBC, CHR 0x88, CHR 0xE4, CHR 0xBF, CHR 0x9D, CHR 0xE6,
      CHR 0x8C, CHR 0x81, CHR 0xE5, CHR 0x8E, CHR 0x9F, CHR 0xE6, CHR 0x9C, CHR 0x89, CHR 0xE7, CHR 0x9B, CHR 0xB8,
      CHR 0xE5, CHR 0xAF, CHR 0xB9, CHR 0xE9, CHR 0xA1, CHR 0xBA, CHR 0xE5, CHR 0xBA, CHR 0x8F, CHR 0xEF, CHR 0xBC,
      CHR 0x89, CHR 0xE3, CHR 0x80, CHR 0x82, CHR 0x0A, CHR 0x0A, CHR 0xE8, CHR 0xBE, CHR 0x93, CHR 0xE5, CHR 0x85,
      CHR 0xA5, CHR 0xE6, CHR 0xA0, CHR 0xBC, CHR 0xE5, CHR 0xBC, CHR 0x8F, CHR 0xEF, CHR 0xBC, CHR 0x9A, CHR 0x0A,
      CHR 0xE7, CHR 0xAC, CHR 0xAC, CHR 0xE4, CHR 0xB8, CHR 0x80, CHR 0xE8, CHR 0xA1, CHR 0x8C, CHR 0xE4, CHR 0xB8,
      CHR 0xA4, CHR 0xE4, CHR 0xB8, CHR 0xAA, CHR 0xE6, CHR 0x95, CHR 0xB4, CHR 0xE6, CHR 0x95, CHR 0xB0, CHR '' '',
      CHR ''n'', CHR '' '', CHR 0xE5, CHR 0x92, CHR 0x8C, CHR '' '', CHR ''v'', CHR ''a'', CHR ''l'', CHR 0xEF, CHR 0xBC,
      CHR 0x88, CHR 0x30, CHR '' '', CHR ''<'', CHR ''='', CHR '' '', CHR ''n'', CHR '' '', CHR ''<'', CHR ''='',
      CHR '' '', CHR 0x31, CHR 0x30, CHR 0x30, CHR 0x30, CHR 0x30, CHR 0xEF, CHR 0xBC, CHR 0x89, CHR 0xE3, CHR 0x80,
      CHR 0x82, CHR 0x0A, CHR 0xE7, CHR 0xAC, CHR 0xAC, CHR 0xE4, CHR 0xBA, CHR 0x8C, CHR 0xE8, CHR 0xA1, CHR 0x8C,
      CHR '' '', CHR ''n'', CHR '' '', CHR 0xE4, CHR 0xB8, CHR 0xAA, CHR 0xE6, CHR 0x95, CHR 0xB4, CHR 0xE6, CHR 0x95,
      CHR 0xB0, CHR 0xE3, CHR 0x80, CHR 0x82, CHR 0x0A, CHR 0x0A, CHR 0xE8, CHR 0xBE, CHR 0x93, CHR 0xE5, CHR 0x87,
      CHR 0xBA, CHR 0xE6, CHR 0xA0, CHR 0xBC, CHR 0xE5, CHR 0xBC, CHR 0x8F, CHR 0xEF, CHR 0xBC, CHR 0x9A, CHR 0x0A,
      CHR 0xE7, CHR 0xAC, CHR 0xAC, CHR 0xE4, CHR 0xB8, CHR 0x80, CHR 0xE8, CHR 0xA1, CHR 0x8C, CHR 0xE8, CHR 0xBE,
      CHR 0x93, CHR 0xE5, CHR 0x87, CHR 0xBA, CHR '' '', CHR ''k'', CHR 0xE3, CHR 0x80, CHR 0x82, CHR 0x0A, CHR 0xE7,
      CHR 0xAC, CHR 0xAC, CHR 0xE4, CHR 0xBA, CHR 0x8C, CHR 0xE8, CHR 0xA1, CHR 0x8C, CHR 0xE8, CHR 0xBE, CHR 0x93,
      CHR 0xE5, CHR 0x87, CHR 0xBA, CHR 0xE5, CHR 0x89, CHR 0xA9, CHR 0xE4, CHR 0xBD, CHR 0x99, CHR 0xE7, CHR 0x9A,
      CHR 0x84, CHR 0xE5, CHR 0x85, CHR 0x83, CHR 0xE7, CHR 0xB4, CHR 0xA0, CHR 0xEF, CHR 0xBC, CHR 0x8C, CHR 0xE4,
      CHR 0xBB, CHR 0xA5, CHR 0xE7, CHR 0xA9, CHR 0xBA, CHR 0xE6, CHR 0xA0, CHR 0xBC, CHR 0xE5, CHR 0x88, CHR 0x86,
      CHR 0xE9, CHR 0x9A, CHR 0x94, CHR 0xEF, CHR 0xBC, CHR 0x88, CHR ''k'', CHR '' '', CHR 0xE4, CHR 0xB8, CHR 0xBA,
      CHR '' '', CHR 0x30, CHR '' '', CHR 0xE6, CHR 0x97, CHR 0xB6, CHR 0xE8, CHR 0xBE, CHR 0x93, CHR 0xE5, CHR 0x87,
      CHR 0xBA, CHR 0xE7, CHR 0xA9, CHR 0xBA, CHR 0xE8, CHR 0xA1, CHR 0x8C, CHR 0xEF, CHR 0xBC, CHR 0x89, CHR 0xE3,
      CHR 0x80, CHR 0x82, CHR 0x0A],
    sd_difficulty = ''easy'',
    sd_tags =
     [CHR 0xE6, CHR 0x95, CHR 0xB0, CHR 0xE7, CHR 0xBB, CHR 0x84, CHR '','', CHR 0xE5, CHR 0x8F, CHR 0x8C, CHR 0xE6,
      CHR 0x8C, CHR 0x87, CHR 0xE9, CHR 0x92, CHR 0x88],
    sd_time_limit_ms = 2000, sd_memory_limit_kb = 65536, sd_visible = 1,
    sd_cases =
     [\<lparr>sc_input = [CHR 0x34, CHR '' '', CHR 0x33, CHR 0x0A, CHR 0x33, CHR '' '', CHR 0x32, CHR '' '', CHR 0x32, CHR '' '', CHR 0x33,
      CHR 0x0A],
      sc_output = [CHR 0x32, CHR 0x0A, CHR 0x32, CHR '' '', CHR 0x32, CHR 0x0A], sc_is_sample = True\<rparr>,
      \<lparr>sc_input = [CHR 0x35, CHR '' '', CHR 0x32, CHR 0x0A, CHR 0x30, CHR '' '', CHR 0x31, CHR '' '', CHR 0x32, CHR '' '', CHR 0x32,
      CHR '' '', CHR 0x33, CHR 0x0A],
      sc_output = [CHR 0x33, CHR 0x0A, CHR 0x30, CHR '' '', CHR 0x31, CHR '' '', CHR 0x33, CHR 0x0A], sc_is_sample = True\<rparr>,
      \<lparr>sc_input = [CHR 0x31, CHR '' '', CHR 0x31, CHR 0x0A, CHR 0x31, CHR 0x0A],
      sc_output = [CHR 0x30, CHR 0x0A, CHR 0x0A], sc_is_sample = False\<rparr>,
      \<lparr>sc_input = [CHR 0x35, CHR '' '', CHR 0x30, CHR 0x0A, CHR 0x30, CHR '' '', CHR 0x30, CHR '' '', CHR 0x31, CHR '' '', CHR 0x30,
      CHR '' '', CHR 0x32, CHR 0x0A],
      sc_output = [CHR 0x32, CHR 0x0A, CHR 0x31, CHR '' '', CHR 0x32, CHR 0x0A], sc_is_sample = False\<rparr>]\<rparr>"

definition seed_implement_strstr :: seed_problem where
  "seed_implement_strstr = \<lparr>sd_seed_key = ''implement-strstr'',
    sd_title =
     [CHR 0xE6, CHR 0x89, CHR 0xBE, CHR 0xE5, CHR 0x87, CHR 0xBA, CHR 0xE5, CHR 0xAD, CHR 0x97, CHR 0xE7, CHR 0xAC,
      CHR 0xA6, CHR 0xE4, CHR 0xB8, CHR 0xB2, CHR 0xE4, CHR 0xB8, CHR 0xAD, CHR 0xE7, CHR 0xAC, CHR 0xAC, CHR 0xE4,
      CHR 0xB8, CHR 0x80, CHR 0xE4, CHR 0xB8, CHR 0xAA, CHR 0xE5, CHR 0x8C, CHR 0xB9, CHR 0xE9, CHR 0x85, CHR 0x8D,
      CHR 0xE9, CHR 0xA1, CHR 0xB9, CHR 0xE7, CHR 0x9A, CHR 0x84, CHR 0xE4, CHR 0xB8, CHR 0x8B, CHR 0xE6, CHR 0xA0,
      CHR 0x87, CHR '' '', CHR ''('', CHR ''L'', CHR ''e'', CHR ''e'', CHR ''t'', CHR ''C'', CHR ''o'', CHR ''d'',
      CHR ''e'', CHR '' '', CHR 0x32, CHR 0x38, CHR '')''],
    sd_description =
     [CHR 0xE7, CHR 0xBB, CHR 0x99, CHR 0xE5, CHR 0xAE, CHR 0x9A, CHR 0xE4, CHR 0xB8, CHR 0xA4, CHR 0xE4, CHR 0xB8,
      CHR 0xAA, CHR 0xE5, CHR 0xAD, CHR 0x97, CHR 0xE7, CHR 0xAC, CHR 0xA6, CHR 0xE4, CHR 0xB8, CHR 0xB2, CHR '' '',
      CHR ''h'', CHR ''a'', CHR ''y'', CHR ''s'', CHR ''t'', CHR ''a'', CHR ''c'', CHR ''k'', CHR '' '', CHR 0xE5,
      CHR 0x92, CHR 0x8C, CHR '' '', CHR ''n'', CHR ''e'', CHR ''e'', CHR ''d'', CHR ''l'', CHR ''e'', CHR 0xEF, CHR 0xBC,
      CHR 0x8C, CHR 0xE5, CHR 0x9C, CHR 0xA8, CHR '' '', CHR ''h'', CHR ''a'', CHR ''y'', CHR ''s'', CHR ''t'', CHR ''a'',
      CHR ''c'', CHR ''k'', CHR '' '', CHR 0xE4, CHR 0xB8, CHR 0xAD, CHR 0xE6, CHR 0x89, CHR 0xBE, CHR 0xE5, CHR 0x87,
      CHR 0xBA, CHR '' '', CHR ''n'', CHR ''e'', CHR ''e'', CHR ''d'', CHR ''l'', CHR ''e'', CHR '' '', CHR 0xE7, CHR 0xAC,
      CHR 0xAC, CHR 0xE4, CHR 0xB8, CHR 0x80, CHR 0xE6, CHR 0xAC, CHR 0xA1, CHR 0xE5, CHR 0x87, CHR 0xBA, CHR 0xE7,
      CHR 0x8E, CHR 0xB0, CHR 0xE7, CHR 0x9A, CHR 0x84, CHR 0xE4, CHR 0xB8, CHR 0x8B, CHR 0xE6, CHR 0xA0, CHR 0x87,
      CHR 0xEF, CHR 0xBC, CHR 0x9B, CHR 0xE5, CHR 0xA6, CHR 0x82, CHR 0xE6, CHR 0x9E, CHR 0x9C, CHR 0xE4, CHR 0xB8,
      CHR 0x8D, CHR 0xE5, CHR 0xAD, CHR 0x98, CHR 0xE5, CHR 0x9C, CHR 0xA8, CHR 0xEF, CHR 0xBC, CHR 0x8C, CHR 0xE8,
      CHR 0xBE, CHR 0x93, CHR 0xE5, CHR 0x87, CHR 0xBA, CHR '' '', CHR ''-'', CHR 0x31, CHR 0xE3, CHR 0x80, CHR 0x82,
      CHR 0x0A, CHR 0x0A, CHR 0xE8, CHR 0xBE, CHR 0x93, CHR 0xE5, CHR 0x85, CHR 0xA5, CHR 0xE6, CHR 0xA0, CHR 0xBC,
      CHR 0xE5, CHR 0xBC, CHR 0x8F, CHR 0xEF, CHR 0xBC, CHR 0x9A, CHR 0x0A, CHR 0xE7, CHR 0xAC, CHR 0xAC, CHR 0xE4,
      CHR 0xB8, CHR 0x80, CHR 0xE8, CHR 0xA1, CHR 0x8C, CHR 0xE5, CHR 0xAD, CHR 0x97, CHR 0xE7, CHR 0xAC, CHR 0xA6,
      CHR 0xE4, CHR 0xB8, CHR 0xB2, CHR '' '', CHR ''h'', CHR ''a'', CHR ''y'', CHR ''s'', CHR ''t'', CHR ''a'', CHR ''c'',
      CHR ''k'', CHR 0xE3, CHR 0x80, CHR 0x82, CHR 0x0A, CHR 0xE7, CHR 0xAC, CHR 0xAC, CHR 0xE4, CHR 0xBA, CHR 0x8C,
      CHR 0xE8, CHR 0xA1, CHR 0x8C, CHR 0xE5, CHR 0xAD, CHR 0x97, CHR 0xE7, CHR 0xAC, CHR 0xA6, CHR 0xE4, CHR 0xB8,
      CHR 0xB2, CHR '' '', CHR ''n'', CHR ''e'', CHR ''e'', CHR ''d'', CHR ''l'', CHR ''e'', CHR 0xEF, CHR 0xBC, CHR 0x88,
      CHR 0xE9, CHR 0x9D, CHR 0x9E, CHR 0xE7, CHR 0xA9, CHR 0xBA, CHR 0xEF, CHR 0xBC, CHR 0x8C, CHR 0xE9, CHR 0x95,
      CHR 0xBF, CHR 0xE5, CHR 0xBA, CHR 0xA6, CHR 0xE4, CHR 0xB8, CHR 0x8D, CHR 0xE8, CHR 0xB6, CHR 0x85, CHR 0xE8,
      CHR 0xBF, CHR 0x87, CHR '' '', CHR 0x31, CHR 0x30, CHR 0x30, CHR 0x30, CHR 0x30, CHR 0xEF, CHR 0xBC, CHR 0x89,
      CHR 0xE3, CHR 0x80, CHR 0x82, CHR 0x0A, CHR 0x0A, CHR 0xE8, CHR 0xBE, CHR 0x93, CHR 0xE5, CHR 0x87, CHR 0xBA,
      CHR 0xE6, CHR 0xA0, CHR 0xBC, CHR 0xE5, CHR 0xBC, CHR 0x8F, CHR 0xEF, CHR 0xBC, CHR 0x9A, CHR 0x0A, CHR 0xE8,
      CHR 0xBE, CHR 0x93, CHR 0xE5, CHR 0x87, CHR 0xBA, CHR 0xE7, CHR 0xAC, CHR 0xAC, CHR 0xE4, CHR 0xB8, CHR 0x80,
      CHR 0xE6, CHR 0xAC, CHR 0xA1, CHR 0xE5, CHR 0x87, CHR 0xBA, CHR 0xE7, CHR 0x8E, CHR 0xB0, CHR 0xE7, CHR 0x9A,
      CHR 0x84, CHR 0xE4, CHR 0xB8, CHR 0x8B, CHR 0xE6, CHR 0xA0, CHR 0x87, CHR 0xEF, CHR 0xBC, CHR 0x8C, CHR 0xE4,
      CHR 0xB8, CHR 0x8D, CHR 0xE5, CHR 0xAD, CHR 0x98, CHR 0xE5, CHR 0x9C, CHR 0xA8, CHR 0xE5, CHR 0x88, CHR 0x99,
      CHR 0xE8, CHR 0xBE, CHR 0x93, CHR 0xE5, CHR 0x87, CHR 0xBA, CHR '' '', CHR ''-'', CHR 0x31, CHR 0xE3, CHR 0x80,
      CHR 0x82, CHR 0x0A],
    sd_difficulty = ''easy'',
    sd_tags =
     [CHR 0xE5, CHR 0xAD, CHR 0x97, CHR 0xE7, CHR 0xAC, CHR 0xA6, CHR 0xE4, CHR 0xB8, CHR 0xB2, CHR '','', CHR 0xE5,
      CHR 0x8F, CHR 0x8C, CHR 0xE6, CHR 0x8C, CHR 0x87, CHR 0xE9, CHR 0x92, CHR 0x88],
    sd_time_limit_ms = 2000, sd_memory_limit_kb = 65536, sd_visible = 1,
    sd_cases =
     [\<lparr>sc_input = [CHR ''s'', CHR ''a'', CHR ''d'', CHR ''b'', CHR ''u'', CHR ''t'', CHR ''s'', CHR ''a'', CHR ''d'', CHR 0x0A,
      CHR ''s'', CHR ''a'', CHR ''d'', CHR 0x0A],
      sc_output = [CHR 0x30, CHR 0x0A], sc_is_sample = True\<rparr>,
      \<lparr>sc_input = [CHR ''l'', CHR ''e'', CHR ''e'', CHR ''t'', CHR ''c'', CHR ''o'', CHR ''d'', CHR ''e'', CHR 0x0A, CHR ''l'',
      CHR ''e'', CHR ''e'', CHR ''t'', CHR ''o'', CHR 0x0A],
      sc_output = [CHR ''-'', CHR 0x31, CHR 0x0A], sc_is_sample = True\<rparr>,
      \<lparr>sc_input = [CHR ''h'', CHR ''e'', CHR ''l'', CHR ''l'', CHR ''o'', CHR 0x0A, CHR ''l'', CHR ''l'', CHR 0x0A],
      sc_output = [CHR 0x32, CHR 0x0A], sc_is_sample = False\<rparr>,
      \<lparr>sc_input = [CHR ''a'', CHR 0x0A, CHR ''a'', CHR 0x0A],
      sc_output = [CHR 0x30, CHR 0x0A], sc_is_sample = False\<rparr>]\<rparr>"

definition seed_search_insert_position :: seed_problem where
  "seed_search_insert_position = \<lparr>sd_seed_key = ''search-insert-position'',
    sd_title =
     [CHR 0xE6, CHR 0x90, CHR 0x9C, CHR 0xE7, CHR 0xB4, CHR 0xA2, CHR 0xE6, CHR 0x8F, CHR 0x92, CHR 0xE5, CHR 0x85,
      CHR 0xA5, CHR 0xE4, CHR 0xBD, CHR 0x8D, CHR 0xE7, CHR 0xBD, CHR 0xAE, CHR '' '', CHR ''('', CHR ''L'', CHR ''e'',
      CHR ''e'', CHR ''t'', CHR ''C'', CHR ''o'', CHR ''d'', CHR ''e'', CHR '' '', CHR 0x33, CHR 0x35, CHR '')''],
    sd_description =
     [CHR 0xE7, CHR 0xBB, CHR 0x99, CHR 0xE5, CHR 0xAE, CHR 0x9A, CHR 0xE4, CHR 0xB8, CHR 0x80, CHR 0xE4, CHR 0xB8,
      CHR 0xAA, CHR 0xE5, CHR 0x8D, CHR 0x87, CHR 0xE5, CHR 0xBA, CHR 0x8F, CHR 0xE6, CHR 0x8E, CHR 0x92, CHR 0xE5,
      CHR 0x88, CHR 0x97, CHR 0xE7, CHR 0x9A, CHR 0x84, CHR 0xE3, CHR 0x80, CHR 0x81, CHR 0xE6, CHR 0x97, CHR 0xA0,
      CHR 0xE9, CHR 0x87, CHR 0x8D, CHR 0xE5, CHR 0xA4, CHR 0x8D, CHR 0xE5, CHR 0x85, CHR 0x83, CHR 0xE7, CHR 0xB4,
      CHR 0xA0, CHR 0xE7, CHR 0x9A, CHR 0x84, CHR 0xE6, CHR 0x95, CHR 0xB0, CHR 0xE7, CHR 0xBB, CHR 0x84, CHR 0xE5,
      CHR 0x92, CHR 0x8C, CHR 0xE4, CHR 0xB8, CHR 0x80, CHR 0xE4, CHR 0xB8, CHR 0xAA, CHR 0xE7, CHR 0x9B, CHR 0xAE,
      CHR 0xE6, CHR 0xA0, CHR 0x87, CHR 0xE5, CHR 0x80, CHR 0xBC, CHR '' '', CHR ''t'', CHR ''a'', CHR ''r'', CHR ''g'',
      CHR ''e'', CHR ''t'', CHR 0xEF, CHR 0xBC, CHR 0x8C, CHR 0xE8, CHR 0xBF, CHR 0x94, CHR 0xE5, CHR 0x9B, CHR 0x9E,
      CHR '' '', CHR ''t'', CHR ''a'', CHR ''r'', CHR ''g'', CHR ''e'', CHR ''t'', CHR '' '', CHR 0xE5, CHR 0x9C, CHR 0xA8,
      CHR 0xE6, CHR 0x95, CHR 0xB0, CHR 0xE7, CHR 0xBB, CHR 0x84, CHR 0xE4, CHR 0xB8, CHR 0xAD, CHR 0xE7, CHR 0x9A,
      CHR 0x84, CHR 0xE4, CHR 0xB8, CHR 0x8B, CHR 0xE6, CHR 0xA0, CHR 0x87, CHR 0xEF, CHR 0xBC, CHR 0x9B, CHR 0xE8,
      CHR 0x8B, CHR 0xA5, CHR 0xE4, CHR 0xB8, CHR 0x8D, CHR 0xE5, CHR 0xAD, CHR 0x98, CHR 0xE5, CHR 0x9C, CHR 0xA8,
      CHR 0xEF, CHR 0xBC, CHR 0x8C, CHR 0xE8, CHR 0xBF, CHR 0x94, CHR 0xE5, CHR 0x9B, CHR 0x9E, CHR 0xE5, CHR 0xAE,
      CHR 0x83, CHR 0xE5, CHR 0xB0, CHR 0x86, CHR 0xE4, CHR 0xBC, CHR 0x9A, CHR 0xE8, CHR 0xA2, CHR 0xAB, CHR 0xE6,
      CHR 0x8C, CHR 0x89, CHR 0xE9, CHR 0xA1, CHR 0xBA, CHR 0xE5, CHR 0xBA, CHR 0x8F, CHR 0xE6, CHR 0x8F, CHR 0x92,
      CHR 0xE5, CHR 0x85, CHR 0xA5, CHR 0xE7, CHR 0x9A, CHR 0x84, CHR 0xE4, CHR 0xBD, CHR 0x8D, CHR 0xE7, CHR 0xBD,
      CHR 0xAE, CHR 0xE3, CHR 0x80, CHR 0x82, CHR 0x0A, CHR 0x0A, CHR 0xE8, CHR 0xBE, CHR 0x93, CHR 0xE5, CHR 0x85,
      CHR 0xA5, CHR 0xE6, CHR 0xA0, CHR 0xBC, CHR 0xE5, CHR 0xBC, CHR 0x8F, CHR 0xEF, CHR 0xBC, CHR 0x9A, CHR 0x0A,
      CHR 0xE7, CHR 0xAC, CHR 0xAC, CHR 0xE4, CHR 0xB8, CHR 0x80, CHR 0xE8, CHR 0xA1, CHR 0x8C, CHR 0xE4, CHR 0xB8,
      CHR 0xA4, CHR 0xE4, CHR 0xB8, CHR 0xAA, CHR 0xE6, CHR 0x95, CHR 0xB4, CHR 0xE6, CHR 0x95, CHR 0xB0, CHR '' '',
      CHR ''n'', CHR '' '', CHR 0xE5, CHR 0x92, CHR 0x8C, CHR '' '', CHR ''t'', CHR ''a'', CHR ''r'', CHR ''g'', CHR ''e'',
      CHR ''t'', CHR 0xEF, CHR 0xBC, CHR 0x88, CHR 0x31, CHR '' '', CHR ''<'', CHR ''='', CHR '' '', CHR ''n'', CHR '' '',
      CHR ''<'', CHR ''='', CHR '' '', CHR 0x31, CHR 0x30, CHR 0x30, CHR 0x30, CHR 0x30, CHR 0xEF, CHR 0xBC, CHR 0x89,
      CHR 0xE3, CHR 0x80, CHR 0x82, CHR 0x0A, CHR 0xE7, CHR 0xAC, CHR 0xAC, CHR 0xE4, CHR 0xBA, CHR 0x8C, CHR 0xE8,
      CHR 0xA1, CHR 0x8C, CHR '' '', CHR ''n'', CHR '' '', CHR 0xE4, CHR 0xB8, CHR 0xAA, CHR 0xE5, CHR 0x8D, CHR 0x87,
      CHR 0xE5, CHR 0xBA, CHR 0x8F, CHR 0xE4, CHR 0xB8, CHR 0x94, CHR 0xE4, CHR 0xBA, CHR 0x92, CHR 0xE4, CHR 0xB8,
      CHR 0x8D, CHR 0xE7, CHR 0x9B, CHR 0xB8, CHR 0xE5, CHR 0x90, CHR 0x8C, CHR 0xE7, CHR 0x9A, CHR 0x84, CHR 0xE6,
      CHR 0x95, CHR 0xB4, CHR 0xE6, CHR 0x95, CHR 0xB0, CHR 0xE3, CHR 0x80, CHR 0x82, CHR 0x0A, CHR 0x0A, CHR 0xE8,
      CHR 0xBE, CHR 0x93, CHR 0xE5, CHR 0x87, CHR 0xBA, CHR 0xE6, CHR 0xA0, CHR 0xBC, CHR 0xE5, CHR 0xBC, CHR 0x8F,
      CHR 0xEF, CHR 0xBC, CHR 0x9A, CHR 0x0A, CHR 0xE8, CHR 0xBE, CHR 0x93, CHR 0xE5, CHR 0x87, CHR 0xBA, CHR 0xE4,
      CHR 0xB8, CHR 0x8B, CHR 0xE6, CHR 0xA0, CHR 0x87, CHR 0xE6, CHR 0x88, CHR 0x96, CHR 0xE6, CHR 0x8F, CHR 0x92,
      CHR 0xE5, CHR 0x85, CHR 0xA5, CHR 0xE4, CHR 0xBD, CHR 0x8D, CHR 0xE7, CHR 0xBD, CHR 0xAE, CHR 0xE3, CHR 0x80,
      CHR 0x82, CHR 0x0A],
    sd_difficulty = ''easy'',
    sd_tags =
     [CHR 0xE6, CHR 0x95, CHR 0xB0, CHR 0xE7, CHR 0xBB, CHR 0x84, CHR '','', CHR 0xE4, CHR 0xBA, CHR 0x8C, CHR 0xE5,
      CHR 0x88, CHR 0x86, CHR 0xE6, CHR 0x9F, CHR 0xA5, CHR 0xE6, CHR 0x89, CHR 0xBE],
    sd_time_limit_ms = 2000, sd_memory_limit_kb = 65536, sd_visible = 1,
    sd_cases =
     [\<lparr>sc_input = [CHR 0x34, CHR '' '', CHR 0x35, CHR 0x0A, CHR 0x31, CHR '' '', CHR 0x33, CHR '' '', CHR 0x35, CHR '' '', CHR 0x36,
      CHR 0x0A],
      sc_output = [CHR 0x32, CHR 0x0A], sc_is_sample = True\<rparr>,
      \<lparr>sc_input = [CHR 0x34, CHR '' '', CHR 0x32, CHR 0x0A, CHR 0x31, CHR '' '', CHR 0x33, CHR '' '', CHR 0x35, CHR '' '', CHR 0x36,
      CHR 0x0A],
      sc_output = [CHR 0x31, CHR 0x0A], sc_is_sample = True\<rparr>,
      \<lparr>sc_input = [CHR 0x34, CHR '' '', CHR 0x37, CHR 0x0A, CHR 0x31, CHR '' '', CHR 0x33, CHR '' '', CHR 0x35, CHR '' '', CHR 0x36,
      CHR 0x0A],
      sc_output = [CHR 0x34, CHR 0x0A], sc_is_sample = False\<rparr>,
      \<lparr>sc_input = [CHR 0x34, CHR '' '', CHR 0x30, CHR 0x0A, CHR 0x31, CHR '' '', CHR 0x33, CHR '' '', CHR 0x35, CHR '' '', CHR 0x36,
      CHR 0x0A],
      sc_output = [CHR 0x30, CHR 0x0A], sc_is_sample = False\<rparr>]\<rparr>"

definition seed_maximum_subarray :: seed_problem where
  "seed_maximum_subarray = \<lparr>sd_seed_key = ''maximum-subarray'',
    sd_title =
     [CHR 0xE6, CHR 0x9C, CHR 0x80, CHR 0xE5, CHR 0xA4, CHR 0xA7, CHR 0xE5, CHR 0xAD, CHR 0x90, CHR 0xE6, CHR 0x95,
      CHR 0xB0, CHR 0xE7, CHR 0xBB, CHR 0x84, CHR 0xE5, CHR 0x92, CHR 0x8C, CHR '' '', CHR ''('', CHR ''L'', CHR ''e'',
      CHR ''e'', CHR ''t'', CHR ''C'', CHR ''o'', CHR ''d'', CHR ''e'', CHR '' '', CHR 0x35, CHR 0x33, CHR '')''],
    sd_description =
     [CHR 0xE7, CHR 0xBB, CHR 0x99, CHR 0xE5, CHR 0xAE, CHR 0x9A, CHR 0xE4, CHR 0xB8, CHR 0x80, CHR 0xE4, CHR 0xB8,
      CHR 0xAA, CHR 0xE6, CHR 0x95, CHR 0xB4, CHR 0xE6, CHR 0x95, CHR 0xB0, CHR 0xE6, CHR 0x95, CHR 0xB0, CHR 0xE7,
      CHR 0xBB, CHR 0x84, CHR 0xEF, CHR 0xBC, CHR 0x8C, CHR 0xE6, CHR 0x89, CHR 0xBE, CHR 0xE5, CHR 0x87, CHR 0xBA,
      CHR 0xE5, CHR 0x92, CHR 0x8C, CHR 0xE6, CHR 0x9C, CHR 0x80, CHR 0xE5, CHR 0xA4, CHR 0xA7, CHR 0xE7, CHR 0x9A,
      CHR 0x84, CHR 0xE8, CHR 0xBF, CHR 0x9E, CHR 0xE7, CHR 0xBB, CHR 0xAD, CHR 0xE5, CHR 0xAD, CHR 0x90, CHR 0xE6,
      CHR 0x95, CHR 0xB0, CHR 0xE7, CHR 0xBB, CHR 0x84, CHR 0xEF, CHR 0xBC, CHR 0x88, CHR 0xE8, CHR 0x87, CHR 0xB3,
      CHR 0xE5, CHR 0xB0, CHR 0x91, CHR 0xE5, CHR 0x8C, CHR 0x85, CHR 0xE5, CHR 0x90, CHR 0xAB, CHR 0xE4, CHR 0xB8,
      CHR 0x80, CHR 0xE4, CHR 0xB8, CHR 0xAA, CHR 0xE5, CHR 0x85, CHR 0x83, CHR 0xE7, CHR 0xB4, CHR 0xA0, CHR 0xEF,
      CHR 0xBC, CHR 0x89, CHR 0xEF, CHR 0xBC, CHR 0x8C, CHR 0xE8, CHR 0xBE, CHR 0x93, CHR 0xE5, CHR 0x87, CHR 0xBA,
      CHR 0xE5, CHR 0x85, CHR 0xB6, CHR 0xE6, CHR 0x9C, CHR 0x80, CHR 0xE5, CHR 0xA4, CHR 0xA7, CHR 0xE5, CHR 0x92,
      CHR 0x8C, CHR 0xE3, CHR 0x80, CHR 0x82, CHR 0x0A, CHR 0x0A, CHR 0xE8, CHR 0xBE, CHR 0x93, CHR 0xE5, CHR 0x85,
      CHR 0xA5, CHR 0xE6, CHR 0xA0, CHR 0xBC, CHR 0xE5, CHR 0xBC, CHR 0x8F, CHR 0xEF, CHR 0xBC, CHR 0x9A, CHR 0x0A,
      CHR 0xE7, CHR 0xAC, CHR 0xAC, CHR 0xE4, CHR 0xB8, CHR 0x80, CHR 0xE8, CHR 0xA1, CHR 0x8C, CHR 0xE4, CHR 0xB8,
      CHR 0x80, CHR 0xE4, CHR 0xB8, CHR 0xAA, CHR 0xE6, CHR 0x95, CHR 0xB4, CHR 0xE6, CHR 0x95, CHR 0xB0, CHR '' '',
      CHR ''n'', CHR 0xEF, CHR 0xBC, CHR 0x88, CHR 0x31, CHR '' '', CHR ''<'', CHR ''='', CHR '' '', CHR ''n'', CHR '' '',
      CHR ''<'', CHR ''='', CHR '' '', CHR 0x31, CHR 0x30, CHR 0x30, CHR 0x30, CHR 0x30, CHR 0x30, CHR 0xEF, CHR 0xBC,
      CHR 0x89, CHR 0xE3, CHR 0x80, CHR 0x82, CHR 0x0A, CHR 0xE7, CHR 0xAC, CHR 0xAC, CHR 0xE4, CHR 0xBA, CHR 0x8C,
      CHR 0xE8, CHR 0xA1, CHR 0x8C, CHR '' '', CHR ''n'', CHR '' '', CHR 0xE4, CHR 0xB8, CHR 0xAA, CHR 0xE6, CHR 0x95,
      CHR 0xB4, CHR 0xE6, CHR 0x95, CHR 0xB0, CHR 0xE3, CHR 0x80, CHR 0x82, CHR 0x0A, CHR 0x0A, CHR 0xE8, CHR 0xBE,
      CHR 0x93, CHR 0xE5, CHR 0x87, CHR 0xBA, CHR 0xE6, CHR 0xA0, CHR 0xBC, CHR 0xE5, CHR 0xBC, CHR 0x8F, CHR 0xEF,
      CHR 0xBC, CHR 0x9A, CHR 0x0A, CHR 0xE8, CHR 0xBE, CHR 0x93, CHR 0xE5, CHR 0x87, CHR 0xBA, CHR 0xE6, CHR 0x9C,
      CHR 0x80, CHR 0xE5, CHR 0xA4, CHR 0xA7, CHR 0xE5, CHR 0xAD, CHR 0x90, CHR 0xE6, CHR 0x95, CHR 0xB0, CHR 0xE7,
      CHR 0xBB, CHR 0x84, CHR 0xE7, CHR 0x9A, CHR 0x84, CHR 0xE5, CHR 0x92, CHR 0x8C, CHR 0xE3, CHR 0x80, CHR 0x82, CHR 0x0A],
    sd_difficulty = ''medium'',
    sd_tags =
     [CHR 0xE6, CHR 0x95, CHR 0xB0, CHR 0xE7, CHR 0xBB, CHR 0x84, CHR '','', CHR 0xE5, CHR 0x8A, CHR 0xA8, CHR 0xE6,
      CHR 0x80, CHR 0x81, CHR 0xE8, CHR 0xA7, CHR 0x84, CHR 0xE5, CHR 0x88, CHR 0x92],
    sd_time_limit_ms = 2000, sd_memory_limit_kb = 65536, sd_visible = 1,
    sd_cases =
     [\<lparr>sc_input = [CHR 0x39, CHR 0x0A, CHR ''-'', CHR 0x32, CHR '' '', CHR 0x31, CHR '' '', CHR ''-'', CHR 0x33, CHR '' '', CHR 0x34,
      CHR '' '', CHR ''-'', CHR 0x31, CHR '' '', CHR 0x32, CHR '' '', CHR 0x31, CHR '' '', CHR ''-'', CHR 0x35, CHR '' '',
      CHR 0x34, CHR 0x0A],
      sc_output = [CHR 0x36, CHR 0x0A], sc_is_sample = True\<rparr>,
      \<lparr>sc_input = [CHR 0x31, CHR 0x0A, CHR 0x31, CHR 0x0A],
      sc_output = [CHR 0x31, CHR 0x0A], sc_is_sample = True\<rparr>,
      \<lparr>sc_input = [CHR 0x35, CHR 0x0A, CHR 0x35, CHR '' '', CHR 0x34, CHR '' '', CHR ''-'', CHR 0x31, CHR '' '', CHR 0x37, CHR '' '',
      CHR 0x38, CHR 0x0A],
      sc_output = [CHR 0x32, CHR 0x33, CHR 0x0A], sc_is_sample = False\<rparr>,
      \<lparr>sc_input = [CHR 0x35, CHR 0x0A, CHR ''-'', CHR 0x33, CHR '' '', CHR ''-'', CHR 0x32, CHR '' '', CHR ''-'', CHR 0x35, CHR '' '',
      CHR ''-'', CHR 0x31, CHR '' '', CHR ''-'', CHR 0x34, CHR 0x0A],
      sc_output = [CHR ''-'', CHR 0x31, CHR 0x0A], sc_is_sample = False\<rparr>]\<rparr>"

definition seed_length_of_last_word :: seed_problem where
  "seed_length_of_last_word = \<lparr>sd_seed_key = ''length-of-last-word'',
    sd_title =
     [CHR 0xE6, CHR 0x9C, CHR 0x80, CHR 0xE5, CHR 0x90, CHR 0x8E, CHR 0xE4, CHR 0xB8, CHR 0x80, CHR 0xE4, CHR 0xB8,
      CHR 0xAA, CHR 0xE5, CHR 0x8D, CHR 0x95, CHR 0xE8, CHR 0xAF, CHR 0x8D, CHR 0xE7, CHR 0x9A, CHR 0x84, CHR 0xE9,
      CHR 0x95, CHR 0xBF, CHR 0xE5, CHR 0xBA, CHR 0xA6, CHR '' '', CHR ''('', CHR ''L'', CHR ''e'', CHR ''e'', CHR ''t'',
      CHR ''C'', CHR ''o'', CHR ''d'', CHR ''e'', CHR '' '', CHR 0x35, CHR 0x38, CHR '')''],
    sd_description =
     [CHR 0xE7, CHR 0xBB, CHR 0x99, CHR 0xE5, CHR 0xAE, CHR 0x9A, CHR 0xE4, CHR 0xB8, CHR 0x80, CHR 0xE4, CHR 0xB8,
      CHR 0xAA, CHR 0xE7, CHR 0x94, CHR 0xB1, CHR 0xE8, CHR 0x8B, CHR 0xA5, CHR 0xE5, CHR 0xB9, CHR 0xB2, CHR 0xE5,
      CHR 0x8D, CHR 0x95, CHR 0xE8, CHR 0xAF, CHR 0x8D, CHR 0xE7, CHR 0xBB, CHR 0x84, CHR 0xE6, CHR 0x88, CHR 0x90,
      CHR 0xE7, CHR 0x9A, CHR 0x84, CHR 0xE5, CHR 0xAD, CHR 0x97, CHR 0xE7, CHR 0xAC, CHR 0xA6, CHR 0xE4, CHR 0xB8,
      CHR 0xB2, CHR 0xEF, CHR 0xBC, CHR 0x8C, CHR 0xE5, CHR 0x8D, CHR 0x95, CHR 0xE8, CHR 0xAF, CHR 0x8D, CHR 0xE4,
      CHR 0xB9, CHR 0x8B, CHR 0xE9, CHR 0x97, CHR 0xB4, CHR 0xE4, CHR 0xBB, CHR 0xA5, CHR 0xE5, CHR 0x8D, CHR 0x95,
      CHR 0xE4, CHR 0xB8, CHR 0xAA, CHR 0xE7, CHR 0xA9, CHR 0xBA, CHR 0xE6, CHR 0xA0, CHR 0xBC, CHR 0xE5, CHR 0x88,
      CHR 0x86, CHR 0xE9, CHR 0x9A, CHR 0x94, CHR 0xEF, CHR 0xBC, CHR 0x8C, CHR 0xE8, CHR 0xBE, CHR 0x93, CHR 0xE5,
      CHR 0x87, CHR 0xBA, CHR 0xE6, CHR 0x9C, CHR 0x80, CHR 0xE5, CHR 0x90, CHR 0x8E, CHR 0xE4, CHR 0xB8, CHR 0x80,
      CHR 0xE4, CHR 0xB8, CHR 0xAA, CHR 0xE5, CHR 0x8D, CHR 0x95, CHR 0xE8, CHR 0xAF, CHR 0x8D, CHR 0xE7, CHR 0x9A,
      CHR 0x84, CHR 0xE9, CHR 0x95, CHR 0xBF, CHR 0xE5, CHR 0xBA, CHR 0xA6, CHR 0xE3, CHR 0x80, CHR 0x82, CHR 0x0A,
      CHR 0x0A, CHR 0xE8, CHR 0xBE, CHR 0x93, CHR 0xE5, CHR 0x85, CHR 0xA5, CHR 0xE6, CHR 0xA0, CHR 0xBC, CHR 0xE5,
      CHR 0xBC, CHR 0x8F, CHR 0xEF, CHR 0xBC, CHR 0x9A, CHR 0x0A, CHR 0xE4, CHR 0xB8, CHR 0x80, CHR 0xE8, CHR 0xA1,
      CHR 0x8C, CHR 0xE5, CHR 0xAD, CHR 0x97, CHR 0xE7, CHR 0xAC, CHR 0xA6, CHR 0xE4, CHR 0xB8, CHR 0xB2, CHR '' '',
      CHR ''s'', CHR 0xEF, CHR 0xBC, CHR 0x88, CHR 0xE4, CHR 0xBB, CHR 0x85, CHR 0xE5, CHR 0x90, CHR 0xAB, CHR 0xE8,
      CHR 0x8B, CHR 0xB1, CHR 0xE6, CHR 0x96, CHR 0x87, CHR 0xE5, CHR 0xAD, CHR 0x97, CHR 0xE6, CHR 0xAF, CHR 0x8D,
      CHR 0xE5, CHR 0x92, CHR 0x8C, CHR 0xE7, CHR 0xA9, CHR 0xBA, CHR 0xE6, CHR 0xA0, CHR 0xBC, CHR 0xEF, CHR 0xBC,
      CHR 0x8C, CHR 0xE9, CHR 0x95, CHR 0xBF, CHR 0xE5, CHR 0xBA, CHR 0xA6, CHR 0xE4, CHR 0xB8, CHR 0x8D, CHR 0xE8,
      CHR 0xB6, CHR 0x85, CHR 0xE8, CHR 0xBF, CHR 0x87, CHR '' '', CHR 0x31, CHR 0x30, CHR 0x30, CHR 0x30, CHR 0x30,
      CHR 0xEF, CHR 0xBC, CHR 0x89, CHR 0xE3, CHR 0x80, CHR 0x82, CHR 0x0A, CHR 0x0A, CHR 0xE8, CHR 0xBE, CHR 0x93,
      CHR 0xE5, CHR 0x87, CHR 0xBA, CHR 0xE6, CHR 0xA0, CHR 0xBC, CHR 0xE5, CHR 0xBC, CHR 0x8F, CHR 0xEF, CHR 0xBC,
      CHR 0x9A, CHR 0x0A, CHR 0xE8, CHR 0xBE, CHR 0x93, CHR 0xE5, CHR 0x87, CHR 0xBA, CHR 0xE6, CHR 0x9C, CHR 0x80,
      CHR 0xE5, CHR 0x90, CHR 0x8E, CHR 0xE4, CHR 0xB8, CHR 0x80, CHR 0xE4, CHR 0xB8, CHR 0xAA, CHR 0xE5, CHR 0x8D,
      CHR 0x95, CHR 0xE8, CHR 0xAF, CHR 0x8D, CHR 0xE7, CHR 0x9A, CHR 0x84, CHR 0xE9, CHR 0x95, CHR 0xBF, CHR 0xE5,
      CHR 0xBA, CHR 0xA6, CHR 0xE3, CHR 0x80, CHR 0x82, CHR 0x0A],
    sd_difficulty = ''easy'',
    sd_tags =
     [CHR 0xE5, CHR 0xAD, CHR 0x97, CHR 0xE7, CHR 0xAC, CHR 0xA6, CHR 0xE4, CHR 0xB8, CHR 0xB2],
    sd_time_limit_ms = 2000, sd_memory_limit_kb = 65536, sd_visible = 1,
    sd_cases =
     [\<lparr>sc_input = [CHR ''H'', CHR ''e'', CHR ''l'', CHR ''l'', CHR ''o'', CHR '' '', CHR ''W'', CHR ''o'', CHR ''r'', CHR ''l'',
      CHR ''d'', CHR 0x0A],
      sc_output = [CHR 0x35, CHR 0x0A], sc_is_sample = True\<rparr>,
      \<lparr>sc_input = [CHR ''l'', CHR ''u'', CHR ''f'', CHR ''f'', CHR ''y'', CHR '' '', CHR ''i'', CHR ''s'', CHR '' '', CHR ''s'',
      CHR ''t'', CHR ''i'', CHR ''l'', CHR ''l'', CHR '' '', CHR ''j'', CHR ''o'', CHR ''y'', CHR ''b'', CHR ''o'',
      CHR ''y'', CHR 0x0A],
      sc_output = [CHR 0x36, CHR 0x0A], sc_is_sample = True\<rparr>,
      \<lparr>sc_input = [CHR ''a'', CHR 0x0A],
      sc_output = [CHR 0x31, CHR 0x0A], sc_is_sample = False\<rparr>,
      \<lparr>sc_input = [CHR ''f'', CHR ''l'', CHR ''y'', CHR '' '', CHR ''m'', CHR ''e'', CHR '' '', CHR ''t'', CHR ''o'', CHR '' '',
      CHR ''t'', CHR ''h'', CHR ''e'', CHR '' '', CHR ''m'', CHR ''o'', CHR ''o'', CHR ''n'', CHR 0x0A],
      sc_output = [CHR 0x34, CHR 0x0A], sc_is_sample = False\<rparr>]\<rparr>"

definition seed_plus_one :: seed_problem where
  "seed_plus_one = \<lparr>sd_seed_key = ''plus-one'',
    sd_title =
     [CHR 0xE5, CHR 0x8A, CHR 0xA0, CHR 0xE4, CHR 0xB8, CHR 0x80, CHR '' '', CHR ''('', CHR ''L'', CHR ''e'', CHR ''e'',
      CHR ''t'', CHR ''C'', CHR ''o'', CHR ''d'', CHR ''e'', CHR '' '', CHR 0x36, CHR 0x36, CHR '')''],
    sd_description =
     [CHR 0xE7, CHR 0xBB, CHR 0x99, CHR 0xE5, CHR 0xAE, CHR 0x9A, CHR 0xE4, CHR 0xB8, CHR 0x80, CHR 0xE4, CHR 0xB8,
      CHR 0xAA, CHR 0xE7, CHR 0x94, CHR 0xA8, CHR 0xE6, CHR 0x95, CHR 0xB0, CHR 0xE7, CHR 0xBB, CHR 0x84, CHR 0xE8,
      CHR 0xA1, CHR 0xA8, CHR 0xE7, CHR 0xA4, CHR 0xBA, CHR 0xE7, CHR 0x9A, CHR 0x84, CHR 0xE6, CHR 0x95, CHR 0xB4,
      CHR 0xE6, CHR 0x95, CHR 0xB0, CHR 0xEF, CHR 0xBC, CHR 0x88, CHR 0xE6, CHR 0x95, CHR 0xB0, CHR 0xE7, CHR 0xBB,
      CHR 0x84, CHR 0xE5, CHR 0x85, CHR 0x83, CHR 0xE7, CHR 0xB4, CHR 0xA0, CHR 0xE4, CHR 0xB8, CHR 0xBA, CHR '' '',
      CHR 0x30, CHR ''-'', CHR 0x39, CHR 0xEF, CHR 0xBC, CHR 0x8C, CHR 0xE6, CHR 0x97, CHR 0xA0, CHR 0xE5, CHR 0x89,
      CHR 0x8D, CHR 0xE5, CHR 0xAF, CHR 0xBC, CHR 0xE9, CHR 0x9B, CHR 0xB6, CHR 0xEF, CHR 0xBC, CHR 0x89, CHR 0xEF,
      CHR 0xBC, CHR 0x8C, CHR 0xE5, CHR 0xB0, CHR 0x86, CHR 0xE5, CHR 0x85, CHR 0xB6, CHR 0xE5, CHR 0x8A, CHR 0xA0,
      CHR 0xE4, CHR 0xB8, CHR 0x80, CHR 0xEF, CHR 0xBC, CHR 0x8C, CHR 0xE8, CHR 0xBE, CHR 0x93, CHR 0xE5, CHR 0x87,
      CHR 0xBA, CHR 0xE7, CHR 0xBB, CHR 0x93, CHR 0xE6, CHR 0x9E, CHR 0x9C, CHR 0xE6, CHR 0x95, CHR 0xB0, CHR 0xE7,
      CHR 0xBB, CHR 0x84, CHR 0xE3, CHR 0x80, CHR 0x82, CHR 0x0A, CHR 0x0A, CHR 0xE8, CHR 0xBE, CHR 0x93, CHR 0xE5,
      CHR 0x85, CHR 0xA5, CHR 0xE6, CHR 0xA0, CHR 0xBC, CHR 0xE5, CHR 0xBC, CHR 0x8F, CHR 0xEF, CHR 0xBC, CHR 0x9A,
      CHR 0x0A, CHR 0xE7, CHR 0xAC, CHR 0xAC, CHR 0xE4, CHR 0xB8, CHR 0x80, CHR 0xE8, CHR 0xA1, CHR 0x8C, CHR 0xE4,
      CHR 0xB8, CHR 0x80, CHR 0xE4, CHR 0xB8, CHR 0xAA, CHR 0xE6, CHR 0x95, CHR 0xB4, CHR 0xE6, CHR 0x95, CHR 0xB0,
      CHR '' '', CHR ''n'', CHR 0xEF, CHR 0xBC, CHR 0x88, CHR 0x31, CHR '' '', CHR ''<'', CHR ''='', CHR '' '', CHR ''n'',
      CHR '' '', CHR ''<'', CHR ''='', CHR '' '', CHR 0x31, CHR 0x30, CHR 0x30, CHR 0x30, CHR 0xEF, CHR 0xBC, CHR 0x89,
      CHR 0xE3, CHR 0x80, CHR 0x82, CHR 0x0A, CHR 0xE7, CHR 0xAC, CHR 0xAC, CHR 0xE4, CHR 0xBA, CHR 0x8C, CHR 0xE8,
      CHR 0xA1, CHR 0x8C, CHR '' '', CHR ''n'', CHR '' '', CHR 0xE4, CHR 0xB8, CHR 0xAA, CHR 0xE6, CHR 0x95, CHR 0xB0,
      CHR 0xE5, CHR 0xAD, CHR 0x97, CHR 0xEF, CHR 0xBC, CHR 0x8C, CHR 0xE4, CHR 0xBB, CHR 0xA5, CHR 0xE7, CHR 0xA9,
      CHR 0xBA, CHR 0xE6, CHR 0xA0, CHR 0xBC, CHR 0xE5, CHR 0x88, CHR 0x86, CHR 0xE9, CHR 0x9A, CHR 0x94, CHR 0xE3,
      CHR 0x80, CHR 0x82, CHR 0x0A, CHR 0x0A, CHR 0xE8, CHR 0xBE, CHR 0x93, CHR 0xE5, CHR 0x87, CHR 0xBA, CHR 0xE6,
      CHR 0xA0, CHR 0xBC, CHR 0xE5, CHR 0xBC, CHR 0x8F, CHR 0xEF, CHR 0xBC, CHR 0x9A, CHR 0x0A, CHR 0xE4, CHR 0xB8,
      CHR 0x80, CHR 0xE8, CHR 0xA1, CHR 0x8C, CHR 0xEF, CHR 0xBC, CHR 0x8C, CHR 0xE8, CHR 0xA1, CHR 0xA8, CHR 0xE7,
      CHR 0xA4, CHR 0xBA, CHR 0xE5, CHR 0x8A, CHR 0xA0, CHR 0xE4, CHR 0xB8, CHR 0x80, CHR 0xE5, CHR 0x90, CHR 0x8E,
      CHR 0xE7, CHR 0x9A, CHR 0x84, CHR 0xE6, CHR 0x95, CHR 0xB4, CHR 0xE6, CHR 0x95, CHR 0xB0, CHR 0xE5, CHR 0x90,
      CHR 0x84, CHR 0xE4, CHR 0xBD, CHR 0x8D, CHR 0xE6, CHR 0x95, CHR 0xB0, CHR 0xE5, CHR 0xAD, CHR 0x97, CHR 0xEF,
      CHR 0xBC, CHR 0x8C, CHR 0xE4, CHR 0xBB, CHR 0xA5, CHR 0xE7, CHR 0xA9, CHR 0xBA, CHR 0xE6, CHR 0xA0, CHR 0xBC,
      CHR 0xE5, CHR 0x88, CHR 0x86, CHR 0xE9, CHR 0x9A, CHR 0x94, CHR 0xE3, CHR 0x80, CHR 0x82, CHR 0x0A],
    sd_difficulty = ''easy'',
    sd_tags =
     [CHR 0xE6, CHR 0x95, CHR 0xB0, CHR 0xE7, CHR 0xBB, CHR 0x84, CHR '','', CHR 0xE6, CHR 0x95, CHR 0xB0, CHR 0xE5,
      CHR 0xAD, CHR 0xA6],
    sd_time_limit_ms = 2000, sd_memory_limit_kb = 65536, sd_visible = 1,
    sd_cases =
     [\<lparr>sc_input = [CHR 0x33, CHR 0x0A, CHR 0x31, CHR '' '', CHR 0x32, CHR '' '', CHR 0x33, CHR 0x0A],
      sc_output = [CHR 0x31, CHR '' '', CHR 0x32, CHR '' '', CHR 0x34, CHR 0x0A], sc_is_sample = True\<rparr>,
      \<lparr>sc_input = [CHR 0x34, CHR 0x0A, CHR 0x34, CHR '' '', CHR 0x33, CHR '' '', CHR 0x32, CHR '' '', CHR 0x31, CHR 0x0A],
      sc_output = [CHR 0x34, CHR '' '', CHR 0x33, CHR '' '', CHR 0x32, CHR '' '', CHR 0x32, CHR 0x0A], sc_is_sample = True\<rparr>,
      \<lparr>sc_input = [CHR 0x31, CHR 0x0A, CHR 0x39, CHR 0x0A],
      sc_output = [CHR 0x31, CHR '' '', CHR 0x30, CHR 0x0A], sc_is_sample = False\<rparr>,
      \<lparr>sc_input = [CHR 0x33, CHR 0x0A, CHR 0x39, CHR '' '', CHR 0x39, CHR '' '', CHR 0x39, CHR 0x0A],
      sc_output = [CHR 0x31, CHR '' '', CHR 0x30, CHR '' '', CHR 0x30, CHR '' '', CHR 0x30, CHR 0x0A], sc_is_sample = False\<rparr>]\<rparr>"

definition seed_add_binary :: seed_problem where
  "seed_add_binary = \<lparr>sd_seed_key = ''add-binary'',
    sd_title =
     [CHR 0xE4, CHR 0xBA, CHR 0x8C, CHR 0xE8, CHR 0xBF, CHR 0x9B, CHR 0xE5, CHR 0x88, CHR 0xB6, CHR 0xE6, CHR 0xB1,
      CHR 0x82, CHR 0xE5, CHR 0x92, CHR 0x8C, CHR '' '', CHR ''('', CHR ''L'', CHR ''e'', CHR ''e'', CHR ''t'', CHR ''C'',
      CHR ''o'', CHR ''d'', CHR ''e'', CHR '' '', CHR 0x36, CHR 0x37, CHR '')''],
    sd_description =
     [CHR 0xE7, CHR 0xBB, CHR 0x99, CHR 0xE5, CHR 0xAE, CHR 0x9A, CHR 0xE4, CHR 0xB8, CHR 0xA4, CHR 0xE4, CHR 0xB8,
      CHR 0xAA, CHR 0xE4, CHR 0xBA, CHR 0x8C, CHR 0xE8, CHR 0xBF, CHR 0x9B, CHR 0xE5, CHR 0x88, CHR 0xB6, CHR 0xE5,
      CHR 0xAD, CHR 0x97, CHR 0xE7, CHR 0xAC, CHR 0xA6, CHR 0xE4, CHR 0xB8, CHR 0xB2, CHR 0xEF, CHR 0xBC, CHR 0x8C,
      CHR 0xE8, CHR 0xBE, CHR 0x93, CHR 0xE5, CHR 0x87, CHR 0xBA, CHR 0xE5, CHR 0xAE, CHR 0x83, CHR 0xE4, CHR 0xBB,
      CHR 0xAC, CHR 0xE7, CHR 0x9A, CHR 0x84, CHR 0xE5, CHR 0x92, CHR 0x8C, CHR 0xEF, CHR 0xBC, CHR 0x88, CHR 0xE4,
      CHR 0xBA, CHR 0x8C, CHR 0xE8, CHR 0xBF, CHR 0x9B, CHR 0xE5, CHR 0x88, CHR 0xB6, CHR 0xE8, CHR 0xA1, CHR 0xA8,
      CHR 0xE7, CHR 0xA4, CHR 0xBA, CHR 0xEF, CHR 0xBC, CHR 0x89, CHR 0xE3, CHR 0x80, CHR 0x82, CHR 0x0A, CHR 0x0A,
      CHR 0xE8, CHR 0xBE, CHR 0x93, CHR 0xE5, CHR 0x85, CHR 0xA5, CHR 0xE6, CHR 0xA0, CHR 0xBC, CHR 0xE5, CHR 0xBC,
      CHR 0x8F, CHR 0xEF, CHR 0xBC, CHR 0x9A, CHR 0x0A, CHR 0xE7, CHR 0xAC, CHR 0xAC, CHR 0xE4, CHR 0xB8, CHR 0x80,
      CHR 0xE8, CHR 0xA1, CHR 0x8C, CHR 0xE5, CHR 0xAD, CHR 0x97, CHR 0xE7, CHR 0xAC, CHR 0xA6, CHR 0xE4, CHR 0xB8,
      CHR 0xB2, CHR '' '', CHR ''a'', CHR 0xEF, CHR 0xBC, CHR 0x8C, CHR 0xE7, CHR 0xAC, CHR 0xAC, CHR 0xE4, CHR 0xBA,
      CHR 0x8C, CHR 0xE8, CHR 0xA1, CHR 0x8C, CHR 0xE5, CHR 0xAD, CHR 0x97, CHR 0xE7, CHR 0xAC, CHR 0xA6, CHR 0xE4,
      CHR 0xB8, CHR 0xB2, CHR '' '', CHR ''b'', CHR 0xEF, CHR 0xBC, CHR 0x88, CHR 0xE5, CHR 0x9D, CHR 0x87, CHR 0xE4,
      CHR 0xB8, CHR 0x8D, CHR 0xE5, CHR 0x90, CHR 0xAB, CHR 0xE5, CHR 0x89, CHR 0x8D, CHR 0xE5, CHR 0xAF, CHR 0xBC,
      CHR 0xE9, CHR 0x9B, CHR 0xB6, CHR 0xEF, CHR 0xBC, CHR 0x8C, CHR 0xE9, CHR 0x99, CHR 0xA4, CHR 0xE9, CHR 0x9D,
      CHR 0x9E, CHR 0xE5, CHR 0xAD, CHR 0x97, CHR 0xE7, CHR 0xAC, CHR 0xA6, CHR 0xE4, CHR 0xB8, CHR 0xB2, CHR 0xE6,
      CHR 0x9C, CHR 0xAC, CHR 0xE8, CHR 0xBA, CHR 0xAB, CHR 0xE4, CHR 0xB8, CHR 0xBA, CHR '' '', CHR 0x30, CHR 0xEF,
      CHR 0xBC, CHR 0x8C, CHR 0xE9, CHR 0x95, CHR 0xBF, CHR 0xE5, CHR 0xBA, CHR 0xA6, CHR 0xE4, CHR 0xB8, CHR 0x8D,
      CHR 0xE8, CHR 0xB6, CHR 0x85, CHR 0xE8, CHR 0xBF, CHR 0x87, CHR '' '', CHR 0x31, CHR 0x30, CHR 0x30, CHR 0x30,
      CHR 0x30, CHR 0xEF, CHR 0xBC, CHR 0x89, CHR 0xE3, CHR 0x80, CHR 0x82, CHR 0x0A, CHR 0x0A, CHR 0xE8, CHR 0xBE,
      CHR 0x93, CHR 0xE5, CHR 0x87, CHR 0xBA, CHR 0xE6, CHR 0xA0, CHR 0xBC, CHR 0xE5, CHR 0xBC, CHR 0x8F, CHR 0xEF,
      CHR 0xBC, CHR 0x9A, CHR 0x0A, CHR 0xE8, CHR 0xBE, CHR 0x93, CHR 0xE5, CHR 0x87, CHR 0xBA, CHR 0xE4, CHR 0xBA,
      CHR 0x8C, CHR 0xE8, CHR 0xBF, CHR 0x9B, CHR 0xE5, CHR 0x88, CHR 0xB6, CHR 0xE5, CHR 0x92, CHR 0x8C, CHR 0xE7,
      CHR 0x9A, CHR 0x84, CHR 0xE5, CHR 0xAD, CHR 0x97, CHR 0xE7, CHR 0xAC, CHR 0xA6, CHR 0xE4, CHR 0xB8, CHR 0xB2,
      CHR 0xE3, CHR 0x80, CHR 0x82, CHR 0x0A],
    sd_difficulty = ''easy'',
    sd_tags =
     [CHR 0xE6, CHR 0x95, CHR 0xB0, CHR 0xE5, CHR 0xAD, CHR 0xA6, CHR '','', CHR 0xE5, CHR 0xAD, CHR 0x97, CHR 0xE7,
      CHR 0xAC, CHR 0xA6, CHR 0xE4, CHR 0xB8, CHR 0xB2, CHR '','', CHR 0xE4, CHR 0xBD, CHR 0x8D, CHR 0xE8, CHR 0xBF,
      CHR 0x90, CHR 0xE7, CHR 0xAE, CHR 0x97],
    sd_time_limit_ms = 2000, sd_memory_limit_kb = 65536, sd_visible = 1,
    sd_cases =
     [\<lparr>sc_input = [CHR 0x31, CHR 0x31, CHR 0x0A, CHR 0x31, CHR 0x0A],
      sc_output = [CHR 0x31, CHR 0x30, CHR 0x30, CHR 0x0A], sc_is_sample = True\<rparr>,
      \<lparr>sc_input = [CHR 0x31, CHR 0x30, CHR 0x31, CHR 0x30, CHR 0x0A, CHR 0x31, CHR 0x30, CHR 0x31, CHR 0x31, CHR 0x0A],
      sc_output = [CHR 0x31, CHR 0x30, CHR 0x31, CHR 0x30, CHR 0x31, CHR 0x0A], sc_is_sample = True\<rparr>,
      \<lparr>sc_input = [CHR 0x30, CHR 0x0A, CHR 0x30, CHR 0x0A],
      sc_output = [CHR 0x30, CHR 0x0A], sc_is_sample = False\<rparr>,
      \<lparr>sc_input = [CHR 0x31, CHR 0x31, CHR 0x31, CHR 0x31, CHR 0x0A, CHR 0x31, CHR 0x31, CHR 0x31, CHR 0x31, CHR 0x0A],
      sc_output = [CHR 0x31, CHR 0x31, CHR 0x31, CHR 0x31, CHR 0x30, CHR 0x0A], sc_is_sample = False\<rparr>]\<rparr>"

definition seed_climbing_stairs :: seed_problem where
  "seed_climbing_stairs = \<lparr>sd_seed_key = ''climbing-stairs'',
    sd_title =
     [CHR 0xE7, CHR 0x88, CHR 0xAC, CHR 0xE6, CHR 0xA5, CHR 0xBC, CHR 0xE6, CHR 0xA2, CHR 0xAF, CHR '' '', CHR ''('',
      CHR ''L'', CHR ''e'', CHR ''e'', CHR ''t'', CHR ''C'', CHR ''o'', CHR ''d'', CHR ''e'', CHR '' '', CHR 0x37,
      CHR 0x30, CHR '')''],
    sd_description =
     [CHR 0xE5, CHR 0x81, CHR 0x87, CHR 0xE8, CHR 0xAE, CHR 0xBE, CHR 0xE4, CHR 0xBD, CHR 0xA0, CHR 0xE6, CHR 0xAD,
      CHR 0xA3, CHR 0xE5, CHR 0x9C, CHR 0xA8, CHR 0xE7, CHR 0x88, CHR 0xAC, CHR 0xE6, CHR 0xA5, CHR 0xBC, CHR 0xE6,
      CHR 0xA2, CHR 0xAF, CHR 0xEF, CHR 0xBC, CHR 0x8C, CHR 0xE9, CHR 0x9C, CHR 0x80, CHR 0xE8, CHR 0xA6, CHR 0x81,
      CHR '' '', CHR ''n'', CHR '' '', CHR 0xE9, CHR 0x98, CHR 0xB6, CHR 0xE6, CHR 0x89, CHR 0x8D, CHR 0xE8, CHR 0x83,
      CHR 0xBD, CHR 0xE5, CHR 0x88, CHR 0xB0, CHR 0xE8, CHR 0xBE, CHR 0xBE, CHR 0xE6, CHR 0xA5, CHR 0xBC, CHR 0xE9,
      CHR 0xA1, CHR 0xB6, CHR 0xE3, CHR 0x80, CHR 0x82, CHR 0xE6, CHR 0xAF, CHR 0x8F, CHR 0xE6, CHR 0xAC, CHR 0xA1,
      CHR 0xE5, CHR 0x8F, CHR 0xAF, CHR 0xE4, CHR 0xBB, CHR 0xA5, CHR 0xE7, CHR 0x88, CHR 0xAC, CHR '' '', CHR 0x31,
      CHR '' '', CHR 0xE6, CHR 0x88, CHR 0x96, CHR '' '', CHR 0x32, CHR '' '', CHR 0xE4, CHR 0xB8, CHR 0xAA, CHR 0xE5,
      CHR 0x8F, CHR 0xB0, CHR 0xE9, CHR 0x98, CHR 0xB6, CHR 0xEF, CHR 0xBC, CHR 0x8C, CHR 0xE6, CHR 0xB1, CHR 0x82,
      CHR 0xE6, CHR 0x9C, CHR 0x89, CHR 0xE5, CHR 0xA4, CHR 0x9A, CHR 0xE5, CHR 0xB0, CHR 0x91, CHR 0xE7, CHR 0xA7,
      CHR 0x8D, CHR 0xE4, CHR 0xB8, CHR 0x8D, CHR 0xE5, CHR 0x90, CHR 0x8C, CHR 0xE7, CHR 0x9A, CHR 0x84, CHR 0xE6,
      CHR 0x96, CHR 0xB9, CHR 0xE6, CHR 0xB3, CHR 0x95, CHR 0xE5, CHR 0x88, CHR 0xB0, CHR 0xE8, CHR 0xBE, CHR 0xBE,
      CHR 0xE6, CHR 0xA5, CHR 0xBC, CHR 0xE9, CHR 0xA1, CHR 0xB6, CHR 0xE3, CHR 0x80, CHR 0x82, CHR 0x0A, CHR 0x0A,
      CHR 0xE8, CHR 0xBE, CHR 0x93, CHR 0xE5, CHR 0x85, CHR 0xA5, CHR 0xE6, CHR 0xA0, CHR 0xBC, CHR 0xE5, CHR 0xBC,
      CHR 0x8F, CHR 0xEF, CHR 0xBC, CHR 0x9A, CHR 0x0A, CHR 0xE4, CHR 0xB8, CHR 0x80, CHR 0xE4, CHR 0xB8, CHR 0xAA,
      CHR 0xE6, CHR 0x95, CHR 0xB4, CHR 0xE6, CHR 0x95, CHR 0xB0, CHR '' '', CHR ''n'', CHR 0xEF, CHR 0xBC, CHR 0x88,
      CHR 0x31, CHR '' '', CHR ''<'', CHR ''='', CHR '' '', CHR ''n'', CHR '' '', CHR ''<'', CHR ''='', CHR '' '',
      CHR 0x34, CHR 0x35, CHR 0xEF, CHR 0xBC, CHR 0x89, CHR 0xE3, CHR 0x80, CHR 0x82, CHR 0x0A, CHR 0x0A, CHR 0xE8,
      CHR 0xBE, CHR 0x93, CHR 0xE5, CHR 0x87, CHR 0xBA, CHR 0xE6, CHR 0xA0, CHR 0xBC, CHR 0xE5, CHR 0xBC, CHR 0x8F,
      CHR 0xEF, CHR 0xBC, CHR 0x9A, CHR 0x0A, CHR 0xE8, CHR 0xBE, CHR 0x93, CHR 0xE5, CHR 0x87, CHR 0xBA, CHR 0xE6,
      CHR 0x96, CHR 0xB9, CHR 0xE6, CHR 0xB3, CHR 0x95, CHR 0xE6, CHR 0x80, CHR 0xBB, CHR 0xE6, CHR 0x95, CHR 0xB0,
      CHR 0xE3, CHR 0x80, CHR 0x82, CHR 0x0A],
    sd_difficulty = ''easy'',
    sd_tags =
     [CHR 0xE5, CHR 0x8A, CHR 0xA8, CHR 0xE6, CHR 0x80, CHR 0x81, CHR 0xE8, CHR 0xA7, CHR 0x84, CHR 0xE5, CHR 0x88,
      CHR 0x92, CHR '','', CHR 0xE6, CHR 0x95, CHR 0xB0, CHR 0xE5, CHR 0xAD, CHR 0xA6],
    sd_time_limit_ms = 2000, sd_memory_limit_kb = 65536, sd_visible = 1,
    sd_cases =
     [\<lparr>sc_input = [CHR 0x32, CHR 0x0A],
      sc_output = [CHR 0x32, CHR 0x0A], sc_is_sample = True\<rparr>,
      \<lparr>sc_input = [CHR 0x33, CHR 0x0A],
      sc_output = [CHR 0x33, CHR 0x0A], sc_is_sample = True\<rparr>,
      \<lparr>sc_input = [CHR 0x31, CHR 0x0A],
      sc_output = [CHR 0x31, CHR 0x0A], sc_is_sample = False\<rparr>,
      \<lparr>sc_input = [CHR 0x31, CHR 0x30, CHR 0x0A],
      sc_output = [CHR 0x38, CHR 0x39, CHR 0x0A], sc_is_sample = False\<rparr>]\<rparr>"

definition seed_merge_sorted_array :: seed_problem where
  "seed_merge_sorted_array = \<lparr>sd_seed_key = ''merge-sorted-array'',
    sd_title =
     [CHR 0xE5, CHR 0x90, CHR 0x88, CHR 0xE5, CHR 0xB9, CHR 0xB6, CHR 0xE4, CHR 0xB8, CHR 0xA4, CHR 0xE4, CHR 0xB8,
      CHR 0xAA, CHR 0xE6, CHR 0x9C, CHR 0x89, CHR 0xE5, CHR 0xBA, CHR 0x8F, CHR 0xE6, CHR 0x95, CHR 0xB0, CHR 0xE7,
      CHR 0xBB, CHR 0x84, CHR '' '', CHR ''('', CHR ''L'', CHR ''e'', CHR ''e'', CHR ''t'', CHR ''C'', CHR ''o'',
      CHR ''d'', CHR ''e'', CHR '' '', CHR 0x38, CHR 0x38, CHR '')''],
    sd_description =
     [CHR 0xE7, CHR 0xBB, CHR 0x99, CHR 0xE5, CHR 0xAE, CHR 0x9A, CHR 0xE4, CHR 0xB8, CHR 0xA4, CHR 0xE4, CHR 0xB8,
      CHR 0xAA, CHR 0xE5, CHR 0xB7, CHR 0xB2, CHR 0xE7, CHR 0xBB, CHR 0x8F, CHR 0xE6, CHR 0x8C, CHR 0x89, CHR 0xE9,
      CHR 0x9D, CHR 0x9E, CHR 0xE9, CHR 0x80, CHR 0x92, CHR 0xE5, CHR 0x87, CHR 0x8F, CHR 0xE9, CHR 0xA1, CHR 0xBA,
      CHR 0xE5, CHR 0xBA, CHR 0x8F, CHR 0xE6, CHR 0x8E, CHR 0x92, CHR 0xE5, CHR 0x88, CHR 0x97, CHR 0xE7, CHR 0x9A,
      CHR 0x84, CHR 0xE6, CHR 0x95, CHR 0xB4, CHR 0xE6, CHR 0x95, CHR 0xB0, CHR 0xE6, CHR 0x95, CHR 0xB0, CHR 0xE7,
      CHR 0xBB, CHR 0x84, CHR 0xEF, CHR 0xBC, CHR 0x8C, CHR 0xE5, CHR 0xB0, CHR 0x86, CHR 0xE5, CHR 0xAE, CHR 0x83,
      CHR 0xE4, CHR 0xBB, CHR 0xAC, CHR 0xE5, CHR 0x90, CHR 0x88, CHR 0xE5, CHR 0xB9, CHR 0xB6, CHR 0xE4, CHR 0xB8,
      CHR 0xBA, CHR 0xE4, CHR 0xB8, CHR 0x80, CHR 0xE4, CHR 0xB8, CHR 0xAA, CHR 0xE4, CHR 0xBB, CHR 0x8D, CHR 0xE7,
      CHR 0x84, CHR 0xB6, CHR 0xE6, CHR 0x9C, CHR 0x89, CHR 0xE5, CHR 0xBA, CHR 0x8F, CHR 0xE7, CHR 0x9A, CHR 0x84,
      CHR 0xE6, CHR 0x95, CHR 0xB0, CHR 0xE7, CHR 0xBB, CHR 0x84, CHR 0xE5, CHR 0xB9, CHR 0xB6, CHR 0xE8, CHR 0xBE,
      CHR 0x93, CHR 0xE5, CHR 0x87, CHR 0xBA, CHR 0xE3, CHR 0x80, CHR 0x82, CHR 0x0A, CHR 0x0A, CHR 0xE8, CHR 0xBE,
      CHR 0x93, CHR 0xE5, CHR 0x85, CHR 0xA5, CHR 0xE6, CHR 0xA0, CHR 0xBC, CHR 0xE5, CHR 0xBC, CHR 0x8F, CHR 0xEF,
      CHR 0xBC, CHR 0x9A, CHR 0x0A, CHR 0xE7, CHR 0xAC, CHR 0xAC, CHR 0xE4, CHR 0xB8, CHR 0x80, CHR 0xE8, CHR 0xA1,
      CHR 0x8C, CHR 0xE4, CHR 0xB8, CHR 0xA4, CHR 0xE4, CHR 0xB8, CHR 0xAA, CHR 0xE6, CHR 0x95, CHR 0xB4, CHR 0xE6,
      CHR 0x95, CHR 0xB0, CHR '' '', CHR ''m'', CHR '' '', CHR 0xE5, CHR 0x92, CHR 0x8C, CHR '' '', CHR ''n'', CHR 0xEF,
      CHR 0xBC, CHR 0x88, CHR 0x30, CHR '' '', CHR ''<'', CHR ''='', CHR '' '', CHR ''m'', CHR '','', CHR '' '', CHR ''n'',
      CHR '' '', CHR ''<'', CHR ''='', CHR '' '', CHR 0x31, CHR 0x30, CHR 0x30, CHR 0x30, CHR 0x30, CHR 0xEF, CHR 0xBC,
      CHR 0x89, CHR 0xE3, CHR 0x80, CHR 0x82, CHR 0x0A, CHR 0xE7, CHR 0xAC, CHR 0xAC, CHR 0xE4, CHR 0xBA, CHR 0x8C,
      CHR 0xE8, CHR 0xA1, CHR 0x8C, CHR '' '', CHR ''m'', CHR '' '', CHR 0xE4, CHR 0xB8, CHR 0xAA, CHR 0xE5, CHR 0x8D,
      CHR 0x87, CHR 0xE5, CHR 0xBA, CHR 0x8F, CHR 0xE6, CHR 0x95, CHR 0xB4, CHR 0xE6, CHR 0x95, CHR 0xB0, CHR 0xE3,
      CHR 0x80, CHR 0x82, CHR 0x0A, CHR 0xE7, CHR 0xAC, CHR 0xAC, CHR 0xE4, CHR 0xB8, CHR 0x89, CHR 0xE8, CHR 0xA1,
      CHR 0x8C, CHR '' '', CHR ''n'', CHR '' '', CHR 0xE4, CHR 0xB8, CHR 0xAA, CHR 0xE5, CHR 0x8D, CHR 0x87, CHR 0xE5,
      CHR 0xBA, CHR 0x8F, CHR 0xE6, CHR 0x95, CHR 0xB4, CHR 0xE6, CHR 0x95, CHR 0xB0, CHR 0xE3, CHR 0x80, CHR 0x82,
      CHR 0x0A, CHR 0x0A, CHR 0xE8, CHR 0xBE, CHR 0x93, CHR 0xE5, CHR 0x87, CHR 0xBA, CHR 0xE6, CHR 0xA0, CHR 0xBC,
      CHR 0xE5, CHR 0xBC, CHR 0x8F, CHR 0xEF, CHR 0xBC, CHR 0x9A, CHR 0x0A, CHR 0xE4, CHR 0xB8, CHR 0x80, CHR 0xE8,
      CHR 0xA1, CHR 0x8C, CHR 0xEF, CHR 0xBC, CHR 0x8C, CHR 0xE5, CHR 0x90, CHR 0x88, CHR 0xE5, CHR 0xB9, CHR 0xB6,
      CHR 0xE5, CHR 0x90, CHR 0x8E, CHR 0xE7, CHR 0x9A, CHR 0x84, CHR '' '', CHR ''m'', CHR '' '', CHR ''+'', CHR '' '',
      CHR ''n'', CHR '' '', CHR 0xE4, CHR 0xB8, CHR 0xAA, CHR 0xE5, CHR 0x8D, CHR 0x87, CHR 0xE5, CHR 0xBA, CHR 0x8F,
      CHR 0xE6, CHR 0x95, CHR 0xB4, CHR 0xE6, CHR 0x95, CHR 0xB0, CHR 0xEF, CHR 0xBC, CHR 0x8C, CHR 0xE4, CHR 0xBB,
      CHR 0xA5, CHR 0xE7, CHR 0xA9, CHR 0xBA, CHR 0xE6, CHR 0xA0, CHR 0xBC, CHR 0xE5, CHR 0x88, CHR 0x86, CHR 0xE9,
      CHR 0x9A, CHR 0x94, CHR 0xE3, CHR 0x80, CHR 0x82, CHR 0x0A],
    sd_difficulty = ''easy'',
    sd_tags =
     [CHR 0xE6, CHR 0x95, CHR 0xB0, CHR 0xE7, CHR 0xBB, CHR 0x84, CHR '','', CHR 0xE5, CHR 0x8F, CHR 0x8C, CHR 0xE6,
      CHR 0x8C, CHR 0x87, CHR 0xE9, CHR 0x92, CHR 0x88, CHR '','', CHR 0xE6, CHR 0x8E, CHR 0x92, CHR 0xE5, CHR 0xBA,
      CHR 0x8F],
    sd_time_limit_ms = 2000, sd_memory_limit_kb = 65536, sd_visible = 1,
    sd_cases =
     [\<lparr>sc_input = [CHR 0x33, CHR '' '', CHR 0x33, CHR 0x0A, CHR 0x31, CHR '' '', CHR 0x32, CHR '' '', CHR 0x33, CHR 0x0A, CHR 0x32,
      CHR '' '', CHR 0x35, CHR '' '', CHR 0x36, CHR 0x0A],
      sc_output = [CHR 0x31, CHR '' '', CHR 0x32, CHR '' '', CHR 0x32, CHR '' '', CHR 0x33, CHR '' '', CHR 0x35, CHR '' '', CHR 0x36,
      CHR 0x0A], sc_is_sample = True\<rparr>,
      \<lparr>sc_input = [CHR 0x31, CHR '' '', CHR 0x30, CHR 0x0A, CHR 0x31, CHR 0x0A, CHR 0x0A],
      sc_output = [CHR 0x31, CHR 0x0A], sc_is_sample = True\<rparr>,
      \<lparr>sc_input = [CHR 0x32, CHR '' '', CHR 0x32, CHR 0x0A, CHR ''-'', CHR 0x31, CHR '' '', CHR 0x30, CHR 0x0A, CHR 0x30, CHR '' '',
      CHR 0x33, CHR 0x0A],
      sc_output = [CHR ''-'', CHR 0x31, CHR '' '', CHR 0x30, CHR '' '', CHR 0x30, CHR '' '', CHR 0x33, CHR 0x0A], sc_is_sample = False\<rparr>,
      \<lparr>sc_input = [CHR 0x30, CHR '' '', CHR 0x31, CHR 0x0A, CHR 0x0A, CHR 0x32, CHR 0x0A],
      sc_output = [CHR 0x32, CHR 0x0A], sc_is_sample = False\<rparr>]\<rparr>"

definition seed_best_time_buy_sell_stock :: seed_problem where
  "seed_best_time_buy_sell_stock = \<lparr>sd_seed_key = ''best-time-buy-sell-stock'',
    sd_title =
     [CHR 0xE4, CHR 0xB9, CHR 0xB0, CHR 0xE5, CHR 0x8D, CHR 0x96, CHR 0xE8, CHR 0x82, CHR 0xA1, CHR 0xE7, CHR 0xA5,
      CHR 0xA8, CHR 0xE7, CHR 0x9A, CHR 0x84, CHR 0xE6, CHR 0x9C, CHR 0x80, CHR 0xE4, CHR 0xBD, CHR 0xB3, CHR 0xE6,
      CHR 0x97, CHR 0xB6, CHR 0xE6, CHR 0x9C, CHR 0xBA, CHR '' '', CHR ''('', CHR ''L'', CHR ''e'', CHR ''e'', CHR ''t'',
      CHR ''C'', CHR ''o'', CHR ''d'', CHR ''e'', CHR '' '', CHR 0x31, CHR 0x32, CHR 0x31, CHR '')''],
    sd_description =
     [CHR 0xE7, CHR 0xBB, CHR 0x99, CHR 0xE5, CHR 0xAE, CHR 0x9A, CHR 0xE4, CHR 0xB8, CHR 0x80, CHR 0xE6, CHR 0x94,
      CHR 0xAF, CHR 0xE8, CHR 0x82, CHR 0xA1, CHR 0xE7, CHR 0xA5, CHR 0xA8, CHR 0xE6, CHR 0xAF, CHR 0x8F, CHR 0xE5,
      CHR 0xA4, CHR 0xA9, CHR 0xE7, CHR 0x9A, CHR 0x84, CHR 0xE4, CHR 0xBB, CHR 0xB7, CHR 0xE6, CHR 0xA0, CHR 0xBC,
      CHR 0xEF, CHR 0xBC, CHR 0x8C, CHR 0xE4, CHR 0xBD, CHR 0xA0, CHR 0xE5, CHR 0x8F, CHR 0xAA, CHR 0xE8, CHR 0x83,
      CHR 0xBD, CHR 0xE9, CHR 0x80, CHR 0x89, CHR 0xE6, CHR 0x8B, CHR 0xA9, CHR 0xE6, CHR 0x9F, CHR 0x90, CHR 0xE4,
      CHR 0xB8, CHR 0x80, CHR 0xE5, CHR 0xA4, CHR 0xA9, CHR 0xE4, CHR 0xB9, CHR 0xB0, CHR 0xE5, CHR 0x85, CHR 0xA5,
      CHR 0xE5, CHR 0xB9, CHR 0xB6, CHR 0xE5, CHR 0x9C, CHR 0xA8, CHR 0xE4, CHR 0xB9, CHR 0x8B, CHR 0xE5, CHR 0x90,
      CHR 0x8E, CHR 0xE7, CHR 0x9A, CHR 0x84, CHR 0xE6, CHR 0x9F, CHR 0x90, CHR 0xE4, CHR 0xB8, CHR 0x80, CHR 0xE5,
      CHR 0xA4, CHR 0xA9, CHR 0xE5, CHR 0x8D, CHR 0x96, CHR 0xE5, CHR 0x87, CHR 0xBA, CHR 0xEF, CHR 0xBC, CHR 0x8C,
      CHR 0xE6, CHR 0xB1, CHR 0x82, CHR 0xE8, CHR 0x83, CHR 0xBD, CHR 0xE8, CHR 0x8E, CHR 0xB7, CHR 0xE5, CHR 0xBE,
      CHR 0x97, CHR 0xE7, CHR 0x9A, CHR 0x84, CHR 0xE6, CHR 0x9C, CHR 0x80, CHR 0xE5, CHR 0xA4, CHR 0xA7, CHR 0xE5,
      CHR 0x88, CHR 0xA9, CHR 0xE6, CHR 0xB6, CHR 0xA6, CHR 0xE3, CHR 0x80, CHR 0x82, CHR 0xE5, CHR 0xA6, CHR 0x82,
      CHR 0xE6, CHR 0x9E, CHR 0x9C, CHR 0xE4, CHR 0xB8, CHR 0x8D, CHR 0xE8, CHR 0x83, CHR 0xBD, CHR 0xE8, CHR 0x8E,
      CHR 0xB7, CHR 0xE5, CHR 0xBE, CHR 0x97, CHR 0xE5, CHR 0x88, CHR 0xA9, CHR 0xE6, CHR 0xB6, CHR 0xA6, CHR 0xEF,
      CHR 0xBC, CHR 0x8C, CHR 0xE8, CHR 0xBF, CHR 0x94, CHR 0xE5, CHR 0x9B, CHR 0x9E, CHR '' '', CHR 0x30, CHR 0xE3,
      CHR 0x80, CHR 0x82, CHR 0x0A, CHR 0x0A, CHR 0xE8, CHR 0xBE, CHR 0x93, CHR 0xE5, CHR 0x85, CHR 0xA5, CHR 0xE6,
      CHR 0xA0, CHR 0xBC, CHR 0xE5, CHR 0xBC, CHR 0x8F, CHR 0xEF, CHR 0xBC, CHR 0x9A, CHR 0x0A, CHR 0xE7, CHR 0xAC,
      CHR 0xAC, CHR 0xE4, CHR 0xB8, CHR 0x80, CHR 0xE8, CHR 0xA1, CHR 0x8C, CHR 0xE4, CHR 0xB8, CHR 0x80, CHR 0xE4,
      CHR 0xB8, CHR 0xAA, CHR 0xE6, CHR 0x95, CHR 0xB4, CHR 0xE6, CHR 0x95, CHR 0xB0, CHR '' '', CHR ''n'', CHR 0xEF,
      CHR 0xBC, CHR 0x88, CHR 0x31, CHR '' '', CHR ''<'', CHR ''='', CHR '' '', CHR ''n'', CHR '' '', CHR ''<'', CHR ''='',
      CHR '' '', CHR 0x31, CHR 0x30, CHR 0x30, CHR 0x30, CHR 0x30, CHR 0x30, CHR 0xEF, CHR 0xBC, CHR 0x89, CHR 0xE3,
      CHR 0x80, CHR 0x82, CHR 0x0A, CHR 0xE7, CHR 0xAC, CHR 0xAC, CHR 0xE4, CHR 0xBA, CHR 0x8C, CHR 0xE8, CHR 0xA1,
      CHR 0x8C, CHR '' '', CHR ''n'', CHR '' '', CHR 0xE4, CHR 0xB8, CHR 0xAA, CHR 0xE6, CHR 0x95, CHR 0xB4, CHR 0xE6,
      CHR 0x95, CHR 0xB0, CHR 0xEF, CHR 0xBC, CHR 0x8C, CHR 0xE8, CHR 0xA1, CHR 0xA8, CHR 0xE7, CHR 0xA4, CHR 0xBA,
      CHR 0xE6, CHR 0xAF, CHR 0x8F, CHR 0xE5, CHR 0xA4, CHR 0xA9, CHR 0xE7, CHR 0x9A, CHR 0x84, CHR 0xE4, CHR 0xBB,
      CHR 0xB7, CHR 0xE6, CHR 0xA0, CHR 0xBC, CHR 0xE3, CHR 0x80, CHR 0x82, CHR 0x0A, CHR 0x0A, CHR 0xE8, CHR 0xBE,
      CHR 0x93, CHR 0xE5, CHR 0x87, CHR 0xBA, CHR 0xE6, CHR 0xA0, CHR 0xBC, CHR 0xE5, CHR 0xBC, CHR 0x8F, CHR 0xEF,
      CHR 0xBC, CHR 0x9A, CHR 0x0A, CHR 0xE8, CHR 0xBE, CHR 0x93, CHR 0xE5, CHR 0x87, CHR 0xBA, CHR 0xE6, CHR 0x9C,
      CHR 0x80, CHR 0xE5, CHR 0xA4, CHR 0xA7, CHR 0xE5, CHR 0x88, CHR 0xA9, CHR 0xE6, CHR 0xB6, CHR 0xA6, CHR 0xE3,
      CHR 0x80, CHR 0x82, CHR 0x0A],
    sd_difficulty = ''easy'',
    sd_tags =
     [CHR 0xE6, CHR 0x95, CHR 0xB0, CHR 0xE7, CHR 0xBB, CHR 0x84, CHR '','', CHR 0xE5, CHR 0x8A, CHR 0xA8, CHR 0xE6,
      CHR 0x80, CHR 0x81, CHR 0xE8, CHR 0xA7, CHR 0x84, CHR 0xE5, CHR 0x88, CHR 0x92],
    sd_time_limit_ms = 2000, sd_memory_limit_kb = 65536, sd_visible = 1,
    sd_cases =
     [\<lparr>sc_input = [CHR 0x36, CHR 0x0A, CHR 0x37, CHR '' '', CHR 0x31, CHR '' '', CHR 0x35, CHR '' '', CHR 0x33, CHR '' '', CHR 0x36,
      CHR '' '', CHR 0x34, CHR 0x0A],
      sc_output = [CHR 0x35, CHR 0x0A], sc_is_sample = True\<rparr>,
      \<lparr>sc_input = [CHR 0x35, CHR 0x0A, CHR 0x37, CHR '' '', CHR 0x36, CHR '' '', CHR 0x34, CHR '' '', CHR 0x33, CHR '' '', CHR 0x31,
      CHR 0x0A],
      sc_output = [CHR 0x30, CHR 0x0A], sc_is_sample = True\<rparr>,
      \<lparr>sc_input = [CHR 0x31, CHR 0x0A, CHR 0x35, CHR 0x0A],
      sc_output = [CHR 0x30, CHR 0x0A], sc_is_sample = False\<rparr>,
      \<lparr>sc_input = [CHR 0x36, CHR 0x0A, CHR 0x32, CHR '' '', CHR 0x34, CHR '' '', CHR 0x31, CHR '' '', CHR 0x37, CHR '' '', CHR 0x35,
      CHR '' '', CHR 0x31, CHR 0x31, CHR 0x0A],
      sc_output = [CHR 0x31, CHR 0x30, CHR 0x0A], sc_is_sample = False\<rparr>]\<rparr>"

definition seed_valid_palindrome :: seed_problem where
  "seed_valid_palindrome = \<lparr>sd_seed_key = ''valid-palindrome'',
    sd_title =
     [CHR 0xE9, CHR 0xAA, CHR 0x8C, CHR 0xE8, CHR 0xAF, CHR 0x81, CHR 0xE5, CHR 0x9B, CHR 0x9E, CHR 0xE6, CHR 0x96,
      CHR 0x87, CHR 0xE4, CHR 0xB8, CHR 0xB2, CHR '' '', CHR ''('', CHR ''L'', CHR ''e'', CHR ''e'', CHR ''t'', CHR ''C'',
      CHR ''o'', CHR ''d'', CHR ''e'', CHR '' '', CHR 0x31, CHR 0x32, CHR 0x35, CHR '')''],
    sd_description =
     [CHR 0xE7, CHR 0xBB, CHR 0x99, CHR 0xE5, CHR 0xAE, CHR 0x9A, CHR 0xE4, CHR 0xB8, CHR 0x80, CHR 0xE4, CHR 0xB8,
      CHR 0xAA, CHR 0xE5, CHR 0xAD, CHR 0x97, CHR 0xE7, CHR 0xAC, CHR 0xA6, CHR 0xE4, CHR 0xB8, CHR 0xB2, CHR 0xEF,
      CHR 0xBC, CHR 0x8C, CHR 0xE5, CHR 0x8F, CHR 0xAA, CHR 0xE8, CHR 0x80, CHR 0x83, CHR 0xE8, CHR 0x99, CHR 0x91,
      CHR 0xE5, CHR 0x85, CHR 0xB6, CHR 0xE4, CHR 0xB8, CHR 0xAD, CHR 0xE7, CHR 0x9A, CHR 0x84, CHR 0xE5, CHR 0xAD,
      CHR 0x97, CHR 0xE6, CHR 0xAF, CHR 0x8D, CHR 0xE5, CHR 0x92, CHR 0x8C, CHR 0xE6, CHR 0x95, CHR 0xB0, CHR 0xE5,
      CHR 0xAD, CHR 0x97, CHR 0xE5, CHR 0xAD, CHR 0x97, CHR 0xE7, CHR 0xAC, CHR 0xA6, CHR 0xE5, CHR 0xB9, CHR 0xB6,
      CHR 0xE5, CHR 0xBF, CHR 0xBD, CHR 0xE7, CHR 0x95, CHR 0xA5, CHR 0xE5, CHR 0xAD, CHR 0x97, CHR 0xE6, CHR 0xAF,
      CHR 0x8D, CHR 0xE5, CHR 0xA4, CHR 0xA7, CHR 0xE5, CHR 0xB0, CHR 0x8F, CHR 0xE5, CHR 0x86, CHR 0x99, CHR 0xEF,
      CHR 0xBC, CHR 0x8C, CHR 0xE5, CHR 0x88, CHR 0xA4, CHR 0xE6, CHR 0x96, CHR 0xAD, CHR 0xE5, CHR 0xAE, CHR 0x83,
      CHR 0xE6, CHR 0x98, CHR 0xAF, CHR 0xE5, CHR 0x90, CHR 0xA6, CHR 0xE4, CHR 0xB8, CHR 0xBA, CHR 0xE5, CHR 0x9B,
      CHR 0x9E, CHR 0xE6, CHR 0x96, CHR 0x87, CHR 0xE4, CHR 0xB8, CHR 0xB2, CHR 0xE3, CHR 0x80, CHR 0x82, CHR 0x0A,
      CHR 0x0A, CHR 0xE8, CHR 0xBE, CHR 0x93, CHR 0xE5, CHR 0x85, CHR 0xA5, CHR 0xE6, CHR 0xA0, CHR 0xBC, CHR 0xE5,
      CHR 0xBC, CHR 0x8F, CHR 0xEF, CHR 0xBC, CHR 0x9A, CHR 0x0A, CHR 0xE4, CHR 0xB8, CHR 0x80, CHR 0xE8, CHR 0xA1,
      CHR 0x8C, CHR 0xE5, CHR 0xAD, CHR 0x97, CHR 0xE7, CHR 0xAC, CHR 0xA6, CHR 0xE4, CHR 0xB8, CHR 0xB2, CHR '' '',
      CHR ''s'', CHR 0xEF, CHR 0xBC, CHR 0x88, CHR 0xE9, CHR 0x95, CHR 0xBF, CHR 0xE5, CHR 0xBA, CHR 0xA6, CHR 0xE4,
      CHR 0xB8, CHR 0x8D, CHR 0xE8, CHR 0xB6, CHR 0x85, CHR 0xE8, CHR 0xBF, CHR 0x87, CHR '' '', CHR 0x32, CHR 0x30,
      CHR 0x30, CHR 0x30, CHR 0x30, CHR 0xEF, CHR 0xBC, CHR 0x8C, CHR 0xE5, CHR 0x8F, CHR 0xAF, CHR 0xE5, CHR 0x90,
      CHR 0xAB, CHR 0xE7, CHR 0xA9, CHR 0xBA, CHR 0xE6, CHR 0xA0, CHR 0xBC, CHR 0xE4, CHR 0xB8, CHR 0x8E, CHR 0xE6,
      CHR 0xA0, CHR 0x87, CHR 0xE7, CHR 0x82, CHR 0xB9, CHR 0xEF, CHR 0xBC, CHR 0x89, CHR 0xE3, CHR 0x80, CHR 0x82,
      CHR 0x0A, CHR 0x0A, CHR 0xE8, CHR 0xBE, CHR 0x93, CHR 0xE5, CHR 0x87, CHR 0xBA, CHR 0xE6, CHR 0xA0, CHR 0xBC,
      CHR 0xE5, CHR 0xBC, CHR 0x8F, CHR 0xEF, CHR 0xBC, CHR 0x9A, CHR 0x0A, CHR 0xE6, CHR 0x98, CHR 0xAF, CHR 0xE5,
      CHR 0x9B, CHR 0x9E, CHR 0xE6, CHR 0x96, CHR 0x87, CHR 0xE4, CHR 0xB8, CHR 0xB2, CHR 0xE8, CHR 0xBE, CHR 0x93,
      CHR 0xE5, CHR 0x87, CHR 0xBA, CHR '' '', CHR ''t'', CHR ''r'', CHR ''u'', CHR ''e'', CHR 0xEF, CHR 0xBC, CHR 0x8C,
      CHR 0xE5, CHR 0x90, CHR 0xA6, CHR 0xE5, CHR 0x88, CHR 0x99, CHR 0xE8, CHR 0xBE, CHR 0x93, CHR 0xE5, CHR 0x87,
      CHR 0xBA, CHR '' '', CHR ''f'', CHR ''a'', CHR ''l'', CHR ''s'', CHR ''e'', CHR 0xE3, CHR 0x80, CHR 0x82, CHR 0x0A],
    sd_difficulty = ''easy'',
    sd_tags =
     [CHR 0xE5, CHR 0xAD, CHR 0x97, CHR 0xE7, CHR 0xAC, CHR 0xA6, CHR 0xE4, CHR 0xB8, CHR 0xB2, CHR '','', CHR 0xE5,
      CHR 0x8F, CHR 0x8C, CHR 0xE6, CHR 0x8C, CHR 0x87, CHR 0xE9, CHR 0x92, CHR 0x88],
    sd_time_limit_ms = 2000, sd_memory_limit_kb = 65536, sd_visible = 1,
    sd_cases =
     [\<lparr>sc_input = [CHR ''A'', CHR '' '', CHR ''m'', CHR ''a'', CHR ''n'', CHR '','', CHR '' '', CHR ''a'', CHR '' '', CHR ''p'',
      CHR ''l'', CHR ''a'', CHR ''n'', CHR '','', CHR '' '', CHR ''a'', CHR '' '', CHR ''c'', CHR ''a'', CHR ''n'',
      CHR ''a'', CHR ''l'', CHR '':'', CHR '' '', CHR ''P'', CHR ''a'', CHR ''n'', CHR ''a'', CHR ''m'', CHR ''a'', CHR 0x0A],
      sc_output = [CHR ''t'', CHR ''r'', CHR ''u'', CHR ''e'', CHR 0x0A], sc_is_sample = True\<rparr>,
      \<lparr>sc_input = [CHR ''r'', CHR ''a'', CHR ''c'', CHR ''e'', CHR '' '', CHR ''a'', CHR '' '', CHR ''c'', CHR ''a'', CHR ''r'', CHR 0x0A],
      sc_output = [CHR ''f'', CHR ''a'', CHR ''l'', CHR ''s'', CHR ''e'', CHR 0x0A], sc_is_sample = True\<rparr>,
      \<lparr>sc_input = [CHR '' '', CHR 0x0A],
      sc_output = [CHR ''t'', CHR ''r'', CHR ''u'', CHR ''e'', CHR 0x0A], sc_is_sample = False\<rparr>,
      \<lparr>sc_input = [CHR 0x30, CHR ''P'', CHR 0x0A],
      sc_output = [CHR ''f'', CHR ''a'', CHR ''l'', CHR ''s'', CHR ''e'', CHR 0x0A], sc_is_sample = False\<rparr>]\<rparr>"

definition seed_single_number :: seed_problem where
  "seed_single_number = \<lparr>sd_seed_key = ''single-number'',
    sd_title =
     [CHR 0xE5, CHR 0x8F, CHR 0xAA, CHR 0xE5, CHR 0x87, CHR 0xBA, CHR 0xE7, CHR 0x8E, CHR 0xB0, CHR 0xE4, CHR 0xB8,
      CHR 0x80, CHR 0xE6, CHR 0xAC, CHR 0xA1, CHR 0xE7, CHR 0x9A, CHR 0x84, CHR 0xE6, CHR 0x95, CHR 0xB0, CHR 0xE5,
      CHR 0xAD, CHR 0x97, CHR '' '', CHR ''('', CHR ''L'', CHR ''e'', CHR ''e'', CHR ''t'', CHR ''C'', CHR ''o'',
      CHR ''d'', CHR ''e'', CHR '' '', CHR 0x31, CHR 0x33, CHR 0x36, CHR '')''],
    sd_description =
     [CHR 0xE7, CHR 0xBB, CHR 0x99, CHR 0xE5, CHR 0xAE, CHR 0x9A, CHR 0xE4, CHR 0xB8, CHR 0x80, CHR 0xE4, CHR 0xB8,
      CHR 0xAA, CHR 0xE6, CHR 0x95, CHR 0xB4, CHR 0xE6, CHR 0x95, CHR 0xB0, CHR 0xE6, CHR 0x95, CHR 0xB0, CHR 0xE7,
      CHR 0xBB, CHR 0x84, CHR 0xEF, CHR 0xBC, CHR 0x8C, CHR 0xE5, CHR 0x85, CHR 0xB6, CHR 0xE4, CHR 0xB8, CHR 0xAD,
      CHR 0xE9, CHR 0x99, CHR 0xA4, CHR 0xE6, CHR 0x9F, CHR 0x90, CHR 0xE4, CHR 0xB8, CHR 0xAA, CHR 0xE5, CHR 0x85,
      CHR 0x83, CHR 0xE7, CHR 0xB4, CHR 0xA0, CHR 0xE5, CHR 0x8F, CHR 0xAA, CHR 0xE5, CHR 0x87, CHR 0xBA, CHR 0xE7,
      CHR 0x8E, CHR 0xB0, CHR 0xE4, CHR 0xB8, CHR 0x80, CHR 0xE6, CHR 0xAC, CHR 0xA1, CHR 0xE5, CHR 0xA4, CHR 0x96,
      CHR 0xEF, CHR 0xBC, CHR 0x8C, CHR 0xE5, CHR 0x85, CHR 0xB6, CHR 0xE4, CHR 0xBD, CHR 0x99, CHR 0xE5, CHR 0x85,
      CHR 0x83, CHR 0xE7, CHR 0xB4, CHR 0xA0, CHR 0xE9, CHR 0x83, CHR 0xBD, CHR 0xE5, CHR 0x87, CHR 0xBA, CHR 0xE7,
      CHR 0x8E, CHR 0xB0, CHR 0xE4, CHR 0xB8, CHR 0xA4, CHR 0xE6, CHR 0xAC, CHR 0xA1, CHR 0xE3, CHR 0x80, CHR 0x82,
      CHR 0xE6, CHR 0x89, CHR 0xBE, CHR 0xE5, CHR 0x87, CHR 0xBA, CHR 0xE9, CHR 0x82, CHR 0xA3, CHR 0xE4, CHR 0xB8,
      CHR 0xAA, CHR 0xE5, CHR 0x8F, CHR 0xAA, CHR 0xE5, CHR 0x87, CHR 0xBA, CHR 0xE7, CHR 0x8E, CHR 0xB0, CHR 0xE4,
      CHR 0xB8, CHR 0x80, CHR 0xE6, CHR 0xAC, CHR 0xA1, CHR 0xE7, CHR 0x9A, CHR 0x84, CHR 0xE5, CHR 0x85, CHR 0x83,
      CHR 0xE7, CHR 0xB4, CHR 0xA0, CHR 0xE3, CHR 0x80, CHR 0x82, CHR 0x0A, CHR 0x0A, CHR 0xE8, CHR 0xBE, CHR 0x93,
      CHR 0xE5, CHR 0x85, CHR 0xA5, CHR 0xE6, CHR 0xA0, CHR 0xBC, CHR 0xE5, CHR 0xBC, CHR 0x8F, CHR 0xEF, CHR 0xBC,
      CHR 0x9A, CHR 0x0A, CHR 0xE7, CHR 0xAC, CHR 0xAC, CHR 0xE4, CHR 0xB8, CHR 0x80, CHR 0xE8, CHR 0xA1, CHR 0x8C,
      CHR 0xE4, CHR 0xB8, CHR 0x80, CHR 0xE4, CHR 0xB8, CHR 0xAA, CHR 0xE6, CHR 0x95, CHR 0xB4, CHR 0xE6, CHR 0x95,
      CHR 0xB0, CHR '' '', CHR ''n'', CHR 0xEF, CHR 0xBC, CHR 0x88, CHR 0x31, CHR '' '', CHR ''<'', CHR ''='', CHR '' '',
      CHR ''n'', CHR '' '', CHR ''<'', CHR ''='', CHR '' '', CHR 0x31, CHR 0x30, CHR 0x30, CHR 0x30, CHR 0x30, CHR 0x30,
      CHR 0xEF, CHR 0xBC, CHR 0x89, CHR 0xE3, CHR 0x80, CHR 0x82, CHR 0x0A, CHR 0xE7, CHR 0xAC, CHR 0xAC, CHR 0xE4,
      CHR 0xBA, CHR 0x8C, CHR 0xE8, CHR 0xA1, CHR 0x8C, CHR '' '', CHR ''n'', CHR '' '', CHR 0xE4, CHR 0xB8, CHR 0xAA,
      CHR 0xE6, CHR 0x95, CHR 0xB4, CHR 0xE6, CHR 0x95, CHR 0xB0, CHR 0xE3, CHR 0x80, CHR 0x82, CHR 0x0A, CHR 0x0A,
      CHR 0xE8, CHR 0xBE, CHR 0x93, CHR 0xE5, CHR 0x87, CHR 0xBA, CHR 0xE6, CHR 0xA0, CHR 0xBC, CHR 0xE5, CHR 0xBC,
      CHR 0x8F, CHR 0xEF, CHR 0xBC, CHR 0x9A, CHR 0x0A, CHR 0xE8, CHR 0xBE, CHR 0x93, CHR 0xE5, CHR 0x87, CHR 0xBA,
      CHR 0xE5, CHR 0x8F, CHR 0xAA, CHR 0xE5, CHR 0x87, CHR 0xBA, CHR 0xE7, CHR 0x8E, CHR 0xB0, CHR 0xE4, CHR 0xB8,
      CHR 0x80, CHR 0xE6, CHR 0xAC, CHR 0xA1, CHR 0xE7, CHR 0x9A, CHR 0x84, CHR 0xE6, CHR 0x95, CHR 0xB0, CHR 0xE5,
      CHR 0xAD, CHR 0x97, CHR 0xE3, CHR 0x80, CHR 0x82, CHR 0x0A],
    sd_difficulty = ''easy'',
    sd_tags =
     [CHR 0xE6, CHR 0x95, CHR 0xB0, CHR 0xE7, CHR 0xBB, CHR 0x84, CHR '','', CHR 0xE4, CHR 0xBD, CHR 0x8D, CHR 0xE8,
      CHR 0xBF, CHR 0x90, CHR 0xE7, CHR 0xAE, CHR 0x97],
    sd_time_limit_ms = 2000, sd_memory_limit_kb = 65536, sd_visible = 1,
    sd_cases =
     [\<lparr>sc_input = [CHR 0x33, CHR 0x0A, CHR 0x32, CHR '' '', CHR 0x32, CHR '' '', CHR 0x31, CHR 0x0A],
      sc_output = [CHR 0x31, CHR 0x0A], sc_is_sample = True\<rparr>,
      \<lparr>sc_input = [CHR 0x35, CHR 0x0A, CHR 0x34, CHR '' '', CHR 0x31, CHR '' '', CHR 0x32, CHR '' '', CHR 0x31, CHR '' '', CHR 0x32,
      CHR 0x0A],
      sc_output = [CHR 0x34, CHR 0x0A], sc_is_sample = True\<rparr>,
      \<lparr>sc_input = [CHR 0x35, CHR 0x0A, CHR ''-'', CHR 0x31, CHR '' '', CHR ''-'', CHR 0x31, CHR '' '', CHR 0x35, CHR '' '', CHR 0x35,
      CHR '' '', CHR 0x37, CHR 0x0A],
      sc_output = [CHR 0x37, CHR 0x0A], sc_is_sample = False\<rparr>]\<rparr>"

definition seed_majority_element :: seed_problem where
  "seed_majority_element = \<lparr>sd_seed_key = ''majority-element'',
    sd_title =
     [CHR 0xE5, CHR 0xA4, CHR 0x9A, CHR 0xE6, CHR 0x95, CHR 0xB0, CHR 0xE5, CHR 0x85, CHR 0x83, CHR 0xE7, CHR 0xB4,
      CHR 0xA0, CHR '' '', CHR ''('', CHR ''L'', CHR ''e'', CHR ''e'', CHR ''t'', CHR ''C'', CHR ''o'', CHR ''d'',
      CHR ''e'', CHR '' '', CHR 0x31, CHR 0x36, CHR 0x39, CHR '')''],
    sd_description =
     [CHR 0xE7, CHR 0xBB, CHR 0x99, CHR 0xE5, CHR 0xAE, CHR 0x9A, CHR 0xE4, CHR 0xB8, CHR 0x80, CHR 0xE4, CHR 0xB8,
      CHR 0xAA, CHR 0xE5, CHR 0xA4, CHR 0xA7, CHR 0xE5, CHR 0xB0, CHR 0x8F, CHR 0xE4, CHR 0xB8, CHR 0xBA, CHR '' '',
      CHR ''n'', CHR '' '', CHR 0xE7, CHR 0x9A, CHR 0x84, CHR 0xE6, CHR 0x95, CHR 0xB0, CHR 0xE7, CHR 0xBB, CHR 0x84,
      CHR 0xEF, CHR 0xBC, CHR 0x8C, CHR 0xE6, CHR 0x89, CHR 0xBE, CHR 0xE5, CHR 0x87, CHR 0xBA, CHR 0xE5, CHR 0x85,
      CHR 0xB6, CHR 0xE4, CHR 0xB8, CHR 0xAD, CHR 0xE7, CHR 0x9A, CHR 0x84, CHR 0xE5, CHR 0xA4, CHR 0x9A, CHR 0xE6,
      CHR 0x95, CHR 0xB0, CHR 0xE5, CHR 0x85, CHR 0x83, CHR 0xE7, CHR 0xB4, CHR 0xA0, CHR 0xE3, CHR 0x80, CHR 0x82,
      CHR 0xE5, CHR 0xA4, CHR 0x9A, CHR 0xE6, CHR 0x95, CHR 0xB0, CHR 0xE5, CHR 0x85, CHR 0x83, CHR 0xE7, CHR 0xB4,
      CHR 0xA0, CHR 0xE6, CHR 0x8C, CHR 0x87, CHR 0xE5, CHR 0x87, CHR 0xBA, CHR 0xE7, CHR 0x8E, CHR 0xB0, CHR 0xE6,
      CHR 0xAC, CHR 0xA1, CHR 0xE6, CHR 0x95, CHR 0xB0, CHR 0xE5, CHR 0xA4, CHR 0xA7, CHR 0xE4, CHR 0xBA, CHR 0x8E,
      CHR '' '', CHR ''n'', CHR ''/'', CHR 0x32, CHR '' '', CHR 0xE7, CHR 0x9A, CHR 0x84, CHR 0xE5, CHR 0x85, CHR 0x83,
      CHR 0xE7, CHR 0xB4, CHR 0xA0, CHR 0xE3, CHR 0x80, CHR 0x82, CHR 0xE4, CHR 0xBF, CHR 0x9D, CHR 0xE8, CHR 0xAF,
      CHR 0x81, CHR 0xE6, CHR 0x95, CHR 0xB0, CHR 0xE7, CHR 0xBB, CHR 0x84, CHR 0xE9, CHR 0x9D, CHR 0x9E, CHR 0xE7,
      CHR 0xA9, CHR 0xBA, CHR 0xE4, CHR 0xB8, CHR 0x94, CHR 0xE5, CHR 0xA4, CHR 0x9A, CHR 0xE6, CHR 0x95, CHR 0xB0,
      CHR 0xE5, CHR 0x85, CHR 0x83, CHR 0xE7, CHR 0xB4, CHR 0xA0, CHR 0xE4, CHR 0xB8, CHR 0x80, CHR 0xE5, CHR 0xAE,
      CHR 0x9A, CHR 0xE5, CHR 0xAD, CHR 0x98, CHR 0xE5, CHR 0x9C, CHR 0xA8, CHR 0xE3, CHR 0x80, CHR 0x82, CHR 0x0A,
      CHR 0x0A, CHR 0xE8, CHR 0xBE, CHR 0x93, CHR 0xE5, CHR 0x85, CHR 0xA5, CHR 0xE6, CHR 0xA0, CHR 0xBC, CHR 0xE5,
      CHR 0xBC, CHR 0x8F, CHR 0xEF, CHR 0xBC, CHR 0x9A, CHR 0x0A, CHR 0xE7, CHR 0xAC, CHR 0xAC, CHR 0xE4, CHR 0xB8,
      CHR 0x80, CHR 0xE8, CHR 0xA1, CHR 0x8C, CHR 0xE4, CHR 0xB8, CHR 0x80, CHR 0xE4, CHR 0xB8, CHR 0xAA, CHR 0xE6,
      CHR 0x95, CHR 0xB4, CHR 0xE6, CHR 0x95, CHR 0xB0, CHR '' '', CHR ''n'', CHR 0xEF, CHR 0xBC, CHR 0x88, CHR 0x31,
      CHR '' '', CHR ''<'', CHR ''='', CHR '' '', CHR ''n'', CHR '' '', CHR ''<'', CHR ''='', CHR '' '', CHR 0x31,
      CHR 0x30, CHR 0x30, CHR 0x30, CHR 0x30, CHR 0x30, CHR 0xEF, CHR 0xBC, CHR 0x89, CHR 0xE3, CHR 0x80, CHR 0x82,
      CHR 0x0A, CHR 0xE7, CHR 0xAC, CHR 0xAC, CHR 0xE4, CHR 0xBA, CHR 0x8C, CHR 0xE8, CHR 0xA1, CHR 0x8C, CHR '' '',
      CHR ''n'', CHR '' '', CHR 0xE4, CHR 0xB8, CHR 0xAA, CHR 0xE6, CHR 0x95, CHR 0xB4, CHR 0xE6, CHR 0x95, CHR 0xB0,
      CHR 0xE3, CHR 0x80, CHR 0x82, CHR 0x0A, CHR 0x0A, CHR 0xE8, CHR 0xBE, CHR 0x93, CHR 0xE5, CHR 0x87, CHR 0xBA,
      CHR 0xE6, CHR 0xA0, CHR 0xBC, CHR 0xE5, CHR 0xBC, CHR 0x8F, CHR 0xEF, CHR 0xBC, CHR 0x9A, CHR 0x0A, CHR 0xE8,
      CHR 0xBE, CHR 0x93, CHR 0xE5, CHR 0x87, CHR 0xBA, CHR 0xE5, CHR 0xA4, CHR 0x9A, CHR 0xE6, CHR 0x95, CHR 0xB0,
      CHR 0xE5, CHR 0x85, CHR 0x83, CHR 0xE7, CHR 0xB4, CHR 0xA0, CHR 0xE3, CHR 0x80, CHR 0x82, CHR 0x0A],
    sd_difficulty = ''easy'',
    sd_tags =
     [CHR 0xE6, CHR 0x95, CHR 0xB0, CHR 0xE7, CHR 0xBB, CHR 0x84, CHR '','', CHR 0xE5, CHR 0x93, CHR 0x88, CHR 0xE5,
      CHR 0xB8, CHR 0x8C, CHR 0xE8, CHR 0xA1, CHR 0xA8],
    sd_time_limit_ms = 2000, sd_memory_limit_kb = 65536, sd_visible = 1,
    sd_cases =
     [\<lparr>sc_input = [CHR 0x33, CHR 0x0A, CHR 0x33, CHR '' '', CHR 0x32, CHR '' '', CHR 0x33, CHR 0x0A],
      sc_output = [CHR 0x33, CHR 0x0A], sc_is_sample = True\<rparr>,
      \<lparr>sc_input = [CHR 0x37, CHR 0x0A, CHR 0x32, CHR '' '', CHR 0x32, CHR '' '', CHR 0x31, CHR '' '', CHR 0x31, CHR '' '', CHR 0x31,
      CHR '' '', CHR 0x32, CHR '' '', CHR 0x32, CHR 0x0A],
      sc_output = [CHR 0x32, CHR 0x0A], sc_is_sample = True\<rparr>,
      \<lparr>sc_input = [CHR 0x31, CHR 0x0A, CHR 0x31, CHR 0x0A],
      sc_output = [CHR 0x31, CHR 0x0A], sc_is_sample = False\<rparr>,
      \<lparr>sc_input = [CHR 0x35, CHR 0x0A, CHR 0x37, CHR '' '', CHR 0x37, CHR '' '', CHR 0x37, CHR '' '', CHR 0x33, CHR '' '', CHR 0x33,
      CHR 0x0A],
      sc_output = [CHR 0x37, CHR 0x0A], sc_is_sample = False\<rparr>]\<rparr>"

definition seed_factorial_trailing_zeroes :: seed_problem where
  "seed_factorial_trailing_zeroes = \<lparr>sd_seed_key = ''factorial-trailing-zeroes'',
    sd_title =
     [CHR 0xE9, CHR 0x98, CHR 0xB6, CHR 0xE4, CHR 0xB9, CHR 0x98, CHR 0xE5, CHR 0x90, CHR 0x8E, CHR 0xE7, CHR 0x9A,
      CHR 0x84, CHR 0xE9, CHR 0x9B, CHR 0xB6, CHR '' '', CHR ''('', CHR ''L'', CHR ''e'', CHR ''e'', CHR ''t'', CHR ''C'',
      CHR ''o'', CHR ''d'', CHR ''e'', CHR '' '', CHR 0x31, CHR 0x37, CHR 0x32, CHR '')''],
    sd_description =
     [CHR 0xE7, CHR 0xBB, CHR 0x99, CHR 0xE5, CHR 0xAE, CHR 0x9A, CHR 0xE6, CHR 0x95, CHR 0xB4, CHR 0xE6, CHR 0x95,
      CHR 0xB0, CHR '' '', CHR ''n'', CHR 0xEF, CHR 0xBC, CHR 0x8C, CHR 0xE8, CHR 0xBF, CHR 0x94, CHR 0xE5, CHR 0x9B,
      CHR 0x9E, CHR '' '', CHR ''n'', CHR ''!'', CHR '' '', CHR 0xE7, CHR 0xBB, CHR 0x93, CHR 0xE6, CHR 0x9E, CHR 0x9C,
      CHR 0xE5, CHR 0xB0, CHR 0xBE, CHR 0xE6, CHR 0x95, CHR 0xB0, CHR 0xE4, CHR 0xB8, CHR 0xAD, CHR 0xE9, CHR 0x9B,
      CHR 0xB6, CHR 0xE7, CHR 0x9A, CHR 0x84, CHR 0xE6, CHR 0x95, CHR 0xB0, CHR 0xE9, CHR 0x87, CHR 0x8F, CHR 0xE3,
      CHR 0x80, CHR 0x82, CHR 0x0A, CHR 0x0A, CHR 0xE8, CHR 0xBE, CHR 0x93, CHR 0xE5, CHR 0x85, CHR 0xA5, CHR 0xE6,
      CHR 0xA0, CHR 0xBC, CHR 0xE5, CHR 0xBC, CHR 0x8F, CHR 0xEF, CHR 0xBC, CHR 0x9A, CHR 0x0A, CHR 0xE4, CHR 0xB8,
      CHR 0x80, CHR 0xE4, CHR 0xB8, CHR 0xAA, CHR 0xE6, CHR 0x95, CHR 0xB4, CHR 0xE6, CHR 0x95, CHR 0xB0, CHR '' '',
      CHR ''n'', CHR 0xEF, CHR 0xBC, CHR 0x88, CHR 0x30, CHR '' '', CHR ''<'', CHR ''='', CHR '' '', CHR ''n'', CHR '' '',
      CHR ''<'', CHR ''='', CHR '' '', CHR 0x31, CHR 0x30, CHR 0x30, CHR 0x30, CHR 0x30, CHR 0x30, CHR 0xEF, CHR 0xBC,
      CHR 0x89, CHR 0xE3, CHR 0x80, CHR 0x82, CHR 0x0A, CHR 0x0A, CHR 0xE8, CHR 0xBE, CHR 0x93, CHR 0xE5, CHR 0x87,
      CHR 0xBA, CHR 0xE6, CHR 0xA0, CHR 0xBC, CHR 0xE5, CHR 0xBC, CHR 0x8F, CHR 0xEF, CHR 0xBC, CHR 0x9A, CHR 0x0A,
      CHR 0xE8, CHR 0xBE, CHR 0x93, CHR 0xE5, CHR 0x87, CHR 0xBA, CHR 0xE5, CHR 0xB0, CHR 0xBE, CHR 0xE6, CHR 0x95,
      CHR 0xB0, CHR 0xE4, CHR 0xB8, CHR 0xAD, CHR 0xE9, CHR 0x9B, CHR 0xB6, CHR 0xE7, CHR 0x9A, CHR 0x84, CHR 0xE6,
      CHR 0x95, CHR 0xB0, CHR 0xE9, CHR 0x87, CHR 0x8F, CHR 0xE3, CHR 0x80, CHR 0x82, CHR 0x0A],
    sd_difficulty = ''medium'',
    sd_tags =
     [CHR 0xE6, CHR 0x95, CHR 0xB0, CHR 0xE5, CHR 0xAD, CHR 0xA6],
    sd_time_limit_ms = 2000, sd_memory_limit_kb = 65536, sd_visible = 1,
    sd_cases =
     [\<lparr>sc_input = [CHR 0x33, CHR 0x0A],
      sc_output = [CHR 0x30, CHR 0x0A], sc_is_sample = True\<rparr>,
      \<lparr>sc_input = [CHR 0x35, CHR 0x0A],
      sc_output = [CHR 0x31, CHR 0x0A], sc_is_sample = True\<rparr>,
      \<lparr>sc_input = [CHR 0x30, CHR 0x0A],
      sc_output = [CHR 0x30, CHR 0x0A], sc_is_sample = False\<rparr>,
      \<lparr>sc_input = [CHR 0x31, CHR 0x30, CHR 0x30, CHR 0x0A],
      sc_output = [CHR 0x32, CHR 0x34, CHR 0x0A], sc_is_sample = False\<rparr>]\<rparr>"

definition seed_house_robber :: seed_problem where
  "seed_house_robber = \<lparr>sd_seed_key = ''house-robber'',
    sd_title =
     [CHR 0xE6, CHR 0x89, CHR 0x93, CHR 0xE5, CHR 0xAE, CHR 0xB6, CHR 0xE5, CHR 0x8A, CHR 0xAB, CHR 0xE8, CHR 0x88,
      CHR 0x8D, CHR '' '', CHR ''('', CHR ''L'', CHR ''e'', CHR ''e'', CHR ''t'', CHR ''C'', CHR ''o'', CHR ''d'',
      CHR ''e'', CHR '' '', CHR 0x31, CHR 0x39, CHR 0x38, CHR '')''],
    sd_description =
     [CHR 0xE7, CHR 0xBB, CHR 0x99, CHR 0xE5, CHR 0xAE, CHR 0x9A, CHR 0xE4, CHR 0xB8, CHR 0x80, CHR 0xE4, CHR 0xB8,
      CHR 0xAA, CHR 0xE4, CHR 0xBB, CHR 0xA3, CHR 0xE8, CHR 0xA1, CHR 0xA8, CHR 0xE6, CHR 0xAF, CHR 0x8F, CHR 0xE4,
      CHR 0xB8, CHR 0xAA, CHR 0xE6, CHR 0x88, CHR 0xBF, CHR 0xE5, CHR 0xB1, CHR 0x8B, CHR 0xE5, CHR 0xAD, CHR 0x98,
      CHR 0xE6, CHR 0x94, CHR 0xBE, CHR 0xE9, CHR 0x87, CHR 0x91, CHR 0xE9, CHR 0xA2, CHR 0x9D, CHR 0xE7, CHR 0x9A,
      CHR 0x84, CHR 0xE9, CHR 0x9D, CHR 0x9E, CHR 0xE8, CHR 0xB4, CHR 0x9F, CHR 0xE6, CHR 0x95, CHR 0xB4, CHR 0xE6,
      CHR 0x95, CHR 0xB0, CHR 0xE6, CHR 0x95, CHR 0xB0, CHR 0xE7, CHR 0xBB, CHR 0x84, CHR 0xEF, CHR 0xBC, CHR 0x8C,
      CHR 0xE5, CHR 0xA6, CHR 0x82, CHR 0xE6, CHR 0x9E, CHR 0x9C, CHR 0xE4, CHR 0xB8, CHR 0xA4, CHR 0xE9, CHR 0x97,
      CHR 0xB4, CHR 0xE7, CHR 0x9B, CHR 0xB8, CHR 0xE9, CHR 0x82, CHR 0xBB, CHR 0xE7, CHR 0x9A, CHR 0x84, CHR 0xE6,
      CHR 0x88, CHR 0xBF, CHR 0xE5, CHR 0xB1, CHR 0x8B, CHR 0xE5, CHR 0x9C, CHR 0xA8, CHR 0xE5, CHR 0x90, CHR 0x8C,
      CHR 0xE4, CHR 0xB8, CHR 0x80, CHR 0xE6, CHR 0x99, CHR 0x9A, CHR 0xE4, CHR 0xB8, CHR 0x8A, CHR 0xE8, CHR 0xA2,
      CHR 0xAB, CHR 0xE9, CHR 0x97, CHR 0xAF, CHR 0xE5, CHR 0x85, CHR 0xA5, CHR 0xEF, CHR 0xBC, CHR 0x8C, CHR 0xE7,
      CHR 0xB3, CHR 0xBB, CHR 0xE7, CHR 0xBB, CHR 0x9F, CHR 0xE4, CHR 0xBC, CHR 0x9A, CHR 0xE8, CHR 0x87, CHR 0xAA,
      CHR 0xE5, CHR 0x8A, CHR 0xA8, CHR 0xE6, CHR 0x8A, CHR 0xA5, CHR 0xE8, CHR 0xAD, CHR 0xA6, CHR 0xE3, CHR 0x80,
      CHR 0x82, CHR 0xE5, CHR 0x9C, CHR 0xA8, CHR 0xE4, CHR 0xB8, CHR 0x8D, CHR 0xE8, CHR 0xA7, CHR 0xA6, CHR 0xE5,
      CHR 0x8A, CHR 0xA8, CHR 0xE8, CHR 0xAD, CHR 0xA6, CHR 0xE6, CHR 0x8A, CHR 0xA5, CHR 0xE7, CHR 0x9A, CHR 0x84,
      CHR 0xE6, CHR 0x83, CHR 0x85, CHR 0xE5, CHR 0x86, CHR 0xB5, CHR 0xE4, CHR 0xB8, CHR 0x8B, CHR 0xEF, CHR 0xBC,
      CHR 0x8C, CHR 0xE8, CHR 0xAE, CHR 0xA1, CHR 0xE7, CHR 0xAE, CHR 0x97, CHR 0xE8, CHR 0x83, CHR 0xBD, CHR 0xE5,
      CHR 0x81, CHR 0xB7, CHR 0xE7, CHR 0xAA, CHR 0x83, CHR 0xE5, CHR 0x88, CHR 0xB0, CHR 0xE7, CHR 0x9A, CHR 0x84,
      CHR 0xE6, CHR 0x9C, CHR 0x80, CHR 0xE9, CHR 0xAB, CHR 0x98, CHR 0xE9, CHR 0x87, CHR 0x91, CHR 0xE9, CHR 0xA2,
      CHR 0x9D, CHR 0xE3, CHR 0x80, CHR 0x82, CHR 0x0A, CHR 0x0A, CHR 0xE8, CHR 0xBE, CHR 0x93, CHR 0xE5, CHR 0x85,
      CHR 0xA5, CHR 0xE6, CHR 0xA0, CHR 0xBC, CHR 0xE5, CHR 0xBC, CHR 0x8F, CHR 0xEF, CHR 0xBC, CHR 0x9A, CHR 0x0A,
      CHR 0xE7, CHR 0xAC, CHR 0xAC, CHR 0xE4, CHR 0xB8, CHR 0x80, CHR 0xE8, CHR 0xA1, CHR 0x8C, CHR 0xE4, CHR 0xB8,
      CHR 0x80, CHR 0xE4, CHR 0xB8, CHR 0xAA, CHR 0xE6, CHR 0x95, CHR 0xB4, CHR 0xE6, CHR 0x95, CHR 0xB0, CHR '' '',
      CHR ''n'', CHR 0xEF, CHR 0xBC, CHR 0x88, CHR 0x31, CHR '' '', CHR ''<'', CHR ''='', CHR '' '', CHR ''n'', CHR '' '',
      CHR ''<'', CHR ''='', CHR '' '', CHR 0x31, CHR 0x30, CHR 0x30, CHR 0x30, CHR 0x30, CHR 0xEF, CHR 0xBC, CHR 0x89,
      CHR 0xE3, CHR 0x80, CHR 0x82, CHR 0x0A, CHR 0xE7, CHR 0xAC, CHR 0xAC, CHR 0xE4, CHR 0xBA, CHR 0x8C, CHR 0xE8,
      CHR 0xA1, CHR 0x8C, CHR '' '', CHR ''n'', CHR '' '', CHR 0xE4, CHR 0xB8, CHR 0xAA, CHR 0xE9, CHR 0x9D, CHR 0x9E,
      CHR 0xE8, CHR 0xB4, CHR 0x9F, CHR 0xE6, CHR 0x95, CHR 0xB4, CHR 0xE6, CHR 0x95, CHR 0xB0, CHR 0xE3, CHR 0x80,
      CHR 0x82, CHR 0x0A, CHR 0x0A, CHR 0xE8, CHR 0xBE, CHR 0x93, CHR 0xE5, CHR 0x87, CHR 0xBA, CHR 0xE6, CHR 0xA0,
      CHR 0xBC, CHR 0xE5, CHR 0xBC, CHR 0x8F, CHR 0xEF, CHR 0xBC, CHR 0x9A, CHR 0x0A, CHR 0xE8, CHR 0xBE, CHR 0x93,
      CHR 0xE5, CHR 0x87, CHR 0xBA, CHR 0xE6, CHR 0x9C, CHR 0x80, CHR 0xE9, CHR 0xAB, CHR 0x98, CHR 0xE9, CHR 0x87,
      CHR 0x91, CHR 0xE9, CHR 0xA2, CHR 0x9D, CHR 0xE3, CHR 0x80, CHR 0x82, CHR 0x0A],
    sd_difficulty = ''medium'',
    sd_tags =
     [CHR 0xE6, CHR 0x95, CHR 0xB0, CHR 0xE7, CHR 0xBB, CHR 0x84, CHR '','', CHR 0xE5, CHR 0x8A, CHR 0xA8, CHR 0xE6,
      CHR 0x80, CHR 0x81, CHR 0xE8, CHR 0xA7, CHR 0x84, CHR 0xE5, CHR 0x88, CHR 0x92],
    sd_time_limit_ms = 2000, sd_memory_limit_kb = 65536, sd_visible = 1,
    sd_cases =
     [\<lparr>sc_input = [CHR 0x34, CHR 0x0A, CHR 0x31, CHR '' '', CHR 0x32, CHR '' '', CHR 0x33, CHR '' '', CHR 0x31, CHR 0x0A],
      sc_output = [CHR 0x34, CHR 0x0A], sc_is_sample = True\<rparr>,
      \<lparr>sc_input = [CHR 0x35, CHR 0x0A, CHR 0x32, CHR '' '', CHR 0x37, CHR '' '', CHR 0x39, CHR '' '', CHR 0x33, CHR '' '', CHR 0x31,
      CHR 0x0A],
      sc_output = [CHR 0x31, CHR 0x32, CHR 0x0A], sc_is_sample = True\<rparr>,
      \<lparr>sc_input = [CHR 0x31, CHR 0x0A, CHR 0x35, CHR 0x0A],
      sc_output = [CHR 0x35, CHR 0x0A], sc_is_sample = False\<rparr>,
      \<lparr>sc_input = [CHR 0x33, CHR 0x0A, CHR 0x32, CHR '' '', CHR 0x31, CHR '' '', CHR 0x31, CHR 0x0A],
      sc_output = [CHR 0x33, CHR 0x0A], sc_is_sample = False\<rparr>]\<rparr>"

definition seed_happy_number :: seed_problem where
  "seed_happy_number = \<lparr>sd_seed_key = ''happy-number'',
    sd_title =
     [CHR 0xE5, CHR 0xBF, CHR 0xAB, CHR 0xE4, CHR 0xB9, CHR 0x90, CHR 0xE6, CHR 0x95, CHR 0xB0, CHR '' '', CHR ''('',
      CHR ''L'', CHR ''e'', CHR ''e'', CHR ''t'', CHR ''C'', CHR ''o'', CHR ''d'', CHR ''e'', CHR '' '', CHR 0x32,
      CHR 0x30, CHR 0x32, CHR '')''],
    sd_description =
     [CHR 0xE5, CHR 0xAF, CHR 0xB9, CHR 0xE4, CHR 0xB8, CHR 0x80, CHR 0xE4, CHR 0xB8, CHR 0xAA, CHR 0xE6, CHR 0xAD,
      CHR 0xA3, CHR 0xE6, CHR 0x95, CHR 0xB4, CHR 0xE6, CHR 0x95, CHR 0xB0, CHR 0xEF, CHR 0xBC, CHR 0x8C, CHR 0xE6,
      CHR 0xAF, CHR 0x8F, CHR 0xE6, CHR 0xAC, CHR 0xA1, CHR 0xE5, CHR 0xB0, CHR 0x86, CHR 0xE5, CHR 0xAE, CHR 0x83,
      CHR 0xE6, CHR 0x9B, CHR 0xBF, CHR 0xE6, CHR 0x8D, CHR 0xA2, CHR 0xE4, CHR 0xB8, CHR 0xBA, CHR 0xE5, CHR 0xAE,
      CHR 0x83, CHR 0xE6, CHR 0xAF, CHR 0x8F, CHR 0xE4, CHR 0xB8, CHR 0xAA, CHR 0xE4, CHR 0xBD, CHR 0x8D, CHR 0xE7,
      CHR 0xBD, CHR 0xAE, CHR 0xE4, CHR 0xB8, CHR 0x8A, CHR 0xE7, CHR 0x9A, CHR 0x84, CHR 0xE6, CHR 0x95, CHR 0xB0,
      CHR 0xE5, CHR 0xAD, CHR 0x97, CHR 0xE7, CHR 0x9A, CHR 0x84, CHR 0xE5, CHR 0xB9, CHR 0xB3, CHR 0xE6, CHR 0x96,
      CHR 0xB9, CHR 0xE5, CHR 0x92, CHR 0x8C, CHR 0xEF, CHR 0xBC, CHR 0x8C, CHR 0xE9, CHR 0x87, CHR 0x8D, CHR 0xE5,
      CHR 0xA4, CHR 0x8D, CHR 0xE8, CHR 0xBF, CHR 0x99, CHR 0xE4, CHR 0xB8, CHR 0xAA, CHR 0xE8, CHR 0xBF, CHR 0x87,
      CHR 0xE7, CHR 0xA8, CHR 0x8B, CHR 0xE3, CHR 0x80, CHR 0x82, CHR 0xE5, CHR 0xA6, CHR 0x82, CHR 0xE6, CHR 0x9E,
      CHR 0x9C, CHR 0xE6, CHR 0x9C, CHR 0x80, CHR 0xE7, CHR 0xBB, CHR 0x88, CHR 0xE5, CHR 0xBE, CHR 0x97, CHR 0xE5,
      CHR 0x88, CHR 0xB0, CHR '' '', CHR 0x31, CHR 0xEF, CHR 0xBC, CHR 0x8C, CHR 0xE5, CHR 0x88, CHR 0x99, CHR 0xE5,
      CHR 0xAE, CHR 0x83, CHR 0xE6, CHR 0x98, CHR 0xAF, CHR 0xE5, CHR 0xBF, CHR 0xAB, CHR 0xE4, CHR 0xB9, CHR 0x90,
      CHR 0xE6, CHR 0x95, CHR 0xB0, CHR 0xEF, CHR 0xBC, CHR 0x9B, CHR 0xE5, CHR 0xA6, CHR 0x82, CHR 0xE6, CHR 0x9E,
      CHR 0x9C, CHR 0xE9, CHR 0x99, CHR 0xB7, CHR 0xE5, CHR 0x85, CHR 0xA5, CHR 0xE5, CHR 0xBE, CHR 0xAA, CHR 0xE7,
      CHR 0x8E, CHR 0xAF, CHR 0xE5, CHR 0x88, CHR 0x99, CHR 0xE4, CHR 0xB8, CHR 0x8D, CHR 0xE6, CHR 0x98, CHR 0xAF,
      CHR 0xE3, CHR 0x80, CHR 0x82, CHR 0x0A, CHR 0x0A, CHR 0xE8, CHR 0xBE, CHR 0x93, CHR 0xE5, CHR 0x85, CHR 0xA5,
      CHR 0xE6, CHR 0xA0, CHR 0xBC, CHR 0xE5, CHR 0xBC, CHR 0x8F, CHR 0xEF, CHR 0xBC, CHR 0x9A, CHR 0x0A, CHR 0xE4,
      CHR 0xB8, CHR 0x80, CHR 0xE4, CHR 0xB8, CHR 0xAA, CHR 0xE6, CHR 0xAD, CHR 0xA3, CHR 0xE6, CHR 0x95, CHR 0xB4,
      CHR 0xE6, CHR 0x95, CHR 0xB0, CHR '' '', CHR ''n'', CHR 0xEF, CHR 0xBC, CHR 0x88, CHR 0x31, CHR '' '', CHR ''<'',
      CHR ''='', CHR '' '', CHR ''n'', CHR '' '', CHR ''<'', CHR ''='', CHR '' '', CHR 0x32, CHR ''^'', CHR 0x33, CHR 0x31,
      CHR '' '', CHR ''-'', CHR '' '', CHR 0x31, CHR 0xEF, CHR 0xBC, CHR 0x89, CHR 0xE3, CHR 0x80, CHR 0x82, CHR 0x0A,
      CHR 0x0A, CHR 0xE8, CHR 0xBE, CHR 0x93, CHR 0xE5, CHR 0x87, CHR 0xBA, CHR 0xE6, CHR 0xA0, CHR 0xBC, CHR 0xE5,
      CHR 0xBC, CHR 0x8F, CHR 0xEF, CHR 0xBC, CHR 0x9A, CHR 0x0A, CHR 0xE6, CHR 0x98, CHR 0xAF, CHR 0xE5, CHR 0xBF,
      CHR 0xAB, CHR 0xE4, CHR 0xB9, CHR 0x90, CHR 0xE6, CHR 0x95, CHR 0xB0, CHR 0xE8, CHR 0xBE, CHR 0x93, CHR 0xE5,
      CHR 0x87, CHR 0xBA, CHR '' '', CHR ''t'', CHR ''r'', CHR ''u'', CHR ''e'', CHR 0xEF, CHR 0xBC, CHR 0x8C, CHR 0xE5,
      CHR 0x90, CHR 0xA6, CHR 0xE5, CHR 0x88, CHR 0x99, CHR 0xE8, CHR 0xBE, CHR 0x93, CHR 0xE5, CHR 0x87, CHR 0xBA,
      CHR '' '', CHR ''f'', CHR ''a'', CHR ''l'', CHR ''s'', CHR ''e'', CHR 0xE3, CHR 0x80, CHR 0x82, CHR 0x0A],
    sd_difficulty = ''easy'',
    sd_tags =
     [CHR 0xE6, CHR 0x95, CHR 0xB0, CHR 0xE5, CHR 0xAD, CHR 0xA6, CHR '','', CHR 0xE5, CHR 0x93, CHR 0x88, CHR 0xE5,
      CHR 0xB8, CHR 0x8C, CHR 0xE8, CHR 0xA1, CHR 0xA8],
    sd_time_limit_ms = 2000, sd_memory_limit_kb = 65536, sd_visible = 1,
    sd_cases =
     [\<lparr>sc_input = [CHR 0x31, CHR 0x39, CHR 0x0A],
      sc_output = [CHR ''t'', CHR ''r'', CHR ''u'', CHR ''e'', CHR 0x0A], sc_is_sample = True\<rparr>,
      \<lparr>sc_input = [CHR 0x32, CHR 0x0A],
      sc_output = [CHR ''f'', CHR ''a'', CHR ''l'', CHR ''s'', CHR ''e'', CHR 0x0A], sc_is_sample = True\<rparr>,
      \<lparr>sc_input = [CHR 0x31, CHR 0x0A],
      sc_output = [CHR ''t'', CHR ''r'', CHR ''u'', CHR ''e'', CHR 0x0A], sc_is_sample = False\<rparr>,
      \<lparr>sc_input = [CHR 0x32, CHR 0x30, CHR 0x0A],
      sc_output = [CHR ''f'', CHR ''a'', CHR ''l'', CHR ''s'', CHR ''e'', CHR 0x0A], sc_is_sample = False\<rparr>]\<rparr>"

definition seed_count_primes :: seed_problem where
  "seed_count_primes = \<lparr>sd_seed_key = ''count-primes'',
    sd_title =
     [CHR 0xE8, CHR 0xAE, CHR 0xA1, CHR 0xE6, CHR 0x95, CHR 0xB0, CHR 0xE8, CHR 0xB4, CHR 0xA8, CHR 0xE6, CHR 0x95,
      CHR 0xB0, CHR '' '', CHR ''('', CHR ''L'', CHR ''e'', CHR ''e'', CHR ''t'', CHR ''C'', CHR ''o'', CHR ''d'',
      CHR ''e'', CHR '' '', CHR 0x32, CHR 0x30, CHR 0x34, CHR '')''],
    sd_description =
     [CHR 0xE7, CHR 0xBB, CHR 0x9F, CHR 0xE8, CHR 0xAE, CHR 0xA1, CHR 0xE6, CHR 0x89, CHR 0x80, CHR 0xE6, CHR 0x9C,
      CHR 0x89, CHR 0xE5, CHR 0xB0, CHR 0x8F, CHR 0xE4, CHR 0xBA, CHR 0x8E, CHR 0xE9, CHR 0x9D, CHR 0x9E, CHR 0xE8,
      CHR 0xB4, CHR 0x9F, CHR 0xE6, CHR 0x95, CHR 0xB4, CHR 0xE6, CHR 0x95, CHR 0xB0, CHR '' '', CHR ''n'', CHR '' '',
      CHR 0xE7, CHR 0x9A, CHR 0x84, CHR 0xE8, CHR 0xB4, CHR 0xA8, CHR 0xE6, CHR 0x95, CHR 0xB0, CHR 0xE7, CHR 0x9A,
      CHR 0x84, CHR 0xE6, CHR 0x95, CHR 0xB0, CHR 0xE9, CHR 0x87, CHR 0x8F, CHR 0xE3, CHR 0x80, CHR 0x82, CHR 0x0A,
      CHR 0x0A, CHR 0xE8, CHR 0xBE, CHR 0x93, CHR 0xE5, CHR 0x85, CHR 0xA5, CHR 0xE6, CHR 0xA0, CHR 0xBC, CHR 0xE5,
      CHR 0xBC, CHR 0x8F, CHR 0xEF, CHR 0xBC, CHR 0x9A, CHR 0x0A, CHR 0xE4, CHR 0xB8, CHR 0x80, CHR 0xE4, CHR 0xB8,
      CHR 0xAA, CHR 0xE6, CHR 0x95, CHR 0xB4, CHR 0xE6, CHR 0x95, CHR 0xB0, CHR '' '', CHR ''n'', CHR 0xEF, CHR 0xBC,
      CHR 0x88, CHR 0x30, CHR '' '', CHR ''<'', CHR ''='', CHR '' '', CHR ''n'', CHR '' '', CHR ''<'', CHR ''='',
      CHR '' '', CHR 0x35, CHR 0x30, CHR 0x30, CHR 0x30, CHR 0x30, CHR 0x30, CHR 0x30, CHR 0xEF, CHR 0xBC, CHR 0x89,
      CHR 0xE3, CHR 0x80, CHR 0x82, CHR 0x0A, CHR 0x0A, CHR 0xE8, CHR 0xBE, CHR 0x93, CHR 0xE5, CHR 0x87, CHR 0xBA,
      CHR 0xE6, CHR 0xA0, CHR 0xBC, CHR 0xE5, CHR 0xBC, CHR 0x8F, CHR 0xEF, CHR 0xBC, CHR 0x9A, CHR 0x0A, CHR 0xE8,
      CHR 0xBE, CHR 0x93, CHR 0xE5, CHR 0x87, CHR 0xBA, CHR 0xE5, CHR 0xB0, CHR 0x8F, CHR 0xE4, CHR 0xBA, CHR 0x8E,
      CHR '' '', CHR ''n'', CHR '' '', CHR 0xE7, CHR 0x9A, CHR 0x84, CHR 0xE8, CHR 0xB4, CHR 0xA8, CHR 0xE6, CHR 0x95,
      CHR 0xB0, CHR 0xE4, CHR 0xB8, CHR 0xAA, CHR 0xE6, CHR 0x95, CHR 0xB0, CHR 0xE3, CHR 0x80, CHR 0x82, CHR 0x0A],
    sd_difficulty = ''medium'',
    sd_tags =
     [CHR 0xE6, CHR 0x95, CHR 0xB0, CHR 0xE5, CHR 0xAD, CHR 0xA6, CHR '','', CHR 0xE6, CHR 0x95, CHR 0xB0, CHR 0xE7,
      CHR 0xBB, CHR 0x84],
    sd_time_limit_ms = 2000, sd_memory_limit_kb = 65536, sd_visible = 1,
    sd_cases =
     [\<lparr>sc_input = [CHR 0x31, CHR 0x30, CHR 0x0A],
      sc_output = [CHR 0x34, CHR 0x0A], sc_is_sample = True\<rparr>,
      \<lparr>sc_input = [CHR 0x30, CHR 0x0A],
      sc_output = [CHR 0x30, CHR 0x0A], sc_is_sample = True\<rparr>,
      \<lparr>sc_input = [CHR 0x31, CHR 0x30, CHR 0x30, CHR 0x0A],
      sc_output = [CHR 0x32, CHR 0x35, CHR 0x0A], sc_is_sample = False\<rparr>,
      \<lparr>sc_input = [CHR 0x31, CHR 0x0A],
      sc_output = [CHR 0x30, CHR 0x0A], sc_is_sample = False\<rparr>]\<rparr>"

definition seed_isomorphic_strings :: seed_problem where
  "seed_isomorphic_strings = \<lparr>sd_seed_key = ''isomorphic-strings'',
    sd_title =
     [CHR 0xE5, CHR 0x90, CHR 0x8C, CHR 0xE6, CHR 0x9E, CHR 0x84, CHR 0xE5, CHR 0xAD, CHR 0x97, CHR 0xE7, CHR 0xAC,
      CHR 0xA6, CHR 0xE4, CHR 0xB8, CHR 0xB2, CHR '' '', CHR ''('', CHR ''L'', CHR ''e'', CHR ''e'', CHR ''t'', CHR ''C'',
      CHR ''o'', CHR ''d'', CHR ''e'', CHR '' '', CHR 0x32, CHR 0x30, CHR 0x35, CHR '')''],
    sd_description =
     [CHR 0xE7, CHR 0xBB, CHR 0x99, CHR 0xE5, CHR 0xAE, CHR 0x9A, CHR 0xE4, CHR 0xB8, CHR 0xA4, CHR 0xE4, CHR 0xB8,
      CHR 0xAA, CHR 0xE9, CHR 0x95, CHR 0xBF, CHR 0xE5, CHR 0xBA, CHR 0xA6, CHR 0xE7, CHR 0x9B, CHR 0xB8, CHR 0xE5,
      CHR 0x90, CHR 0x8C, CHR 0xE7, CHR 0x9A, CHR 0x84, CHR 0xE5, CHR 0xAD, CHR 0x97, CHR 0xE7, CHR 0xAC, CHR 0xA6,
      CHR 0xE4, CHR 0xB8, CHR 0xB2, CHR '' '', CHR ''s'', CHR '' '', CHR 0xE5, CHR 0x92, CHR 0x8C, CHR '' '', CHR ''t'',
      CHR 0xEF, CHR 0xBC, CHR 0x8C, CHR 0xE5, CHR 0x88, CHR 0xA4, CHR 0xE6, CHR 0x96, CHR 0xAD, CHR 0xE5, CHR 0xAE,
      CHR 0x83, CHR 0xE4, CHR 0xBB, CHR 0xAC, CHR 0xE6, CHR 0x98, CHR 0xAF, CHR 0xE5, CHR 0x90, CHR 0xA6, CHR 0xE6,
      CHR 0x98, CHR 0xAF, CHR 0xE5, CHR 0x90, CHR 0x8C, CHR 0xE6, CHR 0x9E, CHR 0x84, CHR 0xE7, CHR 0x9A, CHR 0x84,
      CHR 0xE3, CHR 0x80, CHR 0x82, CHR 0xE5, CHR 0x90, CHR 0x8C, CHR 0xE6, CHR 0x9E, CHR 0x84, CHR 0xE6, CHR 0x8C,
      CHR 0x87, CHR '' '', CHR ''s'', CHR '' '', CHR 0xE4, CHR 0xB8, CHR 0xAD, CHR 0xE7, CHR 0x9A, CHR 0x84, CHR 0xE6,
      CHR 0xAF, CHR 0x8F, CHR 0xE4, CHR 0xB8, CHR 0xAA, CHR 0xE5, CHR 0xAD, CHR 0x97, CHR 0xE7, CHR 0xAC, CHR 0xA6,
      CHR 0xE9, CHR 0x83, CHR 0xBD, CHR 0xE5, CHR 0x8F, CHR 0xAF, CHR 0xE4, CHR 0xBB, CHR 0xA5, CHR 0xE8, CHR 0xA2,
      CHR 0xAB, CHR '' '', CHR ''t'', CHR '' '', CHR 0xE4, CHR 0xB8, CHR 0xAD, CHR 0xE5, CHR 0x94, CHR 0xAF, CHR 0xE4,
      CHR 0xB8, CHR 0x80, CHR 0xE4, CHR 0xB8, CHR 0x80, CHR 0xE4, CHR 0xB8, CHR 0xAA, CHR 0xE5, CHR 0xAD, CHR 0x97,
      CHR 0xE7, CHR 0xAC, CHR 0xA6, CHR 0xE6, CHR 0x9B, CHR 0xBF, CHR 0xE6, CHR 0x8D, CHR 0xA2, CHR 0xEF, CHR 0xBC,
      CHR 0x8C, CHR 0xE4, CHR 0xB8, CHR 0x94, CHR 0xE4, CHR 0xB8, CHR 0x8D, CHR 0xE5, CHR 0x90, CHR 0x8C, CHR 0xE5,
      CHR 0xAD, CHR 0x97, CHR 0xE7, CHR 0xAC, CHR 0xA6, CHR 0xE4, CHR 0xB8, CHR 0x8D, CHR 0xE8, CHR 0x83, CHR 0xBD,
      CHR 0xE6, CHR 0x98, CHR 0xA0, CHR 0xE5, CHR 0xB0, CHR 0x84, CHR 0xE5, CHR 0x88, CHR 0xB0, CHR 0xE5, CHR 0x90,
      CHR 0x8C, CHR 0xE4, CHR 0xB8, CHR 0x80, CHR 0xE5, CHR 0xAD, CHR 0x97, CHR 0xE7, CHR 0xAC, CHR 0xA6, CHR 0xEF,
      CHR 0xBC, CHR 0x8C, CHR 0xE5, CHR 0x90, CHR 0x8C, CHR 0xE6, CHR 0x97, CHR 0xB6, CHR 0xE4, CHR 0xBF, CHR 0x9D,
      CHR 0xE7, CHR 0x95, CHR 0x99, CHR 0xE5, CHR 0xAD, CHR 0x97, CHR 0xE7, CHR 0xAC, CHR 0xA6, CHR 0xE9, CHR 0xA1,
      CHR 0xBA, CHR 0xE5, CHR 0xBA, CHR 0x8F, CHR 0xE3, CHR 0x80, CHR 0x82, CHR 0x0A, CHR 0x0A, CHR 0xE8, CHR 0xBE,
      CHR 0x93, CHR 0xE5, CHR 0x85, CHR 0xA5, CHR 0xE6, CHR 0xA0, CHR 0xBC, CHR 0xE5, CHR 0xBC, CHR 0x8F, CHR 0xEF,
      CHR 0xBC, CHR 0x9A, CHR 0x0A, CHR 0xE7, CHR 0xAC, CHR 0xAC, CHR 0xE4, CHR 0xB8, CHR 0x80, CHR 0xE8, CHR 0xA1,
      CHR 0x8C, CHR 0xE5, CHR 0xAD, CHR 0x97, CHR 0xE7, CHR 0xAC, CHR 0xA6, CHR 0xE4, CHR 0xB8, CHR 0xB2, CHR '' '',
      CHR ''s'', CHR 0xEF, CHR 0xBC, CHR 0x8C, CHR 0xE7, CHR 0xAC, CHR 0xAC, CHR 0xE4, CHR 0xBA, CHR 0x8C, CHR 0xE8,
      CHR 0xA1, CHR 0x8C, CHR 0xE5, CHR 0xAD, CHR 0x97, CHR 0xE7, CHR 0xAC, CHR 0xA6, CHR 0xE4, CHR 0xB8, CHR 0xB2,
      CHR '' '', CHR ''t'', CHR 0xEF, CHR 0xBC, CHR 0x88, CHR 0xE9, CHR 0x95, CHR 0xBF, CHR 0xE5, CHR 0xBA, CHR 0xA6,
      CHR 0xE4, CHR 0xB8, CHR 0x8D, CHR 0xE8, CHR 0xB6, CHR 0x85, CHR 0xE8, CHR 0xBF, CHR 0x87, CHR '' '', CHR 0x35,
      CHR 0x30, CHR 0x30, CHR 0x30, CHR 0x30, CHR 0xEF, CHR 0xBC, CHR 0x89, CHR 0xE3, CHR 0x80, CHR 0x82, CHR 0x0A,
      CHR 0x0A, CHR 0xE8, CHR 0xBE, CHR 0x93, CHR 0xE5, CHR 0x87, CHR 0xBA, CHR 0xE6, CHR 0xA0, CHR 0xBC, CHR 0xE5,
      CHR 0xBC, CHR 0x8F, CHR 0xEF, CHR 0xBC, CHR 0x9A, CHR 0x0A, CHR 0xE5, CHR 0x90, CHR 0x8C, CHR 0xE6, CHR 0x9E,
      CHR 0x84, CHR 0xE8, CHR 0xBE, CHR 0x93, CHR 0xE5, CHR 0x87, CHR 0xBA, CHR '' '', CHR ''t'', CHR ''r'', CHR ''u'',
      CHR ''e'', CHR 0xEF, CHR 0xBC, CHR 0x8C, CHR 0xE5, CHR 0x90, CHR 0xA6, CHR 0xE5, CHR 0x88, CHR 0x99, CHR 0xE8,
      CHR 0xBE, CHR 0x93, CHR 0xE5, CHR 0x87, CHR 0xBA, CHR '' '', CHR ''f'', CHR ''a'', CHR ''l'', CHR ''s'', CHR ''e'',
      CHR 0xE3, CHR 0x80, CHR 0x82, CHR 0x0A],
    sd_difficulty = ''easy'',
    sd_tags =
     [CHR 0xE5, CHR 0xAD, CHR 0x97, CHR 0xE7, CHR 0xAC, CHR 0xA6, CHR 0xE4, CHR 0xB8, CHR 0xB2, CHR '','', CHR 0xE5,
      CHR 0x93, CHR 0x88, CHR 0xE5, CHR 0xB8, CHR 0x8C, CHR 0xE8, CHR 0xA1, CHR 0xA8],
    sd_time_limit_ms = 2000, sd_memory_limit_kb = 65536, sd_visible = 1,
    sd_cases =
     [\<lparr>sc_input = [CHR ''e'', CHR ''g'', CHR ''g'', CHR 0x0A, CHR ''a'', CHR ''d'', CHR ''d'', CHR 0x0A],
      sc_output = [CHR ''t'', CHR ''r'', CHR ''u'', CHR ''e'', CHR 0x0A], sc_is_sample = True\<rparr>,
      \<lparr>sc_input = [CHR ''f'', CHR ''o'', CHR ''o'', CHR 0x0A, CHR ''b'', CHR ''a'', CHR ''r'', CHR 0x0A],
      sc_output = [CHR ''f'', CHR ''a'', CHR ''l'', CHR ''s'', CHR ''e'', CHR 0x0A], sc_is_sample = True\<rparr>,
      \<lparr>sc_input = [CHR ''p'', CHR ''a'', CHR ''p'', CHR ''e'', CHR ''r'', CHR 0x0A, CHR ''t'', CHR ''i'', CHR ''t'', CHR ''l'',
      CHR ''e'', CHR 0x0A],
      sc_output = [CHR ''t'', CHR ''r'', CHR ''u'', CHR ''e'', CHR 0x0A], sc_is_sample = False\<rparr>,
      \<lparr>sc_input = [CHR ''b'', CHR ''a'', CHR ''d'', CHR ''c'', CHR 0x0A, CHR ''b'', CHR ''a'', CHR ''b'', CHR ''a'', CHR 0x0A],
      sc_output = [CHR ''f'', CHR ''a'', CHR ''l'', CHR ''s'', CHR ''e'', CHR 0x0A], sc_is_sample = False\<rparr>]\<rparr>"

definition seed_contains_duplicate :: seed_problem where
  "seed_contains_duplicate = \<lparr>sd_seed_key = ''contains-duplicate'',
    sd_title =
     [CHR 0xE5, CHR 0xAD, CHR 0x98, CHR 0xE5, CHR 0x9C, CHR 0xA8, CHR 0xE9, CHR 0x87, CHR 0x8D, CHR 0xE5, CHR 0xA4,
      CHR 0x8D, CHR 0xE5, CHR 0x85, CHR 0x83, CHR 0xE7, CHR 0xB4, CHR 0xA0, CHR '' '', CHR ''('', CHR ''L'', CHR ''e'',
      CHR ''e'', CHR ''t'', CHR ''C'', CHR ''o'', CHR ''d'', CHR ''e'', CHR '' '', CHR 0x32, CHR 0x31, CHR 0x37, CHR '')''],
    sd_description =
     [CHR 0xE7, CHR 0xBB, CHR 0x99, CHR 0xE5, CHR 0xAE, CHR 0x9A, CHR 0xE4, CHR 0xB8, CHR 0x80, CHR 0xE4, CHR 0xB8,
      CHR 0xAA, CHR 0xE6, CHR 0x95, CHR 0xB4, CHR 0xE6, CHR 0x95, CHR 0xB0, CHR 0xE6, CHR 0x95, CHR 0xB0, CHR 0xE7,
      CHR 0xBB, CHR 0x84, CHR 0xEF, CHR 0xBC, CHR 0x8C, CHR 0xE5, CHR 0xA6, CHR 0x82, CHR 0xE6, CHR 0x9E, CHR 0x9C,
      CHR 0xE4, CHR 0xBB, CHR 0xBB, CHR 0xE6, CHR 0x84, CHR 0x8F, CHR 0xE4, CHR 0xB8, CHR 0x80, CHR 0xE4, CHR 0xB8,
      CHR 0xAA, CHR 0xE5, CHR 0x80, CHR 0xBC, CHR 0xE5, CHR 0x9C, CHR 0xA8, CHR 0xE6, CHR 0x95, CHR 0xB0, CHR 0xE7,
      CHR 0xBB, CHR 0x84, CHR 0xE4, CHR 0xB8, CHR 0xAD, CHR 0xE5, CHR 0x87, CHR 0xBA, CHR 0xE7, CHR 0x8E, CHR 0xB0,
      CHR 0xE8, CHR 0x87, CHR 0xB3, CHR 0xE5, CHR 0xB0, CHR 0x91, CHR 0xE4, CHR 0xB8, CHR 0xA4, CHR 0xE6, CHR 0xAC,
      CHR 0xA1, CHR 0xEF, CHR 0xBC, CHR 0x8C, CHR 0xE8, CHR 0xBE, CHR 0x93, CHR 0xE5, CHR 0x87, CHR 0xBA, CHR '' '',
      CHR ''t'', CHR ''r'', CHR ''u'', CHR ''e'', CHR 0xEF, CHR 0xBC, CHR 0x9B, CHR 0xE5, CHR 0xA6, CHR 0x82, CHR 0xE6,
      CHR 0x9E, CHR 0x9C, CHR 0xE6, CHR 0xAF, CHR 0x8F, CHR 0xE4, CHR 0xB8, CHR 0xAA, CHR 0xE5, CHR 0x85, CHR 0x83,
      CHR 0xE7, CHR 0xB4, CHR 0xA0, CHR 0xE9, CHR 0x83, CHR 0xBD, CHR 0xE4, CHR 0xBA, CHR 0x92, CHR 0xE4, CHR 0xB8,
      CHR 0x8D, CHR 0xE7, CHR 0x9B, CHR 0xB8, CHR 0xE5, CHR 0x90, CHR 0x8C, CHR 0xEF, CHR 0xBC, CHR 0x8C, CHR 0xE8,
      CHR 0xBE, CHR 0x93, CHR 0xE5, CHR 0x87, CHR 0xBA, CHR '' '', CHR ''f'', CHR ''a'', CHR ''l'', CHR ''s'', CHR ''e'',
      CHR 0xE3, CHR 0x80, CHR 0x82, CHR 0x0A, CHR 0x0A, CHR 0xE8, CHR 0xBE, CHR 0x93, CHR 0xE5, CHR 0x85, CHR 0xA5,
      CHR 0xE6, CHR 0xA0, CHR 0xBC, CHR 0xE5, CHR 0xBC, CHR 0x8F, CHR 0xEF, CHR 0xBC, CHR 0x9A, CHR 0x0A, CHR 0xE7,
      CHR 0xAC, CHR 0xAC, CHR 0xE4, CHR 0xB8, CHR 0x80, CHR 0xE8, CHR 0xA1, CHR 0x8C, CHR 0xE4, CHR 0xB8, CHR 0x80,
      CHR 0xE4, CHR 0xB8, CHR 0xAA, CHR 0xE6, CHR 0x95, CHR 0xB4, CHR 0xE6, CHR 0x95, CHR 0xB0, CHR '' '', CHR ''n'',
      CHR 0xEF, CHR 0xBC, CHR 0x88, CHR 0x31, CHR '' '', CHR ''<'', CHR ''='', CHR '' '', CHR ''n'', CHR '' '', CHR ''<'',
      CHR ''='', CHR '' '', CHR 0x31, CHR 0x30, CHR 0x30, CHR 0x30, CHR 0x30, CHR 0x30, CHR 0xEF, CHR 0xBC, CHR 0x89,
      CHR 0xE3, CHR 0x80, CHR 0x82, CHR 0x0A, CHR 0xE7, CHR 0xAC, CHR 0xAC, CHR 0xE4, CHR 0xBA, CHR 0x8C, CHR 0xE8,
      CHR 0xA1, CHR 0x8C, CHR '' '', CHR ''n'', CHR '' '', CHR 0xE4, CHR 0xB8, CHR 0xAA, CHR 0xE6, CHR 0x95, CHR 0xB4,
      CHR 0xE6, CHR 0x95, CHR 0xB0, CHR 0xE3, CHR 0x80, CHR 0x82, CHR 0x0A, CHR 0x0A, CHR 0xE8, CHR 0xBE, CHR 0x93,
      CHR 0xE5, CHR 0x87, CHR 0xBA, CHR 0xE6, CHR 0xA0, CHR 0xBC, CHR 0xE5, CHR 0xBC, CHR 0x8F, CHR 0xEF, CHR 0xBC,
      CHR 0x9A, CHR 0x0A, CHR 0xE5, CHR 0xAD, CHR 0x98, CHR 0xE5, CHR 0x9C, CHR 0xA8, CHR 0xE9, CHR 0x87, CHR 0x8D,
      CHR 0xE5, CHR 0xA4, CHR 0x8D, CHR 0xE8, CHR 0xBE, CHR 0x93, CHR 0xE5, CHR 0x87, CHR 0xBA, CHR '' '', CHR ''t'',
      CHR ''r'', CHR ''u'', CHR ''e'', CHR 0xEF, CHR 0xBC, CHR 0x8C, CHR 0xE5, CHR 0x90, CHR 0xA6, CHR 0xE5, CHR 0x88,
      CHR 0x99, CHR 0xE8, CHR 0xBE, CHR 0x93, CHR 0xE5, CHR 0x87, CHR 0xBA, CHR '' '', CHR ''f'', CHR ''a'', CHR ''l'',
      CHR ''s'', CHR ''e'', CHR 0xE3, CHR 0x80, CHR 0x82, CHR 0x0A],
    sd_difficulty = ''easy'',
    sd_tags =
     [CHR 0xE6, CHR 0x95, CHR 0xB0, CHR 0xE7, CHR 0xBB, CHR 0x84, CHR '','', CHR 0xE5, CHR 0x93, CHR 0x88, CHR 0xE5,
      CHR 0xB8, CHR 0x8C, CHR 0xE8, CHR 0xA1, CHR 0xA8],
    sd_time_limit_ms = 2000, sd_memory_limit_kb = 65536, sd_visible = 1,
    sd_cases =
     [\<lparr>sc_input = [CHR 0x34, CHR 0x0A, CHR 0x31, CHR '' '', CHR 0x32, CHR '' '', CHR 0x33, CHR '' '', CHR 0x31, CHR 0x0A],
      sc_output = [CHR ''t'', CHR ''r'', CHR ''u'', CHR ''e'', CHR 0x0A], sc_is_sample = True\<rparr>,
      \<lparr>sc_input = [CHR 0x34, CHR 0x0A, CHR 0x31, CHR '' '', CHR 0x32, CHR '' '', CHR 0x33, CHR '' '', CHR 0x34, CHR 0x0A],
      sc_output = [CHR ''f'', CHR ''a'', CHR ''l'', CHR ''s'', CHR ''e'', CHR 0x0A], sc_is_sample = True\<rparr>,
      \<lparr>sc_input = [CHR 0x31, CHR 0x0A, CHR 0x31, CHR 0x0A],
      sc_output = [CHR ''f'', CHR ''a'', CHR ''l'', CHR ''s'', CHR ''e'', CHR 0x0A], sc_is_sample = False\<rparr>,
      \<lparr>sc_input = [CHR 0x34, CHR 0x0A, CHR 0x31, CHR '' '', CHR 0x31, CHR '' '', CHR 0x31, CHR '' '', CHR 0x33, CHR 0x0A],
      sc_output = [CHR ''t'', CHR ''r'', CHR ''u'', CHR ''e'', CHR 0x0A], sc_is_sample = False\<rparr>]\<rparr>"

definition seed_valid_anagram :: seed_problem where
  "seed_valid_anagram = \<lparr>sd_seed_key = ''valid-anagram'',
    sd_title =
     [CHR 0xE6, CHR 0x9C, CHR 0x89, CHR 0xE6, CHR 0x95, CHR 0x88, CHR 0xE7, CHR 0x9A, CHR 0x84, CHR 0xE5, CHR 0xAD,
      CHR 0x97, CHR 0xE6, CHR 0xAF, CHR 0x8D, CHR 0xE5, CHR 0xBC, CHR 0x82, CHR 0xE4, CHR 0xBD, CHR 0x8D, CHR 0xE8,
      CHR 0xAF, CHR 0x8D, CHR '' '', CHR ''('', CHR ''L'', CHR ''e'', CHR ''e'', CHR ''t'', CHR ''C'', CHR ''o'',
      CHR ''d'', CHR ''e'', CHR '' '', CHR 0x32, CHR 0x34, CHR 0x32, CHR '')''],
    sd_description =
     [CHR 0xE7, CHR 0xBB, CHR 0x99, CHR 0xE5, CHR 0xAE, CHR 0x9A, CHR 0xE4, CHR 0xB8, CHR 0xA4, CHR 0xE4, CHR 0xB8,
      CHR 0xAA, CHR 0xE5, CHR 0xAD, CHR 0x97, CHR 0xE7, CHR 0xAC, CHR 0xA6, CHR 0xE4, CHR 0xB8, CHR 0xB2, CHR '' '',
      CHR ''s'', CHR '' '', CHR 0xE5, CHR 0x92, CHR 0x8C, CHR '' '', CHR ''t'', CHR 0xEF, CHR 0xBC, CHR 0x8C, CHR 0xE5,
      CHR 0x88, CHR 0xA4, CHR 0xE6, CHR 0x96, CHR 0xAD, CHR '' '', CHR ''t'', CHR '' '', CHR 0xE6, CHR 0x98, CHR 0xAF,
      CHR 0xE5, CHR 0x90, CHR 0xA6, CHR 0xE6, CHR 0x98, CHR 0xAF, CHR '' '', CHR ''s'', CHR '' '', CHR 0xE7, CHR 0x9A,
      CHR 0x84, CHR 0xE5, CHR 0xAD, CHR 0x97, CHR 0xE6, CHR 0xAF, CHR 0x8D, CHR 0xE5, CHR 0xBC, CHR 0x82, CHR 0xE4,
      CHR 0xBD, CHR 0x8D, CHR 0xE8, CHR 0xAF, CHR 0x8D, CHR 0xEF, CHR 0xBC, CHR 0x88, CHR 0xE5, CHR 0x8D, CHR 0xB3,
      CHR 0xE4, CHR 0xB8, CHR 0xA4, CHR 0xE8, CHR 0x80, CHR 0x85, CHR 0xE7, CHR 0x94, CHR 0xB1, CHR 0xE7, CHR 0x9B,
      CHR 0xB8, CHR 0xE5, CHR 0x90, CHR 0x8C, CHR 0xE5, CHR 0xAD, CHR 0x97, CHR 0xE6, CHR 0xAF, CHR 0x8D, CHR 0xE9,
      CHR 0x87, CHR 0x8D, CHR 0xE6, CHR 0x8E, CHR 0x92, CHR 0xE8, CHR 0x80, CHR 0x8C, CHR 0xE6, CHR 0x88, CHR 0x90,
      CHR 0xEF, CHR 0xBC, CHR 0x89, CHR 0xE3, CHR 0x80, CHR 0x82, CHR 0x0A, CHR 0x0A, CHR 0xE8, CHR 0xBE, CHR 0x93,
      CHR 0xE5, CHR 0x85, CHR 0xA5, CHR 0xE6, CHR 0xA0, CHR 0xBC, CHR 0xE5, CHR 0xBC, CHR 0x8F, CHR 0xEF, CHR 0xBC,
      CHR 0x9A, CHR 0x0A, CHR 0xE7, CHR 0xAC, CHR 0xAC, CHR 0xE4, CHR 0xB8, CHR 0x80, CHR 0xE8, CHR 0xA1, CHR 0x8C,
      CHR 0xE5, CHR 0xAD, CHR 0x97, CHR 0xE7, CHR 0xAC, CHR 0xA6, CHR 0xE4, CHR 0xB8, CHR 0xB2, CHR '' '', CHR ''s'',
      CHR 0xEF, CHR 0xBC, CHR 0x8C, CHR 0xE7, CHR 0xAC, CHR 0xAC, CHR 0xE4, CHR 0xBA, CHR 0x8C, CHR 0xE8, CHR 0xA1,
      CHR 0x8C, CHR 0xE5, CHR 0xAD, CHR 0x97, CHR 0xE7, CHR 0xAC, CHR 0xA6, CHR 0xE4, CHR 0xB8, CHR 0xB2, CHR '' '',
      CHR ''t'', CHR 0xEF, CHR 0xBC, CHR 0x88, CHR 0xE5, CHR 0x9D, CHR 0x87, CHR 0xE4, CHR 0xBB, CHR 0x85, CHR 0xE5,
      CHR 0x90, CHR 0xAB, CHR 0xE5, CHR 0xB0, CHR 0x8F, CHR 0xE5, CHR 0x86, CHR 0x99, CHR 0xE5, CHR 0xAD, CHR 0x97,
      CHR 0xE6, CHR 0xAF, CHR 0x8D, CHR 0xEF, CHR 0xBC, CHR 0x8C, CHR 0xE9, CHR 0x95, CHR 0xBF, CHR 0xE5, CHR 0xBA,
      CHR 0xA6, CHR 0xE4, CHR 0xB8, CHR 0x8D, CHR 0xE8, CHR 0xB6, CHR 0x85, CHR 0xE8, CHR 0xBF, CHR 0x87, CHR '' '',
      CHR 0x35, CHR 0x30, CHR 0x30, CHR 0x30, CHR 0x30, CHR 0xEF, CHR 0xBC, CHR 0x89, CHR 0xE3, CHR 0x80, CHR 0x82,
      CHR 0x0A, CHR 0x0A, CHR 0xE8, CHR 0xBE, CHR 0x93, CHR 0xE5, CHR 0x87, CHR 0xBA, CHR 0xE6, CHR 0xA0, CHR 0xBC,
      CHR 0xE5, CHR 0xBC, CHR 0x8F, CHR 0xEF, CHR 0xBC, CHR 0x9A, CHR 0x0A, CHR 0xE6, CHR 0x98, CHR 0xAF, CHR 0xE5,
      CHR 0xBC, CHR 0x82, CHR 0xE4, CHR 0xBD, CHR 0x8D, CHR 0xE8, CHR 0xAF, CHR 0x8D, CHR 0xE8, CHR 0xBE, CHR 0x93,
      CHR 0xE5, CHR 0x87, CHR 0xBA, CHR '' '', CHR ''t'', CHR ''r'', CHR ''u'', CHR ''e'', CHR 0xEF, CHR 0xBC, CHR 0x8C,
      CHR 0xE5, CHR 0x90, CHR 0xA6, CHR 0xE5, CHR 0x88, CHR 0x99, CHR 0xE8, CHR 0xBE, CHR 0x93, CHR 0xE5, CHR 0x87,
      CHR 0xBA, CHR '' '', CHR ''f'', CHR ''a'', CHR ''l'', CHR ''s'', CHR ''e'', CHR 0xE3, CHR 0x80, CHR 0x82, CHR 0x0A],
    sd_difficulty = ''easy'',
    sd_tags =
     [CHR 0xE5, CHR 0xAD, CHR 0x97, CHR 0xE7, CHR 0xAC, CHR 0xA6, CHR 0xE4, CHR 0xB8, CHR 0xB2, CHR '','', CHR 0xE5,
      CHR 0x93, CHR 0x88, CHR 0xE5, CHR 0xB8, CHR 0x8C, CHR 0xE8, CHR 0xA1, CHR 0xA8, CHR '','', CHR 0xE6, CHR 0x8E,
      CHR 0x92, CHR 0xE5, CHR 0xBA, CHR 0x8F],
    sd_time_limit_ms = 2000, sd_memory_limit_kb = 65536, sd_visible = 1,
    sd_cases =
     [\<lparr>sc_input = [CHR ''a'', CHR ''n'', CHR ''a'', CHR ''g'', CHR ''r'', CHR ''a'', CHR ''m'', CHR 0x0A, CHR ''n'', CHR ''a'',
      CHR ''g'', CHR ''a'', CHR ''r'', CHR ''a'', CHR ''m'', CHR 0x0A],
      sc_output = [CHR ''t'', CHR ''r'', CHR ''u'', CHR ''e'', CHR 0x0A], sc_is_sample = True\<rparr>,
      \<lparr>sc_input = [CHR ''r'', CHR ''a'', CHR ''t'', CHR 0x0A, CHR ''c'', CHR ''a'', CHR ''r'', CHR 0x0A],
      sc_output = [CHR ''f'', CHR ''a'', CHR ''l'', CHR ''s'', CHR ''e'', CHR 0x0A], sc_is_sample = True\<rparr>,
      \<lparr>sc_input = [CHR ''a'', CHR 0x0A, CHR ''a'', CHR 0x0A],
      sc_output = [CHR ''t'', CHR ''r'', CHR ''u'', CHR ''e'', CHR 0x0A], sc_is_sample = False\<rparr>,
      \<lparr>sc_input = [CHR ''a'', CHR ''b'', CHR 0x0A, CHR ''a'', CHR ''a'', CHR 0x0A],
      sc_output = [CHR ''f'', CHR ''a'', CHR ''l'', CHR ''s'', CHR ''e'', CHR 0x0A], sc_is_sample = False\<rparr>]\<rparr>"

definition seed_missing_number :: seed_problem where
  "seed_missing_number = \<lparr>sd_seed_key = ''missing-number'',
    sd_title =
     [CHR 0xE4, CHR 0xB8, CHR 0xA2, CHR 0xE5, CHR 0xA4, CHR 0xB1, CHR 0xE7, CHR 0x9A, CHR 0x84, CHR 0xE6, CHR 0x95,
      CHR 0xB0, CHR 0xE5, CHR 0xAD, CHR 0x97, CHR '' '', CHR ''('', CHR ''L'', CHR ''e'', CHR ''e'', CHR ''t'', CHR ''C'',
      CHR ''o'', CHR ''d'', CHR ''e'', CHR '' '', CHR 0x32, CHR 0x36, CHR 0x38, CHR '')''],
    sd_description =
     [CHR 0xE7, CHR 0xBB, CHR 0x99, CHR 0xE5, CHR 0xAE, CHR 0x9A, CHR 0xE4, CHR 0xB8, CHR 0x80, CHR 0xE4, CHR 0xB8,
      CHR 0xAA, CHR 0xE5, CHR 0x8C, CHR 0x85, CHR 0xE5, CHR 0x90, CHR 0xAB, CHR '' '', CHR ''n'', CHR '' '', CHR 0xE4,
      CHR 0xB8, CHR 0xAA, CHR 0xE4, CHR 0xBA, CHR 0x92, CHR 0xE4, CHR 0xB8, CHR 0x8D, CHR 0xE7, CHR 0x9B, CHR 0xB8,
      CHR 0xE5, CHR 0x90, CHR 0x8C, CHR 0xE6, CHR 0x95, CHR 0xB4, CHR 0xE6, CHR 0x95, CHR 0xB0, CHR 0xE7, CHR 0x9A,
      CHR 0x84, CHR 0xE6, CHR 0x95, CHR 0xB0, CHR 0xE7, CHR 0xBB, CHR 0x84, CHR 0xEF, CHR 0xBC, CHR 0x8C, CHR 0xE8,
      CHR 0xBF, CHR 0x99, CHR 0xE4, CHR 0xBA, CHR 0x9B, CHR 0xE6, CHR 0x95, CHR 0xB4, CHR 0xE6, CHR 0x95, CHR 0xB0,
      CHR 0xE9, CHR 0x83, CHR 0xBD, CHR 0xE5, CHR 0x9C, CHR 0xA8, CHR 0xE8, CHR 0x8C, CHR 0x83, CHR 0xE5, CHR 0x9B,
      CHR 0xB4, CHR '' '', CHR ''['', CHR 0x30, CHR '','', CHR '' '', CHR ''n'', CHR '']'', CHR '' '', CHR 0xE5, CHR 0x86,
      CHR 0x85, CHR 0xEF, CHR 0xBC, CHR 0x8C, CHR 0xE6, CHR 0x89, CHR 0xBE, CHR 0xE5, CHR 0x87, CHR 0xBA, CHR '' '',
      CHR ''['', CHR 0x30, CHR '','', CHR '' '', CHR ''n'', CHR '']'', CHR '' '', CHR 0xE4, CHR 0xB8, CHR 0xAD, CHR 0xE6,
      CHR 0xB2, CHR 0xA1, CHR 0xE6, CHR 0x9C, CHR 0x89, CHR 0xE5, CHR 0x87, CHR 0xBA, CHR 0xE7, CHR 0x8E, CHR 0xB0,
      CHR 0xE5, CHR 0x9C, CHR 0xA8, CHR 0xE6, CHR 0x95, CHR 0xB0, CHR 0xE7, CHR 0xBB, CHR 0x84, CHR 0xE4, CHR 0xB8,
      CHR 0xAD, CHR 0xE7, CHR 0x9A, CHR 0x84, CHR 0xE9, CHR 0x82, CHR 0xA3, CHR 0xE4, CHR 0xB8, CHR 0xAA, CHR 0xE6,
      CHR 0x95, CHR 0xB0, CHR 0xE3, CHR 0x80, CHR 0x82, CHR 0x0A, CHR 0x0A, CHR 0xE8, CHR 0xBE, CHR 0x93, CHR 0xE5,
      CHR 0x85, CHR 0xA5, CHR 0xE6, CHR 0xA0, CHR 0xBC, CHR 0xE5, CHR 0xBC, CHR 0x8F, CHR 0xEF, CHR 0xBC, CHR 0x9A,
      CHR 0x0A, CHR 0xE7, CHR 0xAC, CHR 0xAC, CHR 0xE4, CHR 0xB8, CHR 0x80, CHR 0xE8, CHR 0xA1, CHR 0x8C, CHR 0xE4,
      CHR 0xB8, CHR 0x80, CHR 0xE4, CHR 0xB8, CHR 0xAA, CHR 0xE6, CHR 0x95, CHR 0xB4, CHR 0xE6, CHR 0x95, CHR 0xB0,
      CHR '' '', CHR ''n'', CHR 0xEF, CHR 0xBC, CHR 0x88, CHR 0x31, CHR '' '', CHR ''<'', CHR ''='', CHR '' '', CHR ''n'',
      CHR '' '', CHR ''<'', CHR ''='', CHR '' '', CHR 0x31, CHR 0x30, CHR 0x30, CHR 0x30, CHR 0x30, CHR 0x30, CHR 0xEF,
      CHR 0xBC, CHR 0x89, CHR 0xE3, CHR 0x80, CHR 0x82, CHR 0x0A, CHR 0xE7, CHR 0xAC, CHR 0xAC, CHR 0xE4, CHR 0xBA,
      CHR 0x8C, CHR 0xE8, CHR 0xA1, CHR 0x8C, CHR '' '', CHR ''n'', CHR '' '', CHR 0xE4, CHR 0xB8, CHR 0xAA, CHR 0xE6,
      CHR 0x95, CHR 0xB4, CHR 0xE6, CHR 0x95, CHR 0xB0, CHR 0xE3, CHR 0x80, CHR 0x82, CHR 0x0A, CHR 0x0A, CHR 0xE8,
      CHR 0xBE, CHR 0x93, CHR 0xE5, CHR 0x87, CHR 0xBA, CHR 0xE6, CHR 0xA0, CHR 0xBC, CHR 0xE5, CHR 0xBC, CHR 0x8F,
      CHR 0xEF, CHR 0xBC, CHR 0x9A, CHR 0x0A, CHR 0xE8, CHR 0xBE, CHR 0x93, CHR 0xE5, CHR 0x87, CHR 0xBA, CHR 0xE4,
      CHR 0xB8, CHR 0xA2, CHR 0xE5, CHR 0xA4, CHR 0xB1, CHR 0xE7, CHR 0x9A, CHR 0x84, CHR 0xE6, CHR 0x95, CHR 0xB0,
      CHR 0xE5, CHR 0xAD, CHR 0x97, CHR 0xE3, CHR 0x80, CHR 0x82, CHR 0x0A],
    sd_difficulty = ''easy'',
    sd_tags =
     [CHR 0xE6, CHR 0x95, CHR 0xB0, CHR 0xE7, CHR 0xBB, CHR 0x84, CHR '','', CHR 0xE6, CHR 0x95, CHR 0xB0, CHR 0xE5,
      CHR 0xAD, CHR 0xA6, CHR '','', CHR 0xE4, CHR 0xBD, CHR 0x8D, CHR 0xE8, CHR 0xBF, CHR 0x90, CHR 0xE7, CHR 0xAE,
      CHR 0x97],
    sd_time_limit_ms = 2000, sd_memory_limit_kb = 65536, sd_visible = 1,
    sd_cases =
     [\<lparr>sc_input = [CHR 0x33, CHR 0x0A, CHR 0x33, CHR '' '', CHR 0x30, CHR '' '', CHR 0x31, CHR 0x0A],
      sc_output = [CHR 0x32, CHR 0x0A], sc_is_sample = True\<rparr>,
      \<lparr>sc_input = [CHR 0x32, CHR 0x0A, CHR 0x30, CHR '' '', CHR 0x31, CHR 0x0A],
      sc_output = [CHR 0x32, CHR 0x0A], sc_is_sample = True\<rparr>,
      \<lparr>sc_input = [CHR 0x31, CHR 0x0A, CHR 0x30, CHR 0x0A],
      sc_output = [CHR 0x31, CHR 0x0A], sc_is_sample = False\<rparr>,
      \<lparr>sc_input = [CHR 0x36, CHR 0x0A, CHR 0x33, CHR '' '', CHR 0x30, CHR '' '', CHR 0x36, CHR '' '', CHR 0x34, CHR '' '', CHR 0x32,
      CHR '' '', CHR 0x31, CHR 0x0A],
      sc_output = [CHR 0x35, CHR 0x0A], sc_is_sample = False\<rparr>]\<rparr>"

definition seed_move_zeroes :: seed_problem where
  "seed_move_zeroes = \<lparr>sd_seed_key = ''move-zeroes'',
    sd_title =
     [CHR 0xE7, CHR 0xA7, CHR 0xBB, CHR 0xE5, CHR 0x8A, CHR 0xA8, CHR 0xE9, CHR 0x9B, CHR 0xB6, CHR '' '', CHR ''('',
      CHR ''L'', CHR ''e'', CHR ''e'', CHR ''t'', CHR ''C'', CHR ''o'', CHR ''d'', CHR ''e'', CHR '' '', CHR 0x32,
      CHR 0x38, CHR 0x33, CHR '')''],
    sd_description =
     [CHR 0xE7, CHR 0xBB, CHR 0x99, CHR 0xE5, CHR 0xAE, CHR 0x9A, CHR 0xE4, CHR 0xB8, CHR 0x80, CHR 0xE4, CHR 0xB8,
      CHR 0xAA, CHR 0xE6, CHR 0x95, CHR 0xB0, CHR 0xE7, CHR 0xBB, CHR 0x84, CHR 0xEF, CHR 0xBC, CHR 0x8C, CHR 0xE5,
      CHR 0xB0, CHR 0x86, CHR 0xE6, CHR 0x89, CHR 0x80, CHR 0xE6, CHR 0x9C, CHR 0x89, CHR '' '', CHR 0x30, CHR '' '',
      CHR 0xE7, CHR 0xA7, CHR 0xBB, CHR 0xE5, CHR 0x8A, CHR 0xA8, CHR 0xE5, CHR 0x88, CHR 0xB0, CHR 0xE6, CHR 0x95,
      CHR 0xB0, CHR 0xE7, CHR 0xBB, CHR 0x84, CHR 0xE6, CHR 0x9C, CHR 0xAB, CHR 0xE5, CHR 0xB0, CHR 0xBE, CHR 0xEF,
      CHR 0xBC, CHR 0x8C, CHR 0xE5, CHR 0x90, CHR 0x8C, CHR 0xE6, CHR 0x97, CHR 0xB6, CHR 0xE4, CHR 0xBF, CHR 0x9D,
      CHR 0xE6, CHR 0x8C, CHR 0x81, CHR 0xE9, CHR 0x9D, CHR 0x9E, CHR 0xE9, CHR 0x9B, CHR 0xB6, CHR 0xE5, CHR 0x85,
      CHR 0x83, CHR 0xE7, CHR 0xB4, CHR 0xA0, CHR 0xE7, CHR 0x9A, CHR 0x84, CHR 0xE7, CHR 0x9B, CHR 0xB8, CHR 0xE5,
      CHR 0xAF, CHR 0xB9, CHR 0xE9, CHR 0xA1, CHR 0xBA, CHR 0xE5, CHR 0xBA, CHR 0x8F, CHR 0xEF, CHR 0xBC, CHR 0x8C,
      CHR 0xE8, CHR 0xBE, CHR 0x93, CHR 0xE5, CHR 0x87, CHR 0xBA, CHR 0xE7, CHR 0xA7, CHR 0xBB, CHR 0xE5, CHR 0x8A,
      CHR 0xA8, CHR 0xE5, CHR 0x90, CHR 0x8E, CHR 0xE7, CHR 0x9A, CHR 0x84, CHR 0xE6, CHR 0x95, CHR 0xB0, CHR 0xE7,
      CHR 0xBB, CHR 0x84, CHR 0xE3, CHR 0x80, CHR 0x82, CHR 0x0A, CHR 0x0A, CHR 0xE8, CHR 0xBE, CHR 0x93, CHR 0xE5,
      CHR 0x85, CHR 0xA5, CHR 0xE6, CHR 0xA0, CHR 0xBC, CHR 0xE5, CHR 0xBC, CHR 0x8F, CHR 0xEF, CHR 0xBC, CHR 0x9A,
      CHR 0x0A, CHR 0xE7, CHR 0xAC, CHR 0xAC, CHR 0xE4, CHR 0xB8, CHR 0x80, CHR 0xE8, CHR 0xA1, CHR 0x8C, CHR 0xE4,
      CHR 0xB8, CHR 0x80, CHR 0xE4, CHR 0xB8, CHR 0xAA, CHR 0xE6, CHR 0x95, CHR 0xB4, CHR 0xE6, CHR 0x95, CHR 0xB0,
      CHR '' '', CHR ''n'', CHR 0xEF, CHR 0xBC, CHR 0x88, CHR 0x30, CHR '' '', CHR ''<'', CHR ''='', CHR '' '', CHR ''n'',
      CHR '' '', CHR ''<'', CHR ''='', CHR '' '', CHR 0x31, CHR 0x30, CHR 0x30, CHR 0x30, CHR 0x30, CHR 0x30, CHR 0xEF,
      CHR 0xBC, CHR 0x89, CHR 0xE3, CHR 0x80, CHR 0x82, CHR 0x0A, CHR 0xE7, CHR 0xAC, CHR 0xAC, CHR 0xE4, CHR 0xBA,
      CHR 0x8C, CHR 0xE8, CHR 0xA1, CHR 0x8C, CHR '' '', CHR ''n'', CHR '' '', CHR 0xE4, CHR 0xB8, CHR 0xAA, CHR 0xE6,
      CHR 0x95, CHR 0xB4, CHR 0xE6, CHR 0x95, CHR 0xB0, CHR 0xE3, CHR 0x80, CHR 0x82, CHR 0x0A, CHR 0x0A, CHR 0xE8,
      CHR 0xBE, CHR 0x93, CHR 0xE5, CHR 0x87, CHR 0xBA, CHR 0xE6, CHR 0xA0, CHR 0xBC, CHR 0xE5, CHR 0xBC, CHR 0x8F,
      CHR 0xEF, CHR 0xBC, CHR 0x9A, CHR 0x0A, CHR 0xE4, CHR 0xB8, CHR 0x80, CHR 0xE8, CHR 0xA1, CHR 0x8C, CHR 0xEF,
      CHR 0xBC, CHR 0x8C, CHR 0xE7, CHR 0xA7, CHR 0xBB, CHR 0xE5, CHR 0x8A, CHR 0xA8, CHR 0xE5, CHR 0x90, CHR 0x8E,
      CHR 0xE7, CHR 0x9A, CHR 0x84, CHR 0xE6, CHR 0x95, CHR 0xB0, CHR 0xE7, CHR 0xBB, CHR 0x84, CHR 0xEF, CHR 0xBC,
      CHR 0x8C, CHR 0xE4, CHR 0xBB, CHR 0xA5, CHR 0xE7, CHR 0xA9, CHR 0xBA, CHR 0xE6, CHR 0xA0, CHR 0xBC, CHR 0xE5,
      CHR 0x88, CHR 0x86, CHR 0xE9, CHR 0x9A, CHR 0x94, CHR 0xE3, CHR 0x80, CHR 0x82, CHR 0x0A],
    sd_difficulty = ''easy'',
    sd_tags =
     [CHR 0xE6, CHR 0x95, CHR 0xB0, CHR 0xE7, CHR 0xBB, CHR 0x84, CHR '','', CHR 0xE5, CHR 0x8F, CHR 0x8C, CHR 0xE6,
      CHR 0x8C, CHR 0x87, CHR 0xE9, CHR 0x92, CHR 0x88],
    sd_time_limit_ms = 2000, sd_memory_limit_kb = 65536, sd_visible = 1,
    sd_cases =
     [\<lparr>sc_input = [CHR 0x35, CHR 0x0A, CHR 0x30, CHR '' '', CHR 0x31, CHR '' '', CHR 0x30, CHR '' '', CHR 0x33, CHR '' '', CHR 0x31,
      CHR 0x32, CHR 0x0A],
      sc_output = [CHR 0x31, CHR '' '', CHR 0x33, CHR '' '', CHR 0x31, CHR 0x32, CHR '' '', CHR 0x30, CHR '' '', CHR 0x30, CHR 0x0A], sc_is_sample = True\<rparr>,
      \<lparr>sc_input = [CHR 0x31, CHR 0x0A, CHR 0x30, CHR 0x0A],
      sc_output = [CHR 0x30, CHR 0x0A], sc_is_sample = True\<rparr>,
      \<lparr>sc_input = [CHR 0x33, CHR 0x0A, CHR 0x31, CHR '' '', CHR 0x32, CHR '' '', CHR 0x33, CHR 0x0A],
      sc_output = [CHR 0x31, CHR '' '', CHR 0x32, CHR '' '', CHR 0x33, CHR 0x0A], sc_is_sample = False\<rparr>,
      \<lparr>sc_input = [CHR 0x34, CHR 0x0A, CHR 0x30, CHR '' '', CHR 0x30, CHR '' '', CHR 0x30, CHR '' '', CHR 0x31, CHR 0x0A],
      sc_output = [CHR 0x31, CHR '' '', CHR 0x30, CHR '' '', CHR 0x30, CHR '' '', CHR 0x30, CHR 0x0A], sc_is_sample = False\<rparr>]\<rparr>"

definition seed_word_pattern :: seed_problem where
  "seed_word_pattern = \<lparr>sd_seed_key = ''word-pattern'',
    sd_title =
     [CHR 0xE5, CHR 0x8D, CHR 0x95, CHR 0xE8, CHR 0xAF, CHR 0x8D, CHR 0xE8, CHR 0xA7, CHR 0x84, CHR 0xE5, CHR 0xBE,
      CHR 0x8B, CHR '' '', CHR ''('', CHR ''L'', CHR ''e'', CHR ''e'', CHR ''t'', CHR ''C'', CHR ''o'', CHR ''d'',
      CHR ''e'', CHR '' '', CHR 0x32, CHR 0x39, CHR 0x30, CHR '')''],
    sd_description =
     [CHR 0xE7, CHR 0xBB, CHR 0x99, CHR 0xE5, CHR 0xAE, CHR 0x9A, CHR 0xE4, CHR 0xB8, CHR 0x80, CHR 0xE7, CHR 0xA7,
      CHR 0x8D, CHR 0xE8, CHR 0xA7, CHR 0x84, CHR 0xE5, CHR 0xBE, CHR 0x8B, CHR '' '', CHR ''p'', CHR ''a'', CHR ''t'',
      CHR ''t'', CHR ''e'', CHR ''r'', CHR ''n'', CHR '' '', CHR 0xE5, CHR 0x92, CHR 0x8C, CHR 0xE4, CHR 0xB8, CHR 0x80,
      CHR 0xE4, CHR 0xB8, CHR 0xAA, CHR 0xE5, CHR 0xAD, CHR 0x97, CHR 0xE7, CHR 0xAC, CHR 0xA6, CHR 0xE4, CHR 0xB8,
      CHR 0xB2, CHR '' '', CHR ''s'', CHR 0xEF, CHR 0xBC, CHR 0x8C, CHR 0xE5, CHR 0x88, CHR 0xA4, CHR 0xE6, CHR 0x96,
      CHR 0xAD, CHR '' '', CHR ''s'', CHR '' '', CHR 0xE6, CHR 0x98, CHR 0xAF, CHR 0xE5, CHR 0x90, CHR 0xA6, CHR 0xE9,
      CHR 0x81, CHR 0xB5, CHR 0xE5, CHR 0xBE, CHR 0xAA, CHR 0xE7, CHR 0x9B, CHR 0xB8, CHR 0xE5, CHR 0x90, CHR 0x8C,
      CHR 0xE7, CHR 0x9A, CHR 0x84, CHR 0xE8, CHR 0xA7, CHR 0x84, CHR 0xE5, CHR 0xBE, CHR 0x8B, CHR 0xEF, CHR 0xBC,
      CHR 0x88, CHR ''p'', CHR ''a'', CHR ''t'', CHR ''t'', CHR ''e'', CHR ''r'', CHR ''n'', CHR '' '', CHR 0xE4, CHR 0xB8,
      CHR 0xAD, CHR 0xE6, CHR 0xAF, CHR 0x8F, CHR 0xE4, CHR 0xB8, CHR 0xAA, CHR 0xE5, CHR 0xAD, CHR 0x97, CHR 0xE6,
      CHR 0xAF, CHR 0x8D, CHR 0xE4, CHR 0xB8, CHR 0x8E, CHR '' '', CHR ''s'', CHR '' '', CHR 0xE4, CHR 0xB8, CHR 0xAD,
      CHR 0xE6, CHR 0xAF, CHR 0x8F, CHR 0xE4, CHR 0xB8, CHR 0xAA, CHR 0xE5, CHR 0x8D, CHR 0x95, CHR 0xE8, CHR 0xAF,
      CHR 0x8D, CHR 0xE5, CHR 0x8F, CHR 0x8C, CHR 0xE5, CHR 0x90, CHR 0x91, CHR 0xE4, CHR 0xB8, CHR 0x80, CHR 0xE4,
      CHR 0xB8, CHR 0x80, CHR 0xE5, CHR 0xAF, CHR 0xB9, CHR 0xE5, CHR 0xBA, CHR 0x94, CHR 0xEF, CHR 0xBC, CHR 0x89,
      CHR 0xE3, CHR 0x80, CHR 0x82, CHR 0x0A, CHR 0x0A, CHR 0xE8, CHR 0xBE, CHR 0x93, CHR 0xE5, CHR 0x85, CHR 0xA5,
      CHR 0xE6, CHR 0xA0, CHR 0xBC, CHR 0xE5, CHR 0xBC, CHR 0x8F, CHR 0xEF, CHR 0xBC, CHR 0x9A, CHR 0x0A, CHR 0xE7,
      CHR 0xAC, CHR 0xAC, CHR 0xE4, CHR 0xB8, CHR 0x80, CHR 0xE8, CHR 0xA1, CHR 0x8C, CHR 0xE5, CHR 0xAD, CHR 0x97,
      CHR 0xE7, CHR 0xAC, CHR 0xA6, CHR 0xE4, CHR 0xB8, CHR 0xB2, CHR '' '', CHR ''p'', CHR ''a'', CHR ''t'', CHR ''t'',
      CHR ''e'', CHR ''r'', CHR ''n'', CHR 0xEF, CHR 0xBC, CHR 0x88, CHR 0xE4, CHR 0xBB, CHR 0x85, CHR 0xE5, CHR 0x90,
      CHR 0xAB, CHR 0xE5, CHR 0xB0, CHR 0x8F, CHR 0xE5, CHR 0x86, CHR 0x99, CHR 0xE5, CHR 0xAD, CHR 0x97, CHR 0xE6,
      CHR 0xAF, CHR 0x8D, CHR 0xEF, CHR 0xBC, CHR 0x8C, CHR 0xE9, CHR 0x95, CHR 0xBF, CHR 0xE5, CHR 0xBA, CHR 0xA6,
      CHR 0xE4, CHR 0xB8, CHR 0x8D, CHR 0xE8, CHR 0xB6, CHR 0x85, CHR 0xE8, CHR 0xBF, CHR 0x87, CHR '' '', CHR 0x31,
      CHR 0x30, CHR 0x30, CHR 0x30, CHR 0x30, CHR 0xEF, CHR 0xBC, CHR 0x89, CHR 0xE3, CHR 0x80, CHR 0x82, CHR 0x0A,
      CHR 0xE7, CHR 0xAC, CHR 0xAC, CHR 0xE4, CHR 0xBA, CHR 0x8C, CHR 0xE8, CHR 0xA1, CHR 0x8C, CHR 0xE5, CHR 0xAD,
      CHR 0x97, CHR 0xE7, CHR 0xAC, CHR 0xA6, CHR 0xE4, CHR 0xB8, CHR 0xB2, CHR '' '', CHR ''s'', CHR 0xEF, CHR 0xBC,
      CHR 0x8C, CHR 0xE7, CHR 0x94, CHR 0xB1, CHR 0xE8, CHR 0x8B, CHR 0xA5, CHR 0xE5, CHR 0xB9, CHR 0xB2, CHR 0xE5,
      CHR 0x8D, CHR 0x95, CHR 0xE8, CHR 0xAF, CHR 0x8D, CHR 0xE7, CHR 0xBB, CHR 0x84, CHR 0xE6, CHR 0x88, CHR 0x90,
      CHR 0xEF, CHR 0xBC, CHR 0x8C, CHR 0xE5, CHR 0x8D, CHR 0x95, CHR 0xE8, CHR 0xAF, CHR 0x8D, CHR 0xE4, CHR 0xB9,
      CHR 0x8B, CHR 0xE9, CHR 0x97, CHR 0xB4, CHR 0xE4, CHR 0xBB, CHR 0xA5, CHR 0xE5, CHR 0x8D, CHR 0x95, CHR 0xE4,
      CHR 0xB8, CHR 0xAA, CHR 0xE7, CHR 0xA9, CHR 0xBA, CHR 0xE6, CHR 0xA0, CHR 0xBC, CHR 0xE5, CHR 0x88, CHR 0x86,
      CHR 0xE9, CHR 0x9A, CHR 0x94, CHR 0xE3, CHR 0x80, CHR 0x82, CHR 0x0A, CHR 0x0A, CHR 0xE8, CHR 0xBE, CHR 0x93,
      CHR 0xE5, CHR 0x87, CHR 0xBA, CHR 0xE6, CHR 0xA0, CHR 0xBC, CHR 0xE5, CHR 0xBC, CHR 0x8F, CHR 0xEF, CHR 0xBC,
      CHR 0x9A, CHR 0x0A, CHR 0xE9, CHR 0x81, CHR 0xB5, CHR 0xE5, CHR 0xBE, CHR 0xAA, CHR 0xE8, CHR 0xA7, CHR 0x84,
      CHR 0xE5, CHR 0xBE, CHR 0x8B, CHR 0xE8, CHR 0xBE, CHR 0x93, CHR 0xE5, CHR 0x87, CHR 0xBA, CHR '' '', CHR ''t'',
      CHR ''r'', CHR ''u'', CHR ''e'', CHR 0xEF, CHR 0xBC, CHR 0x8C, CHR 0xE5, CHR 0x90, CHR 0xA6, CHR 0xE5, CHR 0x88,
      CHR 0x99, CHR 0xE8, CHR 0xBE, CHR 0x93, CHR 0xE5, CHR 0x87, CHR 0xBA, CHR '' '', CHR ''f'', CHR ''a'', CHR ''l'',
      CHR ''s'', CHR ''e'', CHR 0xE3, CHR 0x80, CHR 0x82, CHR 0x0A],
    sd_difficulty = ''easy'',
    sd_tags =
     [CHR 0xE5, CHR 0xAD, CHR 0x97, CHR 0xE7, CHR 0xAC, CHR 0xA6, CHR 0xE4, CHR 0xB8, CHR 0xB2, CHR '','', CHR 0xE5,
      CHR 0x93, CHR 0x88, CHR 0xE5, CHR 0xB8, CHR 0x8C, CHR 0xE8, CHR 0xA1, CHR 0xA8],
    sd_time_limit_ms = 2000, sd_memory_limit_kb = 65536, sd_visible = 1,
    sd_cases =
     [\<lparr>sc_input = [CHR ''a'', CHR ''b'', CHR ''b'', CHR ''a'', CHR 0x0A, CHR ''d'', CHR ''o'', CHR ''g'', CHR '' '', CHR ''c'',
      CHR ''a'', CHR ''t'', CHR '' '', CHR ''c'', CHR ''a'', CHR ''t'', CHR '' '', CHR ''d'', CHR ''o'', CHR ''g'', CHR 0x0A],
      sc_output = [CHR ''t'', CHR ''r'', CHR ''u'', CHR ''e'', CHR 0x0A], sc_is_sample = True\<rparr>,
      \<lparr>sc_input = [CHR ''a'', CHR ''b'', CHR ''b'', CHR ''a'', CHR 0x0A, CHR ''d'', CHR ''o'', CHR ''g'', CHR '' '', CHR ''c'',
      CHR ''a'', CHR ''t'', CHR '' '', CHR ''c'', CHR ''a'', CHR ''t'', CHR '' '', CHR ''f'', CHR ''i'', CHR ''s'',
      CHR ''h'', CHR 0x0A],
      sc_output = [CHR ''f'', CHR ''a'', CHR ''l'', CHR ''s'', CHR ''e'', CHR 0x0A], sc_is_sample = True\<rparr>,
      \<lparr>sc_input = [CHR ''a'', CHR ''b'', CHR ''c'', CHR 0x0A, CHR ''a'', CHR '' '', CHR ''b'', CHR '' '', CHR ''c'', CHR 0x0A],
      sc_output = [CHR ''t'', CHR ''r'', CHR ''u'', CHR ''e'', CHR 0x0A], sc_is_sample = False\<rparr>,
      \<lparr>sc_input = [CHR ''a'', CHR ''b'', CHR ''b'', CHR ''a'', CHR 0x0A, CHR ''d'', CHR ''o'', CHR ''g'', CHR '' '', CHR ''d'',
      CHR ''o'', CHR ''g'', CHR '' '', CHR ''d'', CHR ''o'', CHR ''g'', CHR '' '', CHR ''d'', CHR ''o'', CHR ''g'', CHR 0x0A],
      sc_output = [CHR ''f'', CHR ''a'', CHR ''l'', CHR ''s'', CHR ''e'', CHR 0x0A], sc_is_sample = False\<rparr>]\<rparr>"

definition seed_power_of_three :: seed_problem where
  "seed_power_of_three = \<lparr>sd_seed_key = ''power-of-three'',
    sd_title =
     [CHR 0x33, CHR '' '', CHR 0xE7, CHR 0x9A, CHR 0x84, CHR 0xE5, CHR 0xB9, CHR 0x82, CHR '' '', CHR ''('', CHR ''L'',
      CHR ''e'', CHR ''e'', CHR ''t'', CHR ''C'', CHR ''o'', CHR ''d'', CHR ''e'', CHR '' '', CHR 0x33, CHR 0x32, CHR 0x36,
      CHR '')''],
    sd_description =
     [CHR 0xE7, CHR 0xBB, CHR 0x99, CHR 0xE5, CHR 0xAE, CHR 0x9A, CHR 0xE4, CHR 0xB8, CHR 0x80, CHR 0xE4, CHR 0xB8,
      CHR 0xAA, CHR 0xE6, CHR 0x95, CHR 0xB4, CHR 0xE6, CHR 0x95, CHR 0xB0, CHR '' '', CHR ''n'', CHR 0xEF, CHR 0xBC,
      CHR 0x8C, CHR 0xE5, CHR 0x88, CHR 0xA4, CHR 0xE6, CHR 0x96, CHR 0xAD, CHR 0xE5, CHR 0xAE, CHR 0x83, CHR 0xE6,
      CHR 0x98, CHR 0xAF, CHR 0xE5, CHR 0x90, CHR 0xA6, CHR 0xE6, CHR 0x98, CHR 0xAF, CHR '' '', CHR 0x33, CHR '' '',
      CHR 0xE7, CHR 0x9A, CHR 0x84, CHR 0xE5, CHR 0xB9, CHR 0x82, CHR 0xE6, CHR 0xAC, CHR 0xA1, CHR 0xE6, CHR 0x96,
      CHR 0xB9, CHR 0xE3, CHR 0x80, CHR 0x82, CHR 0x0A, CHR 0x0A, CHR 0xE8, CHR 0xBE, CHR 0x93, CHR 0xE5, CHR 0x85,
      CHR 0xA5, CHR 0xE6, CHR 0xA0, CHR 0xBC, CHR 0xE5, CHR 0xBC, CHR 0x8F, CHR 0xEF, CHR 0xBC, CHR 0x9A, CHR 0x0A,
      CHR 0xE4, CHR 0xB8, CHR 0x80, CHR 0xE4, CHR 0xB8, CHR 0xAA, CHR 0xE6, CHR 0x95, CHR 0xB4, CHR 0xE6, CHR 0x95,
      CHR 0xB0, CHR '' '', CHR ''n'', CHR 0xEF, CHR 0xBC, CHR 0x88, CHR ''-'', CHR 0x32, CHR ''^'', CHR 0x33, CHR 0x31,
      CHR '' '', CHR ''<'', CHR ''='', CHR '' '', CHR ''n'', CHR '' '', CHR ''<'', CHR ''='', CHR '' '', CHR 0x32,
      CHR ''^'', CHR 0x33, CHR 0x31, CHR '' '', CHR ''-'', CHR '' '', CHR 0x31, CHR 0xEF, CHR 0xBC, CHR 0x89, CHR 0xE3,
      CHR 0x80, CHR 0x82, CHR 0x0A, CHR 0x0A, CHR 0xE8, CHR 0xBE, CHR 0x93, CHR 0xE5, CHR 0x87, CHR 0xBA, CHR 0xE6,
      CHR 0xA0, CHR 0xBC, CHR 0xE5, CHR 0xBC, CHR 0x8F, CHR 0xEF, CHR 0xBC, CHR 0x9A, CHR 0x0A, CHR 0xE6, CHR 0x98,
      CHR 0xAF, CHR '' '', CHR 0x33, CHR '' '', CHR 0xE7, CHR 0x9A, CHR 0x84, CHR 0xE5, CHR 0xB9, CHR 0x82, CHR 0xE8,
      CHR 0xBE, CHR 0x93, CHR 0xE5, CHR 0x87, CHR 0xBA, CHR '' '', CHR ''t'', CHR ''r'', CHR ''u'', CHR ''e'', CHR 0xEF,
      CHR 0xBC, CHR 0x8C, CHR 0xE5, CHR 0x90, CHR 0xA6, CHR 0xE5, CHR 0x88, CHR 0x99, CHR 0xE8, CHR 0xBE, CHR 0x93,
      CHR 0xE5, CHR 0x87, CHR 0xBA, CHR '' '', CHR ''f'', CHR ''a'', CHR ''l'', CHR ''s'', CHR ''e'', CHR 0xE3, CHR 0x80,
      CHR 0x82, CHR 0x0A],
    sd_difficulty = ''easy'',
    sd_tags =
     [CHR 0xE6, CHR 0x95, CHR 0xB0, CHR 0xE5, CHR 0xAD, CHR 0xA6, CHR '','', CHR 0xE9, CHR 0x80, CHR 0x92, CHR 0xE5,
      CHR 0xBD, CHR 0x92],
    sd_time_limit_ms = 2000, sd_memory_limit_kb = 65536, sd_visible = 1,
    sd_cases =
     [\<lparr>sc_input = [CHR 0x32, CHR 0x37, CHR 0x0A],
      sc_output = [CHR ''t'', CHR ''r'', CHR ''u'', CHR ''e'', CHR 0x0A], sc_is_sample = True\<rparr>,
      \<lparr>sc_input = [CHR 0x30, CHR 0x0A],
      sc_output = [CHR ''f'', CHR ''a'', CHR ''l'', CHR ''s'', CHR ''e'', CHR 0x0A], sc_is_sample = True\<rparr>,
      \<lparr>sc_input = [CHR 0x39, CHR 0x0A],
      sc_output = [CHR ''t'', CHR ''r'', CHR ''u'', CHR ''e'', CHR 0x0A], sc_is_sample = False\<rparr>,
      \<lparr>sc_input = [CHR 0x34, CHR 0x35, CHR 0x0A],
      sc_output = [CHR ''f'', CHR ''a'', CHR ''l'', CHR ''s'', CHR ''e'', CHR 0x0A], sc_is_sample = False\<rparr>]\<rparr>"

definition seed_reverse_vowels_of_a_string :: seed_problem where
  "seed_reverse_vowels_of_a_string = \<lparr>sd_seed_key = ''reverse-vowels-of-a-string'',
    sd_title =
     [CHR 0xE5, CHR 0x8F, CHR 0x8D, CHR 0xE8, CHR 0xBD, CHR 0xAC, CHR 0xE5, CHR 0xAD, CHR 0x97, CHR 0xE7, CHR 0xAC,
      CHR 0xA6, CHR 0xE4, CHR 0xB8, CHR 0xB2, CHR 0xE4, CHR 0xB8, CHR 0xAD, CHR 0xE7, CHR 0x9A, CHR 0x84, CHR 0xE5,
      CHR 0x85, CHR 0x83, CHR 0xE9, CHR 0x9F, CHR 0xB3, CHR 0xE5, CHR 0xAD, CHR 0x97, CHR 0xE6, CHR 0xAF, CHR 0x8D,
      CHR '' '', CHR ''('', CHR ''L'', CHR ''e'', CHR ''e'', CHR ''t'', CHR ''C'', CHR ''o'', CHR ''d'', CHR ''e'',
      CHR '' '', CHR 0x33, CHR 0x34, CHR 0x35, CHR '')''],
    sd_description =
     [CHR 0xE5, CHR 0x8F, CHR 0x8D, CHR 0xE8, CHR 0xBD, CHR 0xAC, CHR 0xE5, CHR 0xAD, CHR 0x97, CHR 0xE7, CHR 0xAC,
      CHR 0xA6, CHR 0xE4, CHR 0xB8, CHR 0xB2, CHR 0xE4, CHR 0xB8, CHR 0xAD, CHR 0xE7, CHR 0x9A, CHR 0x84, CHR 0xE5,
      CHR 0x85, CHR 0x83, CHR 0xE9, CHR 0x9F, CHR 0xB3, CHR 0xE5, CHR 0xAD, CHR 0x97, CHR 0xE6, CHR 0xAF, CHR 0x8D,
      CHR 0xEF, CHR 0xBC, CHR 0x88, CHR ''a'', CHR 0xE3, CHR 0x80, CHR 0x81, CHR ''e'', CHR 0xE3, CHR 0x80, CHR 0x81,
      CHR ''i'', CHR 0xE3, CHR 0x80, CHR 0x81, CHR ''o'', CHR 0xE3, CHR 0x80, CHR 0x81, CHR ''u'', CHR '' '', CHR 0xE5,
      CHR 0x8F, CHR 0x8A, CHR 0xE5, CHR 0x85, CHR 0xB6, CHR 0xE5, CHR 0xA4, CHR 0xA7, CHR 0xE5, CHR 0x86, CHR 0x99,
      CHR 0xE5, CHR 0xBD, CHR 0xA2, CHR 0xE5, CHR 0xBC, CHR 0x8F, CHR 0xEF, CHR 0xBC, CHR 0x89, CHR 0xEF, CHR 0xBC,
      CHR 0x8C, CHR 0xE5, CHR 0xB9, CHR 0xB6, CHR 0xE8, CHR 0xBE, CHR 0x93, CHR 0xE5, CHR 0x87, CHR 0xBA, CHR 0xE7,
      CHR 0xBB, CHR 0x93, CHR 0xE6, CHR 0x9E, CHR 0x9C, CHR 0xE3, CHR 0x80, CHR 0x82, CHR 0x0A, CHR 0x0A, CHR 0xE8,
      CHR 0xBE, CHR 0x93, CHR 0xE5, CHR 0x85, CHR 0xA5, CHR 0xE6, CHR 0xA0, CHR 0xBC, CHR 0xE5, CHR 0xBC, CHR 0x8F,
      CHR 0xEF, CHR 0xBC, CHR 0x9A, CHR 0x0A, CHR 0xE4, CHR 0xB8, CHR 0x80, CHR 0xE8, CHR 0xA1, CHR 0x8C, CHR 0xE5,
      CHR 0xAD, CHR 0x97, CHR 0xE7, CHR 0xAC, CHR 0xA6, CHR 0xE4, CHR 0xB8, CHR 0xB2, CHR '' '', CHR ''s'', CHR 0xEF,
      CHR 0xBC, CHR 0x88, CHR 0xE4, CHR 0xBB, CHR 0x85, CHR 0xE5, CHR 0x90, CHR 0xAB, CHR 0xE5, CHR 0x8F, CHR 0xAF,
      CHR 0xE6, CHR 0x89, CHR 0x93, CHR 0xE5, CHR 0x8D, CHR 0xB0, CHR '' '', CHR ''A'', CHR ''S'', CHR ''C'', CHR ''I'',
      CHR ''I'', CHR '' '', CHR 0xE5, CHR 0xAD, CHR 0x97, CHR 0xE7, CHR 0xAC, CHR 0xA6, CHR 0xEF, CHR 0xBC, CHR 0x8C,
      CHR 0xE9, CHR 0x95, CHR 0xBF, CHR 0xE5, CHR 0xBA, CHR 0xA6, CHR 0xE4, CHR 0xB8, CHR 0x8D, CHR 0xE8, CHR 0xB6,
      CHR 0x85, CHR 0xE8, CHR 0xBF, CHR 0x87, CHR '' '', CHR 0x31, CHR 0x30, CHR 0x30, CHR 0x30, CHR 0x30, CHR 0x30,
      CHR 0xEF, CHR 0xBC, CHR 0x89, CHR 0xE3, CHR 0x80, CHR 0x82, CHR 0x0A, CHR 0x0A, CHR 0xE8, CHR 0xBE, CHR 0x93,
      CHR 0xE5, CHR 0x87, CHR 0xBA, CHR 0xE6, CHR 0xA0, CHR 0xBC, CHR 0xE5, CHR 0xBC, CHR 0x8F, CHR 0xEF, CHR 0xBC,
      CHR 0x9A, CHR 0x0A, CHR 0xE8, CHR 0xBE, CHR 0x93, CHR 0xE5, CHR 0x87, CHR 0xBA, CHR 0xE5, CHR 0x8F, CHR 0x8D,
      CHR 0xE8, CHR 0xBD, CHR 0xAC, CHR 0xE5, CHR 0x85, CHR 0x83, CHR 0xE9, CHR 0x9F, CHR 0xB3, CHR 0xE5, CHR 0x90,
      CHR 0x8E, CHR 0xE7, CHR 0x9A, CHR 0x84, CHR 0xE5, CHR 0xAD, CHR 0x97, CHR 0xE7, CHR 0xAC, CHR 0xA6, CHR 0xE4,
      CHR 0xB8, CHR 0xB2, CHR 0xE3, CHR 0x80, CHR 0x82, CHR 0x0A],
    sd_difficulty = ''easy'',
    sd_tags =
     [CHR 0xE5, CHR 0xAD, CHR 0x97, CHR 0xE7, CHR 0xAC, CHR 0xA6, CHR 0xE4, CHR 0xB8, CHR 0xB2, CHR '','', CHR 0xE5,
      CHR 0x8F, CHR 0x8C, CHR 0xE6, CHR 0x8C, CHR 0x87, CHR 0xE9, CHR 0x92, CHR 0x88],
    sd_time_limit_ms = 2000, sd_memory_limit_kb = 65536, sd_visible = 1,
    sd_cases =
     [\<lparr>sc_input = [CHR ''h'', CHR ''e'', CHR ''l'', CHR ''l'', CHR ''o'', CHR 0x0A],
      sc_output = [CHR ''h'', CHR ''o'', CHR ''l'', CHR ''l'', CHR ''e'', CHR 0x0A], sc_is_sample = True\<rparr>,
      \<lparr>sc_input = [CHR ''l'', CHR ''e'', CHR ''e'', CHR ''t'', CHR ''c'', CHR ''o'', CHR ''d'', CHR ''e'', CHR 0x0A],
      sc_output = [CHR ''l'', CHR ''e'', CHR ''o'', CHR ''t'', CHR ''c'', CHR ''e'', CHR ''d'', CHR ''e'', CHR 0x0A], sc_is_sample = True\<rparr>,
      \<lparr>sc_input = [CHR ''a'', CHR ''A'', CHR 0x0A],
      sc_output = [CHR ''A'', CHR ''a'', CHR 0x0A], sc_is_sample = False\<rparr>,
      \<lparr>sc_input = [CHR ''x'', CHR ''y'', CHR ''z'', CHR 0x0A],
      sc_output = [CHR ''x'', CHR ''y'', CHR ''z'', CHR 0x0A], sc_is_sample = False\<rparr>]\<rparr>"

definition seed_intersection_of_two_arrays :: seed_problem where
  "seed_intersection_of_two_arrays = \<lparr>sd_seed_key = ''intersection-of-two-arrays'',
    sd_title =
     [CHR 0xE4, CHR 0xB8, CHR 0xA4, CHR 0xE4, CHR 0xB8, CHR 0xAA, CHR 0xE6, CHR 0x95, CHR 0xB0, CHR 0xE7, CHR 0xBB,
      CHR 0x84, CHR 0xE7, CHR 0x9A, CHR 0x84, CHR 0xE4, CHR 0xBA, CHR 0xA4, CHR 0xE9, CHR 0x9B, CHR 0x86, CHR '' '',
      CHR ''('', CHR ''L'', CHR ''e'', CHR ''e'', CHR ''t'', CHR ''C'', CHR ''o'', CHR ''d'', CHR ''e'', CHR '' '',
      CHR 0x33, CHR 0x34, CHR 0x39, CHR '')''],
    sd_description =
     [CHR 0xE7, CHR 0xBB, CHR 0x99, CHR 0xE5, CHR 0xAE, CHR 0x9A, CHR 0xE4, CHR 0xB8, CHR 0xA4, CHR 0xE4, CHR 0xB8,
      CHR 0xAA, CHR 0xE6, CHR 0x95, CHR 0xB0, CHR 0xE7, CHR 0xBB, CHR 0x84, CHR 0xEF, CHR 0xBC, CHR 0x8C, CHR 0xE8,
      CHR 0xBE, CHR 0x93, CHR 0xE5, CHR 0x87, CHR 0xBA, CHR 0xE5, CHR 0xAE, CHR 0x83, CHR 0xE4, CHR 0xBB, CHR 0xAC,
      CHR 0xE7, CHR 0x9A, CHR 0x84, CHR 0xE4, CHR 0xBA, CHR 0xA4, CHR 0xE9, CHR 0x9B, CHR 0x86, CHR 0xE3, CHR 0x80,
      CHR 0x82, CHR 0xE4, CHR 0xBA, CHR 0xA4, CHR 0xE9, CHR 0x9B, CHR 0x86, CHR 0xE4, CHR 0xB8, CHR 0xAD, CHR 0xE7,
      CHR 0x9A, CHR 0x84, CHR 0xE6, CHR 0xAF, CHR 0x8F, CHR 0xE4, CHR 0xB8, CHR 0xAA, CHR 0xE5, CHR 0x85, CHR 0x83,
      CHR 0xE7, CHR 0xB4, CHR 0xA0, CHR 0xE4, CHR 0xB8, CHR 0x80, CHR 0xE5, CHR 0xAE, CHR 0x9A, CHR 0xE6, CHR 0x98,
      CHR 0xAF, CHR 0xE5, CHR 0x94, CHR 0xAF, CHR 0xE4, CHR 0xB8, CHR 0x80, CHR 0xE7, CHR 0x9A, CHR 0x84, CHR 0xEF,
      CHR 0xBC, CHR 0x8C, CHR 0xE7, CHR 0xBB, CHR 0x93, CHR 0xE6, CHR 0x9E, CHR 0x9C, CHR 0xE6, CHR 0x8C, CHR 0x89,
      CHR 0xE5, CHR 0x8D, CHR 0x87, CHR 0xE5, CHR 0xBA, CHR 0x8F, CHR 0xE6, CHR 0x8E, CHR 0x92, CHR 0xE5, CHR 0x88,
      CHR 0x97, CHR 0xE3, CHR 0x80, CHR 0x82, CHR 0x0A, CHR 0x0A, CHR 0xE8, CHR 0xBE, CHR 0x93, CHR 0xE5, CHR 0x85,
      CHR 0xA5, CHR 0xE6, CHR 0xA0, CHR 0xBC, CHR 0xE5, CHR 0xBC, CHR 0x8F, CHR 0xEF, CHR 0xBC, CHR 0x9A, CHR 0x0A,
      CHR 0xE7, CHR 0xAC, CHR 0xAC, CHR 0xE4, CHR 0xB8, CHR 0x80, CHR 0xE8, CHR 0xA1, CHR 0x8C, CHR 0xE4, CHR 0xB8,
      CHR 0xA4, CHR 0xE4, CHR 0xB8, CHR 0xAA, CHR 0xE6, CHR 0x95, CHR 0xB4, CHR 0xE6, CHR 0x95, CHR 0xB0, CHR '' '',
      CHR ''n'', CHR '' '', CHR 0xE5, CHR 0x92, CHR 0x8C, CHR '' '', CHR ''m'', CHR 0xEF, CHR 0xBC, CHR 0x88, CHR 0x30,
      CHR '' '', CHR ''<'', CHR ''='', CHR '' '', CHR ''n'', CHR '','', CHR '' '', CHR ''m'', CHR '' '', CHR ''<'',
      CHR ''='', CHR '' '', CHR 0x31, CHR 0x30, CHR 0x30, CHR 0x30, CHR 0x30, CHR 0xEF, CHR 0xBC, CHR 0x89, CHR 0xE3,
      CHR 0x80, CHR 0x82, CHR 0x0A, CHR 0xE7, CHR 0xAC, CHR 0xAC, CHR 0xE4, CHR 0xBA, CHR 0x8C, CHR 0xE8, CHR 0xA1,
      CHR 0x8C, CHR '' '', CHR ''n'', CHR '' '', CHR 0xE4, CHR 0xB8, CHR 0xAA, CHR 0xE6, CHR 0x95, CHR 0xB4, CHR 0xE6,
      CHR 0x95, CHR 0xB0, CHR 0xE3, CHR 0x80, CHR 0x82, CHR 0x0A, CHR 0xE7, CHR 0xAC, CHR 0xAC, CHR 0xE4, CHR 0xB8,
      CHR 0x89, CHR 0xE8, CHR 0xA1, CHR 0x8C, CHR '' '', CHR ''m'', CHR '' '', CHR 0xE4, CHR 0xB8, CHR 0xAA, CHR 0xE6,
      CHR 0x95, CHR 0xB4, CHR 0xE6, CHR 0x95, CHR 0xB0, CHR 0xE3, CHR 0x80, CHR 0x82, CHR 0x0A, CHR 0x0A, CHR 0xE8,
      CHR 0xBE, CHR 0x93, CHR 0xE5, CHR 0x87, CHR 0xBA, CHR 0xE6, CHR 0xA0, CHR 0xBC, CHR 0xE5, CHR 0xBC, CHR 0x8F,
      CHR 0xEF, CHR 0xBC, CHR 0x9A, CHR 0x0A, CHR 0xE4, CHR 0xB8, CHR 0x80, CHR 0xE8, CHR 0xA1, CHR 0x8C, CHR 0xEF,
      CHR 0xBC, CHR 0x8C, CHR 0xE5, CHR 0x8D, CHR 0x87, CHR 0xE5, CHR 0xBA, CHR 0x8F, CHR 0xE4, CHR 0xB8, CHR 0x94,
      CHR 0xE5, CHR 0x8E, CHR 0xBB, CHR 0xE9, CHR 0x87, CHR 0x8D, CHR 0xE7, CHR 0x9A, CHR 0x84, CHR 0xE4, CHR 0xBA,
      CHR 0xA4, CHR 0xE9, CHR 0x9B, CHR 0x86, CHR 0xE5, CHR 0x85, CHR 0x83, CHR 0xE7, CHR 0xB4, CHR 0xA0, CHR 0xEF,
      CHR 0xBC, CHR 0x8C, CHR 0xE4, CHR 0xBB, CHR 0xA5, CHR 0xE7, CHR 0xA9, CHR 0xBA, CHR 0xE6, CHR 0xA0, CHR 0xBC,
      CHR 0xE5, CHR 0x88, CHR 0x86, CHR 0xE9, CHR 0x9A, CHR 0x94, CHR 0xEF, CHR 0xBC, CHR 0x88, CHR 0xE4, CHR 0xBA,
      CHR 0xA4, CHR 0xE9, CHR 0x9B, CHR 0x86, CHR 0xE4, CHR 0xB8, CHR 0xBA, CHR 0xE7, CHR 0xA9, CHR 0xBA, CHR 0xE6,
      CHR 0x97, CHR 0xB6, CHR 0xE8, CHR 0xBE, CHR 0x93, CHR 0xE5, CHR 0x87, CHR 0xBA, CHR 0xE7, CHR 0xA9, CHR 0xBA,
      CHR 0xE8, CHR 0xA1, CHR 0x8C, CHR 0xEF, CHR 0xBC, CHR 0x89, CHR 0xE3, CHR 0x80, CHR 0x82, CHR 0x0A],
    sd_difficulty = ''easy'',
    sd_tags =
     [CHR 0xE6, CHR 0x95, CHR 0xB0, CHR 0xE7, CHR 0xBB, CHR 0x84, CHR '','', CHR 0xE5, CHR 0x93, CHR 0x88, CHR 0xE5,
      CHR 0xB8, CHR 0x8C, CHR 0xE8, CHR 0xA1, CHR 0xA8, CHR '','', CHR 0xE6, CHR 0x8E, CHR 0x92, CHR 0xE5, CHR 0xBA,
      CHR 0x8F],
    sd_time_limit_ms = 2000, sd_memory_limit_kb = 65536, sd_visible = 1,
    sd_cases =
     [\<lparr>sc_input = [CHR 0x34, CHR '' '', CHR 0x34, CHR 0x0A, CHR 0x31, CHR '' '', CHR 0x32, CHR '' '', CHR 0x32, CHR '' '', CHR 0x31,
      CHR 0x0A, CHR 0x32, CHR '' '', CHR 0x32, CHR '' '', CHR 0x33, CHR '' '', CHR 0x31, CHR 0x0A],
      sc_output = [CHR 0x31, CHR '' '', CHR 0x32, CHR 0x0A], sc_is_sample = True\<rparr>,
      \<lparr>sc_input = [CHR 0x33, CHR '' '', CHR 0x33, CHR 0x0A, CHR 0x34, CHR '' '', CHR 0x39, CHR '' '', CHR 0x35, CHR 0x0A, CHR 0x39,
      CHR '' '', CHR 0x34, CHR '' '', CHR 0x39, CHR 0x0A],
      sc_output = [CHR 0x34, CHR '' '', CHR 0x39, CHR 0x0A], sc_is_sample = True\<rparr>,
      \<lparr>sc_input = [CHR 0x31, CHR '' '', CHR 0x31, CHR 0x0A, CHR 0x31, CHR 0x0A, CHR 0x31, CHR 0x0A],
      sc_output = [CHR 0x31, CHR 0x0A], sc_is_sample = False\<rparr>,
      \<lparr>sc_input = [CHR 0x33, CHR '' '', CHR 0x33, CHR 0x0A, CHR 0x31, CHR '' '', CHR 0x32, CHR '' '', CHR 0x33, CHR 0x0A, CHR 0x34,
      CHR '' '', CHR 0x35, CHR '' '', CHR 0x36, CHR 0x0A],
      sc_output = [CHR 0x0A], sc_is_sample = False\<rparr>]\<rparr>"

definition seed_intersection_of_two_arrays_ii :: seed_problem where
  "seed_intersection_of_two_arrays_ii = \<lparr>sd_seed_key = ''intersection-of-two-arrays-ii'',
    sd_title =
     [CHR 0xE4, CHR 0xB8, CHR 0xA4, CHR 0xE4, CHR 0xB8, CHR 0xAA, CHR 0xE6, CHR 0x95, CHR 0xB0, CHR 0xE7, CHR 0xBB,
      CHR 0x84, CHR 0xE7, CHR 0x9A, CHR 0x84, CHR 0xE4, CHR 0xBA, CHR 0xA4, CHR 0xE9, CHR 0x9B, CHR 0x86, CHR '' '',
      CHR ''I'', CHR ''I'', CHR '' '', CHR ''('', CHR ''L'', CHR ''e'', CHR ''e'', CHR ''t'', CHR ''C'', CHR ''o'',
      CHR ''d'', CHR ''e'', CHR '' '', CHR 0x33, CHR 0x35, CHR 0x30, CHR '')''],
    sd_description =
     [CHR 0xE7, CHR 0xBB, CHR 0x99, CHR 0xE5, CHR 0xAE, CHR 0x9A, CHR 0xE4, CHR 0xB8, CHR 0xA4, CHR 0xE4, CHR 0xB8,
      CHR 0xAA, CHR 0xE6, CHR 0x95, CHR 0xB0, CHR 0xE7, CHR 0xBB, CHR 0x84, CHR 0xEF, CHR 0xBC, CHR 0x8C, CHR 0xE8,
      CHR 0xBE, CHR 0x93, CHR 0xE5, CHR 0x87, CHR 0xBA, CHR 0xE5, CHR 0xAE, CHR 0x83, CHR 0xE4, CHR 0xBB, CHR 0xAC,
      CHR 0xE7, CHR 0x9A, CHR 0x84, CHR 0xE4, CHR 0xBA, CHR 0xA4, CHR 0xE9, CHR 0x9B, CHR 0x86, CHR 0xE3, CHR 0x80,
      CHR 0x82, CHR 0xE4, CHR 0xBA, CHR 0xA4, CHR 0xE9, CHR 0x9B, CHR 0x86, CHR 0xE4, CHR 0xB8, CHR 0xAD, CHR 0xE6,
      CHR 0xAF, CHR 0x8F, CHR 0xE4, CHR 0xB8, CHR 0xAA, CHR 0xE5, CHR 0x85, CHR 0x83, CHR 0xE7, CHR 0xB4, CHR 0xA0,
      CHR 0xE5, CHR 0x87, CHR 0xBA, CHR 0xE7, CHR 0x8E, CHR 0xB0, CHR 0xE7, CHR 0x9A, CHR 0x84, CHR 0xE6, CHR 0xAC,
      CHR 0xA1, CHR 0xE6, CHR 0x95, CHR 0xB0, CHR 0xE5, CHR 0xBA, CHR 0x94, CHR 0xE4, CHR 0xB8, CHR 0x8E, CHR 0xE8,
      CHR 0xAF, CHR 0xA5, CHR 0xE5, CHR 0x85, CHR 0x83, CHR 0xE7, CHR 0xB4, CHR 0xA0, CHR 0xE5, CHR 0x9C, CHR 0xA8,
      CHR 0xE4, CHR 0xB8, CHR 0xA4, CHR 0xE4, CHR 0xB8, CHR 0xAA, CHR 0xE6, CHR 0x95, CHR 0xB0, CHR 0xE7, CHR 0xBB,
      CHR 0x84, CHR 0xE4, CHR 0xB8, CHR 0xAD, CHR 0xE9, CHR 0x83, CHR 0xBD, CHR 0xE5, CHR 0x87, CHR 0xBA, CHR 0xE7,
      CHR 0x8E, CHR 0xB0, CHR 0xE7, CHR 0x9A, CHR 0x84, CHR 0xE6, CHR 0xAC, CHR 0xA1, CHR 0xE6, CHR 0x95, CHR 0xB0,
      CHR 0xE4, CHR 0xB8, CHR 0x80, CHR 0xE8, CHR 0x87, CHR 0xB4, CHR 0xE3, CHR 0x80, CHR 0x82, CHR 0xE7, CHR 0xBB,
      CHR 0x93, CHR 0xE6, CHR 0x9E, CHR 0x9C, CHR 0xE6, CHR 0x8C, CHR 0x89, CHR 0xE5, CHR 0x8D, CHR 0x87, CHR 0xE5,
      CHR 0xBA, CHR 0x8F, CHR 0xE6, CHR 0x8E, CHR 0x92, CHR 0xE5, CHR 0x88, CHR 0x97, CHR 0xE3, CHR 0x80, CHR 0x82,
      CHR 0x0A, CHR 0x0A, CHR 0xE8, CHR 0xBE, CHR 0x93, CHR 0xE5, CHR 0x85, CHR 0xA5, CHR 0xE6, CHR 0xA0, CHR 0xBC,
      CHR 0xE5, CHR 0xBC, CHR 0x8F, CHR 0xEF, CHR 0xBC, CHR 0x9A, CHR 0x0A, CHR 0xE7, CHR 0xAC, CHR 0xAC, CHR 0xE4,
      CHR 0xB8, CHR 0x80, CHR 0xE8, CHR 0xA1, CHR 0x8C, CHR 0xE4, CHR 0xB8, CHR 0xA4, CHR 0xE4, CHR 0xB8, CHR 0xAA,
      CHR 0xE6, CHR 0x95, CHR 0xB4, CHR 0xE6, CHR 0x95, CHR 0xB0, CHR '' '', CHR ''n'', CHR '' '', CHR 0xE5, CHR 0x92,
      CHR 0x8C, CHR '' '', CHR ''m'', CHR 0xEF, CHR 0xBC, CHR 0x88, CHR 0x30, CHR '' '', CHR ''<'', CHR ''='', CHR '' '',
      CHR ''n'', CHR '','', CHR '' '', CHR ''m'', CHR '' '', CHR ''<'', CHR ''='', CHR '' '', CHR 0x31, CHR 0x30, CHR 0x30,
      CHR 0x30, CHR 0x30, CHR 0xEF, CHR 0xBC, CHR 0x89, CHR 0xE3, CHR 0x80, CHR 0x82, CHR 0x0A, CHR 0xE7, CHR 0xAC,
      CHR 0xAC, CHR 0xE4, CHR 0xBA, CHR 0x8C, CHR 0xE8, CHR 0xA1, CHR 0x8C, CHR '' '', CHR ''n'', CHR '' '', CHR 0xE4,
      CHR 0xB8, CHR 0xAA, CHR 0xE6, CHR 0x95, CHR 0xB4, CHR 0xE6, CHR 0x95, CHR 0xB0, CHR 0xE3, CHR 0x80, CHR 0x82,
      CHR 0x0A, CHR 0xE7, CHR 0xAC, CHR 0xAC, CHR 0xE4, CHR 0xB8, CHR 0x89, CHR 0xE8, CHR 0xA1, CHR 0x8C, CHR '' '',
      CHR ''m'', CHR '' '', CHR 0xE4, CHR 0xB8, CHR 0xAA, CHR 0xE6, CHR 0x95, CHR 0xB4, CHR 0xE6, CHR 0x95, CHR 0xB0,
      CHR 0xE3, CHR 0x80, CHR 0x82, CHR 0x0A, CHR 0x0A, CHR 0xE8, CHR 0xBE, CHR 0x93, CHR 0xE5, CHR 0x87, CHR 0xBA,
      CHR 0xE6, CHR 0xA0, CHR 0xBC, CHR 0xE5, CHR 0xBC, CHR 0x8F, CHR 0xEF, CHR 0xBC, CHR 0x9A, CHR 0x0A, CHR 0xE4,
      CHR 0xB8, CHR 0x80, CHR 0xE8, CHR 0xA1, CHR 0x8C, CHR 0xEF, CHR 0xBC, CHR 0x8C, CHR 0xE5, CHR 0x8D, CHR 0x87,
      CHR 0xE5, CHR 0xBA, CHR 0x8F, CHR 0xE6, CHR 0x8E, CHR 0x92, CHR 0xE5, CHR 0x88, CHR 0x97, CHR 0xE7, CHR 0x9A,
      CHR 0x84, CHR 0xE4, CHR 0xBA, CHR 0xA4, CHR 0xE9, CHR 0x9B, CHR 0x86, CHR 0xE5, CHR 0x85, CHR 0x83, CHR 0xE7,
      CHR 0xB4, CHR 0xA0, CHR 0xEF, CHR 0xBC, CHR 0x88, CHR 0xE4, CHR 0xBF, CHR 0x9D, CHR 0xE7, CHR 0x95, CHR 0x99,
      CHR 0xE9, CHR 0x87, CHR 0x8D, CHR 0xE5, CHR 0xA4, CHR 0x8D, CHR 0xEF, CHR 0xBC, CHR 0x89, CHR 0xEF, CHR 0xBC,
      CHR 0x8C, CHR 0xE4, CHR 0xBB, CHR 0xA5, CHR 0xE7, CHR 0xA9, CHR 0xBA, CHR 0xE6, CHR 0xA0, CHR 0xBC, CHR 0xE5,
      CHR 0x88, CHR 0x86, CHR 0xE9, CHR 0x9A, CHR 0x94, CHR 0xEF, CHR 0xBC, CHR 0x88, CHR 0xE4, CHR 0xBA, CHR 0xA4,
      CHR 0xE9, CHR 0x9B, CHR 0x86, CHR 0xE4, CHR 0xB8, CHR 0xBA, CHR 0xE7, CHR 0xA9, CHR 0xBA, CHR 0xE6, CHR 0x97,
      CHR 0xB6, CHR 0xE8, CHR 0xBE, CHR 0x93, CHR 0xE5, CHR 0x87, CHR 0xBA, CHR 0xE7, CHR 0xA9, CHR 0xBA, CHR 0xE8,
      CHR 0xA1, CHR 0x8C, CHR 0xEF, CHR 0xBC, CHR 0x89, CHR 0xE3, CHR 0x80, CHR 0x82, CHR 0x0A],
    sd_difficulty = ''easy'',
    sd_tags =
     [CHR 0xE6, CHR 0x95, CHR 0xB0, CHR 0xE7, CHR 0xBB, CHR 0x84, CHR '','', CHR 0xE5, CHR 0x93, CHR 0x88, CHR 0xE5,
      CHR 0xB8, CHR 0x8C, CHR 0xE8, CHR 0xA1, CHR 0xA8, CHR '','', CHR 0xE6, CHR 0x8E, CHR 0x92, CHR 0xE5, CHR 0xBA,
      CHR 0x8F],
    sd_time_limit_ms = 2000, sd_memory_limit_kb = 65536, sd_visible = 1,
    sd_cases =
     [\<lparr>sc_input = [CHR 0x34, CHR '' '', CHR 0x32, CHR 0x0A, CHR 0x31, CHR '' '', CHR 0x32, CHR '' '', CHR 0x32, CHR '' '', CHR 0x31,
      CHR 0x0A, CHR 0x32, CHR '' '', CHR 0x32, CHR 0x0A],
      sc_output = [CHR 0x32, CHR '' '', CHR 0x32, CHR 0x0A], sc_is_sample = True\<rparr>,
      \<lparr>sc_input = [CHR 0x33, CHR '' '', CHR 0x35, CHR 0x0A, CHR 0x34, CHR '' '', CHR 0x39, CHR '' '', CHR 0x35, CHR 0x0A, CHR 0x39,
      CHR '' '', CHR 0x34, CHR '' '', CHR 0x39, CHR '' '', CHR 0x38, CHR '' '', CHR 0x34, CHR 0x0A],
      sc_output = [CHR 0x34, CHR '' '', CHR 0x39, CHR 0x0A], sc_is_sample = True\<rparr>,
      \<lparr>sc_input = [CHR 0x31, CHR '' '', CHR 0x31, CHR 0x0A, CHR 0x31, CHR 0x0A, CHR 0x31, CHR 0x0A],
      sc_output = [CHR 0x31, CHR 0x0A], sc_is_sample = False\<rparr>,
      \<lparr>sc_input = [CHR 0x36, CHR '' '', CHR 0x34, CHR 0x0A, CHR 0x31, CHR '' '', CHR 0x31, CHR '' '', CHR 0x32, CHR '' '', CHR 0x32,
      CHR '' '', CHR 0x33, CHR '' '', CHR 0x33, CHR 0x0A, CHR 0x31, CHR '' '', CHR 0x32, CHR '' '', CHR 0x32, CHR '' '',
      CHR 0x33, CHR 0x0A],
      sc_output = [CHR 0x31, CHR '' '', CHR 0x32, CHR '' '', CHR 0x32, CHR '' '', CHR 0x33, CHR 0x0A], sc_is_sample = False\<rparr>]\<rparr>"

definition seed_valid_perfect_square :: seed_problem where
  "seed_valid_perfect_square = \<lparr>sd_seed_key = ''valid-perfect-square'',
    sd_title =
     [CHR 0xE6, CHR 0x9C, CHR 0x89, CHR 0xE6, CHR 0x95, CHR 0x88, CHR 0xE7, CHR 0x9A, CHR 0x84, CHR 0xE5, CHR 0xAE,
      CHR 0x8C, CHR 0xE5, CHR 0x85, CHR 0xA8, CHR 0xE5, CHR 0xB9, CHR 0xB3, CHR 0xE6, CHR 0x96, CHR 0xB9, CHR 0xE6,
      CHR 0x95, CHR 0xB0, CHR '' '', CHR ''('', CHR ''L'', CHR ''e'', CHR ''e'', CHR ''t'', CHR ''C'', CHR ''o'',
      CHR ''d'', CHR ''e'', CHR '' '', CHR 0x33, CHR 0x36, CHR 0x37, CHR '')''],
    sd_description =
     [CHR 0xE7, CHR 0xBB, CHR 0x99, CHR 0xE5, CHR 0xAE, CHR 0x9A, CHR 0xE4, CHR 0xB8, CHR 0x80, CHR 0xE4, CHR 0xB8,
      CHR 0xAA, CHR 0xE6, CHR 0xAD, CHR 0xA3, CHR 0xE6, CHR 0x95, CHR 0xB4, CHR 0xE6, CHR 0x95, CHR 0xB0, CHR '' '',
      CHR ''n'', CHR ''u'', CHR ''m'', CHR 0xEF, CHR 0xBC, CHR 0x8C, CHR 0xE5, CHR 0x88, CHR 0xA4, CHR 0xE6, CHR 0x96,
      CHR 0xAD, CHR 0xE5, CHR 0xAE, CHR 0x83, CHR 0xE6, CHR 0x98, CHR 0xAF, CHR 0xE5, CHR 0x90, CHR 0xA6, CHR 0xE6,
      CHR 0x98, CHR 0xAF, CHR 0xE4, CHR 0xB8, CHR 0x80, CHR 0xE4, CHR 0xB8, CHR 0xAA, CHR 0xE5, CHR 0xAE, CHR 0x8C,
      CHR 0xE5, CHR 0x85, CHR 0xA8, CHR 0xE5, CHR 0xB9, CHR 0xB3, CHR 0xE6, CHR 0x96, CHR 0xB9, CHR 0xE6, CHR 0x95,
      CHR 0xB0, CHR 0xEF, CHR 0xBC, CHR 0x88, CHR 0xE5, CHR 0xAD, CHR 0x98, CHR 0xE5, CHR 0x9C, CHR 0xA8, CHR 0xE6,
      CHR 0x95, CHR 0xB4, CHR 0xE6, CHR 0x95, CHR 0xB0, CHR '' '', CHR ''x'', CHR '' '', CHR 0xE4, CHR 0xBD, CHR 0xBF,
      CHR '' '', CHR ''x'', CHR ''*'', CHR ''x'', CHR '' '', CHR ''='', CHR ''='', CHR '' '', CHR ''n'', CHR ''u'',
      CHR ''m'', CHR 0xEF, CHR 0xBC, CHR 0x89, CHR 0xE3, CHR 0x80, CHR 0x82, CHR 0x0A, CHR 0x0A, CHR 0xE8, CHR 0xBE,
      CHR 0x93, CHR 0xE5, CHR 0x85, CHR 0xA5, CHR 0xE6, CHR 0xA0, CHR 0xBC, CHR 0xE5, CHR 0xBC, CHR 0x8F, CHR 0xEF,
      CHR 0xBC, CHR 0x9A, CHR 0x0A, CHR 0xE4, CHR 0xB8, CHR 0x80, CHR 0xE4, CHR 0xB8, CHR 0xAA, CHR 0xE6, CHR 0x95,
      CHR 0xB4, CHR 0xE6, CHR 0x95, CHR 0xB0, CHR '' '', CHR ''n'', CHR ''u'', CHR ''m'', CHR 0xEF, CHR 0xBC, CHR 0x88,
      CHR 0x31, CHR '' '', CHR ''<'', CHR ''='', CHR '' '', CHR ''n'', CHR ''u'', CHR ''m'', CHR '' '', CHR ''<'',
      CHR ''='', CHR '' '', CHR 0x32, CHR ''^'', CHR 0x33, CHR 0x31, CHR '' '', CHR ''-'', CHR '' '', CHR 0x31, CHR 0xEF,
      CHR 0xBC, CHR 0x89, CHR 0xE3, CHR 0x80, CHR 0x82, CHR 0x0A, CHR 0x0A, CHR 0xE8, CHR 0xBE, CHR 0x93, CHR 0xE5,
      CHR 0x87, CHR 0xBA, CHR 0xE6, CHR 0xA0, CHR 0xBC, CHR 0xE5, CHR 0xBC, CHR 0x8F, CHR 0xEF, CHR 0xBC, CHR 0x9A,
      CHR 0x0A, CHR 0xE6, CHR 0x98, CHR 0xAF, CHR 0xE5, CHR 0xAE, CHR 0x8C, CHR 0xE5, CHR 0x85, CHR 0xA8, CHR 0xE5,
      CHR 0xB9, CHR 0xB3, CHR 0xE6, CHR 0x96, CHR 0xB9, CHR 0xE6, CHR 0x95, CHR 0xB0, CHR 0xE8, CHR 0xBE, CHR 0x93,
      CHR 0xE5, CHR 0x87, CHR 0xBA, CHR '' '', CHR ''t'', CHR ''r'', CHR ''u'', CHR ''e'', CHR 0xEF, CHR 0xBC, CHR 0x8C,
      CHR 0xE5, CHR 0x90, CHR 0xA6, CHR 0xE5, CHR 0x88, CHR 0x99, CHR 0xE8, CHR 0xBE, CHR 0x93, CHR 0xE5, CHR 0x87,
      CHR 0xBA, CHR '' '', CHR ''f'', CHR ''a'', CHR ''l'', CHR ''s'', CHR ''e'', CHR 0xE3, CHR 0x80, CHR 0x82, CHR 0x0A],
    sd_difficulty = ''easy'',
    sd_tags =
     [CHR 0xE6, CHR 0x95, CHR 0xB0, CHR 0xE5, CHR 0xAD, CHR 0xA6, CHR '','', CHR 0xE4, CHR 0xBA, CHR 0x8C, CHR 0xE5,
      CHR 0x88, CHR 0x86, CHR 0xE6, CHR 0x9F, CHR 0xA5, CHR 0xE6, CHR 0x89, CHR 0xBE],
    sd_time_limit_ms = 2000, sd_memory_limit_kb = 65536, sd_visible = 1,
    sd_cases =
     [\<lparr>sc_input = [CHR 0x31, CHR 0x36, CHR 0x0A],
      sc_output = [CHR ''t'', CHR ''r'', CHR ''u'', CHR ''e'', CHR 0x0A], sc_is_sample = True\<rparr>,
      \<lparr>sc_input = [CHR 0x31, CHR 0x34, CHR 0x0A],
      sc_output = [CHR ''f'', CHR ''a'', CHR ''l'', CHR ''s'', CHR ''e'', CHR 0x0A], sc_is_sample = True\<rparr>,
      \<lparr>sc_input = [CHR 0x31, CHR 0x0A],
      sc_output = [CHR ''t'', CHR ''r'', CHR ''u'', CHR ''e'', CHR 0x0A], sc_is_sample = False\<rparr>,
      \<lparr>sc_input = [CHR 0x32, CHR 0x31, CHR 0x34, CHR 0x37, CHR 0x34, CHR 0x38, CHR 0x33, CHR 0x36, CHR 0x34, CHR 0x37, CHR 0x0A],
      sc_output = [CHR ''f'', CHR ''a'', CHR ''l'', CHR ''s'', CHR ''e'', CHR 0x0A], sc_is_sample = False\<rparr>]\<rparr>"

definition seed_ransom_note :: seed_problem where
  "seed_ransom_note = \<lparr>sd_seed_key = ''ransom-note'',
    sd_title =
     [CHR 0xE8, CHR 0xB5, CHR 0x8E, CHR 0xE9, CHR 0x87, CHR 0x91, CHR 0xE4, CHR 0xBF, CHR 0xA1, CHR '' '', CHR ''('',
      CHR ''L'', CHR ''e'', CHR ''e'', CHR ''t'', CHR ''C'', CHR ''o'', CHR ''d'', CHR ''e'', CHR '' '', CHR 0x33,
      CHR 0x38, CHR 0x33, CHR '')''],
    sd_description =
     [CHR 0xE7, CHR 0xBB, CHR 0x99, CHR 0xE5, CHR 0xAE, CHR 0x9A, CHR 0xE4, CHR 0xB8, CHR 0xA4, CHR 0xE4, CHR 0xB8,
      CHR 0xAA, CHR 0xE4, CHR 0xBB, CHR 0x85, CHR 0xE5, CHR 0x90, CHR 0xAB, CHR 0xE5, CHR 0xB0, CHR 0x8F, CHR 0xE5,
      CHR 0x86, CHR 0x99, CHR 0xE5, CHR 0xAD, CHR 0x97, CHR 0xE6, CHR 0xAF, CHR 0x8D, CHR 0xE7, CHR 0x9A, CHR 0x84,
      CHR 0xE5, CHR 0xAD, CHR 0x97, CHR 0xE7, CHR 0xAC, CHR 0xA6, CHR 0xE4, CHR 0xB8, CHR 0xB2, CHR '' '', CHR ''r'',
      CHR ''a'', CHR ''n'', CHR ''s'', CHR ''o'', CHR ''m'', CHR ''N'', CHR ''o'', CHR ''t'', CHR ''e'', CHR '' '',
      CHR 0xE5, CHR 0x92, CHR 0x8C, CHR '' '', CHR ''m'', CHR ''a'', CHR ''g'', CHR ''a'', CHR ''z'', CHR ''i'', CHR ''n'',
      CHR ''e'', CHR 0xEF, CHR 0xBC, CHR 0x8C, CHR 0xE5, CHR 0x88, CHR 0xA4, CHR 0xE6, CHR 0x96, CHR 0xAD, CHR '' '',
      CHR ''r'', CHR ''a'', CHR ''n'', CHR ''s'', CHR ''o'', CHR ''m'', CHR ''N'', CHR ''o'', CHR ''t'', CHR ''e'',
      CHR '' '', CHR 0xE8, CHR 0x83, CHR 0xBD, CHR 0xE5, CHR 0x90, CHR 0xA6, CHR 0xE7, CHR 0x94, CHR 0xB1, CHR '' '',
      CHR ''m'', CHR ''a'', CHR ''g'', CHR ''a'', CHR ''z'', CHR ''i'', CHR ''n'', CHR ''e'', CHR '' '', CHR 0xE4,
      CHR 0xB8, CHR 0xAD, CHR 0xE7, CHR 0x9A, CHR 0x84, CHR 0xE5, CHR 0xAD, CHR 0x97, CHR 0xE7, CHR 0xAC, CHR 0xA6,
      CHR 0xE6, CHR 0x9E, CHR 0x84, CHR 0xE6, CHR 0x88, CHR 0x90, CHR 0xEF, CHR 0xBC, CHR 0x88, CHR ''m'', CHR ''a'',
      CHR ''g'', CHR ''a'', CHR ''z'', CHR ''i'', CHR ''n'', CHR ''e'', CHR '' '', CHR 0xE4, CHR 0xB8, CHR 0xAD, CHR 0xE6,
      CHR 0xAF, CHR 0x8F, CHR 0xE4, CHR 0xB8, CHR 0xAA, CHR 0xE5, CHR 0xAD, CHR 0x97, CHR 0xE7, CHR 0xAC, CHR 0xA6,
      CHR 0xE5, CHR 0x8F, CHR 0xAA, CHR 0xE8, CHR 0x83, CHR 0xBD, CHR 0xE4, CHR 0xBD, CHR 0xBF, CHR 0xE7, CHR 0x94,
      CHR 0xA8, CHR 0xE4, CHR 0xB8, CHR 0x80, CHR 0xE6, CHR 0xAC, CHR 0xA1, CHR 0xEF, CHR 0xBC, CHR 0x89, CHR 0xE3,
      CHR 0x80, CHR 0x82, CHR 0x0A, CHR 0x0A, CHR 0xE8, CHR 0xBE, CHR 0x93, CHR 0xE5, CHR 0x85, CHR 0xA5, CHR 0xE6,
      CHR 0xA0, CHR 0xBC, CHR 0xE5, CHR 0xBC, CHR 0x8F, CHR 0xEF, CHR 0xBC, CHR 0x9A, CHR 0x0A, CHR 0xE7, CHR 0xAC,
      CHR 0xAC, CHR 0xE4, CHR 0xB8, CHR 0x80, CHR 0xE8, CHR 0xA1, CHR 0x8C, CHR 0xE5, CHR 0xAD, CHR 0x97, CHR 0xE7,
      CHR 0xAC, CHR 0xA6, CHR 0xE4, CHR 0xB8, CHR 0xB2, CHR '' '', CHR ''r'', CHR ''a'', CHR ''n'', CHR ''s'', CHR ''o'',
      CHR ''m'', CHR ''N'', CHR ''o'', CHR ''t'', CHR ''e'', CHR 0xEF, CHR 0xBC, CHR 0x8C, CHR 0xE7, CHR 0xAC, CHR 0xAC,
      CHR 0xE4, CHR 0xBA, CHR 0x8C, CHR 0xE8, CHR 0xA1, CHR 0x8C, CHR 0xE5, CHR 0xAD, CHR 0x97, CHR 0xE7, CHR 0xAC,
      CHR 0xA6, CHR 0xE4, CHR 0xB8, CHR 0xB2, CHR '' '', CHR ''m'', CHR ''a'', CHR ''g'', CHR ''a'', CHR ''z'', CHR ''i'',
      CHR ''n'', CHR ''e'', CHR 0xE3, CHR 0x80, CHR 0x82, CHR 0x0A, CHR 0x0A, CHR 0xE8, CHR 0xBE, CHR 0x93, CHR 0xE5,
      CHR 0x87, CHR 0xBA, CHR 0xE6, CHR 0xA0, CHR 0xBC, CHR 0xE5, CHR 0xBC, CHR 0x8F, CHR 0xEF, CHR 0xBC, CHR 0x9A,
      CHR 0x0A, CHR 0xE5, CHR 0x8F, CHR 0xAF, CHR 0xE4, CHR 0xBB, CHR 0xA5, CHR 0xE6, CHR 0x9E, CHR 0x84, CHR 0xE6,
      CHR 0x88, CHR 0x90, CHR 0xE8, CHR 0xBE, CHR 0x93, CHR 0xE5, CHR 0x87, CHR 0xBA, CHR '' '', CHR ''t'', CHR ''r'',
      CHR ''u'', CHR ''e'', CHR 0xEF, CHR 0xBC, CHR 0x8C, CHR 0xE5, CHR 0x90, CHR 0xA6, CHR 0xE5, CHR 0x88, CHR 0x99,
      CHR 0xE8, CHR 0xBE, CHR 0x93, CHR 0xE5, CHR 0x87, CHR 0xBA, CHR '' '', CHR ''f'', CHR ''a'', CHR ''l'', CHR ''s'',
      CHR ''e'', CHR 0xE3, CHR 0x80, CHR 0x82, CHR 0x0A],
    sd_difficulty = ''easy'',
    sd_tags =
     [CHR 0xE5, CHR 0xAD, CHR 0x97, CHR 0xE7, CHR 0xAC, CHR 0xA6, CHR 0xE4, CHR 0xB8, CHR 0xB2, CHR '','', CHR 0xE5,
      CHR 0x93, CHR 0x88, CHR 0xE5, CHR 0xB8, CHR 0x8C, CHR 0xE8, CHR 0xA1, CHR 0xA8, CHR '','', CHR 0xE8, CHR 0xAE,
      CHR 0xA1, CHR 0xE6, CHR 0x95, CHR 0xB0],
    sd_time_limit_ms = 2000, sd_memory_limit_kb = 65536, sd_visible = 1,
    sd_cases =
     [\<lparr>sc_input = [CHR ''a'', CHR 0x0A, CHR ''b'', CHR 0x0A],
      sc_output = [CHR ''f'', CHR ''a'', CHR ''l'', CHR ''s'', CHR ''e'', CHR 0x0A], sc_is_sample = True\<rparr>,
      \<lparr>sc_input = [CHR ''a'', CHR ''a'', CHR 0x0A, CHR ''a'', CHR ''a'', CHR ''b'', CHR 0x0A],
      sc_output = [CHR ''t'', CHR ''r'', CHR ''u'', CHR ''e'', CHR 0x0A], sc_is_sample = True\<rparr>,
      \<lparr>sc_input = [CHR ''a'', CHR ''b'', CHR ''c'', CHR 0x0A, CHR ''c'', CHR ''b'', CHR ''a'', CHR 0x0A],
      sc_output = [CHR ''t'', CHR ''r'', CHR ''u'', CHR ''e'', CHR 0x0A], sc_is_sample = False\<rparr>,
      \<lparr>sc_input = [CHR ''a'', CHR ''b'', CHR ''c'', CHR 0x0A, CHR ''a'', CHR ''b'', CHR 0x0A],
      sc_output = [CHR ''f'', CHR ''a'', CHR ''l'', CHR ''s'', CHR ''e'', CHR 0x0A], sc_is_sample = False\<rparr>]\<rparr>"

definition seed_first_unique_character :: seed_problem where
  "seed_first_unique_character = \<lparr>sd_seed_key = ''first-unique-character'',
    sd_title =
     [CHR 0xE5, CHR 0xAD, CHR 0x97, CHR 0xE7, CHR 0xAC, CHR 0xA6, CHR 0xE4, CHR 0xB8, CHR 0xB2, CHR 0xE4, CHR 0xB8,
      CHR 0xAD, CHR 0xE7, CHR 0x9A, CHR 0x84, CHR 0xE7, CHR 0xAC, CHR 0xAC, CHR 0xE4, CHR 0xB8, CHR 0x80, CHR 0xE4,
      CHR 0xB8, CHR 0xAA, CHR 0xE5, CHR 0x94, CHR 0xAF, CHR 0xE4, CHR 0xB8, CHR 0x80, CHR 0xE5, CHR 0xAD, CHR 0x97,
      CHR 0xE7, CHR 0xAC, CHR 0xA6, CHR '' '', CHR ''('', CHR ''L'', CHR ''e'', CHR ''e'', CHR ''t'', CHR ''C'', CHR ''o'',
      CHR ''d'', CHR ''e'', CHR '' '', CHR 0x33, CHR 0x38, CHR 0x37, CHR '')''],
    sd_description =
     [CHR 0xE7, CHR 0xBB, CHR 0x99, CHR 0xE5, CHR 0xAE, CHR 0x9A, CHR 0xE4, CHR 0xB8, CHR 0x80, CHR 0xE4, CHR 0xB8,
      CHR 0xAA, CHR 0xE5, CHR 0xAD, CHR 0x97, CHR 0xE7, CHR 0xAC, CHR 0xA6, CHR 0xE4, CHR 0xB8, CHR 0xB2, CHR 0xEF,
      CHR 0xBC, CHR 0x8C, CHR 0xE6, CHR 0x89, CHR 0xBE, CHR 0xE5, CHR 0x88, CHR 0xB0, CHR 0xE5, CHR 0xAE, CHR 0x83,
      CHR 0xE7, CHR 0x9A, CHR 0x84, CHR 0xE7, CHR 0xAC, CHR 0xAC, CHR 0xE4, CHR 0xB8, CHR 0x80, CHR 0xE4, CHR 0xB8,
      CHR 0xAA, CHR 0xE4, CHR 0xB8, CHR 0x8D, CHR 0xE9, CHR 0x87, CHR 0x8D, CHR 0xE5, CHR 0xA4, CHR 0x8D, CHR 0xE5,
      CHR 0xAD, CHR 0x97, CHR 0xE7, CHR 0xAC, CHR 0xA6, CHR 0xEF, CHR 0xBC, CHR 0x8C, CHR 0xE5, CHR 0xB9, CHR 0xB6,
      CHR 0xE8, CHR 0xBF, CHR 0x94, CHR 0xE5, CHR 0x9B, CHR 0x9E, CHR 0xE5, CHR 0xAE, CHR 0x83, CHR 0xE7, CHR 0x9A,
      CHR 0x84, CHR 0xE4, CHR 0xB8, CHR 0x8B, CHR 0xE6, CHR 0xA0, CHR 0x87, CHR 0xEF, CHR 0xBC, CHR 0x9B, CHR 0xE5,
      CHR 0xA6, CHR 0x82, CHR 0xE6, CHR 0x9E, CHR 0x9C, CHR 0xE4, CHR 0xB8, CHR 0x8D, CHR 0xE5, CHR 0xAD, CHR 0x98,
      CHR 0xE5, CHR 0x9C, CHR 0xA8, CHR 0xEF, CHR 0xBC, CHR 0x8C, CHR 0xE8, CHR 0xBF, CHR 0x94, CHR 0xE5, CHR 0x9B,
      CHR 0x9E, CHR '' '', CHR ''-'', CHR 0x31, CHR 0xE3, CHR 0x80, CHR 0x82, CHR 0x0A, CHR 0x0A, CHR 0xE8, CHR 0xBE,
      CHR 0x93, CHR 0xE5, CHR 0x85, CHR 0xA5, CHR 0xE6, CHR 0xA0, CHR 0xBC, CHR 0xE5, CHR 0xBC, CHR 0x8F, CHR 0xEF,
      CHR 0xBC, CHR 0x9A, CHR 0x0A, CHR 0xE4, CHR 0xB8, CHR 0x80, CHR 0xE8, CHR 0xA1, CHR 0x8C, CHR 0xE5, CHR 0xAD,
      CHR 0x97, CHR 0xE7, CHR 0xAC, CHR 0xA6, CHR 0xE4, CHR 0xB8, CHR 0xB2, CHR '' '', CHR ''s'', CHR 0xEF, CHR 0xBC,
      CHR 0x88, CHR 0xE4, CHR 0xBB, CHR 0x85, CHR 0xE5, CHR 0x90, CHR 0xAB, CHR 0xE5, CHR 0xB0, CHR 0x8F, CHR 0xE5,
      CHR 0x86, CHR 0x99, CHR 0xE5, CHR 0xAD, CHR 0x97, CHR 0xE6, CHR 0xAF, CHR 0x8D, CHR 0xEF, CHR 0xBC, CHR 0x8C,
      CHR 0xE9, CHR 0x95, CHR 0xBF, CHR 0xE5, CHR 0xBA, CHR 0xA6, CHR 0xE4, CHR 0xB8, CHR 0x8D, CHR 0xE8, CHR 0xB6,
      CHR 0x85, CHR 0xE8, CHR 0xBF, CHR 0x87, CHR '' '', CHR 0x31, CHR 0x30, CHR 0x30, CHR 0x30, CHR 0x30, CHR 0x30,
      CHR 0xEF, CHR 0xBC, CHR 0x89, CHR 0xE3, CHR 0x80, CHR 0x82, CHR 0x0A, CHR 0x0A, CHR 0xE8, CHR 0xBE, CHR 0x93,
      CHR 0xE5, CHR 0x87, CHR 0xBA, CHR 0xE6, CHR 0xA0, CHR 0xBC, CHR 0xE5, CHR 0xBC, CHR 0x8F, CHR 0xEF, CHR 0xBC,
      CHR 0x9A, CHR 0x0A, CHR 0xE8, CHR 0xBE, CHR 0x93, CHR 0xE5, CHR 0x87, CHR 0xBA, CHR 0xE7, CHR 0xAC, CHR 0xAC,
      CHR 0xE4, CHR 0xB8, CHR 0x80, CHR 0xE4, CHR 0xB8, CHR 0xAA, CHR 0xE5, CHR 0x94, CHR 0xAF, CHR 0xE4, CHR 0xB8,
      CHR 0x80, CHR 0xE5, CHR 0xAD, CHR 0x97, CHR 0xE7, CHR 0xAC, CHR 0xA6, CHR 0xE7, CHR 0x9A, CHR 0x84, CHR 0xE4,
      CHR 0xB8, CHR 0x8B, CHR 0xE6, CHR 0xA0, CHR 0x87, CHR 0xEF, CHR 0xBC, CHR 0x8C, CHR 0xE4, CHR 0xB8, CHR 0x8D,
      CHR 0xE5, CHR 0xAD, CHR 0x98, CHR 0xE5, CHR 0x9C, CHR 0xA8, CHR 0xE5, CHR 0x88, CHR 0x99, CHR 0xE8, CHR 0xBE,
      CHR 0x93, CHR 0xE5, CHR 0x87, CHR 0xBA, CHR '' '', CHR ''-'', CHR 0x31, CHR 0xE3, CHR 0x80, CHR 0x82, CHR 0x0A],
    sd_difficulty = ''easy'',
    sd_tags =
     [CHR 0xE5, CHR 0xAD, CHR 0x97, CHR 0xE7, CHR 0xAC, CHR 0xA6, CHR 0xE4, CHR 0xB8, CHR 0xB2, CHR '','', CHR 0xE5,
      CHR 0x93, CHR 0x88, CHR 0xE5, CHR 0xB8, CHR 0x8C, CHR 0xE8, CHR 0xA1, CHR 0xA8, CHR '','', CHR 0xE8, CHR 0xAE,
      CHR 0xA1, CHR 0xE6, CHR 0x95, CHR 0xB0],
    sd_time_limit_ms = 2000, sd_memory_limit_kb = 65536, sd_visible = 1,
    sd_cases =
     [\<lparr>sc_input = [CHR ''l'', CHR ''e'', CHR ''e'', CHR ''t'', CHR ''c'', CHR ''o'', CHR ''d'', CHR ''e'', CHR 0x0A],
      sc_output = [CHR 0x30, CHR 0x0A], sc_is_sample = True\<rparr>,
      \<lparr>sc_input = [CHR ''l'', CHR ''o'', CHR ''v'', CHR ''e'', CHR ''l'', CHR ''e'', CHR ''e'', CHR ''t'', CHR ''c'', CHR ''o'',
      CHR ''d'', CHR ''e'', CHR 0x0A],
      sc_output = [CHR 0x32, CHR 0x0A], sc_is_sample = True\<rparr>,
      \<lparr>sc_input = [CHR ''a'', CHR ''a'', CHR ''b'', CHR ''b'', CHR 0x0A],
      sc_output = [CHR ''-'', CHR 0x31, CHR 0x0A], sc_is_sample = False\<rparr>,
      \<lparr>sc_input = [CHR ''a'', CHR ''a'', CHR ''b'', CHR ''b'', CHR ''c'', CHR ''c'', CHR ''d'', CHR 0x0A],
      sc_output = [CHR 0x36, CHR 0x0A], sc_is_sample = False\<rparr>]\<rparr>"

definition seed_is_subsequence :: seed_problem where
  "seed_is_subsequence = \<lparr>sd_seed_key = ''is-subsequence'',
    sd_title =
     [CHR 0xE5, CHR 0x88, CHR 0xA4, CHR 0xE6, CHR 0x96, CHR 0xAD, CHR 0xE5, CHR 0xAD, CHR 0x90, CHR 0xE5, CHR 0xBA,
      CHR 0x8F, CHR 0xE5, CHR 0x88, CHR 0x97, CHR '' '', CHR ''('', CHR ''L'', CHR ''e'', CHR ''e'', CHR ''t'', CHR ''C'',
      CHR ''o'', CHR ''d'', CHR ''e'', CHR '' '', CHR 0x33, CHR 0x39, CHR 0x32, CHR '')''],
    sd_description =
     [CHR 0xE7, CHR 0xBB, CHR 0x99, CHR 0xE5, CHR 0xAE, CHR 0x9A, CHR 0xE5, CHR 0xAD, CHR 0x97, CHR 0xE7, CHR 0xAC,
      CHR 0xA6, CHR 0xE4, CHR 0xB8, CHR 0xB2, CHR '' '', CHR ''s'', CHR '' '', CHR 0xE5, CHR 0x92, CHR 0x8C, CHR '' '',
      CHR ''t'', CHR 0xEF, CHR 0xBC, CHR 0x8C, CHR 0xE5, CHR 0x88, CHR 0xA4, CHR 0xE6, CHR 0x96, CHR 0xAD, CHR '' '',
      CHR ''s'', CHR '' '', CHR 0xE6, CHR 0x98, CHR 0xAF, CHR 0xE5, CHR 0x90, CHR 0xA6, CHR 0xE4, CHR 0xB8, CHR 0xBA,
      CHR '' '', CHR ''t'', CHR '' '', CHR 0xE7, CHR 0x9A, CHR 0x84, CHR 0xE5, CHR 0xAD, CHR 0x90, CHR 0xE5, CHR 0xBA,
      CHR 0x8F, CHR 0xE5, CHR 0x88, CHR 0x97, CHR 0xEF, CHR 0xBC, CHR 0x88, CHR 0xE5, CHR 0x8D, CHR 0xB3, CHR '' '',
      CHR ''s'', CHR '' '', CHR 0xE5, CHR 0x8F, CHR 0xAF, CHR 0xE7, CHR 0x94, CHR 0xB1, CHR '' '', CHR ''t'', CHR '' '',
      CHR 0xE5, CHR 0x88, CHR 0xA0, CHR 0xE9, CHR 0x99, CHR 0xA4, CHR 0xE8, CHR 0x8B, CHR 0xA5, CHR 0xE5, CHR 0xB9,
      CHR 0xB2, CHR 0xE5, CHR 0xAD, CHR 0x97, CHR 0xE7, CHR 0xAC, CHR 0xA6, CHR 0xE4, CHR 0xB8, CHR 0x94, CHR 0xE4,
      CHR 0xB8, CHR 0x8D, CHR 0xE6, CHR 0x94, CHR 0xB9, CHR 0xE5, CHR 0x8F, CHR 0x98, CHR 0xE5, CHR 0x89, CHR 0xA9,
      CHR 0xE4, CHR 0xBD, CHR 0x99, CHR 0xE5, CHR 0xAD, CHR 0x97, CHR 0xE7, CHR 0xAC, CHR 0xA6, CHR 0xE7, CHR 0x9B,
      CHR 0xB8, CHR 0xE5, CHR 0xAF, CHR 0xB9, CHR 0xE4, CHR 0xBD, CHR 0x8D, CHR 0xE7, CHR 0xBD, CHR 0xAE, CHR 0xE5,
      CHR 0xBE, CHR 0x97, CHR 0xE5, CHR 0x88, CHR 0xB0, CHR 0xEF, CHR 0xBC, CHR 0x89, CHR 0xE3, CHR 0x80, CHR 0x82,
      CHR 0x0A, CHR 0x0A, CHR 0xE8, CHR 0xBE, CHR 0x93, CHR 0xE5, CHR 0x85, CHR 0xA5, CHR 0xE6, CHR 0xA0, CHR 0xBC,
      CHR 0xE5, CHR 0xBC, CHR 0x8F, CHR 0xEF, CHR 0xBC, CHR 0x9A, CHR 0x0A, CHR 0xE7, CHR 0xAC, CHR 0xAC, CHR 0xE4,
      CHR 0xB8, CHR 0x80, CHR 0xE8, CHR 0xA1, CHR 0x8C, CHR 0xE5, CHR 0xAD, CHR 0x97, CHR 0xE7, CHR 0xAC, CHR 0xA6,
      CHR 0xE4, CHR 0xB8, CHR 0xB2, CHR '' '', CHR ''s'', CHR 0xEF, CHR 0xBC, CHR 0x8C, CHR 0xE7, CHR 0xAC, CHR 0xAC,
      CHR 0xE4, CHR 0xBA, CHR 0x8C, CHR 0xE8, CHR 0xA1, CHR 0x8C, CHR 0xE5, CHR 0xAD, CHR 0x97, CHR 0xE7, CHR 0xAC,
      CHR 0xA6, CHR 0xE4, CHR 0xB8, CHR 0xB2, CHR '' '', CHR ''t'', CHR 0xEF, CHR 0xBC, CHR 0x88, CHR 0xE5, CHR 0x9D,
      CHR 0x87, CHR 0xE4, CHR 0xBB, CHR 0x85, CHR 0xE5, CHR 0x90, CHR 0xAB, CHR 0xE5, CHR 0xB0, CHR 0x8F, CHR 0xE5,
      CHR 0x86, CHR 0x99, CHR 0xE5, CHR 0xAD, CHR 0x97, CHR 0xE6, CHR 0xAF, CHR 0x8D, CHR 0xEF, CHR 0xBC, CHR 0x8C,
      CHR 0xE9, CHR 0x95, CHR 0xBF, CHR 0xE5, CHR 0xBA, CHR 0xA6, CHR 0xE4, CHR 0xB8, CHR 0x8D, CHR 0xE8, CHR 0xB6,
      CHR 0x85, CHR 0xE8, CHR 0xBF, CHR 0x87, CHR '' '', CHR 0x31, CHR 0x30, CHR 0x30, CHR 0x30, CHR 0x30, CHR 0x30,
      CHR 0xEF, CHR 0xBC, CHR 0x89, CHR 0xE3, CHR 0x80, CHR 0x82, CHR 0x0A, CHR 0x0A, CHR 0xE8, CHR 0xBE, CHR 0x93,
      CHR 0xE5, CHR 0x87, CHR 0xBA, CHR 0xE6, CHR 0xA0, CHR 0xBC, CHR 0xE5, CHR 0xBC, CHR 0x8F, CHR 0xEF, CHR 0xBC,
      CHR 0x9A, CHR 0x0A, CHR 0xE6, CHR 0x98, CHR 0xAF, CHR 0xE5, CHR 0xAD, CHR 0x90, CHR 0xE5, CHR 0xBA, CHR 0x8F,
      CHR 0xE5, CHR 0x88, CHR 0x97, CHR 0xE8, CHR 0xBE, CHR 0x93, CHR 0xE5, CHR 0x87, CHR 0xBA, CHR '' '', CHR ''t'',
      CHR ''r'', CHR ''u'', CHR ''e'', CHR 0xEF, CHR 0xBC, CHR 0x8C, CHR 0xE5, CHR 0x90, CHR 0xA6, CHR 0xE5, CHR 0x88,
      CHR 0x99, CHR 0xE8, CHR 0xBE, CHR 0x93, CHR 0xE5, CHR 0x87, CHR 0xBA, CHR '' '', CHR ''f'', CHR ''a'', CHR ''l'',
      CHR ''s'', CHR ''e'', CHR 0xE3, CHR 0x80, CHR 0x82, CHR 0x0A],
    sd_difficulty = ''easy'',
    sd_tags =
     [CHR 0xE5, CHR 0xAD, CHR 0x97, CHR 0xE7, CHR 0xAC, CHR 0xA6, CHR 0xE4, CHR 0xB8, CHR 0xB2, CHR '','', CHR 0xE5,
      CHR 0x8F, CHR 0x8C, CHR 0xE6, CHR 0x8C, CHR 0x87, CHR 0xE9, CHR 0x92, CHR 0x88, CHR '','', CHR 0xE5, CHR 0x8A,
      CHR 0xA8, CHR 0xE6, CHR 0x80, CHR 0x81, CHR 0xE8, CHR 0xA7, CHR 0x84, CHR 0xE5, CHR 0x88, CHR 0x92],
    sd_time_limit_ms = 2000, sd_memory_limit_kb = 65536, sd_visible = 1,
    sd_cases =
     [\<lparr>sc_input = [CHR ''a'', CHR ''b'', CHR ''c'', CHR 0x0A, CHR ''a'', CHR ''h'', CHR ''b'', CHR ''g'', CHR ''d'', CHR ''c'', CHR 0x0A],
      sc_output = [CHR ''t'', CHR ''r'', CHR ''u'', CHR ''e'', CHR 0x0A], sc_is_sample = True\<rparr>,
      \<lparr>sc_input = [CHR ''a'', CHR ''x'', CHR ''c'', CHR 0x0A, CHR ''a'', CHR ''h'', CHR ''b'', CHR ''g'', CHR ''d'', CHR ''c'', CHR 0x0A],
      sc_output = [CHR ''f'', CHR ''a'', CHR ''l'', CHR ''s'', CHR ''e'', CHR 0x0A], sc_is_sample = True\<rparr>,
      \<lparr>sc_input = [CHR ''a'', CHR ''b'', CHR ''c'', CHR 0x0A, CHR ''a'', CHR ''b'', CHR ''c'', CHR 0x0A],
      sc_output = [CHR ''t'', CHR ''r'', CHR ''u'', CHR ''e'', CHR 0x0A], sc_is_sample = False\<rparr>,
      \<lparr>sc_input = [CHR ''a'', CHR ''b'', CHR ''c'', CHR 0x0A, CHR ''a'', CHR ''c'', CHR ''b'', CHR 0x0A],
      sc_output = [CHR ''f'', CHR ''a'', CHR ''l'', CHR ''s'', CHR ''e'', CHR 0x0A], sc_is_sample = False\<rparr>]\<rparr>"

definition seed_fizz_buzz :: seed_problem where
  "seed_fizz_buzz = \<lparr>sd_seed_key = ''fizz-buzz'',
    sd_title =
     ''Fizz Buzz (LeetCode 412)'',
    sd_description =
     [CHR 0xE8, CHR 0xBE, CHR 0x93, CHR 0xE5, CHR 0x87, CHR 0xBA, CHR 0xE4, CHR 0xBB, CHR 0x8E, CHR '' '', CHR 0x31,
      CHR '' '', CHR 0xE5, CHR 0x88, CHR 0xB0, CHR '' '', CHR ''n'', CHR '' '', CHR 0xE7, CHR 0x9A, CHR 0x84, CHR 0xE6,
      CHR 0xAF, CHR 0x8F, CHR 0xE4, CHR 0xB8, CHR 0xAA, CHR 0xE6, CHR 0x95, CHR 0xB0, CHR 0xE5, CHR 0xAD, CHR 0x97,
      CHR 0xE7, CHR 0x9A, CHR 0x84, CHR 0xE5, CHR 0xAD, CHR 0x97, CHR 0xE7, CHR 0xAC, CHR 0xA6, CHR 0xE4, CHR 0xB8,
      CHR 0xB2, CHR 0xE8, CHR 0xA1, CHR 0xA8, CHR 0xE7, CHR 0xA4, CHR 0xBA, CHR 0xEF, CHR 0xBC, CHR 0x9A, CHR 0xE5,
      CHR 0xA6, CHR 0x82, CHR 0xE6, CHR 0x9E, CHR 0x9C, CHR '' '', CHR ''i'', CHR '' '', CHR 0xE8, CHR 0x83, CHR 0xBD,
      CHR 0xE8, CHR 0xA2, CHR 0xAB, CHR '' '', CHR 0x33, CHR '' '', CHR 0xE5, CHR 0x92, CHR 0x8C, CHR '' '', CHR 0x35,
      CHR '' '', CHR 0xE5, CHR 0x90, CHR 0x8C, CHR 0xE6, CHR 0x97, CHR 0xB6, CHR 0xE6, CHR 0x95, CHR 0xB4, CHR 0xE9,
      CHR 0x99, CHR 0xA4, CHR 0xEF, CHR 0xBC, CHR 0x8C, CHR 0xE8, CHR 0xBE, CHR 0x93, CHR 0xE5, CHR 0x87, CHR 0xBA,
      CHR '' '', CHR ''F'', CHR ''i'', CHR ''z'', CHR ''z'', CHR ''B'', CHR ''u'', CHR ''z'', CHR ''z'', CHR 0xEF,
      CHR 0xBC, CHR 0x9B, CHR 0xE8, CHR 0x83, CHR 0xBD, CHR 0xE8, CHR 0xA2, CHR 0xAB, CHR '' '', CHR 0x33, CHR '' '',
      CHR 0xE6, CHR 0x95, CHR 0xB4, CHR 0xE9, CHR 0x99, CHR 0xA4, CHR 0xE8, CHR 0xBE, CHR 0x93, CHR 0xE5, CHR 0x87,
      CHR 0xBA, CHR '' '', CHR ''F'', CHR ''i'', CHR ''z'', CHR ''z'', CHR 0xEF, CHR 0xBC, CHR 0x9B, CHR 0xE8, CHR 0x83,
      CHR 0xBD, CHR 0xE8, CHR 0xA2, CHR 0xAB, CHR '' '', CHR 0x35, CHR '' '', CHR 0xE6, CHR 0x95, CHR 0xB4, CHR 0xE9,
      CHR 0x99, CHR 0xA4, CHR 0xE8, CHR 0xBE, CHR 0x93, CHR 0xE5, CHR 0x87, CHR 0xBA, CHR '' '', CHR ''B'', CHR ''u'',
      CHR ''z'', CHR ''z'', CHR 0xEF, CHR 0xBC, CHR 0x9B, CHR 0xE5, CHR 0x90, CHR 0xA6, CHR 0xE5, CHR 0x88, CHR 0x99,
      CHR 0xE8, CHR 0xBE, CHR 0x93, CHR 0xE5, CHR 0x87, CHR 0xBA, CHR '' '', CHR ''i'', CHR '' '', CHR 0xE6, CHR 0x9C,
      CHR 0xAC, CHR 0xE8, CHR 0xBA, CHR 0xAB, CHR 0xE3, CHR 0x80, CHR 0x82, CHR 0x0A, CHR 0x0A, CHR 0xE8, CHR 0xBE,
      CHR 0x93, CHR 0xE5, CHR 0x85, CHR 0xA5, CHR 0xE6, CHR 0xA0, CHR 0xBC, CHR 0xE5, CHR 0xBC, CHR 0x8F, CHR 0xEF,
      CHR 0xBC, CHR 0x9A, CHR 0x0A, CHR 0xE4, CHR 0xB8, CHR 0x80, CHR 0xE4, CHR 0xB8, CHR 0xAA, CHR 0xE6, CHR 0x95,
      CHR 0xB4, CHR 0xE6, CHR 0x95, CHR 0xB0, CHR '' '', CHR ''n'', CHR 0xEF, CHR 0xBC, CHR 0x88, CHR 0x31, CHR '' '',
      CHR ''<'', CHR ''='', CHR '' '', CHR ''n'', CHR '' '', CHR ''<'', CHR ''='', CHR '' '', CHR 0x31, CHR 0x30, CHR 0x30,
      CHR 0x30, CHR 0x30, CHR 0x30, CHR 0xEF, CHR 0xBC, CHR 0x89, CHR 0xE3, CHR 0x80, CHR 0x82, CHR 0x0A, CHR 0x0A,
      CHR 0xE8, CHR 0xBE, CHR 0x93, CHR 0xE5, CHR 0x87, CHR 0xBA, CHR 0xE6, CHR 0xA0, CHR 0xBC, CHR 0xE5, CHR 0xBC,
      CHR 0x8F, CHR 0xEF, CHR 0xBC, CHR 0x9A, CHR 0x0A, CHR 0xE5, CHR 0x85, CHR 0xB1, CHR '' '', CHR ''n'', CHR '' '',
      CHR 0xE8, CHR 0xA1, CHR 0x8C, CHR 0xEF, CHR 0xBC, CHR 0x8C, CHR 0xE6, CHR 0xAF, CHR 0x8F, CHR 0xE8, CHR 0xA1,
      CHR 0x8C, CHR 0xE5, CHR 0xAF, CHR 0xB9, CHR 0xE5, CHR 0xBA, CHR 0x94, CHR 0xE4, CHR 0xB8, CHR 0x80, CHR 0xE4,
      CHR 0xB8, CHR 0xAA, CHR 0xE6, CHR 0x95, CHR 0xB0, CHR 0xE5, CHR 0xAD, CHR 0x97, CHR 0xE3, CHR 0x80, CHR 0x82, CHR 0x0A],
    sd_difficulty = ''easy'',
    sd_tags =
     [CHR 0xE6, CHR 0x95, CHR 0xB0, CHR 0xE5, CHR 0xAD, CHR 0xA6, CHR '','', CHR 0xE5, CHR 0xAD, CHR 0x97, CHR 0xE7,
      CHR 0xAC, CHR 0xA6, CHR 0xE4, CHR 0xB8, CHR 0xB2, CHR '','', CHR 0xE6, CHR 0xA8, CHR 0xA1, CHR 0xE6, CHR 0x8B,
      CHR 0x9F],
    sd_time_limit_ms = 2000, sd_memory_limit_kb = 65536, sd_visible = 1,
    sd_cases =
     [\<lparr>sc_input = [CHR 0x33, CHR 0x0A],
      sc_output = [CHR 0x31, CHR 0x0A, CHR 0x32, CHR 0x0A, CHR ''F'', CHR ''i'', CHR ''z'', CHR ''z'', CHR 0x0A], sc_is_sample = True\<rparr>,
      \<lparr>sc_input = [CHR 0x35, CHR 0x0A],
      sc_output = [CHR 0x31, CHR 0x0A, CHR 0x32, CHR 0x0A, CHR ''F'', CHR ''i'', CHR ''z'', CHR ''z'', CHR 0x0A, CHR 0x34, CHR 0x0A,
      CHR ''B'', CHR ''u'', CHR ''z'', CHR ''z'', CHR 0x0A], sc_is_sample = True\<rparr>,
      \<lparr>sc_input = [CHR 0x31, CHR 0x0A],
      sc_output = [CHR 0x31, CHR 0x0A], sc_is_sample = False\<rparr>,
      \<lparr>sc_input = [CHR 0x31, CHR 0x35, CHR 0x0A],
      sc_output = [CHR 0x31, CHR 0x0A, CHR 0x32, CHR 0x0A, CHR ''F'', CHR ''i'', CHR ''z'', CHR ''z'', CHR 0x0A, CHR 0x34, CHR 0x0A,
      CHR ''B'', CHR ''u'', CHR ''z'', CHR ''z'', CHR 0x0A, CHR ''F'', CHR ''i'', CHR ''z'', CHR ''z'', CHR 0x0A, CHR 0x37,
      CHR 0x0A, CHR 0x38, CHR 0x0A, CHR ''F'', CHR ''i'', CHR ''z'', CHR ''z'', CHR 0x0A, CHR ''B'', CHR ''u'', CHR ''z'',
      CHR ''z'', CHR 0x0A, CHR 0x31, CHR 0x31, CHR 0x0A, CHR ''F'', CHR ''i'', CHR ''z'', CHR ''z'', CHR 0x0A, CHR 0x31,
      CHR 0x33, CHR 0x0A, CHR 0x31, CHR 0x34, CHR 0x0A, CHR ''F'', CHR ''i'', CHR ''z'', CHR ''z'', CHR ''B'', CHR ''u'',
      CHR ''z'', CHR ''z'', CHR 0x0A], sc_is_sample = False\<rparr>]\<rparr>"

definition builtin_seeds :: "seed_problem list" where
  "builtin_seeds =
    [seed_a_plus_b, seed_sum_of_integers, seed_max_value, seed_two_sum, seed_palindrome_number,
     seed_roman_to_integer, seed_longest_common_prefix, seed_valid_parentheses, seed_remove_duplicates_sorted_array,
     seed_remove_element, seed_implement_strstr, seed_search_insert_position, seed_maximum_subarray,
     seed_length_of_last_word, seed_plus_one, seed_add_binary, seed_climbing_stairs, seed_merge_sorted_array,
     seed_best_time_buy_sell_stock, seed_valid_palindrome, seed_single_number, seed_majority_element,
     seed_factorial_trailing_zeroes, seed_house_robber, seed_happy_number, seed_count_primes,
     seed_isomorphic_strings, seed_contains_duplicate, seed_valid_anagram, seed_missing_number, seed_move_zeroes,
     seed_word_pattern, seed_power_of_three, seed_reverse_vowels_of_a_string, seed_intersection_of_two_arrays,
     seed_intersection_of_two_arrays_ii, seed_valid_perfect_square, seed_ransom_note, seed_first_unique_character,
     seed_is_subsequence, seed_fizz_buzz]"

end
