(* ===== verification/OJ_Seed.thy ===== *)
theory OJ_Seed
  imports OJ_Problems OJ_Seed_Data
begin

text \<open>
  Importing the built-in problems (\<open>db/seed.cpp\<close>): each problem that is not there yet, by its stable key, is written with all its test
  cases in one transaction. The import is stated against a pure function on the tables, under every schedule of
  faults.
\<close>

section \<open>The import\<close>

definition seed_exists :: "string \<Rightarrow> (db_error, bool) dbm" where
  "seed_exists seed_key = sql_read (\<lambda>t. Some seed_key \<in> pb_seed_key ` set (tb_problems t))"

definition seed_row :: "seed_problem \<Rightarrow> string \<Rightarrow> int \<Rightarrow> problem_row" where
  "seed_row seed now i =
     \<lparr>pb_id = i, pb_title = sd_title seed, pb_description = sd_description seed, pb_difficulty = sd_difficulty seed,
      pb_tags = sd_tags seed, pb_time_limit_ms = sd_time_limit_ms seed, pb_memory_limit_kb = sd_memory_limit_kb seed,
      pb_visible = sd_visible seed, pb_seed_key = Some (sd_seed_key seed), pb_created_at = now, pb_updated_at = now\<rparr>"

definition insert_seed_problem :: "seed_problem \<Rightarrow> string \<Rightarrow> tables \<Rightarrow> db_error + (int \<times> tables)" where
  "insert_seed_problem seed now t =
     (if sd_difficulty seed \<notin> set difficulties then Inl (ConstraintViolation ''CHECK constraint failed: problems'')
      else if Some (sd_seed_key seed) \<in> pb_seed_key ` set (tb_problems t) then Inl (UniqueViolation ''problems.seed_key'')
      else let i = tb_problems_seq t + 1 in
        Inr (i, t\<lparr>tb_problems := tb_problems t @ [seed_row seed now i], tb_problems_seq := i\<rparr>))"

fun insert_seed_cases :: "int \<Rightarrow> nat \<Rightarrow> seed_testcase list \<Rightarrow> (db_error, unit) dbm" where
  "insert_seed_cases pid i [] = db_ret ()"
| "insert_seed_cases pid i (c # cs) =
     db_bind (sql (insert_testcase pid (int i) (sc_input c) (sc_output c) (if sc_is_sample c then 1 else 0)))
       (\<lambda>_. insert_seed_cases pid (Suc i) cs)"

definition insert_seed :: "seed_problem \<Rightarrow> (db_error, unit) dbm" where
  "insert_seed seed = db_bind (sql_at (insert_seed_problem seed)) (\<lambda>pid. insert_seed_cases pid 0 (sd_cases seed))"

fun import_seeds :: "seed_problem list \<Rightarrow> int \<Rightarrow> (string, int) dbm" where
  "import_seeds [] created = db_ret created"
| "import_seeds (seed # seeds) created =
     db_bind (db_map_error errmsg (seed_exists (sd_seed_key seed))) (\<lambda>exists.
       if exists then import_seeds seeds created
       else db_bind (with_txn errmsg (db_map_error errmsg (insert_seed seed))) (\<lambda>_. import_seeds seeds (created + 1)))"

definition import_seed_problems :: "(string, int) dbm" where
  "import_seed_problems = import_seeds builtin_seeds 0"

section \<open>Its meaning on the tables\<close>

fun add_cases :: "int \<Rightarrow> nat \<Rightarrow> seed_testcase list \<Rightarrow> tables \<Rightarrow> tables" where
  "add_cases pid i [] t = t"
| "add_cases pid i (c # cs) t = add_cases pid (Suc i) cs (t\<lparr>tb_testcases := tb_testcases t @
     [\<lparr>ts_id = tb_testcases_seq t + 1, ts_problem_id = pid, ts_ord = int i, ts_input = sc_input c, ts_output = sc_output c,
       ts_is_sample = (if sc_is_sample c then 1 else 0)\<rparr>], tb_testcases_seq := tb_testcases_seq t + 1\<rparr>)"

definition has_seed :: "seed_problem \<Rightarrow> tables \<Rightarrow> bool" where
  "has_seed seed t \<longleftrightarrow> Some (sd_seed_key seed) \<in> pb_seed_key ` set (tb_problems t)"

definition add_seed :: "string \<Rightarrow> tables \<Rightarrow> seed_problem \<Rightarrow> tables" where
  "add_seed now t seed =
     (if has_seed seed t then t
      else let i = tb_problems_seq t + 1 in
        add_cases i 0 (sd_cases seed) (t\<lparr>tb_problems := tb_problems t @ [seed_row seed now i], tb_problems_seq := i\<rparr>))"

lemma add_cases_problems [simp]: "tb_problems (add_cases pid i cs t) = tb_problems t"
  by (induction pid i cs t rule: add_cases.induct) simp_all

lemma has_seed_add: "has_seed s (add_seed now t seed) \<longleftrightarrow> has_seed s t \<or> sd_seed_key s = sd_seed_key seed"
  by (auto simp: add_seed_def has_seed_def Let_def seed_row_def)

lemma has_seed_foldl: "has_seed s (foldl (add_seed now) t seeds) \<longleftrightarrow> has_seed s t \<or> sd_seed_key s \<in> sd_seed_key ` set seeds"
  by (induction seeds arbitrary: t) (auto simp: has_seed_add)

text \<open>Importing what is already there changes nothing.\<close>

lemma add_seeds_id: "\<forall>s \<in> set seeds. has_seed s t \<Longrightarrow> foldl (add_seed now) t seeds = t"
  by (induction seeds) (simp_all add: add_seed_def)

lemma insert_seed_cases_Inr:
  assumes "insert_seed_cases pid i cs d = (Inr u, d')" and "pid \<in> problem_ids (db_cur d)"
  shows "db_cur d' = add_cases pid i cs (db_cur d) \<and> db_snap d' = db_snap d \<and> db_now d' = db_now d"
  using assms
proof (induction cs arbitrary: i d)
  case Nil
  then show ?case by (simp add: db_ret_def)
next
  case (Cons c cs)
  from Cons.prems(1) obtain a d1 where
      1: "sql (insert_testcase pid (int i) (sc_input c) (sc_output c) (if sc_is_sample c then 1 else 0)) d = (Inr a, d1)"
    and 2: "insert_seed_cases pid (Suc i) cs d1 = (Inr u, d')"
    by (auto elim!: db_bind_InrE)
  from sql_Inr[OF 1] Cons.prems(2) have cur: "db_cur d1 = (db_cur d)\<lparr>tb_testcases := tb_testcases (db_cur d) @
     [\<lparr>ts_id = tb_testcases_seq (db_cur d) + 1, ts_problem_id = pid, ts_ord = int i, ts_input = sc_input c, ts_output = sc_output c,
       ts_is_sample = (if sc_is_sample c then 1 else 0)\<rparr>], tb_testcases_seq := tb_testcases_seq (db_cur d) + 1\<rparr>"
    by (auto simp: insert_testcase_def Let_def)
  then have "pid \<in> problem_ids (db_cur d1)" using Cons.prems(2) by (simp add: problem_ids_def)
  with Cons.IH[OF 2] sql_Inr(2,3)[OF 1] cur show ?case by simp
qed

lemma insert_seed_Inr:
  assumes "insert_seed seed d = (Inr u, d')"
  shows "db_cur d' = add_seed (db_now d) (db_cur d) seed \<and> \<not> has_seed seed (db_cur d) \<and> db_now d' = db_now d"
proof -
  from assms obtain pid d1 where 1: "sql_at (insert_seed_problem seed) d = (Inr pid, d1)"
    and 2: "insert_seed_cases pid 0 (sd_cases seed) d1 = (Inr u, d')"
    unfolding insert_seed_def by (auto elim!: db_bind_InrE)
  from 1 have f: "insert_seed_problem seed (db_now d) (db_cur d) = Inr (pid, db_cur d1)" "db_now d1 = db_now d"
    by (auto elim: sql_at_InrE)
  then have new: "\<not> has_seed seed (db_cur d)" and pid: "pid = tb_problems_seq (db_cur d) + 1"
    and cur: "db_cur d1 = (db_cur d)\<lparr>tb_problems := tb_problems (db_cur d) @ [seed_row seed (db_now d) pid], tb_problems_seq := pid\<rparr>"
    by (auto simp: insert_seed_problem_def has_seed_def Let_def split: if_splits)
  have "pid \<in> problem_ids (db_cur d1)" unfolding cur by (simp add: problem_ids_def seed_row_def)
  from insert_seed_cases_Inr[OF 2 this] cur new pid f(2) show ?thesis by (simp add: add_seed_def Let_def)
qed

lemma txn_body_insert_seed_cases [db_intros]: "txn_body (insert_seed_cases pid i cs)"
  by (induction pid i cs rule: insert_seed_cases.induct) (auto intro!: db_intros)

lemma txn_body_insert_seed [db_intros]: "txn_body (insert_seed seed)"
  unfolding insert_seed_def by (intro db_intros)

lemma db_commit_now: "db_commit d = (r, d') \<Longrightarrow> db_now d' = db_now d"
  by (auto simp: db_commit_def next_fault_def undo_def split: list.splits fault.splits if_splits option.splits)

lemma import_one:
  assumes "db_snap d = None" and "with_txn errmsg (db_map_error errmsg (insert_seed seed)) d = (r, d')"
  shows "db_snap d' = None"
    and "r = Inl e \<Longrightarrow> db_cur d' = db_cur d"
    and "r = Inr u \<Longrightarrow> db_cur d' = add_seed (db_now d) (db_cur d) seed \<and> db_now d' = db_now d"
proof -
  let ?body = "db_map_error errmsg (insert_seed seed)"
  have body: "txn_body ?body" by (intro db_intros)
  show "db_snap d' = None" using with_txn_closed[OF assms(1), of errmsg ?body] assms(2) by simp
  show "r = Inl e \<Longrightarrow> db_cur d' = db_cur d" using with_txn_Inl[OF body assms(1)] assms(2) by blast
  show "r = Inr u \<Longrightarrow> db_cur d' = add_seed (db_now d) (db_cur d) seed \<and> db_now d' = db_now d"
  proof -
    assume "r = Inr u"
    with assms(2) obtain a d1 d2 v where b: "db_begin d = (Inr a, d1)" and d2: "?body d1 = (Inr u, d2)"
      and c: "db_commit d2 = (Inr v, d')"
      by (auto simp: with_txn_def split: prod.splits sum.splits)
    from d2 have "insert_seed seed d1 = (Inr u, d2)" by (rule db_map_error_InrE)
    from insert_seed_Inr[OF this] db_begin_Inr[OF b] db_commit_Inr[OF c] db_commit_now[OF c] show ?thesis by simp
  qed
qed

text \<open>Every outcome is the import of a prefix of the list; success is the import of all of it.\<close>

lemma import_seeds_prefix:
  assumes "db_snap d = None" and "import_seeds seeds n d = (r, d')"
  shows "db_snap d' = None \<and> (\<exists>k \<le> length seeds. db_cur d' = foldl (add_seed (db_now d)) (db_cur d) (take k seeds)
     \<and> (\<forall>m. r = Inr m \<longrightarrow> k = length seeds))"
  using assms
proof (induction seeds arbitrary: n d)
  case Nil
  then show ?case by (simp add: db_ret_def)
next
  case (Cons seed seeds)
  let ?check = "db_map_error errmsg (seed_exists (sd_seed_key seed))"
  obtain x d1 where x: "?check d = (x, d1)" by force
  have closed: "db_snap d1 = None" and cur: "db_cur d1 = db_cur d" and now: "db_now d1 = db_now d"
    using x Cons.prems(1) unfolding seed_exists_def sql_read_def sql_def
    by (auto simp: db_map_error_def undo_def next_fault_def split: list.splits fault.splits)
  show ?case
  proof (cases x)
    case (Inl e)
    with Cons.prems(2) x have "d' = d1" "\<nexists>m. r = Inr m" by (auto simp: db_bind_def)
    with closed cur show ?thesis by (intro conjI exI[of _ 0]) auto
  next
    case (Inr ex)
    with x have ex: "ex \<longleftrightarrow> has_seed seed (db_cur d)"
      by (auto simp: seed_exists_def has_seed_def elim!: db_map_error_InrE sql_read_InrE)
    show ?thesis
    proof (cases ex)
      case True
      with Cons.prems(2) x Inr have "import_seeds seeds n d1 = (r, d')" by (simp add: db_bind_def)
      from Cons.IH[OF closed this] cur now obtain k where k: "db_snap d' = None" "k \<le> length seeds"
        "db_cur d' = foldl (add_seed (db_now d)) (db_cur d) (take k seeds)" "\<forall>m. r = Inr m \<longrightarrow> k = length seeds" by auto
      moreover have "add_seed (db_now d) (db_cur d) seed = db_cur d" using ex True by (simp add: add_seed_def)
      ultimately show ?thesis by (intro conjI exI[of _ "Suc k"]) auto
    next
      case False
      let ?one = "with_txn errmsg (db_map_error errmsg (insert_seed seed))"
      obtain y d2 where y: "?one d1 = (y, d2)" by force
      note one = import_one[OF closed y]
      show ?thesis
      proof (cases y)
        case (Inl e)
        with Cons.prems(2) x Inr False y have "d' = d2" "\<nexists>m. r = Inr m" by (auto simp: db_bind_def)
        with one(1) one(2)[OF Inl] cur show ?thesis by (intro conjI exI[of _ 0]) auto
      next
        case inr: (Inr u)
        with Cons.prems(2) x Inr False y have "import_seeds seeds (n + 1) d2 = (r, d')" by (simp add: db_bind_def)
        from Cons.IH[OF one(1) this] one(3)[OF inr] cur now obtain k where k: "db_snap d' = None" "k \<le> length seeds"
          "db_cur d' = foldl (add_seed (db_now d)) (add_seed (db_now d) (db_cur d) seed) (take k seeds)"
          "\<forall>m. r = Inr m \<longrightarrow> k = length seeds" by auto
        then show ?thesis by (intro conjI exI[of _ "Suc k"]) auto
      qed
    qed
  qed
qed

section \<open>The built-in problems are valid\<close>

text \<open>
  A built-in problem is valid when it has a key and a title, a known difficulty, limits that an administrator could have set, and both a
  public sample and a hidden case, so that it can be solved and judged as soon as it is imported.
\<close>

definition seed_valid :: "seed_problem \<Rightarrow> bool" where
  "seed_valid seed \<longleftrightarrow> sd_seed_key seed \<noteq> [] \<and> sd_title seed \<noteq> [] \<and> is_valid_difficulty (sd_difficulty seed)
     \<and> sd_difficulty seed \<in> set difficulties
     \<and> 1 \<le> sd_time_limit_ms seed \<and> sd_time_limit_ms seed \<le> 60000 \<and> 1 \<le> sd_memory_limit_kb seed \<and> sd_memory_limit_kb seed \<le> 1048576
     \<and> sd_visible seed = 1 \<and> list_ex sc_is_sample (sd_cases seed) \<and> list_ex (\<lambda>c. \<not> sc_is_sample c) (sd_cases seed)"

lemmas seed_valid_simps = seed_valid_def is_valid_difficulty_def difficulties_def

lemma seeds_valid_1:
  "seed_valid seed_a_plus_b" "seed_valid seed_sum_of_integers" "seed_valid seed_max_value" "seed_valid seed_two_sum" "seed_valid seed_palindrome_number" "seed_valid seed_roman_to_integer" "seed_valid seed_longest_common_prefix"
  unfolding seed_a_plus_b_def seed_sum_of_integers_def seed_max_value_def seed_two_sum_def seed_palindrome_number_def seed_roman_to_integer_def seed_longest_common_prefix_def
  by (simp_all add: seed_valid_simps)

lemma seeds_valid_2:
  "seed_valid seed_valid_parentheses" "seed_valid seed_remove_duplicates_sorted_array" "seed_valid seed_remove_element" "seed_valid seed_implement_strstr" "seed_valid seed_search_insert_position" "seed_valid seed_maximum_subarray" "seed_valid seed_length_of_last_word"
  unfolding seed_valid_parentheses_def seed_remove_duplicates_sorted_array_def seed_remove_element_def seed_implement_strstr_def seed_search_insert_position_def seed_maximum_subarray_def seed_length_of_last_word_def
  by (simp_all add: seed_valid_simps)

lemma seeds_valid_3:
  "seed_valid seed_plus_one" "seed_valid seed_add_binary" "seed_valid seed_climbing_stairs" "seed_valid seed_merge_sorted_array" "seed_valid seed_best_time_buy_sell_stock" "seed_valid seed_valid_palindrome" "seed_valid seed_single_number"
  unfolding seed_plus_one_def seed_add_binary_def seed_climbing_stairs_def seed_merge_sorted_array_def seed_best_time_buy_sell_stock_def seed_valid_palindrome_def seed_single_number_def
  by (simp_all add: seed_valid_simps)

lemma seeds_valid_4:
  "seed_valid seed_majority_element" "seed_valid seed_factorial_trailing_zeroes" "seed_valid seed_house_robber" "seed_valid seed_happy_number" "seed_valid seed_count_primes" "seed_valid seed_isomorphic_strings" "seed_valid seed_contains_duplicate"
  unfolding seed_majority_element_def seed_factorial_trailing_zeroes_def seed_house_robber_def seed_happy_number_def seed_count_primes_def seed_isomorphic_strings_def seed_contains_duplicate_def
  by (simp_all add: seed_valid_simps)

lemma seeds_valid_5:
  "seed_valid seed_valid_anagram" "seed_valid seed_missing_number" "seed_valid seed_move_zeroes" "seed_valid seed_word_pattern" "seed_valid seed_power_of_three" "seed_valid seed_reverse_vowels_of_a_string" "seed_valid seed_intersection_of_two_arrays"
  unfolding seed_valid_anagram_def seed_missing_number_def seed_move_zeroes_def seed_word_pattern_def seed_power_of_three_def seed_reverse_vowels_of_a_string_def seed_intersection_of_two_arrays_def
  by (simp_all add: seed_valid_simps)

lemma seeds_valid_6:
  "seed_valid seed_intersection_of_two_arrays_ii" "seed_valid seed_valid_perfect_square" "seed_valid seed_ransom_note" "seed_valid seed_first_unique_character" "seed_valid seed_is_subsequence" "seed_valid seed_fizz_buzz"
  unfolding seed_intersection_of_two_arrays_ii_def seed_valid_perfect_square_def seed_ransom_note_def seed_first_unique_character_def seed_is_subsequence_def seed_fizz_buzz_def
  by (simp_all add: seed_valid_simps)

lemma builtin_seeds_all_valid: "list_all seed_valid builtin_seeds"
  unfolding builtin_seeds_def
  by (simp add: seeds_valid_1 seeds_valid_2 seeds_valid_3 seeds_valid_4 seeds_valid_5 seeds_valid_6)

lemma seed_keys: "map sd_seed_key builtin_seeds =
    [''a-plus-b'', ''sum-of-integers'', ''max-value'', ''two-sum'', ''palindrome-number'', ''roman-to-integer'',
     ''longest-common-prefix'', ''valid-parentheses'', ''remove-duplicates-sorted-array'', ''remove-element'',
     ''implement-strstr'', ''search-insert-position'', ''maximum-subarray'', ''length-of-last-word'', ''plus-one'',
     ''add-binary'', ''climbing-stairs'', ''merge-sorted-array'', ''best-time-buy-sell-stock'', ''valid-palindrome'',
     ''single-number'', ''majority-element'', ''factorial-trailing-zeroes'', ''house-robber'', ''happy-number'',
     ''count-primes'', ''isomorphic-strings'', ''contains-duplicate'', ''valid-anagram'', ''missing-number'',
     ''move-zeroes'', ''word-pattern'', ''power-of-three'', ''reverse-vowels-of-a-string'',
     ''intersection-of-two-arrays'', ''intersection-of-two-arrays-ii'', ''valid-perfect-square'', ''ransom-note'',
     ''first-unique-character'', ''is-subsequence'', ''fizz-buzz'']"
  unfolding builtin_seeds_def
  by (simp add: seed_a_plus_b_def seed_sum_of_integers_def seed_max_value_def seed_two_sum_def seed_palindrome_number_def
      seed_roman_to_integer_def seed_longest_common_prefix_def seed_valid_parentheses_def
      seed_remove_duplicates_sorted_array_def seed_remove_element_def seed_implement_strstr_def
      seed_search_insert_position_def seed_maximum_subarray_def seed_length_of_last_word_def seed_plus_one_def
      seed_add_binary_def seed_climbing_stairs_def seed_merge_sorted_array_def seed_best_time_buy_sell_stock_def
      seed_valid_palindrome_def seed_single_number_def seed_majority_element_def seed_factorial_trailing_zeroes_def
      seed_house_robber_def seed_happy_number_def seed_count_primes_def seed_isomorphic_strings_def
      seed_contains_duplicate_def seed_valid_anagram_def seed_missing_number_def seed_move_zeroes_def
      seed_word_pattern_def seed_power_of_three_def seed_reverse_vowels_of_a_string_def
      seed_intersection_of_two_arrays_def seed_intersection_of_two_arrays_ii_def seed_valid_perfect_square_def
      seed_ransom_note_def seed_first_unique_character_def seed_is_subsequence_def seed_fizz_buzz_def)

lemma seed_keys_distinct: "distinct (map sd_seed_key builtin_seeds)"
  by (simp add: seed_keys)

section \<open>Properties of the import\<close>

lemma insert_seed_cases_quiet:
  assumes "db_faults d = []" and "pid \<in> problem_ids (db_cur d)"
  shows "\<exists>d'. insert_seed_cases pid i cs d = (Inr (), d') \<and> db_faults d' = [] \<and> db_snap d' = db_snap d"
  using assms
proof (induction cs arbitrary: i d)
  case Nil
  then show ?case by (simp add: db_ret_def)
next
  case (Cons c cs)
  let ?ins = "insert_testcase pid (int i) (sc_input c) (sc_output c) (if sc_is_sample c then 1 else 0)"
  obtain a t where ins: "?ins (db_cur d) = Inr (a, t)" "problem_ids t = problem_ids (db_cur d)"
    using Cons.prems(2) by (simp add: insert_testcase_def Let_def problem_ids_def)
  have "\<exists>d'. insert_seed_cases pid (Suc i) cs (d\<lparr>db_cur := t\<rparr>) = (Inr (), d') \<and> db_faults d' = [] \<and> db_snap d' = db_snap d"
    using Cons.IH[of "d\<lparr>db_cur := t\<rparr>" "Suc i"] Cons.prems ins(2) by simp
  with Cons.prems(1) ins(1) show ?case by (simp add: db_bind_def sql_quiet)
qed

lemma insert_seed_quiet:
  assumes "db_faults d = []" and "seed_valid seed" and "\<not> has_seed seed (db_cur d)"
  shows "\<exists>d'. insert_seed seed d = (Inr (), d') \<and> db_faults d' = [] \<and> db_snap d' = db_snap d"
proof -
  obtain pid t where ins: "insert_seed_problem seed (db_now d) (db_cur d) = Inr (pid, t)" "pid \<in> problem_ids t"
    using assms(2,3) by (simp add: insert_seed_problem_def seed_valid_def has_seed_def Let_def problem_ids_def seed_row_def)
  then have "\<exists>d'. insert_seed_cases pid 0 (sd_cases seed) (d\<lparr>db_cur := t\<rparr>) = (Inr (), d') \<and> db_faults d' = [] \<and> db_snap d' = db_snap d"
    using insert_seed_cases_quiet[of "d\<lparr>db_cur := t\<rparr>" pid 0 "sd_cases seed"] assms(1) by simp
  with ins(1) assms(1) show ?thesis by (simp add: insert_seed_def db_bind_def sql_at_quiet)
qed

lemma import_seeds_quiet:
  assumes "db_faults d = []" and "db_snap d = None" and "list_all seed_valid seeds"
  shows "\<exists>m d'. import_seeds seeds n d = (Inr m, d')"
  using assms
proof (induction seeds arbitrary: n d)
  case Nil
  then show ?case by (simp add: db_ret_def)
next
  case (Cons seed seeds)
  have check: "db_map_error errmsg (seed_exists (sd_seed_key seed)) d = (Inr (has_seed seed (db_cur d)), d)"
    using Cons.prems(1) by (simp add: seed_exists_def has_seed_def db_map_error_def sql_read_quiet)
  show ?case
  proof (cases "has_seed seed (db_cur d)")
    case True
    with check Cons show ?thesis by (simp add: db_bind_def)
  next
    case False
    let ?body = "db_map_error errmsg (insert_seed seed)" and ?d = "d\<lparr>db_snap := Some (db_cur d)\<rparr>"
    obtain d2 where "insert_seed seed ?d = (Inr (), d2)" and d2: "db_faults d2 = []" "db_snap d2 = db_snap ?d"
      using insert_seed_quiet[of ?d seed] Cons.prems False by auto
    then have "?body ?d = (Inr (), d2)" by (simp add: db_map_error_def)
    with d2 Cons.prems(1,2) have one: "with_txn errmsg ?body d = (Inr (), d2\<lparr>db_snap := None\<rparr>)" by (intro with_txn_quiet) auto
    have "\<exists>m d'. import_seeds seeds (n + 1) (d2\<lparr>db_snap := None\<rparr>) = (Inr m, d')"
      by (rule Cons.IH) (use d2 Cons.prems(3) in auto)
    with check False one show ?thesis by (simp add: db_bind_def)
  qed
qed

lemma add_cases_extends: "\<exists>new. tb_testcases (add_cases pid i cs t) = tb_testcases t @ new"
  by (induction pid i cs t rule: add_cases.induct) auto

lemma add_seed_extends:
  "\<exists>ps cs. tb_problems (add_seed now t seed) = tb_problems t @ ps \<and> tb_testcases (add_seed now t seed) = tb_testcases t @ cs"
proof (cases "has_seed seed t")
  case False
  let ?t = "t\<lparr>tb_problems := tb_problems t @ [seed_row seed now (tb_problems_seq t + 1)], tb_problems_seq := tb_problems_seq t + 1\<rparr>"
  obtain new where "tb_testcases (add_cases (tb_problems_seq t + 1) 0 (sd_cases seed) ?t) = tb_testcases ?t @ new"
    using add_cases_extends by blast
  with False show ?thesis by (simp add: add_seed_def Let_def)
qed (simp add: add_seed_def)

lemma add_seeds_extend:
  "\<exists>ps cs. tb_problems (foldl (add_seed now) t seeds) = tb_problems t @ ps \<and> tb_testcases (foldl (add_seed now) t seeds) = tb_testcases t @ cs"
proof (induction seeds arbitrary: t)
  case (Cons seed seeds)
  obtain ps cs where 1: "tb_problems (foldl (add_seed now) (add_seed now t seed) seeds) = tb_problems (add_seed now t seed) @ ps"
    "tb_testcases (foldl (add_seed now) (add_seed now t seed) seeds) = tb_testcases (add_seed now t seed) @ cs"
    using Cons by blast
  moreover obtain ps' cs' where "tb_problems (add_seed now t seed) = tb_problems t @ ps'" "tb_testcases (add_seed now t seed) = tb_testcases t @ cs'"
    using add_seed_extends by blast
  ultimately show ?case by auto
qed simp

text \<open>
  C35: importing the built-in problems is atomic per problem, additive and idempotent. Whatever statements fail, the tables are those after
  importing some first problems of the list completely, nothing that was there before is changed, and no transaction is
  left open. A successful import has all problems, and repeating it changes nothing. Without faults of the
  database the import succeeds, because the built-in problems have distinct keys and valid data.
\<close>

theorem import_seed_outcome:
  assumes "db_snap d = None" and "import_seed_problems d = (r, d')"
  shows "db_snap d' = None
    \<and> (\<exists>k \<le> length builtin_seeds. db_cur d' = foldl (add_seed (db_now d)) (db_cur d) (take k builtin_seeds))
    \<and> (\<exists>ps cs. tb_problems (db_cur d') = tb_problems (db_cur d) @ ps \<and> tb_testcases (db_cur d') = tb_testcases (db_cur d) @ cs)
    \<and> (\<forall>m now. r = Inr m \<longrightarrow> (\<forall>s \<in> set builtin_seeds. has_seed s (db_cur d'))
         \<and> foldl (add_seed now) (db_cur d') builtin_seeds = db_cur d')
    \<and> (db_faults d = [] \<longrightarrow> (\<exists>m. r = Inr m))
    \<and> distinct (map sd_seed_key builtin_seeds) \<and> list_all seed_valid builtin_seeds"
proof -
  from import_seeds_prefix[OF assms(1) assms(2)[unfolded import_seed_problems_def]] obtain k where
    k: "db_snap d' = None" "k \<le> length builtin_seeds" "db_cur d' = foldl (add_seed (db_now d)) (db_cur d) (take k builtin_seeds)"
      "\<forall>m. r = Inr m \<longrightarrow> k = length builtin_seeds" by blast
  have all: "\<forall>s \<in> set builtin_seeds. has_seed s (db_cur d')" if "r = Inr m" for m
    using k(3,4) that by (auto simp: has_seed_foldl)
  have "\<exists>m. r = Inr m" if "db_faults d = []"
    using import_seeds_quiet[OF that assms(1) builtin_seeds_all_valid, of 0] assms(2) by (auto simp: import_seed_problems_def)
  with k all add_seeds_id add_seeds_extend[of "db_now d" "db_cur d" "take k builtin_seeds"] seed_keys_distinct builtin_seeds_all_valid
  show ?thesis by (metis (no_types, lifting))
qed

definition seed_demo_db :: db where
  "seed_demo_db = \<lparr>db_cur = empty_tables, db_snap = None, db_faults = [], db_now = ''2026-01-01 00:00:00''\<rparr>"

theorem import_seed_outcome_witness: "\<exists>m d'. import_seed_problems seed_demo_db = (Inr m, d') \<and> has_seed seed_a_plus_b (db_cur d')"
proof -
  obtain r d' where run: "import_seed_problems seed_demo_db = (r, d')" by force
  have "db_snap seed_demo_db = None" "db_faults seed_demo_db = []" by (simp_all add: seed_demo_db_def)
  with import_seed_outcome[OF _ run] obtain m where "r = Inr m" "\<forall>s \<in> set builtin_seeds. has_seed s (db_cur d')" by auto
  moreover have "seed_a_plus_b \<in> set builtin_seeds" unfolding builtin_seeds_def list.set by (rule insertI1)
  ultimately show ?thesis using run by blast
qed

end
