(* ===== verification/OJ_Workspace.thy ===== *)
theory OJ_Workspace
  imports OJ_Sandbox OJ_Config
begin

text \<open>
  Working directories of judge tasks (\<open>judge/workspace.cpp\<close>) and the lock that keeps two services from sharing a database
  (\<open>db/instance_lock.cpp\<close>). The file system answers through parameters; what these components may remove, and who may hold
  the lock, is what the results are about.
\<close>

section \<open>Working directories\<close>

record workspace =
  ws_path :: string
  ws_base :: string

datatype file_kind = KindDirectory | KindSymlink | KindOther

text \<open>The file system as cleaning up sees it: canonical paths, kind of a path or an error, existence.\<close>

record workspace_fs =
  wf_canonical :: "string \<Rightarrow> string option"
  wf_kind :: "string \<Rightarrow> string + file_kind"
  wf_exists :: "string \<Rightarrow> bool"

datatype cleanup_action =
    NothingToClean
  | SkippedOutside
  | StatusUnreadable string
  | RemoveLink string
  | RemoveTree string

definition ws_cleanup :: "workspace_fs \<Rightarrow> workspace \<Rightarrow> cleanup_action" where
  "ws_cleanup fs w =
     (if ws_path w = [] then NothingToClean
      else if ws_base w \<noteq> []
        \<and> (case (wf_canonical fs (parent_path (ws_path w)), wf_canonical fs (ws_base w)) of
             (Some parent, Some expected) \<Rightarrow> parent \<noteq> expected | _ \<Rightarrow> True)
      then SkippedOutside
      else case wf_kind fs (ws_path w) of
        Inl e \<Rightarrow> if wf_exists fs (ws_path w) then StatusUnreadable e else NothingToClean
      | Inr KindSymlink \<Rightarrow> RemoveLink (ws_path w)
      | Inr KindDirectory \<Rightarrow> RemoveTree (ws_path w)
      | Inr KindOther \<Rightarrow> NothingToClean)"

text \<open>Moving a working directory leaves an empty one behind; assigning from another one cleans up the target first.\<close>

definition ws_empty :: workspace where
  "ws_empty = \<lparr>ws_path = [], ws_base = []\<rparr>"

definition ws_move :: "workspace \<Rightarrow> workspace \<times> workspace" where
  "ws_move other = (other, ws_empty)"

definition ws_assign :: "workspace_fs \<Rightarrow> workspace \<Rightarrow> workspace \<Rightarrow> cleanup_action \<times> workspace \<times> workspace" where
  "ws_assign fs this other = (ws_cleanup fs this, other, ws_empty)"

text \<open>Creating: the temporary directory of the system, making the base, and \<open>mkdtemp\<close> answer; \<open>/\<close> joins as for paths.\<close>

definition join_name :: "string \<Rightarrow> string \<Rightarrow> string" where
  "join_name dir name = (if dir = [] \<or> last dir = CHR ''/'' then dir @ name else dir @ ''/'' @ name)"

record workspace_calls =
  wc_temp_directory :: string
  wc_make_base :: "string \<Rightarrow> string option"
  wc_mkdtemp :: "string \<Rightarrow> int + string"
  wc_strerror :: "int \<Rightarrow> string"

definition ws_create :: "workspace_calls \<Rightarrow> string \<Rightarrow> string + workspace" where
  "ws_create calls base_directory =
     (let base = (if base_directory = [] then wc_temp_directory calls else base_directory) in
      case wc_make_base calls base of
        Some e \<Rightarrow> Inl (txt_ws_base @ base @ '': '' @ e)
      | None \<Rightarrow> (case wc_mkdtemp calls (join_name base ''oj_judge_XXXXXX'') of
          Inl e \<Rightarrow> Inl (txt_ws_mkdtemp @ wc_strerror calls e)
        | Inr created \<Rightarrow> Inr \<lparr>ws_path = created, ws_base = base\<rparr>))"

definition ws_write_file :: "(string \<Rightarrow> bool) \<Rightarrow> (string \<Rightarrow> string \<Rightarrow> bool) \<Rightarrow> workspace \<Rightarrow> string \<Rightarrow> string \<Rightarrow> string + string \<times> string" where
  "ws_write_file can_open can_write w name content =
     (let target = join_name (ws_path w) name in
      if \<not> can_open target then Inl (txt_ws_open @ target)
      else if \<not> can_write target content then Inl (txt_ws_write @ target)
      else Inr (target, content))"

section \<open>The instance lock\<close>

text \<open>The locks that are held in the system, by path; a lock belongs to the process that got it until it releases it or ends.\<close>

definition lock_path :: "string \<Rightarrow> string" where
  "lock_path db_path = db_path @ ''.lock''"

definition instance_lock_acquire ::
  "(string \<Rightarrow> int option) \<Rightarrow> int option \<Rightarrow> (int \<Rightarrow> string) \<Rightarrow> string \<Rightarrow> string set \<Rightarrow> (string + string) \<times> string set" where
  "instance_lock_acquire open_error flock_error strerror db_path held =
     (let path = lock_path db_path in
      case open_error path of
        Some e \<Rightarrow> (Inl (txt_lock_open @ path @ quote_char @ '': '' @ strerror e), held)
      | None \<Rightarrow>
          if path \<in> held then (Inl (txt_lock_busy_1 @ db_path @ txt_lock_busy_2), held)
          else case flock_error of
            Some e \<Rightarrow> (Inl (txt_lock_failed @ path @ quote_char @ '': '' @ strerror e), held)
          | None \<Rightarrow> (Inr path, insert path held))"

definition instance_lock_release :: "string \<Rightarrow> string set \<Rightarrow> string set" where
  "instance_lock_release path held = held - {path}"

section \<open>Properties\<close>

lemma ws_cleanup_removes:
  assumes "ws_cleanup fs w = RemoveTree p \<or> ws_cleanup fs w = RemoveLink p"
  shows "p = ws_path w \<and> p \<noteq> []
    \<and> (ws_base w \<noteq> [] \<longrightarrow> wf_canonical fs (parent_path p) = wf_canonical fs (ws_base w) \<and> wf_canonical fs (ws_base w) \<noteq> None)"
  using assms by (auto simp: ws_cleanup_def split: if_splits sum.splits file_kind.splits option.splits)

lemma parent_path_join:
  assumes "name \<noteq> []" and "CHR ''/'' \<notin> set name" and "dir \<noteq> []" and "last dir \<noteq> CHR ''/''"
  shows "parent_path (join_name dir name) = dir"
proof -
  have "CHR ''/'' \<notin> set (rev name)" using assms(2) by simp
  then have drop: "dropWhile (\<lambda>c. c \<noteq> CHR ''/'') (rev name @ rest) = dropWhile (\<lambda>c. c \<noteq> CHR ''/'') rest" for rest
    by (intro dropWhile_append2) auto
  have dir: "dropWhile (\<lambda>c. c = CHR ''/'') (rev dir) = rev dir"
    using assms(3,4) by (cases dir rule: rev_cases) auto
  have "\<not> (\<forall>c\<in>set (dir @ CHR ''/'' # name). c = CHR ''/'')"
    using assms(3,4) last_in_set[of dir] unfolding set_append by blast
  then have rel: "dropWhile (\<lambda>c. c = CHR ''/'') (dir @ CHR ''/'' # name) \<noteq> []"
    unfolding dropWhile_eq_Nil_conv .
  have join: "join_name dir name = dir @ CHR ''/'' # name"
    using assms(3,4) unfolding join_name_def by simp
  have "rev (dir @ CHR ''/'' # name) = rev name @ CHR ''/'' # rev dir" by simp
  then have tail: "dropWhile (\<lambda>c. c \<noteq> CHR ''/'') (rev (dir @ CHR ''/'' # name)) = CHR ''/'' # rev dir"
    using drop[of "CHR ''/'' # rev dir"] by simp
  have "dropWhile (\<lambda>c. c = CHR ''/'') (CHR ''/'' # rev dir) = rev dir" using dir by simp
  then show ?thesis
    unfolding parent_path_def join Let_def tail using rel assms(3) by (simp only: if_False rev_rev_ident simp_thms)
qed

text \<open>
  C33: cleaning up removes nothing but the directory of the task itself, and that only while its parent still is the base directory it
  was created in; a symbolic link put in its place is removed without being followed; a working directory that was
  moved away removes nothing. Conversely, a directory as \<open>create\<close> made it is removed when the base still resolves.
\<close>

theorem workspace_cleanup_confined:
  "(\<forall>p. ws_cleanup fs w = RemoveTree p \<or> ws_cleanup fs w = RemoveLink p \<longrightarrow>
      p = ws_path w \<and> (ws_base w \<noteq> [] \<longrightarrow> wf_canonical fs (parent_path p) = wf_canonical fs (ws_base w)))
   \<and> (wf_kind fs (ws_path w) = Inr KindSymlink \<longrightarrow> (\<forall>p. ws_cleanup fs w \<noteq> RemoveTree p))
   \<and> ws_cleanup fs (snd (ws_move w)) = NothingToClean
   \<and> (\<forall>base name. ws_base w = base \<and> ws_path w = join_name base name \<and> base \<noteq> [] \<and> last base \<noteq> CHR ''/'' \<and> name \<noteq> []
        \<and> CHR ''/'' \<notin> set name \<and> wf_canonical fs base \<noteq> None \<and> wf_kind fs (ws_path w) = Inr KindDirectory
        \<longrightarrow> ws_cleanup fs w = RemoveTree (ws_path w))"
proof (intro conjI allI impI)
  show "ws_cleanup fs (snd (ws_move w)) = NothingToClean" by (simp add: ws_move_def ws_empty_def ws_cleanup_def)
  show "ws_cleanup fs w \<noteq> RemoveTree p" if "wf_kind fs (ws_path w) = Inr KindSymlink" for p
    using that by (simp add: ws_cleanup_def)
  show "p = ws_path w" if "ws_cleanup fs w = RemoveTree p \<or> ws_cleanup fs w = RemoveLink p" for p
    using ws_cleanup_removes[OF that] by blast
  show "wf_canonical fs (parent_path p) = wf_canonical fs (ws_base w)"
    if "ws_cleanup fs w = RemoveTree p \<or> ws_cleanup fs w = RemoveLink p" "ws_base w \<noteq> []" for p
    using ws_cleanup_removes[OF that(1)] that(2) by blast
  fix base name
  assume a: "ws_base w = base \<and> ws_path w = join_name base name \<and> base \<noteq> [] \<and> last base \<noteq> CHR ''/'' \<and> name \<noteq> []
        \<and> CHR ''/'' \<notin> set name \<and> wf_canonical fs base \<noteq> None \<and> wf_kind fs (ws_path w) = Inr KindDirectory"
  then have "parent_path (ws_path w) = base" using parent_path_join by simp
  moreover have "ws_path w \<noteq> []" using a by (simp add: join_name_def)
  ultimately show "ws_cleanup fs w = RemoveTree (ws_path w)" using a by (auto simp: ws_cleanup_def)
qed

theorem workspace_cleanup_confined_witness:
  "ws_cleanup \<lparr>wf_canonical = Some, wf_kind = (\<lambda>p. Inr KindDirectory), wf_exists = (\<lambda>p. True)\<rparr>
     \<lparr>ws_path = ''/opt/oj_judge_a1'', ws_base = ''/opt''\<rparr> = RemoveTree ''/opt/oj_judge_a1''"
  using workspace_cleanup_confined[of "\<lparr>wf_canonical = Some, wf_kind = (\<lambda>p. Inr KindDirectory), wf_exists = (\<lambda>p. True)\<rparr>"
      "\<lparr>ws_path = ''/opt/oj_judge_a1'', ws_base = ''/opt''\<rparr>"]
  by (simp add: join_name_def)

text \<open>A lock that is held is not granted again until it is released; locks of different databases do not interfere.\<close>

lemma instance_lock_exclusive:
  assumes "instance_lock_acquire oe fe se db_path held = (Inr path, held')"
  shows "path \<notin> held" "path \<in> held'" "held' = insert path held"
    "fst (instance_lock_acquire oe' fe' se' db_path held') \<noteq> Inr path'"
    "instance_lock_release path held' = held"
  using assms by (auto simp: instance_lock_acquire_def instance_lock_release_def Let_def split: option.splits if_splits)

lemma lock_path_inj: "lock_path a = lock_path b \<longleftrightarrow> a = b"
  by (simp add: lock_path_def)

end
