(* ===== verification/OJ_Main.thy ===== *)
theory OJ_Main
  imports OJ_Supervision OJ_Seed OJ_Workspace OJ_System
begin

text \<open>
  The program itself (\<open>main.cpp\<close>, \<open>log.h\<close>, opening the database in \<open>db/database.cpp\<close>, starting and stopping in
  \<open>http/server.cpp\<close>): the order in which the service is put together from the other components, and taken down again. A run
  is the list of its events with the exit code; \<open>None\<close> stands for a run that has not ended. What the operating system answers is in the
  record \<open>startup_env\<close>.
\<close>

section \<open>Logging\<close>

datatype log_level = LogInfo | LogWarn | LogError

fun log_tag :: "log_level \<Rightarrow> string" where
  "log_tag LogInfo = ''INFO''"
| "log_tag LogWarn = ''WARN''"
| "log_tag LogError = ''ERROR''"

datatype out_stream = Stdout | Stderr

text \<open>The time stamp is formatted by the C library; \<open>%s\<close> prints the message up to the first NUL.\<close>

definition log_line :: "string \<Rightarrow> log_level \<Rightarrow> string \<Rightarrow> out_stream \<times> string" where
  "log_line ts level msg =
     (if level = LogError then Stderr else Stdout,
      ''['' @ ts @ ''] ['' @ log_tag level @ ''] '' @ takeWhile (\<lambda>c. c \<noteq> CHR 0x00) msg @ [CHR 0x0A])"

section \<open>Events\<close>

datatype main_event =
    Printed out_stream string
  | Logged log_level string
  | DatabaseOpened string
  | DatabaseClosed
  | LockTaken string
  | LockReleased string
  | Recovered nat "recovery_event list"
  | Mounted string
  | Listening string int int
  | RecoveryAborted
  | JudgingCancelled
  | ListenerStopped
  | SchedulerShutDown

text \<open>A step of the program: the events so far with the exit code it ended with, or the value it goes on with.\<close>

type_synonym 'a startup = "(main_event list \<times> (int + 'a)) option"

definition go_on :: "'a \<Rightarrow> 'a startup" where
  "go_on x = Some ([], Inr x)"

definition emit :: "main_event list \<Rightarrow> unit startup" where
  "emit evs = Some (evs, Inr ())"

fun followed_by :: "'a startup \<Rightarrow> ('a \<Rightarrow> 'b startup) \<Rightarrow> 'b startup" where
  "followed_by None f = None"
| "followed_by (Some (evs, Inl code)) f = Some (evs, Inl code)"
| "followed_by (Some (evs, Inr x)) f = map_option (\<lambda>(evs', r). (evs @ evs', r)) (f x)"

text \<open>A check that failed reports the reason and ends the program with the exit code 1.\<close>

definition check_or_exit :: "(string \<Rightarrow> main_event) \<Rightarrow> string + 'a \<Rightarrow> 'a startup" where
  "check_or_exit report r = (case r of Inl e \<Rightarrow> Some ([report e], Inl 1) | Inr x \<Rightarrow> go_on x)"

definition log_error :: "string \<Rightarrow> string \<Rightarrow> main_event" where
  "log_error what e = Logged LogError (what @ e)"

text \<open>The end of a scope runs the destructors, whether the program goes on or ends.\<close>

definition leaving :: "(main_event list \<Rightarrow> main_event list) \<Rightarrow> 'a startup \<Rightarrow> 'a startup" where
  "leaving final m = map_option (\<lambda>(evs, r). (evs @ final evs, r)) m"

section \<open>Opening the database\<close>

text \<open>\<open>sqlite_open\<close> gives the connection or the message of the failure, if there is a handle to ask for it.\<close>

definition configure :: "(db_error, unit) dbm" where
  "configure = repeat_stmt 4"

definition database_open ::
  "(string \<Rightarrow> string option) \<Rightarrow> (string \<Rightarrow> string option + db) \<Rightarrow> string \<Rightarrow> string + db" where
  "database_open create_directories sqlite_open path =
     (let parent = parent_path path in
      case (if parent = [] then None else create_directories parent) of
        Some e \<Rightarrow> Inl (txt_db_mkdir @ parent @ quote_char @ '': '' @ e)
      | None \<Rightarrow>
          (case sqlite_open path of
             Inl msg \<Rightarrow> Inl (txt_db_open @ path @ quote_char @ '': '' @ (case msg of Some m \<Rightarrow> m | None \<Rightarrow> txt_db_unknown))
           | Inr d \<Rightarrow> (case configure d of (Inl e, d') \<Rightarrow> Inl (errmsg e) | (Inr _, d') \<Rightarrow> Inr d')))"

text \<open>The destructor closes the connection unless \<open>close\<close> did.\<close>

definition close_database :: "main_event list \<Rightarrow> main_event list" where
  "close_database evs = (if DatabaseClosed \<in> set evs then [] else [DatabaseClosed])"

section \<open>The directory of the web pages\<close>

text \<open>
  \<open>fs::path::lexically_normal\<close> on POSIX paths: the components without empty ones and single dots, a double dot takes the component before
  it, or is dropped at the root.
\<close>

fun normal_parts :: "bool \<Rightarrow> string list \<Rightarrow> string list \<Rightarrow> string list" where
  "normal_parts absolute acc [] = acc"
| "normal_parts absolute acc (c # cs) =
     (if c = [] \<or> c = ''.'' then normal_parts absolute acc cs
      else if c = ''..'' then
        (if acc \<noteq> [] \<and> last acc \<noteq> ''..'' then normal_parts absolute (butlast acc) cs
         else if absolute then normal_parts absolute acc cs
         else normal_parts absolute (acc @ [c]) cs)
      else normal_parts absolute (acc @ [c]) cs)"

definition lexically_normal :: "string \<Rightarrow> string" where
  "lexically_normal path =
     (if path = [] then []
      else let absolute = (hd path = CHR ''/''); raw = split_on (CHR ''/'') path; parts = normal_parts absolute [] raw;
               directory = (last raw = [] \<or> last raw = ''.'' \<or> last raw = ''..'') in
        if parts = [] then (if absolute then ''/'' else ''.'')
        else (if absolute then ''/'' else []) @ join_with (CHR ''/'') parts @ (if directory \<and> last parts \<noteq> ''..'' then ''/'' else []))"

definition mount_static :: "(string \<Rightarrow> bool) \<Rightarrow> (string \<Rightarrow> bool) \<Rightarrow> string \<Rightarrow> main_event list" where
  "mount_static is_directory set_mount_point web_root =
     (if web_root = [] then []
      else let normalized = lexically_normal web_root in
        if normalized = ''.'' \<or> normalized = ''/'' \<or> normalized = [] \<or> \<not> is_directory normalized
        then [Logged LogWarn (txt_static_invalid @ web_root)]
        else if \<not> set_mount_point normalized then [Logged LogWarn (txt_static_failed @ web_root)]
        else [Mounted normalized, Logged LogInfo (txt_static_mounted @ web_root @ '' -> /'')])"

section \<open>The HTTP server as \<open>main\<close> uses it\<close>

record 's http_server =
  hs_host :: string
  hs_port :: int
  hs_web_root :: string
  hs_judge_options :: judge_options
  hs_manager :: "'s manager"
  hs_running :: bool
  hs_stop_logged :: bool

text \<open>The number of processors, in the two ways the system gives it, decides the number of workers.\<close>

definition http_server_new :: "int \<times> int \<Rightarrow> string \<Rightarrow> int \<Rightarrow> judge_options \<Rightarrow> string \<Rightarrow> nat \<Rightarrow> 's http_server" where
  "http_server_new cpus host port options web_root capacity =
     \<lparr>hs_host = host, hs_port = port, hs_web_root = web_root, hs_judge_options = options,
      hs_manager = manager_new capacity (compute_worker_count (fst cpus) (snd cpus) (- 1)),
      hs_running = False, hs_stop_logged = False\<rparr>"

text \<open>What a worker does with a task: a task that names a submission judges it again, any other one is a new submission.\<close>

definition handle_task ::
  "'w judge_env \<Rightarrow> judge_options \<Rightarrow> (json \<Rightarrow> exn + string) \<Rightarrow> string \<Rightarrow> (db \<Rightarrow> db) \<Rightarrow> submission_task \<Rightarrow> db \<times> 'w
     \<Rightarrow> (string option + outcome) \<times> db \<times> 'w" where
  "handle_task env opts dump now others task dw =
     (if st_rejudge_submission_id task \<noteq> 0 then rejudge env opts dump others (st_rejudge_submission_id task) dw
      else service_submit env opts dump now others task dw)"

text \<open>A recovered task is a new submission: nothing accepted is mistaken for a request to judge again.\<close>

lemma recovered_task_submits: "handle_task env opts dump now others (recovery_task ft) = service_submit env opts dump now others (recovery_task ft)"
  by (simp add: handle_task_def recovery_task_def fun_eq_iff)

text \<open>Starting mounts the web pages with the other routes, binds the port, and then listens in a thread of its own.\<close>

definition server_start ::
  "(string \<Rightarrow> bool) \<Rightarrow> (string \<Rightarrow> bool) \<Rightarrow> (string \<Rightarrow> int \<Rightarrow> bool) \<Rightarrow> 's http_server \<Rightarrow> main_event list \<times> (string + 's http_server)" where
  "server_start is_directory set_mount_point bind_to_port srv =
     (let mounted = mount_static is_directory set_mount_point (hs_web_root srv);
          threads = int (http_thread_count (hs_manager srv)) in
      if \<not> bind_to_port (hs_host srv) (hs_port srv)
      then (mounted, Inl (txt_bind_1 @ hs_host srv @ '':'' @ int_to_string (hs_port srv) @ txt_bind_2))
      else (mounted @ [Listening (hs_host srv) (hs_port srv) (if 0 < threads then threads else 1)], Inr (srv\<lparr>hs_running := True\<rparr>)))"

definition stop_wait_budget_ms :: int where
  "stop_wait_budget_ms = 30000"

text \<open>\<open>elapsed\<close>, \<open>accepted\<close> and \<open>completed\<close> are read after the scheduler has been shut down.\<close>

definition stop_report :: "int \<Rightarrow> int \<Rightarrow> int \<Rightarrow> main_event" where
  "stop_report elapsed accepted completed =
     (if stop_wait_budget_ms < elapsed
      then Logged LogWarn (txt_stop_late_1 @ int_to_string elapsed @ txt_stop_late_2 @ int_to_string stop_wait_budget_ms @ txt_stop_late_3
        @ int_to_string accepted @ txt_stop_done_count @ int_to_string completed @ txt_main_close)
      else Logged LogInfo (txt_stop_1 @ int_to_string elapsed @ txt_stop_2 @ int_to_string accepted @ txt_stop_done_count
        @ int_to_string completed @ txt_main_close))"

definition server_stop :: "int \<times> int \<times> int \<Rightarrow> 's http_server \<Rightarrow> main_event list \<times> 's http_server" where
  "server_stop counts srv =
     ([RecoveryAborted]
      @ (if hs_running srv then [Logged LogInfo txt_stopping, JudgingCancelled, ListenerStopped] else [])
      @ [SchedulerShutDown]
      @ (if hs_stop_logged srv then [] else [case counts of (elapsed, accepted, completed) \<Rightarrow> stop_report elapsed accepted completed]),
      srv\<lparr>hs_running := False, hs_stop_logged := True\<rparr>)"

section \<open>The environment of a run\<close>

record 's startup_env =
  se_arguments :: "string list"
  se_program :: string
  se_create_directories :: "string \<Rightarrow> string option"
  se_sqlite_open :: "string \<Rightarrow> string option + db"
  se_admin_password :: "string option"
  se_hash_password :: "string \<Rightarrow> string + string"
  se_lock_open :: "string \<Rightarrow> int option"
  se_flock :: "int option"
  se_locks_held :: "string set"
  se_strerror :: "int \<Rightarrow> string"
  se_jwt_secret :: "string option"
  se_jwt_expires :: "string option"
  se_queue_capacity :: "string option"
  se_workspace :: "string option"
  se_allow_non_tmpfs :: "string option"
  se_compile_concurrency :: "string option"
  se_sandbox_host :: sandbox_host
  se_userns_probe :: userns_probe
  se_workspace_calls :: workspace_calls
  se_executor_host :: executor_host
  se_probe_launch :: launch_observation
  se_probe_observations :: "observation list"
  se_probe_final :: final_observation
  se_cpus :: "int \<times> int"
  se_owner :: string
  se_others :: "(unit, 's) others"
  se_is_directory :: "string \<Rightarrow> bool"
  se_set_mount_point :: "string \<Rightarrow> bool"
  se_bind :: "string \<Rightarrow> int \<Rightarrow> bool"
  se_signals :: "nat \<Rightarrow> int"
  se_stop_counts :: "int \<times> int \<times> int"

section \<open>The start of the service\<close>

text \<open>Importing the built-in problems instead of serving: the structure of the database only, no account, no lock.\<close>

definition seed_mode :: "'s startup_env \<Rightarrow> config \<Rightarrow> unit startup" where
  "seed_mode env cfg =
     followed_by (check_or_exit (\<lambda>e. Printed Stderr (txt_main_db_failed @ e @ [CHR 0x0A]))
        (database_open (se_create_directories env) (se_sqlite_open env) (cf_db_path cfg))) (\<lambda>d.
     leaving close_database (
       followed_by (emit [DatabaseOpened (cf_db_path cfg)]) (\<lambda>_.
       case ensure_schema d of
         (Inl e, d1) \<Rightarrow> Some ([Printed Stderr (txt_main_schema_failed @ errmsg e @ [CHR 0x0A])], Inl 1)
       | (Inr _, d1) \<Rightarrow>
           followed_by (check_or_exit (\<lambda>e. Printed Stderr (txt_main_seed_failed @ e @ [CHR 0x0A])) (fst (import_seed_problems d1))) (\<lambda>created.
           emit [Printed Stdout (txt_main_seeded_1 @ int_to_string created @ txt_main_seeded_2), DatabaseClosed]))))"

text \<open>
  The test of the sandbox: a working directory is made under the configured root and a system program is run in it. A run of the
  executor that does not end makes the start not end.
\<close>

definition probe_sandbox :: "'s startup_env \<Rightarrow> string \<Rightarrow> (string + unit) option" where
  "probe_sandbox env root =
     (case ws_create (se_workspace_calls env) root of
        Inl e \<Rightarrow> Some (sandbox_self_test (Inl e) (\<lambda>_. default_process_result))
      | Inr w \<Rightarrow> map_option (\<lambda>pr. sandbox_self_test (Inr (ws_path w)) (\<lambda>_. pr))
          (local_run (se_executor_host env) False (self_test_request (ws_path w)) [] (se_probe_launch env)
             (se_probe_observations env) (se_probe_final env)))"

definition workspace_description :: "sandbox_host \<Rightarrow> string \<Rightarrow> bool \<Rightarrow> string" where
  "workspace_description host root is_tmpfs =
     (let capacity = mount_capacity_bytes host root in
      root @ txt_main_open @ (if is_tmpfs then ''tmpfs'' else txt_main_not_tmpfs)
      @ (if 0 < capacity then txt_main_capacity @ int_to_string (capacity div (1024 * 1024)) @ '' MiB'' else [])
      @ txt_main_close)"

text \<open>Everything about judging is checked before anything is served: gives the options and the number of parallel compilations.\<close>

definition check_judging :: "'s startup_env \<Rightarrow> (judge_options \<times> int) startup" where
  "check_judging env =
     followed_by (check_or_exit (log_error txt_main_ws_failed) (read_judge_workspace (se_workspace env) (se_allow_non_tmpfs env)))
       (\<lambda>(root, allow_non_tmpfs).
     followed_by (check_or_exit (log_error txt_main_sandbox_failed) (sandbox_supported (se_sandbox_host env) (se_userns_probe env))) (\<lambda>_.
     followed_by (if allow_non_tmpfs then emit [Logged LogWarn (txt_main_nontmpfs_1 @ txt_main_nontmpfs_2)]
        else check_or_exit (log_error txt_main_tmpfs_failed) (path_is_tmpfs (se_sandbox_host env) root)) (\<lambda>_.
     followed_by (case probe_sandbox env root of None \<Rightarrow> None | Some r \<Rightarrow> check_or_exit (log_error txt_main_selftest_failed) r) (\<lambda>_.
     followed_by (check_or_exit (log_error txt_main_compile_failed) (read_judge_compile_concurrency (se_compile_concurrency env)))
       (\<lambda>concurrency.
     followed_by (emit [Logged LogInfo (txt_main_ws_ready @ workspace_description (se_sandbox_host env) root (\<not> allow_non_tmpfs))]) (\<lambda>_.
     go_on (default_judge_options\<lparr>jo_workspace_root := root, jo_sandbox_enabled := True, jo_compile_gate := True\<rparr>, concurrency)))))))"

text \<open>Waiting for the signal: the flag is read every 200 ms, \<open>se_signals\<close> gives what is read.\<close>

fun await_signal :: "(nat \<Rightarrow> int) \<Rightarrow> nat \<Rightarrow> nat \<Rightarrow> int option" where
  "await_signal signals 0 i = None"
| "await_signal signals (Suc fuel) i = (if signals i \<noteq> 0 then Some (signals i) else await_signal signals fuel (Suc i))"

text \<open>Serving, from the recovery to the end; the destructor of the server stops it once more.\<close>

definition announce :: "config \<Rightarrow> 's http_server \<Rightarrow> main_event list" where
  "announce cfg srv =
     [Logged LogInfo (txt_main_ready_1 @ int_to_string (int (length (mg_workers (hs_manager srv)))) @ txt_main_ready_2
        @ int_to_string (int (mg_queue_capacity (hs_manager srv))) @ txt_main_close),
      Logged LogInfo (txt_main_listening @ cf_host cfg @ '':'' @ int_to_string (cf_port cfg)),
      Logged LogInfo (txt_main_health @ cf_host cfg @ '':'' @ int_to_string (cf_port cfg) @ ''/api/health''),
      Logged LogInfo (txt_main_front @ cf_host cfg @ '':'' @ int_to_string (cf_port cfg) @ txt_main_front_dir @ cf_web_root cfg
        @ txt_main_close)]"

definition serve_until_signal :: "nat \<Rightarrow> nat \<Rightarrow> nat \<Rightarrow> 's startup_env \<Rightarrow> config \<Rightarrow> db \<Rightarrow> 's http_server \<Rightarrow> unit startup" where
  "serve_until_signal waits rounds polls env cfg d srv =
     (case recovery_run (se_others env) waits rounds (se_owner env) default_recovery_options
          \<lparr>rw_db = d, rw_manager = hs_manager srv, rw_rest = ()\<rparr> of
        None \<Rightarrow> None
      | Some (n, calls, w) \<Rightarrow>
          let recovered = [Recovered n calls] @ (if 0 < n then [Logged LogInfo (txt_main_recovered_1 @ int_to_string (int n) @ txt_main_recovered_2)] else []);
              srv1 = srv\<lparr>hs_manager := rw_manager w\<rparr>;
              (started, r) = server_start (se_is_directory env) (se_set_mount_point env) (se_bind env) srv1 in
          (case r of
             Inl e \<Rightarrow> Some (recovered @ started @ [log_error txt_main_start_failed e] @ fst (server_stop (se_stop_counts env) srv1), Inl 1)
           | Inr srv2 \<Rightarrow> map_option (\<lambda>sig.
               let (stopping, srv3) = server_stop (se_stop_counts env) srv2 in
               (recovered @ started @ announce cfg srv2
                @ [Logged LogInfo (txt_main_signal_1 @ int_to_string sig @ txt_main_signal_2)]
                @ stopping @ [Logged LogInfo txt_main_stopped, DatabaseClosed, Logged LogInfo txt_main_released]
                @ fst (server_stop (se_stop_counts env) srv3), Inr ()))
               (await_signal (se_signals env) polls 0)))"

text \<open>What is done while the lock is held, what while the database is open, and the whole service.\<close>

definition run_locked :: "nat \<Rightarrow> nat \<Rightarrow> nat \<Rightarrow> 's startup_env \<Rightarrow> config \<Rightarrow> db \<Rightarrow> unit startup" where
  "run_locked waits rounds polls env cfg d =
     followed_by (check_or_exit (log_error txt_main_jwt_failed) (load_jwt_config (se_jwt_secret env) (se_jwt_expires env))) (\<lambda>jwt.
     followed_by (emit [Logged LogInfo (txt_main_jwt_1 @ int_to_string (jc_expires_seconds jwt) @ txt_main_jwt_2)]) (\<lambda>_.
     followed_by (check_or_exit (log_error txt_main_queue_failed) (read_judge_queue_capacity (se_queue_capacity env))) (\<lambda>capacity.
     followed_by (check_judging env) (\<lambda>(options, concurrency).
     serve_until_signal waits rounds polls env cfg d
       (http_server_new (se_cpus env) (cf_host cfg) (cf_port cfg) options (cf_web_root cfg) (nat capacity))))))"

definition run_with_database :: "nat \<Rightarrow> nat \<Rightarrow> nat \<Rightarrow> 's startup_env \<Rightarrow> config \<Rightarrow> db \<Rightarrow> unit startup" where
  "run_with_database waits rounds polls env cfg d =
     followed_by (emit [DatabaseOpened (cf_db_path cfg), Logged LogInfo (txt_main_db_opened @ cf_db_path cfg)]) (\<lambda>_.
     case initialize_schema (se_hash_password env) (read_admin_password (se_admin_password env)) d of
       (Inl e, d1) \<Rightarrow> Some ([log_error txt_main_db_failed (errmsg e)], Inl 1)
     | (Inr _, d1) \<Rightarrow>
       followed_by (emit [Logged LogInfo txt_main_schema_done]) (\<lambda>_.
       followed_by (check_or_exit (log_error txt_main_lock_failed)
          (fst (instance_lock_acquire (se_lock_open env) (se_flock env) (se_strerror env) (cf_db_path cfg) (se_locks_held env)))) (\<lambda>lock.
       leaving (\<lambda>_. [LockReleased lock])
         (followed_by (emit [LockTaken lock]) (\<lambda>_. run_locked waits rounds polls env cfg d1)))))"

definition service_mode :: "nat \<Rightarrow> nat \<Rightarrow> nat \<Rightarrow> 's startup_env \<Rightarrow> config \<Rightarrow> unit startup" where
  "service_mode waits rounds polls env cfg =
     followed_by (emit [Logged LogInfo txt_main_starting]) (\<lambda>_.
     followed_by (check_or_exit (log_error txt_main_db_failed)
        (database_open (se_create_directories env) (se_sqlite_open env) (cf_db_path cfg))) (\<lambda>d.
     leaving close_database (run_with_database waits rounds polls env cfg d)))"

definition usage_text :: "string \<Rightarrow> string" where
  "usage_text prog =
     txt_usage_1 @ prog @ txt_usage_2 @ txt_usage_3 @ txt_usage_4 @ txt_usage_5 @ txt_usage_6 @ txt_usage_7 @ txt_usage_8 @
     [CHR 0x0A] @ txt_usage_9 @ txt_usage_10 @ txt_usage_11 @ txt_usage_12 @ nat_to_string min_jwt_secret_len @
     txt_usage_13 @ txt_usage_14 @ txt_usage_15 @ txt_usage_16 @ ''32'' @ txt_usage_17 @ ''256'' @ txt_usage_18 @
     txt_usage_19 @ default_judge_workspace @ txt_usage_18 @ txt_usage_20 @ txt_usage_21 @ ''2'' @ txt_usage_17 @ ''64'' @
     txt_usage_18"

text \<open>The program: its events in order and its exit code.\<close>

definition main_run :: "nat \<Rightarrow> nat \<Rightarrow> nat \<Rightarrow> 's startup_env \<Rightarrow> (main_event list \<times> int) option" where
  "main_run waits rounds polls env =
     (case parse_args (se_arguments env) default_config of
        Inl e \<Rightarrow> Some ([Printed Stderr (e @ [CHR 0x0A]), Printed Stderr (usage_text (se_program env))], 2)
      | Inr (True, cfg) \<Rightarrow> Some ([Printed Stdout (usage_text (se_program env))], 0)
      | Inr (False, cfg) \<Rightarrow>
          map_option (\<lambda>(evs, r). (evs, case r of Inl code \<Rightarrow> code | Inr _ \<Rightarrow> 0))
            (if cf_seed cfg then seed_mode env cfg else service_mode waits rounds polls env cfg))"

section \<open>The life of a run\<close>

lemma followed_by_Some:
  "followed_by m f = Some (evs, r) \<longleftrightarrow>
     (\<exists>c. m = Some (evs, Inl c) \<and> r = Inl c) \<or> (\<exists>e1 x e2. m = Some (e1, Inr x) \<and> f x = Some (e2, r) \<and> evs = e1 @ e2)"
  by (cases "(m, f)" rule: followed_by.cases) auto

lemma followed_by_emit [simp]: "followed_by (emit evs) f = map_option (\<lambda>(evs', r). (evs @ evs', r)) (f ())"
  by (simp add: emit_def)

lemma followed_by_check: "followed_by (check_or_exit report r) f = (case r of Inl e \<Rightarrow> Some ([report e], Inl 1) | Inr x \<Rightarrow> f x)"
  by (auto simp: check_or_exit_def go_on_def option.map_id0 option.map_id split: sum.splits)

text \<open>What matters of a run: its resources and what it serves, in order.\<close>

fun milestone :: "main_event \<Rightarrow> bool" where
  "milestone (Printed s t) = False"
| "milestone (Logged l t) = False"
| "milestone (Mounted d) = False"
| "milestone _ = True"

definition lifecycle :: "main_event list \<Rightarrow> main_event list" where
  "lifecycle evs = filter milestone evs"

lemma lifecycle_simps [simp]:
  "lifecycle [] = []" "lifecycle (e # evs) = (if milestone e then e # lifecycle evs else lifecycle evs)"
  "lifecycle (a @ b) = lifecycle a @ lifecycle b"
  by (simp_all add: lifecycle_def)

lemma milestone_log_error [simp]: "milestone (log_error w e) = False"
  by (simp add: log_error_def)

lemma lifecycle_mem: "milestone e \<Longrightarrow> e \<in> set evs \<longleftrightarrow> e \<in> set (lifecycle evs)"
  by (simp add: lifecycle_def)

lemma lifecycle_mount [simp]: "lifecycle (mount_static is_dir set_mount root) = []"
  by (simp add: mount_static_def Let_def)

lemma lifecycle_stop_report [simp]: "milestone (stop_report a b c) = False"
  by (simp add: stop_report_def)

lemma lifecycle_stop: "lifecycle (fst (server_stop counts srv)) =
    [RecoveryAborted] @ (if hs_running srv then [JudgingCancelled, ListenerStopped] else []) @ [SchedulerShutDown]"
  by (simp add: server_stop_def split: prod.splits)

lemma server_stop_state [simp]: "hs_running (snd (server_stop counts srv)) = False"
  by (simp add: server_stop_def)

lemma lifecycle_announce [simp]: "lifecycle (announce cfg srv) = []"
  by (simp add: announce_def)

lemma lifecycle_close: "lifecycle (close_database evs) = (if DatabaseClosed \<in> set (lifecycle evs) then [] else [DatabaseClosed])"
  using lifecycle_mem[of DatabaseClosed evs] by (simp add: close_database_def)

text \<open>The checks of the judging environment show nothing but messages; they pass only if every part of it does.\<close>

definition judging_checked :: "'s startup_env \<Rightarrow> judge_options \<times> int \<Rightarrow> bool" where
  "judging_checked env oc \<longleftrightarrow>
     (\<exists>allow. read_judge_workspace (se_workspace env) (se_allow_non_tmpfs env) = Inr (jo_workspace_root (fst oc), allow)
       \<and> (allow \<or> path_is_tmpfs (se_sandbox_host env) (jo_workspace_root (fst oc)) = Inr ()))
     \<and> sandbox_supported (se_sandbox_host env) (se_userns_probe env) = Inr ()
     \<and> probe_sandbox env (jo_workspace_root (fst oc)) = Some (Inr ())
     \<and> jo_sandbox_enabled (fst oc) \<and> jo_compile_gate (fst oc)
     \<and> read_judge_compile_concurrency (se_compile_concurrency env) = Inr (snd oc)"

lemma check_judging_Some:
  assumes "check_judging env = Some (evs, r)"
  shows "lifecycle evs = [] \<and> (case r of Inl c \<Rightarrow> c = 1 | Inr oc \<Rightarrow> judging_checked env oc)"
  using assms
  by (auto simp: check_judging_def followed_by_check judging_checked_def go_on_def log_error_def split: sum.splits prod.splits if_splits option.splits)

lemma probe_sandbox_passed:
  assumes "probe_sandbox env root = Some (Inr ())"
  shows "\<exists>dir pr. local_run (se_executor_host env) False (self_test_request dir) [] (se_probe_launch env) (se_probe_observations env)
      (se_probe_final env) = Some pr \<and> \<not> pr_launch_error pr \<and> \<not> pr_timed_out pr \<and> pr_exited pr \<and> pr_exit_code pr = 0"
  using assms
  by (auto simp: probe_sandbox_def sandbox_self_test_def Let_def split: sum.splits if_splits)

text \<open>The two complete lives of the service, by whether its port could be bound.\<close>

definition served_life :: "nat \<Rightarrow> recovery_event list \<Rightarrow> config \<Rightarrow> int \<Rightarrow> main_event list" where
  "served_life n calls cfg threads =
     [Recovered n calls, Listening (cf_host cfg) (cf_port cfg) threads, RecoveryAborted, JudgingCancelled, ListenerStopped,
      SchedulerShutDown, DatabaseClosed, RecoveryAborted, SchedulerShutDown]"

definition unbound_life :: "nat \<Rightarrow> recovery_event list \<Rightarrow> main_event list" where
  "unbound_life n calls = [Recovered n calls, RecoveryAborted, SchedulerShutDown]"

lemma serve_until_signal_Some:
  assumes "serve_until_signal waits rounds polls env cfg d srv = Some (evs, r)" and "hs_host srv = cf_host cfg" and "hs_port srv = cf_port cfg"
    and "\<not> hs_running srv"
  shows "(\<exists>n calls threads. r = Inr () \<and> lifecycle evs = served_life n calls cfg threads \<and> 0 < threads)
       \<or> (\<exists>n calls. r = Inl 1 \<and> lifecycle evs = unbound_life n calls)"
proof -
  from assms(1) obtain n calls w where rec: "recovery_run (se_others env) waits rounds (se_owner env) default_recovery_options
      \<lparr>rw_db = d, rw_manager = hs_manager srv, rw_rest = ()\<rparr> = Some (n, calls, w)"
    by (auto simp: serve_until_signal_def split: option.splits)
  let ?srv1 = "srv\<lparr>hs_manager := rw_manager w\<rparr>"
  show ?thesis
  proof (cases "se_bind env (cf_host cfg) (cf_port cfg)")
    case False
    then have "r = Inl 1 \<and> lifecycle evs = unbound_life n calls"
      using assms rec by (auto simp: serve_until_signal_def server_start_def Let_def lifecycle_stop unbound_life_def)
    then show ?thesis by blast
  next
    case True
    let ?threads = "int (http_thread_count (hs_manager ?srv1))"
    have "r = Inr () \<and> lifecycle evs = served_life n calls cfg (if 0 < ?threads then ?threads else 1)"
      using assms rec True
      by (auto simp: serve_until_signal_def server_start_def Let_def split_beta lifecycle_stop served_life_def)
    then show ?thesis by (intro disjI1) (auto intro!: exI)
  qed
qed

definition locked_checked :: "'s startup_env \<Rightarrow> bool" where
  "locked_checked env \<longleftrightarrow>
     (\<exists>jwt. load_jwt_config (se_jwt_secret env) (se_jwt_expires env) = Inr jwt)
     \<and> (\<exists>capacity. read_judge_queue_capacity (se_queue_capacity env) = Inr capacity)
     \<and> (\<exists>oc. judging_checked env oc)"

lemma run_locked_Some:
  assumes "run_locked waits rounds polls env cfg d = Some (evs, r)"
  shows "(r = Inl 1 \<and> lifecycle evs = [])
       \<or> locked_checked env \<and> ((\<exists>n calls threads. r = Inr () \<and> lifecycle evs = served_life n calls cfg threads \<and> 0 < threads)
          \<or> (\<exists>n calls. r = Inl 1 \<and> lifecycle evs = unbound_life n calls))"
proof (cases "load_jwt_config (se_jwt_secret env) (se_jwt_expires env)")
  case (Inl e)
  then show ?thesis using assms by (auto simp: run_locked_def followed_by_check)
next
  case jwt: (Inr jwt)
  show ?thesis
  proof (cases "read_judge_queue_capacity (se_queue_capacity env)")
    case (Inl e)
    then show ?thesis using assms jwt by (auto simp: run_locked_def followed_by_check)
  next
    case cap: (Inr capacity)
    let ?srv = "\<lambda>options. http_server_new (se_cpus env) (cf_host cfg) (cf_port cfg) options (cf_web_root cfg) (nat capacity)"
    from assms jwt cap obtain evs' where evs': "lifecycle evs = lifecycle evs'"
      "followed_by (check_judging env) (\<lambda>(options, concurrency). serve_until_signal waits rounds polls env cfg d (?srv options)) = Some (evs', r)"
      by (auto simp: run_locked_def followed_by_check)
    from evs'(2)[unfolded followed_by_Some] consider
        c where "check_judging env = Some (evs', Inl c)" "r = Inl c"
      | e1 oc e2 where "check_judging env = Some (e1, Inr oc)" "serve_until_signal waits rounds polls env cfg d (?srv (fst oc)) = Some (e2, r)" "evs' = e1 @ e2"
      by (auto simp: split_beta)
    then show ?thesis
    proof cases
      case 1
      with check_judging_Some[OF 1(1)] evs'(1) show ?thesis by simp
    next
      case 2
      have "judging_checked env oc" using check_judging_Some[OF 2(1)] by simp
      then have "locked_checked env" unfolding locked_checked_def using jwt cap by blast
      moreover have "lifecycle evs = lifecycle e2" using check_judging_Some[OF 2(1)] 2(3) evs'(1) by simp
      moreover have "(\<exists>n calls threads. r = Inr () \<and> lifecycle e2 = served_life n calls cfg threads \<and> 0 < threads)
          \<or> (\<exists>n calls. r = Inl 1 \<and> lifecycle e2 = unbound_life n calls)"
        by (rule serve_until_signal_Some[OF 2(2)]) (simp_all add: http_server_new_def)
      ultimately show ?thesis by simp
    qed
  qed
qed

text \<open>The lock surrounds all of this, the database the lock.\<close>

lemma leaving_Some: "leaving final m = Some (evs, r) \<longleftrightarrow> (\<exists>evs'. m = Some (evs', r) \<and> evs = evs' @ final evs')"
  by (auto simp: leaving_def)

definition store_checked :: "'s startup_env \<Rightarrow> config \<Rightarrow> db \<Rightarrow> bool" where
  "store_checked env cfg d \<longleftrightarrow>
     (fst (initialize_schema (se_hash_password env) (read_admin_password (se_admin_password env)) d) = Inr ()
      \<and> lock_path (cf_db_path cfg) \<notin> se_locks_held env)"

lemma run_with_database_Some:
  assumes "run_with_database waits rounds polls env cfg d = Some (evs, r)"
  shows "(r = Inl 1 \<and> lifecycle evs = [DatabaseOpened (cf_db_path cfg)])
    \<or> store_checked env cfg d \<and> (\<exists>inner. lifecycle evs =
        [DatabaseOpened (cf_db_path cfg), LockTaken (lock_path (cf_db_path cfg))] @ inner @ [LockReleased (lock_path (cf_db_path cfg))]
      \<and> ((r = Inl 1 \<and> inner = [])
        \<or> locked_checked env \<and> ((\<exists>n calls threads. r = Inr () \<and> inner = served_life n calls cfg threads \<and> 0 < threads)
           \<or> (\<exists>n calls. r = Inl 1 \<and> inner = unbound_life n calls))))"
proof -
  obtain i d1 where init: "initialize_schema (se_hash_password env) (read_admin_password (se_admin_password env)) d = (i, d1)" by force
  show ?thesis
  proof (cases i)
    case (Inl e)
    then show ?thesis using assms init by (auto simp: run_with_database_def)
  next
    case (Inr u)
    let ?acquire = "fst (instance_lock_acquire (se_lock_open env) (se_flock env) (se_strerror env) (cf_db_path cfg) (se_locks_held env))"
    show ?thesis
    proof (cases ?acquire)
      case (Inl e)
      then show ?thesis using assms init Inr by (auto simp: run_with_database_def followed_by_check)
    next
      case lock: (Inr path)
      then have path: "path = lock_path (cf_db_path cfg)" "path \<notin> se_locks_held env"
        by (auto simp: instance_lock_acquire_def Let_def split: option.splits if_splits)
      from assms init Inr lock obtain evs' where run: "run_locked waits rounds polls env cfg d1 = Some (evs', r)"
        and evs: "lifecycle evs = [DatabaseOpened (cf_db_path cfg), LockTaken path] @ lifecycle evs' @ [LockReleased path]"
        by (auto simp: run_with_database_def followed_by_check leaving_Some)
      have "store_checked env cfg d" using init Inr path by (simp add: store_checked_def)
      with run_locked_Some[OF run] evs path show ?thesis by auto
    qed
  qed
qed

lemma service_mode_Some:
  assumes "service_mode waits rounds polls env cfg = Some (evs, r)"
  shows "(r = Inl 1 \<and> lifecycle evs = [])
    \<or> (\<exists>d. database_open (se_create_directories env) (se_sqlite_open env) (cf_db_path cfg) = Inr d
      \<and> ((r = Inl 1 \<and> lifecycle evs = [DatabaseOpened (cf_db_path cfg), DatabaseClosed])
       \<or> store_checked env cfg d \<and> (\<exists>inner. lifecycle evs =
          [DatabaseOpened (cf_db_path cfg), LockTaken (lock_path (cf_db_path cfg))] @ inner @ [LockReleased (lock_path (cf_db_path cfg))]
            @ (if r = Inr () then [] else [DatabaseClosed])
          \<and> ((r = Inl 1 \<and> inner = [])
            \<or> locked_checked env \<and> ((\<exists>n calls threads. r = Inr () \<and> inner = served_life n calls cfg threads \<and> 0 < threads)
               \<or> (\<exists>n calls. r = Inl 1 \<and> inner = unbound_life n calls))))))"
proof (cases "database_open (se_create_directories env) (se_sqlite_open env) (cf_db_path cfg)")
  case (Inl e)
  then show ?thesis using assms by (auto simp: service_mode_def followed_by_check)
next
  case (Inr d)
  from assms Inr obtain evs' where run: "run_with_database waits rounds polls env cfg d = Some (evs', r)"
    and evs: "lifecycle evs = lifecycle evs' @ lifecycle (close_database evs')"
    by (auto simp: service_mode_def followed_by_check leaving_Some)
  from run_with_database_Some[OF run] Inr evs show ?thesis
    by (elim disjE exE conjE) (auto simp: lifecycle_close served_life_def unbound_life_def)
qed

lemma seed_mode_Some:
  assumes "seed_mode env cfg = Some (evs, r)"
  shows "(r = Inl 1 \<or> r = Inr ()) \<and> (lifecycle evs = [] \<or> lifecycle evs = [DatabaseOpened (cf_db_path cfg), DatabaseClosed])"
  using assms
  by (auto simp: seed_mode_def followed_by_check leaving_Some lifecycle_close emit_def split: sum.splits prod.splits)

lemma listening_lifecycle: "Listening host port threads \<in> set evs \<longleftrightarrow> Listening host port threads \<in> set (lifecycle evs)"
  by (rule lifecycle_mem) simp

text \<open>
  C6: the service listens only after everything it relies on has been checked: the database was opened and given its
  structure and an administrator, the lock of the database was free and is taken, the key of the tokens is present and long enough, the kernel
  lets programs be isolated, the working directory is in memory unless this was waived, and the self test ran a program in the sandbox
  and saw it end well; the accepted tasks of an earlier run have been recovered before. It then ends with the exit code 0, and takes
  down what it set up in the opposite order: judging is cancelled before the listener is stopped, the workers are gone before
  the database is closed, and the lock is released last.
\<close>

theorem service_listens_checked:
  assumes "main_run waits rounds polls env = Some (evs, code)" and "Listening host port threads \<in> set evs"
  shows "\<exists>cfg d jwt root allow dir pr n calls.
      parse_args (se_arguments env) default_config = Inr (False, cfg) \<and> \<not> cf_seed cfg \<and> host = cf_host cfg \<and> port = cf_port cfg
    \<and> database_open (se_create_directories env) (se_sqlite_open env) (cf_db_path cfg) = Inr d
    \<and> fst (initialize_schema (se_hash_password env) (read_admin_password (se_admin_password env)) d) = Inr ()
    \<and> lock_path (cf_db_path cfg) \<notin> se_locks_held env
    \<and> load_jwt_config (se_jwt_secret env) (se_jwt_expires env) = Inr jwt \<and> min_jwt_secret_len \<le> length (jc_secret jwt)
    \<and> read_judge_workspace (se_workspace env) (se_allow_non_tmpfs env) = Inr (root, allow)
    \<and> (allow \<or> path_is_tmpfs (se_sandbox_host env) root = Inr ())
    \<and> sandbox_supported (se_sandbox_host env) (se_userns_probe env) = Inr ()
    \<and> local_run (se_executor_host env) False (self_test_request dir) [] (se_probe_launch env) (se_probe_observations env)
        (se_probe_final env) = Some pr \<and> \<not> pr_launch_error pr \<and> pr_exited pr \<and> pr_exit_code pr = 0
    \<and> code = 0 \<and> 0 < threads
    \<and> lifecycle evs = [DatabaseOpened (cf_db_path cfg), LockTaken (lock_path (cf_db_path cfg)), Recovered n calls, Listening host port threads,
        RecoveryAborted, JudgingCancelled, ListenerStopped, SchedulerShutDown, DatabaseClosed, RecoveryAborted, SchedulerShutDown,
        LockReleased (lock_path (cf_db_path cfg))]"
proof -
  from assms(2) have listening: "Listening host port threads \<in> set (lifecycle evs)" by (rule listening_lifecycle[THEN iffD1])
  from assms listening obtain cfg where args: "parse_args (se_arguments env) default_config = Inr (False, cfg)"
    by (auto simp: main_run_def split: sum.splits prod.splits bool.splits)
  have seed: "\<not> cf_seed cfg"
  proof
    assume "cf_seed cfg"
    with assms(1) args obtain r where "seed_mode env cfg = Some (evs, r)" by (auto simp: main_run_def)
    from seed_mode_Some[OF this] listening show False by auto
  qed
  from assms(1) args seed obtain r where run: "service_mode waits rounds polls env cfg = Some (evs, r)"
    and code: "code = (case r of Inl c \<Rightarrow> c | Inr _ \<Rightarrow> 0)"
    by (auto simp: main_run_def)
  from service_mode_Some[OF run] listening obtain d n calls threads' where
    d: "database_open (se_create_directories env) (se_sqlite_open env) (cf_db_path cfg) = Inr d" and store: "store_checked env cfg d"
    and locked: "locked_checked env" and r: "r = Inr ()" and pos: "0 < threads'"
    and life: "lifecycle evs = [DatabaseOpened (cf_db_path cfg), LockTaken (lock_path (cf_db_path cfg))] @ served_life n calls cfg threads'
      @ [LockReleased (lock_path (cf_db_path cfg))]"
    by (elim disjE exE conjE) (auto simp: unbound_life_def)
  from listening life have t: "threads = threads'" "host = cf_host cfg" "port = cf_port cfg" by (auto simp: served_life_def)
  from locked obtain jwt oc where jwt: "load_jwt_config (se_jwt_secret env) (se_jwt_expires env) = Inr jwt" and judging: "judging_checked env oc"
    unfolding locked_checked_def by blast
  have long: "min_jwt_secret_len \<le> length (jc_secret jwt)"
    using jwt by (auto simp: load_jwt_config_def split: option.splits if_splits)
  from judging obtain allow where allow: "read_judge_workspace (se_workspace env) (se_allow_non_tmpfs env) = Inr (jo_workspace_root (fst oc), allow)"
    "allow \<or> path_is_tmpfs (se_sandbox_host env) (jo_workspace_root (fst oc)) = Inr ()"
    and supported: "sandbox_supported (se_sandbox_host env) (se_userns_probe env) = Inr ()"
    and probe: "probe_sandbox env (jo_workspace_root (fst oc)) = Some (Inr ())"
    unfolding judging_checked_def by blast
  from probe_sandbox_passed[OF probe] obtain dir pr where pr: "local_run (se_executor_host env) False (self_test_request dir) []
      (se_probe_launch env) (se_probe_observations env) (se_probe_final env) = Some pr" "\<not> pr_launch_error pr" "pr_exited pr" "pr_exit_code pr = 0"
    by blast
  have code0: "code = 0" using code r by simp
  have store': "fst (initialize_schema (se_hash_password env) (read_admin_password (se_admin_password env)) d) = Inr ()"
    "lock_path (cf_db_path cfg) \<notin> se_locks_held env"
    using store unfolding store_checked_def by blast+
  have pos': "0 < threads" unfolding t(1) by (rule pos)
  note life' = life[unfolded served_life_def append.simps, folded t]
  show ?thesis
    by (rule exI[of _ cfg], rule exI[of _ d], rule exI[of _ jwt], rule exI[of _ "jo_workspace_root (fst oc)"], rule exI[of _ allow],
        rule exI[of _ dir], rule exI[of _ pr], rule exI[of _ n], rule exI[of _ calls], intro conjI)
      (rule args seed t(2) t(3) d store' jwt long allow supported pr code0 pos' life')+
qed

text \<open>A machine on which the service starts.\<close>

definition demo_startup :: "string startup_env" where
  "demo_startup = \<lparr>se_arguments = [''--port'', ''81''], se_program = ''oj_server'', se_create_directories = (\<lambda>p. None),
     se_sqlite_open = (\<lambda>p. Inr fresh_db), se_admin_password = Some ''secret'', se_hash_password = (\<lambda>pw. Inr ''hash''),
     se_lock_open = (\<lambda>p. None), se_flock = None, se_locks_held = {}, se_strerror = (\<lambda>e. []),
     se_jwt_secret = Some (replicate 32 CHR ''k''), se_jwt_expires = None, se_queue_capacity = None, se_workspace = None,
     se_allow_non_tmpfs = Some ''1'', se_compile_concurrency = None,
     se_sandbox_host = \<lparr>sh_sysctl = (\<lambda>p. None), sh_canonical = Some, sh_exists = (\<lambda>p. True), sh_mounts = None,
       sh_statvfs = (\<lambda>p. None), sh_strerror = (\<lambda>e. [])\<rparr>,
     se_userns_probe = \<lparr>up_fork = None, up_wait = Inr (OJ_Sandbox.WExited 0)\<rparr>,
     se_workspace_calls = \<lparr>wc_temp_directory = ''/t'', wc_make_base = (\<lambda>p. None), wc_mkdtemp = Inr, wc_strerror = (\<lambda>e. [])\<rparr>,
     se_executor_host = demo_executor_host, se_probe_launch = demo_launch, se_probe_observations = demo_observations,
     se_probe_final = demo_final, se_cpus = (4, 4), se_owner = ''me'', se_others = (\<lambda>w. (False, w)),
     se_is_directory = (\<lambda>p. True), se_set_mount_point = (\<lambda>p. True), se_bind = (\<lambda>h p. True),
     se_signals = (\<lambda>i. if i = 3 then 15 else 0), se_stop_counts = (5, 0, 0)\<rparr>"

definition is_listening :: "main_event \<Rightarrow> bool" where
  "is_listening e = (case e of Listening h p t \<Rightarrow> True | _ \<Rightarrow> False)"

lemma demo_probe: "probe_sandbox demo_startup root = Some (Inr ())"
proof -
  let ?dir = "join_name (if root = [] then ''/t'' else root) ''oj_judge_XXXXXX''"
  let ?req = "run_spawn (self_test_request ?dir) []"
  let ?cfg = "supervise_config_of ?req 0"
  have "\<exists>st. supervise ?cfg demo_observations (supervise_start ?cfg 0) = Some st
      \<and> final_status demo_final st = Some (OJ_Sandbox.WExited 0) \<and> \<not> stopped_by_service st"
    by (simp add: supervise_config_of_def run_spawn_def self_test_request_def demo_observations_def demo_final_def supervise_iter_def
        supervise_steps supervise_start_def ms_def Let_def append_bounded_def final_status_def stopped_by_service_def note_peak_def)
  then obtain st where st: "supervise ?cfg demo_observations (supervise_start ?cfg 0) = Some st"
    "final_status demo_final st = Some (OJ_Sandbox.WExited 0)" "\<not> stopped_by_service st" by blast
  obtain prog where "build_seccomp_program demo_headers PhaseRun = Inr prog" using build_seccomp_program_exists by blast
  then have "\<exists>plan. spawn_prepare demo_executor_host False ?req = Inr plan"
    by (simp add: spawn_prepare_def run_spawn_def run_argv_def self_test_request_def path_join_def find_program_def
        demo_executor_host_def Let_def)
  then obtain plan where plan: "spawn_prepare demo_executor_host False ?req = Inr plan" by blast
  have run: "local_run demo_executor_host False (self_test_request ?dir) [] demo_launch demo_observations demo_final
      = Some (finish_supervision ?cfg demo_final st)"
    using plan st(1) by (simp add: local_run_def spawn_def demo_launch_def Let_def)
  have "ws_create (se_workspace_calls demo_startup) root = Inr \<lparr>ws_path = ?dir, ws_base = if root = [] then ''/t'' else root\<rparr>"
    by (simp add: ws_create_def demo_startup_def Let_def)
  moreover have "se_executor_host demo_startup = demo_executor_host" "se_probe_launch demo_startup = demo_launch"
    "se_probe_observations demo_startup = demo_observations" "se_probe_final demo_startup = demo_final"
    by (simp_all add: demo_startup_def)
  ultimately show ?thesis
    using st(2,3) by (simp add: probe_sandbox_def run sandbox_self_test_def finish_supervision_def Let_def stopped_by_service_def)
qed

lemma demo_arguments: "parse_args (se_arguments demo_startup) default_config = Inr (False, default_config\<lparr>cf_port := 81\<rparr>)"
  by code_simp

lemma demo_database: "database_open (se_create_directories demo_startup) (se_sqlite_open demo_startup) ''data/oj.db'' = Inr fresh_db"
  by code_simp

lemma demo_schema: "fst (initialize_schema (se_hash_password demo_startup) (read_admin_password (se_admin_password demo_startup)) fresh_db) = Inr ()"
  by code_simp

lemma demo_lock: "fst (instance_lock_acquire (se_lock_open demo_startup) (se_flock demo_startup) (se_strerror demo_startup) ''data/oj.db''
    (se_locks_held demo_startup)) = Inr ''data/oj.db.lock''"
  by code_simp

lemma demo_settings:
  "case load_jwt_config (se_jwt_secret demo_startup) (se_jwt_expires demo_startup) of Inr j \<Rightarrow> True | Inl e \<Rightarrow> False"
  "read_judge_queue_capacity (se_queue_capacity demo_startup) = Inr 32"
  "case read_judge_workspace (se_workspace demo_startup) (se_allow_non_tmpfs demo_startup) of Inr (root, waived) \<Rightarrow> waived | Inl e \<Rightarrow> False"
  "read_judge_compile_concurrency (se_compile_concurrency demo_startup) = Inr 2"
  "sandbox_supported (se_sandbox_host demo_startup) (se_userns_probe demo_startup) = Inr ()"
  by code_simp+

lemma demo_recovery:
  "case recovery_run (se_others demo_startup) 1 2 (se_owner demo_startup) default_recovery_options
      \<lparr>rw_db = snd (initialize_schema (se_hash_password demo_startup) (read_admin_password (se_admin_password demo_startup)) fresh_db),
       rw_manager = manager_new 32 4, rw_rest = ()\<rparr> of Some (n, calls, w) \<Rightarrow> True | None \<Rightarrow> False"
  by code_simp

lemma demo_signal: "await_signal (se_signals demo_startup) 4 0 = Some 15"
  by code_simp

lemma demo_main:
  "\<exists>evs threads. main_run 1 2 4 demo_startup = Some (evs, 0) \<and> Listening ''0.0.0.0'' 81 threads \<in> set evs"
proof -
  let ?env = "demo_startup" and ?cfg = "default_config\<lparr>cf_port := 81\<rparr>"
  obtain jwt where jwt: "load_jwt_config (se_jwt_secret ?env) (se_jwt_expires ?env) = Inr jwt"
    using demo_settings(1) by (auto split: sum.splits)
  obtain root where root: "read_judge_workspace (se_workspace ?env) (se_allow_non_tmpfs ?env) = Inr (root, True)"
    using demo_settings(3) by (auto split: sum.splits)
  have judging: "\<exists>evs oc. check_judging ?env = Some (evs, Inr oc)"
    using root demo_settings(4,5) demo_probe[of root] by (simp add: check_judging_def followed_by_check go_on_def)
  then obtain e1 options concurrency where judging: "check_judging ?env = Some (e1, Inr (options, concurrency))" by auto
  obtain d where d: "initialize_schema (se_hash_password ?env) (read_admin_password (se_admin_password ?env)) fresh_db = (Inr (), d)"
    using demo_schema by (metis prod.collapse)
  let ?srv = "http_server_new (se_cpus ?env) (cf_host ?cfg) (cf_port ?cfg) options (cf_web_root ?cfg) 32 :: string http_server"
  have "hs_manager ?srv = manager_new 32 4"
    by (simp add: http_server_new_def demo_startup_def compute_worker_count_def detect_cpu_count_def)
  then obtain n calls w where rec: "recovery_run (se_others ?env) 1 2 (se_owner ?env) default_recovery_options
      \<lparr>rw_db = d, rw_manager = hs_manager ?srv, rw_rest = ()\<rparr> = Some (n, calls, w)"
    using demo_recovery d by (auto split: option.splits)
  have bind: "se_bind ?env host port" for host port by (simp add: demo_startup_def)
  have cfg: "cf_host ?cfg = ''0.0.0.0''" "cf_port ?cfg = 81" "cf_db_path ?cfg = ''data/oj.db''" "\<not> cf_seed ?cfg"
    by (simp_all add: default_config_def)
  have "\<exists>evs. serve_until_signal 1 2 4 ?env ?cfg d ?srv = Some (evs, Inr ())"
    using rec bind demo_signal by (simp add: serve_until_signal_def server_start_def Let_def split_beta)
  then obtain e2 where serve: "serve_until_signal 1 2 4 ?env ?cfg d ?srv = Some (e2, Inr ())" by blast
  have "hs_host ?srv = cf_host ?cfg" "hs_port ?srv = cf_port ?cfg" "\<not> hs_running ?srv" by (simp_all add: http_server_new_def)
  from serve_until_signal_Some[OF serve this] obtain n' calls' threads where "lifecycle e2 = served_life n' calls' ?cfg threads" by blast
  then have "Listening ''0.0.0.0'' 81 threads \<in> set (lifecycle e2)" unfolding served_life_def cfg(1,2) by simp
  then have listening: "Listening ''0.0.0.0'' 81 threads \<in> set e2" by (rule listening_lifecycle[THEN iffD2])
  have "\<exists>evs. service_mode 1 2 4 ?env ?cfg = Some (evs, Inr ()) \<and> Listening ''0.0.0.0'' 81 threads \<in> set evs"
    using serve listening judging jwt d demo_settings(2) demo_lock demo_database cfg(3)
    by (simp add: service_mode_def run_with_database_def run_locked_def followed_by_check leaving_def)
  then show ?thesis
    using demo_arguments cfg(4) by (auto simp: main_run_def)
qed

theorem service_listens_checked_witness:
  "\<exists>evs n calls threads. main_run 1 2 4 demo_startup = Some (evs, 0)
     \<and> lifecycle evs = [DatabaseOpened ''data/oj.db'', LockTaken ''data/oj.db.lock'', Recovered n calls, Listening ''0.0.0.0'' 81 threads,
        RecoveryAborted, JudgingCancelled, ListenerStopped, SchedulerShutDown, DatabaseClosed, RecoveryAborted, SchedulerShutDown,
        LockReleased ''data/oj.db.lock'']"
proof -
  obtain evs threads where run: "main_run 1 2 4 demo_startup = Some (evs, 0)" "Listening ''0.0.0.0'' 81 threads \<in> set evs"
    using demo_main by blast
  from service_listens_checked[OF run] obtain cfg n calls where
    cfg: "parse_args (se_arguments demo_startup) default_config = Inr (False, cfg)"
    and life: "lifecycle evs = [DatabaseOpened (cf_db_path cfg), LockTaken (lock_path (cf_db_path cfg)), Recovered n calls,
      Listening ''0.0.0.0'' 81 threads, RecoveryAborted, JudgingCancelled, ListenerStopped, SchedulerShutDown, DatabaseClosed, RecoveryAborted,
      SchedulerShutDown, LockReleased (lock_path (cf_db_path cfg))]"
    by blast
  have "cf_db_path cfg = ''data/oj.db''" using cfg demo_arguments by (simp add: default_config_def)
  then have "lock_path (cf_db_path cfg) = ''data/oj.db.lock''" by (simp add: lock_path_def)
  with run(1) life \<open>cf_db_path cfg = ''data/oj.db''\<close> show ?thesis by metis
qed

text \<open>The lives of all runs.\<close>

lemma main_lives:
  assumes "main_run waits rounds polls env = Some (evs, code)"
  shows "(\<exists>e. parse_args (se_arguments env) default_config = Inl e) \<and> code = 2 \<and> lifecycle evs = []
    \<or> (\<exists>usage cfg. parse_args (se_arguments env) default_config = Inr (usage, cfg)
        \<and> (code \<in> {0, 1} \<and> lifecycle evs \<in> {[], [DatabaseOpened (cf_db_path cfg), DatabaseClosed]}
          \<or> \<not> usage \<and> (\<exists>inner. lifecycle evs = [DatabaseOpened (cf_db_path cfg), LockTaken (lock_path (cf_db_path cfg))] @ inner
                @ [LockReleased (lock_path (cf_db_path cfg))] @ (if code = 0 then [] else [DatabaseClosed])
              \<and> (code = 1 \<and> (inner = [] \<or> (\<exists>n calls. inner = unbound_life n calls))
                \<or> code = 0 \<and> (\<exists>n calls threads. inner = served_life n calls cfg threads)))))"
proof (cases "parse_args (se_arguments env) default_config")
  case (Inl e)
  then show ?thesis using assms by (auto simp: main_run_def)
next
  case (Inr hc)
  obtain usage cfg where hc: "hc = (usage, cfg)" by force
  show ?thesis
  proof (cases "usage \<or> cf_seed cfg")
    case True
    then have "code \<in> {0, 1} \<and> lifecycle evs \<in> {[], [DatabaseOpened (cf_db_path cfg), DatabaseClosed]}"
      using assms Inr hc seed_mode_Some[of env cfg] by (cases usage) (fastforce simp: main_run_def)+
    with Inr hc show ?thesis by blast
  next
    case False
    with assms Inr hc obtain r where run: "service_mode waits rounds polls env cfg = Some (evs, r)"
      and code: "code = (case r of Inl c \<Rightarrow> c | Inr _ \<Rightarrow> 0)"
      by (auto simp: main_run_def)
    from service_mode_Some[OF run] show ?thesis
      unfolding Inr hc using False code by (elim disjE exE conjE) auto
  qed
qed

text \<open>
  C34: every run that ends has one of three exit codes: 2 exactly for arguments that were refused, 1 for a start that failed, 0
  otherwise; with a code other than 0 nothing was ever served. What was opened is closed and what was locked is released,
  exactly once and on every path, and judging is never started without the lock.
\<close>

theorem main_outcome:
  assumes "main_run waits rounds polls env = Some (evs, code)"
  shows "code \<in> {0, 1, 2} \<and> (code = 2 \<longleftrightarrow> (\<exists>e. parse_args (se_arguments env) default_config = Inl e))
    \<and> (code \<noteq> 0 \<longrightarrow> (\<forall>h p t. Listening h p t \<notin> set evs))
    \<and> count_list evs DatabaseClosed = length (filter (\<lambda>e. \<exists>p. e = DatabaseOpened p) evs)
    \<and> count_list evs (LockReleased l) = count_list evs (LockTaken l) \<and> count_list evs (LockTaken l) \<le> 1
    \<and> (\<forall>n calls. Recovered n calls \<in> set evs \<longrightarrow> (\<exists>cfg. LockTaken (lock_path (cf_db_path cfg)) \<in> set evs
         \<and> parse_args (se_arguments env) default_config = Inr (False, cfg)))"
proof -
  have count: "count_list evs e = count_list (lifecycle evs) e" if "milestone e" for e
    using that unfolding lifecycle_def by (induction evs) auto
  have opened: "filter (\<lambda>e. \<exists>p. e = DatabaseOpened p) evs = filter (\<lambda>e. \<exists>p. e = DatabaseOpened p) (lifecycle evs)"
    unfolding lifecycle_def filter_filter by (intro filter_cong) auto
  have mem: "e \<in> set evs \<longleftrightarrow> e \<in> set (lifecycle evs)" if "milestone e" for e using that by (rule lifecycle_mem)
  note projections = count[of DatabaseClosed, simplified] count[of "LockReleased l", simplified] count[of "LockTaken l", simplified] opened
    mem[of "Listening h p t" for h p t, simplified] mem[of "Recovered n calls" for n calls, simplified] mem[of "LockTaken l'" for l', simplified]
  from main_lives[OF assms] show ?thesis
    unfolding projections by (elim disjE exE conjE) (auto simp: served_life_def unbound_life_def)
qed

theorem main_outcome_witness:
  "\<exists>evs. main_run 1 2 4 demo_startup = Some (evs, 0) \<and> count_list evs (LockReleased ''data/oj.db.lock'') = count_list evs (LockTaken ''data/oj.db.lock'')"
proof -
  obtain evs where run: "main_run 1 2 4 demo_startup = Some (evs, 0)" using demo_main by blast
  from main_outcome[OF this] run show ?thesis by blast
qed

text \<open>The bounds on the loops are the only reason for a run without an end: it ends if the test and the recovery do and a signal comes.\<close>

lemma await_signal_ends: "j < polls \<Longrightarrow> signals (i + j) \<noteq> 0 \<Longrightarrow> await_signal signals polls i \<noteq> None"
proof (induction polls arbitrary: i j)
  case (Suc polls)
  show ?case
  proof (cases "signals i = 0")
    case True
    with Suc.prems obtain j' where "j = Suc j'" by (cases j) auto
    with Suc.prems Suc.IH[of j' "Suc i"] True show ?thesis by simp
  qed simp
qed simp

lemma followed_by_ends: "m \<noteq> None \<Longrightarrow> (\<And>x. f x \<noteq> None) \<Longrightarrow> followed_by m f \<noteq> None"
  by (cases "(m, f)" rule: followed_by.cases) auto

lemma check_ends [simp]: "check_or_exit report r \<noteq> None"
  by (simp add: check_or_exit_def go_on_def split: sum.splits)

lemma leaving_ends: "m \<noteq> None \<Longrightarrow> leaving final m \<noteq> None"
  by (simp add: leaving_def)

lemma check_judging_ends: "\<forall>root. probe_sandbox env root \<noteq> None \<Longrightarrow> check_judging env \<noteq> None"
  by (simp add: check_judging_def followed_by_check go_on_def del: not_None_eq split: sum.splits prod.splits option.splits)

lemma main_ends:
  assumes "\<And>root. probe_sandbox env root \<noteq> None"
    and "\<And>d m. recovery_run (se_others env) waits rounds (se_owner env) default_recovery_options
      \<lparr>rw_db = d, rw_manager = m, rw_rest = ()\<rparr> \<noteq> None"
    and "i < polls" and "se_signals env i \<noteq> 0"
  shows "main_run waits rounds polls env \<noteq> None"
proof -
  have wait: "await_signal (se_signals env) polls 0 \<noteq> None" using await_signal_ends[of i polls "se_signals env" 0] assms(3,4) by simp
  have serve: "serve_until_signal waits rounds polls env cfg d srv \<noteq> None" for cfg d srv
    using assms(2)[of d "hs_manager srv"] wait by (auto simp: serve_until_signal_def Let_def split_beta split: option.splits sum.splits)
  have locked: "run_locked waits rounds polls env cfg d \<noteq> None" for cfg d
    unfolding run_locked_def
    by (intro followed_by_ends check_ends check_judging_ends allI assms(1)) (auto simp: emit_def serve simp del: not_None_eq split: prod.splits)
  have store: "run_with_database waits rounds polls env cfg d \<noteq> None" for cfg d
    using locked by (auto simp: run_with_database_def followed_by_check leaving_def simp del: not_None_eq split: prod.splits sum.splits)
  have service: "service_mode waits rounds polls env cfg \<noteq> None" for cfg
    using store by (auto simp: service_mode_def followed_by_check leaving_def simp del: not_None_eq split: sum.splits)
  have seed: "seed_mode env cfg \<noteq> None" for cfg
    by (auto simp: seed_mode_def followed_by_check leaving_def emit_def simp del: not_None_eq split: sum.splits prod.splits)
  show ?thesis using service seed by (auto simp: main_run_def simp del: not_None_eq split: sum.splits bool.splits)
qed

section \<open>What is served as web pages\<close>

text \<open>
  A normal path has no empty component and no dot, and a double dot only at the front of a relative path: below an absolute directory it
  does not leave it.
\<close>

lemma normal_parts_shape:
  "normal_parts absolute acc cs = parts \<Longrightarrow> \<exists>k names. acc = replicate k ''..'' @ names \<and> (absolute \<longrightarrow> k = 0)
      \<and> set names \<inter> {[], ''.'', ''..''} = {}
    \<Longrightarrow> \<exists>k names. parts = replicate k ''..'' @ names \<and> (absolute \<longrightarrow> k = 0) \<and> set names \<inter> {[], ''.'', ''..''} = {}"
proof (induction absolute acc cs arbitrary: parts rule: normal_parts.induct)
  case (1 absolute acc)
  then show ?case by simp
next
  case (2 absolute acc c cs)
  from "2.prems"(2) obtain k names where acc: "acc = replicate k ''..'' @ names" "absolute \<longrightarrow> k = 0"
    "set names \<inter> {[], ''.'', ''..''} = {}" by blast
  consider "c = [] \<or> c = ''.''" | "c = ''..''" "acc \<noteq> [] \<and> last acc \<noteq> ''..''" | "c = ''..''" "\<not> (acc \<noteq> [] \<and> last acc \<noteq> ''..'')" absolute
    | "c = ''..''" "\<not> (acc \<noteq> [] \<and> last acc \<noteq> ''..'')" "\<not> absolute" | "c \<notin> {[], ''.'', ''..''}" by blast
  then show ?case
  proof cases
    case 1
    with 2 show ?thesis by simp
  next
    case c: 2
    have "names \<noteq> []" using c(2) acc(1) by (cases "k = 0") auto
    then have "butlast acc = replicate k ''..'' @ butlast names" using acc(1) by (simp add: butlast_append)
    moreover have "set (butlast names) \<inter> {[], ''.'', ''..''} = {}" using acc(3) in_set_butlastD[of _ names] by blast
    ultimately show ?thesis using "2.IH"(2)[of parts] "2.prems"(1) c acc(2) by auto
  next
    case 3
    with "2.IH"(3)[of parts] "2.prems" show ?thesis by simp
  next
    case c: 4
    have "names = []"
    proof (rule ccontr)
      assume ne: "names \<noteq> []"
      then have "last names = ''..''" using c(2) acc(1) by simp
      with last_in_set[OF ne] acc(3) show False by auto
    qed
    then have "acc @ [c] = replicate (Suc k) ''..'' @ []" using acc(1) c(1) by (simp add: replicate_append_same)
    then have shape: "\<exists>k names. acc @ [c] = replicate k ''..'' @ names \<and> (absolute \<longrightarrow> k = 0) \<and> set names \<inter> {[], ''.'', ''..''} = {}"
      using c(3) by (intro exI[of _ "Suc k"] exI[of _ "[]"]) simp
    have "normal_parts absolute (acc @ [c]) cs = parts" using "2.prems"(1) c by simp
    from "2.IH"(4)[OF _ c this shape] c(1) show ?thesis by simp
  next
    case c: 5
    have "acc @ [c] = replicate k ''..'' @ (names @ [c])" "set (names @ [c]) \<inter> {[], ''.'', ''..''} = {}" using acc c by auto
    then have shape: "\<exists>k names. acc @ [c] = replicate k ''..'' @ names \<and> (absolute \<longrightarrow> k = 0) \<and> set names \<inter> {[], ''.'', ''..''} = {}"
      using acc(2) by blast
    have "normal_parts absolute (acc @ [c]) cs = parts" using "2.prems"(1) c by simp
    from "2.IH"(5)[OF _ _ this shape] c show ?thesis by simp
  qed
qed

text \<open>
  What is mounted is a directory and neither the current one nor the root under any spelling; but the directory above the current one
  is let through, and with it the whole project.
\<close>

theorem mounted_directory:
  "Mounted d \<in> set (mount_static is_dir set_mount root) \<Longrightarrow>
     d = lexically_normal root \<and> d \<noteq> ''.'' \<and> d \<noteq> ''/'' \<and> d \<noteq> [] \<and> is_dir d \<and> set_mount d"
  by (auto simp: mount_static_def Let_def split: if_splits)

theorem parent_directory_mounted:
  "Mounted ''..'' \<in> set (mount_static (\<lambda>d. True) (\<lambda>d. True) ''web/../..'')"
  by (simp add: mount_static_def lexically_normal_def Let_def)

end
